(* ===== verification/Prelude.thy ===== *)
theory Prelude
  imports Main "HOL-Library.Word"
begin

text \<open>
  What every component of the development shares: the names of the machine integer types
  the sources use, little-endian byte access, the collections the components put their
  rewrite rules in, and the generic lemmas on words and lists.
\<close>

unbundle bit_operations_syntax

section \<open>Machine integers\<close>

type_synonym u8 = "8 word"
type_synonym u16 = "16 word"
type_synonym u32 = "32 word"
type_synonym u64 = "64 word"

text \<open>
  \<open>sxt\<close> is the C++ conversion from a signed integer type to another integer type (sign
  extension), \<open>zxt\<close> the conversion from an unsigned one (zero extension). Both truncate
  when the target is narrower, as a cast does.
\<close>

abbreviation sxt :: "'a::len word \<Rightarrow> 'b::len word" where
  "sxt \<equiv> signed"

abbreviation zxt :: "'a::len word \<Rightarrow> 'b::len word" where
  "zxt \<equiv> unsigned"

named_theorems layout "bits of an encoded field"

text \<open>
  A word whose signed value fits in \<open>m + 1\<close> bits repeats its sign from bit \<open>m\<close> on.
\<close>

lemma bit_of_small_sint:
  fixes w :: "'a::len word"
  assumes "- (2 ^ m) \<le> sint w" "sint w < 2 ^ m" "m < n" "n < LENGTH('a)"
  shows "bit w n = bit w m"
proof -
  have "signed_take_bit m (sint w) = sint w"
    using assms by (simp add: signed_take_bit_int_eq_self)
  then have "bit (sint w) (min m n) = bit (sint w) n"
    by (metis bit_signed_take_bit_iff possible_bit_int)
  then show ?thesis
    using assms(3,4) by (simp add: bit_sint_iff min_def not_less less_Suc_eq_le)
qed

lemma unat_u64_less [simp]: "unat (w :: u64) < 2 ^ 64"
  using unsigned_less [of w] by simp

lemma unat_of_nat_u64: "n < 2 ^ 64 \<Longrightarrow> unat (of_nat n :: u64) = n"
  by (simp add: unat_of_nat)

lemma unat_minus_nat:
  assumes "r \<le> unat (c :: u64)"
  shows "unat (c - of_nat r) = unat c - r"
proof -
  have "unat (of_nat r :: u64) = r"
    using assms unat_u64_less [of c] by (intro unat_of_nat_u64) (rule order.strict_trans1)
  with assms show ?thesis by (simp add: unat_sub word_le_nat_alt)
qed

lemma unat_plus_nat:
  assumes "unat (c :: u64) + r < 2 ^ 64"
  shows "unat (c + of_nat r) = unat c + r"
proof -
  have "unat (of_nat r :: u64) = r" using assms by (intro unat_of_nat_u64) simp
  with assms show ?thesis by (simp add: unat_plus_if_size word_size)
qed

section \<open>Little-endian bytes\<close>

text \<open>
  \<open>le_bytes n w\<close> are the bytes a store of the low \<open>n\<close> bytes of \<open>w\<close> writes,
  \<open>le_word bs\<close> the value a load of the bytes \<open>bs\<close> returns.
\<close>

definition le_bytes :: "nat \<Rightarrow> 'a::len word \<Rightarrow> u8 list" where
  "le_bytes n w = map (\<lambda>i. zxt (drop_bit (8 * i) w)) [0..<n]"

fun le_word :: "u8 list \<Rightarrow> 'a::len word" where
  "le_word [] = 0"
| "le_word (b # bs) = zxt b OR push_bit 8 (le_word bs)"

lemma length_le_bytes [simp]: "length (le_bytes n w) = n"
  by (simp add: le_bytes_def)

lemma bit_le_word:
  "bit (le_word bs :: 'a::len word) n \<longleftrightarrow>
     n < LENGTH('a) \<and> n div 8 < length bs \<and> bit (bs ! (n div 8)) (n mod 8)"
proof (induction bs arbitrary: n)
  case Nil
  then show ?case by simp
next
  case (Cons b bs)
  show ?case
  proof (cases "n < 8")
    case True
    then show ?thesis by (auto simp: bit_simps)
  next
    case False
    then obtain m where m: "n = m + 8"
      by (metis add.commute le_Suc_ex not_less)
    have "(m + 8) div 8 = Suc (m div 8)" "\<not> bit b (m + 8)"
      by (simp_all add: impossible_bit)
    with m show ?thesis
      using Cons [of m] by (auto simp: bit_simps)
  qed
qed

lemma bit_nth_le_bytes:
  "i < n \<Longrightarrow> bit (le_bytes n w ! i) k \<longleftrightarrow> k < 8 \<and> bit w (8 * i + k)"
  by (auto simp: le_bytes_def bit_simps add.commute)

lemma le_word_le_bytes [simp]:
  "le_word (le_bytes n w) = take_bit (8 * n) w" for w :: "'a::len word"
proof (rule bit_word_eqI)
  fix k
  assume "k < LENGTH('a)"
  have "k div 8 < n \<longleftrightarrow> k < 8 * n"
    by (simp add: div_less_iff_less_mult mult.commute)
  moreover have "8 * (k div 8) + k mod 8 = k"
    by simp
  ultimately show "bit (le_word (le_bytes n w) :: 'a word) k = bit (take_bit (8 * n) w) k"
    using \<open>k < LENGTH('a)\<close>
    by (auto simp: bit_le_word bit_nth_le_bytes bit_take_bit_iff)
qed

section \<open>Alignment\<close>

text \<open>The helpers of \<open>FEXCore/Utils/MathUtils.h\<close>.\<close>

definition AlignUp :: "u64 \<Rightarrow> u64 \<Rightarrow> u64" where
  "AlignUp val sz = val + (sz - val mod sz) mod sz"

definition AlignDown :: "u64 \<Rightarrow> u64 \<Rightarrow> u64" where
  "AlignDown val sz = val - val mod sz"

text \<open>The page size of the guest (\<open>FEXCore/Utils/TypeDefines.h\<close>).\<close>

abbreviation (input) FEX_PAGE_SIZE :: u64 where "FEX_PAGE_SIZE \<equiv> 4096"
definition FEX_PAGE_MASK :: u64 where "FEX_PAGE_MASK = NOT (FEX_PAGE_SIZE - 1)"

end
