(* ===== verification/VarInt.thy ===== *)
theory VarInt
  imports Prelude
begin

text \<open>
  The variable length integers of \<open>FEXCore/Source/Utils/variable_length_integer.h\<close>:
  \<open>vl64\<close> (one signed 64-bit value in 1, 2, 5 or 9 bytes) and \<open>vl64pair\<close> (a pair of
  offsets in 1, 2, 9 or 17 bytes). A buffer is the list of the bytes from the pointer on;
  a load or store past its end is the result \<open>None\<close>. Bit fields are laid out from the
  least significant bit, multi-byte fields little-endian, as on the supported targets.
\<close>

section \<open>Buffers\<close>

definition store_at :: "u8 list \<Rightarrow> u8 list \<Rightarrow> (u8 list \<times> nat) option" where
  "store_at dst bs =
     (if length bs \<le> length dst then Some (bs @ drop (length bs) dst, length bs) else None)"

definition int64_min :: int where "int64_min = - (2 ^ 63)"
definition int64_max :: int where "int64_max = 2 ^ 63 - 1"
definition int32_min :: int where "int32_min = - (2 ^ 31)"
definition int32_max :: int where "int32_max = 2 ^ 31 - 1"

section \<open>vl64: one signed integer\<close>

definition vl8_encoded_bits :: nat where "vl8_encoded_bits = 7"
definition vl8_type_header :: u8 where "vl8_type_header = 0"
definition vl8_min :: int where "vl8_min = drop_bit (64 - vl8_encoded_bits) int64_min"
definition vl8_max :: int where "vl8_max = drop_bit (64 - vl8_encoded_bits) int64_max"

definition vl16_encoded_bits :: nat where "vl16_encoded_bits = 14"
definition vl16_type_header :: u8 where "vl16_type_header = 2"
definition vl16_min :: int where "vl16_min = drop_bit (64 - vl16_encoded_bits) int64_min"
definition vl16_max :: int where "vl16_max = drop_bit (64 - vl16_encoded_bits) int64_max"

definition vl32_type_header :: u8 where "vl32_type_header = 0xC0"
definition vl32_min :: int where "vl32_min = int32_min"
definition vl32_max :: int where "vl32_max = int32_max"

definition vl64_type_header :: u8 where "vl64_type_header = 0xE0"

definition vl64_EncodedSize :: "u64 \<Rightarrow> nat" where
  "vl64_EncodedSize Data =
     (if sint Data \<ge> vl8_min \<and> sint Data \<le> vl8_max then 1
      else if sint Data \<ge> vl16_min \<and> sint Data \<le> vl16_max then 2
      else if sint Data \<ge> vl32_min \<and> sint Data \<le> vl32_max then 5
      else 9)"

record vl64_Decoded =
  Integer :: u64
  Size :: nat

text \<open>
  \<open>vl8_enc\<close>: a 7-bit signed field below a 1-bit type. \<open>vl16_enc\<close>: a 6-bit signed field
  below a 2-bit type, then a byte; its member function \<open>Integer\<close> reassembles the value
  in an \<open>int16_t\<close> and shifts it up and down as an \<open>int\<close>.
\<close>

definition vl8_Integer :: "u8 \<Rightarrow> u64" where
  "vl8_Integer b = sxt (signed_take_bit 6 b)"

definition vl8_Type :: "u8 \<Rightarrow> u8" where
  "vl8_Type b = drop_bit 7 b"

definition vl8_pack :: "u8 \<Rightarrow> u8 \<Rightarrow> u8" where
  "vl8_pack i ty = take_bit 7 i OR push_bit 7 ty"

definition vl16_Type :: "u8 \<Rightarrow> u8" where
  "vl16_Type b = drop_bit 6 b"

definition vl16_pack :: "u8 \<Rightarrow> u8 \<Rightarrow> u8" where
  "vl16_pack hi ty = take_bit 6 hi OR push_bit 6 ty"

definition vl16_Integer :: "u8 \<Rightarrow> u8 \<Rightarrow> u64" where
  "vl16_Integer HighBits LowBits =
     (let Top = sxt (signed_take_bit 5 HighBits) :: u32;
          Value = zxt (push_bit 8 Top) :: u16;
          Value = zxt ((sxt Value :: u32) OR zxt LowBits) :: u16
      in sxt (signed_drop_bit 2 (push_bit 2 (sxt Value :: u32))))"

definition vl64_Decode :: "u8 list \<Rightarrow> vl64_Decoded option" where
  "vl64_Decode data =
     (case data of
        [] \<Rightarrow> None
      | b # rest \<Rightarrow>
          if vl8_Type b = vl8_type_header then
            Some \<lparr>Integer = vl8_Integer b, Size = 1\<rparr>
          else if vl16_Type b = vl16_type_header then
            (if length rest < 1 then None
             else Some \<lparr>Integer = vl16_Integer b (rest ! 0), Size = 2\<rparr>)
          else if b = vl32_type_header then
            (if length rest < 4 then None
             else Some \<lparr>Integer = sxt (le_word (take 4 rest) :: u32), Size = 5\<rparr>)
          else
            (if length rest < 8 then None
             else Some \<lparr>Integer = le_word (take 8 rest), Size = 9\<rparr>))"

definition vl64_Encode :: "u8 list \<Rightarrow> u64 \<Rightarrow> (u8 list \<times> nat) option" where
  "vl64_Encode dst Data =
     (if sint Data \<ge> vl8_min \<and> sint Data \<le> vl8_max then
        store_at dst [vl8_pack (zxt Data) vl8_type_header]
      else if sint Data \<ge> vl16_min \<and> sint Data \<le> vl16_max then
        store_at dst
          [vl16_pack (zxt (signed_drop_bit 8 Data AND 0xFF)) vl16_type_header,
           zxt (Data AND 0xFF)]
      else if sint Data \<ge> vl32_min \<and> sint Data \<le> vl32_max then
        store_at dst (vl32_type_header # le_bytes 4 (zxt Data :: u32))
      else
        store_at dst (vl64_type_header # le_bytes 8 Data))"

section \<open>vl64pair: a host and a guest offset\<close>

definition vl8_arm_min :: int where "vl8_arm_min = 1"
definition vl8_arm_max :: int where "vl8_arm_max = 16"
definition vl8_arm_align_bits :: nat where "vl8_arm_align_bits = 2"
definition vl8_arm_shift_mask :: u64 where
  "vl8_arm_shift_mask = push_bit vl8_arm_align_bits 1 - 1"
definition vl8_pc_min :: u64 where "vl8_pc_min = 1"
definition vl8_pc_max :: u64 where "vl8_pc_max = 8"

text \<open>The first comparison of the source is unsigned, since \<open>data_rip\<close> is.\<close>

definition can_encode_vl8 :: "u64 \<Rightarrow> u64 \<Rightarrow> bool" where
  "can_encode_vl8 data_arm data_rip =
     (if data_rip < vl8_pc_min \<or> data_rip > vl8_pc_max then False
      else if data_arm AND vl8_arm_shift_mask \<noteq> 0 then False
      else
        let ShiftedHostPC = sint (drop_bit vl8_arm_align_bits data_arm) in
        if ShiftedHostPC < vl8_arm_min \<or> ShiftedHostPC > vl8_arm_max then False
        else True)"

definition vl16_arm_min :: int where "vl16_arm_min = -128"
definition vl16_arm_max :: int where "vl16_arm_max = 127"
definition vl16_arm_align_bits :: nat where "vl16_arm_align_bits = 2"
definition vl16_arm_shift_mask :: u64 where
  "vl16_arm_shift_mask = push_bit vl16_arm_align_bits 1 - 1"
definition vl16_pc_min :: int where "vl16_pc_min = -32"
definition vl16_pc_max :: int where "vl16_pc_max = 31"

definition can_encode_vl16 :: "u64 \<Rightarrow> u64 \<Rightarrow> bool" where
  "can_encode_vl16 data_arm data_rip =
     (if sint data_rip < vl16_pc_min \<or> sint data_rip > vl16_pc_max then False
      else if data_arm AND vl16_arm_shift_mask \<noteq> 0 then False
      else
        let ShiftedHostPC = sint (signed_drop_bit vl16_arm_align_bits data_arm) in
        if ShiftedHostPC < vl16_arm_min \<or> ShiftedHostPC > vl16_arm_max then False
        else True)"

definition can_encode_vl32 :: "u64 \<Rightarrow> u64 \<Rightarrow> bool" where
  "can_encode_vl32 data_arm data_rip =
     (if sint data_rip < vl32_min \<or> sint data_rip > vl32_max then False
      else if sint data_arm < vl32_min \<or> sint data_arm > vl32_max then False
      else True)"

definition vl64pair_EncodedSize :: "u64 \<Rightarrow> u64 \<Rightarrow> nat" where
  "vl64pair_EncodedSize data_arm data_rip =
     (if can_encode_vl8 data_arm data_rip then 1
      else if can_encode_vl16 data_arm data_rip then 2
      else if can_encode_vl32 data_arm data_rip then 9
      else 17)"

record vl64pair_Decoded =
  IntegerARMPC :: u64
  IntegerX86RIP :: u64
  PairSize :: nat

text \<open>
  The one-byte form: 4 bits of host offset, 3 bits of guest offset, 1 bit of type. The
  two-byte form: 6 signed bits of guest offset below a 2-bit type, then the signed host
  offset.
\<close>

definition pair8_pack :: "u8 \<Rightarrow> u8 \<Rightarrow> u8 \<Rightarrow> u8" where
  "pair8_pack arm rip ty = take_bit 4 arm OR push_bit 4 (take_bit 3 rip) OR push_bit 7 ty"

definition Decode_vl8 :: "u8 \<Rightarrow> vl64pair_Decoded" where
  "Decode_vl8 b =
     (let data_arm = zxt (take_bit 4 b) :: u64;
          data_rip = zxt (take_bit 3 (drop_bit 4 b)) :: u64
      in \<lparr>IntegerARMPC = push_bit vl8_arm_align_bits (data_arm + 1),
          IntegerX86RIP = data_rip + 1, PairSize = 1\<rparr>)"

definition Decode_vl16 :: "u8 \<Rightarrow> u8 \<Rightarrow> vl64pair_Decoded" where
  "Decode_vl16 HighBits arm =
     (let arm_pc = sxt (push_bit vl8_arm_align_bits (sxt arm :: u32)) :: u64;
          x86_rip = sxt (signed_take_bit 5 HighBits) :: u64
      in \<lparr>IntegerARMPC = arm_pc, IntegerX86RIP = x86_rip, PairSize = 2\<rparr>)"

definition Decode_vl32 :: "u8 list \<Rightarrow> vl64pair_Decoded" where
  "Decode_vl32 rest =
     \<lparr>IntegerARMPC = sxt (le_word (take 4 rest) :: u32),
      IntegerX86RIP = sxt (le_word (take 4 (drop 4 rest)) :: u32), PairSize = 9\<rparr>"

definition vl64pair_Decode :: "u8 list \<Rightarrow> vl64pair_Decoded option" where
  "vl64pair_Decode data =
     (case data of
        [] \<Rightarrow> None
      | b # rest \<Rightarrow>
          if vl8_Type b = vl8_type_header then Some (Decode_vl8 b)
          else if vl16_Type b = vl16_type_header then
            (if length rest < 1 then None else Some (Decode_vl16 b (rest ! 0)))
          else if b = vl32_type_header then
            (if length rest < 8 then None else Some (Decode_vl32 rest))
          else
            (if length rest < 16 then None
             else Some \<lparr>IntegerARMPC = le_word (take 8 rest),
                        IntegerX86RIP = le_word (take 8 (drop 8 rest)), PairSize = 17\<rparr>))"

definition vl64pair_Encode :: "u8 list \<Rightarrow> u64 \<Rightarrow> u64 \<Rightarrow> (u8 list \<times> nat) option" where
  "vl64pair_Encode dst data_arm data_rip =
     (if can_encode_vl8 data_arm data_rip then
        store_at dst
          [pair8_pack (zxt (drop_bit vl8_arm_align_bits (data_arm - 1))) (zxt (data_rip - 1))
             vl8_type_header]
      else if can_encode_vl16 data_arm data_rip then
        store_at dst
          [vl16_pack (zxt data_rip) vl16_type_header,
           zxt (signed_drop_bit vl8_arm_align_bits data_arm)]
      else if can_encode_vl32 data_arm data_rip then
        store_at dst
          (vl32_type_header # le_bytes 4 (zxt data_arm :: u32) @ le_bytes 4 (zxt data_rip :: u32))
      else
        store_at dst (vl64_type_header # le_bytes 8 data_arm @ le_bytes 8 data_rip))"

section \<open>Ranges, headers and fields\<close>

lemmas vl_ranges =
  vl8_min_def vl8_max_def vl8_encoded_bits_def vl16_min_def vl16_max_def vl16_encoded_bits_def
  vl32_min_def vl32_max_def int64_min_def int64_max_def int32_min_def int32_max_def
lemmas vl_headers =
  vl8_type_header_def vl16_type_header_def vl32_type_header_def vl64_type_header_def
lemmas vl_fields =
  vl8_Type_def vl8_pack_def vl8_Integer_def vl16_Type_def vl16_pack_def pair8_pack_def

lemma vl8_sign: "vl8_min \<le> sint d \<Longrightarrow> sint d \<le> vl8_max \<Longrightarrow> 6 < n \<Longrightarrow> n < 64 \<Longrightarrow> bit d n = bit d 6"
  for d :: u64
  by (rule bit_of_small_sint) (simp_all add: vl_ranges)

lemma vl16_sign: "vl16_min \<le> sint d \<Longrightarrow> sint d \<le> vl16_max \<Longrightarrow> 13 < n \<Longrightarrow> n < 64 \<Longrightarrow> bit d n = bit d 13"
  for d :: u64
  by (rule bit_of_small_sint) (simp_all add: vl_ranges)

lemma vl32_sign: "vl32_min \<le> sint d \<Longrightarrow> sint d \<le> vl32_max \<Longrightarrow> 31 < n \<Longrightarrow> n < 64 \<Longrightarrow> bit d n = bit d 31"
  for d :: u64
  by (rule bit_of_small_sint) (simp_all add: vl_ranges)

lemma bit_headers [layout]:
  "bit (push_bit 7 vl8_type_header) n \<longleftrightarrow> False"
  "bit (push_bit 6 vl16_type_header) n \<longleftrightarrow> n = 7"
proof -
  have "push_bit 6 vl16_type_header = (2 :: u8) ^ 7"
    by (simp add: vl_headers)
  then show "bit (push_bit 6 vl16_type_header) n \<longleftrightarrow> n = 7"
    by (simp only: bit_exp_iff) auto
qed (simp add: vl_headers)

lemma bit_low_byte [layout]: "bit (0xFF :: 'a::len word) n \<longleftrightarrow> n < 8 \<and> n < LENGTH('a)"
proof -
  have "(0xFF :: 'a word) = mask 8"
    by (simp add: mask_eq_exp_minus_1)
  then show ?thesis
    by (simp only: bit_mask_iff possible_bit_word) auto
qed

lemma bit_low_byte_int [layout]: "bit (0xFF :: int) n \<longleftrightarrow> n < 8"
proof -
  have "(0xFF :: int) = mask 8"
    by (simp add: mask_eq_exp_minus_1)
  then show ?thesis
    by (simp only: bit_mask_iff possible_bit_int) auto
qed

lemma vl8_Type_pack [simp]: "vl8_Type (vl8_pack i vl8_type_header) = vl8_type_header"
  by (rule bit_word_eqI) (auto simp: vl_fields vl_headers bit_simps)

lemma vl8_Integer_pack:
  assumes "vl8_min \<le> sint d" "sint d \<le> vl8_max"
  shows "vl8_Integer (vl8_pack (zxt d) vl8_type_header) = d"
proof (rule bit_word_eqI)
  fix n
  assume "n < LENGTH(64)"
  then show "bit (vl8_Integer (vl8_pack (zxt d) vl8_type_header)) n = bit d n"
    using vl8_sign [OF assms, of n]
    by (cases "6 < n") (auto simp: vl_fields vl_headers bit_simps min_def)
qed

lemma vl16_pack_type [simp]:
  "vl8_Type (vl16_pack i vl16_type_header) \<noteq> vl8_type_header"
  "vl16_Type (vl16_pack i vl16_type_header) = vl16_type_header"
proof -
  have "bit (vl8_Type (vl16_pack i vl16_type_header)) 0"
    by (simp add: vl_fields vl_headers bit_simps)
  then show "vl8_Type (vl16_pack i vl16_type_header) \<noteq> vl8_type_header"
    by (auto simp: vl_headers)
  show "vl16_Type (vl16_pack i vl16_type_header) = vl16_type_header"
    by (rule bit_word_eqI) (auto simp: vl_fields vl_headers bit_simps)
qed

lemma vl16_pack_field [simp]:
  "signed_take_bit 5 (vl16_pack i vl16_type_header) = signed_take_bit 5 i"
  by (rule bit_word_eqI) (auto simp: vl_fields layout bit_simps min_def)

lemma vl16_Integer_pack:
  assumes "vl16_min \<le> sint d" "sint d \<le> vl16_max"
  shows "vl16_Integer (vl16_pack (zxt (signed_drop_bit 8 d AND 0xFF)) vl16_type_header)
           (zxt (d AND 0xFF)) = d" (is "?l = d")
proof (rule bit_word_eqI)
  fix n
  assume n: "n < LENGTH(64)"
  consider "n < 8" | "8 \<le> n" "n < 13" | "n = 13" | "13 < n" by linarith
  then show "bit ?l n = bit d n"
    using n vl16_sign [OF assms, of n]
    by cases (auto simp: vl16_Integer_def Let_def vl_fields layout bit_simps min_def)
qed

lemma vl32_type [simp]:
  "vl8_Type vl32_type_header \<noteq> vl8_type_header" "vl16_Type vl32_type_header \<noteq> vl16_type_header"
  "vl8_Type vl64_type_header \<noteq> vl8_type_header" "vl16_Type vl64_type_header \<noteq> vl16_type_header"
  "vl64_type_header \<noteq> vl32_type_header"
  by (simp_all add: vl_fields vl_headers)

lemma sxt_zxt_vl32:
  assumes "vl32_min \<le> sint d" "sint d \<le> vl32_max"
  shows "sxt (zxt (d :: u64) :: u32) = d"
proof (rule bit_word_eqI)
  fix n
  assume n: "n < LENGTH(64)"
  then show "bit (sxt (zxt d :: u32) :: u64) n = bit d n"
    using vl32_sign [OF assms, of n] by (cases "31 < n") (auto simp: bit_simps min_def)
qed

lemma pair8_fields:
  "vl8_Type (pair8_pack a r vl8_type_header) = vl8_type_header"
  "take_bit 4 (pair8_pack a r vl8_type_header) = take_bit 4 a"
  "take_bit 3 (drop_bit 4 (pair8_pack a r vl8_type_header)) = take_bit 3 r"
proof -
  show "vl8_Type (pair8_pack a r vl8_type_header) = vl8_type_header"
    by (rule bit_word_eqI) (auto simp: vl_fields vl_headers bit_simps)
qed (rule bit_word_eqI; auto simp: vl_fields layout bit_simps)+

text \<open>An aligned value is its quotient shifted back.\<close>

lemma aligned_eq:
  fixes a :: u64
  assumes "a AND 3 = 0"
  shows "push_bit 2 (drop_bit 2 a) = a"
proof -
  have "(3 :: u64) = mask 2" by (simp add: mask_eq_exp_minus_1)
  with assms have "take_bit 2 a = 0" by (simp add: take_bit_eq_mask)
  then show ?thesis using bits_ident [of 2 a] by simp
qed

lemma shift_masks [simp]: "vl8_arm_shift_mask = 3" "vl16_arm_shift_mask = 3"
  by (simp_all add: vl8_arm_shift_mask_def vl8_arm_align_bits_def vl16_arm_shift_mask_def
      vl16_arm_align_bits_def)

lemma word_in_atMost_16:
  fixes q :: u64
  assumes "1 \<le> sint q" "sint q \<le> 16"
  shows "\<exists>j \<in> {1..16}. q = of_nat j"
proof -
  have "uint q = sint q"
    using assms by (simp add: uint_sint take_bit_int_eq_self)
  then have "unat q \<in> {1..16}" using assms by (auto simp: unat_eq_nat_uint)
  then show ?thesis by (intro bexI [of _ "unat q"]) simp_all
qed

lemma can_encode_vl8_D:
  assumes "can_encode_vl8 a r"
  shows "\<exists>j \<in> {1..16}. a = of_nat (4 * j)" "\<exists>i \<in> {1..8}. r = of_nat i"
proof -
  from assms have al: "a AND 3 = 0" and q: "1 \<le> sint (drop_bit 2 a)" "sint (drop_bit 2 a) \<le> 16"
    and r: "r \<noteq> 0" "r \<le> 8"
    by (auto simp: can_encode_vl8_def Let_def vl8_arm_min_def vl8_arm_max_def vl8_arm_align_bits_def
        vl8_pc_min_def vl8_pc_max_def not_less split: if_splits)
  from word_in_atMost_16 [OF q] obtain j where j: "j \<in> {1..16}" "drop_bit 2 a = of_nat j" by blast
  have "a = push_bit 2 (of_nat j)" using aligned_eq [OF al] j by simp
  also have "\<dots> = of_nat (4 * j)" by (simp add: push_bit_eq_mult)
  finally show "\<exists>j \<in> {1..16}. a = of_nat (4 * j)" using j by blast
  have "unat r \<in> {1..8}" using r by (auto simp: word_le_nat_alt Suc_le_eq unat_gt_0)
  then show "\<exists>i \<in> {1..8}. r = of_nat i" by (intro bexI [of _ "unat r"]) simp_all
qed

lemma vl8_arm_roundtrip:
  assumes "j \<in> {1..16}"
  shows "push_bit 2 (zxt (take_bit 4 (zxt (drop_bit 2 (of_nat (4 * j) - 1 :: u64)) :: u8)) + 1) = (of_nat (4 * j) :: u64)"
proof -
  have "j = 1 \<or> j = 2 \<or> j = 3 \<or> j = 4 \<or> j = 5 \<or> j = 6 \<or> j = 7 \<or> j = 8 \<or> j = 9 \<or> j = 10 \<or> j = 11
     \<or> j = 12 \<or> j = 13 \<or> j = 14 \<or> j = 15 \<or> j = 16"
    using assms by simp presburger
  then show ?thesis by (elim disjE) simp_all
qed

lemma vl8_rip_roundtrip:
  assumes "i \<in> {1..8}"
  shows "zxt (take_bit 3 (zxt (of_nat i - 1 :: u64) :: u8)) + 1 = (of_nat i :: u64)"
proof -
  have "i = 1 \<or> i = 2 \<or> i = 3 \<or> i = 4 \<or> i = 5 \<or> i = 6 \<or> i = 7 \<or> i = 8" using assms by auto
  then show ?thesis by (elim disjE) simp_all
qed

lemma can_encode_vl16_D:
  assumes "can_encode_vl16 a r"
  shows "sxt (push_bit 2 (sxt (zxt (signed_drop_bit 2 a) :: u8) :: u32)) = a"
    "sxt (signed_take_bit 5 (zxt r :: u8)) = r"
proof -
  from assms have al: "a AND 3 = 0"
    and q: "- (2 ^ 7) \<le> sint (signed_drop_bit 2 a)" "sint (signed_drop_bit 2 a) < 2 ^ 7"
    and r: "- (2 ^ 5) \<le> sint r" "sint r < 2 ^ 5"
    by (auto simp: can_encode_vl16_def Let_def vl16_arm_min_def vl16_arm_max_def
        vl16_arm_align_bits_def vl16_pc_min_def vl16_pc_max_def split: if_splits)
  have lo: "\<not> bit a n" if "n < 2" for n
  proof -
    have "\<not> bit (push_bit 2 (drop_bit 2 a)) n"
      using that by (simp add: bit_simps)
    then show ?thesis using aligned_eq [OF al] by simp
  qed
  have hi: "bit a (k + 2) = bit a 9" if "7 < k" "k + 2 < 64" for k
    using bit_of_small_sint [OF q, of k] that by (simp add: bit_simps)
  show "sxt (signed_take_bit 5 (zxt r :: u8)) = r"
  proof (rule bit_word_eqI)
    fix n
    assume "n < LENGTH(64)"
    then show "bit (sxt (signed_take_bit 5 (zxt r :: u8)) :: u64) n = bit r n"
      using bit_of_small_sint [OF r, of n] by (cases "5 < n") (auto simp: bit_simps min_def)
  qed
  show "sxt (push_bit 2 (sxt (zxt (signed_drop_bit 2 a) :: u8) :: u32)) = a" (is "?l = a")
  proof (rule bit_word_eqI)
    fix n
    assume n: "n < LENGTH(64)"
    show "bit ?l n = bit a n"
    proof (cases "n < 2")
      case True
      then show ?thesis using lo [of n] n by (simp add: bit_simps)
    next
      case False
      then obtain k where k: "n = k + 2" by (metis add.commute le_Suc_ex not_less)
      show ?thesis using n hi [of k] hi [of 29] unfolding k
        by (cases "7 < k") (auto simp: bit_simps min_def not_less)
    qed
  qed
qed

section \<open>Codecs\<close>

text \<open>
  What a reader of a variable length encoding relies on: decoding what an encoder wrote
  returns the value and the number of bytes to skip, whatever follows in the buffer. The
  client reads a known number of values one after the other.
\<close>

fun decode_many :: "(u8 list \<Rightarrow> ('a \<times> nat) option) \<Rightarrow> nat \<Rightarrow> u8 list \<Rightarrow> 'a list option" where
  "decode_many dec 0 data = Some []"
| "decode_many dec (Suc n) data =
     (case dec data of
        None \<Rightarrow> None
      | Some (x, k) \<Rightarrow> map_option ((#) x) (decode_many dec n (drop k data)))"

locale codec =
  fixes enc :: "'a \<Rightarrow> u8 list"
    and dec :: "u8 list \<Rightarrow> ('a \<times> nat) option"
  assumes dec_enc: "dec (enc x @ rest) = Some (x, length (enc x))"
begin

lemma enc_inj: "enc x = enc y \<Longrightarrow> x = y"
  using dec_enc [of x "[]"] dec_enc [of y "[]"] by simp

lemma enc_prefix_free: "enc x @ r = enc y @ s \<Longrightarrow> x = y \<and> r = s"
  using dec_enc [of x r] dec_enc [of y s] by auto

lemma decode_many_enc:
  "decode_many dec (length xs) (concat (map enc xs) @ rest) = Some xs"
  by (induction xs) (simp_all add: dec_enc)

lemma concat_enc_inj:
  assumes "length xs = length ys" "concat (map enc xs) @ r = concat (map enc ys) @ s"
  shows "xs = ys"
proof -
  have "Some xs = Some ys"
    unfolding decode_many_enc [of xs r, symmetric] decode_many_enc [of ys s, symmetric] assms ..
  then show ?thesis by simp
qed

end

text \<open>The bytes that \<open>Encode\<close> stores, and the reader's view of \<open>Decode\<close>.\<close>

definition vl64_bytes :: "u64 \<Rightarrow> u8 list" where
  "vl64_bytes Data = fst (the (vl64_Encode (replicate (vl64_EncodedSize Data) 0) Data))"

definition vl64_read :: "u8 list \<Rightarrow> (u64 \<times> nat) option" where
  "vl64_read data = map_option (\<lambda>d. (Integer d, Size d)) (vl64_Decode data)"

definition vl64pair_bytes :: "u64 \<times> u64 \<Rightarrow> u8 list" where
  "vl64pair_bytes p =
     fst (the (vl64pair_Encode (replicate (vl64pair_EncodedSize (fst p) (snd p)) 0) (fst p) (snd p)))"

definition vl64pair_read :: "u8 list \<Rightarrow> ((u64 \<times> u64) \<times> nat) option" where
  "vl64pair_read data =
     map_option (\<lambda>d. ((IntegerARMPC d, IntegerX86RIP d), PairSize d)) (vl64pair_Decode data)"

lemma store_at_exact [simp]:
  "length dst = length bs \<Longrightarrow> store_at dst bs = Some (bs, length bs)"
  by (simp add: store_at_def)

lemma length_vl64_bytes [simp]: "length (vl64_bytes Data) = vl64_EncodedSize Data"
  by (simp add: vl64_bytes_def vl64_Encode_def vl64_EncodedSize_def)

lemma vl64_Encode_store: "vl64_Encode dst Data = store_at dst (vl64_bytes Data)"
  by (simp add: vl64_bytes_def vl64_Encode_def vl64_EncodedSize_def)

lemma vl64pair_Encode_bytes:
  "\<exists>bs. length bs = vl64pair_EncodedSize a r \<and> (\<forall>dst. vl64pair_Encode dst a r = store_at dst bs)"
  by (cases "can_encode_vl8 a r"; cases "can_encode_vl16 a r"; cases "can_encode_vl32 a r")
    (force simp: vl64pair_Encode_def vl64pair_EncodedSize_def)+

lemma length_vl64pair_bytes [simp]:
  "length (vl64pair_bytes p) = vl64pair_EncodedSize (fst p) (snd p)"
  using vl64pair_Encode_bytes [of "fst p" "snd p"] by (auto simp: vl64pair_bytes_def)

lemma vl64pair_Encode_store: "vl64pair_Encode dst a r = store_at dst (vl64pair_bytes (a, r))"
  using vl64pair_Encode_bytes [of a r] by (auto simp: vl64pair_bytes_def)

lemma vl64_read_bytes:
  "vl64_read (vl64_bytes d @ rest) = Some (d, length (vl64_bytes d))"
proof -
  consider (a) "vl8_min \<le> sint d" "sint d \<le> vl8_max"
    | (b) "\<not> (vl8_min \<le> sint d \<and> sint d \<le> vl8_max)" "vl16_min \<le> sint d" "sint d \<le> vl16_max"
    | (c) "\<not> (vl8_min \<le> sint d \<and> sint d \<le> vl8_max)" "\<not> (vl16_min \<le> sint d \<and> sint d \<le> vl16_max)"
        "vl32_min \<le> sint d" "sint d \<le> vl32_max"
    | (d) "\<not> (vl8_min \<le> sint d \<and> sint d \<le> vl8_max)" "\<not> (vl16_min \<le> sint d \<and> sint d \<le> vl16_max)"
        "\<not> (vl32_min \<le> sint d \<and> sint d \<le> vl32_max)"
    by blast
  then show ?thesis
    by cases
      (simp_all add: vl64_read_def vl64_bytes_def vl64_Encode_def vl64_EncodedSize_def vl64_Decode_def
        vl8_Integer_pack vl16_Integer_pack sxt_zxt_vl32 take_bit_word_eq_self)
qed

lemma vl64pair_read_bytes:
  "vl64pair_read (vl64pair_bytes p @ rest) = Some (p, length (vl64pair_bytes p))"
proof (cases p)
  case (Pair a r)
  consider (a) "can_encode_vl8 a r"
    | (b) "\<not> can_encode_vl8 a r" "can_encode_vl16 a r"
    | (c) "\<not> can_encode_vl8 a r" "\<not> can_encode_vl16 a r" "can_encode_vl32 a r"
    | (d) "\<not> can_encode_vl8 a r" "\<not> can_encode_vl16 a r" "\<not> can_encode_vl32 a r"
    by blast
  then show ?thesis
  proof cases
    case a
    from can_encode_vl8_D [OF a] obtain j i
      where ji: "j \<in> {1..16}" "a = of_nat (4 * j)" "i \<in> {1..8}" "r = of_nat i"
      by blast
    from vl8_arm_roundtrip [OF ji(1)] vl8_rip_roundtrip [OF ji(3)] a show ?thesis
      unfolding Pair vl64pair_read_def vl64pair_bytes_def ji(2,4)
      by (simp add: vl64pair_Encode_def vl64pair_EncodedSize_def vl64pair_Decode_def Decode_vl8_def
          Let_def pair8_fields vl8_arm_align_bits_def)
  next
    case b
    with can_encode_vl16_D [OF b(2)] show ?thesis
      by (simp add: Pair vl64pair_read_def vl64pair_bytes_def vl64pair_Encode_def
          vl64pair_EncodedSize_def vl64pair_Decode_def Decode_vl16_def Let_def vl8_arm_align_bits_def)
  next
    case c
    then have "sxt (zxt a :: u32) = a" "sxt (zxt r :: u32) = r"
      by (auto intro!: sxt_zxt_vl32 simp: can_encode_vl32_def split: if_splits)
    with c show ?thesis
      by (simp add: Pair vl64pair_read_def vl64pair_bytes_def vl64pair_Encode_def
          vl64pair_EncodedSize_def vl64pair_Decode_def Decode_vl32_def take_bit_word_eq_self)
  next
    case d
    then show ?thesis
      by (simp add: Pair vl64pair_read_def vl64pair_bytes_def vl64pair_Encode_def
          vl64pair_EncodedSize_def vl64pair_Decode_def take_bit_word_eq_self)
  qed
qed

interpretation vl64: codec vl64_bytes vl64_read
  by unfold_locales (rule vl64_read_bytes)

interpretation vl64pair: codec vl64pair_bytes vl64pair_read
  by unfold_locales (rule vl64pair_read_bytes)

lemma vl64pair_Decode_bytes [simp]:
  "vl64pair_Decode (vl64pair_bytes (a, r) @ rest) =
     Some \<lparr>IntegerARMPC = a, IntegerX86RIP = r, PairSize = vl64pair_EncodedSize a r\<rparr>"
proof -
  from vl64pair.dec_enc [of "(a, r)" rest] obtain d where
    "vl64pair_Decode (vl64pair_bytes (a, r) @ rest) = Some d" "IntegerARMPC d = a"
    "IntegerX86RIP d = r" "PairSize d = vl64pair_EncodedSize a r"
    by (auto simp: vl64pair_read_def)
  then show ?thesis by (cases d) simp
qed

section \<open>Properties\<close>

text \<open>C4: Encoding any 64-bit value with \<open>vl64\<close> into a buffer with room for it stores exactly
  \<open>EncodedSize\<close> bytes, leaves the rest of the buffer alone, and decoding the buffer returns the
  value and that size.\<close>

theorem vl64_roundtrip:
  assumes "vl64_EncodedSize Data \<le> length dst"
  shows "\<exists>dst'. vl64_Encode dst Data = Some (dst', vl64_EncodedSize Data) \<and>
           length dst' = length dst \<and>
           drop (vl64_EncodedSize Data) dst' = drop (vl64_EncodedSize Data) dst \<and>
           vl64_Decode dst' = Some \<lparr>Integer = Data, Size = vl64_EncodedSize Data\<rparr>"
proof -
  let ?dst = "vl64_bytes Data @ drop (vl64_EncodedSize Data) dst"
  have "vl64_Encode dst Data = Some (?dst, vl64_EncodedSize Data)"
    using assms by (simp add: vl64_Encode_store store_at_def)
  moreover from vl64.dec_enc [of Data "drop (vl64_EncodedSize Data) dst"]
  have "vl64_Decode ?dst = Some \<lparr>Integer = Data, Size = vl64_EncodedSize Data\<rparr>"
    by (auto simp: vl64_read_def)
  ultimately show ?thesis
    using assms by simp
qed

theorem vl64_roundtrip_witness:
  "\<exists>dst'. vl64_Encode [1, 2, 3] (- 65) = Some (dst', 2) \<and> vl64_Decode dst' = Some \<lparr>Integer = - 65, Size = 2\<rparr>"
proof -
  have s: "vl64_EncodedSize (- 65) = 2"
    by (simp add: vl64_EncodedSize_def vl_ranges)
  then show ?thesis
    using vl64_roundtrip [of "- 65" "[1, 2, 3]"] by auto
qed

text \<open>C5: The same for a pair of offsets: \<open>vl64pair\<close> round trips for every pair of 64-bit values,
  in whichever of its four forms \<open>EncodedSize\<close> selects.\<close>

theorem vl64pair_roundtrip:
  assumes "vl64pair_EncodedSize data_arm data_rip \<le> length dst"
  shows "\<exists>dst'. vl64pair_Encode dst data_arm data_rip = Some (dst', vl64pair_EncodedSize data_arm data_rip) \<and>
           length dst' = length dst \<and>
           drop (vl64pair_EncodedSize data_arm data_rip) dst' = drop (vl64pair_EncodedSize data_arm data_rip) dst \<and>
           vl64pair_Decode dst' = Some \<lparr>IntegerARMPC = data_arm, IntegerX86RIP = data_rip,
             PairSize = vl64pair_EncodedSize data_arm data_rip\<rparr>"
proof -
  let ?n = "vl64pair_EncodedSize data_arm data_rip"
  let ?dst = "vl64pair_bytes (data_arm, data_rip) @ drop ?n dst"
  have "vl64pair_Encode dst data_arm data_rip = Some (?dst, ?n)"
    using assms by (simp add: vl64pair_Encode_store store_at_def)
  then show ?thesis
    using assms by simp
qed

theorem vl64pair_roundtrip_witness:
  "\<exists>dst'. vl64pair_Encode [0, 0, 0] (- 8) 5 = Some (dst', 2) \<and>
     vl64pair_Decode dst' = Some \<lparr>IntegerARMPC = - 8, IntegerX86RIP = 5, PairSize = 2\<rparr>"
proof -
  have s: "vl64pair_EncodedSize (- 8) 5 = 2"
    by (simp add: vl64pair_EncodedSize_def can_encode_vl8_def can_encode_vl16_def vl16_pc_min_def
        vl16_pc_max_def vl16_arm_min_def vl16_arm_max_def vl16_arm_align_bits_def vl8_pc_min_def
        vl8_pc_max_def vl8_arm_align_bits_def vl8_arm_min_def vl8_arm_max_def)
  then show ?thesis
    using vl64pair_roundtrip [of "- 8" 5 "[0, 0, 0]"] by auto
qed

end
