(* ===== verification/RIPReconstruction.thy ===== *)
theory RIPReconstruction
  imports VarInt
begin

text \<open>
  The table that maps host code back to guest instructions: the JIT stores one entry per
  guest opcode behind a block's code (\<open>Arm64JITCore::CompileCode\<close>, \<open>JIT.cpp\<close>), and
  \<open>ContextImpl::RestoreRIPFromHostPC\<close> (\<open>Core.cpp\<close>) walks it to find the guest address
  of a host address. The table is a sequence of \<open>vl64pair\<close> values, each the difference to
  the entry before.
\<close>

section \<open>Storing the entries\<close>

record DebugDataGuestOpcode =
  GuestEntryOffset :: u64
  HostEntryOffset :: u64

text \<open>
  The loop of \<open>CompileCode\<close>, from the buffer position of the next entry:
  \<open>CurrentPCOffset\<close> and \<open>CurrentRIPOffset\<close> hold the offsets of the entry before. \<open>None\<close> is
  a store past the end of the buffer.
\<close>

fun StoreRIPEntries ::
  "DebugDataGuestOpcode list \<Rightarrow> u64 \<Rightarrow> u64 \<Rightarrow> u8 list \<Rightarrow> u8 list option" where
  "StoreRIPEntries [] CurrentPCOffset CurrentRIPOffset buf = Some buf"
| "StoreRIPEntries (GuestOpcode # ops) CurrentPCOffset CurrentRIPOffset buf =
     (let HostPCOffset = HostEntryOffset GuestOpcode - CurrentPCOffset;
          GuestRIPOffset = GuestEntryOffset GuestOpcode - CurrentRIPOffset
      in case vl64pair_Encode buf HostPCOffset GuestRIPOffset of
           None \<Rightarrow> None
         | Some (buf', n) \<Rightarrow>
             map_option ((@) (take n buf'))
               (StoreRIPEntries ops (HostEntryOffset GuestOpcode) (GuestEntryOffset GuestOpcode)
                 (drop n buf')))"

section \<open>Reading them back\<close>

text \<open>The loop of \<open>RestoreRIPFromHostPC\<close>; \<open>None\<close> is a read past the end of the buffer.\<close>

fun RestoreRIPLoop :: "nat \<Rightarrow> u8 list \<Rightarrow> u64 \<Rightarrow> u64 \<Rightarrow> u64 \<Rightarrow> u64 option" where
  "RestoreRIPLoop 0 RIPEntry HostPC StartingHostPC StartingGuestRIP = Some StartingGuestRIP"
| "RestoreRIPLoop (Suc i) RIPEntry HostPC StartingHostPC StartingGuestRIP =
     (case vl64pair_Decode RIPEntry of
        None \<Rightarrow> None
      | Some Offset \<Rightarrow>
          if HostPC \<ge> StartingHostPC + IntegerARMPC Offset then
            RestoreRIPLoop i (drop (PairSize Offset) RIPEntry) HostPC
              (StartingHostPC + IntegerARMPC Offset) (StartingGuestRIP + IntegerX86RIP Offset)
          else Some StartingGuestRIP)"

record JITCodeTail =
  TailSize :: u64
  RIP :: u64
  NumberOfRIPEntries :: u32
  RIPEntries :: "u8 list"

text \<open>
  \<open>block\<close> is the header and tail found through \<open>InlineJITBlockHeader\<close>, \<open>None\<close> when that
  pointer is null; \<open>rip\<close> is the RIP stored in the frame.
\<close>

definition RestoreRIPFromHostPC :: "u64 \<Rightarrow> JITCodeTail option \<Rightarrow> u64 \<Rightarrow> u64 \<Rightarrow> u64 option" where
  "RestoreRIPFromHostPC BlockBegin block rip HostPC =
     (case block of
        None \<Rightarrow> Some rip
      | Some InlineTail \<Rightarrow>
          if HostPC \<ge> BlockBegin \<and> HostPC < BlockBegin + TailSize InlineTail then
            RestoreRIPLoop (unat (NumberOfRIPEntries InlineTail)) (RIPEntries InlineTail) HostPC
              BlockBegin (RIP InlineTail)
          else Some rip)"

section \<open>The writer and the reader agree\<close>

text \<open>What the stored table is: the pair encodings of the differences.\<close>

fun rip_deltas :: "DebugDataGuestOpcode list \<Rightarrow> u64 \<Rightarrow> u64 \<Rightarrow> (u64 \<times> u64) list" where
  "rip_deltas [] pc rip = []"
| "rip_deltas (e # es) pc rip =
     (HostEntryOffset e - pc, GuestEntryOffset e - rip)
       # rip_deltas es (HostEntryOffset e) (GuestEntryOffset e)"

lemma length_rip_deltas [simp]: "length (rip_deltas es pc rip) = length es"
  by (induction es arbitrary: pc rip) simp_all

lemma StoreRIPEntries_bytes:
  assumes "length (concat (map vl64pair_bytes (rip_deltas es pc rip))) \<le> length buf"
  shows "StoreRIPEntries es pc rip buf =
    Some (concat (map vl64pair_bytes (rip_deltas es pc rip))
      @ drop (length (concat (map vl64pair_bytes (rip_deltas es pc rip)))) buf)"
  using assms
proof (induction es arbitrary: pc rip buf)
  case Nil
  then show ?case by simp
next
  case (Cons e es)
  let ?h = "HostEntryOffset e - pc" and ?g = "GuestEntryOffset e - rip"
  let ?n = "vl64pair_EncodedSize ?h ?g"
  from Cons.prems have "?n \<le> length buf" by simp
  then have "vl64pair_Encode buf ?h ?g = Some (vl64pair_bytes (?h, ?g) @ drop ?n buf, ?n)"
    by (simp add: vl64pair_Encode_store store_at_def)
  with Cons show ?case by (simp add: add.commute)
qed

lemma StoreRIPEntries_Some:
  "StoreRIPEntries es pc rip buf = Some table \<Longrightarrow>
     \<exists>rest. table = concat (map vl64pair_bytes (rip_deltas es pc rip)) @ rest"
proof (induction es arbitrary: pc rip buf table)
  case Nil
  then show ?case by simp
next
  case (Cons e es)
  let ?h = "HostEntryOffset e - pc" and ?g = "GuestEntryOffset e - rip"
  from Cons.prems obtain buf' n t where enc: "vl64pair_Encode buf ?h ?g = Some (buf', n)"
    and t: "StoreRIPEntries es (HostEntryOffset e) (GuestEntryOffset e) (drop n buf') = Some t"
    and table: "table = take n buf' @ t"
    by (auto simp: Let_def split: option.splits)
  from enc have "take n buf' = vl64pair_bytes (?h, ?g)"
    by (auto simp: vl64pair_Encode_store store_at_def split: if_splits)
  with Cons.IH [OF t] table show ?case by auto
qed

text \<open>The entries a host address has passed, and the guest offset of the last one.\<close>

definition passed :: "u64 \<Rightarrow> u64 \<Rightarrow> DebugDataGuestOpcode list \<Rightarrow> DebugDataGuestOpcode list" where
  "passed BlockBegin HostPC es = takeWhile (\<lambda>e. BlockBegin + HostEntryOffset e \<le> HostPC) es"

definition guest_offset :: "DebugDataGuestOpcode list \<Rightarrow> u64" where
  "guest_offset es = (if es = [] then 0 else GuestEntryOffset (last es))"

lemma RestoreRIPLoop_deltas:
  "RestoreRIPLoop (length es) (concat (map vl64pair_bytes (rip_deltas es pc rip)) @ rest) HostPC
     (BlockBegin + pc) (Start + rip) =
   Some (Start + (if passed BlockBegin HostPC es = [] then rip
                  else GuestEntryOffset (last (passed BlockBegin HostPC es))))"
proof (induction es arbitrary: pc rip)
  case Nil
  then show ?case by (simp add: passed_def)
next
  case (Cons e es)
  let ?h = "HostEntryOffset e - pc" and ?g = "GuestEntryOffset e - rip"
  from Cons.IH [of "HostEntryOffset e" "GuestEntryOffset e"] show ?case
    by (simp add: passed_def)
qed

text \<open>C6: The guest address reconstructed from the table that \<open>CompileCode\<close> stored is the block's
  RIP plus the guest offset of the last entry the host address has passed: for every block, every
  host address inside it and every list of entries, including their 64-bit wrap-around.\<close>

theorem RestoreRIPFromHostPC_correct:
  assumes "StoreRIPEntries es 0 0 buf = Some table"
    and "RIPEntries tail = table" "unat (NumberOfRIPEntries tail) = length es"
    and "BlockBegin \<le> HostPC" "HostPC < BlockBegin + TailSize tail"
  shows "RestoreRIPFromHostPC BlockBegin (Some tail) rip HostPC =
           Some (RIP tail + guest_offset (passed BlockBegin HostPC es))"
proof -
  from StoreRIPEntries_Some [OF assms(1)] obtain rest
    where "table = concat (map vl64pair_bytes (rip_deltas es 0 0)) @ rest" by blast
  with RestoreRIPLoop_deltas [of es 0 0 rest HostPC BlockBegin "RIP tail"] assms show ?thesis
    by (simp add: RestoreRIPFromHostPC_def guest_offset_def)
qed

theorem RestoreRIPFromHostPC_correct_witness:
  "\<exists>table. StoreRIPEntries [\<lparr>GuestEntryOffset = 0, HostEntryOffset = 16\<rparr>,
                            \<lparr>GuestEntryOffset = 3, HostEntryOffset = 40\<rparr>] 0 0 (replicate 8 0) = Some table \<and>
     RestoreRIPFromHostPC 4096 (Some \<lparr>TailSize = 100, RIP = 0x400000, NumberOfRIPEntries = 2,
       RIPEntries = table\<rparr>) 7 4140 = Some 0x400003"
proof -
  let ?es = "[\<lparr>GuestEntryOffset = 0, HostEntryOffset = 16\<rparr>, \<lparr>GuestEntryOffset = 3, HostEntryOffset = 40\<rparr>]"
  have "\<exists>table. StoreRIPEntries ?es 0 0 (replicate 8 0) = Some table"
    by (subst StoreRIPEntries_bytes)
      (simp_all add: vl64pair_EncodedSize_def can_encode_vl8_def can_encode_vl16_def vl16_pc_min_def
        vl16_pc_max_def vl16_arm_min_def vl16_arm_max_def vl16_arm_align_bits_def vl8_pc_min_def
        vl8_pc_max_def vl8_arm_align_bits_def vl8_arm_min_def vl8_arm_max_def)
  then obtain table where t: "StoreRIPEntries ?es 0 0 (replicate 8 0) = Some table" ..
  show ?thesis
  proof (intro exI conjI)
    show "RestoreRIPFromHostPC 4096 (Some \<lparr>TailSize = 100, RIP = 0x400000, NumberOfRIPEntries = 2,
        RIPEntries = table\<rparr>) 7 4140 = Some 0x400003"
      using RestoreRIPFromHostPC_correct [OF t, of "\<lparr>TailSize = 100, RIP = 0x400000,
          NumberOfRIPEntries = 2, RIPEntries = table\<rparr>" 4096 4140 7]
      by (simp add: passed_def guest_offset_def)
  qed (rule t)
qed

end
