(* ===== verification/RangeStore.thy ===== *)
theory RangeStore
  imports Prelude
begin

text \<open>
  The interface the address-range containers of the program share.
\<close>

section \<open>The interface\<close>

text \<open>
  What a client of an interval store relies on: the store denotes a set of points, adding an
  entry adds its points and removing one removes them. A run of operations then denotes the
  fold of the corresponding set operations.
\<close>

datatype 'e range_op = Add (range_op_entry: 'e) | Del (range_op_entry: 'e)

fun run_op :: "('s \<Rightarrow> 'e \<Rightarrow> 's) \<Rightarrow> ('s \<Rightarrow> 'e \<Rightarrow> 's) \<Rightarrow> 's \<Rightarrow> 'e range_op \<Rightarrow> 's" where
  "run_op ins rem s (Add e) = ins s e"
| "run_op ins rem s (Del e) = rem s e"

locale range_store =
  fixes ins :: "'s \<Rightarrow> 'e \<Rightarrow> 's"
    and rem :: "'s \<Rightarrow> 'e \<Rightarrow> 's"
    and ok :: "'e \<Rightarrow> bool"
    and pts :: "'e \<Rightarrow> 'p set"
    and cov :: "'s \<Rightarrow> 'p set"
    and inv :: "'s \<Rightarrow> bool"
  assumes inv_ins: "inv s \<Longrightarrow> ok e \<Longrightarrow> inv (ins s e)"
    and cov_ins: "inv s \<Longrightarrow> ok e \<Longrightarrow> cov (ins s e) = cov s \<union> pts e"
    and inv_rem: "inv s \<Longrightarrow> ok e \<Longrightarrow> inv (rem s e)"
    and cov_rem: "inv s \<Longrightarrow> ok e \<Longrightarrow> cov (rem s e) = cov s - pts e"
begin

lemma foldl_ins:
  "inv s \<Longrightarrow> \<forall>e \<in> set es. ok e \<Longrightarrow>
     inv (foldl ins s es) \<and> cov (foldl ins s es) = cov s \<union> (\<Union>e \<in> set es. pts e)"
  by (induction es arbitrary: s) (auto simp: inv_ins cov_ins)

lemma run_refines:
  "inv s \<Longrightarrow> \<forall>op \<in> set ops. ok (range_op_entry op) \<Longrightarrow>
     inv (foldl (run_op ins rem) s ops) \<and>
     cov (foldl (run_op ins rem) s ops) =
       foldl (run_op (\<lambda>c e. c \<union> pts e) (\<lambda>c e. c - pts e)) (cov s) ops"
proof (induction ops arbitrary: s)
  case (Cons op ops)
  then show ?case
    by (cases op) (simp_all add: inv_ins cov_ins inv_rem cov_rem)
qed simp

end

end
