(* ===== verification/IntervalList.thy ===== *)
theory IntervalList
  imports RangeStore
begin

text \<open>
  The sorted interval list of \<open>FEXCore/include/FEXCore/Utils/IntervalList.h\<close>, instantiated
  at \<open>uint64_t\<close> as its users do. The vector is a list; iterators are indices into it. The
  binary searches of the standard library are modelled by what the standard promises of them
  on a partitioned range, the partition point.
\<close>

section \<open>The operations\<close>

record Interval =
  Offset :: u64
  End :: u64

type_synonym intervals = "Interval list"

text \<open>
  \<open>std::equal_range\<close> with the comparison \<open>LHS.End <= RHS.Offset\<close>: the first interval that
  does not end before the entry, and the first one from there that starts after it.
\<close>

definition equal_range :: "intervals \<Rightarrow> Interval \<Rightarrow> nat \<times> nat" where
  "equal_range Intervals Entry =
     (let FirstIt = length (takeWhile (\<lambda>LHS. End LHS \<le> Offset Entry) Intervals)
      in (FirstIt,
          FirstIt + length (takeWhile (\<lambda>RHS. \<not> End Entry \<le> Offset RHS) (drop FirstIt Intervals))))"

definition Insert :: "intervals \<Rightarrow> Interval \<Rightarrow> intervals" where
  "Insert Intervals Entry =
     (if Offset Entry = End Entry then Intervals
      else
        let (FirstIt, EndIt) = equal_range Intervals Entry in
        if FirstIt = EndIt then take FirstIt Intervals @ Entry # drop FirstIt Intervals
        else
          let LastIt = EndIt - 1;
              NewOffset = min (Offset Entry) (Offset (Intervals ! FirstIt));
              NewEnd = max (End (Intervals ! LastIt)) (End Entry);
              Erased = take (FirstIt + 1) Intervals @ drop (LastIt + 1) Intervals
          in Erased[FirstIt := (Erased ! FirstIt)\<lparr>Offset := NewOffset, End := NewEnd\<rparr>])"

definition InsertAll :: "intervals \<Rightarrow> intervals \<Rightarrow> intervals" where
  "InsertAll Intervals Other = foldl Insert Intervals Other"

definition Remove :: "intervals \<Rightarrow> Interval \<Rightarrow> intervals" where
  "Remove Intervals Entry =
     (if Offset Entry = End Entry then Intervals
      else
        let (FirstIt, EndIt) = equal_range Intervals Entry in
        if FirstIt = EndIt then Intervals
        else if Offset (Intervals ! FirstIt) < Offset Entry \<and> End (Intervals ! FirstIt) > End Entry then
          take FirstIt Intervals
            @ (Intervals ! FirstIt)\<lparr>End := Offset Entry\<rparr>
            # (Intervals ! FirstIt)\<lparr>Offset := End Entry\<rparr>
            # drop (FirstIt + 1) Intervals
        else
          let LastIt = EndIt - 1;
              StraddlesStart = Offset (Intervals ! FirstIt) < Offset Entry;
              Xs = (if StraddlesStart
                    then Intervals[FirstIt := (Intervals ! FirstIt)\<lparr>End := Offset Entry\<rparr>]
                    else Intervals)
          in if StraddlesStart \<and> FirstIt = LastIt then Xs
             else
               let FirstIt = (if StraddlesStart then FirstIt + 1 else FirstIt);
                   StraddlesEnd = End (Xs ! LastIt) > End Entry;
                   Ys = (if StraddlesEnd
                         then Xs[LastIt := (Xs ! LastIt)\<lparr>Offset := End Entry\<rparr>]
                         else Xs)
               in if StraddlesEnd \<and> LastIt = FirstIt then Ys
                  else
                    let LastIt = (if StraddlesEnd then LastIt - 1 else LastIt)
                    in take FirstIt Ys @ drop (LastIt + 1) Ys)"

record QueryResult =
  Enclosed :: bool
  QSize :: u64
  QInterval :: Interval

text \<open>
  The value-initialised interval of a query past the last one is all zero. \<open>upper_bound\<close> with
  a comparison \<open>value < RHS.End\<close> is the first interval that ends after the value.
\<close>

definition upper_bound :: "intervals \<Rightarrow> u64 \<Rightarrow> nat" where
  "upper_bound Intervals off = length (takeWhile (\<lambda>RHS. \<not> off < End RHS) Intervals)"

definition Query :: "intervals \<Rightarrow> u64 \<Rightarrow> QueryResult" where
  "Query Intervals off =
     (let It = upper_bound Intervals off in
      if It = length Intervals then
        \<lparr>Enclosed = False, QSize = 0, QInterval = \<lparr>Offset = 0, End = 0\<rparr>\<rparr>
      else if Offset (Intervals ! It) > off then
        \<lparr>Enclosed = False, QSize = Offset (Intervals ! It) - off, QInterval = Intervals ! It\<rparr>
      else
        \<lparr>Enclosed = True, QSize = End (Intervals ! It) - off, QInterval = Intervals ! It\<rparr>)"

definition Intersect :: "intervals \<Rightarrow> Interval \<Rightarrow> bool" where
  "Intersect Intervals Entry =
     (let It = upper_bound Intervals (Offset Entry)
      in It \<noteq> length Intervals \<and> Offset (Intervals ! It) < End Entry)"

definition Contains :: "intervals \<Rightarrow> Interval \<Rightarrow> bool" where
  "Contains Intervals Entry =
     (let It = upper_bound Intervals (Offset Entry)
      in It \<noteq> length Intervals \<and> Offset (Intervals ! It) \<le> Offset Entry
         \<and> End (Intervals ! It) \<ge> End Entry)"

section \<open>What a list stands for\<close>

definition points :: "Interval \<Rightarrow> u64 set" where
  "points i = {Offset i ..< End i}"

definition covered :: "intervals \<Rightarrow> u64 set" where
  "covered xs = (\<Union>i \<in> set xs. points i)"

definition before :: "Interval \<Rightarrow> Interval \<Rightarrow> bool" where
  "before a b \<longleftrightarrow> End a \<le> Offset b"

definition interval_inv :: "intervals \<Rightarrow> bool" where
  "interval_inv xs \<longleftrightarrow> (\<forall>i \<in> set xs. Offset i < End i) \<and> sorted_wrt before xs"

lemma covered_simps [simp]:
  "covered [] = {}" "covered (x # xs) = points x \<union> covered xs"
  "covered (xs @ ys) = covered xs \<union> covered ys"
  by (auto simp: covered_def)

lemma interval_inv_append:
  "interval_inv (xs @ ys) \<longleftrightarrow>
     interval_inv xs \<and> interval_inv ys \<and> (\<forall>x \<in> set xs. \<forall>y \<in> set ys. before x y)"
  by (auto simp: interval_inv_def sorted_wrt_append)

lemma interval_inv_Cons:
  "interval_inv (x # ys) \<longleftrightarrow> Offset x < End x \<and> interval_inv ys \<and> (\<forall>y \<in> set ys. before x y)"
  by (auto simp: interval_inv_def)

lemma interval_inv_Nil [simp]: "interval_inv []"
  by (simp add: interval_inv_def)

lemmas interval_invs = interval_inv_append interval_inv_Cons

text \<open>
  A sorted list splits into the intervals before an entry, those that overlap it and those
  after it, and the two iterators of \<open>equal_range\<close> are the borders.
\<close>

lemma takeWhile_end:
  assumes "interval_inv xs"
  shows "\<forall>x \<in> set (dropWhile (\<lambda>i. End i \<le> p) xs). p < End x"
  using assms
proof (induction xs)
  case (Cons x xs)
  have "End x < End y" if "y \<in> set xs" for y
  proof -
    from Cons.prems that have "End x \<le> Offset y" "Offset y < End y"
      by (auto simp: interval_inv_def before_def)
    then show ?thesis by (rule order.strict_trans1)
  qed
  with Cons show ?case
    by (auto simp: interval_inv_Cons not_le intro: order.strict_trans)
qed simp

lemma takeWhile_start:
  assumes "interval_inv xs"
  shows "\<forall>x \<in> set (dropWhile (\<lambda>i. \<not> e \<le> Offset i) xs). e \<le> Offset x"
  using assms
proof (induction xs)
  case (Cons x xs)
  from Cons.prems have "interval_inv xs" by (simp add: interval_inv_Cons)
  then have IH: "\<forall>x \<in> set (dropWhile (\<lambda>i. \<not> e \<le> Offset i) xs). e \<le> Offset x"
    by (rule Cons.IH)
  have "e \<le> Offset y" if le: "e \<le> Offset x" and y: "y \<in> set xs" for y
  proof -
    from Cons.prems y have "Offset x < End x" "End x \<le> Offset y"
      by (auto simp: interval_inv_def before_def)
    with le show ?thesis by order
  qed
  note le = this
  show ?case
  proof (cases "e \<le> Offset x")
    case True
    then have "\<forall>y \<in> set (x # xs). e \<le> Offset y" by (auto intro: le)
    with True show ?thesis by (simp only: dropWhile.simps if_True if_False not_True_eq_False)
  next
    case False
    then show ?thesis using IH by (simp only: dropWhile.simps if_True not_False_eq_True)
  qed
qed simp

lemma equal_range_split:
  assumes "interval_inv xs" "Offset e < End e"
  obtains A M B where "xs = A @ M @ B" "equal_range xs e = (length A, length A + length M)"
    "\<forall>a \<in> set A. End a \<le> Offset e"
    "\<forall>m \<in> set M. Offset e < End m \<and> Offset m < End e"
    "\<forall>b \<in> set B. End e \<le> Offset b"
proof
  let ?P = "\<lambda>i. End i \<le> Offset e" and ?Q = "\<lambda>i. \<not> End e \<le> Offset i"
  let ?R = "dropWhile ?P xs"
  show "xs = takeWhile ?P xs @ takeWhile ?Q ?R @ dropWhile ?Q ?R" by simp
  have "drop (length (takeWhile ?P xs)) xs = ?R" by (simp add: dropWhile_eq_drop)
  then show "equal_range xs e = (length (takeWhile ?P xs), length (takeWhile ?P xs) + length (takeWhile ?Q ?R))"
    by (simp add: equal_range_def Let_def)
  have "interval_inv (takeWhile ?P xs @ ?R)" using assms(1) by simp
  then have R: "interval_inv ?R" unfolding interval_inv_append by blast
  show "\<forall>a \<in> set (takeWhile ?P xs). End a \<le> Offset e" by (auto dest: set_takeWhileD)
  show "\<forall>m \<in> set (takeWhile ?Q ?R). Offset e < End m \<and> Offset m < End e"
    using takeWhile_end [OF assms(1), of "Offset e"]
    by (auto dest: set_takeWhileD simp: not_le)
  show "\<forall>b \<in> set (dropWhile ?Q ?R). End e \<le> Offset b"
    using takeWhile_start [OF R] .
qed

lemma Insert_disjoint:
  assumes "equal_range (A @ B) e = (length A, length A)" "Offset e < End e"
  shows "Insert (A @ B) e = A @ e # B"
  using assms by (auto simp: Insert_def)

lemma Insert_merge:
  assumes "equal_range (A @ (m # M) @ B) e = (length A, length A + length (m # M))" "Offset e < End e"
  shows "Insert (A @ (m # M) @ B) e =
    A @ m\<lparr>Offset := min (Offset e) (Offset m), End := max (End (last (m # M))) (End e)\<rparr> # B"
proof -
  have "(A @ (m # M) @ B) ! (length A + length (m # M) - 1) = last (m # M)"
    by (simp add: nth_append last_conv_nth)
  with assms show ?thesis
    by (auto simp: Insert_def Let_def nth_append list_update_append)
qed

lemma sorted_bounds:
  assumes "interval_inv (m # M)" "x \<in> set (m # M)"
  shows "Offset m \<le> Offset x" "End x \<le> End (last (m # M))"
proof -
  have m: "Offset m < End m" using assms(1) by (simp add: interval_inv_Cons)
  show "Offset m \<le> Offset x"
  proof (cases "x = m")
    case False
    with assms have "End m \<le> Offset x" by (auto simp: interval_inv_Cons before_def)
    with m show ?thesis by order
  qed simp
  show "End x \<le> End (last (m # M))"
  proof (cases "x = last (m # M)")
    case False
    have "m # M = butlast (m # M) @ [last (m # M)]" by (metis append_butlast_last_id list.distinct(1))
    with False assms have "x \<in> set (butlast (m # M))" "interval_inv (butlast (m # M) @ [last (m # M)])"
      by (metis Un_iff empty_iff list.set(1,2) insert_iff set_append)+
    then have "End x \<le> Offset (last (m # M))" "Offset (last (m # M)) < End (last (m # M))"
      unfolding interval_invs before_def by simp_all
    then show ?thesis by order
  qed simp
qed

lemma points_merge:
  assumes "interval_inv (m # M)" "\<forall>x \<in> set (m # M). Offset e < End x \<and> Offset x < End e"
  shows "points \<lparr>Offset = min (Offset e) (Offset m), End = max (End (last (m # M))) (End e)\<rparr> = covered (m # M) \<union> points e"
proof -
  let ?l = "last (m # M)"
  have l: "?l \<in> set (m # M)" by simp
  show ?thesis (is "?L = ?R")
  proof
    show "?R \<subseteq> ?L"
      using sorted_bounds [OF assms(1)]
      by (force simp: covered_def points_def min_le_iff_disj less_max_iff_disj simp del: set_simps)
    show "?L \<subseteq> ?R"
    proof
      fix p
      assume p: "p \<in> ?L"
      consider "Offset e \<le> p \<and> p < End e" | "p < Offset e" | "End e \<le> p" by force
      then show "p \<in> ?R"
      proof cases
        case 2
        with p assms(2) have "p \<in> points m" by (auto simp: points_def min_le_iff_disj)
        then show ?thesis by simp
      next
        case 3
        with p assms(2) l have "p \<in> points ?l" by (fastforce simp: points_def less_max_iff_disj)
        with l show ?thesis unfolding covered_def by blast
      qed (simp add: points_def)
    qed
  qed
qed



lemma Insert_cases:
  assumes "interval_inv xs" "Offset e < End e"
  obtains A i M B where "xs = A @ M @ B" "Insert xs e = A @ i # B" "points i = covered M \<union> points e"
    "Offset i < End i"
    "Offset e \<le> Offset i \<or> (\<exists>m \<in> set M. Offset m \<le> Offset i)" 
    "End i \<le> End e \<or> (\<exists>m \<in> set M. End i \<le> End m)" 
    "\<forall>a \<in> set A. End a \<le> Offset e" "\<forall>b \<in> set B. End e \<le> Offset b"
proof -
  from equal_range_split [OF assms] obtain A M B where s: "xs = A @ M @ B"
    "equal_range xs e = (length A, length A + length M)"
    "\<forall>a \<in> set A. End a \<le> Offset e" "\<forall>m \<in> set M. Offset e < End m \<and> Offset m < End e"
    "\<forall>b \<in> set B. End e \<le> Offset b" .
  show ?thesis
  proof (cases M)
    case Nil
    with s assms Insert_disjoint [of A B e] show ?thesis by (intro that [of A M B e]) simp_all
  next
    case (Cons m M')
    let ?i = "m\<lparr>Offset := min (Offset e) (Offset m), End := max (End (last M)) (End e)\<rparr>"
    have inv: "interval_inv (m # M')" using assms(1) s(1) Cons by (simp add: interval_invs)
    have p: "points ?i = covered M \<union> points e"
      using points_merge [OF inv] s(4) Cons by (simp add: points_def)
    show ?thesis
    proof (rule that [of A M B ?i])
      show "Offset ?i < End ?i" using assms(2) by (auto simp: min_less_iff_disj less_max_iff_disj)
      show "Offset e \<le> Offset ?i \<or> (\<exists>m \<in> set M. Offset m \<le> Offset ?i)"
        using Cons by (auto simp: min_def)
      show "End ?i \<le> End e \<or> (\<exists>m \<in> set M. End ?i \<le> End m)"
        using Cons by (auto simp: max_def)
      show "Insert xs e = A @ ?i # B" using Insert_merge [of A m M' B e] s assms(2) Cons by simp
    qed (use s p in auto)
  qed
qed

lemma Insert_correct:
  assumes "interval_inv xs" "Offset e < End e"
  shows "interval_inv (Insert xs e)" "covered (Insert xs e) = covered xs \<union> points e"
proof -
  from Insert_cases [OF assms] obtain A i M B where s: "xs = A @ M @ B" "Insert xs e = A @ i # B"
    "points i = covered M \<union> points e" "Offset i < End i"
    "Offset e \<le> Offset i \<or> (\<exists>m \<in> set M. Offset m \<le> Offset i)" 
    "End i \<le> End e \<or> (\<exists>m \<in> set M. End i \<le> End m)" 
    "\<forall>a \<in> set A. End a \<le> Offset e" "\<forall>b \<in> set B. End e \<le> Offset b" .
  show "covered (Insert xs e) = covered xs \<union> points e" using s(1-3) by auto
  have "End a \<le> Offset i" if "a \<in> set A" for a
    using s(5) s(7) that assms(1) unfolding s(1) interval_invs before_def by (metis UnI1 order.trans set_append)
  moreover have "End i \<le> Offset b" if "b \<in> set B" for b
    using s(6) s(8) that assms(1) unfolding s(1) interval_invs before_def by (meson order.trans)
  ultimately show "interval_inv (Insert xs e)"
    using assms(1) s(4) unfolding s(2) unfolding s(1) interval_invs before_def by auto
qed

definition clip :: "Interval \<Rightarrow> Interval \<Rightarrow> intervals" where
  "clip e i = filter (\<lambda>i. Offset i < End i)
     [i\<lparr>End := min (End i) (Offset e)\<rparr>, i\<lparr>Offset := max (Offset i) (End e)\<rparr>]"


lemma clip_overlap:
  assumes "Offset e < End m" "Offset m < End e"
  shows "clip e m = (if Offset m < Offset e then [m\<lparr>End := Offset e\<rparr>] else []) @
    (if End e < End m then [m\<lparr>Offset := End e\<rparr>] else [])"
  using assms by (simp add: clip_def min_absorb2 max_absorb2)

lemma Remove_single:
  assumes eq: "equal_range (A @ m # B) e = (length A, length A + 1)"
    and e: "Offset e < End e" and m: "Offset e < End m" "Offset m < End e"
  shows "Remove (A @ m # B) e = A @ clip e m @ B"
  using assms by (auto simp: Remove_def Let_def clip_overlap nth_append list_update_append)

lemma Remove_several:
  assumes eq: "equal_range (A @ m # N @ l # B) e = (length A, length A + length N + 2)"
    and e: "Offset e < End e" and m: "Offset e < End m" "Offset l < End e" "End m \<le> End e" "Offset e \<le> Offset l"
    "Offset m < End e" "Offset e < End l"
  shows "Remove (A @ m # N @ l # B) e = A @ clip e m @ clip e l @ B"
proof -
  have i: "(A @ m # N @ l # B) ! length A = m" "(A @ m # N @ l # B) ! Suc (length A + length N) = l"
   by (simp_all add: nth_append)
  show ?thesis
  using assms by (auto simp: i Remove_def Let_def clip_overlap nth_append list_update_append)
qed

lemma Remove_split:
  assumes inv: "interval_inv M" and eq: "equal_range (A @ M @ B) e = (length A, length A + length M)"
    and e: "Offset e < End e" and M: "\<forall>m \<in> set M. Offset e < End m \<and> Offset m < End e"
  shows "Remove (A @ M @ B) e = A @ concat (map (clip e) M) @ B"
proof (cases M)
  case Nil
  with eq show ?thesis by (simp add: Remove_def)
next
  case (Cons m M')
  show ?thesis
  proof (cases M' rule: rev_cases)
    case Nil
    with Cons Remove_single [of A m B e] eq e M show ?thesis by simp
  next
    case (snoc N l)
    from inv have b: "Offset m < End m" "End m \<le> Offset l" "\<forall>n \<in> set N. End m \<le> Offset n \<and> End n \<le> Offset l"
      "Offset l < End l" "\<forall>n \<in> set N. Offset n < End n"
      unfolding Cons snoc interval_inv_def before_def by (auto simp: sorted_wrt_append)
    from M have o: "Offset e < End m" "Offset l < End e" "Offset m < End e" "Offset e < End l"
      unfolding Cons snoc by auto
    have mid: "clip e n = []" if n: "n \<in> set N" for n
    proof -
      from b(3) n have "End m \<le> Offset n" "End n \<le> Offset l" by auto
      with o have "\<not> Offset n < Offset e" "\<not> End e < End n" by order+
      moreover from n M have "Offset e < End n" "Offset n < End e" unfolding Cons snoc by auto
      ultimately show ?thesis by (simp add: clip_overlap)
    qed
    have "concat (map (clip e) N) = []" using mid by simp
    moreover have "End m \<le> End e" "Offset e \<le> Offset l" using b(2) o by order+
    ultimately show ?thesis
      using Remove_several [of A m N l B e] eq e o unfolding Cons snoc by simp
  qed
qed

lemma covered_clip: "covered (clip e i) = points i - points e" if "Offset e < End e"
  using that by (auto simp: clip_def points_def covered_def not_le not_less)

lemma covered_concat_clip:
  "Offset e < End e \<Longrightarrow> covered (concat (map (clip e) M)) = covered M - points e"
  by (induction M) (auto simp: covered_clip)

lemma clip_within: "j \<in> set (clip e i) \<Longrightarrow> Offset j < End j \<and> Offset i \<le> Offset j \<and> End j \<le> End i"
  by (auto simp: clip_def split: if_splits)

lemma interval_inv_clip: "Offset e < End e \<Longrightarrow> interval_inv (clip e i)"
  by (auto simp: clip_def interval_inv_Cons before_def intro: min.coboundedI2 max.coboundedI2)

lemma interval_inv_concat_clip:
  assumes "interval_inv M" "Offset e < End e"
  shows "interval_inv (concat (map (clip e) M))"
  using assms(1)
proof (induction M)
  case (Cons m M)
  have "before x y" if "x \<in> set (clip e m)" "z \<in> set M" "y \<in> set (clip e z)" for x y z
  proof -
    have "End m \<le> Offset z" using Cons.prems that by (simp add: interval_inv_Cons before_def)
    with clip_within [OF that(1)] clip_within [OF that(3)] show ?thesis unfolding before_def by (meson order.trans)
  qed
  with Cons interval_inv_clip [OF assms(2), of m] show ?case
    by (auto simp: interval_invs)
qed simp

lemma Remove_correct:
  assumes inv: "interval_inv xs" and e: "Offset e < End e"
  shows "interval_inv (Remove xs e)" "covered (Remove xs e) = covered xs - points e"
proof -
  from equal_range_split [OF assms] obtain A M B where s: "xs = A @ M @ B"
    "equal_range xs e = (length A, length A + length M)"
    "\<forall>a \<in> set A. End a \<le> Offset e" "\<forall>m \<in> set M. Offset e < End m \<and> Offset m < End e"
    "\<forall>b \<in> set B. End e \<le> Offset b" .
  from inv have M: "interval_inv M" unfolding s(1) interval_invs by simp
  have r: "Remove xs e = A @ concat (map (clip e) M) @ B"
    using Remove_split [OF M, of A B e] s e by simp
  have "points a \<inter> points e = {}" if "a \<in> set A \<union> set B" for a
    using s(3,5) that by (force simp: points_def)
  then have "covered A - points e = covered A" "covered B - points e = covered B"
    unfolding covered_def by blast+
  then show "covered (Remove xs e) = covered xs - points e"
    unfolding r unfolding s(1) using covered_concat_clip [OF e, of M] by auto
  have w: "\<exists>m \<in> set M. Offset m \<le> Offset x \<and> End x \<le> End m" if "x \<in> set (concat (map (clip e) M))" for x
    using that clip_within by force
  have "before a x" if "a \<in> set A" "x \<in> set (concat (map (clip e) M))" for a x
    using w [OF that(2)] that(1) inv unfolding s(1) interval_invs before_def
    by (metis Un_iff order.trans set_append)
  moreover have "before x b" if "b \<in> set B" "x \<in> set (concat (map (clip e) M))" for b x
    using w [OF that(2)] that(1) inv unfolding s(1) interval_invs before_def
    by (metis order.trans)
  ultimately show "interval_inv (Remove xs e)"
    using inv interval_inv_concat_clip [OF M e] unfolding r unfolding s(1) interval_inv_append
    by auto
qed

text \<open>\<open>upper_bound\<close> finds the first interval that ends after the value.\<close>

lemma upper_bound_split:
  assumes "interval_inv xs"
  obtains (past) "upper_bound xs p = length xs" "\<forall>i \<in> set xs. End i \<le> p"
    | (found) A i B where "xs = A @ i # B" "upper_bound xs p = length A" "xs ! length A = i"
      "\<forall>a \<in> set A. End a \<le> p" "p < End i" "\<forall>b \<in> set B. End i \<le> Offset b"
proof (cases "dropWhile (\<lambda>i. \<not> p < End i) xs")
  case Nil
  then have a: "\<forall>i \<in> set xs. End i \<le> p" by (simp add: dropWhile_eq_Nil_conv not_less)
  then have "takeWhile (\<lambda>i. \<not> p < End i) xs = xs" by (simp add: takeWhile_eq_all_conv not_less)
  with a past show ?thesis by (simp add: upper_bound_def)
next
  case (Cons i B)
  let ?A = "takeWhile (\<lambda>i. \<not> p < End i) xs"
  have x: "xs = ?A @ i # B" by (metis Cons takeWhile_dropWhile_id)
  show ?thesis
  proof (rule found [of ?A i B])
    show "xs ! length ?A = i" by (metis x nth_append_length)
    show "\<forall>a \<in> set ?A. End a \<le> p" by (auto dest: set_takeWhileD simp: not_less)
    show "p < End i" using hd_dropWhile [of "\<lambda>i. \<not> p < End i" xs] Cons by simp
    have "interval_inv (?A @ i # B)" using assms x by simp
    then show "\<forall>b \<in> set B. End i \<le> Offset b" unfolding interval_invs before_def by simp
  qed (use x in \<open>simp_all add: upper_bound_def\<close>)
qed

lemma Query_Enclosed:
  assumes "interval_inv xs"
  shows "Enclosed (Query xs p) \<longleftrightarrow> p \<in> covered xs"
  using assms
proof (cases rule: upper_bound_split [of xs p])
  case past
  then show ?thesis by (auto simp: Query_def covered_def points_def)
next
  case (found A i B)
  have "p \<notin> covered A" using found(4) by (auto simp: covered_def points_def)
  moreover have "p \<notin> covered B" 
    using found(5,6) by (fastforce simp: covered_def points_def dest: order.strict_trans2)
  ultimately have "p \<in> covered xs \<longleftrightarrow> Offset i \<le> p" 
    using found(5) unfolding found(1) by (simp add: points_def)
  then show ?thesis using found(1-3) by (auto simp: Query_def not_less Let_def)
qed

lemma Query_hit:
  assumes "interval_inv xs" "Enclosed (Query xs p)"
  shows "QInterval (Query xs p) \<in> set xs \<and> p \<in> points (QInterval (Query xs p)) \<and>
    QSize (Query xs p) = End (QInterval (Query xs p)) - p"
  using assms(1)
proof (cases rule: upper_bound_split [of xs p])
  case past
  then show ?thesis using assms(2) by (simp add: Query_def)
next
  case (found A i B)
  have "Offset i \<le> p" using assms(2) found(1-3) by (auto simp: Query_def not_less Let_def split: if_splits)
  then show ?thesis using found(1-3,5) by (auto simp: Query_def points_def Let_def)
qed

lemma Query_miss:
  assumes "interval_inv xs" "\<not> Enclosed (Query xs p)" "QSize (Query xs p) \<noteq> 0"
  shows "QInterval (Query xs p) \<in> set xs \<and> Offset (QInterval (Query xs p)) = p + QSize (Query xs p)"
  using assms(1)
proof (cases rule: upper_bound_split [of xs p])
  case past
  then show ?thesis using assms(3) by (simp add: Query_def)
next
  case (found A i B)
  have "p < Offset i" using assms(2) found(1-3) by (auto simp: Query_def not_less Let_def split: if_splits)
  then show ?thesis using found(1-3) by (auto simp: Query_def Let_def)
qed

lemma Query_gap:
  assumes "interval_inv xs" "\<not> Enclosed (Query xs p)"
  shows "if QSize (Query xs p) = 0 then covered xs \<inter> {p..} = {}
         else covered xs \<inter> {p ..< p + QSize (Query xs p)} = {} \<and> p + QSize (Query xs p) \<in> covered xs"
  using assms(1)
proof (cases rule: upper_bound_split [of xs p])
  case past
  then show ?thesis
    by (fastforce simp: Query_def covered_def points_def Let_def dest: order.strict_trans2)
next
  case (found A i B)
  have off: "p < Offset i" using assms(2) found(1-3) by (auto simp: Query_def not_less Let_def split: if_splits)
  then have q: "QSize (Query xs p) = Offset i - p" 
    using found(1-3) by (auto simp: Query_def Let_def)
  have i: "Offset i < End i" using assms(1) unfolding found(1) interval_invs by simp
  have "x \<notin> points a" if "a \<in> set xs" "p \<le> x" "x < Offset i" for a x
  proof -
    have "a \<in> set A \<or> a = i \<or> a \<in> set B" using that(1) unfolding found(1) by auto
    then consider "a \<in> set A" | "a = i" | "a \<in> set B" by blast
    then show ?thesis
    proof cases
      case 1
      with found(4) have "End a \<le> p" by blast
      then have "End a \<le> x" using that(2) by (rule order.trans)
      then show ?thesis by (simp add: points_def leD)
    next
      case 2
      with that(3) show ?thesis by (simp add: points_def leD)
    next
      case 3
      with found(6) have "End i \<le> Offset a" by blast
      with that(3) i have "\<not> Offset a \<le> x" by order
      then show ?thesis by (simp add: points_def)
    qed
  qed
  then have "covered xs \<inter> {p ..< Offset i} = {}" by (auto simp: covered_def)
  moreover have "Offset i \<in> covered xs" using i found(1) by (auto simp: points_def)
  moreover have "Offset i \<noteq> p" using off by order
  ultimately show ?thesis unfolding q by simp
qed

lemma Intersect_iff:
  assumes "interval_inv xs" "Offset e < End e"
  shows "Intersect xs e \<longleftrightarrow> covered xs \<inter> points e \<noteq> {}"
  using assms(1)
proof (cases rule: upper_bound_split [of xs "Offset e"])
  case past
  then show ?thesis by (fastforce simp: Intersect_def covered_def points_def dest: order.strict_trans2)
next
  case (found A i B)
  have inv: "Offset i < End i" "\<forall>b \<in> set B. Offset b < End b"
    using assms(1) unfolding found(1) interval_inv_def by simp_all
  have A: "covered A \<inter> points e = {}"
    using found(4) by (fastforce simp: covered_def points_def dest: order.strict_trans2)
  show ?thesis
  proof (cases "Offset i < End e")
    case True
    have "max (Offset i) (Offset e) \<in> points i \<inter> points e"
      using True found(5) inv assms(2) by (simp add: points_def)
    then show ?thesis using True found(1-3) by (auto simp: Intersect_def Let_def)
  next
    case False
    have "points b \<inter> points e = {}" if b: "b \<in> insert i (set B)" for b
    proof -
      have "End e \<le> Offset b" using b found(6) False inv(1) by (auto simp: not_less intro: order.trans)
      then show ?thesis by (auto simp: points_def)
    qed
    then have "covered (i # B) \<inter> points e = {}" by (auto simp: covered_def)
    with A False found(1-3) show ?thesis by (auto simp: Intersect_def Let_def)
  qed
qed

lemma Contains_iff:
  assumes "interval_inv xs" "Offset e < End e"
  shows "Contains xs e \<longleftrightarrow> (\<exists>i \<in> set xs. points e \<subseteq> points i)"
proof -
  have sub: "points e \<subseteq> points i \<longleftrightarrow> Offset i \<le> Offset e \<and> End e \<le> End i" for i
    using assms(2) by (auto simp: points_def ivl_subset)
  show ?thesis
    using assms(1)
  proof (cases rule: upper_bound_split [of xs "Offset e"])
    case past
    then show ?thesis using assms(2) unfolding sub by (fastforce simp: Contains_def dest: order.strict_trans2 order.trans)
  next
    case (found A i B)
    have "\<not> points e \<subseteq> points a" if "a \<in> set A" for a
      using found(4) that assms(2) unfolding sub by (fastforce dest: order.strict_trans2)
    moreover have "\<not> points e \<subseteq> points b" if "b \<in> set B" for b
      using found(5,6) that unfolding sub by (fastforce dest: order.strict_trans2)
    ultimately have "(\<exists>j \<in> set xs. points e \<subseteq> points j) \<longleftrightarrow> points e \<subseteq> points i"
      using found(1) by auto
    then show ?thesis using found(1-3) unfolding sub by (auto simp: Contains_def Let_def)
  qed
qed

section \<open>The interface\<close>

text \<open>The interval list provides the interface of \<open>RangeStore\<close>.\<close>

definition proper :: "Interval \<Rightarrow> bool" where
  "proper e \<longleftrightarrow> Offset e \<le> End e"

lemma empty_entry:
  "Offset e = End e \<Longrightarrow> Insert xs e = xs" "Offset e = End e \<Longrightarrow> Remove xs e = xs"
  "Offset e = End e \<Longrightarrow> points e = {}"
  by (simp_all add: Insert_def Remove_def points_def)

interpretation interval_list: range_store Insert Remove proper points covered interval_inv
proof unfold_locales
  fix s e
  assume inv: "interval_inv s" and "proper e"
  then consider "Offset e = End e" | "Offset e < End e" by (auto simp: proper_def le_less)
  then show "interval_inv (Insert s e)" "covered (Insert s e) = covered s \<union> points e"
    "interval_inv (Remove s e)" "covered (Remove s e) = covered s - points e"
    using Insert_correct [OF inv] Remove_correct [OF inv] inv by (cases; simp add: empty_entry)+
qed

section \<open>Properties\<close>

text \<open>C7: Starting from the empty list, any sequence of \<open>Insert\<close> and \<open>Remove\<close> calls with
  intervals whose offset does not exceed their end keeps the list sorted, disjoint and free of
  empty intervals, and the addresses it covers are those the same sequence of set unions and
  differences gives.\<close>

theorem interval_list_refines_set:
  assumes "\<forall>op \<in> set ops. Offset (range_op_entry op) \<le> End (range_op_entry op)"
  shows "interval_inv (foldl (run_op Insert Remove) [] ops) \<and>
    covered (foldl (run_op Insert Remove) [] ops) =
      foldl (run_op (\<lambda>c e. c \<union> points e) (\<lambda>c e. c - points e)) {} ops"
  using interval_list.run_refines [of "[]" ops] assms by (simp add: proper_def)

theorem interval_list_refines_set_witness:
  "covered (foldl (run_op Insert Remove) [] [Add \<lparr>Offset = 0, End = 10\<rparr>, Del \<lparr>Offset = 3, End = 5\<rparr>])
     = {0..<10} - {3..<5}"
  using interval_list_refines_set [of "[Add \<lparr>Offset = 0, End = 10\<rparr>, Del \<lparr>Offset = 3, End = 5\<rparr>]"]
  by (simp add: points_def)

text \<open>C8: On such a list \<open>Query\<close> reports an address enclosed exactly when it is covered, and then
  returns the interval of the list that holds it and the distance to the end of that interval. Otherwise
  the size is the distance to the next covered address, with nothing covered between, where the interval
  returned begins, or zero when nothing is covered from there on. \<open>Intersect\<close> holds exactly when the
  entry shares an address with the list, \<open>Contains\<close> exactly when one single interval of the list
  contains it.\<close>

theorem interval_queries:
  assumes "interval_inv xs" "Offset e < End e"
  shows "(Enclosed (Query xs p) \<longleftrightarrow> p \<in> covered xs) \<and>
    (Enclosed (Query xs p) \<longrightarrow>
      QInterval (Query xs p) \<in> set xs \<and> p \<in> points (QInterval (Query xs p)) \<and>
      QSize (Query xs p) = End (QInterval (Query xs p)) - p) \<and>
    (\<not> Enclosed (Query xs p) \<longrightarrow>
      (if QSize (Query xs p) = 0 then covered xs \<inter> {p..} = {}
       else covered xs \<inter> {p ..< p + QSize (Query xs p)} = {} \<and> p + QSize (Query xs p) \<in> covered xs \<and>
         QInterval (Query xs p) \<in> set xs \<and> Offset (QInterval (Query xs p)) = p + QSize (Query xs p))) \<and>
    (Intersect xs e \<longleftrightarrow> covered xs \<inter> points e \<noteq> {}) \<and>
    (Contains xs e \<longleftrightarrow> (\<exists>i \<in> set xs. points e \<subseteq> points i))"
proof (intro conjI impI)
  show "if QSize (Query xs p) = 0 then covered xs \<inter> {p..} = {}
       else covered xs \<inter> {p ..< p + QSize (Query xs p)} = {} \<and> p + QSize (Query xs p) \<in> covered xs \<and>
         QInterval (Query xs p) \<in> set xs \<and> Offset (QInterval (Query xs p)) = p + QSize (Query xs p)"
    if "\<not> Enclosed (Query xs p)"
    using Query_gap [OF assms(1) that] Query_miss [OF assms(1) that] by (auto split: if_splits)
qed (use Query_Enclosed [OF assms(1), of p] Query_hit [OF assms(1), of p] Intersect_iff [OF assms] Contains_iff [OF assms] in \<open>auto split: if_splits\<close>)

theorem interval_queries_witness:
  "Intersect [\<lparr>Offset = 0, End = 4\<rparr>, \<lparr>Offset = 8, End = 12\<rparr>] \<lparr>Offset = 2, End = 9\<rparr> \<longleftrightarrow>
     covered [\<lparr>Offset = 0, End = 4\<rparr>, \<lparr>Offset = 8, End = 12\<rparr>] \<inter> points \<lparr>Offset = 2, End = 9\<rparr> \<noteq> {}"
  using interval_queries [of "[\<lparr>Offset = 0, End = 4\<rparr>, \<lparr>Offset = 8, End = 12\<rparr>]" "\<lparr>Offset = 2, End = 9\<rparr>" 0]
  by (simp add: interval_inv_def before_def)

text \<open>
  Two adjacent intervals are never joined by \<open>Insert\<close>, so \<open>Contains\<close> denies an entry that is
  wholly covered but spans both.
\<close>

lemma Contains_misses_adjacent:
  "let xs = Insert (Insert [] \<lparr>Offset = 0, End = 16\<rparr>) \<lparr>Offset = 16, End = 32\<rparr>;
       e = \<lparr>Offset = 8, End = 24\<rparr>
   in points e \<subseteq> covered xs \<and> \<not> Contains xs e"
proof -
  have x: "Insert (Insert [] \<lparr>Offset = 0, End = 16\<rparr>) \<lparr>Offset = 16, End = 32\<rparr>
      = [\<lparr>Offset = 0, End = 16\<rparr>, \<lparr>Offset = 16, End = 32\<rparr>]"
    by (simp add: Insert_def equal_range_def Let_def)
  have "{8 ..< 24} \<subseteq> {0 ..< 16} \<union> {16 ..< 32 :: u64}"
  proof
    fix x :: u64
    assume x: "x \<in> {8 ..< 24}"
    then have "x < 24" by simp
    also have "(24 :: u64) < 32" by simp
    finally have "x < 32" .
    with x show "x \<in> {0 ..< 16} \<union> {16 ..< 32}" by (auto simp: not_less)
  qed
  then show ?thesis
    unfolding x Let_def by (simp add: points_def Contains_def upper_bound_def)
qed

end
