(* ===== verification/FlexBitSet.thy ===== *)
theory FlexBitSet
  imports RangeStore "HOL-Library.Monad_Syntax"
begin

text \<open>
  The bit set of \<open>FEXCore/Source/Utils/Allocator/FlexBitSet.h\<close> at the element type
  \<open>uint64_t\<close> of its users, with the alignment helpers of \<open>FEXCore/Utils/MathUtils.h\<close>. The
  flexible array member is a list of words; an access past its end, which the code does not
  check, is \<open>None\<close>. Elements are \<open>size_t\<close>, so their arithmetic wraps.
\<close>

section \<open>The operations\<close>

abbreviation (input) MinimumSizeBits :: u64 where "MinimumSizeBits \<equiv> 64"

type_synonym bitset = "u64 list"

definition element_mask :: "u64 \<Rightarrow> u64" where
  "element_mask Element = push_bit (unat (Element mod MinimumSizeBits)) 1"

definition load_element :: "bitset \<Rightarrow> u64 \<Rightarrow> u64 option" where
  "load_element Memory Element =
     (let i = unat (Element div MinimumSizeBits)
      in if i < length Memory then Some (Memory ! i) else None)"

definition store_element :: "bitset \<Rightarrow> u64 \<Rightarrow> u64 \<Rightarrow> bitset" where
  "store_element Memory Element v = Memory[unat (Element div MinimumSizeBits) := v]"

definition Get :: "bitset \<Rightarrow> u64 \<Rightarrow> bool option" where
  "Get Memory Element =
     map_option (\<lambda>w. w AND element_mask Element \<noteq> 0) (load_element Memory Element)"

definition Set :: "bitset \<Rightarrow> u64 \<Rightarrow> bitset option" where
  "Set Memory Element =
     map_option (\<lambda>w. store_element Memory Element (w OR element_mask Element))
       (load_element Memory Element)"

definition Clear :: "bitset \<Rightarrow> u64 \<Rightarrow> bitset option" where
  "Clear Memory Element =
     map_option (\<lambda>w. store_element Memory Element (w AND NOT (element_mask Element)))
       (load_element Memory Element)"

definition TestAndClear :: "bitset \<Rightarrow> u64 \<Rightarrow> (bool \<times> bitset) option" where
  "TestAndClear Memory Element =
     do { Value \<leftarrow> Get Memory Element;
          w \<leftarrow> load_element Memory Element;
          Some (Value, store_element Memory Element (w AND NOT (element_mask Element))) }"

definition TestAndSet :: "bitset \<Rightarrow> u64 \<Rightarrow> (bool \<times> bitset) option" where
  "TestAndSet Memory Element =
     do { Value \<leftarrow> Get Memory Element;
          w \<leftarrow> load_element Memory Element;
          Some (Value, store_element Memory Element (w OR element_mask Element)) }"

definition SizeInBits :: "u64 \<Rightarrow> u64" where
  "SizeInBits Elements = AlignUp Elements MinimumSizeBits"

definition SizeInBytes :: "u64 \<Rightarrow> u64" where
  "SizeInBytes Elements = SizeInBits Elements div 8"

text \<open>
  \<open>memset\<close> of a byte over the array. The sizes the set passes are whole words.
\<close>

definition memset_words :: "bitset \<Rightarrow> u64 \<Rightarrow> u64 \<Rightarrow> bitset option" where
  "memset_words Memory v bytes =
     (let n = unat (bytes div 8)
      in if n \<le> length Memory then Some (replicate n v @ drop n Memory) else None)"

definition MemClear :: "bitset \<Rightarrow> u64 \<Rightarrow> bitset option" where
  "MemClear Memory Elements = memset_words Memory 0 (SizeInBytes Elements)"

definition MemSet :: "bitset \<Rightarrow> u64 \<Rightarrow> bitset option" where
  "MemSet Memory Elements = memset_words Memory (NOT 0) (SizeInBytes Elements)"

record BitsetScanResults =
  FoundElement :: u64
  FoundHole :: bool

text \<open>
  The inner loops test the \<open>Remaining\<close> elements of the window that starts at
  \<open>CurrentPage - ElementCount + 1\<close>, from its low end up, and of the one that starts at
  \<open>CurrentElement\<close>, from its high end down. They return the \<open>Remaining\<close> they stop at.
\<close>

primrec BackwardScanWindow :: "bitset \<Rightarrow> bool \<Rightarrow> u64 \<Rightarrow> nat \<Rightarrow> nat option" where
  "BackwardScanWindow Memory WantUnset CurrentPage 0 = Some 0"
| "BackwardScanWindow Memory WantUnset CurrentPage (Suc r) =
     do { b \<leftarrow> Get Memory (CurrentPage - of_nat (Suc r) + 1);
          if b = WantUnset then Some (Suc r)
          else BackwardScanWindow Memory WantUnset CurrentPage r }"

primrec ForwardScanWindow :: "bitset \<Rightarrow> bool \<Rightarrow> u64 \<Rightarrow> nat \<Rightarrow> nat option" where
  "ForwardScanWindow Memory WantUnset CurrentElement 0 = Some 0"
| "ForwardScanWindow Memory WantUnset CurrentElement (Suc r) =
     do { b \<leftarrow> Get Memory (CurrentElement + of_nat (Suc r) - 1);
          if b = WantUnset then Some (Suc r)
          else ForwardScanWindow Memory WantUnset CurrentElement r }"

text \<open>
  The outer loops. Nothing in the code bounds them, so they are partial functions: a loop that
  does not end, a read outside the array and a failed assertion are all \<open>None\<close>.
\<close>

partial_function (option) BackwardScanLoop ::
  "bitset \<Rightarrow> bool \<Rightarrow> u64 \<Rightarrow> u64 \<Rightarrow> u64 \<Rightarrow> u64 \<Rightarrow> bool \<Rightarrow> BitsetScanResults option" where
  "BackwardScanLoop Memory WantUnset BeginningElement ElementCount FinalElement CurrentPage Hole =
     (if CurrentPage \<ge> FinalElement then
        if \<not> (CurrentPage \<le> BeginningElement \<and> CurrentPage \<ge> FinalElement) then None
        else do {
          Remaining \<leftarrow> BackwardScanWindow Memory WantUnset CurrentPage (unat ElementCount);
          if Remaining \<noteq> 0 then
            BackwardScanLoop Memory WantUnset BeginningElement ElementCount FinalElement
              (CurrentPage - of_nat Remaining) (Hole \<or> of_nat Remaining \<noteq> ElementCount)
          else Some \<lparr>FoundElement = CurrentPage - ElementCount + 1, FoundHole = Hole\<rparr> }
      else Some \<lparr>FoundElement = NOT 0, FoundHole = Hole\<rparr>)"

definition BackwardScanForRange ::
  "bitset \<Rightarrow> bool \<Rightarrow> u64 \<Rightarrow> u64 \<Rightarrow> u64 \<Rightarrow> BitsetScanResults option" where
  "BackwardScanForRange Memory WantUnset BeginningElement ElementCount MinimumElement =
     (let FinalElement = MinimumElement + ElementCount - 1
      in BackwardScanLoop Memory WantUnset BeginningElement ElementCount FinalElement
           BeginningElement False)"

partial_function (option) ForwardScanLoop ::
  "bitset \<Rightarrow> bool \<Rightarrow> u64 \<Rightarrow> u64 \<Rightarrow> u64 \<Rightarrow> u64 \<Rightarrow> bool \<Rightarrow> BitsetScanResults option" where
  "ForwardScanLoop Memory WantUnset BeginningElement ElementCount FinalElement CurrentElement Hole =
     (if CurrentElement \<le> FinalElement then
        if \<not> (CurrentElement \<ge> BeginningElement \<and> CurrentElement \<le> FinalElement) then None
        else do {
          Remaining \<leftarrow> ForwardScanWindow Memory WantUnset CurrentElement (unat ElementCount);
          if Remaining \<noteq> 0 then
            ForwardScanLoop Memory WantUnset BeginningElement ElementCount FinalElement
              (CurrentElement + of_nat Remaining) (Hole \<or> of_nat Remaining \<noteq> ElementCount)
          else Some \<lparr>FoundElement = CurrentElement, FoundHole = Hole\<rparr> }
      else Some \<lparr>FoundElement = NOT 0, FoundHole = Hole\<rparr>)"

definition ForwardScanForRange ::
  "bitset \<Rightarrow> bool \<Rightarrow> u64 \<Rightarrow> u64 \<Rightarrow> u64 \<Rightarrow> BitsetScanResults option" where
  "ForwardScanForRange Memory WantUnset BeginningElement ElementCount ElementsInSet =
     (let FinalElement = ElementsInSet - ElementCount + 1
      in ForwardScanLoop Memory WantUnset BeginningElement ElementCount FinalElement
           BeginningElement False)"

section \<open>What a bit set stands for\<close>

definition member :: "bitset \<Rightarrow> nat \<Rightarrow> bool" where
  "member M e \<longleftrightarrow> e < 64 * length M \<and> bit (M ! (e div 64)) (e mod 64)"

definition elements :: "bitset \<Rightarrow> nat set" where
  "elements M = {e. member M e}"

lemma element_index:
  "unat (Element div (64 :: u64)) = unat Element div 64"
  "unat (Element mod (64 :: u64)) = unat Element mod 64"
  by (simp_all add: unat_div unat_mod)

lemma div_64_less: "e div 64 < n \<longleftrightarrow> e < 64 * n" for e n :: nat
  by (simp add: div_less_iff_less_mult mult.commute)

lemma bit_element_mask: "bit (element_mask e) k \<longleftrightarrow> k = unat e mod 64"
  by (auto simp: element_mask_def element_index bit_simps)

lemma and_mask_zero: "w AND element_mask e = 0 \<longleftrightarrow> \<not> bit w (unat e mod 64)"
proof
  assume "w AND element_mask e = 0"
  then have "\<not> bit (w AND element_mask e) (unat e mod 64)" by simp
  then show "\<not> bit w (unat e mod 64)" by (simp add: bit_and_iff bit_element_mask)
next
  assume "\<not> bit w (unat e mod 64)"
  then show "w AND element_mask e = 0"
    by (intro bit_word_eqI) (auto simp: bit_and_iff bit_element_mask)
qed

lemma load_element_simp:
  "load_element M e = (if unat e < 64 * length M then Some (M ! (unat e div 64)) else None)"
  by (simp add: load_element_def element_index Let_def div_64_less)

lemma Get_member: "unat e < 64 * length M \<Longrightarrow> Get M e = Some (member M (unat e))"
  by (simp add: Get_def load_element_simp member_def and_mask_zero)

lemma Get_None: "\<not> unat e < 64 * length M \<Longrightarrow> Get M e = None"
  by (simp add: Get_def load_element_simp)

lemma same_index: "x = y \<longleftrightarrow> x div 64 = y div 64 \<and> x mod 64 = y mod 64" for x y :: nat
  by (metis mult_div_mod_eq)

lemma member_update:
  "member (M[i := v]) k \<longleftrightarrow>
     (if k div 64 = i then k < 64 * length M \<and> bit v (k mod 64) else member M k)"
  by (auto simp: member_def nth_list_update div_64_less)

lemma elements_Set:
  assumes "unat e < 64 * length M"
  shows "\<exists>M'. Set M e = Some M' \<and> length M' = length M \<and> elements M' = insert (unat e) (elements M)"
proof -
  let ?i = "unat e div 64"
  let ?M = "M[?i := (M ! ?i) OR element_mask e]"
  have "member ?M k \<longleftrightarrow> k = unat e \<or> member M k" for k
    using assms unfolding member_update bit_or_iff bit_element_mask same_index [of k "unat e"]
    by (auto simp: member_def simp flip: div_64_less)
  then have "elements ?M = insert (unat e) (elements M)" by (auto simp: elements_def)
  with assms show ?thesis
    by (simp add: Set_def load_element_simp store_element_def element_index)
qed

lemma elements_Clear:
  assumes "unat e < 64 * length M"
  shows "\<exists>M'. Clear M e = Some M' \<and> length M' = length M \<and> elements M' = elements M - {unat e}"
proof -
  let ?i = "unat e div 64"
  let ?M = "M[?i := (M ! ?i) AND NOT (element_mask e)]"
  have "member ?M k \<longleftrightarrow> k \<noteq> unat e \<and> member M k" for k
    using assms unfolding member_update bit_and_iff bit_not_iff bit_element_mask same_index [of k "unat e"]
    by (auto simp: member_def simp flip: div_64_less)
  then have "elements ?M = elements M - {unat e}" by (auto simp: elements_def)
  with assms show ?thesis
    by (simp add: Clear_def load_element_simp store_element_def element_index)
qed

lemma TestAnd_eq:
  "TestAndSet M e = do { b \<leftarrow> Get M e; M' \<leftarrow> Set M e; Some (b, M') }"
  "TestAndClear M e = do { b \<leftarrow> Get M e; M' \<leftarrow> Clear M e; Some (b, M') }"
  by (auto simp: TestAndSet_def TestAndClear_def Get_def Set_def Clear_def load_element_simp)

section \<open>A bit set as a range store\<close>

text \<open>
  On the elements an array holds, \<open>Set\<close> and \<open>Clear\<close> succeed and implement the shared
  interface with single elements as its ranges.
\<close>

definition put :: "bitset \<Rightarrow> u64 \<Rightarrow> bitset" where
  "put M e = (case Set M e of Some M' \<Rightarrow> M' | None \<Rightarrow> M)"

definition cut :: "bitset \<Rightarrow> u64 \<Rightarrow> bitset" where
  "cut M e = (case Clear M e of Some M' \<Rightarrow> M' | None \<Rightarrow> M)"

lemma put_cut:
  assumes "unat e < 64 * length M"
  shows "length (put M e) = length M" "elements (put M e) = elements M \<union> {unat e}"
    "length (cut M e) = length M" "elements (cut M e) = elements M - {unat e}"
proof -
  obtain M' where M': "Set M e = Some M'" "length M' = length M" "elements M' = insert (unat e) (elements M)"
    using elements_Set [OF assms] by blast
  obtain N' where N': "Clear M e = Some N'" "length N' = length M" "elements N' = elements M - {unat e}"
    using elements_Clear [OF assms] by blast
  show "length (put M e) = length M" "elements (put M e) = elements M \<union> {unat e}"
    "length (cut M e) = length M" "elements (cut M e) = elements M - {unat e}"
    by (simp_all add: put_def cut_def M' N')
qed

interpretation bit_set: range_store put cut "\<lambda>e. unat e < 64 * n" "\<lambda>e. {unat e}" elements
  "\<lambda>M. length M = n" for n
  by unfold_locales (simp_all add: put_cut)

section \<open>The scans\<close>

definition free_run :: "bitset \<Rightarrow> bool \<Rightarrow> nat \<Rightarrow> nat \<Rightarrow> bool" where
  "free_run M w s n \<longleftrightarrow> (\<forall>e \<in> {s..<s + n}. member M e \<noteq> w)"

text \<open>
  The starts of the runs of \<open>n\<close> wanted elements between the elements \<open>lo\<close> and \<open>hi\<close>.
\<close>

definition free_runs :: "bitset \<Rightarrow> bool \<Rightarrow> nat \<Rightarrow> nat \<Rightarrow> nat \<Rightarrow> nat set" where
  "free_runs M w n lo hi = {s. lo \<le> s \<and> s + n \<le> Suc hi \<and> free_run M w s n}"

lemma free_runs_finite [simp]: "finite (free_runs M w n lo hi)"
  by (rule finite_subset [of _ "{..Suc hi}"]) (auto simp: free_runs_def)

lemma unat_back:
  assumes "0 < r" "r \<le> Suc (unat (c :: u64))"
  shows "unat (c - of_nat r + 1) = Suc (unat c) - r"
proof -
  obtain k where r: "r = Suc k" using assms(1) gr0_implies_Suc by blast
  then have "c - of_nat r + 1 = c - of_nat k" by simp
  then show ?thesis using assms(2) r by (simp add: unat_minus_nat)
qed

lemma BackwardScanWindow_spec:
  assumes "unat c < 64 * length M" "r \<le> Suc (unat c)"
  shows "\<exists>R \<le> r. BackwardScanWindow M w c r = Some R \<and>
    (\<forall>e. Suc (unat c) - r \<le> e \<and> e < Suc (unat c) - R \<longrightarrow> member M e \<noteq> w) \<and>
    (0 < R \<longrightarrow> member M (Suc (unat c) - R) = w)"
  using assms(2)
proof (induction r)
  case (Suc r)
  let ?p = "Suc (unat c) - Suc r"
  have g: "Get M (c - of_nat (Suc r) + 1) = Some (member M ?p)"
    using Get_member [of "c - of_nat (Suc r) + 1" M] unat_back [of "Suc r" c] Suc.prems assms(1) by simp
  show ?case
  proof (cases "member M ?p = w")
    case True
    then show ?thesis using g by (intro exI [of _ "Suc r"]) auto
  next
    case False
    from Suc obtain R where R: "R \<le> r" "BackwardScanWindow M w c r = Some R"
      "\<And>e. Suc (unat c) - r \<le> e \<and> e < Suc (unat c) - R \<Longrightarrow> member M e \<noteq> w"
      "0 < R \<Longrightarrow> member M (Suc (unat c) - R) = w" by auto
    have "member M e \<noteq> w" if "?p \<le> e" "e < Suc (unat c) - R" for e
      using R(3) [of e] False that Suc.prems by (cases "e = ?p") auto
    then show ?thesis using R g False by (intro exI [of _ R]) auto
  qed
qed auto

lemma ForwardScanWindow_spec:
  assumes "unat c + r \<le> 64 * length M" "64 * length M < 2 ^ 64"
  shows "\<exists>R \<le> r. ForwardScanWindow M w c r = Some R \<and>
    (\<forall>e. unat c + R \<le> e \<and> e < unat c + r \<longrightarrow> member M e \<noteq> w) \<and>
    (0 < R \<longrightarrow> member M (unat c + R - 1) = w)"
  using assms(1)
proof (induction r)
  case (Suc r)
  have "c + of_nat (Suc r) - 1 = c + of_nat r" by simp
  moreover have "unat (c + of_nat r) = unat c + r"
    using Suc.prems assms(2) by (intro unat_plus_nat) simp
  ultimately have g: "Get M (c + of_nat (Suc r) - 1) = Some (member M (unat c + r))"
    using Get_member [of "c + of_nat r" M] Suc.prems by simp
  show ?case
  proof (cases "member M (unat c + r) = w")
    case True
    then show ?thesis using g by (intro exI [of _ "Suc r"]) auto
  next
    case False
    from Suc obtain R where R: "R \<le> r" "ForwardScanWindow M w c r = Some R"
      "\<And>e. unat c + R \<le> e \<and> e < unat c + r \<Longrightarrow> member M e \<noteq> w"
      "0 < R \<Longrightarrow> member M (unat c + R - 1) = w" by auto
    have "member M e \<noteq> w" if "unat c + R \<le> e" "e < unat c + Suc r" for e
      using R(3) [of e] False that by (cases "e = unat c + r") auto
    then show ?thesis using R g False by (intro exI [of _ R]) auto
  qed
qed auto

text \<open>
  A run that ends at or after an unwanted element and starts at or before it is no free run.
\<close>

lemma blocked: "member M p = w \<Longrightarrow> s \<le> p \<Longrightarrow> p < s + n \<Longrightarrow> \<not> free_run M w s n"
  by (auto simp: free_run_def)

definition scan_hole :: "bitset \<Rightarrow> bool \<Rightarrow> nat \<Rightarrow> nat \<Rightarrow> bool \<Rightarrow> bool" where
  "scan_hole M w lo hi h \<longleftrightarrow> (h \<longrightarrow> (\<exists>e. lo \<le> e \<and> e \<le> hi \<and> member M e \<noteq> w))"

lemma BackwardScanLoop_spec:
  assumes "unat b < 64 * length M" "0 < n" "0 < lo \<or> free_runs M w (unat n) lo (unat b) \<noteq> {}" "lo + unat n - 1 = unat f"
    and "c \<le> b" "lo \<le> Suc (unat c)" "scan_hole M w lo (unat b) h"
    and "\<And>s. unat c < s + unat n - 1 \<Longrightarrow> s \<notin> free_runs M w (unat n) lo (unat b)"
  shows "\<exists>r. BackwardScanLoop M w b n f c h = Some r \<and>
    (FoundElement r, free_runs M w (unat n) lo (unat b) = {}) \<in>
      {(NOT 0, True), (of_nat (Max (free_runs M w (unat n) lo (unat b))), False)} \<and>
    scan_hole M w lo (unat b) (FoundHole r)"
  using assms(5-)
proof (induction "unat c" arbitrary: c h rule: less_induct)
  case less
  let ?n = "unat n"
  let ?S = "free_runs M w ?n lo (unat b)"
  have n: "0 < ?n" using assms(2) by (simp add: unat_gt_0 word_neq_0_conv)
  have cb: "unat c \<le> unat b" using less.prems(1) by (simp add: word_le_nat_alt)
  show ?case
  proof (cases "f \<le> c")
    case False
    have "unat c < s + ?n - 1" if "lo \<le> s" for s
      using False that assms(4) n by (simp add: word_le_nat_alt not_le)
    then have "?S = {}" using less.prems(4) by (fastforce simp: free_runs_def)
    with False less.prems(3) show ?thesis by (subst BackwardScanLoop.simps) simp
  next
    case True
    then have fc: "lo + ?n - 1 \<le> unat c" using assms(4) by (simp add: word_le_nat_alt)
    then have nc: "?n \<le> Suc (unat c)" by simp
    then obtain R where R: "R \<le> ?n" "BackwardScanWindow M w c ?n = Some R"
      "\<And>e. Suc (unat c) - ?n \<le> e \<and> e < Suc (unat c) - R \<Longrightarrow> member M e \<noteq> w"
      "0 < R \<Longrightarrow> member M (Suc (unat c) - R) = w"
      using BackwardScanWindow_spec [of c M ?n w] assms(1) cb by fastforce
    show ?thesis
    proof (cases "R = 0")
      case True
      let ?s = "Suc (unat c) - ?n"
      have "free_run M w ?s ?n" using R(3) True nc by (auto simp: free_run_def)
      then have s: "?s \<in> ?S" using fc nc cb n by (auto simp: free_runs_def)
      have "t \<le> ?s" if "t \<in> ?S" for t
        using less.prems(4) [of t] that n by (cases "unat c < t + ?n - 1") auto
      then have "Max ?S = ?s" using s by (intro Max_eqI) auto
      moreover have "c - n + 1 = of_nat ?s"
      proof -
        have "unat (c - n + 1) = ?s" using unat_back [of ?n c] n nc by simp
        then show ?thesis by (metis of_nat_unat ucast_id)
      qed
      ultimately show ?thesis
        using R(2) True \<open>f \<le> c\<close> less.prems(1,3) s by (subst BackwardScanLoop.simps) auto
    next
      case False
      let ?c = "c - of_nat R"
      have u: "member M (Suc (unat c) - R) = w" using R(4) False by simp
      have Rc: "R \<le> unat c"
      proof (rule ccontr)
        assume *: "\<not> R \<le> unat c"
        then have R0: "R = Suc (unat c)" "R = ?n" using R(1) nc by auto
        then have "lo = 0" using fc n by simp
        then obtain t where t: "t \<in> ?S" using assms(3) by auto
        then have "t + ?n \<le> Suc (unat c)" using less.prems(4) [of t] n by (cases "unat c < t + ?n - 1") auto
        then have "t = 0" using R0 by simp
        then have "\<not> free_run M w t ?n" using u R0 n by (intro blocked [of M 0]) auto
        then show False using t by (simp add: free_runs_def)
      qed
      then have uc: "unat ?c = unat c - R" by (rule unat_minus_nat)
      have rn: "(of_nat R :: u64) = n \<longleftrightarrow> R = ?n"
        using R(1) unat_u64_less [of n] by (simp add: word_unat_eq_iff unat_of_nat_u64)
      have "\<exists>r. BackwardScanLoop M w b n f ?c (h \<or> of_nat R \<noteq> n) = Some r \<and>
        (FoundElement r, ?S = {}) \<in> {(NOT 0, True), (of_nat (Max ?S), False)} \<and>
        scan_hole M w lo (unat b) (FoundHole r)"
      proof (rule less.hyps)
        show "unat ?c < unat c" using uc Rc False by simp
        then show "?c \<le> b" using cb by (simp add: word_le_nat_alt)
        show "lo \<le> Suc (unat ?c)" using uc R(1) fc n by simp
        have "\<exists>e. lo \<le> e \<and> e \<le> unat b \<and> member M e \<noteq> w" if "R \<noteq> ?n"
          using R(1) R(3) [of "Suc (unat c) - ?n"] that fc cb n by (intro exI [of _ "Suc (unat c) - ?n"]) auto
        then show "scan_hole M w lo (unat b) (h \<or> of_nat R \<noteq> n)"
          using less.prems(3) rn by (auto simp: scan_hole_def)
        fix s
        assume s: "unat ?c < s + ?n - 1"
        show "s \<notin> ?S"
        proof (cases "unat c < s + ?n - 1")
          case True
          then show ?thesis by (rule less.prems(4))
        next
          case c: False
          then have "\<not> free_run M w s ?n"
            using s uc R(1) Rc n False by (intro blocked [OF u]) auto
          then show ?thesis by (simp add: free_runs_def)
        qed
      qed
      then show ?thesis
        using R(2) False \<open>f \<le> c\<close> less.prems(1) by (subst BackwardScanLoop.simps) simp
    qed
  qed
qed


lemma ForwardScanLoop_spec:
  assumes "unat i < 64 * length M \<or>
      unat i = 64 * length M \<and> (\<exists>t \<in> free_runs M w (unat n) (unat b) (unat i). t + unat n \<le> unat i)"
    and "64 * length M < 2 ^ 64" "0 < n" "unat f + unat n = Suc (unat i)"
    and "b \<le> c" "unat c \<le> Suc (unat i)" "scan_hole M w (unat b) (unat i) h"
    and "\<And>s. s < unat c \<Longrightarrow> s \<notin> free_runs M w (unat n) (unat b) (unat i)"
  shows "\<exists>r. ForwardScanLoop M w b n f c h = Some r \<and>
    (FoundElement r, free_runs M w (unat n) (unat b) (unat i) = {}) \<in>
      {(NOT 0, True), (of_nat (Min (free_runs M w (unat n) (unat b) (unat i))), False)} \<and>
    scan_hole M w (unat b) (unat i) (FoundHole r)"
  using assms(5-)
proof (induction "unat i + 2 - unat c" arbitrary: c h rule: less_induct)
  case less
  let ?n = "unat n"
  let ?S = "free_runs M w ?n (unat b) (unat i)"
  have n: "0 < ?n" using assms(3) by (simp add: unat_gt_0 word_neq_0_conv)
  have bc: "unat b \<le> unat c" using less.prems(1) by (simp add: word_le_nat_alt)
  show ?case
  proof (cases "c \<le> f")
    case False
    have "s < unat c" if "s + ?n \<le> Suc (unat i)" for s
      using False that assms(4) by (simp add: word_le_nat_alt not_le)
    then have "?S = {}" using less.prems(4) by (fastforce simp: free_runs_def)
    with False less.prems(3) show ?thesis by (subst ForwardScanLoop.simps) simp
  next
    case True
    then have cf: "unat c + ?n \<le> Suc (unat i)" using assms(4) by (simp add: word_le_nat_alt)
    have cl: "unat c + ?n \<le> 64 * length M"
    proof (cases "unat i < 64 * length M")
      case False
      then obtain t where "t \<in> ?S" "t + ?n \<le> unat i" "unat i = 64 * length M" using assms(1) by blast
      then show ?thesis using less.prems(4) [of t] by (cases "t < unat c") auto
    qed (use cf in simp)
    then obtain R where R: "R \<le> ?n" "ForwardScanWindow M w c ?n = Some R"
      "\<And>e. unat c + R \<le> e \<and> e < unat c + ?n \<Longrightarrow> member M e \<noteq> w"
      "0 < R \<Longrightarrow> member M (unat c + R - 1) = w"
      using ForwardScanWindow_spec [of c ?n M w] assms(2) cl by fastforce
    show ?thesis
    proof (cases "R = 0")
      case True
      have "free_run M w (unat c) ?n" using R(3) True by (auto simp: free_run_def)
      then have s: "unat c \<in> ?S" using cf bc by (auto simp: free_runs_def)
      have "unat c \<le> t" if "t \<in> ?S" for t
        using less.prems(4) [of t] that by (cases "t < unat c") auto
      then have "Min ?S = unat c" using s by (intro Min_eqI) auto
      moreover have "c = of_nat (unat c)" by simp
      ultimately show ?thesis
        using R(2) True \<open>c \<le> f\<close> less.prems(1,3) s by (subst ForwardScanLoop.simps) auto
    next
      case False
      let ?c = "c + of_nat R"
      have Rc: "unat c + R \<le> Suc (unat i)" using R(1) cf by simp
      have uc: "unat ?c = unat c + R" using assms(2) cl R(1) by (intro unat_plus_nat) simp
      have rn: "(of_nat R :: u64) = n \<longleftrightarrow> R = ?n"
        using R(1) unat_u64_less [of n] by (simp add: word_unat_eq_iff unat_of_nat_u64)
      have u: "member M (unat c + R - 1) = w" using R(4) False by simp
      have "\<exists>r. ForwardScanLoop M w b n f ?c (h \<or> of_nat R \<noteq> n) = Some r \<and>
        (FoundElement r, ?S = {}) \<in> {(NOT 0, True), (of_nat (Min ?S), False)} \<and>
        scan_hole M w (unat b) (unat i) (FoundHole r)"
      proof (rule less.hyps)
        show "unat i + 2 - unat ?c < unat i + 2 - unat c" using uc Rc False by simp
        show "b \<le> ?c" using bc uc by (simp add: word_le_nat_alt)
        show "unat ?c \<le> Suc (unat i)" using uc Rc by simp
        have "\<exists>e. unat b \<le> e \<and> e \<le> unat i \<and> member M e \<noteq> w" if "R \<noteq> ?n"
          using R(1) R(3) [of "unat c + ?n - 1"] that cf bc n
          by (intro exI [of _ "unat c + ?n - 1"]) auto
        then show "scan_hole M w (unat b) (unat i) (h \<or> of_nat R \<noteq> n)"
          using less.prems(3) rn by (auto simp: scan_hole_def)
        fix s
        assume s: "s < unat ?c"
        show "s \<notin> ?S"
        proof (cases "s < unat c")
          case True
          then show ?thesis by (rule less.prems(4))
        next
          case c: False
          then have "\<not> free_run M w s ?n"
            using s uc R(1) Rc n False by (intro blocked [OF u]) auto
          then show ?thesis by (simp add: free_runs_def)
        qed
      qed
      then show ?thesis
        using R(2) False \<open>c \<le> f\<close> less.prems(1) by (subst ForwardScanLoop.simps) simp
    qed
  qed
qed

section \<open>Properties\<close>

text \<open>C9: Any sequence of \<open>Set\<close> and \<open>Clear\<close> calls on elements the array holds keeps its
  length, and the elements of the resulting set are those the sequence of insertions and
  deletions gives; \<open>Get\<close> then reports exactly the membership, and the \<open>TestAnd\<close> operations
  the membership before and the updated set.\<close>

theorem bit_set_refines_set:
  assumes "length M = n" "\<forall>op \<in> set ops. unat (range_op_entry op) < 64 * n" "unat e < 64 * n"
  shows "let M' = foldl (run_op put cut) M ops;
             S = foldl (run_op (\<lambda>S e. S \<union> {unat e}) (\<lambda>S e. S - {unat e})) (elements M) ops
         in length M' = n \<and> elements M' = S \<and> Get M' e = Some (unat e \<in> S) \<and>
            TestAndSet M' e = Some (unat e \<in> S, put M' e) \<and>
            TestAndClear M' e = Some (unat e \<in> S, cut M' e)"
proof -
  let ?M = "foldl (run_op put cut) M ops"
  have r: "length ?M = n" "elements ?M = foldl (run_op (\<lambda>S e. S \<union> {unat e}) (\<lambda>S e. S - {unat e})) (elements M) ops"
    using bit_set.run_refines [OF assms(1,2)] by simp_all
  have "Get ?M e = Some (unat e \<in> elements ?M)"
    using assms(3) r(1) by (simp add: Get_member elements_def)
  then show ?thesis
    using r assms(3) elements_Set [of e ?M] elements_Clear [of e ?M]
    by (auto simp: Let_def TestAnd_eq put_def cut_def)
qed

theorem bit_set_refines_set_witness:
  "Get (foldl (run_op put cut) [0, 0] [Add 70, Add 3, Del 3]) 70 = Some True"
  using bit_set_refines_set [of "[0, 0]" 2 "[Add 70, Add 3, Del 3]" 70] by (simp add: Let_def)

text \<open>C10: A backward scan for a range of at least one element, from a start the array holds, and
  with a minimum above zero or with a range to be found, returns: it reads no element outside the
  array and fails no assertion. It finds the highest range of wanted elements between the minimum and
  the start, and reports \<open>~0\<close> exactly when there is none; a hole it reports is a wanted element there.
  With a minimum of zero and nothing to be found it leaves the array (\<open>BackwardScan_minimum_zero\<close>).\<close>

theorem BackwardScanForRange_correct:
  assumes "unat Begin < 64 * length M" "0 < n" "unat lo + unat n \<le> 2 ^ 64"
    and "0 < lo \<or> free_runs M w (unat n) (unat lo) (unat Begin) \<noteq> {}"
  shows "\<exists>r. BackwardScanForRange M w Begin n lo = Some r \<and>
    (let S = free_runs M w (unat n) (unat lo) (unat Begin) in
     FoundElement r = (if S = {} then NOT 0 else of_nat (Max S)) \<and>
     (FoundHole r \<longrightarrow> (\<exists>e. unat lo \<le> e \<and> e \<le> unat Begin \<and> member M e \<noteq> w)))"
proof -
  have l: "0 < unat n" using assms(2) by (simp add: unat_gt_0 word_neq_0_conv)
  have lo: "0 < unat lo \<or> free_runs M w (unat n) (unat lo) (unat Begin) \<noteq> {}"
    using assms(4) by (simp add: unat_gt_0 word_neq_0_conv)
  have "lo + n - 1 = lo + of_nat (unat n - 1)" using l by (simp add: of_nat_diff)
  then have f: "unat lo + unat n - 1 = unat (lo + n - 1)"
    using unat_plus_nat [of lo "unat n - 1"] l assms(3)
    by (simp add: add_diff_eq)
  show ?thesis
  proof (cases "unat lo \<le> Suc (unat Begin)")
    case True
    moreover have "s \<notin> free_runs M w (unat n) (unat lo) (unat Begin)" if "unat Begin < s + unat n - 1" for s
      using that by (auto simp: free_runs_def)
    ultimately show ?thesis
      using BackwardScanLoop_spec [OF assms(1,2) lo f order.refl, of False]
      by (auto simp: BackwardScanForRange_def scan_hole_def Let_def)
  next
    case False
    then have "\<not> lo + n - 1 \<le> Begin" "free_runs M w (unat n) (unat lo) (unat Begin) = {}"
      using f l by (auto simp: word_le_nat_alt free_runs_def)
    then show ?thesis
      by (simp add: BackwardScanForRange_def BackwardScanLoop.simps [of _ _ _ _ _ Begin] Let_def)
  qed
qed

theorem BackwardScanForRange_correct_witness:
  "(\<exists>r. BackwardScanForRange [0xF0] True 9 2 1 = Some r) \<and> (\<exists>r. BackwardScanForRange [0xF0] True 9 2 0 = Some r)"
proof -
  have "free_run [0xF0] True 0 2" by (auto simp: free_run_def member_def numeral_2_eq_2 less_Suc_eq)
  then have "0 \<in> free_runs [0xF0] True 2 0 9" by (simp add: free_runs_def)
  then have "free_runs [0xF0] True 2 0 9 \<noteq> {}" by blast
  then show ?thesis
    using BackwardScanForRange_correct [of 9 "[0xF0]" 2 1 True] BackwardScanForRange_correct [of 9 "[0xF0]" 2 0 True] by auto
qed

text \<open>C11: A forward scan of a set of \<open>Elems\<close> elements in an array that holds them, for a range of at least
  one element that is not longer than the set. If the set has a range of wanted elements from the start on, the scan
  returns the lowest one, reads no element outside the array and fails no assertion. If it has none, and the array
  goes on with an element that is not wanted, the scan returns \<open>~0\<close>. In both cases a hole it reports is a wanted
  element of the set from the start on. What the scan does without a range in the set depends on what lies behind the
  set, which it reads (\<open>ForwardScan_reads_past_set\<close>): there nothing is claimed.\<close>

theorem ForwardScanForRange_correct:
  assumes "unat Elems \<le> 64 * length M" "64 * length M < 2 ^ 64" "0 < n" "n \<le> Elems" "Begin \<le> Elems"
    and "free_runs M w (unat n) (unat Begin) (unat Elems - 1) \<noteq> {} \<or> unat Elems < 64 * length M \<and> member M (unat Elems) = w"
  shows "\<exists>r. ForwardScanForRange M w Begin n Elems = Some r \<and>
    (let S = free_runs M w (unat n) (unat Begin) (unat Elems - 1) in
     FoundElement r = (if S = {} then NOT 0 else of_nat (Min S)) \<and>
     (FoundHole r \<longrightarrow> (\<exists>e. unat Begin \<le> e \<and> e < unat Elems \<and> member M e \<noteq> w)))"
proof -
  let ?S = "free_runs M w (unat n) (unat Begin) (unat Elems - 1)" and ?T = "free_runs M w (unat n) (unat Begin) (unat Elems)"
  have n: "unat (Elems - n) = unat Elems - unat n" "unat n \<le> unat Elems" "0 < unat n"
    using assms(3,4) by (simp_all add: unat_sub word_le_nat_alt unat_gt_0 word_neq_0_conv)
  have f: "unat (Elems - n + 1) + unat n = Suc (unat Elems)"
    using n unat_plus_nat [of "Elems - n" 1] assms(1,2) by simp
  have S: "?S = {s \<in> ?T. s + unat n \<le> unat Elems}" using n by (auto simp: free_runs_def)
  have fits: "unat Elems < 64 * length M \<or>
      unat Elems = 64 * length M \<and> (\<exists>t \<in> ?T. t + unat n \<le> unat Elems)"
    using assms(1,6) S by auto
  have "unat Begin \<le> Suc (unat Elems)" using assms(5) by (simp add: word_le_nat_alt)
  moreover have "s \<notin> ?T" if "s < unat Begin" for s
    using that by (auto simp: free_runs_def)
  moreover have "scan_hole M w (unat Begin) (unat Elems) False" by (simp add: scan_hole_def)
  ultimately obtain r where r0: "ForwardScanLoop M w Begin n (Elems - n + 1) Begin False = Some r"
    "(FoundElement r, ?T = {}) \<in> {(NOT 0, True), (of_nat (Min ?T), False)}" "scan_hole M w (unat Begin) (unat Elems) (FoundHole r)"
    using ForwardScanLoop_spec [OF fits assms(2,3) f order.refl, of False] by blast
  then have r: "ForwardScanForRange M w Begin n Elems = Some r"
    "FoundElement r = (if ?T = {} then NOT 0 else of_nat (Min ?T))" "scan_hole M w (unat Begin) (unat Elems) (FoundHole r)"
    by (simp_all add: ForwardScanForRange_def split: if_splits) auto
  show ?thesis
  proof (cases "?S = {}")
    case True
    then have past: "member M (unat Elems) = w" using assms(6) by simp
    have "\<not> free_run M w s (unat n)" if "s + unat n = Suc (unat Elems)" for s
      using that n by (intro blocked [OF past]) auto
    then have "?T = {}" using True unfolding S by (auto simp: free_runs_def le_Suc_eq)
    moreover have "\<exists>e. unat Begin \<le> e \<and> e < unat Elems \<and> member M e \<noteq> w" if "FoundHole r"
      using r(3) that past unfolding scan_hole_def by (metis order_le_less)
    ultimately show ?thesis using r True by simp
  next
    case False
    then have s: "Min ?S \<in> ?S" by (intro Min_in) auto
    have "Min ?S \<le> t" if t: "t \<in> ?T" for t
    proof (cases "t \<in> ?S")
      case False
      then have "unat Elems < t + unat n" using t unfolding S by simp
      then show ?thesis using s unfolding S by auto
    qed simp
    then have "Min ?T = Min ?S" using s unfolding S by (intro Min_eqI) auto
    moreover have "?T \<noteq> {}" using False unfolding S by auto
    moreover have "unat Begin \<le> Min ?S" "Min ?S < unat Elems" "free_run M w (Min ?S) (unat n)"
      using s n by (auto simp: free_runs_def)
    then have "\<exists>e. unat Begin \<le> e \<and> e < unat Elems \<and> member M e \<noteq> w" using n(3) by (auto simp: free_run_def)
    ultimately show ?thesis using r False by simp
  qed
qed

lemma member_low_ones: "n \<le> 64 \<Longrightarrow> member [mask n] t \<longleftrightarrow> t < n"
  by (auto simp: member_def bit_mask_iff)

theorem ForwardScanForRange_correct_witness:
  "(\<exists>r. ForwardScanForRange [mask 4] True 0 4 64 = Some r \<and> FoundElement r = 4) \<and>
   (\<exists>r. ForwardScanForRange [mask 8] True 0 2 4 = Some r \<and> FoundElement r = NOT 0)"
proof
  have s: "4 \<in> free_runs [mask 4] True 4 0 63" by (simp add: free_runs_def free_run_def member_low_ones)
  have "4 \<le> t" if "t \<in> free_runs [mask 4] True 4 0 63" for t
    using that blocked [of "[mask 4]" t True t 4] by (cases "t < 4") (auto simp: free_runs_def member_low_ones)
  then have "Min (free_runs [mask 4] True 4 0 63) = 4" using s by (intro Min_eqI) auto
  moreover have "free_runs [mask 4] True 4 0 63 \<noteq> {}" using s by blast
  ultimately show "\<exists>r. ForwardScanForRange [mask 4] True 0 4 64 = Some r \<and> FoundElement r = 4"
    using ForwardScanForRange_correct [of 64 "[mask 4]" 4 0 True] by (auto simp: Let_def)
  have "free_runs [mask 8] True 2 0 3 = {}"
    using blocked [of "[mask 8]" t True t 2 for t] by (auto simp: free_runs_def member_low_ones)
  then show "\<exists>r. ForwardScanForRange [mask 8] True 0 2 4 = Some r \<and> FoundElement r = NOT 0"
    using ForwardScanForRange_correct [of 4 "[mask 8]" 2 0 True] by (auto simp: Let_def member_low_ones)
qed

text \<open>
  The bound is one too high: a scan of an array of one word that is full for two free elements
  finds none within it and reads past the end of the array.
\<close>

lemma ForwardScan_reads_past_set:
  "ForwardScanForRange [NOT 0] True 63 1 64 = None"
  by (simp add: ForwardScanForRange_def ForwardScanLoop.simps Get_def load_element_def
      element_mask_def)

text \<open>
  With a minimum of zero and no free range the position wraps below zero and the scan leaves the
  array. A free element that is not the lowest of the window is not counted as a hole.
\<close>

lemma BackwardScan_minimum_zero:
  "BackwardScanForRange [NOT 0] True 0 1 0 = None"
  by (simp add: BackwardScanForRange_def BackwardScanLoop.simps Get_def load_element_def
      element_mask_def)

lemma BackwardScanWindow_numeral:
  "BackwardScanWindow M w c (numeral k) =
     do { b \<leftarrow> Get M (c - of_nat (pred_numeral k));
          if b = w then Some (Suc (pred_numeral k)) else BackwardScanWindow M w c (pred_numeral k) }"
  by (simp add: numeral_eq_Suc)

lemma BackwardScan_misses_hole:
  "\<not> member [0b1011] 2 \<and>
   BackwardScanForRange [0b1011] True 2 2 1 = Some \<lparr>FoundElement = NOT 0, FoundHole = False\<rparr>"
  by (simp add: BackwardScanForRange_def BackwardScanLoop.simps Get_def load_element_def
      element_mask_def member_def BackwardScanWindow_numeral)

end
