(* ===== verification/X86Tables.thy ===== *)
theory X86Tables
  imports Prelude
begin

text \<open>
  The data types of the x86 decoder (\<open>FEXCore/Source/Interface/Core/X86Tables/X86Tables.h\<close>):
  instruction types, the decode flags with the two-deep stack of operand and address size
  prefixes, the instruction flags of the tables, and the functions that build the tables at
  compile time. The table contents are in the theories \<open>X86Data_*\<close>.
\<close>

section \<open>Decode flags\<close>

abbreviation (input) bit32 :: "nat \<Rightarrow> u32" where "bit32 n \<equiv> push_bit n 1"

definition FLAG_OPERAND_SIZE :: u32 where "FLAG_OPERAND_SIZE = bit32 0"
definition FLAG_ADDRESS_SIZE :: u32 where "FLAG_ADDRESS_SIZE = bit32 1"
definition FLAG_LOCK :: u32 where "FLAG_LOCK = bit32 2"
definition FLAG_LEGACY_PREFIX :: u32 where "FLAG_LEGACY_PREFIX = bit32 3"
definition FLAG_REX_PREFIX :: u32 where "FLAG_REX_PREFIX = bit32 4"
definition FLAG_VSIB_BYTE :: u32 where "FLAG_VSIB_BYTE = bit32 5"
definition FLAG_OPTION_AVX_W :: u32 where "FLAG_OPTION_AVX_W = bit32 6"
definition FLAG_REX_WIDENING :: u32 where "FLAG_REX_WIDENING = bit32 7"
definition FLAG_REX_XGPR_B :: u32 where "FLAG_REX_XGPR_B = bit32 8"
definition FLAG_REX_XGPR_X :: u32 where "FLAG_REX_XGPR_X = bit32 9"
definition FLAG_REX_XGPR_R :: u32 where "FLAG_REX_XGPR_R = bit32 10"
definition FLAG_NO_PREFIX :: u32 where "FLAG_NO_PREFIX = push_bit 11 0b000"
definition FLAG_ES_PREFIX :: u32 where "FLAG_ES_PREFIX = push_bit 11 0b001"
definition FLAG_CS_PREFIX :: u32 where "FLAG_CS_PREFIX = push_bit 11 0b010"
definition FLAG_SS_PREFIX :: u32 where "FLAG_SS_PREFIX = push_bit 11 0b011"
definition FLAG_DS_PREFIX :: u32 where "FLAG_DS_PREFIX = push_bit 11 0b100"
definition FLAG_FS_PREFIX :: u32 where "FLAG_FS_PREFIX = push_bit 11 0b101"
definition FLAG_GS_PREFIX :: u32 where "FLAG_GS_PREFIX = push_bit 11 0b110"
definition FLAG_SEGMENTS :: u32 where "FLAG_SEGMENTS = push_bit 11 0b111"
definition FLAG_FORCE_TSO :: u32 where "FLAG_FORCE_TSO = bit32 14"
definition FLAG_DECODED_MODRM :: u32 where "FLAG_DECODED_MODRM = bit32 15"
definition FLAG_DECODED_SIB :: u32 where "FLAG_DECODED_SIB = bit32 16"
definition FLAG_REP_PREFIX :: u32 where "FLAG_REP_PREFIX = bit32 17"
definition FLAG_REPNE_PREFIX :: u32 where "FLAG_REPNE_PREFIX = bit32 18"

abbreviation (input) FLAG_SIZE_DST_OFF :: nat where "FLAG_SIZE_DST_OFF \<equiv> 19"
abbreviation (input) FLAG_SIZE_SRC_OFF :: nat where "FLAG_SIZE_SRC_OFF \<equiv> FLAG_SIZE_DST_OFF + 3"
abbreviation (input) FLAG_OPADDR_OFF :: nat where "FLAG_OPADDR_OFF \<equiv> FLAG_SIZE_SRC_OFF + 3"
abbreviation (input) FLAG_OPADDR_STACKSIZE :: nat where "FLAG_OPADDR_STACKSIZE \<equiv> 4"
abbreviation (input) FLAG_OPADDR_FLAG_SIZE :: nat where "FLAG_OPADDR_FLAG_SIZE \<equiv> 2"

definition FLAG_OPADDR_MASK :: u32 where
  "FLAG_OPADDR_MASK = push_bit FLAG_OPADDR_OFF (push_bit FLAG_OPADDR_STACKSIZE 1 - 1)"

definition FLAG_OPERAND_SIZE_LAST :: u32 where "FLAG_OPERAND_SIZE_LAST = 0b01"
definition FLAG_WIDENING_SIZE_LAST :: u32 where "FLAG_WIDENING_SIZE_LAST = 0b10"

text \<open>The size codes, of the decode flags (32 bit) and of the instruction flags (64 bit).\<close>

abbreviation (input) SIZE_MASK :: "'a::len word" where "SIZE_MASK \<equiv> 0b111"
abbreviation (input) SIZE_DEF :: "'a::len word" where "SIZE_DEF \<equiv> 0b000"
abbreviation (input) SIZE_8BIT :: "'a::len word" where "SIZE_8BIT \<equiv> 0b001"
abbreviation (input) SIZE_16BIT :: "'a::len word" where "SIZE_16BIT \<equiv> 0b010"
abbreviation (input) SIZE_32BIT :: "'a::len word" where "SIZE_32BIT \<equiv> 0b011"
abbreviation (input) SIZE_64BIT :: "'a::len word" where "SIZE_64BIT \<equiv> 0b100"
abbreviation (input) SIZE_128BIT :: "'a::len word" where "SIZE_128BIT \<equiv> 0b101"
abbreviation (input) SIZE_256BIT :: "'a::len word" where "SIZE_256BIT \<equiv> 0b110"
abbreviation (input) SIZE_64BITDEF :: u64 where "SIZE_64BITDEF \<equiv> 0b111"

definition GetSizeDstFlags :: "u32 \<Rightarrow> u32" where
  "GetSizeDstFlags Flgs = drop_bit FLAG_SIZE_DST_OFF Flgs AND SIZE_MASK"

definition GetSizeSrcFlags :: "u32 \<Rightarrow> u32" where
  "GetSizeSrcFlags Flgs = drop_bit FLAG_SIZE_SRC_OFF Flgs AND SIZE_MASK"

definition GenSizeDstSize :: "u32 \<Rightarrow> u32" where
  "GenSizeDstSize Sz = push_bit FLAG_SIZE_DST_OFF Sz"

definition GenSizeSrcSize :: "u32 \<Rightarrow> u32" where
  "GenSizeSrcSize Sz = push_bit FLAG_SIZE_SRC_OFF Sz"

definition GetOpAddr :: "u32 \<Rightarrow> nat \<Rightarrow> u32" where
  "GetOpAddr Flgs Index =
     drop_bit (Index * 2) (drop_bit FLAG_OPADDR_OFF (Flgs AND FLAG_OPADDR_MASK))
       AND (push_bit FLAG_OPADDR_FLAG_SIZE 1 - 1)"

definition PushOpAddr :: "u32 \<Rightarrow> u32 \<Rightarrow> u32" where
  "PushOpAddr Flgs Flag =
     (let TmpFlags = Flgs;
          BottomOfStack = drop_bit FLAG_OPADDR_OFF (TmpFlags AND FLAG_OPADDR_MASK)
                            AND (push_bit FLAG_OPADDR_FLAG_SIZE 1 - 1);
          TmpFlags = TmpFlags AND NOT FLAG_OPADDR_MASK
      in TmpFlags OR (push_bit (FLAG_OPADDR_OFF + FLAG_OPADDR_FLAG_SIZE) BottomOfStack
                      OR push_bit FLAG_OPADDR_OFF Flag))"

definition PopOpAddrIf :: "u32 \<Rightarrow> u32 \<Rightarrow> u32" where
  "PopOpAddrIf Flgs Flag =
     (let TmpFlags = Flgs;
          BottomOfStack = drop_bit FLAG_OPADDR_OFF (TmpFlags AND FLAG_OPADDR_MASK)
                            AND (push_bit FLAG_OPADDR_FLAG_SIZE 1 - 1)
      in if BottomOfStack \<noteq> Flag then Flgs
         else
           let TopOfStack = drop_bit (FLAG_OPADDR_OFF + FLAG_OPADDR_FLAG_SIZE)
                              (TmpFlags AND FLAG_OPADDR_MASK)
                            AND (push_bit FLAG_OPADDR_FLAG_SIZE 1 - 1);
               TmpFlags = TmpFlags AND NOT FLAG_OPADDR_MASK
           in TmpFlags OR push_bit FLAG_OPADDR_OFF TopOfStack)"

section \<open>Decoded operands and instructions\<close>

text \<open>
  The tagged union of an operand. A relocation operand is only made when code caching is on.
\<close>

datatype DecodedOperand =
    OpNothing
  | OpGPR (HighBits: bool) (GPR: u8)
  | OpGPRDirect (GPR: u8)
  | OpGPRIndirect (Displacement: u64) (GPR: u8)
  | OpGPRIndirectRelocation (Displacement: u64) (GPR: u8)
  | OpRIPRelative (Value: u64)
  | OpRIPRelativeRelocation (Value: u64)
  | OpLiteral (LiteralValue: u64) (LiteralSize: u8)
  | OpLiteralRelocation (EntrypointOffset: u64)
  | OpSIB (SIBOffset: u64) (Scale: u8) (SIBIndex: u8) (SIBBase: u8)
  | OpSIBRelocation (SIBOffset: u64) (Scale: u8) (SIBIndex: u8) (SIBBase: u8)

text \<open>
  The bit fields of a ModRM and of a SIB byte.
\<close>

definition ModRM_rm :: "u8 \<Rightarrow> u8" where "ModRM_rm Hex = Hex AND 0b111"
definition ModRM_reg :: "u8 \<Rightarrow> u8" where "ModRM_reg Hex = drop_bit 3 Hex AND 0b111"
definition ModRM_mod :: "u8 \<Rightarrow> u8" where "ModRM_mod Hex = drop_bit 6 Hex"

definition SIB_base :: "u8 \<Rightarrow> u8" where "SIB_base Hex = Hex AND 0b111"
definition SIB_index :: "u8 \<Rightarrow> u8" where "SIB_index Hex = drop_bit 3 Hex AND 0b111"
definition SIB_scale :: "u8 \<Rightarrow> u8" where "SIB_scale Hex = drop_bit 6 Hex"

section \<open>Instruction types\<close>

text \<open>
  The enumeration, with its aliases. The order matters: ranges of it are compared, and the
  distance to the first group selects a group's part of a table.
\<close>

datatype InstType =
    TYPE_UNKNOWN
  | TYPE_LEGACY_PREFIX
  | TYPE_PREFIX
  | TYPE_REX_PREFIX
  | TYPE_SECONDARY_TABLE_PREFIX
  | TYPE_X87_TABLE_PREFIX
  | TYPE_VEX_TABLE_PREFIX
  | TYPE_INST
  | TYPE_INVALID
  | TYPE_COPY_OTHER
  | TYPE_ARCH_DISPATCHER
  | TYPE_GROUP_1
  | TYPE_GROUP_1A
  | TYPE_GROUP_2
  | TYPE_GROUP_3
  | TYPE_GROUP_4
  | TYPE_GROUP_5
  | TYPE_GROUP_11
  | TYPE_GROUP_6
  | TYPE_GROUP_7
  | TYPE_GROUP_8
  | TYPE_GROUP_9
  | TYPE_GROUP_10
  | TYPE_GROUP_12
  | TYPE_GROUP_13
  | TYPE_GROUP_14
  | TYPE_GROUP_15
  | TYPE_GROUP_16
  | TYPE_GROUP_17
  | TYPE_GROUP_P
  | TYPE_SECOND_GROUP_MODRM
  | TYPE_VEX_GROUP_12
  | TYPE_VEX_GROUP_13
  | TYPE_VEX_GROUP_14
  | TYPE_VEX_GROUP_15
  | TYPE_VEX_GROUP_17
  | TYPE_GROUP_EVEX

abbreviation (input) "TYPE_X87 \<equiv> TYPE_INST"
abbreviation (input) "TYPE_UNDEC \<equiv> TYPE_INVALID"
abbreviation (input) "TYPE_MMX \<equiv> TYPE_INVALID"
abbreviation (input) "TYPE_PRIV \<equiv> TYPE_INVALID"
abbreviation (input) "TYPE_0F38_TABLE \<equiv> TYPE_INVALID"
abbreviation (input) "TYPE_0F3A_TABLE \<equiv> TYPE_INVALID"
abbreviation (input) "TYPE_3DNOW_TABLE \<equiv> TYPE_INVALID"

primrec InstType_num :: "InstType \<Rightarrow> nat" where
  "InstType_num TYPE_UNKNOWN = 0"
| "InstType_num TYPE_LEGACY_PREFIX = 1"
| "InstType_num TYPE_PREFIX = 2"
| "InstType_num TYPE_REX_PREFIX = 3"
| "InstType_num TYPE_SECONDARY_TABLE_PREFIX = 4"
| "InstType_num TYPE_X87_TABLE_PREFIX = 5"
| "InstType_num TYPE_VEX_TABLE_PREFIX = 6"
| "InstType_num TYPE_INST = 7"
| "InstType_num TYPE_INVALID = 8"
| "InstType_num TYPE_COPY_OTHER = 9"
| "InstType_num TYPE_ARCH_DISPATCHER = 10"
| "InstType_num TYPE_GROUP_1 = 11"
| "InstType_num TYPE_GROUP_1A = 12"
| "InstType_num TYPE_GROUP_2 = 13"
| "InstType_num TYPE_GROUP_3 = 14"
| "InstType_num TYPE_GROUP_4 = 15"
| "InstType_num TYPE_GROUP_5 = 16"
| "InstType_num TYPE_GROUP_11 = 17"
| "InstType_num TYPE_GROUP_6 = 18"
| "InstType_num TYPE_GROUP_7 = 19"
| "InstType_num TYPE_GROUP_8 = 20"
| "InstType_num TYPE_GROUP_9 = 21"
| "InstType_num TYPE_GROUP_10 = 22"
| "InstType_num TYPE_GROUP_12 = 23"
| "InstType_num TYPE_GROUP_13 = 24"
| "InstType_num TYPE_GROUP_14 = 25"
| "InstType_num TYPE_GROUP_15 = 26"
| "InstType_num TYPE_GROUP_16 = 27"
| "InstType_num TYPE_GROUP_17 = 28"
| "InstType_num TYPE_GROUP_P = 29"
| "InstType_num TYPE_SECOND_GROUP_MODRM = 30"
| "InstType_num TYPE_VEX_GROUP_12 = 31"
| "InstType_num TYPE_VEX_GROUP_13 = 32"
| "InstType_num TYPE_VEX_GROUP_14 = 33"
| "InstType_num TYPE_VEX_GROUP_15 = 34"
| "InstType_num TYPE_VEX_GROUP_17 = 35"
| "InstType_num TYPE_GROUP_EVEX = 36"

text \<open>The enumeration is injective in its numbers, which gives its linear order.\<close>

definition InstTypes :: "InstType list" where
  "InstTypes =
    [TYPE_UNKNOWN, TYPE_LEGACY_PREFIX, TYPE_PREFIX, TYPE_REX_PREFIX,
     TYPE_SECONDARY_TABLE_PREFIX, TYPE_X87_TABLE_PREFIX, TYPE_VEX_TABLE_PREFIX, TYPE_INST,
     TYPE_INVALID, TYPE_COPY_OTHER, TYPE_ARCH_DISPATCHER, TYPE_GROUP_1,
     TYPE_GROUP_1A, TYPE_GROUP_2, TYPE_GROUP_3, TYPE_GROUP_4,
     TYPE_GROUP_5, TYPE_GROUP_11, TYPE_GROUP_6, TYPE_GROUP_7,
     TYPE_GROUP_8, TYPE_GROUP_9, TYPE_GROUP_10, TYPE_GROUP_12,
     TYPE_GROUP_13, TYPE_GROUP_14, TYPE_GROUP_15, TYPE_GROUP_16,
     TYPE_GROUP_17, TYPE_GROUP_P, TYPE_SECOND_GROUP_MODRM, TYPE_VEX_GROUP_12,
     TYPE_VEX_GROUP_13, TYPE_VEX_GROUP_14, TYPE_VEX_GROUP_15, TYPE_VEX_GROUP_17,
     TYPE_GROUP_EVEX]"

lemma InstTypes_nth: "InstTypes ! InstType_num t = t"
  by (cases t) (simp_all add: InstTypes_def)

lemma InstType_num_inject: "InstType_num a = InstType_num b \<longleftrightarrow> a = b"
  by (metis InstTypes_nth)

instantiation InstType :: linorder
begin

definition less_eq_InstType :: "InstType \<Rightarrow> InstType \<Rightarrow> bool" where
  "less_eq_InstType a b \<longleftrightarrow> InstType_num a \<le> InstType_num b"

definition less_InstType :: "InstType \<Rightarrow> InstType \<Rightarrow> bool" where
  "less_InstType a b \<longleftrightarrow> InstType_num a < InstType_num b"

instance
proof
  fix a b c :: InstType
  show "a < b \<longleftrightarrow> a \<le> b \<and> \<not> b \<le> a" by (auto simp: less_InstType_def less_eq_InstType_def)
  show "a \<le> a" by (simp add: less_eq_InstType_def)
  show "a \<le> b \<Longrightarrow> b \<le> c \<Longrightarrow> a \<le> c" by (simp add: less_eq_InstType_def)
  show "a \<le> b \<or> b \<le> a" by (auto simp: less_eq_InstType_def)
  show "a \<le> b \<Longrightarrow> b \<le> a \<Longrightarrow> a = b"
    by (simp add: less_eq_InstType_def flip: InstType_num_inject)
qed

end

section \<open>Instruction flags\<close>

abbreviation (input) bit64 :: "nat \<Rightarrow> u64" where "bit64 n \<equiv> push_bit n 1"

definition FLAGS_NONE :: u64 where "FLAGS_NONE = 0"
definition FLAGS_NO_OVERLAY :: u64 where "FLAGS_NO_OVERLAY = bit64 0"
definition FLAGS_NO_OVERLAY66 :: u64 where "FLAGS_NO_OVERLAY66 = bit64 1"
definition FLAGS_DEBUG_MEM_ACCESS :: u64 where "FLAGS_DEBUG_MEM_ACCESS = bit64 2"
definition FLAGS_SRC_SEXT64BIT :: u64 where "FLAGS_SRC_SEXT64BIT = bit64 3"
definition FLAGS_BLOCK_END :: u64 where "FLAGS_BLOCK_END = bit64 4"
definition FLAGS_SETS_RIP :: u64 where "FLAGS_SETS_RIP = bit64 5"
definition FLAGS_DISPLACE_SIZE_MUL_2 :: u64 where "FLAGS_DISPLACE_SIZE_MUL_2 = bit64 6"
definition FLAGS_DISPLACE_SIZE_DIV_2 :: u64 where "FLAGS_DISPLACE_SIZE_DIV_2 = bit64 7"
definition FLAGS_SRC_SEXT :: u64 where "FLAGS_SRC_SEXT = bit64 8"
definition FLAGS_MEM_OFFSET :: u64 where "FLAGS_MEM_OFFSET = bit64 9"
definition FLAGS_XMM_FLAGS :: u64 where "FLAGS_XMM_FLAGS = bit64 10"
definition FLAGS_X87_FLAGS :: u64 where "FLAGS_X87_FLAGS = bit64 10"
definition FLAGS_SF_DST_RAX :: u64 where "FLAGS_SF_DST_RAX = bit64 11"
definition FLAGS_SF_DST_RDX :: u64 where "FLAGS_SF_DST_RDX = bit64 12"
definition FLAGS_SF_SRC_RAX :: u64 where "FLAGS_SF_SRC_RAX = bit64 13"
definition FLAGS_SF_SRC_RCX :: u64 where "FLAGS_SF_SRC_RCX = bit64 14"
definition FLAGS_SF_REX_IN_BYTE :: u64 where "FLAGS_SF_REX_IN_BYTE = bit64 15"
definition FLAGS_SF_UNUSED :: u64 where "FLAGS_SF_UNUSED = bit64 11"
definition FLAGS_SF_DST_GPR :: u64 where "FLAGS_SF_DST_GPR = bit64 12"
definition FLAGS_SF_SRC_GPR :: u64 where "FLAGS_SF_SRC_GPR = bit64 13"
definition FLAGS_SF_MMX_DST :: u64 where "FLAGS_SF_MMX_DST = bit64 14"
definition FLAGS_SF_MMX_SRC :: u64 where "FLAGS_SF_MMX_SRC = bit64 15"
definition FLAGS_SF_MMX :: u64 where "FLAGS_SF_MMX = FLAGS_SF_MMX_DST OR FLAGS_SF_MMX_SRC"
definition FLAGS_MODRM :: u64 where "FLAGS_MODRM = bit64 16"
definition FLAGS_SF_MOD_DST :: u64 where "FLAGS_SF_MOD_DST = bit64 17"
definition FLAGS_SF_MOD_MEM_ONLY :: u64 where "FLAGS_SF_MOD_MEM_ONLY = bit64 18"
definition FLAGS_SF_MOD_REG_ONLY :: u64 where "FLAGS_SF_MOD_REG_ONLY = bit64 19"
definition FLAGS_SF_MOD_ZERO_REG :: u64 where "FLAGS_SF_MOD_ZERO_REG = bit64 20"
definition FLAGS_POP :: u64 where "FLAGS_POP = bit64 21"
definition FLAGS_VEX_SRC_MASK :: u64 where "FLAGS_VEX_SRC_MASK = push_bit 22 0b11"
definition FLAGS_VEX_NO_OPERAND :: u64 where "FLAGS_VEX_NO_OPERAND = push_bit 22 0b00"
definition FLAGS_VEX_DST :: u64 where "FLAGS_VEX_DST = push_bit 22 0b01"
definition FLAGS_VEX_1ST_SRC :: u64 where "FLAGS_VEX_1ST_SRC = push_bit 22 0b10"
definition FLAGS_VEX_2ND_SRC :: u64 where "FLAGS_VEX_2ND_SRC = push_bit 22 0b11"
definition FLAGS_VEX_VSIB :: u64 where "FLAGS_VEX_VSIB = bit64 24"
definition FLAGS_VEX_L_IGNORE :: u64 where "FLAGS_VEX_L_IGNORE = bit64 25"
definition FLAGS_VEX_L_0 :: u64 where "FLAGS_VEX_L_0 = bit64 26"
definition FLAGS_VEX_L_1 :: u64 where "FLAGS_VEX_L_1 = bit64 27"
definition FLAGS_REX_W_0 :: u64 where "FLAGS_REX_W_0 = bit64 28"
definition FLAGS_REX_W_1 :: u64 where "FLAGS_REX_W_1 = bit64 29"
definition FLAGS_CALL :: u64 where "FLAGS_CALL = bit64 30"
definition FLAGS_SUPPORTS_LOCK :: u64 where "FLAGS_SUPPORTS_LOCK = bit64 31"

text \<open>System call instructions end no block outside Windows.\<close>

definition DEFAULT_SYSCALL_FLAGS :: u64 where "DEFAULT_SYSCALL_FLAGS = FLAGS_NO_OVERLAY"

abbreviation (input) FLAGS_SIZE_DST_OFF :: nat where "FLAGS_SIZE_DST_OFF \<equiv> 58"
abbreviation (input) FLAGS_SIZE_SRC_OFF :: nat where "FLAGS_SIZE_SRC_OFF \<equiv> FLAGS_SIZE_DST_OFF + 3"

definition InstFlags_GetSizeDstFlags :: "u64 \<Rightarrow> u64" where
  "InstFlags_GetSizeDstFlags Flgs = drop_bit FLAGS_SIZE_DST_OFF Flgs AND SIZE_MASK"

definition InstFlags_GetSizeSrcFlags :: "u64 \<Rightarrow> u64" where
  "InstFlags_GetSizeSrcFlags Flgs = drop_bit FLAGS_SIZE_SRC_OFF Flgs AND SIZE_MASK"

definition GenFlagsDstSize :: "u64 \<Rightarrow> u64" where
  "GenFlagsDstSize Sz = push_bit FLAGS_SIZE_DST_OFF Sz"

definition GenFlagsSrcSize :: "u64 \<Rightarrow> u64" where
  "GenFlagsSrcSize Sz = push_bit FLAGS_SIZE_SRC_OFF Sz"

definition GenFlagsSameSize :: "u64 \<Rightarrow> u64" where
  "GenFlagsSameSize Sz = push_bit FLAGS_SIZE_DST_OFF Sz OR push_bit FLAGS_SIZE_SRC_OFF Sz"

definition GenFlagsSizes :: "u64 \<Rightarrow> u64 \<Rightarrow> u64" where
  "GenFlagsSizes Dst Source = push_bit FLAGS_SIZE_DST_OFF Dst OR push_bit FLAGS_SIZE_SRC_OFF Source"

definition HAS_XMM_SUBFLAG :: "u64 \<Rightarrow> u64 \<Rightarrow> bool" where
  "HAS_XMM_SUBFLAG x flag \<longleftrightarrow> x AND (FLAGS_XMM_FLAGS OR flag) = FLAGS_XMM_FLAGS OR flag"

definition HAS_NON_XMM_SUBFLAG :: "u64 \<Rightarrow> u64 \<Rightarrow> bool" where
  "HAS_NON_XMM_SUBFLAG x flag \<longleftrightarrow> x AND (FLAGS_XMM_FLAGS OR flag) = flag"

definition OpToIndex :: "u8 \<Rightarrow> nat" where
  "OpToIndex Op =
     (if Op = 0x80 then 0 else if Op = 0x81 then 1 else if Op = 0x82 then 2 else if Op = 0x83 then 3
      else if Op = 0xC0 then 0 else if Op = 0xC1 then 1 else if Op = 0xD0 then 2
      else if Op = 0xD1 then 3 else if Op = 0xD2 then 4 else if Op = 0xD3 then 5
      else if Op = 0xF6 then 0 else if Op = 0xF7 then 1
      else if Op = 0xFE then 0 else if Op = 0xFF then 0
      else if Op = 0xC6 then 0 else if Op = 0xC7 then 1 else 0)"

section \<open>Table entries\<close>

text \<open>
  A handler is a member function of \<open>OpDispatchBuilder\<close> or a template instance of
  \<open>Bind\<close> that passes constant arguments to one; only its name and arguments matter here. The
  indirect alternative of the union points to a pair of entries, for 32-bit and for 64-bit code.
\<close>

datatype OpDispatchPtr = Handler string | Bind string "string list"

datatype X86InstInfo =
    X86InstInfo (Name: string) (Type: InstType) (Flags: u64) (MoreBytes: u8)
      (OpcodeDispatcher: OpDispatchPtrWrapper)
  and OpDispatchPtrWrapper =
    OpDispatch "OpDispatchPtr option"
  | Indirect X86InstInfo X86InstInfo

text \<open>The zero-initialised entry, whose name is the null pointer.\<close>

definition zero_info :: X86InstInfo where
  "zero_info = X86InstInfo [] TYPE_UNKNOWN 0 0 (OpDispatch None)"

fun set_OpDispatch :: "OpDispatchPtr option \<Rightarrow> X86InstInfo \<Rightarrow> X86InstInfo" where
  "set_OpDispatch p (X86InstInfo n t f m d) = X86InstInfo n t f m (OpDispatch p)"

type_synonym table = "X86InstInfo list"

record X86TablesInfoStruct =
  first :: nat
  second :: nat
  Info :: X86InstInfo

record DispatchTableEntry =
  DispOp :: nat
  DispCount :: nat
  DispPtr :: "OpDispatchPtr option"

text \<open>An entry that names no dispatcher leaves it null.\<close>

abbreviation entry :: "nat \<Rightarrow> nat \<Rightarrow> string \<Rightarrow> InstType \<Rightarrow> u64 \<Rightarrow> u8 \<Rightarrow> X86TablesInfoStruct" where
  "entry k n nm t f m \<equiv>
     \<lparr>first = k, second = n, Info = X86InstInfo nm t f m (OpDispatch None)\<rparr>"

abbreviation arch_entry ::
  "nat \<Rightarrow> nat \<Rightarrow> string \<Rightarrow> u64 \<Rightarrow> u8 \<Rightarrow> X86InstInfo \<times> X86InstInfo \<Rightarrow> X86TablesInfoStruct" where
  "arch_entry k n nm f m p \<equiv>
     \<lparr>first = k, second = n,
      Info = X86InstInfo nm TYPE_ARCH_DISPATCHER f m (Indirect (fst p) (snd p))\<rparr>"

abbreviation dispatch :: "nat \<Rightarrow> nat \<Rightarrow> OpDispatchPtr \<Rightarrow> DispatchTableEntry" where
  "dispatch k n p \<equiv> \<lparr>DispOp = k, DispCount = n, DispPtr = Some p\<rparr>"

abbreviation null_dispatch :: "nat \<Rightarrow> nat \<Rightarrow> DispatchTableEntry" where
  "null_dispatch k n \<equiv> \<lparr>DispOp = k, DispCount = n, DispPtr = None\<rparr>"

section \<open>The stack of size prefixes\<close>

lemma opaddr_mask: "FLAG_OPADDR_MASK = push_bit 25 (mask 4)" "push_bit 2 1 - 1 = (mask 2 :: u32)"
  by (simp_all add: FLAG_OPADDR_MASK_def mask_eq_exp_minus_1)

lemma small_bits:
  assumes "f < 4" "bit (f :: u32) n" shows "n < 2"
proof -
  have "f AND mask 2 = f" using assms(1) by (intro less_mask_eq) simp
  then show ?thesis using assms(2) by (metis bit_and_iff bit_mask_iff)
qed

lemma GetOpAddr_bits: "bit (GetOpAddr F i) n \<longleftrightarrow> n < 2 \<and> i * 2 + n < 4 \<and> bit F (25 + i * 2 + n)"
  unfolding GetOpAddr_def opaddr_mask by (auto simp: bit_simps ac_simps)

lemma PushOpAddr_bits:
  "f < 4 \<Longrightarrow> bit (PushOpAddr F f) n \<longleftrightarrow>
     n < 32 \<and> (if 25 \<le> n \<and> n < 27 then bit f (n - 25) else if 27 \<le> n \<and> n < 29 then bit F (n - 2) else bit F n)"
  unfolding PushOpAddr_def opaddr_mask Let_def
  by (auto simp: bit_simps dest: small_bits impossible_bit)

lemma PopOpAddrIf_bits:
  "bit (PopOpAddrIf F f) n \<longleftrightarrow>
     n < 32 \<and> (if GetOpAddr F 0 \<noteq> f then bit F n
      else if 25 \<le> n \<and> n < 27 then bit F (n + 2) else if 27 \<le> n \<and> n < 29 then False else bit F n)"
proof -
  have "drop_bit 25 (F AND FLAG_OPADDR_MASK) AND (push_bit 2 1 - 1) = GetOpAddr F 0"
    by (simp add: GetOpAddr_def)
  then show ?thesis unfolding PopOpAddrIf_def opaddr_mask Let_def by (auto simp: bit_simps dest: bit_imp_le_length impossible_bit)
qed

text \<open>
  C15: the operand size flags are a stack of two codes: a push puts its code on the bottom and
  moves the old one up, a pop of the bottom code moves the upper one down, a pop of another code
  changes nothing, and no other flag is touched.
\<close>

theorem OpAddr_stack:
  assumes "f < 4"
  shows "GetOpAddr (PushOpAddr F f) 0 = f \<and> GetOpAddr (PushOpAddr F f) 1 = GetOpAddr F 0 \<and>
    PushOpAddr F f AND NOT FLAG_OPADDR_MASK = F AND NOT FLAG_OPADDR_MASK \<and>
    PopOpAddrIf F f AND NOT FLAG_OPADDR_MASK = F AND NOT FLAG_OPADDR_MASK \<and>
    (if GetOpAddr F 0 = f
     then GetOpAddr (PopOpAddrIf F f) 0 = GetOpAddr F 1 \<and> GetOpAddr (PopOpAddrIf F f) 1 = 0
     else PopOpAddrIf F f = F)"
proof -
  note bits = GetOpAddr_bits PushOpAddr_bits [OF assms] PopOpAddrIf_bits
  have "GetOpAddr (PushOpAddr F f) 0 = f \<and> GetOpAddr (PushOpAddr F f) 1 = GetOpAddr F 0"
    by (auto intro!: bit_word_eqI simp: bits dest: small_bits [OF assms])
  moreover have "PushOpAddr F f AND NOT FLAG_OPADDR_MASK = F AND NOT FLAG_OPADDR_MASK \<and>
      PopOpAddrIf F f AND NOT FLAG_OPADDR_MASK = F AND NOT FLAG_OPADDR_MASK"
    unfolding opaddr_mask by (intro conjI bit_word_eqI) (auto simp: bits bit_simps)
  moreover have "PopOpAddrIf F f = F" if "GetOpAddr F 0 \<noteq> f"
    using that by (intro bit_word_eqI) (simp add: bits)
  moreover have "GetOpAddr (PopOpAddrIf F f) 0 = GetOpAddr F 1 \<and> GetOpAddr (PopOpAddrIf F f) 1 = 0"
    if "GetOpAddr F 0 = f"
    using that by (auto intro!: bit_word_eqI simp: GetOpAddr_bits [where i = 0] bits add.commute)
  ultimately show ?thesis by simp
qed

lemma OpAddr_stack_witness:
  "GetOpAddr (PushOpAddr 0 FLAG_OPERAND_SIZE_LAST) 0 = FLAG_OPERAND_SIZE_LAST"
  using OpAddr_stack [of FLAG_OPERAND_SIZE_LAST 0] by (simp add: FLAG_OPERAND_SIZE_LAST_def)

end
