(* ===== verification/TableBuild.thy ===== *)
theory TableBuild
  imports X86Tables "HOL-Library.Monad_Syntax" "HOL-Library.Multiset"
begin

text \<open>
  How the decoder tables are built: \<open>GenerateTable\<close>, \<open>GenerateTableWithCopy\<close>,
  \<open>GenerateX87Table\<close> (\<open>X86Tables.h\<close>), \<open>InstallToTable\<close> (\<open>OpcodeDispatcher.h\<close>) and
  \<open>InstallToX87Table\<close> (\<open>X87Tables.cpp\<close>). They run at compile time, with assertions: a write
  outside the table, a duplicate entry and a dispatcher installed twice are \<open>None\<close>.
\<close>

section \<open>The builders\<close>

primrec foldM :: "('a \<Rightarrow> 's \<Rightarrow> 's option) \<Rightarrow> 'a list \<Rightarrow> 's \<Rightarrow> 's option" where
  "foldM f [] s = Some s"
| "foldM f (x # xs) s = do { s' \<leftarrow> f x s; foldM f xs s' }"

definition unused :: "X86InstInfo \<Rightarrow> bool" where
  "unused info \<longleftrightarrow> Type info = TYPE_UNKNOWN \<and> OpcodeDispatcher info = OpDispatch None"

definition GenerateEntry :: "X86InstInfo \<Rightarrow> nat \<Rightarrow> table \<Rightarrow> table option" where
  "GenerateEntry info k FinalTable =
     (if k < length FinalTable \<and> unused (FinalTable ! k) then Some (FinalTable[k := info])
      else None)"

definition GenerateTable :: "X86TablesInfoStruct list \<Rightarrow> table \<Rightarrow> table option" where
  "GenerateTable LocalTable =
     foldM (\<lambda>Op. foldM (\<lambda>i. GenerateEntry (Info Op) (first Op + i)) [0..<second Op]) LocalTable"

definition CopyEntry :: "X86InstInfo \<Rightarrow> nat \<Rightarrow> table \<Rightarrow> table \<Rightarrow> table option" where
  "CopyEntry info k OtherLocal FinalTable =
     (if k < length FinalTable \<and> Type (FinalTable ! k) = TYPE_UNKNOWN then
        if Type info = TYPE_COPY_OTHER then
          if k < length OtherLocal then Some (FinalTable[k := OtherLocal ! k]) else None
        else Some (FinalTable[k := info])
      else None)"

definition GenerateTableWithCopy ::
  "X86TablesInfoStruct list \<Rightarrow> table \<Rightarrow> table \<Rightarrow> table option" where
  "GenerateTableWithCopy LocalTable OtherLocal =
     foldM (\<lambda>Op. foldM (\<lambda>i. CopyEntry (Info Op) (first Op + i) OtherLocal) [0..<second Op])
       LocalTable"

text \<open>
  An x87 entry with a register form (\<open>mod\<close> is 3) is written once, one with a memory form is
  repeated through the other three values of \<open>mod\<close> and all values of \<open>rm\<close>. Only the first
  index of the repetition is checked for a duplicate.
\<close>

definition StoreInfo :: "X86InstInfo \<Rightarrow> nat \<Rightarrow> table \<Rightarrow> table option" where
  "StoreInfo info k FinalTable =
     (if k < length FinalTable then Some (FinalTable[k := info]) else None)"

definition X87Indices :: "nat \<Rightarrow> nat \<Rightarrow> nat list" where
  "X87Indices OpNum i =
     concat (map (\<lambda>md. map (\<lambda>rm. (OpNum OR md OR rm) + i) [0..<8]) [0x00, 0x40, 0x80])"

definition X87Entry :: "X86InstInfo \<Rightarrow> nat \<Rightarrow> nat \<Rightarrow> table \<Rightarrow> table option" where
  "X87Entry info OpNum i FinalTable =
     (if OpNum + i < length FinalTable \<and> Type (FinalTable ! (OpNum + i)) = TYPE_UNKNOWN then
        if OpNum AND 0b11000000 = 0b11000000 then StoreInfo info (OpNum + i) FinalTable
        else if OpNum AND 0b11000000 \<noteq> 0 then None
        else foldM (StoreInfo info) (X87Indices OpNum i) FinalTable
      else None)"

definition GenerateX87Table :: "X86TablesInfoStruct list \<Rightarrow> table \<Rightarrow> table option" where
  "GenerateX87Table LocalTable =
     foldM (\<lambda>Op. foldM (X87Entry (Info Op) (first Op)) [0..<second Op]) LocalTable"

definition InstallEntry :: "OpDispatchPtr option \<Rightarrow> nat \<Rightarrow> table \<Rightarrow> table option" where
  "InstallEntry p k FinalTable =
     (if k < length FinalTable \<and> OpcodeDispatcher (FinalTable ! k) = OpDispatch None
      then Some (FinalTable[k := set_OpDispatch p (FinalTable ! k)]) else None)"

definition InstallToTable :: "DispatchTableEntry list \<Rightarrow> table \<Rightarrow> table option" where
  "InstallToTable LocalTable =
     foldM (\<lambda>Op. foldM (\<lambda>i. InstallEntry (DispPtr Op) (DispOp Op + i)) [0..<DispCount Op])
       LocalTable"

definition StoreDispatch :: "OpDispatchPtr option \<Rightarrow> nat \<Rightarrow> table \<Rightarrow> table option" where
  "StoreDispatch p k FinalTable =
     (if k < length FinalTable then Some (FinalTable[k := set_OpDispatch p (FinalTable ! k)])
      else None)"

definition InstallX87Entry :: "OpDispatchPtr option \<Rightarrow> bool \<Rightarrow> nat \<Rightarrow> nat \<Rightarrow> table \<Rightarrow> table option" where
  "InstallX87Entry p Repeat OpNum i FinalTable =
     do { T \<leftarrow> InstallEntry p (OpNum + i) FinalTable;
          if Repeat then do { T \<leftarrow> StoreDispatch p ((OpNum OR 0x40) + i) T;
                              StoreDispatch p ((OpNum OR 0x80) + i) T }
          else Some T }"

definition InstallToX87Table :: "DispatchTableEntry list \<Rightarrow> table \<Rightarrow> table option" where
  "InstallToX87Table LocalTable =
     foldM (\<lambda>Op. foldM (InstallX87Entry (DispPtr Op) (DispOp Op AND 0x8000 \<noteq> 0) (DispOp Op AND 0x7FF))
                   [0..<DispCount Op]) LocalTable"

section \<open>What a build gives\<close>

text \<open>
  The indices a list of entries covers, each with its entry's value.
\<close>

definition expand :: "X86TablesInfoStruct list \<Rightarrow> (nat \<times> X86InstInfo) list" where
  "expand L = concat (map (\<lambda>e. map (\<lambda>i. (first e + i, Info e)) [0..<second e]) L)"

definition expand_dispatch :: "DispatchTableEntry list \<Rightarrow> (nat \<times> OpDispatchPtr option) list" where
  "expand_dispatch D = concat (map (\<lambda>e. map (\<lambda>i. (DispOp e + i, DispPtr e)) [0..<DispCount e]) D)"

lemma foldM_append: "foldM f (xs @ ys) s = do { s' \<leftarrow> foldM f xs s; foldM f ys s' }"
  by (induction xs arbitrary: s) (auto split: Option.bind_splits)

lemma foldM_map: "foldM f (map g xs) = foldM (\<lambda>x. f (g x)) xs"
proof
  fix s
  show "foldM f (map g xs) s = foldM (\<lambda>x. f (g x)) xs s"
    by (induction xs arbitrary: s) (auto split: Option.bind_splits)
qed

lemma foldM_concat: "foldM f (concat xss) = foldM (foldM f) xss"
proof
  fix s
  show "foldM f (concat xss) s = foldM (foldM f) xss s"
    by (induction xss arbitrary: s) (auto simp: foldM_append)
qed

lemma foldM_cong [fundef_cong]:
  "xs = ys \<Longrightarrow> s = t \<Longrightarrow> (\<And>x u. x \<in> set ys \<Longrightarrow> f x u = g x u) \<Longrightarrow> foldM f xs s = foldM g ys t"
  by (induction ys arbitrary: s t xs) (auto intro!: Option.bind_cong)

lemma GenerateTable_expand:
  "GenerateTable L T = foldM (\<lambda>(k, info). GenerateEntry info k) (expand L) T"
  by (simp add: GenerateTable_def expand_def foldM_concat foldM_map)

lemma GenerateTableWithCopy_expand:
  "GenerateTableWithCopy L Ot T = foldM (\<lambda>(k, info). CopyEntry info k Ot) (expand L) T"
  by (simp add: GenerateTableWithCopy_def expand_def foldM_concat foldM_map)

lemma InstallToTable_expand:
  "InstallToTable D T = foldM (\<lambda>(k, p). InstallEntry p k) (expand_dispatch D) T"
  by (simp add: InstallToTable_def expand_dispatch_def foldM_concat foldM_map)

text \<open>
  A fold that updates each index at most once, where each update is allowed in the table as it
  was before, succeeds and updates all of them.
\<close>

lemma foldM_update:
  assumes "\<And>k v T. k < length T \<Longrightarrow> ok v k (T ! k) \<Longrightarrow> f (k, v) T = Some (T[k := upd v k (T ! k)])"
    and "distinct (map fst ps)" "\<forall>(k, v) \<in> set ps. k < length T \<and> ok v k (T ! k)"
  shows "foldM f ps T =
    Some (map (\<lambda>k. case map_of ps k of None \<Rightarrow> T ! k | Some v \<Rightarrow> upd v k (T ! k)) [0..<length T])"
  using assms(2,3)
proof (induction ps arbitrary: T)
  case Nil
  then show ?case by (simp add: map_nth)
next
  case (Cons p ps)
  obtain k v where p: "p = (k, v)" by fastforce
  let ?T = "T[k := upd v k (T ! k)]"
  have f: "f p T = Some ?T" using Cons.prems assms(1) [of k T v] p by simp
  have "\<forall>(j, w) \<in> set ps. j < length ?T \<and> ok w j (?T ! j)"
  proof (intro ballI, clarify)
    fix j w
    assume j: "(j, w) \<in> set ps"
    with Cons.prems(1) p have "j \<noteq> k" by (auto simp: rev_image_eqI)
    with j Cons.prems(2) show "j < length ?T \<and> ok w j (?T ! j)" by auto
  qed
  with Cons.IH [of ?T] Cons.prems(1) f show ?case
    using map_of_eq_None_iff [of ps k] p Cons.prems by (auto split: option.splits)
qed

lemma GenerateTable_eq:
  assumes "distinct (map fst (expand L))" "\<forall>(k, v) \<in> set (expand L). k < length T \<and> unused (T ! k)"
  shows "GenerateTable L T =
    Some (map (\<lambda>k. case map_of (expand L) k of None \<Rightarrow> T ! k | Some v \<Rightarrow> v) [0..<length T])"
  unfolding GenerateTable_expand
  using foldM_update [where ok = "\<lambda>_ _. unused" and upd = "\<lambda>v _ _. v", OF _ assms]
  by (simp add: GenerateEntry_def)

lemma GenerateTableWithCopy_eq:
  assumes "distinct (map fst (expand L))"
    "\<forall>(k, v) \<in> set (expand L). k < length T \<and> Type (T ! k) = TYPE_UNKNOWN \<and> k < length Ot"
  shows "GenerateTableWithCopy L Ot T =
    Some (map (\<lambda>k. case map_of (expand L) k of None \<Rightarrow> T ! k
                    | Some v \<Rightarrow> if Type v = TYPE_COPY_OTHER then Ot ! k else v) [0..<length T])"
  unfolding GenerateTableWithCopy_expand
  using foldM_update [where ok = "\<lambda>_ k v. Type v = TYPE_UNKNOWN \<and> k < length Ot"
      and upd = "\<lambda>v k _. if Type v = TYPE_COPY_OTHER then Ot ! k else v"
      and f = "\<lambda>(k, info). CopyEntry info k Ot", OF _ assms]
  by (simp add: CopyEntry_def if_distrib cong: if_cong)

lemma InstallToTable_eq:
  assumes "distinct (map fst (expand_dispatch D))"
    "\<forall>(k, p) \<in> set (expand_dispatch D). k < length T \<and> OpcodeDispatcher (T ! k) = OpDispatch None"
  shows "InstallToTable D T =
    Some (map (\<lambda>k. case map_of (expand_dispatch D) k of None \<Rightarrow> T ! k
                    | Some p \<Rightarrow> set_OpDispatch p (T ! k)) [0..<length T])"
  unfolding InstallToTable_expand
  using foldM_update [where ok = "\<lambda>_ _ v. OpcodeDispatcher v = OpDispatch None"
      and upd = "\<lambda>p _. set_OpDispatch p", OF _ assms]
  by (simp add: InstallEntry_def)

section \<open>Disjoint ranges\<close>

text \<open>
  The indices of a table are pairwise different when its ranges, sorted by their start, do not
  overlap. The functions below decide that by rewriting; the congruence rules keep the simplifier
  out of the long lists it has not reached yet.
\<close>

fun merge :: "(nat \<times> nat) list \<Rightarrow> (nat \<times> nat) list \<Rightarrow> (nat \<times> nat) list" where
  "merge [] ys = ys"
| "merge (x # xs) [] = x # xs"
| "merge (x # xs) (y # ys) =
     (if fst x \<le> fst y then x # merge xs (y # ys) else y # merge (x # xs) ys)"

fun merge_pairs :: "(nat \<times> nat) list list \<Rightarrow> (nat \<times> nat) list list" where
  "merge_pairs [] = []"
| "merge_pairs [r] = [r]"
| "merge_pairs (r # s # rs) = (let m = merge r s in m # merge_pairs rs)"

lemma length_merge_pairs: "length (merge_pairs rs) = (length rs + 1) div 2"
  by (induction rs rule: merge_pairs.induct) (simp_all add: Let_def)

function merge_all :: "(nat \<times> nat) list list \<Rightarrow> (nat \<times> nat) list" where
  "merge_all [] = []"
| "merge_all [r] = r"
| "merge_all (r # s # rs) = (let p = merge_pairs (r # s # rs) in merge_all p)"
  by pat_completeness auto
termination by (relation "measure length") (simp_all add: length_merge_pairs Let_def)

fun chain :: "nat \<Rightarrow> (nat \<times> nat) list \<Rightarrow> nat \<Rightarrow> bool" where
  "chain lo [] hi \<longleftrightarrow> lo \<le> hi"
| "chain lo ((s, n) # rs) hi \<longleftrightarrow> (if lo \<le> s then chain (s + n) rs hi else False)"

definition disjoint_ranges :: "(nat \<times> nat) list \<Rightarrow> nat \<Rightarrow> bool" where
  "disjoint_ranges rs hi \<longleftrightarrow> (let ss = map (\<lambda>r. [r]) rs; m = merge_all ss in chain 0 m hi)"

lemma merge_weak: "merge r s = merge r s" by (rule refl)
lemma merge_pairs_weak: "merge_pairs rs = merge_pairs rs" by (rule refl)
lemma merge_all_weak: "merge_all rs = merge_all rs" by (rule refl)
lemma chain_weak: "lo = lo' \<Longrightarrow> chain lo rs hi = chain lo' rs hi" by simp

definition ranges :: "X86TablesInfoStruct list \<Rightarrow> (nat \<times> nat) list" where
  "ranges L = map (\<lambda>e. (first e, second e)) L"

lemma ranges_simps:
  "ranges [] = []"
  "ranges (\<lparr>first = k, second = n, Info = i\<rparr> # L) = (k, n) # ranges L"
  by (simp_all add: ranges_def)

lemma ranges_append: "ranges (L @ M) = ranges L @ ranges M"
  by (simp add: ranges_def)

lemma ranges_weak: "ranges L = ranges L" by (rule refl)



definition dispatch_ranges :: "DispatchTableEntry list \<Rightarrow> (nat \<times> nat) list" where
  "dispatch_ranges D = map (\<lambda>e. (DispOp e, DispCount e)) D"

lemma dispatch_ranges_simps:
  "dispatch_ranges [] = []"
  "dispatch_ranges (\<lparr>DispOp = k, DispCount = n, DispPtr = p\<rparr> # D) = (k, n) # dispatch_ranges D"
  by (simp_all add: dispatch_ranges_def)

lemma dispatch_ranges_append: "dispatch_ranges (L @ M) = dispatch_ranges L @ dispatch_ranges M"
  by (simp add: dispatch_ranges_def)

lemma dispatch_ranges_weak: "dispatch_ranges L = dispatch_ranges L" by (rule refl)

lemmas weak_congs = merge_weak merge_pairs_weak merge_all_weak chain_weak ranges_weak
  dispatch_ranges_weak let_weak_cong

lemma mset_merge: "mset (merge xs ys) = mset xs + mset ys"
  by (induction xs ys rule: merge.induct) auto

lemma mset_merge_pairs: "mset (concat (merge_pairs rs)) = mset (concat rs)"
  by (induction rs rule: merge_pairs.induct) (auto simp: Let_def mset_merge)

lemma mset_merge_all: "mset (merge_all rs) = mset (concat rs)"
proof (induction rs rule: merge_all.induct)
  case (3 r s rs)
  then show ?case using mset_merge_pairs [of rs] by (simp add: Let_def mset_merge)
qed auto

definition indices :: "(nat \<times> nat) list \<Rightarrow> nat list" where
  "indices rs = concat (map (\<lambda>(s, n). [s..<s + n]) rs)"

lemma indices_simps [simp]:
  "indices [] = []" "indices ((s, n) # rs) = [s..<s + n] @ indices rs"
  by (simp_all add: indices_def)

lemma mset_indices_sum: "mset (indices rs) = (\<Sum>r\<in>#mset rs. mset [fst r..<fst r + snd r])"
  by (induction rs) (auto simp: indices_def)

lemma mset_indices: "mset rs = mset ss \<Longrightarrow> mset (indices rs) = mset (indices ss)"
  by (simp add: mset_indices_sum)

lemma chain_indices:
  "chain lo rs hi \<Longrightarrow> distinct (indices rs) \<and> (\<forall>k \<in> set (indices rs). lo \<le> k \<and> k < hi)"
proof (induction lo rs hi rule: chain.induct)
  case (2 lo s n rs hi)
  then have "lo \<le> s" "distinct (indices rs)" "\<forall>k \<in> set (indices rs). s + n \<le> k \<and> k < hi" "chain (s + n) rs hi"
    by (auto split: if_splits)
  moreover have "chain lo' rs' hi' \<Longrightarrow> lo' \<le> hi'" for lo' rs' hi'
    by (induction lo' rs' hi' rule: chain.induct) (auto split: if_splits)
  ultimately have "s + n \<le> hi" by blast
  then show ?case using \<open>lo \<le> s\<close> \<open>distinct (indices rs)\<close> \<open>\<forall>k \<in> set (indices rs). s + n \<le> k \<and> k < hi\<close>
    by fastforce
qed auto

lemma disjoint_ranges_indices:
  assumes "disjoint_ranges rs hi"
  shows "distinct (indices rs)" "\<forall>k \<in> set (indices rs). k < hi"
proof -
  have m: "mset (merge_all (map (\<lambda>r. [r]) rs)) = mset rs"
    by (simp add: mset_merge_all concat_map_singleton [of id, simplified])
  have c: "chain 0 (merge_all (map (\<lambda>r. [r]) rs)) hi"
    using assms by (simp add: disjoint_ranges_def Let_def)
  note i = chain_indices [OF c] mset_indices [OF m]
  show "distinct (indices rs)" using i by (metis mset_eq_imp_distinct_iff)
  show "\<forall>k \<in> set (indices rs). k < hi" using i by (metis mset_eq_setD)
qed

lemma indices_expand: "indices (ranges L) = map fst (expand L)"
  by (induction L) (auto simp: indices_def ranges_def expand_def comp_def map_add_upt[symmetric] add.commute)

lemma indices_expand_dispatch: "indices (dispatch_ranges D) = map fst (expand_dispatch D)"
  by (induction D) (auto simp: indices_def dispatch_ranges_def expand_dispatch_def comp_def map_add_upt[symmetric] add.commute)

section \<open>Well-formed tables\<close>

text \<open>
  What a table holds at an index: the entry of the local table that covers it, with the handler of
  the dispatch table that covers it.
\<close>

definition info_lookup :: "X86TablesInfoStruct list \<Rightarrow> nat \<Rightarrow> X86InstInfo" where
  "info_lookup L k = (case map_of (expand L) k of None \<Rightarrow> zero_info | Some info \<Rightarrow> info)"

definition dispatch_lookup :: "DispatchTableEntry list \<Rightarrow> nat \<Rightarrow> X86InstInfo \<Rightarrow> X86InstInfo" where
  "dispatch_lookup D k info =
     (case map_of (expand_dispatch D) k of None \<Rightarrow> info | Some p \<Rightarrow> set_OpDispatch p info)"

definition table_lookup ::
  "X86TablesInfoStruct list \<Rightarrow> DispatchTableEntry list \<Rightarrow> nat \<Rightarrow> X86InstInfo" where
  "table_lookup L D k = dispatch_lookup D k (info_lookup L k)"

definition copy_lookup ::
  "X86TablesInfoStruct list \<Rightarrow> table \<Rightarrow> DispatchTableEntry list \<Rightarrow> nat \<Rightarrow> X86InstInfo" where
  "copy_lookup L Other D k =
     dispatch_lookup D k
       (if Type (info_lookup L k) = TYPE_COPY_OTHER then Other ! k else info_lookup L k)"

text \<open>
  The ranges of a local table that no dispatch entry may touch: the entries that have a dispatcher
  of their own, and those that are copied.
\<close>

fun fixed_ranges :: "X86TablesInfoStruct list \<Rightarrow> (nat \<times> nat) list" where
  "fixed_ranges [] = []"
| "fixed_ranges (e # L) =
     (if OpcodeDispatcher (Info e) = OpDispatch None \<and> Type (Info e) \<noteq> TYPE_COPY_OTHER
      then fixed_ranges L else (first e, second e) # fixed_ranges L)"

lemma fixed_ranges_append: "fixed_ranges (L @ M) = fixed_ranges L @ fixed_ranges M"
  by (induction L) simp_all

lemma fixed_ranges_weak: "fixed_ranges L = fixed_ranges L" by (rule refl)

lemmas table_weaks = weak_congs fixed_ranges_weak

lemma indices_append: "indices (rs @ ss) = indices rs @ indices ss"
  by (simp add: indices_def)

lemma fixed_indices:
  "(k, v) \<in> set (expand L) \<Longrightarrow> k \<notin> set (indices (fixed_ranges L)) \<Longrightarrow>
     OpcodeDispatcher v = OpDispatch None \<and> Type v \<noteq> TYPE_COPY_OTHER"
  by (induction L) (auto simp: expand_def split: if_splits)

definition table_ok :: "X86TablesInfoStruct list \<Rightarrow> DispatchTableEntry list \<Rightarrow> nat \<Rightarrow> bool" where
  "table_ok L D N \<longleftrightarrow> disjoint_ranges (ranges L) N \<and>
     disjoint_ranges (fixed_ranges L @ dispatch_ranges D) N"

lemma table_okD:
  assumes "table_ok L D N"
  shows "distinct (map fst (expand L))" "\<forall>(k, v) \<in> set (expand L). k < N"
    "distinct (map fst (expand_dispatch D))" "\<forall>(k, v) \<in> set (expand_dispatch D). k < N"
    "\<forall>(k, p) \<in> set (expand_dispatch D). OpcodeDispatcher (info_lookup L k) = OpDispatch None \<and>
       Type (info_lookup L k) \<noteq> TYPE_COPY_OTHER"
proof -
  have L: "disjoint_ranges (ranges L) N" and D: "disjoint_ranges (fixed_ranges L @ dispatch_ranges D) N"
    using assms by (simp_all add: table_ok_def)
  note d = disjoint_ranges_indices [OF L, unfolded indices_expand]
    disjoint_ranges_indices [OF D, unfolded indices_append indices_expand_dispatch]
  show "distinct (map fst (expand L))" "distinct (map fst (expand_dispatch D))"
    using d by simp_all
  show "\<forall>(k, v) \<in> set (expand L). k < N" "\<forall>(k, v) \<in> set (expand_dispatch D). k < N"
    using d(2,4) by force+
  show "\<forall>(k, p) \<in> set (expand_dispatch D). OpcodeDispatcher (info_lookup L k) = OpDispatch None \<and>
       Type (info_lookup L k) \<noteq> TYPE_COPY_OTHER"
  proof (intro ballI, clarify)
    fix k p
    assume "(k, p) \<in> set (expand_dispatch D)"
    then have "k \<notin> set (indices (fixed_ranges L))" using d(3) by force
    then show "OpcodeDispatcher (info_lookup L k) = OpDispatch None \<and>
       Type (info_lookup L k) \<noteq> TYPE_COPY_OTHER"
      using fixed_indices [of k _ L]
      by (auto simp: info_lookup_def zero_info_def dest: map_of_SomeD split: option.splits)
  qed
qed

lemma zero_info_simps [simp]:
  "Type zero_info = TYPE_UNKNOWN" "OpcodeDispatcher zero_info = OpDispatch None" "unused zero_info"
  by (simp_all add: zero_info_def unused_def)

lemma GenerateTable_zero:
  assumes "table_ok L D N"
  shows "GenerateTable L (replicate N zero_info) = Some (map (info_lookup L) [0..<N])"
  using table_okD(1,2) [OF assms]
  by (subst GenerateTable_eq) (auto simp: info_lookup_def split: option.splits)

lemma InstallToTable_lookup:
  assumes "table_ok L D N" "length T = N"
    "\<forall>(k, p) \<in> set (expand_dispatch D). OpcodeDispatcher (T ! k) = OpDispatch None"
  shows "InstallToTable D T = Some (map (\<lambda>k. dispatch_lookup D k (T ! k)) [0..<N])"
  using table_okD(3,4) [OF assms(1)] assms(2,3)
  by (subst InstallToTable_eq) (auto simp: dispatch_lookup_def split: option.splits)

lemma build_table:
  assumes "table_ok L D N"
  shows "do { T \<leftarrow> GenerateTable L (replicate N zero_info); InstallToTable D T } =
    Some (map (table_lookup L D) [0..<N])"
  using table_okD(4,5) [OF assms]
  by (subst GenerateTable_zero [OF assms], simp, subst InstallToTable_lookup [OF assms])
    (fastforce simp: table_lookup_def)+

lemma build_copy:
  assumes "table_ok L D N" "length Other = N"
  shows "do { T \<leftarrow> GenerateTableWithCopy L Other (replicate N zero_info); InstallToTable D T } =
    Some (map (copy_lookup L Other D) [0..<N])"
proof -
  let ?T = "map (\<lambda>k. if Type (info_lookup L k) = TYPE_COPY_OTHER then Other ! k else info_lookup L k) [0..<N]"
  have "GenerateTableWithCopy L Other (replicate N zero_info) = Some ?T"
    using table_okD(1,2) [OF assms(1)] assms(2)
    by (subst GenerateTableWithCopy_eq) (auto simp: info_lookup_def split: option.splits)
  then show ?thesis
    using table_okD(4,5) [OF assms(1)]
    by (simp, subst InstallToTable_lookup [OF assms(1)]) (fastforce simp: copy_lookup_def)+
qed

lemma GenerateTable_append:
  "GenerateTable (L @ M) = (\<lambda>T. do { T \<leftarrow> GenerateTable L T; GenerateTable M T })"
  by (simp add: GenerateTable_def foldM_append fun_eq_iff)

lemma InstallToTable_append:
  "InstallToTable (D @ E) = (\<lambda>T. do { T \<leftarrow> InstallToTable D T; InstallToTable E T })"
  by (simp add: InstallToTable_def foldM_append fun_eq_iff)

lemmas table_appends = ranges_append fixed_ranges_append dispatch_ranges_append append_assoc

lemmas table_evals = ranges_simps dispatch_ranges_simps

text \<open>The table a successful build gives.\<close>

definition built :: "table option \<Rightarrow> table" where
  "built b = (case b of Some T \<Rightarrow> T | None \<Rightarrow> [])"

lemma built_Some [simp]: "built (Some T) = T"
  by (simp add: built_def)

section \<open>The x87 builders\<close>

text \<open>
  A fold whose steps each update a block of indices succeeds when the blocks are disjoint.
\<close>

lemma foldM_block:
  assumes "\<And>x T. \<forall>k \<in> set (keys x). k < length T \<and> ok (T ! k) \<Longrightarrow> good x \<Longrightarrow>
      f x T = Some (map (\<lambda>k. if k \<in> set (keys x) then upd x (T ! k) else T ! k) [0..<length T])"
    and "distinct (concat (map keys xs))"
    and "\<forall>x \<in> set xs. good x \<and> (\<forall>k \<in> set (keys x). k < length T \<and> ok (T ! k))"
  shows "foldM f xs T = Some (map (\<lambda>k. case find (\<lambda>x. k \<in> set (keys x)) xs of
      None \<Rightarrow> T ! k | Some x \<Rightarrow> upd x (T ! k)) [0..<length T])"
  using assms(2,3)
proof (induction xs arbitrary: T)
  case Nil
  then show ?case by (simp add: map_nth)
next
  case (Cons x xs)
  let ?T = "map (\<lambda>k. if k \<in> set (keys x) then upd x (T ! k) else T ! k) [0..<length T]"
  have f: "f x T = Some ?T" using Cons.prems(2) assms(1) [of x T] by simp
  have dis: "k \<notin> set (keys x)" if "y \<in> set xs" "k \<in> set (keys y)" for y k
    using Cons.prems(1) that by auto
  have g: "\<forall>y \<in> set xs. good y \<and> (\<forall>k \<in> set (keys y). k < length ?T \<and> ok (?T ! k))"
    using Cons.prems(2) dis by simp
  have IH: "foldM f xs ?T = Some (map (\<lambda>k. case find (\<lambda>x. k \<in> set (keys x)) xs of
      None \<Rightarrow> ?T ! k | Some x \<Rightarrow> upd x (?T ! k)) [0..<length ?T])"
    by (rule Cons.IH [OF _ g]) (use Cons.prems(1) in simp)
  have "find (\<lambda>x. k \<in> set (keys x)) xs = None" if "k \<in> set (keys x)" for k
    using dis that by (auto simp: find_None_iff)
  moreover have "k \<notin> set (keys x)" if "find (\<lambda>x. k \<in> set (keys x)) xs = Some y" for k y
    using dis that by (metis (mono_tags, lifting) find_Some_iff nth_mem)
  ultimately show ?case
    unfolding foldM.simps f Option.bind.simps IH by (auto split: option.splits)
qed

lemma StoreInfo_block:
  "\<forall>k \<in> set ks. k < length T \<Longrightarrow>
     foldM (StoreInfo v) ks T = Some (map (\<lambda>k. if k \<in> set ks then v else T ! k) [0..<length T])"
proof (induction ks arbitrary: T)
  case Nil
  then show ?case by (simp add: map_nth)
next
  case (Cons k ks)
  then have "foldM (StoreInfo v) ks (T[k := v])
      = Some (map (\<lambda>j. if j \<in> set ks then v else T[k := v] ! j) [0..<length T])"
    by simp
  moreover have "StoreInfo v k T = Some (T[k := v])" using Cons.prems by (simp add: StoreInfo_def)
  ultimately show ?case using Cons.prems by (auto simp: nth_list_update)
qed

definition x87_keys :: "X86TablesInfoStruct \<times> nat \<Rightarrow> nat list" where
  "x87_keys x = (if first (fst x) AND 0b11000000 = 0b11000000 then [first (fst x) + snd x]
                 else X87Indices (first (fst x)) (snd x))"

definition x87_form :: "X86TablesInfoStruct \<Rightarrow> bool" where
  "x87_form e \<longleftrightarrow> first e AND 0b11000000 = 0b11000000 \<or>
     first e AND 0b11000000 = 0 \<and> second e = 1 \<and> first e AND 7 = 0"

fun x87_ranges :: "X86TablesInfoStruct list \<Rightarrow> (nat \<times> nat) list" where
  "x87_ranges [] = []"
| "x87_ranges (e # L) =
     (if first e AND 0b11000000 = 0b11000000 then (first e, second e) # x87_ranges L
      else (first e, 8) # (first e OR 0x40, 8) # (first e OR 0x80, 8) # x87_ranges L)"

definition x87_items :: "X86TablesInfoStruct list \<Rightarrow> (X86TablesInfoStruct \<times> nat) list" where
  "x87_items L = concat (map (\<lambda>e. map (Pair e) [0..<second e]) L)"

lemma X87Entry_block:
  assumes "\<forall>k \<in> set (x87_keys (e, i)). k < length T \<and> Type (T ! k) = TYPE_UNKNOWN" "x87_form e"
  shows "X87Entry (Info e) (first e) i T =
    Some (map (\<lambda>k. if k \<in> set (x87_keys (e, i)) then Info e else T ! k) [0..<length T])"
proof (cases "first e AND 0b11000000 = 0b11000000")
  case True
  then show ?thesis
    using assms StoreInfo_block [of "[first e + i]" T "Info e"]
    by (auto simp: X87Entry_def x87_keys_def StoreInfo_def split: if_splits)
next
  case False
  then have k: "x87_keys (e, i) = X87Indices (first e) i" "first e AND 0b11000000 = 0"
    using assms(2) by (auto simp: x87_keys_def x87_form_def)
  have "first e + i \<in> set (map (\<lambda>rm. (first e OR 0 OR rm) + i) [0..<8])"
    unfolding set_map set_upt by (rule image_eqI [of _ _ 0]) simp_all
  then have "first e + i \<in> set (X87Indices (first e) i)" by (simp add: X87Indices_def)
  with False k assms(1) show ?thesis by (simp add: X87Entry_def StoreInfo_block)
qed

lemma or_add_low:
  assumes "k AND 7 = (0 :: nat)" "r < 8"
  shows "k OR r = k + r"
proof -
  have "take_bit 3 r = r" using assms(2) by (simp add: take_bit_nat_eq_self)
  then have "r = r AND 7" by (simp add: take_bit_eq_mask mask_eq_exp_minus_1)
  then have "k AND r = 0" using assms(1) by (metis and.commute and.left_commute and_zero_eq)
  then show ?thesis by (simp add: disjunctive_add_eq_or)
qed

lemma x87_keys_ranges:
  "\<forall>e \<in> set L. x87_form e \<Longrightarrow> concat (map x87_keys (x87_items L)) = indices (x87_ranges L)"
proof (induction L)
  case (Cons e L)
  have "concat (map x87_keys (map (Pair e) [0..<second e])) = indices (x87_ranges [e])"
  proof (cases "first e AND 0b11000000 = 0b11000000")
    case True
    then show ?thesis by (simp add: x87_keys_def comp_def concat_map_singleton map_add_upt add.commute)
  next
    case False
    with Cons.prems have e: "second e = 1" "first e AND 7 = 0" by (auto simp: x87_form_def)
    have low: "(a OR b) AND 7 = (a AND 7) OR (b AND 7)" for a b :: nat
      by (rule bit_eqI) (auto simp: bit_simps)
    have row: "map (\<lambda>rm. first e OR (m OR rm)) [0..<8] = [first e OR m..<(first e OR m) + 8]"
      if "m AND 7 = 0" for m
    proof -
      have "first e OR (m OR rm) = rm + (first e OR m)" if "rm < 8" for rm
        using or_add_low [of "first e OR m" rm] that e(2) \<open>m AND 7 = 0\<close>
        by (simp add: low or.assoc add.commute)
      then have "map (\<lambda>rm. first e OR (m OR rm)) [0..<8] = map (\<lambda>rm. rm + (first e OR m)) [0..<8]"
        by (intro map_cong) auto
      then show ?thesis by (simp add: map_add_upt add.commute)
    qed
    show ?thesis using False e row [of 0] row [of "0x40"] row [of "0x80"]
      by (simp add: x87_keys_def X87Indices_def or.assoc)
  qed
  with Cons show ?case by (simp add: x87_items_def)
qed (simp add: x87_items_def)

text \<open>
  The dispatch entries of the x87 table: one that repeats is installed for all three memory
  values of \<open>mod\<close>.
\<close>

definition x87_repeat :: "DispatchTableEntry \<Rightarrow> bool" where
  "x87_repeat e \<longleftrightarrow> DispOp e AND 0x8000 \<noteq> 0"

definition x87_op :: "DispatchTableEntry \<Rightarrow> nat" where
  "x87_op e = DispOp e AND 0x7FF"

definition x87_disp_keys :: "DispatchTableEntry \<times> nat \<Rightarrow> nat list" where
  "x87_disp_keys x =
     (let k = x87_op (fst x); i = snd x
      in if x87_repeat (fst x) then [k + i, (k OR 0x40) + i, (k OR 0x80) + i] else [k + i])"

fun x87_disp_ranges :: "DispatchTableEntry list \<Rightarrow> (nat \<times> nat) list" where
  "x87_disp_ranges [] = []"
| "x87_disp_ranges (e # D) =
     (if DispOp e AND 0x8000 \<noteq> 0 then
        (DispOp e AND 0x7FF, DispCount e) # ((DispOp e AND 0x7FF) OR 0x40, DispCount e)
          # ((DispOp e AND 0x7FF) OR 0x80, DispCount e) # x87_disp_ranges D
      else (DispOp e AND 0x7FF, DispCount e) # x87_disp_ranges D)"

definition x87_disp_items :: "DispatchTableEntry list \<Rightarrow> (DispatchTableEntry \<times> nat) list" where
  "x87_disp_items D = concat (map (\<lambda>e. map (Pair e) [0..<DispCount e]) D)"

lemma set_OpDispatch_twice [simp]: "set_OpDispatch p (set_OpDispatch q x) = set_OpDispatch p x"
  by (cases x) simp

lemma set_OpDispatch_simps [simp]:
  "OpcodeDispatcher (set_OpDispatch p x) = OpDispatch p" "Type (set_OpDispatch p x) = Type x"
  "Flags (set_OpDispatch p x) = Flags x" "MoreBytes (set_OpDispatch p x) = MoreBytes x"
  "Name (set_OpDispatch p x) = Name x"
  by (cases x; simp)+

lemma StoreDispatch_block:
  "\<forall>k \<in> set ks. k < length T \<Longrightarrow> foldM (StoreDispatch p) ks T =
     Some (map (\<lambda>k. if k \<in> set ks then set_OpDispatch p (T ! k) else T ! k) [0..<length T])"
proof (induction ks arbitrary: T)
  case Nil
  then show ?case by (simp add: map_nth)
next
  case (Cons k ks)
  let ?T = "T[k := set_OpDispatch p (T ! k)]"
  have "foldM (StoreDispatch p) ks ?T
      = Some (map (\<lambda>j. if j \<in> set ks then set_OpDispatch p (?T ! j) else ?T ! j) [0..<length T])"
    using Cons.IH [of ?T] Cons.prems by simp
  moreover have "StoreDispatch p k T = Some ?T" using Cons.prems by (simp add: StoreDispatch_def)
  ultimately show ?case using Cons.prems by (auto simp: nth_list_update)
qed

lemma InstallX87Entry_block:
  assumes "\<forall>k \<in> set (x87_disp_keys (e, i)). k < length T \<and> OpcodeDispatcher (T ! k) = OpDispatch None"
  shows "InstallX87Entry (DispPtr e) (DispOp e AND 0x8000 \<noteq> 0) (DispOp e AND 0x7FF) i T =
    Some (map (\<lambda>k. if k \<in> set (x87_disp_keys (e, i)) then set_OpDispatch (DispPtr e) (T ! k)
                   else T ! k) [0..<length T])"
proof -
  have "x87_op e + i \<in> set (x87_disp_keys (e, i))" by (simp add: x87_disp_keys_def Let_def)
  then have "InstallEntry (DispPtr e) (x87_op e + i) T = StoreDispatch (DispPtr e) (x87_op e + i) T"
    using assms by (simp add: InstallEntry_def StoreDispatch_def)
  then have "InstallX87Entry (DispPtr e) (x87_repeat e) (x87_op e) i T =
      foldM (StoreDispatch (DispPtr e)) (x87_disp_keys (e, i)) T"
    by (simp add: InstallX87Entry_def x87_disp_keys_def Let_def)
  then show ?thesis
    using assms StoreDispatch_block [of "x87_disp_keys (e, i)" T "DispPtr e"]
    by (simp add: x87_repeat_def x87_op_def)
qed

lemma mset_interleave:
  "mset (concat (map (\<lambda>i. [a + i, b + i, c + i]) [0..<n])) =
   mset [a..<a + n] + mset [b..<b + n] + mset [c..<c + n]" for a b c :: nat
  by (induction n) simp_all

lemma x87_disp_keys_ranges:
  "mset (concat (map x87_disp_keys (x87_disp_items D))) = mset (indices (x87_disp_ranges D))"
proof (induction D)
  case (Cons e D)
  have "mset (concat (map x87_disp_keys (map (Pair e) [0..<DispCount e])))
      = mset (indices (x87_disp_ranges [e]))"
  proof (cases "x87_repeat e")
    case True
    then have eq: "map x87_disp_keys (map (Pair e) [0..<DispCount e]) = map (\<lambda>i. [x87_op e + i,
        (x87_op e OR 0x40) + i, (x87_op e OR 0x80) + i]) [0..<DispCount e]"
      by (simp add: x87_disp_keys_def Let_def)
    show ?thesis using True unfolding eq mset_interleave
      by (simp add: x87_repeat_def x87_op_def add.assoc)
  next
    case False
    then have eq: "map x87_disp_keys (map (Pair e) [0..<DispCount e]) = map (\<lambda>i. [x87_op e + i]) [0..<DispCount e]"
      by (simp add: x87_disp_keys_def Let_def)
    show ?thesis using False unfolding eq
      by (simp add: x87_repeat_def x87_op_def concat_map_singleton map_add_upt add.commute)
  qed
  with Cons show ?case by (simp add: x87_disp_items_def)
qed (simp add: x87_disp_items_def)

definition x87_info :: "X86TablesInfoStruct list \<Rightarrow> nat \<Rightarrow> X86InstInfo" where
  "x87_info L k = (case find (\<lambda>x. k \<in> set (x87_keys x)) (x87_items L) of
     None \<Rightarrow> zero_info | Some x \<Rightarrow> Info (fst x))"

definition x87_lookup :: "X86TablesInfoStruct list \<Rightarrow> DispatchTableEntry list \<Rightarrow> nat \<Rightarrow> X86InstInfo" where
  "x87_lookup L D k = (case find (\<lambda>x. k \<in> set (x87_disp_keys x)) (x87_disp_items D) of
     None \<Rightarrow> x87_info L k | Some x \<Rightarrow> set_OpDispatch (DispPtr (fst x)) (x87_info L k))"

definition x87_ok :: "X86TablesInfoStruct list \<Rightarrow> DispatchTableEntry list \<Rightarrow> nat \<Rightarrow> bool" where
  "x87_ok L D N \<longleftrightarrow> disjoint_ranges (x87_ranges L) N \<and> disjoint_ranges (x87_disp_ranges D) N \<and>
     (\<forall>e \<in> set L. x87_form e \<and> OpcodeDispatcher (Info e) = OpDispatch None)"

lemma distinct_mset: "distinct xs \<Longrightarrow> mset xs = mset ys \<Longrightarrow> distinct ys"
  by (metis mset_eq_imp_distinct_iff)

lemma build_x87:
  assumes "x87_ok L D N"
  shows "do { T \<leftarrow> GenerateX87Table L (replicate N zero_info); InstallToX87Table D T } =
    Some (map (x87_lookup L D) [0..<N])"
proof -
  have L: "disjoint_ranges (x87_ranges L) N" and D: "disjoint_ranges (x87_disp_ranges D) N"
    and f: "\<forall>e \<in> set L. x87_form e \<and> OpcodeDispatcher (Info e) = OpDispatch None"
    using assms by (simp_all add: x87_ok_def)
  have kL: "concat (map x87_keys (x87_items L)) = indices (x87_ranges L)"
    using f by (intro x87_keys_ranges) simp
  have bL: "k < N" if "x \<in> set (x87_items L)" "k \<in> set (x87_keys x)" for x k
    using disjoint_ranges_indices(2) [OF L] that unfolding kL [symmetric] by auto
  have bD: "k < N" if "x \<in> set (x87_disp_items D)" "k \<in> set (x87_disp_keys x)" for x k
  proof -
    have "k \<in> set (indices (x87_disp_ranges D))"
      using that mset_eq_setD [OF x87_disp_keys_ranges [of D]] by auto
    then show ?thesis using disjoint_ranges_indices(2) [OF D] by blast
  qed
  have "GenerateX87Table L (replicate N zero_info) =
      foldM (\<lambda>x. X87Entry (Info (fst x)) (first (fst x)) (snd x)) (x87_items L) (replicate N zero_info)"
    by (simp add: GenerateX87Table_def x87_items_def foldM_concat foldM_map)
  also have "\<dots> = Some (map (\<lambda>k. case find (\<lambda>x. k \<in> set (x87_keys x)) (x87_items L) of
      None \<Rightarrow> replicate N zero_info ! k | Some x \<Rightarrow> Info (fst x)) [0..<length (replicate N zero_info)])"
  proof (rule foldM_block [where ok = "\<lambda>v. Type v = TYPE_UNKNOWN" and good = "\<lambda>x. x87_form (fst x)"])
    show "distinct (concat (map x87_keys (x87_items L)))"
      unfolding kL using L by (rule disjoint_ranges_indices)
    show "\<forall>x \<in> set (x87_items L). x87_form (fst x) \<and> (\<forall>k \<in> set (x87_keys x).
        k < length (replicate N zero_info) \<and> Type (replicate N zero_info ! k) = TYPE_UNKNOWN)"
      using f bL by (force simp: x87_items_def)
    fix x T
    assume "\<forall>k \<in> set (x87_keys x). k < length T \<and> Type (T ! k) = TYPE_UNKNOWN" "x87_form (fst x)"
    then show "X87Entry (Info (fst x)) (first (fst x)) (snd x) T =
        Some (map (\<lambda>k. if k \<in> set (x87_keys x) then Info (fst x) else T ! k) [0..<length T])"
      using X87Entry_block [of "fst x" "snd x" T] by simp
  qed
  also have "\<dots> = Some (map (x87_info L) [0..<N])"
    by (auto simp: x87_info_def split: option.splits)
  finally have G: "GenerateX87Table L (replicate N zero_info) = Some (map (x87_info L) [0..<N])" .
  have null: "OpcodeDispatcher (x87_info L k) = OpDispatch None" for k
    using f by (auto simp: x87_info_def x87_items_def find_Some_iff split: option.splits dest!: nth_mem)
  let ?T = "map (x87_info L) [0..<N]"
  have "InstallToX87Table D ?T = foldM (\<lambda>x. InstallX87Entry (DispPtr (fst x)) (DispOp (fst x) AND 0x8000 \<noteq> 0)
      (DispOp (fst x) AND 0x7FF) (snd x)) (x87_disp_items D) ?T"
    by (simp add: InstallToX87Table_def x87_disp_items_def foldM_concat foldM_map)
  also have "\<dots> = Some (map (\<lambda>k. case find (\<lambda>x. k \<in> set (x87_disp_keys x)) (x87_disp_items D) of
      None \<Rightarrow> ?T ! k | Some x \<Rightarrow> set_OpDispatch (DispPtr (fst x)) (?T ! k)) [0..<length ?T])"
  proof (rule foldM_block [where ok = "\<lambda>v. OpcodeDispatcher v = OpDispatch None" and good = "\<lambda>_. True"])
    show "distinct (concat (map x87_disp_keys (x87_disp_items D)))"
      using disjoint_ranges_indices(1) [OF D] x87_disp_keys_ranges [of D, symmetric] by (rule distinct_mset)
    show "\<forall>x \<in> set (x87_disp_items D). True \<and> (\<forall>k \<in> set (x87_disp_keys x).
        k < length ?T \<and> OpcodeDispatcher (?T ! k) = OpDispatch None)"
      using bD null by simp
    fix x T
    assume "\<forall>k \<in> set (x87_disp_keys x). k < length T \<and> OpcodeDispatcher (T ! k) = OpDispatch None"
    then show "InstallX87Entry (DispPtr (fst x)) (DispOp (fst x) AND 0x8000 \<noteq> 0) (DispOp (fst x) AND 0x7FF)
        (snd x) T = Some (map (\<lambda>k. if k \<in> set (x87_disp_keys x)
          then set_OpDispatch (DispPtr (fst x)) (T ! k) else T ! k) [0..<length T])"
      using InstallX87Entry_block [of "fst x" "snd x" T] by simp
  qed
  also have "\<dots> = Some (map (x87_lookup L D) [0..<N])"
    by (auto simp: x87_lookup_def split: option.splits)
  finally show ?thesis unfolding G by simp
qed

section \<open>Which instructions have a handler\<close>

text \<open>The entries that \<open>DecodeInstruction\<close> refuses for want of a dispatcher.\<close>

definition needs_handler :: "X86InstInfo \<Rightarrow> bool" where
  "needs_handler info \<longleftrightarrow> Type info = TYPE_INST \<and> OpcodeDispatcher info = OpDispatch None"

text \<open>
  The entries an instruction can be decoded to that have no handler: besides those, entries whose
  memory form is the instruction (\<open>TYPE_SECOND_GROUP_MODRM\<close>), and pairs of entries for the two
  modes of which one has none.
\<close>

definition mode_lacks_handler :: "X86InstInfo \<Rightarrow> bool" where
  "mode_lacks_handler info \<longleftrightarrow>
     (Type info = TYPE_INST \<or> Type info = TYPE_SECOND_GROUP_MODRM) \<and> OpcodeDispatcher info = OpDispatch None"

definition lacks_handler :: "X86InstInfo \<Rightarrow> bool" where
  "lacks_handler info \<longleftrightarrow>
     (if Type info = TYPE_ARCH_DISPATCHER then
        (case OpcodeDispatcher info of
           Indirect i j \<Rightarrow> mode_lacks_handler i \<or> mode_lacks_handler j
         | OpDispatch p \<Rightarrow> p = None)
      else mode_lacks_handler info)"

lemma mode_lacks_handler_entry [simp]:
  "mode_lacks_handler (X86InstInfo nm t f m d) \<longleftrightarrow>
     (if t = TYPE_INST \<or> t = TYPE_SECOND_GROUP_MODRM then d = OpDispatch None else False)"
  by (simp add: mode_lacks_handler_def)

lemma lacks_handler_entry [simp]:
  "lacks_handler (X86InstInfo nm t f m (OpDispatch None)) \<longleftrightarrow>
     t = TYPE_INST \<or> t = TYPE_SECOND_GROUP_MODRM \<or> t = TYPE_ARCH_DISPATCHER"
  "lacks_handler (X86InstInfo nm TYPE_ARCH_DISPATCHER f m (Indirect i j)) \<longleftrightarrow>
     mode_lacks_handler i \<or> mode_lacks_handler j"
  by (auto simp: lacks_handler_def)

lemma lacks_handler_set [simp]: "\<not> lacks_handler (set_OpDispatch (Some p) i)"
  by (cases i) (simp add: lacks_handler_def)

text \<open>
  The ranges of the entries that lack a handler of their own, and the walk that checks that other
  ranges cover them.
\<close>

fun inst_ranges :: "X86TablesInfoStruct list \<Rightarrow> (nat \<times> nat) list" where
  "inst_ranges [] = []"
| "inst_ranges (e # L) =
     (if lacks_handler (Info e)
      then (first e, second e) # inst_ranges L else inst_ranges L)"

fun x87_inst_ranges :: "X86TablesInfoStruct list \<Rightarrow> (nat \<times> nat) list" where
  "x87_inst_ranges [] = []"
| "x87_inst_ranges (e # L) =
     (if lacks_handler (Info e)
      then (if first e AND 0b11000000 = 0b11000000 then (first e, second e) # x87_inst_ranges L
            else (first e, 8) # (first e OR 0x40, 8) # (first e OR 0x80, 8) # x87_inst_ranges L)
      else x87_inst_ranges L)"

function within :: "(nat \<times> nat) list \<Rightarrow> (nat \<times> nat) list \<Rightarrow> bool" where
  "within [] ds \<longleftrightarrow> True"
| "within ((s, n) # rs) [] \<longleftrightarrow> False"
| "within ((s, n) # rs) ((t, m) # ds) \<longleftrightarrow>
     (if t + m \<le> s then within ((s, n) # rs) ds
      else if s < t then False
      else if s + n \<le> t + m then within rs ((t, m) # ds)
      else within ((t + m, s + n - (t + m)) # rs) ds)"
  by pat_completeness auto
termination by (relation "measure (\<lambda>(rs, ds). length rs + length ds)") auto

lemma within_indices: "within rs ds \<Longrightarrow> set (indices rs) \<subseteq> set (indices ds)"
proof (induction rs ds rule: within.induct)
  case (3 s n rs t m ds)
  note IH = 3
  consider (skip) "t + m \<le> s" | (inside) "\<not> t + m \<le> s" "t \<le> s" "s + n \<le> t + m"
    | (over) "\<not> t + m \<le> s" "t \<le> s" "\<not> s + n \<le> t + m"
    using IH(4) by (auto split: if_splits)
  then show ?case
  proof cases
    case over
    have "{s..<s + n} \<subseteq> {t..<t + m} \<union> {t + m..<s + n}" using over by auto
    then show ?thesis using IH(3,4) over by auto
  qed (use IH in auto)
qed auto

definition covers :: "(nat \<times> nat) list \<Rightarrow> (nat \<times> nat) list \<Rightarrow> bool" where
  "covers ds rs \<longleftrightarrow>
     (let ss = map (\<lambda>r. [r]) rs; m = merge_all ss;
          ss' = map (\<lambda>r. [r]) ds; m' = merge_all ss' in within m m')"

lemma covers_indices:
  assumes "covers ds rs"
  shows "set (indices rs) \<subseteq> set (indices ds)"
proof -
  have m: "mset (merge_all (map (\<lambda>r. [r]) xs)) = mset xs" for xs
    by (simp add: mset_merge_all concat_map_singleton [of id, simplified])
  have "set (indices (merge_all (map (\<lambda>r. [r]) xs))) = set (indices xs)" for xs
    by (metis m mset_indices mset_eq_setD)
  with assms within_indices show ?thesis by (fastforce simp: covers_def Let_def)
qed

lemma inst_ranges_append: "inst_ranges (L @ M) = inst_ranges L @ inst_ranges M"
  by (induction L) simp_all
lemma x87_inst_ranges_append: "x87_inst_ranges (L @ M) = x87_inst_ranges L @ x87_inst_ranges M"
  by (induction L) simp_all
lemma inst_ranges_weak: "inst_ranges L = inst_ranges L" by (rule refl)
lemma x87_inst_ranges_weak: "x87_inst_ranges L = x87_inst_ranges L" by (rule refl)
lemma within_weak: "within rs ds = within rs ds" by (rule refl)

lemma inst_indices:
  "(k, v) \<in> set (expand L) \<Longrightarrow> lacks_handler v \<Longrightarrow> k \<in> set (indices (inst_ranges L))"
  by (induction L) (auto simp: expand_def)

lemma lacks_handler_zero [simp]: "\<not> lacks_handler zero_info"
  by (simp add: zero_info_def)

fun all_live :: "DispatchTableEntry list \<Rightarrow> bool" where
  "all_live [] \<longleftrightarrow> True"
| "all_live (e # D) \<longleftrightarrow> (if DispPtr e = None then False else all_live D)"

lemma all_live_append: "all_live (D @ E) \<longleftrightarrow> all_live D \<and> all_live E"
  by (induction D) simp_all
lemma all_live_weak: "all_live D = all_live D" by (rule refl)

text \<open>The ranges of the dispatch entries that install the null pointer.\<close>

fun dead_ranges :: "DispatchTableEntry list \<Rightarrow> (nat \<times> nat) list" where
  "dead_ranges [] = []"
| "dead_ranges (e # D) =
     (if DispPtr e = None then (DispOp e, DispCount e) # dead_ranges D else dead_ranges D)"

lemma dead_ranges_append: "dead_ranges (D @ E) = dead_ranges D @ dead_ranges E"
  by (induction D) simp_all
lemma dead_ranges_weak: "dead_ranges D = dead_ranges D" by (rule refl)

lemma dead_ranges_expand:
  "(k, None) \<in> set (expand_dispatch D) \<Longrightarrow> k \<in> set (indices (dead_ranges D))"
  by (induction D) (auto simp: expand_dispatch_def indices_def)

definition handled :: "X86TablesInfoStruct list \<Rightarrow> DispatchTableEntry list \<Rightarrow> (nat \<times> nat) list \<Rightarrow> bool" where
  "handled L D ex \<longleftrightarrow> list_all (\<lambda>r. r \<in> set ex) (dead_ranges D)
     \<and> covers (ex @ dispatch_ranges D) (inst_ranges L)"

lemma handled_lookup:
  assumes "handled L D ex" "lacks_handler (table_lookup L D k)"
  shows "k \<in> set (indices ex)"
proof (rule ccontr)
  assume ex: "k \<notin> set (indices ex)"
  have c: "covers (ex @ dispatch_ranges D) (inst_ranges L)"
    and "set (dead_ranges D) \<subseteq> set ex"
    using assms(1) by (auto simp: handled_def list_all_iff)
  then have l: "(k, None) \<notin> set (expand_dispatch D)"
    using ex dead_ranges_expand by (fastforce simp: indices_def)
  show False
  proof (cases "map_of (expand_dispatch D) k")
    case (Some p)
    then have "p \<noteq> None" using l by (metis map_of_SomeD)
    with Some assms(2) show False by (auto simp: table_lookup_def dispatch_lookup_def)
  next
    case None
    then have "k \<notin> set (indices (dispatch_ranges D))"
      by (simp add: indices_expand_dispatch map_of_eq_None_iff)
    then have "k \<notin> set (indices (inst_ranges L))"
      using covers_indices [OF c] ex by (auto simp: indices_append)
    then have "\<not> lacks_handler (info_lookup L k)"
      using inst_indices [of k _ L] by (auto simp: info_lookup_def split: option.splits dest: map_of_SomeD)
    with None assms(2) show False by (simp add: table_lookup_def dispatch_lookup_def)
  qed
qed

text \<open>The converse: the indices of entries without handler that no dispatch entry reaches.\<close>

definition lacking :: "X86TablesInfoStruct list \<Rightarrow> DispatchTableEntry list \<Rightarrow> nat \<Rightarrow> (nat \<times> nat) list \<Rightarrow> bool" where
  "lacking L D N ex \<longleftrightarrow> disjoint_ranges (ex @ dispatch_ranges D) N \<and> covers (inst_ranges L) ex"

lemma inst_indices_entry: "k \<in> set (indices (inst_ranges L)) \<Longrightarrow> \<exists>v. (k, v) \<in> set (expand L) \<and> lacks_handler v"
proof (induction L)
  case (Cons e L)
  show ?case
  proof (cases "lacks_handler (Info e) \<and> first e \<le> k \<and> k < first e + second e")
    case True
    then have "(k, Info e) \<in> set (expand (e # L))"
      by (auto simp: expand_def image_iff intro!: bexI [of _ "k - first e"])
    then show ?thesis using True by blast
  next
    case False
    then have "k \<in> set (indices (inst_ranges L))" using Cons.prems by (auto split: if_splits)
    then show ?thesis using Cons.IH by (auto simp: expand_def)
  qed
qed simp

lemma lacking_lookup:
  assumes "lacking L D N ex" "table_ok L D N" "k \<in> set (indices ex)"
  shows "lacks_handler (table_lookup L D k)"
proof -
  have d: "disjoint_ranges (ex @ dispatch_ranges D) N" and c: "covers (inst_ranges L) ex"
    using assms(1) by (simp_all add: lacking_def)
  have "k \<in> set (indices (inst_ranges L))" using covers_indices [OF c] assms(3) by blast
  then obtain v where v: "(k, v) \<in> set (expand L)" "lacks_handler v" using inst_indices_entry by blast
  then have "info_lookup L k = v" using table_okD(1) [OF assms(2)] by (simp add: info_lookup_def)
  moreover have "k \<notin> fst ` set (expand_dispatch D)"
    using disjoint_ranges_indices(1) [OF d, unfolded indices_append indices_expand_dispatch] assms(3) by auto
  then have "map_of (expand_dispatch D) k = None" by (simp add: map_of_eq_None_iff)
  ultimately show ?thesis using v(2) by (simp add: table_lookup_def dispatch_lookup_def)
qed

lemma handled_copy_lookup:
  assumes "handled L D ex" "lacks_handler (copy_lookup L Other D k)" "\<not> lacks_handler (Other ! k)"
  shows "k \<in> set (indices ex)"
proof (cases "Type (info_lookup L k) = TYPE_COPY_OTHER")
  case True
  then have "\<not> lacks_handler (table_lookup L D k) \<or> k \<in> set (indices ex)"
    using handled_lookup [OF assms(1)] by blast
  moreover have "k \<in> set (indices ex)" if "map_of (expand_dispatch D) k = Some None"
    using that assms(1) dead_ranges_expand [of k D]
    by (fastforce simp: handled_def list_all_iff indices_def dest: map_of_SomeD)
  ultimately show ?thesis
    using True assms(2,3)
    by (cases "map_of (expand_dispatch D) k = Some None") (auto simp: copy_lookup_def dispatch_lookup_def split: option.splits)
next
  case False
  then have "copy_lookup L Other D k = table_lookup L D k"
    by (simp add: copy_lookup_def table_lookup_def)
  then show ?thesis using handled_lookup [OF assms(1)] assms(2) by simp
qed

lemmas handler_appends = table_appends inst_ranges_append dead_ranges_append all_live_append append_Nil
lemmas handler_weaks = table_weaks inst_ranges_weak within_weak dead_ranges_weak all_live_weak

lemma x87_inst_ranges_filter:
  "x87_inst_ranges L = x87_ranges (filter (\<lambda>e. lacks_handler (Info e)) L)"
  by (induction L) simp_all

definition x87_handled :: "X86TablesInfoStruct list \<Rightarrow> DispatchTableEntry list \<Rightarrow> bool" where
  "x87_handled L D \<longleftrightarrow> all_live D \<and> covers (x87_disp_ranges D) (x87_inst_ranges L)"

lemma all_live_all: "all_live D \<Longrightarrow> e \<in> set D \<Longrightarrow> DispPtr e \<noteq> None"
  by (induction D) (auto split: if_splits)

lemma x87_handled_lookup:
  assumes "x87_handled L D" "\<forall>e \<in> set L. x87_form e"
  shows "\<not> lacks_handler (x87_lookup L D k)"
proof (cases "find (\<lambda>x. k \<in> set (x87_disp_keys x)) (x87_disp_items D)")
  case (Some x)
  then have "fst x \<in> set D"
    by (auto simp: find_Some_iff x87_disp_items_def dest!: nth_mem)
  then have "DispPtr (fst x) \<noteq> None" using assms(1) all_live_all by (auto simp: x87_handled_def)
  with Some show ?thesis by (auto simp: x87_lookup_def)
next
  case None
  let ?L = "filter (\<lambda>e. lacks_handler (Info e)) L"
  have "k \<notin> set (indices (x87_disp_ranges D))"
  proof -
    have "\<forall>x \<in> set (x87_disp_items D). k \<notin> set (x87_disp_keys x)"
      using None unfolding find_None_iff by blast
    then have "k \<notin> set (concat (map x87_disp_keys (x87_disp_items D)))" by simp
    then show ?thesis using mset_eq_setD [OF x87_disp_keys_ranges [of D]] by blast
  qed
  then have n: "k \<notin> set (indices (x87_ranges ?L))"
    using assms(1) covers_indices by (auto simp: x87_handled_def x87_inst_ranges_filter)
  have "\<not> lacks_handler (x87_info L k)"
  proof
    assume "lacks_handler (x87_info L k)"
    then obtain x where x: "find (\<lambda>x. k \<in> set (x87_keys x)) (x87_items L) = Some x" "lacks_handler (Info (fst x))"
      by (auto simp: x87_info_def split: option.splits)
    then have "x \<in> set (x87_items L)" "k \<in> set (x87_keys x)" by (auto simp: find_Some_iff dest!: nth_mem)
    with x(2) have "x \<in> set (x87_items ?L)" by (auto simp: x87_items_def)
    then have "k \<in> set (concat (map x87_keys (x87_items ?L)))" using \<open>k \<in> set (x87_keys x)\<close> by auto
    with n show False using assms(2) by (simp add: x87_keys_ranges)
  qed
  with None show ?thesis by (simp add: x87_lookup_def)
qed

section \<open>Looking an index up\<close>

text \<open>
  The entry that covers an index, found by walking the list, and that what holds of every entry
  holds of what the tables hold.
\<close>

fun find_info :: "X86TablesInfoStruct list \<Rightarrow> nat \<Rightarrow> X86InstInfo option" where
  "find_info [] k = None"
| "find_info (e # L) k =
     (if first e \<le> k \<and> k < first e + second e then Some (Info e) else find_info L k)"

fun find_dispatch :: "DispatchTableEntry list \<Rightarrow> nat \<Rightarrow> OpDispatchPtr option option" where
  "find_dispatch [] k = None"
| "find_dispatch (e # D) k =
     (if DispOp e \<le> k \<and> k < DispOp e + DispCount e then Some (DispPtr e) else find_dispatch D k)"

lemma map_of_block:
  "map_of (map (\<lambda>i. (a + i, v)) [0..<n]) k = (if a \<le> k \<and> k < a + n then Some v else None)"
proof (cases "a \<le> k \<and> k < a + n")
  case True
  then have "k \<in> fst ` set (map (\<lambda>i. (a + i, v)) [0..<n])" by (auto simp: image_iff intro!: bexI [of _ "k - a"])
  then obtain w where w: "map_of (map (\<lambda>i. (a + i, v)) [0..<n]) k = Some w"
    by (metis map_of_eq_None_iff option.exhaust)
  then have "w = v" by (auto dest!: map_of_SomeD)
  with w True show ?thesis by simp
next
  case False
  then show ?thesis by (auto simp: map_of_eq_None_iff)
qed

lemma map_of_expand: "map_of (expand L) k = find_info L k"
  by (induction L) (auto simp: expand_def map_add_def map_of_block split: option.splits)

lemma map_of_expand_dispatch: "map_of (expand_dispatch D) k = find_dispatch D k"
  by (induction D) (auto simp: expand_dispatch_def map_add_def map_of_block split: option.splits)

lemma find_info_append:
  "find_info (L @ M) k = (case find_info L k of None \<Rightarrow> find_info M k | Some i \<Rightarrow> Some i)"
  by (induction L) auto

lemma find_dispatch_append:
  "find_dispatch (D @ E) k = (case find_dispatch D k of None \<Rightarrow> find_dispatch E k | Some i \<Rightarrow> Some i)"
  by (induction D) auto

lemma find_info_weak: "k = k' \<Longrightarrow> find_info L k = find_info L k'" by simp
lemma find_dispatch_weak: "k = k' \<Longrightarrow> find_dispatch D k = find_dispatch D k'" by simp

lemmas lookup_simps =
  table_lookup_def copy_lookup_def info_lookup_def dispatch_lookup_def map_of_expand map_of_expand_dispatch

lemmas lookup_weaks = find_info_weak find_dispatch_weak option.case_cong_weak if_weak_cong

text \<open>Every entry of a local table satisfies \<open>P\<close>.\<close>

fun all_infos :: "(X86InstInfo \<Rightarrow> bool) \<Rightarrow> X86TablesInfoStruct list \<Rightarrow> bool" where
  "all_infos P [] \<longleftrightarrow> True"
| "all_infos P (e # L) \<longleftrightarrow> (if P (Info e) then all_infos P L else False)"

lemma all_infos_append: "all_infos P (L @ M) \<longleftrightarrow> all_infos P L \<and> all_infos P M"
  by (induction L) auto
lemma all_infos_weak: "all_infos P L = all_infos P L" by (rule refl)

lemma all_infos_iff: "all_infos P L \<longleftrightarrow> (\<forall>e \<in> set L. P (Info e))"
  by (induction L) auto

lemma all_infos_find: "all_infos P L \<Longrightarrow> find_info L k = Some i \<Longrightarrow> P i"
  by (induction L) (auto split: if_splits)

lemma all_infos_lookup: "all_infos P L \<Longrightarrow> P zero_info \<Longrightarrow> P (info_lookup L k)"
  using all_infos_find by (auto simp: info_lookup_def map_of_expand split: option.splits)

lemma table_lookup_all:
  assumes "table_ok L D N" "P (info_lookup L k)"
    "\<And>p i. P i \<Longrightarrow> OpcodeDispatcher i = OpDispatch None \<Longrightarrow> P (set_OpDispatch p i)"
  shows "P (table_lookup L D k)"
  using assms(2,3) table_okD(5) [OF assms(1)]
  by (auto simp: table_lookup_def dispatch_lookup_def split: option.splits dest!: map_of_SomeD)

lemma copy_lookup_all:
  assumes "table_ok L D N" "Type (info_lookup L k) = TYPE_COPY_OTHER \<Longrightarrow> P (Other ! k)"
    "Type (info_lookup L k) \<noteq> TYPE_COPY_OTHER \<Longrightarrow> P (info_lookup L k)"
    "\<And>p i. P i \<Longrightarrow> OpcodeDispatcher i = OpDispatch None \<Longrightarrow> P (set_OpDispatch p i)"
  shows "P (copy_lookup L Other D k)"
  using assms(2-4) table_okD(5) [OF assms(1)]
  by (auto simp: copy_lookup_def dispatch_lookup_def split: option.splits dest!: map_of_SomeD)

lemma x87_lookup_all:
  assumes "x87_ok L D N" "all_infos P L" "P zero_info"
    "\<And>p i. P i \<Longrightarrow> OpcodeDispatcher i = OpDispatch None \<Longrightarrow> P (set_OpDispatch p i)"
  shows "P (x87_lookup L D k)"
proof -
  have "P (x87_info L k)" "OpcodeDispatcher (x87_info L k) = OpDispatch None"
    using assms(1-3) by (auto simp: x87_ok_def x87_info_def all_infos_iff x87_items_def find_Some_iff
        split: option.splits dest!: nth_mem)
  then show ?thesis using assms(4) by (auto simp: x87_lookup_def split: option.splits)
qed

definition unhandled :: "table \<Rightarrow> nat list" where
  "unhandled T = filter (\<lambda>k. lacks_handler (T ! k)) [0..<length T]"

end
