(* ===== verification/PrimaryTables.thy ===== *)
theory PrimaryTables
  imports TableBuild
begin

text \<open>
  The one-byte opcode table (\<open>X86Tables/BaseTables.cpp\<close>, \<open>OpcodeDispatcher/BaseTables.h\<close>) and
  the table of the opcode groups that a ModRM byte extends (\<open>PrimaryGroupTables\<close>), entry by
  entry. A long table is split into parts.
\<close>

section \<open>The base table\<close>

definition Primary_LUT_06 :: "X86InstInfo \<times> X86InstInfo" where
  "Primary_LUT_06 =
    (X86InstInfo ''PUSH ES'' TYPE_INST ((GenFlagsSrcSize SIZE_16BIT) OR FLAGS_DEBUG_MEM_ACCESS) 0 (OpDispatch (Some (Bind ''PUSHSegmentOp'' [''FLAG_ES_PREFIX'']))),
     X86InstInfo '''' TYPE_INVALID FLAGS_NONE 0 (OpDispatch None))"

definition Primary_LUT_07 :: "X86InstInfo \<times> X86InstInfo" where
  "Primary_LUT_07 =
    (X86InstInfo ''POP ES'' TYPE_INST ((GenFlagsSizes SIZE_16BIT SIZE_DEF) OR FLAGS_DEBUG_MEM_ACCESS) 0 (OpDispatch (Some (Bind ''POPSegmentOp'' [''FLAG_ES_PREFIX'']))),
     X86InstInfo '''' TYPE_INVALID FLAGS_NONE 0 (OpDispatch None))"

definition Primary_LUT_0E :: "X86InstInfo \<times> X86InstInfo" where
  "Primary_LUT_0E =
    (X86InstInfo ''PUSH CS'' TYPE_INST ((GenFlagsSrcSize SIZE_16BIT) OR FLAGS_DEBUG_MEM_ACCESS) 0 (OpDispatch (Some (Bind ''PUSHSegmentOp'' [''FLAG_CS_PREFIX'']))),
     X86InstInfo '''' TYPE_INVALID FLAGS_NONE 0 (OpDispatch None))"

definition Primary_LUT_16 :: "X86InstInfo \<times> X86InstInfo" where
  "Primary_LUT_16 =
    (X86InstInfo ''PUSH SS'' TYPE_INST ((GenFlagsSrcSize SIZE_16BIT) OR FLAGS_DEBUG_MEM_ACCESS) 0 (OpDispatch (Some (Bind ''PUSHSegmentOp'' [''FLAG_SS_PREFIX'']))),
     X86InstInfo '''' TYPE_INVALID FLAGS_NONE 0 (OpDispatch None))"

definition Primary_LUT_17 :: "X86InstInfo \<times> X86InstInfo" where
  "Primary_LUT_17 =
    (X86InstInfo ''POP SS'' TYPE_INST ((GenFlagsSizes SIZE_16BIT SIZE_DEF) OR FLAGS_DEBUG_MEM_ACCESS) 0 (OpDispatch (Some (Bind ''POPSegmentOp'' [''FLAG_SS_PREFIX'']))),
     X86InstInfo '''' TYPE_INVALID FLAGS_NONE 0 (OpDispatch None))"

definition Primary_LUT_1E :: "X86InstInfo \<times> X86InstInfo" where
  "Primary_LUT_1E =
    (X86InstInfo ''PUSH DS'' TYPE_INST ((GenFlagsSrcSize SIZE_16BIT) OR FLAGS_DEBUG_MEM_ACCESS) 0 (OpDispatch (Some (Bind ''PUSHSegmentOp'' [''FLAG_DS_PREFIX'']))),
     X86InstInfo '''' TYPE_INVALID FLAGS_NONE 0 (OpDispatch None))"

definition Primary_LUT_1F :: "X86InstInfo \<times> X86InstInfo" where
  "Primary_LUT_1F =
    (X86InstInfo ''POP DS'' TYPE_INST ((GenFlagsSizes SIZE_16BIT SIZE_DEF) OR FLAGS_DEBUG_MEM_ACCESS) 0 (OpDispatch (Some (Bind ''POPSegmentOp'' [''FLAG_DS_PREFIX'']))),
     X86InstInfo '''' TYPE_INVALID FLAGS_NONE 0 (OpDispatch None))"

definition Primary_LUT_27 :: "X86InstInfo \<times> X86InstInfo" where
  "Primary_LUT_27 =
    (X86InstInfo ''DAA'' TYPE_INST ((GenFlagsDstSize SIZE_8BIT) OR FLAGS_SF_DST_RAX) 0 (OpDispatch (Some (Handler ''DAAOp''))),
     X86InstInfo '''' TYPE_INVALID FLAGS_NONE 0 (OpDispatch None))"

definition Primary_LUT_2F :: "X86InstInfo \<times> X86InstInfo" where
  "Primary_LUT_2F =
    (X86InstInfo ''DAS'' TYPE_INST ((GenFlagsDstSize SIZE_8BIT) OR FLAGS_SF_DST_RAX) 0 (OpDispatch (Some (Handler ''DASOp''))),
     X86InstInfo '''' TYPE_INVALID FLAGS_NONE 0 (OpDispatch None))"

definition Primary_LUT_37 :: "X86InstInfo \<times> X86InstInfo" where
  "Primary_LUT_37 =
    (X86InstInfo ''AAA'' TYPE_INST ((GenFlagsDstSize SIZE_16BIT) OR FLAGS_SF_DST_RAX) 0 (OpDispatch (Some (Handler ''AAAOp''))),
     X86InstInfo '''' TYPE_INVALID FLAGS_NONE 0 (OpDispatch None))"

definition Primary_LUT_3F :: "X86InstInfo \<times> X86InstInfo" where
  "Primary_LUT_3F =
    (X86InstInfo ''AAS'' TYPE_INST ((GenFlagsDstSize SIZE_16BIT) OR FLAGS_SF_DST_RAX) 0 (OpDispatch (Some (Handler ''AASOp''))),
     X86InstInfo '''' TYPE_INVALID FLAGS_NONE 0 (OpDispatch None))"

definition Primary_LUT_40 :: "X86InstInfo \<times> X86InstInfo" where
  "Primary_LUT_40 =
    (X86InstInfo ''INC'' TYPE_INST FLAGS_SF_REX_IN_BYTE 0 (OpDispatch (Some (Handler ''INCOp''))),
     X86InstInfo '''' TYPE_REX_PREFIX FLAGS_NONE 0 (OpDispatch None))"

definition Primary_LUT_48 :: "X86InstInfo \<times> X86InstInfo" where
  "Primary_LUT_48 =
    (X86InstInfo ''DEC'' TYPE_INST FLAGS_SF_REX_IN_BYTE 0 (OpDispatch (Some (Handler ''DECOp''))),
     X86InstInfo '''' TYPE_REX_PREFIX FLAGS_NONE 0 (OpDispatch None))"

definition Primary_LUT_60 :: "X86InstInfo \<times> X86InstInfo" where
  "Primary_LUT_60 =
    (X86InstInfo ''PUSHA'' TYPE_INST FLAGS_DEBUG_MEM_ACCESS 0 (OpDispatch (Some (Handler ''PUSHAOp''))),
     X86InstInfo '''' TYPE_INVALID FLAGS_NONE 0 (OpDispatch None))"

definition Primary_LUT_61 :: "X86InstInfo \<times> X86InstInfo" where
  "Primary_LUT_61 =
    (X86InstInfo ''POPA'' TYPE_INST FLAGS_DEBUG_MEM_ACCESS 0 (OpDispatch (Some (Handler ''POPAOp''))),
     X86InstInfo '''' TYPE_INVALID FLAGS_NONE 0 (OpDispatch None))"

definition Primary_LUT_63 :: "X86InstInfo \<times> X86InstInfo" where
  "Primary_LUT_63 =
    (X86InstInfo ''ARPL'' TYPE_INST ((GenFlagsSameSize SIZE_16BIT) OR FLAGS_MODRM OR FLAGS_SF_MOD_DST) 0 (OpDispatch (Some (Handler ''ARPLOp''))),
     X86InstInfo ''MOVSXD'' TYPE_INST ((GenFlagsDstSize SIZE_64BIT) OR FLAGS_MODRM) 0 (OpDispatch (Some (Handler ''MOVSXDOp''))))"

definition Primary_LUT_9A :: "X86InstInfo \<times> X86InstInfo" where
  "Primary_LUT_9A =
    (X86InstInfo ''CALLF'' TYPE_INST FLAGS_NONE 0 (OpDispatch None),
     X86InstInfo '''' TYPE_INVALID FLAGS_NONE 0 (OpDispatch None))"

definition Primary_LUT_A0 :: "X86InstInfo \<times> X86InstInfo" where
  "Primary_LUT_A0 =
    (X86InstInfo ''MOV'' TYPE_INST ((GenFlagsSameSize SIZE_8BIT) OR FLAGS_SF_DST_RAX OR FLAGS_MEM_OFFSET) 4 (OpDispatch (Some (Handler ''MOVOffsetOp''))),
     X86InstInfo ''MOV'' TYPE_INST ((GenFlagsSameSize SIZE_8BIT) OR FLAGS_SF_DST_RAX OR FLAGS_MEM_OFFSET) 8 (OpDispatch (Some (Handler ''MOVOffsetOp''))))"

definition Primary_LUT_A1 :: "X86InstInfo \<times> X86InstInfo" where
  "Primary_LUT_A1 =
    (X86InstInfo ''MOV'' TYPE_INST (FLAGS_SF_DST_RAX OR FLAGS_MEM_OFFSET) 4 (OpDispatch (Some (Handler ''MOVOffsetOp''))),
     X86InstInfo ''MOV'' TYPE_INST (FLAGS_SF_DST_RAX OR FLAGS_MEM_OFFSET) 8 (OpDispatch (Some (Handler ''MOVOffsetOp''))))"

definition Primary_LUT_A2 :: "X86InstInfo \<times> X86InstInfo" where
  "Primary_LUT_A2 =
    (X86InstInfo ''MOV'' TYPE_INST ((GenFlagsSameSize SIZE_8BIT) OR FLAGS_SF_SRC_RAX OR FLAGS_MEM_OFFSET) 4 (OpDispatch (Some (Handler ''MOVOffsetOp''))),
     X86InstInfo ''MOV'' TYPE_INST ((GenFlagsSameSize SIZE_8BIT) OR FLAGS_SF_SRC_RAX OR FLAGS_MEM_OFFSET) 8 (OpDispatch (Some (Handler ''MOVOffsetOp''))))"

definition Primary_LUT_A3 :: "X86InstInfo \<times> X86InstInfo" where
  "Primary_LUT_A3 =
    (X86InstInfo ''MOV'' TYPE_INST (FLAGS_SF_SRC_RAX OR FLAGS_MEM_OFFSET) 4 (OpDispatch (Some (Handler ''MOVOffsetOp''))),
     X86InstInfo ''MOV'' TYPE_INST (FLAGS_SF_SRC_RAX OR FLAGS_MEM_OFFSET) 8 (OpDispatch (Some (Handler ''MOVOffsetOp''))))"

definition Primary_LUT_CE :: "X86InstInfo \<times> X86InstInfo" where
  "Primary_LUT_CE =
    (X86InstInfo ''INTO'' TYPE_INST FLAGS_NONE 0 (OpDispatch (Some (Handler ''INTOp''))),
     X86InstInfo '''' TYPE_INVALID FLAGS_NONE 0 (OpDispatch None))"

definition Primary_LUT_D4 :: "X86InstInfo \<times> X86InstInfo" where
  "Primary_LUT_D4 =
    (X86InstInfo ''AAM'' TYPE_INST ((GenFlagsSameSize SIZE_8BIT) OR FLAGS_SF_DST_RAX) 1 (OpDispatch (Some (Handler ''AAMOp''))),
     X86InstInfo '''' TYPE_INVALID FLAGS_NONE 0 (OpDispatch None))"

definition Primary_LUT_D5 :: "X86InstInfo \<times> X86InstInfo" where
  "Primary_LUT_D5 =
    (X86InstInfo ''AAD'' TYPE_INST ((GenFlagsSameSize SIZE_8BIT) OR FLAGS_SF_DST_RAX) 1 (OpDispatch (Some (Handler ''AADOp''))),
     X86InstInfo '''' TYPE_INVALID FLAGS_NONE 0 (OpDispatch None))"

definition Primary_LUT_D6 :: "X86InstInfo \<times> X86InstInfo" where
  "Primary_LUT_D6 =
    (X86InstInfo ''SALC'' TYPE_INST ((GenFlagsSameSize SIZE_8BIT) OR FLAGS_SF_DST_RAX OR FLAGS_SF_SRC_RAX) 0 (OpDispatch (Some (Handler ''SALCOp''))),
     X86InstInfo '''' TYPE_INVALID FLAGS_NONE 0 (OpDispatch None))"

definition Primary_LUT_EA :: "X86InstInfo \<times> X86InstInfo" where
  "Primary_LUT_EA =
    (X86InstInfo ''JMPF'' TYPE_INST FLAGS_NONE 0 (OpDispatch None),
     X86InstInfo '''' TYPE_INVALID FLAGS_NONE 0 (OpDispatch None))"

definition BaseOpTable_1 :: "X86TablesInfoStruct list" where
  "BaseOpTable_1 =
    [entry 0x66 1 '''' TYPE_PREFIX FLAGS_NONE 0,
     entry 0x67 1 '''' TYPE_PREFIX FLAGS_NONE 0,
     entry 0x26 1 ''ES'' TYPE_LEGACY_PREFIX FLAGS_NONE 0,
     entry 0x2E 1 ''CS'' TYPE_LEGACY_PREFIX FLAGS_NONE 0,
     entry 0x36 1 ''SS'' TYPE_LEGACY_PREFIX FLAGS_NONE 0,
     entry 0x3E 1 ''DS'' TYPE_LEGACY_PREFIX FLAGS_NONE 0,
     entry 0x64 1 ''FS'' TYPE_PREFIX FLAGS_NONE 0,
     entry 0x65 1 ''GS'' TYPE_PREFIX FLAGS_NONE 0,
     entry 0xF0 1 ''LOCK'' TYPE_PREFIX FLAGS_NONE 0,
     entry 0xF2 1 ''REPNE'' TYPE_PREFIX FLAGS_NONE 0,
     entry 0xF3 1 ''REP'' TYPE_PREFIX FLAGS_NONE 0,
     entry 0x00 1 ''ADD'' TYPE_INST ((GenFlagsSameSize SIZE_8BIT) OR FLAGS_MODRM OR FLAGS_SF_MOD_DST OR FLAGS_SUPPORTS_LOCK) 0,
     entry 0x01 1 ''ADD'' TYPE_INST (FLAGS_MODRM OR FLAGS_SF_MOD_DST OR FLAGS_DISPLACE_SIZE_DIV_2 OR FLAGS_SUPPORTS_LOCK) 0,
     entry 0x02 1 ''ADD'' TYPE_INST ((GenFlagsSameSize SIZE_8BIT) OR FLAGS_MODRM) 0,
     entry 0x03 1 ''ADD'' TYPE_INST FLAGS_MODRM 0,
     entry 0x04 1 ''ADD'' TYPE_INST ((GenFlagsSameSize SIZE_8BIT) OR FLAGS_SF_DST_RAX) 1,
     entry 0x05 1 ''ADD'' TYPE_INST (FLAGS_SF_DST_RAX OR FLAGS_SRC_SEXT OR FLAGS_DISPLACE_SIZE_DIV_2) 4,
     arch_entry 0x06 1 '''' FLAGS_NONE 0 Primary_LUT_06,
     arch_entry 0x07 1 '''' FLAGS_NONE 0 Primary_LUT_07,
     entry 0x08 1 ''OR'' TYPE_INST ((GenFlagsSameSize SIZE_8BIT) OR FLAGS_MODRM OR FLAGS_SF_MOD_DST OR FLAGS_SUPPORTS_LOCK) 0,
     entry 0x09 1 ''OR'' TYPE_INST (FLAGS_MODRM OR FLAGS_SF_MOD_DST OR FLAGS_SUPPORTS_LOCK) 0,
     entry 0x0A 1 ''OR'' TYPE_INST ((GenFlagsSameSize SIZE_8BIT) OR FLAGS_MODRM) 0,
     entry 0x0B 1 ''OR'' TYPE_INST FLAGS_MODRM 0,
     entry 0x0C 1 ''OR'' TYPE_INST ((GenFlagsSameSize SIZE_8BIT) OR FLAGS_SF_DST_RAX) 1,
     entry 0x0D 1 ''OR'' TYPE_INST (FLAGS_SF_DST_RAX OR FLAGS_SRC_SEXT OR FLAGS_DISPLACE_SIZE_DIV_2) 4,
     arch_entry 0x0E 1 '''' FLAGS_NONE 0 Primary_LUT_0E,
     entry 0x10 1 ''ADC'' TYPE_INST ((GenFlagsSameSize SIZE_8BIT) OR FLAGS_MODRM OR FLAGS_SF_MOD_DST OR FLAGS_SUPPORTS_LOCK) 0,
     entry 0x11 1 ''ADC'' TYPE_INST (FLAGS_MODRM OR FLAGS_SF_MOD_DST OR FLAGS_DISPLACE_SIZE_DIV_2 OR FLAGS_SUPPORTS_LOCK) 0,
     entry 0x12 1 ''ADC'' TYPE_INST ((GenFlagsSameSize SIZE_8BIT) OR FLAGS_MODRM) 0,
     entry 0x13 1 ''ADC'' TYPE_INST FLAGS_MODRM 0,
     entry 0x14 1 ''ADC'' TYPE_INST ((GenFlagsSameSize SIZE_8BIT) OR FLAGS_SF_DST_RAX) 1,
     entry 0x15 1 ''ADC'' TYPE_INST (FLAGS_SF_DST_RAX OR FLAGS_SRC_SEXT OR FLAGS_DISPLACE_SIZE_DIV_2) 4,
     arch_entry 0x16 1 '''' FLAGS_NONE 0 Primary_LUT_16,
     arch_entry 0x17 1 '''' FLAGS_NONE 0 Primary_LUT_17,
     entry 0x18 1 ''SBB'' TYPE_INST ((GenFlagsSameSize SIZE_8BIT) OR FLAGS_MODRM OR FLAGS_SF_MOD_DST OR FLAGS_SUPPORTS_LOCK) 0,
     entry 0x19 1 ''SBB'' TYPE_INST (FLAGS_MODRM OR FLAGS_SF_MOD_DST OR FLAGS_DISPLACE_SIZE_DIV_2 OR FLAGS_SUPPORTS_LOCK) 0,
     entry 0x1A 1 ''SBB'' TYPE_INST ((GenFlagsSameSize SIZE_8BIT) OR FLAGS_MODRM) 0,
     entry 0x1B 1 ''SBB'' TYPE_INST FLAGS_MODRM 0,
     entry 0x1C 1 ''SBB'' TYPE_INST ((GenFlagsSameSize SIZE_8BIT) OR FLAGS_SF_DST_RAX) 1,
     entry 0x1D 1 ''SBB'' TYPE_INST (FLAGS_SF_DST_RAX OR FLAGS_SRC_SEXT OR FLAGS_DISPLACE_SIZE_DIV_2) 4,
     arch_entry 0x1E 1 '''' FLAGS_NONE 0 Primary_LUT_1E,
     arch_entry 0x1F 1 '''' FLAGS_NONE 0 Primary_LUT_1F,
     entry 0x20 1 ''AND'' TYPE_INST ((GenFlagsSameSize SIZE_8BIT) OR FLAGS_MODRM OR FLAGS_SF_MOD_DST OR FLAGS_SUPPORTS_LOCK) 0,
     entry 0x21 1 ''AND'' TYPE_INST (FLAGS_MODRM OR FLAGS_SF_MOD_DST OR FLAGS_SUPPORTS_LOCK) 0,
     entry 0x22 1 ''AND'' TYPE_INST ((GenFlagsSameSize SIZE_8BIT) OR FLAGS_MODRM) 0,
     entry 0x23 1 ''AND'' TYPE_INST FLAGS_MODRM 0,
     entry 0x24 1 ''AND'' TYPE_INST ((GenFlagsSameSize SIZE_8BIT) OR FLAGS_SF_DST_RAX) 1,
     entry 0x25 1 ''AND'' TYPE_INST (FLAGS_SF_DST_RAX OR FLAGS_SRC_SEXT OR FLAGS_DISPLACE_SIZE_DIV_2) 4,
     arch_entry 0x27 1 '''' FLAGS_NONE 0 Primary_LUT_27,
     entry 0x28 1 ''SUB'' TYPE_INST ((GenFlagsSameSize SIZE_8BIT) OR FLAGS_MODRM OR FLAGS_SF_MOD_DST OR FLAGS_SUPPORTS_LOCK) 0,
     entry 0x29 1 ''SUB'' TYPE_INST (FLAGS_MODRM OR FLAGS_SF_MOD_DST OR FLAGS_SUPPORTS_LOCK) 0,
     entry 0x2A 1 ''SUB'' TYPE_INST ((GenFlagsSameSize SIZE_8BIT) OR FLAGS_MODRM) 0,
     entry 0x2B 1 ''SUB'' TYPE_INST FLAGS_MODRM 0,
     entry 0x2C 1 ''SUB'' TYPE_INST ((GenFlagsSameSize SIZE_8BIT) OR FLAGS_SF_DST_RAX) 1,
     entry 0x2D 1 ''SUB'' TYPE_INST (FLAGS_SF_DST_RAX OR FLAGS_SRC_SEXT OR FLAGS_DISPLACE_SIZE_DIV_2) 4,
     arch_entry 0x2F 1 '''' FLAGS_NONE 0 Primary_LUT_2F,
     entry 0x30 1 ''XOR'' TYPE_INST ((GenFlagsSameSize SIZE_8BIT) OR FLAGS_MODRM OR FLAGS_SF_MOD_DST OR FLAGS_SUPPORTS_LOCK) 0,
     entry 0x31 1 ''XOR'' TYPE_INST (FLAGS_MODRM OR FLAGS_SF_MOD_DST OR FLAGS_SUPPORTS_LOCK) 0,
     entry 0x32 1 ''XOR'' TYPE_INST ((GenFlagsSameSize SIZE_8BIT) OR FLAGS_MODRM) 0,
     entry 0x33 1 ''XOR'' TYPE_INST FLAGS_MODRM 0,
     entry 0x34 1 ''XOR'' TYPE_INST ((GenFlagsSameSize SIZE_8BIT) OR FLAGS_SF_DST_RAX) 1,
     entry 0x35 1 ''XOR'' TYPE_INST (FLAGS_SF_DST_RAX OR FLAGS_SRC_SEXT OR FLAGS_DISPLACE_SIZE_DIV_2) 4,
     arch_entry 0x37 1 '''' FLAGS_NONE 0 Primary_LUT_37,
     entry 0x38 1 ''CMP'' TYPE_INST ((GenFlagsSameSize SIZE_8BIT) OR FLAGS_MODRM OR FLAGS_SF_MOD_DST) 0,
     entry 0x39 1 ''CMP'' TYPE_INST (FLAGS_MODRM OR FLAGS_SF_MOD_DST) 0,
     entry 0x3A 1 ''CMP'' TYPE_INST ((GenFlagsSameSize SIZE_8BIT) OR FLAGS_MODRM) 0,
     entry 0x3B 1 ''CMP'' TYPE_INST FLAGS_MODRM 0,
     entry 0x3C 1 ''CMP'' TYPE_INST ((GenFlagsSameSize SIZE_8BIT) OR FLAGS_SF_DST_RAX) 1,
     entry 0x3D 1 ''CMP'' TYPE_INST (FLAGS_SF_DST_RAX OR FLAGS_SRC_SEXT OR FLAGS_DISPLACE_SIZE_DIV_2) 4,
     arch_entry 0x3F 1 '''' FLAGS_NONE 0 Primary_LUT_3F,
     arch_entry 0x40 8 '''' FLAGS_NONE 0 Primary_LUT_40,
     arch_entry 0x48 8 '''' FLAGS_NONE 0 Primary_LUT_48,
     entry 0x50 8 ''PUSH'' TYPE_INST ((GenFlagsSameSize SIZE_64BITDEF) OR FLAGS_SF_REX_IN_BYTE OR FLAGS_DEBUG_MEM_ACCESS) 0,
     entry 0x58 8 ''POP'' TYPE_INST ((GenFlagsSameSize SIZE_64BITDEF) OR FLAGS_SF_REX_IN_BYTE OR FLAGS_DEBUG_MEM_ACCESS) 0,
     arch_entry 0x60 1 '''' FLAGS_NONE 0 Primary_LUT_60,
     arch_entry 0x61 1 '''' FLAGS_NONE 0 Primary_LUT_61,
     entry 0x62 1 '''' TYPE_GROUP_EVEX FLAGS_NONE 0,
     arch_entry 0x63 1 '''' FLAGS_NONE 0 Primary_LUT_63,
     entry 0x68 1 ''PUSH'' TYPE_INST ((GenFlagsSameSize SIZE_64BITDEF) OR FLAGS_DEBUG_MEM_ACCESS OR FLAGS_DISPLACE_SIZE_DIV_2 OR FLAGS_SRC_SEXT) 4,
     entry 0x69 1 ''IMUL'' TYPE_INST (FLAGS_MODRM OR FLAGS_SRC_SEXT OR FLAGS_DISPLACE_SIZE_DIV_2) 4,
     entry 0x6A 1 ''PUSH'' TYPE_INST ((GenFlagsSameSize SIZE_64BITDEF) OR FLAGS_DEBUG_MEM_ACCESS OR FLAGS_SRC_SEXT) 1,
     entry 0x6B 1 ''IMUL'' TYPE_INST (FLAGS_MODRM OR FLAGS_SRC_SEXT) 1,
     entry 0x6C 1 ''INSB'' TYPE_INST FLAGS_BLOCK_END 0,
     entry 0x6D 1 ''INSW'' TYPE_INST FLAGS_BLOCK_END 0,
     entry 0x6E 1 ''OUTS'' TYPE_INST FLAGS_BLOCK_END 0,
     entry 0x6F 1 ''OUTS'' TYPE_INST FLAGS_BLOCK_END 0,
     entry 0x70 1 ''JO'' TYPE_INST ((GenFlagsSameSize SIZE_64BITDEF) OR FLAGS_SETS_RIP OR FLAGS_SRC_SEXT) 1,
     entry 0x71 1 ''JNO'' TYPE_INST ((GenFlagsSameSize SIZE_64BITDEF) OR FLAGS_SETS_RIP OR FLAGS_SRC_SEXT) 1,
     entry 0x72 1 ''JB'' TYPE_INST ((GenFlagsSameSize SIZE_64BITDEF) OR FLAGS_SETS_RIP OR FLAGS_SRC_SEXT) 1,
     entry 0x73 1 ''JNB'' TYPE_INST ((GenFlagsSameSize SIZE_64BITDEF) OR FLAGS_SETS_RIP OR FLAGS_SRC_SEXT) 1,
     entry 0x74 1 ''JZ'' TYPE_INST ((GenFlagsSameSize SIZE_64BITDEF) OR FLAGS_SETS_RIP OR FLAGS_SRC_SEXT) 1,
     entry 0x75 1 ''JNZ'' TYPE_INST ((GenFlagsSameSize SIZE_64BITDEF) OR FLAGS_SETS_RIP OR FLAGS_SRC_SEXT) 1,
     entry 0x76 1 ''JBE'' TYPE_INST ((GenFlagsSameSize SIZE_64BITDEF) OR FLAGS_SETS_RIP OR FLAGS_SRC_SEXT) 1,
     entry 0x77 1 ''JNBE'' TYPE_INST ((GenFlagsSameSize SIZE_64BITDEF) OR FLAGS_SETS_RIP OR FLAGS_SRC_SEXT) 1,
     entry 0x78 1 ''JS'' TYPE_INST ((GenFlagsSameSize SIZE_64BITDEF) OR FLAGS_SETS_RIP OR FLAGS_SRC_SEXT) 1,
     entry 0x79 1 ''JNS'' TYPE_INST ((GenFlagsSameSize SIZE_64BITDEF) OR FLAGS_SETS_RIP OR FLAGS_SRC_SEXT) 1,
     entry 0x7A 1 ''JP'' TYPE_INST ((GenFlagsSameSize SIZE_64BITDEF) OR FLAGS_SETS_RIP OR FLAGS_SRC_SEXT) 1,
     entry 0x7B 1 ''JNP'' TYPE_INST ((GenFlagsSameSize SIZE_64BITDEF) OR FLAGS_SETS_RIP OR FLAGS_SRC_SEXT) 1,
     entry 0x7C 1 ''JL'' TYPE_INST ((GenFlagsSameSize SIZE_64BITDEF) OR FLAGS_SETS_RIP OR FLAGS_SRC_SEXT) 1,
     entry 0x7D 1 ''JNL'' TYPE_INST ((GenFlagsSameSize SIZE_64BITDEF) OR FLAGS_SETS_RIP OR FLAGS_SRC_SEXT) 1,
     entry 0x7E 1 ''JLE'' TYPE_INST ((GenFlagsSameSize SIZE_64BITDEF) OR FLAGS_SETS_RIP OR FLAGS_SRC_SEXT) 1,
     entry 0x7F 1 ''JNLE'' TYPE_INST ((GenFlagsSameSize SIZE_64BITDEF) OR FLAGS_SETS_RIP OR FLAGS_SRC_SEXT) 1,
     entry 0x84 1 ''TEST'' TYPE_INST ((GenFlagsSameSize SIZE_8BIT) OR FLAGS_MODRM OR FLAGS_SF_MOD_DST) 0,
     entry 0x85 1 ''TEST'' TYPE_INST (FLAGS_MODRM OR FLAGS_SF_MOD_DST) 0,
     entry 0x86 1 ''XCHG'' TYPE_INST ((GenFlagsSameSize SIZE_8BIT) OR FLAGS_MODRM OR FLAGS_SF_MOD_DST OR FLAGS_SUPPORTS_LOCK) 0,
     entry 0x87 1 ''XCHG'' TYPE_INST (FLAGS_MODRM OR FLAGS_SF_MOD_DST OR FLAGS_SUPPORTS_LOCK) 0,
     entry 0x88 1 ''MOV'' TYPE_INST ((GenFlagsSameSize SIZE_8BIT) OR FLAGS_MODRM OR FLAGS_SF_MOD_DST) 0,
     entry 0x89 1 ''MOV'' TYPE_INST (FLAGS_MODRM OR FLAGS_SF_MOD_DST) 0,
     entry 0x8A 1 ''MOV'' TYPE_INST ((GenFlagsSameSize SIZE_8BIT) OR FLAGS_MODRM) 0,
     entry 0x8B 1 ''MOV'' TYPE_INST FLAGS_MODRM 0,
     entry 0x8C 1 ''MOV'' TYPE_INST ((GenFlagsSrcSize SIZE_16BIT) OR FLAGS_MODRM OR FLAGS_SF_MOD_DST) 0,
     entry 0x8D 1 ''LEA'' TYPE_INST ((GenFlagsSameSize SIZE_64BITDEF) OR FLAGS_MODRM) 0,
     entry 0x8E 1 ''MOV'' TYPE_INST ((GenFlagsSameSize SIZE_16BIT) OR FLAGS_MODRM) 0,
     entry 0x8F 1 ''POP'' TYPE_INST ((GenFlagsSameSize SIZE_64BITDEF) OR FLAGS_MODRM OR FLAGS_SF_MOD_DST OR FLAGS_SF_MOD_ZERO_REG OR FLAGS_DEBUG_MEM_ACCESS) 0,
     entry 0x90 8 ''XCHG'' TYPE_INST (FLAGS_SF_REX_IN_BYTE OR FLAGS_SF_SRC_RAX) 0,
     entry 0x98 1 ''CDQE'' TYPE_INST (FLAGS_SF_DST_RAX OR FLAGS_SF_SRC_RAX) 0,
     entry 0x99 1 ''CQO'' TYPE_INST (FLAGS_SF_DST_RDX OR FLAGS_SF_SRC_RAX) 0,
     entry 0x9B 1 ''FWAIT'' TYPE_INST FLAGS_NONE 0,
     entry 0x9C 1 ''PUSHF'' TYPE_INST (GenFlagsSameSize SIZE_64BITDEF) 0,
     entry 0x9D 1 ''POPF'' TYPE_INST ((GenFlagsSameSize SIZE_64BITDEF) OR FLAGS_BLOCK_END) 0,
     entry 0x9E 1 ''SAHF'' TYPE_INST FLAGS_NONE 0,
     entry 0x9F 1 ''LAHF'' TYPE_INST FLAGS_NONE 0,
     arch_entry 0xA0 1 '''' FLAGS_NONE 0 Primary_LUT_A0,
     arch_entry 0xA1 1 '''' FLAGS_NONE 0 Primary_LUT_A1]"

definition BaseOpTable_2 :: "X86TablesInfoStruct list" where
  "BaseOpTable_2 =
    [arch_entry 0xA2 1 '''' FLAGS_NONE 0 Primary_LUT_A2,
     arch_entry 0xA3 1 '''' FLAGS_NONE 0 Primary_LUT_A3,
     entry 0xA4 1 ''MOVSB'' TYPE_INST ((GenFlagsSameSize SIZE_8BIT) OR FLAGS_DEBUG_MEM_ACCESS) 0,
     entry 0xA5 1 ''MOVS'' TYPE_INST FLAGS_DEBUG_MEM_ACCESS 0,
     entry 0xA6 1 ''CMPSB'' TYPE_INST ((GenFlagsSameSize SIZE_8BIT) OR FLAGS_DEBUG_MEM_ACCESS) 0,
     entry 0xA7 1 ''CMPS'' TYPE_INST FLAGS_DEBUG_MEM_ACCESS 0,
     entry 0xA8 1 ''TEST'' TYPE_INST ((GenFlagsSameSize SIZE_8BIT) OR FLAGS_SF_DST_RAX) 1,
     entry 0xA9 1 ''TEST'' TYPE_INST (FLAGS_SF_DST_RAX OR FLAGS_SRC_SEXT OR FLAGS_DISPLACE_SIZE_DIV_2) 4,
     entry 0xAA 1 ''STOS'' TYPE_INST ((GenFlagsSameSize SIZE_8BIT) OR FLAGS_DEBUG_MEM_ACCESS OR FLAGS_SF_SRC_RAX) 0,
     entry 0xAB 1 ''STOS'' TYPE_INST (FLAGS_DEBUG_MEM_ACCESS OR FLAGS_SF_SRC_RAX) 0,
     entry 0xAC 1 ''LODS'' TYPE_INST ((GenFlagsSameSize SIZE_8BIT) OR FLAGS_SF_DST_RAX OR FLAGS_DEBUG_MEM_ACCESS) 0,
     entry 0xAD 1 ''LODS'' TYPE_INST (FLAGS_SF_DST_RAX OR FLAGS_DEBUG_MEM_ACCESS) 0,
     entry 0xAE 1 ''SCAS'' TYPE_INST ((GenFlagsSameSize SIZE_8BIT) OR FLAGS_DEBUG_MEM_ACCESS OR FLAGS_SF_SRC_RAX) 0,
     entry 0xAF 1 ''SCAS'' TYPE_INST (FLAGS_DEBUG_MEM_ACCESS OR FLAGS_SF_SRC_RAX) 0,
     entry 0xB0 8 ''MOV'' TYPE_INST ((GenFlagsSameSize SIZE_8BIT) OR FLAGS_SF_REX_IN_BYTE) 1,
     entry 0xB8 8 ''MOV'' TYPE_INST (FLAGS_SF_REX_IN_BYTE OR FLAGS_DISPLACE_SIZE_DIV_2 OR FLAGS_DISPLACE_SIZE_MUL_2) 4,
     entry 0xC2 1 ''RET'' TYPE_INST (FLAGS_SETS_RIP OR FLAGS_BLOCK_END) 2,
     entry 0xC3 1 ''RET'' TYPE_INST ((GenFlagsSameSize SIZE_64BITDEF) OR FLAGS_SETS_RIP OR FLAGS_BLOCK_END) 0,
     entry 0xC8 1 ''ENTER'' TYPE_INST ((GenFlagsSameSize SIZE_64BITDEF) OR FLAGS_DEBUG_MEM_ACCESS) 3,
     entry 0xC9 1 ''LEAVE'' TYPE_INST ((GenFlagsSameSize SIZE_64BITDEF) OR FLAGS_DEBUG_MEM_ACCESS) 0,
     entry 0xCA 1 ''RETF'' TYPE_INST ((GenFlagsSameSize SIZE_64BITDEF) OR FLAGS_SETS_RIP OR FLAGS_BLOCK_END) 2,
     entry 0xCB 1 ''RETF'' TYPE_INST ((GenFlagsSameSize SIZE_64BITDEF) OR FLAGS_SETS_RIP OR FLAGS_BLOCK_END) 0,
     entry 0xCC 1 ''INT3'' TYPE_INST FLAGS_BLOCK_END 0,
     entry 0xCD 1 ''INT'' TYPE_INST DEFAULT_SYSCALL_FLAGS 1,
     arch_entry 0xCE 1 '''' FLAGS_NONE 0 Primary_LUT_CE,
     entry 0xCF 1 ''IRET'' TYPE_INST (FLAGS_SETS_RIP OR FLAGS_BLOCK_END) 0,
     arch_entry 0xD4 1 '''' FLAGS_NONE 0 Primary_LUT_D4,
     arch_entry 0xD5 1 '''' FLAGS_NONE 0 Primary_LUT_D5,
     arch_entry 0xD6 1 '''' FLAGS_NONE 0 Primary_LUT_D6,
     entry 0xD7 1 ''XLAT'' TYPE_INST FLAGS_DEBUG_MEM_ACCESS 0,
     entry 0xE0 1 ''LOOPNE'' TYPE_INST ((GenFlagsSameSize SIZE_64BITDEF) OR FLAGS_SETS_RIP OR FLAGS_SRC_SEXT OR FLAGS_SF_SRC_RCX) 1,
     entry 0xE1 1 ''LOOPE'' TYPE_INST ((GenFlagsSameSize SIZE_64BITDEF) OR FLAGS_SETS_RIP OR FLAGS_SRC_SEXT OR FLAGS_SF_SRC_RCX) 1,
     entry 0xE2 1 ''LOOP'' TYPE_INST ((GenFlagsSameSize SIZE_64BITDEF) OR FLAGS_SETS_RIP OR FLAGS_SRC_SEXT OR FLAGS_SF_SRC_RCX) 1,
     entry 0xE3 1 ''JrCXZ'' TYPE_INST ((GenFlagsSameSize SIZE_64BITDEF) OR FLAGS_SETS_RIP OR FLAGS_SRC_SEXT) 1,
     entry 0xE4 2 ''IN'' TYPE_INST FLAGS_BLOCK_END 1,
     entry 0xE6 2 ''OUT'' TYPE_INST FLAGS_BLOCK_END 1,
     entry 0xE8 1 ''CALL'' TYPE_INST ((GenFlagsSameSize SIZE_64BITDEF) OR FLAGS_SETS_RIP OR FLAGS_SRC_SEXT OR FLAGS_DISPLACE_SIZE_DIV_2 OR FLAGS_BLOCK_END OR FLAGS_CALL) 4,
     entry 0xE9 1 ''JMP'' TYPE_INST ((GenFlagsSameSize SIZE_64BITDEF) OR FLAGS_SETS_RIP OR FLAGS_SRC_SEXT OR FLAGS_DISPLACE_SIZE_DIV_2 OR FLAGS_BLOCK_END) 4,
     entry 0xEB 1 ''JMP'' TYPE_INST ((GenFlagsSameSize SIZE_64BITDEF) OR FLAGS_SETS_RIP OR FLAGS_SRC_SEXT OR FLAGS_BLOCK_END) 1,
     entry 0xEC 2 ''IN'' TYPE_INST FLAGS_BLOCK_END 0,
     entry 0xEE 2 ''OUT'' TYPE_INST FLAGS_BLOCK_END 0,
     entry 0xF1 1 ''INT1'' TYPE_INST FLAGS_BLOCK_END 0,
     entry 0xF4 1 ''HLT'' TYPE_INST FLAGS_BLOCK_END 0,
     entry 0xF5 1 ''CMC'' TYPE_INST FLAGS_NONE 0,
     entry 0xF8 1 ''CLC'' TYPE_INST FLAGS_NONE 0,
     entry 0xF9 1 ''STC'' TYPE_INST FLAGS_NONE 0,
     entry 0xFA 1 ''CLI'' TYPE_INST FLAGS_NONE 0,
     entry 0xFB 1 ''STI'' TYPE_INST FLAGS_NONE 0,
     entry 0xFC 1 ''CLD'' TYPE_INST FLAGS_NONE 0,
     entry 0xFD 1 ''STD'' TYPE_INST FLAGS_NONE 0,
     entry 0x0F 1 '''' TYPE_SECONDARY_TABLE_PREFIX FLAGS_NONE 0,
     entry 0xD8 8 '''' TYPE_X87_TABLE_PREFIX FLAGS_MODRM 0,
     entry 0x80 1 '''' TYPE_GROUP_1 FLAGS_MODRM 0,
     entry 0x81 1 '''' TYPE_GROUP_1 FLAGS_MODRM 1,
     entry 0x82 1 '''' TYPE_GROUP_1 FLAGS_MODRM 2,
     entry 0x83 1 '''' TYPE_GROUP_1 FLAGS_MODRM 3,
     entry 0xC0 1 '''' TYPE_GROUP_2 FLAGS_MODRM 0,
     entry 0xC1 1 '''' TYPE_GROUP_2 FLAGS_MODRM 1,
     entry 0xD0 1 '''' TYPE_GROUP_2 FLAGS_MODRM 2,
     entry 0xD1 1 '''' TYPE_GROUP_2 FLAGS_MODRM 3,
     entry 0xD2 1 '''' TYPE_GROUP_2 FLAGS_MODRM 4,
     entry 0xD3 1 '''' TYPE_GROUP_2 FLAGS_MODRM 5,
     entry 0xF6 1 '''' TYPE_GROUP_3 FLAGS_MODRM 0,
     entry 0xF7 1 '''' TYPE_GROUP_3 FLAGS_MODRM 1,
     entry 0xFE 1 '''' TYPE_GROUP_4 FLAGS_MODRM 0,
     entry 0xFF 1 '''' TYPE_GROUP_5 FLAGS_MODRM 0,
     entry 0xC6 1 '''' TYPE_GROUP_11 FLAGS_MODRM 0,
     entry 0xC7 1 '''' TYPE_GROUP_11 FLAGS_MODRM 1,
     entry 0xC4 2 '''' TYPE_VEX_TABLE_PREFIX FLAGS_NONE 0]"

definition BaseOpTable :: "X86TablesInfoStruct list" where
  "BaseOpTable = BaseOpTable_1 @ BaseOpTable_2"

definition OpDispatch_BaseOpTable :: "DispatchTableEntry list" where
  "OpDispatch_BaseOpTable =
    [dispatch 0x00 6 (Bind ''ALUOp'' [''OP_ADD'', ''OP_ATOMICFETCHADD'', ''0'']),
     dispatch 0x08 6 (Bind ''ALUOp'' [''OP_OR'', ''OP_ATOMICFETCHOR'', ''0'']),
     dispatch 0x10 6 (Bind ''ADCOp'' [''0'']),
     dispatch 0x18 6 (Bind ''SBBOp'' [''0'']),
     dispatch 0x20 6 (Bind ''ALUOp'' [''OP_ANDWITHFLAGS'', ''OP_ATOMICFETCHAND'', ''0'']),
     dispatch 0x28 6 (Bind ''ALUOp'' [''OP_SUB'', ''OP_ATOMICFETCHSUB'', ''0'']),
     dispatch 0x30 6 (Bind ''ALUOp'' [''OP_XOR'', ''OP_ATOMICFETCHXOR'', ''0'']),
     dispatch 0x38 6 (Bind ''CMPOp'' [''0'']),
     dispatch 0x50 8 (Handler ''PUSHREGOp''),
     dispatch 0x58 8 (Handler ''POPOp''),
     dispatch 0x68 1 (Handler ''PUSHOp''),
     dispatch 0x69 1 (Handler ''IMUL2SrcOp''),
     dispatch 0x6A 1 (Handler ''PUSHOp''),
     dispatch 0x6B 1 (Handler ''IMUL2SrcOp''),
     dispatch 0x6C 4 (Handler ''PermissionRestrictedOp''),
     dispatch 0x70 16 (Handler ''CondJUMPOp''),
     dispatch 0x84 2 (Bind ''TESTOp'' [''0'']),
     dispatch 0x86 2 (Handler ''XCHGOp''),
     dispatch 0x88 4 (Bind ''MOVGPROp'' [''0'']),
     dispatch 0x8C 1 (Bind ''MOVSegOp'' [''false'']),
     dispatch 0x8D 1 (Handler ''LEAOp''),
     dispatch 0x8E 1 (Bind ''MOVSegOp'' [''true'']),
     dispatch 0x8F 1 (Handler ''POPOp''),
     dispatch 0x90 8 (Handler ''XCHGOp''),
     dispatch 0x98 1 (Handler ''CDQOp''),
     dispatch 0x99 1 (Handler ''CQOOp''),
     dispatch 0x9B 1 (Handler ''NOPOp''),
     dispatch 0x9C 1 (Handler ''PUSHFOp''),
     dispatch 0x9D 1 (Handler ''POPFOp''),
     dispatch 0x9E 1 (Handler ''SAHFOp''),
     dispatch 0x9F 1 (Handler ''LAHFOp''),
     dispatch 0xA4 2 (Handler ''MOVSOp''),
     dispatch 0xA6 2 (Handler ''CMPSOp''),
     dispatch 0xA8 2 (Bind ''TESTOp'' [''0'']),
     dispatch 0xAA 2 (Handler ''STOSOp''),
     dispatch 0xAC 2 (Handler ''LODSOp''),
     dispatch 0xAE 2 (Handler ''SCASOp''),
     dispatch 0xB0 16 (Bind ''MOVGPROp'' [''0'']),
     dispatch 0xC2 2 (Handler ''RETOp''),
     dispatch 0xC8 1 (Handler ''EnterOp''),
     dispatch 0xC9 1 (Handler ''LEAVEOp''),
     dispatch 0xCA 2 (Handler ''RETFARIndirectOp''),
     dispatch 0xCC 2 (Handler ''INTOp''),
     dispatch 0xCF 1 (Handler ''IRETOp''),
     dispatch 0xD7 2 (Handler ''XLATOp''),
     dispatch 0xE0 3 (Handler ''LoopOp''),
     dispatch 0xE3 1 (Handler ''CondJUMPRCXOp''),
     dispatch 0xE4 4 (Handler ''PermissionRestrictedOp''),
     dispatch 0xE8 1 (Handler ''CALLOp''),
     dispatch 0xE9 1 (Handler ''JUMPOp''),
     dispatch 0xEB 1 (Handler ''JUMPOp''),
     dispatch 0xEC 4 (Handler ''PermissionRestrictedOp''),
     dispatch 0xF1 1 (Handler ''INTOp''),
     dispatch 0xF4 1 (Handler ''INTOp''),
     dispatch 0xF5 1 (Handler ''FLAGControlOp''),
     dispatch 0xF8 2 (Handler ''FLAGControlOp''),
     dispatch 0xFA 2 (Handler ''PermissionRestrictedOp''),
     dispatch 0xFC 2 (Handler ''FLAGControlOp'')]"

definition BaseOps_build :: "table option" where
  "BaseOps_build =
     do { Table \<leftarrow> GenerateTable BaseOpTable (replicate 256 zero_info);
          InstallToTable OpDispatch_BaseOpTable Table }"

section \<open>The primary groups\<close>

definition OPD_PrimaryGroup :: "InstType \<Rightarrow> nat \<Rightarrow> nat \<Rightarrow> nat" where
  "OPD_PrimaryGroup grp prefix Reg =
     push_bit 6 (InstType_num grp - InstType_num TYPE_GROUP_1) OR push_bit 3 prefix OR Reg"

definition PrimaryGroup_LUT_1_82_0 :: "X86InstInfo \<times> X86InstInfo" where
  "PrimaryGroup_LUT_1_82_0 =
    (X86InstInfo ''ADD'' TYPE_INST ((GenFlagsSameSize SIZE_8BIT) OR FLAGS_MODRM OR FLAGS_SF_MOD_DST OR FLAGS_SUPPORTS_LOCK) 1 (OpDispatch (Some (Handler ''SecondaryALUOp''))),
     X86InstInfo '''' TYPE_INVALID FLAGS_NONE 0 (OpDispatch None))"

definition PrimaryGroup_LUT_1_82_1 :: "X86InstInfo \<times> X86InstInfo" where
  "PrimaryGroup_LUT_1_82_1 =
    (X86InstInfo ''OR'' TYPE_INST ((GenFlagsSameSize SIZE_8BIT) OR FLAGS_MODRM OR FLAGS_SF_MOD_DST OR FLAGS_SUPPORTS_LOCK) 1 (OpDispatch (Some (Handler ''SecondaryALUOp''))),
     X86InstInfo '''' TYPE_INVALID FLAGS_NONE 0 (OpDispatch None))"

definition PrimaryGroup_LUT_1_82_2 :: "X86InstInfo \<times> X86InstInfo" where
  "PrimaryGroup_LUT_1_82_2 =
    (X86InstInfo ''ADC'' TYPE_INST ((GenFlagsSameSize SIZE_8BIT) OR FLAGS_MODRM OR FLAGS_SF_MOD_DST OR FLAGS_SUPPORTS_LOCK) 1 (OpDispatch (Some (Bind ''ADCOp'' [''1'']))),
     X86InstInfo '''' TYPE_INVALID FLAGS_NONE 0 (OpDispatch None))"

definition PrimaryGroup_LUT_1_82_3 :: "X86InstInfo \<times> X86InstInfo" where
  "PrimaryGroup_LUT_1_82_3 =
    (X86InstInfo ''SBB'' TYPE_INST ((GenFlagsSameSize SIZE_8BIT) OR FLAGS_MODRM OR FLAGS_SF_MOD_DST OR FLAGS_SUPPORTS_LOCK) 1 (OpDispatch (Some (Bind ''SBBOp'' [''1'']))),
     X86InstInfo '''' TYPE_INVALID FLAGS_NONE 0 (OpDispatch None))"

definition PrimaryGroup_LUT_1_82_4 :: "X86InstInfo \<times> X86InstInfo" where
  "PrimaryGroup_LUT_1_82_4 =
    (X86InstInfo ''AND'' TYPE_INST ((GenFlagsSameSize SIZE_8BIT) OR FLAGS_MODRM OR FLAGS_SF_MOD_DST OR FLAGS_SUPPORTS_LOCK) 1 (OpDispatch (Some (Handler ''SecondaryALUOp''))),
     X86InstInfo '''' TYPE_INVALID FLAGS_NONE 0 (OpDispatch None))"

definition PrimaryGroup_LUT_1_82_5 :: "X86InstInfo \<times> X86InstInfo" where
  "PrimaryGroup_LUT_1_82_5 =
    (X86InstInfo ''SUB'' TYPE_INST ((GenFlagsSameSize SIZE_8BIT) OR FLAGS_MODRM OR FLAGS_SF_MOD_DST OR FLAGS_SUPPORTS_LOCK) 1 (OpDispatch (Some (Handler ''SecondaryALUOp''))),
     X86InstInfo '''' TYPE_INVALID FLAGS_NONE 0 (OpDispatch None))"

definition PrimaryGroup_LUT_1_82_6 :: "X86InstInfo \<times> X86InstInfo" where
  "PrimaryGroup_LUT_1_82_6 =
    (X86InstInfo ''XOR'' TYPE_INST ((GenFlagsSameSize SIZE_8BIT) OR FLAGS_MODRM OR FLAGS_SF_MOD_DST OR FLAGS_SUPPORTS_LOCK) 1 (OpDispatch (Some (Handler ''SecondaryALUOp''))),
     X86InstInfo '''' TYPE_INVALID FLAGS_NONE 0 (OpDispatch None))"

definition PrimaryGroup_LUT_1_82_7 :: "X86InstInfo \<times> X86InstInfo" where
  "PrimaryGroup_LUT_1_82_7 =
    (X86InstInfo ''CMP'' TYPE_INST ((GenFlagsSameSize SIZE_8BIT) OR FLAGS_MODRM OR FLAGS_SF_MOD_DST) 1 (OpDispatch (Some (Bind ''CMPOp'' [''1'']))),
     X86InstInfo '''' TYPE_INVALID FLAGS_NONE 0 (OpDispatch None))"

definition PrimaryGroupOpTable :: "X86TablesInfoStruct list" where
  "PrimaryGroupOpTable =
    [entry (OPD_PrimaryGroup TYPE_GROUP_1 (OpToIndex 0x80) 0) 1 ''ADD'' TYPE_INST ((GenFlagsSameSize SIZE_8BIT) OR FLAGS_MODRM OR FLAGS_SF_MOD_DST OR FLAGS_SUPPORTS_LOCK) 1,
     entry (OPD_PrimaryGroup TYPE_GROUP_1 (OpToIndex 0x80) 1) 1 ''OR'' TYPE_INST ((GenFlagsSameSize SIZE_8BIT) OR FLAGS_MODRM OR FLAGS_SF_MOD_DST OR FLAGS_SUPPORTS_LOCK) 1,
     entry (OPD_PrimaryGroup TYPE_GROUP_1 (OpToIndex 0x80) 2) 1 ''ADC'' TYPE_INST ((GenFlagsSameSize SIZE_8BIT) OR FLAGS_MODRM OR FLAGS_SF_MOD_DST OR FLAGS_SUPPORTS_LOCK) 1,
     entry (OPD_PrimaryGroup TYPE_GROUP_1 (OpToIndex 0x80) 3) 1 ''SBB'' TYPE_INST ((GenFlagsSameSize SIZE_8BIT) OR FLAGS_MODRM OR FLAGS_SF_MOD_DST OR FLAGS_SUPPORTS_LOCK) 1,
     entry (OPD_PrimaryGroup TYPE_GROUP_1 (OpToIndex 0x80) 4) 1 ''AND'' TYPE_INST ((GenFlagsSameSize SIZE_8BIT) OR FLAGS_MODRM OR FLAGS_SF_MOD_DST OR FLAGS_SUPPORTS_LOCK) 1,
     entry (OPD_PrimaryGroup TYPE_GROUP_1 (OpToIndex 0x80) 5) 1 ''SUB'' TYPE_INST ((GenFlagsSameSize SIZE_8BIT) OR FLAGS_MODRM OR FLAGS_SF_MOD_DST OR FLAGS_SUPPORTS_LOCK) 1,
     entry (OPD_PrimaryGroup TYPE_GROUP_1 (OpToIndex 0x80) 6) 1 ''XOR'' TYPE_INST ((GenFlagsSameSize SIZE_8BIT) OR FLAGS_MODRM OR FLAGS_SF_MOD_DST OR FLAGS_SUPPORTS_LOCK) 1,
     entry (OPD_PrimaryGroup TYPE_GROUP_1 (OpToIndex 0x80) 7) 1 ''CMP'' TYPE_INST ((GenFlagsSameSize SIZE_8BIT) OR FLAGS_MODRM OR FLAGS_SF_MOD_DST OR FLAGS_SUPPORTS_LOCK) 1,
     entry (OPD_PrimaryGroup TYPE_GROUP_1 (OpToIndex 0x81) 0) 1 ''ADD'' TYPE_INST (FLAGS_MODRM OR FLAGS_SF_MOD_DST OR FLAGS_SRC_SEXT64BIT OR FLAGS_DISPLACE_SIZE_DIV_2 OR FLAGS_SUPPORTS_LOCK) 4,
     entry (OPD_PrimaryGroup TYPE_GROUP_1 (OpToIndex 0x81) 1) 1 ''OR'' TYPE_INST (FLAGS_MODRM OR FLAGS_SF_MOD_DST OR FLAGS_SRC_SEXT64BIT OR FLAGS_DISPLACE_SIZE_DIV_2 OR FLAGS_SUPPORTS_LOCK) 4,
     entry (OPD_PrimaryGroup TYPE_GROUP_1 (OpToIndex 0x81) 2) 1 ''ADC'' TYPE_INST (FLAGS_MODRM OR FLAGS_SF_MOD_DST OR FLAGS_SRC_SEXT64BIT OR FLAGS_DISPLACE_SIZE_DIV_2 OR FLAGS_SUPPORTS_LOCK) 4,
     entry (OPD_PrimaryGroup TYPE_GROUP_1 (OpToIndex 0x81) 3) 1 ''SBB'' TYPE_INST (FLAGS_MODRM OR FLAGS_SF_MOD_DST OR FLAGS_SRC_SEXT64BIT OR FLAGS_DISPLACE_SIZE_DIV_2 OR FLAGS_SUPPORTS_LOCK) 4,
     entry (OPD_PrimaryGroup TYPE_GROUP_1 (OpToIndex 0x81) 4) 1 ''AND'' TYPE_INST (FLAGS_MODRM OR FLAGS_SF_MOD_DST OR FLAGS_SRC_SEXT64BIT OR FLAGS_DISPLACE_SIZE_DIV_2 OR FLAGS_SUPPORTS_LOCK) 4,
     entry (OPD_PrimaryGroup TYPE_GROUP_1 (OpToIndex 0x81) 5) 1 ''SUB'' TYPE_INST (FLAGS_MODRM OR FLAGS_SF_MOD_DST OR FLAGS_SRC_SEXT64BIT OR FLAGS_DISPLACE_SIZE_DIV_2 OR FLAGS_SUPPORTS_LOCK) 4,
     entry (OPD_PrimaryGroup TYPE_GROUP_1 (OpToIndex 0x81) 6) 1 ''XOR'' TYPE_INST (FLAGS_MODRM OR FLAGS_SF_MOD_DST OR FLAGS_SRC_SEXT64BIT OR FLAGS_DISPLACE_SIZE_DIV_2 OR FLAGS_SUPPORTS_LOCK) 4,
     entry (OPD_PrimaryGroup TYPE_GROUP_1 (OpToIndex 0x81) 7) 1 ''CMP'' TYPE_INST (FLAGS_MODRM OR FLAGS_SF_MOD_DST OR FLAGS_SRC_SEXT64BIT OR FLAGS_DISPLACE_SIZE_DIV_2 OR FLAGS_SUPPORTS_LOCK) 4,
     arch_entry (OPD_PrimaryGroup TYPE_GROUP_1 (OpToIndex 0x82) 0) 1 '''' FLAGS_NONE 0 PrimaryGroup_LUT_1_82_0,
     arch_entry (OPD_PrimaryGroup TYPE_GROUP_1 (OpToIndex 0x82) 1) 1 '''' FLAGS_NONE 0 PrimaryGroup_LUT_1_82_1,
     arch_entry (OPD_PrimaryGroup TYPE_GROUP_1 (OpToIndex 0x82) 2) 1 '''' FLAGS_NONE 0 PrimaryGroup_LUT_1_82_2,
     arch_entry (OPD_PrimaryGroup TYPE_GROUP_1 (OpToIndex 0x82) 3) 1 '''' FLAGS_NONE 0 PrimaryGroup_LUT_1_82_3,
     arch_entry (OPD_PrimaryGroup TYPE_GROUP_1 (OpToIndex 0x82) 4) 1 '''' FLAGS_NONE 0 PrimaryGroup_LUT_1_82_4,
     arch_entry (OPD_PrimaryGroup TYPE_GROUP_1 (OpToIndex 0x82) 5) 1 '''' FLAGS_NONE 0 PrimaryGroup_LUT_1_82_5,
     arch_entry (OPD_PrimaryGroup TYPE_GROUP_1 (OpToIndex 0x82) 6) 1 '''' FLAGS_NONE 0 PrimaryGroup_LUT_1_82_6,
     arch_entry (OPD_PrimaryGroup TYPE_GROUP_1 (OpToIndex 0x82) 7) 1 '''' FLAGS_NONE 0 PrimaryGroup_LUT_1_82_7,
     entry (OPD_PrimaryGroup TYPE_GROUP_1 (OpToIndex 0x83) 0) 1 ''ADD'' TYPE_INST (FLAGS_SRC_SEXT OR FLAGS_MODRM OR FLAGS_SF_MOD_DST OR FLAGS_SUPPORTS_LOCK) 1,
     entry (OPD_PrimaryGroup TYPE_GROUP_1 (OpToIndex 0x83) 1) 1 ''OR'' TYPE_INST (FLAGS_SRC_SEXT OR FLAGS_MODRM OR FLAGS_SF_MOD_DST OR FLAGS_SUPPORTS_LOCK) 1,
     entry (OPD_PrimaryGroup TYPE_GROUP_1 (OpToIndex 0x83) 2) 1 ''ADC'' TYPE_INST (FLAGS_SRC_SEXT OR FLAGS_MODRM OR FLAGS_SF_MOD_DST OR FLAGS_SUPPORTS_LOCK) 1,
     entry (OPD_PrimaryGroup TYPE_GROUP_1 (OpToIndex 0x83) 3) 1 ''SBB'' TYPE_INST (FLAGS_SRC_SEXT OR FLAGS_MODRM OR FLAGS_SF_MOD_DST OR FLAGS_SUPPORTS_LOCK) 1,
     entry (OPD_PrimaryGroup TYPE_GROUP_1 (OpToIndex 0x83) 4) 1 ''AND'' TYPE_INST (FLAGS_SRC_SEXT OR FLAGS_MODRM OR FLAGS_SF_MOD_DST OR FLAGS_SUPPORTS_LOCK) 1,
     entry (OPD_PrimaryGroup TYPE_GROUP_1 (OpToIndex 0x83) 5) 1 ''SUB'' TYPE_INST (FLAGS_SRC_SEXT OR FLAGS_MODRM OR FLAGS_SF_MOD_DST OR FLAGS_SUPPORTS_LOCK) 1,
     entry (OPD_PrimaryGroup TYPE_GROUP_1 (OpToIndex 0x83) 6) 1 ''XOR'' TYPE_INST (FLAGS_SRC_SEXT OR FLAGS_MODRM OR FLAGS_SF_MOD_DST OR FLAGS_SUPPORTS_LOCK) 1,
     entry (OPD_PrimaryGroup TYPE_GROUP_1 (OpToIndex 0x83) 7) 1 ''CMP'' TYPE_INST (FLAGS_SRC_SEXT OR FLAGS_MODRM OR FLAGS_SF_MOD_DST OR FLAGS_SUPPORTS_LOCK) 1,
     entry (OPD_PrimaryGroup TYPE_GROUP_2 (OpToIndex 0xC0) 0) 1 ''ROL'' TYPE_INST ((GenFlagsSameSize SIZE_8BIT) OR FLAGS_MODRM OR FLAGS_SF_MOD_DST) 1,
     entry (OPD_PrimaryGroup TYPE_GROUP_2 (OpToIndex 0xC0) 1) 1 ''ROR'' TYPE_INST ((GenFlagsSameSize SIZE_8BIT) OR FLAGS_MODRM OR FLAGS_SF_MOD_DST) 1,
     entry (OPD_PrimaryGroup TYPE_GROUP_2 (OpToIndex 0xC0) 2) 1 ''RCL'' TYPE_INST ((GenFlagsSameSize SIZE_8BIT) OR FLAGS_MODRM OR FLAGS_SF_MOD_DST) 1,
     entry (OPD_PrimaryGroup TYPE_GROUP_2 (OpToIndex 0xC0) 3) 1 ''RCR'' TYPE_INST ((GenFlagsSameSize SIZE_8BIT) OR FLAGS_MODRM OR FLAGS_SF_MOD_DST) 1,
     entry (OPD_PrimaryGroup TYPE_GROUP_2 (OpToIndex 0xC0) 4) 1 ''SHL'' TYPE_INST ((GenFlagsSameSize SIZE_8BIT) OR FLAGS_MODRM OR FLAGS_SF_MOD_DST) 1,
     entry (OPD_PrimaryGroup TYPE_GROUP_2 (OpToIndex 0xC0) 5) 1 ''SHR'' TYPE_INST ((GenFlagsSameSize SIZE_8BIT) OR FLAGS_MODRM OR FLAGS_SF_MOD_DST) 1,
     entry (OPD_PrimaryGroup TYPE_GROUP_2 (OpToIndex 0xC0) 6) 1 ''SHL'' TYPE_INST ((GenFlagsSameSize SIZE_8BIT) OR FLAGS_MODRM OR FLAGS_SF_MOD_DST) 1,
     entry (OPD_PrimaryGroup TYPE_GROUP_2 (OpToIndex 0xC0) 7) 1 ''SAR'' TYPE_INST ((GenFlagsSameSize SIZE_8BIT) OR FLAGS_MODRM OR FLAGS_SF_MOD_DST) 1,
     entry (OPD_PrimaryGroup TYPE_GROUP_2 (OpToIndex 0xC1) 0) 1 ''ROL'' TYPE_INST (FLAGS_MODRM OR FLAGS_SF_MOD_DST) 1,
     entry (OPD_PrimaryGroup TYPE_GROUP_2 (OpToIndex 0xC1) 1) 1 ''ROR'' TYPE_INST (FLAGS_MODRM OR FLAGS_SF_MOD_DST) 1,
     entry (OPD_PrimaryGroup TYPE_GROUP_2 (OpToIndex 0xC1) 2) 1 ''RCL'' TYPE_INST (FLAGS_MODRM OR FLAGS_SF_MOD_DST) 1,
     entry (OPD_PrimaryGroup TYPE_GROUP_2 (OpToIndex 0xC1) 3) 1 ''RCR'' TYPE_INST (FLAGS_MODRM OR FLAGS_SF_MOD_DST) 1,
     entry (OPD_PrimaryGroup TYPE_GROUP_2 (OpToIndex 0xC1) 4) 1 ''SHL'' TYPE_INST (FLAGS_MODRM OR FLAGS_SF_MOD_DST) 1,
     entry (OPD_PrimaryGroup TYPE_GROUP_2 (OpToIndex 0xC1) 5) 1 ''SHR'' TYPE_INST (FLAGS_MODRM OR FLAGS_SF_MOD_DST) 1,
     entry (OPD_PrimaryGroup TYPE_GROUP_2 (OpToIndex 0xC1) 6) 1 ''SHL'' TYPE_INST (FLAGS_MODRM OR FLAGS_SF_MOD_DST) 1,
     entry (OPD_PrimaryGroup TYPE_GROUP_2 (OpToIndex 0xC1) 7) 1 ''SAR'' TYPE_INST (FLAGS_MODRM OR FLAGS_SF_MOD_DST) 1,
     entry (OPD_PrimaryGroup TYPE_GROUP_2 (OpToIndex 0xD0) 0) 1 ''ROL'' TYPE_INST ((GenFlagsSameSize SIZE_8BIT) OR FLAGS_MODRM OR FLAGS_SF_MOD_DST) 0,
     entry (OPD_PrimaryGroup TYPE_GROUP_2 (OpToIndex 0xD0) 1) 1 ''ROR'' TYPE_INST ((GenFlagsSameSize SIZE_8BIT) OR FLAGS_MODRM OR FLAGS_SF_MOD_DST) 0,
     entry (OPD_PrimaryGroup TYPE_GROUP_2 (OpToIndex 0xD0) 2) 1 ''RCL'' TYPE_INST ((GenFlagsSameSize SIZE_8BIT) OR FLAGS_MODRM OR FLAGS_SF_MOD_DST) 0,
     entry (OPD_PrimaryGroup TYPE_GROUP_2 (OpToIndex 0xD0) 3) 1 ''RCR'' TYPE_INST ((GenFlagsSameSize SIZE_8BIT) OR FLAGS_MODRM OR FLAGS_SF_MOD_DST) 0,
     entry (OPD_PrimaryGroup TYPE_GROUP_2 (OpToIndex 0xD0) 4) 1 ''SHL'' TYPE_INST ((GenFlagsSameSize SIZE_8BIT) OR FLAGS_MODRM OR FLAGS_SF_MOD_DST) 0,
     entry (OPD_PrimaryGroup TYPE_GROUP_2 (OpToIndex 0xD0) 5) 1 ''SHR'' TYPE_INST ((GenFlagsSameSize SIZE_8BIT) OR FLAGS_MODRM OR FLAGS_SF_MOD_DST) 0,
     entry (OPD_PrimaryGroup TYPE_GROUP_2 (OpToIndex 0xD0) 6) 1 ''SHL'' TYPE_INST ((GenFlagsSameSize SIZE_8BIT) OR FLAGS_MODRM OR FLAGS_SF_MOD_DST) 0,
     entry (OPD_PrimaryGroup TYPE_GROUP_2 (OpToIndex 0xD0) 7) 1 ''SAR'' TYPE_INST ((GenFlagsSameSize SIZE_8BIT) OR FLAGS_MODRM OR FLAGS_SF_MOD_DST) 0,
     entry (OPD_PrimaryGroup TYPE_GROUP_2 (OpToIndex 0xD1) 0) 1 ''ROL'' TYPE_INST (FLAGS_MODRM OR FLAGS_SF_MOD_DST) 0,
     entry (OPD_PrimaryGroup TYPE_GROUP_2 (OpToIndex 0xD1) 1) 1 ''ROR'' TYPE_INST (FLAGS_MODRM OR FLAGS_SF_MOD_DST) 0,
     entry (OPD_PrimaryGroup TYPE_GROUP_2 (OpToIndex 0xD1) 2) 1 ''RCL'' TYPE_INST (FLAGS_MODRM OR FLAGS_SF_MOD_DST) 0,
     entry (OPD_PrimaryGroup TYPE_GROUP_2 (OpToIndex 0xD1) 3) 1 ''RCR'' TYPE_INST (FLAGS_MODRM OR FLAGS_SF_MOD_DST) 0,
     entry (OPD_PrimaryGroup TYPE_GROUP_2 (OpToIndex 0xD1) 4) 1 ''SHL'' TYPE_INST (FLAGS_MODRM OR FLAGS_SF_MOD_DST) 0,
     entry (OPD_PrimaryGroup TYPE_GROUP_2 (OpToIndex 0xD1) 5) 1 ''SHR'' TYPE_INST (FLAGS_MODRM OR FLAGS_SF_MOD_DST) 0,
     entry (OPD_PrimaryGroup TYPE_GROUP_2 (OpToIndex 0xD1) 6) 1 ''SHL'' TYPE_INST (FLAGS_MODRM OR FLAGS_SF_MOD_DST) 0,
     entry (OPD_PrimaryGroup TYPE_GROUP_2 (OpToIndex 0xD1) 7) 1 ''SAR'' TYPE_INST (FLAGS_MODRM OR FLAGS_SF_MOD_DST) 0,
     entry (OPD_PrimaryGroup TYPE_GROUP_2 (OpToIndex 0xD2) 0) 1 ''ROL'' TYPE_INST ((GenFlagsSameSize SIZE_8BIT) OR FLAGS_MODRM OR FLAGS_SF_MOD_DST OR FLAGS_SF_SRC_RCX) 0,
     entry (OPD_PrimaryGroup TYPE_GROUP_2 (OpToIndex 0xD2) 1) 1 ''ROR'' TYPE_INST ((GenFlagsSameSize SIZE_8BIT) OR FLAGS_MODRM OR FLAGS_SF_MOD_DST OR FLAGS_SF_SRC_RCX) 0,
     entry (OPD_PrimaryGroup TYPE_GROUP_2 (OpToIndex 0xD2) 2) 1 ''RCL'' TYPE_INST ((GenFlagsSameSize SIZE_8BIT) OR FLAGS_MODRM OR FLAGS_SF_MOD_DST OR FLAGS_SF_SRC_RCX) 0,
     entry (OPD_PrimaryGroup TYPE_GROUP_2 (OpToIndex 0xD2) 3) 1 ''RCR'' TYPE_INST ((GenFlagsSameSize SIZE_8BIT) OR FLAGS_MODRM OR FLAGS_SF_MOD_DST OR FLAGS_SF_SRC_RCX) 0,
     entry (OPD_PrimaryGroup TYPE_GROUP_2 (OpToIndex 0xD2) 4) 1 ''SHL'' TYPE_INST ((GenFlagsSameSize SIZE_8BIT) OR FLAGS_MODRM OR FLAGS_SF_MOD_DST OR FLAGS_SF_SRC_RCX) 0,
     entry (OPD_PrimaryGroup TYPE_GROUP_2 (OpToIndex 0xD2) 5) 1 ''SHR'' TYPE_INST ((GenFlagsSameSize SIZE_8BIT) OR FLAGS_MODRM OR FLAGS_SF_MOD_DST OR FLAGS_SF_SRC_RCX) 0,
     entry (OPD_PrimaryGroup TYPE_GROUP_2 (OpToIndex 0xD2) 6) 1 ''SHL'' TYPE_INST ((GenFlagsSameSize SIZE_8BIT) OR FLAGS_MODRM OR FLAGS_SF_MOD_DST OR FLAGS_SF_SRC_RCX) 0,
     entry (OPD_PrimaryGroup TYPE_GROUP_2 (OpToIndex 0xD2) 7) 1 ''SAR'' TYPE_INST ((GenFlagsSameSize SIZE_8BIT) OR FLAGS_MODRM OR FLAGS_SF_MOD_DST OR FLAGS_SF_SRC_RCX) 0,
     entry (OPD_PrimaryGroup TYPE_GROUP_2 (OpToIndex 0xD3) 0) 1 ''ROL'' TYPE_INST (FLAGS_MODRM OR FLAGS_SF_MOD_DST OR FLAGS_SF_SRC_RCX) 0,
     entry (OPD_PrimaryGroup TYPE_GROUP_2 (OpToIndex 0xD3) 1) 1 ''ROR'' TYPE_INST (FLAGS_MODRM OR FLAGS_SF_MOD_DST OR FLAGS_SF_SRC_RCX) 0,
     entry (OPD_PrimaryGroup TYPE_GROUP_2 (OpToIndex 0xD3) 2) 1 ''RCL'' TYPE_INST (FLAGS_MODRM OR FLAGS_SF_MOD_DST OR FLAGS_SF_SRC_RCX) 0,
     entry (OPD_PrimaryGroup TYPE_GROUP_2 (OpToIndex 0xD3) 3) 1 ''RCR'' TYPE_INST (FLAGS_MODRM OR FLAGS_SF_MOD_DST OR FLAGS_SF_SRC_RCX) 0,
     entry (OPD_PrimaryGroup TYPE_GROUP_2 (OpToIndex 0xD3) 4) 1 ''SHL'' TYPE_INST (FLAGS_MODRM OR FLAGS_SF_MOD_DST OR FLAGS_SF_SRC_RCX) 0,
     entry (OPD_PrimaryGroup TYPE_GROUP_2 (OpToIndex 0xD3) 5) 1 ''SHR'' TYPE_INST (FLAGS_MODRM OR FLAGS_SF_MOD_DST OR FLAGS_SF_SRC_RCX) 0,
     entry (OPD_PrimaryGroup TYPE_GROUP_2 (OpToIndex 0xD3) 6) 1 ''SHL'' TYPE_INST (FLAGS_MODRM OR FLAGS_SF_MOD_DST OR FLAGS_SF_SRC_RCX) 0,
     entry (OPD_PrimaryGroup TYPE_GROUP_2 (OpToIndex 0xD3) 7) 1 ''SAR'' TYPE_INST (FLAGS_MODRM OR FLAGS_SF_MOD_DST OR FLAGS_SF_SRC_RCX) 0,
     entry (OPD_PrimaryGroup TYPE_GROUP_3 (OpToIndex 0xF6) 0) 1 ''TEST'' TYPE_INST ((GenFlagsSameSize SIZE_8BIT) OR FLAGS_MODRM OR FLAGS_SF_MOD_DST) 1,
     entry (OPD_PrimaryGroup TYPE_GROUP_3 (OpToIndex 0xF6) 1) 1 ''TEST'' TYPE_INST ((GenFlagsSameSize SIZE_8BIT) OR FLAGS_MODRM OR FLAGS_SF_MOD_DST) 1,
     entry (OPD_PrimaryGroup TYPE_GROUP_3 (OpToIndex 0xF6) 2) 1 ''NOT'' TYPE_INST ((GenFlagsSameSize SIZE_8BIT) OR FLAGS_MODRM OR FLAGS_SF_MOD_DST OR FLAGS_SUPPORTS_LOCK) 0,
     entry (OPD_PrimaryGroup TYPE_GROUP_3 (OpToIndex 0xF6) 3) 1 ''NEG'' TYPE_INST ((GenFlagsSameSize SIZE_8BIT) OR FLAGS_MODRM OR FLAGS_SF_MOD_DST OR FLAGS_SUPPORTS_LOCK) 0,
     entry (OPD_PrimaryGroup TYPE_GROUP_3 (OpToIndex 0xF6) 4) 1 ''MUL'' TYPE_INST ((GenFlagsSameSize SIZE_8BIT) OR FLAGS_MODRM OR FLAGS_SF_MOD_DST) 0,
     entry (OPD_PrimaryGroup TYPE_GROUP_3 (OpToIndex 0xF6) 5) 1 ''IMUL'' TYPE_INST ((GenFlagsSameSize SIZE_8BIT) OR FLAGS_MODRM OR FLAGS_SF_MOD_DST) 0,
     entry (OPD_PrimaryGroup TYPE_GROUP_3 (OpToIndex 0xF6) 6) 1 ''DIV'' TYPE_INST ((GenFlagsSameSize SIZE_8BIT) OR FLAGS_MODRM OR FLAGS_SF_MOD_DST) 0,
     entry (OPD_PrimaryGroup TYPE_GROUP_3 (OpToIndex 0xF6) 7) 1 ''IDIV'' TYPE_INST ((GenFlagsSameSize SIZE_8BIT) OR FLAGS_MODRM OR FLAGS_SF_MOD_DST) 0,
     entry (OPD_PrimaryGroup TYPE_GROUP_3 (OpToIndex 0xF7) 0) 1 ''TEST'' TYPE_INST (FLAGS_MODRM OR FLAGS_SF_MOD_DST OR FLAGS_SRC_SEXT64BIT OR FLAGS_DISPLACE_SIZE_DIV_2) 4,
     entry (OPD_PrimaryGroup TYPE_GROUP_3 (OpToIndex 0xF7) 1) 1 ''TEST'' TYPE_INST (FLAGS_MODRM OR FLAGS_SF_MOD_DST OR FLAGS_SRC_SEXT64BIT OR FLAGS_DISPLACE_SIZE_DIV_2) 4,
     entry (OPD_PrimaryGroup TYPE_GROUP_3 (OpToIndex 0xF7) 2) 1 ''NOT'' TYPE_INST (FLAGS_MODRM OR FLAGS_SF_MOD_DST OR FLAGS_SUPPORTS_LOCK) 0,
     entry (OPD_PrimaryGroup TYPE_GROUP_3 (OpToIndex 0xF7) 3) 1 ''NEG'' TYPE_INST (FLAGS_MODRM OR FLAGS_SF_MOD_DST OR FLAGS_SUPPORTS_LOCK) 0,
     entry (OPD_PrimaryGroup TYPE_GROUP_3 (OpToIndex 0xF7) 4) 1 ''MUL'' TYPE_INST (FLAGS_MODRM OR FLAGS_SF_MOD_DST) 0,
     entry (OPD_PrimaryGroup TYPE_GROUP_3 (OpToIndex 0xF7) 5) 1 ''IMUL'' TYPE_INST (FLAGS_MODRM OR FLAGS_SF_MOD_DST) 0,
     entry (OPD_PrimaryGroup TYPE_GROUP_3 (OpToIndex 0xF7) 6) 1 ''DIV'' TYPE_INST (FLAGS_MODRM OR FLAGS_SF_MOD_DST) 0,
     entry (OPD_PrimaryGroup TYPE_GROUP_3 (OpToIndex 0xF7) 7) 1 ''IDIV'' TYPE_INST (FLAGS_MODRM OR FLAGS_SF_MOD_DST) 0,
     entry (OPD_PrimaryGroup TYPE_GROUP_4 (OpToIndex 0xFE) 0) 1 ''INC'' TYPE_INST ((GenFlagsSameSize SIZE_8BIT) OR FLAGS_MODRM OR FLAGS_SF_MOD_DST OR FLAGS_SUPPORTS_LOCK) 0,
     entry (OPD_PrimaryGroup TYPE_GROUP_4 (OpToIndex 0xFE) 1) 1 ''DEC'' TYPE_INST ((GenFlagsSameSize SIZE_8BIT) OR FLAGS_MODRM OR FLAGS_SF_MOD_DST OR FLAGS_SUPPORTS_LOCK) 0,
     entry (OPD_PrimaryGroup TYPE_GROUP_4 (OpToIndex 0xFE) 2) 6 '''' TYPE_INVALID FLAGS_NONE 0,
     entry (OPD_PrimaryGroup TYPE_GROUP_5 (OpToIndex 0xFF) 0) 1 ''INC'' TYPE_INST (FLAGS_MODRM OR FLAGS_SF_MOD_DST OR FLAGS_SUPPORTS_LOCK) 0,
     entry (OPD_PrimaryGroup TYPE_GROUP_5 (OpToIndex 0xFF) 1) 1 ''DEC'' TYPE_INST (FLAGS_MODRM OR FLAGS_SF_MOD_DST OR FLAGS_SUPPORTS_LOCK) 0,
     entry (OPD_PrimaryGroup TYPE_GROUP_5 (OpToIndex 0xFF) 2) 1 ''CALL'' TYPE_INST ((GenFlagsSameSize SIZE_64BITDEF) OR FLAGS_SETS_RIP OR FLAGS_MODRM OR FLAGS_BLOCK_END OR FLAGS_CALL) 0,
     entry (OPD_PrimaryGroup TYPE_GROUP_5 (OpToIndex 0xFF) 3) 1 ''CALLF'' TYPE_INST (FLAGS_SETS_RIP OR FLAGS_MODRM OR FLAGS_SF_MOD_DST OR FLAGS_SF_MOD_MEM_ONLY OR FLAGS_BLOCK_END) 0,
     entry (OPD_PrimaryGroup TYPE_GROUP_5 (OpToIndex 0xFF) 4) 1 ''JMP'' TYPE_INST ((GenFlagsSameSize SIZE_64BITDEF) OR FLAGS_SETS_RIP OR FLAGS_MODRM OR FLAGS_BLOCK_END) 0,
     entry (OPD_PrimaryGroup TYPE_GROUP_5 (OpToIndex 0xFF) 5) 1 ''JMPF'' TYPE_INST (FLAGS_SETS_RIP OR FLAGS_MODRM OR FLAGS_SF_MOD_DST OR FLAGS_SF_MOD_MEM_ONLY OR FLAGS_BLOCK_END) 0,
     entry (OPD_PrimaryGroup TYPE_GROUP_5 (OpToIndex 0xFF) 6) 1 ''PUSH'' TYPE_INST ((GenFlagsSameSize SIZE_64BITDEF) OR FLAGS_DEBUG_MEM_ACCESS OR FLAGS_MODRM) 0,
     entry (OPD_PrimaryGroup TYPE_GROUP_5 (OpToIndex 0xFF) 7) 1 '''' TYPE_INVALID FLAGS_NONE 0,
     entry (OPD_PrimaryGroup TYPE_GROUP_11 (OpToIndex 0xC6) 0) 1 ''MOV'' TYPE_INST ((GenFlagsSameSize SIZE_8BIT) OR FLAGS_MODRM OR FLAGS_SF_MOD_DST OR FLAGS_SRC_SEXT) 1,
     entry (OPD_PrimaryGroup TYPE_GROUP_11 (OpToIndex 0xC6) 1) 5 '''' TYPE_INVALID FLAGS_NONE 0,
     entry (OPD_PrimaryGroup TYPE_GROUP_11 (OpToIndex 0xC6) 7) 1 ''XABORT'' TYPE_INST FLAGS_MODRM 1,
     entry (OPD_PrimaryGroup TYPE_GROUP_11 (OpToIndex 0xC7) 0) 1 ''MOV'' TYPE_INST (FLAGS_MODRM OR FLAGS_SF_MOD_DST OR FLAGS_SRC_SEXT OR FLAGS_DISPLACE_SIZE_DIV_2) 4,
     entry (OPD_PrimaryGroup TYPE_GROUP_11 (OpToIndex 0xC7) 1) 5 '''' TYPE_INVALID FLAGS_NONE 0,
     entry (OPD_PrimaryGroup TYPE_GROUP_11 (OpToIndex 0xC7) 7) 1 ''XBEGIN'' TYPE_INST (FLAGS_MODRM OR FLAGS_SRC_SEXT OR FLAGS_SETS_RIP OR FLAGS_DISPLACE_SIZE_DIV_2) 4]"

definition OpDispatch_PrimaryGroupTables :: "DispatchTableEntry list" where
  "OpDispatch_PrimaryGroupTables =
    [dispatch (OPD_PrimaryGroup TYPE_GROUP_1 (OpToIndex 0x80) 0) 1 (Handler ''SecondaryALUOp''),
     dispatch (OPD_PrimaryGroup TYPE_GROUP_1 (OpToIndex 0x80) 1) 1 (Handler ''SecondaryALUOp''),
     dispatch (OPD_PrimaryGroup TYPE_GROUP_1 (OpToIndex 0x80) 2) 1 (Bind ''ADCOp'' [''1'']),
     dispatch (OPD_PrimaryGroup TYPE_GROUP_1 (OpToIndex 0x80) 3) 1 (Bind ''SBBOp'' [''1'']),
     dispatch (OPD_PrimaryGroup TYPE_GROUP_1 (OpToIndex 0x80) 4) 1 (Handler ''SecondaryALUOp''),
     dispatch (OPD_PrimaryGroup TYPE_GROUP_1 (OpToIndex 0x80) 5) 1 (Handler ''SecondaryALUOp''),
     dispatch (OPD_PrimaryGroup TYPE_GROUP_1 (OpToIndex 0x80) 6) 1 (Handler ''SecondaryALUOp''),
     dispatch (OPD_PrimaryGroup TYPE_GROUP_1 (OpToIndex 0x80) 7) 1 (Bind ''CMPOp'' [''1'']),
     dispatch (OPD_PrimaryGroup TYPE_GROUP_1 (OpToIndex 0x81) 0) 1 (Handler ''SecondaryALUOp''),
     dispatch (OPD_PrimaryGroup TYPE_GROUP_1 (OpToIndex 0x81) 1) 1 (Handler ''SecondaryALUOp''),
     dispatch (OPD_PrimaryGroup TYPE_GROUP_1 (OpToIndex 0x81) 2) 1 (Bind ''ADCOp'' [''1'']),
     dispatch (OPD_PrimaryGroup TYPE_GROUP_1 (OpToIndex 0x81) 3) 1 (Bind ''SBBOp'' [''1'']),
     dispatch (OPD_PrimaryGroup TYPE_GROUP_1 (OpToIndex 0x81) 4) 1 (Handler ''SecondaryALUOp''),
     dispatch (OPD_PrimaryGroup TYPE_GROUP_1 (OpToIndex 0x81) 5) 1 (Handler ''SecondaryALUOp''),
     dispatch (OPD_PrimaryGroup TYPE_GROUP_1 (OpToIndex 0x81) 6) 1 (Handler ''SecondaryALUOp''),
     dispatch (OPD_PrimaryGroup TYPE_GROUP_1 (OpToIndex 0x81) 7) 1 (Bind ''CMPOp'' [''1'']),
     dispatch (OPD_PrimaryGroup TYPE_GROUP_1 (OpToIndex 0x83) 0) 1 (Handler ''SecondaryALUOp''),
     dispatch (OPD_PrimaryGroup TYPE_GROUP_1 (OpToIndex 0x83) 1) 1 (Handler ''SecondaryALUOp''),
     dispatch (OPD_PrimaryGroup TYPE_GROUP_1 (OpToIndex 0x83) 2) 1 (Bind ''ADCOp'' [''1'']),
     dispatch (OPD_PrimaryGroup TYPE_GROUP_1 (OpToIndex 0x83) 3) 1 (Bind ''SBBOp'' [''1'']),
     dispatch (OPD_PrimaryGroup TYPE_GROUP_1 (OpToIndex 0x83) 4) 1 (Handler ''SecondaryALUOp''),
     dispatch (OPD_PrimaryGroup TYPE_GROUP_1 (OpToIndex 0x83) 5) 1 (Handler ''SecondaryALUOp''),
     dispatch (OPD_PrimaryGroup TYPE_GROUP_1 (OpToIndex 0x83) 6) 1 (Handler ''SecondaryALUOp''),
     dispatch (OPD_PrimaryGroup TYPE_GROUP_1 (OpToIndex 0x83) 7) 1 (Bind ''CMPOp'' [''1'']),
     dispatch (OPD_PrimaryGroup TYPE_GROUP_2 (OpToIndex 0xC0) 0) 1 (Bind ''RotateOp'' [''true'', ''true'', ''false'']),
     dispatch (OPD_PrimaryGroup TYPE_GROUP_2 (OpToIndex 0xC0) 1) 1 (Bind ''RotateOp'' [''false'', ''true'', ''false'']),
     dispatch (OPD_PrimaryGroup TYPE_GROUP_2 (OpToIndex 0xC0) 2) 1 (Handler ''RCLOp''),
     dispatch (OPD_PrimaryGroup TYPE_GROUP_2 (OpToIndex 0xC0) 3) 1 (Handler ''RCROp''),
     dispatch (OPD_PrimaryGroup TYPE_GROUP_2 (OpToIndex 0xC0) 4) 1 (Bind ''SHLImmediateOp'' [''false'']),
     dispatch (OPD_PrimaryGroup TYPE_GROUP_2 (OpToIndex 0xC0) 5) 1 (Bind ''SHRImmediateOp'' [''false'']),
     dispatch (OPD_PrimaryGroup TYPE_GROUP_2 (OpToIndex 0xC0) 6) 1 (Bind ''SHLImmediateOp'' [''false'']),
     dispatch (OPD_PrimaryGroup TYPE_GROUP_2 (OpToIndex 0xC0) 7) 1 (Bind ''ASHROp'' [''true'', ''false'']),
     dispatch (OPD_PrimaryGroup TYPE_GROUP_2 (OpToIndex 0xC1) 0) 1 (Bind ''RotateOp'' [''true'', ''true'', ''false'']),
     dispatch (OPD_PrimaryGroup TYPE_GROUP_2 (OpToIndex 0xC1) 1) 1 (Bind ''RotateOp'' [''false'', ''true'', ''false'']),
     dispatch (OPD_PrimaryGroup TYPE_GROUP_2 (OpToIndex 0xC1) 2) 1 (Handler ''RCLOp''),
     dispatch (OPD_PrimaryGroup TYPE_GROUP_2 (OpToIndex 0xC1) 3) 1 (Handler ''RCROp''),
     dispatch (OPD_PrimaryGroup TYPE_GROUP_2 (OpToIndex 0xC1) 4) 1 (Bind ''SHLImmediateOp'' [''false'']),
     dispatch (OPD_PrimaryGroup TYPE_GROUP_2 (OpToIndex 0xC1) 5) 1 (Bind ''SHRImmediateOp'' [''false'']),
     dispatch (OPD_PrimaryGroup TYPE_GROUP_2 (OpToIndex 0xC1) 6) 1 (Bind ''SHLImmediateOp'' [''false'']),
     dispatch (OPD_PrimaryGroup TYPE_GROUP_2 (OpToIndex 0xC1) 7) 1 (Bind ''ASHROp'' [''true'', ''false'']),
     dispatch (OPD_PrimaryGroup TYPE_GROUP_2 (OpToIndex 0xD0) 0) 1 (Bind ''RotateOp'' [''true'', ''true'', ''true'']),
     dispatch (OPD_PrimaryGroup TYPE_GROUP_2 (OpToIndex 0xD0) 1) 1 (Bind ''RotateOp'' [''false'', ''true'', ''true'']),
     dispatch (OPD_PrimaryGroup TYPE_GROUP_2 (OpToIndex 0xD0) 2) 1 (Handler ''RCLOp1Bit''),
     dispatch (OPD_PrimaryGroup TYPE_GROUP_2 (OpToIndex 0xD0) 3) 1 (Handler ''RCROp8x1Bit''),
     dispatch (OPD_PrimaryGroup TYPE_GROUP_2 (OpToIndex 0xD0) 4) 1 (Bind ''SHLImmediateOp'' [''true'']),
     dispatch (OPD_PrimaryGroup TYPE_GROUP_2 (OpToIndex 0xD0) 5) 1 (Bind ''SHRImmediateOp'' [''true'']),
     dispatch (OPD_PrimaryGroup TYPE_GROUP_2 (OpToIndex 0xD0) 6) 1 (Bind ''SHLImmediateOp'' [''true'']),
     dispatch (OPD_PrimaryGroup TYPE_GROUP_2 (OpToIndex 0xD0) 7) 1 (Bind ''ASHROp'' [''true'', ''true'']),
     dispatch (OPD_PrimaryGroup TYPE_GROUP_2 (OpToIndex 0xD1) 0) 1 (Bind ''RotateOp'' [''true'', ''true'', ''true'']),
     dispatch (OPD_PrimaryGroup TYPE_GROUP_2 (OpToIndex 0xD1) 1) 1 (Bind ''RotateOp'' [''false'', ''true'', ''true'']),
     dispatch (OPD_PrimaryGroup TYPE_GROUP_2 (OpToIndex 0xD1) 2) 1 (Handler ''RCLOp1Bit''),
     dispatch (OPD_PrimaryGroup TYPE_GROUP_2 (OpToIndex 0xD1) 3) 1 (Handler ''RCROp1Bit''),
     dispatch (OPD_PrimaryGroup TYPE_GROUP_2 (OpToIndex 0xD1) 4) 1 (Bind ''SHLImmediateOp'' [''true'']),
     dispatch (OPD_PrimaryGroup TYPE_GROUP_2 (OpToIndex 0xD1) 5) 1 (Bind ''SHRImmediateOp'' [''true'']),
     dispatch (OPD_PrimaryGroup TYPE_GROUP_2 (OpToIndex 0xD1) 6) 1 (Bind ''SHLImmediateOp'' [''true'']),
     dispatch (OPD_PrimaryGroup TYPE_GROUP_2 (OpToIndex 0xD1) 7) 1 (Bind ''ASHROp'' [''true'', ''true'']),
     dispatch (OPD_PrimaryGroup TYPE_GROUP_2 (OpToIndex 0xD2) 0) 1 (Bind ''RotateOp'' [''true'', ''false'', ''false'']),
     dispatch (OPD_PrimaryGroup TYPE_GROUP_2 (OpToIndex 0xD2) 1) 1 (Bind ''RotateOp'' [''false'', ''false'', ''false'']),
     dispatch (OPD_PrimaryGroup TYPE_GROUP_2 (OpToIndex 0xD2) 2) 1 (Handler ''RCLSmallerOp''),
     dispatch (OPD_PrimaryGroup TYPE_GROUP_2 (OpToIndex 0xD2) 3) 1 (Handler ''RCRSmallerOp''),
     dispatch (OPD_PrimaryGroup TYPE_GROUP_2 (OpToIndex 0xD2) 4) 1 (Handler ''SHLOp''),
     dispatch (OPD_PrimaryGroup TYPE_GROUP_2 (OpToIndex 0xD2) 5) 1 (Handler ''SHROp''),
     dispatch (OPD_PrimaryGroup TYPE_GROUP_2 (OpToIndex 0xD2) 6) 1 (Handler ''SHLOp''),
     dispatch (OPD_PrimaryGroup TYPE_GROUP_2 (OpToIndex 0xD2) 7) 1 (Bind ''ASHROp'' [''false'', ''false'']),
     dispatch (OPD_PrimaryGroup TYPE_GROUP_2 (OpToIndex 0xD3) 0) 1 (Bind ''RotateOp'' [''true'', ''false'', ''false'']),
     dispatch (OPD_PrimaryGroup TYPE_GROUP_2 (OpToIndex 0xD3) 1) 1 (Bind ''RotateOp'' [''false'', ''false'', ''false'']),
     dispatch (OPD_PrimaryGroup TYPE_GROUP_2 (OpToIndex 0xD3) 2) 1 (Handler ''RCLOp''),
     dispatch (OPD_PrimaryGroup TYPE_GROUP_2 (OpToIndex 0xD3) 3) 1 (Handler ''RCROp''),
     dispatch (OPD_PrimaryGroup TYPE_GROUP_2 (OpToIndex 0xD3) 4) 1 (Handler ''SHLOp''),
     dispatch (OPD_PrimaryGroup TYPE_GROUP_2 (OpToIndex 0xD3) 5) 1 (Handler ''SHROp''),
     dispatch (OPD_PrimaryGroup TYPE_GROUP_2 (OpToIndex 0xD3) 6) 1 (Handler ''SHLOp''),
     dispatch (OPD_PrimaryGroup TYPE_GROUP_2 (OpToIndex 0xD3) 7) 1 (Bind ''ASHROp'' [''false'', ''false'']),
     dispatch (OPD_PrimaryGroup TYPE_GROUP_3 (OpToIndex 0xF6) 0) 1 (Bind ''TESTOp'' [''1'']),
     dispatch (OPD_PrimaryGroup TYPE_GROUP_3 (OpToIndex 0xF6) 1) 1 (Bind ''TESTOp'' [''1'']),
     dispatch (OPD_PrimaryGroup TYPE_GROUP_3 (OpToIndex 0xF6) 2) 1 (Handler ''NOTOp''),
     dispatch (OPD_PrimaryGroup TYPE_GROUP_3 (OpToIndex 0xF6) 3) 1 (Handler ''NEGOp''),
     dispatch (OPD_PrimaryGroup TYPE_GROUP_3 (OpToIndex 0xF6) 4) 1 (Handler ''MULOp''),
     dispatch (OPD_PrimaryGroup TYPE_GROUP_3 (OpToIndex 0xF6) 5) 1 (Handler ''IMULOp''),
     dispatch (OPD_PrimaryGroup TYPE_GROUP_3 (OpToIndex 0xF6) 6) 1 (Handler ''DIVOp''),
     dispatch (OPD_PrimaryGroup TYPE_GROUP_3 (OpToIndex 0xF6) 7) 1 (Handler ''IDIVOp''),
     dispatch (OPD_PrimaryGroup TYPE_GROUP_3 (OpToIndex 0xF7) 0) 1 (Bind ''TESTOp'' [''1'']),
     dispatch (OPD_PrimaryGroup TYPE_GROUP_3 (OpToIndex 0xF7) 1) 1 (Bind ''TESTOp'' [''1'']),
     dispatch (OPD_PrimaryGroup TYPE_GROUP_3 (OpToIndex 0xF7) 2) 1 (Handler ''NOTOp''),
     dispatch (OPD_PrimaryGroup TYPE_GROUP_3 (OpToIndex 0xF7) 3) 1 (Handler ''NEGOp''),
     dispatch (OPD_PrimaryGroup TYPE_GROUP_3 (OpToIndex 0xF7) 4) 1 (Handler ''MULOp''),
     dispatch (OPD_PrimaryGroup TYPE_GROUP_3 (OpToIndex 0xF7) 5) 1 (Handler ''IMULOp''),
     dispatch (OPD_PrimaryGroup TYPE_GROUP_3 (OpToIndex 0xF7) 6) 1 (Handler ''DIVOp''),
     dispatch (OPD_PrimaryGroup TYPE_GROUP_3 (OpToIndex 0xF7) 7) 1 (Handler ''IDIVOp''),
     dispatch (OPD_PrimaryGroup TYPE_GROUP_4 (OpToIndex 0xFE) 0) 1 (Handler ''INCOp''),
     dispatch (OPD_PrimaryGroup TYPE_GROUP_4 (OpToIndex 0xFE) 1) 1 (Handler ''DECOp''),
     dispatch (OPD_PrimaryGroup TYPE_GROUP_5 (OpToIndex 0xFF) 0) 1 (Handler ''INCOp''),
     dispatch (OPD_PrimaryGroup TYPE_GROUP_5 (OpToIndex 0xFF) 1) 1 (Handler ''DECOp''),
     dispatch (OPD_PrimaryGroup TYPE_GROUP_5 (OpToIndex 0xFF) 2) 1 (Handler ''CALLAbsoluteOp''),
     dispatch (OPD_PrimaryGroup TYPE_GROUP_5 (OpToIndex 0xFF) 3) 1 (Handler ''CALLFARIndirectOp''),
     dispatch (OPD_PrimaryGroup TYPE_GROUP_5 (OpToIndex 0xFF) 4) 1 (Handler ''JUMPAbsoluteOp''),
     dispatch (OPD_PrimaryGroup TYPE_GROUP_5 (OpToIndex 0xFF) 5) 1 (Handler ''JUMPFARIndirectOp''),
     dispatch (OPD_PrimaryGroup TYPE_GROUP_5 (OpToIndex 0xFF) 6) 1 (Handler ''PUSHOp''),
     dispatch (OPD_PrimaryGroup TYPE_GROUP_11 (OpToIndex 0xC6) 0) 1 (Bind ''MOVGPROp'' [''1'']),
     dispatch (OPD_PrimaryGroup TYPE_GROUP_11 (OpToIndex 0xC7) 0) 1 (Bind ''MOVGPROp'' [''1''])]"

definition PrimaryInstGroupOps_build :: "table option" where
  "PrimaryInstGroupOps_build =
     do { Table \<leftarrow> GenerateTable PrimaryGroupOpTable (replicate 512 zero_info);
          InstallToTable OpDispatch_PrimaryGroupTables Table }"

section \<open>The tables are well-formed\<close>

lemma BaseOps_ok: "table_ok BaseOpTable OpDispatch_BaseOpTable 256"
  unfolding table_ok_def disjoint_ranges_def table_appends BaseOpTable_def BaseOpTable_1_def BaseOpTable_2_def OpDispatch_BaseOpTable_def
  by (simp add: Let_def table_evals  cong: table_weaks)

lemma PrimaryInstGroupOps_ok: "table_ok PrimaryGroupOpTable OpDispatch_PrimaryGroupTables 512"
  unfolding table_ok_def disjoint_ranges_def table_appends PrimaryGroupOpTable_def OpDispatch_PrimaryGroupTables_def
  by (simp add: Let_def table_evals OPD_PrimaryGroup_def OpToIndex_def cong: table_weaks)

section \<open>Every instruction has a handler\<close>

text \<open>Up to the listed ranges of indices.\<close>

lemma BaseOps_handled: "handled BaseOpTable OpDispatch_BaseOpTable []"
  unfolding handled_def covers_def handler_appends BaseOpTable_def BaseOpTable_1_def BaseOpTable_2_def OpDispatch_BaseOpTable_def
  by (simp add: Let_def table_evals
    Primary_LUT_06_def Primary_LUT_07_def Primary_LUT_0E_def Primary_LUT_16_def Primary_LUT_17_def
    Primary_LUT_1E_def Primary_LUT_1F_def Primary_LUT_27_def Primary_LUT_2F_def Primary_LUT_37_def
    Primary_LUT_3F_def Primary_LUT_40_def Primary_LUT_48_def Primary_LUT_60_def Primary_LUT_61_def
    Primary_LUT_63_def Primary_LUT_9A_def Primary_LUT_A0_def Primary_LUT_A1_def Primary_LUT_A2_def
    Primary_LUT_A3_def Primary_LUT_CE_def Primary_LUT_D4_def Primary_LUT_D5_def Primary_LUT_D6_def
    Primary_LUT_EA_def cong: handler_weaks)

lemma PrimaryInstGroupOps_handled: "handled PrimaryGroupOpTable OpDispatch_PrimaryGroupTables [(0x187, 1), (0x18F, 1)]"
  unfolding handled_def covers_def handler_appends PrimaryGroupOpTable_def OpDispatch_PrimaryGroupTables_def
  by (simp add: Let_def table_evals OPD_PrimaryGroup_def OpToIndex_def
    PrimaryGroup_LUT_1_82_0_def PrimaryGroup_LUT_1_82_1_def PrimaryGroup_LUT_1_82_2_def
    PrimaryGroup_LUT_1_82_3_def PrimaryGroup_LUT_1_82_4_def PrimaryGroup_LUT_1_82_5_def
    PrimaryGroup_LUT_1_82_6_def PrimaryGroup_LUT_1_82_7_def cong: handler_weaks)

lemma PrimaryInstGroupOps_lacking: "lacking PrimaryGroupOpTable OpDispatch_PrimaryGroupTables 512 [(0x187, 1), (0x18F, 1)]"
  unfolding lacking_def covers_def disjoint_ranges_def handler_appends PrimaryGroupOpTable_def OpDispatch_PrimaryGroupTables_def
  by (simp add: Let_def table_evals OPD_PrimaryGroup_def OpToIndex_def
    PrimaryGroup_LUT_1_82_0_def PrimaryGroup_LUT_1_82_1_def PrimaryGroup_LUT_1_82_2_def
    PrimaryGroup_LUT_1_82_3_def PrimaryGroup_LUT_1_82_4_def PrimaryGroup_LUT_1_82_5_def
    PrimaryGroup_LUT_1_82_6_def PrimaryGroup_LUT_1_82_7_def cong: handler_weaks)

end
