(* ===== verification/SecondaryTables.thy ===== *)
theory SecondaryTables
  imports TableBuild
begin

text \<open>
  The two-byte opcode table and its three variants for the prefixes \<open>F3\<close>, \<open>F2\<close> and \<open>66\<close>
  (\<open>X86Tables/SecondaryTables.cpp\<close>, \<open>OpcodeDispatcher/SecondaryTables.h\<close>), entry by entry,
  as compiled outside Windows.
\<close>

section \<open>The two-byte table\<close>

definition Secondary_LUT_05 :: "X86InstInfo \<times> X86InstInfo" where
  "Secondary_LUT_05 =
    (X86InstInfo ''SYSCALL'' TYPE_INST DEFAULT_SYSCALL_FLAGS 0 (OpDispatch (Some (Handler ''NOPOp''))),
     X86InstInfo ''SYSCALL'' TYPE_INST DEFAULT_SYSCALL_FLAGS 0 (OpDispatch (Some (Bind ''SyscallOp'' [''true'']))))"

definition Secondary_LUT_A0 :: "X86InstInfo \<times> X86InstInfo" where
  "Secondary_LUT_A0 =
    (X86InstInfo ''PUSH FS'' TYPE_INST ((GenFlagsSrcSize SIZE_16BIT) OR FLAGS_DEBUG_MEM_ACCESS OR FLAGS_NO_OVERLAY) 0 (OpDispatch (Some (Bind ''PUSHSegmentOp'' [''FLAG_FS_PREFIX'']))),
     X86InstInfo ''PUSH FS'' TYPE_INST ((GenFlagsSameSize SIZE_64BITDEF) OR FLAGS_DEBUG_MEM_ACCESS OR FLAGS_NO_OVERLAY) 0 (OpDispatch (Some (Bind ''PUSHSegmentOp'' [''FLAG_FS_PREFIX'']))))"

definition Secondary_LUT_A1 :: "X86InstInfo \<times> X86InstInfo" where
  "Secondary_LUT_A1 =
    (X86InstInfo ''POP FS'' TYPE_INST ((GenFlagsSizes SIZE_16BIT SIZE_DEF) OR FLAGS_DEBUG_MEM_ACCESS OR FLAGS_NO_OVERLAY) 0 (OpDispatch (Some (Bind ''POPSegmentOp'' [''FLAG_FS_PREFIX'']))),
     X86InstInfo ''POP FS'' TYPE_INST ((GenFlagsSizes SIZE_16BIT SIZE_64BITDEF) OR FLAGS_DEBUG_MEM_ACCESS OR FLAGS_NO_OVERLAY) 0 (OpDispatch (Some (Bind ''POPSegmentOp'' [''FLAG_FS_PREFIX'']))))"

definition Secondary_LUT_A8 :: "X86InstInfo \<times> X86InstInfo" where
  "Secondary_LUT_A8 =
    (X86InstInfo ''PUSH GS'' TYPE_INST ((GenFlagsSrcSize SIZE_16BIT) OR FLAGS_DEBUG_MEM_ACCESS OR FLAGS_NO_OVERLAY) 0 (OpDispatch (Some (Bind ''PUSHSegmentOp'' [''FLAG_GS_PREFIX'']))),
     X86InstInfo ''PUSH GS'' TYPE_INST ((GenFlagsSameSize SIZE_64BITDEF) OR FLAGS_DEBUG_MEM_ACCESS OR FLAGS_NO_OVERLAY) 0 (OpDispatch (Some (Bind ''PUSHSegmentOp'' [''FLAG_GS_PREFIX'']))))"

definition Secondary_LUT_A9 :: "X86InstInfo \<times> X86InstInfo" where
  "Secondary_LUT_A9 =
    (X86InstInfo ''POP GS'' TYPE_INST ((GenFlagsSizes SIZE_16BIT SIZE_DEF) OR FLAGS_DEBUG_MEM_ACCESS OR FLAGS_NO_OVERLAY) 0 (OpDispatch (Some (Bind ''POPSegmentOp'' [''FLAG_GS_PREFIX'']))),
     X86InstInfo ''POP GS'' TYPE_INST ((GenFlagsSizes SIZE_16BIT SIZE_64BITDEF) OR FLAGS_DEBUG_MEM_ACCESS OR FLAGS_NO_OVERLAY) 0 (OpDispatch (Some (Bind ''POPSegmentOp'' [''FLAG_GS_PREFIX'']))))"

definition TwoByteOpTable_1 :: "X86TablesInfoStruct list" where
  "TwoByteOpTable_1 =
    [entry 0x00 1 '''' TYPE_GROUP_6 (FLAGS_MODRM OR FLAGS_NO_OVERLAY) 0,
     entry 0x01 1 '''' TYPE_GROUP_7 FLAGS_NO_OVERLAY 0,
     entry 0x02 1 ''LAR'' TYPE_UNDEC FLAGS_NO_OVERLAY 0,
     entry 0x03 1 ''LSL'' TYPE_INST ((GenFlagsSrcSize SIZE_16BIT) OR FLAGS_MODRM OR FLAGS_NO_OVERLAY) 0,
     entry 0x04 1 '''' TYPE_INVALID FLAGS_NO_OVERLAY 0,
     arch_entry 0x05 1 '''' FLAGS_NONE 0 Secondary_LUT_05,
     entry 0x06 1 ''CLTS'' TYPE_INST FLAGS_NO_OVERLAY 0,
     entry 0x07 1 ''SYSRET'' TYPE_INST FLAGS_NO_OVERLAY 0,
     entry 0x08 1 ''INVD'' TYPE_INST FLAGS_NO_OVERLAY 0,
     entry 0x09 1 ''WBINVD'' TYPE_INST FLAGS_NO_OVERLAY 0,
     entry 0x0A 1 '''' TYPE_INVALID FLAGS_NO_OVERLAY 0,
     entry 0x0B 1 ''UD2'' TYPE_INST (FLAGS_BLOCK_END OR FLAGS_NO_OVERLAY) 0,
     entry 0x0C 1 '''' TYPE_INVALID FLAGS_NO_OVERLAY 0,
     entry 0x0D 1 '''' TYPE_GROUP_P (FLAGS_MODRM OR FLAGS_NO_OVERLAY) 0,
     entry 0x0E 1 ''FEMMS'' TYPE_INST FLAGS_NO_OVERLAY 0,
     entry 0x0F 1 '''' TYPE_3DNOW_TABLE FLAGS_NO_OVERLAY 0,
     entry 0x10 1 ''MOVUPS'' TYPE_INST ((GenFlagsSameSize SIZE_128BIT) OR FLAGS_MODRM OR FLAGS_XMM_FLAGS) 0,
     entry 0x11 1 ''MOVUPS'' TYPE_INST ((GenFlagsSameSize SIZE_128BIT) OR FLAGS_MODRM OR FLAGS_SF_MOD_DST OR FLAGS_XMM_FLAGS) 0,
     entry 0x12 1 ''MOVLPS'' TYPE_INST ((GenFlagsSameSize SIZE_128BIT) OR FLAGS_MODRM OR FLAGS_XMM_FLAGS) 0,
     entry 0x13 1 ''MOVLPS'' TYPE_INST ((GenFlagsSameSize SIZE_128BIT) OR FLAGS_MODRM OR FLAGS_SF_MOD_MEM_ONLY OR FLAGS_SF_MOD_DST OR FLAGS_XMM_FLAGS) 0,
     entry 0x14 1 ''UNPCKLPS'' TYPE_INST ((GenFlagsSameSize SIZE_128BIT) OR FLAGS_MODRM OR FLAGS_XMM_FLAGS) 0,
     entry 0x15 1 ''UNPCKHPS'' TYPE_INST ((GenFlagsSameSize SIZE_128BIT) OR FLAGS_MODRM OR FLAGS_XMM_FLAGS) 0,
     entry 0x16 1 ''MOVLHPS'' TYPE_INST ((GenFlagsSameSize SIZE_128BIT) OR FLAGS_MODRM OR FLAGS_XMM_FLAGS) 0,
     entry 0x17 1 ''MOVHPS'' TYPE_INST ((GenFlagsSizes SIZE_64BIT SIZE_128BIT) OR FLAGS_MODRM OR FLAGS_SF_MOD_DST OR FLAGS_XMM_FLAGS) 0,
     entry 0x18 1 '''' TYPE_GROUP_16 FLAGS_NO_OVERLAY 0,
     entry 0x19 7 ''NOP'' TYPE_INST (FLAGS_MODRM OR FLAGS_NO_OVERLAY) 0,
     entry 0x20 2 ''MOV'' TYPE_INST ((GenFlagsSameSize SIZE_64BIT) OR FLAGS_NO_OVERLAY) 0,
     entry 0x22 2 ''MOV'' TYPE_INST ((GenFlagsSameSize SIZE_64BIT) OR FLAGS_NO_OVERLAY) 0,
     entry 0x24 4 '''' TYPE_INVALID FLAGS_NONE 0,
     entry 0x28 1 ''MOVAPS'' TYPE_INST ((GenFlagsSameSize SIZE_128BIT) OR FLAGS_MODRM OR FLAGS_XMM_FLAGS) 0,
     entry 0x29 1 ''MOVAPS'' TYPE_INST ((GenFlagsSameSize SIZE_128BIT) OR FLAGS_MODRM OR FLAGS_SF_MOD_DST OR FLAGS_XMM_FLAGS) 0,
     entry 0x2A 1 ''CVTPI2PS'' TYPE_INST ((GenFlagsSizes SIZE_128BIT SIZE_64BIT) OR FLAGS_MODRM OR FLAGS_XMM_FLAGS OR FLAGS_SF_MMX_SRC) 0,
     entry 0x2B 1 ''MOVNTPS'' TYPE_INST ((GenFlagsSameSize SIZE_128BIT) OR FLAGS_MODRM OR FLAGS_SF_MOD_MEM_ONLY OR FLAGS_SF_MOD_DST OR FLAGS_XMM_FLAGS) 0,
     entry 0x2C 1 ''CVTTPS2PI'' TYPE_INST ((GenFlagsSameSize SIZE_64BIT) OR FLAGS_MODRM OR FLAGS_XMM_FLAGS OR FLAGS_SF_MMX_DST) 0,
     entry 0x2D 1 ''CVTPS2PI'' TYPE_INST ((GenFlagsSameSize SIZE_64BIT) OR FLAGS_MODRM OR FLAGS_XMM_FLAGS OR FLAGS_SF_MMX_DST) 0,
     entry 0x2E 1 ''UCOMISS'' TYPE_INST ((GenFlagsSizes SIZE_128BIT SIZE_32BIT) OR FLAGS_MODRM OR FLAGS_XMM_FLAGS) 0,
     entry 0x2F 1 ''COMISS'' TYPE_INST ((GenFlagsSizes SIZE_128BIT SIZE_32BIT) OR FLAGS_MODRM OR FLAGS_XMM_FLAGS) 0,
     entry 0x30 1 ''WRMSR'' TYPE_INST FLAGS_NO_OVERLAY 0,
     entry 0x31 1 ''RDTSC'' TYPE_INST FLAGS_NO_OVERLAY 0,
     entry 0x32 1 ''RDMSR'' TYPE_INST FLAGS_NO_OVERLAY 0,
     entry 0x33 1 ''RDPMC'' TYPE_INST FLAGS_NO_OVERLAY 0,
     entry 0x34 1 ''SYSENTER'' TYPE_INST FLAGS_NO_OVERLAY 0,
     entry 0x35 1 ''SYSEXIT'' TYPE_INST FLAGS_NO_OVERLAY 0,
     entry 0x36 1 '''' TYPE_INVALID FLAGS_NO_OVERLAY 0,
     entry 0x37 1 ''GETSEC'' TYPE_INVALID FLAGS_NO_OVERLAY 0,
     entry 0x38 1 '''' TYPE_0F38_TABLE FLAGS_NO_OVERLAY 0,
     entry 0x39 1 '''' TYPE_INVALID FLAGS_NO_OVERLAY 0,
     entry 0x3A 1 '''' TYPE_0F3A_TABLE FLAGS_NO_OVERLAY 0,
     entry 0x3B 3 '''' TYPE_INVALID FLAGS_NO_OVERLAY 0,
     entry 0x40 1 ''CMOVO'' TYPE_INST (FLAGS_MODRM OR FLAGS_NO_OVERLAY) 0,
     entry 0x41 1 ''CMOVNO'' TYPE_INST (FLAGS_MODRM OR FLAGS_NO_OVERLAY) 0,
     entry 0x42 1 ''CMOVB'' TYPE_INST (FLAGS_MODRM OR FLAGS_NO_OVERLAY) 0,
     entry 0x43 1 ''CMOVNB'' TYPE_INST (FLAGS_MODRM OR FLAGS_NO_OVERLAY) 0,
     entry 0x44 1 ''CMOVZ'' TYPE_INST (FLAGS_MODRM OR FLAGS_NO_OVERLAY) 0,
     entry 0x45 1 ''CMOVNZ'' TYPE_INST (FLAGS_MODRM OR FLAGS_NO_OVERLAY) 0,
     entry 0x46 1 ''CMOVBE'' TYPE_INST (FLAGS_MODRM OR FLAGS_NO_OVERLAY) 0,
     entry 0x47 1 ''CMOVNBE'' TYPE_INST (FLAGS_MODRM OR FLAGS_NO_OVERLAY) 0,
     entry 0x48 1 ''CMOVS'' TYPE_INST (FLAGS_MODRM OR FLAGS_NO_OVERLAY) 0,
     entry 0x49 1 ''CMOVNS'' TYPE_INST (FLAGS_MODRM OR FLAGS_NO_OVERLAY) 0,
     entry 0x4A 1 ''CMOVP'' TYPE_INST (FLAGS_MODRM OR FLAGS_NO_OVERLAY) 0,
     entry 0x4B 1 ''CMOVNP'' TYPE_INST (FLAGS_MODRM OR FLAGS_NO_OVERLAY) 0,
     entry 0x4C 1 ''CMOVL'' TYPE_INST (FLAGS_MODRM OR FLAGS_NO_OVERLAY) 0,
     entry 0x4D 1 ''CMOVNL'' TYPE_INST (FLAGS_MODRM OR FLAGS_NO_OVERLAY) 0,
     entry 0x4E 1 ''CMOVLE'' TYPE_INST (FLAGS_MODRM OR FLAGS_NO_OVERLAY) 0,
     entry 0x4F 1 ''CMOVNLE'' TYPE_INST (FLAGS_MODRM OR FLAGS_NO_OVERLAY) 0,
     entry 0x50 1 ''MOVMSKPS'' TYPE_INST ((GenFlagsSizes SIZE_32BIT SIZE_128BIT) OR FLAGS_MODRM OR FLAGS_SF_MOD_REG_ONLY OR FLAGS_XMM_FLAGS OR FLAGS_SF_DST_GPR) 0,
     entry 0x51 1 ''SQRTPS'' TYPE_INST ((GenFlagsSameSize SIZE_128BIT) OR FLAGS_MODRM OR FLAGS_XMM_FLAGS) 0,
     entry 0x52 1 ''RSQRTPS'' TYPE_INST ((GenFlagsSameSize SIZE_128BIT) OR FLAGS_MODRM OR FLAGS_XMM_FLAGS) 0,
     entry 0x53 1 ''RCPPS'' TYPE_INST ((GenFlagsSameSize SIZE_128BIT) OR FLAGS_MODRM OR FLAGS_XMM_FLAGS) 0,
     entry 0x54 1 ''ANDPS'' TYPE_INST ((GenFlagsSameSize SIZE_128BIT) OR FLAGS_MODRM OR FLAGS_XMM_FLAGS) 0,
     entry 0x55 1 ''ANDNPS'' TYPE_INST ((GenFlagsSameSize SIZE_128BIT) OR FLAGS_MODRM OR FLAGS_XMM_FLAGS) 0,
     entry 0x56 1 ''ORPS'' TYPE_INST ((GenFlagsSameSize SIZE_128BIT) OR FLAGS_MODRM OR FLAGS_XMM_FLAGS) 0,
     entry 0x57 1 ''XORPS'' TYPE_INST ((GenFlagsSameSize SIZE_128BIT) OR FLAGS_MODRM OR FLAGS_XMM_FLAGS) 0,
     entry 0x58 1 ''ADDPS'' TYPE_INST ((GenFlagsSameSize SIZE_128BIT) OR FLAGS_MODRM OR FLAGS_XMM_FLAGS) 0,
     entry 0x59 1 ''MULPS'' TYPE_INST ((GenFlagsSameSize SIZE_128BIT) OR FLAGS_MODRM OR FLAGS_XMM_FLAGS) 0,
     entry 0x5A 1 ''CVTPS2PD'' TYPE_INST ((GenFlagsSameSize SIZE_128BIT) OR FLAGS_MODRM OR FLAGS_XMM_FLAGS) 0,
     entry 0x5B 1 ''CVTDQ2PS'' TYPE_INST ((GenFlagsSameSize SIZE_128BIT) OR FLAGS_MODRM OR FLAGS_XMM_FLAGS) 0,
     entry 0x5C 1 ''SUBPS'' TYPE_INST ((GenFlagsSameSize SIZE_128BIT) OR FLAGS_MODRM OR FLAGS_XMM_FLAGS) 0,
     entry 0x5D 1 ''MINPS'' TYPE_INST ((GenFlagsSameSize SIZE_128BIT) OR FLAGS_MODRM OR FLAGS_XMM_FLAGS) 0,
     entry 0x5E 1 ''DIVPS'' TYPE_INST ((GenFlagsSameSize SIZE_128BIT) OR FLAGS_MODRM OR FLAGS_XMM_FLAGS) 0,
     entry 0x5F 1 ''MAXPS'' TYPE_INST ((GenFlagsSameSize SIZE_128BIT) OR FLAGS_MODRM OR FLAGS_XMM_FLAGS) 0,
     entry 0x60 1 ''PUNPCKLBW'' TYPE_INST ((GenFlagsSameSize SIZE_64BIT) OR FLAGS_MODRM OR FLAGS_XMM_FLAGS OR FLAGS_SF_MMX) 0,
     entry 0x61 1 ''PUNPCKLWD'' TYPE_INST ((GenFlagsSameSize SIZE_64BIT) OR FLAGS_MODRM OR FLAGS_XMM_FLAGS OR FLAGS_SF_MMX) 0,
     entry 0x62 1 ''PUNPCKLDQ'' TYPE_INST ((GenFlagsSameSize SIZE_64BIT) OR FLAGS_MODRM OR FLAGS_XMM_FLAGS OR FLAGS_SF_MMX) 0,
     entry 0x63 1 ''PACKSSWB'' TYPE_INST ((GenFlagsSameSize SIZE_64BIT) OR FLAGS_MODRM OR FLAGS_XMM_FLAGS OR FLAGS_SF_MMX) 0,
     entry 0x64 1 ''PCMPGTB'' TYPE_INST ((GenFlagsSameSize SIZE_64BIT) OR FLAGS_MODRM OR FLAGS_XMM_FLAGS OR FLAGS_SF_MMX) 0,
     entry 0x65 1 ''PCMPGTW'' TYPE_INST ((GenFlagsSameSize SIZE_64BIT) OR FLAGS_MODRM OR FLAGS_XMM_FLAGS OR FLAGS_SF_MMX) 0,
     entry 0x66 1 ''PCMPGTD'' TYPE_INST ((GenFlagsSameSize SIZE_64BIT) OR FLAGS_MODRM OR FLAGS_XMM_FLAGS OR FLAGS_SF_MMX) 0,
     entry 0x67 1 ''PACKUSWB'' TYPE_INST ((GenFlagsSameSize SIZE_64BIT) OR FLAGS_MODRM OR FLAGS_XMM_FLAGS OR FLAGS_SF_MMX) 0,
     entry 0x68 1 ''PUNPCKHBW'' TYPE_INST ((GenFlagsSameSize SIZE_64BIT) OR FLAGS_MODRM OR FLAGS_XMM_FLAGS OR FLAGS_SF_MMX) 0,
     entry 0x69 1 ''PUNPCKHWD'' TYPE_INST ((GenFlagsSameSize SIZE_64BIT) OR FLAGS_MODRM OR FLAGS_XMM_FLAGS OR FLAGS_SF_MMX) 0,
     entry 0x6A 1 ''PUNPCKHDQ'' TYPE_INST ((GenFlagsSameSize SIZE_64BIT) OR FLAGS_MODRM OR FLAGS_XMM_FLAGS OR FLAGS_SF_MMX) 0,
     entry 0x6B 1 ''PACKSSDW'' TYPE_INST ((GenFlagsSameSize SIZE_64BIT) OR FLAGS_MODRM OR FLAGS_XMM_FLAGS OR FLAGS_SF_MMX) 0,
     entry 0x6C 2 '''' TYPE_INVALID FLAGS_NONE 0,
     entry 0x6E 1 ''MOVD'' TYPE_INST ((GenFlagsDstSize SIZE_64BIT) OR FLAGS_MODRM OR FLAGS_SF_SRC_GPR OR FLAGS_XMM_FLAGS OR FLAGS_SF_MMX) 0,
     entry 0x6F 1 ''MOVQ'' TYPE_INST ((GenFlagsSameSize SIZE_64BIT) OR FLAGS_MODRM OR FLAGS_XMM_FLAGS OR FLAGS_SF_MMX) 0,
     entry 0x70 1 ''PSHUFW'' TYPE_INST ((GenFlagsSameSize SIZE_64BIT) OR FLAGS_MODRM OR FLAGS_XMM_FLAGS OR FLAGS_SF_MMX) 1,
     entry 0x71 1 '''' TYPE_GROUP_12 FLAGS_NO_OVERLAY 0,
     entry 0x72 1 '''' TYPE_GROUP_13 FLAGS_NO_OVERLAY 0,
     entry 0x73 1 '''' TYPE_GROUP_14 FLAGS_NO_OVERLAY 0,
     entry 0x74 1 ''PCMPEQB'' TYPE_INST ((GenFlagsSameSize SIZE_64BIT) OR FLAGS_MODRM OR FLAGS_XMM_FLAGS OR FLAGS_SF_MMX) 0,
     entry 0x75 1 ''PCMPEQW'' TYPE_INST ((GenFlagsSameSize SIZE_64BIT) OR FLAGS_MODRM OR FLAGS_XMM_FLAGS OR FLAGS_SF_MMX) 0,
     entry 0x76 1 ''PCMPEQD'' TYPE_INST ((GenFlagsSameSize SIZE_64BIT) OR FLAGS_MODRM OR FLAGS_XMM_FLAGS OR FLAGS_SF_MMX) 0,
     entry 0x77 1 ''EMMS'' TYPE_INST FLAGS_NONE 0,
     entry 0x78 6 '''' TYPE_INVALID FLAGS_NONE 0,
     entry 0x7E 1 ''MOVD'' TYPE_INST ((GenFlagsSrcSize SIZE_64BIT) OR FLAGS_MODRM OR FLAGS_SF_MOD_DST OR FLAGS_SF_DST_GPR OR FLAGS_XMM_FLAGS OR FLAGS_SF_MMX) 0,
     entry 0x7F 1 ''MOVQ'' TYPE_INST ((GenFlagsSameSize SIZE_64BIT) OR FLAGS_MODRM OR FLAGS_SF_MOD_DST OR FLAGS_XMM_FLAGS OR FLAGS_SF_MMX) 0,
     entry 0x80 1 ''JO'' TYPE_INST ((GenFlagsSameSize SIZE_64BITDEF) OR FLAGS_SETS_RIP OR FLAGS_SRC_SEXT OR FLAGS_DISPLACE_SIZE_DIV_2 OR FLAGS_NO_OVERLAY) 4,
     entry 0x81 1 ''JNO'' TYPE_INST ((GenFlagsSameSize SIZE_64BITDEF) OR FLAGS_SETS_RIP OR FLAGS_SRC_SEXT OR FLAGS_DISPLACE_SIZE_DIV_2 OR FLAGS_NO_OVERLAY) 4,
     entry 0x82 1 ''JB'' TYPE_INST ((GenFlagsSameSize SIZE_64BITDEF) OR FLAGS_SETS_RIP OR FLAGS_SRC_SEXT OR FLAGS_DISPLACE_SIZE_DIV_2 OR FLAGS_NO_OVERLAY) 4,
     entry 0x83 1 ''JNB'' TYPE_INST ((GenFlagsSameSize SIZE_64BITDEF) OR FLAGS_SETS_RIP OR FLAGS_SRC_SEXT OR FLAGS_DISPLACE_SIZE_DIV_2 OR FLAGS_NO_OVERLAY) 4,
     entry 0x84 1 ''JZ'' TYPE_INST ((GenFlagsSameSize SIZE_64BITDEF) OR FLAGS_SETS_RIP OR FLAGS_SRC_SEXT OR FLAGS_DISPLACE_SIZE_DIV_2 OR FLAGS_NO_OVERLAY) 4,
     entry 0x85 1 ''JNZ'' TYPE_INST ((GenFlagsSameSize SIZE_64BITDEF) OR FLAGS_SETS_RIP OR FLAGS_SRC_SEXT OR FLAGS_DISPLACE_SIZE_DIV_2 OR FLAGS_NO_OVERLAY) 4,
     entry 0x86 1 ''JBE'' TYPE_INST ((GenFlagsSameSize SIZE_64BITDEF) OR FLAGS_SETS_RIP OR FLAGS_SRC_SEXT OR FLAGS_DISPLACE_SIZE_DIV_2 OR FLAGS_NO_OVERLAY) 4,
     entry 0x87 1 ''JNBE'' TYPE_INST ((GenFlagsSameSize SIZE_64BITDEF) OR FLAGS_SETS_RIP OR FLAGS_SRC_SEXT OR FLAGS_DISPLACE_SIZE_DIV_2 OR FLAGS_NO_OVERLAY) 4,
     entry 0x88 1 ''JS'' TYPE_INST ((GenFlagsSameSize SIZE_64BITDEF) OR FLAGS_SETS_RIP OR FLAGS_SRC_SEXT OR FLAGS_DISPLACE_SIZE_DIV_2 OR FLAGS_NO_OVERLAY) 4,
     entry 0x89 1 ''JNS'' TYPE_INST ((GenFlagsSameSize SIZE_64BITDEF) OR FLAGS_SETS_RIP OR FLAGS_SRC_SEXT OR FLAGS_DISPLACE_SIZE_DIV_2 OR FLAGS_NO_OVERLAY) 4,
     entry 0x8A 1 ''JP'' TYPE_INST ((GenFlagsSameSize SIZE_64BITDEF) OR FLAGS_SETS_RIP OR FLAGS_SRC_SEXT OR FLAGS_DISPLACE_SIZE_DIV_2 OR FLAGS_NO_OVERLAY) 4,
     entry 0x8B 1 ''JNP'' TYPE_INST ((GenFlagsSameSize SIZE_64BITDEF) OR FLAGS_SETS_RIP OR FLAGS_SRC_SEXT OR FLAGS_DISPLACE_SIZE_DIV_2 OR FLAGS_NO_OVERLAY) 4,
     entry 0x8C 1 ''JL'' TYPE_INST ((GenFlagsSameSize SIZE_64BITDEF) OR FLAGS_SETS_RIP OR FLAGS_SRC_SEXT OR FLAGS_DISPLACE_SIZE_DIV_2 OR FLAGS_NO_OVERLAY) 4,
     entry 0x8D 1 ''JNL'' TYPE_INST ((GenFlagsSameSize SIZE_64BITDEF) OR FLAGS_SETS_RIP OR FLAGS_SRC_SEXT OR FLAGS_DISPLACE_SIZE_DIV_2 OR FLAGS_NO_OVERLAY) 4,
     entry 0x8E 1 ''JLE'' TYPE_INST ((GenFlagsSameSize SIZE_64BITDEF) OR FLAGS_SETS_RIP OR FLAGS_SRC_SEXT OR FLAGS_DISPLACE_SIZE_DIV_2 OR FLAGS_NO_OVERLAY) 4,
     entry 0x8F 1 ''JNLE'' TYPE_INST ((GenFlagsSameSize SIZE_64BITDEF) OR FLAGS_SETS_RIP OR FLAGS_SRC_SEXT OR FLAGS_DISPLACE_SIZE_DIV_2 OR FLAGS_NO_OVERLAY) 4,
     entry 0x90 1 ''SETO'' TYPE_INST ((GenFlagsSameSize SIZE_8BIT) OR FLAGS_MODRM OR FLAGS_SF_MOD_DST OR FLAGS_NO_OVERLAY) 0,
     entry 0x91 1 ''SETNO'' TYPE_INST ((GenFlagsSameSize SIZE_8BIT) OR FLAGS_MODRM OR FLAGS_SF_MOD_DST OR FLAGS_NO_OVERLAY) 0,
     entry 0x92 1 ''SETB'' TYPE_INST ((GenFlagsSameSize SIZE_8BIT) OR FLAGS_MODRM OR FLAGS_SF_MOD_DST OR FLAGS_NO_OVERLAY) 0,
     entry 0x93 1 ''SETNB'' TYPE_INST ((GenFlagsSameSize SIZE_8BIT) OR FLAGS_MODRM OR FLAGS_SF_MOD_DST OR FLAGS_NO_OVERLAY) 0,
     entry 0x94 1 ''SETZ'' TYPE_INST ((GenFlagsSameSize SIZE_8BIT) OR FLAGS_MODRM OR FLAGS_SF_MOD_DST OR FLAGS_NO_OVERLAY) 0,
     entry 0x95 1 ''SETNZ'' TYPE_INST ((GenFlagsSameSize SIZE_8BIT) OR FLAGS_MODRM OR FLAGS_SF_MOD_DST OR FLAGS_NO_OVERLAY) 0,
     entry 0x96 1 ''SETBE'' TYPE_INST ((GenFlagsSameSize SIZE_8BIT) OR FLAGS_MODRM OR FLAGS_SF_MOD_DST OR FLAGS_NO_OVERLAY) 0,
     entry 0x97 1 ''SETNBE'' TYPE_INST ((GenFlagsSameSize SIZE_8BIT) OR FLAGS_MODRM OR FLAGS_SF_MOD_DST OR FLAGS_NO_OVERLAY) 0,
     entry 0x98 1 ''SETS'' TYPE_INST ((GenFlagsSameSize SIZE_8BIT) OR FLAGS_MODRM OR FLAGS_SF_MOD_DST OR FLAGS_NO_OVERLAY) 0,
     entry 0x99 1 ''SETNS'' TYPE_INST ((GenFlagsSameSize SIZE_8BIT) OR FLAGS_MODRM OR FLAGS_SF_MOD_DST OR FLAGS_NO_OVERLAY) 0,
     entry 0x9A 1 ''SETP'' TYPE_INST ((GenFlagsSameSize SIZE_8BIT) OR FLAGS_MODRM OR FLAGS_SF_MOD_DST OR FLAGS_NO_OVERLAY) 0,
     entry 0x9B 1 ''SETNP'' TYPE_INST ((GenFlagsSameSize SIZE_8BIT) OR FLAGS_MODRM OR FLAGS_SF_MOD_DST OR FLAGS_NO_OVERLAY) 0,
     entry 0x9C 1 ''SETL'' TYPE_INST ((GenFlagsSameSize SIZE_8BIT) OR FLAGS_MODRM OR FLAGS_SF_MOD_DST OR FLAGS_NO_OVERLAY) 0,
     entry 0x9D 1 ''SETNL'' TYPE_INST ((GenFlagsSameSize SIZE_8BIT) OR FLAGS_MODRM OR FLAGS_SF_MOD_DST OR FLAGS_NO_OVERLAY) 0,
     entry 0x9E 1 ''SETLE'' TYPE_INST ((GenFlagsSameSize SIZE_8BIT) OR FLAGS_MODRM OR FLAGS_SF_MOD_DST OR FLAGS_NO_OVERLAY) 0,
     entry 0x9F 1 ''SETNLE'' TYPE_INST ((GenFlagsSameSize SIZE_8BIT) OR FLAGS_MODRM OR FLAGS_SF_MOD_DST OR FLAGS_NO_OVERLAY) 0]"

definition TwoByteOpTable_2 :: "X86TablesInfoStruct list" where
  "TwoByteOpTable_2 =
    [arch_entry 0xA0 1 '''' (FLAGS_DEBUG_MEM_ACCESS OR FLAGS_NO_OVERLAY) 0 Secondary_LUT_A0,
     arch_entry 0xA1 1 '''' (FLAGS_DEBUG_MEM_ACCESS OR FLAGS_NO_OVERLAY) 0 Secondary_LUT_A1,
     entry 0xA2 1 ''CPUID'' TYPE_INST (FLAGS_SF_SRC_RAX OR FLAGS_NO_OVERLAY) 0,
     entry 0xA3 1 ''BT'' TYPE_INST (FLAGS_DEBUG_MEM_ACCESS OR FLAGS_MODRM OR FLAGS_SF_MOD_DST OR FLAGS_NO_OVERLAY OR FLAGS_SUPPORTS_LOCK) 0,
     entry 0xA4 1 ''SHLD'' TYPE_INST (FLAGS_MODRM OR FLAGS_SF_MOD_DST OR FLAGS_NO_OVERLAY) 1,
     entry 0xA5 1 ''SHLD'' TYPE_INST (FLAGS_MODRM OR FLAGS_SF_MOD_DST OR FLAGS_SF_SRC_RCX OR FLAGS_NO_OVERLAY) 0,
     entry 0xA6 2 '''' TYPE_INVALID FLAGS_NO_OVERLAY 0,
     arch_entry 0xA8 1 '''' (FLAGS_DEBUG_MEM_ACCESS OR FLAGS_NO_OVERLAY) 0 Secondary_LUT_A8,
     arch_entry 0xA9 1 '''' (FLAGS_DEBUG_MEM_ACCESS OR FLAGS_NO_OVERLAY) 0 Secondary_LUT_A9,
     entry 0xAA 1 ''RSM'' TYPE_PRIV FLAGS_NO_OVERLAY 0,
     entry 0xAB 1 ''BTS'' TYPE_INST (FLAGS_DEBUG_MEM_ACCESS OR FLAGS_MODRM OR FLAGS_SF_MOD_DST OR FLAGS_NO_OVERLAY OR FLAGS_SUPPORTS_LOCK) 0,
     entry 0xAC 1 ''SHRD'' TYPE_INST (FLAGS_MODRM OR FLAGS_SF_MOD_DST OR FLAGS_NO_OVERLAY) 1,
     entry 0xAD 1 ''SHRD'' TYPE_INST (FLAGS_MODRM OR FLAGS_SF_MOD_DST OR FLAGS_SF_SRC_RCX OR FLAGS_NO_OVERLAY) 0,
     entry 0xAE 1 '''' TYPE_GROUP_15 FLAGS_NO_OVERLAY 0,
     entry 0xAF 1 ''IMUL'' TYPE_INST (FLAGS_MODRM OR FLAGS_NO_OVERLAY) 0,
     entry 0xB0 1 ''CMPXCHG'' TYPE_INST ((GenFlagsSameSize SIZE_8BIT) OR FLAGS_MODRM OR FLAGS_SF_MOD_DST OR FLAGS_NO_OVERLAY OR FLAGS_SUPPORTS_LOCK) 0,
     entry 0xB1 1 ''CMPXCHG'' TYPE_INST (FLAGS_MODRM OR FLAGS_SF_MOD_DST OR FLAGS_NO_OVERLAY OR FLAGS_SUPPORTS_LOCK) 0,
     entry 0xB2 1 ''LSS'' TYPE_INVALID FLAGS_NO_OVERLAY 0,
     entry 0xB3 1 ''BTR'' TYPE_INST (FLAGS_DEBUG_MEM_ACCESS OR FLAGS_MODRM OR FLAGS_SF_MOD_DST OR FLAGS_NO_OVERLAY OR FLAGS_SUPPORTS_LOCK) 0,
     entry 0xB4 1 ''LFS'' TYPE_INVALID FLAGS_NO_OVERLAY 0,
     entry 0xB5 1 ''LGS'' TYPE_INVALID FLAGS_NO_OVERLAY 0,
     entry 0xB6 1 ''MOVZX'' TYPE_INST ((GenFlagsSrcSize SIZE_8BIT) OR FLAGS_MODRM OR FLAGS_NO_OVERLAY) 0,
     entry 0xB7 1 ''MOVZX'' TYPE_INST ((GenFlagsSrcSize SIZE_16BIT) OR FLAGS_MODRM OR FLAGS_NO_OVERLAY) 0,
     entry 0xB8 1 '''' TYPE_INVALID FLAGS_NONE 0,
     entry 0xB9 1 '''' TYPE_GROUP_10 FLAGS_NO_OVERLAY 0,
     entry 0xBA 1 '''' TYPE_GROUP_8 FLAGS_NO_OVERLAY 0,
     entry 0xBB 1 ''BTC'' TYPE_INST (FLAGS_DEBUG_MEM_ACCESS OR FLAGS_MODRM OR FLAGS_SF_MOD_DST OR FLAGS_NO_OVERLAY OR FLAGS_SUPPORTS_LOCK) 0,
     entry 0xBC 1 ''BSF'' TYPE_INST (FLAGS_MODRM OR FLAGS_NO_OVERLAY66) 0,
     entry 0xBD 1 ''BSR'' TYPE_INST (FLAGS_MODRM OR FLAGS_NO_OVERLAY66) 0,
     entry 0xBE 1 ''MOVSX'' TYPE_INST ((GenFlagsSrcSize SIZE_8BIT) OR FLAGS_MODRM OR FLAGS_NO_OVERLAY) 0,
     entry 0xBF 1 ''MOVSX'' TYPE_INST ((GenFlagsSrcSize SIZE_16BIT) OR FLAGS_MODRM OR FLAGS_NO_OVERLAY) 0,
     entry 0xC0 1 ''XADD'' TYPE_INST ((GenFlagsSameSize SIZE_8BIT) OR FLAGS_MODRM OR FLAGS_SF_MOD_DST OR FLAGS_SUPPORTS_LOCK) 0,
     entry 0xC1 1 ''XADD'' TYPE_INST (FLAGS_MODRM OR FLAGS_SF_MOD_DST OR FLAGS_NO_OVERLAY OR FLAGS_SUPPORTS_LOCK) 0,
     entry 0xC2 1 ''CMPPS'' TYPE_INST ((GenFlagsSameSize SIZE_128BIT) OR FLAGS_MODRM OR FLAGS_XMM_FLAGS) 1,
     entry 0xC3 1 ''MOVNTI'' TYPE_INST (FLAGS_MODRM OR FLAGS_SF_MOD_MEM_ONLY OR FLAGS_SF_MOD_DST) 0,
     entry 0xC4 1 ''PINSRW'' TYPE_INST ((GenFlagsSizes SIZE_64BIT SIZE_16BIT) OR FLAGS_MODRM OR FLAGS_XMM_FLAGS OR FLAGS_SF_MMX OR FLAGS_SF_SRC_GPR) 1,
     entry 0xC5 1 ''PEXTRW'' TYPE_INST ((GenFlagsSizes SIZE_32BIT SIZE_64BIT) OR FLAGS_MODRM OR FLAGS_SF_MOD_REG_ONLY OR FLAGS_SF_DST_GPR OR FLAGS_XMM_FLAGS OR FLAGS_SF_MMX) 1,
     entry 0xC6 1 ''SHUFPS'' TYPE_INST ((GenFlagsSameSize SIZE_128BIT) OR FLAGS_MODRM OR FLAGS_XMM_FLAGS) 1,
     entry 0xC7 1 '''' TYPE_GROUP_9 FLAGS_NO_OVERLAY 0,
     entry 0xC8 8 ''BSWAP'' TYPE_INST (FLAGS_SF_REX_IN_BYTE OR FLAGS_NO_OVERLAY) 0,
     entry 0xD0 1 '''' TYPE_INVALID FLAGS_NONE 0,
     entry 0xD1 1 ''PSRLW'' TYPE_INST ((GenFlagsSameSize SIZE_64BIT) OR FLAGS_MODRM OR FLAGS_XMM_FLAGS OR FLAGS_SF_MMX) 0,
     entry 0xD2 1 ''PSRLD'' TYPE_INST ((GenFlagsSameSize SIZE_64BIT) OR FLAGS_MODRM OR FLAGS_XMM_FLAGS OR FLAGS_SF_MMX) 0,
     entry 0xD3 1 ''PSRLQ'' TYPE_INST ((GenFlagsSameSize SIZE_64BIT) OR FLAGS_MODRM OR FLAGS_XMM_FLAGS OR FLAGS_SF_MMX) 0,
     entry 0xD4 1 ''PADDQ'' TYPE_INST ((GenFlagsSameSize SIZE_64BIT) OR FLAGS_MODRM OR FLAGS_XMM_FLAGS OR FLAGS_SF_MMX) 0,
     entry 0xD5 1 ''PMULLW'' TYPE_INST ((GenFlagsSameSize SIZE_64BIT) OR FLAGS_MODRM OR FLAGS_XMM_FLAGS OR FLAGS_SF_MMX) 0,
     entry 0xD6 1 '''' TYPE_INVALID FLAGS_NONE 0,
     entry 0xD7 1 ''PMOVMSKB'' TYPE_INST ((GenFlagsSizes SIZE_32BIT SIZE_64BIT) OR FLAGS_MODRM OR FLAGS_SF_MOD_REG_ONLY OR FLAGS_XMM_FLAGS OR FLAGS_SF_DST_GPR OR FLAGS_SF_MMX_SRC) 0,
     entry 0xD8 1 ''PSUBUSB'' TYPE_INST ((GenFlagsSameSize SIZE_64BIT) OR FLAGS_MODRM OR FLAGS_XMM_FLAGS OR FLAGS_SF_MMX) 0,
     entry 0xD9 1 ''PSUBUSW'' TYPE_INST ((GenFlagsSameSize SIZE_64BIT) OR FLAGS_MODRM OR FLAGS_XMM_FLAGS OR FLAGS_SF_MMX) 0,
     entry 0xDA 1 ''PMINUB'' TYPE_INST ((GenFlagsSameSize SIZE_64BIT) OR FLAGS_MODRM OR FLAGS_XMM_FLAGS OR FLAGS_SF_MMX) 0,
     entry 0xDB 1 ''PAND'' TYPE_INST ((GenFlagsSameSize SIZE_64BIT) OR FLAGS_MODRM OR FLAGS_XMM_FLAGS OR FLAGS_SF_MMX) 0,
     entry 0xDC 1 ''PADDUSB'' TYPE_INST ((GenFlagsSameSize SIZE_64BIT) OR FLAGS_MODRM OR FLAGS_XMM_FLAGS OR FLAGS_SF_MMX) 0,
     entry 0xDD 1 ''PADDUSW'' TYPE_INST ((GenFlagsSameSize SIZE_64BIT) OR FLAGS_MODRM OR FLAGS_XMM_FLAGS OR FLAGS_SF_MMX) 0,
     entry 0xDE 1 ''PMAXUB'' TYPE_INST ((GenFlagsSameSize SIZE_64BIT) OR FLAGS_MODRM OR FLAGS_XMM_FLAGS OR FLAGS_SF_MMX) 0,
     entry 0xDF 1 ''PANDN'' TYPE_INST ((GenFlagsSameSize SIZE_64BIT) OR FLAGS_MODRM OR FLAGS_XMM_FLAGS OR FLAGS_SF_MMX) 0,
     entry 0xE0 1 ''PAVGB'' TYPE_INST ((GenFlagsSameSize SIZE_64BIT) OR FLAGS_MODRM OR FLAGS_XMM_FLAGS OR FLAGS_SF_MMX) 0,
     entry 0xE1 1 ''PSRAW'' TYPE_INST ((GenFlagsSameSize SIZE_64BIT) OR FLAGS_MODRM OR FLAGS_XMM_FLAGS OR FLAGS_SF_MMX) 0,
     entry 0xE2 1 ''PSRAD'' TYPE_INST ((GenFlagsSameSize SIZE_64BIT) OR FLAGS_MODRM OR FLAGS_XMM_FLAGS OR FLAGS_SF_MMX) 0,
     entry 0xE3 1 ''PAVGW'' TYPE_INST ((GenFlagsSameSize SIZE_64BIT) OR FLAGS_MODRM OR FLAGS_XMM_FLAGS OR FLAGS_SF_MMX) 0,
     entry 0xE4 1 ''PMULHUW'' TYPE_INST ((GenFlagsSameSize SIZE_64BIT) OR FLAGS_MODRM OR FLAGS_XMM_FLAGS OR FLAGS_SF_MMX) 0,
     entry 0xE5 1 ''PMULHW'' TYPE_INST ((GenFlagsSameSize SIZE_64BIT) OR FLAGS_MODRM OR FLAGS_XMM_FLAGS OR FLAGS_SF_MMX) 0,
     entry 0xE6 1 '''' TYPE_INVALID FLAGS_NONE 0,
     entry 0xE7 1 ''MOVNTQ'' TYPE_INST ((GenFlagsSameSize SIZE_64BIT) OR FLAGS_MODRM OR FLAGS_SF_MOD_DST OR FLAGS_XMM_FLAGS OR FLAGS_SF_MMX) 0,
     entry 0xE8 1 ''PSUBSB'' TYPE_INST ((GenFlagsSameSize SIZE_64BIT) OR FLAGS_MODRM OR FLAGS_XMM_FLAGS OR FLAGS_SF_MMX) 0,
     entry 0xE9 1 ''PSUBSW'' TYPE_INST ((GenFlagsSameSize SIZE_64BIT) OR FLAGS_MODRM OR FLAGS_XMM_FLAGS OR FLAGS_SF_MMX) 0,
     entry 0xEA 1 ''PMINSW'' TYPE_INST ((GenFlagsSameSize SIZE_64BIT) OR FLAGS_MODRM OR FLAGS_XMM_FLAGS OR FLAGS_SF_MMX) 0,
     entry 0xEB 1 ''POR'' TYPE_INST ((GenFlagsSameSize SIZE_64BIT) OR FLAGS_MODRM OR FLAGS_XMM_FLAGS OR FLAGS_SF_MMX) 0,
     entry 0xEC 1 ''PADDSB'' TYPE_INST ((GenFlagsSameSize SIZE_64BIT) OR FLAGS_MODRM OR FLAGS_XMM_FLAGS OR FLAGS_SF_MMX) 0,
     entry 0xED 1 ''PADDSW'' TYPE_INST ((GenFlagsSameSize SIZE_64BIT) OR FLAGS_MODRM OR FLAGS_XMM_FLAGS OR FLAGS_SF_MMX) 0,
     entry 0xEE 1 ''PMAXSW'' TYPE_INST ((GenFlagsSameSize SIZE_64BIT) OR FLAGS_MODRM OR FLAGS_XMM_FLAGS OR FLAGS_SF_MMX) 0,
     entry 0xEF 1 ''PXOR'' TYPE_INST ((GenFlagsSameSize SIZE_64BIT) OR FLAGS_MODRM OR FLAGS_XMM_FLAGS OR FLAGS_SF_MMX) 0,
     entry 0xF0 1 '''' TYPE_INVALID FLAGS_NONE 0,
     entry 0xF1 1 ''PSLLW'' TYPE_INST ((GenFlagsSameSize SIZE_64BIT) OR FLAGS_MODRM OR FLAGS_XMM_FLAGS OR FLAGS_SF_MMX) 0,
     entry 0xF2 1 ''PSLLD'' TYPE_INST ((GenFlagsSameSize SIZE_64BIT) OR FLAGS_MODRM OR FLAGS_XMM_FLAGS OR FLAGS_SF_MMX) 0,
     entry 0xF3 1 ''PSLLQ'' TYPE_INST ((GenFlagsSameSize SIZE_64BIT) OR FLAGS_MODRM OR FLAGS_XMM_FLAGS OR FLAGS_SF_MMX) 0,
     entry 0xF4 1 ''PMULUDQ'' TYPE_INST ((GenFlagsSameSize SIZE_64BIT) OR FLAGS_MODRM OR FLAGS_XMM_FLAGS OR FLAGS_SF_MMX) 0,
     entry 0xF5 1 ''PMADDWD'' TYPE_INST ((GenFlagsSameSize SIZE_64BIT) OR FLAGS_MODRM OR FLAGS_XMM_FLAGS OR FLAGS_SF_MMX) 0,
     entry 0xF6 1 ''PSADBW'' TYPE_INST ((GenFlagsSameSize SIZE_64BIT) OR FLAGS_MODRM OR FLAGS_XMM_FLAGS OR FLAGS_SF_MMX) 0,
     entry 0xF7 1 ''MASKMOVQ'' TYPE_INST ((GenFlagsSameSize SIZE_64BIT) OR FLAGS_MODRM OR FLAGS_SF_MOD_REG_ONLY OR FLAGS_XMM_FLAGS OR FLAGS_SF_MMX) 0,
     entry 0xF8 1 ''PSUBB'' TYPE_INST ((GenFlagsSameSize SIZE_64BIT) OR FLAGS_MODRM OR FLAGS_XMM_FLAGS OR FLAGS_SF_MMX) 0,
     entry 0xF9 1 ''PSUBW'' TYPE_INST ((GenFlagsSameSize SIZE_64BIT) OR FLAGS_MODRM OR FLAGS_XMM_FLAGS OR FLAGS_SF_MMX) 0,
     entry 0xFA 1 ''PSUBD'' TYPE_INST ((GenFlagsSameSize SIZE_64BIT) OR FLAGS_MODRM OR FLAGS_XMM_FLAGS OR FLAGS_SF_MMX) 0,
     entry 0xFB 1 ''PSUBQ'' TYPE_INST ((GenFlagsSameSize SIZE_64BIT) OR FLAGS_MODRM OR FLAGS_XMM_FLAGS OR FLAGS_SF_MMX) 0,
     entry 0xFC 1 ''PADDB'' TYPE_INST ((GenFlagsSameSize SIZE_64BIT) OR FLAGS_MODRM OR FLAGS_XMM_FLAGS OR FLAGS_SF_MMX) 0,
     entry 0xFD 1 ''PADDW'' TYPE_INST ((GenFlagsSameSize SIZE_64BIT) OR FLAGS_MODRM OR FLAGS_XMM_FLAGS OR FLAGS_SF_MMX) 0,
     entry 0xFE 1 ''PADDD'' TYPE_INST ((GenFlagsSameSize SIZE_64BIT) OR FLAGS_MODRM OR FLAGS_XMM_FLAGS OR FLAGS_SF_MMX) 0,
     entry 0xFF 1 ''UD0'' TYPE_INST FLAGS_BLOCK_END 0,
     entry 0x3E 1 ''CALLBACKRET'' TYPE_INST (FLAGS_BLOCK_END OR FLAGS_NO_OVERLAY OR FLAGS_SETS_RIP) 0,
     entry 0x3F 1 ''ALTINST'' TYPE_INST (FLAGS_BLOCK_END OR FLAGS_NO_OVERLAY OR FLAGS_SETS_RIP) 0]"

definition TwoByteOpTable :: "X86TablesInfoStruct list" where
  "TwoByteOpTable = TwoByteOpTable_1 @ TwoByteOpTable_2"

definition OpDispatch_TwoByteOpTable :: "DispatchTableEntry list" where
  "OpDispatch_TwoByteOpTable =
    [dispatch 0x03 1 (Handler ''LSLOp''),
     dispatch 0x06 4 (Handler ''PermissionRestrictedOp''),
     dispatch 0x0B 1 (Handler ''INTOp''),
     dispatch 0x0E 1 (Handler ''X87EMMS''),
     dispatch 0x19 7 (Handler ''NOPOp''),
     dispatch 0x20 4 (Handler ''PermissionRestrictedOp''),
     dispatch 0x30 1 (Handler ''PermissionRestrictedOp''),
     dispatch 0x31 1 (Handler ''RDTSCOp''),
     dispatch 0x32 2 (Handler ''PermissionRestrictedOp''),
     dispatch 0x34 3 (Handler ''UnimplementedOp''),
     dispatch 0x40 16 (Handler ''CMOVOp''),
     dispatch 0x6E 1 (Bind ''MOVBetweenGPR_FPR'' [''MMX'']),
     dispatch 0x6F 1 (Handler ''MOVQMMXOp''),
     dispatch 0x7E 1 (Bind ''MOVBetweenGPR_FPR'' [''MMX'']),
     dispatch 0x7F 1 (Handler ''MOVQMMXOp''),
     dispatch 0x80 16 (Handler ''CondJUMPOp''),
     dispatch 0x90 16 (Handler ''SETccOp''),
     dispatch 0xA2 1 (Handler ''CPUIDOp''),
     dispatch 0xA3 1 (Bind ''BTOp'' [''0'', ''BTNone'']),
     dispatch 0xA4 1 (Handler ''SHLDImmediateOp''),
     dispatch 0xA5 1 (Handler ''SHLDOp''),
     dispatch 0xAB 1 (Bind ''BTOp'' [''0'', ''BTSet'']),
     dispatch 0xAC 1 (Handler ''SHRDImmediateOp''),
     dispatch 0xAD 1 (Handler ''SHRDOp''),
     dispatch 0xAF 1 (Handler ''IMUL1SrcOp''),
     dispatch 0xB0 2 (Handler ''CMPXCHGOp''),
     dispatch 0xB3 1 (Bind ''BTOp'' [''0'', ''BTClear'']),
     dispatch 0xB6 2 (Handler ''MOVZXOp''),
     dispatch 0xBB 1 (Bind ''BTOp'' [''0'', ''BTComplement'']),
     dispatch 0xBC 1 (Handler ''BSFOp''),
     dispatch 0xBD 1 (Handler ''BSROp''),
     dispatch 0xBE 2 (Handler ''MOVSXOp''),
     dispatch 0xC0 2 (Handler ''XADDOp''),
     dispatch 0xC3 1 (Handler ''MOVGPRNTOp''),
     dispatch 0xC4 1 (Bind ''PINSROp'' [''i16Bit'']),
     dispatch 0xC5 1 (Bind ''PExtrOp'' [''i16Bit'']),
     dispatch 0xC8 8 (Handler ''BSWAPOp''),
     dispatch 0x10 2 (Handler ''MOVVectorUnalignedOp''),
     dispatch 0x12 2 (Handler ''MOVLPOp''),
     dispatch 0x14 1 (Bind ''PUNPCKLOp'' [''i32Bit'']),
     dispatch 0x15 1 (Bind ''PUNPCKHOp'' [''i32Bit'']),
     dispatch 0x16 2 (Handler ''MOVHPDOp''),
     dispatch 0x28 2 (Handler ''MOVVectorAlignedOp''),
     dispatch 0x2A 1 (Handler ''InsertMMX_To_XMM_Vector_CVT_Int_To_Float''),
     dispatch 0x2B 1 (Bind ''MOVVectorNTOp'' [''false'']),
     dispatch 0x2C 1 (Bind ''XMM_To_MMX_Vector_CVT_Float_To_Int'' [''i32Bit'', ''false'']),
     dispatch 0x2D 1 (Bind ''XMM_To_MMX_Vector_CVT_Float_To_Int'' [''i32Bit'', ''true'']),
     dispatch 0x2E 2 (Bind ''UCOMISxOp'' [''i32Bit'']),
     dispatch 0x50 1 (Bind ''MOVMSKOp'' [''i32Bit'']),
     dispatch 0x51 1 (Bind ''VectorUnaryOp'' [''OP_VFSQRT'', ''i32Bit'']),
     dispatch 0x52 1 (Bind ''VectorUnaryOp'' [''OP_VFRSQRT'', ''i32Bit'']),
     dispatch 0x53 1 (Bind ''VectorUnaryOp'' [''OP_VFRECP'', ''i32Bit'']),
     dispatch 0x54 1 (Bind ''VectorALUOp'' [''OP_VAND'', ''i128Bit'']),
     dispatch 0x55 1 (Bind ''VectorALUROp'' [''OP_VANDN'', ''i64Bit'']),
     dispatch 0x56 1 (Bind ''VectorALUOp'' [''OP_VOR'', ''i128Bit'']),
     dispatch 0x57 1 (Handler ''VectorXOROp''),
     dispatch 0x58 1 (Bind ''VectorALUOp'' [''OP_VFADD'', ''i32Bit'']),
     dispatch 0x59 1 (Bind ''VectorALUOp'' [''OP_VFMUL'', ''i32Bit'']),
     dispatch 0x5A 1 (Bind ''Vector_CVT_Float_To_Float'' [''i64Bit'', ''i32Bit'', ''false'']),
     dispatch 0x5B 1 (Bind ''Vector_CVT_Int_To_Float'' [''i32Bit'', ''false'', ''false'']),
     dispatch 0x5C 1 (Bind ''VectorALUOp'' [''OP_VFSUB'', ''i32Bit'']),
     dispatch 0x5D 1 (Bind ''VectorALUOp'' [''OP_VFMIN'', ''i32Bit'']),
     dispatch 0x5E 1 (Bind ''VectorALUOp'' [''OP_VFDIV'', ''i32Bit'']),
     dispatch 0x5F 1 (Bind ''VectorALUOp'' [''OP_VFMAX'', ''i32Bit'']),
     dispatch 0x60 1 (Bind ''PUNPCKLOp'' [''i8Bit'']),
     dispatch 0x61 1 (Bind ''PUNPCKLOp'' [''i16Bit'']),
     dispatch 0x62 1 (Bind ''PUNPCKLOp'' [''i32Bit'']),
     dispatch 0x63 1 (Bind ''PACKSSOp'' [''i16Bit'']),
     dispatch 0x64 1 (Bind ''VectorALUOp'' [''OP_VCMPGT'', ''i8Bit'']),
     dispatch 0x65 1 (Bind ''VectorALUOp'' [''OP_VCMPGT'', ''i16Bit'']),
     dispatch 0x66 1 (Bind ''VectorALUOp'' [''OP_VCMPGT'', ''i32Bit'']),
     dispatch 0x67 1 (Bind ''PACKUSOp'' [''i16Bit'']),
     dispatch 0x68 1 (Bind ''PUNPCKHOp'' [''i8Bit'']),
     dispatch 0x69 1 (Bind ''PUNPCKHOp'' [''i16Bit'']),
     dispatch 0x6A 1 (Bind ''PUNPCKHOp'' [''i32Bit'']),
     dispatch 0x6B 1 (Bind ''PACKSSOp'' [''i32Bit'']),
     dispatch 0x70 1 (Handler ''PSHUFW8ByteOp''),
     dispatch 0x74 1 (Bind ''VectorALUOp'' [''OP_VCMPEQ'', ''i8Bit'']),
     dispatch 0x75 1 (Bind ''VectorALUOp'' [''OP_VCMPEQ'', ''i16Bit'']),
     dispatch 0x76 1 (Bind ''VectorALUOp'' [''OP_VCMPEQ'', ''i32Bit'']),
     dispatch 0x77 1 (Handler ''X87EMMS''),
     dispatch 0xC2 1 (Bind ''VFCMPOp'' [''i32Bit'']),
     dispatch 0xC6 1 (Bind ''SHUFOp'' [''i32Bit'']),
     dispatch 0xD1 1 (Bind ''PSRLDOp'' [''i16Bit'']),
     dispatch 0xD2 1 (Bind ''PSRLDOp'' [''i32Bit'']),
     dispatch 0xD3 1 (Bind ''PSRLDOp'' [''i64Bit'']),
     dispatch 0xD4 1 (Bind ''VectorALUOp'' [''OP_VADD'', ''i64Bit'']),
     dispatch 0xD5 1 (Bind ''VectorALUOp'' [''OP_VMUL'', ''i16Bit'']),
     dispatch 0xD7 1 (Handler ''MOVMSKOpOne''),
     dispatch 0xD8 1 (Bind ''VectorALUOp'' [''OP_VUQSUB'', ''i8Bit'']),
     dispatch 0xD9 1 (Bind ''VectorALUOp'' [''OP_VUQSUB'', ''i16Bit'']),
     dispatch 0xDA 1 (Bind ''VectorALUOp'' [''OP_VUMIN'', ''i8Bit'']),
     dispatch 0xDB 1 (Bind ''VectorALUOp'' [''OP_VAND'', ''i64Bit'']),
     dispatch 0xDC 1 (Bind ''VectorALUOp'' [''OP_VUQADD'', ''i8Bit'']),
     dispatch 0xDD 1 (Bind ''VectorALUOp'' [''OP_VUQADD'', ''i16Bit'']),
     dispatch 0xDE 1 (Bind ''VectorALUOp'' [''OP_VUMAX'', ''i8Bit'']),
     dispatch 0xDF 1 (Bind ''VectorALUROp'' [''OP_VANDN'', ''i64Bit'']),
     dispatch 0xE0 1 (Bind ''VectorALUOp'' [''OP_VURAVG'', ''i8Bit'']),
     dispatch 0xE1 1 (Bind ''PSRAOp'' [''i16Bit'']),
     dispatch 0xE2 1 (Bind ''PSRAOp'' [''i32Bit'']),
     dispatch 0xE3 1 (Bind ''VectorALUOp'' [''OP_VURAVG'', ''i16Bit'']),
     dispatch 0xE4 1 (Bind ''PMULHW'' [''false'']),
     dispatch 0xE5 1 (Bind ''PMULHW'' [''true'']),
     dispatch 0xE7 1 (Bind ''MOVVectorNTOp'' [''false'']),
     dispatch 0xE8 1 (Bind ''VectorALUOp'' [''OP_VSQSUB'', ''i8Bit'']),
     dispatch 0xE9 1 (Bind ''VectorALUOp'' [''OP_VSQSUB'', ''i16Bit'']),
     dispatch 0xEA 1 (Bind ''VectorALUOp'' [''OP_VSMIN'', ''i16Bit'']),
     dispatch 0xEB 1 (Bind ''VectorALUOp'' [''OP_VOR'', ''i64Bit'']),
     dispatch 0xEC 1 (Bind ''VectorALUOp'' [''OP_VSQADD'', ''i8Bit'']),
     dispatch 0xED 1 (Bind ''VectorALUOp'' [''OP_VSQADD'', ''i16Bit'']),
     dispatch 0xEE 1 (Bind ''VectorALUOp'' [''OP_VSMAX'', ''i16Bit'']),
     dispatch 0xEF 1 (Handler ''VectorXOROp''),
     dispatch 0xF1 1 (Bind ''PSLL'' [''i16Bit'']),
     dispatch 0xF2 1 (Bind ''PSLL'' [''i32Bit'']),
     dispatch 0xF3 1 (Bind ''PSLL'' [''i64Bit'']),
     dispatch 0xF4 1 (Bind ''PMULLOp'' [''i32Bit'', ''false'']),
     dispatch 0xF5 1 (Handler ''PMADDWD''),
     dispatch 0xF6 1 (Handler ''PSADBW''),
     dispatch 0xF7 1 (Handler ''MASKMOVOp''),
     dispatch 0xF8 1 (Bind ''VectorALUOp'' [''OP_VSUB'', ''i8Bit'']),
     dispatch 0xF9 1 (Bind ''VectorALUOp'' [''OP_VSUB'', ''i16Bit'']),
     dispatch 0xFA 1 (Bind ''VectorALUOp'' [''OP_VSUB'', ''i32Bit'']),
     dispatch 0xFB 1 (Bind ''VectorALUOp'' [''OP_VSUB'', ''i64Bit'']),
     dispatch 0xFC 1 (Bind ''VectorALUOp'' [''OP_VADD'', ''i8Bit'']),
     dispatch 0xFD 1 (Bind ''VectorALUOp'' [''OP_VADD'', ''i16Bit'']),
     dispatch 0xFE 1 (Bind ''VectorALUOp'' [''OP_VADD'', ''i32Bit'']),
     dispatch 0x3E 1 (Handler ''CallbackReturnOp''),
     dispatch 0x3F 1 (Handler ''ThunkOp'')]"

definition SecondBaseOps_build :: "table option" where
  "SecondBaseOps_build =
     do { Table \<leftarrow> GenerateTable TwoByteOpTable (replicate 256 zero_info);
          InstallToTable OpDispatch_TwoByteOpTable Table }"

section \<open>The prefix tables\<close>

definition RepModOpTable :: "X86TablesInfoStruct list" where
  "RepModOpTable =
    [entry 0x0 16 '''' TYPE_COPY_OTHER FLAGS_NONE 0,
     entry 0x10 1 ''MOVSS'' TYPE_INST ((GenFlagsSameSize SIZE_128BIT) OR FLAGS_MODRM OR FLAGS_XMM_FLAGS) 0,
     entry 0x11 1 ''MOVSS'' TYPE_INST ((GenFlagsSameSize SIZE_128BIT) OR FLAGS_MODRM OR FLAGS_SF_MOD_DST OR FLAGS_XMM_FLAGS) 0,
     entry 0x12 1 ''MOVSLDUP'' TYPE_INST ((GenFlagsSameSize SIZE_128BIT) OR FLAGS_MODRM OR FLAGS_XMM_FLAGS) 0,
     entry 0x13 3 '''' TYPE_INVALID FLAGS_NONE 0,
     entry 0x16 1 ''MOVSHDUP'' TYPE_INST ((GenFlagsSameSize SIZE_128BIT) OR FLAGS_MODRM OR FLAGS_XMM_FLAGS) 0,
     entry 0x17 2 '''' TYPE_INVALID FLAGS_NONE 0,
     entry 0x19 7 '''' TYPE_COPY_OTHER FLAGS_NONE 0,
     entry 0x20 4 '''' TYPE_COPY_OTHER FLAGS_NONE 0,
     entry 0x24 6 '''' TYPE_INVALID FLAGS_NONE 0,
     entry 0x2A 1 ''CVTSI2SS'' TYPE_INST ((GenFlagsDstSize SIZE_128BIT) OR FLAGS_MODRM OR FLAGS_XMM_FLAGS OR FLAGS_SF_SRC_GPR) 0,
     entry 0x2B 1 ''MOVNTSS'' TYPE_INST ((GenFlagsSizes SIZE_32BIT SIZE_128BIT) OR FLAGS_MODRM OR FLAGS_SF_MOD_MEM_ONLY OR FLAGS_SF_MOD_DST OR FLAGS_XMM_FLAGS) 0,
     entry 0x2C 1 ''CVTTSS2SI'' TYPE_INST (FLAGS_MODRM OR FLAGS_XMM_FLAGS OR FLAGS_SF_DST_GPR) 0,
     entry 0x2D 1 ''CVTSS2SI'' TYPE_INST (FLAGS_MODRM OR FLAGS_XMM_FLAGS OR FLAGS_SF_DST_GPR) 0,
     entry 0x2E 2 '''' TYPE_INVALID FLAGS_NONE 0,
     entry 0x30 16 '''' TYPE_COPY_OTHER FLAGS_NONE 0,
     entry 0x40 16 '''' TYPE_INVALID FLAGS_NONE 0,
     entry 0x50 1 '''' TYPE_INVALID FLAGS_NONE 0,
     entry 0x51 1 ''SQRTSS'' TYPE_INST ((GenFlagsSizes SIZE_128BIT SIZE_32BIT) OR FLAGS_MODRM OR FLAGS_XMM_FLAGS) 0,
     entry 0x52 1 ''RSQRTSS'' TYPE_INST ((GenFlagsSizes SIZE_128BIT SIZE_32BIT) OR FLAGS_MODRM OR FLAGS_XMM_FLAGS) 0,
     entry 0x53 1 ''RCPSS'' TYPE_INST ((GenFlagsSizes SIZE_128BIT SIZE_32BIT) OR FLAGS_MODRM OR FLAGS_XMM_FLAGS) 0,
     entry 0x54 4 '''' TYPE_INVALID FLAGS_NONE 0,
     entry 0x58 1 ''ADDSS'' TYPE_INST ((GenFlagsSizes SIZE_128BIT SIZE_32BIT) OR FLAGS_MODRM OR FLAGS_XMM_FLAGS) 0,
     entry 0x59 1 ''MULSS'' TYPE_INST ((GenFlagsSizes SIZE_128BIT SIZE_32BIT) OR FLAGS_MODRM OR FLAGS_XMM_FLAGS) 0,
     entry 0x5A 1 ''CVTSS2SD'' TYPE_INST ((GenFlagsSizes SIZE_128BIT SIZE_64BIT) OR FLAGS_MODRM OR FLAGS_XMM_FLAGS) 0,
     entry 0x5B 1 ''CVTTPS2DQ'' TYPE_INST ((GenFlagsSameSize SIZE_128BIT) OR FLAGS_MODRM OR FLAGS_XMM_FLAGS) 0,
     entry 0x5C 1 ''SUBSS'' TYPE_INST ((GenFlagsSizes SIZE_128BIT SIZE_32BIT) OR FLAGS_MODRM OR FLAGS_XMM_FLAGS) 0,
     entry 0x5D 1 ''MINSS'' TYPE_INST ((GenFlagsSizes SIZE_128BIT SIZE_32BIT) OR FLAGS_MODRM OR FLAGS_XMM_FLAGS) 0,
     entry 0x5E 1 ''DIVSS'' TYPE_INST ((GenFlagsSizes SIZE_128BIT SIZE_32BIT) OR FLAGS_MODRM OR FLAGS_XMM_FLAGS) 0,
     entry 0x5F 1 ''MAXSS'' TYPE_INST ((GenFlagsSizes SIZE_128BIT SIZE_32BIT) OR FLAGS_MODRM OR FLAGS_XMM_FLAGS) 0,
     entry 0x60 8 '''' TYPE_INVALID FLAGS_NONE 0,
     entry 0x68 7 '''' TYPE_INVALID FLAGS_NONE 0,
     entry 0x6F 1 ''MOVDQU'' TYPE_INST ((GenFlagsSameSize SIZE_128BIT) OR FLAGS_MODRM OR FLAGS_XMM_FLAGS) 0,
     entry 0x70 1 ''PSHUFHW'' TYPE_INST ((GenFlagsSameSize SIZE_128BIT) OR FLAGS_MODRM OR FLAGS_XMM_FLAGS) 1,
     entry 0x71 3 '''' TYPE_COPY_OTHER FLAGS_NONE 0,
     entry 0x74 4 '''' TYPE_INVALID FLAGS_NONE 0,
     entry 0x78 6 '''' TYPE_INVALID FLAGS_NONE 0,
     entry 0x7E 1 ''MOVQ'' TYPE_INST ((GenFlagsSameSize SIZE_64BIT) OR FLAGS_MODRM OR FLAGS_XMM_FLAGS) 0,
     entry 0x7F 1 ''MOVDQU'' TYPE_INST ((GenFlagsSameSize SIZE_128BIT) OR FLAGS_MODRM OR FLAGS_SF_MOD_DST OR FLAGS_XMM_FLAGS) 0,
     entry 0x80 16 '''' TYPE_COPY_OTHER FLAGS_NONE 0,
     entry 0x90 16 '''' TYPE_COPY_OTHER FLAGS_NONE 0,
     entry 0xA0 16 '''' TYPE_COPY_OTHER FLAGS_NONE 0,
     entry 0xB0 8 '''' TYPE_COPY_OTHER FLAGS_NONE 0,
     entry 0xB8 1 ''POPCNT'' TYPE_INST FLAGS_MODRM 0,
     entry 0xB9 1 '''' TYPE_COPY_OTHER FLAGS_NONE 0,
     entry 0xBA 1 '''' TYPE_COPY_OTHER FLAGS_NONE 0,
     entry 0xBB 1 '''' TYPE_INVALID FLAGS_NONE 0,
     entry 0xBC 1 ''TZCNT'' TYPE_INST FLAGS_MODRM 0,
     entry 0xBD 1 ''LZCNT'' TYPE_INST FLAGS_MODRM 0,
     entry 0xBE 2 '''' TYPE_INVALID FLAGS_NONE 0,
     entry 0xC0 2 '''' TYPE_COPY_OTHER FLAGS_NONE 0,
     entry 0xC2 1 ''CMPSS'' TYPE_INST ((GenFlagsSizes SIZE_128BIT SIZE_32BIT) OR FLAGS_MODRM OR FLAGS_XMM_FLAGS) 1,
     entry 0xC3 5 '''' TYPE_INVALID FLAGS_NONE 0,
     entry 0xC8 8 '''' TYPE_COPY_OTHER FLAGS_NONE 0,
     entry 0xD0 6 '''' TYPE_INVALID FLAGS_NONE 0,
     entry 0xD6 1 ''MOVQ2DQ'' TYPE_INST ((GenFlagsSizes SIZE_128BIT SIZE_64BIT) OR FLAGS_MODRM OR FLAGS_XMM_FLAGS OR FLAGS_SF_MMX_SRC) 0,
     entry 0xD7 1 '''' TYPE_INVALID FLAGS_NONE 0,
     entry 0xD8 8 '''' TYPE_INVALID FLAGS_NONE 0,
     entry 0xE0 6 '''' TYPE_INVALID FLAGS_NONE 0,
     entry 0xE6 1 ''CVTDQ2PD'' TYPE_INST ((GenFlagsSizes SIZE_128BIT SIZE_64BIT) OR FLAGS_MODRM OR FLAGS_XMM_FLAGS) 0,
     entry 0xE7 1 '''' TYPE_INVALID FLAGS_NONE 0,
     entry 0xE8 8 '''' TYPE_INVALID FLAGS_NONE 0,
     entry 0xF0 8 '''' TYPE_INVALID FLAGS_NONE 0,
     entry 0xF8 7 '''' TYPE_INVALID FLAGS_NONE 0,
     entry 0xFF 1 '''' TYPE_COPY_OTHER FLAGS_NONE 0]"

definition OpDispatch_SecondaryRepModTables :: "DispatchTableEntry list" where
  "OpDispatch_SecondaryRepModTables =
    [dispatch 0x10 2 (Handler ''MOVSSOp''),
     dispatch 0x12 1 (Bind ''VMOVSLDUPOp'' [''false'']),
     dispatch 0x16 1 (Bind ''VMOVSHDUPOp'' [''false'']),
     dispatch 0x2A 1 (Bind ''InsertCVTGPR_To_FPR'' [''i32Bit'']),
     dispatch 0x2B 1 (Bind ''MOVVectorNTOp'' [''false'']),
     dispatch 0x2C 1 (Bind ''CVTFPR_To_GPR'' [''i32Bit'', ''false'']),
     dispatch 0x2D 1 (Bind ''CVTFPR_To_GPR'' [''i32Bit'', ''true'']),
     dispatch 0x51 1 (Bind ''VectorScalarUnaryInsertALUOp'' [''OP_VFSQRTSCALARINSERT'', ''i32Bit'']),
     dispatch 0x52 1 (Bind ''VectorScalarUnaryInsertALUOp'' [''OP_VFRSQRTSCALARINSERT'', ''i32Bit'']),
     dispatch 0x53 1 (Bind ''VectorScalarUnaryInsertALUOp'' [''OP_VFRECPSCALARINSERT'', ''i32Bit'']),
     dispatch 0x58 1 (Bind ''VectorScalarInsertALUOp'' [''OP_VFADDSCALARINSERT'', ''i32Bit'']),
     dispatch 0x59 1 (Bind ''VectorScalarInsertALUOp'' [''OP_VFMULSCALARINSERT'', ''i32Bit'']),
     dispatch 0x5A 1 (Bind ''InsertScalar_CVT_Float_To_Float'' [''i64Bit'', ''i32Bit'']),
     dispatch 0x5B 1 (Bind ''Vector_CVT_Float_To_Int'' [''i32Bit'', ''false'', ''false'']),
     dispatch 0x5C 1 (Bind ''VectorScalarInsertALUOp'' [''OP_VFSUBSCALARINSERT'', ''i32Bit'']),
     dispatch 0x5D 1 (Bind ''VectorScalarInsertALUOp'' [''OP_VFMINSCALARINSERT'', ''i32Bit'']),
     dispatch 0x5E 1 (Bind ''VectorScalarInsertALUOp'' [''OP_VFDIVSCALARINSERT'', ''i32Bit'']),
     dispatch 0x5F 1 (Bind ''VectorScalarInsertALUOp'' [''OP_VFMAXSCALARINSERT'', ''i32Bit'']),
     dispatch 0x6F 1 (Handler ''MOVVectorUnalignedOp''),
     dispatch 0x70 1 (Bind ''PSHUFWOp'' [''false'']),
     dispatch 0x7E 1 (Bind ''MOVQOp'' [''SSE'']),
     dispatch 0x7F 1 (Handler ''MOVVectorUnalignedOp''),
     dispatch 0xB8 1 (Handler ''PopcountOp''),
     dispatch 0xBC 1 (Handler ''TZCNT''),
     dispatch 0xBD 1 (Handler ''LZCNT''),
     dispatch 0xC2 1 (Bind ''InsertScalarFCMPOp'' [''i32Bit'']),
     dispatch 0xD6 1 (Bind ''MOVQ2DQ'' [''true'']),
     dispatch 0xE6 1 (Bind ''Vector_CVT_Int_To_Float'' [''i32Bit'', ''true'', ''false''])]"

definition RepModOps_build :: "table option" where
  "RepModOps_build =
     do { Other \<leftarrow> SecondBaseOps_build;
          Table \<leftarrow> GenerateTableWithCopy RepModOpTable Other (replicate 256 zero_info);
          InstallToTable OpDispatch_SecondaryRepModTables Table }"

definition RepNEModOpTable :: "X86TablesInfoStruct list" where
  "RepNEModOpTable =
    [entry 0x0 16 '''' TYPE_COPY_OTHER FLAGS_NONE 0,
     entry 0x10 1 ''MOVSD'' TYPE_INST ((GenFlagsSameSize SIZE_128BIT) OR FLAGS_MODRM OR FLAGS_XMM_FLAGS) 0,
     entry 0x11 1 ''MOVSD'' TYPE_INST ((GenFlagsSameSize SIZE_128BIT) OR FLAGS_MODRM OR FLAGS_SF_MOD_DST OR FLAGS_XMM_FLAGS) 0,
     entry 0x12 1 ''MOVDDUP'' TYPE_INST ((GenFlagsSizes SIZE_128BIT SIZE_64BIT) OR FLAGS_MODRM OR FLAGS_XMM_FLAGS) 0,
     entry 0x13 6 '''' TYPE_INVALID FLAGS_NONE 0,
     entry 0x19 7 '''' TYPE_COPY_OTHER FLAGS_NONE 0,
     entry 0x20 4 '''' TYPE_COPY_OTHER FLAGS_NONE 0,
     entry 0x24 6 '''' TYPE_INVALID FLAGS_NONE 0,
     entry 0x2A 1 ''CVTSI2SD'' TYPE_INST ((GenFlagsDstSize SIZE_128BIT) OR FLAGS_MODRM OR FLAGS_XMM_FLAGS OR FLAGS_SF_SRC_GPR) 0,
     entry 0x2B 1 ''MOVNTSD'' TYPE_INST ((GenFlagsSizes SIZE_64BIT SIZE_128BIT) OR FLAGS_MODRM OR FLAGS_SF_MOD_MEM_ONLY OR FLAGS_SF_MOD_DST OR FLAGS_XMM_FLAGS) 0,
     entry 0x2C 1 ''CVTTSD2SI'' TYPE_INST (FLAGS_MODRM OR FLAGS_XMM_FLAGS OR FLAGS_SF_DST_GPR) 0,
     entry 0x2D 1 ''CVTSD2SI'' TYPE_INST (FLAGS_MODRM OR FLAGS_XMM_FLAGS OR FLAGS_SF_DST_GPR) 0,
     entry 0x2E 2 '''' TYPE_INVALID FLAGS_NONE 0,
     entry 0x30 16 '''' TYPE_COPY_OTHER FLAGS_NONE 0,
     entry 0x40 16 '''' TYPE_INVALID FLAGS_NONE 0,
     entry 0x50 1 '''' TYPE_INVALID FLAGS_NONE 0,
     entry 0x51 1 ''SQRTSD'' TYPE_INST ((GenFlagsSizes SIZE_128BIT SIZE_64BIT) OR FLAGS_MODRM OR FLAGS_XMM_FLAGS) 0,
     entry 0x52 6 '''' TYPE_INVALID FLAGS_NONE 0,
     entry 0x58 1 ''ADDSD'' TYPE_INST ((GenFlagsSizes SIZE_128BIT SIZE_64BIT) OR FLAGS_MODRM OR FLAGS_XMM_FLAGS) 0,
     entry 0x59 1 ''MULSD'' TYPE_INST ((GenFlagsSizes SIZE_128BIT SIZE_64BIT) OR FLAGS_MODRM OR FLAGS_XMM_FLAGS) 0,
     entry 0x5A 1 ''CVTSD2SS'' TYPE_INST ((GenFlagsSameSize SIZE_128BIT) OR FLAGS_MODRM OR FLAGS_XMM_FLAGS) 0,
     entry 0x5B 1 '''' TYPE_INVALID FLAGS_NONE 0,
     entry 0x5C 1 ''SUBSD'' TYPE_INST ((GenFlagsSizes SIZE_128BIT SIZE_64BIT) OR FLAGS_MODRM OR FLAGS_XMM_FLAGS) 0,
     entry 0x5D 1 ''MINSD'' TYPE_INST ((GenFlagsSizes SIZE_128BIT SIZE_64BIT) OR FLAGS_MODRM OR FLAGS_XMM_FLAGS) 0,
     entry 0x5E 1 ''DIVSD'' TYPE_INST ((GenFlagsSizes SIZE_128BIT SIZE_64BIT) OR FLAGS_MODRM OR FLAGS_XMM_FLAGS) 0,
     entry 0x5F 1 ''MAXSD'' TYPE_INST ((GenFlagsSizes SIZE_128BIT SIZE_64BIT) OR FLAGS_MODRM OR FLAGS_XMM_FLAGS) 0,
     entry 0x60 16 '''' TYPE_INVALID FLAGS_NONE 0,
     entry 0x70 1 ''PSHUFLW'' TYPE_INST ((GenFlagsSameSize SIZE_128BIT) OR FLAGS_MODRM OR FLAGS_XMM_FLAGS) 1,
     entry 0x71 3 '''' TYPE_COPY_OTHER FLAGS_NONE 0,
     entry 0x74 4 '''' TYPE_INVALID FLAGS_NONE 0,
     entry 0x78 1 ''INSERTQ'' TYPE_INST ((GenFlagsSameSize SIZE_128BIT) OR FLAGS_MODRM OR FLAGS_SF_MOD_REG_ONLY OR FLAGS_XMM_FLAGS) 2,
     entry 0x79 1 ''INSERTQ'' TYPE_INST ((GenFlagsSameSize SIZE_128BIT) OR FLAGS_MODRM OR FLAGS_SF_MOD_REG_ONLY OR FLAGS_XMM_FLAGS) 0,
     entry 0x7A 2 '''' TYPE_INVALID FLAGS_NONE 0,
     entry 0x7C 1 ''HADDPS'' TYPE_INST ((GenFlagsSameSize SIZE_128BIT) OR FLAGS_MODRM OR FLAGS_XMM_FLAGS) 0,
     entry 0x7D 1 ''HSUBPS'' TYPE_INST ((GenFlagsSameSize SIZE_128BIT) OR FLAGS_MODRM OR FLAGS_XMM_FLAGS) 0,
     entry 0x7E 2 '''' TYPE_INVALID FLAGS_NONE 0,
     entry 0x80 16 '''' TYPE_COPY_OTHER FLAGS_NONE 0,
     entry 0x90 16 '''' TYPE_COPY_OTHER FLAGS_NONE 0,
     entry 0xA0 16 '''' TYPE_COPY_OTHER FLAGS_NONE 0,
     entry 0xB0 8 '''' TYPE_COPY_OTHER FLAGS_NONE 0,
     entry 0xB8 1 '''' TYPE_INVALID FLAGS_NONE 0,
     entry 0xB9 1 '''' TYPE_COPY_OTHER FLAGS_NONE 0,
     entry 0xBA 1 '''' TYPE_COPY_OTHER FLAGS_NONE 0,
     entry 0xBB 5 '''' TYPE_INVALID FLAGS_NONE 0,
     entry 0xC0 2 '''' TYPE_COPY_OTHER FLAGS_NONE 0,
     entry 0xC2 1 ''CMPSD'' TYPE_INST ((GenFlagsSizes SIZE_128BIT SIZE_64BIT) OR FLAGS_MODRM OR FLAGS_XMM_FLAGS) 1,
     entry 0xC3 5 '''' TYPE_INVALID FLAGS_NONE 0,
     entry 0xC8 8 '''' TYPE_COPY_OTHER FLAGS_NONE 0,
     entry 0xD0 1 ''ADDSUBPS'' TYPE_INST ((GenFlagsSameSize SIZE_128BIT) OR FLAGS_MODRM OR FLAGS_XMM_FLAGS) 0,
     entry 0xD1 5 '''' TYPE_INVALID FLAGS_NONE 0,
     entry 0xD6 1 ''MOVDQ2Q'' TYPE_INST ((GenFlagsSizes SIZE_64BIT SIZE_128BIT) OR FLAGS_MODRM OR FLAGS_XMM_FLAGS OR FLAGS_SF_MMX_DST) 0,
     entry 0xD7 1 '''' TYPE_INVALID FLAGS_NONE 0,
     entry 0xD8 8 '''' TYPE_INVALID FLAGS_NONE 0,
     entry 0xE0 6 '''' TYPE_INVALID FLAGS_NONE 0,
     entry 0xE6 1 ''CVTPD2DQ'' TYPE_INST ((GenFlagsSameSize SIZE_128BIT) OR FLAGS_MODRM OR FLAGS_XMM_FLAGS) 0,
     entry 0xE7 1 '''' TYPE_INVALID FLAGS_NONE 0,
     entry 0xE8 8 '''' TYPE_INVALID FLAGS_NONE 0,
     entry 0xF0 1 ''LDDQU'' TYPE_INST ((GenFlagsSameSize SIZE_128BIT) OR FLAGS_MODRM OR FLAGS_SF_MOD_MEM_ONLY OR FLAGS_XMM_FLAGS) 0,
     entry 0xF1 7 '''' TYPE_INVALID FLAGS_NONE 0,
     entry 0xF8 8 '''' TYPE_INVALID FLAGS_NONE 0]"

definition OpDispatch_SecondaryRepNEModTables :: "DispatchTableEntry list" where
  "OpDispatch_SecondaryRepNEModTables =
    [dispatch 0x10 2 (Handler ''MOVSDOp''),
     dispatch 0x12 1 (Handler ''MOVDDUPOp''),
     dispatch 0x2A 1 (Bind ''InsertCVTGPR_To_FPR'' [''i64Bit'']),
     dispatch 0x2B 1 (Bind ''MOVVectorNTOp'' [''false'']),
     dispatch 0x2C 1 (Bind ''CVTFPR_To_GPR'' [''i64Bit'', ''false'']),
     dispatch 0x2D 1 (Bind ''CVTFPR_To_GPR'' [''i64Bit'', ''true'']),
     dispatch 0x51 1 (Bind ''VectorScalarUnaryInsertALUOp'' [''OP_VFSQRTSCALARINSERT'', ''i64Bit'']),
     dispatch 0x58 1 (Bind ''VectorScalarInsertALUOp'' [''OP_VFADDSCALARINSERT'', ''i64Bit'']),
     dispatch 0x59 1 (Bind ''VectorScalarInsertALUOp'' [''OP_VFMULSCALARINSERT'', ''i64Bit'']),
     dispatch 0x5A 1 (Bind ''InsertScalar_CVT_Float_To_Float'' [''i32Bit'', ''i64Bit'']),
     dispatch 0x5C 1 (Bind ''VectorScalarInsertALUOp'' [''OP_VFSUBSCALARINSERT'', ''i64Bit'']),
     dispatch 0x5D 1 (Bind ''VectorScalarInsertALUOp'' [''OP_VFMINSCALARINSERT'', ''i64Bit'']),
     dispatch 0x5E 1 (Bind ''VectorScalarInsertALUOp'' [''OP_VFDIVSCALARINSERT'', ''i64Bit'']),
     dispatch 0x5F 1 (Bind ''VectorScalarInsertALUOp'' [''OP_VFMAXSCALARINSERT'', ''i64Bit'']),
     dispatch 0x70 1 (Bind ''PSHUFWOp'' [''true'']),
     dispatch 0x78 1 (Handler ''Insertq_imm''),
     dispatch 0x79 1 (Handler ''Insertq''),
     dispatch 0x7C 1 (Bind ''VectorALUOp'' [''OP_VFADDP'', ''i32Bit'']),
     dispatch 0x7D 1 (Bind ''HSUBP'' [''i32Bit'']),
     dispatch 0xD0 1 (Bind ''ADDSUBPOp'' [''i32Bit'']),
     dispatch 0xD6 1 (Bind ''MOVQ2DQ'' [''false'']),
     dispatch 0xC2 1 (Bind ''InsertScalarFCMPOp'' [''i64Bit'']),
     dispatch 0xE6 1 (Bind ''Vector_CVT_Float_To_Int'' [''i64Bit'', ''true'', ''false'']),
     dispatch 0xF0 1 (Handler ''MOVVectorUnalignedOp'')]"

definition RepNEModOps_build :: "table option" where
  "RepNEModOps_build =
     do { Other \<leftarrow> SecondBaseOps_build;
          Table \<leftarrow> GenerateTableWithCopy RepNEModOpTable Other (replicate 256 zero_info);
          InstallToTable OpDispatch_SecondaryRepNEModTables Table }"

definition OpSizeModOpTable :: "X86TablesInfoStruct list" where
  "OpSizeModOpTable =
    [entry 0x0 16 '''' TYPE_COPY_OTHER FLAGS_NONE 0,
     entry 0x10 1 ''MOVUPD'' TYPE_INST ((GenFlagsSameSize SIZE_128BIT) OR FLAGS_MODRM OR FLAGS_XMM_FLAGS) 0,
     entry 0x11 1 ''MOVUPD'' TYPE_INST ((GenFlagsSameSize SIZE_128BIT) OR FLAGS_MODRM OR FLAGS_SF_MOD_DST OR FLAGS_XMM_FLAGS) 0,
     entry 0x12 1 ''MOVLPD'' TYPE_INST ((GenFlagsSizes SIZE_128BIT SIZE_64BIT) OR FLAGS_MODRM OR FLAGS_SF_MOD_MEM_ONLY OR FLAGS_XMM_FLAGS) 0,
     entry 0x13 1 ''MOVLPD'' TYPE_INST ((GenFlagsSizes SIZE_64BIT SIZE_128BIT) OR FLAGS_MODRM OR FLAGS_SF_MOD_MEM_ONLY OR FLAGS_SF_MOD_DST OR FLAGS_XMM_FLAGS) 0,
     entry 0x14 1 ''UNPCKLPD'' TYPE_INST ((GenFlagsSameSize SIZE_128BIT) OR FLAGS_MODRM OR FLAGS_XMM_FLAGS) 0,
     entry 0x15 1 ''UNPCKHPD'' TYPE_INST ((GenFlagsSameSize SIZE_128BIT) OR FLAGS_MODRM OR FLAGS_XMM_FLAGS) 0,
     entry 0x16 1 ''MOVHPD'' TYPE_INST ((GenFlagsSizes SIZE_128BIT SIZE_64BIT) OR FLAGS_MODRM OR FLAGS_SF_MOD_MEM_ONLY OR FLAGS_XMM_FLAGS) 0,
     entry 0x17 1 ''MOVHPD'' TYPE_INST ((GenFlagsSizes SIZE_64BIT SIZE_128BIT) OR FLAGS_MODRM OR FLAGS_SF_MOD_MEM_ONLY OR FLAGS_SF_MOD_DST OR FLAGS_XMM_FLAGS) 0,
     entry 0x18 1 '''' TYPE_INVALID FLAGS_NONE 0,
     entry 0x19 7 '''' TYPE_COPY_OTHER FLAGS_NONE 0,
     entry 0x20 4 '''' TYPE_COPY_OTHER FLAGS_NONE 0,
     entry 0x24 4 '''' TYPE_INVALID FLAGS_NONE 0,
     entry 0x28 1 ''MOVAPD'' TYPE_INST ((GenFlagsSameSize SIZE_128BIT) OR FLAGS_MODRM OR FLAGS_XMM_FLAGS) 0,
     entry 0x29 1 ''MOVAPD'' TYPE_INST ((GenFlagsSameSize SIZE_128BIT) OR FLAGS_MODRM OR FLAGS_SF_MOD_DST OR FLAGS_XMM_FLAGS) 0,
     entry 0x2A 1 ''CVTPI2PD'' TYPE_INST ((GenFlagsSizes SIZE_128BIT SIZE_64BIT) OR FLAGS_MODRM OR FLAGS_XMM_FLAGS OR FLAGS_SF_MMX_SRC) 0,
     entry 0x2B 1 ''MOVNTPD'' TYPE_INST ((GenFlagsSameSize SIZE_128BIT) OR FLAGS_MODRM OR FLAGS_SF_MOD_MEM_ONLY OR FLAGS_SF_MOD_DST OR FLAGS_XMM_FLAGS) 0,
     entry 0x2C 1 ''CVTTPD2PI'' TYPE_INST ((GenFlagsSizes SIZE_64BIT SIZE_128BIT) OR FLAGS_MODRM OR FLAGS_XMM_FLAGS OR FLAGS_SF_MMX_DST) 0,
     entry 0x2D 1 ''CVTPD2PI'' TYPE_INST ((GenFlagsSizes SIZE_64BIT SIZE_128BIT) OR FLAGS_MODRM OR FLAGS_XMM_FLAGS OR FLAGS_SF_MMX_DST) 0,
     entry 0x2E 1 ''UCOMISD'' TYPE_INST ((GenFlagsSizes SIZE_128BIT SIZE_64BIT) OR FLAGS_MODRM OR FLAGS_XMM_FLAGS) 0,
     entry 0x2F 1 ''COMISD'' TYPE_INST ((GenFlagsSizes SIZE_128BIT SIZE_64BIT) OR FLAGS_MODRM OR FLAGS_XMM_FLAGS) 0,
     entry 0x30 16 '''' TYPE_COPY_OTHER FLAGS_NONE 0,
     entry 0x40 16 '''' TYPE_COPY_OTHER FLAGS_NONE 0,
     entry 0x50 1 ''MOVMSKPD'' TYPE_INST ((GenFlagsSizes SIZE_32BIT SIZE_128BIT) OR FLAGS_MODRM OR FLAGS_SF_MOD_REG_ONLY OR FLAGS_XMM_FLAGS OR FLAGS_SF_DST_GPR) 0,
     entry 0x51 1 ''SQRTPD'' TYPE_INST ((GenFlagsSameSize SIZE_128BIT) OR FLAGS_MODRM OR FLAGS_XMM_FLAGS) 0,
     entry 0x52 2 '''' TYPE_INVALID FLAGS_NONE 0,
     entry 0x54 1 ''ANDPD'' TYPE_INST ((GenFlagsSameSize SIZE_128BIT) OR FLAGS_MODRM OR FLAGS_XMM_FLAGS) 0,
     entry 0x55 1 ''ANDNPD'' TYPE_INST ((GenFlagsSameSize SIZE_128BIT) OR FLAGS_MODRM OR FLAGS_XMM_FLAGS) 0,
     entry 0x56 1 ''ORPD'' TYPE_INST ((GenFlagsSameSize SIZE_128BIT) OR FLAGS_MODRM OR FLAGS_XMM_FLAGS) 0,
     entry 0x57 1 ''XORPD'' TYPE_INST ((GenFlagsSameSize SIZE_128BIT) OR FLAGS_MODRM OR FLAGS_XMM_FLAGS) 0,
     entry 0x58 1 ''ADDPD'' TYPE_INST ((GenFlagsSameSize SIZE_128BIT) OR FLAGS_MODRM OR FLAGS_XMM_FLAGS) 0,
     entry 0x59 1 ''MULPD'' TYPE_INST ((GenFlagsSameSize SIZE_128BIT) OR FLAGS_MODRM OR FLAGS_XMM_FLAGS) 0,
     entry 0x5A 1 ''CVTPD2PS'' TYPE_INST ((GenFlagsSameSize SIZE_128BIT) OR FLAGS_MODRM OR FLAGS_XMM_FLAGS) 0,
     entry 0x5B 1 ''CVTPS2DQ'' TYPE_INST ((GenFlagsSameSize SIZE_128BIT) OR FLAGS_MODRM OR FLAGS_XMM_FLAGS) 0,
     entry 0x5C 1 ''SUBPD'' TYPE_INST ((GenFlagsSameSize SIZE_128BIT) OR FLAGS_MODRM OR FLAGS_XMM_FLAGS) 0,
     entry 0x5D 1 ''MINPD'' TYPE_INST ((GenFlagsSameSize SIZE_128BIT) OR FLAGS_MODRM OR FLAGS_XMM_FLAGS) 0,
     entry 0x5E 1 ''DIVPD'' TYPE_INST ((GenFlagsSameSize SIZE_128BIT) OR FLAGS_MODRM OR FLAGS_XMM_FLAGS) 0,
     entry 0x5F 1 ''MAXPD'' TYPE_INST ((GenFlagsSameSize SIZE_128BIT) OR FLAGS_MODRM OR FLAGS_XMM_FLAGS) 0,
     entry 0x60 1 ''PUNPCKLBW'' TYPE_INST ((GenFlagsSameSize SIZE_128BIT) OR FLAGS_MODRM OR FLAGS_XMM_FLAGS) 0,
     entry 0x61 1 ''PUNPCKLWD'' TYPE_INST ((GenFlagsSameSize SIZE_128BIT) OR FLAGS_MODRM OR FLAGS_XMM_FLAGS) 0,
     entry 0x62 1 ''PUNPCKLDQ'' TYPE_INST ((GenFlagsSameSize SIZE_128BIT) OR FLAGS_MODRM OR FLAGS_XMM_FLAGS) 0,
     entry 0x63 1 ''PACKSSWB'' TYPE_INST ((GenFlagsSameSize SIZE_128BIT) OR FLAGS_MODRM OR FLAGS_XMM_FLAGS) 0,
     entry 0x64 1 ''PCMPGTB'' TYPE_INST ((GenFlagsSameSize SIZE_128BIT) OR FLAGS_MODRM OR FLAGS_XMM_FLAGS) 0,
     entry 0x65 1 ''PCMPGTW'' TYPE_INST ((GenFlagsSameSize SIZE_128BIT) OR FLAGS_MODRM OR FLAGS_XMM_FLAGS) 0,
     entry 0x66 1 ''PCMPGTD'' TYPE_INST ((GenFlagsSameSize SIZE_128BIT) OR FLAGS_MODRM OR FLAGS_XMM_FLAGS) 0,
     entry 0x67 1 ''PACKUSWB'' TYPE_INST ((GenFlagsSameSize SIZE_128BIT) OR FLAGS_MODRM OR FLAGS_XMM_FLAGS) 0,
     entry 0x68 1 ''PUNPCKHBW'' TYPE_INST ((GenFlagsSameSize SIZE_128BIT) OR FLAGS_MODRM OR FLAGS_XMM_FLAGS) 0,
     entry 0x69 1 ''PUNPCKHWD'' TYPE_INST ((GenFlagsSameSize SIZE_128BIT) OR FLAGS_MODRM OR FLAGS_XMM_FLAGS) 0,
     entry 0x6A 1 ''PUNPCKHDQ'' TYPE_INST ((GenFlagsSameSize SIZE_128BIT) OR FLAGS_MODRM OR FLAGS_XMM_FLAGS) 0,
     entry 0x6B 1 ''PACKSSDW'' TYPE_INST ((GenFlagsSameSize SIZE_128BIT) OR FLAGS_MODRM OR FLAGS_XMM_FLAGS) 0,
     entry 0x6C 1 ''PUNPCKLQDQ'' TYPE_INST ((GenFlagsSameSize SIZE_128BIT) OR FLAGS_MODRM OR FLAGS_XMM_FLAGS) 0,
     entry 0x6D 1 ''PUNPCKHQDQ'' TYPE_INST ((GenFlagsSameSize SIZE_128BIT) OR FLAGS_MODRM OR FLAGS_XMM_FLAGS) 0,
     entry 0x6E 1 ''MOVD'' TYPE_INST ((GenFlagsDstSize SIZE_128BIT) OR FLAGS_MODRM OR FLAGS_SF_SRC_GPR OR FLAGS_XMM_FLAGS) 0,
     entry 0x6F 1 ''MOVDQA'' TYPE_INST ((GenFlagsSameSize SIZE_128BIT) OR FLAGS_MODRM OR FLAGS_XMM_FLAGS) 0,
     entry 0x70 1 ''PSHUFD'' TYPE_INST ((GenFlagsSameSize SIZE_128BIT) OR FLAGS_MODRM OR FLAGS_XMM_FLAGS) 1,
     entry 0x71 3 '''' TYPE_COPY_OTHER FLAGS_NONE 0,
     entry 0x74 1 ''PCMPEQB'' TYPE_INST ((GenFlagsSameSize SIZE_128BIT) OR FLAGS_MODRM OR FLAGS_XMM_FLAGS) 0,
     entry 0x75 1 ''PCMPEQW'' TYPE_INST ((GenFlagsSameSize SIZE_128BIT) OR FLAGS_MODRM OR FLAGS_XMM_FLAGS) 0,
     entry 0x76 1 ''PCMPEQD'' TYPE_INST ((GenFlagsSameSize SIZE_128BIT) OR FLAGS_MODRM OR FLAGS_XMM_FLAGS) 0,
     entry 0x77 1 '''' TYPE_INVALID FLAGS_NONE 0,
     entry 0x78 1 '''' TYPE_GROUP_17 FLAGS_NONE 0,
     entry 0x79 1 ''EXTRQ'' TYPE_INST ((GenFlagsSameSize SIZE_128BIT) OR FLAGS_MODRM OR FLAGS_SF_MOD_REG_ONLY OR FLAGS_XMM_FLAGS) 0,
     entry 0x7A 2 '''' TYPE_INVALID FLAGS_NONE 0,
     entry 0x7C 1 ''HADDPD'' TYPE_INST ((GenFlagsSameSize SIZE_128BIT) OR FLAGS_MODRM OR FLAGS_XMM_FLAGS) 0,
     entry 0x7D 1 ''HSUBPD'' TYPE_INST ((GenFlagsSameSize SIZE_128BIT) OR FLAGS_MODRM OR FLAGS_XMM_FLAGS) 0,
     entry 0x7E 1 ''MOVD'' TYPE_INST ((GenFlagsSrcSize SIZE_128BIT) OR FLAGS_MODRM OR FLAGS_SF_MOD_DST OR FLAGS_SF_DST_GPR OR FLAGS_XMM_FLAGS) 0,
     entry 0x7F 1 ''MOVDQA'' TYPE_INST ((GenFlagsSameSize SIZE_128BIT) OR FLAGS_MODRM OR FLAGS_SF_MOD_DST OR FLAGS_XMM_FLAGS) 0,
     entry 0x80 16 '''' TYPE_COPY_OTHER FLAGS_NONE 0,
     entry 0x90 16 '''' TYPE_COPY_OTHER FLAGS_NONE 0,
     entry 0xA0 16 '''' TYPE_COPY_OTHER FLAGS_NONE 0,
     entry 0xB0 8 '''' TYPE_COPY_OTHER FLAGS_NONE 0,
     entry 0xB8 1 '''' TYPE_INVALID FLAGS_NONE 0,
     entry 0xB9 1 '''' TYPE_COPY_OTHER FLAGS_NONE 0,
     entry 0xBA 1 '''' TYPE_COPY_OTHER FLAGS_NONE 0,
     entry 0xBB 5 '''' TYPE_INVALID FLAGS_NONE 0,
     entry 0xC0 2 '''' TYPE_COPY_OTHER FLAGS_NONE 0,
     entry 0xC2 1 ''CMPPD'' TYPE_INST ((GenFlagsSameSize SIZE_128BIT) OR FLAGS_MODRM OR FLAGS_XMM_FLAGS) 1,
     entry 0xC3 1 '''' TYPE_INVALID FLAGS_NONE 0,
     entry 0xC4 1 ''PINSRW'' TYPE_INST ((GenFlagsSizes SIZE_128BIT SIZE_16BIT) OR FLAGS_MODRM OR FLAGS_SF_SRC_GPR OR FLAGS_XMM_FLAGS) 1,
     entry 0xC5 1 ''PEXTRW'' TYPE_INST ((GenFlagsSizes SIZE_32BIT SIZE_128BIT) OR FLAGS_MODRM OR FLAGS_SF_MOD_REG_ONLY OR FLAGS_SF_DST_GPR OR FLAGS_XMM_FLAGS) 1,
     entry 0xC6 1 ''SHUFPD'' TYPE_INST ((GenFlagsSameSize SIZE_128BIT) OR FLAGS_MODRM OR FLAGS_XMM_FLAGS) 1,
     entry 0xC7 1 '''' TYPE_INVALID FLAGS_NONE 0,
     entry 0xC8 8 '''' TYPE_COPY_OTHER FLAGS_NONE 0,
     entry 0xD0 1 ''ADDSUBPD'' TYPE_INST ((GenFlagsSameSize SIZE_128BIT) OR FLAGS_MODRM OR FLAGS_XMM_FLAGS) 0,
     entry 0xD1 1 ''PSRLW'' TYPE_INST ((GenFlagsSameSize SIZE_128BIT) OR FLAGS_MODRM OR FLAGS_XMM_FLAGS) 0,
     entry 0xD2 1 ''PSRLD'' TYPE_INST ((GenFlagsSameSize SIZE_128BIT) OR FLAGS_MODRM OR FLAGS_XMM_FLAGS) 0,
     entry 0xD3 1 ''PSRLQ'' TYPE_INST ((GenFlagsSameSize SIZE_128BIT) OR FLAGS_MODRM OR FLAGS_XMM_FLAGS) 0,
     entry 0xD4 1 ''PADDQ'' TYPE_INST ((GenFlagsSameSize SIZE_128BIT) OR FLAGS_MODRM OR FLAGS_XMM_FLAGS) 0,
     entry 0xD5 1 ''PMULLW'' TYPE_INST ((GenFlagsSameSize SIZE_128BIT) OR FLAGS_MODRM OR FLAGS_XMM_FLAGS) 0,
     entry 0xD6 1 ''MOVQ'' TYPE_INST ((GenFlagsSizes SIZE_64BIT SIZE_128BIT) OR FLAGS_MODRM OR FLAGS_SF_MOD_DST OR FLAGS_XMM_FLAGS) 0,
     entry 0xD7 1 ''PMOVMSKB'' TYPE_INST ((GenFlagsSizes SIZE_32BIT SIZE_128BIT) OR FLAGS_MODRM OR FLAGS_SF_MOD_REG_ONLY OR FLAGS_XMM_FLAGS OR FLAGS_SF_DST_GPR) 0,
     entry 0xD8 1 ''PSUBUSB'' TYPE_INST ((GenFlagsSameSize SIZE_128BIT) OR FLAGS_MODRM OR FLAGS_XMM_FLAGS) 0,
     entry 0xD9 1 ''PSUBUSW'' TYPE_INST ((GenFlagsSameSize SIZE_128BIT) OR FLAGS_MODRM OR FLAGS_XMM_FLAGS) 0,
     entry 0xDA 1 ''PMINUB'' TYPE_INST ((GenFlagsSameSize SIZE_128BIT) OR FLAGS_MODRM OR FLAGS_XMM_FLAGS) 0,
     entry 0xDB 1 ''PAND'' TYPE_INST ((GenFlagsSameSize SIZE_128BIT) OR FLAGS_MODRM OR FLAGS_XMM_FLAGS) 0,
     entry 0xDC 1 ''PADDUSB'' TYPE_INST ((GenFlagsSameSize SIZE_128BIT) OR FLAGS_MODRM OR FLAGS_XMM_FLAGS) 0,
     entry 0xDD 1 ''PADDUSW'' TYPE_INST ((GenFlagsSameSize SIZE_128BIT) OR FLAGS_MODRM OR FLAGS_XMM_FLAGS) 0,
     entry 0xDE 1 ''PMAXUB'' TYPE_INST ((GenFlagsSameSize SIZE_128BIT) OR FLAGS_MODRM OR FLAGS_XMM_FLAGS) 0,
     entry 0xDF 1 ''PANDN'' TYPE_INST ((GenFlagsSameSize SIZE_128BIT) OR FLAGS_MODRM OR FLAGS_XMM_FLAGS) 0,
     entry 0xE0 1 ''PAVGB'' TYPE_INST ((GenFlagsSameSize SIZE_128BIT) OR FLAGS_MODRM OR FLAGS_XMM_FLAGS) 0,
     entry 0xE1 1 ''PSRAW'' TYPE_INST ((GenFlagsSameSize SIZE_128BIT) OR FLAGS_MODRM OR FLAGS_XMM_FLAGS) 0,
     entry 0xE2 1 ''PSRAD'' TYPE_INST ((GenFlagsSameSize SIZE_128BIT) OR FLAGS_MODRM OR FLAGS_XMM_FLAGS) 0,
     entry 0xE3 1 ''PAVGW'' TYPE_INST ((GenFlagsSameSize SIZE_128BIT) OR FLAGS_MODRM OR FLAGS_XMM_FLAGS) 0,
     entry 0xE4 1 ''PMULHUW'' TYPE_INST ((GenFlagsSameSize SIZE_128BIT) OR FLAGS_MODRM OR FLAGS_XMM_FLAGS) 0,
     entry 0xE5 1 ''PMULHW'' TYPE_INST ((GenFlagsSameSize SIZE_128BIT) OR FLAGS_MODRM OR FLAGS_XMM_FLAGS) 0,
     entry 0xE6 1 ''CVTTPD2DQ'' TYPE_INST ((GenFlagsSameSize SIZE_128BIT) OR FLAGS_MODRM OR FLAGS_XMM_FLAGS) 0,
     entry 0xE7 1 ''MOVNTDQ'' TYPE_INST ((GenFlagsSameSize SIZE_128BIT) OR FLAGS_MODRM OR FLAGS_SF_MOD_MEM_ONLY OR FLAGS_SF_MOD_DST OR FLAGS_XMM_FLAGS) 0,
     entry 0xE8 1 ''PSUBSB'' TYPE_INST ((GenFlagsSameSize SIZE_128BIT) OR FLAGS_MODRM OR FLAGS_XMM_FLAGS) 0,
     entry 0xE9 1 ''PSUBSW'' TYPE_INST ((GenFlagsSameSize SIZE_128BIT) OR FLAGS_MODRM OR FLAGS_XMM_FLAGS) 0,
     entry 0xEA 1 ''PMINSW'' TYPE_INST ((GenFlagsSameSize SIZE_128BIT) OR FLAGS_MODRM OR FLAGS_XMM_FLAGS) 0,
     entry 0xEB 1 ''POR'' TYPE_INST ((GenFlagsSameSize SIZE_128BIT) OR FLAGS_MODRM OR FLAGS_XMM_FLAGS) 0,
     entry 0xEC 1 ''PADDSB'' TYPE_INST ((GenFlagsSameSize SIZE_128BIT) OR FLAGS_MODRM OR FLAGS_XMM_FLAGS) 0,
     entry 0xED 1 ''PADDSW'' TYPE_INST ((GenFlagsSameSize SIZE_128BIT) OR FLAGS_MODRM OR FLAGS_XMM_FLAGS) 0,
     entry 0xEE 1 ''PMAXSW'' TYPE_INST ((GenFlagsSameSize SIZE_128BIT) OR FLAGS_MODRM OR FLAGS_XMM_FLAGS) 0,
     entry 0xEF 1 ''PXOR'' TYPE_INST ((GenFlagsSameSize SIZE_128BIT) OR FLAGS_MODRM OR FLAGS_XMM_FLAGS) 0,
     entry 0xF0 1 '''' TYPE_INVALID FLAGS_NONE 0,
     entry 0xF1 1 ''PSLLW'' TYPE_INST ((GenFlagsSameSize SIZE_128BIT) OR FLAGS_MODRM OR FLAGS_XMM_FLAGS) 0,
     entry 0xF2 1 ''PSLLD'' TYPE_INST ((GenFlagsSameSize SIZE_128BIT) OR FLAGS_MODRM OR FLAGS_XMM_FLAGS) 0,
     entry 0xF3 1 ''PSLLQ'' TYPE_INST ((GenFlagsSameSize SIZE_128BIT) OR FLAGS_MODRM OR FLAGS_XMM_FLAGS) 0,
     entry 0xF4 1 ''PMULUDQ'' TYPE_INST ((GenFlagsSameSize SIZE_128BIT) OR FLAGS_MODRM OR FLAGS_XMM_FLAGS) 0,
     entry 0xF5 1 ''PMADDWD'' TYPE_INST ((GenFlagsSameSize SIZE_128BIT) OR FLAGS_MODRM OR FLAGS_XMM_FLAGS) 0,
     entry 0xF6 1 ''PSADBW'' TYPE_INST ((GenFlagsSameSize SIZE_128BIT) OR FLAGS_MODRM OR FLAGS_XMM_FLAGS) 0,
     entry 0xF7 1 ''MASKMOVDQU'' TYPE_INST ((GenFlagsSameSize SIZE_128BIT) OR FLAGS_MODRM OR FLAGS_SF_MOD_REG_ONLY OR FLAGS_XMM_FLAGS) 0,
     entry 0xF8 1 ''PSUBB'' TYPE_INST ((GenFlagsSameSize SIZE_128BIT) OR FLAGS_MODRM OR FLAGS_XMM_FLAGS) 0,
     entry 0xF9 1 ''PSUBW'' TYPE_INST ((GenFlagsSameSize SIZE_128BIT) OR FLAGS_MODRM OR FLAGS_XMM_FLAGS) 0,
     entry 0xFA 1 ''PSUBD'' TYPE_INST ((GenFlagsSameSize SIZE_128BIT) OR FLAGS_MODRM OR FLAGS_XMM_FLAGS) 0,
     entry 0xFB 1 ''PSUBQ'' TYPE_INST ((GenFlagsSameSize SIZE_128BIT) OR FLAGS_MODRM OR FLAGS_XMM_FLAGS) 0,
     entry 0xFC 1 ''PADDB'' TYPE_INST ((GenFlagsSameSize SIZE_128BIT) OR FLAGS_MODRM OR FLAGS_XMM_FLAGS) 0,
     entry 0xFD 1 ''PADDW'' TYPE_INST ((GenFlagsSameSize SIZE_128BIT) OR FLAGS_MODRM OR FLAGS_XMM_FLAGS) 0,
     entry 0xFE 1 ''PADDD'' TYPE_INST ((GenFlagsSameSize SIZE_128BIT) OR FLAGS_MODRM OR FLAGS_XMM_FLAGS) 0,
     entry 0xFF 1 '''' TYPE_COPY_OTHER FLAGS_NONE 0]"

definition OpDispatch_SecondaryOpSizeModTables :: "DispatchTableEntry list" where
  "OpDispatch_SecondaryOpSizeModTables =
    [dispatch 0x10 2 (Handler ''MOVVectorUnalignedOp''),
     dispatch 0x12 2 (Handler ''MOVLPOp''),
     dispatch 0x14 1 (Bind ''PUNPCKLOp'' [''i64Bit'']),
     dispatch 0x15 1 (Bind ''PUNPCKHOp'' [''i64Bit'']),
     dispatch 0x16 2 (Handler ''MOVHPDOp''),
     dispatch 0x28 2 (Handler ''MOVVectorAlignedOp''),
     dispatch 0x2A 1 (Handler ''MMX_To_XMM_Vector_CVT_Int_To_Float''),
     dispatch 0x2B 1 (Bind ''MOVVectorNTOp'' [''false'']),
     dispatch 0x2C 1 (Bind ''XMM_To_MMX_Vector_CVT_Float_To_Int'' [''i64Bit'', ''false'']),
     dispatch 0x2D 1 (Bind ''XMM_To_MMX_Vector_CVT_Float_To_Int'' [''i64Bit'', ''true'']),
     dispatch 0x2E 2 (Bind ''UCOMISxOp'' [''i64Bit'']),
     dispatch 0x50 1 (Bind ''MOVMSKOp'' [''i64Bit'']),
     dispatch 0x51 1 (Bind ''VectorUnaryOp'' [''OP_VFSQRT'', ''i64Bit'']),
     dispatch 0x54 1 (Bind ''VectorALUOp'' [''OP_VAND'', ''i128Bit'']),
     dispatch 0x55 1 (Bind ''VectorALUROp'' [''OP_VANDN'', ''i64Bit'']),
     dispatch 0x56 1 (Bind ''VectorALUOp'' [''OP_VOR'', ''i128Bit'']),
     dispatch 0x57 1 (Handler ''VectorXOROp''),
     dispatch 0x58 1 (Bind ''VectorALUOp'' [''OP_VFADD'', ''i64Bit'']),
     dispatch 0x59 1 (Bind ''VectorALUOp'' [''OP_VFMUL'', ''i64Bit'']),
     dispatch 0x5A 1 (Bind ''Vector_CVT_Float_To_Float'' [''i32Bit'', ''i64Bit'', ''false'']),
     dispatch 0x5B 1 (Bind ''Vector_CVT_Float_To_Int'' [''i32Bit'', ''true'', ''false'']),
     dispatch 0x5C 1 (Bind ''VectorALUOp'' [''OP_VFSUB'', ''i64Bit'']),
     dispatch 0x5D 1 (Bind ''VectorALUOp'' [''OP_VFMIN'', ''i64Bit'']),
     dispatch 0x5E 1 (Bind ''VectorALUOp'' [''OP_VFDIV'', ''i64Bit'']),
     dispatch 0x5F 1 (Bind ''VectorALUOp'' [''OP_VFMAX'', ''i64Bit'']),
     dispatch 0x60 1 (Bind ''PUNPCKLOp'' [''i8Bit'']),
     dispatch 0x61 1 (Bind ''PUNPCKLOp'' [''i16Bit'']),
     dispatch 0x62 1 (Bind ''PUNPCKLOp'' [''i32Bit'']),
     dispatch 0x63 1 (Bind ''PACKSSOp'' [''i16Bit'']),
     dispatch 0x64 1 (Bind ''VectorALUOp'' [''OP_VCMPGT'', ''i8Bit'']),
     dispatch 0x65 1 (Bind ''VectorALUOp'' [''OP_VCMPGT'', ''i16Bit'']),
     dispatch 0x66 1 (Bind ''VectorALUOp'' [''OP_VCMPGT'', ''i32Bit'']),
     dispatch 0x67 1 (Bind ''PACKUSOp'' [''i16Bit'']),
     dispatch 0x68 1 (Bind ''PUNPCKHOp'' [''i8Bit'']),
     dispatch 0x69 1 (Bind ''PUNPCKHOp'' [''i16Bit'']),
     dispatch 0x6A 1 (Bind ''PUNPCKHOp'' [''i32Bit'']),
     dispatch 0x6B 1 (Bind ''PACKSSOp'' [''i32Bit'']),
     dispatch 0x6C 1 (Bind ''PUNPCKLOp'' [''i64Bit'']),
     dispatch 0x6D 1 (Bind ''PUNPCKHOp'' [''i64Bit'']),
     dispatch 0x6E 1 (Bind ''MOVBetweenGPR_FPR'' [''SSE'']),
     dispatch 0x6F 1 (Handler ''MOVVectorAlignedOp''),
     dispatch 0x70 1 (Handler ''PSHUFDOp''),
     dispatch 0x74 1 (Bind ''VectorALUOp'' [''OP_VCMPEQ'', ''i8Bit'']),
     dispatch 0x75 1 (Bind ''VectorALUOp'' [''OP_VCMPEQ'', ''i16Bit'']),
     dispatch 0x76 1 (Bind ''VectorALUOp'' [''OP_VCMPEQ'', ''i32Bit'']),
     null_dispatch 0x78 1,
     dispatch 0x79 1 (Handler ''Extrq''),
     dispatch 0x7C 1 (Bind ''VectorALUOp'' [''OP_VFADDP'', ''i64Bit'']),
     dispatch 0x7D 1 (Bind ''HSUBP'' [''i64Bit'']),
     dispatch 0x7E 1 (Bind ''MOVBetweenGPR_FPR'' [''SSE'']),
     dispatch 0x7F 1 (Handler ''MOVVectorAlignedOp''),
     dispatch 0xC2 1 (Bind ''VFCMPOp'' [''i64Bit'']),
     dispatch 0xC4 1 (Bind ''PINSROp'' [''i16Bit'']),
     dispatch 0xC5 1 (Bind ''PExtrOp'' [''i16Bit'']),
     dispatch 0xC6 1 (Bind ''SHUFOp'' [''i64Bit'']),
     dispatch 0xD0 1 (Bind ''ADDSUBPOp'' [''i64Bit'']),
     dispatch 0xD1 1 (Bind ''PSRLDOp'' [''i16Bit'']),
     dispatch 0xD2 1 (Bind ''PSRLDOp'' [''i32Bit'']),
     dispatch 0xD3 1 (Bind ''PSRLDOp'' [''i64Bit'']),
     dispatch 0xD4 1 (Bind ''VectorALUOp'' [''OP_VADD'', ''i64Bit'']),
     dispatch 0xD5 1 (Bind ''VectorALUOp'' [''OP_VMUL'', ''i16Bit'']),
     dispatch 0xD6 1 (Bind ''MOVQOp'' [''SSE'']),
     dispatch 0xD7 1 (Handler ''MOVMSKOpOne''),
     dispatch 0xD8 1 (Bind ''VectorALUOp'' [''OP_VUQSUB'', ''i8Bit'']),
     dispatch 0xD9 1 (Bind ''VectorALUOp'' [''OP_VUQSUB'', ''i16Bit'']),
     dispatch 0xDA 1 (Bind ''VectorALUOp'' [''OP_VUMIN'', ''i8Bit'']),
     dispatch 0xDB 1 (Bind ''VectorALUOp'' [''OP_VAND'', ''i128Bit'']),
     dispatch 0xDC 1 (Bind ''VectorALUOp'' [''OP_VUQADD'', ''i8Bit'']),
     dispatch 0xDD 1 (Bind ''VectorALUOp'' [''OP_VUQADD'', ''i16Bit'']),
     dispatch 0xDE 1 (Bind ''VectorALUOp'' [''OP_VUMAX'', ''i8Bit'']),
     dispatch 0xDF 1 (Bind ''VectorALUROp'' [''OP_VANDN'', ''i64Bit'']),
     dispatch 0xE0 1 (Bind ''VectorALUOp'' [''OP_VURAVG'', ''i8Bit'']),
     dispatch 0xE1 1 (Bind ''PSRAOp'' [''i16Bit'']),
     dispatch 0xE2 1 (Bind ''PSRAOp'' [''i32Bit'']),
     dispatch 0xE3 1 (Bind ''VectorALUOp'' [''OP_VURAVG'', ''i16Bit'']),
     dispatch 0xE4 1 (Bind ''PMULHW'' [''false'']),
     dispatch 0xE5 1 (Bind ''PMULHW'' [''true'']),
     dispatch 0xE6 1 (Bind ''Vector_CVT_Float_To_Int'' [''i64Bit'', ''false'', ''false'']),
     dispatch 0xE7 1 (Bind ''MOVVectorNTOp'' [''false'']),
     dispatch 0xE8 1 (Bind ''VectorALUOp'' [''OP_VSQSUB'', ''i8Bit'']),
     dispatch 0xE9 1 (Bind ''VectorALUOp'' [''OP_VSQSUB'', ''i16Bit'']),
     dispatch 0xEA 1 (Bind ''VectorALUOp'' [''OP_VSMIN'', ''i16Bit'']),
     dispatch 0xEB 1 (Bind ''VectorALUOp'' [''OP_VOR'', ''i128Bit'']),
     dispatch 0xEC 1 (Bind ''VectorALUOp'' [''OP_VSQADD'', ''i8Bit'']),
     dispatch 0xED 1 (Bind ''VectorALUOp'' [''OP_VSQADD'', ''i16Bit'']),
     dispatch 0xEE 1 (Bind ''VectorALUOp'' [''OP_VSMAX'', ''i16Bit'']),
     dispatch 0xEF 1 (Handler ''VectorXOROp''),
     dispatch 0xF1 1 (Bind ''PSLL'' [''i16Bit'']),
     dispatch 0xF2 1 (Bind ''PSLL'' [''i32Bit'']),
     dispatch 0xF3 1 (Bind ''PSLL'' [''i64Bit'']),
     dispatch 0xF4 1 (Bind ''PMULLOp'' [''i32Bit'', ''false'']),
     dispatch 0xF5 1 (Handler ''PMADDWD''),
     dispatch 0xF6 1 (Handler ''PSADBW''),
     dispatch 0xF7 1 (Handler ''MASKMOVOp''),
     dispatch 0xF8 1 (Bind ''VectorALUOp'' [''OP_VSUB'', ''i8Bit'']),
     dispatch 0xF9 1 (Bind ''VectorALUOp'' [''OP_VSUB'', ''i16Bit'']),
     dispatch 0xFA 1 (Bind ''VectorALUOp'' [''OP_VSUB'', ''i32Bit'']),
     dispatch 0xFB 1 (Bind ''VectorALUOp'' [''OP_VSUB'', ''i64Bit'']),
     dispatch 0xFC 1 (Bind ''VectorALUOp'' [''OP_VADD'', ''i8Bit'']),
     dispatch 0xFD 1 (Bind ''VectorALUOp'' [''OP_VADD'', ''i16Bit'']),
     dispatch 0xFE 1 (Bind ''VectorALUOp'' [''OP_VADD'', ''i32Bit''])]"

definition OpSizeModOps_build :: "table option" where
  "OpSizeModOps_build =
     do { Other \<leftarrow> SecondBaseOps_build;
          Table \<leftarrow> GenerateTableWithCopy OpSizeModOpTable Other (replicate 256 zero_info);
          InstallToTable OpDispatch_SecondaryOpSizeModTables Table }"

section \<open>The tables are well-formed\<close>

lemma SecondBaseOps_ok: "table_ok TwoByteOpTable OpDispatch_TwoByteOpTable 256"
  unfolding table_ok_def disjoint_ranges_def table_appends TwoByteOpTable_def TwoByteOpTable_1_def TwoByteOpTable_2_def OpDispatch_TwoByteOpTable_def
  by (simp add: Let_def table_evals  cong: table_weaks)

lemma RepModOps_ok: "table_ok RepModOpTable OpDispatch_SecondaryRepModTables 256"
  unfolding table_ok_def disjoint_ranges_def table_appends RepModOpTable_def OpDispatch_SecondaryRepModTables_def
  by (simp add: Let_def table_evals  cong: table_weaks)

lemma RepNEModOps_ok: "table_ok RepNEModOpTable OpDispatch_SecondaryRepNEModTables 256"
  unfolding table_ok_def disjoint_ranges_def table_appends RepNEModOpTable_def OpDispatch_SecondaryRepNEModTables_def
  by (simp add: Let_def table_evals  cong: table_weaks)

lemma OpSizeModOps_ok: "table_ok OpSizeModOpTable OpDispatch_SecondaryOpSizeModTables 256"
  unfolding table_ok_def disjoint_ranges_def table_appends OpSizeModOpTable_def OpDispatch_SecondaryOpSizeModTables_def
  by (simp add: Let_def table_evals  cong: table_weaks)

section \<open>Every instruction has a handler\<close>

text \<open>Up to the listed ranges of indices.\<close>

lemma SecondBaseOps_handled: "handled TwoByteOpTable OpDispatch_TwoByteOpTable [(0xFF, 1)]"
  unfolding handled_def covers_def handler_appends TwoByteOpTable_def TwoByteOpTable_1_def TwoByteOpTable_2_def OpDispatch_TwoByteOpTable_def
  by (simp add: Let_def table_evals
    Secondary_LUT_05_def Secondary_LUT_A0_def Secondary_LUT_A1_def Secondary_LUT_A8_def
    Secondary_LUT_A9_def cong: handler_weaks)

lemma SecondBaseOps_lacking: "lacking TwoByteOpTable OpDispatch_TwoByteOpTable 256 [(0xFF, 1)]"
  unfolding lacking_def covers_def disjoint_ranges_def handler_appends TwoByteOpTable_def TwoByteOpTable_1_def TwoByteOpTable_2_def
    OpDispatch_TwoByteOpTable_def
  by (simp add: Let_def table_evals
    Secondary_LUT_05_def Secondary_LUT_A0_def Secondary_LUT_A1_def Secondary_LUT_A8_def
    Secondary_LUT_A9_def cong: handler_weaks)

lemma RepModOps_handled: "handled RepModOpTable OpDispatch_SecondaryRepModTables []"
  unfolding handled_def covers_def handler_appends RepModOpTable_def OpDispatch_SecondaryRepModTables_def
  by (simp add: Let_def table_evals  cong: handler_weaks)

lemma RepNEModOps_handled: "handled RepNEModOpTable OpDispatch_SecondaryRepNEModTables []"
  unfolding handled_def covers_def handler_appends RepNEModOpTable_def OpDispatch_SecondaryRepNEModTables_def
  by (simp add: Let_def table_evals  cong: handler_weaks)

lemma OpSizeModOps_handled: "handled OpSizeModOpTable OpDispatch_SecondaryOpSizeModTables [(0x78, 1)]"
  unfolding handled_def covers_def handler_appends OpSizeModOpTable_def OpDispatch_SecondaryOpSizeModTables_def
  by (simp add: Let_def table_evals  cong: handler_weaks)

end
