(* ===== verification/GroupTables.thy ===== *)
theory GroupTables
  imports TableBuild
begin

text \<open>
  The groups of the two-byte table (\<open>SecondaryGroupTables\<close>) and their extension by register
  forms of ModRM (\<open>SecondaryModRMTables\<close>), entry by entry.
\<close>

section \<open>The secondary groups\<close>

definition PF_NONE :: nat where "PF_NONE = 0"
definition PF_F3 :: nat where "PF_F3 = 1"
definition PF_66 :: nat where "PF_66 = 2"
definition PF_F2 :: nat where "PF_F2 = 3"

definition OPD_SecondGroup :: "InstType \<Rightarrow> nat \<Rightarrow> nat \<Rightarrow> nat" where
  "OPD_SecondGroup grp prefix Reg =
     push_bit 5 (InstType_num grp - InstType_num TYPE_GROUP_6) OR push_bit 3 prefix OR Reg"

definition SecondGroup_LUT_15_F3_0 :: "X86InstInfo \<times> X86InstInfo" where
  "SecondGroup_LUT_15_F3_0 =
    (X86InstInfo '''' TYPE_INVALID FLAGS_NONE 0 (OpDispatch None),
     X86InstInfo ''RDFSBASE'' TYPE_INST (FLAGS_MODRM OR FLAGS_SF_MOD_DST OR FLAGS_SF_MOD_REG_ONLY) 0 (OpDispatch (Some (Bind ''ReadSegmentReg'' [''FS'']))))"

definition SecondGroup_LUT_15_F3_1 :: "X86InstInfo \<times> X86InstInfo" where
  "SecondGroup_LUT_15_F3_1 =
    (X86InstInfo '''' TYPE_INVALID FLAGS_NONE 0 (OpDispatch None),
     X86InstInfo ''RDGSBASE'' TYPE_INST (FLAGS_MODRM OR FLAGS_SF_MOD_DST OR FLAGS_SF_MOD_REG_ONLY) 0 (OpDispatch (Some (Bind ''ReadSegmentReg'' [''GS'']))))"

definition SecondGroup_LUT_15_F3_2 :: "X86InstInfo \<times> X86InstInfo" where
  "SecondGroup_LUT_15_F3_2 =
    (X86InstInfo '''' TYPE_INVALID FLAGS_NONE 0 (OpDispatch None),
     X86InstInfo ''WRFSBASE'' TYPE_INST ((GenFlagsDstSize SIZE_64BIT) OR FLAGS_MODRM OR FLAGS_SF_MOD_REG_ONLY) 0 (OpDispatch (Some (Bind ''WriteSegmentReg'' [''FS'']))))"

definition SecondGroup_LUT_15_F3_3 :: "X86InstInfo \<times> X86InstInfo" where
  "SecondGroup_LUT_15_F3_3 =
    (X86InstInfo '''' TYPE_INVALID FLAGS_NONE 0 (OpDispatch None),
     X86InstInfo ''WRGSBASE'' TYPE_INST ((GenFlagsDstSize SIZE_64BIT) OR FLAGS_MODRM OR FLAGS_SF_MOD_REG_ONLY) 0 (OpDispatch (Some (Bind ''WriteSegmentReg'' [''GS'']))))"

definition SecondaryExtensionOpTable_1 :: "X86TablesInfoStruct list" where
  "SecondaryExtensionOpTable_1 =
    [entry (OPD_SecondGroup TYPE_GROUP_6 PF_NONE 0) 1 ''SLDT'' TYPE_UNDEC (FLAGS_MODRM OR FLAGS_SF_MOD_DST) 0,
     entry (OPD_SecondGroup TYPE_GROUP_6 PF_NONE 1) 1 ''STR'' TYPE_PRIV (FLAGS_MODRM OR FLAGS_SF_MOD_DST) 0,
     entry (OPD_SecondGroup TYPE_GROUP_6 PF_NONE 2) 1 ''LLDT'' TYPE_PRIV FLAGS_NONE 0,
     entry (OPD_SecondGroup TYPE_GROUP_6 PF_NONE 3) 1 ''LTR'' TYPE_INST FLAGS_NONE 0,
     entry (OPD_SecondGroup TYPE_GROUP_6 PF_NONE 4) 1 ''VERR'' TYPE_UNDEC FLAGS_MODRM 0,
     entry (OPD_SecondGroup TYPE_GROUP_6 PF_NONE 5) 1 ''VERW'' TYPE_UNDEC FLAGS_MODRM 0,
     entry (OPD_SecondGroup TYPE_GROUP_6 PF_NONE 6) 1 '''' TYPE_INVALID FLAGS_NONE 0,
     entry (OPD_SecondGroup TYPE_GROUP_6 PF_NONE 7) 1 '''' TYPE_INVALID FLAGS_NONE 0,
     entry (OPD_SecondGroup TYPE_GROUP_6 PF_F3 0) 1 ''SLDT'' TYPE_UNDEC (FLAGS_MODRM OR FLAGS_SF_MOD_DST) 0,
     entry (OPD_SecondGroup TYPE_GROUP_6 PF_F3 1) 1 ''STR'' TYPE_PRIV (FLAGS_MODRM OR FLAGS_SF_MOD_DST) 0,
     entry (OPD_SecondGroup TYPE_GROUP_6 PF_F3 2) 1 ''LLDT'' TYPE_PRIV FLAGS_NONE 0,
     entry (OPD_SecondGroup TYPE_GROUP_6 PF_F3 3) 1 ''LTR'' TYPE_INST FLAGS_NONE 0,
     entry (OPD_SecondGroup TYPE_GROUP_6 PF_F3 4) 1 ''VERR'' TYPE_UNDEC FLAGS_MODRM 0,
     entry (OPD_SecondGroup TYPE_GROUP_6 PF_F3 5) 1 ''VERW'' TYPE_UNDEC FLAGS_MODRM 0,
     entry (OPD_SecondGroup TYPE_GROUP_6 PF_F3 6) 1 '''' TYPE_INVALID FLAGS_NONE 0,
     entry (OPD_SecondGroup TYPE_GROUP_6 PF_F3 7) 1 '''' TYPE_INVALID FLAGS_NONE 0,
     entry (OPD_SecondGroup TYPE_GROUP_6 PF_66 0) 1 ''SLDT'' TYPE_UNDEC (FLAGS_MODRM OR FLAGS_SF_MOD_DST) 0,
     entry (OPD_SecondGroup TYPE_GROUP_6 PF_66 1) 1 ''STR'' TYPE_PRIV (FLAGS_MODRM OR FLAGS_SF_MOD_DST) 0,
     entry (OPD_SecondGroup TYPE_GROUP_6 PF_66 2) 1 ''LLDT'' TYPE_PRIV FLAGS_NONE 0,
     entry (OPD_SecondGroup TYPE_GROUP_6 PF_66 3) 1 ''LTR'' TYPE_INST FLAGS_NONE 0,
     entry (OPD_SecondGroup TYPE_GROUP_6 PF_66 4) 1 ''VERR'' TYPE_UNDEC FLAGS_MODRM 0,
     entry (OPD_SecondGroup TYPE_GROUP_6 PF_66 5) 1 ''VERW'' TYPE_UNDEC FLAGS_MODRM 0,
     entry (OPD_SecondGroup TYPE_GROUP_6 PF_66 6) 1 '''' TYPE_INVALID FLAGS_NONE 0,
     entry (OPD_SecondGroup TYPE_GROUP_6 PF_66 7) 1 '''' TYPE_INVALID FLAGS_NONE 0,
     entry (OPD_SecondGroup TYPE_GROUP_6 PF_F2 0) 1 ''SLDT'' TYPE_UNDEC (FLAGS_MODRM OR FLAGS_SF_MOD_DST) 0,
     entry (OPD_SecondGroup TYPE_GROUP_6 PF_F2 1) 1 ''STR'' TYPE_PRIV (FLAGS_MODRM OR FLAGS_SF_MOD_DST) 0,
     entry (OPD_SecondGroup TYPE_GROUP_6 PF_F2 2) 1 ''LLDT'' TYPE_PRIV FLAGS_NONE 0,
     entry (OPD_SecondGroup TYPE_GROUP_6 PF_F2 3) 1 ''LTR'' TYPE_INST FLAGS_NONE 0,
     entry (OPD_SecondGroup TYPE_GROUP_6 PF_F2 4) 1 ''VERR'' TYPE_UNDEC FLAGS_MODRM 0,
     entry (OPD_SecondGroup TYPE_GROUP_6 PF_F2 5) 1 ''VERW'' TYPE_UNDEC FLAGS_MODRM 0,
     entry (OPD_SecondGroup TYPE_GROUP_6 PF_F2 6) 1 '''' TYPE_INVALID FLAGS_NONE 0,
     entry (OPD_SecondGroup TYPE_GROUP_6 PF_F2 7) 1 '''' TYPE_INVALID FLAGS_NONE 0,
     entry (OPD_SecondGroup TYPE_GROUP_7 PF_NONE 0) 1 ''SGDT'' TYPE_SECOND_GROUP_MODRM (FLAGS_MODRM OR FLAGS_SF_MOD_DST) 0,
     entry (OPD_SecondGroup TYPE_GROUP_7 PF_NONE 1) 1 ''SIDT'' TYPE_SECOND_GROUP_MODRM (FLAGS_MODRM OR FLAGS_SF_MOD_DST) 0,
     entry (OPD_SecondGroup TYPE_GROUP_7 PF_NONE 2) 1 '''' TYPE_SECOND_GROUP_MODRM FLAGS_NONE 0,
     entry (OPD_SecondGroup TYPE_GROUP_7 PF_NONE 3) 1 '''' TYPE_SECOND_GROUP_MODRM FLAGS_NONE 0,
     entry (OPD_SecondGroup TYPE_GROUP_7 PF_NONE 4) 1 ''SMSW'' TYPE_INST (FLAGS_MODRM OR FLAGS_SF_MOD_DST) 0,
     entry (OPD_SecondGroup TYPE_GROUP_7 PF_NONE 5) 1 '''' TYPE_INVALID FLAGS_NONE 0,
     entry (OPD_SecondGroup TYPE_GROUP_7 PF_NONE 6) 1 ''LMSW'' TYPE_INST FLAGS_MODRM 0,
     entry (OPD_SecondGroup TYPE_GROUP_7 PF_NONE 7) 1 ''INVLPG'' TYPE_SECOND_GROUP_MODRM (FLAGS_MODRM OR FLAGS_SF_MOD_DST) 0,
     entry (OPD_SecondGroup TYPE_GROUP_7 PF_F3 0) 1 ''SGDT'' TYPE_SECOND_GROUP_MODRM (FLAGS_MODRM OR FLAGS_SF_MOD_DST) 0,
     entry (OPD_SecondGroup TYPE_GROUP_7 PF_F3 1) 1 ''SIDT'' TYPE_SECOND_GROUP_MODRM (FLAGS_MODRM OR FLAGS_SF_MOD_DST) 0,
     entry (OPD_SecondGroup TYPE_GROUP_7 PF_F3 2) 1 '''' TYPE_SECOND_GROUP_MODRM FLAGS_NONE 0,
     entry (OPD_SecondGroup TYPE_GROUP_7 PF_F3 3) 1 '''' TYPE_SECOND_GROUP_MODRM FLAGS_NONE 0,
     entry (OPD_SecondGroup TYPE_GROUP_7 PF_F3 4) 1 ''SMSW'' TYPE_INST (FLAGS_MODRM OR FLAGS_SF_MOD_DST) 0,
     entry (OPD_SecondGroup TYPE_GROUP_7 PF_F3 5) 1 '''' TYPE_INVALID FLAGS_NONE 0,
     entry (OPD_SecondGroup TYPE_GROUP_7 PF_F3 6) 1 ''LMSW'' TYPE_INST FLAGS_MODRM 0,
     entry (OPD_SecondGroup TYPE_GROUP_7 PF_F3 7) 1 ''INVLPG'' TYPE_SECOND_GROUP_MODRM (FLAGS_MODRM OR FLAGS_SF_MOD_DST) 0,
     entry (OPD_SecondGroup TYPE_GROUP_7 PF_66 0) 1 ''SGDT'' TYPE_SECOND_GROUP_MODRM (FLAGS_MODRM OR FLAGS_SF_MOD_DST) 0,
     entry (OPD_SecondGroup TYPE_GROUP_7 PF_66 1) 1 ''SIDT'' TYPE_SECOND_GROUP_MODRM (FLAGS_MODRM OR FLAGS_SF_MOD_DST) 0,
     entry (OPD_SecondGroup TYPE_GROUP_7 PF_66 2) 1 '''' TYPE_SECOND_GROUP_MODRM FLAGS_NONE 0,
     entry (OPD_SecondGroup TYPE_GROUP_7 PF_66 3) 1 '''' TYPE_SECOND_GROUP_MODRM FLAGS_NONE 0,
     entry (OPD_SecondGroup TYPE_GROUP_7 PF_66 4) 1 ''SMSW'' TYPE_INST (FLAGS_MODRM OR FLAGS_SF_MOD_DST) 0,
     entry (OPD_SecondGroup TYPE_GROUP_7 PF_66 5) 1 '''' TYPE_INVALID FLAGS_NONE 0,
     entry (OPD_SecondGroup TYPE_GROUP_7 PF_66 6) 1 ''LMSW'' TYPE_INST FLAGS_MODRM 0,
     entry (OPD_SecondGroup TYPE_GROUP_7 PF_66 7) 1 ''INVLPG'' TYPE_SECOND_GROUP_MODRM (FLAGS_MODRM OR FLAGS_SF_MOD_DST) 0,
     entry (OPD_SecondGroup TYPE_GROUP_7 PF_F2 0) 1 ''SGDT'' TYPE_SECOND_GROUP_MODRM (FLAGS_MODRM OR FLAGS_SF_MOD_DST) 0,
     entry (OPD_SecondGroup TYPE_GROUP_7 PF_F2 1) 1 ''SIDT'' TYPE_SECOND_GROUP_MODRM (FLAGS_MODRM OR FLAGS_SF_MOD_DST) 0,
     entry (OPD_SecondGroup TYPE_GROUP_7 PF_F2 2) 1 '''' TYPE_SECOND_GROUP_MODRM FLAGS_NONE 0,
     entry (OPD_SecondGroup TYPE_GROUP_7 PF_F2 3) 1 '''' TYPE_SECOND_GROUP_MODRM FLAGS_NONE 0,
     entry (OPD_SecondGroup TYPE_GROUP_7 PF_F2 4) 1 ''SMSW'' TYPE_INST (FLAGS_MODRM OR FLAGS_SF_MOD_DST) 0,
     entry (OPD_SecondGroup TYPE_GROUP_7 PF_F2 5) 1 '''' TYPE_INVALID FLAGS_NONE 0,
     entry (OPD_SecondGroup TYPE_GROUP_7 PF_F2 6) 1 ''LMSW'' TYPE_INST FLAGS_MODRM 0,
     entry (OPD_SecondGroup TYPE_GROUP_7 PF_F2 7) 1 ''INVLPG'' TYPE_SECOND_GROUP_MODRM (FLAGS_MODRM OR FLAGS_SF_MOD_DST) 0,
     entry (OPD_SecondGroup TYPE_GROUP_8 PF_NONE 0) 1 '''' TYPE_INVALID FLAGS_NONE 0,
     entry (OPD_SecondGroup TYPE_GROUP_8 PF_NONE 1) 1 '''' TYPE_INVALID FLAGS_NONE 0,
     entry (OPD_SecondGroup TYPE_GROUP_8 PF_NONE 2) 1 '''' TYPE_INVALID FLAGS_NONE 0,
     entry (OPD_SecondGroup TYPE_GROUP_8 PF_NONE 3) 1 '''' TYPE_INVALID FLAGS_NONE 0,
     entry (OPD_SecondGroup TYPE_GROUP_8 PF_NONE 4) 1 ''BT'' TYPE_INST (FLAGS_MODRM OR FLAGS_SF_MOD_DST OR FLAGS_SUPPORTS_LOCK) 1,
     entry (OPD_SecondGroup TYPE_GROUP_8 PF_NONE 5) 1 ''BTS'' TYPE_INST (FLAGS_MODRM OR FLAGS_SF_MOD_DST OR FLAGS_SUPPORTS_LOCK) 1,
     entry (OPD_SecondGroup TYPE_GROUP_8 PF_NONE 6) 1 ''BTR'' TYPE_INST (FLAGS_MODRM OR FLAGS_SF_MOD_DST OR FLAGS_SUPPORTS_LOCK) 1,
     entry (OPD_SecondGroup TYPE_GROUP_8 PF_NONE 7) 1 ''BTC'' TYPE_INST (FLAGS_MODRM OR FLAGS_SF_MOD_DST OR FLAGS_SUPPORTS_LOCK) 1,
     entry (OPD_SecondGroup TYPE_GROUP_8 PF_F3 0) 1 '''' TYPE_INVALID FLAGS_NONE 0,
     entry (OPD_SecondGroup TYPE_GROUP_8 PF_F3 1) 1 '''' TYPE_INVALID FLAGS_NONE 0,
     entry (OPD_SecondGroup TYPE_GROUP_8 PF_F3 2) 1 '''' TYPE_INVALID FLAGS_NONE 0,
     entry (OPD_SecondGroup TYPE_GROUP_8 PF_F3 3) 1 '''' TYPE_INVALID FLAGS_NONE 0,
     entry (OPD_SecondGroup TYPE_GROUP_8 PF_F3 4) 1 ''BT'' TYPE_INST (FLAGS_MODRM OR FLAGS_SF_MOD_DST OR FLAGS_SUPPORTS_LOCK) 1,
     entry (OPD_SecondGroup TYPE_GROUP_8 PF_F3 5) 1 ''BTS'' TYPE_INST (FLAGS_MODRM OR FLAGS_SF_MOD_DST OR FLAGS_SUPPORTS_LOCK) 1,
     entry (OPD_SecondGroup TYPE_GROUP_8 PF_F3 6) 1 ''BTR'' TYPE_INST (FLAGS_MODRM OR FLAGS_SF_MOD_DST OR FLAGS_SUPPORTS_LOCK) 1,
     entry (OPD_SecondGroup TYPE_GROUP_8 PF_F3 7) 1 ''BTC'' TYPE_INST (FLAGS_MODRM OR FLAGS_SF_MOD_DST OR FLAGS_SUPPORTS_LOCK) 1,
     entry (OPD_SecondGroup TYPE_GROUP_8 PF_66 0) 1 '''' TYPE_INVALID FLAGS_NONE 0,
     entry (OPD_SecondGroup TYPE_GROUP_8 PF_66 1) 1 '''' TYPE_INVALID FLAGS_NONE 0,
     entry (OPD_SecondGroup TYPE_GROUP_8 PF_66 2) 1 '''' TYPE_INVALID FLAGS_NONE 0,
     entry (OPD_SecondGroup TYPE_GROUP_8 PF_66 3) 1 '''' TYPE_INVALID FLAGS_NONE 0,
     entry (OPD_SecondGroup TYPE_GROUP_8 PF_66 4) 1 ''BT'' TYPE_INST (FLAGS_MODRM OR FLAGS_SF_MOD_DST OR FLAGS_SUPPORTS_LOCK) 1,
     entry (OPD_SecondGroup TYPE_GROUP_8 PF_66 5) 1 ''BTS'' TYPE_INST (FLAGS_MODRM OR FLAGS_SF_MOD_DST OR FLAGS_SUPPORTS_LOCK) 1,
     entry (OPD_SecondGroup TYPE_GROUP_8 PF_66 6) 1 ''BTR'' TYPE_INST (FLAGS_MODRM OR FLAGS_SF_MOD_DST OR FLAGS_SUPPORTS_LOCK) 1,
     entry (OPD_SecondGroup TYPE_GROUP_8 PF_66 7) 1 ''BTC'' TYPE_INST (FLAGS_MODRM OR FLAGS_SF_MOD_DST OR FLAGS_SUPPORTS_LOCK) 1,
     entry (OPD_SecondGroup TYPE_GROUP_8 PF_F2 0) 1 '''' TYPE_INVALID FLAGS_NONE 0,
     entry (OPD_SecondGroup TYPE_GROUP_8 PF_F2 1) 1 '''' TYPE_INVALID FLAGS_NONE 0,
     entry (OPD_SecondGroup TYPE_GROUP_8 PF_F2 2) 1 '''' TYPE_INVALID FLAGS_NONE 0,
     entry (OPD_SecondGroup TYPE_GROUP_8 PF_F2 3) 1 '''' TYPE_INVALID FLAGS_NONE 0,
     entry (OPD_SecondGroup TYPE_GROUP_8 PF_F2 4) 1 ''BT'' TYPE_INST (FLAGS_MODRM OR FLAGS_SF_MOD_DST OR FLAGS_SUPPORTS_LOCK) 1,
     entry (OPD_SecondGroup TYPE_GROUP_8 PF_F2 5) 1 ''BTS'' TYPE_INST (FLAGS_MODRM OR FLAGS_SF_MOD_DST OR FLAGS_SUPPORTS_LOCK) 1,
     entry (OPD_SecondGroup TYPE_GROUP_8 PF_F2 6) 1 ''BTR'' TYPE_INST (FLAGS_MODRM OR FLAGS_SF_MOD_DST OR FLAGS_SUPPORTS_LOCK) 1,
     entry (OPD_SecondGroup TYPE_GROUP_8 PF_F2 7) 1 ''BTC'' TYPE_INST (FLAGS_MODRM OR FLAGS_SF_MOD_DST OR FLAGS_SUPPORTS_LOCK) 1,
     entry (OPD_SecondGroup TYPE_GROUP_9 PF_NONE 0) 1 '''' TYPE_INVALID FLAGS_NONE 0,
     entry (OPD_SecondGroup TYPE_GROUP_9 PF_NONE 1) 1 ''CMPXCHG8B/16B'' TYPE_INST (FLAGS_MODRM OR FLAGS_SF_MOD_DST OR FLAGS_SF_MOD_MEM_ONLY OR FLAGS_SUPPORTS_LOCK) 0,
     entry (OPD_SecondGroup TYPE_GROUP_9 PF_NONE 2) 1 '''' TYPE_INVALID FLAGS_NONE 0,
     entry (OPD_SecondGroup TYPE_GROUP_9 PF_NONE 3) 1 '''' TYPE_INVALID FLAGS_NONE 0,
     entry (OPD_SecondGroup TYPE_GROUP_9 PF_NONE 4) 1 '''' TYPE_INVALID FLAGS_NONE 0,
     entry (OPD_SecondGroup TYPE_GROUP_9 PF_NONE 5) 1 '''' TYPE_INVALID FLAGS_NONE 0,
     entry (OPD_SecondGroup TYPE_GROUP_9 PF_NONE 6) 1 ''RDRAND'' TYPE_INST (FLAGS_MODRM OR FLAGS_SF_MOD_DST OR FLAGS_SF_MOD_REG_ONLY) 0,
     entry (OPD_SecondGroup TYPE_GROUP_9 PF_NONE 7) 1 ''RDSEED'' TYPE_INST (FLAGS_MODRM OR FLAGS_SF_MOD_DST OR FLAGS_SF_MOD_REG_ONLY) 0,
     entry (OPD_SecondGroup TYPE_GROUP_9 PF_F3 0) 1 '''' TYPE_INVALID FLAGS_NONE 0,
     entry (OPD_SecondGroup TYPE_GROUP_9 PF_F3 1) 1 ''CMPXCHG8B/16B'' TYPE_INST (FLAGS_MODRM OR FLAGS_SF_MOD_DST OR FLAGS_SF_MOD_MEM_ONLY OR FLAGS_SUPPORTS_LOCK) 0,
     entry (OPD_SecondGroup TYPE_GROUP_9 PF_F3 2) 1 '''' TYPE_INVALID FLAGS_NONE 0,
     entry (OPD_SecondGroup TYPE_GROUP_9 PF_F3 3) 1 '''' TYPE_INVALID FLAGS_NONE 0,
     entry (OPD_SecondGroup TYPE_GROUP_9 PF_F3 4) 1 '''' TYPE_INVALID FLAGS_NONE 0,
     entry (OPD_SecondGroup TYPE_GROUP_9 PF_F3 5) 1 '''' TYPE_INVALID FLAGS_NONE 0,
     entry (OPD_SecondGroup TYPE_GROUP_9 PF_F3 6) 1 '''' TYPE_INVALID FLAGS_NONE 0,
     entry (OPD_SecondGroup TYPE_GROUP_9 PF_F3 7) 1 ''RDPID'' TYPE_INST (FLAGS_MODRM OR FLAGS_SF_MOD_DST OR FLAGS_SF_MOD_REG_ONLY) 0,
     entry (OPD_SecondGroup TYPE_GROUP_9 PF_66 0) 1 '''' TYPE_INVALID FLAGS_NONE 0,
     entry (OPD_SecondGroup TYPE_GROUP_9 PF_66 1) 1 ''CMPXCHG8B/16B'' TYPE_INST (FLAGS_MODRM OR FLAGS_SF_MOD_DST OR FLAGS_SF_MOD_MEM_ONLY OR FLAGS_SUPPORTS_LOCK) 0,
     entry (OPD_SecondGroup TYPE_GROUP_9 PF_66 2) 1 '''' TYPE_INVALID FLAGS_NONE 0,
     entry (OPD_SecondGroup TYPE_GROUP_9 PF_66 3) 1 '''' TYPE_INVALID FLAGS_NONE 0,
     entry (OPD_SecondGroup TYPE_GROUP_9 PF_66 4) 1 '''' TYPE_INVALID FLAGS_NONE 0,
     entry (OPD_SecondGroup TYPE_GROUP_9 PF_66 5) 1 '''' TYPE_INVALID FLAGS_NONE 0,
     entry (OPD_SecondGroup TYPE_GROUP_9 PF_66 6) 1 ''RDRAND'' TYPE_INST (FLAGS_MODRM OR FLAGS_SF_MOD_DST OR FLAGS_SF_MOD_REG_ONLY) 0,
     entry (OPD_SecondGroup TYPE_GROUP_9 PF_66 7) 1 ''RDSEED'' TYPE_INST (FLAGS_MODRM OR FLAGS_SF_MOD_DST OR FLAGS_SF_MOD_REG_ONLY) 0,
     entry (OPD_SecondGroup TYPE_GROUP_9 PF_F2 0) 1 '''' TYPE_INVALID FLAGS_NONE 0,
     entry (OPD_SecondGroup TYPE_GROUP_9 PF_F2 1) 1 ''CMPXCHG8B/16B'' TYPE_INST (FLAGS_MODRM OR FLAGS_SF_MOD_DST OR FLAGS_SF_MOD_MEM_ONLY OR FLAGS_SUPPORTS_LOCK) 0,
     entry (OPD_SecondGroup TYPE_GROUP_9 PF_F2 2) 1 '''' TYPE_INVALID FLAGS_NONE 0,
     entry (OPD_SecondGroup TYPE_GROUP_9 PF_F2 3) 1 '''' TYPE_INVALID FLAGS_NONE 0,
     entry (OPD_SecondGroup TYPE_GROUP_9 PF_F2 4) 1 '''' TYPE_INVALID FLAGS_NONE 0,
     entry (OPD_SecondGroup TYPE_GROUP_9 PF_F2 5) 1 '''' TYPE_INVALID FLAGS_NONE 0]"

definition SecondaryExtensionOpTable_2 :: "X86TablesInfoStruct list" where
  "SecondaryExtensionOpTable_2 =
    [entry (OPD_SecondGroup TYPE_GROUP_9 PF_F2 6) 1 '''' TYPE_INVALID FLAGS_NONE 0,
     entry (OPD_SecondGroup TYPE_GROUP_9 PF_F2 7) 1 '''' TYPE_INVALID FLAGS_NONE 0,
     entry (OPD_SecondGroup TYPE_GROUP_10 PF_NONE 0) 1 ''UD1'' TYPE_INST FLAGS_BLOCK_END 0,
     entry (OPD_SecondGroup TYPE_GROUP_10 PF_NONE 1) 1 ''UD1'' TYPE_INST FLAGS_BLOCK_END 0,
     entry (OPD_SecondGroup TYPE_GROUP_10 PF_NONE 2) 1 ''UD1'' TYPE_INST FLAGS_BLOCK_END 0,
     entry (OPD_SecondGroup TYPE_GROUP_10 PF_NONE 3) 1 ''UD1'' TYPE_INST FLAGS_BLOCK_END 0,
     entry (OPD_SecondGroup TYPE_GROUP_10 PF_NONE 4) 1 ''UD1'' TYPE_INST FLAGS_BLOCK_END 0,
     entry (OPD_SecondGroup TYPE_GROUP_10 PF_NONE 5) 1 ''UD1'' TYPE_INST FLAGS_BLOCK_END 0,
     entry (OPD_SecondGroup TYPE_GROUP_10 PF_NONE 6) 1 ''UD1'' TYPE_INST FLAGS_BLOCK_END 0,
     entry (OPD_SecondGroup TYPE_GROUP_10 PF_NONE 7) 1 ''UD1'' TYPE_INST FLAGS_BLOCK_END 0,
     entry (OPD_SecondGroup TYPE_GROUP_10 PF_F3 0) 1 ''UD1'' TYPE_INST FLAGS_BLOCK_END 0,
     entry (OPD_SecondGroup TYPE_GROUP_10 PF_F3 1) 1 ''UD1'' TYPE_INST FLAGS_BLOCK_END 0,
     entry (OPD_SecondGroup TYPE_GROUP_10 PF_F3 2) 1 ''UD1'' TYPE_INST FLAGS_BLOCK_END 0,
     entry (OPD_SecondGroup TYPE_GROUP_10 PF_F3 3) 1 ''UD1'' TYPE_INST FLAGS_BLOCK_END 0,
     entry (OPD_SecondGroup TYPE_GROUP_10 PF_F3 4) 1 ''UD1'' TYPE_INST FLAGS_BLOCK_END 0,
     entry (OPD_SecondGroup TYPE_GROUP_10 PF_F3 5) 1 ''UD1'' TYPE_INST FLAGS_BLOCK_END 0,
     entry (OPD_SecondGroup TYPE_GROUP_10 PF_F3 6) 1 ''UD1'' TYPE_INST FLAGS_BLOCK_END 0,
     entry (OPD_SecondGroup TYPE_GROUP_10 PF_F3 7) 1 ''UD1'' TYPE_INST FLAGS_BLOCK_END 0,
     entry (OPD_SecondGroup TYPE_GROUP_10 PF_66 0) 1 ''UD1'' TYPE_INST FLAGS_BLOCK_END 0,
     entry (OPD_SecondGroup TYPE_GROUP_10 PF_66 1) 1 ''UD1'' TYPE_INST FLAGS_BLOCK_END 0,
     entry (OPD_SecondGroup TYPE_GROUP_10 PF_66 2) 1 ''UD1'' TYPE_INST FLAGS_BLOCK_END 0,
     entry (OPD_SecondGroup TYPE_GROUP_10 PF_66 3) 1 ''UD1'' TYPE_INST FLAGS_BLOCK_END 0,
     entry (OPD_SecondGroup TYPE_GROUP_10 PF_66 4) 1 ''UD1'' TYPE_INST FLAGS_BLOCK_END 0,
     entry (OPD_SecondGroup TYPE_GROUP_10 PF_66 5) 1 ''UD1'' TYPE_INST FLAGS_BLOCK_END 0,
     entry (OPD_SecondGroup TYPE_GROUP_10 PF_66 6) 1 ''UD1'' TYPE_INST FLAGS_BLOCK_END 0,
     entry (OPD_SecondGroup TYPE_GROUP_10 PF_66 7) 1 ''UD1'' TYPE_INST FLAGS_BLOCK_END 0,
     entry (OPD_SecondGroup TYPE_GROUP_10 PF_F2 0) 1 ''UD1'' TYPE_INST FLAGS_BLOCK_END 0,
     entry (OPD_SecondGroup TYPE_GROUP_10 PF_F2 1) 1 ''UD1'' TYPE_INST FLAGS_BLOCK_END 0,
     entry (OPD_SecondGroup TYPE_GROUP_10 PF_F2 2) 1 ''UD1'' TYPE_INST FLAGS_BLOCK_END 0,
     entry (OPD_SecondGroup TYPE_GROUP_10 PF_F2 3) 1 ''UD1'' TYPE_INST FLAGS_BLOCK_END 0,
     entry (OPD_SecondGroup TYPE_GROUP_10 PF_F2 4) 1 ''UD1'' TYPE_INST FLAGS_BLOCK_END 0,
     entry (OPD_SecondGroup TYPE_GROUP_10 PF_F2 5) 1 ''UD1'' TYPE_INST FLAGS_BLOCK_END 0,
     entry (OPD_SecondGroup TYPE_GROUP_10 PF_F2 6) 1 ''UD1'' TYPE_INST FLAGS_BLOCK_END 0,
     entry (OPD_SecondGroup TYPE_GROUP_10 PF_F2 7) 1 ''UD1'' TYPE_INST FLAGS_BLOCK_END 0,
     entry (OPD_SecondGroup TYPE_GROUP_12 PF_NONE 0) 1 '''' TYPE_INVALID FLAGS_NONE 0,
     entry (OPD_SecondGroup TYPE_GROUP_12 PF_NONE 1) 1 '''' TYPE_INVALID FLAGS_NONE 0,
     entry (OPD_SecondGroup TYPE_GROUP_12 PF_NONE 2) 1 ''PSRLW'' TYPE_INST ((GenFlagsSameSize SIZE_64BIT) OR FLAGS_MODRM OR FLAGS_SF_MOD_DST OR FLAGS_SF_MOD_REG_ONLY OR FLAGS_XMM_FLAGS OR FLAGS_SF_MMX) 1,
     entry (OPD_SecondGroup TYPE_GROUP_12 PF_NONE 3) 1 '''' TYPE_INVALID FLAGS_NONE 0,
     entry (OPD_SecondGroup TYPE_GROUP_12 PF_NONE 4) 1 ''PSRAW'' TYPE_INST ((GenFlagsSameSize SIZE_64BIT) OR FLAGS_MODRM OR FLAGS_SF_MOD_DST OR FLAGS_SF_MOD_REG_ONLY OR FLAGS_XMM_FLAGS OR FLAGS_SF_MMX) 1,
     entry (OPD_SecondGroup TYPE_GROUP_12 PF_NONE 5) 1 '''' TYPE_INVALID FLAGS_NONE 0,
     entry (OPD_SecondGroup TYPE_GROUP_12 PF_NONE 6) 1 ''PSLLW'' TYPE_INST ((GenFlagsSameSize SIZE_64BIT) OR FLAGS_MODRM OR FLAGS_SF_MOD_DST OR FLAGS_SF_MOD_REG_ONLY OR FLAGS_XMM_FLAGS OR FLAGS_SF_MMX) 1,
     entry (OPD_SecondGroup TYPE_GROUP_12 PF_NONE 7) 1 '''' TYPE_INVALID FLAGS_NONE 0,
     entry (OPD_SecondGroup TYPE_GROUP_12 PF_66 0) 1 '''' TYPE_INVALID FLAGS_NONE 0,
     entry (OPD_SecondGroup TYPE_GROUP_12 PF_66 1) 1 '''' TYPE_INVALID FLAGS_NONE 0,
     entry (OPD_SecondGroup TYPE_GROUP_12 PF_66 2) 1 ''PSRLW'' TYPE_INST ((GenFlagsSameSize SIZE_128BIT) OR FLAGS_MODRM OR FLAGS_SF_MOD_DST OR FLAGS_SF_MOD_REG_ONLY OR FLAGS_XMM_FLAGS) 1,
     entry (OPD_SecondGroup TYPE_GROUP_12 PF_66 3) 1 '''' TYPE_INVALID FLAGS_NONE 0,
     entry (OPD_SecondGroup TYPE_GROUP_12 PF_66 4) 1 ''PSRAW'' TYPE_INST ((GenFlagsSameSize SIZE_128BIT) OR FLAGS_MODRM OR FLAGS_SF_MOD_DST OR FLAGS_SF_MOD_REG_ONLY OR FLAGS_XMM_FLAGS) 1,
     entry (OPD_SecondGroup TYPE_GROUP_12 PF_66 5) 1 '''' TYPE_INVALID FLAGS_NONE 0,
     entry (OPD_SecondGroup TYPE_GROUP_12 PF_66 6) 1 ''PSLLW'' TYPE_INST ((GenFlagsSameSize SIZE_128BIT) OR FLAGS_MODRM OR FLAGS_SF_MOD_DST OR FLAGS_SF_MOD_REG_ONLY OR FLAGS_XMM_FLAGS) 1,
     entry (OPD_SecondGroup TYPE_GROUP_12 PF_66 7) 1 '''' TYPE_INVALID FLAGS_NONE 0,
     entry (OPD_SecondGroup TYPE_GROUP_12 PF_F3 0) 1 '''' TYPE_INVALID FLAGS_NONE 0,
     entry (OPD_SecondGroup TYPE_GROUP_12 PF_F3 1) 1 '''' TYPE_INVALID FLAGS_NONE 0,
     entry (OPD_SecondGroup TYPE_GROUP_12 PF_F3 2) 1 '''' TYPE_INVALID FLAGS_NONE 0,
     entry (OPD_SecondGroup TYPE_GROUP_12 PF_F3 3) 1 '''' TYPE_INVALID FLAGS_NONE 0,
     entry (OPD_SecondGroup TYPE_GROUP_12 PF_F3 4) 1 '''' TYPE_INVALID FLAGS_NONE 0,
     entry (OPD_SecondGroup TYPE_GROUP_12 PF_F3 5) 1 '''' TYPE_INVALID FLAGS_NONE 0,
     entry (OPD_SecondGroup TYPE_GROUP_12 PF_F3 6) 1 '''' TYPE_INVALID FLAGS_NONE 0,
     entry (OPD_SecondGroup TYPE_GROUP_12 PF_F3 7) 1 '''' TYPE_INVALID FLAGS_NONE 0,
     entry (OPD_SecondGroup TYPE_GROUP_12 PF_F2 0) 1 '''' TYPE_INVALID FLAGS_NONE 0,
     entry (OPD_SecondGroup TYPE_GROUP_12 PF_F2 1) 1 '''' TYPE_INVALID FLAGS_NONE 0,
     entry (OPD_SecondGroup TYPE_GROUP_12 PF_F2 2) 1 '''' TYPE_INVALID FLAGS_NONE 0,
     entry (OPD_SecondGroup TYPE_GROUP_12 PF_F2 3) 1 '''' TYPE_INVALID FLAGS_NONE 0,
     entry (OPD_SecondGroup TYPE_GROUP_12 PF_F2 4) 1 '''' TYPE_INVALID FLAGS_NONE 0,
     entry (OPD_SecondGroup TYPE_GROUP_12 PF_F2 5) 1 '''' TYPE_INVALID FLAGS_NONE 0,
     entry (OPD_SecondGroup TYPE_GROUP_12 PF_F2 6) 1 '''' TYPE_INVALID FLAGS_NONE 0,
     entry (OPD_SecondGroup TYPE_GROUP_12 PF_F2 7) 1 '''' TYPE_INVALID FLAGS_NONE 0,
     entry (OPD_SecondGroup TYPE_GROUP_13 PF_NONE 0) 1 '''' TYPE_INVALID FLAGS_NONE 0,
     entry (OPD_SecondGroup TYPE_GROUP_13 PF_NONE 1) 1 '''' TYPE_INVALID FLAGS_NONE 0,
     entry (OPD_SecondGroup TYPE_GROUP_13 PF_NONE 2) 1 ''PSRLD'' TYPE_INST ((GenFlagsSameSize SIZE_64BIT) OR FLAGS_MODRM OR FLAGS_SF_MOD_DST OR FLAGS_SF_MOD_REG_ONLY OR FLAGS_XMM_FLAGS OR FLAGS_SF_MMX) 1,
     entry (OPD_SecondGroup TYPE_GROUP_13 PF_NONE 3) 1 '''' TYPE_INVALID FLAGS_NONE 0,
     entry (OPD_SecondGroup TYPE_GROUP_13 PF_NONE 4) 1 ''PSRAD'' TYPE_INST ((GenFlagsSameSize SIZE_64BIT) OR FLAGS_MODRM OR FLAGS_SF_MOD_DST OR FLAGS_SF_MOD_REG_ONLY OR FLAGS_XMM_FLAGS OR FLAGS_SF_MMX) 1,
     entry (OPD_SecondGroup TYPE_GROUP_13 PF_NONE 5) 1 '''' TYPE_INVALID FLAGS_NONE 0,
     entry (OPD_SecondGroup TYPE_GROUP_13 PF_NONE 6) 1 ''PSLLD'' TYPE_INST ((GenFlagsSameSize SIZE_64BIT) OR FLAGS_MODRM OR FLAGS_SF_MOD_DST OR FLAGS_SF_MOD_REG_ONLY OR FLAGS_XMM_FLAGS OR FLAGS_SF_MMX) 1,
     entry (OPD_SecondGroup TYPE_GROUP_13 PF_NONE 7) 1 '''' TYPE_INVALID FLAGS_NONE 0,
     entry (OPD_SecondGroup TYPE_GROUP_13 PF_66 0) 1 '''' TYPE_INVALID FLAGS_NONE 0,
     entry (OPD_SecondGroup TYPE_GROUP_13 PF_66 1) 1 '''' TYPE_INVALID FLAGS_NONE 0,
     entry (OPD_SecondGroup TYPE_GROUP_13 PF_66 2) 1 ''PSRLD'' TYPE_INST ((GenFlagsSameSize SIZE_128BIT) OR FLAGS_MODRM OR FLAGS_SF_MOD_DST OR FLAGS_SF_MOD_REG_ONLY OR FLAGS_XMM_FLAGS) 1,
     entry (OPD_SecondGroup TYPE_GROUP_13 PF_66 3) 1 '''' TYPE_INVALID FLAGS_NONE 0,
     entry (OPD_SecondGroup TYPE_GROUP_13 PF_66 4) 1 ''PSRAD'' TYPE_INST ((GenFlagsSameSize SIZE_128BIT) OR FLAGS_MODRM OR FLAGS_SF_MOD_DST OR FLAGS_SF_MOD_REG_ONLY OR FLAGS_XMM_FLAGS) 1,
     entry (OPD_SecondGroup TYPE_GROUP_13 PF_66 5) 1 '''' TYPE_INVALID FLAGS_NONE 0,
     entry (OPD_SecondGroup TYPE_GROUP_13 PF_66 6) 1 ''PSLLD'' TYPE_INST ((GenFlagsSameSize SIZE_128BIT) OR FLAGS_MODRM OR FLAGS_SF_MOD_DST OR FLAGS_SF_MOD_REG_ONLY OR FLAGS_XMM_FLAGS) 1,
     entry (OPD_SecondGroup TYPE_GROUP_13 PF_66 7) 1 '''' TYPE_INVALID FLAGS_NONE 0,
     entry (OPD_SecondGroup TYPE_GROUP_13 PF_F3 0) 1 '''' TYPE_INVALID FLAGS_NONE 0,
     entry (OPD_SecondGroup TYPE_GROUP_13 PF_F3 1) 1 '''' TYPE_INVALID FLAGS_NONE 0,
     entry (OPD_SecondGroup TYPE_GROUP_13 PF_F3 2) 1 '''' TYPE_INVALID FLAGS_NONE 0,
     entry (OPD_SecondGroup TYPE_GROUP_13 PF_F3 3) 1 '''' TYPE_INVALID FLAGS_NONE 0,
     entry (OPD_SecondGroup TYPE_GROUP_13 PF_F3 4) 1 '''' TYPE_INVALID FLAGS_NONE 0,
     entry (OPD_SecondGroup TYPE_GROUP_13 PF_F3 5) 1 '''' TYPE_INVALID FLAGS_NONE 0,
     entry (OPD_SecondGroup TYPE_GROUP_13 PF_F3 6) 1 '''' TYPE_INVALID FLAGS_NONE 0,
     entry (OPD_SecondGroup TYPE_GROUP_13 PF_F3 7) 1 '''' TYPE_INVALID FLAGS_NONE 0,
     entry (OPD_SecondGroup TYPE_GROUP_13 PF_F2 0) 1 '''' TYPE_INVALID FLAGS_NONE 0,
     entry (OPD_SecondGroup TYPE_GROUP_13 PF_F2 1) 1 '''' TYPE_INVALID FLAGS_NONE 0,
     entry (OPD_SecondGroup TYPE_GROUP_13 PF_F2 2) 1 '''' TYPE_INVALID FLAGS_NONE 0,
     entry (OPD_SecondGroup TYPE_GROUP_13 PF_F2 3) 1 '''' TYPE_INVALID FLAGS_NONE 0,
     entry (OPD_SecondGroup TYPE_GROUP_13 PF_F2 4) 1 '''' TYPE_INVALID FLAGS_NONE 0,
     entry (OPD_SecondGroup TYPE_GROUP_13 PF_F2 5) 1 '''' TYPE_INVALID FLAGS_NONE 0,
     entry (OPD_SecondGroup TYPE_GROUP_13 PF_F2 6) 1 '''' TYPE_INVALID FLAGS_NONE 0,
     entry (OPD_SecondGroup TYPE_GROUP_13 PF_F2 7) 1 '''' TYPE_INVALID FLAGS_NONE 0,
     entry (OPD_SecondGroup TYPE_GROUP_14 PF_NONE 0) 1 '''' TYPE_INVALID FLAGS_NONE 0,
     entry (OPD_SecondGroup TYPE_GROUP_14 PF_NONE 1) 1 '''' TYPE_INVALID FLAGS_NONE 0,
     entry (OPD_SecondGroup TYPE_GROUP_14 PF_NONE 2) 1 ''PSRLQ'' TYPE_INST ((GenFlagsSameSize SIZE_64BIT) OR FLAGS_MODRM OR FLAGS_SF_MOD_DST OR FLAGS_SF_MOD_REG_ONLY OR FLAGS_XMM_FLAGS OR FLAGS_SF_MMX) 1,
     entry (OPD_SecondGroup TYPE_GROUP_14 PF_NONE 3) 1 '''' TYPE_INVALID FLAGS_NONE 0,
     entry (OPD_SecondGroup TYPE_GROUP_14 PF_NONE 4) 1 '''' TYPE_INVALID FLAGS_NONE 0,
     entry (OPD_SecondGroup TYPE_GROUP_14 PF_NONE 5) 1 '''' TYPE_INVALID FLAGS_NONE 0,
     entry (OPD_SecondGroup TYPE_GROUP_14 PF_NONE 6) 1 ''PSLLQ'' TYPE_INST ((GenFlagsSameSize SIZE_64BIT) OR FLAGS_MODRM OR FLAGS_SF_MOD_DST OR FLAGS_SF_MOD_REG_ONLY OR FLAGS_XMM_FLAGS OR FLAGS_SF_MMX) 1,
     entry (OPD_SecondGroup TYPE_GROUP_14 PF_NONE 7) 1 '''' TYPE_INVALID FLAGS_NONE 0,
     entry (OPD_SecondGroup TYPE_GROUP_14 PF_66 0) 1 '''' TYPE_INVALID FLAGS_NONE 0,
     entry (OPD_SecondGroup TYPE_GROUP_14 PF_66 1) 1 '''' TYPE_INVALID FLAGS_NONE 0,
     entry (OPD_SecondGroup TYPE_GROUP_14 PF_66 2) 1 ''PSRLQ'' TYPE_INST ((GenFlagsSameSize SIZE_128BIT) OR FLAGS_MODRM OR FLAGS_SF_MOD_DST OR FLAGS_SF_MOD_REG_ONLY OR FLAGS_XMM_FLAGS) 1,
     entry (OPD_SecondGroup TYPE_GROUP_14 PF_66 3) 1 ''PSRLDQ'' TYPE_INST ((GenFlagsSameSize SIZE_128BIT) OR FLAGS_MODRM OR FLAGS_SF_MOD_DST OR FLAGS_SF_MOD_REG_ONLY OR FLAGS_XMM_FLAGS) 1,
     entry (OPD_SecondGroup TYPE_GROUP_14 PF_66 4) 1 '''' TYPE_INVALID FLAGS_NONE 0,
     entry (OPD_SecondGroup TYPE_GROUP_14 PF_66 5) 1 '''' TYPE_INVALID FLAGS_NONE 0,
     entry (OPD_SecondGroup TYPE_GROUP_14 PF_66 6) 1 ''PSLLQ'' TYPE_INST ((GenFlagsSameSize SIZE_128BIT) OR FLAGS_MODRM OR FLAGS_SF_MOD_DST OR FLAGS_SF_MOD_REG_ONLY OR FLAGS_XMM_FLAGS) 1,
     entry (OPD_SecondGroup TYPE_GROUP_14 PF_66 7) 1 ''PSLLDQ'' TYPE_INST ((GenFlagsSameSize SIZE_128BIT) OR FLAGS_MODRM OR FLAGS_SF_MOD_DST OR FLAGS_SF_MOD_REG_ONLY OR FLAGS_XMM_FLAGS) 1,
     entry (OPD_SecondGroup TYPE_GROUP_14 PF_F3 0) 1 '''' TYPE_INVALID FLAGS_NONE 0,
     entry (OPD_SecondGroup TYPE_GROUP_14 PF_F3 1) 1 '''' TYPE_INVALID FLAGS_NONE 0,
     entry (OPD_SecondGroup TYPE_GROUP_14 PF_F3 2) 1 '''' TYPE_INVALID FLAGS_NONE 0,
     entry (OPD_SecondGroup TYPE_GROUP_14 PF_F3 3) 1 '''' TYPE_INVALID FLAGS_NONE 0,
     entry (OPD_SecondGroup TYPE_GROUP_14 PF_F3 4) 1 '''' TYPE_INVALID FLAGS_NONE 0,
     entry (OPD_SecondGroup TYPE_GROUP_14 PF_F3 5) 1 '''' TYPE_INVALID FLAGS_NONE 0,
     entry (OPD_SecondGroup TYPE_GROUP_14 PF_F3 6) 1 '''' TYPE_INVALID FLAGS_NONE 0,
     entry (OPD_SecondGroup TYPE_GROUP_14 PF_F3 7) 1 '''' TYPE_INVALID FLAGS_NONE 0,
     entry (OPD_SecondGroup TYPE_GROUP_14 PF_F2 0) 1 '''' TYPE_INVALID FLAGS_NONE 0,
     entry (OPD_SecondGroup TYPE_GROUP_14 PF_F2 1) 1 '''' TYPE_INVALID FLAGS_NONE 0,
     entry (OPD_SecondGroup TYPE_GROUP_14 PF_F2 2) 1 '''' TYPE_INVALID FLAGS_NONE 0,
     entry (OPD_SecondGroup TYPE_GROUP_14 PF_F2 3) 1 '''' TYPE_INVALID FLAGS_NONE 0,
     entry (OPD_SecondGroup TYPE_GROUP_14 PF_F2 4) 1 '''' TYPE_INVALID FLAGS_NONE 0,
     entry (OPD_SecondGroup TYPE_GROUP_14 PF_F2 5) 1 '''' TYPE_INVALID FLAGS_NONE 0,
     entry (OPD_SecondGroup TYPE_GROUP_14 PF_F2 6) 1 '''' TYPE_INVALID FLAGS_NONE 0,
     entry (OPD_SecondGroup TYPE_GROUP_14 PF_F2 7) 1 '''' TYPE_INVALID FLAGS_NONE 0]"

definition SecondaryExtensionOpTable_3 :: "X86TablesInfoStruct list" where
  "SecondaryExtensionOpTable_3 =
    [entry (OPD_SecondGroup TYPE_GROUP_15 PF_NONE 0) 1 ''FXSAVE'' TYPE_INST (FLAGS_MODRM OR FLAGS_SF_MOD_DST) 0,
     entry (OPD_SecondGroup TYPE_GROUP_15 PF_NONE 1) 1 ''FXRSTOR'' TYPE_INST FLAGS_MODRM 0,
     entry (OPD_SecondGroup TYPE_GROUP_15 PF_NONE 2) 1 ''LDMXCSR'' TYPE_INST ((GenFlagsSameSize SIZE_32BIT) OR FLAGS_MODRM OR FLAGS_SF_MOD_DST OR FLAGS_SF_MOD_MEM_ONLY) 0,
     entry (OPD_SecondGroup TYPE_GROUP_15 PF_NONE 3) 1 ''STMXCSR'' TYPE_INST ((GenFlagsSameSize SIZE_32BIT) OR FLAGS_MODRM OR FLAGS_SF_MOD_DST OR FLAGS_SF_MOD_MEM_ONLY) 0,
     entry (OPD_SecondGroup TYPE_GROUP_15 PF_NONE 4) 1 ''XSAVE'' TYPE_INST (FLAGS_MODRM OR FLAGS_SF_MOD_DST) 0,
     entry (OPD_SecondGroup TYPE_GROUP_15 PF_NONE 5) 1 ''LFENCE/XRSTOR'' TYPE_INST (FLAGS_MODRM OR FLAGS_SF_MOD_DST) 0,
     entry (OPD_SecondGroup TYPE_GROUP_15 PF_NONE 6) 1 ''MFENCE/XSAVEOPT'' TYPE_INST (FLAGS_MODRM OR FLAGS_SF_MOD_DST) 0,
     entry (OPD_SecondGroup TYPE_GROUP_15 PF_NONE 7) 1 ''SFENCE/CLFLUSH'' TYPE_INST (FLAGS_MODRM OR FLAGS_SF_MOD_DST) 0,
     arch_entry (OPD_SecondGroup TYPE_GROUP_15 PF_F3 0) 1 '''' FLAGS_NONE 0 SecondGroup_LUT_15_F3_0,
     arch_entry (OPD_SecondGroup TYPE_GROUP_15 PF_F3 1) 1 '''' FLAGS_NONE 0 SecondGroup_LUT_15_F3_1,
     arch_entry (OPD_SecondGroup TYPE_GROUP_15 PF_F3 2) 1 '''' FLAGS_NONE 0 SecondGroup_LUT_15_F3_2,
     arch_entry (OPD_SecondGroup TYPE_GROUP_15 PF_F3 3) 1 '''' FLAGS_NONE 0 SecondGroup_LUT_15_F3_3,
     entry (OPD_SecondGroup TYPE_GROUP_15 PF_F3 4) 1 '''' TYPE_INVALID FLAGS_NONE 0,
     entry (OPD_SecondGroup TYPE_GROUP_15 PF_F3 5) 1 ''INCSSPQ'' TYPE_INST FLAGS_MODRM 0,
     entry (OPD_SecondGroup TYPE_GROUP_15 PF_F3 6) 1 ''UMONITOR/CLRSSBSY'' TYPE_INST (FLAGS_MODRM OR FLAGS_SF_MOD_DST) 0,
     entry (OPD_SecondGroup TYPE_GROUP_15 PF_F3 7) 1 '''' TYPE_INVALID FLAGS_NONE 0,
     entry (OPD_SecondGroup TYPE_GROUP_15 PF_66 0) 1 '''' TYPE_INVALID FLAGS_NONE 0,
     entry (OPD_SecondGroup TYPE_GROUP_15 PF_66 1) 1 '''' TYPE_INVALID FLAGS_NONE 0,
     entry (OPD_SecondGroup TYPE_GROUP_15 PF_66 2) 1 '''' TYPE_INVALID FLAGS_NONE 0,
     entry (OPD_SecondGroup TYPE_GROUP_15 PF_66 3) 1 '''' TYPE_INVALID FLAGS_NONE 0,
     entry (OPD_SecondGroup TYPE_GROUP_15 PF_66 4) 1 '''' TYPE_INVALID FLAGS_NONE 0,
     entry (OPD_SecondGroup TYPE_GROUP_15 PF_66 5) 1 '''' TYPE_INVALID FLAGS_NONE 0,
     entry (OPD_SecondGroup TYPE_GROUP_15 PF_66 6) 1 ''CLWB'' TYPE_INST (FLAGS_MODRM OR FLAGS_SF_MOD_DST) 0,
     entry (OPD_SecondGroup TYPE_GROUP_15 PF_66 7) 1 ''CLFLUSHOPT'' TYPE_INST (FLAGS_MODRM OR FLAGS_SF_MOD_DST) 0,
     entry (OPD_SecondGroup TYPE_GROUP_15 PF_F2 0) 1 '''' TYPE_INVALID FLAGS_NONE 0,
     entry (OPD_SecondGroup TYPE_GROUP_15 PF_F2 1) 1 '''' TYPE_INVALID FLAGS_NONE 0,
     entry (OPD_SecondGroup TYPE_GROUP_15 PF_F2 2) 1 '''' TYPE_INVALID FLAGS_NONE 0,
     entry (OPD_SecondGroup TYPE_GROUP_15 PF_F2 3) 1 '''' TYPE_INVALID FLAGS_NONE 0,
     entry (OPD_SecondGroup TYPE_GROUP_15 PF_F2 4) 1 '''' TYPE_INVALID FLAGS_NONE 0,
     entry (OPD_SecondGroup TYPE_GROUP_15 PF_F2 5) 1 '''' TYPE_INVALID FLAGS_NONE 0,
     entry (OPD_SecondGroup TYPE_GROUP_15 PF_F2 6) 1 ''UMWAIT'' TYPE_INST (FLAGS_MODRM OR FLAGS_SF_MOD_DST) 0,
     entry (OPD_SecondGroup TYPE_GROUP_15 PF_F2 7) 1 '''' TYPE_INVALID FLAGS_NONE 0,
     entry (OPD_SecondGroup TYPE_GROUP_16 PF_NONE 0) 1 ''PREFETCH NTA'' TYPE_INST FLAGS_MODRM 0,
     entry (OPD_SecondGroup TYPE_GROUP_16 PF_NONE 1) 1 ''PREFETCH T0'' TYPE_INST FLAGS_MODRM 0,
     entry (OPD_SecondGroup TYPE_GROUP_16 PF_NONE 2) 1 ''PREFETCH T1'' TYPE_INST FLAGS_MODRM 0,
     entry (OPD_SecondGroup TYPE_GROUP_16 PF_NONE 3) 1 ''PREFETCH T2'' TYPE_INST FLAGS_MODRM 0,
     entry (OPD_SecondGroup TYPE_GROUP_16 PF_NONE 4) 1 ''NOP'' TYPE_INST FLAGS_MODRM 0,
     entry (OPD_SecondGroup TYPE_GROUP_16 PF_NONE 5) 1 ''NOP'' TYPE_INST FLAGS_MODRM 0,
     entry (OPD_SecondGroup TYPE_GROUP_16 PF_NONE 6) 1 ''NOP'' TYPE_INST FLAGS_MODRM 0,
     entry (OPD_SecondGroup TYPE_GROUP_16 PF_NONE 7) 1 ''NOP'' TYPE_INST FLAGS_MODRM 0,
     entry (OPD_SecondGroup TYPE_GROUP_16 PF_F3 0) 1 ''PREFETCH NTA'' TYPE_INST FLAGS_MODRM 0,
     entry (OPD_SecondGroup TYPE_GROUP_16 PF_F3 1) 1 ''PREFETCH T0'' TYPE_INST FLAGS_MODRM 0,
     entry (OPD_SecondGroup TYPE_GROUP_16 PF_F3 2) 1 ''PREFETCH T1'' TYPE_INST FLAGS_MODRM 0,
     entry (OPD_SecondGroup TYPE_GROUP_16 PF_F3 3) 1 ''PREFETCH T2'' TYPE_INST FLAGS_MODRM 0,
     entry (OPD_SecondGroup TYPE_GROUP_16 PF_F3 4) 1 ''NOP'' TYPE_INST FLAGS_MODRM 0,
     entry (OPD_SecondGroup TYPE_GROUP_16 PF_F3 5) 1 ''NOP'' TYPE_INST FLAGS_MODRM 0,
     entry (OPD_SecondGroup TYPE_GROUP_16 PF_F3 6) 1 ''NOP'' TYPE_INST FLAGS_MODRM 0,
     entry (OPD_SecondGroup TYPE_GROUP_16 PF_F3 7) 1 ''NOP'' TYPE_INST FLAGS_MODRM 0,
     entry (OPD_SecondGroup TYPE_GROUP_16 PF_66 0) 1 ''PREFETCH NTA'' TYPE_INST FLAGS_MODRM 0,
     entry (OPD_SecondGroup TYPE_GROUP_16 PF_66 1) 1 ''PREFETCH T0'' TYPE_INST FLAGS_MODRM 0,
     entry (OPD_SecondGroup TYPE_GROUP_16 PF_66 2) 1 ''PREFETCH T1'' TYPE_INST FLAGS_MODRM 0,
     entry (OPD_SecondGroup TYPE_GROUP_16 PF_66 3) 1 ''PREFETCH T2'' TYPE_INST FLAGS_MODRM 0,
     entry (OPD_SecondGroup TYPE_GROUP_16 PF_66 4) 1 ''NOP'' TYPE_INST FLAGS_MODRM 0,
     entry (OPD_SecondGroup TYPE_GROUP_16 PF_66 5) 1 ''NOP'' TYPE_INST FLAGS_MODRM 0,
     entry (OPD_SecondGroup TYPE_GROUP_16 PF_66 6) 1 ''NOP'' TYPE_INST FLAGS_MODRM 0,
     entry (OPD_SecondGroup TYPE_GROUP_16 PF_66 7) 1 ''NOP'' TYPE_INST FLAGS_MODRM 0,
     entry (OPD_SecondGroup TYPE_GROUP_16 PF_F2 0) 1 ''PREFETCH NTA'' TYPE_INST FLAGS_MODRM 0,
     entry (OPD_SecondGroup TYPE_GROUP_16 PF_F2 1) 1 ''PREFETCH T0'' TYPE_INST FLAGS_MODRM 0,
     entry (OPD_SecondGroup TYPE_GROUP_16 PF_F2 2) 1 ''PREFETCH T1'' TYPE_INST FLAGS_MODRM 0,
     entry (OPD_SecondGroup TYPE_GROUP_16 PF_F2 3) 1 ''PREFETCH T2'' TYPE_INST FLAGS_MODRM 0,
     entry (OPD_SecondGroup TYPE_GROUP_16 PF_F2 4) 1 ''NOP'' TYPE_INST FLAGS_MODRM 0,
     entry (OPD_SecondGroup TYPE_GROUP_16 PF_F2 5) 1 ''NOP'' TYPE_INST FLAGS_MODRM 0,
     entry (OPD_SecondGroup TYPE_GROUP_16 PF_F2 6) 1 ''NOP'' TYPE_INST FLAGS_MODRM 0,
     entry (OPD_SecondGroup TYPE_GROUP_16 PF_F2 7) 1 ''NOP'' TYPE_INST FLAGS_MODRM 0,
     entry (OPD_SecondGroup TYPE_GROUP_17 PF_NONE 0) 1 '''' TYPE_INVALID FLAGS_NONE 0,
     entry (OPD_SecondGroup TYPE_GROUP_17 PF_NONE 1) 1 '''' TYPE_INVALID FLAGS_NONE 0,
     entry (OPD_SecondGroup TYPE_GROUP_17 PF_NONE 2) 1 '''' TYPE_INVALID FLAGS_NONE 0,
     entry (OPD_SecondGroup TYPE_GROUP_17 PF_NONE 3) 1 '''' TYPE_INVALID FLAGS_NONE 0,
     entry (OPD_SecondGroup TYPE_GROUP_17 PF_NONE 4) 1 '''' TYPE_INVALID FLAGS_NONE 0,
     entry (OPD_SecondGroup TYPE_GROUP_17 PF_NONE 5) 1 '''' TYPE_INVALID FLAGS_NONE 0,
     entry (OPD_SecondGroup TYPE_GROUP_17 PF_NONE 6) 1 '''' TYPE_INVALID FLAGS_NONE 0,
     entry (OPD_SecondGroup TYPE_GROUP_17 PF_NONE 7) 1 '''' TYPE_INVALID FLAGS_NONE 0,
     entry (OPD_SecondGroup TYPE_GROUP_17 PF_F3 0) 1 '''' TYPE_INVALID FLAGS_NONE 0,
     entry (OPD_SecondGroup TYPE_GROUP_17 PF_F3 1) 1 '''' TYPE_INVALID FLAGS_NONE 0,
     entry (OPD_SecondGroup TYPE_GROUP_17 PF_F3 2) 1 '''' TYPE_INVALID FLAGS_NONE 0,
     entry (OPD_SecondGroup TYPE_GROUP_17 PF_F3 3) 1 '''' TYPE_INVALID FLAGS_NONE 0,
     entry (OPD_SecondGroup TYPE_GROUP_17 PF_F3 4) 1 '''' TYPE_INVALID FLAGS_NONE 0,
     entry (OPD_SecondGroup TYPE_GROUP_17 PF_F3 5) 1 '''' TYPE_INVALID FLAGS_NONE 0,
     entry (OPD_SecondGroup TYPE_GROUP_17 PF_F3 6) 1 '''' TYPE_INVALID FLAGS_NONE 0,
     entry (OPD_SecondGroup TYPE_GROUP_17 PF_F3 7) 1 '''' TYPE_INVALID FLAGS_NONE 0,
     entry (OPD_SecondGroup TYPE_GROUP_17 PF_66 0) 1 ''EXTRQ'' TYPE_INST ((GenFlagsSameSize SIZE_128BIT) OR FLAGS_MODRM OR FLAGS_SF_MOD_DST OR FLAGS_SF_MOD_REG_ONLY OR FLAGS_XMM_FLAGS) 2,
     entry (OPD_SecondGroup TYPE_GROUP_17 PF_66 1) 1 '''' TYPE_INVALID FLAGS_NONE 0,
     entry (OPD_SecondGroup TYPE_GROUP_17 PF_66 2) 1 '''' TYPE_INVALID FLAGS_NONE 0,
     entry (OPD_SecondGroup TYPE_GROUP_17 PF_66 3) 1 '''' TYPE_INVALID FLAGS_NONE 0,
     entry (OPD_SecondGroup TYPE_GROUP_17 PF_66 4) 1 '''' TYPE_INVALID FLAGS_NONE 0,
     entry (OPD_SecondGroup TYPE_GROUP_17 PF_66 5) 1 '''' TYPE_INVALID FLAGS_NONE 0,
     entry (OPD_SecondGroup TYPE_GROUP_17 PF_66 6) 1 '''' TYPE_INVALID FLAGS_NONE 0,
     entry (OPD_SecondGroup TYPE_GROUP_17 PF_66 7) 1 '''' TYPE_INVALID FLAGS_NONE 0,
     entry (OPD_SecondGroup TYPE_GROUP_17 PF_F2 0) 1 '''' TYPE_INVALID FLAGS_NONE 0,
     entry (OPD_SecondGroup TYPE_GROUP_17 PF_F2 1) 1 '''' TYPE_INVALID FLAGS_NONE 0,
     entry (OPD_SecondGroup TYPE_GROUP_17 PF_F2 2) 1 '''' TYPE_INVALID FLAGS_NONE 0,
     entry (OPD_SecondGroup TYPE_GROUP_17 PF_F2 3) 1 '''' TYPE_INVALID FLAGS_NONE 0,
     entry (OPD_SecondGroup TYPE_GROUP_17 PF_F2 4) 1 '''' TYPE_INVALID FLAGS_NONE 0,
     entry (OPD_SecondGroup TYPE_GROUP_17 PF_F2 5) 1 '''' TYPE_INVALID FLAGS_NONE 0,
     entry (OPD_SecondGroup TYPE_GROUP_17 PF_F2 6) 1 '''' TYPE_INVALID FLAGS_NONE 0,
     entry (OPD_SecondGroup TYPE_GROUP_17 PF_F2 7) 1 '''' TYPE_INVALID FLAGS_NONE 0,
     entry (OPD_SecondGroup TYPE_GROUP_P PF_NONE 0) 1 ''PREFETCH Ex'' TYPE_INST (FLAGS_MODRM OR FLAGS_SF_MOD_MEM_ONLY) 0,
     entry (OPD_SecondGroup TYPE_GROUP_P PF_NONE 1) 1 ''PREFETCH Mod'' TYPE_INST (FLAGS_MODRM OR FLAGS_SF_MOD_MEM_ONLY) 0,
     entry (OPD_SecondGroup TYPE_GROUP_P PF_NONE 2) 1 ''PREFETCH Res'' TYPE_INST (FLAGS_MODRM OR FLAGS_SF_MOD_MEM_ONLY) 0,
     entry (OPD_SecondGroup TYPE_GROUP_P PF_NONE 3) 1 ''PREFETCH Mod'' TYPE_INST (FLAGS_MODRM OR FLAGS_SF_MOD_MEM_ONLY) 0,
     entry (OPD_SecondGroup TYPE_GROUP_P PF_NONE 4) 1 ''PREFETCH Res'' TYPE_INST (FLAGS_MODRM OR FLAGS_SF_MOD_MEM_ONLY) 0,
     entry (OPD_SecondGroup TYPE_GROUP_P PF_NONE 5) 1 ''PREFETCH Res'' TYPE_INST (FLAGS_MODRM OR FLAGS_SF_MOD_MEM_ONLY) 0,
     entry (OPD_SecondGroup TYPE_GROUP_P PF_NONE 6) 1 ''PREFETCH Res'' TYPE_INST (FLAGS_MODRM OR FLAGS_SF_MOD_MEM_ONLY) 0,
     entry (OPD_SecondGroup TYPE_GROUP_P PF_NONE 7) 1 ''PREFETCH Res'' TYPE_INST (FLAGS_MODRM OR FLAGS_SF_MOD_MEM_ONLY) 0,
     entry (OPD_SecondGroup TYPE_GROUP_P PF_F3 0) 1 ''PREFETCH Ex'' TYPE_INST (FLAGS_MODRM OR FLAGS_SF_MOD_MEM_ONLY) 0,
     entry (OPD_SecondGroup TYPE_GROUP_P PF_F3 1) 1 ''PREFETCH Mod'' TYPE_INST (FLAGS_MODRM OR FLAGS_SF_MOD_MEM_ONLY) 0,
     entry (OPD_SecondGroup TYPE_GROUP_P PF_F3 2) 1 ''PREFETCH Res'' TYPE_INST (FLAGS_MODRM OR FLAGS_SF_MOD_MEM_ONLY) 0,
     entry (OPD_SecondGroup TYPE_GROUP_P PF_F3 3) 1 ''PREFETCH Mod'' TYPE_INST (FLAGS_MODRM OR FLAGS_SF_MOD_MEM_ONLY) 0,
     entry (OPD_SecondGroup TYPE_GROUP_P PF_F3 4) 1 ''PREFETCH Res'' TYPE_INST (FLAGS_MODRM OR FLAGS_SF_MOD_MEM_ONLY) 0,
     entry (OPD_SecondGroup TYPE_GROUP_P PF_F3 5) 1 ''PREFETCH Res'' TYPE_INST (FLAGS_MODRM OR FLAGS_SF_MOD_MEM_ONLY) 0,
     entry (OPD_SecondGroup TYPE_GROUP_P PF_F3 6) 1 ''PREFETCH Res'' TYPE_INST (FLAGS_MODRM OR FLAGS_SF_MOD_MEM_ONLY) 0,
     entry (OPD_SecondGroup TYPE_GROUP_P PF_F3 7) 1 ''PREFETCH Res'' TYPE_INST (FLAGS_MODRM OR FLAGS_SF_MOD_MEM_ONLY) 0,
     entry (OPD_SecondGroup TYPE_GROUP_P PF_66 0) 1 ''PREFETCH Ex'' TYPE_INST (FLAGS_MODRM OR FLAGS_SF_MOD_MEM_ONLY) 0,
     entry (OPD_SecondGroup TYPE_GROUP_P PF_66 1) 1 ''PREFETCH Mod'' TYPE_INST (FLAGS_MODRM OR FLAGS_SF_MOD_MEM_ONLY) 0,
     entry (OPD_SecondGroup TYPE_GROUP_P PF_66 2) 1 ''PREFETCH Res'' TYPE_INST (FLAGS_MODRM OR FLAGS_SF_MOD_MEM_ONLY) 0,
     entry (OPD_SecondGroup TYPE_GROUP_P PF_66 3) 1 ''PREFETCH Mod'' TYPE_INST (FLAGS_MODRM OR FLAGS_SF_MOD_MEM_ONLY) 0,
     entry (OPD_SecondGroup TYPE_GROUP_P PF_66 4) 1 ''PREFETCH Res'' TYPE_INST (FLAGS_MODRM OR FLAGS_SF_MOD_MEM_ONLY) 0,
     entry (OPD_SecondGroup TYPE_GROUP_P PF_66 5) 1 ''PREFETCH Res'' TYPE_INST (FLAGS_MODRM OR FLAGS_SF_MOD_MEM_ONLY) 0,
     entry (OPD_SecondGroup TYPE_GROUP_P PF_66 6) 1 ''PREFETCH Res'' TYPE_INST (FLAGS_MODRM OR FLAGS_SF_MOD_MEM_ONLY) 0,
     entry (OPD_SecondGroup TYPE_GROUP_P PF_66 7) 1 ''PREFETCH Res'' TYPE_INST (FLAGS_MODRM OR FLAGS_SF_MOD_MEM_ONLY) 0,
     entry (OPD_SecondGroup TYPE_GROUP_P PF_F2 0) 1 ''PREFETCH Ex'' TYPE_INST (FLAGS_MODRM OR FLAGS_SF_MOD_MEM_ONLY) 0,
     entry (OPD_SecondGroup TYPE_GROUP_P PF_F2 1) 1 ''PREFETCH Mod'' TYPE_INST (FLAGS_MODRM OR FLAGS_SF_MOD_MEM_ONLY) 0,
     entry (OPD_SecondGroup TYPE_GROUP_P PF_F2 2) 1 ''PREFETCH Res'' TYPE_INST (FLAGS_MODRM OR FLAGS_SF_MOD_MEM_ONLY) 0,
     entry (OPD_SecondGroup TYPE_GROUP_P PF_F2 3) 1 ''PREFETCH Mod'' TYPE_INST (FLAGS_MODRM OR FLAGS_SF_MOD_MEM_ONLY) 0,
     entry (OPD_SecondGroup TYPE_GROUP_P PF_F2 4) 1 ''PREFETCH Res'' TYPE_INST (FLAGS_MODRM OR FLAGS_SF_MOD_MEM_ONLY) 0]"

definition SecondaryExtensionOpTable_4 :: "X86TablesInfoStruct list" where
  "SecondaryExtensionOpTable_4 =
    [entry (OPD_SecondGroup TYPE_GROUP_P PF_F2 5) 1 ''PREFETCH Res'' TYPE_INST (FLAGS_MODRM OR FLAGS_SF_MOD_MEM_ONLY) 0,
     entry (OPD_SecondGroup TYPE_GROUP_P PF_F2 6) 1 ''PREFETCH Res'' TYPE_INST (FLAGS_MODRM OR FLAGS_SF_MOD_MEM_ONLY) 0,
     entry (OPD_SecondGroup TYPE_GROUP_P PF_F2 7) 1 ''PREFETCH Res'' TYPE_INST (FLAGS_MODRM OR FLAGS_SF_MOD_MEM_ONLY) 0]"

definition SecondaryExtensionOpTable :: "X86TablesInfoStruct list" where
  "SecondaryExtensionOpTable = SecondaryExtensionOpTable_1 @ SecondaryExtensionOpTable_2 @ SecondaryExtensionOpTable_3 @ SecondaryExtensionOpTable_4"

definition OpDispatch_SecondaryGroupTables_1 :: "DispatchTableEntry list" where
  "OpDispatch_SecondaryGroupTables_1 =
    [dispatch (OPD_SecondGroup TYPE_GROUP_6 PF_NONE 3) 1 (Handler ''PermissionRestrictedOp''),
     dispatch (OPD_SecondGroup TYPE_GROUP_6 PF_F3 3) 1 (Handler ''PermissionRestrictedOp''),
     dispatch (OPD_SecondGroup TYPE_GROUP_6 PF_66 3) 1 (Handler ''PermissionRestrictedOp''),
     dispatch (OPD_SecondGroup TYPE_GROUP_6 PF_F2 3) 1 (Handler ''PermissionRestrictedOp''),
     dispatch (OPD_SecondGroup TYPE_GROUP_7 PF_NONE 0) 1 (Handler ''SGDTOp''),
     dispatch (OPD_SecondGroup TYPE_GROUP_7 PF_F3 0) 1 (Handler ''SGDTOp''),
     dispatch (OPD_SecondGroup TYPE_GROUP_7 PF_66 0) 1 (Handler ''SGDTOp''),
     dispatch (OPD_SecondGroup TYPE_GROUP_7 PF_F2 0) 1 (Handler ''SGDTOp''),
     dispatch (OPD_SecondGroup TYPE_GROUP_7 PF_NONE 1) 1 (Handler ''SIDTOp''),
     dispatch (OPD_SecondGroup TYPE_GROUP_7 PF_F3 1) 1 (Handler ''SIDTOp''),
     dispatch (OPD_SecondGroup TYPE_GROUP_7 PF_66 1) 1 (Handler ''SIDTOp''),
     dispatch (OPD_SecondGroup TYPE_GROUP_7 PF_F2 1) 1 (Handler ''SIDTOp''),
     dispatch (OPD_SecondGroup TYPE_GROUP_7 PF_NONE 3) 1 (Handler ''PermissionRestrictedOp''),
     dispatch (OPD_SecondGroup TYPE_GROUP_7 PF_F3 3) 1 (Handler ''PermissionRestrictedOp''),
     dispatch (OPD_SecondGroup TYPE_GROUP_7 PF_66 3) 1 (Handler ''PermissionRestrictedOp''),
     dispatch (OPD_SecondGroup TYPE_GROUP_7 PF_F2 3) 1 (Handler ''PermissionRestrictedOp''),
     dispatch (OPD_SecondGroup TYPE_GROUP_7 PF_NONE 4) 1 (Handler ''SMSWOp''),
     dispatch (OPD_SecondGroup TYPE_GROUP_7 PF_F3 4) 1 (Handler ''SMSWOp''),
     dispatch (OPD_SecondGroup TYPE_GROUP_7 PF_66 4) 1 (Handler ''SMSWOp''),
     dispatch (OPD_SecondGroup TYPE_GROUP_7 PF_F2 4) 1 (Handler ''SMSWOp''),
     dispatch (OPD_SecondGroup TYPE_GROUP_7 PF_NONE 6) 1 (Handler ''PermissionRestrictedOp''),
     dispatch (OPD_SecondGroup TYPE_GROUP_7 PF_F3 6) 1 (Handler ''PermissionRestrictedOp''),
     dispatch (OPD_SecondGroup TYPE_GROUP_7 PF_66 6) 1 (Handler ''PermissionRestrictedOp''),
     dispatch (OPD_SecondGroup TYPE_GROUP_7 PF_F2 6) 1 (Handler ''PermissionRestrictedOp''),
     dispatch (OPD_SecondGroup TYPE_GROUP_7 PF_NONE 7) 1 (Handler ''PermissionRestrictedOp''),
     dispatch (OPD_SecondGroup TYPE_GROUP_7 PF_F3 7) 1 (Handler ''PermissionRestrictedOp''),
     dispatch (OPD_SecondGroup TYPE_GROUP_7 PF_66 7) 1 (Handler ''PermissionRestrictedOp''),
     dispatch (OPD_SecondGroup TYPE_GROUP_7 PF_F2 7) 1 (Handler ''PermissionRestrictedOp''),
     dispatch (OPD_SecondGroup TYPE_GROUP_8 PF_NONE 4) 1 (Bind ''BTOp'' [''1'', ''BTNone'']),
     dispatch (OPD_SecondGroup TYPE_GROUP_8 PF_F3 4) 1 (Bind ''BTOp'' [''1'', ''BTNone'']),
     dispatch (OPD_SecondGroup TYPE_GROUP_8 PF_66 4) 1 (Bind ''BTOp'' [''1'', ''BTNone'']),
     dispatch (OPD_SecondGroup TYPE_GROUP_8 PF_F2 4) 1 (Bind ''BTOp'' [''1'', ''BTNone'']),
     dispatch (OPD_SecondGroup TYPE_GROUP_8 PF_NONE 5) 1 (Bind ''BTOp'' [''1'', ''BTSet'']),
     dispatch (OPD_SecondGroup TYPE_GROUP_8 PF_F3 5) 1 (Bind ''BTOp'' [''1'', ''BTSet'']),
     dispatch (OPD_SecondGroup TYPE_GROUP_8 PF_66 5) 1 (Bind ''BTOp'' [''1'', ''BTSet'']),
     dispatch (OPD_SecondGroup TYPE_GROUP_8 PF_F2 5) 1 (Bind ''BTOp'' [''1'', ''BTSet'']),
     dispatch (OPD_SecondGroup TYPE_GROUP_8 PF_NONE 6) 1 (Bind ''BTOp'' [''1'', ''BTClear'']),
     dispatch (OPD_SecondGroup TYPE_GROUP_8 PF_F3 6) 1 (Bind ''BTOp'' [''1'', ''BTClear'']),
     dispatch (OPD_SecondGroup TYPE_GROUP_8 PF_66 6) 1 (Bind ''BTOp'' [''1'', ''BTClear'']),
     dispatch (OPD_SecondGroup TYPE_GROUP_8 PF_F2 6) 1 (Bind ''BTOp'' [''1'', ''BTClear'']),
     dispatch (OPD_SecondGroup TYPE_GROUP_8 PF_NONE 7) 1 (Bind ''BTOp'' [''1'', ''BTComplement'']),
     dispatch (OPD_SecondGroup TYPE_GROUP_8 PF_F3 7) 1 (Bind ''BTOp'' [''1'', ''BTComplement'']),
     dispatch (OPD_SecondGroup TYPE_GROUP_8 PF_66 7) 1 (Bind ''BTOp'' [''1'', ''BTComplement'']),
     dispatch (OPD_SecondGroup TYPE_GROUP_8 PF_F2 7) 1 (Bind ''BTOp'' [''1'', ''BTComplement'']),
     dispatch (OPD_SecondGroup TYPE_GROUP_9 PF_NONE 1) 1 (Handler ''CMPXCHGPairOp''),
     dispatch (OPD_SecondGroup TYPE_GROUP_9 PF_NONE 6) 1 (Bind ''RDRANDOp'' [''false'']),
     dispatch (OPD_SecondGroup TYPE_GROUP_9 PF_NONE 7) 1 (Bind ''RDRANDOp'' [''true'']),
     dispatch (OPD_SecondGroup TYPE_GROUP_9 PF_66 1) 1 (Handler ''CMPXCHGPairOp''),
     dispatch (OPD_SecondGroup TYPE_GROUP_9 PF_66 6) 1 (Bind ''RDRANDOp'' [''false'']),
     dispatch (OPD_SecondGroup TYPE_GROUP_9 PF_66 7) 1 (Bind ''RDRANDOp'' [''true'']),
     dispatch (OPD_SecondGroup TYPE_GROUP_9 PF_F2 1) 1 (Handler ''CMPXCHGPairOp''),
     dispatch (OPD_SecondGroup TYPE_GROUP_9 PF_F3 1) 1 (Handler ''CMPXCHGPairOp''),
     dispatch (OPD_SecondGroup TYPE_GROUP_9 PF_F3 7) 1 (Handler ''RDPIDOp''),
     dispatch (OPD_SecondGroup TYPE_GROUP_12 PF_NONE 2) 1 (Bind ''PSRLI'' [''i16Bit'']),
     dispatch (OPD_SecondGroup TYPE_GROUP_12 PF_NONE 4) 1 (Bind ''PSRAIOp'' [''i16Bit'']),
     dispatch (OPD_SecondGroup TYPE_GROUP_12 PF_NONE 6) 1 (Bind ''PSLLI'' [''i16Bit'']),
     dispatch (OPD_SecondGroup TYPE_GROUP_12 PF_66 2) 1 (Bind ''PSRLI'' [''i16Bit'']),
     dispatch (OPD_SecondGroup TYPE_GROUP_12 PF_66 4) 1 (Bind ''PSRAIOp'' [''i16Bit'']),
     dispatch (OPD_SecondGroup TYPE_GROUP_12 PF_66 6) 1 (Bind ''PSLLI'' [''i16Bit'']),
     dispatch (OPD_SecondGroup TYPE_GROUP_13 PF_NONE 2) 1 (Bind ''PSRLI'' [''i32Bit'']),
     dispatch (OPD_SecondGroup TYPE_GROUP_13 PF_NONE 4) 1 (Bind ''PSRAIOp'' [''i32Bit'']),
     dispatch (OPD_SecondGroup TYPE_GROUP_13 PF_NONE 6) 1 (Bind ''PSLLI'' [''i32Bit'']),
     dispatch (OPD_SecondGroup TYPE_GROUP_13 PF_66 2) 1 (Bind ''PSRLI'' [''i32Bit'']),
     dispatch (OPD_SecondGroup TYPE_GROUP_13 PF_66 4) 1 (Bind ''PSRAIOp'' [''i32Bit'']),
     dispatch (OPD_SecondGroup TYPE_GROUP_13 PF_66 6) 1 (Bind ''PSLLI'' [''i32Bit'']),
     dispatch (OPD_SecondGroup TYPE_GROUP_14 PF_NONE 2) 1 (Bind ''PSRLI'' [''i64Bit'']),
     dispatch (OPD_SecondGroup TYPE_GROUP_14 PF_NONE 6) 1 (Bind ''PSLLI'' [''i64Bit'']),
     dispatch (OPD_SecondGroup TYPE_GROUP_14 PF_66 2) 1 (Bind ''PSRLI'' [''i64Bit'']),
     dispatch (OPD_SecondGroup TYPE_GROUP_14 PF_66 3) 1 (Handler ''PSRLDQ''),
     dispatch (OPD_SecondGroup TYPE_GROUP_14 PF_66 6) 1 (Bind ''PSLLI'' [''i64Bit'']),
     dispatch (OPD_SecondGroup TYPE_GROUP_14 PF_66 7) 1 (Handler ''PSLLDQ''),
     dispatch (OPD_SecondGroup TYPE_GROUP_15 PF_NONE 0) 1 (Handler ''FXSaveOp''),
     dispatch (OPD_SecondGroup TYPE_GROUP_15 PF_NONE 1) 1 (Handler ''FXRStoreOp''),
     dispatch (OPD_SecondGroup TYPE_GROUP_15 PF_NONE 2) 1 (Handler ''LDMXCSR''),
     dispatch (OPD_SecondGroup TYPE_GROUP_15 PF_NONE 3) 1 (Handler ''STMXCSR''),
     dispatch (OPD_SecondGroup TYPE_GROUP_15 PF_NONE 4) 1 (Handler ''XSaveOp''),
     dispatch (OPD_SecondGroup TYPE_GROUP_15 PF_NONE 5) 1 (Handler ''LoadFenceOrXRSTOR''),
     dispatch (OPD_SecondGroup TYPE_GROUP_15 PF_NONE 6) 1 (Handler ''MemFenceOrXSAVEOPT''),
     dispatch (OPD_SecondGroup TYPE_GROUP_15 PF_NONE 7) 1 (Handler ''StoreFenceOrCLFlush''),
     dispatch (OPD_SecondGroup TYPE_GROUP_15 PF_F3 5) 1 (Handler ''UnimplementedOp''),
     dispatch (OPD_SecondGroup TYPE_GROUP_15 PF_F3 6) 1 (Handler ''UMonitorOrCLRSSBSY''),
     dispatch (OPD_SecondGroup TYPE_GROUP_15 PF_66 6) 1 (Handler ''CLWBOrTPause''),
     dispatch (OPD_SecondGroup TYPE_GROUP_15 PF_66 7) 1 (Handler ''CLFLUSHOPT''),
     dispatch (OPD_SecondGroup TYPE_GROUP_15 PF_F2 6) 1 (Handler ''UMWaitOp''),
     dispatch (OPD_SecondGroup TYPE_GROUP_16 PF_NONE 0) 1 (Bind ''Prefetch'' [''false'', ''true'', ''1'']),
     dispatch (OPD_SecondGroup TYPE_GROUP_16 PF_NONE 1) 1 (Bind ''Prefetch'' [''false'', ''false'', ''1'']),
     dispatch (OPD_SecondGroup TYPE_GROUP_16 PF_NONE 2) 1 (Bind ''Prefetch'' [''false'', ''false'', ''2'']),
     dispatch (OPD_SecondGroup TYPE_GROUP_16 PF_NONE 3) 1 (Bind ''Prefetch'' [''false'', ''false'', ''3'']),
     dispatch (OPD_SecondGroup TYPE_GROUP_16 PF_NONE 4) 4 (Handler ''NOPOp''),
     dispatch (OPD_SecondGroup TYPE_GROUP_16 PF_F3 0) 1 (Bind ''Prefetch'' [''false'', ''true'', ''1'']),
     dispatch (OPD_SecondGroup TYPE_GROUP_16 PF_F3 1) 1 (Bind ''Prefetch'' [''false'', ''false'', ''1'']),
     dispatch (OPD_SecondGroup TYPE_GROUP_16 PF_F3 2) 1 (Bind ''Prefetch'' [''false'', ''false'', ''2'']),
     dispatch (OPD_SecondGroup TYPE_GROUP_16 PF_F3 3) 1 (Bind ''Prefetch'' [''false'', ''false'', ''3'']),
     dispatch (OPD_SecondGroup TYPE_GROUP_16 PF_F3 4) 4 (Handler ''NOPOp''),
     dispatch (OPD_SecondGroup TYPE_GROUP_16 PF_66 0) 1 (Bind ''Prefetch'' [''false'', ''true'', ''1'']),
     dispatch (OPD_SecondGroup TYPE_GROUP_16 PF_66 1) 1 (Bind ''Prefetch'' [''false'', ''false'', ''1'']),
     dispatch (OPD_SecondGroup TYPE_GROUP_16 PF_66 2) 1 (Bind ''Prefetch'' [''false'', ''false'', ''2'']),
     dispatch (OPD_SecondGroup TYPE_GROUP_16 PF_66 3) 1 (Bind ''Prefetch'' [''false'', ''false'', ''3'']),
     dispatch (OPD_SecondGroup TYPE_GROUP_16 PF_66 4) 4 (Handler ''NOPOp''),
     dispatch (OPD_SecondGroup TYPE_GROUP_16 PF_F2 0) 1 (Bind ''Prefetch'' [''false'', ''true'', ''1'']),
     dispatch (OPD_SecondGroup TYPE_GROUP_16 PF_F2 1) 1 (Bind ''Prefetch'' [''false'', ''false'', ''1'']),
     dispatch (OPD_SecondGroup TYPE_GROUP_16 PF_F2 2) 1 (Bind ''Prefetch'' [''false'', ''false'', ''2'']),
     dispatch (OPD_SecondGroup TYPE_GROUP_16 PF_F2 3) 1 (Bind ''Prefetch'' [''false'', ''false'', ''3'']),
     dispatch (OPD_SecondGroup TYPE_GROUP_16 PF_F2 4) 4 (Handler ''NOPOp''),
     dispatch (OPD_SecondGroup TYPE_GROUP_17 PF_66 0) 1 (Handler ''Extrq_imm''),
     dispatch (OPD_SecondGroup TYPE_GROUP_P PF_NONE 0) 1 (Bind ''Prefetch'' [''false'', ''false'', ''1'']),
     dispatch (OPD_SecondGroup TYPE_GROUP_P PF_NONE 1) 1 (Bind ''Prefetch'' [''true'', ''false'', ''1'']),
     dispatch (OPD_SecondGroup TYPE_GROUP_P PF_NONE 2) 1 (Bind ''Prefetch'' [''true'', ''false'', ''1'']),
     dispatch (OPD_SecondGroup TYPE_GROUP_P PF_NONE 3) 5 (Handler ''NOPOp'')]"

definition OpDispatch_SecondaryGroupTables_2 :: "DispatchTableEntry list" where
  "OpDispatch_SecondaryGroupTables_2 =
    [dispatch (OPD_SecondGroup TYPE_GROUP_P PF_F3 0) 8 (Handler ''NOPOp''),
     dispatch (OPD_SecondGroup TYPE_GROUP_P PF_66 0) 8 (Handler ''NOPOp''),
     dispatch (OPD_SecondGroup TYPE_GROUP_P PF_F2 0) 8 (Handler ''NOPOp'')]"

definition OpDispatch_SecondaryGroupTables :: "DispatchTableEntry list" where
  "OpDispatch_SecondaryGroupTables = OpDispatch_SecondaryGroupTables_1 @ OpDispatch_SecondaryGroupTables_2"

definition SecondInstGroupOps_build :: "table option" where
  "SecondInstGroupOps_build =
     do { Table \<leftarrow> GenerateTable SecondaryExtensionOpTable (replicate 512 zero_info);
          InstallToTable OpDispatch_SecondaryGroupTables Table }"

section \<open>The ModRM extensions\<close>

definition SecondaryModRMExtensionOpTable :: "X86TablesInfoStruct list" where
  "SecondaryModRMExtensionOpTable =
    [entry ((push_bit 3 0) OR 0) 1 ''MONITOR'' TYPE_INST FLAGS_NONE 0,
     entry ((push_bit 3 0) OR 1) 1 ''MWAIT'' TYPE_INST FLAGS_NONE 0,
     entry ((push_bit 3 0) OR 2) 1 '''' TYPE_INVALID FLAGS_NONE 0,
     entry ((push_bit 3 0) OR 3) 1 '''' TYPE_INVALID FLAGS_NONE 0,
     entry ((push_bit 3 0) OR 4) 1 '''' TYPE_INVALID FLAGS_NONE 0,
     entry ((push_bit 3 0) OR 5) 1 '''' TYPE_INVALID FLAGS_NONE 0,
     entry ((push_bit 3 0) OR 6) 1 '''' TYPE_INVALID FLAGS_NONE 0,
     entry ((push_bit 3 0) OR 7) 1 '''' TYPE_INVALID FLAGS_NONE 0,
     entry ((push_bit 3 1) OR 0) 1 ''XGETBV'' TYPE_INST FLAGS_NONE 0,
     entry ((push_bit 3 1) OR 1) 1 ''XSETBV'' TYPE_PRIV FLAGS_NONE 0,
     entry ((push_bit 3 1) OR 2) 1 '''' TYPE_INVALID FLAGS_NONE 0,
     entry ((push_bit 3 1) OR 3) 1 '''' TYPE_INVALID FLAGS_NONE 0,
     entry ((push_bit 3 1) OR 4) 1 '''' TYPE_INVALID FLAGS_NONE 0,
     entry ((push_bit 3 1) OR 5) 1 ''XEND'' TYPE_INST FLAGS_NONE 0,
     entry ((push_bit 3 1) OR 6) 1 ''XTEST'' TYPE_INST FLAGS_NONE 0,
     entry ((push_bit 3 1) OR 7) 1 '''' TYPE_INVALID FLAGS_NONE 0,
     entry ((push_bit 3 2) OR 0) 1 ''VMRUN'' TYPE_PRIV FLAGS_NONE 0,
     entry ((push_bit 3 2) OR 1) 1 ''VMMCALL'' TYPE_PRIV FLAGS_NONE 0,
     entry ((push_bit 3 2) OR 2) 1 ''VMLOAD'' TYPE_PRIV FLAGS_NONE 0,
     entry ((push_bit 3 2) OR 3) 1 ''VMSAVE'' TYPE_PRIV FLAGS_NONE 0,
     entry ((push_bit 3 2) OR 4) 1 ''STGI'' TYPE_PRIV FLAGS_NONE 0,
     entry ((push_bit 3 2) OR 5) 1 ''CLGI'' TYPE_PRIV FLAGS_NONE 0,
     entry ((push_bit 3 2) OR 6) 1 ''SKINIT'' TYPE_PRIV FLAGS_NONE 0,
     entry ((push_bit 3 2) OR 7) 1 ''INVLPGA'' TYPE_INST FLAGS_NONE 0,
     entry ((push_bit 3 3) OR 0) 1 ''SWAPGS'' TYPE_INST FLAGS_NONE 0,
     entry ((push_bit 3 3) OR 1) 1 ''RDTSCP'' TYPE_INST FLAGS_NONE 0,
     entry ((push_bit 3 3) OR 2) 1 ''MONITORX'' TYPE_PRIV FLAGS_NONE 0,
     entry ((push_bit 3 3) OR 3) 1 ''MWAITX'' TYPE_PRIV FLAGS_NONE 0,
     entry ((push_bit 3 3) OR 4) 1 ''CLZERO'' TYPE_INST ((GenFlagsSameSize SIZE_64BITDEF) OR FLAGS_SF_SRC_RAX OR FLAGS_DEBUG_MEM_ACCESS) 0,
     entry ((push_bit 3 3) OR 5) 1 '''' TYPE_INVALID FLAGS_NONE 0,
     entry ((push_bit 3 3) OR 6) 1 '''' TYPE_INVALID FLAGS_NONE 0,
     entry ((push_bit 3 3) OR 7) 1 '''' TYPE_INVALID FLAGS_NONE 0]"

definition OpDispatch_SecondaryModRMTables :: "DispatchTableEntry list" where
  "OpDispatch_SecondaryModRMTables =
    [dispatch ((push_bit 3 0) OR 0) 1 (Handler ''UnimplementedOp''),
     dispatch ((push_bit 3 0) OR 1) 1 (Handler ''UnimplementedOp''),
     dispatch ((push_bit 3 1) OR 0) 1 (Handler ''XGetBVOp''),
     dispatch ((push_bit 3 2) OR 7) 1 (Handler ''PermissionRestrictedOp''),
     dispatch ((push_bit 3 3) OR 0) 1 (Handler ''PermissionRestrictedOp''),
     dispatch ((push_bit 3 3) OR 1) 1 (Handler ''RDTSCPOp''),
     dispatch ((push_bit 3 3) OR 4) 1 (Handler ''CLZeroOp'')]"

definition SecondModRMTableOps_build :: "table option" where
  "SecondModRMTableOps_build =
     do { Table \<leftarrow> GenerateTable SecondaryModRMExtensionOpTable (replicate 32 zero_info);
          InstallToTable OpDispatch_SecondaryModRMTables Table }"

section \<open>The tables are well-formed\<close>

lemma SecondInstGroupOps_ok: "table_ok SecondaryExtensionOpTable OpDispatch_SecondaryGroupTables 512"
  unfolding table_ok_def disjoint_ranges_def table_appends SecondaryExtensionOpTable_def SecondaryExtensionOpTable_1_def SecondaryExtensionOpTable_2_def SecondaryExtensionOpTable_3_def SecondaryExtensionOpTable_4_def OpDispatch_SecondaryGroupTables_def OpDispatch_SecondaryGroupTables_1_def OpDispatch_SecondaryGroupTables_2_def
  by (simp add: Let_def table_evals OPD_SecondGroup_def PF_NONE_def PF_F3_def PF_66_def PF_F2_def cong: table_weaks)

lemma SecondModRMTableOps_ok: "table_ok SecondaryModRMExtensionOpTable OpDispatch_SecondaryModRMTables 32"
  unfolding table_ok_def disjoint_ranges_def table_appends SecondaryModRMExtensionOpTable_def OpDispatch_SecondaryModRMTables_def
  by (simp add: Let_def table_evals  cong: table_weaks)

section \<open>Every instruction has a handler\<close>

text \<open>Up to the listed ranges of indices.\<close>

lemma SecondInstGroupOps_handled: "handled SecondaryExtensionOpTable OpDispatch_SecondaryGroupTables
    [(0x22, 1), (0x2A, 1), (0x32, 1), (0x3A, 1), (0x80, 32)]"
  unfolding handled_def covers_def handler_appends SecondaryExtensionOpTable_def SecondaryExtensionOpTable_1_def SecondaryExtensionOpTable_2_def SecondaryExtensionOpTable_3_def SecondaryExtensionOpTable_4_def OpDispatch_SecondaryGroupTables_def OpDispatch_SecondaryGroupTables_1_def OpDispatch_SecondaryGroupTables_2_def
  by (simp add: Let_def table_evals OPD_SecondGroup_def PF_NONE_def PF_F3_def PF_66_def PF_F2_def
    SecondGroup_LUT_15_F3_0_def SecondGroup_LUT_15_F3_1_def SecondGroup_LUT_15_F3_2_def
    SecondGroup_LUT_15_F3_3_def cong: handler_weaks)

lemma SecondModRMTableOps_handled: "handled SecondaryModRMExtensionOpTable OpDispatch_SecondaryModRMTables [(0x0D, 2)]"
  unfolding handled_def covers_def handler_appends SecondaryModRMExtensionOpTable_def OpDispatch_SecondaryModRMTables_def
  by (simp add: Let_def table_evals  cong: handler_weaks)

lemma SecondInstGroupOps_lacking: "lacking SecondaryExtensionOpTable OpDispatch_SecondaryGroupTables 512
    [(0x22, 1), (0x2A, 1), (0x32, 1), (0x3A, 1), (0x80, 32)]"
  unfolding lacking_def covers_def disjoint_ranges_def handler_appends SecondaryExtensionOpTable_def SecondaryExtensionOpTable_1_def
    SecondaryExtensionOpTable_2_def SecondaryExtensionOpTable_3_def SecondaryExtensionOpTable_4_def OpDispatch_SecondaryGroupTables_def
    OpDispatch_SecondaryGroupTables_1_def OpDispatch_SecondaryGroupTables_2_def
  by (simp add: Let_def table_evals OPD_SecondGroup_def PF_NONE_def PF_F3_def PF_66_def PF_F2_def
    SecondGroup_LUT_15_F3_0_def SecondGroup_LUT_15_F3_1_def SecondGroup_LUT_15_F3_2_def
    SecondGroup_LUT_15_F3_3_def cong: handler_weaks)

lemma SecondModRMTableOps_lacking: "lacking SecondaryModRMExtensionOpTable OpDispatch_SecondaryModRMTables 32 [(0x0D, 2)]"
  unfolding lacking_def covers_def disjoint_ranges_def handler_appends SecondaryModRMExtensionOpTable_def OpDispatch_SecondaryModRMTables_def
  by (simp add: Let_def table_evals cong: handler_weaks)

end
