(* ===== verification/ExtendedTables.thy ===== *)
theory ExtendedTables
  imports TableBuild
begin

text \<open>
  The three-byte opcode tables \<open>0F 38\<close> and \<open>0F 3A\<close> and the 3DNow! table
  (\<open>H0F38Tables\<close>, \<open>H0F3ATables\<close>, \<open>DDDTables\<close>), entry by entry.
\<close>

section \<open>The 0F 38 table\<close>

definition PF_38_NONE :: nat where "PF_38_NONE = 0"
definition PF_38_66 :: nat where "PF_38_66 = push_bit 0 1"
definition PF_38_F2 :: nat where "PF_38_F2 = push_bit 1 1"
definition PF_38_F3 :: nat where "PF_38_F3 = push_bit 2 1"

definition OPD_H0F38 :: "nat \<Rightarrow> nat \<Rightarrow> nat" where
  "OPD_H0F38 prefix opcode =
     push_bit 8 prefix OR opcode"

definition H0F38Table :: "X86TablesInfoStruct list" where
  "H0F38Table =
    [entry (OPD_H0F38 PF_38_NONE 0x00) 1 ''PSHUFB'' TYPE_INST ((GenFlagsSameSize SIZE_64BIT) OR FLAGS_MODRM OR FLAGS_XMM_FLAGS OR FLAGS_SF_MMX) 0,
     entry (OPD_H0F38 PF_38_66 0x00) 1 ''PSHUFB'' TYPE_INST ((GenFlagsSameSize SIZE_128BIT) OR FLAGS_MODRM OR FLAGS_XMM_FLAGS) 0,
     entry (OPD_H0F38 PF_38_NONE 0x01) 1 ''PHADDW'' TYPE_INST ((GenFlagsSameSize SIZE_64BIT) OR FLAGS_MODRM OR FLAGS_XMM_FLAGS OR FLAGS_SF_MMX) 0,
     entry (OPD_H0F38 PF_38_66 0x01) 1 ''PHADDW'' TYPE_INST ((GenFlagsSameSize SIZE_128BIT) OR FLAGS_MODRM OR FLAGS_XMM_FLAGS) 0,
     entry (OPD_H0F38 PF_38_NONE 0x02) 1 ''PHADDD'' TYPE_INST ((GenFlagsSameSize SIZE_64BIT) OR FLAGS_MODRM OR FLAGS_XMM_FLAGS OR FLAGS_SF_MMX) 0,
     entry (OPD_H0F38 PF_38_66 0x02) 1 ''PHADDD'' TYPE_INST ((GenFlagsSameSize SIZE_128BIT) OR FLAGS_MODRM OR FLAGS_XMM_FLAGS) 0,
     entry (OPD_H0F38 PF_38_NONE 0x03) 1 ''PHADDSW'' TYPE_INST ((GenFlagsSameSize SIZE_64BIT) OR FLAGS_MODRM OR FLAGS_XMM_FLAGS OR FLAGS_SF_MMX) 0,
     entry (OPD_H0F38 PF_38_66 0x03) 1 ''PHADDSW'' TYPE_INST ((GenFlagsSameSize SIZE_128BIT) OR FLAGS_MODRM OR FLAGS_XMM_FLAGS) 0,
     entry (OPD_H0F38 PF_38_NONE 0x04) 1 ''PMADDUBSW'' TYPE_INST ((GenFlagsSameSize SIZE_64BIT) OR FLAGS_MODRM OR FLAGS_XMM_FLAGS OR FLAGS_SF_MMX) 0,
     entry (OPD_H0F38 PF_38_66 0x04) 1 ''PMADDUBSW'' TYPE_INST ((GenFlagsSameSize SIZE_128BIT) OR FLAGS_MODRM OR FLAGS_XMM_FLAGS) 0,
     entry (OPD_H0F38 PF_38_NONE 0x05) 1 ''PHSUBW'' TYPE_INST ((GenFlagsSameSize SIZE_64BIT) OR FLAGS_MODRM OR FLAGS_XMM_FLAGS OR FLAGS_SF_MMX) 0,
     entry (OPD_H0F38 PF_38_66 0x05) 1 ''PHSUBW'' TYPE_INST ((GenFlagsSameSize SIZE_128BIT) OR FLAGS_MODRM OR FLAGS_XMM_FLAGS) 0,
     entry (OPD_H0F38 PF_38_NONE 0x06) 1 ''PHSUBD'' TYPE_INST ((GenFlagsSameSize SIZE_64BIT) OR FLAGS_MODRM OR FLAGS_XMM_FLAGS OR FLAGS_SF_MMX) 0,
     entry (OPD_H0F38 PF_38_66 0x06) 1 ''PHSUBD'' TYPE_INST ((GenFlagsSameSize SIZE_128BIT) OR FLAGS_MODRM OR FLAGS_XMM_FLAGS) 0,
     entry (OPD_H0F38 PF_38_NONE 0x07) 1 ''PHSUBSW'' TYPE_INST ((GenFlagsSameSize SIZE_64BIT) OR FLAGS_MODRM OR FLAGS_XMM_FLAGS OR FLAGS_SF_MMX) 0,
     entry (OPD_H0F38 PF_38_66 0x07) 1 ''PHSUBSW'' TYPE_INST ((GenFlagsSameSize SIZE_128BIT) OR FLAGS_MODRM OR FLAGS_XMM_FLAGS) 0,
     entry (OPD_H0F38 PF_38_NONE 0x08) 1 ''PSIGNB'' TYPE_INST ((GenFlagsSameSize SIZE_64BIT) OR FLAGS_MODRM OR FLAGS_XMM_FLAGS OR FLAGS_SF_MMX) 0,
     entry (OPD_H0F38 PF_38_66 0x08) 1 ''PSIGNB'' TYPE_INST ((GenFlagsSameSize SIZE_128BIT) OR FLAGS_MODRM OR FLAGS_XMM_FLAGS) 0,
     entry (OPD_H0F38 PF_38_NONE 0x09) 1 ''PSIGNW'' TYPE_INST ((GenFlagsSameSize SIZE_64BIT) OR FLAGS_MODRM OR FLAGS_XMM_FLAGS OR FLAGS_SF_MMX) 0,
     entry (OPD_H0F38 PF_38_66 0x09) 1 ''PSIGNW'' TYPE_INST ((GenFlagsSameSize SIZE_128BIT) OR FLAGS_MODRM OR FLAGS_XMM_FLAGS) 0,
     entry (OPD_H0F38 PF_38_NONE 0x0A) 1 ''PSIGND'' TYPE_INST ((GenFlagsSameSize SIZE_64BIT) OR FLAGS_MODRM OR FLAGS_XMM_FLAGS OR FLAGS_SF_MMX) 0,
     entry (OPD_H0F38 PF_38_66 0x0A) 1 ''PSIGND'' TYPE_INST ((GenFlagsSameSize SIZE_128BIT) OR FLAGS_MODRM OR FLAGS_XMM_FLAGS) 0,
     entry (OPD_H0F38 PF_38_NONE 0x0B) 1 ''PMULHRSW'' TYPE_INST ((GenFlagsSameSize SIZE_64BIT) OR FLAGS_MODRM OR FLAGS_XMM_FLAGS OR FLAGS_SF_MMX) 0,
     entry (OPD_H0F38 PF_38_66 0x0B) 1 ''PMULHRSW'' TYPE_INST ((GenFlagsSameSize SIZE_128BIT) OR FLAGS_MODRM OR FLAGS_XMM_FLAGS) 0,
     entry (OPD_H0F38 PF_38_66 0x10) 1 ''PBLENDVB'' TYPE_INST ((GenFlagsSameSize SIZE_128BIT) OR FLAGS_MODRM OR FLAGS_XMM_FLAGS) 0,
     entry (OPD_H0F38 PF_38_66 0x14) 1 ''BLENDVPS'' TYPE_INST ((GenFlagsSameSize SIZE_128BIT) OR FLAGS_MODRM OR FLAGS_XMM_FLAGS) 0,
     entry (OPD_H0F38 PF_38_66 0x15) 1 ''BLENDVPD'' TYPE_INST ((GenFlagsSameSize SIZE_128BIT) OR FLAGS_MODRM OR FLAGS_XMM_FLAGS) 0,
     entry (OPD_H0F38 PF_38_66 0x17) 1 ''PTEST'' TYPE_INST ((GenFlagsSameSize SIZE_128BIT) OR FLAGS_MODRM OR FLAGS_XMM_FLAGS) 0,
     entry (OPD_H0F38 PF_38_NONE 0x1C) 1 ''PABSB'' TYPE_INST ((GenFlagsSameSize SIZE_64BIT) OR FLAGS_MODRM OR FLAGS_XMM_FLAGS OR FLAGS_SF_MMX) 0,
     entry (OPD_H0F38 PF_38_66 0x1C) 1 ''PABSB'' TYPE_INST ((GenFlagsSameSize SIZE_128BIT) OR FLAGS_MODRM OR FLAGS_XMM_FLAGS) 0,
     entry (OPD_H0F38 PF_38_NONE 0x1D) 1 ''PABSW'' TYPE_INST ((GenFlagsSameSize SIZE_64BIT) OR FLAGS_MODRM OR FLAGS_XMM_FLAGS OR FLAGS_SF_MMX) 0,
     entry (OPD_H0F38 PF_38_66 0x1D) 1 ''PABSW'' TYPE_INST ((GenFlagsSameSize SIZE_128BIT) OR FLAGS_MODRM OR FLAGS_XMM_FLAGS) 0,
     entry (OPD_H0F38 PF_38_NONE 0x1E) 1 ''PABSD'' TYPE_INST ((GenFlagsSameSize SIZE_64BIT) OR FLAGS_MODRM OR FLAGS_XMM_FLAGS OR FLAGS_SF_MMX) 0,
     entry (OPD_H0F38 PF_38_66 0x1E) 1 ''PABSD'' TYPE_INST ((GenFlagsSameSize SIZE_128BIT) OR FLAGS_MODRM OR FLAGS_XMM_FLAGS) 0,
     entry (OPD_H0F38 PF_38_66 0x20) 1 ''PMOVSXBW'' TYPE_INST ((GenFlagsSizes SIZE_128BIT SIZE_64BIT) OR FLAGS_MODRM OR FLAGS_XMM_FLAGS) 0,
     entry (OPD_H0F38 PF_38_66 0x21) 1 ''PMOVSXBD'' TYPE_INST ((GenFlagsSizes SIZE_128BIT SIZE_32BIT) OR FLAGS_MODRM OR FLAGS_XMM_FLAGS) 0,
     entry (OPD_H0F38 PF_38_66 0x22) 1 ''PMOVSXBQ'' TYPE_INST ((GenFlagsSizes SIZE_128BIT SIZE_16BIT) OR FLAGS_MODRM OR FLAGS_XMM_FLAGS) 0,
     entry (OPD_H0F38 PF_38_66 0x23) 1 ''PMOVSXWD'' TYPE_INST ((GenFlagsSizes SIZE_128BIT SIZE_64BIT) OR FLAGS_MODRM OR FLAGS_XMM_FLAGS) 0,
     entry (OPD_H0F38 PF_38_66 0x24) 1 ''PMOVSXWQ'' TYPE_INST ((GenFlagsSizes SIZE_128BIT SIZE_32BIT) OR FLAGS_MODRM OR FLAGS_XMM_FLAGS) 0,
     entry (OPD_H0F38 PF_38_66 0x25) 1 ''PMOVSXDQ'' TYPE_INST ((GenFlagsSizes SIZE_128BIT SIZE_64BIT) OR FLAGS_MODRM OR FLAGS_XMM_FLAGS) 0,
     entry (OPD_H0F38 PF_38_66 0x28) 1 ''PMULDQ'' TYPE_INST ((GenFlagsSameSize SIZE_128BIT) OR FLAGS_MODRM OR FLAGS_XMM_FLAGS) 0,
     entry (OPD_H0F38 PF_38_66 0x29) 1 ''PCMPEQQ'' TYPE_INST ((GenFlagsSameSize SIZE_128BIT) OR FLAGS_MODRM OR FLAGS_XMM_FLAGS) 0,
     entry (OPD_H0F38 PF_38_66 0x2A) 1 ''MOVNTDQA'' TYPE_INST ((GenFlagsSameSize SIZE_128BIT) OR FLAGS_MODRM OR FLAGS_SF_MOD_MEM_ONLY OR FLAGS_XMM_FLAGS) 0,
     entry (OPD_H0F38 PF_38_66 0x2B) 1 ''PACKUSDW'' TYPE_INST ((GenFlagsSameSize SIZE_128BIT) OR FLAGS_MODRM OR FLAGS_XMM_FLAGS) 0,
     entry (OPD_H0F38 PF_38_66 0x30) 1 ''PMOVZXBW'' TYPE_INST ((GenFlagsSizes SIZE_128BIT SIZE_64BIT) OR FLAGS_MODRM OR FLAGS_XMM_FLAGS) 0,
     entry (OPD_H0F38 PF_38_66 0x31) 1 ''PMOVZXBD'' TYPE_INST ((GenFlagsSizes SIZE_128BIT SIZE_32BIT) OR FLAGS_MODRM OR FLAGS_XMM_FLAGS) 0,
     entry (OPD_H0F38 PF_38_66 0x32) 1 ''PMOVZXBQ'' TYPE_INST ((GenFlagsSizes SIZE_128BIT SIZE_16BIT) OR FLAGS_MODRM OR FLAGS_XMM_FLAGS) 0,
     entry (OPD_H0F38 PF_38_66 0x33) 1 ''PMOVZXWD'' TYPE_INST ((GenFlagsSizes SIZE_128BIT SIZE_64BIT) OR FLAGS_MODRM OR FLAGS_XMM_FLAGS) 0,
     entry (OPD_H0F38 PF_38_66 0x34) 1 ''PMOVZXWQ'' TYPE_INST ((GenFlagsSizes SIZE_128BIT SIZE_32BIT) OR FLAGS_MODRM OR FLAGS_XMM_FLAGS) 0,
     entry (OPD_H0F38 PF_38_66 0x35) 1 ''PMOVZXDQ'' TYPE_INST ((GenFlagsSizes SIZE_128BIT SIZE_64BIT) OR FLAGS_MODRM OR FLAGS_XMM_FLAGS) 0,
     entry (OPD_H0F38 PF_38_66 0x37) 1 ''PCMPGTQ'' TYPE_INST ((GenFlagsSameSize SIZE_128BIT) OR FLAGS_MODRM OR FLAGS_XMM_FLAGS) 0,
     entry (OPD_H0F38 PF_38_66 0x38) 1 ''PMINSB'' TYPE_INST ((GenFlagsSameSize SIZE_128BIT) OR FLAGS_MODRM OR FLAGS_XMM_FLAGS) 0,
     entry (OPD_H0F38 PF_38_66 0x39) 1 ''PMINSD'' TYPE_INST ((GenFlagsSameSize SIZE_128BIT) OR FLAGS_MODRM OR FLAGS_XMM_FLAGS) 0,
     entry (OPD_H0F38 PF_38_66 0x3A) 1 ''PMINUW'' TYPE_INST ((GenFlagsSameSize SIZE_128BIT) OR FLAGS_MODRM OR FLAGS_XMM_FLAGS) 0,
     entry (OPD_H0F38 PF_38_66 0x3B) 1 ''PMINUD'' TYPE_INST ((GenFlagsSameSize SIZE_128BIT) OR FLAGS_MODRM OR FLAGS_XMM_FLAGS) 0,
     entry (OPD_H0F38 PF_38_66 0x3C) 1 ''PMAXSB'' TYPE_INST ((GenFlagsSameSize SIZE_128BIT) OR FLAGS_MODRM OR FLAGS_XMM_FLAGS) 0,
     entry (OPD_H0F38 PF_38_66 0x3D) 1 ''PMAXSD'' TYPE_INST ((GenFlagsSameSize SIZE_128BIT) OR FLAGS_MODRM OR FLAGS_XMM_FLAGS) 0,
     entry (OPD_H0F38 PF_38_66 0x3E) 1 ''PMAXUW'' TYPE_INST ((GenFlagsSameSize SIZE_128BIT) OR FLAGS_MODRM OR FLAGS_XMM_FLAGS) 0,
     entry (OPD_H0F38 PF_38_66 0x3F) 1 ''PMAXUD'' TYPE_INST ((GenFlagsSameSize SIZE_128BIT) OR FLAGS_MODRM OR FLAGS_XMM_FLAGS) 0,
     entry (OPD_H0F38 PF_38_66 0x40) 1 ''PMULLD'' TYPE_INST ((GenFlagsSameSize SIZE_128BIT) OR FLAGS_MODRM OR FLAGS_XMM_FLAGS) 0,
     entry (OPD_H0F38 PF_38_66 0x41) 1 ''PHMINPOSUW'' TYPE_INST ((GenFlagsSameSize SIZE_128BIT) OR FLAGS_MODRM OR FLAGS_XMM_FLAGS) 0,
     entry (OPD_H0F38 PF_38_NONE 0xC8) 1 ''SHA1NEXTE'' TYPE_INST ((GenFlagsSameSize SIZE_128BIT) OR FLAGS_MODRM OR FLAGS_XMM_FLAGS) 0,
     entry (OPD_H0F38 PF_38_NONE 0xC9) 1 ''SHA1MSG1'' TYPE_INST ((GenFlagsSameSize SIZE_128BIT) OR FLAGS_MODRM OR FLAGS_XMM_FLAGS) 0,
     entry (OPD_H0F38 PF_38_NONE 0xCA) 1 ''SHA1MSG2'' TYPE_INST ((GenFlagsSameSize SIZE_128BIT) OR FLAGS_MODRM OR FLAGS_XMM_FLAGS) 0,
     entry (OPD_H0F38 PF_38_NONE 0xCB) 1 ''SHA256RNDS2'' TYPE_INST ((GenFlagsSameSize SIZE_128BIT) OR FLAGS_MODRM OR FLAGS_XMM_FLAGS) 0,
     entry (OPD_H0F38 PF_38_NONE 0xCC) 1 ''SHA256MSG1'' TYPE_INST ((GenFlagsSameSize SIZE_128BIT) OR FLAGS_MODRM OR FLAGS_XMM_FLAGS) 0,
     entry (OPD_H0F38 PF_38_NONE 0xCD) 1 ''SHA256MSG2'' TYPE_INST ((GenFlagsSameSize SIZE_128BIT) OR FLAGS_MODRM OR FLAGS_XMM_FLAGS) 0,
     entry (OPD_H0F38 PF_38_66 0xDB) 1 ''AESIMC'' TYPE_INST ((GenFlagsSameSize SIZE_128BIT) OR FLAGS_MODRM OR FLAGS_XMM_FLAGS) 0,
     entry (OPD_H0F38 PF_38_66 0xDC) 1 ''AESENC'' TYPE_INST ((GenFlagsSameSize SIZE_128BIT) OR FLAGS_MODRM OR FLAGS_XMM_FLAGS) 0,
     entry (OPD_H0F38 PF_38_66 0xDD) 1 ''AESENCLAST'' TYPE_INST ((GenFlagsSameSize SIZE_128BIT) OR FLAGS_MODRM OR FLAGS_XMM_FLAGS) 0,
     entry (OPD_H0F38 PF_38_66 0xDE) 1 ''AESDEC'' TYPE_INST ((GenFlagsSameSize SIZE_128BIT) OR FLAGS_MODRM OR FLAGS_XMM_FLAGS) 0,
     entry (OPD_H0F38 PF_38_66 0xDF) 1 ''AESDECLAST'' TYPE_INST ((GenFlagsSameSize SIZE_128BIT) OR FLAGS_MODRM OR FLAGS_XMM_FLAGS) 0,
     entry (OPD_H0F38 PF_38_NONE 0xF0) 1 ''MOVBE'' TYPE_INST (FLAGS_MODRM OR FLAGS_SF_MOD_MEM_ONLY) 0,
     entry (OPD_H0F38 PF_38_NONE 0xF1) 1 ''MOVBE'' TYPE_INST (FLAGS_MODRM OR FLAGS_SF_MOD_DST OR FLAGS_SF_MOD_MEM_ONLY) 0,
     entry (OPD_H0F38 PF_38_66 0xF0) 1 ''MOVBE'' TYPE_INST (FLAGS_MODRM OR FLAGS_SF_MOD_MEM_ONLY) 0,
     entry (OPD_H0F38 PF_38_66 0xF1) 1 ''MOVBE'' TYPE_INST (FLAGS_MODRM OR FLAGS_SF_MOD_DST OR FLAGS_SF_MOD_MEM_ONLY) 0,
     entry (OPD_H0F38 PF_38_F2 0xF0) 1 ''CRC32'' TYPE_INST ((GenFlagsSizes SIZE_DEF SIZE_8BIT) OR FLAGS_MODRM) 0,
     entry (OPD_H0F38 PF_38_F2 0xF1) 1 ''CRC32'' TYPE_INST FLAGS_MODRM 0,
     entry (OPD_H0F38 (PF_38_66 OR PF_38_F2) 0xF0) 1 ''CRC32'' TYPE_INST ((GenFlagsSizes SIZE_DEF SIZE_8BIT) OR FLAGS_MODRM) 0,
     entry (OPD_H0F38 (PF_38_66 OR PF_38_F2) 0xF1) 1 ''CRC32'' TYPE_INST FLAGS_MODRM 0,
     entry (OPD_H0F38 PF_38_66 0xF6) 1 ''ADCX'' TYPE_INST (FLAGS_MODRM OR FLAGS_NO_OVERLAY66) 0,
     entry (OPD_H0F38 PF_38_F3 0xF6) 1 ''ADOX'' TYPE_INST FLAGS_MODRM 0]"

definition OpDispatch_H0F38Table :: "DispatchTableEntry list" where
  "OpDispatch_H0F38Table =
    [dispatch (OPD_H0F38 PF_38_NONE 0x00) 1 (Handler ''PSHUFBOp''),
     dispatch (OPD_H0F38 PF_38_66 0x00) 1 (Handler ''PSHUFBOp''),
     dispatch (OPD_H0F38 PF_38_NONE 0x01) 1 (Bind ''VectorALUOp'' [''OP_VADDP'', ''i16Bit'']),
     dispatch (OPD_H0F38 PF_38_66 0x01) 1 (Bind ''VectorALUOp'' [''OP_VADDP'', ''i16Bit'']),
     dispatch (OPD_H0F38 PF_38_NONE 0x02) 1 (Bind ''VectorALUOp'' [''OP_VADDP'', ''i32Bit'']),
     dispatch (OPD_H0F38 PF_38_66 0x02) 1 (Bind ''VectorALUOp'' [''OP_VADDP'', ''i32Bit'']),
     dispatch (OPD_H0F38 PF_38_NONE 0x03) 1 (Handler ''PHADDS''),
     dispatch (OPD_H0F38 PF_38_66 0x03) 1 (Handler ''PHADDS''),
     dispatch (OPD_H0F38 PF_38_NONE 0x04) 1 (Handler ''PMADDUBSW''),
     dispatch (OPD_H0F38 PF_38_66 0x04) 1 (Handler ''PMADDUBSW''),
     dispatch (OPD_H0F38 PF_38_NONE 0x05) 1 (Bind ''PHSUB'' [''i16Bit'']),
     dispatch (OPD_H0F38 PF_38_66 0x05) 1 (Bind ''PHSUB'' [''i16Bit'']),
     dispatch (OPD_H0F38 PF_38_NONE 0x06) 1 (Bind ''PHSUB'' [''i32Bit'']),
     dispatch (OPD_H0F38 PF_38_66 0x06) 1 (Bind ''PHSUB'' [''i32Bit'']),
     dispatch (OPD_H0F38 PF_38_NONE 0x07) 1 (Handler ''PHSUBS''),
     dispatch (OPD_H0F38 PF_38_66 0x07) 1 (Handler ''PHSUBS''),
     dispatch (OPD_H0F38 PF_38_NONE 0x08) 1 (Bind ''PSIGN'' [''i8Bit'']),
     dispatch (OPD_H0F38 PF_38_66 0x08) 1 (Bind ''PSIGN'' [''i8Bit'']),
     dispatch (OPD_H0F38 PF_38_NONE 0x09) 1 (Bind ''PSIGN'' [''i16Bit'']),
     dispatch (OPD_H0F38 PF_38_66 0x09) 1 (Bind ''PSIGN'' [''i16Bit'']),
     dispatch (OPD_H0F38 PF_38_NONE 0x0A) 1 (Bind ''PSIGN'' [''i32Bit'']),
     dispatch (OPD_H0F38 PF_38_66 0x0A) 1 (Bind ''PSIGN'' [''i32Bit'']),
     dispatch (OPD_H0F38 PF_38_NONE 0x0B) 1 (Handler ''PMULHRSW''),
     dispatch (OPD_H0F38 PF_38_66 0x0B) 1 (Handler ''PMULHRSW''),
     dispatch (OPD_H0F38 PF_38_66 0x10) 1 (Bind ''VectorVariableBlend'' [''i8Bit'']),
     dispatch (OPD_H0F38 PF_38_66 0x14) 1 (Bind ''VectorVariableBlend'' [''i32Bit'']),
     dispatch (OPD_H0F38 PF_38_66 0x15) 1 (Bind ''VectorVariableBlend'' [''i64Bit'']),
     dispatch (OPD_H0F38 PF_38_66 0x17) 1 (Handler ''PTestOp''),
     dispatch (OPD_H0F38 PF_38_NONE 0x1C) 1 (Bind ''VectorUnaryOp'' [''OP_VABS'', ''i8Bit'']),
     dispatch (OPD_H0F38 PF_38_66 0x1C) 1 (Bind ''VectorUnaryOp'' [''OP_VABS'', ''i8Bit'']),
     dispatch (OPD_H0F38 PF_38_NONE 0x1D) 1 (Bind ''VectorUnaryOp'' [''OP_VABS'', ''i16Bit'']),
     dispatch (OPD_H0F38 PF_38_66 0x1D) 1 (Bind ''VectorUnaryOp'' [''OP_VABS'', ''i16Bit'']),
     dispatch (OPD_H0F38 PF_38_NONE 0x1E) 1 (Bind ''VectorUnaryOp'' [''OP_VABS'', ''i32Bit'']),
     dispatch (OPD_H0F38 PF_38_66 0x1E) 1 (Bind ''VectorUnaryOp'' [''OP_VABS'', ''i32Bit'']),
     dispatch (OPD_H0F38 PF_38_66 0x20) 1 (Bind ''ExtendVectorElements'' [''i8Bit'', ''i16Bit'', ''true'']),
     dispatch (OPD_H0F38 PF_38_66 0x21) 1 (Bind ''ExtendVectorElements'' [''i8Bit'', ''i32Bit'', ''true'']),
     dispatch (OPD_H0F38 PF_38_66 0x22) 1 (Bind ''ExtendVectorElements'' [''i8Bit'', ''i64Bit'', ''true'']),
     dispatch (OPD_H0F38 PF_38_66 0x23) 1 (Bind ''ExtendVectorElements'' [''i16Bit'', ''i32Bit'', ''true'']),
     dispatch (OPD_H0F38 PF_38_66 0x24) 1 (Bind ''ExtendVectorElements'' [''i16Bit'', ''i64Bit'', ''true'']),
     dispatch (OPD_H0F38 PF_38_66 0x25) 1 (Bind ''ExtendVectorElements'' [''i32Bit'', ''i64Bit'', ''true'']),
     dispatch (OPD_H0F38 PF_38_66 0x28) 1 (Bind ''PMULLOp'' [''i32Bit'', ''true'']),
     dispatch (OPD_H0F38 PF_38_66 0x29) 1 (Bind ''VectorALUOp'' [''OP_VCMPEQ'', ''i64Bit'']),
     dispatch (OPD_H0F38 PF_38_66 0x2A) 1 (Bind ''MOVVectorNTOp'' [''false'']),
     dispatch (OPD_H0F38 PF_38_66 0x2B) 1 (Bind ''PACKUSOp'' [''i32Bit'']),
     dispatch (OPD_H0F38 PF_38_66 0x30) 1 (Bind ''ExtendVectorElements'' [''i8Bit'', ''i16Bit'', ''false'']),
     dispatch (OPD_H0F38 PF_38_66 0x31) 1 (Bind ''ExtendVectorElements'' [''i8Bit'', ''i32Bit'', ''false'']),
     dispatch (OPD_H0F38 PF_38_66 0x32) 1 (Bind ''ExtendVectorElements'' [''i8Bit'', ''i64Bit'', ''false'']),
     dispatch (OPD_H0F38 PF_38_66 0x33) 1 (Bind ''ExtendVectorElements'' [''i16Bit'', ''i32Bit'', ''false'']),
     dispatch (OPD_H0F38 PF_38_66 0x34) 1 (Bind ''ExtendVectorElements'' [''i16Bit'', ''i64Bit'', ''false'']),
     dispatch (OPD_H0F38 PF_38_66 0x35) 1 (Bind ''ExtendVectorElements'' [''i32Bit'', ''i64Bit'', ''false'']),
     dispatch (OPD_H0F38 PF_38_66 0x37) 1 (Bind ''VectorALUOp'' [''OP_VCMPGT'', ''i64Bit'']),
     dispatch (OPD_H0F38 PF_38_66 0x38) 1 (Bind ''VectorALUOp'' [''OP_VSMIN'', ''i8Bit'']),
     dispatch (OPD_H0F38 PF_38_66 0x39) 1 (Bind ''VectorALUOp'' [''OP_VSMIN'', ''i32Bit'']),
     dispatch (OPD_H0F38 PF_38_66 0x3A) 1 (Bind ''VectorALUOp'' [''OP_VUMIN'', ''i16Bit'']),
     dispatch (OPD_H0F38 PF_38_66 0x3B) 1 (Bind ''VectorALUOp'' [''OP_VUMIN'', ''i32Bit'']),
     dispatch (OPD_H0F38 PF_38_66 0x3C) 1 (Bind ''VectorALUOp'' [''OP_VSMAX'', ''i8Bit'']),
     dispatch (OPD_H0F38 PF_38_66 0x3D) 1 (Bind ''VectorALUOp'' [''OP_VSMAX'', ''i32Bit'']),
     dispatch (OPD_H0F38 PF_38_66 0x3E) 1 (Bind ''VectorALUOp'' [''OP_VUMAX'', ''i16Bit'']),
     dispatch (OPD_H0F38 PF_38_66 0x3F) 1 (Bind ''VectorALUOp'' [''OP_VUMAX'', ''i32Bit'']),
     dispatch (OPD_H0F38 PF_38_66 0x40) 1 (Bind ''VectorALUOp'' [''OP_VMUL'', ''i32Bit'']),
     dispatch (OPD_H0F38 PF_38_66 0x41) 1 (Handler ''PHMINPOSUWOp''),
     dispatch (OPD_H0F38 PF_38_NONE 0xC8) 1 (Handler ''SHA1NEXTEOp''),
     dispatch (OPD_H0F38 PF_38_NONE 0xC9) 1 (Handler ''SHA1MSG1Op''),
     dispatch (OPD_H0F38 PF_38_NONE 0xCA) 1 (Handler ''SHA1MSG2Op''),
     dispatch (OPD_H0F38 PF_38_NONE 0xCB) 1 (Handler ''SHA256RNDS2Op''),
     dispatch (OPD_H0F38 PF_38_NONE 0xCC) 1 (Handler ''SHA256MSG1Op''),
     dispatch (OPD_H0F38 PF_38_NONE 0xCD) 1 (Handler ''SHA256MSG2Op''),
     dispatch (OPD_H0F38 PF_38_66 0xDB) 1 (Bind ''AESImcOp'' [''false'']),
     dispatch (OPD_H0F38 PF_38_66 0xDC) 1 (Handler ''AESEncOp''),
     dispatch (OPD_H0F38 PF_38_66 0xDD) 1 (Handler ''AESEncLastOp''),
     dispatch (OPD_H0F38 PF_38_66 0xDE) 1 (Handler ''AESDecOp''),
     dispatch (OPD_H0F38 PF_38_66 0xDF) 1 (Handler ''AESDecLastOp''),
     dispatch (OPD_H0F38 PF_38_NONE 0xF0) 2 (Handler ''MOVBEOp''),
     dispatch (OPD_H0F38 PF_38_66 0xF0) 2 (Handler ''MOVBEOp''),
     dispatch (OPD_H0F38 PF_38_F2 0xF0) 1 (Handler ''CRC32''),
     dispatch (OPD_H0F38 PF_38_F2 0xF1) 1 (Handler ''CRC32''),
     dispatch (OPD_H0F38 (PF_38_66 OR PF_38_F2) 0xF0) 1 (Handler ''CRC32''),
     dispatch (OPD_H0F38 (PF_38_66 OR PF_38_F2) 0xF1) 1 (Handler ''CRC32''),
     dispatch (OPD_H0F38 PF_38_66 0xF6) 1 (Handler ''ADXOp''),
     dispatch (OPD_H0F38 PF_38_F3 0xF6) 1 (Handler ''ADXOp'')]"

definition H0F38TableOps_build :: "table option" where
  "H0F38TableOps_build =
     do { Table \<leftarrow> GenerateTable H0F38Table (replicate 2048 zero_info);
          InstallToTable OpDispatch_H0F38Table Table }"

section \<open>The 0F 3A table\<close>

definition PF_3A_NONE :: nat where "PF_3A_NONE = 0"
definition PF_3A_66 :: nat where "PF_3A_66 = 1"

definition OPD_H0F3A :: "nat \<Rightarrow> nat \<Rightarrow> nat \<Rightarrow> nat" where
  "OPD_H0F3A REX prefix opcode =
     push_bit 9 REX OR push_bit 8 prefix OR opcode"

definition H0F3A_LUT_1_3A_66_16 :: "X86InstInfo \<times> X86InstInfo" where
  "H0F3A_LUT_1_3A_66_16 =
    (X86InstInfo '''' TYPE_INVALID FLAGS_NONE 0 (OpDispatch None),
     X86InstInfo ''PEXTRQ'' TYPE_INST ((GenFlagsSizes SIZE_64BIT SIZE_128BIT) OR FLAGS_MODRM OR FLAGS_SF_MOD_DST OR FLAGS_SF_DST_GPR OR FLAGS_XMM_FLAGS) 1 (OpDispatch (Some (Bind ''PExtrOp'' [''i64Bit'']))))"

definition H0F3A_LUT_1_3A_66_22 :: "X86InstInfo \<times> X86InstInfo" where
  "H0F3A_LUT_1_3A_66_22 =
    (X86InstInfo '''' TYPE_INVALID FLAGS_NONE 0 (OpDispatch None),
     X86InstInfo ''PINSRQ'' TYPE_INST ((GenFlagsSizes SIZE_128BIT SIZE_64BIT) OR FLAGS_MODRM OR FLAGS_XMM_FLAGS OR FLAGS_SF_SRC_GPR) 1 (OpDispatch (Some (Bind ''PINSROp'' [''i64Bit'']))))"

definition H0F3ATable :: "nat \<Rightarrow> X86TablesInfoStruct list" where
  "H0F3ATable REX =
    [entry (OPD_H0F3A REX PF_3A_NONE 0x0F) 1 ''PALIGNR'' TYPE_INST ((GenFlagsSameSize SIZE_64BIT) OR FLAGS_MODRM OR FLAGS_XMM_FLAGS OR FLAGS_SF_MMX) 1,
     entry (OPD_H0F3A REX PF_3A_66 0x08) 1 ''ROUNDPS'' TYPE_INST ((GenFlagsSameSize SIZE_128BIT) OR FLAGS_MODRM OR FLAGS_XMM_FLAGS) 1,
     entry (OPD_H0F3A REX PF_3A_66 0x09) 1 ''ROUNDPD'' TYPE_INST ((GenFlagsSameSize SIZE_128BIT) OR FLAGS_MODRM OR FLAGS_XMM_FLAGS) 1,
     entry (OPD_H0F3A REX PF_3A_66 0x0A) 1 ''ROUNDSS'' TYPE_INST ((GenFlagsSizes SIZE_128BIT SIZE_32BIT) OR FLAGS_MODRM OR FLAGS_XMM_FLAGS) 1,
     entry (OPD_H0F3A REX PF_3A_66 0x0B) 1 ''ROUNDSD'' TYPE_INST ((GenFlagsSizes SIZE_128BIT SIZE_64BIT) OR FLAGS_MODRM OR FLAGS_XMM_FLAGS) 1,
     entry (OPD_H0F3A REX PF_3A_66 0x0C) 1 ''BLENDPS'' TYPE_INST ((GenFlagsSameSize SIZE_128BIT) OR FLAGS_MODRM OR FLAGS_XMM_FLAGS) 1,
     entry (OPD_H0F3A REX PF_3A_66 0x0D) 1 ''BLENDPD'' TYPE_INST ((GenFlagsSameSize SIZE_128BIT) OR FLAGS_MODRM OR FLAGS_XMM_FLAGS) 1,
     entry (OPD_H0F3A REX PF_3A_66 0x0E) 1 ''PBLENDW'' TYPE_INST ((GenFlagsSameSize SIZE_128BIT) OR FLAGS_MODRM OR FLAGS_XMM_FLAGS) 1,
     entry (OPD_H0F3A REX PF_3A_66 0x0F) 1 ''PALIGNR'' TYPE_INST ((GenFlagsSameSize SIZE_128BIT) OR FLAGS_MODRM OR FLAGS_XMM_FLAGS) 1,
     entry (OPD_H0F3A REX PF_3A_66 0x14) 1 ''PEXTRB'' TYPE_INST ((GenFlagsSizes SIZE_32BIT SIZE_128BIT) OR FLAGS_MODRM OR FLAGS_SF_MOD_DST OR FLAGS_SF_DST_GPR OR FLAGS_XMM_FLAGS) 1,
     entry (OPD_H0F3A REX PF_3A_66 0x15) 1 ''PEXTRW'' TYPE_INST ((GenFlagsSizes SIZE_16BIT SIZE_128BIT) OR FLAGS_MODRM OR FLAGS_SF_MOD_DST OR FLAGS_SF_DST_GPR OR FLAGS_XMM_FLAGS) 1,
     entry (OPD_H0F3A REX PF_3A_66 0x17) 1 ''EXTRACTPS'' TYPE_INST ((GenFlagsSizes SIZE_32BIT SIZE_128BIT) OR FLAGS_MODRM OR FLAGS_SF_MOD_DST OR FLAGS_SF_DST_GPR OR FLAGS_XMM_FLAGS) 1,
     entry (OPD_H0F3A REX PF_3A_66 0x20) 1 ''PINSRB'' TYPE_INST ((GenFlagsDstSize SIZE_128BIT) OR FLAGS_MODRM OR FLAGS_XMM_FLAGS OR FLAGS_SF_SRC_GPR) 1,
     entry (OPD_H0F3A REX PF_3A_66 0x21) 1 ''INSERTPS'' TYPE_INST ((GenFlagsSameSize SIZE_128BIT) OR FLAGS_MODRM OR FLAGS_XMM_FLAGS) 1,
     entry (OPD_H0F3A REX PF_3A_66 0x40) 1 ''DPPS'' TYPE_INST ((GenFlagsSameSize SIZE_128BIT) OR FLAGS_MODRM OR FLAGS_XMM_FLAGS) 1,
     entry (OPD_H0F3A REX PF_3A_66 0x41) 1 ''DPPD'' TYPE_INST ((GenFlagsSameSize SIZE_128BIT) OR FLAGS_MODRM OR FLAGS_XMM_FLAGS) 1,
     entry (OPD_H0F3A REX PF_3A_66 0x42) 1 ''MPSADBW'' TYPE_INST ((GenFlagsSameSize SIZE_128BIT) OR FLAGS_MODRM OR FLAGS_XMM_FLAGS) 1,
     entry (OPD_H0F3A REX PF_3A_66 0x44) 1 ''PCLMULQDQ'' TYPE_INST ((GenFlagsSameSize SIZE_128BIT) OR FLAGS_MODRM OR FLAGS_XMM_FLAGS) 1,
     entry (OPD_H0F3A REX PF_3A_66 0x60) 1 ''PCMPESTRM'' TYPE_INST ((GenFlagsSizes SIZE_128BIT SIZE_32BIT) OR FLAGS_MODRM OR FLAGS_XMM_FLAGS) 1,
     entry (OPD_H0F3A REX PF_3A_66 0x61) 1 ''PCMPESTRI'' TYPE_INST ((GenFlagsSizes SIZE_128BIT SIZE_32BIT) OR FLAGS_MODRM OR FLAGS_XMM_FLAGS) 1,
     entry (OPD_H0F3A REX PF_3A_66 0x62) 1 ''PCMPISTRM'' TYPE_INST ((GenFlagsSameSize SIZE_128BIT) OR FLAGS_MODRM OR FLAGS_XMM_FLAGS) 1,
     entry (OPD_H0F3A REX PF_3A_66 0x63) 1 ''PCMPISTRI'' TYPE_INST ((GenFlagsSameSize SIZE_128BIT) OR FLAGS_MODRM OR FLAGS_XMM_FLAGS) 1,
     entry (OPD_H0F3A REX PF_3A_NONE 0xCC) 1 ''SHA1RNDS4'' TYPE_INST ((GenFlagsSameSize SIZE_128BIT) OR FLAGS_MODRM OR FLAGS_XMM_FLAGS) 1,
     entry (OPD_H0F3A REX PF_3A_66 0xDF) 1 ''AESKEYGENASSIST'' TYPE_INST ((GenFlagsSameSize SIZE_128BIT) OR FLAGS_MODRM OR FLAGS_XMM_FLAGS) 1]"

definition TableNeedsREX0 :: "X86TablesInfoStruct list" where
  "TableNeedsREX0 =
    [entry (OPD_H0F3A 0 PF_3A_66 0x16) 1 ''PEXTRD'' TYPE_INST ((GenFlagsSizes SIZE_32BIT SIZE_128BIT) OR FLAGS_MODRM OR FLAGS_SF_MOD_DST OR FLAGS_SF_DST_GPR OR FLAGS_XMM_FLAGS) 1,
     entry (OPD_H0F3A 0 PF_3A_66 0x22) 1 ''PINSRD'' TYPE_INST ((GenFlagsSizes SIZE_128BIT SIZE_32BIT) OR FLAGS_MODRM OR FLAGS_XMM_FLAGS OR FLAGS_SF_SRC_GPR) 1]"

definition TableNeedsREX1 :: "X86TablesInfoStruct list" where
  "TableNeedsREX1 =
    [arch_entry (OPD_H0F3A 1 PF_3A_66 0x16) 1 '''' FLAGS_NONE 0 H0F3A_LUT_1_3A_66_16,
     arch_entry (OPD_H0F3A 1 PF_3A_66 0x22) 1 '''' FLAGS_NONE 0 H0F3A_LUT_1_3A_66_22]"

definition OpDispatchTableGenH0F3AREX :: "nat \<Rightarrow> DispatchTableEntry list" where
  "OpDispatchTableGenH0F3AREX REX =
    [dispatch (OPD_H0F3A REX PF_3A_66 0x08) 1 (Bind ''VectorRound'' [''i32Bit'']),
     dispatch (OPD_H0F3A REX PF_3A_66 0x09) 1 (Bind ''VectorRound'' [''i64Bit'']),
     dispatch (OPD_H0F3A REX PF_3A_66 0x0A) 1 (Bind ''InsertScalarRound'' [''i32Bit'']),
     dispatch (OPD_H0F3A REX PF_3A_66 0x0B) 1 (Bind ''InsertScalarRound'' [''i64Bit'']),
     dispatch (OPD_H0F3A REX PF_3A_66 0x0C) 1 (Bind ''VectorBlend'' [''i32Bit'']),
     dispatch (OPD_H0F3A REX PF_3A_66 0x0D) 1 (Bind ''VectorBlend'' [''i64Bit'']),
     dispatch (OPD_H0F3A REX PF_3A_66 0x0E) 1 (Bind ''VectorBlend'' [''i16Bit'']),
     dispatch (OPD_H0F3A REX PF_3A_NONE 0x0F) 1 (Handler ''PAlignrOp''),
     dispatch (OPD_H0F3A REX PF_3A_66 0x0F) 1 (Handler ''PAlignrOp''),
     dispatch (OPD_H0F3A REX PF_3A_66 0x14) 1 (Bind ''PExtrOp'' [''i8Bit'']),
     dispatch (OPD_H0F3A REX PF_3A_66 0x15) 1 (Bind ''PExtrOp'' [''i16Bit'']),
     dispatch (OPD_H0F3A REX PF_3A_66 0x17) 1 (Bind ''PExtrOp'' [''i32Bit'']),
     dispatch (OPD_H0F3A REX PF_3A_66 0x20) 1 (Bind ''PINSROp'' [''i8Bit'']),
     dispatch (OPD_H0F3A REX PF_3A_66 0x21) 1 (Handler ''InsertPSOp''),
     dispatch (OPD_H0F3A REX PF_3A_66 0x40) 1 (Bind ''DPPOp'' [''i32Bit'']),
     dispatch (OPD_H0F3A REX PF_3A_66 0x41) 1 (Bind ''DPPOp'' [''i64Bit'']),
     dispatch (OPD_H0F3A REX PF_3A_66 0x42) 1 (Handler ''MPSADBWOp''),
     dispatch (OPD_H0F3A REX PF_3A_66 0x44) 1 (Handler ''PCLMULQDQOp''),
     dispatch (OPD_H0F3A REX PF_3A_66 0x60) 1 (Bind ''VPCMPESTRMOp'' [''false'']),
     dispatch (OPD_H0F3A REX PF_3A_66 0x61) 1 (Bind ''VPCMPESTRIOp'' [''false'']),
     dispatch (OPD_H0F3A REX PF_3A_66 0x62) 1 (Bind ''VPCMPISTRMOp'' [''false'']),
     dispatch (OPD_H0F3A REX PF_3A_66 0x63) 1 (Bind ''VPCMPISTRIOp'' [''false'']),
     dispatch (OPD_H0F3A REX PF_3A_NONE 0xCC) 1 (Handler ''SHA1RNDS4Op''),
     dispatch (OPD_H0F3A REX PF_3A_66 0xDF) 1 (Bind ''AESKeyGenAssist'' [''false''])]"

definition OpDispatch_H0F3ATableNeedsREX0 :: "DispatchTableEntry list" where
  "OpDispatch_H0F3ATableNeedsREX0 =
    [dispatch (OPD_H0F3A 0 PF_3A_66 0x16) 1 (Bind ''PExtrOp'' [''i32Bit'']),
     dispatch (OPD_H0F3A 0 PF_3A_66 0x22) 1 (Bind ''PINSROp'' [''i32Bit''])]"

definition OpDispatch_H0F3ATableIgnoreREX :: "DispatchTableEntry list" where
  "OpDispatch_H0F3ATableIgnoreREX =
     OpDispatchTableGenH0F3AREX 0 @ OpDispatchTableGenH0F3AREX 1"

definition H0F3ATableOps_build :: "table option" where
  "H0F3ATableOps_build =
     do { Table \<leftarrow> GenerateTable (H0F3ATable 0) (replicate 2048 zero_info);
          Table \<leftarrow> GenerateTable (H0F3ATable 1) Table;
          Table \<leftarrow> GenerateTable TableNeedsREX0 Table;
          Table \<leftarrow> GenerateTable TableNeedsREX1 Table;
          Table \<leftarrow> InstallToTable OpDispatch_H0F3ATableIgnoreREX Table;
          InstallToTable OpDispatch_H0F3ATableNeedsREX0 Table }"

section \<open>The 3DNow! table\<close>

definition DDDNowOpTable :: "X86TablesInfoStruct list" where
  "DDDNowOpTable =
    [entry 0x0C 1 ''PI2FW'' TYPE_INST ((GenFlagsSameSize SIZE_64BIT) OR FLAGS_MODRM OR FLAGS_XMM_FLAGS OR FLAGS_SF_MMX) 0,
     entry 0x0D 1 ''PI2FD'' TYPE_INST ((GenFlagsSameSize SIZE_64BIT) OR FLAGS_MODRM OR FLAGS_XMM_FLAGS OR FLAGS_SF_MMX) 0,
     entry 0x1C 1 ''PF2IW'' TYPE_INST ((GenFlagsSameSize SIZE_64BIT) OR FLAGS_MODRM OR FLAGS_XMM_FLAGS OR FLAGS_SF_MMX) 0,
     entry 0x1D 1 ''PF2ID'' TYPE_INST ((GenFlagsSameSize SIZE_64BIT) OR FLAGS_MODRM OR FLAGS_XMM_FLAGS OR FLAGS_SF_MMX) 0,
     entry 0x86 1 ''PFRCPV'' TYPE_INST ((GenFlagsSameSize SIZE_64BIT) OR FLAGS_MODRM OR FLAGS_XMM_FLAGS OR FLAGS_SF_MMX) 0,
     entry 0x87 1 ''PFRSQRTV'' TYPE_INST ((GenFlagsSameSize SIZE_64BIT) OR FLAGS_MODRM OR FLAGS_XMM_FLAGS OR FLAGS_SF_MMX) 0,
     entry 0x8A 1 ''PFNACC'' TYPE_INST ((GenFlagsSameSize SIZE_64BIT) OR FLAGS_MODRM OR FLAGS_XMM_FLAGS OR FLAGS_SF_MMX) 0,
     entry 0x8E 1 ''PFPNACC'' TYPE_INST ((GenFlagsSameSize SIZE_64BIT) OR FLAGS_MODRM OR FLAGS_XMM_FLAGS OR FLAGS_SF_MMX) 0,
     entry 0x90 1 ''PFCMPGE'' TYPE_INST ((GenFlagsSameSize SIZE_64BIT) OR FLAGS_MODRM OR FLAGS_XMM_FLAGS OR FLAGS_SF_MMX) 0,
     entry 0x94 1 ''PFMIN'' TYPE_INST ((GenFlagsSameSize SIZE_64BIT) OR FLAGS_MODRM OR FLAGS_XMM_FLAGS OR FLAGS_SF_MMX) 0,
     entry 0x96 1 ''PFRCP'' TYPE_INST ((GenFlagsSameSize SIZE_64BIT) OR FLAGS_MODRM OR FLAGS_XMM_FLAGS OR FLAGS_SF_MMX) 0,
     entry 0x97 1 ''PFRSQRT'' TYPE_INST ((GenFlagsSameSize SIZE_64BIT) OR FLAGS_MODRM OR FLAGS_XMM_FLAGS OR FLAGS_SF_MMX) 0,
     entry 0x9A 1 ''PFSUB'' TYPE_INST ((GenFlagsSameSize SIZE_64BIT) OR FLAGS_MODRM OR FLAGS_XMM_FLAGS OR FLAGS_SF_MMX) 0,
     entry 0x9E 1 ''PFADD'' TYPE_INST ((GenFlagsSameSize SIZE_64BIT) OR FLAGS_MODRM OR FLAGS_XMM_FLAGS OR FLAGS_SF_MMX) 0,
     entry 0xA0 1 ''PFCMPGT'' TYPE_INST ((GenFlagsSameSize SIZE_64BIT) OR FLAGS_MODRM OR FLAGS_XMM_FLAGS OR FLAGS_SF_MMX) 0,
     entry 0xA4 1 ''PFMAX'' TYPE_INST ((GenFlagsSameSize SIZE_64BIT) OR FLAGS_MODRM OR FLAGS_XMM_FLAGS OR FLAGS_SF_MMX) 0,
     entry 0xA6 1 ''PFRCPIT1'' TYPE_INST ((GenFlagsSameSize SIZE_64BIT) OR FLAGS_MODRM OR FLAGS_XMM_FLAGS OR FLAGS_SF_MMX) 0,
     entry 0xA7 1 ''PFRSQIT1'' TYPE_INST ((GenFlagsSameSize SIZE_64BIT) OR FLAGS_MODRM OR FLAGS_XMM_FLAGS OR FLAGS_SF_MMX) 0,
     entry 0xAA 1 ''PFSUBR'' TYPE_INST ((GenFlagsSameSize SIZE_64BIT) OR FLAGS_MODRM OR FLAGS_XMM_FLAGS OR FLAGS_SF_MMX) 0,
     entry 0xAE 1 ''PFACC'' TYPE_INST ((GenFlagsSameSize SIZE_64BIT) OR FLAGS_MODRM OR FLAGS_XMM_FLAGS OR FLAGS_SF_MMX) 0,
     entry 0xB0 1 ''PFCMPEQ'' TYPE_INST ((GenFlagsSameSize SIZE_64BIT) OR FLAGS_MODRM OR FLAGS_XMM_FLAGS OR FLAGS_SF_MMX) 0,
     entry 0xB4 1 ''PFMUL'' TYPE_INST ((GenFlagsSameSize SIZE_64BIT) OR FLAGS_MODRM OR FLAGS_XMM_FLAGS OR FLAGS_SF_MMX) 0,
     entry 0xB6 1 ''PFRCPIT2'' TYPE_INST ((GenFlagsSameSize SIZE_64BIT) OR FLAGS_MODRM OR FLAGS_XMM_FLAGS OR FLAGS_SF_MMX) 0,
     entry 0xB7 1 ''PMULHRW'' TYPE_INST ((GenFlagsSameSize SIZE_64BIT) OR FLAGS_MODRM OR FLAGS_XMM_FLAGS OR FLAGS_SF_MMX) 0,
     entry 0xBB 1 ''PSWAPD'' TYPE_INST ((GenFlagsSameSize SIZE_64BIT) OR FLAGS_MODRM OR FLAGS_XMM_FLAGS OR FLAGS_SF_MMX) 0,
     entry 0xBF 1 ''PAVGUSB'' TYPE_INST ((GenFlagsSameSize SIZE_64BIT) OR FLAGS_MODRM OR FLAGS_XMM_FLAGS OR FLAGS_SF_MMX) 0]"

definition OpDispatch_DDDTable :: "DispatchTableEntry list" where
  "OpDispatch_DDDTable =
    [dispatch 0x0C 1 (Handler ''PI2FWOp''),
     dispatch 0x0D 1 (Bind ''Vector_CVT_Int_To_Float'' [''i32Bit'', ''false'', ''false'']),
     dispatch 0x1C 1 (Handler ''PF2IWOp''),
     dispatch 0x1D 1 (Bind ''Vector_CVT_Float_To_Int'' [''i32Bit'', ''false'', ''false'']),
     dispatch 0x86 1 (Bind ''VectorUnaryOp'' [''OP_VFRECPPRECISION'', ''i32Bit'']),
     dispatch 0x87 1 (Bind ''RSqrt3DNowOp'' [''false'']),
     dispatch 0x8A 1 (Handler ''PFNACCOp''),
     dispatch 0x8E 1 (Handler ''PFPNACCOp''),
     dispatch 0x90 1 (Bind ''VPFCMPOp'' [''1'']),
     dispatch 0x94 1 (Bind ''VectorALUOp'' [''OP_VFMIN'', ''i32Bit'']),
     dispatch 0x96 1 (Bind ''VectorUnaryDuplicateOp'' [''OP_VFRECPPRECISION'', ''i32Bit'']),
     dispatch 0x97 1 (Bind ''RSqrt3DNowOp'' [''true'']),
     dispatch 0x9A 1 (Bind ''VectorALUOp'' [''OP_VFSUB'', ''i32Bit'']),
     dispatch 0x9E 1 (Bind ''VectorALUOp'' [''OP_VFADD'', ''i32Bit'']),
     dispatch 0xA0 1 (Bind ''VPFCMPOp'' [''2'']),
     dispatch 0xA4 1 (Bind ''VectorALUOp'' [''OP_VFMAX'', ''i32Bit'']),
     dispatch 0xA6 1 (Handler ''MOVVectorUnalignedOp''),
     dispatch 0xA7 1 (Handler ''MOVVectorUnalignedOp''),
     dispatch 0xAA 1 (Bind ''VectorALUROp'' [''OP_VFSUB'', ''i32Bit'']),
     dispatch 0xAE 1 (Bind ''VectorALUOp'' [''OP_VFADDP'', ''i32Bit'']),
     dispatch 0xB0 1 (Bind ''VPFCMPOp'' [''0'']),
     dispatch 0xB4 1 (Bind ''VectorALUOp'' [''OP_VFMUL'', ''i32Bit'']),
     dispatch 0xB6 1 (Handler ''MOVVectorUnalignedOp''),
     dispatch 0xB7 1 (Handler ''PMULHRWOp''),
     dispatch 0xBB 1 (Handler ''PSWAPDOp''),
     dispatch 0xBF 1 (Bind ''VectorALUOp'' [''OP_VURAVG'', ''i8Bit''])]"

definition DDDNowOps_build :: "table option" where
  "DDDNowOps_build =
     do { Table \<leftarrow> GenerateTable DDDNowOpTable (replicate 256 zero_info);
          InstallToTable OpDispatch_DDDTable Table }"

section \<open>The tables are well-formed\<close>

lemma H0F38TableOps_ok: "table_ok H0F38Table OpDispatch_H0F38Table 2048"
  unfolding table_ok_def disjoint_ranges_def table_appends H0F38Table_def OpDispatch_H0F38Table_def
  by (simp add: Let_def table_evals OPD_H0F38_def PF_38_NONE_def PF_38_66_def PF_38_F2_def PF_38_F3_def cong: table_weaks)

lemma DDDNowOps_ok: "table_ok DDDNowOpTable OpDispatch_DDDTable 256"
  unfolding table_ok_def disjoint_ranges_def table_appends DDDNowOpTable_def OpDispatch_DDDTable_def
  by (simp add: Let_def table_evals  cong: table_weaks)

lemma H0F3ATableOps_ok:
  "table_ok (H0F3ATable 0 @ H0F3ATable 1 @ TableNeedsREX0 @ TableNeedsREX1)
     (OpDispatch_H0F3ATableIgnoreREX @ OpDispatch_H0F3ATableNeedsREX0) 2048"
  unfolding table_ok_def disjoint_ranges_def table_appends H0F3ATable_def TableNeedsREX0_def
    TableNeedsREX1_def OpDispatch_H0F3ATableIgnoreREX_def OpDispatchTableGenH0F3AREX_def
    OpDispatch_H0F3ATableNeedsREX0_def
  by (simp add: Let_def table_evals OPD_H0F3A_def PF_3A_NONE_def PF_3A_66_def cong: table_weaks)

section \<open>Every instruction has a handler\<close>

text \<open>Up to the listed ranges of indices.\<close>

lemma H0F38TableOps_handled: "handled H0F38Table OpDispatch_H0F38Table []"
  unfolding handled_def covers_def handler_appends H0F38Table_def OpDispatch_H0F38Table_def
  by (simp add: Let_def table_evals OPD_H0F38_def PF_38_NONE_def PF_38_66_def PF_38_F2_def PF_38_F3_def cong: handler_weaks)

lemma DDDNowOps_handled: "handled DDDNowOpTable OpDispatch_DDDTable []"
  unfolding handled_def covers_def handler_appends DDDNowOpTable_def OpDispatch_DDDTable_def
  by (simp add: Let_def table_evals  cong: handler_weaks)

lemma H0F3ATableOps_handled:
  "handled (H0F3ATable 0 @ H0F3ATable 1 @ TableNeedsREX0 @ TableNeedsREX1)
     (OpDispatch_H0F3ATableIgnoreREX @ OpDispatch_H0F3ATableNeedsREX0) []"
  unfolding handled_def covers_def handler_appends H0F3ATable_def TableNeedsREX0_def
    TableNeedsREX1_def OpDispatch_H0F3ATableIgnoreREX_def OpDispatchTableGenH0F3AREX_def
    OpDispatch_H0F3ATableNeedsREX0_def
  by (simp add: Let_def table_evals OPD_H0F3A_def PF_3A_NONE_def PF_3A_66_def
    H0F3A_LUT_1_3A_66_16_def H0F3A_LUT_1_3A_66_22_def cong: handler_weaks)

end
