(* ===== verification/VEXTables.thy ===== *)
theory VEXTables
  imports TableBuild
begin

text \<open>
  The VEX opcode tables (\<open>VEXTables\<close>), entry by entry. They share their instruction
  entries; the handlers are those of the 128-bit or of the 256-bit implementation.
\<close>

section \<open>The VEX table\<close>

definition OPD_VEX :: "nat \<Rightarrow> nat \<Rightarrow> nat \<Rightarrow> nat" where
  "OPD_VEX map_select pp opcode =
     push_bit 10 (map_select - 1) OR push_bit 8 pp OR opcode"

definition VEXTable_1 :: "X86TablesInfoStruct list" where
  "VEXTable_1 =
    [entry (OPD_VEX 1 0b00 0x10) 1 ''VMOVUPS'' TYPE_INST ((GenFlagsSameSize SIZE_128BIT) OR FLAGS_MODRM OR FLAGS_XMM_FLAGS) 0,
     entry (OPD_VEX 1 0b01 0x10) 1 ''VMOVUPD'' TYPE_INST ((GenFlagsSameSize SIZE_128BIT) OR FLAGS_MODRM OR FLAGS_XMM_FLAGS) 0,
     entry (OPD_VEX 1 0b10 0x10) 1 ''VMOVSS'' TYPE_INST ((GenFlagsSameSize SIZE_128BIT) OR FLAGS_MODRM OR FLAGS_VEX_1ST_SRC OR FLAGS_XMM_FLAGS OR FLAGS_VEX_L_IGNORE) 0,
     entry (OPD_VEX 1 0b11 0x10) 1 ''VMOVSD'' TYPE_INST ((GenFlagsSameSize SIZE_128BIT) OR FLAGS_MODRM OR FLAGS_VEX_1ST_SRC OR FLAGS_XMM_FLAGS OR FLAGS_VEX_L_IGNORE) 0,
     entry (OPD_VEX 1 0b00 0x11) 1 ''VMOVUPS'' TYPE_INST ((GenFlagsSameSize SIZE_128BIT) OR FLAGS_MODRM OR FLAGS_SF_MOD_DST OR FLAGS_XMM_FLAGS) 0,
     entry (OPD_VEX 1 0b01 0x11) 1 ''VMOVUPD'' TYPE_INST ((GenFlagsSameSize SIZE_128BIT) OR FLAGS_MODRM OR FLAGS_SF_MOD_DST OR FLAGS_XMM_FLAGS) 0,
     entry (OPD_VEX 1 0b10 0x11) 1 ''VMOVSS'' TYPE_INST ((GenFlagsSameSize SIZE_128BIT) OR FLAGS_MODRM OR FLAGS_SF_MOD_DST OR FLAGS_VEX_1ST_SRC OR FLAGS_XMM_FLAGS OR FLAGS_VEX_L_IGNORE) 0,
     entry (OPD_VEX 1 0b11 0x11) 1 ''VMOVSD'' TYPE_INST ((GenFlagsSameSize SIZE_128BIT) OR FLAGS_MODRM OR FLAGS_SF_MOD_DST OR FLAGS_VEX_1ST_SRC OR FLAGS_XMM_FLAGS OR FLAGS_VEX_L_IGNORE) 0,
     entry (OPD_VEX 1 0b00 0x12) 1 ''VMOVLPS'' TYPE_INST ((GenFlagsSameSize SIZE_128BIT) OR FLAGS_MODRM OR FLAGS_XMM_FLAGS OR FLAGS_VEX_1ST_SRC OR FLAGS_VEX_L_0) 0,
     entry (OPD_VEX 1 0b01 0x12) 1 ''VMOVLPD'' TYPE_INST ((GenFlagsSameSize SIZE_128BIT) OR FLAGS_MODRM OR FLAGS_XMM_FLAGS OR FLAGS_SF_MOD_MEM_ONLY OR FLAGS_VEX_1ST_SRC OR FLAGS_VEX_L_0) 0,
     entry (OPD_VEX 1 0b10 0x12) 1 ''VMOVSLDUP'' TYPE_INST ((GenFlagsSameSize SIZE_128BIT) OR FLAGS_MODRM OR FLAGS_XMM_FLAGS) 0,
     entry (OPD_VEX 1 0b11 0x12) 1 ''VMOVDDUP'' TYPE_INST ((GenFlagsSameSize SIZE_128BIT) OR FLAGS_MODRM OR FLAGS_XMM_FLAGS) 0,
     entry (OPD_VEX 1 0b00 0x13) 1 ''VMOVLPS'' TYPE_INST ((GenFlagsSameSize SIZE_128BIT) OR FLAGS_MODRM OR FLAGS_SF_MOD_MEM_ONLY OR FLAGS_SF_MOD_DST OR FLAGS_XMM_FLAGS OR FLAGS_VEX_L_0) 0,
     entry (OPD_VEX 1 0b01 0x13) 1 ''VMOVLPD'' TYPE_INST ((GenFlagsSameSize SIZE_128BIT) OR FLAGS_MODRM OR FLAGS_SF_MOD_MEM_ONLY OR FLAGS_SF_MOD_DST OR FLAGS_XMM_FLAGS OR FLAGS_VEX_L_0) 0,
     entry (OPD_VEX 1 0b00 0x14) 1 ''VUNPCKLPS'' TYPE_INST ((GenFlagsSameSize SIZE_128BIT) OR FLAGS_MODRM OR FLAGS_VEX_1ST_SRC OR FLAGS_XMM_FLAGS) 0,
     entry (OPD_VEX 1 0b01 0x14) 1 ''VUNPCKLPD'' TYPE_INST ((GenFlagsSameSize SIZE_128BIT) OR FLAGS_MODRM OR FLAGS_VEX_1ST_SRC OR FLAGS_XMM_FLAGS) 0,
     entry (OPD_VEX 1 0b00 0x15) 1 ''VUNPCKHPS'' TYPE_INST ((GenFlagsSameSize SIZE_128BIT) OR FLAGS_MODRM OR FLAGS_VEX_1ST_SRC OR FLAGS_XMM_FLAGS) 0,
     entry (OPD_VEX 1 0b01 0x15) 1 ''VUNPCKHPD'' TYPE_INST ((GenFlagsSameSize SIZE_128BIT) OR FLAGS_MODRM OR FLAGS_VEX_1ST_SRC OR FLAGS_XMM_FLAGS) 0,
     entry (OPD_VEX 1 0b00 0x16) 1 ''VMOV(L)HPS'' TYPE_INST ((GenFlagsSizes SIZE_128BIT SIZE_64BIT) OR FLAGS_MODRM OR FLAGS_XMM_FLAGS OR FLAGS_VEX_1ST_SRC OR FLAGS_VEX_L_0) 0,
     entry (OPD_VEX 1 0b01 0x16) 1 ''VMOVHPD'' TYPE_INST ((GenFlagsSizes SIZE_128BIT SIZE_64BIT) OR FLAGS_MODRM OR FLAGS_SF_MOD_MEM_ONLY OR FLAGS_XMM_FLAGS OR FLAGS_VEX_1ST_SRC OR FLAGS_VEX_L_0) 0,
     entry (OPD_VEX 1 0b10 0x16) 1 ''VMOVSHDUP'' TYPE_INST ((GenFlagsSameSize SIZE_128BIT) OR FLAGS_MODRM OR FLAGS_XMM_FLAGS) 0,
     entry (OPD_VEX 1 0b00 0x17) 1 ''VMOVHPS'' TYPE_INST ((GenFlagsSizes SIZE_64BIT SIZE_128BIT) OR FLAGS_MODRM OR FLAGS_SF_MOD_MEM_ONLY OR FLAGS_SF_MOD_DST OR FLAGS_XMM_FLAGS OR FLAGS_VEX_L_0) 0,
     entry (OPD_VEX 1 0b01 0x17) 1 ''VMOVHPD'' TYPE_INST ((GenFlagsSizes SIZE_64BIT SIZE_128BIT) OR FLAGS_MODRM OR FLAGS_SF_MOD_MEM_ONLY OR FLAGS_SF_MOD_DST OR FLAGS_XMM_FLAGS OR FLAGS_VEX_L_0) 0,
     entry (OPD_VEX 1 0b00 0x50) 1 ''VMOVMSKPS'' TYPE_INST ((GenFlagsSizes SIZE_32BIT SIZE_128BIT) OR FLAGS_MODRM OR FLAGS_SF_MOD_REG_ONLY OR FLAGS_XMM_FLAGS OR FLAGS_SF_DST_GPR) 0,
     entry (OPD_VEX 1 0b01 0x50) 1 ''VMOVMSKPD'' TYPE_INST ((GenFlagsSizes SIZE_32BIT SIZE_128BIT) OR FLAGS_MODRM OR FLAGS_SF_MOD_REG_ONLY OR FLAGS_XMM_FLAGS OR FLAGS_SF_DST_GPR) 0,
     entry (OPD_VEX 1 0b00 0x51) 1 ''VSQRTPS'' TYPE_INST ((GenFlagsSameSize SIZE_128BIT) OR FLAGS_MODRM OR FLAGS_XMM_FLAGS) 0,
     entry (OPD_VEX 1 0b01 0x51) 1 ''VSQRTPD'' TYPE_INST ((GenFlagsSameSize SIZE_128BIT) OR FLAGS_MODRM OR FLAGS_XMM_FLAGS) 0,
     entry (OPD_VEX 1 0b10 0x51) 1 ''VSQRTSS'' TYPE_INST ((GenFlagsSizes SIZE_128BIT SIZE_32BIT) OR FLAGS_MODRM OR FLAGS_VEX_1ST_SRC OR FLAGS_XMM_FLAGS OR FLAGS_VEX_L_IGNORE) 0,
     entry (OPD_VEX 1 0b11 0x51) 1 ''VSQRTSD'' TYPE_INST ((GenFlagsSizes SIZE_128BIT SIZE_64BIT) OR FLAGS_MODRM OR FLAGS_VEX_1ST_SRC OR FLAGS_XMM_FLAGS OR FLAGS_VEX_L_IGNORE) 0,
     entry (OPD_VEX 1 0b00 0x52) 1 ''VRSQRTPS'' TYPE_INST ((GenFlagsSameSize SIZE_128BIT) OR FLAGS_MODRM OR FLAGS_XMM_FLAGS) 0,
     entry (OPD_VEX 1 0b10 0x52) 1 ''VRSQRTSS'' TYPE_INST ((GenFlagsSizes SIZE_128BIT SIZE_32BIT) OR FLAGS_MODRM OR FLAGS_VEX_1ST_SRC OR FLAGS_XMM_FLAGS OR FLAGS_VEX_L_IGNORE) 0,
     entry (OPD_VEX 1 0b00 0x53) 1 ''VRCPPS'' TYPE_INST ((GenFlagsSameSize SIZE_128BIT) OR FLAGS_MODRM OR FLAGS_XMM_FLAGS) 0,
     entry (OPD_VEX 1 0b10 0x53) 1 ''VRCPSS'' TYPE_INST ((GenFlagsSizes SIZE_128BIT SIZE_32BIT) OR FLAGS_MODRM OR FLAGS_VEX_1ST_SRC OR FLAGS_XMM_FLAGS OR FLAGS_VEX_L_IGNORE) 0,
     entry (OPD_VEX 1 0b00 0x54) 1 ''VANDPS'' TYPE_INST ((GenFlagsSameSize SIZE_128BIT) OR FLAGS_MODRM OR FLAGS_VEX_1ST_SRC OR FLAGS_XMM_FLAGS) 0,
     entry (OPD_VEX 1 0b01 0x54) 1 ''VANDPD'' TYPE_INST ((GenFlagsSameSize SIZE_128BIT) OR FLAGS_MODRM OR FLAGS_VEX_1ST_SRC OR FLAGS_XMM_FLAGS) 0,
     entry (OPD_VEX 1 0b00 0x55) 1 ''VANDNPS'' TYPE_INST ((GenFlagsSameSize SIZE_128BIT) OR FLAGS_MODRM OR FLAGS_VEX_1ST_SRC OR FLAGS_XMM_FLAGS) 0,
     entry (OPD_VEX 1 0b01 0x55) 1 ''VANDNPD'' TYPE_INST ((GenFlagsSameSize SIZE_128BIT) OR FLAGS_MODRM OR FLAGS_VEX_1ST_SRC OR FLAGS_XMM_FLAGS) 0,
     entry (OPD_VEX 1 0b00 0x56) 1 ''VORPS'' TYPE_INST ((GenFlagsSameSize SIZE_128BIT) OR FLAGS_MODRM OR FLAGS_VEX_1ST_SRC OR FLAGS_XMM_FLAGS) 0,
     entry (OPD_VEX 1 0b01 0x56) 1 ''VORPD'' TYPE_INST ((GenFlagsSameSize SIZE_128BIT) OR FLAGS_MODRM OR FLAGS_VEX_1ST_SRC OR FLAGS_XMM_FLAGS) 0,
     entry (OPD_VEX 1 0b00 0x57) 1 ''VXORPS'' TYPE_INST ((GenFlagsSameSize SIZE_128BIT) OR FLAGS_MODRM OR FLAGS_VEX_1ST_SRC OR FLAGS_XMM_FLAGS) 0,
     entry (OPD_VEX 1 0b01 0x57) 1 ''VXORPD'' TYPE_INST ((GenFlagsSameSize SIZE_128BIT) OR FLAGS_MODRM OR FLAGS_VEX_1ST_SRC OR FLAGS_XMM_FLAGS) 0,
     entry (OPD_VEX 1 0b01 0x60) 1 ''VPUNPCKLBW'' TYPE_INST ((GenFlagsSameSize SIZE_128BIT) OR FLAGS_MODRM OR FLAGS_VEX_1ST_SRC OR FLAGS_XMM_FLAGS) 0,
     entry (OPD_VEX 1 0b01 0x61) 1 ''VPUNPCKLWD'' TYPE_INST ((GenFlagsSameSize SIZE_128BIT) OR FLAGS_MODRM OR FLAGS_VEX_1ST_SRC OR FLAGS_XMM_FLAGS) 0,
     entry (OPD_VEX 1 0b01 0x62) 1 ''VPUNPCKLDQ'' TYPE_INST ((GenFlagsSameSize SIZE_128BIT) OR FLAGS_MODRM OR FLAGS_VEX_1ST_SRC OR FLAGS_XMM_FLAGS) 0,
     entry (OPD_VEX 1 0b01 0x63) 1 ''VPACKSSWB'' TYPE_INST ((GenFlagsSameSize SIZE_128BIT) OR FLAGS_MODRM OR FLAGS_VEX_1ST_SRC OR FLAGS_XMM_FLAGS) 0,
     entry (OPD_VEX 1 0b01 0x64) 1 ''VPCMPGTB'' TYPE_INST ((GenFlagsSameSize SIZE_128BIT) OR FLAGS_MODRM OR FLAGS_VEX_1ST_SRC OR FLAGS_XMM_FLAGS) 0,
     entry (OPD_VEX 1 0b01 0x65) 1 ''VPCMPGTW'' TYPE_INST ((GenFlagsSameSize SIZE_128BIT) OR FLAGS_MODRM OR FLAGS_VEX_1ST_SRC OR FLAGS_XMM_FLAGS) 0,
     entry (OPD_VEX 1 0b01 0x66) 1 ''VPCMPGTD'' TYPE_INST ((GenFlagsSameSize SIZE_128BIT) OR FLAGS_MODRM OR FLAGS_VEX_1ST_SRC OR FLAGS_XMM_FLAGS) 0,
     entry (OPD_VEX 1 0b01 0x67) 1 ''VPACKUSWB'' TYPE_INST ((GenFlagsSameSize SIZE_128BIT) OR FLAGS_MODRM OR FLAGS_VEX_1ST_SRC OR FLAGS_XMM_FLAGS) 0,
     entry (OPD_VEX 1 0b01 0x70) 1 ''VPSHUFD'' TYPE_INST ((GenFlagsSameSize SIZE_128BIT) OR FLAGS_MODRM OR FLAGS_XMM_FLAGS) 1,
     entry (OPD_VEX 1 0b10 0x70) 1 ''VPSHUFHW'' TYPE_INST ((GenFlagsSameSize SIZE_128BIT) OR FLAGS_MODRM OR FLAGS_XMM_FLAGS) 1,
     entry (OPD_VEX 1 0b11 0x70) 1 ''VPSHUFLW'' TYPE_INST ((GenFlagsSameSize SIZE_128BIT) OR FLAGS_MODRM OR FLAGS_XMM_FLAGS) 1,
     entry (OPD_VEX 1 0b01 0x71) 1 '''' TYPE_VEX_GROUP_12 FLAGS_NONE 0,
     entry (OPD_VEX 1 0b01 0x72) 1 '''' TYPE_VEX_GROUP_13 FLAGS_NONE 0,
     entry (OPD_VEX 1 0b01 0x73) 1 '''' TYPE_VEX_GROUP_14 FLAGS_NONE 0,
     entry (OPD_VEX 1 0b01 0x74) 1 ''VPCMPEQB'' TYPE_INST ((GenFlagsSameSize SIZE_128BIT) OR FLAGS_MODRM OR FLAGS_VEX_1ST_SRC OR FLAGS_XMM_FLAGS) 0,
     entry (OPD_VEX 1 0b01 0x75) 1 ''VPCMPEQW'' TYPE_INST ((GenFlagsSameSize SIZE_128BIT) OR FLAGS_MODRM OR FLAGS_VEX_1ST_SRC OR FLAGS_XMM_FLAGS) 0,
     entry (OPD_VEX 1 0b01 0x76) 1 ''VPCMPEQD'' TYPE_INST ((GenFlagsSameSize SIZE_128BIT) OR FLAGS_MODRM OR FLAGS_VEX_1ST_SRC OR FLAGS_XMM_FLAGS) 0,
     entry (OPD_VEX 1 0b00 0x77) 1 ''VZERO*'' TYPE_INST (GenFlagsDstSize SIZE_128BIT) 0,
     entry (OPD_VEX 1 0b00 0xC2) 1 ''VCMPccPS'' TYPE_INST ((GenFlagsSameSize SIZE_128BIT) OR FLAGS_MODRM OR FLAGS_VEX_1ST_SRC OR FLAGS_XMM_FLAGS) 1,
     entry (OPD_VEX 1 0b01 0xC2) 1 ''VCMPccPD'' TYPE_INST ((GenFlagsSameSize SIZE_128BIT) OR FLAGS_MODRM OR FLAGS_VEX_1ST_SRC OR FLAGS_XMM_FLAGS) 1,
     entry (OPD_VEX 1 0b10 0xC2) 1 ''VCMPccSS'' TYPE_INST ((GenFlagsSizes SIZE_128BIT SIZE_32BIT) OR FLAGS_MODRM OR FLAGS_VEX_L_IGNORE OR FLAGS_VEX_1ST_SRC OR FLAGS_XMM_FLAGS) 1,
     entry (OPD_VEX 1 0b11 0xC2) 1 ''VCMPccSD'' TYPE_INST ((GenFlagsSizes SIZE_128BIT SIZE_64BIT) OR FLAGS_MODRM OR FLAGS_VEX_L_IGNORE OR FLAGS_VEX_1ST_SRC OR FLAGS_XMM_FLAGS) 1,
     entry (OPD_VEX 1 0b01 0xC4) 1 ''VPINSRW'' TYPE_INST ((GenFlagsSizes SIZE_128BIT SIZE_16BIT) OR FLAGS_MODRM OR FLAGS_VEX_1ST_SRC OR FLAGS_SF_SRC_GPR OR FLAGS_XMM_FLAGS OR FLAGS_VEX_L_0) 1,
     entry (OPD_VEX 1 0b01 0xC5) 1 ''VPEXTRW'' TYPE_INST ((GenFlagsSizes SIZE_32BIT SIZE_128BIT) OR FLAGS_MODRM OR FLAGS_SF_MOD_REG_ONLY OR FLAGS_SF_DST_GPR OR FLAGS_XMM_FLAGS OR FLAGS_VEX_L_0) 1,
     entry (OPD_VEX 1 0b00 0xC6) 1 ''VSHUFPS'' TYPE_INST ((GenFlagsSameSize SIZE_128BIT) OR FLAGS_MODRM OR FLAGS_VEX_1ST_SRC OR FLAGS_XMM_FLAGS) 1,
     entry (OPD_VEX 1 0b01 0xC6) 1 ''VSHUFPD'' TYPE_INST ((GenFlagsSameSize SIZE_128BIT) OR FLAGS_MODRM OR FLAGS_VEX_1ST_SRC OR FLAGS_XMM_FLAGS) 1,
     entry (OPD_VEX 1 0b00 0x28) 1 ''VMOVAPS'' TYPE_INST ((GenFlagsSameSize SIZE_128BIT) OR FLAGS_MODRM OR FLAGS_XMM_FLAGS) 0,
     entry (OPD_VEX 1 0b01 0x28) 1 ''VMOVAPD'' TYPE_INST ((GenFlagsSameSize SIZE_128BIT) OR FLAGS_MODRM OR FLAGS_XMM_FLAGS) 0,
     entry (OPD_VEX 1 0b00 0x29) 1 ''VMOVAPS'' TYPE_INST ((GenFlagsSameSize SIZE_128BIT) OR FLAGS_MODRM OR FLAGS_SF_MOD_DST OR FLAGS_XMM_FLAGS) 0,
     entry (OPD_VEX 1 0b01 0x29) 1 ''VMOVAPD'' TYPE_INST ((GenFlagsSameSize SIZE_128BIT) OR FLAGS_MODRM OR FLAGS_SF_MOD_DST OR FLAGS_XMM_FLAGS) 0,
     entry (OPD_VEX 1 0b10 0x2A) 1 ''VCVTSI2SS'' TYPE_INST ((GenFlagsSizes SIZE_128BIT SIZE_32BIT) OR FLAGS_MODRM OR FLAGS_VEX_1ST_SRC OR FLAGS_XMM_FLAGS OR FLAGS_SF_SRC_GPR OR FLAGS_VEX_L_IGNORE) 0,
     entry (OPD_VEX 1 0b11 0x2A) 1 ''VCVTSI2SD'' TYPE_INST ((GenFlagsSizes SIZE_128BIT SIZE_32BIT) OR FLAGS_MODRM OR FLAGS_VEX_1ST_SRC OR FLAGS_XMM_FLAGS OR FLAGS_SF_SRC_GPR OR FLAGS_VEX_L_IGNORE) 0,
     entry (OPD_VEX 1 0b00 0x2B) 1 ''VMOVNTPS'' TYPE_INST ((GenFlagsSameSize SIZE_128BIT) OR FLAGS_MODRM OR FLAGS_SF_MOD_MEM_ONLY OR FLAGS_SF_MOD_DST OR FLAGS_XMM_FLAGS) 0,
     entry (OPD_VEX 1 0b01 0x2B) 1 ''VMOVNTPD'' TYPE_INST ((GenFlagsSameSize SIZE_128BIT) OR FLAGS_MODRM OR FLAGS_SF_MOD_MEM_ONLY OR FLAGS_SF_MOD_DST OR FLAGS_XMM_FLAGS) 0,
     entry (OPD_VEX 1 0b10 0x2C) 1 ''VCVTTSS2SI'' TYPE_INST (FLAGS_MODRM OR FLAGS_XMM_FLAGS OR FLAGS_SF_DST_GPR OR FLAGS_VEX_L_IGNORE) 0,
     entry (OPD_VEX 1 0b11 0x2C) 1 ''VCVTTSD2SI'' TYPE_INST (FLAGS_MODRM OR FLAGS_XMM_FLAGS OR FLAGS_SF_DST_GPR OR FLAGS_VEX_L_IGNORE) 0,
     entry (OPD_VEX 1 0b10 0x2D) 1 ''VCVTSS2SI'' TYPE_INST (FLAGS_MODRM OR FLAGS_XMM_FLAGS OR FLAGS_SF_DST_GPR OR FLAGS_VEX_L_IGNORE) 0,
     entry (OPD_VEX 1 0b11 0x2D) 1 ''VCVTSD2SI'' TYPE_INST (FLAGS_MODRM OR FLAGS_XMM_FLAGS OR FLAGS_SF_DST_GPR OR FLAGS_VEX_L_IGNORE) 0,
     entry (OPD_VEX 1 0b00 0x2E) 1 ''VUCOMISS'' TYPE_INST ((GenFlagsSizes SIZE_128BIT SIZE_32BIT) OR FLAGS_MODRM OR FLAGS_XMM_FLAGS OR FLAGS_VEX_L_IGNORE) 0,
     entry (OPD_VEX 1 0b01 0x2E) 1 ''VUCOMISD'' TYPE_INST ((GenFlagsSizes SIZE_128BIT SIZE_64BIT) OR FLAGS_MODRM OR FLAGS_XMM_FLAGS OR FLAGS_VEX_L_IGNORE) 0,
     entry (OPD_VEX 1 0b00 0x2F) 1 ''VCOMISS'' TYPE_INST ((GenFlagsSizes SIZE_128BIT SIZE_32BIT) OR FLAGS_MODRM OR FLAGS_XMM_FLAGS OR FLAGS_VEX_L_IGNORE) 0,
     entry (OPD_VEX 1 0b01 0x2F) 1 ''VCOMISD'' TYPE_INST ((GenFlagsSizes SIZE_128BIT SIZE_64BIT) OR FLAGS_MODRM OR FLAGS_XMM_FLAGS OR FLAGS_VEX_L_IGNORE) 0,
     entry (OPD_VEX 1 0b00 0x58) 1 ''VADDPS'' TYPE_INST ((GenFlagsSameSize SIZE_128BIT) OR FLAGS_MODRM OR FLAGS_VEX_1ST_SRC OR FLAGS_XMM_FLAGS) 0,
     entry (OPD_VEX 1 0b01 0x58) 1 ''VADDPD'' TYPE_INST ((GenFlagsSameSize SIZE_128BIT) OR FLAGS_MODRM OR FLAGS_VEX_1ST_SRC OR FLAGS_XMM_FLAGS) 0,
     entry (OPD_VEX 1 0b10 0x58) 1 ''VADDSS'' TYPE_INST ((GenFlagsSizes SIZE_128BIT SIZE_32BIT) OR FLAGS_MODRM OR FLAGS_VEX_1ST_SRC OR FLAGS_XMM_FLAGS OR FLAGS_VEX_L_IGNORE) 0,
     entry (OPD_VEX 1 0b11 0x58) 1 ''VADDSD'' TYPE_INST ((GenFlagsSizes SIZE_128BIT SIZE_64BIT) OR FLAGS_MODRM OR FLAGS_VEX_1ST_SRC OR FLAGS_XMM_FLAGS OR FLAGS_VEX_L_IGNORE) 0,
     entry (OPD_VEX 1 0b00 0x59) 1 ''VMULPS'' TYPE_INST ((GenFlagsSameSize SIZE_128BIT) OR FLAGS_MODRM OR FLAGS_VEX_1ST_SRC OR FLAGS_XMM_FLAGS) 0,
     entry (OPD_VEX 1 0b01 0x59) 1 ''VMULPD'' TYPE_INST ((GenFlagsSameSize SIZE_128BIT) OR FLAGS_MODRM OR FLAGS_VEX_1ST_SRC OR FLAGS_XMM_FLAGS) 0,
     entry (OPD_VEX 1 0b10 0x59) 1 ''VMULSS'' TYPE_INST ((GenFlagsSizes SIZE_128BIT SIZE_32BIT) OR FLAGS_MODRM OR FLAGS_VEX_1ST_SRC OR FLAGS_XMM_FLAGS OR FLAGS_VEX_L_IGNORE) 0,
     entry (OPD_VEX 1 0b11 0x59) 1 ''VMULSD'' TYPE_INST ((GenFlagsSizes SIZE_128BIT SIZE_64BIT) OR FLAGS_MODRM OR FLAGS_VEX_1ST_SRC OR FLAGS_XMM_FLAGS OR FLAGS_VEX_L_IGNORE) 0,
     entry (OPD_VEX 1 0b00 0x5A) 1 ''VCVTPS2PD'' TYPE_INST ((GenFlagsSameSize SIZE_128BIT) OR FLAGS_MODRM OR FLAGS_XMM_FLAGS) 0,
     entry (OPD_VEX 1 0b01 0x5A) 1 ''VCVTPD2PS'' TYPE_INST ((GenFlagsSameSize SIZE_128BIT) OR FLAGS_MODRM OR FLAGS_XMM_FLAGS) 0,
     entry (OPD_VEX 1 0b10 0x5A) 1 ''VCVTSS2SD'' TYPE_INST ((GenFlagsSizes SIZE_128BIT SIZE_32BIT) OR FLAGS_MODRM OR FLAGS_VEX_L_IGNORE OR FLAGS_VEX_1ST_SRC OR FLAGS_XMM_FLAGS) 0,
     entry (OPD_VEX 1 0b11 0x5A) 1 ''VCVTSD2SS'' TYPE_INST ((GenFlagsSizes SIZE_128BIT SIZE_64BIT) OR FLAGS_MODRM OR FLAGS_VEX_L_IGNORE OR FLAGS_VEX_1ST_SRC OR FLAGS_XMM_FLAGS) 0,
     entry (OPD_VEX 1 0b00 0x5B) 1 ''VCVTDQ2PS'' TYPE_INST ((GenFlagsSameSize SIZE_128BIT) OR FLAGS_MODRM OR FLAGS_XMM_FLAGS) 0,
     entry (OPD_VEX 1 0b01 0x5B) 1 ''VCVTPS2DQ'' TYPE_INST ((GenFlagsSameSize SIZE_128BIT) OR FLAGS_MODRM OR FLAGS_XMM_FLAGS) 0,
     entry (OPD_VEX 1 0b10 0x5B) 1 ''VCVTTPS2DQ'' TYPE_INST ((GenFlagsSameSize SIZE_128BIT) OR FLAGS_MODRM OR FLAGS_XMM_FLAGS) 0,
     entry (OPD_VEX 1 0b00 0x5C) 1 ''VSUBPS'' TYPE_INST ((GenFlagsSameSize SIZE_128BIT) OR FLAGS_MODRM OR FLAGS_VEX_1ST_SRC OR FLAGS_XMM_FLAGS) 0,
     entry (OPD_VEX 1 0b01 0x5C) 1 ''VSUBPD'' TYPE_INST ((GenFlagsSameSize SIZE_128BIT) OR FLAGS_MODRM OR FLAGS_VEX_1ST_SRC OR FLAGS_XMM_FLAGS) 0,
     entry (OPD_VEX 1 0b10 0x5C) 1 ''VSUBSS'' TYPE_INST ((GenFlagsSizes SIZE_128BIT SIZE_32BIT) OR FLAGS_MODRM OR FLAGS_VEX_1ST_SRC OR FLAGS_XMM_FLAGS OR FLAGS_VEX_L_IGNORE) 0,
     entry (OPD_VEX 1 0b11 0x5C) 1 ''VSUBSD'' TYPE_INST ((GenFlagsSizes SIZE_128BIT SIZE_64BIT) OR FLAGS_MODRM OR FLAGS_VEX_1ST_SRC OR FLAGS_XMM_FLAGS OR FLAGS_VEX_L_IGNORE) 0,
     entry (OPD_VEX 1 0b00 0x5D) 1 ''VMINPS'' TYPE_INST ((GenFlagsSameSize SIZE_128BIT) OR FLAGS_MODRM OR FLAGS_VEX_1ST_SRC OR FLAGS_XMM_FLAGS) 0,
     entry (OPD_VEX 1 0b01 0x5D) 1 ''VMINPD'' TYPE_INST ((GenFlagsSameSize SIZE_128BIT) OR FLAGS_MODRM OR FLAGS_VEX_1ST_SRC OR FLAGS_XMM_FLAGS) 0,
     entry (OPD_VEX 1 0b10 0x5D) 1 ''VMINSS'' TYPE_INST ((GenFlagsSizes SIZE_128BIT SIZE_32BIT) OR FLAGS_MODRM OR FLAGS_VEX_1ST_SRC OR FLAGS_XMM_FLAGS OR FLAGS_VEX_L_IGNORE) 0,
     entry (OPD_VEX 1 0b11 0x5D) 1 ''VMINSD'' TYPE_INST ((GenFlagsSizes SIZE_128BIT SIZE_64BIT) OR FLAGS_MODRM OR FLAGS_VEX_1ST_SRC OR FLAGS_XMM_FLAGS OR FLAGS_VEX_L_IGNORE) 0,
     entry (OPD_VEX 1 0b00 0x5E) 1 ''VDIVPS'' TYPE_INST ((GenFlagsSameSize SIZE_128BIT) OR FLAGS_MODRM OR FLAGS_VEX_1ST_SRC OR FLAGS_XMM_FLAGS) 0,
     entry (OPD_VEX 1 0b01 0x5E) 1 ''VDIVPD'' TYPE_INST ((GenFlagsSameSize SIZE_128BIT) OR FLAGS_MODRM OR FLAGS_VEX_1ST_SRC OR FLAGS_XMM_FLAGS) 0]"

definition VEXTable_2 :: "X86TablesInfoStruct list" where
  "VEXTable_2 =
    [entry (OPD_VEX 1 0b10 0x5E) 1 ''VDIVSS'' TYPE_INST ((GenFlagsSizes SIZE_128BIT SIZE_32BIT) OR FLAGS_MODRM OR FLAGS_VEX_1ST_SRC OR FLAGS_XMM_FLAGS OR FLAGS_VEX_L_IGNORE) 0,
     entry (OPD_VEX 1 0b11 0x5E) 1 ''VDIVSD'' TYPE_INST ((GenFlagsSizes SIZE_128BIT SIZE_64BIT) OR FLAGS_MODRM OR FLAGS_VEX_1ST_SRC OR FLAGS_XMM_FLAGS OR FLAGS_VEX_L_IGNORE) 0,
     entry (OPD_VEX 1 0b00 0x5F) 1 ''VMAXPS'' TYPE_INST ((GenFlagsSameSize SIZE_128BIT) OR FLAGS_MODRM OR FLAGS_VEX_1ST_SRC OR FLAGS_XMM_FLAGS) 0,
     entry (OPD_VEX 1 0b01 0x5F) 1 ''VMAXPD'' TYPE_INST ((GenFlagsSameSize SIZE_128BIT) OR FLAGS_MODRM OR FLAGS_VEX_1ST_SRC OR FLAGS_XMM_FLAGS) 0,
     entry (OPD_VEX 1 0b10 0x5F) 1 ''VMAXSS'' TYPE_INST ((GenFlagsSizes SIZE_128BIT SIZE_32BIT) OR FLAGS_MODRM OR FLAGS_VEX_1ST_SRC OR FLAGS_XMM_FLAGS OR FLAGS_VEX_L_IGNORE) 0,
     entry (OPD_VEX 1 0b11 0x5F) 1 ''VMAXSD'' TYPE_INST ((GenFlagsSizes SIZE_128BIT SIZE_64BIT) OR FLAGS_MODRM OR FLAGS_VEX_1ST_SRC OR FLAGS_XMM_FLAGS OR FLAGS_VEX_L_IGNORE) 0,
     entry (OPD_VEX 1 0b01 0x68) 1 ''VPUNPCKHBW'' TYPE_INST ((GenFlagsSameSize SIZE_128BIT) OR FLAGS_MODRM OR FLAGS_VEX_1ST_SRC OR FLAGS_XMM_FLAGS) 0,
     entry (OPD_VEX 1 0b01 0x69) 1 ''VPUNPCKHWD'' TYPE_INST ((GenFlagsSameSize SIZE_128BIT) OR FLAGS_MODRM OR FLAGS_VEX_1ST_SRC OR FLAGS_XMM_FLAGS) 0,
     entry (OPD_VEX 1 0b01 0x6A) 1 ''VPUNPCKHDQ'' TYPE_INST ((GenFlagsSameSize SIZE_128BIT) OR FLAGS_MODRM OR FLAGS_VEX_1ST_SRC OR FLAGS_XMM_FLAGS) 0,
     entry (OPD_VEX 1 0b01 0x6B) 1 ''VPACKSSDW'' TYPE_INST ((GenFlagsSameSize SIZE_128BIT) OR FLAGS_MODRM OR FLAGS_VEX_1ST_SRC OR FLAGS_XMM_FLAGS) 0,
     entry (OPD_VEX 1 0b01 0x6C) 1 ''VPUNPCKLQDQ'' TYPE_INST ((GenFlagsSameSize SIZE_128BIT) OR FLAGS_MODRM OR FLAGS_VEX_1ST_SRC OR FLAGS_XMM_FLAGS) 0,
     entry (OPD_VEX 1 0b01 0x6D) 1 ''VPUNPCKHQDQ'' TYPE_INST ((GenFlagsSameSize SIZE_128BIT) OR FLAGS_MODRM OR FLAGS_VEX_1ST_SRC OR FLAGS_XMM_FLAGS) 0,
     entry (OPD_VEX 1 0b01 0x6E) 1 ''VMOV*'' TYPE_INST ((GenFlagsDstSize SIZE_128BIT) OR FLAGS_MODRM OR FLAGS_XMM_FLAGS OR FLAGS_VEX_L_0 OR FLAGS_SF_SRC_GPR) 0,
     entry (OPD_VEX 1 0b01 0x6F) 1 ''VMOVDQA'' TYPE_INST ((GenFlagsSameSize SIZE_128BIT) OR FLAGS_MODRM OR FLAGS_XMM_FLAGS) 0,
     entry (OPD_VEX 1 0b10 0x6F) 1 ''VMOVDQU'' TYPE_INST ((GenFlagsSameSize SIZE_128BIT) OR FLAGS_MODRM OR FLAGS_XMM_FLAGS) 0,
     entry (OPD_VEX 1 0b01 0x7C) 1 ''VHADDPD'' TYPE_INST ((GenFlagsSameSize SIZE_128BIT) OR FLAGS_MODRM OR FLAGS_VEX_1ST_SRC OR FLAGS_XMM_FLAGS) 0,
     entry (OPD_VEX 1 0b11 0x7C) 1 ''VHADDPS'' TYPE_INST ((GenFlagsSameSize SIZE_128BIT) OR FLAGS_MODRM OR FLAGS_VEX_1ST_SRC OR FLAGS_XMM_FLAGS) 0,
     entry (OPD_VEX 1 0b01 0x7D) 1 ''VHSUBPD'' TYPE_INST ((GenFlagsSameSize SIZE_128BIT) OR FLAGS_MODRM OR FLAGS_VEX_1ST_SRC OR FLAGS_XMM_FLAGS) 0,
     entry (OPD_VEX 1 0b11 0x7D) 1 ''VHSUBPS'' TYPE_INST ((GenFlagsSameSize SIZE_128BIT) OR FLAGS_MODRM OR FLAGS_VEX_1ST_SRC OR FLAGS_XMM_FLAGS) 0,
     entry (OPD_VEX 1 0b01 0x7E) 1 ''VMOV*'' TYPE_INST (FLAGS_MODRM OR FLAGS_SF_MOD_DST OR FLAGS_SF_DST_GPR OR FLAGS_VEX_L_0 OR FLAGS_XMM_FLAGS) 0,
     entry (OPD_VEX 1 0b10 0x7E) 1 ''VMOVQ'' TYPE_INST ((GenFlagsSameSize SIZE_64BIT) OR FLAGS_MODRM OR FLAGS_VEX_L_0 OR FLAGS_XMM_FLAGS) 0,
     entry (OPD_VEX 1 0b01 0x7F) 1 ''VMOVDQA'' TYPE_INST ((GenFlagsSameSize SIZE_128BIT) OR FLAGS_MODRM OR FLAGS_SF_MOD_DST OR FLAGS_XMM_FLAGS) 0,
     entry (OPD_VEX 1 0b10 0x7F) 1 ''VMOVDQU'' TYPE_INST ((GenFlagsSameSize SIZE_128BIT) OR FLAGS_MODRM OR FLAGS_SF_MOD_DST OR FLAGS_XMM_FLAGS) 0,
     entry (OPD_VEX 1 0b00 0xAE) 1 '''' TYPE_VEX_GROUP_15 FLAGS_NONE 0,
     entry (OPD_VEX 1 0b01 0xAE) 1 '''' TYPE_VEX_GROUP_15 FLAGS_NONE 0,
     entry (OPD_VEX 1 0b10 0xAE) 1 '''' TYPE_VEX_GROUP_15 FLAGS_NONE 0,
     entry (OPD_VEX 1 0b11 0xAE) 1 '''' TYPE_VEX_GROUP_15 FLAGS_NONE 0,
     entry (OPD_VEX 1 0b01 0xD0) 1 ''VADDSUBPD'' TYPE_INST ((GenFlagsSameSize SIZE_128BIT) OR FLAGS_MODRM OR FLAGS_VEX_1ST_SRC OR FLAGS_XMM_FLAGS) 0,
     entry (OPD_VEX 1 0b11 0xD0) 1 ''VADDSUBPS'' TYPE_INST ((GenFlagsSameSize SIZE_128BIT) OR FLAGS_MODRM OR FLAGS_VEX_1ST_SRC OR FLAGS_XMM_FLAGS) 0,
     entry (OPD_VEX 1 0b01 0xD1) 1 ''VPSRLW'' TYPE_INST ((GenFlagsSameSize SIZE_128BIT) OR FLAGS_MODRM OR FLAGS_VEX_1ST_SRC OR FLAGS_XMM_FLAGS) 0,
     entry (OPD_VEX 1 0b01 0xD2) 1 ''VPSRLD'' TYPE_INST ((GenFlagsSameSize SIZE_128BIT) OR FLAGS_MODRM OR FLAGS_VEX_1ST_SRC OR FLAGS_XMM_FLAGS) 0,
     entry (OPD_VEX 1 0b01 0xD3) 1 ''VPSRLQ'' TYPE_INST ((GenFlagsSameSize SIZE_128BIT) OR FLAGS_MODRM OR FLAGS_VEX_1ST_SRC OR FLAGS_XMM_FLAGS) 0,
     entry (OPD_VEX 1 0b01 0xD4) 1 ''VPADDQ'' TYPE_INST ((GenFlagsSameSize SIZE_128BIT) OR FLAGS_MODRM OR FLAGS_VEX_1ST_SRC OR FLAGS_XMM_FLAGS) 0,
     entry (OPD_VEX 1 0b01 0xD5) 1 ''VPMULLW'' TYPE_INST ((GenFlagsSameSize SIZE_128BIT) OR FLAGS_MODRM OR FLAGS_VEX_1ST_SRC OR FLAGS_XMM_FLAGS) 0,
     entry (OPD_VEX 1 0b01 0xD6) 1 ''VMOVQ'' TYPE_INST ((GenFlagsSameSize SIZE_64BIT) OR FLAGS_MODRM OR FLAGS_SF_MOD_DST OR FLAGS_VEX_L_0 OR FLAGS_XMM_FLAGS) 0,
     entry (OPD_VEX 1 0b01 0xD7) 1 ''VPMOVMSKB'' TYPE_INST ((GenFlagsSizes SIZE_32BIT SIZE_128BIT) OR FLAGS_MODRM OR FLAGS_XMM_FLAGS OR FLAGS_SF_DST_GPR OR FLAGS_SF_MOD_REG_ONLY) 0,
     entry (OPD_VEX 1 0b01 0xD8) 1 ''VPSUBUSB'' TYPE_INST ((GenFlagsSameSize SIZE_128BIT) OR FLAGS_MODRM OR FLAGS_VEX_1ST_SRC OR FLAGS_XMM_FLAGS) 0,
     entry (OPD_VEX 1 0b01 0xD9) 1 ''VPSUBUSW'' TYPE_INST ((GenFlagsSameSize SIZE_128BIT) OR FLAGS_MODRM OR FLAGS_VEX_1ST_SRC OR FLAGS_XMM_FLAGS) 0,
     entry (OPD_VEX 1 0b01 0xDA) 1 ''VPMINUB'' TYPE_INST ((GenFlagsSameSize SIZE_128BIT) OR FLAGS_MODRM OR FLAGS_VEX_1ST_SRC OR FLAGS_XMM_FLAGS) 0,
     entry (OPD_VEX 1 0b01 0xDB) 1 ''VPAND'' TYPE_INST ((GenFlagsSameSize SIZE_128BIT) OR FLAGS_MODRM OR FLAGS_VEX_1ST_SRC OR FLAGS_XMM_FLAGS) 0,
     entry (OPD_VEX 1 0b01 0xDC) 1 ''VPADDUSB'' TYPE_INST ((GenFlagsSameSize SIZE_128BIT) OR FLAGS_MODRM OR FLAGS_VEX_1ST_SRC OR FLAGS_XMM_FLAGS) 0,
     entry (OPD_VEX 1 0b01 0xDD) 1 ''VPADDUSW'' TYPE_INST ((GenFlagsSameSize SIZE_128BIT) OR FLAGS_MODRM OR FLAGS_VEX_1ST_SRC OR FLAGS_XMM_FLAGS) 0,
     entry (OPD_VEX 1 0b01 0xDE) 1 ''VPMAXUB'' TYPE_INST ((GenFlagsSameSize SIZE_128BIT) OR FLAGS_MODRM OR FLAGS_VEX_1ST_SRC OR FLAGS_XMM_FLAGS) 0,
     entry (OPD_VEX 1 0b01 0xDF) 1 ''VPANDN'' TYPE_INST ((GenFlagsSameSize SIZE_128BIT) OR FLAGS_MODRM OR FLAGS_VEX_1ST_SRC OR FLAGS_XMM_FLAGS) 0,
     entry (OPD_VEX 1 0b01 0xE0) 1 ''VPAVGB'' TYPE_INST ((GenFlagsSameSize SIZE_128BIT) OR FLAGS_MODRM OR FLAGS_VEX_1ST_SRC OR FLAGS_XMM_FLAGS) 0,
     entry (OPD_VEX 1 0b01 0xE1) 1 ''VPSRAW'' TYPE_INST ((GenFlagsSameSize SIZE_128BIT) OR FLAGS_MODRM OR FLAGS_VEX_1ST_SRC OR FLAGS_XMM_FLAGS) 0,
     entry (OPD_VEX 1 0b01 0xE2) 1 ''VPSRAD'' TYPE_INST ((GenFlagsSameSize SIZE_128BIT) OR FLAGS_MODRM OR FLAGS_VEX_1ST_SRC OR FLAGS_XMM_FLAGS) 0,
     entry (OPD_VEX 1 0b01 0xE3) 1 ''VPAVGW'' TYPE_INST ((GenFlagsSameSize SIZE_128BIT) OR FLAGS_MODRM OR FLAGS_VEX_1ST_SRC OR FLAGS_XMM_FLAGS) 0,
     entry (OPD_VEX 1 0b01 0xE4) 1 ''VPMULHUW'' TYPE_INST ((GenFlagsSameSize SIZE_128BIT) OR FLAGS_MODRM OR FLAGS_VEX_1ST_SRC OR FLAGS_XMM_FLAGS) 0,
     entry (OPD_VEX 1 0b01 0xE5) 1 ''VPMULHW'' TYPE_INST ((GenFlagsSameSize SIZE_128BIT) OR FLAGS_MODRM OR FLAGS_VEX_1ST_SRC OR FLAGS_XMM_FLAGS) 0,
     entry (OPD_VEX 1 0b01 0xE6) 1 ''VCVTTPD2DQ'' TYPE_INST ((GenFlagsSameSize SIZE_128BIT) OR FLAGS_MODRM OR FLAGS_XMM_FLAGS) 0,
     entry (OPD_VEX 1 0b10 0xE6) 1 ''VCVTDQ2PD'' TYPE_INST ((GenFlagsSizes SIZE_128BIT SIZE_64BIT) OR FLAGS_MODRM OR FLAGS_XMM_FLAGS) 0,
     entry (OPD_VEX 1 0b11 0xE6) 1 ''VCVTPD2DQ'' TYPE_INST ((GenFlagsSameSize SIZE_128BIT) OR FLAGS_MODRM OR FLAGS_XMM_FLAGS) 0,
     entry (OPD_VEX 1 0b01 0xE7) 1 ''VMOVNTDQ'' TYPE_INST ((GenFlagsSameSize SIZE_128BIT) OR FLAGS_MODRM OR FLAGS_SF_MOD_DST OR FLAGS_SF_MOD_MEM_ONLY OR FLAGS_XMM_FLAGS) 0,
     entry (OPD_VEX 1 0b01 0xE8) 1 ''VPSUBSB'' TYPE_INST ((GenFlagsSameSize SIZE_128BIT) OR FLAGS_MODRM OR FLAGS_VEX_1ST_SRC OR FLAGS_XMM_FLAGS) 0,
     entry (OPD_VEX 1 0b01 0xE9) 1 ''VPSUBSW'' TYPE_INST ((GenFlagsSameSize SIZE_128BIT) OR FLAGS_MODRM OR FLAGS_VEX_1ST_SRC OR FLAGS_XMM_FLAGS) 0,
     entry (OPD_VEX 1 0b01 0xEA) 1 ''VPMINSW'' TYPE_INST ((GenFlagsSameSize SIZE_128BIT) OR FLAGS_MODRM OR FLAGS_VEX_1ST_SRC OR FLAGS_XMM_FLAGS) 0,
     entry (OPD_VEX 1 0b01 0xEB) 1 ''VPOR'' TYPE_INST ((GenFlagsSameSize SIZE_128BIT) OR FLAGS_MODRM OR FLAGS_VEX_1ST_SRC OR FLAGS_XMM_FLAGS) 0,
     entry (OPD_VEX 1 0b01 0xEC) 1 ''VPADDSB'' TYPE_INST ((GenFlagsSameSize SIZE_128BIT) OR FLAGS_MODRM OR FLAGS_VEX_1ST_SRC OR FLAGS_XMM_FLAGS) 0,
     entry (OPD_VEX 1 0b01 0xED) 1 ''VPADDSW'' TYPE_INST ((GenFlagsSameSize SIZE_128BIT) OR FLAGS_MODRM OR FLAGS_VEX_1ST_SRC OR FLAGS_XMM_FLAGS) 0,
     entry (OPD_VEX 1 0b01 0xEE) 1 ''VPMAXSW'' TYPE_INST ((GenFlagsSameSize SIZE_128BIT) OR FLAGS_MODRM OR FLAGS_VEX_1ST_SRC OR FLAGS_XMM_FLAGS) 0,
     entry (OPD_VEX 1 0b01 0xEF) 1 ''VPXOR'' TYPE_INST ((GenFlagsSameSize SIZE_128BIT) OR FLAGS_MODRM OR FLAGS_VEX_1ST_SRC OR FLAGS_XMM_FLAGS) 0,
     entry (OPD_VEX 1 0b11 0xF0) 1 ''VLDDQU'' TYPE_INST ((GenFlagsSameSize SIZE_128BIT) OR FLAGS_MODRM OR FLAGS_SF_MOD_MEM_ONLY OR FLAGS_XMM_FLAGS) 0,
     entry (OPD_VEX 1 0b01 0xF1) 1 ''VPSLLW'' TYPE_INST ((GenFlagsSameSize SIZE_128BIT) OR FLAGS_MODRM OR FLAGS_VEX_1ST_SRC OR FLAGS_XMM_FLAGS) 0,
     entry (OPD_VEX 1 0b01 0xF2) 1 ''VPSLLD'' TYPE_INST ((GenFlagsSameSize SIZE_128BIT) OR FLAGS_MODRM OR FLAGS_VEX_1ST_SRC OR FLAGS_XMM_FLAGS) 0,
     entry (OPD_VEX 1 0b01 0xF3) 1 ''VPSLLQ'' TYPE_INST ((GenFlagsSameSize SIZE_128BIT) OR FLAGS_MODRM OR FLAGS_VEX_1ST_SRC OR FLAGS_XMM_FLAGS) 0,
     entry (OPD_VEX 1 0b01 0xF4) 1 ''VPMULUDQ'' TYPE_INST ((GenFlagsSameSize SIZE_128BIT) OR FLAGS_MODRM OR FLAGS_VEX_1ST_SRC OR FLAGS_XMM_FLAGS) 0,
     entry (OPD_VEX 1 0b01 0xF5) 1 ''VPMADDWD'' TYPE_INST ((GenFlagsSameSize SIZE_128BIT) OR FLAGS_MODRM OR FLAGS_VEX_1ST_SRC OR FLAGS_XMM_FLAGS) 0,
     entry (OPD_VEX 1 0b01 0xF6) 1 ''VPSADBW'' TYPE_INST ((GenFlagsSameSize SIZE_128BIT) OR FLAGS_MODRM OR FLAGS_VEX_1ST_SRC OR FLAGS_XMM_FLAGS) 0,
     entry (OPD_VEX 1 0b01 0xF7) 1 ''VMASKMOVDQU'' TYPE_INST ((GenFlagsSameSize SIZE_128BIT) OR FLAGS_MODRM OR FLAGS_SF_MOD_REG_ONLY OR FLAGS_XMM_FLAGS OR FLAGS_VEX_L_0) 0,
     entry (OPD_VEX 1 0b01 0xF8) 1 ''VPSUBB'' TYPE_INST ((GenFlagsSameSize SIZE_128BIT) OR FLAGS_MODRM OR FLAGS_VEX_1ST_SRC OR FLAGS_XMM_FLAGS) 0,
     entry (OPD_VEX 1 0b01 0xF9) 1 ''VPSUBW'' TYPE_INST ((GenFlagsSameSize SIZE_128BIT) OR FLAGS_MODRM OR FLAGS_VEX_1ST_SRC OR FLAGS_XMM_FLAGS) 0,
     entry (OPD_VEX 1 0b01 0xFA) 1 ''VPSUBD'' TYPE_INST ((GenFlagsSameSize SIZE_128BIT) OR FLAGS_MODRM OR FLAGS_VEX_1ST_SRC OR FLAGS_XMM_FLAGS) 0,
     entry (OPD_VEX 1 0b01 0xFB) 1 ''VPSUBQ'' TYPE_INST ((GenFlagsSameSize SIZE_128BIT) OR FLAGS_MODRM OR FLAGS_VEX_1ST_SRC OR FLAGS_XMM_FLAGS) 0,
     entry (OPD_VEX 1 0b01 0xFC) 1 ''VPADDB'' TYPE_INST ((GenFlagsSameSize SIZE_128BIT) OR FLAGS_MODRM OR FLAGS_VEX_1ST_SRC OR FLAGS_XMM_FLAGS) 0,
     entry (OPD_VEX 1 0b01 0xFD) 1 ''VPADDW'' TYPE_INST ((GenFlagsSameSize SIZE_128BIT) OR FLAGS_MODRM OR FLAGS_VEX_1ST_SRC OR FLAGS_XMM_FLAGS) 0,
     entry (OPD_VEX 1 0b01 0xFE) 1 ''VPADDD'' TYPE_INST ((GenFlagsSameSize SIZE_128BIT) OR FLAGS_MODRM OR FLAGS_VEX_1ST_SRC OR FLAGS_XMM_FLAGS) 0,
     entry (OPD_VEX 2 0b01 0x00) 1 ''VPSHUFB'' TYPE_INST ((GenFlagsSameSize SIZE_128BIT) OR FLAGS_MODRM OR FLAGS_VEX_1ST_SRC OR FLAGS_XMM_FLAGS) 0,
     entry (OPD_VEX 2 0b01 0x01) 1 ''VPHADDW'' TYPE_INST ((GenFlagsSameSize SIZE_128BIT) OR FLAGS_MODRM OR FLAGS_VEX_1ST_SRC OR FLAGS_XMM_FLAGS) 0,
     entry (OPD_VEX 2 0b01 0x02) 1 ''VPHADDD'' TYPE_INST ((GenFlagsSameSize SIZE_128BIT) OR FLAGS_MODRM OR FLAGS_VEX_1ST_SRC OR FLAGS_XMM_FLAGS) 0,
     entry (OPD_VEX 2 0b01 0x03) 1 ''VPHADDSW'' TYPE_INST ((GenFlagsSameSize SIZE_128BIT) OR FLAGS_MODRM OR FLAGS_VEX_1ST_SRC OR FLAGS_XMM_FLAGS) 0,
     entry (OPD_VEX 2 0b01 0x04) 1 ''VPMADDUBSW'' TYPE_INST ((GenFlagsSameSize SIZE_128BIT) OR FLAGS_MODRM OR FLAGS_VEX_1ST_SRC OR FLAGS_XMM_FLAGS) 0,
     entry (OPD_VEX 2 0b01 0x05) 1 ''VPHSUBW'' TYPE_INST ((GenFlagsSameSize SIZE_128BIT) OR FLAGS_MODRM OR FLAGS_VEX_1ST_SRC OR FLAGS_XMM_FLAGS) 0,
     entry (OPD_VEX 2 0b01 0x06) 1 ''VPHSUBD'' TYPE_INST ((GenFlagsSameSize SIZE_128BIT) OR FLAGS_MODRM OR FLAGS_VEX_1ST_SRC OR FLAGS_XMM_FLAGS) 0,
     entry (OPD_VEX 2 0b01 0x07) 1 ''VPHSUBSW'' TYPE_INST ((GenFlagsSameSize SIZE_128BIT) OR FLAGS_MODRM OR FLAGS_VEX_1ST_SRC OR FLAGS_XMM_FLAGS) 0,
     entry (OPD_VEX 2 0b01 0x08) 1 ''VPSIGNB'' TYPE_INST ((GenFlagsSameSize SIZE_128BIT) OR FLAGS_MODRM OR FLAGS_VEX_1ST_SRC OR FLAGS_XMM_FLAGS) 0,
     entry (OPD_VEX 2 0b01 0x09) 1 ''VPSIGNW'' TYPE_INST ((GenFlagsSameSize SIZE_128BIT) OR FLAGS_MODRM OR FLAGS_VEX_1ST_SRC OR FLAGS_XMM_FLAGS) 0,
     entry (OPD_VEX 2 0b01 0x0A) 1 ''VPSIGND'' TYPE_INST ((GenFlagsSameSize SIZE_128BIT) OR FLAGS_MODRM OR FLAGS_VEX_1ST_SRC OR FLAGS_XMM_FLAGS) 0,
     entry (OPD_VEX 2 0b01 0x0B) 1 ''VPMULHRSW'' TYPE_INST ((GenFlagsSameSize SIZE_128BIT) OR FLAGS_MODRM OR FLAGS_VEX_1ST_SRC OR FLAGS_XMM_FLAGS) 0,
     entry (OPD_VEX 2 0b01 0x0C) 1 ''VPERMILPS'' TYPE_INST ((GenFlagsSameSize SIZE_128BIT) OR FLAGS_MODRM OR FLAGS_VEX_1ST_SRC OR FLAGS_REX_W_0 OR FLAGS_XMM_FLAGS) 0,
     entry (OPD_VEX 2 0b01 0x0D) 1 ''VPERMILPD'' TYPE_INST ((GenFlagsSameSize SIZE_128BIT) OR FLAGS_MODRM OR FLAGS_VEX_1ST_SRC OR FLAGS_REX_W_0 OR FLAGS_XMM_FLAGS) 0,
     entry (OPD_VEX 2 0b01 0x0E) 1 ''VTESTPS'' TYPE_INST ((GenFlagsSameSize SIZE_128BIT) OR FLAGS_MODRM OR FLAGS_REX_W_0 OR FLAGS_XMM_FLAGS) 0,
     entry (OPD_VEX 2 0b01 0x0F) 1 ''VTESTPD'' TYPE_INST ((GenFlagsSameSize SIZE_128BIT) OR FLAGS_MODRM OR FLAGS_REX_W_0 OR FLAGS_XMM_FLAGS) 0,
     entry (OPD_VEX 2 0b01 0x13) 1 ''VCVTPH2PS'' TYPE_INST ((GenFlagsSizes SIZE_128BIT SIZE_64BIT) OR FLAGS_MODRM OR FLAGS_REX_W_0 OR FLAGS_XMM_FLAGS) 0,
     entry (OPD_VEX 2 0b01 0x16) 1 ''VPERMPS'' TYPE_INST ((GenFlagsSameSize SIZE_256BIT) OR FLAGS_MODRM OR FLAGS_VEX_L_1 OR FLAGS_VEX_1ST_SRC OR FLAGS_REX_W_0 OR FLAGS_XMM_FLAGS) 0,
     entry (OPD_VEX 2 0b01 0x17) 1 ''VPTEST'' TYPE_INST ((GenFlagsSameSize SIZE_128BIT) OR FLAGS_MODRM OR FLAGS_XMM_FLAGS) 0,
     entry (OPD_VEX 2 0b01 0x18) 1 ''VBROADCASTSS'' TYPE_INST ((GenFlagsSameSize SIZE_128BIT) OR FLAGS_MODRM OR FLAGS_REX_W_0 OR FLAGS_XMM_FLAGS) 0,
     entry (OPD_VEX 2 0b01 0x19) 1 ''VBROADCASTSD'' TYPE_INST ((GenFlagsSameSize SIZE_128BIT) OR FLAGS_MODRM OR FLAGS_VEX_L_1 OR FLAGS_REX_W_0 OR FLAGS_XMM_FLAGS) 0,
     entry (OPD_VEX 2 0b01 0x1A) 1 ''VBROADCASTF128'' TYPE_INST ((GenFlagsSameSize SIZE_128BIT) OR FLAGS_MODRM OR FLAGS_VEX_L_1 OR FLAGS_SF_MOD_MEM_ONLY OR FLAGS_REX_W_0 OR FLAGS_XMM_FLAGS) 0,
     entry (OPD_VEX 2 0b01 0x1C) 1 ''VPABSB'' TYPE_INST ((GenFlagsSameSize SIZE_128BIT) OR FLAGS_MODRM OR FLAGS_XMM_FLAGS) 0,
     entry (OPD_VEX 2 0b01 0x1D) 1 ''VPABSW'' TYPE_INST ((GenFlagsSameSize SIZE_128BIT) OR FLAGS_MODRM OR FLAGS_XMM_FLAGS) 0,
     entry (OPD_VEX 2 0b01 0x1E) 1 ''VPABSD'' TYPE_INST ((GenFlagsSameSize SIZE_128BIT) OR FLAGS_MODRM OR FLAGS_XMM_FLAGS) 0,
     entry (OPD_VEX 2 0b01 0x20) 1 ''VPMOVSXBW'' TYPE_INST ((GenFlagsSizes SIZE_128BIT SIZE_64BIT) OR FLAGS_MODRM OR FLAGS_XMM_FLAGS) 0,
     entry (OPD_VEX 2 0b01 0x21) 1 ''VPMOVSXBD'' TYPE_INST ((GenFlagsSizes SIZE_128BIT SIZE_32BIT) OR FLAGS_MODRM OR FLAGS_XMM_FLAGS) 0,
     entry (OPD_VEX 2 0b01 0x22) 1 ''VPMOVSXBQ'' TYPE_INST ((GenFlagsSizes SIZE_128BIT SIZE_16BIT) OR FLAGS_MODRM OR FLAGS_XMM_FLAGS) 0,
     entry (OPD_VEX 2 0b01 0x23) 1 ''VPMOVSXWD'' TYPE_INST ((GenFlagsSizes SIZE_128BIT SIZE_64BIT) OR FLAGS_MODRM OR FLAGS_XMM_FLAGS) 0,
     entry (OPD_VEX 2 0b01 0x24) 1 ''VPMOVSXWQ'' TYPE_INST ((GenFlagsSizes SIZE_128BIT SIZE_32BIT) OR FLAGS_MODRM OR FLAGS_XMM_FLAGS) 0,
     entry (OPD_VEX 2 0b01 0x25) 1 ''VPMOVSXDQ'' TYPE_INST ((GenFlagsSizes SIZE_128BIT SIZE_64BIT) OR FLAGS_MODRM OR FLAGS_XMM_FLAGS) 0,
     entry (OPD_VEX 2 0b01 0x28) 1 ''VPMULDQ'' TYPE_INST ((GenFlagsSameSize SIZE_128BIT) OR FLAGS_MODRM OR FLAGS_VEX_1ST_SRC OR FLAGS_XMM_FLAGS) 0,
     entry (OPD_VEX 2 0b01 0x29) 1 ''VPCMPEQQ'' TYPE_INST ((GenFlagsSameSize SIZE_128BIT) OR FLAGS_MODRM OR FLAGS_VEX_1ST_SRC OR FLAGS_XMM_FLAGS) 0,
     entry (OPD_VEX 2 0b01 0x2A) 1 ''VMOVNTDQA'' TYPE_INST ((GenFlagsSameSize SIZE_128BIT) OR FLAGS_MODRM OR FLAGS_SF_MOD_MEM_ONLY OR FLAGS_XMM_FLAGS) 0,
     entry (OPD_VEX 2 0b01 0x2B) 1 ''VPACKUSDW'' TYPE_INST ((GenFlagsSameSize SIZE_128BIT) OR FLAGS_MODRM OR FLAGS_VEX_1ST_SRC OR FLAGS_XMM_FLAGS) 0,
     entry (OPD_VEX 2 0b01 0x2C) 1 ''VMASKMOVPS'' TYPE_INST ((GenFlagsSameSize SIZE_128BIT) OR FLAGS_MODRM OR FLAGS_SF_MOD_MEM_ONLY OR FLAGS_VEX_1ST_SRC OR FLAGS_REX_W_0 OR FLAGS_XMM_FLAGS) 0,
     entry (OPD_VEX 2 0b01 0x2D) 1 ''VMASKMOVPD'' TYPE_INST ((GenFlagsSameSize SIZE_128BIT) OR FLAGS_MODRM OR FLAGS_SF_MOD_MEM_ONLY OR FLAGS_VEX_1ST_SRC OR FLAGS_REX_W_0 OR FLAGS_XMM_FLAGS) 0,
     entry (OPD_VEX 2 0b01 0x2E) 1 ''VMASKMOVPS'' TYPE_INST ((GenFlagsSameSize SIZE_128BIT) OR FLAGS_MODRM OR FLAGS_SF_MOD_MEM_ONLY OR FLAGS_SF_MOD_DST OR FLAGS_VEX_1ST_SRC OR FLAGS_REX_W_0 OR FLAGS_XMM_FLAGS) 0,
     entry (OPD_VEX 2 0b01 0x2F) 1 ''VMASKMOVPD'' TYPE_INST ((GenFlagsSameSize SIZE_128BIT) OR FLAGS_MODRM OR FLAGS_SF_MOD_MEM_ONLY OR FLAGS_SF_MOD_DST OR FLAGS_VEX_1ST_SRC OR FLAGS_REX_W_0 OR FLAGS_XMM_FLAGS) 0,
     entry (OPD_VEX 2 0b01 0x30) 1 ''VPMOVZXBW'' TYPE_INST ((GenFlagsSizes SIZE_128BIT SIZE_64BIT) OR FLAGS_MODRM OR FLAGS_XMM_FLAGS) 0,
     entry (OPD_VEX 2 0b01 0x31) 1 ''VPMOVZXBD'' TYPE_INST ((GenFlagsSizes SIZE_128BIT SIZE_32BIT) OR FLAGS_MODRM OR FLAGS_XMM_FLAGS) 0,
     entry (OPD_VEX 2 0b01 0x32) 1 ''VPMOVZXBQ'' TYPE_INST ((GenFlagsSizes SIZE_128BIT SIZE_16BIT) OR FLAGS_MODRM OR FLAGS_XMM_FLAGS) 0,
     entry (OPD_VEX 2 0b01 0x33) 1 ''VPMOVZXWD'' TYPE_INST ((GenFlagsSizes SIZE_128BIT SIZE_64BIT) OR FLAGS_MODRM OR FLAGS_XMM_FLAGS) 0,
     entry (OPD_VEX 2 0b01 0x34) 1 ''VPMOVZXWQ'' TYPE_INST ((GenFlagsSizes SIZE_128BIT SIZE_32BIT) OR FLAGS_MODRM OR FLAGS_XMM_FLAGS) 0,
     entry (OPD_VEX 2 0b01 0x35) 1 ''VPMOVZXDQ'' TYPE_INST ((GenFlagsSizes SIZE_128BIT SIZE_64BIT) OR FLAGS_MODRM OR FLAGS_XMM_FLAGS) 0,
     entry (OPD_VEX 2 0b01 0x36) 1 ''VPERMD'' TYPE_INST ((GenFlagsSameSize SIZE_256BIT) OR FLAGS_MODRM OR FLAGS_VEX_L_1 OR FLAGS_VEX_1ST_SRC OR FLAGS_XMM_FLAGS) 0,
     entry (OPD_VEX 2 0b01 0x37) 1 ''VPCMPGTQ'' TYPE_INST ((GenFlagsSameSize SIZE_128BIT) OR FLAGS_MODRM OR FLAGS_VEX_1ST_SRC OR FLAGS_XMM_FLAGS) 0]"

definition VEXTable_3 :: "X86TablesInfoStruct list" where
  "VEXTable_3 =
    [entry (OPD_VEX 2 0b01 0x38) 1 ''VPMINSB'' TYPE_INST ((GenFlagsSameSize SIZE_128BIT) OR FLAGS_MODRM OR FLAGS_VEX_1ST_SRC OR FLAGS_XMM_FLAGS) 0,
     entry (OPD_VEX 2 0b01 0x39) 1 ''VPMINSD'' TYPE_INST ((GenFlagsSameSize SIZE_128BIT) OR FLAGS_MODRM OR FLAGS_VEX_1ST_SRC OR FLAGS_XMM_FLAGS) 0,
     entry (OPD_VEX 2 0b01 0x3A) 1 ''VPMINUW'' TYPE_INST ((GenFlagsSameSize SIZE_128BIT) OR FLAGS_MODRM OR FLAGS_VEX_1ST_SRC OR FLAGS_XMM_FLAGS) 0,
     entry (OPD_VEX 2 0b01 0x3B) 1 ''VPMINUD'' TYPE_INST ((GenFlagsSameSize SIZE_128BIT) OR FLAGS_MODRM OR FLAGS_VEX_1ST_SRC OR FLAGS_XMM_FLAGS) 0,
     entry (OPD_VEX 2 0b01 0x3C) 1 ''VPMAXSB'' TYPE_INST ((GenFlagsSameSize SIZE_128BIT) OR FLAGS_MODRM OR FLAGS_VEX_1ST_SRC OR FLAGS_XMM_FLAGS) 0,
     entry (OPD_VEX 2 0b01 0x3D) 1 ''VPMAXSD'' TYPE_INST ((GenFlagsSameSize SIZE_128BIT) OR FLAGS_MODRM OR FLAGS_VEX_1ST_SRC OR FLAGS_XMM_FLAGS) 0,
     entry (OPD_VEX 2 0b01 0x3E) 1 ''VPMAXUW'' TYPE_INST ((GenFlagsSameSize SIZE_128BIT) OR FLAGS_MODRM OR FLAGS_VEX_1ST_SRC OR FLAGS_XMM_FLAGS) 0,
     entry (OPD_VEX 2 0b01 0x3F) 1 ''VPMAXUD'' TYPE_INST ((GenFlagsSameSize SIZE_128BIT) OR FLAGS_MODRM OR FLAGS_VEX_1ST_SRC OR FLAGS_XMM_FLAGS) 0,
     entry (OPD_VEX 2 0b01 0x40) 1 ''VPMULLD'' TYPE_INST ((GenFlagsSameSize SIZE_128BIT) OR FLAGS_MODRM OR FLAGS_VEX_1ST_SRC OR FLAGS_XMM_FLAGS) 0,
     entry (OPD_VEX 2 0b01 0x41) 1 ''VPHMINPOSUW'' TYPE_INST ((GenFlagsSameSize SIZE_128BIT) OR FLAGS_MODRM OR FLAGS_XMM_FLAGS OR FLAGS_VEX_L_0) 0,
     entry (OPD_VEX 2 0b01 0x45) 1 ''VPSRLV'' TYPE_INST ((GenFlagsSizes SIZE_128BIT SIZE_32BIT) OR FLAGS_MODRM OR FLAGS_VEX_1ST_SRC OR FLAGS_XMM_FLAGS) 0,
     entry (OPD_VEX 2 0b01 0x46) 1 ''VPSRAVD'' TYPE_INST ((GenFlagsSizes SIZE_128BIT SIZE_32BIT) OR FLAGS_MODRM OR FLAGS_VEX_1ST_SRC OR FLAGS_REX_W_0 OR FLAGS_XMM_FLAGS) 0,
     entry (OPD_VEX 2 0b01 0x47) 1 ''VPSLLV'' TYPE_INST ((GenFlagsSizes SIZE_128BIT SIZE_32BIT) OR FLAGS_MODRM OR FLAGS_VEX_1ST_SRC OR FLAGS_XMM_FLAGS) 0,
     entry (OPD_VEX 2 0b01 0x58) 1 ''VPBROADCASTD'' TYPE_INST ((GenFlagsSameSize SIZE_128BIT) OR FLAGS_MODRM OR FLAGS_REX_W_0 OR FLAGS_XMM_FLAGS) 0,
     entry (OPD_VEX 2 0b01 0x59) 1 ''VPBROADCASTQ'' TYPE_INST ((GenFlagsSameSize SIZE_128BIT) OR FLAGS_MODRM OR FLAGS_REX_W_0 OR FLAGS_XMM_FLAGS) 0,
     entry (OPD_VEX 2 0b01 0x5A) 1 ''VBROADCASTI128'' TYPE_INST ((GenFlagsSameSize SIZE_128BIT) OR FLAGS_MODRM OR FLAGS_VEX_L_1 OR FLAGS_SF_MOD_MEM_ONLY OR FLAGS_REX_W_0 OR FLAGS_XMM_FLAGS) 0,
     entry (OPD_VEX 2 0b01 0x78) 1 ''VPBROADCASTB'' TYPE_INST ((GenFlagsSameSize SIZE_128BIT) OR FLAGS_MODRM OR FLAGS_REX_W_0 OR FLAGS_XMM_FLAGS) 0,
     entry (OPD_VEX 2 0b01 0x79) 1 ''VPBROADCASTW'' TYPE_INST ((GenFlagsSameSize SIZE_128BIT) OR FLAGS_MODRM OR FLAGS_REX_W_0 OR FLAGS_XMM_FLAGS) 0,
     entry (OPD_VEX 2 0b01 0x8C) 1 ''VPMASKMOV'' TYPE_INST ((GenFlagsSizes SIZE_128BIT SIZE_32BIT) OR FLAGS_MODRM OR FLAGS_SF_MOD_MEM_ONLY OR FLAGS_VEX_1ST_SRC OR FLAGS_XMM_FLAGS) 0,
     entry (OPD_VEX 2 0b01 0x8E) 1 ''VPMASKMOV'' TYPE_INST ((GenFlagsSizes SIZE_128BIT SIZE_32BIT) OR FLAGS_MODRM OR FLAGS_SF_MOD_MEM_ONLY OR FLAGS_SF_MOD_DST OR FLAGS_VEX_1ST_SRC OR FLAGS_XMM_FLAGS) 0,
     entry (OPD_VEX 2 0b01 0x90) 1 ''VPGATHERDD/Q'' TYPE_INST ((GenFlagsSameSize SIZE_128BIT) OR FLAGS_MODRM OR FLAGS_VEX_2ND_SRC OR FLAGS_VEX_VSIB OR FLAGS_XMM_FLAGS) 0,
     entry (OPD_VEX 2 0b01 0x91) 1 ''VPGATHERQD/Q'' TYPE_INST ((GenFlagsSameSize SIZE_128BIT) OR FLAGS_MODRM OR FLAGS_VEX_2ND_SRC OR FLAGS_VEX_VSIB OR FLAGS_XMM_FLAGS) 0,
     entry (OPD_VEX 2 0b01 0x92) 1 ''VGATHERDPS/D'' TYPE_INST ((GenFlagsSameSize SIZE_128BIT) OR FLAGS_MODRM OR FLAGS_VEX_2ND_SRC OR FLAGS_VEX_VSIB OR FLAGS_XMM_FLAGS) 0,
     entry (OPD_VEX 2 0b01 0x93) 1 ''VGATHERQPS/D'' TYPE_INST ((GenFlagsSameSize SIZE_128BIT) OR FLAGS_MODRM OR FLAGS_VEX_2ND_SRC OR FLAGS_VEX_VSIB OR FLAGS_XMM_FLAGS) 0,
     entry (OPD_VEX 2 0b01 0x96) 1 ''VFMADDSUB132'' TYPE_INST ((GenFlagsSameSize SIZE_128BIT) OR FLAGS_MODRM OR FLAGS_VEX_1ST_SRC OR FLAGS_XMM_FLAGS) 0,
     entry (OPD_VEX 2 0b01 0x97) 1 ''VFMSUBADD132'' TYPE_INST ((GenFlagsSameSize SIZE_128BIT) OR FLAGS_MODRM OR FLAGS_VEX_1ST_SRC OR FLAGS_XMM_FLAGS) 0,
     entry (OPD_VEX 2 0b01 0x98) 1 ''VFMADD132'' TYPE_INST ((GenFlagsSameSize SIZE_128BIT) OR FLAGS_MODRM OR FLAGS_VEX_1ST_SRC OR FLAGS_XMM_FLAGS) 0,
     entry (OPD_VEX 2 0b01 0x99) 1 ''VFMADD132_S'' TYPE_INST ((GenFlagsSizes SIZE_128BIT SIZE_32BIT) OR FLAGS_MODRM OR FLAGS_VEX_1ST_SRC OR FLAGS_XMM_FLAGS OR FLAGS_VEX_L_IGNORE) 0,
     entry (OPD_VEX 2 0b01 0x9A) 1 ''VFMSUB132'' TYPE_INST ((GenFlagsSameSize SIZE_128BIT) OR FLAGS_MODRM OR FLAGS_VEX_1ST_SRC OR FLAGS_XMM_FLAGS) 0,
     entry (OPD_VEX 2 0b01 0x9B) 1 ''VFMSUB132_S'' TYPE_INST ((GenFlagsSizes SIZE_128BIT SIZE_32BIT) OR FLAGS_MODRM OR FLAGS_VEX_1ST_SRC OR FLAGS_XMM_FLAGS OR FLAGS_VEX_L_IGNORE) 0,
     entry (OPD_VEX 2 0b01 0x9C) 1 ''VFNMADD132'' TYPE_INST ((GenFlagsSameSize SIZE_128BIT) OR FLAGS_MODRM OR FLAGS_VEX_1ST_SRC OR FLAGS_XMM_FLAGS) 0,
     entry (OPD_VEX 2 0b01 0x9D) 1 ''VFNMADD132_S'' TYPE_INST ((GenFlagsSizes SIZE_128BIT SIZE_32BIT) OR FLAGS_MODRM OR FLAGS_VEX_1ST_SRC OR FLAGS_XMM_FLAGS OR FLAGS_VEX_L_IGNORE) 0,
     entry (OPD_VEX 2 0b01 0x9E) 1 ''VFNMSUB132'' TYPE_INST ((GenFlagsSameSize SIZE_128BIT) OR FLAGS_MODRM OR FLAGS_VEX_1ST_SRC OR FLAGS_XMM_FLAGS) 0,
     entry (OPD_VEX 2 0b01 0x9F) 1 ''VFNMSUB132_S'' TYPE_INST ((GenFlagsSizes SIZE_128BIT SIZE_32BIT) OR FLAGS_MODRM OR FLAGS_VEX_1ST_SRC OR FLAGS_XMM_FLAGS OR FLAGS_VEX_L_IGNORE) 0,
     entry (OPD_VEX 2 0b01 0xA8) 1 ''VFMADD213'' TYPE_INST ((GenFlagsSameSize SIZE_128BIT) OR FLAGS_MODRM OR FLAGS_VEX_1ST_SRC OR FLAGS_XMM_FLAGS) 0,
     entry (OPD_VEX 2 0b01 0xA9) 1 ''VFMADD213_S'' TYPE_INST ((GenFlagsSizes SIZE_128BIT SIZE_32BIT) OR FLAGS_MODRM OR FLAGS_VEX_1ST_SRC OR FLAGS_XMM_FLAGS OR FLAGS_VEX_L_IGNORE) 0,
     entry (OPD_VEX 2 0b01 0xAA) 1 ''VFMSUB213'' TYPE_INST ((GenFlagsSameSize SIZE_128BIT) OR FLAGS_MODRM OR FLAGS_VEX_1ST_SRC OR FLAGS_XMM_FLAGS) 0,
     entry (OPD_VEX 2 0b01 0xAB) 1 ''VFMSUB213_S'' TYPE_INST ((GenFlagsSizes SIZE_128BIT SIZE_32BIT) OR FLAGS_MODRM OR FLAGS_VEX_1ST_SRC OR FLAGS_XMM_FLAGS OR FLAGS_VEX_L_IGNORE) 0,
     entry (OPD_VEX 2 0b01 0xAC) 1 ''VFNMADD213'' TYPE_INST ((GenFlagsSameSize SIZE_128BIT) OR FLAGS_MODRM OR FLAGS_VEX_1ST_SRC OR FLAGS_XMM_FLAGS) 0,
     entry (OPD_VEX 2 0b01 0xAD) 1 ''VFNMADD213_S'' TYPE_INST ((GenFlagsSizes SIZE_128BIT SIZE_32BIT) OR FLAGS_MODRM OR FLAGS_VEX_1ST_SRC OR FLAGS_XMM_FLAGS OR FLAGS_VEX_L_IGNORE) 0,
     entry (OPD_VEX 2 0b01 0xAE) 1 ''VFNMSUB213'' TYPE_INST ((GenFlagsSameSize SIZE_128BIT) OR FLAGS_MODRM OR FLAGS_VEX_1ST_SRC OR FLAGS_XMM_FLAGS) 0,
     entry (OPD_VEX 2 0b01 0xAF) 1 ''VFNMSUB213_S'' TYPE_INST ((GenFlagsSizes SIZE_128BIT SIZE_32BIT) OR FLAGS_MODRM OR FLAGS_VEX_1ST_SRC OR FLAGS_XMM_FLAGS OR FLAGS_VEX_L_IGNORE) 0,
     entry (OPD_VEX 2 0b01 0xB8) 1 ''VFMADD231'' TYPE_INST ((GenFlagsSameSize SIZE_128BIT) OR FLAGS_MODRM OR FLAGS_VEX_1ST_SRC OR FLAGS_XMM_FLAGS) 0,
     entry (OPD_VEX 2 0b01 0xB9) 1 ''VFMADD231_S'' TYPE_INST ((GenFlagsSizes SIZE_128BIT SIZE_32BIT) OR FLAGS_MODRM OR FLAGS_VEX_1ST_SRC OR FLAGS_XMM_FLAGS OR FLAGS_VEX_L_IGNORE) 0,
     entry (OPD_VEX 2 0b01 0xBA) 1 ''VFMSUB231'' TYPE_INST ((GenFlagsSameSize SIZE_128BIT) OR FLAGS_MODRM OR FLAGS_VEX_1ST_SRC OR FLAGS_XMM_FLAGS) 0,
     entry (OPD_VEX 2 0b01 0xBB) 1 ''VFMSUB231_S'' TYPE_INST ((GenFlagsSizes SIZE_128BIT SIZE_32BIT) OR FLAGS_MODRM OR FLAGS_VEX_1ST_SRC OR FLAGS_XMM_FLAGS OR FLAGS_VEX_L_IGNORE) 0,
     entry (OPD_VEX 2 0b01 0xBC) 1 ''VFNMADD231'' TYPE_INST ((GenFlagsSameSize SIZE_128BIT) OR FLAGS_MODRM OR FLAGS_VEX_1ST_SRC OR FLAGS_XMM_FLAGS) 0,
     entry (OPD_VEX 2 0b01 0xBD) 1 ''VFNMADD231_S'' TYPE_INST ((GenFlagsSizes SIZE_128BIT SIZE_32BIT) OR FLAGS_MODRM OR FLAGS_VEX_1ST_SRC OR FLAGS_XMM_FLAGS OR FLAGS_VEX_L_IGNORE) 0,
     entry (OPD_VEX 2 0b01 0xBE) 1 ''VFNMSUB231'' TYPE_INST ((GenFlagsSameSize SIZE_128BIT) OR FLAGS_MODRM OR FLAGS_VEX_1ST_SRC OR FLAGS_XMM_FLAGS) 0,
     entry (OPD_VEX 2 0b01 0xBF) 1 ''VFNMSUB231_S'' TYPE_INST ((GenFlagsSizes SIZE_128BIT SIZE_32BIT) OR FLAGS_MODRM OR FLAGS_VEX_1ST_SRC OR FLAGS_XMM_FLAGS OR FLAGS_VEX_L_IGNORE) 0,
     entry (OPD_VEX 2 0b01 0xA6) 1 ''VFMADDSUB213'' TYPE_INST ((GenFlagsSameSize SIZE_128BIT) OR FLAGS_MODRM OR FLAGS_VEX_1ST_SRC OR FLAGS_XMM_FLAGS) 0,
     entry (OPD_VEX 2 0b01 0xA7) 1 ''VFMSUBADD213'' TYPE_INST ((GenFlagsSameSize SIZE_128BIT) OR FLAGS_MODRM OR FLAGS_VEX_1ST_SRC OR FLAGS_XMM_FLAGS) 0,
     entry (OPD_VEX 2 0b01 0xB6) 1 ''VFMADDSUB231'' TYPE_INST ((GenFlagsSameSize SIZE_128BIT) OR FLAGS_MODRM OR FLAGS_VEX_1ST_SRC OR FLAGS_XMM_FLAGS) 0,
     entry (OPD_VEX 2 0b01 0xB7) 1 ''VFMSUBADD231'' TYPE_INST ((GenFlagsSameSize SIZE_128BIT) OR FLAGS_MODRM OR FLAGS_VEX_1ST_SRC OR FLAGS_XMM_FLAGS) 0,
     entry (OPD_VEX 2 0b01 0xDB) 1 ''VAESIMC'' TYPE_INST ((GenFlagsSameSize SIZE_128BIT) OR FLAGS_MODRM OR FLAGS_XMM_FLAGS) 0,
     entry (OPD_VEX 2 0b01 0xDC) 1 ''VAESENC'' TYPE_INST ((GenFlagsSameSize SIZE_128BIT) OR FLAGS_MODRM OR FLAGS_VEX_1ST_SRC OR FLAGS_XMM_FLAGS) 0,
     entry (OPD_VEX 2 0b01 0xDD) 1 ''VAESENCLAST'' TYPE_INST ((GenFlagsSameSize SIZE_128BIT) OR FLAGS_MODRM OR FLAGS_VEX_1ST_SRC OR FLAGS_XMM_FLAGS) 0,
     entry (OPD_VEX 2 0b01 0xDE) 1 ''VAESDEC'' TYPE_INST ((GenFlagsSameSize SIZE_128BIT) OR FLAGS_MODRM OR FLAGS_VEX_1ST_SRC OR FLAGS_XMM_FLAGS) 0,
     entry (OPD_VEX 2 0b01 0xDF) 1 ''VAESDECLAST'' TYPE_INST ((GenFlagsSameSize SIZE_128BIT) OR FLAGS_MODRM OR FLAGS_VEX_1ST_SRC OR FLAGS_XMM_FLAGS) 0,
     entry (OPD_VEX 2 0b00 0xF2) 1 ''ANDN'' TYPE_INST (FLAGS_MODRM OR FLAGS_VEX_1ST_SRC) 0,
     entry (OPD_VEX 2 0b00 0xF3) 1 '''' TYPE_VEX_GROUP_17 FLAGS_NONE 0,
     entry (OPD_VEX 2 0b01 0xF3) 1 '''' TYPE_VEX_GROUP_17 FLAGS_NONE 0,
     entry (OPD_VEX 2 0b10 0xF3) 1 '''' TYPE_VEX_GROUP_17 FLAGS_NONE 0,
     entry (OPD_VEX 2 0b11 0xF3) 1 '''' TYPE_VEX_GROUP_17 FLAGS_NONE 0,
     entry (OPD_VEX 2 0b00 0xF5) 1 ''BZHI'' TYPE_INST (FLAGS_MODRM OR FLAGS_VEX_L_0 OR FLAGS_VEX_2ND_SRC) 0,
     entry (OPD_VEX 2 0b10 0xF5) 1 ''PEXT'' TYPE_INST (FLAGS_MODRM OR FLAGS_VEX_L_0 OR FLAGS_VEX_1ST_SRC) 0,
     entry (OPD_VEX 2 0b11 0xF5) 1 ''PDEP'' TYPE_INST (FLAGS_MODRM OR FLAGS_VEX_L_0 OR FLAGS_VEX_1ST_SRC) 0,
     entry (OPD_VEX 2 0b11 0xF6) 1 ''MULX'' TYPE_INST (FLAGS_MODRM OR FLAGS_VEX_L_0 OR FLAGS_VEX_1ST_SRC) 0,
     entry (OPD_VEX 2 0b00 0xF7) 1 ''BEXTR'' TYPE_INST (FLAGS_MODRM OR FLAGS_VEX_L_0 OR FLAGS_VEX_2ND_SRC) 0,
     entry (OPD_VEX 2 0b01 0xF7) 1 ''SHLX'' TYPE_INST (FLAGS_MODRM OR FLAGS_VEX_L_0 OR FLAGS_VEX_2ND_SRC) 0,
     entry (OPD_VEX 2 0b10 0xF7) 1 ''SARX'' TYPE_INST (FLAGS_MODRM OR FLAGS_VEX_L_0 OR FLAGS_VEX_2ND_SRC) 0,
     entry (OPD_VEX 2 0b11 0xF7) 1 ''SHRX'' TYPE_INST (FLAGS_MODRM OR FLAGS_VEX_L_0 OR FLAGS_VEX_2ND_SRC) 0,
     entry (OPD_VEX 3 0b01 0x00) 1 ''VPERMQ'' TYPE_INST ((GenFlagsSameSize SIZE_256BIT) OR FLAGS_MODRM OR FLAGS_VEX_L_1 OR FLAGS_REX_W_1 OR FLAGS_XMM_FLAGS) 1,
     entry (OPD_VEX 3 0b01 0x01) 1 ''VPERMPD'' TYPE_INST ((GenFlagsSameSize SIZE_256BIT) OR FLAGS_MODRM OR FLAGS_VEX_L_1 OR FLAGS_REX_W_1 OR FLAGS_XMM_FLAGS) 1,
     entry (OPD_VEX 3 0b01 0x02) 1 ''VPBLENDD'' TYPE_INST ((GenFlagsSameSize SIZE_128BIT) OR FLAGS_MODRM OR FLAGS_VEX_1ST_SRC OR FLAGS_REX_W_0 OR FLAGS_XMM_FLAGS) 1,
     entry (OPD_VEX 3 0b01 0x04) 1 ''VPERMILPS'' TYPE_INST ((GenFlagsSameSize SIZE_128BIT) OR FLAGS_MODRM OR FLAGS_REX_W_0 OR FLAGS_XMM_FLAGS) 1,
     entry (OPD_VEX 3 0b01 0x05) 1 ''VPERMILPD'' TYPE_INST ((GenFlagsSameSize SIZE_128BIT) OR FLAGS_MODRM OR FLAGS_REX_W_0 OR FLAGS_XMM_FLAGS) 1,
     entry (OPD_VEX 3 0b01 0x06) 1 ''VPERM2F128'' TYPE_INST ((GenFlagsSameSize SIZE_256BIT) OR FLAGS_MODRM OR FLAGS_VEX_1ST_SRC OR FLAGS_REX_W_0 OR FLAGS_XMM_FLAGS OR FLAGS_VEX_L_1) 1,
     entry (OPD_VEX 3 0b01 0x08) 1 ''VROUNDPS'' TYPE_INST ((GenFlagsSameSize SIZE_128BIT) OR FLAGS_MODRM OR FLAGS_XMM_FLAGS) 1,
     entry (OPD_VEX 3 0b01 0x09) 1 ''VROUNDPD'' TYPE_INST ((GenFlagsSameSize SIZE_128BIT) OR FLAGS_MODRM OR FLAGS_XMM_FLAGS) 1,
     entry (OPD_VEX 3 0b01 0x0A) 1 ''VROUNDSS'' TYPE_INST ((GenFlagsSizes SIZE_128BIT SIZE_32BIT) OR FLAGS_MODRM OR FLAGS_VEX_1ST_SRC OR FLAGS_XMM_FLAGS) 1,
     entry (OPD_VEX 3 0b01 0x0B) 1 ''VROUNDSD'' TYPE_INST ((GenFlagsSizes SIZE_128BIT SIZE_64BIT) OR FLAGS_MODRM OR FLAGS_VEX_1ST_SRC OR FLAGS_XMM_FLAGS) 1,
     entry (OPD_VEX 3 0b01 0x0C) 1 ''VBLENDPS'' TYPE_INST ((GenFlagsSameSize SIZE_128BIT) OR FLAGS_MODRM OR FLAGS_VEX_1ST_SRC OR FLAGS_XMM_FLAGS) 1,
     entry (OPD_VEX 3 0b01 0x0D) 1 ''VBLENDPD'' TYPE_INST ((GenFlagsSameSize SIZE_128BIT) OR FLAGS_MODRM OR FLAGS_VEX_1ST_SRC OR FLAGS_XMM_FLAGS) 1,
     entry (OPD_VEX 3 0b01 0x0E) 1 ''VPBLENDW'' TYPE_INST ((GenFlagsSameSize SIZE_128BIT) OR FLAGS_MODRM OR FLAGS_VEX_1ST_SRC OR FLAGS_XMM_FLAGS) 1,
     entry (OPD_VEX 3 0b01 0x0F) 1 ''VPALIGNR'' TYPE_INST ((GenFlagsSameSize SIZE_128BIT) OR FLAGS_MODRM OR FLAGS_VEX_1ST_SRC OR FLAGS_XMM_FLAGS) 1,
     entry (OPD_VEX 3 0b01 0x14) 1 ''VPEXTRB'' TYPE_INST ((GenFlagsSizes SIZE_32BIT SIZE_128BIT) OR FLAGS_MODRM OR FLAGS_VEX_L_0 OR FLAGS_SF_MOD_DST OR FLAGS_SF_DST_GPR OR FLAGS_XMM_FLAGS) 1,
     entry (OPD_VEX 3 0b01 0x15) 1 ''VPEXTRW'' TYPE_INST ((GenFlagsSizes SIZE_16BIT SIZE_128BIT) OR FLAGS_MODRM OR FLAGS_VEX_L_0 OR FLAGS_SF_MOD_DST OR FLAGS_SF_DST_GPR OR FLAGS_XMM_FLAGS) 1,
     entry (OPD_VEX 3 0b01 0x16) 1 ''VPEXTRD'' TYPE_INST ((GenFlagsSizes SIZE_32BIT SIZE_128BIT) OR FLAGS_MODRM OR FLAGS_VEX_L_0 OR FLAGS_SF_MOD_DST OR FLAGS_SF_DST_GPR OR FLAGS_XMM_FLAGS) 1,
     entry (OPD_VEX 3 0b01 0x17) 1 ''VEXTRACTPS'' TYPE_INST ((GenFlagsSizes SIZE_32BIT SIZE_128BIT) OR FLAGS_MODRM OR FLAGS_VEX_L_0 OR FLAGS_SF_MOD_DST OR FLAGS_SF_DST_GPR OR FLAGS_XMM_FLAGS) 1,
     entry (OPD_VEX 3 0b01 0x18) 1 ''VINSERTF128'' TYPE_INST ((GenFlagsSameSize SIZE_256BIT) OR FLAGS_MODRM OR FLAGS_VEX_L_1 OR FLAGS_REX_W_0 OR FLAGS_VEX_1ST_SRC OR FLAGS_XMM_FLAGS) 1,
     entry (OPD_VEX 3 0b01 0x19) 1 ''VEXTRACTF128'' TYPE_INST ((GenFlagsSizes SIZE_128BIT SIZE_256BIT) OR FLAGS_MODRM OR FLAGS_VEX_L_1 OR FLAGS_REX_W_0 OR FLAGS_SF_MOD_DST OR FLAGS_XMM_FLAGS) 1,
     entry (OPD_VEX 3 0b01 0x1D) 1 ''VCVTPS2PH'' TYPE_INST ((GenFlagsSizes SIZE_64BIT SIZE_128BIT) OR FLAGS_MODRM OR FLAGS_REX_W_0 OR FLAGS_SF_MOD_DST OR FLAGS_XMM_FLAGS) 1,
     entry (OPD_VEX 3 0b01 0x20) 1 ''VPINSRB'' TYPE_INST ((GenFlagsDstSize SIZE_128BIT) OR FLAGS_MODRM OR FLAGS_VEX_L_0 OR FLAGS_VEX_1ST_SRC OR FLAGS_XMM_FLAGS OR FLAGS_SF_SRC_GPR) 1,
     entry (OPD_VEX 3 0b01 0x21) 1 ''VINSERTPS'' TYPE_INST ((GenFlagsSameSize SIZE_128BIT) OR FLAGS_MODRM OR FLAGS_VEX_L_0 OR FLAGS_VEX_1ST_SRC OR FLAGS_XMM_FLAGS) 1,
     entry (OPD_VEX 3 0b01 0x22) 1 ''VPINSR{D,Q}'' TYPE_INST ((GenFlagsSizes SIZE_128BIT SIZE_32BIT) OR FLAGS_MODRM OR FLAGS_VEX_L_0 OR FLAGS_VEX_1ST_SRC OR FLAGS_XMM_FLAGS OR FLAGS_SF_SRC_GPR) 1,
     entry (OPD_VEX 3 0b01 0x38) 1 ''VINSERTI128'' TYPE_INST ((GenFlagsSameSize SIZE_256BIT) OR FLAGS_MODRM OR FLAGS_VEX_L_1 OR FLAGS_REX_W_0 OR FLAGS_VEX_1ST_SRC OR FLAGS_XMM_FLAGS) 1,
     entry (OPD_VEX 3 0b01 0x39) 1 ''VEXTRACTI128'' TYPE_INST ((GenFlagsSizes SIZE_128BIT SIZE_256BIT) OR FLAGS_MODRM OR FLAGS_VEX_L_1 OR FLAGS_REX_W_0 OR FLAGS_SF_MOD_DST OR FLAGS_XMM_FLAGS) 1,
     entry (OPD_VEX 3 0b01 0x40) 1 ''VDPPS'' TYPE_INST ((GenFlagsSameSize SIZE_128BIT) OR FLAGS_MODRM OR FLAGS_VEX_1ST_SRC OR FLAGS_XMM_FLAGS) 1,
     entry (OPD_VEX 3 0b01 0x41) 1 ''VDPPD'' TYPE_INST ((GenFlagsSameSize SIZE_128BIT) OR FLAGS_MODRM OR FLAGS_VEX_1ST_SRC OR FLAGS_XMM_FLAGS OR FLAGS_VEX_L_0) 1,
     entry (OPD_VEX 3 0b01 0x42) 1 ''VMPSADBW'' TYPE_INST ((GenFlagsSameSize SIZE_128BIT) OR FLAGS_MODRM OR FLAGS_VEX_1ST_SRC OR FLAGS_XMM_FLAGS) 1,
     entry (OPD_VEX 3 0b01 0x44) 1 ''VPCLMULQDQ'' TYPE_INST ((GenFlagsSameSize SIZE_128BIT) OR FLAGS_MODRM OR FLAGS_VEX_1ST_SRC OR FLAGS_XMM_FLAGS) 1,
     entry (OPD_VEX 3 0b01 0x46) 1 ''VPERM2I128'' TYPE_INST ((GenFlagsSameSize SIZE_256BIT) OR FLAGS_MODRM OR FLAGS_VEX_L_1 OR FLAGS_REX_W_0 OR FLAGS_VEX_1ST_SRC OR FLAGS_XMM_FLAGS) 1,
     entry (OPD_VEX 3 0b01 0x4A) 1 ''VBLENDVPS'' TYPE_INST ((GenFlagsSameSize SIZE_128BIT) OR FLAGS_MODRM OR FLAGS_REX_W_0 OR FLAGS_VEX_1ST_SRC OR FLAGS_XMM_FLAGS) 1,
     entry (OPD_VEX 3 0b01 0x4B) 1 ''VBLENDVPD'' TYPE_INST ((GenFlagsSameSize SIZE_128BIT) OR FLAGS_MODRM OR FLAGS_REX_W_0 OR FLAGS_VEX_1ST_SRC OR FLAGS_XMM_FLAGS) 1,
     entry (OPD_VEX 3 0b01 0x4C) 1 ''VPBLENDVB'' TYPE_INST ((GenFlagsSameSize SIZE_128BIT) OR FLAGS_MODRM OR FLAGS_REX_W_0 OR FLAGS_VEX_1ST_SRC OR FLAGS_XMM_FLAGS) 1,
     entry (OPD_VEX 3 0b01 0x5C) 1 ''VFMADDSUBPS'' TYPE_UNDEC FLAGS_NONE 0,
     entry (OPD_VEX 3 0b01 0x5D) 1 ''VFMADDSUBPD'' TYPE_UNDEC FLAGS_NONE 0,
     entry (OPD_VEX 3 0b01 0x5E) 1 ''VFMSUBADDPS'' TYPE_UNDEC FLAGS_NONE 0,
     entry (OPD_VEX 3 0b01 0x5F) 1 ''VFMSUBADDPD'' TYPE_UNDEC FLAGS_NONE 0,
     entry (OPD_VEX 3 0b01 0x60) 1 ''VPCMPESTRM'' TYPE_INST ((GenFlagsSizes SIZE_128BIT SIZE_32BIT) OR FLAGS_MODRM OR FLAGS_XMM_FLAGS OR FLAGS_VEX_L_0) 1,
     entry (OPD_VEX 3 0b01 0x61) 1 ''VPCMPESTRI'' TYPE_INST ((GenFlagsSizes SIZE_128BIT SIZE_32BIT) OR FLAGS_MODRM OR FLAGS_XMM_FLAGS OR FLAGS_VEX_L_0) 1,
     entry (OPD_VEX 3 0b01 0x62) 1 ''VPCMPISTRM'' TYPE_INST ((GenFlagsSameSize SIZE_128BIT) OR FLAGS_MODRM OR FLAGS_XMM_FLAGS OR FLAGS_VEX_L_0) 1,
     entry (OPD_VEX 3 0b01 0x63) 1 ''VPCMPISTRI'' TYPE_INST ((GenFlagsSameSize SIZE_128BIT) OR FLAGS_MODRM OR FLAGS_XMM_FLAGS OR FLAGS_VEX_L_0) 1,
     entry (OPD_VEX 3 0b01 0x68) 1 ''VFMADDPS'' TYPE_UNDEC FLAGS_NONE 0,
     entry (OPD_VEX 3 0b01 0x69) 1 ''VFMADDPD'' TYPE_UNDEC FLAGS_NONE 0,
     entry (OPD_VEX 3 0b01 0x6A) 1 ''VFMADDSS'' TYPE_UNDEC FLAGS_NONE 0,
     entry (OPD_VEX 3 0b01 0x6B) 1 ''VFMADDSD'' TYPE_UNDEC FLAGS_NONE 0,
     entry (OPD_VEX 3 0b01 0x6C) 1 ''VFMSUBPS'' TYPE_UNDEC FLAGS_NONE 0,
     entry (OPD_VEX 3 0b01 0x6D) 1 ''VFMSUBPD'' TYPE_UNDEC FLAGS_NONE 0]"

definition VEXTable_4 :: "X86TablesInfoStruct list" where
  "VEXTable_4 =
    [entry (OPD_VEX 3 0b01 0x6E) 1 ''VFMSUBSS'' TYPE_UNDEC FLAGS_NONE 0,
     entry (OPD_VEX 3 0b01 0x6F) 1 ''VFMSUBSD'' TYPE_UNDEC FLAGS_NONE 0,
     entry (OPD_VEX 3 0b01 0x78) 1 ''VFNMADDPS'' TYPE_UNDEC FLAGS_NONE 0,
     entry (OPD_VEX 3 0b01 0x79) 1 ''VFNMADDPD'' TYPE_UNDEC FLAGS_NONE 0,
     entry (OPD_VEX 3 0b01 0x7A) 1 ''VFNMADDSS'' TYPE_UNDEC FLAGS_NONE 0,
     entry (OPD_VEX 3 0b01 0x7B) 1 ''VFNMADDSD'' TYPE_UNDEC FLAGS_NONE 0,
     entry (OPD_VEX 3 0b01 0x7C) 1 ''VFNMSUBPS'' TYPE_UNDEC FLAGS_NONE 0,
     entry (OPD_VEX 3 0b01 0x7D) 1 ''VFNMSUBPD'' TYPE_UNDEC FLAGS_NONE 0,
     entry (OPD_VEX 3 0b01 0x7E) 1 ''VFNMSUBSS'' TYPE_UNDEC FLAGS_NONE 0,
     entry (OPD_VEX 3 0b01 0x7F) 1 ''VFNMSUBSD'' TYPE_UNDEC FLAGS_NONE 0,
     entry (OPD_VEX 3 0b01 0xDF) 1 ''VAESKEYGENASSIST'' TYPE_INST ((GenFlagsSameSize SIZE_128BIT) OR FLAGS_MODRM OR FLAGS_VEX_L_0 OR FLAGS_XMM_FLAGS) 1,
     entry (OPD_VEX 3 0b11 0xF0) 1 ''RORX'' TYPE_INST (FLAGS_MODRM OR FLAGS_VEX_L_0) 1]"

definition VEXTable :: "X86TablesInfoStruct list" where
  "VEXTable = VEXTable_1 @ VEXTable_2 @ VEXTable_3 @ VEXTable_4"

definition OpDispatch_VEXTable :: "DispatchTableEntry list" where
  "OpDispatch_VEXTable =
    [dispatch (OPD_VEX 2 0b00 0xF2) 1 (Handler ''ANDNBMIOp''),
     dispatch (OPD_VEX 2 0b00 0xF5) 1 (Handler ''BZHI''),
     dispatch (OPD_VEX 2 0b10 0xF5) 1 (Handler ''PEXT''),
     dispatch (OPD_VEX 2 0b11 0xF5) 1 (Handler ''PDEP''),
     dispatch (OPD_VEX 2 0b11 0xF6) 1 (Handler ''MULX''),
     dispatch (OPD_VEX 2 0b00 0xF7) 1 (Handler ''BEXTRBMIOp''),
     dispatch (OPD_VEX 2 0b01 0xF7) 1 (Handler ''BMI2Shift''),
     dispatch (OPD_VEX 2 0b10 0xF7) 1 (Handler ''BMI2Shift''),
     dispatch (OPD_VEX 2 0b11 0xF7) 1 (Handler ''BMI2Shift''),
     dispatch (OPD_VEX 3 0b11 0xF0) 1 (Handler ''RORX'')]"

definition AVX128_BaseTable_1 :: "DispatchTableEntry list" where
  "AVX128_BaseTable_1 =
    [dispatch (OPD_VEX 1 0b00 0x10) 1 (Handler ''AVX128_VMOVAPS''),
     dispatch (OPD_VEX 1 0b01 0x10) 1 (Handler ''AVX128_VMOVAPS''),
     dispatch (OPD_VEX 1 0b10 0x10) 1 (Handler ''AVX128_VMOVSS''),
     dispatch (OPD_VEX 1 0b11 0x10) 1 (Handler ''AVX128_VMOVSD''),
     dispatch (OPD_VEX 1 0b00 0x11) 1 (Handler ''AVX128_VMOVAPS''),
     dispatch (OPD_VEX 1 0b01 0x11) 1 (Handler ''AVX128_VMOVAPS''),
     dispatch (OPD_VEX 1 0b10 0x11) 1 (Handler ''AVX128_VMOVSS''),
     dispatch (OPD_VEX 1 0b11 0x11) 1 (Handler ''AVX128_VMOVSD''),
     dispatch (OPD_VEX 1 0b00 0x12) 1 (Handler ''AVX128_VMOVLP''),
     dispatch (OPD_VEX 1 0b01 0x12) 1 (Handler ''AVX128_VMOVLP''),
     dispatch (OPD_VEX 1 0b10 0x12) 1 (Handler ''AVX128_VMOVSLDUP''),
     dispatch (OPD_VEX 1 0b11 0x12) 1 (Handler ''AVX128_VMOVDDUP''),
     dispatch (OPD_VEX 1 0b00 0x13) 1 (Handler ''AVX128_VMOVLP''),
     dispatch (OPD_VEX 1 0b01 0x13) 1 (Handler ''AVX128_VMOVLP''),
     dispatch (OPD_VEX 1 0b00 0x14) 1 (Bind ''AVX128_VPUNPCKL'' [''i32Bit'']),
     dispatch (OPD_VEX 1 0b01 0x14) 1 (Bind ''AVX128_VPUNPCKL'' [''i64Bit'']),
     dispatch (OPD_VEX 1 0b00 0x15) 1 (Bind ''AVX128_VPUNPCKH'' [''i32Bit'']),
     dispatch (OPD_VEX 1 0b01 0x15) 1 (Bind ''AVX128_VPUNPCKH'' [''i64Bit'']),
     dispatch (OPD_VEX 1 0b00 0x16) 1 (Handler ''AVX128_VMOVHP''),
     dispatch (OPD_VEX 1 0b01 0x16) 1 (Handler ''AVX128_VMOVHP''),
     dispatch (OPD_VEX 1 0b10 0x16) 1 (Handler ''AVX128_VMOVSHDUP''),
     dispatch (OPD_VEX 1 0b00 0x17) 1 (Handler ''AVX128_VMOVHP''),
     dispatch (OPD_VEX 1 0b01 0x17) 1 (Handler ''AVX128_VMOVHP''),
     dispatch (OPD_VEX 1 0b00 0x28) 1 (Handler ''AVX128_VMOVAPS''),
     dispatch (OPD_VEX 1 0b01 0x28) 1 (Handler ''AVX128_VMOVAPS''),
     dispatch (OPD_VEX 1 0b00 0x29) 1 (Handler ''AVX128_VMOVAPS''),
     dispatch (OPD_VEX 1 0b01 0x29) 1 (Handler ''AVX128_VMOVAPS''),
     dispatch (OPD_VEX 1 0b10 0x2A) 1 (Bind ''AVX128_InsertCVTGPR_To_FPR'' [''i32Bit'']),
     dispatch (OPD_VEX 1 0b11 0x2A) 1 (Bind ''AVX128_InsertCVTGPR_To_FPR'' [''i64Bit'']),
     dispatch (OPD_VEX 1 0b00 0x2B) 1 (Handler ''AVX128_MOVVectorNT''),
     dispatch (OPD_VEX 1 0b01 0x2B) 1 (Handler ''AVX128_MOVVectorNT''),
     dispatch (OPD_VEX 1 0b10 0x2C) 1 (Bind ''AVX128_CVTFPR_To_GPR'' [''i32Bit'', ''false'']),
     dispatch (OPD_VEX 1 0b11 0x2C) 1 (Bind ''AVX128_CVTFPR_To_GPR'' [''i64Bit'', ''false'']),
     dispatch (OPD_VEX 1 0b10 0x2D) 1 (Bind ''AVX128_CVTFPR_To_GPR'' [''i32Bit'', ''true'']),
     dispatch (OPD_VEX 1 0b11 0x2D) 1 (Bind ''AVX128_CVTFPR_To_GPR'' [''i64Bit'', ''true'']),
     dispatch (OPD_VEX 1 0b00 0x2E) 1 (Bind ''AVX128_UCOMISx'' [''i32Bit'']),
     dispatch (OPD_VEX 1 0b01 0x2E) 1 (Bind ''AVX128_UCOMISx'' [''i64Bit'']),
     dispatch (OPD_VEX 1 0b00 0x2F) 1 (Bind ''AVX128_UCOMISx'' [''i32Bit'']),
     dispatch (OPD_VEX 1 0b01 0x2F) 1 (Bind ''AVX128_UCOMISx'' [''i64Bit'']),
     dispatch (OPD_VEX 1 0b00 0x50) 1 (Bind ''AVX128_MOVMSK'' [''i32Bit'']),
     dispatch (OPD_VEX 1 0b01 0x50) 1 (Bind ''AVX128_MOVMSK'' [''i64Bit'']),
     dispatch (OPD_VEX 1 0b00 0x51) 1 (Bind ''AVX128_VectorUnary'' [''OP_VFSQRT'', ''i32Bit'']),
     dispatch (OPD_VEX 1 0b01 0x51) 1 (Bind ''AVX128_VectorUnary'' [''OP_VFSQRT'', ''i64Bit'']),
     dispatch (OPD_VEX 1 0b10 0x51) 1 (Bind ''AVX128_VectorScalarInsertALU'' [''OP_VFSQRTSCALARINSERT'', ''i32Bit'']),
     dispatch (OPD_VEX 1 0b11 0x51) 1 (Bind ''AVX128_VectorScalarInsertALU'' [''OP_VFSQRTSCALARINSERT'', ''i64Bit'']),
     dispatch (OPD_VEX 1 0b00 0x52) 1 (Bind ''AVX128_VectorUnary'' [''OP_VFRSQRT'', ''i32Bit'']),
     dispatch (OPD_VEX 1 0b10 0x52) 1 (Bind ''AVX128_VectorScalarInsertALU'' [''OP_VFRSQRTSCALARINSERT'', ''i32Bit'']),
     dispatch (OPD_VEX 1 0b00 0x53) 1 (Bind ''AVX128_VectorUnary'' [''OP_VFRECP'', ''i32Bit'']),
     dispatch (OPD_VEX 1 0b10 0x53) 1 (Bind ''AVX128_VectorScalarInsertALU'' [''OP_VFRECPSCALARINSERT'', ''i32Bit'']),
     dispatch (OPD_VEX 1 0b00 0x54) 1 (Bind ''AVX128_VectorALU'' [''OP_VAND'', ''i128Bit'']),
     dispatch (OPD_VEX 1 0b01 0x54) 1 (Bind ''AVX128_VectorALU'' [''OP_VAND'', ''i128Bit'']),
     dispatch (OPD_VEX 1 0b00 0x55) 1 (Handler ''AVX128_VANDN''),
     dispatch (OPD_VEX 1 0b01 0x55) 1 (Handler ''AVX128_VANDN''),
     dispatch (OPD_VEX 1 0b00 0x56) 1 (Bind ''AVX128_VectorALU'' [''OP_VOR'', ''i128Bit'']),
     dispatch (OPD_VEX 1 0b01 0x56) 1 (Bind ''AVX128_VectorALU'' [''OP_VOR'', ''i128Bit'']),
     dispatch (OPD_VEX 1 0b00 0x57) 1 (Handler ''AVX128_VectorXOR''),
     dispatch (OPD_VEX 1 0b01 0x57) 1 (Handler ''AVX128_VectorXOR''),
     dispatch (OPD_VEX 1 0b00 0x58) 1 (Bind ''AVX128_VectorALU'' [''OP_VFADD'', ''i32Bit'']),
     dispatch (OPD_VEX 1 0b01 0x58) 1 (Bind ''AVX128_VectorALU'' [''OP_VFADD'', ''i64Bit'']),
     dispatch (OPD_VEX 1 0b10 0x58) 1 (Bind ''AVX128_VectorScalarInsertALU'' [''OP_VFADDSCALARINSERT'', ''i32Bit'']),
     dispatch (OPD_VEX 1 0b11 0x58) 1 (Bind ''AVX128_VectorScalarInsertALU'' [''OP_VFADDSCALARINSERT'', ''i64Bit'']),
     dispatch (OPD_VEX 1 0b00 0x59) 1 (Bind ''AVX128_VectorALU'' [''OP_VFMUL'', ''i32Bit'']),
     dispatch (OPD_VEX 1 0b01 0x59) 1 (Bind ''AVX128_VectorALU'' [''OP_VFMUL'', ''i64Bit'']),
     dispatch (OPD_VEX 1 0b10 0x59) 1 (Bind ''AVX128_VectorScalarInsertALU'' [''OP_VFMULSCALARINSERT'', ''i32Bit'']),
     dispatch (OPD_VEX 1 0b11 0x59) 1 (Bind ''AVX128_VectorScalarInsertALU'' [''OP_VFMULSCALARINSERT'', ''i64Bit'']),
     dispatch (OPD_VEX 1 0b00 0x5A) 1 (Bind ''AVX128_Vector_CVT_Float_To_Float'' [''i64Bit'', ''i32Bit'']),
     dispatch (OPD_VEX 1 0b01 0x5A) 1 (Bind ''AVX128_Vector_CVT_Float_To_Float'' [''i32Bit'', ''i64Bit'']),
     dispatch (OPD_VEX 1 0b10 0x5A) 1 (Bind ''AVX128_InsertScalar_CVT_Float_To_Float'' [''i64Bit'', ''i32Bit'']),
     dispatch (OPD_VEX 1 0b11 0x5A) 1 (Bind ''AVX128_InsertScalar_CVT_Float_To_Float'' [''i32Bit'', ''i64Bit'']),
     dispatch (OPD_VEX 1 0b00 0x5B) 1 (Bind ''AVX128_Vector_CVT_Int_To_Float'' [''i32Bit'', ''false'']),
     dispatch (OPD_VEX 1 0b01 0x5B) 1 (Bind ''AVX128_Vector_CVT_Float_To_Int'' [''i32Bit'', ''true'']),
     dispatch (OPD_VEX 1 0b10 0x5B) 1 (Bind ''AVX128_Vector_CVT_Float_To_Int'' [''i32Bit'', ''false'']),
     dispatch (OPD_VEX 1 0b00 0x5C) 1 (Bind ''AVX128_VectorALU'' [''OP_VFSUB'', ''i32Bit'']),
     dispatch (OPD_VEX 1 0b01 0x5C) 1 (Bind ''AVX128_VectorALU'' [''OP_VFSUB'', ''i64Bit'']),
     dispatch (OPD_VEX 1 0b10 0x5C) 1 (Bind ''AVX128_VectorScalarInsertALU'' [''OP_VFSUBSCALARINSERT'', ''i32Bit'']),
     dispatch (OPD_VEX 1 0b11 0x5C) 1 (Bind ''AVX128_VectorScalarInsertALU'' [''OP_VFSUBSCALARINSERT'', ''i64Bit'']),
     dispatch (OPD_VEX 1 0b00 0x5D) 1 (Bind ''AVX128_VectorALU'' [''OP_VFMIN'', ''i32Bit'']),
     dispatch (OPD_VEX 1 0b01 0x5D) 1 (Bind ''AVX128_VectorALU'' [''OP_VFMIN'', ''i64Bit'']),
     dispatch (OPD_VEX 1 0b10 0x5D) 1 (Bind ''AVX128_VectorScalarInsertALU'' [''OP_VFMINSCALARINSERT'', ''i32Bit'']),
     dispatch (OPD_VEX 1 0b11 0x5D) 1 (Bind ''AVX128_VectorScalarInsertALU'' [''OP_VFMINSCALARINSERT'', ''i64Bit'']),
     dispatch (OPD_VEX 1 0b00 0x5E) 1 (Bind ''AVX128_VectorALU'' [''OP_VFDIV'', ''i32Bit'']),
     dispatch (OPD_VEX 1 0b01 0x5E) 1 (Bind ''AVX128_VectorALU'' [''OP_VFDIV'', ''i64Bit'']),
     dispatch (OPD_VEX 1 0b10 0x5E) 1 (Bind ''AVX128_VectorScalarInsertALU'' [''OP_VFDIVSCALARINSERT'', ''i32Bit'']),
     dispatch (OPD_VEX 1 0b11 0x5E) 1 (Bind ''AVX128_VectorScalarInsertALU'' [''OP_VFDIVSCALARINSERT'', ''i64Bit'']),
     dispatch (OPD_VEX 1 0b00 0x5F) 1 (Bind ''AVX128_VectorALU'' [''OP_VFMAX'', ''i32Bit'']),
     dispatch (OPD_VEX 1 0b01 0x5F) 1 (Bind ''AVX128_VectorALU'' [''OP_VFMAX'', ''i64Bit'']),
     dispatch (OPD_VEX 1 0b10 0x5F) 1 (Bind ''AVX128_VectorScalarInsertALU'' [''OP_VFMAXSCALARINSERT'', ''i32Bit'']),
     dispatch (OPD_VEX 1 0b11 0x5F) 1 (Bind ''AVX128_VectorScalarInsertALU'' [''OP_VFMAXSCALARINSERT'', ''i64Bit'']),
     dispatch (OPD_VEX 1 0b01 0x60) 1 (Bind ''AVX128_VPUNPCKL'' [''i8Bit'']),
     dispatch (OPD_VEX 1 0b01 0x61) 1 (Bind ''AVX128_VPUNPCKL'' [''i16Bit'']),
     dispatch (OPD_VEX 1 0b01 0x62) 1 (Bind ''AVX128_VPUNPCKL'' [''i32Bit'']),
     dispatch (OPD_VEX 1 0b01 0x63) 1 (Bind ''AVX128_VPACKSS'' [''i16Bit'']),
     dispatch (OPD_VEX 1 0b01 0x64) 1 (Bind ''AVX128_VectorALU'' [''OP_VCMPGT'', ''i8Bit'']),
     dispatch (OPD_VEX 1 0b01 0x65) 1 (Bind ''AVX128_VectorALU'' [''OP_VCMPGT'', ''i16Bit'']),
     dispatch (OPD_VEX 1 0b01 0x66) 1 (Bind ''AVX128_VectorALU'' [''OP_VCMPGT'', ''i32Bit'']),
     dispatch (OPD_VEX 1 0b01 0x67) 1 (Bind ''AVX128_VPACKUS'' [''i16Bit'']),
     dispatch (OPD_VEX 1 0b01 0x68) 1 (Bind ''AVX128_VPUNPCKH'' [''i8Bit'']),
     dispatch (OPD_VEX 1 0b01 0x69) 1 (Bind ''AVX128_VPUNPCKH'' [''i16Bit'']),
     dispatch (OPD_VEX 1 0b01 0x6A) 1 (Bind ''AVX128_VPUNPCKH'' [''i32Bit'']),
     dispatch (OPD_VEX 1 0b01 0x6B) 1 (Bind ''AVX128_VPACKSS'' [''i32Bit'']),
     dispatch (OPD_VEX 1 0b01 0x6C) 1 (Bind ''AVX128_VPUNPCKL'' [''i64Bit'']),
     dispatch (OPD_VEX 1 0b01 0x6D) 1 (Bind ''AVX128_VPUNPCKH'' [''i64Bit'']),
     dispatch (OPD_VEX 1 0b01 0x6E) 1 (Handler ''AVX128_MOVBetweenGPR_FPR''),
     dispatch (OPD_VEX 1 0b01 0x6F) 1 (Handler ''AVX128_VMOVAPS''),
     dispatch (OPD_VEX 1 0b10 0x6F) 1 (Handler ''AVX128_VMOVAPS''),
     dispatch (OPD_VEX 1 0b01 0x70) 1 (Bind ''AVX128_VPERMILImm'' [''i32Bit'']),
     dispatch (OPD_VEX 1 0b10 0x70) 1 (Bind ''AVX128_VPSHUFW'' [''false'']),
     dispatch (OPD_VEX 1 0b11 0x70) 1 (Bind ''AVX128_VPSHUFW'' [''true'']),
     dispatch (OPD_VEX 1 0b01 0x74) 1 (Bind ''AVX128_VectorALU'' [''OP_VCMPEQ'', ''i8Bit'']),
     dispatch (OPD_VEX 1 0b01 0x75) 1 (Bind ''AVX128_VectorALU'' [''OP_VCMPEQ'', ''i16Bit'']),
     dispatch (OPD_VEX 1 0b01 0x76) 1 (Bind ''AVX128_VectorALU'' [''OP_VCMPEQ'', ''i32Bit'']),
     dispatch (OPD_VEX 1 0b00 0x77) 1 (Handler ''AVX128_VZERO''),
     dispatch (OPD_VEX 1 0b01 0x7C) 1 (Bind ''AVX128_VHADDP'' [''OP_VFADDP'', ''i64Bit'']),
     dispatch (OPD_VEX 1 0b11 0x7C) 1 (Bind ''AVX128_VHADDP'' [''OP_VFADDP'', ''i32Bit'']),
     dispatch (OPD_VEX 1 0b01 0x7D) 1 (Bind ''AVX128_VHSUBP'' [''i64Bit'']),
     dispatch (OPD_VEX 1 0b11 0x7D) 1 (Bind ''AVX128_VHSUBP'' [''i32Bit'']),
     dispatch (OPD_VEX 1 0b01 0x7E) 1 (Handler ''AVX128_MOVBetweenGPR_FPR'')]"

definition AVX128_BaseTable_2 :: "DispatchTableEntry list" where
  "AVX128_BaseTable_2 =
    [dispatch (OPD_VEX 1 0b10 0x7E) 1 (Handler ''AVX128_MOVQ''),
     dispatch (OPD_VEX 1 0b01 0x7F) 1 (Handler ''AVX128_VMOVAPS''),
     dispatch (OPD_VEX 1 0b10 0x7F) 1 (Handler ''AVX128_VMOVAPS''),
     dispatch (OPD_VEX 1 0b00 0xC2) 1 (Bind ''AVX128_VFCMP'' [''i32Bit'']),
     dispatch (OPD_VEX 1 0b01 0xC2) 1 (Bind ''AVX128_VFCMP'' [''i64Bit'']),
     dispatch (OPD_VEX 1 0b10 0xC2) 1 (Bind ''AVX128_InsertScalarFCMP'' [''i32Bit'']),
     dispatch (OPD_VEX 1 0b11 0xC2) 1 (Bind ''AVX128_InsertScalarFCMP'' [''i64Bit'']),
     dispatch (OPD_VEX 1 0b01 0xC4) 1 (Handler ''AVX128_VPINSRW''),
     dispatch (OPD_VEX 1 0b01 0xC5) 1 (Bind ''AVX128_PExtr'' [''i16Bit'']),
     dispatch (OPD_VEX 1 0b00 0xC6) 1 (Bind ''AVX128_VSHUF'' [''i32Bit'']),
     dispatch (OPD_VEX 1 0b01 0xC6) 1 (Bind ''AVX128_VSHUF'' [''i64Bit'']),
     dispatch (OPD_VEX 1 0b01 0xD0) 1 (Bind ''AVX128_VADDSUBP'' [''i64Bit'']),
     dispatch (OPD_VEX 1 0b11 0xD0) 1 (Bind ''AVX128_VADDSUBP'' [''i32Bit'']),
     dispatch (OPD_VEX 1 0b01 0xD1) 1 (Bind ''AVX128_VectorShiftWideImpl'' [''i16Bit'', ''OP_VUSHRSWIDE'']),
     dispatch (OPD_VEX 1 0b01 0xD2) 1 (Bind ''AVX128_VectorShiftWideImpl'' [''i32Bit'', ''OP_VUSHRSWIDE'']),
     dispatch (OPD_VEX 1 0b01 0xD3) 1 (Bind ''AVX128_VectorShiftWideImpl'' [''i64Bit'', ''OP_VUSHRSWIDE'']),
     dispatch (OPD_VEX 1 0b01 0xD4) 1 (Bind ''AVX128_VectorALU'' [''OP_VADD'', ''i64Bit'']),
     dispatch (OPD_VEX 1 0b01 0xD5) 1 (Bind ''AVX128_VectorALU'' [''OP_VMUL'', ''i16Bit'']),
     dispatch (OPD_VEX 1 0b01 0xD6) 1 (Handler ''AVX128_MOVQ''),
     dispatch (OPD_VEX 1 0b01 0xD7) 1 (Handler ''AVX128_MOVMSKB''),
     dispatch (OPD_VEX 1 0b01 0xD8) 1 (Bind ''AVX128_VectorALU'' [''OP_VUQSUB'', ''i8Bit'']),
     dispatch (OPD_VEX 1 0b01 0xD9) 1 (Bind ''AVX128_VectorALU'' [''OP_VUQSUB'', ''i16Bit'']),
     dispatch (OPD_VEX 1 0b01 0xDA) 1 (Bind ''AVX128_VectorALU'' [''OP_VUMIN'', ''i8Bit'']),
     dispatch (OPD_VEX 1 0b01 0xDB) 1 (Bind ''AVX128_VectorALU'' [''OP_VAND'', ''i128Bit'']),
     dispatch (OPD_VEX 1 0b01 0xDC) 1 (Bind ''AVX128_VectorALU'' [''OP_VUQADD'', ''i8Bit'']),
     dispatch (OPD_VEX 1 0b01 0xDD) 1 (Bind ''AVX128_VectorALU'' [''OP_VUQADD'', ''i16Bit'']),
     dispatch (OPD_VEX 1 0b01 0xDE) 1 (Bind ''AVX128_VectorALU'' [''OP_VUMAX'', ''i8Bit'']),
     dispatch (OPD_VEX 1 0b01 0xDF) 1 (Handler ''AVX128_VANDN''),
     dispatch (OPD_VEX 1 0b01 0xE0) 1 (Bind ''AVX128_VectorALU'' [''OP_VURAVG'', ''i8Bit'']),
     dispatch (OPD_VEX 1 0b01 0xE1) 1 (Bind ''AVX128_VectorShiftWideImpl'' [''i16Bit'', ''OP_VSSHRSWIDE'']),
     dispatch (OPD_VEX 1 0b01 0xE2) 1 (Bind ''AVX128_VectorShiftWideImpl'' [''i32Bit'', ''OP_VSSHRSWIDE'']),
     dispatch (OPD_VEX 1 0b01 0xE3) 1 (Bind ''AVX128_VectorALU'' [''OP_VURAVG'', ''i16Bit'']),
     dispatch (OPD_VEX 1 0b01 0xE4) 1 (Bind ''AVX128_VPMULHW'' [''false'']),
     dispatch (OPD_VEX 1 0b01 0xE5) 1 (Bind ''AVX128_VPMULHW'' [''true'']),
     dispatch (OPD_VEX 1 0b01 0xE6) 1 (Bind ''AVX128_Vector_CVT_Float_To_Int'' [''i64Bit'', ''false'']),
     dispatch (OPD_VEX 1 0b10 0xE6) 1 (Bind ''AVX128_Vector_CVT_Int_To_Float'' [''i32Bit'', ''true'']),
     dispatch (OPD_VEX 1 0b11 0xE6) 1 (Bind ''AVX128_Vector_CVT_Float_To_Int'' [''i64Bit'', ''true'']),
     dispatch (OPD_VEX 1 0b01 0xE7) 1 (Handler ''AVX128_MOVVectorNT''),
     dispatch (OPD_VEX 1 0b01 0xE8) 1 (Bind ''AVX128_VectorALU'' [''OP_VSQSUB'', ''i8Bit'']),
     dispatch (OPD_VEX 1 0b01 0xE9) 1 (Bind ''AVX128_VectorALU'' [''OP_VSQSUB'', ''i16Bit'']),
     dispatch (OPD_VEX 1 0b01 0xEA) 1 (Bind ''AVX128_VectorALU'' [''OP_VSMIN'', ''i16Bit'']),
     dispatch (OPD_VEX 1 0b01 0xEB) 1 (Bind ''AVX128_VectorALU'' [''OP_VOR'', ''i128Bit'']),
     dispatch (OPD_VEX 1 0b01 0xEC) 1 (Bind ''AVX128_VectorALU'' [''OP_VSQADD'', ''i8Bit'']),
     dispatch (OPD_VEX 1 0b01 0xED) 1 (Bind ''AVX128_VectorALU'' [''OP_VSQADD'', ''i16Bit'']),
     dispatch (OPD_VEX 1 0b01 0xEE) 1 (Bind ''AVX128_VectorALU'' [''OP_VSMAX'', ''i16Bit'']),
     dispatch (OPD_VEX 1 0b01 0xEF) 1 (Handler ''AVX128_VectorXOR''),
     dispatch (OPD_VEX 1 0b11 0xF0) 1 (Handler ''AVX128_MOVVectorUnaligned''),
     dispatch (OPD_VEX 1 0b01 0xF1) 1 (Bind ''AVX128_VectorShiftWideImpl'' [''i16Bit'', ''OP_VUSHLSWIDE'']),
     dispatch (OPD_VEX 1 0b01 0xF2) 1 (Bind ''AVX128_VectorShiftWideImpl'' [''i32Bit'', ''OP_VUSHLSWIDE'']),
     dispatch (OPD_VEX 1 0b01 0xF3) 1 (Bind ''AVX128_VectorShiftWideImpl'' [''i64Bit'', ''OP_VUSHLSWIDE'']),
     dispatch (OPD_VEX 1 0b01 0xF4) 1 (Bind ''AVX128_VPMULL'' [''i32Bit'', ''false'']),
     dispatch (OPD_VEX 1 0b01 0xF5) 1 (Handler ''AVX128_VPMADDWD''),
     dispatch (OPD_VEX 1 0b01 0xF6) 1 (Handler ''AVX128_VPSADBW''),
     dispatch (OPD_VEX 1 0b01 0xF7) 1 (Handler ''AVX128_MASKMOV''),
     dispatch (OPD_VEX 1 0b01 0xF8) 1 (Bind ''AVX128_VectorALU'' [''OP_VSUB'', ''i8Bit'']),
     dispatch (OPD_VEX 1 0b01 0xF9) 1 (Bind ''AVX128_VectorALU'' [''OP_VSUB'', ''i16Bit'']),
     dispatch (OPD_VEX 1 0b01 0xFA) 1 (Bind ''AVX128_VectorALU'' [''OP_VSUB'', ''i32Bit'']),
     dispatch (OPD_VEX 1 0b01 0xFB) 1 (Bind ''AVX128_VectorALU'' [''OP_VSUB'', ''i64Bit'']),
     dispatch (OPD_VEX 1 0b01 0xFC) 1 (Bind ''AVX128_VectorALU'' [''OP_VADD'', ''i8Bit'']),
     dispatch (OPD_VEX 1 0b01 0xFD) 1 (Bind ''AVX128_VectorALU'' [''OP_VADD'', ''i16Bit'']),
     dispatch (OPD_VEX 1 0b01 0xFE) 1 (Bind ''AVX128_VectorALU'' [''OP_VADD'', ''i32Bit'']),
     dispatch (OPD_VEX 2 0b01 0x00) 1 (Handler ''AVX128_VPSHUFB''),
     dispatch (OPD_VEX 2 0b01 0x01) 1 (Bind ''AVX128_VHADDP'' [''OP_VADDP'', ''i16Bit'']),
     dispatch (OPD_VEX 2 0b01 0x02) 1 (Bind ''AVX128_VHADDP'' [''OP_VADDP'', ''i32Bit'']),
     dispatch (OPD_VEX 2 0b01 0x03) 1 (Handler ''AVX128_VPHADDSW''),
     dispatch (OPD_VEX 2 0b01 0x04) 1 (Handler ''AVX128_VPMADDUBSW''),
     dispatch (OPD_VEX 2 0b01 0x05) 1 (Bind ''AVX128_VPHSUB'' [''i16Bit'']),
     dispatch (OPD_VEX 2 0b01 0x06) 1 (Bind ''AVX128_VPHSUB'' [''i32Bit'']),
     dispatch (OPD_VEX 2 0b01 0x07) 1 (Handler ''AVX128_VPHSUBSW''),
     dispatch (OPD_VEX 2 0b01 0x08) 1 (Bind ''AVX128_VPSIGN'' [''i8Bit'']),
     dispatch (OPD_VEX 2 0b01 0x09) 1 (Bind ''AVX128_VPSIGN'' [''i16Bit'']),
     dispatch (OPD_VEX 2 0b01 0x0A) 1 (Bind ''AVX128_VPSIGN'' [''i32Bit'']),
     dispatch (OPD_VEX 2 0b01 0x0B) 1 (Handler ''AVX128_VPMULHRSW''),
     dispatch (OPD_VEX 2 0b01 0x0C) 1 (Bind ''AVX128_VPERMILReg'' [''i32Bit'']),
     dispatch (OPD_VEX 2 0b01 0x0D) 1 (Bind ''AVX128_VPERMILReg'' [''i64Bit'']),
     dispatch (OPD_VEX 2 0b01 0x0E) 1 (Bind ''AVX128_VTESTP'' [''i32Bit'']),
     dispatch (OPD_VEX 2 0b01 0x0F) 1 (Bind ''AVX128_VTESTP'' [''i64Bit'']),
     dispatch (OPD_VEX 2 0b01 0x13) 1 (Handler ''AVX128_VCVTPH2PS''),
     dispatch (OPD_VEX 2 0b01 0x16) 1 (Handler ''AVX128_VPERMD''),
     dispatch (OPD_VEX 2 0b01 0x17) 1 (Handler ''AVX128_PTest''),
     dispatch (OPD_VEX 2 0b01 0x18) 1 (Bind ''AVX128_VBROADCAST'' [''i32Bit'']),
     dispatch (OPD_VEX 2 0b01 0x19) 1 (Bind ''AVX128_VBROADCAST'' [''i64Bit'']),
     dispatch (OPD_VEX 2 0b01 0x1A) 1 (Bind ''AVX128_VBROADCAST'' [''i128Bit'']),
     dispatch (OPD_VEX 2 0b01 0x1C) 1 (Bind ''AVX128_VectorUnary'' [''OP_VABS'', ''i8Bit'']),
     dispatch (OPD_VEX 2 0b01 0x1D) 1 (Bind ''AVX128_VectorUnary'' [''OP_VABS'', ''i16Bit'']),
     dispatch (OPD_VEX 2 0b01 0x1E) 1 (Bind ''AVX128_VectorUnary'' [''OP_VABS'', ''i32Bit'']),
     dispatch (OPD_VEX 2 0b01 0x20) 1 (Bind ''AVX128_ExtendVectorElements'' [''i8Bit'', ''i16Bit'', ''true'']),
     dispatch (OPD_VEX 2 0b01 0x21) 1 (Bind ''AVX128_ExtendVectorElements'' [''i8Bit'', ''i32Bit'', ''true'']),
     dispatch (OPD_VEX 2 0b01 0x22) 1 (Bind ''AVX128_ExtendVectorElements'' [''i8Bit'', ''i64Bit'', ''true'']),
     dispatch (OPD_VEX 2 0b01 0x23) 1 (Bind ''AVX128_ExtendVectorElements'' [''i16Bit'', ''i32Bit'', ''true'']),
     dispatch (OPD_VEX 2 0b01 0x24) 1 (Bind ''AVX128_ExtendVectorElements'' [''i16Bit'', ''i64Bit'', ''true'']),
     dispatch (OPD_VEX 2 0b01 0x25) 1 (Bind ''AVX128_ExtendVectorElements'' [''i32Bit'', ''i64Bit'', ''true'']),
     dispatch (OPD_VEX 2 0b01 0x28) 1 (Bind ''AVX128_VPMULL'' [''i32Bit'', ''true'']),
     dispatch (OPD_VEX 2 0b01 0x29) 1 (Bind ''AVX128_VectorALU'' [''OP_VCMPEQ'', ''i64Bit'']),
     dispatch (OPD_VEX 2 0b01 0x2A) 1 (Handler ''AVX128_MOVVectorNT''),
     dispatch (OPD_VEX 2 0b01 0x2B) 1 (Bind ''AVX128_VPACKUS'' [''i32Bit'']),
     dispatch (OPD_VEX 2 0b01 0x2C) 1 (Bind ''AVX128_VMASKMOV'' [''i32Bit'', ''false'']),
     dispatch (OPD_VEX 2 0b01 0x2D) 1 (Bind ''AVX128_VMASKMOV'' [''i64Bit'', ''false'']),
     dispatch (OPD_VEX 2 0b01 0x2E) 1 (Bind ''AVX128_VMASKMOV'' [''i32Bit'', ''true'']),
     dispatch (OPD_VEX 2 0b01 0x2F) 1 (Bind ''AVX128_VMASKMOV'' [''i64Bit'', ''true'']),
     dispatch (OPD_VEX 2 0b01 0x30) 1 (Bind ''AVX128_ExtendVectorElements'' [''i8Bit'', ''i16Bit'', ''false'']),
     dispatch (OPD_VEX 2 0b01 0x31) 1 (Bind ''AVX128_ExtendVectorElements'' [''i8Bit'', ''i32Bit'', ''false'']),
     dispatch (OPD_VEX 2 0b01 0x32) 1 (Bind ''AVX128_ExtendVectorElements'' [''i8Bit'', ''i64Bit'', ''false'']),
     dispatch (OPD_VEX 2 0b01 0x33) 1 (Bind ''AVX128_ExtendVectorElements'' [''i16Bit'', ''i32Bit'', ''false'']),
     dispatch (OPD_VEX 2 0b01 0x34) 1 (Bind ''AVX128_ExtendVectorElements'' [''i16Bit'', ''i64Bit'', ''false'']),
     dispatch (OPD_VEX 2 0b01 0x35) 1 (Bind ''AVX128_ExtendVectorElements'' [''i32Bit'', ''i64Bit'', ''false'']),
     dispatch (OPD_VEX 2 0b01 0x36) 1 (Handler ''AVX128_VPERMD''),
     dispatch (OPD_VEX 2 0b01 0x37) 1 (Bind ''AVX128_VectorALU'' [''OP_VCMPGT'', ''i64Bit'']),
     dispatch (OPD_VEX 2 0b01 0x38) 1 (Bind ''AVX128_VectorALU'' [''OP_VSMIN'', ''i8Bit'']),
     dispatch (OPD_VEX 2 0b01 0x39) 1 (Bind ''AVX128_VectorALU'' [''OP_VSMIN'', ''i32Bit'']),
     dispatch (OPD_VEX 2 0b01 0x3A) 1 (Bind ''AVX128_VectorALU'' [''OP_VUMIN'', ''i16Bit'']),
     dispatch (OPD_VEX 2 0b01 0x3B) 1 (Bind ''AVX128_VectorALU'' [''OP_VUMIN'', ''i32Bit'']),
     dispatch (OPD_VEX 2 0b01 0x3C) 1 (Bind ''AVX128_VectorALU'' [''OP_VSMAX'', ''i8Bit'']),
     dispatch (OPD_VEX 2 0b01 0x3D) 1 (Bind ''AVX128_VectorALU'' [''OP_VSMAX'', ''i32Bit'']),
     dispatch (OPD_VEX 2 0b01 0x3E) 1 (Bind ''AVX128_VectorALU'' [''OP_VUMAX'', ''i16Bit'']),
     dispatch (OPD_VEX 2 0b01 0x3F) 1 (Bind ''AVX128_VectorALU'' [''OP_VUMAX'', ''i32Bit'']),
     dispatch (OPD_VEX 2 0b01 0x40) 1 (Bind ''AVX128_VectorALU'' [''OP_VMUL'', ''i32Bit'']),
     dispatch (OPD_VEX 2 0b01 0x41) 1 (Handler ''AVX128_PHMINPOSUW''),
     dispatch (OPD_VEX 2 0b01 0x45) 1 (Bind ''AVX128_VariableShiftImpl'' [''OP_VUSHR'']),
     dispatch (OPD_VEX 2 0b01 0x46) 1 (Bind ''AVX128_VariableShiftImpl'' [''OP_VSSHR'']),
     dispatch (OPD_VEX 2 0b01 0x47) 1 (Bind ''AVX128_VariableShiftImpl'' [''OP_VUSHL'']),
     dispatch (OPD_VEX 2 0b01 0x58) 1 (Bind ''AVX128_VBROADCAST'' [''i32Bit'']),
     dispatch (OPD_VEX 2 0b01 0x59) 1 (Bind ''AVX128_VBROADCAST'' [''i64Bit'']),
     dispatch (OPD_VEX 2 0b01 0x5A) 1 (Bind ''AVX128_VBROADCAST'' [''i128Bit'']),
     dispatch (OPD_VEX 2 0b01 0x78) 1 (Bind ''AVX128_VBROADCAST'' [''i8Bit''])]"

definition AVX128_BaseTable_3 :: "DispatchTableEntry list" where
  "AVX128_BaseTable_3 =
    [dispatch (OPD_VEX 2 0b01 0x79) 1 (Bind ''AVX128_VBROADCAST'' [''i16Bit'']),
     dispatch (OPD_VEX 2 0b01 0x8C) 1 (Bind ''AVX128_VPMASKMOV'' [''false'']),
     dispatch (OPD_VEX 2 0b01 0x8E) 1 (Bind ''AVX128_VPMASKMOV'' [''true'']),
     dispatch (OPD_VEX 2 0b01 0x90) 1 (Bind ''AVX128_VPGATHER'' [''i32Bit'']),
     dispatch (OPD_VEX 2 0b01 0x91) 1 (Bind ''AVX128_VPGATHER'' [''i64Bit'']),
     dispatch (OPD_VEX 2 0b01 0x92) 1 (Bind ''AVX128_VPGATHER'' [''i32Bit'']),
     dispatch (OPD_VEX 2 0b01 0x93) 1 (Bind ''AVX128_VPGATHER'' [''i64Bit'']),
     dispatch (OPD_VEX 2 0b01 0x96) 1 (Bind ''AVX128_VFMAddSubImpl'' [''true'', ''1'', ''3'', ''2'']),
     dispatch (OPD_VEX 2 0b01 0x97) 1 (Bind ''AVX128_VFMAddSubImpl'' [''false'', ''1'', ''3'', ''2'']),
     dispatch (OPD_VEX 2 0b01 0x98) 1 (Bind ''AVX128_VFMAImpl'' [''OP_VFMLA'', ''1'', ''3'', ''2'']),
     dispatch (OPD_VEX 2 0b01 0x99) 1 (Bind ''AVX128_VFMAScalarImpl'' [''OP_VFMLASCALARINSERT'', ''1'', ''3'', ''2'']),
     dispatch (OPD_VEX 2 0b01 0x9A) 1 (Bind ''AVX128_VFMAImpl'' [''OP_VFMLS'', ''1'', ''3'', ''2'']),
     dispatch (OPD_VEX 2 0b01 0x9B) 1 (Bind ''AVX128_VFMAScalarImpl'' [''OP_VFMLSSCALARINSERT'', ''1'', ''3'', ''2'']),
     dispatch (OPD_VEX 2 0b01 0x9C) 1 (Bind ''AVX128_VFMAImpl'' [''OP_VFNMLA'', ''1'', ''3'', ''2'']),
     dispatch (OPD_VEX 2 0b01 0x9D) 1 (Bind ''AVX128_VFMAScalarImpl'' [''OP_VFNMLASCALARINSERT'', ''1'', ''3'', ''2'']),
     dispatch (OPD_VEX 2 0b01 0x9E) 1 (Bind ''AVX128_VFMAImpl'' [''OP_VFNMLS'', ''1'', ''3'', ''2'']),
     dispatch (OPD_VEX 2 0b01 0x9F) 1 (Bind ''AVX128_VFMAScalarImpl'' [''OP_VFNMLSSCALARINSERT'', ''1'', ''3'', ''2'']),
     dispatch (OPD_VEX 2 0b01 0xA8) 1 (Bind ''AVX128_VFMAImpl'' [''OP_VFMLA'', ''2'', ''1'', ''3'']),
     dispatch (OPD_VEX 2 0b01 0xA9) 1 (Bind ''AVX128_VFMAScalarImpl'' [''OP_VFMLASCALARINSERT'', ''2'', ''1'', ''3'']),
     dispatch (OPD_VEX 2 0b01 0xAA) 1 (Bind ''AVX128_VFMAImpl'' [''OP_VFMLS'', ''2'', ''1'', ''3'']),
     dispatch (OPD_VEX 2 0b01 0xAB) 1 (Bind ''AVX128_VFMAScalarImpl'' [''OP_VFMLSSCALARINSERT'', ''2'', ''1'', ''3'']),
     dispatch (OPD_VEX 2 0b01 0xAC) 1 (Bind ''AVX128_VFMAImpl'' [''OP_VFNMLA'', ''2'', ''1'', ''3'']),
     dispatch (OPD_VEX 2 0b01 0xAD) 1 (Bind ''AVX128_VFMAScalarImpl'' [''OP_VFNMLASCALARINSERT'', ''2'', ''1'', ''3'']),
     dispatch (OPD_VEX 2 0b01 0xAE) 1 (Bind ''AVX128_VFMAImpl'' [''OP_VFNMLS'', ''2'', ''1'', ''3'']),
     dispatch (OPD_VEX 2 0b01 0xAF) 1 (Bind ''AVX128_VFMAScalarImpl'' [''OP_VFNMLSSCALARINSERT'', ''2'', ''1'', ''3'']),
     dispatch (OPD_VEX 2 0b01 0xB8) 1 (Bind ''AVX128_VFMAImpl'' [''OP_VFMLA'', ''2'', ''3'', ''1'']),
     dispatch (OPD_VEX 2 0b01 0xB9) 1 (Bind ''AVX128_VFMAScalarImpl'' [''OP_VFMLASCALARINSERT'', ''2'', ''3'', ''1'']),
     dispatch (OPD_VEX 2 0b01 0xBA) 1 (Bind ''AVX128_VFMAImpl'' [''OP_VFMLS'', ''2'', ''3'', ''1'']),
     dispatch (OPD_VEX 2 0b01 0xBB) 1 (Bind ''AVX128_VFMAScalarImpl'' [''OP_VFMLSSCALARINSERT'', ''2'', ''3'', ''1'']),
     dispatch (OPD_VEX 2 0b01 0xBC) 1 (Bind ''AVX128_VFMAImpl'' [''OP_VFNMLA'', ''2'', ''3'', ''1'']),
     dispatch (OPD_VEX 2 0b01 0xBD) 1 (Bind ''AVX128_VFMAScalarImpl'' [''OP_VFNMLASCALARINSERT'', ''2'', ''3'', ''1'']),
     dispatch (OPD_VEX 2 0b01 0xBE) 1 (Bind ''AVX128_VFMAImpl'' [''OP_VFNMLS'', ''2'', ''3'', ''1'']),
     dispatch (OPD_VEX 2 0b01 0xBF) 1 (Bind ''AVX128_VFMAScalarImpl'' [''OP_VFNMLSSCALARINSERT'', ''2'', ''3'', ''1'']),
     dispatch (OPD_VEX 2 0b01 0xA6) 1 (Bind ''AVX128_VFMAddSubImpl'' [''true'', ''2'', ''1'', ''3'']),
     dispatch (OPD_VEX 2 0b01 0xA7) 1 (Bind ''AVX128_VFMAddSubImpl'' [''false'', ''2'', ''1'', ''3'']),
     dispatch (OPD_VEX 2 0b01 0xB6) 1 (Bind ''AVX128_VFMAddSubImpl'' [''true'', ''2'', ''3'', ''1'']),
     dispatch (OPD_VEX 2 0b01 0xB7) 1 (Bind ''AVX128_VFMAddSubImpl'' [''false'', ''2'', ''3'', ''1'']),
     dispatch (OPD_VEX 2 0b01 0xDB) 1 (Handler ''AVX128_VAESImc''),
     dispatch (OPD_VEX 2 0b01 0xDC) 1 (Handler ''AVX128_VAESEnc''),
     dispatch (OPD_VEX 2 0b01 0xDD) 1 (Handler ''AVX128_VAESEncLast''),
     dispatch (OPD_VEX 2 0b01 0xDE) 1 (Handler ''AVX128_VAESDec''),
     dispatch (OPD_VEX 2 0b01 0xDF) 1 (Handler ''AVX128_VAESDecLast''),
     dispatch (OPD_VEX 3 0b01 0x00) 1 (Handler ''AVX128_VPERMQ''),
     dispatch (OPD_VEX 3 0b01 0x01) 1 (Handler ''AVX128_VPERMQ''),
     dispatch (OPD_VEX 3 0b01 0x02) 1 (Bind ''AVX128_VBLEND'' [''i32Bit'']),
     dispatch (OPD_VEX 3 0b01 0x04) 1 (Bind ''AVX128_VPERMILImm'' [''i32Bit'']),
     dispatch (OPD_VEX 3 0b01 0x05) 1 (Bind ''AVX128_VPERMILImm'' [''i64Bit'']),
     dispatch (OPD_VEX 3 0b01 0x06) 1 (Handler ''AVX128_VPERM2''),
     dispatch (OPD_VEX 3 0b01 0x08) 1 (Bind ''AVX128_VectorRound'' [''i32Bit'']),
     dispatch (OPD_VEX 3 0b01 0x09) 1 (Bind ''AVX128_VectorRound'' [''i64Bit'']),
     dispatch (OPD_VEX 3 0b01 0x0A) 1 (Bind ''AVX128_InsertScalarRound'' [''i32Bit'']),
     dispatch (OPD_VEX 3 0b01 0x0B) 1 (Bind ''AVX128_InsertScalarRound'' [''i64Bit'']),
     dispatch (OPD_VEX 3 0b01 0x0C) 1 (Bind ''AVX128_VBLEND'' [''i32Bit'']),
     dispatch (OPD_VEX 3 0b01 0x0D) 1 (Bind ''AVX128_VBLEND'' [''i64Bit'']),
     dispatch (OPD_VEX 3 0b01 0x0E) 1 (Bind ''AVX128_VBLEND'' [''i16Bit'']),
     dispatch (OPD_VEX 3 0b01 0x0F) 1 (Handler ''AVX128_VPALIGNR''),
     dispatch (OPD_VEX 3 0b01 0x14) 1 (Bind ''AVX128_PExtr'' [''i8Bit'']),
     dispatch (OPD_VEX 3 0b01 0x15) 1 (Bind ''AVX128_PExtr'' [''i16Bit'']),
     dispatch (OPD_VEX 3 0b01 0x16) 1 (Bind ''AVX128_PExtr'' [''i32Bit'']),
     dispatch (OPD_VEX 3 0b01 0x17) 1 (Bind ''AVX128_PExtr'' [''i32Bit'']),
     dispatch (OPD_VEX 3 0b01 0x18) 1 (Handler ''AVX128_VINSERT''),
     dispatch (OPD_VEX 3 0b01 0x19) 1 (Handler ''AVX128_VEXTRACT128''),
     dispatch (OPD_VEX 3 0b01 0x1D) 1 (Handler ''AVX128_VCVTPS2PH''),
     dispatch (OPD_VEX 3 0b01 0x20) 1 (Handler ''AVX128_VPINSRB''),
     dispatch (OPD_VEX 3 0b01 0x21) 1 (Handler ''AVX128_VINSERTPS''),
     dispatch (OPD_VEX 3 0b01 0x22) 1 (Handler ''AVX128_VPINSRDQ''),
     dispatch (OPD_VEX 3 0b01 0x38) 1 (Handler ''AVX128_VINSERT''),
     dispatch (OPD_VEX 3 0b01 0x39) 1 (Handler ''AVX128_VEXTRACT128''),
     dispatch (OPD_VEX 3 0b01 0x40) 1 (Bind ''AVX128_VDPP'' [''i32Bit'']),
     dispatch (OPD_VEX 3 0b01 0x41) 1 (Bind ''AVX128_VDPP'' [''i64Bit'']),
     dispatch (OPD_VEX 3 0b01 0x42) 1 (Handler ''AVX128_VMPSADBW''),
     dispatch (OPD_VEX 3 0b01 0x44) 1 (Handler ''AVX128_VPCLMULQDQ''),
     dispatch (OPD_VEX 3 0b01 0x46) 1 (Handler ''AVX128_VPERM2''),
     dispatch (OPD_VEX 3 0b01 0x4A) 1 (Bind ''AVX128_VectorVariableBlend'' [''i32Bit'']),
     dispatch (OPD_VEX 3 0b01 0x4B) 1 (Bind ''AVX128_VectorVariableBlend'' [''i64Bit'']),
     dispatch (OPD_VEX 3 0b01 0x4C) 1 (Bind ''AVX128_VectorVariableBlend'' [''i8Bit'']),
     dispatch (OPD_VEX 3 0b01 0x60) 1 (Handler ''AVX128_VPCMPESTRM''),
     dispatch (OPD_VEX 3 0b01 0x61) 1 (Handler ''AVX128_VPCMPESTRI''),
     dispatch (OPD_VEX 3 0b01 0x62) 1 (Handler ''AVX128_VPCMPISTRM''),
     dispatch (OPD_VEX 3 0b01 0x63) 1 (Handler ''AVX128_VPCMPISTRI''),
     dispatch (OPD_VEX 3 0b01 0xDF) 1 (Handler ''AVX128_VAESKeyGenAssist'')]"

definition AVX128_BaseTable :: "DispatchTableEntry list" where
  "AVX128_BaseTable = AVX128_BaseTable_1 @ AVX128_BaseTable_2 @ AVX128_BaseTable_3"

definition AVX256_BaseTable_1 :: "DispatchTableEntry list" where
  "AVX256_BaseTable_1 =
    [dispatch (OPD_VEX 1 0b00 0x10) 1 (Handler ''VMOVUPS_VMOVUPDOp''),
     dispatch (OPD_VEX 1 0b01 0x10) 1 (Handler ''VMOVUPS_VMOVUPDOp''),
     dispatch (OPD_VEX 1 0b10 0x10) 1 (Handler ''VMOVSSOp''),
     dispatch (OPD_VEX 1 0b11 0x10) 1 (Handler ''VMOVSDOp''),
     dispatch (OPD_VEX 1 0b00 0x11) 1 (Handler ''VMOVUPS_VMOVUPDOp''),
     dispatch (OPD_VEX 1 0b01 0x11) 1 (Handler ''VMOVUPS_VMOVUPDOp''),
     dispatch (OPD_VEX 1 0b10 0x11) 1 (Handler ''VMOVSSOp''),
     dispatch (OPD_VEX 1 0b11 0x11) 1 (Handler ''VMOVSDOp''),
     dispatch (OPD_VEX 1 0b00 0x12) 1 (Handler ''VMOVLPOp''),
     dispatch (OPD_VEX 1 0b01 0x12) 1 (Handler ''VMOVLPOp''),
     dispatch (OPD_VEX 1 0b10 0x12) 1 (Bind ''VMOVSLDUPOp'' [''true'']),
     dispatch (OPD_VEX 1 0b11 0x12) 1 (Handler ''VMOVDDUPOp''),
     dispatch (OPD_VEX 1 0b00 0x13) 1 (Handler ''VMOVLPOp''),
     dispatch (OPD_VEX 1 0b01 0x13) 1 (Handler ''VMOVLPOp''),
     dispatch (OPD_VEX 1 0b00 0x14) 1 (Bind ''VPUNPCKLOp'' [''i32Bit'']),
     dispatch (OPD_VEX 1 0b01 0x14) 1 (Bind ''VPUNPCKLOp'' [''i64Bit'']),
     dispatch (OPD_VEX 1 0b00 0x15) 1 (Bind ''VPUNPCKHOp'' [''i32Bit'']),
     dispatch (OPD_VEX 1 0b01 0x15) 1 (Bind ''VPUNPCKHOp'' [''i64Bit'']),
     dispatch (OPD_VEX 1 0b00 0x16) 1 (Handler ''VMOVHPOp''),
     dispatch (OPD_VEX 1 0b01 0x16) 1 (Handler ''VMOVHPOp''),
     dispatch (OPD_VEX 1 0b10 0x16) 1 (Bind ''VMOVSHDUPOp'' [''true'']),
     dispatch (OPD_VEX 1 0b00 0x17) 1 (Handler ''VMOVHPOp''),
     dispatch (OPD_VEX 1 0b01 0x17) 1 (Handler ''VMOVHPOp''),
     dispatch (OPD_VEX 1 0b00 0x28) 1 (Handler ''VMOVAPS_VMOVAPDOp''),
     dispatch (OPD_VEX 1 0b01 0x28) 1 (Handler ''VMOVAPS_VMOVAPDOp''),
     dispatch (OPD_VEX 1 0b00 0x29) 1 (Handler ''VMOVAPS_VMOVAPDOp''),
     dispatch (OPD_VEX 1 0b01 0x29) 1 (Handler ''VMOVAPS_VMOVAPDOp''),
     dispatch (OPD_VEX 1 0b10 0x2A) 1 (Bind ''AVXInsertCVTGPR_To_FPR'' [''i32Bit'']),
     dispatch (OPD_VEX 1 0b11 0x2A) 1 (Bind ''AVXInsertCVTGPR_To_FPR'' [''i64Bit'']),
     dispatch (OPD_VEX 1 0b00 0x2B) 1 (Bind ''MOVVectorNTOp'' [''true'']),
     dispatch (OPD_VEX 1 0b01 0x2B) 1 (Bind ''MOVVectorNTOp'' [''true'']),
     dispatch (OPD_VEX 1 0b10 0x2C) 1 (Bind ''CVTFPR_To_GPR'' [''i32Bit'', ''false'']),
     dispatch (OPD_VEX 1 0b11 0x2C) 1 (Bind ''CVTFPR_To_GPR'' [''i64Bit'', ''false'']),
     dispatch (OPD_VEX 1 0b10 0x2D) 1 (Bind ''CVTFPR_To_GPR'' [''i32Bit'', ''true'']),
     dispatch (OPD_VEX 1 0b11 0x2D) 1 (Bind ''CVTFPR_To_GPR'' [''i64Bit'', ''true'']),
     dispatch (OPD_VEX 1 0b00 0x2E) 1 (Bind ''UCOMISxOp'' [''i32Bit'']),
     dispatch (OPD_VEX 1 0b01 0x2E) 1 (Bind ''UCOMISxOp'' [''i64Bit'']),
     dispatch (OPD_VEX 1 0b00 0x2F) 1 (Bind ''UCOMISxOp'' [''i32Bit'']),
     dispatch (OPD_VEX 1 0b01 0x2F) 1 (Bind ''UCOMISxOp'' [''i64Bit'']),
     dispatch (OPD_VEX 1 0b00 0x50) 1 (Bind ''MOVMSKOp'' [''i32Bit'']),
     dispatch (OPD_VEX 1 0b01 0x50) 1 (Bind ''MOVMSKOp'' [''i64Bit'']),
     dispatch (OPD_VEX 1 0b00 0x51) 1 (Bind ''AVXVectorUnaryOp'' [''OP_VFSQRT'', ''i32Bit'']),
     dispatch (OPD_VEX 1 0b01 0x51) 1 (Bind ''AVXVectorUnaryOp'' [''OP_VFSQRT'', ''i64Bit'']),
     dispatch (OPD_VEX 1 0b10 0x51) 1 (Bind ''AVXVectorScalarUnaryInsertALUOp'' [''OP_VFSQRTSCALARINSERT'', ''i32Bit'']),
     dispatch (OPD_VEX 1 0b11 0x51) 1 (Bind ''AVXVectorScalarUnaryInsertALUOp'' [''OP_VFSQRTSCALARINSERT'', ''i64Bit'']),
     dispatch (OPD_VEX 1 0b00 0x52) 1 (Bind ''AVXVectorUnaryOp'' [''OP_VFRSQRT'', ''i32Bit'']),
     dispatch (OPD_VEX 1 0b10 0x52) 1 (Bind ''AVXVectorScalarUnaryInsertALUOp'' [''OP_VFRSQRTSCALARINSERT'', ''i32Bit'']),
     dispatch (OPD_VEX 1 0b00 0x53) 1 (Bind ''AVXVectorUnaryOp'' [''OP_VFRECP'', ''i32Bit'']),
     dispatch (OPD_VEX 1 0b10 0x53) 1 (Bind ''AVXVectorScalarUnaryInsertALUOp'' [''OP_VFRECPSCALARINSERT'', ''i32Bit'']),
     dispatch (OPD_VEX 1 0b00 0x54) 1 (Bind ''AVXVectorALUOp'' [''OP_VAND'', ''i128Bit'']),
     dispatch (OPD_VEX 1 0b01 0x54) 1 (Bind ''AVXVectorALUOp'' [''OP_VAND'', ''i128Bit'']),
     dispatch (OPD_VEX 1 0b00 0x55) 1 (Handler ''VANDNOp''),
     dispatch (OPD_VEX 1 0b01 0x55) 1 (Handler ''VANDNOp''),
     dispatch (OPD_VEX 1 0b00 0x56) 1 (Bind ''AVXVectorALUOp'' [''OP_VOR'', ''i128Bit'']),
     dispatch (OPD_VEX 1 0b01 0x56) 1 (Bind ''AVXVectorALUOp'' [''OP_VOR'', ''i128Bit'']),
     dispatch (OPD_VEX 1 0b00 0x57) 1 (Handler ''AVXVectorXOROp''),
     dispatch (OPD_VEX 1 0b01 0x57) 1 (Handler ''AVXVectorXOROp''),
     dispatch (OPD_VEX 1 0b00 0x58) 1 (Bind ''AVXVectorALUOp'' [''OP_VFADD'', ''i32Bit'']),
     dispatch (OPD_VEX 1 0b01 0x58) 1 (Bind ''AVXVectorALUOp'' [''OP_VFADD'', ''i64Bit'']),
     dispatch (OPD_VEX 1 0b10 0x58) 1 (Bind ''AVXVectorScalarInsertALUOp'' [''OP_VFADDSCALARINSERT'', ''i32Bit'']),
     dispatch (OPD_VEX 1 0b11 0x58) 1 (Bind ''AVXVectorScalarInsertALUOp'' [''OP_VFADDSCALARINSERT'', ''i64Bit'']),
     dispatch (OPD_VEX 1 0b00 0x59) 1 (Bind ''AVXVectorALUOp'' [''OP_VFMUL'', ''i32Bit'']),
     dispatch (OPD_VEX 1 0b01 0x59) 1 (Bind ''AVXVectorALUOp'' [''OP_VFMUL'', ''i64Bit'']),
     dispatch (OPD_VEX 1 0b10 0x59) 1 (Bind ''AVXVectorScalarInsertALUOp'' [''OP_VFMULSCALARINSERT'', ''i32Bit'']),
     dispatch (OPD_VEX 1 0b11 0x59) 1 (Bind ''AVXVectorScalarInsertALUOp'' [''OP_VFMULSCALARINSERT'', ''i64Bit'']),
     dispatch (OPD_VEX 1 0b00 0x5A) 1 (Bind ''Vector_CVT_Float_To_Float'' [''i64Bit'', ''i32Bit'', ''true'']),
     dispatch (OPD_VEX 1 0b01 0x5A) 1 (Bind ''Vector_CVT_Float_To_Float'' [''i32Bit'', ''i64Bit'', ''true'']),
     dispatch (OPD_VEX 1 0b10 0x5A) 1 (Bind ''AVXInsertScalar_CVT_Float_To_Float'' [''i64Bit'', ''i32Bit'']),
     dispatch (OPD_VEX 1 0b11 0x5A) 1 (Bind ''AVXInsertScalar_CVT_Float_To_Float'' [''i32Bit'', ''i64Bit'']),
     dispatch (OPD_VEX 1 0b00 0x5B) 1 (Bind ''Vector_CVT_Int_To_Float'' [''i32Bit'', ''false'', ''true'']),
     dispatch (OPD_VEX 1 0b01 0x5B) 1 (Bind ''Vector_CVT_Float_To_Int'' [''i32Bit'', ''true'', ''true'']),
     dispatch (OPD_VEX 1 0b10 0x5B) 1 (Bind ''Vector_CVT_Float_To_Int'' [''i32Bit'', ''false'', ''true'']),
     dispatch (OPD_VEX 1 0b00 0x5C) 1 (Bind ''AVXVectorALUOp'' [''OP_VFSUB'', ''i32Bit'']),
     dispatch (OPD_VEX 1 0b01 0x5C) 1 (Bind ''AVXVectorALUOp'' [''OP_VFSUB'', ''i64Bit'']),
     dispatch (OPD_VEX 1 0b10 0x5C) 1 (Bind ''AVXVectorScalarInsertALUOp'' [''OP_VFSUBSCALARINSERT'', ''i32Bit'']),
     dispatch (OPD_VEX 1 0b11 0x5C) 1 (Bind ''AVXVectorScalarInsertALUOp'' [''OP_VFSUBSCALARINSERT'', ''i64Bit'']),
     dispatch (OPD_VEX 1 0b00 0x5D) 1 (Bind ''AVXVectorALUOp'' [''OP_VFMIN'', ''i32Bit'']),
     dispatch (OPD_VEX 1 0b01 0x5D) 1 (Bind ''AVXVectorALUOp'' [''OP_VFMIN'', ''i64Bit'']),
     dispatch (OPD_VEX 1 0b10 0x5D) 1 (Bind ''AVXVectorScalarInsertALUOp'' [''OP_VFMINSCALARINSERT'', ''i32Bit'']),
     dispatch (OPD_VEX 1 0b11 0x5D) 1 (Bind ''AVXVectorScalarInsertALUOp'' [''OP_VFMINSCALARINSERT'', ''i64Bit'']),
     dispatch (OPD_VEX 1 0b00 0x5E) 1 (Bind ''AVXVectorALUOp'' [''OP_VFDIV'', ''i32Bit'']),
     dispatch (OPD_VEX 1 0b01 0x5E) 1 (Bind ''AVXVectorALUOp'' [''OP_VFDIV'', ''i64Bit'']),
     dispatch (OPD_VEX 1 0b10 0x5E) 1 (Bind ''AVXVectorScalarInsertALUOp'' [''OP_VFDIVSCALARINSERT'', ''i32Bit'']),
     dispatch (OPD_VEX 1 0b11 0x5E) 1 (Bind ''AVXVectorScalarInsertALUOp'' [''OP_VFDIVSCALARINSERT'', ''i64Bit'']),
     dispatch (OPD_VEX 1 0b00 0x5F) 1 (Bind ''AVXVectorALUOp'' [''OP_VFMAX'', ''i32Bit'']),
     dispatch (OPD_VEX 1 0b01 0x5F) 1 (Bind ''AVXVectorALUOp'' [''OP_VFMAX'', ''i64Bit'']),
     dispatch (OPD_VEX 1 0b10 0x5F) 1 (Bind ''AVXVectorScalarInsertALUOp'' [''OP_VFMAXSCALARINSERT'', ''i32Bit'']),
     dispatch (OPD_VEX 1 0b11 0x5F) 1 (Bind ''AVXVectorScalarInsertALUOp'' [''OP_VFMAXSCALARINSERT'', ''i64Bit'']),
     dispatch (OPD_VEX 1 0b01 0x60) 1 (Bind ''VPUNPCKLOp'' [''i8Bit'']),
     dispatch (OPD_VEX 1 0b01 0x61) 1 (Bind ''VPUNPCKLOp'' [''i16Bit'']),
     dispatch (OPD_VEX 1 0b01 0x62) 1 (Bind ''VPUNPCKLOp'' [''i32Bit'']),
     dispatch (OPD_VEX 1 0b01 0x63) 1 (Bind ''VPACKSSOp'' [''i16Bit'']),
     dispatch (OPD_VEX 1 0b01 0x64) 1 (Bind ''AVXVectorALUOp'' [''OP_VCMPGT'', ''i8Bit'']),
     dispatch (OPD_VEX 1 0b01 0x65) 1 (Bind ''AVXVectorALUOp'' [''OP_VCMPGT'', ''i16Bit'']),
     dispatch (OPD_VEX 1 0b01 0x66) 1 (Bind ''AVXVectorALUOp'' [''OP_VCMPGT'', ''i32Bit'']),
     dispatch (OPD_VEX 1 0b01 0x67) 1 (Bind ''VPACKUSOp'' [''i16Bit'']),
     dispatch (OPD_VEX 1 0b01 0x68) 1 (Bind ''VPUNPCKHOp'' [''i8Bit'']),
     dispatch (OPD_VEX 1 0b01 0x69) 1 (Bind ''VPUNPCKHOp'' [''i16Bit'']),
     dispatch (OPD_VEX 1 0b01 0x6A) 1 (Bind ''VPUNPCKHOp'' [''i32Bit'']),
     dispatch (OPD_VEX 1 0b01 0x6B) 1 (Bind ''VPACKSSOp'' [''i32Bit'']),
     dispatch (OPD_VEX 1 0b01 0x6C) 1 (Bind ''VPUNPCKLOp'' [''i64Bit'']),
     dispatch (OPD_VEX 1 0b01 0x6D) 1 (Bind ''VPUNPCKHOp'' [''i64Bit'']),
     dispatch (OPD_VEX 1 0b01 0x6E) 1 (Bind ''MOVBetweenGPR_FPR'' [''AVX'']),
     dispatch (OPD_VEX 1 0b01 0x6F) 1 (Handler ''VMOVAPS_VMOVAPDOp''),
     dispatch (OPD_VEX 1 0b10 0x6F) 1 (Handler ''VMOVUPS_VMOVUPDOp''),
     dispatch (OPD_VEX 1 0b01 0x70) 1 (Bind ''VPSHUFWOp'' [''i32Bit'', ''true'']),
     dispatch (OPD_VEX 1 0b10 0x70) 1 (Bind ''VPSHUFWOp'' [''i16Bit'', ''false'']),
     dispatch (OPD_VEX 1 0b11 0x70) 1 (Bind ''VPSHUFWOp'' [''i16Bit'', ''true'']),
     dispatch (OPD_VEX 1 0b01 0x74) 1 (Bind ''AVXVectorALUOp'' [''OP_VCMPEQ'', ''i8Bit'']),
     dispatch (OPD_VEX 1 0b01 0x75) 1 (Bind ''AVXVectorALUOp'' [''OP_VCMPEQ'', ''i16Bit'']),
     dispatch (OPD_VEX 1 0b01 0x76) 1 (Bind ''AVXVectorALUOp'' [''OP_VCMPEQ'', ''i32Bit'']),
     dispatch (OPD_VEX 1 0b00 0x77) 1 (Handler ''VZEROOp''),
     dispatch (OPD_VEX 1 0b01 0x7C) 1 (Bind ''VHADDPOp'' [''OP_VFADDP'', ''i64Bit'']),
     dispatch (OPD_VEX 1 0b11 0x7C) 1 (Bind ''VHADDPOp'' [''OP_VFADDP'', ''i32Bit'']),
     dispatch (OPD_VEX 1 0b01 0x7D) 1 (Bind ''VHSUBPOp'' [''i64Bit'']),
     dispatch (OPD_VEX 1 0b11 0x7D) 1 (Bind ''VHSUBPOp'' [''i32Bit'']),
     dispatch (OPD_VEX 1 0b01 0x7E) 1 (Bind ''MOVBetweenGPR_FPR'' [''AVX''])]"

definition AVX256_BaseTable_2 :: "DispatchTableEntry list" where
  "AVX256_BaseTable_2 =
    [dispatch (OPD_VEX 1 0b10 0x7E) 1 (Bind ''MOVQOp'' [''AVX'']),
     dispatch (OPD_VEX 1 0b01 0x7F) 1 (Handler ''VMOVAPS_VMOVAPDOp''),
     dispatch (OPD_VEX 1 0b10 0x7F) 1 (Handler ''VMOVUPS_VMOVUPDOp''),
     dispatch (OPD_VEX 1 0b00 0xC2) 1 (Bind ''AVXVFCMPOp'' [''i32Bit'']),
     dispatch (OPD_VEX 1 0b01 0xC2) 1 (Bind ''AVXVFCMPOp'' [''i64Bit'']),
     dispatch (OPD_VEX 1 0b10 0xC2) 1 (Bind ''AVXInsertScalarFCMPOp'' [''i32Bit'']),
     dispatch (OPD_VEX 1 0b11 0xC2) 1 (Bind ''AVXInsertScalarFCMPOp'' [''i64Bit'']),
     dispatch (OPD_VEX 1 0b01 0xC4) 1 (Bind ''VPINSRBWOp'' [''i16Bit'']),
     dispatch (OPD_VEX 1 0b01 0xC5) 1 (Bind ''PExtrOp'' [''i16Bit'']),
     dispatch (OPD_VEX 1 0b00 0xC6) 1 (Bind ''VSHUFOp'' [''i32Bit'']),
     dispatch (OPD_VEX 1 0b01 0xC6) 1 (Bind ''VSHUFOp'' [''i64Bit'']),
     dispatch (OPD_VEX 1 0b01 0xD0) 1 (Bind ''VADDSUBPOp'' [''i64Bit'']),
     dispatch (OPD_VEX 1 0b11 0xD0) 1 (Bind ''VADDSUBPOp'' [''i32Bit'']),
     dispatch (OPD_VEX 1 0b01 0xD1) 1 (Bind ''VPSRLDOp'' [''i16Bit'']),
     dispatch (OPD_VEX 1 0b01 0xD2) 1 (Bind ''VPSRLDOp'' [''i32Bit'']),
     dispatch (OPD_VEX 1 0b01 0xD3) 1 (Bind ''VPSRLDOp'' [''i64Bit'']),
     dispatch (OPD_VEX 1 0b01 0xD4) 1 (Bind ''AVXVectorALUOp'' [''OP_VADD'', ''i64Bit'']),
     dispatch (OPD_VEX 1 0b01 0xD5) 1 (Bind ''AVXVectorALUOp'' [''OP_VMUL'', ''i16Bit'']),
     dispatch (OPD_VEX 1 0b01 0xD6) 1 (Bind ''MOVQOp'' [''AVX'']),
     dispatch (OPD_VEX 1 0b01 0xD7) 1 (Handler ''MOVMSKOpOne''),
     dispatch (OPD_VEX 1 0b01 0xD8) 1 (Bind ''AVXVectorALUOp'' [''OP_VUQSUB'', ''i8Bit'']),
     dispatch (OPD_VEX 1 0b01 0xD9) 1 (Bind ''AVXVectorALUOp'' [''OP_VUQSUB'', ''i16Bit'']),
     dispatch (OPD_VEX 1 0b01 0xDA) 1 (Bind ''AVXVectorALUOp'' [''OP_VUMIN'', ''i8Bit'']),
     dispatch (OPD_VEX 1 0b01 0xDB) 1 (Bind ''AVXVectorALUOp'' [''OP_VAND'', ''i128Bit'']),
     dispatch (OPD_VEX 1 0b01 0xDC) 1 (Bind ''AVXVectorALUOp'' [''OP_VUQADD'', ''i8Bit'']),
     dispatch (OPD_VEX 1 0b01 0xDD) 1 (Bind ''AVXVectorALUOp'' [''OP_VUQADD'', ''i16Bit'']),
     dispatch (OPD_VEX 1 0b01 0xDE) 1 (Bind ''AVXVectorALUOp'' [''OP_VUMAX'', ''i8Bit'']),
     dispatch (OPD_VEX 1 0b01 0xDF) 1 (Handler ''VANDNOp''),
     dispatch (OPD_VEX 1 0b01 0xE0) 1 (Bind ''AVXVectorALUOp'' [''OP_VURAVG'', ''i8Bit'']),
     dispatch (OPD_VEX 1 0b01 0xE1) 1 (Bind ''VPSRAOp'' [''i16Bit'']),
     dispatch (OPD_VEX 1 0b01 0xE2) 1 (Bind ''VPSRAOp'' [''i32Bit'']),
     dispatch (OPD_VEX 1 0b01 0xE3) 1 (Bind ''AVXVectorALUOp'' [''OP_VURAVG'', ''i16Bit'']),
     dispatch (OPD_VEX 1 0b01 0xE4) 1 (Bind ''VPMULHWOp'' [''false'']),
     dispatch (OPD_VEX 1 0b01 0xE5) 1 (Bind ''VPMULHWOp'' [''true'']),
     dispatch (OPD_VEX 1 0b01 0xE6) 1 (Bind ''Vector_CVT_Float_To_Int'' [''i64Bit'', ''false'', ''true'']),
     dispatch (OPD_VEX 1 0b10 0xE6) 1 (Bind ''Vector_CVT_Int_To_Float'' [''i32Bit'', ''true'', ''true'']),
     dispatch (OPD_VEX 1 0b11 0xE6) 1 (Bind ''Vector_CVT_Float_To_Int'' [''i64Bit'', ''true'', ''true'']),
     dispatch (OPD_VEX 1 0b01 0xE7) 1 (Bind ''MOVVectorNTOp'' [''true'']),
     dispatch (OPD_VEX 1 0b01 0xE8) 1 (Bind ''AVXVectorALUOp'' [''OP_VSQSUB'', ''i8Bit'']),
     dispatch (OPD_VEX 1 0b01 0xE9) 1 (Bind ''AVXVectorALUOp'' [''OP_VSQSUB'', ''i16Bit'']),
     dispatch (OPD_VEX 1 0b01 0xEA) 1 (Bind ''AVXVectorALUOp'' [''OP_VSMIN'', ''i16Bit'']),
     dispatch (OPD_VEX 1 0b01 0xEB) 1 (Bind ''AVXVectorALUOp'' [''OP_VOR'', ''i128Bit'']),
     dispatch (OPD_VEX 1 0b01 0xEC) 1 (Bind ''AVXVectorALUOp'' [''OP_VSQADD'', ''i8Bit'']),
     dispatch (OPD_VEX 1 0b01 0xED) 1 (Bind ''AVXVectorALUOp'' [''OP_VSQADD'', ''i16Bit'']),
     dispatch (OPD_VEX 1 0b01 0xEE) 1 (Bind ''AVXVectorALUOp'' [''OP_VSMAX'', ''i16Bit'']),
     dispatch (OPD_VEX 1 0b01 0xEF) 1 (Handler ''AVXVectorXOROp''),
     dispatch (OPD_VEX 1 0b11 0xF0) 1 (Handler ''VMOVUPS_VMOVUPDOp''),
     dispatch (OPD_VEX 1 0b01 0xF1) 1 (Bind ''VPSLLOp'' [''i16Bit'']),
     dispatch (OPD_VEX 1 0b01 0xF2) 1 (Bind ''VPSLLOp'' [''i32Bit'']),
     dispatch (OPD_VEX 1 0b01 0xF3) 1 (Bind ''VPSLLOp'' [''i64Bit'']),
     dispatch (OPD_VEX 1 0b01 0xF4) 1 (Bind ''VPMULLOp'' [''i32Bit'', ''false'']),
     dispatch (OPD_VEX 1 0b01 0xF5) 1 (Handler ''VPMADDWDOp''),
     dispatch (OPD_VEX 1 0b01 0xF6) 1 (Handler ''VPSADBWOp''),
     dispatch (OPD_VEX 1 0b01 0xF7) 1 (Handler ''MASKMOVOp''),
     dispatch (OPD_VEX 1 0b01 0xF8) 1 (Bind ''AVXVectorALUOp'' [''OP_VSUB'', ''i8Bit'']),
     dispatch (OPD_VEX 1 0b01 0xF9) 1 (Bind ''AVXVectorALUOp'' [''OP_VSUB'', ''i16Bit'']),
     dispatch (OPD_VEX 1 0b01 0xFA) 1 (Bind ''AVXVectorALUOp'' [''OP_VSUB'', ''i32Bit'']),
     dispatch (OPD_VEX 1 0b01 0xFB) 1 (Bind ''AVXVectorALUOp'' [''OP_VSUB'', ''i64Bit'']),
     dispatch (OPD_VEX 1 0b01 0xFC) 1 (Bind ''AVXVectorALUOp'' [''OP_VADD'', ''i8Bit'']),
     dispatch (OPD_VEX 1 0b01 0xFD) 1 (Bind ''AVXVectorALUOp'' [''OP_VADD'', ''i16Bit'']),
     dispatch (OPD_VEX 1 0b01 0xFE) 1 (Bind ''AVXVectorALUOp'' [''OP_VADD'', ''i32Bit'']),
     dispatch (OPD_VEX 2 0b01 0x00) 1 (Handler ''VPSHUFBOp''),
     dispatch (OPD_VEX 2 0b01 0x01) 1 (Bind ''VHADDPOp'' [''OP_VADDP'', ''i16Bit'']),
     dispatch (OPD_VEX 2 0b01 0x02) 1 (Bind ''VHADDPOp'' [''OP_VADDP'', ''i32Bit'']),
     dispatch (OPD_VEX 2 0b01 0x03) 1 (Handler ''VPHADDSWOp''),
     dispatch (OPD_VEX 2 0b01 0x04) 1 (Handler ''VPMADDUBSWOp''),
     dispatch (OPD_VEX 2 0b01 0x05) 1 (Bind ''VPHSUBOp'' [''i16Bit'']),
     dispatch (OPD_VEX 2 0b01 0x06) 1 (Bind ''VPHSUBOp'' [''i32Bit'']),
     dispatch (OPD_VEX 2 0b01 0x07) 1 (Handler ''VPHSUBSWOp''),
     dispatch (OPD_VEX 2 0b01 0x08) 1 (Bind ''VPSIGN'' [''i8Bit'']),
     dispatch (OPD_VEX 2 0b01 0x09) 1 (Bind ''VPSIGN'' [''i16Bit'']),
     dispatch (OPD_VEX 2 0b01 0x0A) 1 (Bind ''VPSIGN'' [''i32Bit'']),
     dispatch (OPD_VEX 2 0b01 0x0B) 1 (Handler ''VPMULHRSWOp''),
     dispatch (OPD_VEX 2 0b01 0x0C) 1 (Bind ''VPERMILRegOp'' [''i32Bit'']),
     dispatch (OPD_VEX 2 0b01 0x0D) 1 (Bind ''VPERMILRegOp'' [''i64Bit'']),
     dispatch (OPD_VEX 2 0b01 0x0E) 1 (Bind ''VTESTPOp'' [''i32Bit'']),
     dispatch (OPD_VEX 2 0b01 0x0F) 1 (Bind ''VTESTPOp'' [''i64Bit'']),
     dispatch (OPD_VEX 2 0b01 0x13) 1 (Handler ''VCVTPH2PSOp''),
     dispatch (OPD_VEX 2 0b01 0x16) 1 (Handler ''VPERMDOp''),
     dispatch (OPD_VEX 2 0b01 0x17) 1 (Handler ''PTestOp''),
     dispatch (OPD_VEX 2 0b01 0x18) 1 (Bind ''VBROADCASTOp'' [''i32Bit'']),
     dispatch (OPD_VEX 2 0b01 0x19) 1 (Bind ''VBROADCASTOp'' [''i64Bit'']),
     dispatch (OPD_VEX 2 0b01 0x1A) 1 (Bind ''VBROADCASTOp'' [''i128Bit'']),
     dispatch (OPD_VEX 2 0b01 0x1C) 1 (Bind ''AVXVectorUnaryOp'' [''OP_VABS'', ''i8Bit'']),
     dispatch (OPD_VEX 2 0b01 0x1D) 1 (Bind ''AVXVectorUnaryOp'' [''OP_VABS'', ''i16Bit'']),
     dispatch (OPD_VEX 2 0b01 0x1E) 1 (Bind ''AVXVectorUnaryOp'' [''OP_VABS'', ''i32Bit'']),
     dispatch (OPD_VEX 2 0b01 0x20) 1 (Bind ''AVXExtendVectorElements'' [''i8Bit'', ''i16Bit'', ''true'']),
     dispatch (OPD_VEX 2 0b01 0x21) 1 (Bind ''AVXExtendVectorElements'' [''i8Bit'', ''i32Bit'', ''true'']),
     dispatch (OPD_VEX 2 0b01 0x22) 1 (Bind ''AVXExtendVectorElements'' [''i8Bit'', ''i64Bit'', ''true'']),
     dispatch (OPD_VEX 2 0b01 0x23) 1 (Bind ''AVXExtendVectorElements'' [''i16Bit'', ''i32Bit'', ''true'']),
     dispatch (OPD_VEX 2 0b01 0x24) 1 (Bind ''AVXExtendVectorElements'' [''i16Bit'', ''i64Bit'', ''true'']),
     dispatch (OPD_VEX 2 0b01 0x25) 1 (Bind ''AVXExtendVectorElements'' [''i32Bit'', ''i64Bit'', ''true'']),
     dispatch (OPD_VEX 2 0b01 0x28) 1 (Bind ''VPMULLOp'' [''i32Bit'', ''true'']),
     dispatch (OPD_VEX 2 0b01 0x29) 1 (Bind ''AVXVectorALUOp'' [''OP_VCMPEQ'', ''i64Bit'']),
     dispatch (OPD_VEX 2 0b01 0x2A) 1 (Bind ''MOVVectorNTOp'' [''true'']),
     dispatch (OPD_VEX 2 0b01 0x2B) 1 (Bind ''VPACKUSOp'' [''i32Bit'']),
     dispatch (OPD_VEX 2 0b01 0x2C) 1 (Bind ''VMASKMOVOp'' [''i32Bit'', ''false'']),
     dispatch (OPD_VEX 2 0b01 0x2D) 1 (Bind ''VMASKMOVOp'' [''i64Bit'', ''false'']),
     dispatch (OPD_VEX 2 0b01 0x2E) 1 (Bind ''VMASKMOVOp'' [''i32Bit'', ''true'']),
     dispatch (OPD_VEX 2 0b01 0x2F) 1 (Bind ''VMASKMOVOp'' [''i64Bit'', ''true'']),
     dispatch (OPD_VEX 2 0b01 0x30) 1 (Bind ''AVXExtendVectorElements'' [''i8Bit'', ''i16Bit'', ''false'']),
     dispatch (OPD_VEX 2 0b01 0x31) 1 (Bind ''AVXExtendVectorElements'' [''i8Bit'', ''i32Bit'', ''false'']),
     dispatch (OPD_VEX 2 0b01 0x32) 1 (Bind ''AVXExtendVectorElements'' [''i8Bit'', ''i64Bit'', ''false'']),
     dispatch (OPD_VEX 2 0b01 0x33) 1 (Bind ''AVXExtendVectorElements'' [''i16Bit'', ''i32Bit'', ''false'']),
     dispatch (OPD_VEX 2 0b01 0x34) 1 (Bind ''AVXExtendVectorElements'' [''i16Bit'', ''i64Bit'', ''false'']),
     dispatch (OPD_VEX 2 0b01 0x35) 1 (Bind ''AVXExtendVectorElements'' [''i32Bit'', ''i64Bit'', ''false'']),
     dispatch (OPD_VEX 2 0b01 0x36) 1 (Handler ''VPERMDOp''),
     dispatch (OPD_VEX 2 0b01 0x37) 1 (Bind ''AVXVectorALUOp'' [''OP_VCMPGT'', ''i64Bit'']),
     dispatch (OPD_VEX 2 0b01 0x38) 1 (Bind ''AVXVectorALUOp'' [''OP_VSMIN'', ''i8Bit'']),
     dispatch (OPD_VEX 2 0b01 0x39) 1 (Bind ''AVXVectorALUOp'' [''OP_VSMIN'', ''i32Bit'']),
     dispatch (OPD_VEX 2 0b01 0x3A) 1 (Bind ''AVXVectorALUOp'' [''OP_VUMIN'', ''i16Bit'']),
     dispatch (OPD_VEX 2 0b01 0x3B) 1 (Bind ''AVXVectorALUOp'' [''OP_VUMIN'', ''i32Bit'']),
     dispatch (OPD_VEX 2 0b01 0x3C) 1 (Bind ''AVXVectorALUOp'' [''OP_VSMAX'', ''i8Bit'']),
     dispatch (OPD_VEX 2 0b01 0x3D) 1 (Bind ''AVXVectorALUOp'' [''OP_VSMAX'', ''i32Bit'']),
     dispatch (OPD_VEX 2 0b01 0x3E) 1 (Bind ''AVXVectorALUOp'' [''OP_VUMAX'', ''i16Bit'']),
     dispatch (OPD_VEX 2 0b01 0x3F) 1 (Bind ''AVXVectorALUOp'' [''OP_VUMAX'', ''i32Bit'']),
     dispatch (OPD_VEX 2 0b01 0x40) 1 (Bind ''AVXVectorALUOp'' [''OP_VMUL'', ''i32Bit'']),
     dispatch (OPD_VEX 2 0b01 0x41) 1 (Handler ''AVXPHMINPOSUWOp''),
     dispatch (OPD_VEX 2 0b01 0x45) 1 (Handler ''VPSRLVOp''),
     dispatch (OPD_VEX 2 0b01 0x46) 1 (Handler ''VPSRAVDOp''),
     dispatch (OPD_VEX 2 0b01 0x47) 1 (Handler ''VPSLLVOp''),
     dispatch (OPD_VEX 2 0b01 0x58) 1 (Bind ''VBROADCASTOp'' [''i32Bit'']),
     dispatch (OPD_VEX 2 0b01 0x59) 1 (Bind ''VBROADCASTOp'' [''i64Bit'']),
     dispatch (OPD_VEX 2 0b01 0x5A) 1 (Bind ''VBROADCASTOp'' [''i128Bit'']),
     dispatch (OPD_VEX 2 0b01 0x78) 1 (Bind ''VBROADCASTOp'' [''i8Bit'']),
     dispatch (OPD_VEX 2 0b01 0x79) 1 (Bind ''VBROADCASTOp'' [''i16Bit''])]"

definition AVX256_BaseTable_3 :: "DispatchTableEntry list" where
  "AVX256_BaseTable_3 =
    [dispatch (OPD_VEX 2 0b01 0x8C) 1 (Bind ''VPMASKMOVOp'' [''false'']),
     dispatch (OPD_VEX 2 0b01 0x8E) 1 (Bind ''VPMASKMOVOp'' [''true'']),
     dispatch (OPD_VEX 2 0b01 0x90) 1 (Bind ''VPGATHER'' [''i32Bit'']),
     dispatch (OPD_VEX 2 0b01 0x91) 1 (Bind ''VPGATHER'' [''i64Bit'']),
     dispatch (OPD_VEX 2 0b01 0x92) 1 (Bind ''VPGATHER'' [''i32Bit'']),
     dispatch (OPD_VEX 2 0b01 0x93) 1 (Bind ''VPGATHER'' [''i64Bit'']),
     dispatch (OPD_VEX 2 0b01 0x96) 1 (Bind ''VFMAddSubImpl'' [''true'', ''1'', ''3'', ''2'']),
     dispatch (OPD_VEX 2 0b01 0x97) 1 (Bind ''VFMAddSubImpl'' [''false'', ''1'', ''3'', ''2'']),
     dispatch (OPD_VEX 2 0b01 0x98) 1 (Bind ''VFMAImpl'' [''OP_VFMLA'', ''false'', ''1'', ''3'', ''2'']),
     dispatch (OPD_VEX 2 0b01 0x99) 1 (Bind ''VFMAImpl'' [''OP_VFMLA'', ''true'', ''1'', ''3'', ''2'']),
     dispatch (OPD_VEX 2 0b01 0x9A) 1 (Bind ''VFMAImpl'' [''OP_VFMLS'', ''false'', ''1'', ''3'', ''2'']),
     dispatch (OPD_VEX 2 0b01 0x9B) 1 (Bind ''VFMAImpl'' [''OP_VFMLS'', ''true'', ''1'', ''3'', ''2'']),
     dispatch (OPD_VEX 2 0b01 0x9C) 1 (Bind ''VFMAImpl'' [''OP_VFNMLA'', ''false'', ''1'', ''3'', ''2'']),
     dispatch (OPD_VEX 2 0b01 0x9D) 1 (Bind ''VFMAImpl'' [''OP_VFNMLA'', ''true'', ''1'', ''3'', ''2'']),
     dispatch (OPD_VEX 2 0b01 0x9E) 1 (Bind ''VFMAImpl'' [''OP_VFNMLS'', ''false'', ''1'', ''3'', ''2'']),
     dispatch (OPD_VEX 2 0b01 0x9F) 1 (Bind ''VFMAImpl'' [''OP_VFNMLS'', ''true'', ''1'', ''3'', ''2'']),
     dispatch (OPD_VEX 2 0b01 0xA8) 1 (Bind ''VFMAImpl'' [''OP_VFMLA'', ''false'', ''2'', ''1'', ''3'']),
     dispatch (OPD_VEX 2 0b01 0xA9) 1 (Bind ''VFMAImpl'' [''OP_VFMLA'', ''true'', ''2'', ''1'', ''3'']),
     dispatch (OPD_VEX 2 0b01 0xAA) 1 (Bind ''VFMAImpl'' [''OP_VFMLS'', ''false'', ''2'', ''1'', ''3'']),
     dispatch (OPD_VEX 2 0b01 0xAB) 1 (Bind ''VFMAImpl'' [''OP_VFMLS'', ''true'', ''2'', ''1'', ''3'']),
     dispatch (OPD_VEX 2 0b01 0xAC) 1 (Bind ''VFMAImpl'' [''OP_VFNMLA'', ''false'', ''2'', ''1'', ''3'']),
     dispatch (OPD_VEX 2 0b01 0xAD) 1 (Bind ''VFMAImpl'' [''OP_VFNMLA'', ''true'', ''2'', ''1'', ''3'']),
     dispatch (OPD_VEX 2 0b01 0xAE) 1 (Bind ''VFMAImpl'' [''OP_VFNMLS'', ''false'', ''2'', ''1'', ''3'']),
     dispatch (OPD_VEX 2 0b01 0xAF) 1 (Bind ''VFMAImpl'' [''OP_VFNMLS'', ''true'', ''2'', ''1'', ''3'']),
     dispatch (OPD_VEX 2 0b01 0xB8) 1 (Bind ''VFMAImpl'' [''OP_VFMLA'', ''false'', ''2'', ''3'', ''1'']),
     dispatch (OPD_VEX 2 0b01 0xB9) 1 (Bind ''VFMAImpl'' [''OP_VFMLA'', ''true'', ''2'', ''3'', ''1'']),
     dispatch (OPD_VEX 2 0b01 0xBA) 1 (Bind ''VFMAImpl'' [''OP_VFMLS'', ''false'', ''2'', ''3'', ''1'']),
     dispatch (OPD_VEX 2 0b01 0xBB) 1 (Bind ''VFMAImpl'' [''OP_VFMLS'', ''true'', ''2'', ''3'', ''1'']),
     dispatch (OPD_VEX 2 0b01 0xBC) 1 (Bind ''VFMAImpl'' [''OP_VFNMLA'', ''false'', ''2'', ''3'', ''1'']),
     dispatch (OPD_VEX 2 0b01 0xBD) 1 (Bind ''VFMAImpl'' [''OP_VFNMLA'', ''true'', ''2'', ''3'', ''1'']),
     dispatch (OPD_VEX 2 0b01 0xBE) 1 (Bind ''VFMAImpl'' [''OP_VFNMLS'', ''false'', ''2'', ''3'', ''1'']),
     dispatch (OPD_VEX 2 0b01 0xBF) 1 (Bind ''VFMAImpl'' [''OP_VFNMLS'', ''true'', ''2'', ''3'', ''1'']),
     dispatch (OPD_VEX 2 0b01 0xA6) 1 (Bind ''VFMAddSubImpl'' [''true'', ''2'', ''1'', ''3'']),
     dispatch (OPD_VEX 2 0b01 0xA7) 1 (Bind ''VFMAddSubImpl'' [''false'', ''2'', ''1'', ''3'']),
     dispatch (OPD_VEX 2 0b01 0xB6) 1 (Bind ''VFMAddSubImpl'' [''true'', ''2'', ''3'', ''1'']),
     dispatch (OPD_VEX 2 0b01 0xB7) 1 (Bind ''VFMAddSubImpl'' [''false'', ''2'', ''3'', ''1'']),
     dispatch (OPD_VEX 2 0b01 0xDB) 1 (Bind ''AESImcOp'' [''true'']),
     dispatch (OPD_VEX 2 0b01 0xDC) 1 (Handler ''VAESEncOp''),
     dispatch (OPD_VEX 2 0b01 0xDD) 1 (Handler ''VAESEncLastOp''),
     dispatch (OPD_VEX 2 0b01 0xDE) 1 (Handler ''VAESDecOp''),
     dispatch (OPD_VEX 2 0b01 0xDF) 1 (Handler ''VAESDecLastOp''),
     dispatch (OPD_VEX 3 0b01 0x00) 1 (Handler ''VPERMQOp''),
     dispatch (OPD_VEX 3 0b01 0x01) 1 (Handler ''VPERMQOp''),
     dispatch (OPD_VEX 3 0b01 0x02) 1 (Handler ''VPBLENDDOp''),
     dispatch (OPD_VEX 3 0b01 0x04) 1 (Bind ''VPERMILImmOp'' [''i32Bit'']),
     dispatch (OPD_VEX 3 0b01 0x05) 1 (Bind ''VPERMILImmOp'' [''i64Bit'']),
     dispatch (OPD_VEX 3 0b01 0x06) 1 (Handler ''VPERM2Op''),
     dispatch (OPD_VEX 3 0b01 0x08) 1 (Bind ''AVXVectorRound'' [''i32Bit'']),
     dispatch (OPD_VEX 3 0b01 0x09) 1 (Bind ''AVXVectorRound'' [''i64Bit'']),
     dispatch (OPD_VEX 3 0b01 0x0A) 1 (Bind ''AVXInsertScalarRound'' [''i32Bit'']),
     dispatch (OPD_VEX 3 0b01 0x0B) 1 (Bind ''AVXInsertScalarRound'' [''i64Bit'']),
     dispatch (OPD_VEX 3 0b01 0x0C) 1 (Handler ''VPBLENDDOp''),
     dispatch (OPD_VEX 3 0b01 0x0D) 1 (Handler ''VBLENDPDOp''),
     dispatch (OPD_VEX 3 0b01 0x0E) 1 (Handler ''VPBLENDWOp''),
     dispatch (OPD_VEX 3 0b01 0x0F) 1 (Handler ''VPALIGNROp''),
     dispatch (OPD_VEX 3 0b01 0x14) 1 (Bind ''PExtrOp'' [''i8Bit'']),
     dispatch (OPD_VEX 3 0b01 0x15) 1 (Bind ''PExtrOp'' [''i16Bit'']),
     dispatch (OPD_VEX 3 0b01 0x16) 1 (Bind ''PExtrOp'' [''i32Bit'']),
     dispatch (OPD_VEX 3 0b01 0x17) 1 (Bind ''PExtrOp'' [''i32Bit'']),
     dispatch (OPD_VEX 3 0b01 0x18) 1 (Handler ''VINSERTOp''),
     dispatch (OPD_VEX 3 0b01 0x19) 1 (Handler ''VEXTRACT128Op''),
     dispatch (OPD_VEX 3 0b01 0x1D) 1 (Handler ''VCVTPS2PHOp''),
     dispatch (OPD_VEX 3 0b01 0x20) 1 (Bind ''VPINSRBWOp'' [''i8Bit'']),
     dispatch (OPD_VEX 3 0b01 0x21) 1 (Handler ''VINSERTPSOp''),
     dispatch (OPD_VEX 3 0b01 0x22) 1 (Handler ''VPINSRDQOp''),
     dispatch (OPD_VEX 3 0b01 0x38) 1 (Handler ''VINSERTOp''),
     dispatch (OPD_VEX 3 0b01 0x39) 1 (Handler ''VEXTRACT128Op''),
     dispatch (OPD_VEX 3 0b01 0x40) 1 (Bind ''VDPPOp'' [''i32Bit'']),
     dispatch (OPD_VEX 3 0b01 0x41) 1 (Bind ''VDPPOp'' [''i64Bit'']),
     dispatch (OPD_VEX 3 0b01 0x42) 1 (Handler ''VMPSADBWOp''),
     dispatch (OPD_VEX 3 0b01 0x44) 1 (Handler ''VPCLMULQDQOp''),
     dispatch (OPD_VEX 3 0b01 0x46) 1 (Handler ''VPERM2Op''),
     dispatch (OPD_VEX 3 0b01 0x4A) 1 (Bind ''AVXVectorVariableBlend'' [''i32Bit'']),
     dispatch (OPD_VEX 3 0b01 0x4B) 1 (Bind ''AVXVectorVariableBlend'' [''i64Bit'']),
     dispatch (OPD_VEX 3 0b01 0x4C) 1 (Bind ''AVXVectorVariableBlend'' [''i8Bit'']),
     dispatch (OPD_VEX 3 0b01 0x60) 1 (Bind ''VPCMPESTRMOp'' [''true'']),
     dispatch (OPD_VEX 3 0b01 0x61) 1 (Bind ''VPCMPESTRIOp'' [''true'']),
     dispatch (OPD_VEX 3 0b01 0x62) 1 (Bind ''VPCMPISTRMOp'' [''true'']),
     dispatch (OPD_VEX 3 0b01 0x63) 1 (Bind ''VPCMPISTRIOp'' [''true'']),
     dispatch (OPD_VEX 3 0b01 0xDF) 1 (Bind ''AESKeyGenAssist'' [''true''])]"

definition AVX256_BaseTable :: "DispatchTableEntry list" where
  "AVX256_BaseTable = AVX256_BaseTable_1 @ AVX256_BaseTable_2 @ AVX256_BaseTable_3"

definition VEXTable_build :: "DispatchTableEntry list \<Rightarrow> table option" where
  "VEXTable_build RuntimeTable =
     do { Table \<leftarrow> GenerateTable VEXTable (replicate 8192 zero_info);
          Table \<leftarrow> InstallToTable OpDispatch_VEXTable Table;
          InstallToTable RuntimeTable Table }"

section \<open>The VEX groups\<close>

definition OPD_VEXGroup :: "InstType \<Rightarrow> nat \<Rightarrow> nat \<Rightarrow> nat" where
  "OPD_VEXGroup grp pp opcode =
     push_bit 4 (InstType_num grp - InstType_num TYPE_VEX_GROUP_12) OR push_bit 3 pp OR opcode"

definition VEXGroupTable :: "X86TablesInfoStruct list" where
  "VEXGroupTable =
    [entry (OPD_VEXGroup TYPE_VEX_GROUP_12 1 0b010) 1 ''VPSRLW'' TYPE_INST ((GenFlagsSameSize SIZE_128BIT) OR FLAGS_MODRM OR FLAGS_SF_MOD_REG_ONLY OR FLAGS_VEX_DST OR FLAGS_XMM_FLAGS) 1,
     entry (OPD_VEXGroup TYPE_VEX_GROUP_12 1 0b100) 1 ''VPSRAW'' TYPE_INST ((GenFlagsSameSize SIZE_128BIT) OR FLAGS_MODRM OR FLAGS_SF_MOD_REG_ONLY OR FLAGS_VEX_DST OR FLAGS_XMM_FLAGS) 1,
     entry (OPD_VEXGroup TYPE_VEX_GROUP_12 1 0b110) 1 ''VPSLLW'' TYPE_INST ((GenFlagsSameSize SIZE_128BIT) OR FLAGS_MODRM OR FLAGS_SF_MOD_REG_ONLY OR FLAGS_VEX_DST OR FLAGS_XMM_FLAGS) 1,
     entry (OPD_VEXGroup TYPE_VEX_GROUP_13 1 0b010) 1 ''VPSRLD'' TYPE_INST ((GenFlagsSameSize SIZE_128BIT) OR FLAGS_MODRM OR FLAGS_SF_MOD_REG_ONLY OR FLAGS_VEX_DST OR FLAGS_XMM_FLAGS) 1,
     entry (OPD_VEXGroup TYPE_VEX_GROUP_13 1 0b100) 1 ''VPSRAD'' TYPE_INST ((GenFlagsSameSize SIZE_128BIT) OR FLAGS_MODRM OR FLAGS_SF_MOD_REG_ONLY OR FLAGS_VEX_DST OR FLAGS_XMM_FLAGS) 1,
     entry (OPD_VEXGroup TYPE_VEX_GROUP_13 1 0b110) 1 ''VPSLLD'' TYPE_INST ((GenFlagsSameSize SIZE_128BIT) OR FLAGS_MODRM OR FLAGS_SF_MOD_REG_ONLY OR FLAGS_VEX_DST OR FLAGS_XMM_FLAGS) 1,
     entry (OPD_VEXGroup TYPE_VEX_GROUP_14 1 0b010) 1 ''VPSRLQ'' TYPE_INST ((GenFlagsSameSize SIZE_128BIT) OR FLAGS_MODRM OR FLAGS_SF_MOD_REG_ONLY OR FLAGS_VEX_DST OR FLAGS_XMM_FLAGS) 1,
     entry (OPD_VEXGroup TYPE_VEX_GROUP_14 1 0b011) 1 ''VPSRLDQ'' TYPE_INST ((GenFlagsSameSize SIZE_128BIT) OR FLAGS_MODRM OR FLAGS_SF_MOD_REG_ONLY OR FLAGS_VEX_DST OR FLAGS_XMM_FLAGS) 1,
     entry (OPD_VEXGroup TYPE_VEX_GROUP_14 1 0b110) 1 ''VPSLLQ'' TYPE_INST ((GenFlagsSameSize SIZE_128BIT) OR FLAGS_MODRM OR FLAGS_SF_MOD_REG_ONLY OR FLAGS_VEX_DST OR FLAGS_XMM_FLAGS) 1,
     entry (OPD_VEXGroup TYPE_VEX_GROUP_14 1 0b111) 1 ''VPSLLDQ'' TYPE_INST ((GenFlagsSameSize SIZE_128BIT) OR FLAGS_MODRM OR FLAGS_SF_MOD_REG_ONLY OR FLAGS_VEX_DST OR FLAGS_XMM_FLAGS) 1,
     entry (OPD_VEXGroup TYPE_VEX_GROUP_15 0 0b010) 1 ''VLDMXCSR'' TYPE_INST ((GenFlagsSameSize SIZE_32BIT) OR FLAGS_MODRM OR FLAGS_SF_MOD_DST OR FLAGS_VEX_L_0 OR FLAGS_SF_MOD_MEM_ONLY) 0,
     entry (OPD_VEXGroup TYPE_VEX_GROUP_15 0 0b011) 1 ''VSTMXCSR'' TYPE_INST ((GenFlagsSameSize SIZE_32BIT) OR FLAGS_MODRM OR FLAGS_SF_MOD_DST OR FLAGS_VEX_L_0 OR FLAGS_SF_MOD_MEM_ONLY) 0,
     entry (OPD_VEXGroup TYPE_VEX_GROUP_17 0 0b001) 1 ''BLSR'' TYPE_INST (FLAGS_MODRM OR FLAGS_VEX_DST) 0,
     entry (OPD_VEXGroup TYPE_VEX_GROUP_17 0 0b010) 1 ''BLSMSK'' TYPE_INST (FLAGS_MODRM OR FLAGS_VEX_DST) 0,
     entry (OPD_VEXGroup TYPE_VEX_GROUP_17 0 0b011) 1 ''BLSI'' TYPE_INST (FLAGS_MODRM OR FLAGS_VEX_DST) 0]"

definition OpDispatch_VEXGroupTable :: "DispatchTableEntry list" where
  "OpDispatch_VEXGroupTable =
    [dispatch (OPD_VEXGroup TYPE_VEX_GROUP_17 0 0b001) 1 (Handler ''BLSRBMIOp''),
     dispatch (OPD_VEXGroup TYPE_VEX_GROUP_17 0 0b010) 1 (Handler ''BLSMSKBMIOp''),
     dispatch (OPD_VEXGroup TYPE_VEX_GROUP_17 0 0b011) 1 (Handler ''BLSIBMIOp'')]"

definition AVX128_TableGroupOps :: "DispatchTableEntry list" where
  "AVX128_TableGroupOps =
    [dispatch (OPD_VEXGroup TYPE_VEX_GROUP_12 1 0b010) 1 (Bind ''AVX128_VectorShiftImmImpl'' [''i16Bit'', ''OP_VUSHRI'']),
     dispatch (OPD_VEXGroup TYPE_VEX_GROUP_12 1 0b110) 1 (Bind ''AVX128_VectorShiftImmImpl'' [''i16Bit'', ''OP_VSHLI'']),
     dispatch (OPD_VEXGroup TYPE_VEX_GROUP_12 1 0b100) 1 (Bind ''AVX128_VectorShiftImmImpl'' [''i16Bit'', ''OP_VSSHRI'']),
     dispatch (OPD_VEXGroup TYPE_VEX_GROUP_13 1 0b010) 1 (Bind ''AVX128_VectorShiftImmImpl'' [''i32Bit'', ''OP_VUSHRI'']),
     dispatch (OPD_VEXGroup TYPE_VEX_GROUP_13 1 0b110) 1 (Bind ''AVX128_VectorShiftImmImpl'' [''i32Bit'', ''OP_VSHLI'']),
     dispatch (OPD_VEXGroup TYPE_VEX_GROUP_13 1 0b100) 1 (Bind ''AVX128_VectorShiftImmImpl'' [''i32Bit'', ''OP_VSSHRI'']),
     dispatch (OPD_VEXGroup TYPE_VEX_GROUP_14 1 0b010) 1 (Bind ''AVX128_VectorShiftImmImpl'' [''i64Bit'', ''OP_VUSHRI'']),
     dispatch (OPD_VEXGroup TYPE_VEX_GROUP_14 1 0b011) 1 (Bind ''AVX128_ShiftDoubleImm'' [''RIGHT'']),
     dispatch (OPD_VEXGroup TYPE_VEX_GROUP_14 1 0b110) 1 (Bind ''AVX128_VectorShiftImmImpl'' [''i64Bit'', ''OP_VSHLI'']),
     dispatch (OPD_VEXGroup TYPE_VEX_GROUP_14 1 0b111) 1 (Bind ''AVX128_ShiftDoubleImm'' [''LEFT'']),
     dispatch (OPD_VEXGroup TYPE_VEX_GROUP_15 0 0b010) 1 (Handler ''LDMXCSR''),
     dispatch (OPD_VEXGroup TYPE_VEX_GROUP_15 0 0b011) 1 (Handler ''STMXCSR'')]"

definition AVX256_TableGroupOps :: "DispatchTableEntry list" where
  "AVX256_TableGroupOps =
    [dispatch (OPD_VEXGroup TYPE_VEX_GROUP_12 1 0b010) 1 (Bind ''VPSRLIOp'' [''i16Bit'']),
     dispatch (OPD_VEXGroup TYPE_VEX_GROUP_12 1 0b110) 1 (Bind ''VPSLLIOp'' [''i16Bit'']),
     dispatch (OPD_VEXGroup TYPE_VEX_GROUP_12 1 0b100) 1 (Bind ''VPSRAIOp'' [''i16Bit'']),
     dispatch (OPD_VEXGroup TYPE_VEX_GROUP_13 1 0b010) 1 (Bind ''VPSRLIOp'' [''i32Bit'']),
     dispatch (OPD_VEXGroup TYPE_VEX_GROUP_13 1 0b110) 1 (Bind ''VPSLLIOp'' [''i32Bit'']),
     dispatch (OPD_VEXGroup TYPE_VEX_GROUP_13 1 0b100) 1 (Bind ''VPSRAIOp'' [''i32Bit'']),
     dispatch (OPD_VEXGroup TYPE_VEX_GROUP_14 1 0b010) 1 (Bind ''VPSRLIOp'' [''i64Bit'']),
     dispatch (OPD_VEXGroup TYPE_VEX_GROUP_14 1 0b011) 1 (Handler ''VPSRLDQOp''),
     dispatch (OPD_VEXGroup TYPE_VEX_GROUP_14 1 0b110) 1 (Bind ''VPSLLIOp'' [''i64Bit'']),
     dispatch (OPD_VEXGroup TYPE_VEX_GROUP_14 1 0b111) 1 (Handler ''VPSLLDQOp''),
     dispatch (OPD_VEXGroup TYPE_VEX_GROUP_15 0 0b010) 1 (Handler ''LDMXCSR''),
     dispatch (OPD_VEXGroup TYPE_VEX_GROUP_15 0 0b011) 1 (Handler ''STMXCSR'')]"

definition VEXGroupTable_build :: "DispatchTableEntry list \<Rightarrow> table option" where
  "VEXGroupTable_build RuntimeTable =
     do { Table \<leftarrow> GenerateTable VEXGroupTable (replicate 128 zero_info);
          Table \<leftarrow> InstallToTable OpDispatch_VEXGroupTable Table;
          InstallToTable RuntimeTable Table }"

section \<open>The tables are well-formed\<close>

lemma VEXTable_AVX128_ok: "table_ok VEXTable (OpDispatch_VEXTable @ AVX128_BaseTable) 8192"
  unfolding table_ok_def disjoint_ranges_def table_appends VEXTable_def VEXTable_1_def VEXTable_2_def VEXTable_3_def VEXTable_4_def OpDispatch_VEXTable_def AVX128_BaseTable_def AVX128_BaseTable_1_def AVX128_BaseTable_2_def AVX128_BaseTable_3_def
  by (simp add: Let_def table_evals OPD_VEX_def cong: table_weaks)

lemma VEXGroupTable_AVX128_ok: "table_ok VEXGroupTable (OpDispatch_VEXGroupTable @ AVX128_TableGroupOps) 128"
  unfolding table_ok_def disjoint_ranges_def table_appends VEXGroupTable_def OpDispatch_VEXGroupTable_def AVX128_TableGroupOps_def
  by (simp add: Let_def table_evals OPD_VEXGroup_def cong: table_weaks)

lemma VEXTable_AVX256_ok: "table_ok VEXTable (OpDispatch_VEXTable @ AVX256_BaseTable) 8192"
  unfolding table_ok_def disjoint_ranges_def table_appends VEXTable_def VEXTable_1_def VEXTable_2_def VEXTable_3_def VEXTable_4_def OpDispatch_VEXTable_def AVX256_BaseTable_def AVX256_BaseTable_1_def AVX256_BaseTable_2_def AVX256_BaseTable_3_def
  by (simp add: Let_def table_evals OPD_VEX_def cong: table_weaks)

lemma VEXGroupTable_AVX256_ok: "table_ok VEXGroupTable (OpDispatch_VEXGroupTable @ AVX256_TableGroupOps) 128"
  unfolding table_ok_def disjoint_ranges_def table_appends VEXGroupTable_def OpDispatch_VEXGroupTable_def AVX256_TableGroupOps_def
  by (simp add: Let_def table_evals OPD_VEXGroup_def cong: table_weaks)

section \<open>Every instruction has a handler\<close>

text \<open>Up to the listed ranges of indices.\<close>

lemma VEXTable_AVX128_handled: "handled VEXTable (OpDispatch_VEXTable @ AVX128_BaseTable) []"
  unfolding handled_def covers_def handler_appends VEXTable_def VEXTable_1_def VEXTable_2_def VEXTable_3_def VEXTable_4_def OpDispatch_VEXTable_def AVX128_BaseTable_def AVX128_BaseTable_1_def AVX128_BaseTable_2_def AVX128_BaseTable_3_def
  by (simp add: Let_def table_evals OPD_VEX_def cong: handler_weaks)

lemma VEXGroupTable_AVX128_handled: "handled VEXGroupTable (OpDispatch_VEXGroupTable @ AVX128_TableGroupOps) []"
  unfolding handled_def covers_def handler_appends VEXGroupTable_def OpDispatch_VEXGroupTable_def AVX128_TableGroupOps_def
  by (simp add: Let_def table_evals OPD_VEXGroup_def cong: handler_weaks)

lemma VEXTable_AVX256_handled: "handled VEXTable (OpDispatch_VEXTable @ AVX256_BaseTable) []"
  unfolding handled_def covers_def handler_appends VEXTable_def VEXTable_1_def VEXTable_2_def VEXTable_3_def VEXTable_4_def OpDispatch_VEXTable_def AVX256_BaseTable_def AVX256_BaseTable_1_def AVX256_BaseTable_2_def AVX256_BaseTable_3_def
  by (simp add: Let_def table_evals OPD_VEX_def cong: handler_weaks)

lemma VEXGroupTable_AVX256_handled: "handled VEXGroupTable (OpDispatch_VEXGroupTable @ AVX256_TableGroupOps) []"
  unfolding handled_def covers_def handler_appends VEXGroupTable_def OpDispatch_VEXGroupTable_def AVX256_TableGroupOps_def
  by (simp add: Let_def table_evals OPD_VEXGroup_def cong: handler_weaks)

end
