(* ===== verification/X87Tables.thy ===== *)
theory X87Tables
  imports TableBuild
begin

text \<open>
  The x87 table (\<open>X87Tables.cpp\<close>), entry by entry, with the handlers for the 80-bit and for
  the reduced-precision implementation.
\<close>

section \<open>The x87 table\<close>

definition OPD_X87 :: "nat \<Rightarrow> nat \<Rightarrow> nat" where
  "OPD_X87 opc modrmop =
     push_bit 8 (opc - 0xD8) OR modrmop"

definition OPDReg_X87 :: "nat \<Rightarrow> nat \<Rightarrow> nat" where
  "OPDReg_X87 opc reg =
     push_bit 8 (opc - 0xD8) OR push_bit 3 reg"

definition OPDReg_repeat :: "nat \<Rightarrow> nat \<Rightarrow> nat" where
  "OPDReg_repeat opc reg =
     push_bit 15 1 OR push_bit 8 (opc - 0xD8) OR push_bit 3 reg"

definition X87OpTable_1 :: "X86TablesInfoStruct list" where
  "X87OpTable_1 =
    [entry (OPDReg_X87 0xD8 0) 1 ''FADD'' TYPE_X87 FLAGS_MODRM 0,
     entry (OPDReg_X87 0xD8 1) 1 ''FMUL'' TYPE_X87 FLAGS_MODRM 0,
     entry (OPDReg_X87 0xD8 2) 1 ''FCOM'' TYPE_X87 FLAGS_MODRM 0,
     entry (OPDReg_X87 0xD8 3) 1 ''FCOMP'' TYPE_X87 (FLAGS_MODRM OR FLAGS_POP) 0,
     entry (OPDReg_X87 0xD8 4) 1 ''FSUB'' TYPE_X87 FLAGS_MODRM 0,
     entry (OPDReg_X87 0xD8 5) 1 ''FSUBR'' TYPE_X87 FLAGS_MODRM 0,
     entry (OPDReg_X87 0xD8 6) 1 ''FDIV'' TYPE_X87 FLAGS_MODRM 0,
     entry (OPDReg_X87 0xD8 7) 1 ''FDIVR'' TYPE_X87 FLAGS_MODRM 0,
     entry (OPD_X87 0xD8 0xC0) 8 ''FADD'' TYPE_X87 FLAGS_NONE 0,
     entry (OPD_X87 0xD8 0xC8) 8 ''FMUL'' TYPE_X87 FLAGS_NONE 0,
     entry (OPD_X87 0xD8 0xD0) 8 ''FCOM'' TYPE_X87 FLAGS_NONE 0,
     entry (OPD_X87 0xD8 0xD8) 8 ''FCOMP'' TYPE_X87 FLAGS_POP 0,
     entry (OPD_X87 0xD8 0xE0) 8 ''FSUB'' TYPE_X87 FLAGS_NONE 0,
     entry (OPD_X87 0xD8 0xE8) 8 ''FSUBR'' TYPE_X87 FLAGS_NONE 0,
     entry (OPD_X87 0xD8 0xF0) 8 ''FDIV'' TYPE_X87 FLAGS_NONE 0,
     entry (OPD_X87 0xD8 0xF8) 8 ''FDIVR'' TYPE_X87 FLAGS_NONE 0,
     entry (OPDReg_X87 0xD9 0) 1 ''FLD'' TYPE_INST FLAGS_MODRM 0,
     entry (OPDReg_X87 0xD9 1) 1 '''' TYPE_INVALID FLAGS_NONE 0,
     entry (OPDReg_X87 0xD9 2) 1 ''FST'' TYPE_X87 (FLAGS_MODRM OR FLAGS_SF_MOD_DST) 0,
     entry (OPDReg_X87 0xD9 3) 1 ''FSTP'' TYPE_X87 (FLAGS_MODRM OR FLAGS_SF_MOD_DST OR FLAGS_POP) 0,
     entry (OPDReg_X87 0xD9 4) 1 ''FLDENV'' TYPE_X87 FLAGS_MODRM 0,
     entry (OPDReg_X87 0xD9 5) 1 ''FLDCW'' TYPE_X87 ((GenFlagsSameSize SIZE_16BIT) OR FLAGS_MODRM) 0,
     entry (OPDReg_X87 0xD9 6) 1 ''FNSTENV'' TYPE_X87 (FLAGS_MODRM OR FLAGS_SF_MOD_DST) 0,
     entry (OPDReg_X87 0xD9 7) 1 ''FNSTCW'' TYPE_INST ((GenFlagsSameSize SIZE_16BIT) OR FLAGS_MODRM OR FLAGS_SF_MOD_DST) 0,
     entry (OPD_X87 0xD9 0xC0) 8 ''FLD'' TYPE_INST FLAGS_NONE 0,
     entry (OPD_X87 0xD9 0xC8) 8 ''FXCH'' TYPE_X87 FLAGS_NONE 0,
     entry (OPD_X87 0xD9 0xD0) 1 ''FNOP'' TYPE_X87 FLAGS_NONE 0,
     entry (OPD_X87 0xD9 0xD1) 7 '''' TYPE_INVALID FLAGS_NONE 0,
     entry (OPD_X87 0xD9 0xD8) 8 '''' TYPE_INVALID FLAGS_NONE 0,
     entry (OPD_X87 0xD9 0xE0) 1 ''FCHS'' TYPE_X87 FLAGS_NONE 0,
     entry (OPD_X87 0xD9 0xE1) 1 ''FABS'' TYPE_X87 FLAGS_NONE 0,
     entry (OPD_X87 0xD9 0xE2) 2 '''' TYPE_INVALID FLAGS_NONE 0,
     entry (OPD_X87 0xD9 0xE4) 1 ''FTST'' TYPE_X87 FLAGS_NONE 0,
     entry (OPD_X87 0xD9 0xE5) 1 ''FXAM'' TYPE_INST FLAGS_NONE 0,
     entry (OPD_X87 0xD9 0xE6) 2 '''' TYPE_INVALID FLAGS_NONE 0,
     entry (OPD_X87 0xD9 0xE8) 1 ''FLD1'' TYPE_X87 FLAGS_NONE 0,
     entry (OPD_X87 0xD9 0xE9) 1 ''FLDL2T'' TYPE_X87 FLAGS_NONE 0,
     entry (OPD_X87 0xD9 0xEA) 1 ''FLDL2E'' TYPE_X87 FLAGS_NONE 0,
     entry (OPD_X87 0xD9 0xEB) 1 ''FLDPI'' TYPE_X87 FLAGS_NONE 0,
     entry (OPD_X87 0xD9 0xEC) 1 ''FLDLG2'' TYPE_X87 FLAGS_NONE 0,
     entry (OPD_X87 0xD9 0xED) 1 ''FLDLN2'' TYPE_X87 FLAGS_NONE 0,
     entry (OPD_X87 0xD9 0xEE) 1 ''FLDZ'' TYPE_X87 FLAGS_NONE 0,
     entry (OPD_X87 0xD9 0xEF) 1 '''' TYPE_INVALID FLAGS_NONE 0,
     entry (OPD_X87 0xD9 0xF0) 1 ''F2XM1'' TYPE_X87 FLAGS_NONE 0,
     entry (OPD_X87 0xD9 0xF1) 1 ''FYL2X'' TYPE_X87 FLAGS_NONE 0,
     entry (OPD_X87 0xD9 0xF2) 1 ''FPTAN'' TYPE_X87 FLAGS_NONE 0,
     entry (OPD_X87 0xD9 0xF3) 1 ''FPATAN'' TYPE_X87 FLAGS_NONE 0,
     entry (OPD_X87 0xD9 0xF4) 1 ''FXTRACT'' TYPE_X87 FLAGS_NONE 0,
     entry (OPD_X87 0xD9 0xF5) 1 ''FPREM1'' TYPE_X87 FLAGS_NONE 0,
     entry (OPD_X87 0xD9 0xF6) 1 ''FDECSTP'' TYPE_X87 FLAGS_POP 0,
     entry (OPD_X87 0xD9 0xF7) 1 ''FINCSTP'' TYPE_X87 FLAGS_POP 0,
     entry (OPD_X87 0xD9 0xF8) 1 ''FPREM'' TYPE_X87 FLAGS_NONE 0,
     entry (OPD_X87 0xD9 0xF9) 1 ''FYL2XP1'' TYPE_X87 FLAGS_NONE 0,
     entry (OPD_X87 0xD9 0xFA) 1 ''FSQRT'' TYPE_X87 FLAGS_NONE 0,
     entry (OPD_X87 0xD9 0xFB) 1 ''FSINCOS'' TYPE_X87 FLAGS_NONE 0,
     entry (OPD_X87 0xD9 0xFC) 1 ''FRNDINT'' TYPE_X87 FLAGS_NONE 0,
     entry (OPD_X87 0xD9 0xFD) 1 ''FSCALE'' TYPE_X87 FLAGS_NONE 0,
     entry (OPD_X87 0xD9 0xFE) 1 ''FSIN'' TYPE_X87 FLAGS_NONE 0,
     entry (OPD_X87 0xD9 0xFF) 1 ''FCOS'' TYPE_X87 FLAGS_NONE 0,
     entry (OPDReg_X87 0xDA 0) 1 ''FIADD'' TYPE_X87 ((GenFlagsSrcSize SIZE_32BIT) OR FLAGS_MODRM) 0,
     entry (OPDReg_X87 0xDA 1) 1 ''FIMUL'' TYPE_X87 ((GenFlagsSrcSize SIZE_32BIT) OR FLAGS_MODRM) 0,
     entry (OPDReg_X87 0xDA 2) 1 ''FICOM'' TYPE_X87 ((GenFlagsSrcSize SIZE_32BIT) OR FLAGS_MODRM) 0,
     entry (OPDReg_X87 0xDA 3) 1 ''FICOMP'' TYPE_X87 ((GenFlagsSrcSize SIZE_32BIT) OR FLAGS_MODRM OR FLAGS_POP) 0,
     entry (OPDReg_X87 0xDA 4) 1 ''FISUB'' TYPE_X87 ((GenFlagsSrcSize SIZE_32BIT) OR FLAGS_MODRM) 0,
     entry (OPDReg_X87 0xDA 5) 1 ''FISUBR'' TYPE_X87 ((GenFlagsSrcSize SIZE_32BIT) OR FLAGS_MODRM) 0,
     entry (OPDReg_X87 0xDA 6) 1 ''FIDIV'' TYPE_X87 ((GenFlagsSrcSize SIZE_32BIT) OR FLAGS_MODRM) 0,
     entry (OPDReg_X87 0xDA 7) 1 ''FIDIVR'' TYPE_X87 ((GenFlagsSrcSize SIZE_32BIT) OR FLAGS_MODRM) 0,
     entry (OPD_X87 0xDA 0xC0) 8 ''FCMOVB'' TYPE_X87 FLAGS_NONE 0,
     entry (OPD_X87 0xDA 0xC8) 8 ''FCMOVE'' TYPE_X87 FLAGS_NONE 0,
     entry (OPD_X87 0xDA 0xD0) 8 ''FCMOVBE'' TYPE_X87 FLAGS_NONE 0,
     entry (OPD_X87 0xDA 0xD8) 8 ''FCMOVU'' TYPE_X87 FLAGS_NONE 0,
     entry (OPD_X87 0xDA 0xE0) 8 '''' TYPE_INVALID FLAGS_NONE 0,
     entry (OPD_X87 0xDA 0xE8) 1 '''' TYPE_INVALID FLAGS_NONE 0,
     entry (OPD_X87 0xDA 0xE9) 1 ''FUCOMPP'' TYPE_X87 FLAGS_POP 0,
     entry (OPD_X87 0xDA 0xEA) 6 '''' TYPE_INVALID FLAGS_NONE 0,
     entry (OPD_X87 0xDA 0xF0) 8 '''' TYPE_INVALID FLAGS_NONE 0,
     entry (OPD_X87 0xDA 0xF8) 8 '''' TYPE_INVALID FLAGS_NONE 0,
     entry (OPDReg_X87 0xDB 0) 1 ''FILD'' TYPE_X87 ((GenFlagsSrcSize SIZE_32BIT) OR FLAGS_MODRM) 0,
     entry (OPDReg_X87 0xDB 1) 1 ''FISTTP'' TYPE_X87 ((GenFlagsSrcSize SIZE_32BIT) OR FLAGS_MODRM OR FLAGS_SF_MOD_DST OR FLAGS_POP) 0,
     entry (OPDReg_X87 0xDB 2) 1 ''FIST'' TYPE_X87 ((GenFlagsSrcSize SIZE_32BIT) OR FLAGS_MODRM OR FLAGS_SF_MOD_DST) 0,
     entry (OPDReg_X87 0xDB 3) 1 ''FISTP'' TYPE_X87 ((GenFlagsSrcSize SIZE_32BIT) OR FLAGS_MODRM OR FLAGS_SF_MOD_DST OR FLAGS_POP) 0,
     entry (OPDReg_X87 0xDB 4) 1 '''' TYPE_INVALID FLAGS_NONE 0,
     entry (OPDReg_X87 0xDB 5) 1 ''FLD'' TYPE_X87 FLAGS_MODRM 0,
     entry (OPDReg_X87 0xDB 6) 1 '''' TYPE_INVALID FLAGS_NONE 0,
     entry (OPDReg_X87 0xDB 7) 1 ''FSTP'' TYPE_X87 (FLAGS_MODRM OR FLAGS_SF_MOD_DST OR FLAGS_POP) 0,
     entry (OPD_X87 0xDB 0xC0) 8 ''FCMOVNB'' TYPE_X87 FLAGS_NONE 0,
     entry (OPD_X87 0xDB 0xC8) 8 ''FCMOVNE'' TYPE_X87 FLAGS_NONE 0,
     entry (OPD_X87 0xDB 0xD0) 8 ''FCMOVNBE'' TYPE_X87 FLAGS_NONE 0,
     entry (OPD_X87 0xDB 0xD8) 8 ''FCMOVNU'' TYPE_X87 FLAGS_NONE 0,
     entry (OPD_X87 0xDB 0xE0) 2 '''' TYPE_INVALID FLAGS_NONE 0,
     entry (OPD_X87 0xDB 0xE2) 1 ''FNCLEX'' TYPE_X87 FLAGS_NONE 0,
     entry (OPD_X87 0xDB 0xE3) 1 ''FNINIT'' TYPE_X87 FLAGS_NONE 0,
     entry (OPD_X87 0xDB 0xE4) 4 '''' TYPE_INVALID FLAGS_NONE 0,
     entry (OPD_X87 0xDB 0xE8) 8 ''FUCOMI'' TYPE_INST FLAGS_NONE 0,
     entry (OPD_X87 0xDB 0xF0) 8 ''FCOMI'' TYPE_X87 FLAGS_NONE 0,
     entry (OPD_X87 0xDB 0xF8) 8 '''' TYPE_INVALID FLAGS_NONE 0,
     entry (OPDReg_X87 0xDC 0) 1 ''FADD'' TYPE_X87 ((GenFlagsSrcSize SIZE_64BIT) OR FLAGS_MODRM OR FLAGS_X87_FLAGS) 0,
     entry (OPDReg_X87 0xDC 1) 1 ''FMUL'' TYPE_X87 ((GenFlagsSrcSize SIZE_64BIT) OR FLAGS_MODRM OR FLAGS_X87_FLAGS) 0,
     entry (OPDReg_X87 0xDC 2) 1 ''FCOM'' TYPE_X87 ((GenFlagsSrcSize SIZE_64BIT) OR FLAGS_MODRM OR FLAGS_X87_FLAGS) 0,
     entry (OPDReg_X87 0xDC 3) 1 ''FCOMP'' TYPE_X87 ((GenFlagsSrcSize SIZE_64BIT) OR FLAGS_MODRM OR FLAGS_X87_FLAGS OR FLAGS_POP) 0,
     entry (OPDReg_X87 0xDC 4) 1 ''FSUB'' TYPE_X87 ((GenFlagsSrcSize SIZE_64BIT) OR FLAGS_MODRM OR FLAGS_X87_FLAGS) 0,
     entry (OPDReg_X87 0xDC 5) 1 ''FSUBR'' TYPE_X87 ((GenFlagsSrcSize SIZE_64BIT) OR FLAGS_MODRM OR FLAGS_X87_FLAGS) 0,
     entry (OPDReg_X87 0xDC 6) 1 ''FDIV'' TYPE_X87 ((GenFlagsSrcSize SIZE_64BIT) OR FLAGS_MODRM OR FLAGS_X87_FLAGS) 0,
     entry (OPDReg_X87 0xDC 7) 1 ''FDIVR'' TYPE_X87 ((GenFlagsSrcSize SIZE_64BIT) OR FLAGS_MODRM OR FLAGS_X87_FLAGS) 0,
     entry (OPD_X87 0xDC 0xC0) 8 ''FADD'' TYPE_X87 FLAGS_NONE 0,
     entry (OPD_X87 0xDC 0xC8) 8 ''FMUL'' TYPE_X87 FLAGS_NONE 0,
     entry (OPD_X87 0xDC 0xD0) 8 ''FCOM'' TYPE_X87 FLAGS_X87_FLAGS 0,
     entry (OPD_X87 0xDC 0xD8) 8 ''FCOMP'' TYPE_X87 (FLAGS_X87_FLAGS OR FLAGS_POP) 0,
     entry (OPD_X87 0xDC 0xE0) 8 ''FSUBR'' TYPE_X87 FLAGS_NONE 0]"

definition X87OpTable_2 :: "X86TablesInfoStruct list" where
  "X87OpTable_2 =
    [entry (OPD_X87 0xDC 0xE8) 8 ''FSUB'' TYPE_X87 FLAGS_NONE 0,
     entry (OPD_X87 0xDC 0xF0) 8 ''FDIVR'' TYPE_X87 FLAGS_NONE 0,
     entry (OPD_X87 0xDC 0xF8) 8 ''FDIV'' TYPE_X87 FLAGS_NONE 0,
     entry (OPDReg_X87 0xDD 0) 1 ''FLD'' TYPE_X87 FLAGS_MODRM 0,
     entry (OPDReg_X87 0xDD 1) 1 ''FISTTP'' TYPE_X87 ((GenFlagsSrcSize SIZE_64BIT) OR FLAGS_MODRM OR FLAGS_X87_FLAGS OR FLAGS_SF_MOD_DST OR FLAGS_POP) 0,
     entry (OPDReg_X87 0xDD 2) 1 ''FST'' TYPE_X87 (FLAGS_MODRM OR FLAGS_SF_MOD_DST) 0,
     entry (OPDReg_X87 0xDD 3) 1 ''FSTP'' TYPE_X87 (FLAGS_MODRM OR FLAGS_SF_MOD_DST OR FLAGS_POP) 0,
     entry (OPDReg_X87 0xDD 4) 1 ''FRSTOR'' TYPE_X87 FLAGS_MODRM 0,
     entry (OPDReg_X87 0xDD 5) 1 '''' TYPE_INVALID FLAGS_NONE 0,
     entry (OPDReg_X87 0xDD 6) 1 ''FNSAVE'' TYPE_X87 (FLAGS_MODRM OR FLAGS_SF_MOD_DST) 0,
     entry (OPDReg_X87 0xDD 7) 1 ''FNSTSW'' TYPE_X87 ((GenFlagsSameSize SIZE_16BIT) OR FLAGS_MODRM OR FLAGS_SF_MOD_DST) 0,
     entry (OPD_X87 0xDD 0xC0) 8 ''FFREE'' TYPE_X87 FLAGS_NONE 0,
     entry (OPD_X87 0xDD 0xC8) 8 ''FXCH'' TYPE_X87 FLAGS_NONE 0,
     entry (OPD_X87 0xDD 0xD0) 8 ''FST'' TYPE_INST FLAGS_SF_MOD_DST 0,
     entry (OPD_X87 0xDD 0xD8) 8 ''FSTP'' TYPE_X87 (FLAGS_SF_MOD_DST OR FLAGS_POP) 0,
     entry (OPD_X87 0xDD 0xE0) 8 ''FUCOM'' TYPE_X87 FLAGS_NONE 0,
     entry (OPD_X87 0xDD 0xE8) 8 ''FUCOMP'' TYPE_X87 FLAGS_POP 0,
     entry (OPD_X87 0xDD 0xF0) 8 '''' TYPE_INVALID FLAGS_NONE 0,
     entry (OPD_X87 0xDD 0xF8) 8 '''' TYPE_INVALID FLAGS_NONE 0,
     entry (OPDReg_X87 0xDE 0) 1 ''FIADD'' TYPE_X87 ((GenFlagsSrcSize SIZE_16BIT) OR FLAGS_MODRM) 0,
     entry (OPDReg_X87 0xDE 1) 1 ''FIMUL'' TYPE_X87 ((GenFlagsSrcSize SIZE_16BIT) OR FLAGS_MODRM) 0,
     entry (OPDReg_X87 0xDE 2) 1 ''FICOM'' TYPE_X87 ((GenFlagsSrcSize SIZE_16BIT) OR FLAGS_MODRM) 0,
     entry (OPDReg_X87 0xDE 3) 1 ''FICOMP'' TYPE_X87 ((GenFlagsSrcSize SIZE_16BIT) OR FLAGS_MODRM OR FLAGS_POP) 0,
     entry (OPDReg_X87 0xDE 4) 1 ''FISUB'' TYPE_X87 ((GenFlagsSrcSize SIZE_16BIT) OR FLAGS_MODRM) 0,
     entry (OPDReg_X87 0xDE 5) 1 ''FISUBR'' TYPE_X87 ((GenFlagsSrcSize SIZE_16BIT) OR FLAGS_MODRM) 0,
     entry (OPDReg_X87 0xDE 6) 1 ''FIDIV'' TYPE_X87 ((GenFlagsSrcSize SIZE_16BIT) OR FLAGS_MODRM) 0,
     entry (OPDReg_X87 0xDE 7) 1 ''FIDIVR'' TYPE_X87 ((GenFlagsSrcSize SIZE_16BIT) OR FLAGS_MODRM) 0,
     entry (OPD_X87 0xDE 0xC0) 8 ''FADDP'' TYPE_X87 FLAGS_POP 0,
     entry (OPD_X87 0xDE 0xC8) 8 ''FMULP'' TYPE_X87 FLAGS_POP 0,
     entry (OPD_X87 0xDE 0xD0) 8 ''FCOMP'' TYPE_X87 (FLAGS_X87_FLAGS OR FLAGS_POP) 0,
     entry (OPD_X87 0xDE 0xD8) 1 '''' TYPE_INVALID FLAGS_NONE 0,
     entry (OPD_X87 0xDE 0xD9) 1 ''FCOMPP'' TYPE_X87 FLAGS_POP 0,
     entry (OPD_X87 0xDE 0xDA) 6 '''' TYPE_INVALID FLAGS_NONE 0,
     entry (OPD_X87 0xDE 0xE0) 8 ''FSUBRP'' TYPE_X87 FLAGS_POP 0,
     entry (OPD_X87 0xDE 0xE8) 8 ''FSUBP'' TYPE_X87 FLAGS_POP 0,
     entry (OPD_X87 0xDE 0xF0) 8 ''FDIVRP'' TYPE_X87 FLAGS_POP 0,
     entry (OPD_X87 0xDE 0xF8) 8 ''FDIVP'' TYPE_X87 FLAGS_POP 0,
     entry (OPDReg_X87 0xDF 0) 1 ''FILD'' TYPE_X87 ((GenFlagsSrcSize SIZE_16BIT) OR FLAGS_MODRM) 0,
     entry (OPDReg_X87 0xDF 1) 1 ''FISTTP'' TYPE_X87 ((GenFlagsSrcSize SIZE_16BIT) OR FLAGS_MODRM OR FLAGS_SF_MOD_DST OR FLAGS_POP) 0,
     entry (OPDReg_X87 0xDF 2) 1 ''FIST'' TYPE_X87 ((GenFlagsSrcSize SIZE_16BIT) OR FLAGS_MODRM OR FLAGS_SF_MOD_DST) 0,
     entry (OPDReg_X87 0xDF 3) 1 ''FISTP'' TYPE_X87 ((GenFlagsSrcSize SIZE_16BIT) OR FLAGS_MODRM OR FLAGS_SF_MOD_DST OR FLAGS_POP) 0,
     entry (OPDReg_X87 0xDF 4) 1 ''FBLD'' TYPE_X87 FLAGS_MODRM 0,
     entry (OPDReg_X87 0xDF 5) 1 ''FILD'' TYPE_X87 ((GenFlagsSrcSize SIZE_64BIT) OR FLAGS_MODRM OR FLAGS_X87_FLAGS) 0,
     entry (OPDReg_X87 0xDF 6) 1 ''FBSTP'' TYPE_X87 (FLAGS_MODRM OR FLAGS_SF_MOD_DST OR FLAGS_POP) 0,
     entry (OPDReg_X87 0xDF 7) 1 ''FISTP'' TYPE_X87 ((GenFlagsSrcSize SIZE_64BIT) OR FLAGS_MODRM OR FLAGS_X87_FLAGS OR FLAGS_SF_MOD_DST OR FLAGS_POP) 0,
     entry (OPD_X87 0xDF 0xC0) 8 ''FFREEP'' TYPE_X87 FLAGS_POP 0,
     entry (OPD_X87 0xDF 0xC8) 8 ''FXCH'' TYPE_X87 FLAGS_NONE 0,
     entry (OPD_X87 0xDF 0xD0) 8 ''FSTP'' TYPE_X87 (FLAGS_SF_MOD_DST OR FLAGS_POP) 0,
     entry (OPD_X87 0xDF 0xD8) 8 ''FSTP'' TYPE_X87 (FLAGS_SF_MOD_DST OR FLAGS_POP) 0,
     entry (OPD_X87 0xDF 0xE0) 1 ''FNSTSW'' TYPE_INST ((GenFlagsSameSize SIZE_16BIT) OR FLAGS_SF_DST_RAX) 0,
     entry (OPD_X87 0xDF 0xE1) 7 '''' TYPE_INVALID FLAGS_NONE 0,
     entry (OPD_X87 0xDF 0xE8) 8 ''FUCOMIP'' TYPE_INST FLAGS_POP 0,
     entry (OPD_X87 0xDF 0xF0) 8 ''FCOMIP'' TYPE_X87 FLAGS_POP 0,
     entry (OPD_X87 0xDF 0xF8) 8 '''' TYPE_INVALID FLAGS_NONE 0]"

definition X87OpTable :: "X86TablesInfoStruct list" where
  "X87OpTable = X87OpTable_1 @ X87OpTable_2"

definition X87F80OpTable_1 :: "DispatchTableEntry list" where
  "X87F80OpTable_1 =
    [dispatch ((OPDReg_repeat 0xD8 0) OR 0x00) 8 (Bind ''FADD'' [''i32Bit'', ''false'', ''RES_ST0'']),
     dispatch ((OPDReg_repeat 0xD8 1) OR 0x00) 8 (Bind ''FMUL'' [''i32Bit'', ''false'', ''RES_ST0'']),
     dispatch ((OPDReg_repeat 0xD8 2) OR 0x00) 8 (Bind ''FCOMI'' [''i32Bit'', ''false'', ''FLAGS_X87'', ''false'']),
     dispatch ((OPDReg_repeat 0xD8 3) OR 0x00) 8 (Bind ''FCOMI'' [''i32Bit'', ''false'', ''FLAGS_X87'', ''false'']),
     dispatch ((OPDReg_repeat 0xD8 4) OR 0x00) 8 (Bind ''FSUB'' [''i32Bit'', ''false'', ''false'', ''RES_ST0'']),
     dispatch ((OPDReg_repeat 0xD8 5) OR 0x00) 8 (Bind ''FSUB'' [''i32Bit'', ''false'', ''true'', ''RES_ST0'']),
     dispatch ((OPDReg_repeat 0xD8 6) OR 0x00) 8 (Bind ''FDIV'' [''i32Bit'', ''false'', ''false'', ''RES_ST0'']),
     dispatch ((OPDReg_repeat 0xD8 7) OR 0x00) 8 (Bind ''FDIV'' [''i32Bit'', ''false'', ''true'', ''RES_ST0'']),
     dispatch (OPD_X87 0xD8 0xC0) 8 (Bind ''FADD'' [''f80Bit'', ''false'', ''RES_ST0'']),
     dispatch (OPD_X87 0xD8 0xC8) 8 (Bind ''FMUL'' [''f80Bit'', ''false'', ''RES_ST0'']),
     dispatch (OPD_X87 0xD8 0xD0) 8 (Bind ''FCOMI'' [''f80Bit'', ''false'', ''FLAGS_X87'', ''false'']),
     dispatch (OPD_X87 0xD8 0xD8) 8 (Bind ''FCOMI'' [''f80Bit'', ''false'', ''FLAGS_X87'', ''false'']),
     dispatch (OPD_X87 0xD8 0xE0) 8 (Bind ''FSUB'' [''f80Bit'', ''false'', ''false'', ''RES_ST0'']),
     dispatch (OPD_X87 0xD8 0xE8) 8 (Bind ''FSUB'' [''f80Bit'', ''false'', ''true'', ''RES_ST0'']),
     dispatch (OPD_X87 0xD8 0xF0) 8 (Bind ''FDIV'' [''f80Bit'', ''false'', ''false'', ''RES_ST0'']),
     dispatch (OPD_X87 0xD8 0xF8) 8 (Bind ''FDIV'' [''f80Bit'', ''false'', ''true'', ''RES_ST0'']),
     dispatch ((OPDReg_repeat 0xD9 0) OR 0x00) 8 (Bind ''FLD'' [''i32Bit'']),
     dispatch ((OPDReg_repeat 0xD9 2) OR 0x00) 8 (Bind ''FST'' [''i32Bit'']),
     dispatch ((OPDReg_repeat 0xD9 3) OR 0x00) 8 (Bind ''FST'' [''i32Bit'']),
     dispatch ((OPDReg_repeat 0xD9 4) OR 0x00) 8 (Handler ''X87LDENV''),
     dispatch ((OPDReg_repeat 0xD9 5) OR 0x00) 8 (Handler ''X87FLDCW''),
     dispatch ((OPDReg_repeat 0xD9 6) OR 0x00) 8 (Handler ''X87FNSTENV''),
     dispatch ((OPDReg_repeat 0xD9 7) OR 0x00) 8 (Handler ''X87FSTCW''),
     dispatch (OPD_X87 0xD9 0xC0) 8 (Bind ''FLDFromStack'' []),
     dispatch (OPD_X87 0xD9 0xC8) 8 (Handler ''FXCH''),
     dispatch (OPD_X87 0xD9 0xD0) 1 (Handler ''NOPOp''),
     dispatch (OPD_X87 0xD9 0xE0) 1 (Bind ''X87OpHelper'' [''OP_F80STACKCHANGESIGN'', ''false'']),
     dispatch (OPD_X87 0xD9 0xE1) 1 (Bind ''X87OpHelper'' [''OP_F80STACKABS'', ''false'']),
     dispatch (OPD_X87 0xD9 0xE4) 1 (Handler ''FTST''),
     dispatch (OPD_X87 0xD9 0xE5) 1 (Handler ''X87FXAM''),
     dispatch (OPD_X87 0xD9 0xE8) 1 (Bind ''FLD_Const'' [''NAMED_VECTOR_X87_ONE'']),
     dispatch (OPD_X87 0xD9 0xE9) 1 (Bind ''FLD_Const'' [''NAMED_VECTOR_X87_LOG2_10'']),
     dispatch (OPD_X87 0xD9 0xEA) 1 (Bind ''FLD_Const'' [''NAMED_VECTOR_X87_LOG2_E'']),
     dispatch (OPD_X87 0xD9 0xEB) 1 (Bind ''FLD_Const'' [''NAMED_VECTOR_X87_PI'']),
     dispatch (OPD_X87 0xD9 0xEC) 1 (Bind ''FLD_Const'' [''NAMED_VECTOR_X87_LOG10_2'']),
     dispatch (OPD_X87 0xD9 0xED) 1 (Bind ''FLD_Const'' [''NAMED_VECTOR_X87_LOG_2'']),
     dispatch (OPD_X87 0xD9 0xEE) 1 (Bind ''FLD_Const'' [''NAMED_VECTOR_ZERO'']),
     dispatch (OPD_X87 0xD9 0xF0) 1 (Bind ''X87OpHelper'' [''OP_F80F2XM1STACK'', ''false'']),
     dispatch (OPD_X87 0xD9 0xF1) 1 (Bind ''X87FYL2X'' [''false'']),
     dispatch (OPD_X87 0xD9 0xF2) 1 (Bind ''X87OpHelper'' [''OP_F80PTANSTACK'', ''true'']),
     dispatch (OPD_X87 0xD9 0xF3) 1 (Bind ''X87OpHelper'' [''OP_F80ATANSTACK'', ''false'']),
     dispatch (OPD_X87 0xD9 0xF4) 1 (Handler ''X87FXTRACT''),
     dispatch (OPD_X87 0xD9 0xF5) 1 (Bind ''X87OpHelper'' [''OP_F80FPREM1STACK'', ''true'']),
     dispatch (OPD_X87 0xD9 0xF6) 1 (Bind ''X87ModifySTP'' [''false'']),
     dispatch (OPD_X87 0xD9 0xF7) 1 (Bind ''X87ModifySTP'' [''true'']),
     dispatch (OPD_X87 0xD9 0xF8) 1 (Bind ''X87OpHelper'' [''OP_F80FPREMSTACK'', ''true'']),
     dispatch (OPD_X87 0xD9 0xF9) 1 (Bind ''X87FYL2X'' [''true'']),
     dispatch (OPD_X87 0xD9 0xFA) 1 (Bind ''X87OpHelper'' [''OP_F80SQRTSTACK'', ''false'']),
     dispatch (OPD_X87 0xD9 0xFB) 1 (Bind ''X87OpHelper'' [''OP_F80SINCOSSTACK'', ''true'']),
     dispatch (OPD_X87 0xD9 0xFC) 1 (Bind ''X87OpHelper'' [''OP_F80ROUNDSTACK'', ''false'']),
     dispatch (OPD_X87 0xD9 0xFD) 1 (Bind ''X87OpHelper'' [''OP_F80SCALESTACK'', ''false'']),
     dispatch (OPD_X87 0xD9 0xFE) 1 (Bind ''X87OpHelper'' [''OP_F80SINSTACK'', ''true'']),
     dispatch (OPD_X87 0xD9 0xFF) 1 (Bind ''X87OpHelper'' [''OP_F80COSSTACK'', ''true'']),
     dispatch ((OPDReg_repeat 0xDA 0) OR 0x00) 8 (Bind ''FADD'' [''i32Bit'', ''true'', ''RES_ST0'']),
     dispatch ((OPDReg_repeat 0xDA 1) OR 0x00) 8 (Bind ''FMUL'' [''i32Bit'', ''true'', ''RES_ST0'']),
     dispatch ((OPDReg_repeat 0xDA 2) OR 0x00) 8 (Bind ''FCOMI'' [''i32Bit'', ''true'', ''FLAGS_X87'', ''false'']),
     dispatch ((OPDReg_repeat 0xDA 3) OR 0x00) 8 (Bind ''FCOMI'' [''i32Bit'', ''true'', ''FLAGS_X87'', ''false'']),
     dispatch ((OPDReg_repeat 0xDA 4) OR 0x00) 8 (Bind ''FSUB'' [''i32Bit'', ''true'', ''false'', ''RES_ST0'']),
     dispatch ((OPDReg_repeat 0xDA 5) OR 0x00) 8 (Bind ''FSUB'' [''i32Bit'', ''true'', ''true'', ''RES_ST0'']),
     dispatch ((OPDReg_repeat 0xDA 6) OR 0x00) 8 (Bind ''FDIV'' [''i32Bit'', ''true'', ''false'', ''RES_ST0'']),
     dispatch ((OPDReg_repeat 0xDA 7) OR 0x00) 8 (Bind ''FDIV'' [''i32Bit'', ''true'', ''true'', ''RES_ST0'']),
     dispatch (OPD_X87 0xDA 0xC0) 8 (Handler ''X87FCMOV''),
     dispatch (OPD_X87 0xDA 0xC8) 8 (Handler ''X87FCMOV''),
     dispatch (OPD_X87 0xDA 0xD0) 8 (Handler ''X87FCMOV''),
     dispatch (OPD_X87 0xDA 0xD8) 8 (Handler ''X87FCMOV''),
     dispatch (OPD_X87 0xDA 0xE9) 1 (Bind ''FCOMI'' [''f80Bit'', ''false'', ''FLAGS_X87'', ''true'']),
     dispatch ((OPDReg_repeat 0xDB 0) OR 0x00) 8 (Handler ''FILD''),
     dispatch ((OPDReg_repeat 0xDB 1) OR 0x00) 8 (Bind ''FIST'' [''true'']),
     dispatch ((OPDReg_repeat 0xDB 2) OR 0x00) 8 (Bind ''FIST'' [''false'']),
     dispatch ((OPDReg_repeat 0xDB 3) OR 0x00) 8 (Bind ''FIST'' [''false'']),
     dispatch ((OPDReg_repeat 0xDB 5) OR 0x00) 8 (Bind ''FLD'' [''f80Bit'']),
     dispatch ((OPDReg_repeat 0xDB 7) OR 0x00) 8 (Bind ''FST'' [''f80Bit'']),
     dispatch (OPD_X87 0xDB 0xC0) 8 (Handler ''X87FCMOV''),
     dispatch (OPD_X87 0xDB 0xC8) 8 (Handler ''X87FCMOV''),
     dispatch (OPD_X87 0xDB 0xD0) 8 (Handler ''X87FCMOV''),
     dispatch (OPD_X87 0xDB 0xD8) 8 (Handler ''X87FCMOV''),
     dispatch (OPD_X87 0xDB 0xE2) 1 (Handler ''FNCLEX''),
     dispatch (OPD_X87 0xDB 0xE3) 1 (Handler ''FNINIT''),
     dispatch (OPD_X87 0xDB 0xE8) 8 (Bind ''FCOMI'' [''f80Bit'', ''false'', ''FLAGS_RFLAGS'', ''false'']),
     dispatch (OPD_X87 0xDB 0xF0) 8 (Bind ''FCOMI'' [''f80Bit'', ''false'', ''FLAGS_RFLAGS'', ''false'']),
     dispatch ((OPDReg_repeat 0xDC 0) OR 0x00) 8 (Bind ''FADD'' [''i64Bit'', ''false'', ''RES_ST0'']),
     dispatch ((OPDReg_repeat 0xDC 1) OR 0x00) 8 (Bind ''FMUL'' [''i64Bit'', ''false'', ''RES_ST0''])]"

definition X87F80OpTable_2 :: "DispatchTableEntry list" where
  "X87F80OpTable_2 =
    [dispatch ((OPDReg_repeat 0xDC 2) OR 0x00) 8 (Bind ''FCOMI'' [''i64Bit'', ''false'', ''FLAGS_X87'', ''false'']),
     dispatch ((OPDReg_repeat 0xDC 3) OR 0x00) 8 (Bind ''FCOMI'' [''i64Bit'', ''false'', ''FLAGS_X87'', ''false'']),
     dispatch ((OPDReg_repeat 0xDC 4) OR 0x00) 8 (Bind ''FSUB'' [''i64Bit'', ''false'', ''false'', ''RES_ST0'']),
     dispatch ((OPDReg_repeat 0xDC 5) OR 0x00) 8 (Bind ''FSUB'' [''i64Bit'', ''false'', ''true'', ''RES_ST0'']),
     dispatch ((OPDReg_repeat 0xDC 6) OR 0x00) 8 (Bind ''FDIV'' [''i64Bit'', ''false'', ''false'', ''RES_ST0'']),
     dispatch ((OPDReg_repeat 0xDC 7) OR 0x00) 8 (Bind ''FDIV'' [''i64Bit'', ''false'', ''true'', ''RES_ST0'']),
     dispatch (OPD_X87 0xDC 0xC0) 8 (Bind ''FADD'' [''f80Bit'', ''false'', ''RES_STI'']),
     dispatch (OPD_X87 0xDC 0xC8) 8 (Bind ''FMUL'' [''f80Bit'', ''false'', ''RES_STI'']),
     dispatch (OPD_X87 0xDC 0xD0) 8 (Bind ''FCOMI'' [''f80Bit'', ''false'', ''FLAGS_X87'', ''false'']),
     dispatch (OPD_X87 0xDC 0xD8) 8 (Bind ''FCOMI'' [''f80Bit'', ''false'', ''FLAGS_X87'', ''false'']),
     dispatch (OPD_X87 0xDC 0xE0) 8 (Bind ''FSUB'' [''f80Bit'', ''false'', ''true'', ''RES_STI'']),
     dispatch (OPD_X87 0xDC 0xE8) 8 (Bind ''FSUB'' [''f80Bit'', ''false'', ''false'', ''RES_STI'']),
     dispatch (OPD_X87 0xDC 0xF0) 8 (Bind ''FDIV'' [''f80Bit'', ''false'', ''true'', ''RES_STI'']),
     dispatch (OPD_X87 0xDC 0xF8) 8 (Bind ''FDIV'' [''f80Bit'', ''false'', ''false'', ''RES_STI'']),
     dispatch ((OPDReg_repeat 0xDD 0) OR 0x00) 8 (Bind ''FLD'' [''i64Bit'']),
     dispatch ((OPDReg_repeat 0xDD 1) OR 0x00) 8 (Bind ''FIST'' [''true'']),
     dispatch ((OPDReg_repeat 0xDD 2) OR 0x00) 8 (Bind ''FST'' [''i64Bit'']),
     dispatch ((OPDReg_repeat 0xDD 3) OR 0x00) 8 (Bind ''FST'' [''i64Bit'']),
     dispatch ((OPDReg_repeat 0xDD 4) OR 0x00) 8 (Handler ''X87FRSTOR''),
     dispatch ((OPDReg_repeat 0xDD 6) OR 0x00) 8 (Handler ''X87FNSAVE''),
     dispatch ((OPDReg_repeat 0xDD 7) OR 0x00) 8 (Handler ''X87FNSTSW''),
     dispatch (OPD_X87 0xDD 0xC0) 8 (Handler ''X87FFREE''),
     dispatch (OPD_X87 0xDD 0xC8) 8 (Handler ''FXCH''),
     dispatch (OPD_X87 0xDD 0xD0) 8 (Bind ''FSTToStack'' []),
     dispatch (OPD_X87 0xDD 0xD8) 8 (Bind ''FSTToStack'' []),
     dispatch (OPD_X87 0xDD 0xE0) 8 (Bind ''FCOMI'' [''f80Bit'', ''false'', ''FLAGS_X87'', ''false'']),
     dispatch (OPD_X87 0xDD 0xE8) 8 (Bind ''FCOMI'' [''f80Bit'', ''false'', ''FLAGS_X87'', ''false'']),
     dispatch ((OPDReg_repeat 0xDE 0) OR 0x00) 8 (Bind ''FADD'' [''i16Bit'', ''true'', ''RES_ST0'']),
     dispatch ((OPDReg_repeat 0xDE 1) OR 0x00) 8 (Bind ''FMUL'' [''i16Bit'', ''true'', ''RES_ST0'']),
     dispatch ((OPDReg_repeat 0xDE 2) OR 0x00) 8 (Bind ''FCOMI'' [''i16Bit'', ''true'', ''FLAGS_X87'', ''false'']),
     dispatch ((OPDReg_repeat 0xDE 3) OR 0x00) 8 (Bind ''FCOMI'' [''i16Bit'', ''true'', ''FLAGS_X87'', ''false'']),
     dispatch ((OPDReg_repeat 0xDE 4) OR 0x00) 8 (Bind ''FSUB'' [''i16Bit'', ''true'', ''false'', ''RES_ST0'']),
     dispatch ((OPDReg_repeat 0xDE 5) OR 0x00) 8 (Bind ''FSUB'' [''i16Bit'', ''true'', ''true'', ''RES_ST0'']),
     dispatch ((OPDReg_repeat 0xDE 6) OR 0x00) 8 (Bind ''FDIV'' [''i16Bit'', ''true'', ''false'', ''RES_ST0'']),
     dispatch ((OPDReg_repeat 0xDE 7) OR 0x00) 8 (Bind ''FDIV'' [''i16Bit'', ''true'', ''true'', ''RES_ST0'']),
     dispatch (OPD_X87 0xDE 0xC0) 8 (Bind ''FADD'' [''f80Bit'', ''false'', ''RES_STI'']),
     dispatch (OPD_X87 0xDE 0xC8) 8 (Bind ''FMUL'' [''f80Bit'', ''false'', ''RES_STI'']),
     dispatch (OPD_X87 0xDE 0xD0) 8 (Bind ''FCOMI'' [''f80Bit'', ''false'', ''FLAGS_X87'', ''false'']),
     dispatch (OPD_X87 0xDE 0xD9) 1 (Bind ''FCOMI'' [''f80Bit'', ''false'', ''FLAGS_X87'', ''true'']),
     dispatch (OPD_X87 0xDE 0xE0) 8 (Bind ''FSUB'' [''f80Bit'', ''false'', ''true'', ''RES_STI'']),
     dispatch (OPD_X87 0xDE 0xE8) 8 (Bind ''FSUB'' [''f80Bit'', ''false'', ''false'', ''RES_STI'']),
     dispatch (OPD_X87 0xDE 0xF0) 8 (Bind ''FDIV'' [''f80Bit'', ''false'', ''true'', ''RES_STI'']),
     dispatch (OPD_X87 0xDE 0xF8) 8 (Bind ''FDIV'' [''f80Bit'', ''false'', ''false'', ''RES_STI'']),
     dispatch ((OPDReg_repeat 0xDF 0) OR 0x00) 8 (Handler ''FILD''),
     dispatch ((OPDReg_repeat 0xDF 1) OR 0x00) 8 (Bind ''FIST'' [''true'']),
     dispatch ((OPDReg_repeat 0xDF 2) OR 0x00) 8 (Bind ''FIST'' [''false'']),
     dispatch ((OPDReg_repeat 0xDF 3) OR 0x00) 8 (Bind ''FIST'' [''false'']),
     dispatch ((OPDReg_repeat 0xDF 4) OR 0x00) 8 (Handler ''FBLD''),
     dispatch ((OPDReg_repeat 0xDF 5) OR 0x00) 8 (Handler ''FILD''),
     dispatch ((OPDReg_repeat 0xDF 6) OR 0x00) 8 (Handler ''FBSTP''),
     dispatch ((OPDReg_repeat 0xDF 7) OR 0x00) 8 (Bind ''FIST'' [''false'']),
     dispatch (OPD_X87 0xDF 0xC0) 8 (Bind ''X87ModifySTP'' [''true'']),
     dispatch (OPD_X87 0xDF 0xC8) 8 (Handler ''FXCH''),
     dispatch (OPD_X87 0xDF 0xD0) 8 (Bind ''FSTToStack'' []),
     dispatch (OPD_X87 0xDF 0xD8) 8 (Bind ''FSTToStack'' []),
     dispatch (OPD_X87 0xDF 0xE0) 8 (Handler ''X87FNSTSW''),
     dispatch (OPD_X87 0xDF 0xE8) 8 (Bind ''FCOMI'' [''f80Bit'', ''false'', ''FLAGS_RFLAGS'', ''false'']),
     dispatch (OPD_X87 0xDF 0xF0) 8 (Bind ''FCOMI'' [''f80Bit'', ''false'', ''FLAGS_RFLAGS'', ''false''])]"

definition X87F80OpTable :: "DispatchTableEntry list" where
  "X87F80OpTable = X87F80OpTable_1 @ X87F80OpTable_2"

definition X87F64OpTable_1 :: "DispatchTableEntry list" where
  "X87F64OpTable_1 =
    [dispatch ((OPDReg_repeat 0xD8 0) OR 0x00) 8 (Bind ''FADDF64'' [''i32Bit'', ''false'', ''RES_ST0'']),
     dispatch ((OPDReg_repeat 0xD8 1) OR 0x00) 8 (Bind ''FMULF64'' [''i32Bit'', ''false'', ''RES_ST0'']),
     dispatch ((OPDReg_repeat 0xD8 2) OR 0x00) 8 (Bind ''FCOMIF64'' [''i32Bit'', ''false'', ''FLAGS_X87'', ''false'']),
     dispatch ((OPDReg_repeat 0xD8 3) OR 0x00) 8 (Bind ''FCOMIF64'' [''i32Bit'', ''false'', ''FLAGS_X87'', ''false'']),
     dispatch ((OPDReg_repeat 0xD8 4) OR 0x00) 8 (Bind ''FSUBF64'' [''i32Bit'', ''false'', ''false'', ''RES_ST0'']),
     dispatch ((OPDReg_repeat 0xD8 5) OR 0x00) 8 (Bind ''FSUBF64'' [''i32Bit'', ''false'', ''true'', ''RES_ST0'']),
     dispatch ((OPDReg_repeat 0xD8 6) OR 0x00) 8 (Bind ''FDIVF64'' [''i32Bit'', ''false'', ''false'', ''RES_ST0'']),
     dispatch ((OPDReg_repeat 0xD8 7) OR 0x00) 8 (Bind ''FDIVF64'' [''i32Bit'', ''false'', ''true'', ''RES_ST0'']),
     dispatch (OPD_X87 0xD8 0xC0) 8 (Bind ''FADDF64'' [''f80Bit'', ''false'', ''RES_ST0'']),
     dispatch (OPD_X87 0xD8 0xC8) 8 (Bind ''FMULF64'' [''f80Bit'', ''false'', ''RES_ST0'']),
     dispatch (OPD_X87 0xD8 0xD0) 8 (Bind ''FCOMIF64'' [''f80Bit'', ''false'', ''FLAGS_X87'', ''false'']),
     dispatch (OPD_X87 0xD8 0xD8) 8 (Bind ''FCOMIF64'' [''f80Bit'', ''false'', ''FLAGS_X87'', ''false'']),
     dispatch (OPD_X87 0xD8 0xE0) 8 (Bind ''FSUBF64'' [''f80Bit'', ''false'', ''false'', ''RES_ST0'']),
     dispatch (OPD_X87 0xD8 0xE8) 8 (Bind ''FSUBF64'' [''f80Bit'', ''false'', ''true'', ''RES_ST0'']),
     dispatch (OPD_X87 0xD8 0xF0) 8 (Bind ''FDIVF64'' [''f80Bit'', ''false'', ''false'', ''RES_ST0'']),
     dispatch (OPD_X87 0xD8 0xF8) 8 (Bind ''FDIVF64'' [''f80Bit'', ''false'', ''true'', ''RES_ST0'']),
     dispatch ((OPDReg_repeat 0xD9 0) OR 0x00) 8 (Bind ''FLDF64'' [''i32Bit'']),
     dispatch ((OPDReg_repeat 0xD9 2) OR 0x00) 8 (Bind ''FST'' [''i32Bit'']),
     dispatch ((OPDReg_repeat 0xD9 3) OR 0x00) 8 (Bind ''FST'' [''i32Bit'']),
     dispatch ((OPDReg_repeat 0xD9 4) OR 0x00) 8 (Handler ''X87LDENVF64''),
     dispatch ((OPDReg_repeat 0xD9 5) OR 0x00) 8 (Handler ''X87FLDCWF64''),
     dispatch ((OPDReg_repeat 0xD9 6) OR 0x00) 8 (Handler ''X87FNSTENV''),
     dispatch ((OPDReg_repeat 0xD9 7) OR 0x00) 8 (Handler ''X87FSTCW''),
     dispatch (OPD_X87 0xD9 0xC0) 8 (Bind ''FLDFromStack'' []),
     dispatch (OPD_X87 0xD9 0xC8) 8 (Handler ''FXCH''),
     dispatch (OPD_X87 0xD9 0xD0) 1 (Handler ''NOPOp''),
     dispatch (OPD_X87 0xD9 0xE0) 1 (Bind ''X87OpHelper'' [''OP_F80STACKCHANGESIGN'', ''false'']),
     dispatch (OPD_X87 0xD9 0xE1) 1 (Bind ''X87OpHelper'' [''OP_F80STACKABS'', ''false'']),
     dispatch (OPD_X87 0xD9 0xE4) 1 (Handler ''FTSTF64''),
     dispatch (OPD_X87 0xD9 0xE5) 1 (Handler ''X87FXAM''),
     dispatch (OPD_X87 0xD9 0xE8) 1 (Bind ''FLDF64_Const'' [''0x3FF0000000000000'']),
     dispatch (OPD_X87 0xD9 0xE9) 1 (Bind ''FLDF64_Const'' [''0x400A934F0979A372'']),
     dispatch (OPD_X87 0xD9 0xEA) 1 (Bind ''FLDF64_Const'' [''0x3FF71547652B82FE'']),
     dispatch (OPD_X87 0xD9 0xEB) 1 (Bind ''FLDF64_Const'' [''0x400921FB54442D18'']),
     dispatch (OPD_X87 0xD9 0xEC) 1 (Bind ''FLDF64_Const'' [''0x3FD34413509F79FF'']),
     dispatch (OPD_X87 0xD9 0xED) 1 (Bind ''FLDF64_Const'' [''0x3FE62E42FEFA39EF'']),
     dispatch (OPD_X87 0xD9 0xEE) 1 (Bind ''FLDF64_Const'' [''0'']),
     dispatch (OPD_X87 0xD9 0xF0) 1 (Bind ''X87OpHelper'' [''OP_F80F2XM1STACK'', ''false'']),
     dispatch (OPD_X87 0xD9 0xF1) 1 (Bind ''X87FYL2X'' [''false'']),
     dispatch (OPD_X87 0xD9 0xF2) 1 (Bind ''X87OpHelper'' [''OP_F80PTANSTACK'', ''true'']),
     dispatch (OPD_X87 0xD9 0xF3) 1 (Bind ''X87OpHelper'' [''OP_F80ATANSTACK'', ''false'']),
     dispatch (OPD_X87 0xD9 0xF4) 1 (Handler ''X87FXTRACTF64''),
     dispatch (OPD_X87 0xD9 0xF5) 1 (Bind ''X87OpHelper'' [''OP_F80FPREM1STACK'', ''true'']),
     dispatch (OPD_X87 0xD9 0xF6) 1 (Bind ''X87ModifySTP'' [''false'']),
     dispatch (OPD_X87 0xD9 0xF7) 1 (Bind ''X87ModifySTP'' [''true'']),
     dispatch (OPD_X87 0xD9 0xF8) 1 (Bind ''X87OpHelper'' [''OP_F80FPREMSTACK'', ''true'']),
     dispatch (OPD_X87 0xD9 0xF9) 1 (Bind ''X87FYL2X'' [''true'']),
     dispatch (OPD_X87 0xD9 0xFA) 1 (Bind ''X87OpHelper'' [''OP_F80SQRTSTACK'', ''false'']),
     dispatch (OPD_X87 0xD9 0xFB) 1 (Bind ''X87OpHelper'' [''OP_F80SINCOSSTACK'', ''true'']),
     dispatch (OPD_X87 0xD9 0xFC) 1 (Bind ''X87OpHelper'' [''OP_F80ROUNDSTACK'', ''false'']),
     dispatch (OPD_X87 0xD9 0xFD) 1 (Bind ''X87OpHelper'' [''OP_F80SCALESTACK'', ''false'']),
     dispatch (OPD_X87 0xD9 0xFE) 1 (Bind ''X87OpHelper'' [''OP_F80SINSTACK'', ''true'']),
     dispatch (OPD_X87 0xD9 0xFF) 1 (Bind ''X87OpHelper'' [''OP_F80COSSTACK'', ''true'']),
     dispatch ((OPDReg_repeat 0xDA 0) OR 0x00) 8 (Bind ''FADDF64'' [''i32Bit'', ''true'', ''RES_ST0'']),
     dispatch ((OPDReg_repeat 0xDA 1) OR 0x00) 8 (Bind ''FMULF64'' [''i32Bit'', ''true'', ''RES_ST0'']),
     dispatch ((OPDReg_repeat 0xDA 2) OR 0x00) 8 (Bind ''FCOMIF64'' [''i32Bit'', ''true'', ''FLAGS_X87'', ''false'']),
     dispatch ((OPDReg_repeat 0xDA 3) OR 0x00) 8 (Bind ''FCOMIF64'' [''i32Bit'', ''true'', ''FLAGS_X87'', ''false'']),
     dispatch ((OPDReg_repeat 0xDA 4) OR 0x00) 8 (Bind ''FSUBF64'' [''i32Bit'', ''true'', ''false'', ''RES_ST0'']),
     dispatch ((OPDReg_repeat 0xDA 5) OR 0x00) 8 (Bind ''FSUBF64'' [''i32Bit'', ''true'', ''true'', ''RES_ST0'']),
     dispatch ((OPDReg_repeat 0xDA 6) OR 0x00) 8 (Bind ''FDIVF64'' [''i32Bit'', ''true'', ''false'', ''RES_ST0'']),
     dispatch ((OPDReg_repeat 0xDA 7) OR 0x00) 8 (Bind ''FDIVF64'' [''i32Bit'', ''true'', ''true'', ''RES_ST0'']),
     dispatch (OPD_X87 0xDA 0xC0) 8 (Handler ''X87FCMOV''),
     dispatch (OPD_X87 0xDA 0xC8) 8 (Handler ''X87FCMOV''),
     dispatch (OPD_X87 0xDA 0xD0) 8 (Handler ''X87FCMOV''),
     dispatch (OPD_X87 0xDA 0xD8) 8 (Handler ''X87FCMOV''),
     dispatch (OPD_X87 0xDA 0xE9) 1 (Bind ''FCOMIF64'' [''f80Bit'', ''false'', ''FLAGS_X87'', ''true'']),
     dispatch ((OPDReg_repeat 0xDB 0) OR 0x00) 8 (Handler ''FILDF64''),
     dispatch ((OPDReg_repeat 0xDB 1) OR 0x00) 8 (Bind ''FISTF64'' [''true'']),
     dispatch ((OPDReg_repeat 0xDB 2) OR 0x00) 8 (Bind ''FISTF64'' [''false'']),
     dispatch ((OPDReg_repeat 0xDB 3) OR 0x00) 8 (Bind ''FISTF64'' [''false'']),
     dispatch ((OPDReg_repeat 0xDB 5) OR 0x00) 8 (Bind ''FLDF64'' [''f80Bit'']),
     dispatch ((OPDReg_repeat 0xDB 7) OR 0x00) 8 (Bind ''FST'' [''f80Bit'']),
     dispatch (OPD_X87 0xDB 0xC0) 8 (Handler ''X87FCMOV''),
     dispatch (OPD_X87 0xDB 0xC8) 8 (Handler ''X87FCMOV''),
     dispatch (OPD_X87 0xDB 0xD0) 8 (Handler ''X87FCMOV''),
     dispatch (OPD_X87 0xDB 0xD8) 8 (Handler ''X87FCMOV''),
     dispatch (OPD_X87 0xDB 0xE2) 1 (Handler ''FNCLEX''),
     dispatch (OPD_X87 0xDB 0xE3) 1 (Handler ''FNINIT''),
     dispatch (OPD_X87 0xDB 0xE8) 8 (Bind ''FCOMIF64'' [''f80Bit'', ''false'', ''FLAGS_RFLAGS'', ''false'']),
     dispatch (OPD_X87 0xDB 0xF0) 8 (Bind ''FCOMIF64'' [''f80Bit'', ''false'', ''FLAGS_RFLAGS'', ''false''])]"

definition X87F64OpTable_2 :: "DispatchTableEntry list" where
  "X87F64OpTable_2 =
    [dispatch ((OPDReg_repeat 0xDC 0) OR 0x00) 8 (Bind ''FADDF64'' [''i64Bit'', ''false'', ''RES_ST0'']),
     dispatch ((OPDReg_repeat 0xDC 1) OR 0x00) 8 (Bind ''FMULF64'' [''i64Bit'', ''false'', ''RES_ST0'']),
     dispatch ((OPDReg_repeat 0xDC 2) OR 0x00) 8 (Bind ''FCOMIF64'' [''i64Bit'', ''false'', ''FLAGS_X87'', ''false'']),
     dispatch ((OPDReg_repeat 0xDC 3) OR 0x00) 8 (Bind ''FCOMIF64'' [''i64Bit'', ''false'', ''FLAGS_X87'', ''false'']),
     dispatch ((OPDReg_repeat 0xDC 4) OR 0x00) 8 (Bind ''FSUBF64'' [''i64Bit'', ''false'', ''false'', ''RES_ST0'']),
     dispatch ((OPDReg_repeat 0xDC 5) OR 0x00) 8 (Bind ''FSUBF64'' [''i64Bit'', ''false'', ''true'', ''RES_ST0'']),
     dispatch ((OPDReg_repeat 0xDC 6) OR 0x00) 8 (Bind ''FDIVF64'' [''i64Bit'', ''false'', ''false'', ''RES_ST0'']),
     dispatch ((OPDReg_repeat 0xDC 7) OR 0x00) 8 (Bind ''FDIVF64'' [''i64Bit'', ''false'', ''true'', ''RES_ST0'']),
     dispatch (OPD_X87 0xDC 0xC0) 8 (Bind ''FADDF64'' [''f80Bit'', ''false'', ''RES_STI'']),
     dispatch (OPD_X87 0xDC 0xC8) 8 (Bind ''FMULF64'' [''f80Bit'', ''false'', ''RES_STI'']),
     dispatch (OPD_X87 0xDC 0xD0) 8 (Bind ''FCOMIF64'' [''f80Bit'', ''false'', ''FLAGS_X87'', ''false'']),
     dispatch (OPD_X87 0xDC 0xD8) 8 (Bind ''FCOMIF64'' [''f80Bit'', ''false'', ''FLAGS_X87'', ''false'']),
     dispatch (OPD_X87 0xDC 0xE0) 8 (Bind ''FSUBF64'' [''f80Bit'', ''false'', ''true'', ''RES_STI'']),
     dispatch (OPD_X87 0xDC 0xE8) 8 (Bind ''FSUBF64'' [''f80Bit'', ''false'', ''false'', ''RES_STI'']),
     dispatch (OPD_X87 0xDC 0xF0) 8 (Bind ''FDIVF64'' [''f80Bit'', ''false'', ''true'', ''RES_STI'']),
     dispatch (OPD_X87 0xDC 0xF8) 8 (Bind ''FDIVF64'' [''f80Bit'', ''false'', ''false'', ''RES_STI'']),
     dispatch ((OPDReg_repeat 0xDD 0) OR 0x00) 8 (Bind ''FLDF64'' [''i64Bit'']),
     dispatch ((OPDReg_repeat 0xDD 1) OR 0x00) 8 (Bind ''FISTF64'' [''true'']),
     dispatch ((OPDReg_repeat 0xDD 2) OR 0x00) 8 (Bind ''FST'' [''i64Bit'']),
     dispatch ((OPDReg_repeat 0xDD 3) OR 0x00) 8 (Bind ''FST'' [''i64Bit'']),
     dispatch ((OPDReg_repeat 0xDD 4) OR 0x00) 8 (Handler ''X87FRSTOR''),
     dispatch ((OPDReg_repeat 0xDD 6) OR 0x00) 8 (Handler ''X87FNSAVE''),
     dispatch ((OPDReg_repeat 0xDD 7) OR 0x00) 8 (Handler ''X87FNSTSW''),
     dispatch (OPD_X87 0xDD 0xC0) 8 (Handler ''X87FFREE''),
     dispatch (OPD_X87 0xDD 0xC8) 8 (Handler ''FXCH''),
     dispatch (OPD_X87 0xDD 0xD0) 8 (Bind ''FSTToStack'' []),
     dispatch (OPD_X87 0xDD 0xD8) 8 (Bind ''FSTToStack'' []),
     dispatch (OPD_X87 0xDD 0xE0) 8 (Bind ''FCOMIF64'' [''f80Bit'', ''false'', ''FLAGS_X87'', ''false'']),
     dispatch (OPD_X87 0xDD 0xE8) 8 (Bind ''FCOMIF64'' [''f80Bit'', ''false'', ''FLAGS_X87'', ''false'']),
     dispatch ((OPDReg_repeat 0xDE 0) OR 0x00) 8 (Bind ''FADDF64'' [''i16Bit'', ''true'', ''RES_ST0'']),
     dispatch ((OPDReg_repeat 0xDE 1) OR 0x00) 8 (Bind ''FMULF64'' [''i16Bit'', ''true'', ''RES_ST0'']),
     dispatch ((OPDReg_repeat 0xDE 2) OR 0x00) 8 (Bind ''FCOMIF64'' [''i16Bit'', ''true'', ''FLAGS_X87'', ''false'']),
     dispatch ((OPDReg_repeat 0xDE 3) OR 0x00) 8 (Bind ''FCOMIF64'' [''i16Bit'', ''true'', ''FLAGS_X87'', ''false'']),
     dispatch ((OPDReg_repeat 0xDE 4) OR 0x00) 8 (Bind ''FSUBF64'' [''i16Bit'', ''true'', ''false'', ''RES_ST0'']),
     dispatch ((OPDReg_repeat 0xDE 5) OR 0x00) 8 (Bind ''FSUBF64'' [''i16Bit'', ''true'', ''true'', ''RES_ST0'']),
     dispatch ((OPDReg_repeat 0xDE 6) OR 0x00) 8 (Bind ''FDIVF64'' [''i16Bit'', ''true'', ''false'', ''RES_ST0'']),
     dispatch ((OPDReg_repeat 0xDE 7) OR 0x00) 8 (Bind ''FDIVF64'' [''i16Bit'', ''true'', ''true'', ''RES_ST0'']),
     dispatch (OPD_X87 0xDE 0xC0) 8 (Bind ''FADDF64'' [''f80Bit'', ''false'', ''RES_STI'']),
     dispatch (OPD_X87 0xDE 0xC8) 8 (Bind ''FMULF64'' [''f80Bit'', ''false'', ''RES_STI'']),
     dispatch (OPD_X87 0xDE 0xD0) 8 (Bind ''FCOMIF64'' [''f80Bit'', ''false'', ''FLAGS_X87'', ''false'']),
     dispatch (OPD_X87 0xDE 0xD9) 1 (Bind ''FCOMIF64'' [''f80Bit'', ''false'', ''FLAGS_X87'', ''true'']),
     dispatch (OPD_X87 0xDE 0xE0) 8 (Bind ''FSUBF64'' [''f80Bit'', ''false'', ''true'', ''RES_STI'']),
     dispatch (OPD_X87 0xDE 0xE8) 8 (Bind ''FSUBF64'' [''f80Bit'', ''false'', ''false'', ''RES_STI'']),
     dispatch (OPD_X87 0xDE 0xF0) 8 (Bind ''FDIVF64'' [''f80Bit'', ''false'', ''true'', ''RES_STI'']),
     dispatch (OPD_X87 0xDE 0xF8) 8 (Bind ''FDIVF64'' [''f80Bit'', ''false'', ''false'', ''RES_STI'']),
     dispatch ((OPDReg_repeat 0xDF 0) OR 0x00) 8 (Handler ''FILDF64''),
     dispatch ((OPDReg_repeat 0xDF 1) OR 0x00) 8 (Bind ''FISTF64'' [''true'']),
     dispatch ((OPDReg_repeat 0xDF 2) OR 0x00) 8 (Bind ''FISTF64'' [''false'']),
     dispatch ((OPDReg_repeat 0xDF 3) OR 0x00) 8 (Bind ''FISTF64'' [''false'']),
     dispatch ((OPDReg_repeat 0xDF 4) OR 0x00) 8 (Handler ''FBLDF64''),
     dispatch ((OPDReg_repeat 0xDF 5) OR 0x00) 8 (Handler ''FILDF64''),
     dispatch ((OPDReg_repeat 0xDF 6) OR 0x00) 8 (Handler ''FBSTPF64''),
     dispatch ((OPDReg_repeat 0xDF 7) OR 0x00) 8 (Bind ''FISTF64'' [''false'']),
     dispatch (OPD_X87 0xDF 0xC0) 8 (Bind ''X87ModifySTP'' [''true'']),
     dispatch (OPD_X87 0xDF 0xC8) 8 (Handler ''FXCH''),
     dispatch (OPD_X87 0xDF 0xD0) 8 (Bind ''FSTToStack'' []),
     dispatch (OPD_X87 0xDF 0xD8) 8 (Bind ''FSTToStack'' []),
     dispatch (OPD_X87 0xDF 0xE0) 8 (Handler ''X87FNSTSW''),
     dispatch (OPD_X87 0xDF 0xE8) 8 (Bind ''FCOMIF64'' [''f80Bit'', ''false'', ''FLAGS_RFLAGS'', ''false'']),
     dispatch (OPD_X87 0xDF 0xF0) 8 (Bind ''FCOMIF64'' [''f80Bit'', ''false'', ''FLAGS_RFLAGS'', ''false''])]"

definition X87F64OpTable :: "DispatchTableEntry list" where
  "X87F64OpTable = X87F64OpTable_1 @ X87F64OpTable_2"

definition X87Table_build :: "DispatchTableEntry list \<Rightarrow> table option" where
  "X87Table_build DispatchTable =
     do { Table \<leftarrow> GenerateX87Table X87OpTable (replicate 2048 zero_info);
          InstallToX87Table DispatchTable Table }"

section \<open>The tables are well-formed\<close>

lemma x87_ranges_append: "x87_ranges (L @ M) = x87_ranges L @ x87_ranges M"
  by (induction L) simp_all

lemma x87_disp_ranges_append: "x87_disp_ranges (D @ E) = x87_disp_ranges D @ x87_disp_ranges E"
  by (induction D) simp_all

lemma x87_ranges_weak: "x87_ranges L = x87_ranges L" by (rule refl)
lemma x87_disp_ranges_weak: "x87_disp_ranges D = x87_disp_ranges D" by (rule refl)

lemmas x87_opds = OPD_X87_def OPDReg_X87_def OPDReg_repeat_def

lemma X87OpTable_ranges: "disjoint_ranges (x87_ranges X87OpTable) 2048"
  unfolding disjoint_ranges_def X87OpTable_def X87OpTable_1_def X87OpTable_2_def x87_ranges_append
  by (simp add: Let_def x87_opds cong: weak_congs x87_ranges_weak)

lemma X87F80OpTable_ranges: "disjoint_ranges (x87_disp_ranges X87F80OpTable) 2048"
  unfolding disjoint_ranges_def X87F80OpTable_def X87F80OpTable_1_def X87F80OpTable_2_def
    x87_disp_ranges_append
  by (simp add: Let_def x87_opds cong: weak_congs x87_disp_ranges_weak)

lemma X87F64OpTable_ranges: "disjoint_ranges (x87_disp_ranges X87F64OpTable) 2048"
  unfolding disjoint_ranges_def X87F64OpTable_def X87F64OpTable_1_def X87F64OpTable_2_def
    x87_disp_ranges_append
  by (simp add: Let_def x87_opds cong: weak_congs x87_disp_ranges_weak)

text \<open>Entries for the memory forms and for the register forms have the shape the build wants.\<close>

lemma nat_fields:
  fixes a m r :: nat
  shows "r < 8 \<Longrightarrow> (push_bit 8 a OR push_bit 3 r) AND 0b11000000 = 0"
    "(push_bit 8 a OR push_bit 3 r) AND 7 = 0"
    "(push_bit 8 a OR m) AND 0b11000000 = m AND 0b11000000"
proof -
  have d: "(x OR y) AND z = (x AND z) OR (y AND z)" for x y z :: nat
    by (rule bit_eqI) (auto simp: bit_simps)
  have c: "(0b11000000 :: nat) = push_bit 6 (mask 2)" "(7 :: nat) = mask 3"
    by (simp_all add: mask_eq_exp_minus_1)
  show "(push_bit 8 a OR push_bit 3 r) AND 0b11000000 = 0" if "r < 8"
  proof -
    have "take_bit 3 r = r" using that by (simp add: take_bit_nat_eq_self)
    then have "\<not> bit r n" if "3 \<le> n" for n using that by (metis bit_take_bit_iff not_le)
    then show ?thesis unfolding c by (intro bit_eqI) (auto simp: bit_simps)
  qed
  show "(push_bit 8 a OR push_bit 3 r) AND 7 = 0"
    unfolding c by (rule bit_eqI) (auto simp: bit_simps)
  show "(push_bit 8 a OR m) AND 0b11000000 = m AND 0b11000000"
    unfolding c by (rule bit_eqI) (auto simp: bit_simps)
qed

definition x87_plain :: "X86TablesInfoStruct \<Rightarrow> bool" where
  "x87_plain e \<longleftrightarrow> x87_form e \<and> OpcodeDispatcher (Info e) = OpDispatch None"

lemma x87_plain_simps:
  "r < 8 \<Longrightarrow> x87_plain (entry (OPDReg_X87 a r) (Suc 0) nm t f m)"
  "i AND 0b11000000 = 0b11000000 \<Longrightarrow> x87_plain (entry (OPD_X87 a i) n nm t f m)"
  by (simp add: x87_plain_def x87_form_def OPDReg_X87_def nat_fields(1,2))
    (simp add: x87_plain_def x87_form_def OPD_X87_def nat_fields(3))

lemma X87OpTable_plain: "list_all x87_plain X87OpTable_1" "list_all x87_plain X87OpTable_2"
  unfolding X87OpTable_1_def X87OpTable_2_def by (simp_all add: x87_plain_simps)

lemma X87OpTable_all: "\<forall>e \<in> set X87OpTable. x87_form e \<and> OpcodeDispatcher (Info e) = OpDispatch None"
  using X87OpTable_plain
  unfolding X87OpTable_def set_append ball_Un x87_plain_def list_all_iff by blast

lemma X87F80Ops_ok: "x87_ok X87OpTable X87F80OpTable 2048"
  unfolding x87_ok_def using X87OpTable_ranges X87F80OpTable_ranges X87OpTable_all by blast

lemma X87F64Ops_ok: "x87_ok X87OpTable X87F64OpTable 2048"
  unfolding x87_ok_def using X87OpTable_ranges X87F64OpTable_ranges X87OpTable_all by blast

section \<open>Every x87 instruction has a handler\<close>

lemma X87F80Ops_handled: "x87_handled X87OpTable X87F80OpTable"
  unfolding x87_handled_def covers_def X87OpTable_def X87OpTable_1_def X87OpTable_2_def
    X87F80OpTable_def X87F80OpTable_1_def X87F80OpTable_2_def
    x87_disp_ranges_append x87_inst_ranges_append all_live_append append_assoc
  by (simp add: Let_def x87_opds cong: handler_weaks x87_disp_ranges_weak x87_inst_ranges_weak)

lemma X87F64Ops_handled: "x87_handled X87OpTable X87F64OpTable"
  unfolding x87_handled_def covers_def X87OpTable_def X87OpTable_1_def X87OpTable_2_def
    X87F64OpTable_def X87F64OpTable_1_def X87F64OpTable_2_def
    x87_disp_ranges_append x87_inst_ranges_append all_live_append append_assoc
  by (simp add: Let_def x87_opds cong: handler_weaks x87_disp_ranges_weak x87_inst_ranges_weak)

end
