(* ===== verification/DecoderTables.thy ===== *)
theory DecoderTables
  imports PrimaryTables SecondaryTables GroupTables ExtendedTables VEXTables X87Tables
begin

text \<open>
  The tables the decoder reads, as the builders leave them, and what each holds: at every index
  the one entry that covers it, with the one handler that covers it.
\<close>

section \<open>The tables\<close>

definition BaseOps :: table where "BaseOps = built BaseOps_build"
definition PrimaryInstGroupOps :: table where "PrimaryInstGroupOps = built PrimaryInstGroupOps_build"
definition SecondInstGroupOps :: table where "SecondInstGroupOps = built SecondInstGroupOps_build"
definition SecondModRMTableOps :: table where "SecondModRMTableOps = built SecondModRMTableOps_build"
definition SecondBaseOps :: table where "SecondBaseOps = built SecondBaseOps_build"
definition RepModOps :: table where "RepModOps = built RepModOps_build"
definition RepNEModOps :: table where "RepNEModOps = built RepNEModOps_build"
definition OpSizeModOps :: table where "OpSizeModOps = built OpSizeModOps_build"
definition H0F38TableOps :: table where "H0F38TableOps = built H0F38TableOps_build"
definition DDDNowOps :: table where "DDDNowOps = built DDDNowOps_build"
definition H0F3ATableOps :: table where "H0F3ATableOps = built H0F3ATableOps_build"

definition VEXTableOps :: table where
  "VEXTableOps = built (VEXTable_build AVX256_BaseTable)"

definition VEXTableGroupOps :: table where
  "VEXTableGroupOps = built (VEXGroupTable_build AVX256_TableGroupOps)"

definition VEXTableOps_AVX128 :: table where
  "VEXTableOps_AVX128 = built (VEXTable_build AVX128_BaseTable)"

definition VEXTableGroupOps_AVX128 :: table where
  "VEXTableGroupOps_AVX128 = built (VEXGroupTable_build AVX128_TableGroupOps)"

definition X87F80Ops :: table where "X87F80Ops = built (X87Table_build X87F80OpTable)"
definition X87F64Ops :: table where "X87F64Ops = built (X87Table_build X87F64OpTable)"

section \<open>The builds succeed\<close>

lemma BaseOps_build_eq:
  "BaseOps_build = Some (map (table_lookup BaseOpTable OpDispatch_BaseOpTable) [0..<256])"
  unfolding BaseOps_build_def by (rule build_table) (rule BaseOps_ok)

lemma PrimaryInstGroupOps_build_eq:
  "PrimaryInstGroupOps_build = Some (map (table_lookup PrimaryGroupOpTable OpDispatch_PrimaryGroupTables) [0..<512])"
  unfolding PrimaryInstGroupOps_build_def by (rule build_table) (rule PrimaryInstGroupOps_ok)

lemma SecondInstGroupOps_build_eq:
  "SecondInstGroupOps_build = Some (map (table_lookup SecondaryExtensionOpTable OpDispatch_SecondaryGroupTables) [0..<512])"
  unfolding SecondInstGroupOps_build_def by (rule build_table) (rule SecondInstGroupOps_ok)

lemma SecondModRMTableOps_build_eq:
  "SecondModRMTableOps_build = Some (map (table_lookup SecondaryModRMExtensionOpTable OpDispatch_SecondaryModRMTables) [0..<32])"
  unfolding SecondModRMTableOps_build_def by (rule build_table) (rule SecondModRMTableOps_ok)

lemma SecondBaseOps_build_eq:
  "SecondBaseOps_build = Some (map (table_lookup TwoByteOpTable OpDispatch_TwoByteOpTable) [0..<256])"
  unfolding SecondBaseOps_build_def by (rule build_table) (rule SecondBaseOps_ok)

lemma H0F38TableOps_build_eq:
  "H0F38TableOps_build = Some (map (table_lookup H0F38Table OpDispatch_H0F38Table) [0..<2048])"
  unfolding H0F38TableOps_build_def by (rule build_table) (rule H0F38TableOps_ok)

lemma DDDNowOps_build_eq:
  "DDDNowOps_build = Some (map (table_lookup DDDNowOpTable OpDispatch_DDDTable) [0..<256])"
  unfolding DDDNowOps_build_def by (rule build_table) (rule DDDNowOps_ok)

lemma length_SecondBaseOps [simp]: "length SecondBaseOps = 256"
  by (simp add: SecondBaseOps_def SecondBaseOps_build_eq)

lemma SecondBaseOps_built: "SecondBaseOps_build = Some SecondBaseOps"
  by (simp add: SecondBaseOps_def SecondBaseOps_build_eq)

lemma RepModOps_build_eq:
  "RepModOps_build = Some (map (copy_lookup RepModOpTable SecondBaseOps OpDispatch_SecondaryRepModTables) [0..<256])"
  unfolding RepModOps_build_def SecondBaseOps_built Option.bind.simps
  by (rule build_copy) (rule RepModOps_ok, simp)

lemma RepNEModOps_build_eq:
  "RepNEModOps_build = Some (map (copy_lookup RepNEModOpTable SecondBaseOps OpDispatch_SecondaryRepNEModTables) [0..<256])"
  unfolding RepNEModOps_build_def SecondBaseOps_built Option.bind.simps
  by (rule build_copy) (rule RepNEModOps_ok, simp)

lemma OpSizeModOps_build_eq:
  "OpSizeModOps_build = Some (map (copy_lookup OpSizeModOpTable SecondBaseOps OpDispatch_SecondaryOpSizeModTables) [0..<256])"
  unfolding OpSizeModOps_build_def SecondBaseOps_built Option.bind.simps
  by (rule build_copy) (rule OpSizeModOps_ok, simp)

lemma H0F3ATableOps_build_eq:
  "H0F3ATableOps_build = Some (map (table_lookup
     (H0F3ATable 0 @ H0F3ATable 1 @ TableNeedsREX0 @ TableNeedsREX1)
     (OpDispatch_H0F3ATableIgnoreREX @ OpDispatch_H0F3ATableNeedsREX0)) [0..<2048])"
  unfolding H0F3ATableOps_build_def build_table [OF H0F3ATableOps_ok, symmetric]
  by (simp add: GenerateTable_append InstallToTable_append bind_assoc)

lemma VEXTableOps_build_eq:
  "VEXTable_build AVX256_BaseTable =
     Some (map (table_lookup VEXTable (OpDispatch_VEXTable @ AVX256_BaseTable)) [0..<8192])"
  unfolding VEXTable_build_def build_table [OF VEXTable_AVX256_ok, symmetric]
  by (simp add: InstallToTable_append)

lemma VEXTableGroupOps_build_eq:
  "VEXGroupTable_build AVX256_TableGroupOps =
     Some (map (table_lookup VEXGroupTable (OpDispatch_VEXGroupTable @ AVX256_TableGroupOps)) [0..<128])"
  unfolding VEXGroupTable_build_def build_table [OF VEXGroupTable_AVX256_ok, symmetric]
  by (simp add: InstallToTable_append)

lemma VEXTableOps_AVX128_build_eq:
  "VEXTable_build AVX128_BaseTable =
     Some (map (table_lookup VEXTable (OpDispatch_VEXTable @ AVX128_BaseTable)) [0..<8192])"
  unfolding VEXTable_build_def build_table [OF VEXTable_AVX128_ok, symmetric]
  by (simp add: InstallToTable_append)

lemma VEXTableGroupOps_AVX128_build_eq:
  "VEXGroupTable_build AVX128_TableGroupOps =
     Some (map (table_lookup VEXGroupTable (OpDispatch_VEXGroupTable @ AVX128_TableGroupOps)) [0..<128])"
  unfolding VEXGroupTable_build_def build_table [OF VEXGroupTable_AVX128_ok, symmetric]
  by (simp add: InstallToTable_append)

lemma X87F80Ops_build_eq:
  "X87Table_build X87F80OpTable = Some (map (x87_lookup X87OpTable X87F80OpTable) [0..<2048])"
  unfolding X87Table_build_def by (rule build_x87) (rule X87F80Ops_ok)

lemma X87F64Ops_build_eq:
  "X87Table_build X87F64OpTable = Some (map (x87_lookup X87OpTable X87F64OpTable) [0..<2048])"
  unfolding X87Table_build_def by (rule build_x87) (rule X87F64Ops_ok)

lemmas build_eqs =
  BaseOps_build_eq
  PrimaryInstGroupOps_build_eq
  SecondInstGroupOps_build_eq
  SecondModRMTableOps_build_eq
  SecondBaseOps_build_eq
  RepModOps_build_eq
  RepNEModOps_build_eq
  OpSizeModOps_build_eq
  H0F38TableOps_build_eq
  DDDNowOps_build_eq
  H0F3ATableOps_build_eq
  VEXTableOps_build_eq
  VEXTableGroupOps_build_eq
  VEXTableOps_AVX128_build_eq
  VEXTableGroupOps_AVX128_build_eq
  X87F80Ops_build_eq
  X87F64Ops_build_eq

lemmas decoder_table_defs =
  BaseOps_def
  PrimaryInstGroupOps_def
  SecondInstGroupOps_def
  SecondModRMTableOps_def
  SecondBaseOps_def
  RepModOps_def
  RepNEModOps_def
  OpSizeModOps_def
  H0F38TableOps_def
  DDDNowOps_def
  H0F3ATableOps_def
  VEXTableOps_def
  VEXTableGroupOps_def
  VEXTableOps_AVX128_def
  VEXTableGroupOps_AVX128_def
  X87F80Ops_def
  X87F64Ops_def

lemma decoder_table_lengths [simp]:
  "length BaseOps = 256"
  "length PrimaryInstGroupOps = 512"
  "length SecondInstGroupOps = 512"
  "length SecondModRMTableOps = 32"
  "length H0F38TableOps = 2048"
  "length DDDNowOps = 256"
  "length RepModOps = 256"
  "length RepNEModOps = 256"
  "length OpSizeModOps = 256"
  "length H0F3ATableOps = 2048"
  "length VEXTableOps = 8192"
  "length VEXTableOps_AVX128 = 8192"
  "length VEXTableGroupOps = 128"
  "length VEXTableGroupOps_AVX128 = 128"
  "length X87F80Ops = 2048"
  "length X87F64Ops = 2048"
  by (simp_all only: decoder_table_defs build_eqs built_Some length_map length_upt diff_zero)

text \<open>What each table holds at an index.\<close>

lemma decoder_table_nth:
  "k < 256 \<Longrightarrow> BaseOps ! k = table_lookup BaseOpTable OpDispatch_BaseOpTable k"
  "k < 512 \<Longrightarrow> PrimaryInstGroupOps ! k = table_lookup PrimaryGroupOpTable OpDispatch_PrimaryGroupTables k"
  "k < 512 \<Longrightarrow> SecondInstGroupOps ! k = table_lookup SecondaryExtensionOpTable OpDispatch_SecondaryGroupTables k"
  "k < 32 \<Longrightarrow> SecondModRMTableOps ! k = table_lookup SecondaryModRMExtensionOpTable OpDispatch_SecondaryModRMTables k"
  "k < 256 \<Longrightarrow> SecondBaseOps ! k = table_lookup TwoByteOpTable OpDispatch_TwoByteOpTable k"
  "k < 2048 \<Longrightarrow> H0F38TableOps ! k = table_lookup H0F38Table OpDispatch_H0F38Table k"
  "k < 256 \<Longrightarrow> DDDNowOps ! k = table_lookup DDDNowOpTable OpDispatch_DDDTable k"
  "k < 256 \<Longrightarrow> RepModOps ! k = copy_lookup RepModOpTable SecondBaseOps OpDispatch_SecondaryRepModTables k"
  "k < 256 \<Longrightarrow> RepNEModOps ! k = copy_lookup RepNEModOpTable SecondBaseOps OpDispatch_SecondaryRepNEModTables k"
  "k < 256 \<Longrightarrow> OpSizeModOps ! k = copy_lookup OpSizeModOpTable SecondBaseOps OpDispatch_SecondaryOpSizeModTables k"
  "k < 2048 \<Longrightarrow> H0F3ATableOps ! k = table_lookup
     (H0F3ATable 0 @ H0F3ATable 1 @ TableNeedsREX0 @ TableNeedsREX1)
     (OpDispatch_H0F3ATableIgnoreREX @ OpDispatch_H0F3ATableNeedsREX0) k"
  "k < 8192 \<Longrightarrow> VEXTableOps ! k = table_lookup VEXTable (OpDispatch_VEXTable @ AVX256_BaseTable) k"
  "k < 128 \<Longrightarrow> VEXTableGroupOps ! k =
     table_lookup VEXGroupTable (OpDispatch_VEXGroupTable @ AVX256_TableGroupOps) k"
  "k < 8192 \<Longrightarrow> VEXTableOps_AVX128 ! k = table_lookup VEXTable (OpDispatch_VEXTable @ AVX128_BaseTable) k"
  "k < 128 \<Longrightarrow> VEXTableGroupOps_AVX128 ! k =
     table_lookup VEXGroupTable (OpDispatch_VEXGroupTable @ AVX128_TableGroupOps) k"
  "k < 2048 \<Longrightarrow> X87F80Ops ! k = x87_lookup X87OpTable X87F80OpTable k"
  "k < 2048 \<Longrightarrow> X87F64Ops ! k = x87_lookup X87OpTable X87F64OpTable k"
  by (simp_all add: decoder_table_defs build_eqs)

section \<open>The tables and their handlers\<close>

lemma unhandled_eq:
  assumes "\<And>k. k < length T \<Longrightarrow> lacks_handler (T ! k) \<Longrightarrow> k \<in> S"
    "\<And>k. k \<in> S \<Longrightarrow> k < length T \<and> lacks_handler (T ! k)"
  shows "set (unhandled T) = S"
  using assms by (auto simp: unhandled_def)

text \<open>A table built from an entry list and a handler list: exactly the exceptions have no handler.\<close>

lemma unhandled_table:
  assumes "\<And>k. k < N \<Longrightarrow> T ! k = table_lookup L D k" "length T = N" "table_ok L D N" "handled L D ex" "lacking L D N ex"
  shows "set (unhandled T) = set (indices ex)"
proof (rule unhandled_eq)
  show "k \<in> set (indices ex)" if "k < length T" "lacks_handler (T ! k)" for k
    using that assms(1,2) handled_lookup [OF assms(4)] by simp
  show "k < length T \<and> lacks_handler (T ! k)" if k: "k \<in> set (indices ex)" for k
  proof -
    have "disjoint_ranges (ex @ dispatch_ranges D) N" using assms(5) by (simp add: lacking_def)
    then have "k < N" using disjoint_ranges_indices(2) k by (fastforce simp: indices_append)
    then show ?thesis using lacking_lookup [OF assms(5,3) k] assms(1,2) by simp
  qed
qed

lemma unhandled_Nil:
  assumes "\<And>k. k < length T \<Longrightarrow> lacks_handler (T ! k) \<Longrightarrow> k \<in> set (indices [])"
  shows "unhandled T = []"
  using assms by (auto simp: unhandled_def filter_empty_conv)

lemma second_base_handled:
  "k < 256 \<Longrightarrow> lacks_handler (SecondBaseOps ! k) \<Longrightarrow> k \<in> set (indices [(0xFF, 1)])"
  using handled_lookup [OF SecondBaseOps_handled] by (simp add: decoder_table_nth)

lemma copied_handled:
  assumes "k < 256" "handled L D ex" "lacks_handler (copy_lookup L SecondBaseOps D k)"
  shows "k \<in> set (indices ((0xFF, 1) # ex))"
  using handled_copy_lookup [OF assms(2,3)] second_base_handled [OF assms(1)] by auto

text \<open>
  C12: the compile-time builds of all tables succeed, no two entries claim one index, no handler
  is installed over another, and each table is described by its entry list and handler list.
\<close>

theorem decoder_tables_built:
  "BaseOps_build = Some (map (table_lookup BaseOpTable OpDispatch_BaseOpTable) [0..<256]) \<and>
   PrimaryInstGroupOps_build =
     Some (map (table_lookup PrimaryGroupOpTable OpDispatch_PrimaryGroupTables) [0..<512]) \<and>
   SecondInstGroupOps_build =
     Some (map (table_lookup SecondaryExtensionOpTable OpDispatch_SecondaryGroupTables) [0..<512]) \<and>
   SecondModRMTableOps_build =
     Some (map (table_lookup SecondaryModRMExtensionOpTable OpDispatch_SecondaryModRMTables) [0..<32]) \<and>
   SecondBaseOps_build = Some (map (table_lookup TwoByteOpTable OpDispatch_TwoByteOpTable) [0..<256]) \<and>
   RepModOps_build =
     Some (map (copy_lookup RepModOpTable SecondBaseOps OpDispatch_SecondaryRepModTables) [0..<256]) \<and>
   RepNEModOps_build =
     Some (map (copy_lookup RepNEModOpTable SecondBaseOps OpDispatch_SecondaryRepNEModTables) [0..<256]) \<and>
   OpSizeModOps_build =
     Some (map (copy_lookup OpSizeModOpTable SecondBaseOps OpDispatch_SecondaryOpSizeModTables) [0..<256]) \<and>
   H0F38TableOps_build = Some (map (table_lookup H0F38Table OpDispatch_H0F38Table) [0..<2048]) \<and>
   H0F3ATableOps_build = Some (map (table_lookup
     (H0F3ATable 0 @ H0F3ATable 1 @ TableNeedsREX0 @ TableNeedsREX1)
     (OpDispatch_H0F3ATableIgnoreREX @ OpDispatch_H0F3ATableNeedsREX0)) [0..<2048]) \<and>
   DDDNowOps_build = Some (map (table_lookup DDDNowOpTable OpDispatch_DDDTable) [0..<256]) \<and>
   VEXTable_build AVX256_BaseTable =
     Some (map (table_lookup VEXTable (OpDispatch_VEXTable @ AVX256_BaseTable)) [0..<8192]) \<and>
   VEXTable_build AVX128_BaseTable =
     Some (map (table_lookup VEXTable (OpDispatch_VEXTable @ AVX128_BaseTable)) [0..<8192]) \<and>
   VEXGroupTable_build AVX256_TableGroupOps =
     Some (map (table_lookup VEXGroupTable (OpDispatch_VEXGroupTable @ AVX256_TableGroupOps)) [0..<128]) \<and>
   VEXGroupTable_build AVX128_TableGroupOps =
     Some (map (table_lookup VEXGroupTable (OpDispatch_VEXGroupTable @ AVX128_TableGroupOps)) [0..<128]) \<and>
   X87Table_build X87F80OpTable = Some (map (x87_lookup X87OpTable X87F80OpTable) [0..<2048]) \<and>
   X87Table_build X87F64OpTable = Some (map (x87_lookup X87OpTable X87F64OpTable) [0..<2048])"
  by (intro conjI) (fact build_eqs)+

text \<open>The entries of the exceptions in the tables that take entries over from another one.\<close>

lemma copied_exceptions:
  "lacks_handler (RepModOps ! 0xFF)" "lacks_handler (OpSizeModOps ! 0xFF)"
  "\<not> lacks_handler (RepNEModOps ! 0xFF)" "\<not> lacks_handler (OpSizeModOps ! 0x78)"
proof -
  have "lacks_handler (SecondBaseOps ! 0xFF)"
    using lacking_lookup [OF SecondBaseOps_lacking SecondBaseOps_ok, of "0xFF"] by (simp add: decoder_table_nth)
  then show "lacks_handler (RepModOps ! 0xFF)" "lacks_handler (OpSizeModOps ! 0xFF)"
    by (simp_all add: decoder_table_nth(8-10) lookup_simps find_info_append find_dispatch_append RepModOpTable_def
        OpDispatch_SecondaryRepModTables_def OpSizeModOpTable_def OpDispatch_SecondaryOpSizeModTables_def cong: lookup_weaks)
  show "\<not> lacks_handler (RepNEModOps ! 0xFF)" "\<not> lacks_handler (OpSizeModOps ! 0x78)"
    by (simp_all add: decoder_table_nth(8-10) lookup_simps find_info_append find_dispatch_append RepNEModOpTable_def
        OpDispatch_SecondaryRepNEModTables_def OpSizeModOpTable_def OpDispatch_SecondaryOpSizeModTables_def cong: lookup_weaks)
qed

lemma unhandled_groups:
  "set (unhandled PrimaryInstGroupOps) = {0x187, 0x18F}"
  "set (unhandled SecondInstGroupOps) = {0x22, 0x2A, 0x32, 0x3A} \<union> {0x80..<0xA0}"
  "set (unhandled SecondModRMTableOps) = {0x0D, 0x0E}"
  "set (unhandled SecondBaseOps) = {0xFF}"
proof -
  have "set (unhandled PrimaryInstGroupOps) = set (indices [(0x187, 1), (0x18F, 1)])"
    by (rule unhandled_table [OF _ _ PrimaryInstGroupOps_ok PrimaryInstGroupOps_handled PrimaryInstGroupOps_lacking])
      (simp_all add: decoder_table_nth)
  then show "set (unhandled PrimaryInstGroupOps) = {0x187, 0x18F}" by (simp add: upt_conv_Cons)
  have "set (unhandled SecondInstGroupOps) = set (indices [(0x22, 1), (0x2A, 1), (0x32, 1), (0x3A, 1), (0x80, 32)])"
    by (rule unhandled_table [OF _ _ SecondInstGroupOps_ok SecondInstGroupOps_handled SecondInstGroupOps_lacking])
      (simp_all add: decoder_table_nth)
  moreover have "{k..<k + 1} = {k}" for k :: nat by auto
  ultimately show "set (unhandled SecondInstGroupOps) = {0x22, 0x2A, 0x32, 0x3A} \<union> {0x80..<0xA0}"
    by (simp only: indices_simps set_append set_upt) auto
  have "set (unhandled SecondModRMTableOps) = set (indices [(0x0D, 2)])"
    by (rule unhandled_table [OF _ _ SecondModRMTableOps_ok SecondModRMTableOps_handled SecondModRMTableOps_lacking])
      (simp_all add: decoder_table_nth)
  then show "set (unhandled SecondModRMTableOps) = {0x0D, 0x0E}" by (simp add: upt_conv_Cons)
  have "set (unhandled SecondBaseOps) = set (indices [(0xFF, 1)])"
    by (rule unhandled_table [OF _ _ SecondBaseOps_ok SecondBaseOps_handled SecondBaseOps_lacking])
      (simp_all add: decoder_table_nth)
  then show "set (unhandled SecondBaseOps) = {0xFF}" by (simp add: upt_conv_Cons)
qed

lemma unhandled_copies:
  "set (unhandled RepModOps) = {0xFF}" "unhandled RepNEModOps = []" "set (unhandled OpSizeModOps) = {0xFF}"
proof -
  have "k \<in> {0xFF}" if "k < 256" "lacks_handler (RepModOps ! k)" for k
    using copied_handled [OF that(1) RepModOps_handled] that by (simp add: decoder_table_nth(8))
  then show "set (unhandled RepModOps) = {0xFF}"
    using copied_exceptions by (intro unhandled_eq) simp_all
  have "k \<in> {0xFF}" if "k < 256" "lacks_handler (RepNEModOps ! k)" for k
    using copied_handled [OF that(1) RepNEModOps_handled] that by (simp add: decoder_table_nth(9))
  then show "unhandled RepNEModOps = []"
    using copied_exceptions(3) by (auto simp: unhandled_def filter_empty_conv)
  have "k \<in> {0xFF, 0x78}" if "k < 256" "lacks_handler (OpSizeModOps ! k)" for k
    using copied_handled [OF that(1) OpSizeModOps_handled] that by (simp add: decoder_table_nth(10))
  then have "k \<in> {0xFF}" if "k < 256" "lacks_handler (OpSizeModOps ! k)" for k
    using that copied_exceptions(4) by blast
  then show "set (unhandled OpSizeModOps) = {0xFF}"
    using copied_exceptions by (intro unhandled_eq) simp_all
qed

text \<open>
  C13: what \<open>lacks_handler\<close> looks at are the entries an instruction is decoded to: plain instructions, entries whose memory
  form is the instruction, and both entries of a pair for the two modes. All of them have a handler, except exactly XABORT
  and XBEGIN (indices \<open>0x187\<close> and \<open>0x18F\<close> of the primary groups), LGDT (register field 2 of the second group 7, under all
  four prefixes), UD1 (the whole second group 10), XEND and XTEST (\<open>0x0D\<close> and \<open>0x0E\<close> of the table by ModRM) and UD0
  (\<open>0xFF\<close> of the two-byte table and of the two tables that copy that entry).
\<close>

theorem instructions_have_handlers:
  "set (unhandled BaseOps) = {} \<and> set (unhandled PrimaryInstGroupOps) = {0x187, 0x18F} \<and>
   set (unhandled SecondInstGroupOps) = (\<lambda>p. OPD_SecondGroup TYPE_GROUP_7 p 2) ` {PF_NONE, PF_F3, PF_66, PF_F2} \<union> {0x80..<0xA0} \<and>
   set (unhandled SecondModRMTableOps) = {0x0D, 0x0E} \<and> set (unhandled SecondBaseOps) = {0xFF} \<and>
   set (unhandled RepModOps) = {0xFF} \<and> unhandled RepNEModOps = [] \<and> set (unhandled OpSizeModOps) = {0xFF} \<and>
   unhandled H0F38TableOps = [] \<and> unhandled H0F3ATableOps = [] \<and> unhandled DDDNowOps = [] \<and> unhandled VEXTableOps = [] \<and>
   unhandled VEXTableGroupOps = [] \<and> unhandled VEXTableOps_AVX128 = [] \<and>
   unhandled VEXTableGroupOps_AVX128 = [] \<and> unhandled X87F80Ops = [] \<and> unhandled X87F64Ops = []"
proof (intro conjI unhandled_groups unhandled_copies)
  show "set (unhandled BaseOps) = {}"
    using unhandled_Nil [OF handled_lookup [OF BaseOps_handled], of BaseOps] by (simp add: decoder_table_nth(1))
  have "(\<lambda>p. OPD_SecondGroup TYPE_GROUP_7 p 2) ` {PF_NONE, PF_F3, PF_66, PF_F2} = {0x22, 0x2A, 0x32, 0x3A}"
    by (auto simp: OPD_SecondGroup_def PF_NONE_def PF_F3_def PF_66_def PF_F2_def)
  then show "set (unhandled SecondInstGroupOps) =
      (\<lambda>p. OPD_SecondGroup TYPE_GROUP_7 p 2) ` {PF_NONE, PF_F3, PF_66, PF_F2} \<union> {0x80..<0xA0}"
    unfolding unhandled_groups(2) by (simp only:)
  show "unhandled H0F38TableOps = []"
    by (rule unhandled_Nil, rule handled_lookup [OF H0F38TableOps_handled]) (simp add: decoder_table_nth)
  show "unhandled H0F3ATableOps = []"
    by (rule unhandled_Nil, rule handled_lookup [OF H0F3ATableOps_handled]) (simp add: decoder_table_nth)
  show "unhandled DDDNowOps = []"
    by (rule unhandled_Nil, rule handled_lookup [OF DDDNowOps_handled]) (simp add: decoder_table_nth)
  show "unhandled VEXTableOps = []"
    by (rule unhandled_Nil, rule handled_lookup [OF VEXTable_AVX256_handled]) (simp add: decoder_table_nth)
  show "unhandled VEXTableGroupOps = []"
    by (rule unhandled_Nil, rule handled_lookup [OF VEXGroupTable_AVX256_handled]) (simp add: decoder_table_nth)
  show "unhandled VEXTableOps_AVX128 = []"
    by (rule unhandled_Nil, rule handled_lookup [OF VEXTable_AVX128_handled]) (simp add: decoder_table_nth)
  show "unhandled VEXTableGroupOps_AVX128 = []"
    by (rule unhandled_Nil, rule handled_lookup [OF VEXGroupTable_AVX128_handled]) (simp add: decoder_table_nth)
  show "unhandled X87F80Ops = []"
    using x87_handled_lookup [OF X87F80Ops_handled] X87F80Ops_ok
    by (intro unhandled_Nil) (simp add: decoder_table_nth x87_ok_def)
  show "unhandled X87F64Ops = []"
    using x87_handled_lookup [OF X87F64Ops_handled] X87F64Ops_ok
    by (intro unhandled_Nil) (simp add: decoder_table_nth x87_ok_def)
qed

text \<open>
  The pairs for the far call and the far jump of 32-bit mode, which have no handler, are installed nowhere: their
  opcodes are entries of unknown type.
\<close>

lemma far_transfers_unknown: "BaseOps ! 0x9A = zero_info" "BaseOps ! 0xEA = zero_info"
  by (simp_all add: decoder_table_nth lookup_simps find_info_append find_dispatch_append BaseOpTable_def BaseOpTable_1_def
      BaseOpTable_2_def OpDispatch_BaseOpTable_def cong: lookup_weaks)

section \<open>Group indices\<close>

lemma push_bit_or: "b < 2 ^ k \<Longrightarrow> push_bit k a OR b = a * 2 ^ k + (b :: nat)"
proof -
  assume b: "b < 2 ^ k"
  have "push_bit k a + b = push_bit k a OR b"
  proof (rule disjunctive_add)
    fix n
    show "\<not> bit (push_bit k a) n \<or> \<not> bit b n"
    proof (cases "n < k")
      case True then show ?thesis by (simp add: bit_push_bit_iff)
    next
      case False
      then have "b < 2 ^ n" using b by (meson leI le_less_trans less_le_trans one_le_numeral power_increasing)
      then show ?thesis by (simp add: bit_iff_odd)
    qed
  qed
  then show ?thesis by (simp add: push_bit_nat_def)
qed

lemma OPD_PrimaryGroup_sum:
  "p < 8 \<Longrightarrow> r < 8 \<Longrightarrow>
   OPD_PrimaryGroup g p r = (InstType_num g - InstType_num TYPE_GROUP_1) * 64 + p * 8 + r"
  using push_bit_or [of r 3 p] push_bit_or [of "p * 8 + r" 6]
  by (simp add: OPD_PrimaryGroup_def or.assoc)

lemma OPD_SecondGroup_sum:
  "p < 4 \<Longrightarrow> r < 8 \<Longrightarrow>
   OPD_SecondGroup g p r = (InstType_num g - InstType_num TYPE_GROUP_6) * 32 + p * 8 + r"
  using push_bit_or [of r 3 p] push_bit_or [of "p * 8 + r" 5]
  by (simp add: OPD_SecondGroup_def or.assoc)

lemma OPD_VEXGroup_sum:
  "p < 2 \<Longrightarrow> r < 8 \<Longrightarrow>
   OPD_VEXGroup g p r = (InstType_num g - InstType_num TYPE_VEX_GROUP_12) * 16 + p * 8 + r"
  using push_bit_or [of r 3 p] push_bit_or [of "p * 8 + r" 4]
  by (simp add: OPD_VEXGroup_def or.assoc)

lemma mixed_radix_inject:
  fixes p q r s m n g h :: nat
  assumes "p < m" "q < m" "r < n" "s < n" "g * (m * n) + p * n + r = h * (m * n) + q * n + s"
  shows "g = h \<and> p = q \<and> r = s"
proof -
  have d: "(x * c + y) div c = x \<and> (x * c + y) mod c = y" if "y < c" for x y c :: nat
    using that by simp
  have "(g * m + p) * n + r = (h * m + q) * n + s" using assms(5) by (simp add: algebra_simps)
  then have "g * m + p = h * m + q \<and> r = s" using d [OF assms(3)] d [OF assms(4)] by metis
  then show ?thesis using d [OF assms(1)] d [OF assms(2)] by metis
qed

definition group_types :: "InstType \<Rightarrow> InstType \<Rightarrow> InstType list" where
  "group_types a b = filter (\<lambda>t. a \<le> t \<and> t \<le> b) InstTypes"

lemma group_types_iff: "t \<in> set (group_types a b) \<longleftrightarrow> a \<le> t \<and> t \<le> b"
proof -
  have "InstType_num t < length InstTypes" by (cases t) (simp_all add: InstTypes_def)
  then have "t \<in> set InstTypes" by (metis InstTypes_nth nth_mem)
  then show ?thesis by (simp add: group_types_def)
qed

lemma index_inject:
  assumes f: "\<And>g p r. p < m \<Longrightarrow> r < 8 \<Longrightarrow>
      f g p r = (InstType_num g - InstType_num a) * (m * 8) + p * 8 + r"
    and num: "(InstType_num b - InstType_num a) * (m * 8) + m * 8 \<le> N"
  shows "inj_on (\<lambda>(g, p, r). f g p r) (set (group_types a b) \<times> {..<m} \<times> {..<8}) \<and>
    (\<lambda>(g, p, r). f g p r) ` (set (group_types a b) \<times> {..<m} \<times> {..<8}) \<subseteq> {..<N}"
proof
  show "inj_on (\<lambda>(g, p, r). f g p r) (set (group_types a b) \<times> {..<m} \<times> {..<8})"
  proof (rule inj_onI)
    fix x y
    assume x: "x \<in> set (group_types a b) \<times> {..<m} \<times> {..<8}" and y: "y \<in> set (group_types a b) \<times> {..<m} \<times> {..<8}"
      and e: "(case x of (g, p, r) \<Rightarrow> f g p r) = (case y of (g, p, r) \<Rightarrow> f g p r)"
    obtain g p r h q s where xy: "x = (g, p, r)" "y = (h, q, s)" by (metis prod_cases3)
    have g: "g \<in> set (group_types a b)" "h \<in> set (group_types a b)"
      and b: "p < m" "q < m" "r < 8" "s < 8" and e: "f g p r = f h q s"
      using x y e by (auto simp: xy)
    from b e have "InstType_num g - InstType_num a = InstType_num h - InstType_num a \<and> p = q \<and> r = s"
      by (intro mixed_radix_inject [of _ m _ _ 8]) (simp_all add: f)
    moreover have "InstType_num a \<le> InstType_num g" "InstType_num a \<le> InstType_num h"
      using g by (simp_all add: group_types_iff less_eq_InstType_def)
    ultimately show "x = y" unfolding xy by (metis InstType_num_inject eq_diff_iff)
  qed
  show "(\<lambda>(g, p, r). f g p r) ` (set (group_types a b) \<times> {..<m} \<times> {..<8}) \<subseteq> {..<N}"
  proof clarify
    fix g p r
    assume g: "g \<in> set (group_types a b)" and b: "p < m" "r < (8::nat)"
    have "InstType_num g - InstType_num a \<le> InstType_num b - InstType_num a"
      using g by (simp add: group_types_iff less_eq_InstType_def diff_le_mono)
    then have "(InstType_num g - InstType_num a) * (m * 8) \<le> (InstType_num b - InstType_num a) * (m * 8)"
      by (rule mult_le_mono1)
    moreover have "p * 8 + r < m * 8" using b by auto
    moreover have "f g p r = (InstType_num g - InstType_num a) * (m * 8) + p * 8 + r" using b f by simp
    ultimately show "f g p r < N" using num by linarith
  qed
qed

text \<open>
  C14: the indices of the group tables are distinct for distinct group, prefix and register field
  and stay in their tables; for the VEX groups that holds for the first two prefixes only.
\<close>

theorem group_indices:
  "inj_on (\<lambda>(g, p, r). OPD_PrimaryGroup g p r)
     (set (group_types TYPE_GROUP_1 TYPE_GROUP_11) \<times> {..<8} \<times> {..<8}) \<and>
   (\<lambda>(g, p, r). OPD_PrimaryGroup g p r) `
     (set (group_types TYPE_GROUP_1 TYPE_GROUP_11) \<times> {..<8} \<times> {..<8}) \<subseteq> {..<length PrimaryInstGroupOps} \<and>
   inj_on (\<lambda>(g, p, r). OPD_SecondGroup g p r)
     (set (group_types TYPE_GROUP_6 TYPE_GROUP_P) \<times> {..<4} \<times> {..<8}) \<and>
   (\<lambda>(g, p, r). OPD_SecondGroup g p r) `
     (set (group_types TYPE_GROUP_6 TYPE_GROUP_P) \<times> {..<4} \<times> {..<8}) \<subseteq> {..<length SecondInstGroupOps} \<and>
   inj_on (\<lambda>(g, p, r). OPD_VEXGroup g p r)
     (set (group_types TYPE_VEX_GROUP_12 TYPE_VEX_GROUP_17) \<times> {..<2} \<times> {..<8}) \<and>
   (\<lambda>(g, p, r). OPD_VEXGroup g p r) `
     (set (group_types TYPE_VEX_GROUP_12 TYPE_VEX_GROUP_17) \<times> {..<2} \<times> {..<8}) \<subseteq> {..<length VEXTableGroupOps}"
  using index_inject [of 8 OPD_PrimaryGroup TYPE_GROUP_1 TYPE_GROUP_11 512]
    index_inject [of 4 OPD_SecondGroup TYPE_GROUP_6 TYPE_GROUP_P 512]
    index_inject [of 2 OPD_VEXGroup TYPE_VEX_GROUP_12 TYPE_VEX_GROUP_17 128]
  by (simp add: OPD_PrimaryGroup_sum OPD_SecondGroup_sum OPD_VEXGroup_sum)

text \<open>
  A VEX prefix code of 2 falls on the group bits: for group 15 it selects the entries of no prefix.
\<close>

lemma vex_group_collapse:
  "OPD_VEXGroup TYPE_VEX_GROUP_15 2 r = OPD_VEXGroup TYPE_VEX_GROUP_15 0 r"
  "OPD_VEXGroup TYPE_VEX_GROUP_15 3 r = OPD_VEXGroup TYPE_VEX_GROUP_15 1 r"
  by (simp_all add: OPD_VEXGroup_def flip: or.assoc)

end
