(* ===== verification/DecoderState.thy ===== *)
theory DecoderState
  imports DecoderTables "HOL-Library.Monad_Syntax"
begin

text \<open>
  The state of the instruction decoder (\<open>FEXCore/Source/Interface/Core/Frontend.h\<close>, class
  \<open>Decoder\<close>) and how it reads guest code (\<open>Frontend.cpp\<close>): the check that a range of guest
  memory is executable, with its one-entry cache, and the reads of bytes and of literals.

  Every operation returns \<open>None\<close> where the code has no defined behaviour: an access outside an
  array, or a query loop that does not end. Assertions are off, as in a release build.
\<close>

section \<open>State\<close>

datatype DecodedBlockStatus =
    SUCCESS | INVALID_INST | NOEXEC_INST | PARTIAL_DECODE_INST | BAD_RELOCATION | UNIMPLEMENTED_INST

datatype GuestRelocationType = Rel32 | Rel64 | Skip

record ExecutableRangeInfo =
  Base :: u64
  Size :: u64
  Writable :: bool

record DecodedHeader =
  Opt_vvvv :: u8
  Opt_w :: bool
  Opt_L :: bool

definition no_header :: DecodedHeader where
  "no_header = \<lparr>Opt_vvvv = 0, Opt_w = False, Opt_L = False\<rparr>"

record DecodedInst =
  PC :: u64
  Dest :: DecodedOperand
  Src :: "DecodedOperand list"
  TableInfo :: "X86InstInfo option"
  InstFlags :: u32
  OP :: u16
  OPRaw :: u8
  ModRM :: u8
  SIB :: u8
  InstSize :: u8
  REXIndex :: u8

text \<open>The instruction record after its \<open>memset\<close>, with its three source operands.\<close>

definition zero_inst :: "u64 \<Rightarrow> DecodedInst" where
  "zero_inst pc = \<lparr>PC = pc, Dest = OpNothing, Src = [OpNothing, OpNothing, OpNothing],
     TableInfo = None, InstFlags = 0, OP = 0, OPRaw = 0, ModRM = 0, SIB = 0, InstSize = 0, REXIndex = 0\<rparr>"

text \<open>
  What stays fixed while one instruction is decoded: the configuration, the tables the
  constructor chose, the location of the code (\<open>InstStream\<close>) with its bytes from there on (read
  through \<open>AdjustedInstStream\<close>), and the two services of the system call handler: which range
  around an address is executable, and which relocations the section has.
\<close>

record DecoderEnv =
  QueryGuestExecutableRange :: "u64 \<Rightarrow> ExecutableRangeInfo"
  InstStream :: u64
  Code :: "nat \<Rightarrow> u8"
  Relocations :: "(u32 \<rightharpoonup> GuestRelocationType) option"
  EntryPoint :: u64
  SectionMinAddress :: u64
  Is64BitMode :: bool
  AreMonoHacksActive :: bool
  X87TablePtr :: table
  VEXTablePtr :: "table option"
  VEXTableGroupPtr :: "table option"

text \<open>The tables the constructor of the decoder chooses.\<close>

definition DecoderTablesFor ::
  "bool \<Rightarrow> bool \<Rightarrow> bool \<Rightarrow> table \<times> table option \<times> table option" where
  "DecoderTablesFor ReducedPrecision SupportsAVX SupportsSVE256 =
     (if ReducedPrecision then X87F64Ops else X87F80Ops,
      if SupportsAVX \<and> SupportsSVE256 then Some VEXTableOps
      else if SupportsAVX then Some VEXTableOps_AVX128 else None,
      if SupportsAVX \<and> SupportsSVE256 then Some VEXTableGroupOps
      else if SupportsAVX then Some VEXTableGroupOps_AVX128 else None)"

record Decoder =
  ExecutableRangeBase :: u64
  ExecutableRangeEnd :: u64
  ExecutableRangeWritable :: bool
  HitNonExecutableRange :: bool
  HitBadRelocation :: bool
  InstructionSize :: u8
  Instruction :: "u8 list"
  LastEscapePrefix :: u8
  DecodeInst :: DecodedInst

abbreviation (input) MAX_INST_SIZE :: "'a::len word" where "MAX_INST_SIZE \<equiv> 15"

text \<open>An array access: \<open>None\<close> out of bounds.\<close>

definition array_get :: "'a list \<Rightarrow> nat \<Rightarrow> 'a option" where
  "array_get xs i = (if i < length xs then Some (xs ! i) else None)"

definition array_set :: "'a list \<Rightarrow> nat \<Rightarrow> 'a \<Rightarrow> 'a list option" where
  "array_set xs i v = (if i < length xs then Some (xs[i := v]) else None)"

definition or_flags :: "u32 \<Rightarrow> Decoder \<Rightarrow> Decoder" where
  "or_flags f = DecodeInst_update (InstFlags_update (\<lambda>F. F OR f))"

definition has_flag :: "u32 \<Rightarrow> Decoder \<Rightarrow> bool" where
  "has_flag f d \<longleftrightarrow> InstFlags (DecodeInst d) AND f \<noteq> 0"

section \<open>Reading code\<close>

partial_function (option) CheckRangeExecutable ::
  "DecoderEnv \<Rightarrow> u64 \<Rightarrow> u64 \<Rightarrow> Decoder \<Rightarrow> (bool \<times> Decoder) option" where
  "CheckRangeExecutable E Address Sz d =
     (if Address < ExecutableRangeBase d \<or> Address + Sz > ExecutableRangeEnd d then
        let RangeInfo = QueryGuestExecutableRange E Address;
            d = d\<lparr>ExecutableRangeBase := Base RangeInfo,
                  ExecutableRangeEnd := Base RangeInfo + Size RangeInfo,
                  ExecutableRangeWritable := Writable RangeInfo\<rparr>
        in if Size RangeInfo = 0 then Some (False, d)
           else
             let RangeRemainingSize = ExecutableRangeEnd d - Address
             in if Sz > RangeRemainingSize
                then CheckRangeExecutable E (Address + RangeRemainingSize) (Sz - RangeRemainingSize) d
                else CheckRangeExecutable E Address Sz d
      else Some (True, d))"

definition PeekByte :: "DecoderEnv \<Rightarrow> u8 \<Rightarrow> Decoder \<Rightarrow> (u8 option \<times> Decoder) option" where
  "PeekByte E Offset d = do {
     let off = unat (InstructionSize d) + unat Offset;
     (x, d) \<leftarrow> CheckRangeExecutable E (InstStream E + of_nat off) 1 d;
     Some (if x then Some (Code E off) else None, d) }"

definition ReadByte :: "DecoderEnv \<Rightarrow> Decoder \<Rightarrow> (u8 \<times> Decoder) option" where
  "ReadByte E d = do {
     (Byte, d) \<leftarrow> PeekByte E 0 d;
     case Byte of
       None \<Rightarrow> Some (0, d\<lparr>HitNonExecutableRange := True\<rparr>)
     | Some b \<Rightarrow> do {
         I \<leftarrow> array_set (Instruction d) (unat (InstructionSize d)) b;
         Some (b, d\<lparr>Instruction := I, InstructionSize := InstructionSize d + 1\<rparr>) } }"

definition SkipBytes :: "u8 \<Rightarrow> Decoder \<Rightarrow> Decoder" where
  "SkipBytes Sz d = d\<lparr>InstructionSize := InstructionSize d + Sz\<rparr>"

text \<open>
  A literal of up to eight bytes, little-endian, or the distance of a relocated one from the entry
  point. The 32-bit subtraction wraps (\<open>-fwrapv\<close>).
\<close>

definition ReadData :: "DecoderEnv \<Rightarrow> u8 \<Rightarrow> Decoder \<Rightarrow> ((u64 \<times> bool) \<times> Decoder) option" where
  "ReadData E Sz d =
     (if Sz > 8 then None
      else do {
        let off = unat (InstructionSize d);
        let Address = InstStream E + of_nat off;
        (x, d) \<leftarrow> CheckRangeExecutable E Address (zxt Sz) d;
        let Res = (if x then le_word (map (Code E) [off..<off + unat Sz]) else 0);
        let d = (if x then d else d\<lparr>HitNonExecutableRange := True\<rparr>);
        let d = SkipBytes Sz d;
        case Relocations E of
          None \<Rightarrow> Some ((Res, False), d)
        | Some R \<Rightarrow>
            case R (zxt (Address - SectionMinAddress E)) of
              None \<Rightarrow> Some ((Res, False), d)
            | Some r \<Rightarrow>
                if r = Rel32 \<and> Sz = 4
                then Some ((sxt (zxt Res - zxt (EntryPoint E) :: u32), True), d)
                else if r = Rel64 \<and> Sz = 8 then Some ((Res - EntryPoint E, True), d)
                else Some ((0, False), d\<lparr>HitBadRelocation := True\<rparr>) })"

text \<open>The check changes only the cached range.\<close>

definition set_range :: "u64 \<Rightarrow> u64 \<Rightarrow> bool \<Rightarrow> Decoder \<Rightarrow> Decoder" where
  "set_range b e wr d =
     d\<lparr>ExecutableRangeBase := b, ExecutableRangeEnd := e, ExecutableRangeWritable := wr\<rparr>"

lemma set_range_simps [simp]:
  "HitNonExecutableRange (set_range b e wr d) = HitNonExecutableRange d"
  "HitBadRelocation (set_range b e wr d) = HitBadRelocation d"
  "InstructionSize (set_range b e wr d) = InstructionSize d"
  "Instruction (set_range b e wr d) = Instruction d"
  "LastEscapePrefix (set_range b e wr d) = LastEscapePrefix d"
  "DecodeInst (set_range b e wr d) = DecodeInst d"
  "ExecutableRangeBase (set_range b e wr d) = b"
  "ExecutableRangeEnd (set_range b e wr d) = e"
  "set_range b e wr (set_range b' e' wr' d) = set_range b e wr d"
  "set_range (ExecutableRangeBase d) (ExecutableRangeEnd d) (ExecutableRangeWritable d) d = d"
  by (simp_all add: set_range_def)

lemma CheckRangeExecutable_frame:
  "CheckRangeExecutable E A S d = Some r \<Longrightarrow> \<exists>b e wr. snd r = set_range b e wr d"
proof (induction rule: CheckRangeExecutable.raw_induct [rotated 1, consumes 1])
  case (1 check E A S d r)
  let ?R = "QueryGuestExecutableRange E A"
  let ?d = "set_range (Base ?R) (Base ?R + Size ?R) (Writable ?R) d"
  show ?case
  proof (cases "A < ExecutableRangeBase d \<or> A + S > ExecutableRangeEnd d")
    case True
    then consider "r = (False, ?d)" | A' S' where "check E A' S' ?d = Some r"
      using 1(2) by (auto simp: Let_def set_range_def [symmetric] split: if_splits)
    then show ?thesis
    proof cases
      case (2 A' S')
      from 1(1) [OF 2] show ?thesis by auto
    qed auto
  next
    case False
    then have "snd r = d" using 1(2) by auto
    then show ?thesis by (metis set_range_simps(10))
  qed
qed

lemma ReadByte_cases:
  assumes "ReadByte E d = Some (b, d')"
  obtains (Hit) b' e wr where "b = 0" "d' = (set_range b' e wr d)\<lparr>HitNonExecutableRange := True\<rparr>"
  | (Read) b' e wr I where "array_set (Instruction d) (unat (InstructionSize d)) b = Some I"
      "d' = (set_range b' e wr d)\<lparr>Instruction := I, InstructionSize := InstructionSize d + 1\<rparr>"
      "b = Code E (unat (InstructionSize d))"
proof -
  from assms obtain x d1 where c: "CheckRangeExecutable E (InstStream E + of_nat (unat (InstructionSize d))) 1 d = Some (x, d1)"
    and r: "(if x then do { I \<leftarrow> array_set (Instruction d1) (unat (InstructionSize d1)) (Code E (unat (InstructionSize d)));
        Some (Code E (unat (InstructionSize d)), d1\<lparr>Instruction := I, InstructionSize := InstructionSize d1 + 1\<rparr>) }
      else Some (0, d1\<lparr>HitNonExecutableRange := True\<rparr>)) = Some (b, d')"
    by (auto simp: ReadByte_def PeekByte_def Let_def split: Option.bind_splits if_splits)
  obtain b' e wr where "d1 = set_range b' e wr d" using CheckRangeExecutable_frame [OF c] by auto
  with r show ?thesis
    by (cases x) (auto intro: Hit Read split: Option.bind_splits)
qed

lemma ReadByte_progress:
  assumes "ReadByte E d = Some (b, d')" "b \<noteq> 0"
  shows "InstructionSize d' = InstructionSize d + 1"
  using assms(1) by (cases rule: ReadByte_cases) (use assms(2) in auto)

end
