(* ===== verification/DecoderOperands.thy ===== *)
theory DecoderOperands
  imports DecoderState
begin

text \<open>
  Registers and memory operands (\<open>Frontend.cpp\<close>): the register numbers of the ModRM, SIB and VEX
  fields, and the operand that a ModRM byte describes with 16-bit and with 32/64-bit addressing.
\<close>

section \<open>Registers\<close>

abbreviation (input) REG_RAX :: "'a::len word" where "REG_RAX \<equiv> 0"
abbreviation (input) REG_RCX :: "'a::len word" where "REG_RCX \<equiv> 1"
abbreviation (input) REG_RDX :: "'a::len word" where "REG_RDX \<equiv> 2"
abbreviation (input) REG_RBX :: "'a::len word" where "REG_RBX \<equiv> 3"
abbreviation (input) REG_RBP :: "'a::len word" where "REG_RBP \<equiv> 5"
abbreviation (input) REG_RSI :: "'a::len word" where "REG_RSI \<equiv> 6"
abbreviation (input) REG_RDI :: "'a::len word" where "REG_RDI \<equiv> 7"
abbreviation (input) REG_XMM_0 :: "'a::len word" where "REG_XMM_0 \<equiv> 16"
abbreviation (input) REG_MM_0 :: "'a::len word" where "REG_MM_0 \<equiv> 32"
abbreviation (input) REG_INVALID :: "'a::len word" where "REG_INVALID \<equiv> 255"

definition GPR8BitHighIndexes :: "u32 list" where
  "GPR8BitHighIndexes = [0, 1, 2, 3, 0, 1, 2, 3, 8, 9, 10, 11, 12, 13, 14, 15]"

definition MapModRMToReg :: "u8 \<Rightarrow> u8 \<Rightarrow> bool \<Rightarrow> bool \<Rightarrow> bool \<Rightarrow> bool \<Rightarrow> u8 \<Rightarrow> u32 option" where
  "MapModRMToReg REX bits High HasREX HasXMM HasMM InvalidOffset =
     (let Offset = push_bit 3 REX OR bits
      in if Offset = InvalidOffset then Some REG_INVALID
         else if HasXMM then Some (REG_XMM_0 + zxt Offset)
         else if HasMM then Some (REG_MM_0 + zxt bits)
         else if \<not> (High \<and> \<not> HasREX) then Some (REG_RAX + zxt Offset)
         else array_get GPR8BitHighIndexes (unat Offset))"

abbreviation (input) NoInvalidOffset :: u8 where "NoInvalidOffset \<equiv> 16"

definition MapVEXToReg :: "u8 \<Rightarrow> bool \<Rightarrow> u32" where
  "MapVEXToReg v HasXMM = (if HasXMM then REG_XMM_0 + zxt v else REG_RAX + zxt v)"

definition rex_bit :: "u32 \<Rightarrow> Decoder \<Rightarrow> u8" where
  "rex_bit f d = (if has_flag f d then 1 else 0)"

section \<open>Addressing forms\<close>

definition ModRM16_Lookup :: "(u8 \<times> u8) list" where
  "ModRM16_Lookup =
    [(REG_RBX, REG_RSI), (REG_RBX, REG_RDI), (REG_RBP, REG_RSI), (REG_RBP, REG_RDI),
     (REG_RSI, REG_INVALID), (REG_RDI, REG_INVALID), (REG_INVALID, REG_INVALID), (REG_RBX, REG_INVALID),
     (REG_RBX, REG_RSI), (REG_RBX, REG_RDI), (REG_RBP, REG_RSI), (REG_RBP, REG_RDI),
     (REG_RSI, REG_INVALID), (REG_RDI, REG_INVALID), (REG_RBP, REG_INVALID), (REG_RBX, REG_INVALID),
     (REG_RBX, REG_RSI), (REG_RBX, REG_RDI), (REG_RBP, REG_RSI), (REG_RBP, REG_RDI),
     (REG_RSI, REG_INVALID), (REG_RDI, REG_INVALID), (REG_RBP, REG_INVALID), (REG_RBX, REG_INVALID)]"

text \<open>
  The literal of the 16-bit forms is a \<open>uint32_t\<close>: a displacement of one byte is sign extended to
  32 bits, one of two bytes is not extended. Whether it was relocated is not looked at.
\<close>

definition DecodeModRM_16 :: "DecoderEnv \<Rightarrow> u8 \<Rightarrow> Decoder \<Rightarrow> (DecodedOperand \<times> Decoder) option" where
  "DecodeModRM_16 E Hex d = do {
     let DisplacementSize =
       (if ModRM_mod Hex = 0 \<and> ModRM_rm Hex = 0b110 \<or> ModRM_mod Hex = 0b10 then 2
        else if ModRM_mod Hex = 0b01 then 1 else 0 :: u8);
     (Literal, d) \<leftarrow>
       (if DisplacementSize \<noteq> 0 then do {
          ((Lit, IsRelocation), d) \<leftarrow> ReadData E DisplacementSize d;
          Some (if DisplacementSize = 1 then sxt (zxt Lit :: u8) else zxt Lit :: u32, d) }
        else Some (0, d));
     (B, I) \<leftarrow> array_get ModRM16_Lookup (unat (push_bit 3 (ModRM_mod Hex) OR ModRM_rm Hex));
     Some (OpSIB (zxt Literal) 1 I B, d) }"

text \<open>The SIB byte, read once.\<close>

definition FetchSIB :: "DecoderEnv \<Rightarrow> Decoder \<Rightarrow> (u8 \<times> Decoder) option" where
  "FetchSIB E d =
     (if has_flag FLAG_DECODED_SIB d then Some (SIB (DecodeInst d), d)
      else do {
        (b, d) \<leftarrow> ReadByte E d;
        Some (b, or_flags FLAG_DECODED_SIB (DecodeInst_update (SIB_update (\<lambda>_. b)) d)) })"

definition DecodeSIB ::
  "DecoderEnv \<Rightarrow> u8 \<Rightarrow> u8 \<Rightarrow> Decoder \<Rightarrow> (DecodedOperand \<times> Decoder) option" where
  "DecodeSIB E Hex Disp d = do {
     (S, d) \<leftarrow> FetchSIB E d;
     let Displacement =
       (if ModRM_mod Hex = 0b00 \<and> ModRM_rm Hex = 0b100 \<and> SIB_base S = 0b101 then 4 else Disp);
     let Sc = push_bit (unat (SIB_scale S)) 1;
     let IsIndexVector =
       (case TableInfo (DecodeInst d) of None \<Rightarrow> False | Some i \<Rightarrow> Flags i AND FLAGS_VEX_VSIB \<noteq> 0);
     let d = (if IsIndexVector then or_flags FLAG_VSIB_BYTE d else d);
     let InvalidSIBIndex = (if IsIndexVector then NOT 0 else 0b100);
     I \<leftarrow> MapModRMToReg (rex_bit FLAG_REX_XGPR_X d) (SIB_index S) False False IsIndexVector False InvalidSIBIndex;
     B \<leftarrow> MapModRMToReg (rex_bit FLAG_REX_XGPR_B d) (SIB_base S) False False False False
            (if ModRM_mod Hex = 0 then 0b101 else 16);
     if Displacement \<noteq> 0 then do {
       ((Literal, IsRelocation), d) \<leftarrow> ReadData E Displacement d;
       let Literal = (if Displacement = 1 then sxt (zxt Literal :: u8) else Literal);
       Some (if IsRelocation then OpSIBRelocation Literal Sc (zxt I) (zxt B)
             else OpSIB Literal Sc (zxt I) (zxt B), d) }
     else Some (OpSIB 0 Sc (zxt I) (zxt B), d) }"

definition DecodeModRM_64 :: "DecoderEnv \<Rightarrow> u8 \<Rightarrow> Decoder \<Rightarrow> (DecodedOperand \<times> Decoder) option" where
  "DecodeModRM_64 E Hex d =
     (let Displacement =
        (if ModRM_mod Hex = 0b01 then 1
         else if ModRM_mod Hex = 0b10 then 4
         else if ModRM_mod Hex = 0 \<and> ModRM_rm Hex = 0b101 then 4 else 0);
          HasSIB = (ModRM_mod Hex \<noteq> 0b11 \<and> ModRM_rm Hex = 0b100)
      in if HasSIB then DecodeSIB E Hex Displacement d
         else if ModRM_mod Hex = 0 then
           (if ModRM_rm Hex = 0b101 then do {
              ((Literal, IsRelocation), d) \<leftarrow> ReadData E 4 d;
              Some (if IsRelocation then OpRIPRelativeRelocation Literal else OpRIPRelative Literal, d) }
            else do {
              R \<leftarrow> MapModRMToReg (rex_bit FLAG_REX_XGPR_B d) (ModRM_rm Hex) False False False False NoInvalidOffset;
              Some (OpGPRDirect (zxt R), d) })
         else do {
           let DisplacementSize = (if ModRM_mod Hex = 1 then 1 else 4);
           ((Literal, IsRelocation), d) \<leftarrow> ReadData E DisplacementSize d;
           let Literal = (if DisplacementSize = 1 then sxt (zxt Literal :: u8) else Literal);
           R \<leftarrow> MapModRMToReg (rex_bit FLAG_REX_XGPR_B d) (ModRM_rm Hex) False False False False NoInvalidOffset;
           Some (if IsRelocation then OpGPRIndirectRelocation Literal (zxt R)
                 else OpGPRIndirect Literal (zxt R), d) })"

definition DecodeModRMs_Disp ::
  "bool \<Rightarrow> DecoderEnv \<Rightarrow> u8 \<Rightarrow> Decoder \<Rightarrow> (DecodedOperand \<times> Decoder) option" where
  "DecodeModRMs_Disp Has16BitAddressing = (if Has16BitAddressing then DecodeModRM_16 else DecodeModRM_64)"

end
