(* ===== verification/DecoderNormalOp.thy ===== *)
theory DecoderNormalOp
  imports DecoderOperands
begin

text \<open>
  \<open>Decoder::NormalOp\<close> (\<open>Frontend.cpp\<close>): what follows once the table entry of an instruction is
  known. The function is split where the code has a block of its own: the checks of the entry,
  operand sizes, the implicit destination, the ModRM operands, the other sources, and the literal.
\<close>

section \<open>Operand sizes\<close>

definition HasXMMFlags :: "u64 \<Rightarrow> bool" where
  "HasXMMFlags F \<longleftrightarrow> F AND FLAGS_XMM_FLAGS \<noteq> 0"

definition HasXMMSrc :: "u64 \<Rightarrow> bool" where
  "HasXMMSrc F \<longleftrightarrow> HasXMMFlags F \<and> \<not> HAS_XMM_SUBFLAG F FLAGS_SF_SRC_GPR \<and> \<not> HAS_XMM_SUBFLAG F FLAGS_SF_MMX_SRC"

definition HasXMMDst :: "u64 \<Rightarrow> bool" where
  "HasXMMDst F \<longleftrightarrow> HasXMMFlags F \<and> \<not> HAS_XMM_SUBFLAG F FLAGS_SF_DST_GPR \<and> \<not> HAS_XMM_SUBFLAG F FLAGS_SF_MMX_DST"

definition HasMMSrc :: "u64 \<Rightarrow> bool" where
  "HasMMSrc F \<longleftrightarrow> HasXMMFlags F \<and> \<not> HAS_XMM_SUBFLAG F FLAGS_SF_SRC_GPR \<and> HAS_XMM_SUBFLAG F FLAGS_SF_MMX_SRC"

definition HasMMDst :: "u64 \<Rightarrow> bool" where
  "HasMMDst F \<longleftrightarrow> HasXMMFlags F \<and> \<not> HAS_XMM_SUBFLAG F FLAGS_SF_DST_GPR \<and> HAS_XMM_SUBFLAG F FLAGS_SF_MMX_DST"

definition HasWideningDisplacement :: "DecoderEnv \<Rightarrow> DecodedHeader \<Rightarrow> u32 \<Rightarrow> bool" where
  "HasWideningDisplacement E Options IF \<longleftrightarrow>
     GetOpAddr IF 0 AND FLAG_WIDENING_SIZE_LAST \<noteq> 0 \<or> Opt_w Options \<and> Is64BitMode E"

definition HasNarrowingDisplacement :: "u32 \<Rightarrow> bool" where
  "HasNarrowingDisplacement IF \<longleftrightarrow> GetOpAddr IF 0 AND FLAG_OPERAND_SIZE_LAST \<noteq> 0"

definition UseVEXL :: "DecodedHeader \<Rightarrow> u64 \<Rightarrow> bool" where
  "UseVEXL Options F \<longleftrightarrow> Opt_L Options \<and> F AND FLAGS_VEX_L_IGNORE = 0"

text \<open>The size code of an operand, its size in bytes, and whether it is a byte.\<close>

definition DecodeSize :: "bool \<Rightarrow> bool \<Rightarrow> bool \<Rightarrow> u64 \<Rightarrow> u32 \<times> u8 \<times> bool" where
  "DecodeSize VEXL Narrowing Wide SizeFlag =
     (if SizeFlag = SIZE_8BIT then (SIZE_8BIT, 1, True)
      else if SizeFlag = SIZE_16BIT then (SIZE_16BIT, 2, False)
      else if SizeFlag = SIZE_128BIT then (if VEXL then (SIZE_256BIT, 32, False) else (SIZE_128BIT, 16, False))
      else if SizeFlag = SIZE_256BIT then (SIZE_256BIT, 32, False)
      else if Narrowing \<and> (SizeFlag = SIZE_DEF \<or> SizeFlag = SIZE_64BITDEF) then (SIZE_16BIT, 2, False)
      else if Wide then (SIZE_64BIT, 8, False)
      else (SIZE_32BIT, 4, False))"

definition DecodeDestSize :: "DecoderEnv \<Rightarrow> DecodedHeader \<Rightarrow> u64 \<Rightarrow> u32 \<Rightarrow> u32 \<times> u8 \<times> bool" where
  "DecodeDestSize E Options F IF =
     (let DstSizeFlag = InstFlags_GetSizeDstFlags F
      in DecodeSize (UseVEXL Options F) (HasNarrowingDisplacement IF)
           ((HasXMMDst F \<or> HasMMDst F \<or> Is64BitMode E) \<and>
            (HasWideningDisplacement E Options IF \<or> DstSizeFlag = SIZE_64BIT \<or> DstSizeFlag = SIZE_64BITDEF))
           DstSizeFlag)"

definition DecodeSrcSize :: "DecoderEnv \<Rightarrow> DecodedHeader \<Rightarrow> u64 \<Rightarrow> u32 \<Rightarrow> u32 \<times> u8 \<times> bool" where
  "DecodeSrcSize E Options F IF =
     (let SrcSizeFlag = InstFlags_GetSizeSrcFlags F
      in DecodeSize (UseVEXL Options F) (HasNarrowingDisplacement IF)
           ((HasXMMSrc F \<or> HasMMSrc F \<or> Is64BitMode E) \<and>
            (HasWideningDisplacement E Options IF \<or> SrcSizeFlag = SIZE_64BIT \<or> SrcSizeFlag = SIZE_64BITDEF))
           SrcSizeFlag)"

text \<open>The bytes of the literal.\<close>

definition LiteralBytes :: "DecoderEnv \<Rightarrow> DecodedHeader \<Rightarrow> X86InstInfo \<Rightarrow> u32 \<Rightarrow> u8" where
  "LiteralBytes E Options info IF =
     (let Bytes = MoreBytes info;
          Bytes = (if Flags info AND FLAGS_DISPLACE_SIZE_MUL_2 \<noteq> 0 \<and> HasWideningDisplacement E Options IF
                   then push_bit 1 Bytes else Bytes);
          Bytes = (if Flags info AND FLAGS_DISPLACE_SIZE_DIV_2 \<noteq> 0 \<and> HasNarrowingDisplacement IF
                   then drop_bit 1 Bytes else Bytes)
      in if Flags info AND FLAGS_MEM_OFFSET \<noteq> 0 \<and> IF AND FLAG_ADDRESS_SIZE \<noteq> 0
         then drop_bit 1 Bytes else Bytes)"

section \<open>Operands\<close>

datatype OperandRef = RefDest | RefSrc nat

definition GetOperand :: "OperandRef \<Rightarrow> Decoder \<Rightarrow> DecodedOperand option" where
  "GetOperand r d = (case r of RefDest \<Rightarrow> Some (Dest (DecodeInst d)) | RefSrc i \<Rightarrow> array_get (Src (DecodeInst d)) i)"

definition SetOperand :: "OperandRef \<Rightarrow> DecodedOperand \<Rightarrow> Decoder \<Rightarrow> Decoder option" where
  "SetOperand r op d =
     (case r of
        RefDest \<Rightarrow> Some (DecodeInst_update (Dest_update (\<lambda>_. op)) d)
      | RefSrc i \<Rightarrow> do {
          S \<leftarrow> array_set (Src (DecodeInst d)) i op;
          Some (DecodeInst_update (Src_update (\<lambda>_. S)) d) })"

text \<open>
  The destination an instruction implies: \<open>RAX\<close>, \<open>RDX\<close>, or the register in the opcode. The first
  component tells whether to go on, the second where the current destination is.
\<close>

definition ImplicitDest ::
  "X86InstInfo \<Rightarrow> u16 \<Rightarrow> bool \<Rightarrow> Decoder \<Rightarrow> ((bool \<times> OperandRef) \<times> Decoder) option" where
  "ImplicitDest info Op Is8BitDest d =
     (let F = Flags info; HasREX = has_flag FLAG_REX_PREFIX d
      in if HAS_NON_XMM_SUBFLAG F FLAGS_SF_DST_RAX \<or> HAS_NON_XMM_SUBFLAG F FLAGS_SF_DST_RDX
         then do {
           d \<leftarrow> SetOperand RefDest
                 (OpGPR False (if HAS_NON_XMM_SUBFLAG F FLAGS_SF_DST_RAX then REG_RAX else REG_RDX)) d;
           Some ((True, RefSrc 0), d) }
         else if HAS_NON_XMM_SUBFLAG F FLAGS_SF_REX_IN_BYTE
         then do {
           R \<leftarrow> MapModRMToReg (rex_bit FLAG_REX_XGPR_B d) (zxt (Op AND 0b111)) Is8BitDest HasREX False False NoInvalidOffset;
           d \<leftarrow> SetOperand RefDest (OpGPR (Is8BitDest \<and> \<not> HasREX \<and> Op AND 0b111 \<ge> 0b100) (zxt R)) d;
           Some ((zxt R \<noteq> (REG_INVALID :: u8), RefDest), d) }
         else Some ((True, RefDest), d))"

text \<open>The lambda of the code: the register and the other operand of a ModRM byte.\<close>

definition ModRMOperand ::
  "DecoderEnv \<Rightarrow> u64 \<Rightarrow> OperandRef \<Rightarrow> OperandRef \<Rightarrow> bool \<Rightarrow> bool \<Rightarrow> bool \<Rightarrow> bool \<Rightarrow> bool \<Rightarrow> bool \<Rightarrow>
   Decoder \<Rightarrow> (bool \<times> Decoder) option" where
  "ModRMOperand E F rGPR rNonGPR HasXMMGPR HasXMMNonGPR HasMMGPR HasMMNonGPR GPR8Bit NonGPR8Bit d =
     (let Hex = ModRM (DecodeInst d);
          HasREX = has_flag FLAG_REX_PREFIX d;
          Has16BitAddressing = (\<not> Is64BitMode E \<and> has_flag FLAG_ADDRESS_SIZE d)
      in if ModRM_reg Hex \<noteq> 0b000 \<and> F AND FLAGS_SF_MOD_ZERO_REG \<noteq> 0 then Some (False, d)
         else if ModRM_mod Hex = 0b11 \<and> F AND FLAGS_SF_MOD_MEM_ONLY \<noteq> 0 then Some (False, d)
         else if ModRM_mod Hex \<noteq> 0b11 \<and> F AND FLAGS_SF_MOD_REG_ONLY \<noteq> 0 then Some (False, d)
         else do {
           R \<leftarrow> MapModRMToReg (rex_bit FLAG_REX_XGPR_R d) (ModRM_reg Hex) GPR8Bit HasREX HasXMMGPR HasMMGPR NoInvalidOffset;
           d \<leftarrow> SetOperand rGPR (OpGPR (GPR8Bit \<and> ModRM_reg Hex \<ge> 0b100 \<and> \<not> HasREX) (zxt R)) d;
           if zxt R = (REG_INVALID :: u8) then Some (False, d)
           else if ModRM_mod Hex = 0b11 then do {
             R \<leftarrow> MapModRMToReg (rex_bit FLAG_REX_XGPR_B d) (ModRM_rm Hex) NonGPR8Bit HasREX HasXMMNonGPR HasMMNonGPR NoInvalidOffset;
             d \<leftarrow> SetOperand rNonGPR (OpGPR (NonGPR8Bit \<and> ModRM_rm Hex \<ge> 0b100 \<and> \<not> HasREX) (zxt R)) d;
             Some (zxt R \<noteq> (REG_INVALID :: u8), d) }
           else do {
             op \<leftarrow> GetOperand rNonGPR d;
             if op = OpNothing then do {
               (op, d) \<leftarrow> DecodeModRMs_Disp Has16BitAddressing E Hex d;
               d \<leftarrow> SetOperand rNonGPR op d;
               Some (True, d) }
             else Some (True, d) } })"

section \<open>Sources and the literal\<close>

definition SetGPRSource :: "u32 \<Rightarrow> nat \<Rightarrow> Decoder \<Rightarrow> (nat \<times> Decoder) option" where
  "SetGPRSource R CurrentSrc d = do {
     d \<leftarrow> SetOperand (RefSrc CurrentSrc) (OpGPR False (zxt R)) d;
     Some (CurrentSrc + 1, d) }"

text \<open>
  The register in the VEX prefix, the ModRM operands and the registers an instruction implies as
  sources, in this order; the index of the next free source operand.
\<close>

definition DecodeSources ::
  "DecoderEnv \<Rightarrow> DecodedHeader \<Rightarrow> u64 \<Rightarrow> bool \<Rightarrow> bool \<Rightarrow> Decoder \<Rightarrow> ((bool \<times> nat) \<times> Decoder) option" where
  "DecodeSources E Options F Is8BitDest Is8BitSrc d = do {
     let VEXOperand = F AND FLAGS_VEX_SRC_MASK;
     if VEXOperand = FLAGS_VEX_NO_OPERAND \<and> Opt_vvvv Options \<noteq> 0 then Some ((False, 0), d)
     else do {
       (CurrentSrc, d) \<leftarrow>
         (if VEXOperand = FLAGS_VEX_1ST_SRC
          then SetGPRSource (MapVEXToReg (Opt_vvvv Options) (HasXMMFlags F)) 0 d else Some (0, d));
       (ok, CurrentSrc, d) \<leftarrow>
         (if F AND FLAGS_MODRM \<noteq> 0 then do {
            (ok, d) \<leftarrow>
              (if F AND FLAGS_SF_MOD_DST \<noteq> 0
               then ModRMOperand E F (RefSrc CurrentSrc) RefDest (HasXMMSrc F) (HasXMMDst F)
                      (HasMMSrc F) (HasMMDst F) Is8BitSrc Is8BitDest d
               else ModRMOperand E F RefDest (RefSrc CurrentSrc) (HasXMMDst F) (HasXMMSrc F)
                      (HasMMDst F) (HasMMSrc F) Is8BitDest Is8BitSrc d);
            Some (ok, CurrentSrc + 1, d) }
          else Some (True, CurrentSrc, d));
       if \<not> ok then Some ((False, 0), d)
       else do {
         (CurrentSrc, d) \<leftarrow>
           (if VEXOperand = FLAGS_VEX_2ND_SRC
            then SetGPRSource (MapVEXToReg (Opt_vvvv Options) (HasXMMSrc F)) CurrentSrc d else Some (CurrentSrc, d));
         (CurrentSrc, d) \<leftarrow>
           (if HAS_NON_XMM_SUBFLAG F FLAGS_SF_SRC_RAX then SetGPRSource REG_RAX CurrentSrc d
            else if HAS_NON_XMM_SUBFLAG F FLAGS_SF_SRC_RCX then SetGPRSource REG_RCX CurrentSrc d
            else Some (CurrentSrc, d));
         Some ((True, CurrentSrc), d) } } }"

definition DecodeLiteral ::
  "DecoderEnv \<Rightarrow> u64 \<Rightarrow> u8 \<Rightarrow> u8 \<Rightarrow> nat \<Rightarrow> Decoder \<Rightarrow> Decoder option" where
  "DecodeLiteral E F Bytes DestSize CurrentSrc d =
     (if Bytes = 0 then Some d
      else do {
        ((Literal, IsRelocation), d) \<leftarrow> ReadData E Bytes d;
        if IsRelocation then SetOperand (RefSrc CurrentSrc) (OpLiteralRelocation Literal) d
        else if F AND FLAGS_SRC_SEXT \<noteq> 0 \<or>
                GetSizeDstFlags (InstFlags (DecodeInst d)) = SIZE_64BIT \<and> F AND FLAGS_SRC_SEXT64BIT \<noteq> 0
        then SetOperand (RefSrc CurrentSrc)
               (OpLiteral (if Bytes = 1 then sxt (zxt Literal :: u8)
                           else if Bytes = 2 then sxt (zxt Literal :: u16)
                           else sxt (zxt Literal :: u32)) DestSize) d
        else SetOperand (RefSrc CurrentSrc) (OpLiteral Literal Bytes) d })"

section \<open>The whole function\<close>

text \<open>What is checked of the table entry before anything is read.\<close>

definition CheckInfo :: "X86InstInfo \<Rightarrow> DecodedHeader \<Rightarrow> u32 \<Rightarrow> DecodedBlockStatus" where
  "CheckInfo info Options IF =
     (let F = Flags info
      in if Type info = TYPE_UNKNOWN then INVALID_INST
         else if Type info = TYPE_INVALID then INVALID_INST
         else if F AND FLAGS_SUPPORTS_LOCK = 0 \<and> IF AND FLAG_LOCK \<noteq> 0 then UNIMPLEMENTED_INST
         else if Opt_w Options \<and> F AND FLAGS_REX_W_0 \<noteq> 0 then INVALID_INST
         else if \<not> Opt_w Options \<and> F AND FLAGS_REX_W_1 \<noteq> 0 then INVALID_INST
         else if Opt_L Options \<and> F AND FLAGS_VEX_L_0 \<noteq> 0 then INVALID_INST
         else if \<not> Opt_L Options \<and> F AND FLAGS_VEX_L_1 \<noteq> 0 then INVALID_INST
         else SUCCESS)"

definition FetchModRM :: "DecoderEnv \<Rightarrow> Decoder \<Rightarrow> Decoder option" where
  "FetchModRM E d = do {
     (b, d) \<leftarrow> ReadByte E d;
     Some (or_flags FLAG_DECODED_MODRM (DecodeInst_update (ModRM_update (\<lambda>_. b)) d)) }"

definition NormalOpBody ::
  "DecoderEnv \<Rightarrow> X86InstInfo \<Rightarrow> u16 \<Rightarrow> DecodedHeader \<Rightarrow> Decoder \<Rightarrow> (DecodedBlockStatus \<times> Decoder) option" where
  "NormalOpBody E info Op Options d0 = do {
     let d = DecodeInst_update (\<lambda>I. I\<lparr>OP := Op, TableInfo := Some info\<rparr>) d0;
     let F = Flags info;
     let IF = InstFlags (DecodeInst d);
     let Status = CheckInfo info Options IF;
     if Status \<noteq> SUCCESS then Some (Status, d)
     else do {
       d \<leftarrow> (if F AND FLAGS_MODRM \<noteq> 0 \<and> \<not> has_flag FLAG_DECODED_MODRM d then FetchModRM E d else Some d);
       let (DstCode, DestSize, Is8BitDest) = DecodeDestSize E Options F IF;
       let (SrcCode, SrcSize, Is8BitSrc) = DecodeSrcSize E Options F IF;
       let d = or_flags (GenSizeSrcSize SrcCode) (or_flags (GenSizeDstSize DstCode) d);
       ((ok, CurrentDest), d) \<leftarrow> ImplicitDest info Op Is8BitDest d;
       if \<not> ok then Some (INVALID_INST, d)
       else do {
         let Bytes = LiteralBytes E Options info IF;
         ((ok, CurrentSrc), d) \<leftarrow> DecodeSources E Options F Is8BitDest Is8BitSrc d;
         if \<not> ok then Some (INVALID_INST, d)
         else do {
           d \<leftarrow> (if F AND FLAGS_VEX_SRC_MASK = FLAGS_VEX_DST
                 then SetOperand CurrentDest (OpGPR False (zxt (MapVEXToReg (Opt_vvvv Options) (HasXMMDst F)))) d
                 else Some d);
           d \<leftarrow> DecodeLiteral E F Bytes DestSize CurrentSrc d;
           if has_flag FLAG_LOCK d \<and> is_OpGPR (Dest (DecodeInst d)) then Some (UNIMPLEMENTED_INST, d)
           else Some (SUCCESS, DecodeInst_update (InstSize_update (\<lambda>_. InstructionSize d)) d) } } } }"

text \<open>
  An entry that depends on the operating mode is resolved first; the header options are dropped.
\<close>

fun NormalOp ::
  "DecoderEnv \<Rightarrow> X86InstInfo \<Rightarrow> u16 \<Rightarrow> DecodedHeader \<Rightarrow> Decoder \<Rightarrow> (DecodedBlockStatus \<times> Decoder) option" where
  "NormalOp E (X86InstInfo n t f m p) Op Options d =
     (if t = TYPE_ARCH_DISPATCHER then
        case p of
          Indirect i32 i64 \<Rightarrow> if Is64BitMode E then NormalOp E i64 Op no_header d else NormalOp E i32 Op no_header d
        | OpDispatch _ \<Rightarrow> None
      else NormalOpBody E (X86InstInfo n t f m p) Op Options d)"

end
