(* ===== verification/TableFacts.thy ===== *)
theory TableFacts
  imports DecoderNormalOp
begin

text \<open>
  What every entry of the decoder tables satisfies, checked entry by entry: an instruction fills
  at most the three source operands and has a literal of at most eight bytes, and the entries an
  opcode can select have a type the decoder handles. The instruction flags are looked at bit by
  bit, which keeps the checks a matter of rewriting.
\<close>

section \<open>Instruction flags bit by bit\<close>

lemma bit64_iff: "k < 64 \<Longrightarrow> bit (push_bit k 1 :: u64) n \<longleftrightarrow> n = k"
  unfolding bit_push_bit_iff bit_1_iff by auto

lemma single_flag_bits:
  "bit FLAGS_NO_OVERLAY n \<longleftrightarrow> n = 0"
  "bit FLAGS_NO_OVERLAY66 n \<longleftrightarrow> n = 1"
  "bit FLAGS_DEBUG_MEM_ACCESS n \<longleftrightarrow> n = 2"
  "bit FLAGS_SRC_SEXT64BIT n \<longleftrightarrow> n = 3"
  "bit FLAGS_BLOCK_END n \<longleftrightarrow> n = 4"
  "bit FLAGS_SETS_RIP n \<longleftrightarrow> n = 5"
  "bit FLAGS_DISPLACE_SIZE_MUL_2 n \<longleftrightarrow> n = 6"
  "bit FLAGS_DISPLACE_SIZE_DIV_2 n \<longleftrightarrow> n = 7"
  "bit FLAGS_SRC_SEXT n \<longleftrightarrow> n = 8"
  "bit FLAGS_MEM_OFFSET n \<longleftrightarrow> n = 9"
  "bit FLAGS_XMM_FLAGS n \<longleftrightarrow> n = 10"
  "bit FLAGS_X87_FLAGS n \<longleftrightarrow> n = 10"
  "bit FLAGS_SF_DST_RAX n \<longleftrightarrow> n = 11"
  "bit FLAGS_SF_DST_RDX n \<longleftrightarrow> n = 12"
  "bit FLAGS_SF_SRC_RAX n \<longleftrightarrow> n = 13"
  "bit FLAGS_SF_SRC_RCX n \<longleftrightarrow> n = 14"
  "bit FLAGS_SF_REX_IN_BYTE n \<longleftrightarrow> n = 15"
  "bit FLAGS_SF_UNUSED n \<longleftrightarrow> n = 11"
  "bit FLAGS_SF_DST_GPR n \<longleftrightarrow> n = 12"
  "bit FLAGS_SF_SRC_GPR n \<longleftrightarrow> n = 13"
  "bit FLAGS_SF_MMX_DST n \<longleftrightarrow> n = 14"
  "bit FLAGS_SF_MMX_SRC n \<longleftrightarrow> n = 15"
  "bit FLAGS_MODRM n \<longleftrightarrow> n = 16"
  "bit FLAGS_SF_MOD_DST n \<longleftrightarrow> n = 17"
  "bit FLAGS_SF_MOD_MEM_ONLY n \<longleftrightarrow> n = 18"
  "bit FLAGS_SF_MOD_REG_ONLY n \<longleftrightarrow> n = 19"
  "bit FLAGS_SF_MOD_ZERO_REG n \<longleftrightarrow> n = 20"
  "bit FLAGS_POP n \<longleftrightarrow> n = 21"
  "bit FLAGS_VEX_VSIB n \<longleftrightarrow> n = 24"
  "bit FLAGS_VEX_L_IGNORE n \<longleftrightarrow> n = 25"
  "bit FLAGS_VEX_L_0 n \<longleftrightarrow> n = 26"
  "bit FLAGS_VEX_L_1 n \<longleftrightarrow> n = 27"
  "bit FLAGS_REX_W_0 n \<longleftrightarrow> n = 28"
  "bit FLAGS_REX_W_1 n \<longleftrightarrow> n = 29"
  "bit FLAGS_CALL n \<longleftrightarrow> n = 30"
  "bit FLAGS_SUPPORTS_LOCK n \<longleftrightarrow> n = 31"
  unfolding FLAGS_NO_OVERLAY_def FLAGS_NO_OVERLAY66_def FLAGS_DEBUG_MEM_ACCESS_def FLAGS_SRC_SEXT64BIT_def
    FLAGS_BLOCK_END_def FLAGS_SETS_RIP_def FLAGS_DISPLACE_SIZE_MUL_2_def
    FLAGS_DISPLACE_SIZE_DIV_2_def FLAGS_SRC_SEXT_def FLAGS_MEM_OFFSET_def FLAGS_XMM_FLAGS_def
    FLAGS_X87_FLAGS_def FLAGS_SF_DST_RAX_def FLAGS_SF_DST_RDX_def FLAGS_SF_SRC_RAX_def
    FLAGS_SF_SRC_RCX_def FLAGS_SF_REX_IN_BYTE_def FLAGS_SF_UNUSED_def FLAGS_SF_DST_GPR_def
    FLAGS_SF_SRC_GPR_def FLAGS_SF_MMX_DST_def FLAGS_SF_MMX_SRC_def FLAGS_MODRM_def
    FLAGS_SF_MOD_DST_def FLAGS_SF_MOD_MEM_ONLY_def FLAGS_SF_MOD_REG_ONLY_def
    FLAGS_SF_MOD_ZERO_REG_def FLAGS_POP_def FLAGS_VEX_VSIB_def FLAGS_VEX_L_IGNORE_def
    FLAGS_VEX_L_0_def FLAGS_VEX_L_1_def FLAGS_REX_W_0_def FLAGS_REX_W_1_def FLAGS_CALL_def
    FLAGS_SUPPORTS_LOCK_def
  by (rule bit64_iff, simp)+

lemma small_mask_bits:
  "bit (0b01 :: u64) m \<longleftrightarrow> m = 0" "bit (0b10 :: u64) m \<longleftrightarrow> m = 1" "bit (0b11 :: u64) m \<longleftrightarrow> m = 0 \<or> m = 1"
  by (cases m; cases "m - 1"; auto simp: bit_Suc bit_1_iff)+

lemma composed_flag_bits:
  "bit FLAGS_NONE n \<longleftrightarrow> False"
  "bit FLAGS_SF_MMX n \<longleftrightarrow> n = 14 \<or> n = 15"
  "bit DEFAULT_SYSCALL_FLAGS n \<longleftrightarrow> n = 0"
  "bit FLAGS_VEX_NO_OPERAND n \<longleftrightarrow> False"
  "bit FLAGS_VEX_DST n \<longleftrightarrow> n = 22"
  "bit FLAGS_VEX_1ST_SRC n \<longleftrightarrow> n = 23"
  "bit FLAGS_VEX_2ND_SRC n \<longleftrightarrow> n = 22 \<or> n = 23"
  "bit FLAGS_VEX_SRC_MASK n \<longleftrightarrow> n = 22 \<or> n = 23"
  unfolding FLAGS_NONE_def FLAGS_SF_MMX_def DEFAULT_SYSCALL_FLAGS_def FLAGS_VEX_NO_OPERAND_def
    FLAGS_VEX_DST_def FLAGS_VEX_1ST_SRC_def FLAGS_VEX_2ND_SRC_def FLAGS_VEX_SRC_MASK_def
    single_flag_bits bit_or_iff bit_push_bit_iff small_mask_bits
  by auto

lemma size_flag_bits:
  "n < 58 \<Longrightarrow> \<not> bit (GenFlagsDstSize s) n"
  "n < 58 \<Longrightarrow> \<not> bit (GenFlagsSrcSize s) n"
  "n < 58 \<Longrightarrow> \<not> bit (GenFlagsSameSize s) n"
  "n < 58 \<Longrightarrow> \<not> bit (GenFlagsSizes s s') n"
  by (auto simp: GenFlagsDstSize_def GenFlagsSrcSize_def GenFlagsSameSize_def GenFlagsSizes_def bit_simps)

lemmas flag_bits = bit_or_iff single_flag_bits composed_flag_bits size_flag_bits

section \<open>What an entry must satisfy\<close>

text \<open>
  The source operands an instruction fills: a register of the VEX prefix (as first or as second
  source), a ModRM operand, \<open>RAX\<close> or \<open>RCX\<close>, and a literal.
\<close>

definition source_slots :: "u64 \<Rightarrow> u8 \<Rightarrow> nat" where
  "source_slots F Bytes =
     (if bit F 23 then 1 else 0) + (if bit F 16 then 1 else 0) +
     (if \<not> bit F 10 \<and> (bit F 13 \<or> bit F 14) then 1 else 0) + (if Bytes \<noteq> 0 then 1 else 0)"

definition body_ok :: "u64 \<Rightarrow> u8 \<Rightarrow> bool" where
  "body_ok F Bytes \<longleftrightarrow> source_slots F Bytes \<le> 3 \<and> Bytes \<le> (if bit F 6 then 4 else 8)"

fun op_ok :: "X86InstInfo \<Rightarrow> bool" where
  "op_ok (X86InstInfo n t F m p) \<longleftrightarrow>
     (if t = TYPE_ARCH_DISPATCHER then
        (case p of Indirect i j \<Rightarrow> op_ok i \<and> op_ok j | OpDispatch _ \<Rightarrow> False)
      else if t = TYPE_UNKNOWN \<or> t = TYPE_INVALID then True else body_ok F m)"

definition primary_groups :: "InstType list" where
  "primary_groups = [TYPE_GROUP_1, TYPE_GROUP_1A, TYPE_GROUP_2, TYPE_GROUP_3, TYPE_GROUP_4, TYPE_GROUP_5, TYPE_GROUP_11]"

definition second_groups :: "InstType list" where
  "second_groups = [TYPE_GROUP_6, TYPE_GROUP_7, TYPE_GROUP_8, TYPE_GROUP_9, TYPE_GROUP_10, TYPE_GROUP_12,
     TYPE_GROUP_13, TYPE_GROUP_14, TYPE_GROUP_15, TYPE_GROUP_16, TYPE_GROUP_17, TYPE_GROUP_P]"

text \<open>The entries the opcode maps may select: \<open>NormalOpHeader\<close> knows what to do with their type.\<close>

definition head_ok :: "X86InstInfo \<Rightarrow> bool" where
  "head_ok i \<longleftrightarrow>
     (if Type i = TYPE_UNKNOWN \<or> Type i = TYPE_INVALID then True
      else if Type i = TYPE_INST \<or> Type i = TYPE_ARCH_DISPATCHER then op_ok i
      else if Type i \<in> set primary_groups then MoreBytes i < 8
      else Type i \<in> set second_groups)"

text \<open>
  The entries of the base table: those of the prefix bytes and of the escape byte are never looked
  at, those of the x87 opcodes lead to the x87 table, and a REX prefix exists in 64-bit mode only.
\<close>

fun rex_ok :: "bool \<Rightarrow> X86InstInfo \<Rightarrow> bool" where
  "rex_ok Is64 i \<longleftrightarrow> (if Type i = TYPE_REX_PREFIX then Is64 else Type i \<noteq> TYPE_ARCH_DISPATCHER \<and> head_ok i)"

definition plain_prefixes :: "nat list" where
  "plain_prefixes = [0x0F, 0x26, 0x2E, 0x36, 0x3E, 0x64, 0x65, 0x66, 0x67, 0xF0, 0xF2, 0xF3]"

definition base_ok :: "X86TablesInfoStruct \<Rightarrow> bool" where
  "base_ok e \<longleftrightarrow>
     (if Type (Info e) = TYPE_ARCH_DISPATCHER then
        (case OpcodeDispatcher (Info e) of Indirect i j \<Rightarrow> rex_ok False i \<and> rex_ok True j \<and>
           (if Type j = TYPE_REX_PREFIX then 0x40 \<le> first e \<and> first e + second e \<le> 0x50 else True)
         | OpDispatch _ \<Rightarrow> False)
      else if Type (Info e) = TYPE_X87_TABLE_PREFIX then first e = 0xD8 \<and> second e \<le> 8
      else if Type (Info e) = TYPE_VEX_TABLE_PREFIX then True
      else if Type (Info e) \<in> {TYPE_LEGACY_PREFIX, TYPE_PREFIX, TYPE_SECONDARY_TABLE_PREFIX}
      then list_all (\<lambda>k. k \<in> set plain_prefixes) [first e..<first e + second e]
      else Type (Info e) \<noteq> TYPE_REX_PREFIX \<and> (Type (Info e) = TYPE_GROUP_EVEX \<or> head_ok (Info e)))"

fun all_base :: "X86TablesInfoStruct list \<Rightarrow> bool" where
  "all_base [] \<longleftrightarrow> True"
| "all_base (e # L) \<longleftrightarrow> (if base_ok e then all_base L else False)"

lemma all_base_weak: "all_base L = all_base L" by (rule refl)
lemma all_base_append: "all_base (L @ M) \<longleftrightarrow> all_base L \<and> all_base M"
  by (induction L) auto

text \<open>In the tables with copied entries the copies are checked where they come from.\<close>

definition copied_or_head :: "X86InstInfo \<Rightarrow> bool" where
  "copied_or_head i \<longleftrightarrow> (if Type i = TYPE_COPY_OTHER then OpcodeDispatcher i = OpDispatch None else head_ok i)"

section \<open>The checks\<close>

lemmas info_evals = flag_bits body_ok_def source_slots_def head_ok_def primary_groups_def second_groups_def
  copied_or_head_def base_ok_def plain_prefixes_def upt_conv_Cons
lemmas info_weaks = all_infos_weak all_base_weak if_weak_cong

lemma BaseOpTable_infos: "all_base BaseOpTable"
  unfolding BaseOpTable_def BaseOpTable_1_def BaseOpTable_2_def all_base_append
  by (simp add: info_evals
    Primary_LUT_06_def Primary_LUT_07_def Primary_LUT_0E_def Primary_LUT_16_def Primary_LUT_17_def
    Primary_LUT_1E_def Primary_LUT_1F_def Primary_LUT_27_def Primary_LUT_2F_def Primary_LUT_37_def
    Primary_LUT_3F_def Primary_LUT_40_def Primary_LUT_48_def Primary_LUT_60_def Primary_LUT_61_def
    Primary_LUT_63_def Primary_LUT_9A_def Primary_LUT_A0_def Primary_LUT_A1_def Primary_LUT_A2_def
    Primary_LUT_A3_def Primary_LUT_CE_def Primary_LUT_D4_def Primary_LUT_D5_def Primary_LUT_D6_def
    Primary_LUT_EA_def cong: info_weaks)

lemma PrimaryGroupOpTable_infos: "all_infos op_ok PrimaryGroupOpTable"
  unfolding PrimaryGroupOpTable_def all_infos_append
  by (simp add: info_evals
    PrimaryGroup_LUT_1_82_0_def PrimaryGroup_LUT_1_82_1_def PrimaryGroup_LUT_1_82_2_def
    PrimaryGroup_LUT_1_82_3_def PrimaryGroup_LUT_1_82_4_def PrimaryGroup_LUT_1_82_5_def
    PrimaryGroup_LUT_1_82_6_def PrimaryGroup_LUT_1_82_7_def Primary_LUT_06_def Primary_LUT_07_def
    Primary_LUT_0E_def Primary_LUT_16_def Primary_LUT_17_def Primary_LUT_1E_def Primary_LUT_1F_def
    Primary_LUT_27_def Primary_LUT_2F_def Primary_LUT_37_def Primary_LUT_3F_def Primary_LUT_40_def
    Primary_LUT_48_def Primary_LUT_60_def Primary_LUT_61_def Primary_LUT_63_def Primary_LUT_9A_def
    Primary_LUT_A0_def Primary_LUT_A1_def Primary_LUT_A2_def Primary_LUT_A3_def Primary_LUT_CE_def
    Primary_LUT_D4_def Primary_LUT_D5_def Primary_LUT_D6_def Primary_LUT_EA_def cong: info_weaks)

lemma TwoByteOpTable_infos: "all_infos head_ok TwoByteOpTable"
  unfolding TwoByteOpTable_def TwoByteOpTable_1_def TwoByteOpTable_2_def all_infos_append
  by (simp add: info_evals
    Secondary_LUT_05_def Secondary_LUT_A0_def Secondary_LUT_A1_def Secondary_LUT_A8_def
    Secondary_LUT_A9_def cong: info_weaks)

lemma RepModOpTable_infos: "all_infos copied_or_head RepModOpTable"
  unfolding RepModOpTable_def all_infos_append
  by (simp add: info_evals cong: info_weaks)

lemma RepNEModOpTable_infos: "all_infos copied_or_head RepNEModOpTable"
  unfolding RepNEModOpTable_def all_infos_append
  by (simp add: info_evals cong: info_weaks)

lemma OpSizeModOpTable_infos: "all_infos copied_or_head OpSizeModOpTable"
  unfolding OpSizeModOpTable_def all_infos_append
  by (simp add: info_evals cong: info_weaks)

lemma SecondaryExtensionOpTable_infos: "all_infos op_ok SecondaryExtensionOpTable"
  unfolding SecondaryExtensionOpTable_def SecondaryExtensionOpTable_1_def SecondaryExtensionOpTable_2_def SecondaryExtensionOpTable_3_def SecondaryExtensionOpTable_4_def all_infos_append
  by (simp add: info_evals
    SecondGroup_LUT_15_F3_0_def SecondGroup_LUT_15_F3_1_def SecondGroup_LUT_15_F3_2_def
    SecondGroup_LUT_15_F3_3_def cong: info_weaks)

lemma SecondaryModRMExtensionOpTable_infos: "all_infos op_ok SecondaryModRMExtensionOpTable"
  unfolding SecondaryModRMExtensionOpTable_def all_infos_append
  by (simp add: info_evals cong: info_weaks)

lemma H0F38Table_infos: "all_infos head_ok H0F38Table"
  unfolding H0F38Table_def all_infos_append
  by (simp add: info_evals cong: info_weaks)

lemma DDDNowOpTable_infos: "all_infos head_ok DDDNowOpTable"
  unfolding DDDNowOpTable_def all_infos_append
  by (simp add: info_evals cong: info_weaks)

lemma H0F3ATable_infos: "all_infos head_ok (H0F3ATable 0 @ H0F3ATable 1 @ TableNeedsREX0 @ TableNeedsREX1)"
  unfolding H0F3ATable_def TableNeedsREX0_def TableNeedsREX1_def all_infos_append
  by (simp add: info_evals
    H0F3A_LUT_1_3A_66_16_def H0F3A_LUT_1_3A_66_22_def cong: info_weaks)

lemma VEXTable_infos: "all_infos op_ok VEXTable"
  unfolding VEXTable_def VEXTable_1_def VEXTable_2_def VEXTable_3_def VEXTable_4_def all_infos_append
  by (simp add: info_evals cong: info_weaks)

lemma VEXGroupTable_infos: "all_infos op_ok VEXGroupTable"
  unfolding VEXGroupTable_def all_infos_append
  by (simp add: info_evals cong: info_weaks)

lemma X87OpTable_infos: "all_infos op_ok X87OpTable"
  unfolding X87OpTable_def X87OpTable_1_def X87OpTable_2_def all_infos_append
  by (simp add: info_evals cong: info_weaks)

section \<open>What the tables hold\<close>

lemma op_ok_zero: "op_ok zero_info" and head_ok_zero: "head_ok zero_info"
  by (simp_all add: zero_info_def head_ok_def)

lemma op_ok_set: "op_ok i \<Longrightarrow> OpcodeDispatcher i = OpDispatch None \<Longrightarrow> op_ok (set_OpDispatch p i)"
  by (cases i) auto

lemma head_ok_set: "head_ok i \<Longrightarrow> OpcodeDispatcher i = OpDispatch None \<Longrightarrow> head_ok (set_OpDispatch p i)"
  by (cases i) (auto simp: head_ok_def split: if_splits)

lemma op_ok_table: "table_ok L D N \<Longrightarrow> all_infos op_ok L \<Longrightarrow> op_ok (table_lookup L D k)"
  by (rule table_lookup_all) (auto intro: all_infos_lookup op_ok_zero op_ok_set)

lemma head_ok_table: "table_ok L D N \<Longrightarrow> all_infos head_ok L \<Longrightarrow> head_ok (table_lookup L D k)"
  by (rule table_lookup_all) (auto intro: all_infos_lookup head_ok_zero head_ok_set)

lemma head_ok_copy:
  assumes "table_ok L D N" "all_infos copied_or_head L" "head_ok (Other ! k)"
  shows "head_ok (copy_lookup L Other D k)"
proof -
  have "copied_or_head zero_info" by (simp add: copied_or_head_def head_ok_zero)
  then have "copied_or_head (info_lookup L k)" using all_infos_lookup assms(2) by blast
  then have "Type (info_lookup L k) \<noteq> TYPE_COPY_OTHER \<Longrightarrow> head_ok (info_lookup L k)"
    by (simp only: copied_or_head_def if_False)
  then show ?thesis
    using copy_lookup_all [OF assms(1), of k head_ok Other] assms(3) head_ok_set by blast
qed

lemma op_ok_x87: "x87_ok L D N \<Longrightarrow> all_infos op_ok L \<Longrightarrow> op_ok (x87_lookup L D k)"
  by (rule x87_lookup_all) (auto intro: op_ok_zero op_ok_set)

lemma second_base_head: "k < 256 \<Longrightarrow> head_ok (SecondBaseOps ! k)"
  by (simp add: decoder_table_nth head_ok_table [OF SecondBaseOps_ok TwoByteOpTable_infos])

lemma group_entries:
  "k < 512 \<Longrightarrow> op_ok (PrimaryInstGroupOps ! k)" "k < 512 \<Longrightarrow> op_ok (SecondInstGroupOps ! k)"
  "k < 32 \<Longrightarrow> op_ok (SecondModRMTableOps ! k)"
  by (simp_all add: decoder_table_nth op_ok_table [OF PrimaryInstGroupOps_ok PrimaryGroupOpTable_infos]
      op_ok_table [OF SecondInstGroupOps_ok SecondaryExtensionOpTable_infos]
      op_ok_table [OF SecondModRMTableOps_ok SecondaryModRMExtensionOpTable_infos])

lemma vex_entries:
  "k < 8192 \<Longrightarrow> op_ok (VEXTableOps ! k)" "k < 8192 \<Longrightarrow> op_ok (VEXTableOps_AVX128 ! k)"
  "k < 128 \<Longrightarrow> op_ok (VEXTableGroupOps ! k)" "k < 128 \<Longrightarrow> op_ok (VEXTableGroupOps_AVX128 ! k)"
  by (simp_all add: decoder_table_nth op_ok_table [OF VEXTable_AVX256_ok VEXTable_infos]
      op_ok_table [OF VEXTable_AVX128_ok VEXTable_infos]
      op_ok_table [OF VEXGroupTable_AVX256_ok VEXGroupTable_infos]
      op_ok_table [OF VEXGroupTable_AVX128_ok VEXGroupTable_infos])

lemma x87_entries:
  "k < 2048 \<Longrightarrow> op_ok (X87F80Ops ! k)" "k < 2048 \<Longrightarrow> op_ok (X87F64Ops ! k)"
  by (simp_all add: decoder_table_nth op_ok_x87 [OF X87F80Ops_ok X87OpTable_infos]
      op_ok_x87 [OF X87F64Ops_ok X87OpTable_infos])

lemma map_entries:
  "k < 256 \<Longrightarrow> head_ok (RepModOps ! k)" "k < 256 \<Longrightarrow> head_ok (RepNEModOps ! k)"
  "k < 256 \<Longrightarrow> head_ok (OpSizeModOps ! k)" "k < 256 \<Longrightarrow> head_ok (DDDNowOps ! k)"
  "k < 2048 \<Longrightarrow> head_ok (H0F38TableOps ! k)" "k < 2048 \<Longrightarrow> head_ok (H0F3ATableOps ! k)"
  unfolding decoder_table_nth
  using head_ok_copy [OF RepModOps_ok RepModOpTable_infos second_base_head]
    head_ok_copy [OF RepNEModOps_ok RepNEModOpTable_infos second_base_head]
    head_ok_copy [OF OpSizeModOps_ok OpSizeModOpTable_infos second_base_head]
    head_ok_table [OF DDDNowOps_ok DDDNowOpTable_infos] head_ok_table [OF H0F38TableOps_ok H0F38Table_infos]
    head_ok_table [OF H0F3ATableOps_ok H0F3ATable_infos]
  by (simp_all only: decoder_table_nth)

text \<open>The base table, at an index.\<close>

definition base_at :: "nat \<Rightarrow> X86InstInfo \<Rightarrow> bool" where
  "base_at k i \<longleftrightarrow>
     (if Type i = TYPE_ARCH_DISPATCHER then
        (case OpcodeDispatcher i of Indirect i j \<Rightarrow> rex_ok False i \<and> rex_ok True j \<and>
           (Type j = TYPE_REX_PREFIX \<longrightarrow> 0x40 \<le> k \<and> k < 0x50)
         | OpDispatch _ \<Rightarrow> False)
      else if Type i = TYPE_X87_TABLE_PREFIX then 0xD8 \<le> k \<and> k < 0xE0
      else if Type i = TYPE_VEX_TABLE_PREFIX then True
      else if Type i \<in> {TYPE_LEGACY_PREFIX, TYPE_PREFIX, TYPE_SECONDARY_TABLE_PREFIX} then k \<in> set plain_prefixes
      else Type i \<noteq> TYPE_REX_PREFIX \<and> (Type i = TYPE_GROUP_EVEX \<or> head_ok i))"

lemma base_at_find: "all_base L \<Longrightarrow> find_info L k = Some i \<Longrightarrow> base_at k i"
  by (induction L) (auto simp: base_at_def base_ok_def list_all_iff split: if_splits OpDispatchPtrWrapper.splits)

lemma base_at_entry: "k < 256 \<Longrightarrow> base_at k (BaseOps ! k)"
proof -
  assume k: "k < 256"
  have "base_at k (info_lookup BaseOpTable k)"
    using base_at_find [OF BaseOpTable_infos, of k]
    by (auto simp: info_lookup_def map_of_expand base_at_def head_ok_zero split: option.splits)
  then have "base_at k (table_lookup BaseOpTable OpDispatch_BaseOpTable k)"
    by (rule table_lookup_all [OF BaseOps_ok])
      (auto simp: base_at_def intro: head_ok_set split: if_splits)
  with k show ?thesis by (simp add: decoder_table_nth)
qed

end
