(* ===== verification/DecoderInstruction.thy ===== *)
theory DecoderInstruction
  imports TableFacts
begin

text \<open>
  From the bytes of an instruction to its table entry (\<open>Frontend.cpp\<close>: \<open>NormalOpHeader\<close>,
  \<open>DecodeREXIfValid\<close>, \<open>DecodeInstructionImpl\<close>, \<open>DecodeInstruction\<close>): the prefixes, the opcode maps,
  the group tables and the VEX prefix.
\<close>

section \<open>Groups, x87 and VEX\<close>

abbreviation array_op :: "table \<Rightarrow> u16 \<Rightarrow> X86InstInfo option" where
  "array_op T Op \<equiv> array_get T (unat Op)"

definition SecondGroupPrefix :: "u8 \<Rightarrow> nat" where
  "SecondGroupPrefix Last =
     (if Last = 0xF3 then PF_F3 else if Last = 0xF2 then PF_F2 else if Last = 0x66 then PF_66 else PF_NONE)"

definition RegToField :: "u8 list" where
  "RegToField = [255, 0, 1, 2, 255, 255, 255, 3]"

definition PrimaryGroupOp ::
  "DecoderEnv \<Rightarrow> X86InstInfo \<Rightarrow> Decoder \<Rightarrow> (DecodedBlockStatus \<times> Decoder) option" where
  "PrimaryGroupOp E info d = do {
     d \<leftarrow> FetchModRM E d;
     let Op = of_nat (OPD_PrimaryGroup (Type info) (unat (MoreBytes info)) (unat (ModRM_reg (ModRM (DecodeInst d)))));
     LocalInfo \<leftarrow> array_op PrimaryInstGroupOps Op;
     NormalOp E LocalInfo Op no_header d }"

definition SecondGroupOp ::
  "DecoderEnv \<Rightarrow> X86InstInfo \<Rightarrow> Decoder \<Rightarrow> (DecodedBlockStatus \<times> Decoder) option" where
  "SecondGroupOp E info d = do {
     let PrefixType = SecondGroupPrefix (LastEscapePrefix d);
     d \<leftarrow> FetchModRM E d;
     let Hex = ModRM (DecodeInst d);
     let LocalOp = of_nat (OPD_SecondGroup (Type info) PrefixType (unat (ModRM_reg Hex)));
     LocalInfo \<leftarrow> array_op SecondInstGroupOps LocalOp;
     if Type LocalInfo = TYPE_SECOND_GROUP_MODRM \<and> ModRM_mod Hex = 0b11 then do {
       Field \<leftarrow> array_get RegToField (unat (ModRM_reg Hex));
       if Field = 255 then Some (INVALID_INST, d)
       else do {
         let LocalOp = zxt (push_bit 3 Field OR ModRM_rm Hex);
         LocalInfo \<leftarrow> array_op SecondModRMTableOps LocalOp;
         NormalOp E LocalInfo LocalOp no_header d } }
     else NormalOp E LocalInfo LocalOp no_header d }"

definition X87Op :: "DecoderEnv \<Rightarrow> u16 \<Rightarrow> Decoder \<Rightarrow> (DecodedBlockStatus \<times> Decoder) option" where
  "X87Op E Op d = do {
     d \<leftarrow> FetchModRM E d;
     let XOp = push_bit 8 (Op - 0xD8) OR zxt (ModRM (DecodeInst d));
     LocalInfo \<leftarrow> array_op (X87TablePtr E) XOp;
     NormalOp E LocalInfo XOp no_header d }"

text \<open>
  The fields of a VEX prefix: the register, \<open>W\<close> and \<open>L\<close>, with the opcode map and the prefix code; or
  \<open>None\<close> where the prefix is invalid. The flags are set before a later check of the prefix fails.
\<close>

definition VEXHeader ::
  "DecoderEnv \<Rightarrow> u16 \<Rightarrow> Decoder \<Rightarrow> ((DecodedHeader \<times> nat \<times> nat) option \<times> Decoder) option" where
  "VEXHeader E Op d = do {
     (Byte1, d) \<leftarrow> ReadByte E d;
     if Byte1 AND 0b10000000 = 0 \<and> \<not> Is64BitMode E then Some (None, d)
     else do {
       let d = (if Byte1 AND 0b10000000 = 0 then or_flags FLAG_REX_XGPR_R d else d);
       if Op = 0xC5 then do {
         let v = drop_bit 3 (Byte1 AND 0b01111000);
         if \<not> Is64BitMode E \<and> v \<le> 0b0111 then Some (None, d)
         else Some (Some (\<lparr>Opt_vvvv = 15 - v, Opt_w = False, Opt_L = (Byte1 AND 0b100 \<noteq> 0)\<rparr>, 1, unat (Byte1 AND 0b11)), d) }
       else do {
         (Byte2, d) \<leftarrow> ReadByte E d;
         let map_select = unat (Byte1 AND 0b11111);
         let v = drop_bit 3 (Byte2 AND 0b01111000);
         let W = (Byte2 AND 0b10000000 \<noteq> 0);
         if \<not> Is64BitMode E \<and> v \<le> 0b0111 then Some (None, d)
         else if Byte1 AND 0b01000000 = 0 \<and> \<not> Is64BitMode E then Some (None, d)
         else do {
           let d = (if Byte1 AND 0b01000000 = 0 then or_flags FLAG_REX_XGPR_X d else d);
           let d = (if Is64BitMode E \<and> Byte1 AND 0b00100000 = 0 then or_flags FLAG_REX_XGPR_B d else d);
           let d = (if W then or_flags FLAG_OPTION_AVX_W d else d);
           if \<not> (map_select \<ge> 1 \<and> map_select \<le> 3) then Some (None, d)
           else Some (Some (\<lparr>Opt_vvvv = 15 - v, Opt_w = W, Opt_L = (Byte2 AND 0b100 \<noteq> 0)\<rparr>, map_select,
                            unat (Byte2 AND 0b11)), d) } } } }"

definition VEXOp :: "DecoderEnv \<Rightarrow> u16 \<Rightarrow> Decoder \<Rightarrow> (DecodedBlockStatus \<times> Decoder) option" where
  "VEXOp E Op d =
     (case VEXTablePtr E of
        None \<Rightarrow> Some (INVALID_INST, d)
      | Some VTable \<Rightarrow> do {
          (hdr, d) \<leftarrow> VEXHeader E Op d;
          case hdr of
            None \<Rightarrow> Some (INVALID_INST, d)
          | Some (options, map_select, pp) \<Rightarrow> do {
              (Opcode, d) \<leftarrow> ReadByte E d;
              let Op = of_nat (OPD_VEX map_select pp (unat Opcode));
              LocalInfo \<leftarrow> array_op VTable Op;
              if Type LocalInfo \<ge> TYPE_VEX_GROUP_12 \<and> Type LocalInfo \<le> TYPE_VEX_GROUP_17 then do {
                d \<leftarrow> FetchModRM E d;
                let Op = of_nat (OPD_VEXGroup (Type LocalInfo) pp (unat (ModRM_reg (ModRM (DecodeInst d)))));
                GTable \<leftarrow> VEXTableGroupPtr E;
                LocalInfo \<leftarrow> array_op GTable Op;
                NormalOp E LocalInfo Op options d }
              else NormalOp E LocalInfo Op options d } })"

definition NormalOpHeader ::
  "DecoderEnv \<Rightarrow> X86InstInfo \<Rightarrow> u16 \<Rightarrow> Decoder \<Rightarrow> (DecodedBlockStatus \<times> Decoder) option" where
  "NormalOpHeader E info Op d0 =
     (let d = DecodeInst_update (\<lambda>I. I\<lparr>OPRaw := zxt Op, OP := Op, TableInfo := Some info\<rparr>) d0;
          T = Type info
      in if T = TYPE_UNKNOWN then Some (INVALID_INST, d)
         else if T = TYPE_INVALID then Some (INVALID_INST, d)
         else if T = TYPE_INST then NormalOp E info Op no_header d
         else if T = TYPE_ARCH_DISPATCHER then
           (case OpcodeDispatcher info of
              Indirect i32 i64 \<Rightarrow> NormalOp E (if Is64BitMode E then i64 else i32) Op no_header d
            | OpDispatch _ \<Rightarrow> None)
         else if T \<ge> TYPE_GROUP_1 \<and> T \<le> TYPE_GROUP_11 then PrimaryGroupOp E info d
         else if T \<ge> TYPE_GROUP_6 \<and> T \<le> TYPE_GROUP_P then SecondGroupOp E info d
         else if T = TYPE_X87_TABLE_PREFIX then X87Op E Op d
         else if T = TYPE_VEX_TABLE_PREFIX then VEXOp E Op d
         else if T = TYPE_GROUP_EVEX then Some (INVALID_INST, d)
         else None)"

section \<open>Prefixes\<close>

definition DecodeREXIfValid :: "u8 \<Rightarrow> Decoder \<Rightarrow> Decoder option" where
  "DecodeREXIfValid ExpectedOffset d =
     (let Index = InstructionSize d + ExpectedOffset
      in if REXIndex (DecodeInst d) \<noteq> 0 \<and> REXIndex (DecodeInst d) = Index
         then do {
           Op \<leftarrow> array_get (Instruction d) (unat (Index - 1));
           let d = or_flags FLAG_REX_PREFIX d;
           let d = (if Op AND 0b1000 \<noteq> 0
                    then DecodeInst_update (InstFlags_update (\<lambda>F. PushOpAddr F FLAG_WIDENING_SIZE_LAST))
                           (or_flags FLAG_REX_WIDENING d) else d);
           let d = (if Op AND 0b0001 \<noteq> 0 then or_flags FLAG_REX_XGPR_B d else d);
           let d = (if Op AND 0b0010 \<noteq> 0 then or_flags FLAG_REX_XGPR_X d else d);
           let d = (if Op AND 0b0100 \<noteq> 0 then or_flags FLAG_REX_XGPR_R d else d);
           Some d }
         else Some d)"

definition SetSegment :: "u32 \<Rightarrow> Decoder \<Rightarrow> Decoder" where
  "SetSegment f = DecodeInst_update (InstFlags_update (\<lambda>F. F AND NOT FLAG_SEGMENTS OR f))"

text \<open>The effect of a legacy prefix, or \<open>None\<close> for a byte that is none.\<close>

definition LegacyPrefix :: "DecoderEnv \<Rightarrow> u8 \<Rightarrow> Decoder \<Rightarrow> Decoder option" where
  "LegacyPrefix E Op d =
     (if Op = 0x66 then
        Some (DecodeInst_update (InstFlags_update (\<lambda>F. PushOpAddr F FLAG_OPERAND_SIZE_LAST))
               ((or_flags FLAG_OPERAND_SIZE d)\<lparr>LastEscapePrefix := Op\<rparr>))
      else if Op = 0x67 then Some (or_flags FLAG_ADDRESS_SIZE d)
      else if Op = 0x26 then Some (if Is64BitMode E then d else SetSegment FLAG_ES_PREFIX d)
      else if Op = 0x2E then Some (if Is64BitMode E then d else SetSegment FLAG_CS_PREFIX d)
      else if Op = 0x36 then Some (if Is64BitMode E then d else SetSegment FLAG_SS_PREFIX d)
      else if Op = 0x3E then Some (if Is64BitMode E then d else SetSegment FLAG_DS_PREFIX d)
      else if Op = 0xF0 then Some (or_flags FLAG_LOCK d)
      else if Op = 0xF2 then Some ((or_flags FLAG_REPNE_PREFIX d)\<lparr>LastEscapePrefix := Op\<rparr>)
      else if Op = 0xF3 then Some ((or_flags FLAG_REP_PREFIX d)\<lparr>LastEscapePrefix := Op\<rparr>)
      else if Op = 0x64 then Some (SetSegment FLAG_FS_PREFIX d)
      else if Op = 0x65 then Some (SetSegment FLAG_GS_PREFIX d)
      else None)"

section \<open>Opcode maps\<close>

definition HasPrefix :: "u32 \<Rightarrow> nat \<Rightarrow> Decoder \<Rightarrow> nat" where
  "HasPrefix f v d = (if has_flag f d then v else 0)"

definition DDDNowOp :: "DecoderEnv \<Rightarrow> Decoder \<Rightarrow> (DecodedBlockStatus \<times> Decoder) option" where
  "DDDNowOp E d = do {
     d \<leftarrow> DecodeREXIfValid (- 2) d;
     d \<leftarrow> FetchModRM E d;
     let Hex = ModRM (DecodeInst d);
     let Has16BitAddressing = (\<not> Is64BitMode E \<and> has_flag FLAG_ADDRESS_SIZE d);
     d \<leftarrow> (if ModRM_mod Hex \<noteq> 0b11 then do {
            (op, d) \<leftarrow> DecodeModRMs_Disp Has16BitAddressing E Hex d;
            SetOperand (RefSrc 0) op d }
          else Some d);
     (LocalOp, d) \<leftarrow> ReadByte E d;
     info \<leftarrow> array_op DDDNowOps (zxt LocalOp);
     NormalOpHeader E info (zxt LocalOp) d }"

definition pop_operand_size :: "Decoder \<Rightarrow> Decoder" where
  "pop_operand_size = DecodeInst_update (InstFlags_update
     (\<lambda>F. PopOpAddrIf (F AND NOT FLAG_OPERAND_SIZE) FLAG_OPERAND_SIZE_LAST))"

definition clear_flag :: "u32 \<Rightarrow> Decoder \<Rightarrow> Decoder" where
  "clear_flag f = DecodeInst_update (InstFlags_update (\<lambda>F. F AND NOT f))"

definition F38Op :: "DecoderEnv \<Rightarrow> Decoder \<Rightarrow> (DecodedBlockStatus \<times> Decoder) option" where
  "F38Op E d = do {
     d \<leftarrow> DecodeREXIfValid (- 2) d;
     let Prefix = PF_38_NONE OR HasPrefix FLAG_OPERAND_SIZE PF_38_66 d OR
                  HasPrefix FLAG_REPNE_PREFIX PF_38_F2 d OR HasPrefix FLAG_REP_PREFIX PF_38_F3 d;
     (b, d) \<leftarrow> ReadByte E d;
     let LocalOp = of_nat (push_bit 8 Prefix OR unat b);
     info \<leftarrow> array_op H0F38TableOps LocalOp;
     let NoOverlay66 = (Flags info AND FLAGS_NO_OVERLAY66 \<noteq> 0);
     let d = (if LastEscapePrefix d = 0x66 \<and> NoOverlay66 then pop_operand_size d else d);
     NormalOpHeader E info LocalOp d }"

abbreviation (input) PF_3A_REX :: nat where "PF_3A_REX \<equiv> 2"

definition F3AOp :: "DecoderEnv \<Rightarrow> Decoder \<Rightarrow> (DecodedBlockStatus \<times> Decoder) option" where
  "F3AOp E d = do {
     d \<leftarrow> DecodeREXIfValid (- 2) d;
     let Prefix = (if LastEscapePrefix d = 0x66 then PF_3A_66 else PF_3A_NONE) OR
                  HasPrefix FLAG_REX_WIDENING PF_3A_REX d;
     (b, d) \<leftarrow> ReadByte E d;
     let LocalOp = of_nat (push_bit 8 Prefix OR unat b);
     info \<leftarrow> array_op H0F3ATableOps LocalOp;
     NormalOpHeader E info LocalOp d }"

definition TwoByteOp :: "DecoderEnv \<Rightarrow> u8 \<Rightarrow> Decoder \<Rightarrow> (DecodedBlockStatus \<times> Decoder) option" where
  "TwoByteOp E EscapeOp d = do {
     base \<leftarrow> array_op SecondBaseOps (zxt EscapeOp);
     let NoOverlay = (Flags base AND FLAGS_NO_OVERLAY \<noteq> 0);
     let NoOverlay66 = (Flags base AND FLAGS_NO_OVERLAY66 \<noteq> 0);
     d \<leftarrow> DecodeREXIfValid (- 2) d;
     if NoOverlay then NormalOpHeader E base (zxt EscapeOp) d
     else if LastEscapePrefix d = 0xF3 then do {
       info \<leftarrow> array_op RepModOps (zxt EscapeOp);
       NormalOpHeader E info (zxt EscapeOp) (clear_flag FLAG_REP_PREFIX d) }
     else if LastEscapePrefix d = 0xF2 then do {
       info \<leftarrow> array_op RepNEModOps (zxt EscapeOp);
       NormalOpHeader E info (zxt EscapeOp) (clear_flag FLAG_REPNE_PREFIX d) }
     else if LastEscapePrefix d = 0x66 \<and> \<not> NoOverlay66 then do {
       info \<leftarrow> array_op OpSizeModOps (zxt EscapeOp);
       NormalOpHeader E info (zxt EscapeOp) (pop_operand_size d) }
     else NormalOpHeader E base (zxt EscapeOp) d }"

definition EscapeOps :: "DecoderEnv \<Rightarrow> Decoder \<Rightarrow> (DecodedBlockStatus \<times> Decoder) option" where
  "EscapeOps E d = do {
     (EscapeOp, d) \<leftarrow> ReadByte E d;
     if EscapeOp = 0x0F then DDDNowOp E d
     else if EscapeOp = 0x38 then F38Op E d
     else if EscapeOp = 0x3A then F3AOp E d
     else TwoByteOp E EscapeOp d }"

section \<open>One instruction\<close>

text \<open>An entry of the base table that depends on the operating mode is resolved at once.\<close>

definition BaseOp :: "DecoderEnv \<Rightarrow> u8 \<Rightarrow> X86InstInfo option" where
  "BaseOp E Op = do {
     info \<leftarrow> array_get BaseOps (unat Op);
     if Type info = TYPE_ARCH_DISPATCHER then
       (case OpcodeDispatcher info of
          Indirect i32 i64 \<Rightarrow> Some (if Is64BitMode E then i64 else i32)
        | OpDispatch _ \<Rightarrow> None)
     else Some info }"

text \<open>
  The loop over the prefixes. A byte that cannot be read counts as 0, which is an opcode; every
  other turn of the loop consumes a byte, and the limit of 15 bytes is tested before each.
\<close>

lemma BaseOps_0: "Type (BaseOps ! 0) = TYPE_INST"
  by (simp add: decoder_table_nth lookup_simps BaseOpTable_def find_info_append find_dispatch_append
      BaseOpTable_1_def OpDispatch_BaseOpTable_def cong: lookup_weaks)

lemma LegacyPrefix_size:
  "LegacyPrefix E Op d = Some d' \<Longrightarrow> InstructionSize d' = InstructionSize d \<and> Op \<noteq> 0"
  by (auto simp: LegacyPrefix_def or_flags_def SetSegment_def split: if_splits)

lemma BaseOp_0: "BaseOp E 0 = Some info \<Longrightarrow> Type info \<noteq> TYPE_REX_PREFIX"
  by (auto simp: BaseOp_def BaseOps_0 array_get_def)

lemma prefix_measure: "(n :: u8) < 15 \<Longrightarrow> 15 - unat (n + 1) < 15 - unat n"
  by (auto simp: word_less_nat_alt unat_word_ariths)

function DecodePrefixes :: "DecoderEnv \<Rightarrow> Decoder \<Rightarrow> (DecodedBlockStatus \<times> Decoder) option" where
  "DecodePrefixes E d =
     (if InstructionSize d \<ge> MAX_INST_SIZE then Some (INVALID_INST, d)
      else do {
        (Op, d) \<leftarrow> ReadByte E d;
        if Op = 0x0F then EscapeOps E d
        else case LegacyPrefix E Op d of
          Some d \<Rightarrow> DecodePrefixes E d
        | None \<Rightarrow> do {
            info \<leftarrow> BaseOp E Op;
            if Type info = TYPE_REX_PREFIX
            then DecodePrefixes E (DecodeInst_update (REXIndex_update (\<lambda>_. InstructionSize d)) d)
            else do {
              d \<leftarrow> DecodeREXIfValid (- 1) d;
              NormalOpHeader E info (zxt Op) d } } })"
  by pat_completeness auto
termination
proof (relation "measure (\<lambda>(E, d). 15 - unat (InstructionSize d))", simp, goal_cases)
  case (1 E d r Op d1 info)
  then have "Op \<noteq> 0" using BaseOp_0 by auto
  then have "InstructionSize d1 = InstructionSize d + 1" using 1 ReadByte_progress by blast
  then show ?case using 1(1) by (auto simp: not_le intro!: prefix_measure)
next
  case (2 E d r Op d1 d2)
  then have "Op \<noteq> 0" "InstructionSize d2 = InstructionSize d1" using LegacyPrefix_size by blast+
  moreover from this have "InstructionSize d1 = InstructionSize d + 1" using 2 ReadByte_progress by blast
  ultimately show ?case using 2(1) by (auto simp: not_le intro!: prefix_measure)
qed

declare DecodePrefixes.simps [simp del]

definition DecodeInstructionImpl :: "DecoderEnv \<Rightarrow> u64 \<Rightarrow> Decoder \<Rightarrow> (DecodedBlockStatus \<times> Decoder) option" where
  "DecodeInstructionImpl E pc d =
     DecodePrefixes E (d\<lparr>InstructionSize := 0, LastEscapePrefix := 0, Instruction := replicate 15 0,
                        DecodeInst := zero_inst pc\<rparr>)"

definition IsKnownAtomicDisplacement :: "u64 \<Rightarrow> bool" where
  "IsKnownAtomicDisplacement Disp \<longleftrightarrow> Disp = 0x80 \<or> Disp = 0x84 \<or> Disp = 0xC0 \<or> Disp = 0xC4"

definition atomic_indirect :: "DecodedOperand \<Rightarrow> bool" where
  "atomic_indirect op \<longleftrightarrow> (case op of OpGPRIndirect Disp _ \<Rightarrow> IsKnownAtomicDisplacement Disp | _ \<Rightarrow> False)"

definition MonoHacks :: "Decoder \<Rightarrow> Decoder" where
  "MonoHacks d =
     (let d = (if OP (DecodeInst d) = 0x8b \<and> atomic_indirect (Src (DecodeInst d) ! 0)
               then or_flags FLAG_FORCE_TSO d else d)
      in if OP (DecodeInst d) = 0x89 \<and> atomic_indirect (Dest (DecodeInst d))
         then or_flags FLAG_FORCE_TSO d else d)"

definition no_dispatcher :: "X86InstInfo option \<Rightarrow> bool" where
  "no_dispatcher ti \<longleftrightarrow> (case ti of None \<Rightarrow> True | Some info \<Rightarrow> needs_handler info)"

definition DecodeInstruction :: "DecoderEnv \<Rightarrow> u64 \<Rightarrow> Decoder \<Rightarrow> (DecodedBlockStatus \<times> Decoder) option" where
  "DecodeInstruction E pc d = do {
     (ErrorDuringDecoding, d) \<leftarrow>
       DecodeInstructionImpl E pc (d\<lparr>HitNonExecutableRange := False, HitBadRelocation := False\<rparr>);
     if ErrorDuringDecoding \<noteq> SUCCESS \<or> HitNonExecutableRange d \<or> HitBadRelocation d then
       (let Result = (if ErrorDuringDecoding \<noteq> SUCCESS then ErrorDuringDecoding
                      else if InstSize (DecodeInst d) \<noteq> 0 then PARTIAL_DECODE_INST
                      else if HitNonExecutableRange d then NOEXEC_INST else BAD_RELOCATION)
        in Some (Result, DecodeInst_update (\<lambda>I. I\<lparr>TableInfo := None, InstSize := 0\<rparr>) d))
     else if no_dispatcher (TableInfo (DecodeInst d)) then Some (INVALID_INST, d)
     else Some (SUCCESS, if AreMonoHacksActive E then MonoHacks d else d) }"

end
