(* ===== verification/ExecutableRanges.thy ===== *)
theory ExecutableRanges
  imports DecoderState
begin

text \<open>
  The interface between the decoder and the system call handler: what
  \<open>QueryGuestExecutableRange\<close> (\<open>FEXCore/HLE/SyscallHandler.h\<close>) promises, and what
  \<open>Decoder::CheckRangeExecutable\<close> makes of it.
\<close>

section \<open>The interface\<close>

definition in_range :: "ExecutableRangeInfo \<Rightarrow> u64 \<Rightarrow> bool" where
  "in_range R a \<longleftrightarrow> unat (Base R) \<le> unat a \<and> unat a < unat (Base R) + unat (Size R)"

text \<open>
  A query returns an empty range for an address that is not executable, otherwise a range around
  it, all of whose addresses are executable, that ends below the top of the address space.
\<close>

locale executable_ranges =
  fixes query :: "u64 \<Rightarrow> ExecutableRangeInfo"
  assumes query_around: "Size (query a) \<noteq> 0 \<Longrightarrow> in_range (query a) a"
    and query_coherent: "in_range (query a) b \<Longrightarrow> Size (query b) \<noteq> 0"
    and query_bounded: "unat (Base (query a)) + unat (Size (query a)) < 2 ^ 64"
begin

lemma query_end: "unat (Base (query a) + Size (query a)) = unat (Base (query a)) + unat (Size (query a))"
  using query_bounded [of a] by (simp add: unat_plus_if_size word_size)

end

text \<open>The addresses of a range of memory, and the ranges that are executable.\<close>

definition span :: "u64 \<Rightarrow> nat \<Rightarrow> u64 set" where
  "span a n = {b. unat a \<le> unat b \<and> unat b < unat a + n}"

definition executable_at :: "DecoderEnv \<Rightarrow> u64 \<Rightarrow> bool" where
  "executable_at E a \<longleftrightarrow> Size (QueryGuestExecutableRange E a) \<noteq> 0"

text \<open>What the cached range of the decoder claims is executable.\<close>

definition cache_ok :: "DecoderEnv \<Rightarrow> Decoder \<Rightarrow> bool" where
  "cache_ok E d \<longleftrightarrow>
     (\<forall>b. unat (ExecutableRangeBase d) \<le> unat b \<and> unat b < unat (ExecutableRangeEnd d) \<longrightarrow> executable_at E b)"

lemma cache_ok_empty: "ExecutableRangeEnd d = 0 \<Longrightarrow> cache_ok E d"
  by (simp add: cache_ok_def)

section \<open>The check\<close>

context executable_ranges begin

lemma cache_ok_query:
  assumes "QueryGuestExecutableRange E = query"
  shows "cache_ok E (set_range (Base (query a)) (Base (query a) + Size (query a)) wr d)"
  using query_coherent [of a] query_end [of a]
  by (auto simp: cache_ok_def executable_at_def in_range_def assms)

lemma check_unfold:
  assumes "QueryGuestExecutableRange E = query" "unat A + unat S < 2 ^ 64"
    "\<not> (unat (ExecutableRangeBase d) \<le> unat A \<and> unat A + unat S \<le> unat (ExecutableRangeEnd d))"
  defines "d' \<equiv> set_range (Base (query A)) (Base (query A) + Size (query A)) (Writable (query A)) d"
  shows "CheckRangeExecutable E A S d =
    (if Size (query A) = 0 then Some (False, d')
     else if S > ExecutableRangeEnd d' - A
     then CheckRangeExecutable E (A + (ExecutableRangeEnd d' - A)) (S - (ExecutableRangeEnd d' - A)) d'
     else CheckRangeExecutable E A S d')"
proof -
  have "unat (A + S) = unat A + unat S" using assms(2) by (simp add: unat_plus_if_size word_size)
  then have "A < ExecutableRangeBase d \<or> A + S > ExecutableRangeEnd d"
    using assms(3) by (auto simp: word_less_nat_alt)
  then show ?thesis
    by (subst CheckRangeExecutable.simps) (simp add: assms(1) d'_def set_range_def Let_def)
qed

lemma check_hit:
  assumes "unat A + unat S < 2 ^ 64" "unat (ExecutableRangeBase d) \<le> unat A" "unat A + unat S \<le> unat (ExecutableRangeEnd d)"
  shows "CheckRangeExecutable E A S d = Some (True, d)"
proof -
  have "unat (A + S) = unat A + unat S" using assms(1) by (simp add: unat_plus_if_size word_size)
  then show ?thesis
    using assms by (subst CheckRangeExecutable.simps) (auto simp: word_less_nat_alt)
qed

lemma check_correct:
  assumes "QueryGuestExecutableRange E = query" "unat A + unat S < 2 ^ 64" "0 < unat S" "cache_ok E d"
  shows "\<exists>x d'. CheckRangeExecutable E A S d = Some (x, d') \<and> cache_ok E d' \<and>
    (x \<longleftrightarrow> (\<forall>b \<in> span A (unat S). executable_at E b))"
  using assms(2-4)
proof (induction "unat S" arbitrary: A S d rule: less_induct)
  case less
  show ?case
  proof (cases "unat (ExecutableRangeBase d) \<le> unat A \<and> unat A + unat S \<le> unat (ExecutableRangeEnd d)")
    case True
    then have "\<forall>b \<in> span A (unat S). executable_at E b"
      using less.prems(3) by (auto simp: cache_ok_def span_def)
    with True less.prems show ?thesis by (auto simp: check_hit)
  next
    case False
    let ?d = "set_range (Base (query A)) (Base (query A) + Size (query A)) (Writable (query A)) d"
    note unf = check_unfold [OF assms(1) less.prems(1) False]
    have c: "cache_ok E ?d" using cache_ok_query [OF assms(1)] .
    show ?thesis
    proof (cases "Size (query A) = 0")
      case True
      then have "\<not> executable_at E A" "A \<in> span A (unat S)"
        using less.prems(2) by (simp_all add: executable_at_def assms(1) span_def)
      then show ?thesis using True c unf by auto
    next
      case nz: False
      let ?r = "Base (query A) + Size (query A) - A"
      have in_A: "unat (Base (query A)) \<le> unat A" "unat A < unat (Base (query A)) + unat (Size (query A))"
        using query_around [OF nz] by (auto simp: in_range_def)
      have r: "unat ?r = unat (Base (query A)) + unat (Size (query A)) - unat A"
        using in_A query_end [of A] by (simp add: unat_sub word_le_nat_alt)
      show ?thesis
      proof (cases "S > ?r")
        case True
        then have S: "unat (S - ?r) = unat S - unat ?r" "unat ?r < unat S"
          by (simp_all add: unat_sub word_less_nat_alt word_le_nat_alt)
        have A: "unat (A + ?r) = unat A + unat ?r"
          using S less.prems(1) by (subst unat_plus_if_size) (simp add: word_size)
        have smaller: "unat (S - ?r) < unat S" using S r in_A by simp
        have bound: "unat (A + ?r) + unat (S - ?r) < 2 ^ 64" using A S less.prems(1) by simp
        have pos: "0 < unat (S - ?r)" using S by simp
        obtain x d' where IH: "CheckRangeExecutable E (A + ?r) (S - ?r) ?d = Some (x, d')" "cache_ok E d'"
          "x \<longleftrightarrow> (\<forall>b \<in> span (A + ?r) (unat (S - ?r)). executable_at E b)"
          using less.hyps [OF smaller bound pos c] by blast
        have "executable_at E b" if "b \<in> span A (unat ?r)" for b
          using query_coherent [of A b] that r in_A by (auto simp: in_range_def span_def executable_at_def assms(1))
        moreover have "span A (unat S) = span A (unat ?r) \<union> span (A + ?r) (unat (S - ?r))"
          using S A by (auto simp: span_def)
        ultimately have "x \<longleftrightarrow> (\<forall>b \<in> span A (unat S). executable_at E b)" using IH(3) by auto
        then show ?thesis using IH True nz unf by simp
      next
        case fits: False
        then have "unat A + unat S \<le> unat (Base (query A)) + unat (Size (query A))"
          using r in_A by (simp add: word_less_nat_alt)
        then have h: "CheckRangeExecutable E A S ?d = Some (True, ?d)"
          using in_A less.prems(1) query_end [of A] by (intro check_hit) simp_all
        have "\<forall>b \<in> span A (unat S). executable_at E b"
          using c in_A query_end [of A] \<open>unat A + unat S \<le> _\<close> by (auto simp: cache_ok_def span_def)
        then show ?thesis using h nz fits unf c by auto
      qed
    qed
  qed
qed

end

end
