(* ===== verification/DecoderSafety.thy ===== *)
theory DecoderSafety
  imports DecoderInstruction ExecutableRanges
begin

text \<open>
  The decoder stays within its arrays and within executable memory: every operation, from a byte
  read to a whole instruction, has a defined result, and all it consumed was executable.
\<close>

section \<open>Defined results\<close>

text \<open>\<open>ok m Q\<close>: the operation has a defined result, which satisfies \<open>Q\<close>.\<close>

definition ok :: "'a option \<Rightarrow> ('a \<Rightarrow> bool) \<Rightarrow> bool" where
  "ok m Q \<longleftrightarrow> (\<exists>r. m = Some r \<and> Q r)"

lemma ok_simps [simp]: "ok (Some r) Q \<longleftrightarrow> Q r" "\<not> ok None Q"
  by (simp_all add: ok_def)

lemma ok_bind: "ok (Option.bind m f) Q \<longleftrightarrow> ok m (\<lambda>r. ok (f r) Q)"
  by (cases m) (simp_all add: ok_def)

lemma ok_bindI: "ok m R \<Longrightarrow> (\<And>r. R r \<Longrightarrow> ok (f r) Q) \<Longrightarrow> ok (Option.bind m f) Q"
  by (auto simp: ok_def)

lemma ok_mono: "ok m R \<Longrightarrow> (\<And>r. R r \<Longrightarrow> Q r) \<Longrightarrow> ok m Q"
  by (auto simp: ok_def)

lemma ok_if: "ok (if b then m else m') Q \<longleftrightarrow> (if b then ok m Q else ok m' Q)"
  by simp

lemma array_get_ok [simp]: "ok (array_get xs i) Q \<longleftrightarrow> i < length xs \<and> Q (xs ! i)"
  by (simp add: array_get_def)

lemma array_set_ok [simp]: "ok (array_set xs i v) Q \<longleftrightarrow> i < length xs \<and> Q (xs[i := v])"
  by (simp add: array_set_def)

section \<open>The invariant\<close>

definition env_ok :: "DecoderEnv \<Rightarrow> bool" where
  "env_ok E \<longleftrightarrow> executable_ranges (QueryGuestExecutableRange E) \<and> unat (InstStream E) + 256 < 2 ^ 64 \<and>
     (\<exists>r a s. (X87TablePtr E, VEXTablePtr E, VEXTableGroupPtr E) = DecoderTablesFor r a s)"

text \<open>At most \<open>n\<close> bytes are consumed, and they are executable unless the code failed to read one.\<close>

definition decoding :: "DecoderEnv \<Rightarrow> nat \<Rightarrow> Decoder \<Rightarrow> bool" where
  "decoding E n d \<longleftrightarrow>
     length (Instruction d) = 15 \<and> length (Src (DecodeInst d)) = 3 \<and> unat (InstructionSize d) \<le> n \<and>
     cache_ok E d \<and> (HitBadRelocation d \<longrightarrow> InstructionSize d \<noteq> 0) \<and>
     (HitNonExecutableRange d \<or> (\<forall>b \<in> span (InstStream E) (unat (InstructionSize d)). executable_at E b))"

text \<open>What decoding the operands leaves alone: the lock prefix and the REX bits among the flags.\<close>

definition kept_flags :: u32 where
  "kept_flags = FLAG_LOCK OR FLAG_REX_PREFIX OR FLAG_REX_WIDENING OR FLAG_REX_XGPR_B OR FLAG_REX_XGPR_X OR FLAG_REX_XGPR_R"

definition keeps :: "Decoder \<Rightarrow> Decoder \<Rightarrow> bool" where
  "keeps d d' \<longleftrightarrow> InstFlags (DecodeInst d') AND kept_flags = InstFlags (DecodeInst d) AND kept_flags \<and>
     PC (DecodeInst d') = PC (DecodeInst d) \<and> TableInfo (DecodeInst d') = TableInfo (DecodeInst d) \<and>
     REXIndex (DecodeInst d') = REXIndex (DecodeInst d) \<and> LastEscapePrefix d' = LastEscapePrefix d \<and>
     (InstructionSize d \<noteq> 0 \<longrightarrow> InstructionSize d' \<noteq> 0)"

lemma decoding_mono: "decoding E n d \<Longrightarrow> n \<le> m \<Longrightarrow> decoding E m d"
  by (auto simp: decoding_def)

lemma keeps_refl [simp]: "keeps d d" by (simp add: keeps_def)
lemma keeps_trans: "keeps d d' \<Longrightarrow> keeps d' d'' \<Longrightarrow> keeps d d''" by (simp add: keeps_def)

lemma decoding_inst [simp]:
  "length (Src (f (DecodeInst d))) = length (Src (DecodeInst d)) \<Longrightarrow>
   decoding E n (DecodeInst_update f d) \<longleftrightarrow> decoding E n d"
  by (simp add: decoding_def cache_ok_def)

lemma decoding_or_flags [simp]: "decoding E n (or_flags f d) \<longleftrightarrow> decoding E n d"
  by (simp add: or_flags_def)

lemma or_flags_simps [simp]:
  "InstructionSize (or_flags f d) = InstructionSize d" "LastEscapePrefix (or_flags f d) = LastEscapePrefix d"
  "Instruction (or_flags f d) = Instruction d"
  "TableInfo (DecodeInst (or_flags f d)) = TableInfo (DecodeInst d)"
  "ModRM (DecodeInst (or_flags f d)) = ModRM (DecodeInst d)"
  "Src (DecodeInst (or_flags f d)) = Src (DecodeInst d)"
  "Dest (DecodeInst (or_flags f d)) = Dest (DecodeInst d)"
  "InstFlags (DecodeInst (or_flags f d)) = InstFlags (DecodeInst d) OR f"
  by (simp_all add: or_flags_def)

lemma keeps_or_flags: "f AND kept_flags = 0 \<Longrightarrow> keeps d (or_flags f d)"
  by (simp add: keeps_def or_flags_def bit.conj_disj_distrib2)

section \<open>Reading\<close>

text \<open>The facts both kinds of reads share.\<close>

lemma span_Suc: "span a (n + k) = span a n \<union> {b. unat a + n \<le> unat b \<and> unat b < unat a + n + k}"
  by (auto simp: span_def)

lemma check_at:
  assumes "env_ok E" "decoding E n d" "n \<le> 100" "0 < unat Sz" "unat Sz \<le> 8"
  shows "ok (CheckRangeExecutable E (InstStream E + of_nat (unat (InstructionSize d))) Sz d)
    (\<lambda>(x, d'). (\<exists>b e wr. d' = set_range b e wr d) \<and> cache_ok E d' \<and>
      (x \<longrightarrow> (\<forall>b. unat (InstStream E) + unat (InstructionSize d) \<le> unat b \<and>
        unat b < unat (InstStream E) + unat (InstructionSize d) + unat Sz \<longrightarrow> executable_at E b)))"
proof -
  let ?A = "InstStream E + of_nat (unat (InstructionSize d)) :: u64"
  have er: "executable_ranges (QueryGuestExecutableRange E)" using assms(1) by (simp add: env_ok_def)
  have u: "unat (InstructionSize d) \<le> 100" using assms(2,3) by (simp add: decoding_def)
  then have A: "unat ?A = unat (InstStream E) + unat (InstructionSize d)"
    using assms(1) by (intro unat_plus_nat) (simp add: env_ok_def)
  have "unat ?A + unat Sz < 2 ^ 64" using A u assms(1,5) by (simp add: env_ok_def)
  then obtain x d' where c: "CheckRangeExecutable E ?A Sz d = Some (x, d')" "cache_ok E d'"
    "x \<longleftrightarrow> (\<forall>b \<in> span ?A (unat Sz). executable_at E b)"
    using executable_ranges.check_correct [OF er refl _ assms(4), of ?A d] assms(2) by (auto simp: decoding_def)
  moreover obtain b e wr where "d' = set_range b e wr d" using CheckRangeExecutable_frame [OF c(1)] by auto
  ultimately show ?thesis using A by (auto simp: span_def)
qed

lemma check_at_obtain:
  assumes "env_ok E" "decoding E n d" "n \<le> 100" "0 < unat Sz" "unat Sz \<le> 8"
  obtains x d' where
    "CheckRangeExecutable E (InstStream E + of_nat (unat (InstructionSize d))) Sz d = Some (x, d')"
    "cache_ok E d'" "InstructionSize d' = InstructionSize d" "Instruction d' = Instruction d"
    "DecodeInst d' = DecodeInst d" "LastEscapePrefix d' = LastEscapePrefix d"
    "HitBadRelocation d' = HitBadRelocation d" "HitNonExecutableRange d' = HitNonExecutableRange d"
    "\<And>b. x \<Longrightarrow> b \<in> span (InstStream E) (unat (InstructionSize d) + unat Sz) \<Longrightarrow>
       \<forall>b \<in> span (InstStream E) (unat (InstructionSize d)). executable_at E b \<Longrightarrow> executable_at E b"
proof -
  obtain x d' where c: "CheckRangeExecutable E (InstStream E + of_nat (unat (InstructionSize d))) Sz d = Some (x, d')"
      "cache_ok E d'" "\<exists>b e wr. d' = set_range b e wr d"
    and x: "x \<longrightarrow> (\<forall>b. unat (InstStream E) + unat (InstructionSize d) \<le> unat b \<and>
      unat b < unat (InstStream E) + unat (InstructionSize d) + unat Sz \<longrightarrow> executable_at E b)"
    using check_at [OF assms] by (fastforce simp: ok_def simp del: of_nat_unat)
  show ?thesis
    by (rule that [OF c(1,2)]) (use c(3) x in \<open>force simp: span_def not_less\<close>)+
qed

lemma ReadByte_ok:
  assumes "env_ok E" "decoding E n d" "n < 15"
  shows "ok (ReadByte E d) (\<lambda>(b, d'). decoding E (Suc n) d' \<and> keeps d d' \<and> DecodeInst d' = DecodeInst d)"
proof -
  have i: "unat (InstructionSize d) < 15" "length (Instruction d) = 15"
    using assms(2,3) by (simp_all add: decoding_def)
  then have s: "unat (InstructionSize d + 1) = Suc (unat (InstructionSize d))"
    by (simp add: unat_word_ariths)
  obtain x d1 where c: "CheckRangeExecutable E (InstStream E + of_nat (unat (InstructionSize d))) 1 d = Some (x, d1)"
      "cache_ok E d1"
    and d1: "InstructionSize d1 = InstructionSize d" "Instruction d1 = Instruction d"
      "DecodeInst d1 = DecodeInst d" "LastEscapePrefix d1 = LastEscapePrefix d"
      "HitBadRelocation d1 = HitBadRelocation d" "HitNonExecutableRange d1 = HitNonExecutableRange d"
    and ex: "\<And>b. x \<Longrightarrow> b \<in> span (InstStream E) (unat (InstructionSize d) + unat (1 :: u64)) \<Longrightarrow>
       \<forall>b \<in> span (InstStream E) (unat (InstructionSize d)). executable_at E b \<Longrightarrow> executable_at E b"
    by (rule check_at_obtain [OF assms(1,2), of 1]) (use assms(3) in auto)
  show ?thesis
  proof (cases x)
    case True
    let ?d = "d1\<lparr>Instruction := (Instruction d)[unat (InstructionSize d) := Code E (unat (InstructionSize d))],
      InstructionSize := InstructionSize d + 1\<rparr>"
    have "ReadByte E d = Some (Code E (unat (InstructionSize d)), ?d)"
      using True i c(1) by (simp add: ReadByte_def PeekByte_def array_set_def d1)
    then show ?thesis
      using assms(2) c(2) s i ex [OF True] by (auto simp: decoding_def keeps_def d1 cache_ok_def)
  next
    case False
    then have "ReadByte E d = Some (0, d1\<lparr>HitNonExecutableRange := True\<rparr>)"
      using c(1) by (simp add: ReadByte_def PeekByte_def)
    then show ?thesis using assms(2) c(2) by (auto simp: decoding_def keeps_def d1 cache_ok_def)
  qed
qed

lemma ReadData_ok:
  assumes "env_ok E" "decoding E n d" "n \<le> 40" "0 < Sz" "Sz \<le> 8"
  shows "ok (ReadData E Sz d) (\<lambda>(r, d'). decoding E (n + unat Sz) d' \<and> keeps d d' \<and>
    DecodeInst d' = DecodeInst d \<and> InstructionSize d' = InstructionSize d + Sz)"
proof -
  have Sz: "0 < unat Sz" "unat Sz \<le> 8" using assms(4,5) by (simp_all add: word_less_nat_alt word_le_nat_alt)
  have z: "unat (zxt Sz :: u64) = unat Sz" using Sz by (simp add: unsigned_ucast_eq take_bit_nat_eq_self)
  have i: "unat (InstructionSize d) \<le> 40" using assms(2,3) by (simp add: decoding_def)
  then have s: "unat (InstructionSize d + Sz) = unat (InstructionSize d) + unat Sz"
    using Sz by (simp add: unat_plus_if_size word_size)
  obtain x d1 where c: "CheckRangeExecutable E (InstStream E + of_nat (unat (InstructionSize d))) (zxt Sz) d = Some (x, d1)"
      "cache_ok E d1"
    and d1: "InstructionSize d1 = InstructionSize d" "Instruction d1 = Instruction d"
      "DecodeInst d1 = DecodeInst d" "LastEscapePrefix d1 = LastEscapePrefix d"
      "HitBadRelocation d1 = HitBadRelocation d" "HitNonExecutableRange d1 = HitNonExecutableRange d"
    and ex: "\<And>b. x \<Longrightarrow> b \<in> span (InstStream E) (unat (InstructionSize d) + unat (zxt Sz :: u64)) \<Longrightarrow>
       \<forall>b \<in> span (InstStream E) (unat (InstructionSize d)). executable_at E b \<Longrightarrow> executable_at E b"
    by (rule check_at_obtain [OF assms(1,2), of "zxt Sz"]) (use assms(3) Sz z in auto)
  define d2 where "d2 = SkipBytes Sz (if x then d1 else d1\<lparr>HitNonExecutableRange := True\<rparr>)"
  have sz0: "InstructionSize d + Sz \<noteq> 0" using s Sz by (metis add_is_0 not_less0 unat_0)
  have d2: "decoding E (n + unat Sz) d2 \<and> keeps d d2 \<and> DecodeInst d2 = DecodeInst d \<and>
      InstructionSize d2 = InstructionSize d + Sz"
    using assms(2) c(2) s ex sz0 z
    by (auto simp: d2_def SkipBytes_def decoding_def keeps_def d1 cache_ok_def)
  have bad: "decoding E (n + unat Sz) (d2\<lparr>HitBadRelocation := True\<rparr>) \<and> keeps d (d2\<lparr>HitBadRelocation := True\<rparr>) \<and>
      DecodeInst (d2\<lparr>HitBadRelocation := True\<rparr>) = DecodeInst d \<and>
      InstructionSize (d2\<lparr>HitBadRelocation := True\<rparr>) = InstructionSize d + Sz"
    using d2 sz0 by (auto simp: decoding_def keeps_def cache_ok_def)
  let ?R = "if x then le_word (map (Code E) [unat (InstructionSize d)..<unat (InstructionSize d) + unat Sz]) else 0 :: u64"
  have "ReadData E Sz d = (case Relocations E of
      None \<Rightarrow> Some ((?R, False), d2)
    | Some R \<Rightarrow> (case R (zxt (InstStream E + of_nat (unat (InstructionSize d)) - SectionMinAddress E)) of
        None \<Rightarrow> Some ((?R, False), d2)
      | Some r \<Rightarrow>
          if r = Rel32 \<and> Sz = 4 then Some ((sxt (zxt ?R - zxt (EntryPoint E) :: u32), True), d2)
          else if r = Rel64 \<and> Sz = 8 then Some ((?R - EntryPoint E, True), d2)
          else Some ((0, False), d2\<lparr>HitBadRelocation := True\<rparr>)))"
    using assms(5) c(1) unfolding ReadData_def Let_def d2_def by (simp add: not_less split: option.split)
  then show ?thesis using d2 bad by (auto split: option.split)
qed

section \<open>Operands\<close>

lemma modrm_fields: "ModRM_rm h < 8" "ModRM_reg h < 8" "SIB_base h < 8" "SIB_index h < 8" "ModRM_mod h < 4"
proof -
  have "x AND 7 < 8" for x :: u8
    using word_and_le1 [of x 7] by (simp add: word_less_nat_alt word_le_nat_alt)
  then show "ModRM_rm h < 8" "ModRM_reg h < 8" "SIB_base h < 8" "SIB_index h < 8"
    by (simp_all add: ModRM_rm_def ModRM_reg_def SIB_base_def SIB_index_def)
  have "unat h < 2 ^ LENGTH(8)" by (rule unsigned_less)
  then have "unat h div 64 < 4" by (simp add: less_mult_imp_div_less)
  then show "ModRM_mod h < 4"
    by (simp add: ModRM_mod_def word_less_nat_alt unat_drop_bit_eq drop_bit_nat_def)
qed

lemma small_byte_bits:
  assumes "b < 8" "bit (b :: u8) n" shows "n < 3"
proof -
  have "b AND mask 3 = b" using assms(1) by (intro less_mask_eq) simp
  then show ?thesis using assms(2) by (metis bit_and_iff bit_mask_iff)
qed

lemma shifted_or:
  fixes r b :: u8
  assumes "r \<le> 3" "b < 8"
  shows "unat (push_bit 3 r OR b) = 8 * unat r + unat b"
proof -
  have "push_bit 3 r + b = push_bit 3 r OR b"
    by (rule disjunctive_add) (auto simp: bit_push_bit_iff dest!: small_byte_bits [OF assms(2)])
  moreover have "unat (push_bit 3 r + b) = 8 * unat r + unat b"
    using assms by (simp add: push_bit_eq_mult word_le_nat_alt word_less_nat_alt unat_word_ariths)
  ultimately show ?thesis by simp
qed

lemma MapModRMToReg_ok [simp]:
  assumes "r \<le> 1" "b < 8"
  shows "ok (MapModRMToReg r b h x m v i) (\<lambda>_. True)"
proof -
  have "unat r \<le> 1" "unat b < 8" using assms by (simp_all add: word_le_nat_alt word_less_nat_alt)
  moreover have "r \<le> 3" using assms(1) by (rule order.trans) simp
  ultimately have "unat (push_bit 3 r OR b) < 16" using shifted_or [of r b] assms(2) by simp
  then show ?thesis by (simp add: MapModRMToReg_def Let_def GPR8BitHighIndexes_def)
qed

lemma rex_bit_le [simp]: "rex_bit f d \<le> 1"
  by (simp add: rex_bit_def)

lemma kept_disjoint [simp]:
  "FLAG_DECODED_SIB AND kept_flags = 0" "FLAG_DECODED_MODRM AND kept_flags = 0" "FLAG_VSIB_BYTE AND kept_flags = 0"
  by (simp_all add: FLAG_DECODED_SIB_def FLAG_DECODED_MODRM_def FLAG_VSIB_BYTE_def kept_flags_def FLAG_LOCK_def
      FLAG_REX_PREFIX_def FLAG_REX_WIDENING_def FLAG_REX_XGPR_B_def FLAG_REX_XGPR_X_def FLAG_REX_XGPR_R_def)

lemma keeps_upd [simp]:
  "keeps d (DecodeInst_update (SIB_update f) b) \<longleftrightarrow> keeps d b"
  "keeps d (DecodeInst_update (ModRM_update f) b) \<longleftrightarrow> keeps d b"
  "keeps d (DecodeInst_update (Dest_update f') b) \<longleftrightarrow> keeps d b"
  "keeps d (DecodeInst_update (Src_update f'') b) \<longleftrightarrow> keeps d b"
  "g AND kept_flags = 0 \<Longrightarrow> keeps d (or_flags g b) \<longleftrightarrow> keeps d b"
  by (simp_all add: keeps_def or_flags_def bit.conj_disj_distrib2)

lemma FetchSIB_ok:
  assumes "env_ok E" "decoding E n d" "n < 15"
  shows "ok (FetchSIB E d) (\<lambda>(b, d'). decoding E (Suc n) d' \<and> keeps d d')"
  using decoding_mono [OF assms(2), of "Suc n"]
  by (auto simp: FetchSIB_def intro!: ok_bindI [OF ReadByte_ok [OF assms]])

lemma FetchModRM_ok:
  assumes "env_ok E" "decoding E n d" "n < 15"
  shows "ok (FetchModRM E d) (\<lambda>d'. decoding E (Suc n) d' \<and> keeps d d' \<and>
    Src (DecodeInst d') = Src (DecodeInst d) \<and> Dest (DecodeInst d') = Dest (DecodeInst d))"
  by (auto simp: FetchModRM_def intro!: ok_bindI [OF ReadByte_ok [OF assms]])

lemma ReadData_ok':
  assumes "env_ok E" "decoding E n d" "n \<le> 40" "0 < Sz" "Sz \<le> 8" "n + unat Sz \<le> m"
  shows "ok (ReadData E Sz d) (\<lambda>(r, d'). decoding E m d' \<and> keeps d d' \<and> DecodeInst d' = DecodeInst d)"
  by (rule ok_mono [OF ReadData_ok [OF assms(1-5)]]) (auto intro: decoding_mono assms(6))

lemma DecodeModRM_16_ok:
  assumes "env_ok E" "decoding E n d" "n \<le> 15" "ModRM_mod h \<noteq> 3"
  shows "ok (DecodeModRM_16 E h d) (\<lambda>(op, d'). decoding E (n + 2) d' \<and> keeps d d')"
proof -
  have "ModRM_mod h \<le> 2"
    using modrm_fields(5) [of h] assms(4) by unat_arith
  then have "unat (push_bit 3 (ModRM_mod h) OR ModRM_rm h) < 24"
    using shifted_or [of "ModRM_mod h" "ModRM_rm h"] modrm_fields(1) [of h]
    by (simp add: word_le_nat_alt word_less_nat_alt)
  then have L: "unat (push_bit 3 (ModRM_mod h) OR ModRM_rm h) < length ModRM16_Lookup"
    by (simp add: ModRM16_Lookup_def)
  have pad: "decoding E (n + 2) d" using assms(2) by (rule decoding_mono) simp
  show ?thesis
    unfolding DecodeModRM_16_def Let_def
  proof (rule ok_bindI [where R = "\<lambda>(Lit, d'). decoding E (n + 2) d' \<and> keeps d d'"], goal_cases)
    case 1
    show ?case
      using assms(3) pad by (auto intro!: ok_bindI [OF ReadData_ok' [OF assms(1,2), where m = "n + 2"]])
  next
    case (2 r)
    then show ?case using L by (auto simp: ok_bind split: prod.splits)
  qed
qed

lemma ReadData_then:
  assumes "env_ok E" "decoding E n d" "keeps d0 d" "n \<le> 40" "0 < Sz" "Sz \<le> 8" "n + unat Sz \<le> m"
    "\<And>r d'. decoding E m d' \<Longrightarrow> keeps d0 d' \<Longrightarrow> DecodeInst d' = DecodeInst d \<Longrightarrow> ok (f (r, d')) Q"
  shows "ok (Option.bind (ReadData E Sz d) f) Q"
  by (rule ok_bindI [OF ReadData_ok' [OF assms(1,2,4-7)]]) (auto intro: assms(8) keeps_trans [OF assms(3)])

lemma MapModRMToReg_then:
  "r \<le> 1 \<Longrightarrow> b < 8 \<Longrightarrow> (\<And>R. ok (f R) Q) \<Longrightarrow> ok (Option.bind (MapModRMToReg r b h x m v i) f) Q"
  by (rule ok_bindI [OF MapModRMToReg_ok])

lemma DecodeSIB_ok:
  assumes "env_ok E" "decoding E n d" "n < 15" "Disp = 0 \<or> Disp = 1 \<or> Disp = 4"
  shows "ok (DecodeSIB E h Disp d) (\<lambda>(op, d'). decoding E (n + 5) d' \<and> keeps d d')"
  unfolding DecodeSIB_def Let_def
proof (rule ok_bindI [OF FetchSIB_ok [OF assms(1-3)]], clarsimp, goal_cases)
  case (1 S d1)
  let ?V = "case TableInfo (DecodeInst d1) of None \<Rightarrow> False | Some i \<Rightarrow> Flags i AND FLAGS_VEX_VSIB \<noteq> 0"
  let ?d = "if ?V then or_flags FLAG_VSIB_BYTE d1 else d1"
  have d: "decoding E (Suc n) ?d" "keeps d ?d" using 1 by auto
  have pad: "decoding E (n + 5) ?d" using d(1) by (rule decoding_mono) simp
  show ?case
    using 1 assms(3,4) pad
    by (auto intro!: MapModRMToReg_then ReadData_then [OF assms(1), where n = "Suc n" and m = "n + 5"] simp: modrm_fields)
qed

lemma DecodeModRM_64_ok:
  assumes "env_ok E" "decoding E n d" "n < 15"
  shows "ok (DecodeModRM_64 E h d) (\<lambda>(op, d'). decoding E (n + 5) d' \<and> keeps d d')"
proof -
  have pad: "decoding E (n + 5) d" using assms(2) by (rule decoding_mono) simp
  have S: "ok (DecodeSIB E h Disp d) (\<lambda>(op, d'). decoding E (n + 5) d' \<and> keeps d d')"
    if "Disp = 0 \<or> Disp = 1 \<or> Disp = 4" for Disp
    using that by (rule DecodeSIB_ok [OF assms])
  show ?thesis
    unfolding DecodeModRM_64_def Let_def
    using assms(2,3) pad
    by (auto intro!: S MapModRMToReg_then ReadData_then [OF assms(1), where n = n and m = "n + 5"] simp: modrm_fields)
qed

lemma DecodeModRMs_Disp_ok:
  assumes "env_ok E" "decoding E n d" "n < 15" "ModRM_mod h \<noteq> 3"
  shows "ok (DecodeModRMs_Disp b E h d) (\<lambda>(op, d'). decoding E (n + 5) d' \<and> keeps d d')"
proof (cases b)
  case True
  have "ok (DecodeModRM_16 E h d) (\<lambda>(op, d'). decoding E (n + 2) d' \<and> keeps d d')"
    using assms by (intro DecodeModRM_16_ok) simp_all
  then show ?thesis
    unfolding DecodeModRMs_Disp_def using True by (auto elim!: ok_mono intro: decoding_mono)
next
  case False
  then show ?thesis unfolding DecodeModRMs_Disp_def using DecodeModRM_64_ok [OF assms(1-3)] by simp
qed

section \<open>The sources and the literal\<close>

lemma and_flag: "F AND f \<noteq> 0 \<longleftrightarrow> (\<exists>n. bit F n \<and> bit f n)" for F f :: u64
proof
  assume "F AND f \<noteq> 0"
  then obtain n where "bit (F AND f) n" by (metis bit_eqI bit_0_eq bot_apply bot_bool_def)
  then show "\<exists>n. bit F n \<and> bit f n" by (auto simp: bit_and_iff)
next
  assume "\<exists>n. bit F n \<and> bit f n"
  then obtain n where "bit (F AND f) n" by (auto simp: bit_and_iff)
  then show "F AND f \<noteq> 0" by (metis bit_0_eq bot_apply bot_bool_def)
qed

lemma word_eq_bits: "x = y \<longleftrightarrow> (\<forall>n. bit x n = bit y n)" for x y :: u64
  by (metis bit_eqI)

lemma two_bit_tests:
  "a \<noteq> b \<Longrightarrow> (\<forall>n :: nat. (P n \<and> (n = a \<or> n = b)) = (n = b)) \<longleftrightarrow> \<not> P a \<and> P b"
  "(\<forall>n :: nat. (P n \<and> (n = a \<or> n = b)) = (n = a \<or> n = b)) \<longleftrightarrow> P a \<and> P b"
  by metis+

lemma flag_tests:
  "F AND FLAGS_MODRM \<noteq> 0 \<longleftrightarrow> bit F 16" "F AND FLAGS_DISPLACE_SIZE_MUL_2 \<noteq> 0 \<longleftrightarrow> bit F 6"
  "F AND FLAGS_SUPPORTS_LOCK \<noteq> 0 \<longleftrightarrow> bit F 31"
  "F AND FLAGS_VEX_SRC_MASK = FLAGS_VEX_1ST_SRC \<longleftrightarrow> \<not> bit F 22 \<and> bit F 23"
  "F AND FLAGS_VEX_SRC_MASK = FLAGS_VEX_2ND_SRC \<longleftrightarrow> bit F 22 \<and> bit F 23"
  "HAS_NON_XMM_SUBFLAG F FLAGS_SF_SRC_RAX \<longleftrightarrow> \<not> bit F 10 \<and> bit F 13"
  "HAS_NON_XMM_SUBFLAG F FLAGS_SF_SRC_RCX \<longleftrightarrow> \<not> bit F 10 \<and> bit F 14"
  unfolding HAS_NON_XMM_SUBFLAG_def and_flag word_eq_bits bit_and_iff flag_bits
  by (simp_all add: two_bit_tests)

lemma ok_ifI: "(b \<Longrightarrow> ok m Q) \<Longrightarrow> (\<not> b \<Longrightarrow> ok m' Q) \<Longrightarrow> ok (if b then m else m') Q"
  by simp

definition valid_ref :: "OperandRef \<Rightarrow> bool" where
  "valid_ref r \<longleftrightarrow> (case r of RefDest \<Rightarrow> True | RefSrc i \<Rightarrow> i < 3)"

lemma valid_ref_simps [simp]: "valid_ref RefDest" "valid_ref (RefSrc i) \<longleftrightarrow> i < 3"
  by (simp_all add: valid_ref_def)

lemma SetOperand_then:
  assumes "decoding E n d" "keeps d0 d" "valid_ref r"
    "\<And>d'. decoding E n d' \<Longrightarrow> keeps d0 d' \<Longrightarrow> ModRM (DecodeInst d') = ModRM (DecodeInst d) \<Longrightarrow> ok (f d') Q"
  shows "ok (Option.bind (SetOperand r op d) f) Q"
proof (cases r)
  case RefDest
  then show ?thesis using assms by (simp add: SetOperand_def)
next
  case (RefSrc i)
  then have "i < length (Src (DecodeInst d))" using assms(1,3) by (simp add: decoding_def)
  then show ?thesis using assms RefSrc by (simp add: SetOperand_def array_set_def)
qed

lemma SetOperand_ok:
  assumes "decoding E n d" "keeps d0 d" "valid_ref r"
  shows "ok (SetOperand r op d) (\<lambda>d'. decoding E n d' \<and> keeps d0 d')"
  using SetOperand_then [OF assms, of Some] by auto

lemma ImplicitDest_ok:
  assumes "decoding E n d" "keeps d0 d"
  shows "ok (ImplicitDest info Op b d) (\<lambda>((c, r), d'). decoding E n d' \<and> keeps d0 d' \<and> valid_ref r)"
proof -
  have "zxt (Op AND 7) < (8 :: u8)"
  proof -
    have "unat (Op AND 7) \<le> 7" using word_and_le1 [of Op 7] by (simp add: word_le_nat_alt)
    then show ?thesis by (simp add: word_less_nat_alt unsigned_ucast_eq take_bit_nat_eq_self)
  qed
  then show ?thesis
    unfolding ImplicitDest_def Let_def using assms
    by (auto intro!: SetOperand_then MapModRMToReg_then)
qed

lemma ModRMOperand_ok:
  assumes "env_ok E" "decoding E n d" "keeps d0 d" "n < 15" "valid_ref r" "valid_ref r'"
  shows "ok (ModRMOperand E F r r' x x' m m' b b' d) (\<lambda>(c, d'). decoding E (n + 5) d' \<and> keeps d0 d')"
proof -
  have pad: "decoding E (n + 5) d'" if "decoding E n d'" for d'
    using that by (rule decoding_mono) simp
  have op: "ok (do { op \<leftarrow> GetOperand r' d1;
      if op = OpNothing then do {
        (op, d) \<leftarrow> DecodeModRMs_Disp c E h d1; d \<leftarrow> SetOperand r' op d; Some (True, d) }
      else Some (True, d1) }) (\<lambda>(c, d'). decoding E (n + 5) d' \<and> keeps d0 d')"
    if "decoding E n d1" "keeps d0 d1" "ModRM_mod h \<noteq> 3" for c h d1
  proof -
    have "ok (GetOperand r' d1) (\<lambda>_. True)"
      using that(1) assms(6) by (auto simp: GetOperand_def decoding_def split: OperandRef.splits)
    then show ?thesis
    proof (rule ok_bindI, goal_cases)
      case (1 op)
      have "ok (do { (op, d) \<leftarrow> DecodeModRMs_Disp c E h d1; d \<leftarrow> SetOperand r' op d; Some (True, d) })
        (\<lambda>(c, d'). decoding E (n + 5) d' \<and> keeps d0 d')"
        by (rule ok_bindI [OF DecodeModRMs_Disp_ok [OF assms(1) that(1) assms(4) that(3)]])
          (auto intro!: SetOperand_then [OF _ _ assms(6)] intro: keeps_trans [OF that(2)])
      then show ?case using that(1,2) pad by simp
    qed
  qed
  have rest: "ok (if stop then Some (False, d1)
      else if ModRM_mod h = 3 then do {
        R \<leftarrow> MapModRMToReg (rex_bit FLAG_REX_XGPR_B d1) (ModRM_rm h) b' rx x' m' NoInvalidOffset;
        d \<leftarrow> SetOperand r' (g R) d1;
        Some (g' R, d) }
      else do { op \<leftarrow> GetOperand r' d1;
        if op = OpNothing then do {
          (op, d) \<leftarrow> DecodeModRMs_Disp c E h d1; d \<leftarrow> SetOperand r' op d; Some (True, d) }
        else Some (True, d1) }) (\<lambda>(c, d'). decoding E (n + 5) d' \<and> keeps d0 d')"
    if "decoding E n d1" "keeps d0 d1" for stop h rx c d1 g g'
    using op [OF that] that pad
    by (auto intro!: MapModRMToReg_then SetOperand_then [OF that assms(6)] simp: modrm_fields)
  have main: "ok (do { R \<leftarrow> MapModRMToReg (rex_bit FLAG_REX_XGPR_R d) (ModRM_reg h) b rx x m NoInvalidOffset;
      d \<leftarrow> SetOperand r (g R) d; k R d }) (\<lambda>(c, d'). decoding E (n + 5) d' \<and> keeps d0 d')"
    if "\<And>R d1. decoding E n d1 \<Longrightarrow> keeps d0 d1 \<Longrightarrow> ok (k R d1) (\<lambda>(c, d'). decoding E (n + 5) d' \<and> keeps d0 d')"
    for h rx g k
    by (rule MapModRMToReg_then [OF rex_bit_le modrm_fields(2)], rule SetOperand_then [OF assms(2,3,5)], rule that)
  have stop: "ok (Some (False, d)) (\<lambda>(c, d'). decoding E (n + 5) d' \<and> keeps d0 d')"
    using assms(2,3) pad by simp
  show ?thesis
    unfolding ModRMOperand_def Let_def
    by (rule ok_ifI, rule stop, rule ok_ifI, rule stop, rule ok_ifI, rule stop, rule main, rule rest)
qed

lemma SetGPRSource_ok:
  assumes "decoding E n d" "keeps d0 d" "c < 3"
  shows "ok (SetGPRSource R c d) (\<lambda>(c', d'). c' = Suc c \<and> decoding E n d' \<and> keeps d0 d')"
  unfolding SetGPRSource_def using assms by (auto intro!: SetOperand_then)

lemma optional_source:
  assumes "decoding E n d" "keeps d0 d" "b \<Longrightarrow> c < 3"
  shows "ok (if b then SetGPRSource R c d else Some (c, d))
    (\<lambda>(c', d'). c' = c + (if b then 1 else 0) \<and> decoding E n d' \<and> keeps d0 d')"
  using assms SetGPRSource_ok [OF assms(1,2)] by (cases b) auto

lemma DecodeSources_ok:
  assumes "env_ok E" "decoding E n d" "keeps d0 d" "n < 15" "source_slots F 0 \<le> 3"
  shows "ok (DecodeSources E Options F b8 s8 d)
    (\<lambda>((c, k), d'). decoding E (n + 5) d' \<and> keeps d0 d' \<and> k \<le> source_slots F 0)"
proof -
  let ?v1 = "F AND FLAGS_VEX_SRC_MASK = FLAGS_VEX_1ST_SRC"
  let ?v2 = "F AND FLAGS_VEX_SRC_MASK = FLAGS_VEX_2ND_SRC"
  let ?m = "F AND FLAGS_MODRM \<noteq> 0"
  let ?a = "HAS_NON_XMM_SUBFLAG F FLAGS_SF_SRC_RAX" and ?c = "HAS_NON_XMM_SUBFLAG F FLAGS_SF_SRC_RCX"
  have slots: "source_slots F 0 = (if ?v1 then 1 else 0) + (if ?m then 1 else 0) + (if ?v2 then 1 else 0) +
      (if ?a \<or> ?c then 1 else 0)"
    by (auto simp: source_slots_def flag_tests)
  have pad: "decoding E (n + 5) d'" if "decoding E n d'" for d'
    using that by (rule decoding_mono) simp
  have modrm: "ok (if ?m then do {
        (ok, d) \<leftarrow> (if F AND FLAGS_SF_MOD_DST \<noteq> 0
          then ModRMOperand E F (RefSrc c) RefDest x1 x2 x3 x4 x5 x6 d1
          else ModRMOperand E F RefDest (RefSrc c) y1 y2 y3 y4 y5 y6 d1);
        Some (ok, c + 1, d) } else Some (True, c, d1))
      (\<lambda>(ok, c', d'). c' = c + (if ?m then 1 else 0) \<and> decoding E (n + 5) d' \<and> keeps d0 d')"
    if "decoding E n d1" "keeps d0 d1" "c < 3" for c d1 x1 x2 x3 x4 x5 x6 y1 y2 y3 y4 y5 y6
  proof (cases ?m)
    case True
    have "ok (if F AND FLAGS_SF_MOD_DST \<noteq> 0
          then ModRMOperand E F (RefSrc c) RefDest x1 x2 x3 x4 x5 x6 d1
          else ModRMOperand E F RefDest (RefSrc c) y1 y2 y3 y4 y5 y6 d1)
        (\<lambda>(ok, d'). decoding E (n + 5) d' \<and> keeps d0 d')"
      by (intro ok_ifI ModRMOperand_ok assms that) (use that in simp_all)
    then show ?thesis unfolding if_P [OF True] by (rule ok_bindI) auto
  next
    case False
    then show ?thesis using that pad by simp
  qed
  have rest: "ok (do {
      (c, d) \<leftarrow> (if ?v2 then SetGPRSource R2 c d1 else Some (c, d1));
      (c, d) \<leftarrow> (if ?a then SetGPRSource Ra c d else if ?c then SetGPRSource Rc c d else Some (c, d));
      Some ((True, c), d) }) (\<lambda>((ok, k), d'). decoding E (n + 5) d' \<and> keeps d0 d' \<and> k \<le> source_slots F 0)"
    if "decoding E (n + 5) d1" "keeps d0 d1" "c = (if ?v1 then 1 else 0) + (if ?m then 1 else 0)" for c d1 R2 Ra Rc
  proof (rule ok_bindI [OF optional_source [OF that(1,2)]], goal_cases)
    case 1
    then show ?case using that(3) assms(5) by (simp add: slots split: if_splits)
  next
    case (2 r)
    then obtain c2 d2 where r: "r = (c2, d2)" "c2 = c + (if ?v2 then 1 else 0)" "decoding E (n + 5) d2" "keeps d0 d2"
      by auto
    have total: "c2 + (if ?a \<or> ?c then 1 else 0) \<le> source_slots F 0"
      unfolding slots r(2) \<open>c = _\<close> by simp
    have G: "ok (SetGPRSource R c2 d2) (\<lambda>(c', d'). c' \<le> source_slots F 0 \<and> decoding E (n + 5) d' \<and> keeps d0 d')"
      if "?a \<or> ?c" for R
      by (rule ok_mono [OF SetGPRSource_ok [OF r(3,4)]]) (use total that assms(5) in auto)
    have "ok (if ?a then SetGPRSource Ra c2 d2 else if ?c then SetGPRSource Rc c2 d2 else Some (c2, d2))
        (\<lambda>(c', d'). c' \<le> source_slots F 0 \<and> decoding E (n + 5) d' \<and> keeps d0 d')"
      by (intro ok_ifI G) (use total r in auto)
    then show ?case unfolding r(1) prod.case by (rule ok_bindI) auto
  qed
  show ?thesis
    unfolding DecodeSources_def Let_def
  proof (rule ok_ifI, goal_cases)
    case 1
    then show ?case using assms(2,3) pad by simp
  next
    case 2
    show ?case
    proof (rule ok_bindI [OF optional_source [OF assms(2,3)]], simp, goal_cases)
      case (1 r)
      then obtain c1 d1 where r: "r = (c1, d1)" "c1 = (if ?v1 then 1 else 0)" "decoding E n d1" "keeps d0 d1" by auto
      show ?case
        unfolding r(1) prod.case
        by (rule ok_bindI [OF modrm [OF r(3,4)]]) (use rest r in \<open>auto\<close>)
    qed
  qed
qed

lemma halved: "drop_bit 1 b \<le> b" for b :: u8
  by (simp add: word_le_nat_alt unat_drop_bit_eq drop_bit_nat_def)

lemma doubled: "b \<le> 4 \<Longrightarrow> push_bit 1 b \<le> 8" for b :: u8
  by (simp add: push_bit_eq_mult word_le_nat_alt unat_word_ariths)

lemma LiteralBytes_ok:
  assumes "body_ok (Flags info) (MoreBytes info)"
  shows "LiteralBytes E Options info IF \<le> 8"
    "LiteralBytes E Options info IF \<noteq> 0 \<Longrightarrow> source_slots (Flags info) 0 < 3"
proof -
  let ?b = "if Flags info AND FLAGS_DISPLACE_SIZE_MUL_2 \<noteq> 0 \<and> HasWideningDisplacement E Options IF
            then push_bit 1 (MoreBytes info) else MoreBytes info"
  have b: "?b \<le> 8"
  proof (cases "bit (Flags info) 6")
    case True
    then have "MoreBytes info \<le> 4" using assms by (simp add: body_ok_def)
    then show ?thesis using doubled order.trans [of "MoreBytes info" 4 8] by simp
  next
    case False
    then show ?thesis using assms by (simp add: body_ok_def flag_tests)
  qed
  have h: "(if c then drop_bit 1 x else x) \<le> 8" if "x \<le> 8" for c and x :: u8
    using that halved order.trans by (metis (full_types))
  show "LiteralBytes E Options info IF \<le> 8"
    unfolding LiteralBytes_def Let_def using b h by presburger
  assume "LiteralBytes E Options info IF \<noteq> 0"
  then have "MoreBytes info \<noteq> 0" by (auto simp: LiteralBytes_def Let_def split: if_splits)
  then show "source_slots (Flags info) 0 < 3" using assms by (simp add: body_ok_def source_slots_def)
qed

lemma DecodeLiteral_ok:
  assumes "env_ok E" "decoding E n d" "keeps d0 d" "n \<le> 40" "Bytes \<le> 8" "Bytes \<noteq> 0 \<Longrightarrow> c < 3"
  shows "ok (DecodeLiteral E F Bytes Sz c d) (\<lambda>d'. decoding E (n + 8) d' \<and> keeps d0 d')"
proof (cases "Bytes = 0")
  case True
  then show ?thesis using assms(2,3) decoding_mono [OF assms(2), of "n + 8"] by (simp add: DecodeLiteral_def)
next
  case False
  then have "0 < Bytes" "n + unat Bytes \<le> n + 8" "c < 3"
    using assms(5,6) by (simp_all add: word_le_nat_alt word_neq_0_conv)
  with False show ?thesis
    unfolding DecodeLiteral_def
    by (auto intro!: ReadData_then [OF assms(1-4) _ assms(5), where m = "n + 8"] SetOperand_ok)
qed

section \<open>A whole operation\<close>

text \<open>
  What a decoded instruction satisfies, with the flags and the address it started from.
\<close>

definition finished :: "Decoder \<Rightarrow> bool" where
  "finished d \<longleftrightarrow> InstSize (DecodeInst d) = InstructionSize d \<and>
     (\<exists>info. TableInfo (DecodeInst d) = Some info \<and>
        Type info \<noteq> TYPE_UNKNOWN \<and> Type info \<noteq> TYPE_INVALID \<and> Type info \<noteq> TYPE_ARCH_DISPATCHER \<and>
        (has_flag FLAG_LOCK d \<longrightarrow> Flags info AND FLAGS_SUPPORTS_LOCK \<noteq> 0 \<and> \<not> is_OpGPR (Dest (DecodeInst d))))"

definition decoded :: "DecoderEnv \<Rightarrow> nat \<Rightarrow> Decoder \<Rightarrow> DecodedBlockStatus \<times> Decoder \<Rightarrow> bool" where
  "decoded E m d0 r \<longleftrightarrow> (case r of (st, d) \<Rightarrow>
     decoding E m d \<and> InstFlags (DecodeInst d) AND kept_flags = InstFlags (DecodeInst d0) AND kept_flags \<and>
     PC (DecodeInst d) = PC (DecodeInst d0) \<and> (InstructionSize d0 \<noteq> 0 \<longrightarrow> InstructionSize d \<noteq> 0) \<and>
     st \<in> {SUCCESS, INVALID_INST, UNIMPLEMENTED_INST} \<and> (st = SUCCESS \<longrightarrow> finished d))"

lemma lock_kept:
  assumes "F AND kept_flags = F' AND kept_flags" shows "F AND FLAG_LOCK = F' AND FLAG_LOCK"
proof -
  have "kept_flags AND FLAG_LOCK = FLAG_LOCK"
    by (simp add: kept_flags_def FLAG_LOCK_def FLAG_REX_PREFIX_def FLAG_REX_WIDENING_def FLAG_REX_XGPR_B_def
        FLAG_REX_XGPR_X_def FLAG_REX_XGPR_R_def)
  then show ?thesis using assms by (metis and.assoc)
qed

lemma size_codes_kept:
  "GenSizeDstSize c AND kept_flags = 0" "GenSizeSrcSize c AND kept_flags = 0"
proof -
  have m: "kept_flags = kept_flags AND mask 19"
    by (simp add: mask_eq_exp_minus_1 kept_flags_def FLAG_LOCK_def FLAG_REX_PREFIX_def FLAG_REX_WIDENING_def
        FLAG_REX_XGPR_B_def FLAG_REX_XGPR_X_def FLAG_REX_XGPR_R_def)
  have "push_bit k x AND kept_flags = 0" if "19 \<le> k" for k and x :: u32
    by (subst m, rule bit_word_eqI) (use that in \<open>auto simp: bit_simps\<close>)
  then show "GenSizeDstSize c AND kept_flags = 0" "GenSizeSrcSize c AND kept_flags = 0"
    by (simp_all add: GenSizeDstSize_def GenSizeSrcSize_def)
qed

lemma CheckInfo_success:
  "CheckInfo info Options IF = SUCCESS \<Longrightarrow> Type info \<noteq> TYPE_UNKNOWN \<and> Type info \<noteq> TYPE_INVALID \<and>
     (IF AND FLAG_LOCK \<noteq> 0 \<longrightarrow> Flags info AND FLAGS_SUPPORTS_LOCK \<noteq> 0)"
  by (auto simp: CheckInfo_def Let_def split: if_splits)

lemma CheckInfo_status: "CheckInfo info Options IF \<in> {SUCCESS, INVALID_INST, UNIMPLEMENTED_INST}"
  by (simp add: CheckInfo_def Let_def)

lemma keeps_decoded:
  assumes "decoding E m d" "keeps d1 d" "InstFlags (DecodeInst d1) = InstFlags (DecodeInst d0)"
    "InstructionSize d1 = InstructionSize d0" "PC (DecodeInst d1) = PC (DecodeInst d0)" "st \<in> {INVALID_INST, UNIMPLEMENTED_INST}"
  shows "decoded E m d0 (st, d)"
  using assms by (auto simp: decoded_def keeps_def)

lemma NormalOpBody_ok:
  assumes "env_ok E" "decoding E n d0" "n \<le> 13" "Type info \<noteq> TYPE_ARCH_DISPATCHER"
    "Type info = TYPE_UNKNOWN \<or> Type info = TYPE_INVALID \<or> body_ok (Flags info) (MoreBytes info)"
  shows "ok (NormalOpBody E info Op Options d0) (decoded E (n + 14) d0)"
proof -
  let ?F = "Flags info" and ?IF = "InstFlags (DecodeInst d0)"
  define d1 where "d1 = DecodeInst_update (\<lambda>I. I\<lparr>OP := Op, TableInfo := Some info\<rparr>) d0"
  have d1: "decoding E n d1" "InstFlags (DecodeInst d1) = ?IF" "PC (DecodeInst d1) = PC (DecodeInst d0)"
    "TableInfo (DecodeInst d1) = Some info" "InstructionSize d1 = InstructionSize d0"
    using assms(2) by (simp_all add: d1_def)
  have pad: "decoding E (n + 14) d" if "decoding E m d" "m \<le> n + 14" for d m
    using that by (rule decoding_mono)
  have stop: "ok (Some (st, d)) (decoded E (n + 14) d0)"
    if "decoding E m d" "keeps d1 d" "m \<le> n + 14" "st = INVALID_INST \<or> st = UNIMPLEMENTED_INST" for st d m
    using keeps_decoded [OF pad [OF that(1,3)] that(2) d1(2,5,3)] that(4) by auto
  show ?thesis
    unfolding NormalOpBody_def Let_def d1_def [symmetric] d1(2)
  proof (rule ok_ifI, goal_cases)
    case 1
    then show ?case using stop [OF d1(1) keeps_refl] CheckInfo_status [of info Options ?IF] by auto
  next
    case 2
    then have chk: "CheckInfo info Options ?IF = SUCCESS" by simp
    note success = CheckInfo_success [OF chk]
    have body: "body_ok ?F (MoreBytes info)" using assms(5) success by simp
    then have slots: "source_slots ?F 0 \<le> 3" by (auto simp: body_ok_def source_slots_def split: if_splits)
    have modrm: "ok (if ?F AND FLAGS_MODRM \<noteq> 0 \<and> \<not> has_flag FLAG_DECODED_MODRM d1 then FetchModRM E d1 else Some d1)
        (\<lambda>d. decoding E (Suc n) d \<and> keeps d1 d)"
      by (rule ok_ifI, rule ok_mono [OF FetchModRM_ok [OF assms(1) d1(1)]])
        (use assms(3) decoding_mono [OF d1(1), of "Suc n"] in auto)
    show ?case
    proof (rule ok_bindI [OF modrm], goal_cases)
      case (1 d2)
      obtain c1 z1 b1 where s1: "DecodeDestSize E Options ?F ?IF = (c1, z1, b1)" by (rule prod_cases3)
      obtain c2 z2 b2 where s2: "DecodeSrcSize E Options ?F ?IF = (c2, z2, b2)" by (rule prod_cases3)
      define d3 where "d3 = or_flags (GenSizeSrcSize c2) (or_flags (GenSizeDstSize c1) d2)"
      have d3: "decoding E (Suc n) d3" "keeps d1 d3" using 1 by (simp_all add: d3_def size_codes_kept)
      show ?case
        unfolding s1 s2 prod.case d3_def [symmetric]
      proof (rule ok_bindI [OF ImplicitDest_ok [OF d3]], clarsimp split del: if_split, rule ok_ifI, goal_cases)
        case (1 a r d4)
        then show ?case using stop [of "Suc n" d4 INVALID_INST] by simp
      next
        case (2 a r d4)
        have sources: "ok (DecodeSources E Options ?F b1 b2 d4)
            (\<lambda>((c, k), d'). decoding E (n + 6) d' \<and> keeps d1 d' \<and> k \<le> source_slots ?F 0)"
          using DecodeSources_ok [OF assms(1) 2(1,2) _ slots] assms(3) by (simp add: ac_simps)
        show ?case
        proof (rule ok_bindI [OF sources], clarsimp split del: if_split, rule ok_ifI, goal_cases)
          case (1 a k d5)
          then show ?case using stop [of "n + 6" d5 INVALID_INST] by simp
        next
          case (2 a k d5)
          have vex: "ok (if b then SetOperand r op d5 else Some d5) (\<lambda>d. decoding E (n + 6) d \<and> keeps d1 d)" for b op
            using SetOperand_ok [OF 2(1,2)] \<open>valid_ref r\<close> 2(1,2) by (cases b) auto
          show ?case
          proof (rule ok_bindI [OF vex], goal_cases)
            case (1 d6)
            have lit: "ok (DecodeLiteral E ?F (LiteralBytes E Options info ?IF) z1 k d6)
                (\<lambda>d'. decoding E (n + 14) d' \<and> keeps d1 d')"
            proof -
              have "LiteralBytes E Options info ?IF \<noteq> 0 \<Longrightarrow> k < 3"
                using LiteralBytes_ok(2) [OF body] 2(3) by fastforce
              then show ?thesis
                using DecodeLiteral_ok [OF assms(1) _ _ _ LiteralBytes_ok(1) [OF body], of "n + 6" d6 d1] 1 assms(3)
                by (simp add: ac_simps)
            qed
            show ?case
            proof (rule ok_bindI [OF lit], rule ok_ifI, goal_cases)
              case (1 d7)
              then show ?case using stop [of "n + 14" d7 UNIMPLEMENTED_INST] by simp
            next
              case (2 d7)
              then have k: "InstFlags (DecodeInst d7) AND kept_flags = ?IF AND kept_flags"
                  "PC (DecodeInst d7) = PC (DecodeInst d0)" "TableInfo (DecodeInst d7) = Some info"
                  "InstructionSize d0 \<noteq> 0 \<Longrightarrow> InstructionSize d7 \<noteq> 0"
                using d1 by (simp_all add: keeps_def)
              have "has_flag FLAG_LOCK d7 \<Longrightarrow> ?IF AND FLAG_LOCK \<noteq> 0"
                using lock_kept [OF k(1)] by (simp add: has_flag_def)
              then show ?case
                using 2 k success assms(4) by (auto simp: decoded_def finished_def has_flag_def)
            qed
          qed
        qed
      qed
    qed
  qed
qed

lemma NormalOp_ok:
  assumes "env_ok E" "decoding E n d" "n \<le> 13" "op_ok info"
  shows "ok (NormalOp E info Op Options d) (decoded E (n + 14) d)"
  using assms
proof (induction E info Op Options d rule: NormalOp.induct)
  case (1 E nm t f m p Op Options d)
  show ?case
  proof (cases "t = TYPE_ARCH_DISPATCHER")
    case True
    then obtain i j where p: "p = Indirect i j" "op_ok i" "op_ok j"
      using 1(6) by (cases p) auto
    show ?thesis
      using 1(1,2) [OF True p(1)] 1(3-5) p True by simp
  next
    case False
    then have "t = TYPE_UNKNOWN \<or> t = TYPE_INVALID \<or> body_ok f m"
      using 1(6) by (cases "t = TYPE_UNKNOWN"; cases "t = TYPE_INVALID") simp_all
    then show ?thesis using NormalOpBody_ok [OF 1(3-5), of "X86InstInfo nm t f m p"] False by simp
  qed
qed

section \<open>Groups, x87 and VEX\<close>

definition same32 :: "DecoderEnv \<Rightarrow> Decoder \<Rightarrow> Decoder \<Rightarrow> bool" where
  "same32 E d0 d \<longleftrightarrow> PC (DecodeInst d) = PC (DecodeInst d0) \<and>
     (InstructionSize d0 \<noteq> 0 \<longrightarrow> InstructionSize d \<noteq> 0) \<and>
     (\<not> Is64BitMode E \<longrightarrow> InstFlags (DecodeInst d) AND kept_flags = InstFlags (DecodeInst d0) AND kept_flags)"

lemma same32_refl [simp]: "same32 E d d" by (simp add: same32_def)

lemma keeps_same32: "keeps d0 d \<Longrightarrow> same32 E d0 d"
  by (simp add: keeps_def same32_def)

lemma same32_trans: "same32 E d0 d \<Longrightarrow> same32 E d d' \<Longrightarrow> same32 E d0 d'"
  by (simp add: same32_def)

definition header_decoded :: "DecoderEnv \<Rightarrow> nat \<Rightarrow> Decoder \<Rightarrow> DecodedBlockStatus \<times> Decoder \<Rightarrow> bool" where
  "header_decoded E m d0 r \<longleftrightarrow> (case r of (st, d) \<Rightarrow> decoding E m d \<and> same32 E d0 d \<and>
     st \<in> {SUCCESS, INVALID_INST, UNIMPLEMENTED_INST} \<and> (st = SUCCESS \<longrightarrow> finished d))"

lemma header_decoded_invalid:
  "decoding E m d \<Longrightarrow> same32 E d0 d \<Longrightarrow> header_decoded E m d0 (INVALID_INST, d)"
  by (simp add: header_decoded_def)

lemma NormalOp_header:
  assumes "env_ok E" "decoding E n d" "n \<le> 13" "op_ok info" "same32 E d0 d" "n + 14 \<le> m"
  shows "ok (NormalOp E info Op Options d) (header_decoded E m d0)"
  by (rule ok_mono [OF NormalOp_ok [OF assms(1-4)]])
    (use assms(5,6) in \<open>auto simp: decoded_def header_decoded_def same32_def intro: decoding_mono\<close>)

lemma unat_u16 [simp]: "k < 65536 \<Longrightarrow> unat (of_nat k :: u16) = k"
  by (simp add: unat_of_nat)

lemma group_index:
  assumes "a \<le> t" "t \<le> b" "p < m" "r < 8"
    "\<And>g p r. p < m \<Longrightarrow> r < 8 \<Longrightarrow> f g p r = (InstType_num g - InstType_num a) * (m * 8) + p * 8 + r"
    "(InstType_num b - InstType_num a) * (m * 8) + m * 8 \<le> N"
  shows "f t p r < N"
  using index_inject [of m f a b N, OF assms(5,6)] assms(1-4)
  by (fastforce simp: image_subset_iff group_types_iff)

lemma primary_index:
  "t \<in> set primary_groups \<Longrightarrow> p < 8 \<Longrightarrow> r < 8 \<Longrightarrow> OPD_PrimaryGroup t p r < 512"
  by (rule group_index [of TYPE_GROUP_1 t TYPE_GROUP_11 p 8])
    (auto simp: primary_groups_def less_eq_InstType_def OPD_PrimaryGroup_sum)

lemma second_index:
  "t \<in> set second_groups \<Longrightarrow> p < 4 \<Longrightarrow> r < 8 \<Longrightarrow> OPD_SecondGroup t p r < 512"
  by (rule group_index [of TYPE_GROUP_6 t TYPE_GROUP_P p 4])
    (auto simp: second_groups_def less_eq_InstType_def OPD_SecondGroup_sum)

lemma reg_index: "unat (ModRM_reg h) < 8" "unat (ModRM_rm h) < 8"
  using modrm_fields by (simp_all add: word_less_nat_alt)

lemma PrimaryGroupOp_ok:
  assumes "env_ok E" "decoding E n d" "n \<le> 12" "same32 E d0 d"
    "Type info \<in> set primary_groups" "MoreBytes info < 8"
  shows "ok (PrimaryGroupOp E info d) (header_decoded E (n + 15) d0)"
  unfolding PrimaryGroupOp_def Let_def
proof (rule ok_bindI [OF FetchModRM_ok [OF assms(1,2)]], goal_cases)
  case 1
  show ?case using assms(3) by simp
next
  case (2 d1)
  have k: "OPD_PrimaryGroup (Type info) (unat (MoreBytes info)) (unat (ModRM_reg (ModRM (DecodeInst d1)))) < 512"
    using assms(5,6) by (intro primary_index) (simp_all add: reg_index word_less_nat_alt)
  have "ok (NormalOp E (PrimaryInstGroupOps ! OPD_PrimaryGroup (Type info) (unat (MoreBytes info))
      (unat (ModRM_reg (ModRM (DecodeInst d1))))) Op no_header d1) (header_decoded E (n + 15) d0)" for Op
    using 2 assms(3) same32_trans [OF assms(4)] keeps_same32 group_entries(1) [OF k]
    by (intro NormalOp_header [OF assms(1), of "Suc n"]) auto
  then show ?case using k by (simp add: ok_bind)
qed

lemma u8_less [simp]: "unat (b :: u8) < 256"
proof -
  have "unat b < 2 ^ LENGTH(8)" by (rule unsigned_less)
  then show ?thesis by simp
qed

lemma unat_zxt16 [simp]: "unat (zxt (b :: u8) :: u16) = unat b"
  by (simp add: unsigned_ucast_eq take_bit_nat_eq_self order.strict_trans [OF u8_less])

lemma or_less_exp: "a < 2 ^ k \<Longrightarrow> b < 2 ^ k \<Longrightarrow> a OR b < 2 ^ k" for a b :: nat
  by (simp add: take_bit_nat_eq_self_iff [symmetric] take_bit_or)

lemma push_less_exp: "a < 2 ^ m \<Longrightarrow> m + n \<le> k \<Longrightarrow> push_bit n a < 2 ^ k" for a :: nat
proof -
  assume a: "a < 2 ^ m" and "m + n \<le> k"
  have "a * 2 ^ n < 2 ^ m * 2 ^ n" using a by simp
  also have "\<dots> \<le> 2 ^ k" using \<open>m + n \<le> k\<close> by (simp flip: power_add)
  finally show ?thesis by (simp add: push_bit_nat_def)
qed

text \<open>An entry of a table, selected by a computed index.\<close>

lemma entry_then:
  assumes "k < length T" "k < 65536" "ok (f (T ! k)) Q"
  shows "ok (Option.bind (array_op T (of_nat k)) f) Q"
  using assms by (simp add: ok_bind)

lemma RegToField_range:
  assumes "r < 8"
  shows "r < length RegToField" "RegToField ! r \<noteq> 255 \<Longrightarrow> RegToField ! r \<le> 3"
proof -
  show "r < length RegToField" using assms by (simp add: RegToField_def)
  have "r \<in> {0, 1, 2, 3, 4, 5, 6, 7}" using assms by auto
  then show "RegToField ! r \<noteq> 255 \<Longrightarrow> RegToField ! r \<le> 3"
    by (auto simp: RegToField_def)
qed

lemma SecondGroupPrefix_range: "SecondGroupPrefix l < 4"
  by (simp add: SecondGroupPrefix_def PF_NONE_def PF_F3_def PF_66_def PF_F2_def)

lemma SecondGroupOp_ok:
  assumes "env_ok E" "decoding E n d" "n \<le> 12" "same32 E d0 d" "Type info \<in> set second_groups"
  shows "ok (SecondGroupOp E info d) (header_decoded E (n + 15) d0)"
  unfolding SecondGroupOp_def Let_def
proof (rule ok_bindI [OF FetchModRM_ok [OF assms(1,2)]], goal_cases)
  case 1
  show ?case using assms(3) by simp
next
  case (2 d1)
  let ?h = "ModRM (DecodeInst d1)"
  have s: "same32 E d0 d1" using 2 same32_trans [OF assms(4)] keeps_same32 by blast
  have op: "ok (NormalOp E i Op no_header d1) (header_decoded E (n + 15) d0)" if "op_ok i" for i Op
    using 2 assms(3) s that by (intro NormalOp_header [OF assms(1), of "Suc n"]) auto
  have k: "OPD_SecondGroup (Type info) (SecondGroupPrefix (LastEscapePrefix d)) (unat (ModRM_reg ?h)) < 512"
    using second_index [OF assms(5) SecondGroupPrefix_range reg_index(1)] .
  note field = RegToField_range [OF reg_index(1) [of ?h]]
  have sub: "ok (array_op SecondModRMTableOps (zxt (push_bit 3 (RegToField ! unat (ModRM_reg ?h)) OR ModRM_rm ?h)) \<bind>
      (\<lambda>i. NormalOp E i Op no_header d1)) (header_decoded E (n + 15) d0)"
    if "RegToField ! unat (ModRM_reg ?h) \<noteq> 255" for Op
  proof -
    let ?i = "push_bit 3 (RegToField ! unat (ModRM_reg ?h)) OR ModRM_rm ?h"
    have "unat ?i < 32"
      using shifted_or [OF field(2) [OF that] modrm_fields(1) [of ?h]] field(2) [OF that] reg_index(2) [of ?h]
      by (simp add: word_le_nat_alt)
    moreover have "unat (zxt ?i :: u16) = unat ?i" by (rule unat_zxt16)
    ultimately show ?thesis
      using op group_entries(3) [of "unat ?i"] by (simp add: ok_bind)
  qed
  show ?case
    by (rule entry_then)
      (use k sub op group_entries(2) [OF k] field(1) 2 s in
        \<open>auto simp: ok_bind intro!: header_decoded_invalid intro: decoding_mono\<close>)
qed

lemma X87Op_ok:
  assumes "env_ok E" "decoding E n d" "n \<le> 12" "same32 E d0 d" "Op - 0xD8 < 8"
  shows "ok (X87Op E Op d) (header_decoded E (n + 15) d0)"
  unfolding X87Op_def Let_def
proof (rule ok_bindI [OF FetchModRM_ok [OF assms(1,2)]], goal_cases)
  case 1
  show ?case using assms(3) by simp
next
  case (2 d1)
  let ?i = "push_bit 8 (Op - 0xD8) OR zxt (ModRM (DecodeInst d1)) :: u16"
  have "unat (Op - 0xD8) < 2 ^ 3" using assms(5) by (simp add: word_less_nat_alt)
  moreover have "unat (zxt (ModRM (DecodeInst d1)) :: u16) < 2 ^ 8" by simp
  ultimately have "push_bit 8 (unat (Op - 0xD8)) mod 65536 OR unat (ModRM (DecodeInst d1)) < 2 ^ 11"
    using push_less_exp [of "unat (Op - 0xD8)" 3 8 11] order.strict_trans [OF u8_less, of 2048]
    by (intro or_less_exp le_less_trans [OF mod_less_eq_dividend]) auto
  then have "unat ?i < 2 ^ 11" by (simp add: unsigned_or_eq unsigned_push_bit_eq take_bit_eq_mod)
  then have k: "unat ?i < 2048" by simp
  have "X87TablePtr E = X87F80Ops \<or> X87TablePtr E = X87F64Ops"
    using assms(1) by (auto simp: env_ok_def DecoderTablesFor_def)
  then have t: "length (X87TablePtr E) = 2048" "op_ok (X87TablePtr E ! unat ?i)"
    using x87_entries [OF k] by auto
  have s: "same32 E d0 d1" using 2 same32_trans [OF assms(4)] keeps_same32 by blast
  have "ok (NormalOp E (X87TablePtr E ! unat ?i) ?i no_header d1) (header_decoded E (n + 15) d0)"
    using 2 assms(3) s t by (intro NormalOp_header [OF assms(1), of "Suc n"]) auto
  then show ?case using k t by (simp add: ok_bind)
qed


lemma and_mask_less: "x AND 3 < 4" for x :: u8
proof -
  have "unat (x AND 3) \<le> 3" using word_and_le1 [of x 3] by (simp add: word_le_nat_alt)
  then show ?thesis by (simp add: word_less_nat_alt)
qed

lemma or_flags_trans: "same32 E d0 d \<Longrightarrow> (f AND kept_flags = 0 \<or> Is64BitMode E) \<Longrightarrow> same32 E d0 (or_flags f d)"
  by (auto simp: same32_def bit.conj_disj_distrib2 or_flags_def)

lemma AVX_W_disjoint [simp]: "FLAG_OPTION_AVX_W AND kept_flags = 0"
  by (simp add: FLAG_OPTION_AVX_W_def kept_flags_def FLAG_LOCK_def FLAG_REX_PREFIX_def FLAG_REX_WIDENING_def
      FLAG_REX_XGPR_B_def FLAG_REX_XGPR_X_def FLAG_REX_XGPR_R_def)

lemma ReadByte_then:
  assumes "env_ok E" "decoding E n d" "n < 15" "same32 E d0 d"
    "\<And>b d'. decoding E (Suc n) d' \<Longrightarrow> same32 E d0 d' \<Longrightarrow> ok (f (b, d')) Q"
  shows "ok (Option.bind (ReadByte E d) f) Q"
  by (rule ok_bindI [OF ReadByte_ok [OF assms(1-3)]])
    (auto intro: assms(5) same32_trans [OF assms(4)] keeps_same32)

definition header_fields :: "(DecodedHeader \<times> nat \<times> nat) option \<Rightarrow> bool" where
  "header_fields h \<longleftrightarrow> (case h of None \<Rightarrow> True | Some (options, m, pp) \<Rightarrow> 1 \<le> m \<and> m \<le> 3 \<and> pp < 4)"

lemma VEXHeader_ok:
  assumes "env_ok E" "decoding E n d" "n \<le> 9" "same32 E d0 d"
  shows "ok (VEXHeader E Op d) (\<lambda>(h, d'). decoding E (n + 2) d' \<and> same32 E d0 d' \<and> header_fields h)"
  unfolding VEXHeader_def
proof (rule ReadByte_then [OF assms(1,2) _ assms(4)], goal_cases)
  case 1
  show ?case using assms(3) by simp
next
  case (2 Byte1 d1)
  have pad: "decoding E (n + 2) d1" using 2(1) by (rule decoding_mono) simp
  have pp: "unat (x AND 3) < 4" for x :: u8 using and_mask_less [of x] by (simp add: word_less_nat_alt)
  let ?d = "if Byte1 AND 0b10000000 = 0 then or_flags FLAG_REX_XGPR_R d1 else d1"
  show ?case
  proof (cases "Byte1 AND 0b10000000 = 0 \<and> \<not> Is64BitMode E")
    case True
    then show ?thesis using 2 pad by (simp add: header_fields_def)
  next
    case False
    then have d: "decoding E (Suc n) ?d" "same32 E d0 ?d" "decoding E (n + 2) ?d"
      using 2 pad by (auto intro: or_flags_trans)
    have two: "ok (do {
         (Byte2, d) \<leftarrow> ReadByte E ?d;
         let map_select = unat (Byte1 AND 0b11111);
         let v = drop_bit 3 (Byte2 AND 0b01111000);
         let W = (Byte2 AND 0b10000000 \<noteq> 0);
         if \<not> Is64BitMode E \<and> v \<le> 0b0111 then Some (None, d)
         else if Byte1 AND 0b01000000 = 0 \<and> \<not> Is64BitMode E then Some (None, d)
         else do {
           let d = (if Byte1 AND 0b01000000 = 0 then or_flags FLAG_REX_XGPR_X d else d);
           let d = (if Is64BitMode E \<and> Byte1 AND 0b00100000 = 0 then or_flags FLAG_REX_XGPR_B d else d);
           let d = (if W then or_flags FLAG_OPTION_AVX_W d else d);
           if \<not> (map_select \<ge> 1 \<and> map_select \<le> 3) then Some (None, d)
           else Some (Some (\<lparr>Opt_vvvv = 15 - v, Opt_w = W, Opt_L = (Byte2 AND 0b100 \<noteq> 0)\<rparr>, map_select,
                            unat (Byte2 AND 0b11)), d) } })
       (\<lambda>(h, d'). decoding E (n + 2) d' \<and> same32 E d0 d' \<and> header_fields h)"
      by (rule ReadByte_then [OF assms(1) d(1) _ d(2)])
        (use assms(3) pp in \<open>auto simp: Let_def header_fields_def intro!: or_flags_trans\<close>)
    show ?thesis
      unfolding prod.case Let_def if_not_P [OF False]
    proof (rule ok_ifI, goal_cases)
      case 1
      show ?case by (rule ok_ifI) (use d pp in \<open>simp_all add: header_fields_def del: if_split\<close>)
    next
      case 2
      show ?case by (rule two [unfolded Let_def])
    qed
  qed
qed

lemma vex_index: "m \<le> 3 \<Longrightarrow> pp < 4 \<Longrightarrow> op < 256 \<Longrightarrow> OPD_VEX m pp op < 8192"
proof -
  assume "m \<le> 3" "pp < 4" "op < 256"
  then have "OPD_VEX m pp op < 2 ^ 12"
    unfolding OPD_VEX_def by (intro or_less_exp push_less_exp [of _ 2]) auto
  then show ?thesis by simp
qed

lemma vex_group_index:
  assumes "TYPE_VEX_GROUP_12 \<le> t" "t \<le> TYPE_VEX_GROUP_17" "pp < 4" "r < 8"
  shows "OPD_VEXGroup t pp r < 128"
proof -
  have "InstType_num t - InstType_num TYPE_VEX_GROUP_12 < 2 ^ 3"
    using assms(1,2) by (simp add: less_eq_InstType_def)
  then have "OPD_VEXGroup t pp r < 2 ^ 7"
    unfolding OPD_VEXGroup_def using assms(3,4) push_less_exp [of pp 2 3 7]
    by (intro or_less_exp push_less_exp [of _ 3]) auto
  then show ?thesis by simp
qed

lemma env_vex_tables:
  assumes "env_ok E" "VEXTablePtr E = Some V"
  obtains G where "VEXTableGroupPtr E = Some G" "length V = 8192" "length G = 128"
    "\<And>k. k < 8192 \<Longrightarrow> op_ok (V ! k)" "\<And>k. k < 128 \<Longrightarrow> op_ok (G ! k)"
  using assms that by (auto simp: env_ok_def DecoderTablesFor_def vex_entries split: if_splits)

lemma VEXOp_ok:
  assumes "env_ok E" "decoding E n d" "n \<le> 9" "same32 E d0 d"
  shows "ok (VEXOp E Op d) (header_decoded E (n + 18) d0)"
proof (cases "VEXTablePtr E")
  case None
  then show ?thesis
    using assms by (auto simp: VEXOp_def intro!: header_decoded_invalid intro: decoding_mono)
next
  case (Some V)
  obtain G where t: "VEXTableGroupPtr E = Some G" "length V = 8192" "length G = 128"
      "\<And>k. k < 8192 \<Longrightarrow> op_ok (V ! k)" "\<And>k. k < 128 \<Longrightarrow> op_ok (G ! k)"
    using env_vex_tables [OF assms(1) Some] by blast
  show ?thesis
    unfolding VEXOp_def Some option.case
  proof (rule ok_bindI [OF VEXHeader_ok [OF assms]], clarsimp split del: option.split, goal_cases)
    case (1 h d1)
    show ?case
    proof (cases h)
      case None
      then show ?thesis using 1 by (auto intro!: header_decoded_invalid intro: decoding_mono)
    next
      case (Some x)
      then obtain options m pp where x: "h = Some (options, m, pp)" by (metis prod_cases3)
      then have f: "1 \<le> m" "m \<le> 3" "pp < 4" using 1 by (simp_all add: header_fields_def)
      show ?thesis
        unfolding x option.case prod.case
      proof (rule ReadByte_then [OF assms(1) 1(1) _ 1(2)], goal_cases)
        case 1
        show ?case using assms(3) by simp
      next
        case (2 Opcode d2)
        let ?i = "V ! OPD_VEX m pp (unat Opcode)"
        have k: "OPD_VEX m pp (unat Opcode) < 8192" using vex_index [OF f(2,3)] by simp
        have plain: "ok (NormalOp E ?i Op options d2) (header_decoded E (n + 18) d0)" for Op
          using 2 assms(3) t(4) [OF k] by (intro NormalOp_header [OF assms(1), of "n + 3"]) (auto simp: numeral_3_eq_3)
        have grp: "ok (do {
            d \<leftarrow> FetchModRM E d2;
            let Op = of_nat (OPD_VEXGroup (Type ?i) pp (unat (ModRM_reg (ModRM (DecodeInst d)))));
            GTable \<leftarrow> VEXTableGroupPtr E;
            LocalInfo \<leftarrow> array_op GTable Op;
            NormalOp E LocalInfo Op options d }) (header_decoded E (n + 18) d0)"
          if "TYPE_VEX_GROUP_12 \<le> Type ?i" "Type ?i \<le> TYPE_VEX_GROUP_17"
        proof (rule ok_bindI [OF FetchModRM_ok [OF assms(1) 2(1)]], goal_cases)
          case 1
          show ?case using assms(3) by simp
        next
          case (2 d3)
          have g: "OPD_VEXGroup (Type ?i) pp (unat (ModRM_reg (ModRM (DecodeInst d3)))) < 128"
            using vex_group_index [OF that f(3) reg_index(1)] .
          have "same32 E d0 d3"
            using 2 \<open>same32 E d0 d2\<close> same32_trans keeps_same32 by blast
          then have "ok (NormalOp E (G ! OPD_VEXGroup (Type ?i) pp (unat (ModRM_reg (ModRM (DecodeInst d3))))) Op options d3)
              (header_decoded E (n + 18) d0)" for Op
            using 2 assms(3) t(5) [OF g]
            by (intro NormalOp_header [OF assms(1), of "n + 4"]) (auto simp: eval_nat_numeral)
          then show ?case unfolding t(1) Let_def using g t(3) by (simp add: ok_bind)
        qed
        show ?case
          unfolding prod.case Let_def
          by (rule entry_then) (use k t(2) plain grp in \<open>auto simp: Let_def\<close>)
      qed
    qed
  qed
qed

section \<open>The opcode maps\<close>

definition start_op :: "X86InstInfo \<Rightarrow> u16 \<Rightarrow> Decoder \<Rightarrow> Decoder" where
  "start_op info Op = DecodeInst_update (\<lambda>I. I\<lparr>OPRaw := zxt Op, OP := Op, TableInfo := Some info\<rparr>)"

lemma start_op [simp]:
  "decoding E n (start_op info Op d) \<longleftrightarrow> decoding E n d"
  "same32 E d0 (start_op info Op d) \<longleftrightarrow> same32 E d0 d"
  by (simp_all add: start_op_def same32_def)

lemma primary_range: "t \<in> set primary_groups \<Longrightarrow> TYPE_GROUP_1 \<le> t \<and> t \<le> TYPE_GROUP_11"
  by (auto simp: primary_groups_def less_eq_InstType_def)

lemma second_range:
  "t \<in> set second_groups \<Longrightarrow> \<not> (TYPE_GROUP_1 \<le> t \<and> t \<le> TYPE_GROUP_11) \<and> TYPE_GROUP_6 \<le> t \<and> t \<le> TYPE_GROUP_P"
  by (auto simp: second_groups_def less_eq_InstType_def)

lemma group_not_special:
  "t \<in> set primary_groups \<union> set second_groups \<Longrightarrow>
     t \<noteq> TYPE_UNKNOWN \<and> t \<noteq> TYPE_INVALID \<and> t \<noteq> TYPE_INST \<and> t \<noteq> TYPE_ARCH_DISPATCHER"
  by (auto simp: primary_groups_def second_groups_def)

lemma special_not_group:
  "\<not> (TYPE_GROUP_1 \<le> TYPE_X87_TABLE_PREFIX \<and> TYPE_X87_TABLE_PREFIX \<le> TYPE_GROUP_11)"
  "\<not> (TYPE_GROUP_6 \<le> TYPE_X87_TABLE_PREFIX \<and> TYPE_X87_TABLE_PREFIX \<le> TYPE_GROUP_P)"
  "\<not> (TYPE_GROUP_1 \<le> TYPE_VEX_TABLE_PREFIX \<and> TYPE_VEX_TABLE_PREFIX \<le> TYPE_GROUP_11)"
  "\<not> (TYPE_GROUP_6 \<le> TYPE_VEX_TABLE_PREFIX \<and> TYPE_VEX_TABLE_PREFIX \<le> TYPE_GROUP_P)"
  "\<not> (TYPE_GROUP_1 \<le> TYPE_GROUP_EVEX \<and> TYPE_GROUP_EVEX \<le> TYPE_GROUP_11)"
  "\<not> (TYPE_GROUP_6 \<le> TYPE_GROUP_EVEX \<and> TYPE_GROUP_EVEX \<le> TYPE_GROUP_P)"
  by (simp_all add: less_eq_InstType_def)

lemma header_decoded_mono: "header_decoded E m d0 r \<Longrightarrow> m \<le> k \<Longrightarrow> header_decoded E k d0 r"
  by (auto simp: header_decoded_def intro: decoding_mono)

lemma NormalOpHeader_head:
  assumes "env_ok E" "decoding E n d" "n \<le> 12" "same32 E d0 d" "head_ok info"
  shows "ok (NormalOpHeader E info Op d) (header_decoded E (n + 15) d0)"
proof -
  let ?d = "start_op info Op d"
  have d: "decoding E n ?d" "same32 E d0 ?d" using assms by simp_all
  have inv: "ok (Some (INVALID_INST, ?d)) (header_decoded E (n + 15) d0)"
    using d by (auto intro!: header_decoded_invalid intro: decoding_mono)
  have op: "ok (NormalOp E i Op no_header ?d) (header_decoded E (n + 15) d0)" if "op_ok i" for i
    using assms(3) that by (intro NormalOp_header [OF assms(1) d(1) _ _ d(2)]) auto
  consider "Type info = TYPE_UNKNOWN \<or> Type info = TYPE_INVALID" | "Type info = TYPE_INST" "op_ok info"
    | "Type info = TYPE_ARCH_DISPATCHER" "op_ok info"
    | "Type info \<in> set primary_groups" "MoreBytes info < 8" | "Type info \<in> set second_groups"
    using assms(5) by (auto simp: head_ok_def split: if_splits)
  then show ?thesis
  proof cases
    case 1
    then show ?thesis using inv by (auto simp: NormalOpHeader_def Let_def start_op_def)
  next
    case 2
    then show ?thesis using op [OF 2(2)] by (simp add: NormalOpHeader_def Let_def start_op_def)
  next
    case 3
    then obtain i j where "OpcodeDispatcher info = Indirect i j" "op_ok i" "op_ok j"
      by (cases info) (auto split: OpDispatchPtrWrapper.splits)
    then show ?thesis using 3 op [of i] op [of j] by (simp add: NormalOpHeader_def Let_def start_op_def)
  next
    case 4
    then show ?thesis
      using PrimaryGroupOp_ok [OF assms(1) d(1) assms(3) d(2) 4] primary_range [OF 4(1)] group_not_special [of "Type info"]
      by (auto simp: NormalOpHeader_def Let_def start_op_def)
  next
    case 5
    then show ?thesis
      using SecondGroupOp_ok [OF assms(1) d(1) assms(3) d(2) 5] second_range [OF 5] group_not_special [of "Type info"]
      by (auto simp: NormalOpHeader_def Let_def start_op_def)
  qed
qed

text \<open>What an opcode of the base table may lead to.\<close>

definition base_head :: "u8 \<Rightarrow> X86InstInfo \<Rightarrow> bool" where
  "base_head Op i \<longleftrightarrow> head_ok i \<or> Type i = TYPE_X87_TABLE_PREFIX \<and> 0xD8 \<le> unat Op \<and> unat Op < 0xE0 \<or>
     Type i = TYPE_VEX_TABLE_PREFIX \<or> Type i = TYPE_GROUP_EVEX"

lemma x87_opcode:
  assumes "0xD8 \<le> unat (Op :: u8)" "unat Op < 0xE0"
  shows "zxt Op - 0xD8 < (8 :: u16)"
proof -
  have "unat (zxt Op - 0xD8 :: u16) = unat Op - 0xD8"
    using assms(1) by (subst unat_sub) (simp_all add: word_le_nat_alt)
  then show ?thesis using assms(2) by (simp add: word_less_nat_alt)
qed

lemma NormalOpHeader_base:
  assumes "env_ok E" "decoding E n d" "n \<le> 9" "same32 E d0 d" "base_head Op info"
  shows "ok (NormalOpHeader E info (zxt Op) d) (header_decoded E (n + 18) d0)"
proof -
  let ?d = "start_op info (zxt Op) d"
  have d: "decoding E n ?d" "same32 E d0 ?d" using assms by simp_all
  consider "head_ok info" | "Type info = TYPE_X87_TABLE_PREFIX" "0xD8 \<le> unat Op" "unat Op < 0xE0"
    | "Type info = TYPE_VEX_TABLE_PREFIX" | "Type info = TYPE_GROUP_EVEX"
    using assms(5) by (auto simp: base_head_def)
  then show ?thesis
  proof cases
    case 1
    have "ok (NormalOpHeader E info (zxt Op) d) (header_decoded E (n + 15) d0)"
      using assms(3) by (intro NormalOpHeader_head [OF assms(1,2) _ assms(4) 1]) simp
    then show ?thesis by (rule ok_mono) (auto elim: header_decoded_mono)
  next
    case 2
    have "ok (X87Op E (zxt Op) ?d) (header_decoded E (n + 15) d0)"
      using assms(3) by (intro X87Op_ok [OF assms(1) d(1) _ d(2) x87_opcode [OF 2(2,3)]]) simp
    then have "ok (X87Op E (zxt Op) ?d) (header_decoded E (n + 18) d0)"
      by (rule ok_mono) (auto elim: header_decoded_mono)
    with 2(1) special_not_group show ?thesis by (auto simp: NormalOpHeader_def Let_def start_op_def)
  next
    case 3
    with VEXOp_ok [OF assms(1) d(1) assms(3) d(2)] special_not_group show ?thesis
      by (auto simp: NormalOpHeader_def Let_def start_op_def)
  next
    case 4
    have "ok (Some (INVALID_INST, ?d)) (header_decoded E (n + 18) d0)"
      using d by (auto intro!: header_decoded_invalid intro: decoding_mono)
    with 4 special_not_group show ?thesis by (auto simp: NormalOpHeader_def Let_def start_op_def)
  qed
qed

lemma BaseOp_ok:
  "ok (BaseOp E Op) (\<lambda>i. (if Type i = TYPE_REX_PREFIX then Is64BitMode E \<and> 0x40 \<le> unat Op \<and> unat Op < 0x50
     else base_head Op i \<or> unat Op \<in> set plain_prefixes))"
proof -
  have "base_at (unat Op) (BaseOps ! unat Op)" by (rule base_at_entry) simp
  then show ?thesis
    by (auto simp: BaseOp_def ok_bind base_at_def base_head_def split: if_splits OpDispatchPtrWrapper.splits)
qed

end
