(* ===== verification/InstructionSafety.thy ===== *)
theory InstructionSafety
  imports DecoderSafety
begin

text \<open>
  Whole instructions: what \<open>Decoder::DecodeInstruction\<close> guarantees for any bytes it is given, as long
  as an opcode follows at most eight prefix bytes.
\<close>

section \<open>The state while prefixes are read\<close>

definition rex_flags :: u32 where
  "rex_flags = FLAG_REX_PREFIX OR FLAG_REX_WIDENING OR FLAG_REX_XGPR_B OR FLAG_REX_XGPR_X OR FLAG_REX_XGPR_R"

text \<open>Only in 64-bit mode are there REX prefixes, and the bits they set.\<close>

definition no_rex :: "DecoderEnv \<Rightarrow> Decoder \<Rightarrow> bool" where
  "no_rex E d \<longleftrightarrow> Is64BitMode E \<or> InstFlags (DecodeInst d) AND rex_flags = 0"

definition prefixed :: "DecoderEnv \<Rightarrow> nat \<Rightarrow> u64 \<Rightarrow> bool \<Rightarrow> Decoder \<Rightarrow> bool" where
  "prefixed E n pc begun d \<longleftrightarrow> decoding E n d \<and> PC (DecodeInst d) = pc \<and> no_rex E d \<and>
     unat (REXIndex (DecodeInst d)) \<le> 15 \<and> (\<not> Is64BitMode E \<longrightarrow> REXIndex (DecodeInst d) = 0) \<and>
     (begun \<longrightarrow> InstructionSize d \<noteq> 0)"

definition instruction_decoded :: "DecoderEnv \<Rightarrow> u64 \<Rightarrow> bool \<Rightarrow> DecodedBlockStatus \<times> Decoder \<Rightarrow> bool" where
  "instruction_decoded E pc begun r \<longleftrightarrow> (case r of (st, d) \<Rightarrow>
     decoding E 40 d \<and> PC (DecodeInst d) = pc \<and> no_rex E d \<and> (begun \<longrightarrow> InstructionSize d \<noteq> 0) \<and>
     st \<in> {SUCCESS, INVALID_INST, UNIMPLEMENTED_INST} \<and> (st = SUCCESS \<longrightarrow> finished d))"

lemma rex_kept: "kept_flags AND rex_flags = rex_flags"
  by (simp add: kept_flags_def rex_flags_def FLAG_LOCK_def FLAG_REX_PREFIX_def FLAG_REX_WIDENING_def
      FLAG_REX_XGPR_B_def FLAG_REX_XGPR_X_def FLAG_REX_XGPR_R_def)

lemma no_rex_kept:
  assumes "no_rex E d" "\<not> Is64BitMode E \<Longrightarrow> InstFlags (DecodeInst d') AND kept_flags = InstFlags (DecodeInst d) AND kept_flags"
  shows "no_rex E d'"
proof (cases "Is64BitMode E")
  case False
  then have "InstFlags (DecodeInst d') AND rex_flags = InstFlags (DecodeInst d) AND rex_flags"
    using assms(2) by (metis and.assoc rex_kept)
  then show ?thesis using assms(1) by (simp add: no_rex_def)
qed (simp add: no_rex_def)

lemma prefixed_keeps:
  "prefixed E n pc b d \<Longrightarrow> keeps d d' \<Longrightarrow> decoding E m d' \<Longrightarrow> prefixed E m pc b d'"
  using no_rex_kept [of E d d'] by (auto simp: prefixed_def keeps_def)

lemma prefixed_mono: "prefixed E n pc b d \<Longrightarrow> n \<le> m \<Longrightarrow> prefixed E m pc b d"
  by (auto simp: prefixed_def intro: decoding_mono)

lemma prefixed_decoding: "prefixed E n pc b d \<Longrightarrow> decoding E n d"
  by (simp add: prefixed_def)

lemma prefixed_ReadByte:
  assumes "env_ok E" "prefixed E n pc b d" "n < 15"
    "\<And>x d'. prefixed E (Suc n) pc b d' \<Longrightarrow> ok (f (x, d')) Q"
  shows "ok (Option.bind (ReadByte E d) f) Q"
  by (rule ok_bindI [OF ReadByte_ok [OF assms(1) prefixed_decoding [OF assms(2)] assms(3)]])
    (auto intro: assms(4) prefixed_keeps [OF assms(2)])

lemma rex_flag_bits: "bit rex_flags n \<longleftrightarrow> n = 4 \<or> n = 7 \<or> n = 8 \<or> n = 9 \<or> n = 10"
  unfolding rex_flags_def FLAG_REX_PREFIX_def FLAG_REX_WIDENING_def FLAG_REX_XGPR_B_def
    FLAG_REX_XGPR_X_def FLAG_REX_XGPR_R_def bit_or_iff bit_push_bit_iff bit_1_iff
  by auto

lemma rex_unchanged:
  assumes "\<And>n. n \<in> {4, 7, 8, 9, 10} \<Longrightarrow> bit (F' :: u32) n = bit F n"
  shows "F' AND rex_flags = F AND rex_flags"
  by (rule bit_word_eqI) (use assms in \<open>auto simp: bit_and_iff rex_flag_bits\<close>)

lemma prefixed_flags:
  assumes "\<And>n F. n \<in> {4, 7, 8, 9, 10} \<Longrightarrow> bit (f F :: u32) n = bit F n" "prefixed E m pc b d"
  shows "prefixed E m pc b (DecodeInst_update (InstFlags_update f) d)"
  using assms(2) rex_unchanged [of "f (InstFlags (DecodeInst d))" "InstFlags (DecodeInst d)"] assms(1)
  by (auto simp: prefixed_def no_rex_def)

lemma prefixed_escape: "prefixed E m pc b (d\<lparr>LastEscapePrefix := x\<rparr>) \<longleftrightarrow> prefixed E m pc b d"
  by (simp add: prefixed_def no_rex_def decoding_def cache_ok_def)


lemma or_flags_prefixed:
  assumes "prefixed E m pc b d" "Is64BitMode E \<or> f AND rex_flags = 0"
  shows "prefixed E m pc b (or_flags f d)"
proof -
  have "InstFlags (DecodeInst d) OR f = InstFlags (DecodeInst d) OR f" ..
  then show ?thesis
    using assms by (auto simp: prefixed_def no_rex_def or_flags_def bit.conj_disj_distrib2)
qed

lemma DecodeREXIfValid_ok:
  assumes "prefixed E n pc b d"
  shows "ok (DecodeREXIfValid off d) (prefixed E n pc b)"
proof (cases "REXIndex (DecodeInst d) \<noteq> 0 \<and> REXIndex (DecodeInst d) = InstructionSize d + off")
  case False
  show ?thesis unfolding DecodeREXIfValid_def Let_def if_not_P [OF False] using assms by simp
next
  case True
  let ?I = "InstructionSize d + off"
  have "?I \<noteq> 0" "unat ?I \<le> 15" "Is64BitMode E" "length (Instruction d) = 15"
    using assms True by (auto simp: prefixed_def decoding_def)
  moreover from this have "unat (?I - 1) < 15"
    using measure_unat [of ?I] by linarith
  moreover have "PushOpAddr F FLAG_WIDENING_SIZE_LAST AND 0 = 0" for F by simp
  have push: "prefixed E n pc b (DecodeInst_update (InstFlags_update (\<lambda>F. PushOpAddr F FLAG_WIDENING_SIZE_LAST)) d')"
    if "prefixed E n pc b d'" for d'
    using that by (intro prefixed_flags) (auto simp: PushOpAddr_bits FLAG_WIDENING_SIZE_LAST_def)
  ultimately show ?thesis
    unfolding DecodeREXIfValid_def Let_def if_P [OF True]
    using assms by (auto simp: ok_bind intro!: or_flags_prefixed push)
qed

lemma prefix_flag_tests:
  "FLAG_OPERAND_SIZE AND rex_flags = 0" "FLAG_ADDRESS_SIZE AND rex_flags = 0" "FLAG_LOCK AND rex_flags = 0"
  "FLAG_REP_PREFIX AND rex_flags = 0" "FLAG_REPNE_PREFIX AND rex_flags = 0"
  by (simp_all add: rex_flags_def FLAG_REX_PREFIX_def FLAG_REX_WIDENING_def FLAG_REX_XGPR_B_def
      FLAG_REX_XGPR_X_def FLAG_REX_XGPR_R_def FLAG_OPERAND_SIZE_def FLAG_ADDRESS_SIZE_def FLAG_LOCK_def
      FLAG_REP_PREFIX_def FLAG_REPNE_PREFIX_def)

lemma segment_bits: "bit (push_bit 11 s :: u32) n \<Longrightarrow> 11 \<le> n"
  by (simp add: bit_push_bit_iff)

lemma SetSegment_prefixed:
  "prefixed E n pc b d \<Longrightarrow> prefixed E n pc b (SetSegment (push_bit 11 s) d)"
  unfolding SetSegment_def FLAG_SEGMENTS_def
  by (rule prefixed_flags) (auto simp: bit_or_iff bit_and_iff bit_not_iff dest!: segment_bits)

lemma LegacyPrefix_prefixed:
  assumes "prefixed E n pc b d" "LegacyPrefix E Op d = Some d'"
  shows "prefixed E n pc b d'"
proof -
  have push: "prefixed E n pc b (DecodeInst_update (InstFlags_update (\<lambda>F. PushOpAddr F FLAG_OPERAND_SIZE_LAST)) d')"
    if "prefixed E n pc b d'" for d'
    using that by (intro prefixed_flags) (auto simp: PushOpAddr_bits FLAG_OPERAND_SIZE_LAST_def)
  have segs: "prefixed E n pc b (SetSegment f d)"
    if "f \<in> {FLAG_ES_PREFIX, FLAG_CS_PREFIX, FLAG_SS_PREFIX, FLAG_DS_PREFIX, FLAG_FS_PREFIX, FLAG_GS_PREFIX}" for f
    using that SetSegment_prefixed [OF assms(1)]
    unfolding FLAG_ES_PREFIX_def FLAG_CS_PREFIX_def FLAG_SS_PREFIX_def FLAG_DS_PREFIX_def FLAG_FS_PREFIX_def FLAG_GS_PREFIX_def
    by (elim insertE emptyE) (simp_all only:)
  show ?thesis
    using assms(2) assms(1)
    unfolding LegacyPrefix_def
    by (auto split: if_splits intro!: push segs or_flags_prefixed
        simp: prefixed_escape prefix_flag_tests)
qed

lemma header_instruction:
  assumes "prefixed E n pc b d0" "m \<le> 40"
  shows "header_decoded E m d0 r \<Longrightarrow> instruction_decoded E pc b r"
  using assms no_rex_kept [of E d0 "snd r"]
  by (cases r) (auto simp: header_decoded_def instruction_decoded_def same32_def prefixed_def intro: decoding_mono)

lemma opcode_head:
  assumes "env_ok E" "prefixed E n pc b d" "n \<le> 12" "head_ok info"
  shows "ok (NormalOpHeader E info Op d) (instruction_decoded E pc b)"
  by (rule ok_mono [OF NormalOpHeader_head [OF assms(1) prefixed_decoding [OF assms(2)] assms(3) same32_refl assms(4)]],
      rule header_instruction [OF assms(2)]) (use assms(3) in auto)

lemma opcode_base:
  assumes "env_ok E" "prefixed E n pc b d" "n \<le> 9" "base_head Op info"
  shows "ok (NormalOpHeader E info (zxt Op) d) (instruction_decoded E pc b)"
  by (rule ok_mono [OF NormalOpHeader_base [OF assms(1) prefixed_decoding [OF assms(2)] assms(3) same32_refl assms(4)]],
      rule header_instruction [OF assms(2)]) (use assms(3) in auto)

section \<open>The opcode maps\<close>

lemma map_entry:
  assumes "env_ok E" "prefixed E n pc b d" "n \<le> 12" "k < length T" "k < 65536" "head_ok (T ! k)"
    "\<And>i. prefixed E n pc b (h i)"
  shows "ok (array_op T (of_nat k) \<bind> (\<lambda>info. NormalOpHeader E info (g info) (h info)))
    (instruction_decoded E pc b)"
  by (rule entry_then) (use assms in \<open>auto intro!: opcode_head\<close>)

lemma has_prefix_less: "v < 2 ^ k \<Longrightarrow> HasPrefix f v d < 2 ^ k"
  by (simp add: HasPrefix_def)

lemma pop_operand_size_prefixed:
  "prefixed E n pc b d \<Longrightarrow> prefixed E n pc b (pop_operand_size d)"
  unfolding pop_operand_size_def
  by (rule prefixed_flags)
    (auto simp: PopOpAddrIf_bits bit_and_iff bit_not_iff FLAG_OPERAND_SIZE_def bit_1_iff)

lemma clear_flag_prefixed:
  assumes "f \<in> {FLAG_REP_PREFIX, FLAG_REPNE_PREFIX}"
  shows "prefixed E n pc b d \<Longrightarrow> prefixed E n pc b (clear_flag f d)"
  unfolding clear_flag_def
  by (rule prefixed_flags)
    (use assms in \<open>auto simp: bit_and_iff bit_not_iff FLAG_REP_PREFIX_def FLAG_REPNE_PREFIX_def bit_push_bit_iff bit_1_iff\<close>)

lemma map_index:
  assumes "p < 2 ^ 3"
  shows "push_bit 8 p OR unat (x :: u8) < 2048"
proof -
  have "push_bit 8 p < 2 ^ 11" using assms by (rule push_less_exp) simp
  moreover have "unat x < 2 ^ 11" using order.strict_trans [OF u8_less [of x], of 2048] by simp
  ultimately have "push_bit 8 p OR unat x < 2 ^ 11" by (rule or_less_exp)
  then show ?thesis by simp
qed

lemma F38Op_ok:
  assumes "env_ok E" "prefixed E n pc b d" "n \<le> 11"
  shows "ok (F38Op E d) (instruction_decoded E pc b)"
  unfolding F38Op_def Let_def
proof (rule ok_bindI [OF DecodeREXIfValid_ok [OF assms(2)]], rule prefixed_ReadByte [OF assms(1)], assumption, goal_cases)
  case (1 d1)
  show ?case using assms(3) by simp
next
  case (2 d1 x d2)
  let ?p = "PF_38_NONE OR HasPrefix FLAG_OPERAND_SIZE PF_38_66 d1 OR
    HasPrefix FLAG_REPNE_PREFIX PF_38_F2 d1 OR HasPrefix FLAG_REP_PREFIX PF_38_F3 d1"
  have "?p < 2 ^ 3"
    by (intro or_less_exp has_prefix_less) (simp_all add: PF_38_NONE_def PF_38_66_def PF_38_F2_def PF_38_F3_def)
  then have k: "push_bit 8 ?p OR unat x < 2048" by (rule map_index)
  show ?case
    unfolding prod.case
    by (rule map_entry [OF assms(1) 2(2)])
      (use k assms(3) map_entries(5) [OF k] 2 in \<open>auto intro: pop_operand_size_prefixed\<close>)
qed

lemma F3AOp_ok:
  assumes "env_ok E" "prefixed E n pc b d" "n \<le> 11"
  shows "ok (F3AOp E d) (instruction_decoded E pc b)"
  unfolding F3AOp_def Let_def
proof (rule ok_bindI [OF DecodeREXIfValid_ok [OF assms(2)]], rule prefixed_ReadByte [OF assms(1)], assumption, goal_cases)
  case (1 d1)
  show ?case using assms(3) by simp
next
  case (2 d1 x d2)
  let ?p = "(if LastEscapePrefix d1 = 0x66 then PF_3A_66 else PF_3A_NONE) OR HasPrefix FLAG_REX_WIDENING 2 d1"
  have "?p < 2 ^ 3"
    by (intro or_less_exp has_prefix_less) (simp_all add: PF_3A_NONE_def PF_3A_66_def)
  then have k: "push_bit 8 ?p OR unat x < 2048" by (rule map_index)
  show ?case
    unfolding prod.case
    by (rule map_entry [OF assms(1) 2(2)]) (use k assms(3) map_entries(6) [OF k] 2 in auto)
qed

lemma TwoByteOp_ok:
  assumes "env_ok E" "prefixed E n pc b d" "n \<le> 12"
  shows "ok (TwoByteOp E x d) (instruction_decoded E pc b)"
proof -
  have k: "unat x < 256" by simp
  have sel: "ok (array_op T (zxt x) \<bind> (\<lambda>info. NormalOpHeader E info (zxt x) d')) (instruction_decoded E pc b)"
    if "prefixed E n pc b d'" "length T = 256" "head_ok (T ! unat x)" for T d'
    using that opcode_head [OF assms(1) that(1) assms(3)] by (simp add: ok_bind)
  have base: "ok (array_op SecondBaseOps (zxt x) \<bind> f) Q" if "ok (f (SecondBaseOps ! unat x)) Q" for f Q
    using that by (simp add: ok_bind)
  show ?thesis
    unfolding TwoByteOp_def Let_def
  proof (rule base, rule ok_bindI [OF DecodeREXIfValid_ok [OF assms(2)]], goal_cases)
    case (1 d1)
    have h: "ok (NormalOpHeader E (SecondBaseOps ! unat x) (zxt x) d1) (instruction_decoded E pc b)"
      by (rule opcode_head [OF assms(1) 1 assms(3) second_base_head]) simp
    show ?case
      using h sel [OF clear_flag_prefixed [OF _ 1]] sel [OF pop_operand_size_prefixed [OF 1]] map_entries(1-4) [OF k] by simp
  qed
qed

lemma DDDNowOp_ok:
  assumes "env_ok E" "prefixed E n pc b d" "n \<le> 5"
  shows "ok (DDDNowOp E d) (instruction_decoded E pc b)"
  unfolding DDDNowOp_def Let_def
proof (rule ok_bindI [OF DecodeREXIfValid_ok [OF assms(2)]],
    rule ok_bindI [OF FetchModRM_ok [OF assms(1) prefixed_decoding]], assumption, goal_cases)
  case (1 d1)
  show ?case using assms(3) by simp
next
  case (2 d1 d2)
  then have p2: "prefixed E (Suc n) pc b d2" using prefixed_keeps by blast
  have "ok (if ModRM_mod (ModRM (DecodeInst d2)) \<noteq> 3
      then do { (op, d) \<leftarrow> DecodeModRMs_Disp c E (ModRM (DecodeInst d2)) d2; SetOperand (RefSrc 0) op d }
      else Some d2) (prefixed E (n + 6) pc b)" for c
  proof (rule ok_ifI, goal_cases)
    case 1
    have n: "Suc n < 15" using assms(3) by simp
    show ?case
    proof (rule ok_bindI [OF DecodeModRMs_Disp_ok [OF assms(1) prefixed_decoding [OF p2] n 1]], clarsimp, goal_cases)
      case (1 op d3)
      then show ?case
        by (intro ok_mono [OF SetOperand_ok [OF 1(1,2)]]) (auto intro: prefixed_keeps [OF p2] simp: add.commute)
    qed
  next
    case 2
    show ?case using p2 by (auto intro: prefixed_mono)
  qed
  then show ?case
  proof (rule ok_bindI, goal_cases)
    case (1 d3)
    show ?case
    proof (rule prefixed_ReadByte [OF assms(1) 1], goal_cases)
      case 1
      show ?case using assms(3) by simp
    next
      case (2 x d4)
      have "ok (NormalOpHeader E (DDDNowOps ! unat x) (zxt x) d4) (instruction_decoded E pc b)"
        using assms(3) by (intro opcode_head [OF assms(1) 2] map_entries(4)) auto
      then show ?case by (simp add: ok_bind)
    qed
  qed
qed

text \<open>
  The escape byte was the last one read. A 3DNow opcode follows its operands, so it needs more room.
\<close>

lemma EscapeOps_ok:
  assumes "env_ok E" "prefixed E n pc b d" "n \<le> 9"
    "4 < n \<Longrightarrow> Code E (unat (InstructionSize d)) \<noteq> 0x0F"
  shows "ok (EscapeOps E d) (instruction_decoded E pc b)"
proof -
  have n: "n < 15" using assms(3) by simp
  have r: "ok (ReadByte E d) (\<lambda>(x, d'). prefixed E (Suc n) pc b d' \<and> (x = 0x0F \<longrightarrow> n \<le> 4))"
  proof -
    obtain x d' where rd: "ReadByte E d = Some (x, d')" "decoding E (Suc n) d'" "keeps d d'"
      using ReadByte_ok [OF assms(1) prefixed_decoding [OF assms(2)] n] by (auto simp: ok_def)
    from rd(1) have "x = 0 \<or> x = Code E (unat (InstructionSize d))" by (cases rule: ReadByte_cases) auto
    then show ?thesis
      using rd assms(4) prefixed_keeps [OF assms(2) rd(3,2)] by (cases "4 < n") auto
  qed
  show ?thesis
    unfolding EscapeOps_def
  proof (rule ok_bindI [OF r], clarsimp split del: if_split, goal_cases)
    case (1 x d')
    then show ?case
      using assms(3) by (intro ok_ifI DDDNowOp_ok [OF assms(1)] F38Op_ok [OF assms(1)] F3AOp_ok [OF assms(1)]
          TwoByteOp_ok [OF assms(1)]) auto
  qed
qed

section \<open>The prefixes\<close>

definition is_prefix :: "DecoderEnv \<Rightarrow> u8 \<Rightarrow> bool" where
  "is_prefix E x \<longleftrightarrow>
     x \<in> {0x66, 0x67, 0x26, 0x2E, 0x36, 0x3E, 0xF0, 0xF2, 0xF3, 0x64, 0x65} \<or>
     Is64BitMode E \<and> 0x40 \<le> x \<and> x < 0x50"

definition prefix_length :: "DecoderEnv \<Rightarrow> nat" where
  "prefix_length E = length (takeWhile (is_prefix E) (map (Code E) [0..<15]))"

text \<open>At most eight prefix bytes, and at most three before a 3DNow instruction.\<close>

definition few_prefixes :: "DecoderEnv \<Rightarrow> bool" where
  "few_prefixes E \<longleftrightarrow> (let n = prefix_length E in
     n \<le> 8 \<and> (n \<le> 3 \<or> Code E n \<noteq> 0x0F \<or> Code E (n + 1) \<noteq> 0x0F))"

lemma prefix_length_nth:
  "i < prefix_length E \<Longrightarrow> is_prefix E (Code E i)"
  "prefix_length E < 15 \<Longrightarrow> \<not> is_prefix E (Code E (prefix_length E))"
proof -
  let ?xs = "map (Code E) [0..<15]"
  assume i: "i < prefix_length E"
  have "prefix_length E \<le> 15" using length_takeWhile_le [of "is_prefix E" ?xs] by (simp add: prefix_length_def)
  then show "is_prefix E (Code E i)"
    using i nth_mem [of i "takeWhile (is_prefix E) ?xs"] takeWhile_nth [of i "is_prefix E" ?xs]
    by (auto simp: prefix_length_def dest: set_takeWhileD)
next
  let ?xs = "map (Code E) [0..<15]"
  assume "prefix_length E < 15"
  then show "\<not> is_prefix E (Code E (prefix_length E))"
    using nth_length_takeWhile [of "is_prefix E" ?xs] by (simp add: prefix_length_def)
qed

lemma LegacyPrefix_is_prefix: "LegacyPrefix E x d = Some d' \<Longrightarrow> is_prefix E x"
  by (auto simp: LegacyPrefix_def is_prefix_def split: if_splits)

lemma not_prefix_plain:
  "unat x \<in> set plain_prefixes \<Longrightarrow> x = 0x0F \<or> LegacyPrefix E x d \<noteq> None"
proof -
  assume "unat x \<in> set plain_prefixes"
  then have "of_nat (unat x) \<in> (of_nat ` set plain_prefixes :: u8 set)" by (rule imageI)
  then have "x \<in> {0x0F, 0x26, 0x2E, 0x36, 0x3E, 0x64, 0x65, 0x66, 0x67, 0xF0, 0xF2, 0xF3}"
    by (auto simp: plain_prefixes_def)
  then show ?thesis by (auto simp: LegacyPrefix_def)
qed

text \<open>A read returns the next byte exactly if that byte is executable, and zero otherwise.\<close>

lemma span_1: "b \<in> span A 1 \<longleftrightarrow> b = A"
  by (auto simp: span_def word_unat_eq_iff)

lemma ReadByte_executable:
  assumes "env_ok E" "decoding E n d" "n < 15"
  shows "ok (ReadByte E d) (\<lambda>(x, d').
    if executable_at E (InstStream E + of_nat (unat (InstructionSize d)))
    then x = Code E (unat (InstructionSize d)) \<and> InstructionSize d' = InstructionSize d + 1 \<and>
      HitNonExecutableRange d' = HitNonExecutableRange d
    else x = 0 \<and> InstructionSize d' = InstructionSize d \<and> HitNonExecutableRange d')"
proof -
  let ?A = "InstStream E + of_nat (unat (InstructionSize d)) :: u64"
  have er: "executable_ranges (QueryGuestExecutableRange E)" using assms(1) by (simp add: env_ok_def)
  have u: "unat (InstructionSize d) < 15" "length (Instruction d) = 15" "cache_ok E d"
    using assms(2,3) by (simp_all add: decoding_def)
  then have "unat ?A = unat (InstStream E) + unat (InstructionSize d)"
    using assms(1) by (intro unat_plus_nat) (simp add: env_ok_def)
  then have "unat ?A + unat (1 :: u64) < 2 ^ 64" using u assms(1) by (simp add: env_ok_def)
  then obtain x d1 where c: "CheckRangeExecutable E ?A 1 d = Some (x, d1)"
      "x \<longleftrightarrow> (\<forall>b \<in> span ?A (unat (1 :: u64)). executable_at E b)"
    using executable_ranges.check_correct [OF er refl, of ?A 1 d] u(3) by auto
  have x: "x \<longleftrightarrow> executable_at E ?A" using c(2) span_1 by auto
  obtain b e wr where "d1 = set_range b e wr d" using CheckRangeExecutable_frame [OF c(1)] by auto
  then show ?thesis
    using c(1) u unfolding x by (auto simp: ReadByte_def PeekByte_def Let_def ok_bind simp del: of_nat_unat)
qed

text \<open>One turn of the loop: the byte read is zero, or it is the next byte of the code.\<close>

lemma ReadByte_next:
  assumes "env_ok E" "prefixed E n pc b d" "unat (InstructionSize d) = n" "n < 15"
    "b' \<Longrightarrow> b \<or> executable_at E (InstStream E + of_nat n)"
  obtains x d1 where "ReadByte E d = Some (x, d1)" "prefixed E (Suc n) pc b' d1" "keeps d d1"
    "x \<noteq> 0 \<longrightarrow> x = Code E n \<and> unat (InstructionSize d1) = Suc n"
proof -
  obtain x d1 where rd: "ReadByte E d = Some (x, d1)" "decoding E (Suc n) d1" "keeps d d1"
    using ReadByte_ok [OF assms(1) prefixed_decoding [OF assms(2)] assms(4)] by (auto simp: ok_def)
  have s: "unat (InstructionSize d + 1) = Suc n" using assms(3,4) by (auto simp: unat_word_ariths)
  have nx: "x \<noteq> 0 \<longrightarrow> x = Code E n \<and> unat (InstructionSize d1) = Suc n"
    using rd(1) assms(3) s by (cases rule: ReadByte_cases) auto
  have "b' \<Longrightarrow> InstructionSize d1 \<noteq> 0"
    using ReadByte_executable [OF assms(1) prefixed_decoding [OF assms(2)] assms(4)] assms(2,3,5) rd(1,3) s
    by (auto simp: prefixed_def keeps_def simp del: of_nat_unat split: if_splits)
  then have "prefixed E (Suc n) pc b' d1"
    using prefixed_keeps [OF assms(2) rd(3,2)] by (simp add: prefixed_def)
  then show ?thesis by (rule that [OF rd(1) _ rd(3) nx])
qed

lemma DecodePrefixes_ok:
  assumes "env_ok E" "few_prefixes E" "prefixed E n pc b d" "unat (InstructionSize d) = n" "n \<le> prefix_length E"
    "b' \<Longrightarrow> b \<or> executable_at E (InstStream E + of_nat n)"
  shows "ok (DecodePrefixes E d) (instruction_decoded E pc b')"
  using assms(3-6)
proof (induction "prefix_length E - n" arbitrary: n b d rule: less_induct)
  case less
  have P: "prefix_length E \<le> 8" using assms(2) by (simp add: few_prefixes_def Let_def)
  then have n: "n < 15" "\<not> 15 \<le> InstructionSize d" using less.prems by (auto simp: word_le_nat_alt)
  obtain x d1 where rd: "ReadByte E d = Some (x, d1)" "prefixed E (Suc n) pc b' d1" "keeps d d1"
    and next_byte: "x \<noteq> 0 \<longrightarrow> x = Code E n \<and> unat (InstructionSize d1) = Suc n"
    by (rule ReadByte_next [OF assms(1) less.prems(1,2) n(1) less.prems(4)])
  have x0: "\<not> is_prefix E 0" by (simp add: is_prefix_def)
  have again: "ok (DecodePrefixes E d') (instruction_decoded E pc b')"
    if "is_prefix E x" "prefixed E (Suc n) pc b' d'" "InstructionSize d' = InstructionSize d1" for d'
  proof -
    from that(1) x0 have x: "x = Code E n" "unat (InstructionSize d1) = Suc n" using next_byte by auto
    have "n \<noteq> prefix_length E" using that(1) x(1) prefix_length_nth(2) [of E] P by auto
    then show ?thesis using less.prems(3) that(2,3) x(2) by (intro less.hyps [of "Suc n" b']) auto
  qed
  have escape: "ok (EscapeOps E d1) (instruction_decoded E pc b')" if "x = 0x0F"
  proof (rule EscapeOps_ok [OF assms(1) rd(2)])
    show "Suc n \<le> 9" using P less.prems(3) by simp
    have x: "x = Code E n" "unat (InstructionSize d1) = Suc n" using that next_byte by auto
    have "\<not> is_prefix E x" using that by (simp add: is_prefix_def)
    then have "n = prefix_length E" using x(1) prefix_length_nth(1) [of n E] less.prems(3) by fastforce
    then show "4 < Suc n \<Longrightarrow> Code E (unat (InstructionSize d1)) \<noteq> 0x0F"
      using assms(2) x that by (auto simp: few_prefixes_def Let_def)
  qed
  have opcode: "ok (NormalOpHeader E info (zxt x) d2) (instruction_decoded E pc b')"
    if "base_head x info" "prefixed E (Suc n) pc b' d2" for info d2
    using P less.prems(3) by (intro opcode_base [OF assms(1) that(2) _ that(1)]) simp
  have other: "ok (do {
        info \<leftarrow> BaseOp E x;
        if Type info = TYPE_REX_PREFIX
        then DecodePrefixes E (DecodeInst_update (REXIndex_update (\<lambda>_. InstructionSize d1)) d1)
        else do { d \<leftarrow> DecodeREXIfValid (- 1) d1; NormalOpHeader E info (zxt x) d } }) (instruction_decoded E pc b')"
    if "x \<noteq> 0x0F" "LegacyPrefix E x d1 = None"
  proof (rule ok_bindI [OF BaseOp_ok [of E x]], rule ok_ifI, goal_cases)
    case (1 info)
    then have "is_prefix E x" by (simp add: is_prefix_def word_le_nat_alt word_less_nat_alt)
    moreover have "unat (InstructionSize d1) \<le> 15" "Is64BitMode E"
      using 1 next_byte x0 calculation n by auto
    ultimately show ?case using rd(2) by (intro again) (auto simp: prefixed_def no_rex_def)
  next
    case (2 info)
    then have "base_head x info" using not_prefix_plain [of x E d1] that by auto
    then show ?case by (intro ok_bindI [OF DecodeREXIfValid_ok [OF rd(2)]] opcode)
  qed
  have legacy: "ok (DecodePrefixes E d2) (instruction_decoded E pc b')" if "LegacyPrefix E x d1 = Some d2" for d2
    using that LegacyPrefix_size [OF that] LegacyPrefix_is_prefix [OF that] LegacyPrefix_prefixed [OF rd(2) that]
    by (intro again) auto
  show ?case
    unfolding DecodePrefixes.simps [of E d] if_not_P [OF n(2)] rd(1)
    using escape other legacy by (auto split: option.split)
qed

section \<open>Instructions\<close>

lemma DecodeInstructionImpl_ok:
  assumes "env_ok E" "few_prefixes E" "cache_ok E d" "\<not> HitBadRelocation d" "\<not> HitNonExecutableRange d"
  shows "ok (DecodeInstructionImpl E pc d) (instruction_decoded E pc (executable_at E (InstStream E)))"
  unfolding DecodeInstructionImpl_def
  by (rule DecodePrefixes_ok [OF assms(1,2), of 0])
    (use assms(3-5) in \<open>auto simp: prefixed_def decoding_def zero_inst_def no_rex_def cache_ok_def span_def\<close>)

text \<open>The zero byte that stands for one that cannot be read is an addition to memory.\<close>

lemma BaseOps_ADD:
  "\<exists>h. BaseOps ! 0 = X86InstInfo ''ADD'' TYPE_INST
     (GenFlagsSameSize SIZE_8BIT OR FLAGS_MODRM OR FLAGS_SF_MOD_DST OR FLAGS_SUPPORTS_LOCK) 0 h"
  by (simp add: decoder_table_nth lookup_simps BaseOpTable_def find_info_append find_dispatch_append
      BaseOpTable_1_def OpDispatch_BaseOpTable_def cong: lookup_weaks)

text \<open>The flags of that addition, as the decoder tests them.\<close>

lemma ADD_flags:
  defines "F \<equiv> GenFlagsSameSize SIZE_8BIT OR FLAGS_MODRM OR FLAGS_SF_MOD_DST OR FLAGS_SUPPORTS_LOCK"
  shows "F AND FLAGS_MODRM \<noteq> 0" "F AND FLAGS_REX_W_1 = 0" "F AND FLAGS_VEX_L_1 = 0"
    "\<not> HAS_NON_XMM_SUBFLAG F FLAGS_SF_DST_RAX" "\<not> HAS_NON_XMM_SUBFLAG F FLAGS_SF_DST_RDX"
    "\<not> HAS_NON_XMM_SUBFLAG F FLAGS_SF_REX_IN_BYTE"
    "F AND FLAGS_SF_MOD_DST \<noteq> 0" "F AND FLAGS_SF_MOD_REG_ONLY = 0"
    "\<not> HAS_NON_XMM_SUBFLAG F FLAGS_SF_SRC_RAX" "\<not> HAS_NON_XMM_SUBFLAG F FLAGS_SF_SRC_RCX"
    "InstFlags_GetSizeDstFlags F = SIZE_8BIT" "InstFlags_GetSizeSrcFlags F = SIZE_8BIT"
    "F AND FLAGS_XMM_FLAGS = 0" "F AND FLAGS_DISPLACE_SIZE_MUL_2 = 0" "F AND FLAGS_DISPLACE_SIZE_DIV_2 = 0"
    "F AND FLAGS_MEM_OFFSET = 0" "F AND FLAGS_VEX_SRC_MASK \<noteq> FLAGS_VEX_DST"
    "F AND FLAGS_VEX_SRC_MASK \<noteq> FLAGS_VEX_1ST_SRC" "F AND FLAGS_VEX_SRC_MASK \<noteq> FLAGS_VEX_2ND_SRC"
  by (simp_all add: F_def FLAGS_DISPLACE_SIZE_MUL_2_def FLAGS_DISPLACE_SIZE_DIV_2_def FLAGS_MEM_OFFSET_def
      InstFlags_GetSizeDstFlags_def InstFlags_GetSizeSrcFlags_def FLAGS_VEX_DST_def FLAGS_VEX_1ST_SRC_def
      FLAGS_VEX_2ND_SRC_def GenFlagsSameSize_def FLAGS_MODRM_def FLAGS_SF_MOD_DST_def FLAGS_SUPPORTS_LOCK_def
      FLAGS_REX_W_1_def FLAGS_VEX_L_1_def HAS_NON_XMM_SUBFLAG_def FLAGS_SF_DST_RAX_def FLAGS_SF_DST_RDX_def
      FLAGS_SF_REX_IN_BYTE_def FLAGS_VEX_SRC_MASK_def FLAGS_SF_MOD_REG_ONLY_def FLAGS_SF_SRC_RAX_def
      FLAGS_SF_SRC_RCX_def FLAGS_XMM_FLAGS_def)

text \<open>Decoding it where no byte can be read succeeds with an empty instruction.\<close>

definition unread :: "DecoderEnv \<Rightarrow> Decoder \<Rightarrow> bool" where
  "unread E d \<longleftrightarrow> env_ok E \<and> decoding E 1 d \<and> InstructionSize d = 0 \<and> \<not> executable_at E (InstStream E)"

lemma unread_ReadByte:
  assumes "unread E d"
  shows "\<exists>d'. ReadByte E d = Some (0, d') \<and> unread E d' \<and> HitNonExecutableRange d' \<and> DecodeInst d' = DecodeInst d"
proof -
  have d: "env_ok E" "decoding E 1 d" "InstructionSize d = 0" "\<not> executable_at E (InstStream E)"
    using assms by (simp_all add: unread_def)
  have n: "(1 :: nat) < 15" by simp
  obtain x d' where "ReadByte E d = Some (x, d')" "DecodeInst d' = DecodeInst d"
    using ReadByte_ok [OF d(1,2) n] by (auto simp: ok_def)
  moreover from this have "x = 0 \<and> InstructionSize d' = 0 \<and> HitNonExecutableRange d'"
    using ReadByte_executable [OF d(1,2) n] d(3,4) by (auto simp: ok_def)
  moreover have "decoding E 0 d" using d(2,3) by (simp add: decoding_def)
  then have "decoding E 1 d'" using ReadByte_ok [OF d(1), of 0 d] calculation(1) by (auto simp: ok_def)
  ultimately show ?thesis using d by (auto simp: unread_def)
qed

lemma unread_update [simp]: "length (Src (f (DecodeInst d))) = length (Src (DecodeInst d)) \<Longrightarrow>
    unread E (DecodeInst_update f d) \<longleftrightarrow> unread E d"
  by (simp add: unread_def)

lemma unread_ADD:
  assumes "unread E d" "DecodeInst d = zero_inst pc"
  shows "\<exists>d'. NormalOpHeader E (BaseOps ! 0) Op d = Some (SUCCESS, d') \<and>
    HitNonExecutableRange d' \<and> InstSize (DecodeInst d') = 0 \<and> cache_ok E d' \<and> PC (DecodeInst d') = pc"
proof -
  obtain h where "BaseOps ! 0 = X86InstInfo ''ADD'' TYPE_INST
      (GenFlagsSameSize SIZE_8BIT OR FLAGS_MODRM OR FLAGS_SF_MOD_DST OR FLAGS_SUPPORTS_LOCK) 0 h" (is "_ = ?i")
    using BaseOps_ADD by blast
  note i = this
  let ?d = "DecodeInst_update (\<lambda>I. I\<lparr>OP := Op, TableInfo := Some ?i\<rparr>) (start_op ?i Op d)"
  have "unread E ?d" using assms by (simp add: start_op_def)
  from unread_ReadByte [OF this] obtain d1 where "ReadByte E ?d = Some (0, d1)" "unread E d1"
    "HitNonExecutableRange d1" "DecodeInst d1 = (zero_inst pc)\<lparr>OPRaw := zxt Op, OP := Op, TableInfo := Some ?i\<rparr>"
    using assms(2) by (auto simp: start_op_def)
  moreover from this have "cache_ok E d1" by (simp add: unread_def decoding_def)
  ultimately show ?thesis
    unfolding NormalOpHeader_def i
    using assms(2) ADD_flags
    by (simp add: start_op_def NormalOpBody_def Let_def CheckInfo_def no_header_def FetchModRM_def ImplicitDest_def
        has_flag_def ok_bind DecodeSources_def DecodeDestSize_def DecodeSrcSize_def DecodeSize_def HasXMMFlags_def
        HasXMMSrc_def HasXMMDst_def HasMMSrc_def HasMMDst_def ModRMOperand_def ModRM_mod_def ModRM_reg_def
        ModRM_rm_def MapModRMToReg_def rex_bit_def GPR8BitHighIndexes_def array_get_def array_set_def
        SetOperand_def GetOperand_def GenSizeSrcSize_def GenSizeDstSize_def FLAG_DECODED_MODRM_def
        FLAG_REX_XGPR_B_def FLAG_ADDRESS_SIZE_def FLAG_REX_PREFIX_def FLAG_REX_XGPR_R_def FLAG_LOCK_def
        DecodeModRMs_Disp_def DecodeModRM_64_def LiteralBytes_def DecodeLiteral_def zero_inst_def or_flags_def
        unread_def cache_ok_def)
qed

lemma DecodeInstructionImpl_unread:
  assumes "env_ok E" "cache_ok E d" "\<not> HitBadRelocation d" "\<not> HitNonExecutableRange d"
    "\<not> executable_at E (InstStream E)"
  shows "\<exists>d'. DecodeInstructionImpl E pc d = Some (SUCCESS, d') \<and> HitNonExecutableRange d' \<and> InstSize (DecodeInst d') = 0 \<and>
    cache_ok E d' \<and> PC (DecodeInst d') = pc"
proof -
  let ?d = "d\<lparr>InstructionSize := 0, LastEscapePrefix := 0, Instruction := replicate 15 0, DecodeInst := zero_inst pc\<rparr>"
  have "unread E ?d" using assms by (auto simp: unread_def decoding_def cache_ok_def zero_inst_def span_def)
  from unread_ReadByte [OF this] obtain d1 where d1: "ReadByte E ?d = Some (0, d1)" "unread E d1" "DecodeInst d1 = zero_inst pc"
    by auto
  have "BaseOp E 0 = Some (BaseOps ! 0)" by (simp add: BaseOp_def BaseOps_0 array_get_def)
  moreover have "LegacyPrefix E 0 d1 = None" by (simp add: LegacyPrefix_def)
  moreover have "DecodeREXIfValid (- 1) d1 = Some d1" using d1(3) by (simp add: DecodeREXIfValid_def Let_def zero_inst_def)
  ultimately have "DecodeInstructionImpl E pc d = NormalOpHeader E (BaseOps ! 0) (zxt (0 :: u8)) d1"
    unfolding DecodeInstructionImpl_def DecodePrefixes.simps [of E ?d] using d1(1) by (simp add: BaseOps_0)
  with unread_ADD [OF d1(2,3)] show ?thesis by simp
qed

text \<open>What each outcome of the decoder says.\<close>

definition outcome :: "DecoderEnv \<Rightarrow> u64 \<Rightarrow> DecodedBlockStatus \<times> Decoder \<Rightarrow> bool" where
  "outcome E pc r \<longleftrightarrow> (case r of (st, d) \<Rightarrow>
     cache_ok E d \<and> PC (DecodeInst d) = pc \<and> st \<noteq> BAD_RELOCATION \<and>
     (st = NOEXEC_INST \<longleftrightarrow> \<not> executable_at E (InstStream E)) \<and>
     (st = SUCCESS \<longrightarrow> 0 < InstSize (DecodeInst d) \<and> unat (InstSize (DecodeInst d)) \<le> 40 \<and> no_rex E d \<and>
        (\<forall>b \<in> span (InstStream E) (unat (InstSize (DecodeInst d))). executable_at E b) \<and>
        finished d \<and> \<not> no_dispatcher (TableInfo (DecodeInst d))) \<and>
     (st \<noteq> SUCCESS \<and> st \<noteq> INVALID_INST \<longrightarrow> TableInfo (DecodeInst d) = None \<and> InstSize (DecodeInst d) = 0))"

lemma FORCE_TSO_disjoint: "FLAG_FORCE_TSO AND rex_flags = 0" "FLAG_FORCE_TSO AND FLAG_LOCK = 0"
  by (simp_all add: FLAG_FORCE_TSO_def rex_flags_def FLAG_LOCK_def FLAG_REX_PREFIX_def FLAG_REX_WIDENING_def
      FLAG_REX_XGPR_B_def FLAG_REX_XGPR_X_def FLAG_REX_XGPR_R_def)

lemma MonoHacks_frame:
  "cache_ok E (MonoHacks d) \<longleftrightarrow> cache_ok E d" "PC (DecodeInst (MonoHacks d)) = PC (DecodeInst d)"
  "InstSize (DecodeInst (MonoHacks d)) = InstSize (DecodeInst d)" "no_rex E (MonoHacks d) \<longleftrightarrow> no_rex E d"
  "TableInfo (DecodeInst (MonoHacks d)) = TableInfo (DecodeInst d)" "finished (MonoHacks d) \<longleftrightarrow> finished d"
  by (simp_all add: MonoHacks_def or_flags_def cache_ok_def no_rex_def finished_def has_flag_def
      bit.conj_disj_distrib2 FORCE_TSO_disjoint Let_def)

lemma DecodeInstruction_ok:
  assumes "env_ok E" "few_prefixes E" "cache_ok E d"
  shows "ok (DecodeInstruction E pc d) (outcome E pc)"
proof -
  let ?d = "d\<lparr>HitNonExecutableRange := False, HitBadRelocation := False\<rparr>"
  have d: "cache_ok E ?d" "\<not> HitBadRelocation ?d" "\<not> HitNonExecutableRange ?d"
    using assms(3) by (simp_all add: cache_ok_def)
  obtain st d1 where impl: "DecodeInstructionImpl E pc ?d = Some (st, d1)"
      "instruction_decoded E pc (executable_at E (InstStream E)) (st, d1)"
    using DecodeInstructionImpl_ok [OF assms(1,2) d, of pc] by (auto simp: ok_def)
  have un: "\<not> executable_at E (InstStream E) \<Longrightarrow>
      st = SUCCESS \<and> HitNonExecutableRange d1 \<and> InstSize (DecodeInst d1) = 0"
    using DecodeInstructionImpl_unread [OF assms(1) d, of pc] impl(1) by auto
  have f: "decoding E 40 d1" "PC (DecodeInst d1) = pc" "no_rex E d1"
    "executable_at E (InstStream E) \<Longrightarrow> InstructionSize d1 \<noteq> 0"
    "st \<in> {SUCCESS, INVALID_INST, UNIMPLEMENTED_INST}" "st = SUCCESS \<Longrightarrow> finished d1"
    using impl(2) by (simp_all add: instruction_decoded_def)
  have size: "st = SUCCESS \<Longrightarrow> InstSize (DecodeInst d1) = InstructionSize d1"
    using f(6) by (auto simp: finished_def)
  have dec: "cache_ok E d1" "unat (InstructionSize d1) \<le> 40" "HitBadRelocation d1 \<Longrightarrow> InstructionSize d1 \<noteq> 0"
    "\<not> HitNonExecutableRange d1 \<Longrightarrow> \<forall>b \<in> span (InstStream E) (unat (InstructionSize d1)). executable_at E b"
    using f(1) by (auto simp: decoding_def)
  show ?thesis
    unfolding DecodeInstruction_def impl(1) Option.bind.simps prod.case
  proof (rule ok_ifI, goal_cases)
    case 1
    let ?d1 = "DecodeInst_update (\<lambda>I. I\<lparr>TableInfo := None, InstSize := 0\<rparr>) d1"
    have "cache_ok E ?d1" using dec(1) by (simp add: cache_ok_def)
    then show ?case
      using 1 un f(2,4,5) size dec(3) by (cases "executable_at E (InstStream E)") (auto simp: outcome_def Let_def)
  next
    case 2
    then have s: "st = SUCCESS" "\<not> HitNonExecutableRange d1" "executable_at E (InstStream E)" using un by auto
    show ?case
    proof (rule ok_ifI, goal_cases)
      case 1
      then show ?case using s dec(1) f(2) by (simp add: outcome_def)
    next
      case 2
      have "outcome E pc (SUCCESS, d1)"
        using 2 s f dec size by (simp add: outcome_def word_neq_0_conv)
      then show ?case by (simp add: outcome_def MonoHacks_frame)
    qed
  qed
qed

text \<open>Where nothing may be executed the bytes do not matter.\<close>

lemma DecodeInstruction_unread:
  assumes "env_ok E" "cache_ok E d" "\<not> executable_at E (InstStream E)"
  shows "ok (DecodeInstruction E pc d) (outcome E pc)"
proof -
  let ?d = "d\<lparr>HitNonExecutableRange := False, HitBadRelocation := False\<rparr>"
  have "cache_ok E ?d" "\<not> HitBadRelocation ?d" "\<not> HitNonExecutableRange ?d"
    using assms(2) by (simp_all add: cache_ok_def)
  from DecodeInstructionImpl_unread [OF assms(1) this assms(3), of pc] obtain d' where
    "DecodeInstructionImpl E pc ?d = Some (SUCCESS, d')" "HitNonExecutableRange d'" "InstSize (DecodeInst d') = 0"
    "cache_ok E d'" "PC (DecodeInst d') = pc" by blast
  then show ?thesis
    using assms(3) by (simp add: DecodeInstruction_def ok_def outcome_def Let_def) (simp add: cache_ok_def)
qed

section \<open>Properties\<close>

text \<open>
  A page of \<open>NOP\<close> instructions, to show that the hypotheses can hold.
\<close>

definition nop_page :: DecoderEnv where
  "nop_page = \<lparr>QueryGuestExecutableRange =
       (\<lambda>a. if 0x1000 \<le> a \<and> a < 0x2000 then \<lparr>Base = 0x1000, Size = 0x1000, Writable = False\<rparr>
            else \<lparr>Base = 0, Size = 0, Writable = False\<rparr>),
     InstStream = 0x1000, Code = (\<lambda>_. 0x90), Relocations = None, EntryPoint = 0, SectionMinAddress = 0,
     Is64BitMode = True, AreMonoHacksActive = False,
     X87TablePtr = X87F80Ops, VEXTablePtr = None, VEXTableGroupPtr = None\<rparr>"

definition fresh_decoder :: Decoder where
  "fresh_decoder = \<lparr>ExecutableRangeBase = 0, ExecutableRangeEnd = 0, ExecutableRangeWritable = False,
     HitNonExecutableRange = False, HitBadRelocation = False, InstructionSize = 0,
     Instruction = replicate 15 0, LastEscapePrefix = 0, DecodeInst = zero_inst 0\<rparr>"

lemma nop_page_ok: "env_ok nop_page" "few_prefixes nop_page" "cache_ok nop_page fresh_decoder"
proof -
  have "executable_ranges (QueryGuestExecutableRange nop_page)"
    by unfold_locales (auto simp: nop_page_def in_range_def word_le_nat_alt word_less_nat_alt split: if_splits)
  then show "env_ok nop_page"
    by (auto simp: env_ok_def nop_page_def DecoderTablesFor_def intro: exI [of _ False])
  show "few_prefixes nop_page"
    by (simp add: few_prefixes_def prefix_length_def nop_page_def is_prefix_def upt_conv_Cons)
  show "cache_ok nop_page fresh_decoder" by (simp add: cache_ok_empty fresh_decoder_def)
qed

lemma nop_page_executable: "executable_at nop_page 0x1000" "InstStream nop_page = 0x1000"
  by (simp_all add: executable_at_def nop_page_def)

text \<open>
  C1: decoding an instruction ends with a result and never accesses an array of the decoder or of
  the tables out of bounds, and an instruction that is decoded has at least one byte, all of whose
  bytes lie in memory the guest may execute. The code before the instruction has at most eight
  prefixes, and at most three before a 3DNow opcode.
\<close>

theorem DecodeInstruction_safe:
  assumes "env_ok E" "few_prefixes E" "cache_ok E d"
  shows "\<exists>st d'. DecodeInstruction E pc d = Some (st, d') \<and> cache_ok E d' \<and>
    (st = SUCCESS \<longrightarrow> 0 < InstSize (DecodeInst d') \<and>
       (\<forall>b. unat (InstStream E) \<le> unat b \<and> unat b < unat (InstStream E) + unat (InstSize (DecodeInst d')) \<longrightarrow>
          Size (QueryGuestExecutableRange E b) \<noteq> 0))"
  using DecodeInstruction_ok [OF assms, of pc]
  by (auto simp: ok_def outcome_def span_def executable_at_def)

lemma DecodeInstruction_safe_witness:
  "\<exists>st d'. DecodeInstruction nop_page 0x1000 fresh_decoder = Some (st, d') \<and> cache_ok nop_page d' \<and>
    (st = SUCCESS \<longrightarrow> 0 < InstSize (DecodeInst d') \<and>
       (\<forall>b. unat (InstStream nop_page) \<le> unat b \<and>
          unat b < unat (InstStream nop_page) + unat (InstSize (DecodeInst d')) \<longrightarrow>
          Size (QueryGuestExecutableRange nop_page b) \<noteq> 0))"
  by (rule DecodeInstruction_safe [OF nop_page_ok])

text \<open>
  C2: the decoder reports \<open>NOEXEC_INST\<close> exactly if the first byte of the instruction is not
  executable, it never reports \<open>BAD_RELOCATION\<close>, and after a failure other than an invalid
  instruction the record holds no table entry and no size.
\<close>

theorem DecodeInstruction_status:
  assumes "env_ok E" "few_prefixes E" "cache_ok E d" "DecodeInstruction E pc d = Some (st, d')"
  shows "(st = NOEXEC_INST \<longleftrightarrow> Size (QueryGuestExecutableRange E (InstStream E)) = 0) \<and> st \<noteq> BAD_RELOCATION \<and>
    (st \<in> {NOEXEC_INST, PARTIAL_DECODE_INST, UNIMPLEMENTED_INST} \<longrightarrow>
       TableInfo (DecodeInst d') = None \<and> InstSize (DecodeInst d') = 0)"
  using DecodeInstruction_ok [OF assms(1-3), of pc] assms(4) by (auto simp: outcome_def executable_at_def)

lemma DecodeInstruction_status_witness:
  "\<exists>st d'. DecodeInstruction nop_page 0x1000 fresh_decoder = Some (st, d') \<and> st \<noteq> NOEXEC_INST"
proof -
  obtain st d' where r: "DecodeInstruction nop_page 0x1000 fresh_decoder = Some (st, d')"
    using DecodeInstruction_ok [OF nop_page_ok, of "0x1000"] by (auto simp: ok_def)
  from DecodeInstruction_status [OF nop_page_ok r] have "st \<noteq> NOEXEC_INST"
    using nop_page_executable by (simp add: executable_at_def)
  with r show ?thesis by blast
qed

text \<open>
  C3: a decoded instruction refers to a table entry that is not of one of the types for unknown and
  invalid opcodes and for alternatives of the modes, and that has a handler if its type is the one of
  plain instructions (an entry of a group can lack one, \<open>LGDT\<close> does); it carries a lock prefix only if
  the entry allows one and its destination is memory, and outside 64-bit mode none of the REX bits is
  set.
\<close>

theorem DecodeInstruction_wellformed:
  assumes "env_ok E" "few_prefixes E" "cache_ok E d" "DecodeInstruction E pc d = Some (SUCCESS, d')"
  shows "\<exists>info. TableInfo (DecodeInst d') = Some info \<and> \<not> needs_handler info \<and>
    Type info \<notin> {TYPE_UNKNOWN, TYPE_INVALID, TYPE_ARCH_DISPATCHER} \<and>
    (InstFlags (DecodeInst d') AND FLAG_LOCK \<noteq> 0 \<longrightarrow>
       Flags info AND FLAGS_SUPPORTS_LOCK \<noteq> 0 \<and> \<not> is_OpGPR (Dest (DecodeInst d'))) \<and>
    (\<not> Is64BitMode E \<longrightarrow> InstFlags (DecodeInst d') AND rex_flags = 0) \<and> PC (DecodeInst d') = pc"
  using DecodeInstruction_ok [OF assms(1-3), of pc] assms(4)
  by (auto simp: outcome_def finished_def no_rex_def no_dispatcher_def has_flag_def)

end
