(* ===== verification/DecoderExamples.thy ===== *)
theory DecoderExamples
  imports InstructionSafety
begin

text \<open>
  Instructions decoded step by step: the witness of the properties of decoded instructions, and
  the inputs on which the decoder does not do what its comments or the processor manuals say.
\<close>

section \<open>A page of code\<close>

text \<open>A page at \<open>0x1000\<close> with the given bytes.\<close>

definition page :: "bool \<Rightarrow> (nat \<Rightarrow> u8) \<Rightarrow> DecoderEnv" where
  "page Is64 code = \<lparr>QueryGuestExecutableRange =
       (\<lambda>a. if 0x1000 \<le> a \<and> a < 0x2000 then \<lparr>Base = 0x1000, Size = 0x1000, Writable = False\<rparr>
            else \<lparr>Base = 0, Size = 0, Writable = False\<rparr>),
     InstStream = 0x1000, Code = code, Relocations = None,
     EntryPoint = 0, SectionMinAddress = 0, Is64BitMode = Is64, AreMonoHacksActive = False,
     X87TablePtr = X87F80Ops, VEXTablePtr = Some VEXTableOps, VEXTableGroupPtr = Some VEXTableGroupOps\<rparr>"

lemmas flag_values =
  FLAG_OPERAND_SIZE_def FLAG_ADDRESS_SIZE_def FLAG_LOCK_def FLAG_LEGACY_PREFIX_def
  FLAG_REX_PREFIX_def FLAG_VSIB_BYTE_def FLAG_OPTION_AVX_W_def FLAG_REX_WIDENING_def
  FLAG_REX_XGPR_B_def FLAG_REX_XGPR_X_def FLAG_REX_XGPR_R_def FLAG_NO_PREFIX_def FLAG_ES_PREFIX_def
  FLAG_CS_PREFIX_def FLAG_SS_PREFIX_def FLAG_DS_PREFIX_def FLAG_FS_PREFIX_def FLAG_GS_PREFIX_def
  FLAG_SEGMENTS_def FLAG_FORCE_TSO_def FLAG_DECODED_MODRM_def FLAG_DECODED_SIB_def
  FLAG_REP_PREFIX_def FLAG_REPNE_PREFIX_def FLAG_OPADDR_MASK_def FLAG_OPERAND_SIZE_LAST_def
  FLAG_WIDENING_SIZE_LAST_def GetSizeDstFlags_def GetSizeSrcFlags_def GenSizeDstSize_def
  GenSizeSrcSize_def FLAGS_NONE_def FLAGS_NO_OVERLAY_def FLAGS_NO_OVERLAY66_def
  FLAGS_DEBUG_MEM_ACCESS_def FLAGS_SRC_SEXT64BIT_def FLAGS_BLOCK_END_def FLAGS_SETS_RIP_def
  FLAGS_DISPLACE_SIZE_MUL_2_def FLAGS_DISPLACE_SIZE_DIV_2_def FLAGS_SRC_SEXT_def
  FLAGS_MEM_OFFSET_def FLAGS_XMM_FLAGS_def FLAGS_X87_FLAGS_def FLAGS_SF_DST_RAX_def
  FLAGS_SF_DST_RDX_def FLAGS_SF_SRC_RAX_def FLAGS_SF_SRC_RCX_def FLAGS_SF_REX_IN_BYTE_def
  FLAGS_SF_UNUSED_def FLAGS_SF_DST_GPR_def FLAGS_SF_SRC_GPR_def FLAGS_SF_MMX_DST_def
  FLAGS_SF_MMX_SRC_def FLAGS_SF_MMX_def FLAGS_MODRM_def FLAGS_SF_MOD_DST_def
  FLAGS_SF_MOD_MEM_ONLY_def FLAGS_SF_MOD_REG_ONLY_def FLAGS_SF_MOD_ZERO_REG_def FLAGS_POP_def
  FLAGS_VEX_SRC_MASK_def FLAGS_VEX_NO_OPERAND_def FLAGS_VEX_DST_def FLAGS_VEX_1ST_SRC_def
  FLAGS_VEX_2ND_SRC_def FLAGS_VEX_VSIB_def FLAGS_VEX_L_IGNORE_def FLAGS_VEX_L_0_def
  FLAGS_VEX_L_1_def FLAGS_REX_W_0_def FLAGS_REX_W_1_def FLAGS_CALL_def FLAGS_SUPPORTS_LOCK_def
  DEFAULT_SYSCALL_FLAGS_def InstFlags_GetSizeDstFlags_def InstFlags_GetSizeSrcFlags_def
  GenFlagsDstSize_def GenFlagsSrcSize_def GenFlagsSameSize_def GenFlagsSizes_def HAS_XMM_SUBFLAG_def
  HAS_NON_XMM_SUBFLAG_def

lemmas read_defs = CheckRangeExecutable.simps ReadByte_def PeekByte_def ReadData_def SkipBytes_def
  FetchModRM_def FetchSIB_def array_set_def array_get_def or_flags_def has_flag_def Let_def

lemmas operand_defs = ModRM_rm_def ModRM_reg_def ModRM_mod_def SIB_base_def SIB_index_def SIB_scale_def
  MapModRMToReg_def rex_bit_def GPR8BitHighIndexes_def DecodeModRMs_Disp_def DecodeModRM_64_def DecodeSIB_def

lemmas normal_defs = NormalOpBody_def CheckInfo_def no_header_def ImplicitDest_def DecodeSources_def
  DecodeDestSize_def DecodeSrcSize_def DecodeSize_def HasXMMFlags_def HasXMMSrc_def HasXMMDst_def HasMMSrc_def
  HasMMDst_def HasWideningDisplacement_def HasNarrowingDisplacement_def UseVEXL_def ModRMOperand_def
  SetOperand_def GetOperand_def SetGPRSource_def LiteralBytes_def DecodeLiteral_def GetOpAddr_def PushOpAddr_def

lemmas instruction_defs = DecodeInstruction_def DecodeInstructionImpl_def DecodePrefixes.simps LegacyPrefix_def
  BaseOp_def DecodeREXIfValid_def NormalOpHeader_def SetSegment_def zero_inst_def fresh_decoder_def
  no_dispatcher_def needs_handler_def

lemma base_entries:
  "BaseOps ! 0x90 = X86InstInfo ''XCHG'' TYPE_INST (FLAGS_SF_REX_IN_BYTE OR FLAGS_SF_SRC_RAX) 0
     (OpDispatch (Some (Handler ''XCHGOp'')))"
  "BaseOps ! 0xB8 = X86InstInfo ''MOV'' TYPE_INST
     (FLAGS_SF_REX_IN_BYTE OR FLAGS_DISPLACE_SIZE_DIV_2 OR FLAGS_DISPLACE_SIZE_MUL_2) 4
     (OpDispatch (Some (Bind ''MOVGPROp'' [''0''])))"
  "BaseOps ! 0x8B = X86InstInfo ''MOV'' TYPE_INST FLAGS_MODRM 0 (OpDispatch (Some (Bind ''MOVGPROp'' [''0''])))"
  "BaseOps ! 0xC5 = X86InstInfo '''' TYPE_VEX_TABLE_PREFIX FLAGS_NONE 0 (OpDispatch None)"
  "BaseOps ! 0x41 = X86InstInfo [] TYPE_ARCH_DISPATCHER FLAGS_NONE 0 (Indirect (fst Primary_LUT_40) (snd Primary_LUT_40))"
  by (simp_all add: decoder_table_nth lookup_simps BaseOpTable_def find_info_append find_dispatch_append
      BaseOpTable_1_def BaseOpTable_2_def OpDispatch_BaseOpTable_def cong: lookup_weaks)

lemma not_15_le_1 [simp]: "\<not> (15 :: u8) \<le> 1"
  by unat_arith

lemma NOP_decoded:
  "\<exists>d'. DecodeInstruction nop_page 0x1000 fresh_decoder = Some (SUCCESS, d')"
  unfolding nop_page_def
  by (simp add: instruction_defs read_defs normal_defs operand_defs flag_values base_entries)


lemma vex_entries_AE:
  "VEXTableOps ! 0x2AE = X86InstInfo '''' TYPE_VEX_GROUP_15 FLAGS_NONE 0 (OpDispatch None)"
  "VEXTableGroupOps ! 0x32 = X86InstInfo ''VLDMXCSR'' TYPE_INST
     (GenFlagsSameSize SIZE_32BIT OR FLAGS_MODRM OR FLAGS_SF_MOD_DST OR FLAGS_VEX_L_0 OR FLAGS_SF_MOD_MEM_ONLY) 0
     (OpDispatch (Some (Handler ''LDMXCSR'')))"
  by (simp_all add: decoder_table_nth lookup_simps VEXTable_def VEXTable_1_def VEXTable_2_def VEXTable_3_def
      VEXTable_4_def VEXGroupTable_def find_info_append find_dispatch_append OPD_VEX_def OPD_VEXGroup_def
      OpDispatch_VEXTable_def AVX256_BaseTable_def AVX256_BaseTable_1_def AVX256_BaseTable_2_def
      AVX256_BaseTable_3_def OpDispatch_VEXGroupTable_def AVX256_TableGroupOps_def cong: lookup_weaks)

lemma DecodeInstruction_wellformed_witness:
  "\<exists>(d' :: Decoder) info. TableInfo (DecodeInst d') = Some info \<and> \<not> needs_handler info \<and> PC (DecodeInst d') = 0x1000"
proof -
  obtain d' where "DecodeInstruction nop_page 0x1000 fresh_decoder = Some (SUCCESS, d')"
    using NOP_decoded by blast
  from DecodeInstruction_wellformed [OF nop_page_ok this] show ?thesis by blast
qed

section \<open>Inputs the decoder treats differently\<close>

text \<open>
  The limit of 15 bytes is tested before each prefix only: an instruction of 19 bytes is decoded.
\<close>

lemma nineteen_bytes:
  "\<exists>d'. DecodeInstruction (page True (\<lambda>i. if i = 14 then 0xB8 else 0x2E)) 0x1000 fresh_decoder = Some (SUCCESS, d') \<and>
     InstSize (DecodeInst d') = 19"
  unfolding page_def
  by (simp add: instruction_defs read_defs normal_defs operand_defs flag_values base_entries)

text \<open>After 14 prefixes an escape opcode is written one past the end of the buffer of the bytes read.\<close>

lemma buffer_overrun:
  "DecodeInstruction (page True (\<lambda>i. if i < 14 then 0x2E else 0x0F)) 0x1000 fresh_decoder = None"
  unfolding page_def
  by (simp add: instruction_defs read_defs EscapeOps_def)

text \<open>Without a base register and with \<open>REX.B\<close> set, the operand is given \<open>R13\<close> as its base.\<close>

lemma REX_B_base:
  "\<exists>d'. DecodeInstruction (page True (nth [0x41, 0x8B, 0x04, 0x25, 0, 0, 0, 0])) 0x1000 fresh_decoder = Some (SUCCESS, d') \<and>
     Src (DecodeInst d') ! 0 = OpSIB 0 1 255 13"
  unfolding page_def
  by (simp add: instruction_defs read_defs normal_defs operand_defs flag_values base_entries Primary_LUT_40_def)

text \<open>\<open>VLDMXCSR\<close> with the reserved prefix code 2 in its VEX prefix is decoded like the one without.\<close>

lemma VEX_prefix_ignored:
  "\<exists>d'. DecodeInstruction (page True (nth [0xC5, 0xFA, 0xAE, 0x10])) 0x1000 fresh_decoder = Some (SUCCESS, d') \<and>
     map_option Name (TableInfo (DecodeInst d')) = Some ''VLDMXCSR''"
  unfolding page_def
  by (simp add: instruction_defs read_defs normal_defs operand_defs flag_values base_entries VEXOp_def VEXHeader_def
      OPD_VEX_def OPD_VEXGroup_def vex_entries_AE less_eq_InstType_def)

text \<open>
  A second operand size prefix is left behind when the first selects the opcode map: \<open>MOVD\<close> from a
  register then reads 16 bits, not 32.
\<close>

lemma MOVD_entries:
  "SecondBaseOps ! 0x6E = X86InstInfo ''MOVD'' TYPE_INST
     (GenFlagsDstSize SIZE_64BIT OR FLAGS_MODRM OR FLAGS_SF_SRC_GPR OR FLAGS_XMM_FLAGS OR FLAGS_SF_MMX) 0
     (OpDispatch (Some (Bind ''MOVBetweenGPR_FPR'' [''MMX''])))"
  "OpSizeModOps ! 0x6E = X86InstInfo ''MOVD'' TYPE_INST
     (GenFlagsDstSize SIZE_128BIT OR FLAGS_MODRM OR FLAGS_SF_SRC_GPR OR FLAGS_XMM_FLAGS) 0
     (OpDispatch (Some (Bind ''MOVBetweenGPR_FPR'' [''SSE''])))"
  by (simp_all add: decoder_table_nth lookup_simps TwoByteOpTable_def TwoByteOpTable_1_def TwoByteOpTable_2_def
      OpSizeModOpTable_def OpDispatch_TwoByteOpTable_def OpDispatch_SecondaryOpSizeModTables_def
      find_info_append find_dispatch_append cong: lookup_weaks)

lemma operand_size_once:
  "\<exists>d'. DecodeInstruction (page True (nth [0x66, 0x0F, 0x6E, 0xC0])) 0x1000 fresh_decoder = Some (SUCCESS, d') \<and>
     GetSizeSrcFlags (InstFlags (DecodeInst d')) = SIZE_32BIT"
  unfolding page_def
  by (simp add: instruction_defs read_defs normal_defs operand_defs flag_values EscapeOps_def TwoByteOp_def
     pop_operand_size_def PopOpAddrIf_def MOVD_entries)

lemma operand_size_twice:
  "\<exists>d'. DecodeInstruction (page True (nth [0x66, 0x66, 0x0F, 0x6E, 0xC0])) 0x1000 fresh_decoder = Some (SUCCESS, d') \<and>
     GetSizeSrcFlags (InstFlags (DecodeInst d')) = SIZE_16BIT"
  unfolding page_def
  by (simp add: instruction_defs read_defs normal_defs operand_defs flag_values EscapeOps_def TwoByteOp_def
     pop_operand_size_def PopOpAddrIf_def MOVD_entries)

end
