(* ===== verification/VMATracking.thy ===== *)
theory VMATracking
  imports Prelude "HOL-Library.Finite_Map" "HOL-Library.Monad_Syntax"
begin

text \<open>
  The list of the guest's mappings (\<open>LinuxSyscalls/SyscallsVMATracking.cpp\<close> and \<open>.h\<close>): the map from
  base addresses to mappings, the doubly linked list through the mappings of each resource, and
  the operations that add, remove, split and reprotect mappings.

  A pointer to a mapping is the key it has in the map, whose nodes do not move; following a pointer
  to a mapping that was erased is \<open>None\<close>. A resource is a node of the map of resources.
  Operations return \<open>None\<close> where the code has no defined behaviour or stops the program.
\<close>

section \<open>State\<close>

record VMAProt =
  Readable :: bool
  Writable :: bool
  Executable :: bool

record VMAFlags =
  Shared :: bool

abbreviation (input) PROT_READ :: u32 where "PROT_READ \<equiv> 1"
abbreviation (input) PROT_WRITE :: u32 where "PROT_WRITE \<equiv> 2"
abbreviation (input) PROT_EXEC :: u32 where "PROT_EXEC \<equiv> 4"
abbreviation (input) MAP_SHARED :: u32 where "MAP_SHARED \<equiv> 1"
abbreviation (input) SHM_RDONLY :: u32 where "SHM_RDONLY \<equiv> 0x1000"
abbreviation (input) SHM_EXEC :: u32 where "SHM_EXEC \<equiv> 0x8000"

definition fromProt :: "u32 \<Rightarrow> VMAProt" where
  "fromProt P = \<lparr>Readable = (P AND PROT_READ \<noteq> 0), Writable = (P AND PROT_WRITE \<noteq> 0),
     Executable = (P AND PROT_EXEC \<noteq> 0)\<rparr>"

definition fromSHM :: "u32 \<Rightarrow> VMAProt" where
  "fromSHM SHMFlg = \<lparr>Readable = True, Writable = (if SHMFlg AND SHM_RDONLY \<noteq> 0 then False else True),
     Executable = (if SHMFlg AND SHM_EXEC \<noteq> 0 then True else False)\<rparr>"

definition fromFlags :: "u32 \<Rightarrow> VMAFlags" where
  "fromFlags F = \<lparr>Shared = (F AND MAP_SHARED \<noteq> 0)\<rparr>"

type_synonym resource = nat

record VMAEntry =
  Resource :: "resource option"
  ResourcePrevVMA :: "u64 option"
  ResourceNextVMA :: "u64 option"
  Base :: u64
  Offset :: u64
  Length :: u64
  Flags :: VMAFlags
  Prot :: VMAProt

record MRID =
  dev :: u64
  id :: u64

text \<open>
  A resource with its key, the first of its mappings, its length, and whether code cache data of
  its file is mapped. The other members play no role in the tracking.
\<close>

record MappedResource =
  Key :: MRID
  FirstVMA :: "u64 option"
  ResourceLength :: u64
  HasMappedCache :: bool

record VMATracking =
  VMAs :: "(u64, VMAEntry) fmap"
  MappedResources :: "(resource, MappedResource) fmap"
  PendingResourceDeletions :: "MappedResource list"

definition SpecialDev_SHM :: u64 where "SpecialDev_SHM = 0x200000000"

section \<open>The map of mappings\<close>

text \<open>The last key that satisfies a predicate: where an iterator is after a decrement.\<close>

definition last_key :: "(u64 \<Rightarrow> bool) \<Rightarrow> (u64, 'a) fmap \<Rightarrow> u64 option" where
  "last_key P m = (let S = ffilter P (fmdom m) in if S = {||} then None else Some (fMax S))"

text \<open>The first key that satisfies a predicate: what \<open>lower_bound\<close> and an increment return.\<close>

definition first_key :: "(u64 \<Rightarrow> bool) \<Rightarrow> (u64, 'a) fmap \<Rightarrow> u64 option" where
  "first_key P m = (let S = ffilter P (fmdom m) in if S = {||} then None else Some (fMin S))"

abbreviation vma :: "VMATracking \<Rightarrow> u64 \<Rightarrow> VMAEntry option" where
  "vma s k \<equiv> fmlookup (VMAs s) k"

abbreviation resource_of :: "VMATracking \<Rightarrow> resource \<Rightarrow> MappedResource option" where
  "resource_of s r \<equiv> fmlookup (MappedResources s) r"

definition update_vma :: "u64 \<Rightarrow> (VMAEntry \<Rightarrow> VMAEntry) \<Rightarrow> VMATracking \<Rightarrow> VMATracking option" where
  "update_vma k f s = do { e \<leftarrow> vma s k; Some (s\<lparr>VMAs := fmupd k (f e) (VMAs s)\<rparr>) }"

definition update_resource :: "resource \<Rightarrow> (MappedResource \<Rightarrow> MappedResource) \<Rightarrow> VMATracking \<Rightarrow> VMATracking option" where
  "update_resource r f s = do { R \<leftarrow> resource_of s r; Some (s\<lparr>MappedResources := fmupd r (f R) (MappedResources s)\<rparr>) }"

text \<open>An insertion that keeps an entry already there.\<close>

definition emplace :: "u64 \<Rightarrow> VMAEntry \<Rightarrow> VMATracking \<Rightarrow> VMATracking" where
  "emplace k e s = (if k |\<in>| fmdom (VMAs s) then s else s\<lparr>VMAs := fmupd k e (VMAs s)\<rparr>)"

definition erase :: "u64 \<Rightarrow> VMATracking \<Rightarrow> VMATracking" where
  "erase k s = s\<lparr>VMAs := fmdrop k (VMAs s)\<rparr>"

section \<open>The list of a resource\<close>

definition ListRemove :: "u64 \<Rightarrow> VMATracking \<Rightarrow> (bool \<times> VMATracking) option" where
  "ListRemove k s = do {
     e \<leftarrow> vma s k;
     s \<leftarrow> (case ResourcePrevVMA e of
            Some p \<Rightarrow> update_vma p (\<lambda>v. v\<lparr>ResourceNextVMA := ResourceNextVMA e\<rparr>) s
          | None \<Rightarrow> Some s);
     e \<leftarrow> vma s k;
     s \<leftarrow> (case ResourceNextVMA e of
            Some n \<Rightarrow> update_vma n (\<lambda>v. v\<lparr>ResourcePrevVMA := ResourcePrevVMA e\<rparr>) s
          | None \<Rightarrow> Some s);
     e \<leftarrow> vma s k;
     r \<leftarrow> Resource e;
     R \<leftarrow> resource_of s r;
     s \<leftarrow> (if FirstVMA R = Some k then update_resource r (\<lambda>R. R\<lparr>FirstVMA := ResourceNextVMA e\<rparr>) s else Some s);
     R \<leftarrow> resource_of s r;
     Some (FirstVMA R = None, s) }"

definition ListReplace :: "u64 \<Rightarrow> u64 \<Rightarrow> VMATracking \<Rightarrow> VMATracking option" where
  "ListReplace k n s = do {
     e \<leftarrow> vma s k;
     s \<leftarrow> (case ResourcePrevVMA e of
            Some p \<Rightarrow> update_vma p (\<lambda>v. v\<lparr>ResourceNextVMA := Some n\<rparr>) s
          | None \<Rightarrow> do { r \<leftarrow> Resource e; update_resource r (\<lambda>R. R\<lparr>FirstVMA := Some n\<rparr>) s });
     e \<leftarrow> vma s k;
     (case ResourceNextVMA e of
        Some x \<Rightarrow> update_vma x (\<lambda>v. v\<lparr>ResourcePrevVMA := Some n\<rparr>) s
      | None \<Rightarrow> Some s) }"

definition ListInsertAfter :: "u64 \<Rightarrow> u64 \<Rightarrow> VMATracking \<Rightarrow> VMATracking option" where
  "ListInsertAfter k n s = do {
     e \<leftarrow> vma s k;
     s \<leftarrow> (case ResourceNextVMA e of
            Some x \<Rightarrow> update_vma x (\<lambda>v. v\<lparr>ResourcePrevVMA := Some n\<rparr>) s
          | None \<Rightarrow> Some s);
     update_vma k (\<lambda>v. v\<lparr>ResourceNextVMA := Some n\<rparr>) s }"

definition ListPrepend :: "resource \<Rightarrow> u64 \<Rightarrow> VMATracking \<Rightarrow> VMATracking option" where
  "ListPrepend r n s = do {
     R \<leftarrow> resource_of s r;
     s \<leftarrow> (case FirstVMA R of
            Some x \<Rightarrow> update_vma x (\<lambda>v. v\<lparr>ResourcePrevVMA := Some n\<rparr>) s
          | None \<Rightarrow> Some s);
     update_resource r (\<lambda>R. R\<lparr>FirstVMA := Some n\<rparr>) s }"

section \<open>The operations\<close>

definition FindVMAEntry :: "VMATracking \<Rightarrow> u64 \<Rightarrow> u64 option" where
  "FindVMAEntry s GuestAddr = do {
     k \<leftarrow> last_key (\<lambda>k. k \<le> GuestAddr) (VMAs s);
     e \<leftarrow> vma s k;
     if k \<le> GuestAddr \<and> k + Length e > GuestAddr then Some k else None }"

text \<open>A resource without mappings goes; its code cache data outlives it until the pending deletions are flushed.\<close>

definition EraseResource :: "resource \<Rightarrow> VMATracking \<Rightarrow> VMATracking option" where
  "EraseResource r s = do {
     R \<leftarrow> resource_of s r;
     Some (s\<lparr>MappedResources := fmdrop r (MappedResources s),
             PendingResourceDeletions := PendingResourceDeletions s @ (if HasMappedCache R then [R] else [])\<rparr>) }"

definition FlushPendingResourceDeletions :: "VMATracking \<Rightarrow> VMATracking" where
  "FlushPendingResourceDeletions s = s\<lparr>PendingResourceDeletions := []\<rparr>"

lemma last_key_Some:
  "last_key P m = Some k \<longleftrightarrow> k \<in> fmdom' m \<and> P k \<and> (\<forall>k' \<in> fmdom' m. P k' \<longrightarrow> k' \<le> k)"
  "last_key P m = None \<longleftrightarrow> (\<forall>k \<in> fmdom' m. \<not> P k)"
proof -
  let ?S = "ffilter P (fmdom m)"
  have m: "x |\<in>| ?S \<longleftrightarrow> x \<in> fmdom' m \<and> P x" for x by (auto simp: fmdom'_alt_def)
  have "fMax ?S = k \<longleftrightarrow> k |\<in>| ?S \<and> (\<forall>x. x |\<in>| ?S \<longrightarrow> x \<le> k)" if "?S \<noteq> {||}"
    using that fMax_in [of ?S] fMax_ge [of _ ?S] by (metis antisym)
  then show "last_key P m = Some k \<longleftrightarrow> k \<in> fmdom' m \<and> P k \<and> (\<forall>k' \<in> fmdom' m. P k' \<longrightarrow> k' \<le> k)"
    unfolding last_key_def Let_def using m by auto
  show "last_key P m = None \<longleftrightarrow> (\<forall>k \<in> fmdom' m. \<not> P k)"
    unfolding last_key_def Let_def using m by (auto simp: fset_eq_iff)
qed

lemma first_key_Some:
  "first_key P m = Some k \<longleftrightarrow> k \<in> fmdom' m \<and> P k \<and> (\<forall>k' \<in> fmdom' m. P k' \<longrightarrow> k \<le> k')"
  "first_key P m = None \<longleftrightarrow> (\<forall>k \<in> fmdom' m. \<not> P k)"
proof -
  let ?S = "ffilter P (fmdom m)"
  have m: "x |\<in>| ?S \<longleftrightarrow> x \<in> fmdom' m \<and> P x" for x by (auto simp: fmdom'_alt_def)
  have "fMin ?S = k \<longleftrightarrow> k |\<in>| ?S \<and> (\<forall>x. x |\<in>| ?S \<longrightarrow> k \<le> x)" if "?S \<noteq> {||}"
    using that fMin_in [of ?S] fMin_le [of _ ?S] by (metis antisym)
  then show "first_key P m = Some k \<longleftrightarrow> k \<in> fmdom' m \<and> P k \<and> (\<forall>k' \<in> fmdom' m. P k' \<longrightarrow> k \<le> k')"
    unfolding first_key_def Let_def using m by auto
  show "first_key P m = None \<longleftrightarrow> (\<forall>k \<in> fmdom' m. \<not> P k)"
    unfolding first_key_def Let_def using m by (auto simp: fset_eq_iff)
qed

text \<open>
  The loop of the deletion walks backwards over the mappings before the end of the range: \<open>x\<close> is the
  key the iterator is at before its decrement. Each mapping is trimmed, split or erased.
\<close>

function DeleteLoop :: "u64 \<Rightarrow> u64 \<Rightarrow> resource option \<Rightarrow> u64 \<Rightarrow> VMATracking \<Rightarrow> VMATracking option" where
  "DeleteLoop B Top Preserved x s =
     (case last_key (\<lambda>k. k < x) (VMAs s) of
        None \<Rightarrow> Some s
      | Some k \<Rightarrow> do {
          Current \<leftarrow> vma s k;
          let MapBase = Base Current;
              MapTop = MapBase + Length Current;
              OffsetDiff = Offset Current - MapBase;
              HasFirstPart = MapBase < B;
              HasTrailingPart = MapTop > Top
          in if MapTop \<le> B then Some s
             else if \<not> HasFirstPart \<and> \<not> HasTrailingPart then do {
               s \<leftarrow> (case Resource Current of
                      None \<Rightarrow> Some s
                    | Some r \<Rightarrow> do {
                        (Empty, s) \<leftarrow> ListRemove k s;
                        if Empty \<and> Preserved \<noteq> Some r then EraseResource r s else Some s });
               DeleteLoop B Top Preserved k (erase k s) }
             else do {
               s \<leftarrow> (if HasFirstPart then update_vma k (\<lambda>v. v\<lparr>Length := B - MapBase\<rparr>) s else Some s);
               s \<leftarrow> (if HasTrailingPart then do {
                      Current \<leftarrow> vma s k;
                      let s = emplace Top
                        \<lparr>Resource = Resource Current,
                         ResourcePrevVMA = (if \<not> HasFirstPart then ResourcePrevVMA Current else Some k),
                         ResourceNextVMA = ResourceNextVMA Current, Base = Top, Offset = OffsetDiff + Top,
                         Length = MapTop - Top, Flags = Flags Current, Prot = Prot Current\<rparr> s;
                      (if Resource Current = None then Some s
                       else if \<not> HasFirstPart then ListReplace k Top s else ListInsertAfter k Top s) }
                    else Some s);
               DeleteLoop B Top Preserved k (if \<not> HasFirstPart then erase k s else s) } })"
  by pat_completeness auto
termination
  by (relation "measure (\<lambda>(_, _, _, x, _). unat x)") (auto simp: last_key_Some word_less_nat_alt)

declare DeleteLoop.simps [simp del]

definition DeleteVMARange :: "u64 \<Rightarrow> u64 \<Rightarrow> resource option \<Rightarrow> VMATracking \<Rightarrow> VMATracking option" where
  "DeleteVMARange B Len Preserved s = DeleteLoop B (B + Len) Preserved (B + Len) s"

text \<open>
  The place of a new mapping in the list of its resource: the last mapping before it and the first
  after it. Following the list may not end.
\<close>

partial_function (option) FindPlace ::
  "u64 \<Rightarrow> u64 option \<Rightarrow> u64 option \<Rightarrow> VMATracking \<Rightarrow> (u64 option \<times> u64 option) option" where
  "FindPlace B PrevResVMA NextResVMA s =
     (case NextResVMA of
        None \<Rightarrow> Some (PrevResVMA, NextResVMA)
      | Some n \<Rightarrow> do {
          e \<leftarrow> vma s n;
          if Base e < B then FindPlace B (Some n) (ResourceNextVMA e) s
          else Some (PrevResVMA, NextResVMA) })"

definition TrackVMARange ::
  "resource option \<Rightarrow> u64 \<Rightarrow> u64 \<Rightarrow> u64 \<Rightarrow> VMAFlags \<Rightarrow> VMAProt \<Rightarrow> VMATracking \<Rightarrow> VMATracking option" where
  "TrackVMARange Res B Off Len F P s = do {
     s \<leftarrow> DeleteVMARange B Len Res s;
     PrevResVMA \<leftarrow> (case Res of None \<Rightarrow> Some None | Some r \<Rightarrow> do { R \<leftarrow> resource_of s r; Some (FirstVMA R) });
     (PrevResVMA, NextResVMA) \<leftarrow>
       (case PrevResVMA of
          None \<Rightarrow> Some (None, None)
        | Some p \<Rightarrow> do {
            e \<leftarrow> vma s p;
            Some (if Base e > B then (None, Some p) else (Some p, ResourceNextVMA e)) });
     (PrevResVMA, NextResVMA) \<leftarrow> FindPlace B PrevResVMA NextResVMA s;
     let s = emplace B \<lparr>Resource = Res, ResourcePrevVMA = PrevResVMA, ResourceNextVMA = NextResVMA,
       Base = B, Offset = Off, Length = Len, Flags = F, Prot = P\<rparr> s;
     (case (Res, PrevResVMA) of
        (None, _) \<Rightarrow> Some s
      | (Some r, None) \<Rightarrow> ListPrepend r B s
      | (Some r, Some p) \<Rightarrow> ListInsertAfter p B s) }"

text \<open>An insertion that must succeed: the code stops the program otherwise.\<close>

definition emplace_new :: "u64 \<Rightarrow> VMAEntry \<Rightarrow> VMATracking \<Rightarrow> VMATracking option" where
  "emplace_new k e s = (if k |\<in>| fmdom (VMAs s) then None else Some (emplace k e s))"

text \<open>A part of a mapping becomes a mapping of its own, after the mapping in the list of the resource.\<close>

definition InsertPart :: "u64 \<Rightarrow> u64 \<Rightarrow> u64 \<Rightarrow> u64 \<Rightarrow> VMAProt \<Rightarrow> VMATracking \<Rightarrow> VMATracking option" where
  "InsertPart k B Off Len P s = do {
     Current \<leftarrow> vma s k;
     s \<leftarrow> emplace_new B
       \<lparr>Resource = Resource Current, ResourcePrevVMA = Some k, ResourceNextVMA = ResourceNextVMA Current,
        Base = B, Offset = Off, Length = Len, Flags = Flags Current, Prot = P\<rparr> s;
     (if Resource Current = None then Some s else ListInsertAfter k B s) }"

text \<open>
  The loop of the protection change: the mappings that start inside the range, from the last one on.
  It returns the mapping the iterator is left at and the end of the range that remains.
\<close>

function ProtectLoop :: "u64 \<Rightarrow> u64 \<Rightarrow> VMAProt \<Rightarrow> u64 \<Rightarrow> VMATracking \<Rightarrow> (u64 \<times> u64 \<times> VMATracking) option" where
  "ProtectLoop B Top NewProt x s =
     (case last_key (\<lambda>k. k < x) (VMAs s) of
        None \<Rightarrow> do { k \<leftarrow> first_key (\<lambda>_. True) (VMAs s); Some (k, Top, s) }
      | Some k \<Rightarrow> do {
          Current \<leftarrow> vma s k;
          if Base Current \<le> B \<or> Base Current + Length Current < Top then Some (k, Top, s)
          else do {
            let CurrentBase = Base Current;
            let CurrentTop = CurrentBase + Length Current;
            let OffsetDiff = Offset Current - CurrentBase;
            s \<leftarrow> (if CurrentTop > Top
                  then InsertPart k Top (OffsetDiff + CurrentBase) (CurrentTop - Top) (Prot Current) s
                  else Some s);
            s \<leftarrow> update_vma k (\<lambda>v. v\<lparr>Prot := NewProt, Length := Top - CurrentBase\<rparr>) s;
            ProtectLoop B CurrentBase NewProt k s } })"
  by pat_completeness auto
termination
  by (relation "measure (\<lambda>(_, _, _, x, _). unat x)") (auto simp: last_key_Some word_less_nat_alt)

declare ProtectLoop.simps [simp del]

definition ProtectLast :: "u64 \<Rightarrow> u64 \<Rightarrow> VMAProt \<Rightarrow> u64 \<Rightarrow> VMATracking \<Rightarrow> VMATracking option" where
  "ProtectLast B Top NewProt k s = do {
     Current \<leftarrow> vma s k;
     let CurrentBase = Base Current;
     let CurrentTop = CurrentBase + Length Current;
     let CurrentProt = Prot Current;
     let OffsetDiff = Offset Current - CurrentBase;
     if CurrentTop \<le> B then Some s
     else if CurrentBase = B \<and> CurrentTop = Top then update_vma k (\<lambda>v. v\<lparr>Prot := NewProt\<rparr>) s
     else if CurrentBase = B \<and> CurrentTop > Top then do {
       s \<leftarrow> update_vma k (\<lambda>v. v\<lparr>Prot := NewProt, Length := Top - CurrentBase\<rparr>) s;
       InsertPart k Top (OffsetDiff + Top) (CurrentTop - Top) CurrentProt s }
     else if CurrentBase < B \<and> CurrentTop \<ge> Top then do {
       s \<leftarrow> update_vma k (\<lambda>v. v\<lparr>Length := B - CurrentBase\<rparr>) s;
       s \<leftarrow> InsertPart k B (OffsetDiff + B) (Top - B) NewProt s;
       if CurrentTop > Top then InsertPart k Top (OffsetDiff + Top) (CurrentTop - Top) CurrentProt s
       else Some s }
     else None }"

definition ChangeProtectionFlags :: "u64 \<Rightarrow> u64 \<Rightarrow> VMAProt \<Rightarrow> VMATracking \<Rightarrow> VMATracking option" where
  "ChangeProtectionFlags B Len NewProt s =
     (if Len = 0 then Some s
      else do {
        (k, Top, s) \<leftarrow> ProtectLoop B (B + Len) NewProt (B + Len) s;
        ProtectLast B Top NewProt k s })"

text \<open>The mappings of a shared memory segment, from the one found on; the first is always looked at.\<close>

fun SHMLoop :: "u64 \<Rightarrow> u64 \<Rightarrow> resource \<Rightarrow> u64 list \<Rightarrow> VMATracking \<Rightarrow> VMATracking option" where
  "SHMLoop B ShmLength r [] s = Some s"
| "SHMLoop B ShmLength r (k # ks) s = do {
     e \<leftarrow> vma s k;
     s \<leftarrow> (if Resource e = Some r then do {
            (Empty, s) \<leftarrow> ListRemove k s;
            s \<leftarrow> (if Empty then EraseResource r s else Some s);
            Some (erase k s) }
          else Some s);
     (case ks of
        [] \<Rightarrow> Some s
      | k' # _ \<Rightarrow> do {
          e' \<leftarrow> vma s k';
          if Base e' + Length e' - B \<le> ShmLength then SHMLoop B ShmLength r ks s else Some s }) }"

definition IsSHM :: "u64 \<Rightarrow> VMATracking \<Rightarrow> u64 \<Rightarrow> bool" where
  "IsSHM B s k =
     (case vma s k of
        None \<Rightarrow> False
      | Some e \<Rightarrow> Base e - B = Offset e \<and>
          (case Option.bind (Resource e) (resource_of s) of
             None \<Rightarrow> False
           | Some R \<Rightarrow> dev (Key R) = SpecialDev_SHM))"

definition DeleteSHMRegion :: "u64 \<Rightarrow> VMATracking \<Rightarrow> (u64 \<times> VMATracking) option" where
  "DeleteSHMRegion B s =
     (let ks = dropWhile (\<lambda>k. \<not> IsSHM B s k) (sorted_list_of_fset (ffilter (\<lambda>k. B \<le> k) (fmdom (VMAs s))))
      in case ks of
           [] \<Rightarrow> Some (0, s)
         | k # _ \<Rightarrow> do {
             e \<leftarrow> vma s k;
             r \<leftarrow> Resource e;
             R \<leftarrow> resource_of s r;
             s \<leftarrow> SHMLoop B (ResourceLength R) r ks s;
             Some (ResourceLength R, s) })"

end
