(* ===== verification/VMALists.thy ===== *)
theory VMALists
  imports VMATracking
begin

text \<open>
  The lists through the mappings of the resources: every operation on the lists of
  \<open>SyscallsVMATracking.cpp\<close> is the operation on sequences its name says, and leaves all but the links alone.
\<close>

section \<open>Segments of a doubly linked list\<close>

definition hd_or :: "'a list \<Rightarrow> 'a option \<Rightarrow> 'a option" where
  "hd_or xs q = (case xs of [] \<Rightarrow> q | x # _ \<Rightarrow> Some x)"

definition last_or :: "'a list \<Rightarrow> 'a option \<Rightarrow> 'a option" where
  "last_or xs p = (if xs = [] then p else Some (last xs))"

lemma hd_or_simps [simp]:
  "hd_or [] q = q" "hd_or (x # xs) q = Some x" "hd_or (xs @ ys) q = hd_or xs (hd_or ys q)"
  by (simp_all add: hd_or_def split: list.split)

lemma last_or_simps [simp]:
  "last_or [] p = p" "last_or (x # xs) p = last_or xs (Some x)" "last_or (xs @ [x]) p = Some x"
  by (simp_all add: last_or_def)

lemma hd_or_None: "hd_or xs None = None \<longleftrightarrow> xs = []" "last_or xs None = None \<longleftrightarrow> xs = []"
  by (simp_all add: hd_or_def last_or_def split: list.split)

lemma in_hd_or: "hd_or xs None = Some x \<Longrightarrow> x \<in> set xs" "last_or xs None = Some x \<Longrightarrow> x \<in> set xs"
  by (auto simp: hd_or_def last_or_def split: list.splits if_splits)

type_synonym mappings = "(u64, VMAEntry) fmap"

text \<open>The mappings \<open>ks\<close> are linked in this order, between the mappings \<open>p\<close> and \<open>q\<close>.\<close>

fun seg :: "mappings \<Rightarrow> u64 option \<Rightarrow> u64 list \<Rightarrow> u64 option \<Rightarrow> bool" where
  "seg m p [] q \<longleftrightarrow> True"
| "seg m p (k # ks) q \<longleftrightarrow>
     (\<exists>e. fmlookup m k = Some e \<and> ResourcePrevVMA e = p \<and> ResourceNextVMA e = hd_or ks q) \<and> seg m (Some k) ks q"

lemma seg_append: "seg m p (xs @ ys) q \<longleftrightarrow> seg m p xs (hd_or ys q) \<and> seg m (last_or xs p) ys q"
  by (induction xs arbitrary: p) auto

lemma seg_cong:
  assumes "\<And>k. k \<in> set ks \<Longrightarrow> map_option ResourcePrevVMA (fmlookup m k) = map_option ResourcePrevVMA (fmlookup m' k) \<and>
    map_option ResourceNextVMA (fmlookup m k) = map_option ResourceNextVMA (fmlookup m' k)"
  shows "seg m p ks q \<longleftrightarrow> seg m' p ks q"
  using assms
proof (induction ks arbitrary: p)
  case (Cons k ks)
  have "(\<exists>e. fmlookup m k = Some e \<and> ResourcePrevVMA e = p \<and> ResourceNextVMA e = hd_or ks q) \<longleftrightarrow>
      (\<exists>e. fmlookup m' k = Some e \<and> ResourcePrevVMA e = p \<and> ResourceNextVMA e = hd_or ks q)"
    using Cons.prems [of k] by (cases "fmlookup m k"; cases "fmlookup m' k") auto
  then show ?case using Cons by simp
qed simp

lemma seg_frame [simp]:
  "k \<notin> set ks \<Longrightarrow> seg (fmupd k e m) p ks q \<longleftrightarrow> seg m p ks q"
  "k \<notin> set ks \<Longrightarrow> seg (fmdrop k m) p ks q \<longleftrightarrow> seg m p ks q"
  by (rule seg_cong; auto)+

text \<open>The link into a segment changes, from the front or from the back.\<close>

lemma seg_prev:
  assumes "seg m p xs q" "distinct xs" "hd_or xs None = Some x" "fmlookup m x = Some e"
  shows "seg (fmupd x (e\<lparr>ResourcePrevVMA := p'\<rparr>) m) p' xs q"
  using assms by (cases xs) auto

lemma seg_next:
  assumes "seg m p xs q" "distinct xs" "last_or xs None = Some x" "fmlookup m x = Some e"
  shows "seg (fmupd x (e\<lparr>ResourceNextVMA := q'\<rparr>) m) p xs q'"
proof -
  obtain ys where xs: "xs = ys @ [x]"
    using assms(3) by (metis append_butlast_last_id last_or_def option.distinct(1) option.inject)
  then show ?thesis using assms(1,2,4) by (auto simp: seg_append)
qed

section \<open>The lists of a state\<close>

definition resource_at :: "mappings \<Rightarrow> u64 \<Rightarrow> resource option" where
  "resource_at m k = Option.bind (fmlookup m k) Resource"

text \<open>\<open>L r\<close> is the list of the resource \<open>r\<close>: its mappings, each once.\<close>

definition links :: "VMATracking \<Rightarrow> (resource \<Rightarrow> u64 list) \<Rightarrow> bool" where
  "links s L \<longleftrightarrow>
     (\<forall>r. distinct (L r) \<and> set (L r) = {k. resource_at (VMAs s) k = Some r} \<and> seg (VMAs s) None (L r) None) \<and>
     (\<forall>r R. resource_of s r = Some R \<longrightarrow> FirstVMA R = hd_or (L r) None) \<and>
     (\<forall>r. L r \<noteq> [] \<longrightarrow> resource_of s r \<noteq> None)"

text \<open>What the links leave alone.\<close>

definition core :: "VMAEntry \<Rightarrow> VMAEntry" where
  "core e = e\<lparr>ResourcePrevVMA := None, ResourceNextVMA := None\<rparr>"

definition cores :: "mappings \<Rightarrow> u64 \<Rightarrow> VMAEntry option" where
  "cores m k = map_option core (fmlookup m k)"

definition resource_cores :: "VMATracking \<Rightarrow> resource \<Rightarrow> MappedResource option" where
  "resource_cores s r = map_option (FirstVMA_update (\<lambda>_. None)) (resource_of s r)"

lemma core_simps [simp]:
  "core (e\<lparr>ResourcePrevVMA := p\<rparr>) = core e" "core (e\<lparr>ResourceNextVMA := p\<rparr>) = core e"
  "Resource (core e) = Resource e" "Base (core e) = Base e" "Offset (core e) = Offset e"
  "Length (core e) = Length e" "Flags (core e) = Flags e" "Prot (core e) = Prot e"
  by (simp_all add: core_def)

lemma cores_upd: "cores (fmupd k e m) = (cores m)(k \<mapsto> core e)"
  by (auto simp: cores_def)

lemma cores_drop: "cores (fmdrop k m) = (cores m)(k := None)"
  by (auto simp: cores_def)

lemma cores_same: "fmlookup m k = Some e \<Longrightarrow> core e' = core e \<Longrightarrow> (cores m)(k \<mapsto> core e') = cores m"
  by (auto simp: cores_def fun_eq_iff)

lemma resource_at_core: "resource_at m k = Option.bind (cores m k) Resource"
  by (cases "fmlookup m k") (simp_all add: resource_at_def cores_def)

lemma cores_resource_at: "cores m = cores m' \<Longrightarrow> resource_at m = resource_at m'"
  by (simp add: resource_at_core fun_eq_iff)

definition same_rest :: "VMATracking \<Rightarrow> VMATracking \<Rightarrow> bool" where
  "same_rest s s' \<longleftrightarrow> resource_cores s' = resource_cores s \<and> PendingResourceDeletions s' = PendingResourceDeletions s"

lemma same_rest_refl [simp]: "same_rest s s" by (simp add: same_rest_def)
lemma same_rest_trans: "same_rest s s' \<Longrightarrow> same_rest s' s'' \<Longrightarrow> same_rest s s''" by (simp add: same_rest_def)

lemma same_rest_VMAs [simp]: "same_rest s (s'\<lparr>VMAs := m\<rparr>) \<longleftrightarrow> same_rest s s'"
  by (simp add: same_rest_def resource_cores_def fun_eq_iff)

lemma links_split:
  assumes "links s L" "fmlookup (VMAs s) k = Some e" "Resource e = Some r"
  obtains as bs R where "L r = as @ k # bs" "distinct (as @ k # bs)"
    "ResourcePrevVMA e = last_or as None" "ResourceNextVMA e = hd_or bs None"
    "seg (VMAs s) None as (Some k)" "seg (VMAs s) (Some k) bs None"
    "resource_of s r = Some R" "FirstVMA R = hd_or (L r) None"
proof -
  have "k \<in> set (L r)" using assms by (simp add: links_def resource_at_def)
  then obtain as bs where l: "L r = as @ k # bs" by (auto simp: in_set_conv_decomp)
  have sg: "seg (VMAs s) None (L r) None" "distinct (L r)" using assms(1) by (simp_all add: links_def)
  have "resource_of s r \<noteq> None" using assms(1) l by (simp add: links_def)
  then obtain R where R: "resource_of s r = Some R" by auto
  then have "FirstVMA R = hd_or (L r) None" using assms(1) by (simp add: links_def)
  with that [OF l _ _ _ _ _ R] sg assms(2) show thesis unfolding l by (simp add: seg_append)
qed

text \<open>What changes elsewhere does not concern a list.\<close>

lemma links_other:
  assumes "links s L" "r \<noteq> r'" "x \<in> set (L r)"
  shows "x \<notin> set (L r')"
  using assms by (auto simp: links_def)

lemma links_changed:
  assumes "links s L" "distinct new" "seg (VMAs s') None new None"
    "set new = {k. resource_at (VMAs s') k = Some r}"
    "resource_of s' r = Some R'" "FirstVMA R' = hd_or new None"
    "\<And>r'. r' \<noteq> r \<Longrightarrow> resource_of s' r' = resource_of s r'"
    "\<And>r' k. r' \<noteq> r \<Longrightarrow> resource_at (VMAs s') k = Some r' \<longleftrightarrow> resource_at (VMAs s) k = Some r'"
    "\<And>r' k. r' \<noteq> r \<Longrightarrow> k \<in> set (L r') \<Longrightarrow> fmlookup (VMAs s') k = fmlookup (VMAs s) k"
  shows "links s' (L(r := new))"
proof -
  have "seg (VMAs s') None (L r') None" if "r' \<noteq> r" for r'
  proof -
    have "seg (VMAs s) None (L r') None" using assms(1) by (simp add: links_def)
    then show ?thesis using seg_cong [of "L r'" "VMAs s'" "VMAs s"] assms(9) [OF that] by simp
  qed
  then show ?thesis using assms(1-8) by (auto simp: links_def)
qed

section \<open>The operations on lists\<close>

definition link_next :: "u64 option \<Rightarrow> u64 option \<Rightarrow> mappings \<Rightarrow> mappings" where
  "link_next p q m = (case p of None \<Rightarrow> m | Some x \<Rightarrow> fmupd x ((the (fmlookup m x))\<lparr>ResourceNextVMA := q\<rparr>) m)"

definition link_prev :: "u64 option \<Rightarrow> u64 option \<Rightarrow> mappings \<Rightarrow> mappings" where
  "link_prev q p m = (case q of None \<Rightarrow> m | Some x \<Rightarrow> fmupd x ((the (fmlookup m x))\<lparr>ResourcePrevVMA := p\<rparr>) m)"

lemma link_lookup:
  "p \<noteq> Some x \<Longrightarrow> fmlookup (link_next p q m) x = fmlookup m x"
  "p \<noteq> Some x \<Longrightarrow> fmlookup (link_prev p q m) x = fmlookup m x"
  by (auto simp: link_next_def link_prev_def split: option.splits)

lemma link_cores:
  "(\<And>x. p = Some x \<Longrightarrow> fmlookup m x \<noteq> None) \<Longrightarrow> cores (link_next p q m) = cores m"
  "(\<And>x. p = Some x \<Longrightarrow> fmlookup m x \<noteq> None) \<Longrightarrow> cores (link_prev p q m) = cores m"
  by (auto simp: link_next_def link_prev_def cores_upd cores_same split: option.splits)

lemma link_present:
  "fmlookup (link_next p q m) x \<noteq> None \<longleftrightarrow> fmlookup m x \<noteq> None \<or> p = Some x"
  "fmlookup (link_prev p q m) x \<noteq> None \<longleftrightarrow> fmlookup m x \<noteq> None \<or> p = Some x"
  by (auto simp: link_next_def link_prev_def split: option.splits)

lemma update_links:
  "(\<And>x. p = Some x \<Longrightarrow> vma s x \<noteq> None) \<Longrightarrow>
   (case p of None \<Rightarrow> Some s | Some x \<Rightarrow> update_vma x (\<lambda>v. v\<lparr>ResourceNextVMA := q\<rparr>) s) =
     Some (s\<lparr>VMAs := link_next p q (VMAs s)\<rparr>)"
  "(\<And>x. p = Some x \<Longrightarrow> vma s x \<noteq> None) \<Longrightarrow>
   (case p of None \<Rightarrow> Some s | Some x \<Rightarrow> update_vma x (\<lambda>v. v\<lparr>ResourcePrevVMA := q\<rparr>) s) =
     Some (s\<lparr>VMAs := link_prev p q (VMAs s)\<rparr>)"
  by (auto simp: link_next_def link_prev_def update_vma_def split: option.splits)

lemma seg_present: "seg m p ks q \<Longrightarrow> x \<in> set ks \<Longrightarrow> fmlookup m x \<noteq> None"
  by (induction ks arbitrary: p) auto

lemma seg_link_next:
  assumes "seg m p xs q" "distinct xs"
  shows "seg (link_next (last_or xs None) q' m) p xs q'"
proof (cases "last_or xs None")
  case None
  then show ?thesis by (simp add: hd_or_None)
next
  case (Some x)
  then obtain e where "fmlookup m x = Some e" using seg_present [OF assms(1)] in_hd_or by fastforce
  with Some seg_next [OF assms Some] show ?thesis by (simp add: link_next_def)
qed

lemma seg_link_prev:
  assumes "seg m p xs q" "distinct xs"
  shows "seg (link_prev (hd_or xs None) p' m) p' xs q"
proof (cases "hd_or xs None")
  case None
  then show ?thesis by (simp add: hd_or_None)
next
  case (Some x)
  then obtain e where "fmlookup m x = Some e" using seg_present [OF assms(1)] in_hd_or by fastforce
  with Some seg_prev [OF assms Some] show ?thesis by (simp add: link_prev_def)
qed

lemma seg_link_frame:
  "(\<And>x. x \<in> set xs \<Longrightarrow> y \<noteq> Some x) \<Longrightarrow> seg (link_next y q' m) p xs q \<longleftrightarrow> seg m p xs q"
  "(\<And>x. x \<in> set xs \<Longrightarrow> y \<noteq> Some x) \<Longrightarrow> seg (link_prev y q' m) p xs q \<longleftrightarrow> seg m p xs q"
  by (rule seg_cong; simp add: link_lookup)+

text \<open>Two segments are joined.\<close>

definition join :: "u64 option \<Rightarrow> u64 option \<Rightarrow> mappings \<Rightarrow> mappings" where
  "join p q m = link_prev q p (link_next p q m)"

lemma seg_join:
  assumes "seg m None as p" "seg m q bs None" "distinct (as @ bs)"
  shows "seg (join (last_or as None) (hd_or bs None) m) None (as @ bs) None"
proof -
  let ?p = "last_or as None" and ?q = "hd_or bs None"
  have d: "distinct as" "distinct bs" "set as \<inter> set bs = {}" using assms(3) by auto
  have "seg (link_next ?p ?q m) None as ?q" using seg_link_next [OF assms(1) d(1)] .
  moreover have "seg (link_next ?p ?q m) q bs None"
    using assms(2) d(3) in_hd_or(2) [of as] by (subst seg_link_frame) blast+
  then have "seg (join ?p ?q m) ?p bs None" unfolding join_def by (rule seg_link_prev [OF _ d(2)])
  moreover have "seg (join ?p ?q m) None as ?q \<longleftrightarrow> seg (link_next ?p ?q m) None as ?q"
    unfolding join_def using d(3) in_hd_or(1) [of bs] by (subst seg_link_frame(2)) blast+
  ultimately show ?thesis by (simp add: seg_append)
qed

lemma join_frame: "p \<noteq> Some x \<Longrightarrow> q \<noteq> Some x \<Longrightarrow> fmlookup (join p q m) x = fmlookup m x"
  by (simp add: join_def link_lookup)

lemma join_cores:
  assumes "\<And>x. p = Some x \<or> q = Some x \<Longrightarrow> fmlookup m x \<noteq> None"
  shows "cores (join p q m) = cores m"
proof -
  have "fmlookup (link_next p q m) x \<noteq> None" if "q = Some x" for x
    using link_present(1) assms that by blast
  then have "cores (join p q m) = cores (link_next p q m)" unfolding join_def by (rule link_cores(2))
  moreover have "cores (link_next p q m) = cores m" by (rule link_cores(1)) (use assms in blast)
  ultimately show ?thesis by simp
qed

lemma ListRemove_links:
  assumes "links s L" "vma s k = Some e" "Resource e = Some r"
  shows "\<exists>s'. ListRemove k s = Some (remove1 k (L r) = [], s') \<and>
    links (erase k s') (L(r := remove1 k (L r))) \<and> cores (VMAs s') = cores (VMAs s) \<and> same_rest s s' \<and>
    (remove1 k (L r) = [] \<longrightarrow> resource_of s' r \<noteq> None)"
proof -
  obtain as bs R where l: "L r = as @ k # bs" "distinct (as @ k # bs)"
    "ResourcePrevVMA e = last_or as None" "ResourceNextVMA e = hd_or bs None"
    "seg (VMAs s) None as (Some k)" "seg (VMAs s) (Some k) bs None"
    "resource_of s r = Some R" "FirstVMA R = hd_or (L r) None"
    by (rule links_split [OF assms])
  let ?p = "last_or as None" and ?q = "hd_or bs None"
  let ?m = "join ?p ?q (VMAs s)"
  have new: "remove1 k (L r) = as @ bs" using l(1,2) by (simp add: remove1_append)
  have pq: "?p = Some x \<Longrightarrow> x \<in> set as" "?q = Some x \<Longrightarrow> x \<in> set bs" for x
    by (auto dest: in_hd_or)
  have there: "?p = Some x \<or> ?q = Some x \<Longrightarrow> fmlookup (VMAs s) x \<noteq> None" for x
    using pq seg_present [OF l(5)] seg_present [OF l(6)] by blast
  have other: "fmlookup ?m x = fmlookup (VMAs s) x" if "x \<notin> set as \<union> set bs" for x
    using that pq by (intro join_frame) auto
  have "?p \<noteq> Some k" using pq(1) [of k] l(2) by auto
  then have ek: "fmlookup (link_next ?p ?q (VMAs s)) k = Some e" "fmlookup ?m k = Some e"
    using other [of k] l(2) assms(2) by (simp_all add: link_lookup)
  let ?s = "s\<lparr>VMAs := ?m\<rparr>"
  let ?first = "hd_or (as @ bs) None"
  let ?R = "R\<lparr>FirstVMA := ?first\<rparr>"
  let ?t = "?s\<lparr>MappedResources := fmupd r ?R (MappedResources s)\<rparr>"
  have first: "FirstVMA R = Some k \<longleftrightarrow> as = []" using l(1,2,8) by (cases as) auto
  have same: "R\<lparr>FirstVMA := FirstVMA R\<rparr> = R" by simp
  have "fmupd r ?R (MappedResources s) = MappedResources s" if "as \<noteq> []"
  proof -
    have "?first = FirstVMA R" using l(1,8) that by (cases as) auto
    then have "?R = R" using same by simp
    then show ?thesis using l(7) by (auto intro!: fmap_ext)
  qed
  then have t: "(if FirstVMA R = Some k then update_resource r (\<lambda>R. R\<lparr>FirstVMA := ResourceNextVMA e\<rparr>) ?s else Some ?s) = Some ?t"
    unfolding first l(4) using l(7) by (auto simp: update_resource_def)
  have prev: "(case ResourcePrevVMA e of None \<Rightarrow> Some s
      | Some p \<Rightarrow> update_vma p (\<lambda>v. v\<lparr>ResourceNextVMA := ResourceNextVMA e\<rparr>) s) =
      Some (s\<lparr>VMAs := link_next ?p ?q (VMAs s)\<rparr>)"
    using there unfolding l(3,4) by (intro update_links) blast
  have there': "fmlookup (VMAs (s\<lparr>VMAs := link_next ?p ?q (VMAs s)\<rparr>)) x \<noteq> None" if "?q = Some x" for x
    using link_present(1) there that by simp
  have nextl: "(case ResourceNextVMA e of None \<Rightarrow> Some (s\<lparr>VMAs := link_next ?p ?q (VMAs s)\<rparr>)
      | Some n \<Rightarrow> update_vma n (\<lambda>v. v\<lparr>ResourcePrevVMA := ResourcePrevVMA e\<rparr>) (s\<lparr>VMAs := link_next ?p ?q (VMAs s)\<rparr>)) =
      Some ?s"
    unfolding l(3,4) join_def by (subst update_links(2), rule there', assumption, simp)
  have v: "vma (s\<lparr>VMAs := link_next ?p ?q (VMAs s)\<rparr>) k = Some e" "vma ?s k = Some e"
    "resource_of ?s r = Some R" "resource_of ?t r = Some ?R" "FirstVMA ?R = ?first"
    using ek l(7) by simp_all
  have "ListRemove k s = Some (?first = None, ?t)"
    unfolding ListRemove_def assms(2) Option.bind.simps prev
    by (simp only: v nextl t assms(3) Option.bind.simps)
  moreover have "cores ?m = cores (VMAs s)" using there by (rule join_cores)
  moreover have "links (erase k ?t) (L(r := as @ bs))"
  proof (rule links_changed [OF assms(1)])
    show "distinct (as @ bs)" using l(2) by simp
    then have "seg ?m None (as @ bs) None" by (rule seg_join [OF l(5,6)])
    then show "seg (VMAs (erase k ?t)) None (as @ bs) None" using l(2) by (simp add: erase_def)
    have "resource_at ?m = resource_at (VMAs s)" by (rule cores_resource_at) fact
    then have at: "resource_at (VMAs (erase k ?t)) x = (if x = k then None else resource_at (VMAs s) x)" for x
      by (auto simp: erase_def resource_at_def fun_eq_iff)
    have "set (as @ k # bs) = {k. resource_at (VMAs s) k = Some r}" using assms(1) l(1) by (metis links_def)
    then show "set (as @ bs) = {x. resource_at (VMAs (erase k ?t)) x = Some r}"
      using l(2) unfolding at by auto
    show "resource_at (VMAs (erase k ?t)) x = Some r' \<longleftrightarrow> resource_at (VMAs s) x = Some r'" if "r' \<noteq> r" for x r'
      using that assms(2,3) unfolding at by (auto simp: resource_at_def)
    show "fmlookup (VMAs (erase k ?t)) x = fmlookup (VMAs s) x" if "r' \<noteq> r" "x \<in> set (L r')" for x r'
      using links_other [OF assms(1) _ that(2), of r] that(1) l(1) other [of x] by (auto simp: erase_def)
  qed (use l(7) in \<open>auto simp: erase_def\<close>)
  moreover have "same_rest s ?t"
    using l(7) by (auto simp: same_rest_def resource_cores_def fun_eq_iff)
  ultimately show ?thesis unfolding new using hd_or_None(1) [of "as @ bs"] by auto
qed

text \<open>A new mapping is put between two segments, in place of the mappings \<open>cs\<close>.\<close>

definition put_between :: "u64 option \<Rightarrow> u64 \<Rightarrow> u64 option \<Rightarrow> mappings \<Rightarrow> mappings" where
  "put_between p n q m = link_prev q (Some n) (link_next p (Some n) m)"

lemma put_between_frame: "p \<noteq> Some x \<Longrightarrow> q \<noteq> Some x \<Longrightarrow> fmlookup (put_between p n q m) x = fmlookup m x"
  by (simp add: put_between_def link_lookup)

lemma put_between_cores:
  assumes "\<And>x. p = Some x \<or> q = Some x \<Longrightarrow> fmlookup m x \<noteq> None"
  shows "cores (put_between p n q m) = cores m"
proof -
  have "fmlookup (link_next p (Some n) m) x \<noteq> None" if "q = Some x" for x
    using link_present(1) assms that by blast
  then have "cores (put_between p n q m) = cores (link_next p (Some n) m)"
    unfolding put_between_def by (rule link_cores(2))
  moreover have "cores (link_next p (Some n) m) = cores m" by (rule link_cores(1)) (use assms in blast)
  ultimately show ?thesis by simp
qed

lemma seg_put_between:
  assumes "seg m None as x" "seg m y bs None" "distinct (as @ n # bs)"
    "fmlookup m n = Some e" "ResourcePrevVMA e = last_or as None" "ResourceNextVMA e = hd_or bs None"
  shows "seg (put_between (last_or as None) n (hd_or bs None) m) None (as @ n # bs) None"
proof -
  let ?p = "last_or as None" and ?q = "hd_or bs None"
  let ?m = "put_between ?p n ?q m"
  have d: "distinct as" "distinct bs" "set as \<inter> set bs = {}" "n \<notin> set as" "n \<notin> set bs" using assms(3) by auto
  have pq: "?p = Some z \<Longrightarrow> z \<in> set as" "?q = Some z \<Longrightarrow> z \<in> set bs" for z by (auto dest: in_hd_or)
  have "seg (link_next ?p (Some n) m) None as (Some n)" by (rule seg_link_next [OF assms(1) d(1)])
  then have "seg ?m None as (Some n)"
    unfolding put_between_def using d(3) pq(2) by (subst seg_link_frame(2)) blast+
  moreover have "seg (link_next ?p (Some n) m) y bs None"
    using assms(2) d(3) pq(1) by (subst seg_link_frame(1)) blast+
  then have "seg ?m (Some n) bs None" unfolding put_between_def by (rule seg_link_prev [OF _ d(2)])
  moreover have "fmlookup ?m n = Some e"
    using d(4,5) pq [of n] assms(4) by (subst put_between_frame) auto
  ultimately show ?thesis using assms(5,6) by (simp add: seg_append)
qed

lemma put_links:
  assumes "links s L" "L r = as @ cs @ bs" "vma s n = None" "Resource e = Some r"
    "ResourcePrevVMA e = last_or as None" "ResourceNextVMA e = hd_or bs None" "resource_of s r = Some R"
  defines "m \<equiv> put_between (last_or as None) n (hd_or bs None) (fmupd n e (VMAs s))"
  shows "links (s\<lparr>VMAs := fmdrop_set (set cs) m,
      MappedResources := fmupd r (R\<lparr>FirstVMA := hd_or as (Some n)\<rparr>) (MappedResources s)\<rparr>) (L(r := as @ n # bs))"
    and "cores m = (cores (VMAs s))(n \<mapsto> core e)"
proof -
  let ?p = "last_or as None" and ?q = "hd_or bs None" and ?m0 = "fmupd n e (VMAs s)"
  have sg: "seg (VMAs s) None as (hd_or (cs @ bs) None)" "seg (VMAs s) (last_or cs (last_or as None)) bs None"
    using assms(1,2) by (metis links_def seg_append)+
  have n: "n \<notin> set (L r')" for r' using assms(1,3) by (auto simp: links_def resource_at_def)
  have "distinct (L r)" using assms(1) by (simp add: links_def)
  then have d: "distinct (as @ cs @ bs)" "distinct (as @ n # bs)" "n \<notin> set as" "n \<notin> set bs" "n \<notin> set cs"
    using n [of r] by (auto simp: assms(2))
  have pq: "?p = Some z \<Longrightarrow> z \<in> set as" "?q = Some z \<Longrightarrow> z \<in> set bs" for z by (auto dest: in_hd_or)
  have there: "?p = Some x \<or> ?q = Some x \<Longrightarrow> fmlookup ?m0 x \<noteq> None" for x
    using pq seg_present [OF sg(1)] seg_present [OF sg(2)] by (metis fmupd_lookup option.distinct(1))
  show c: "cores m = (cores (VMAs s))(n \<mapsto> core e)"
    unfolding m_def by (subst put_between_cores [OF there]) (simp_all add: cores_upd)
  have at: "resource_at (fmdrop_set (set cs) m) x =
      (if x \<in> set cs then None else if x = n then Some r else resource_at (VMAs s) x)" for x
  proof -
    have "resource_at m x = (if x = n then Some r else resource_at (VMAs s) x)"
      using assms(4) by (simp add: resource_at_core c)
    then show ?thesis by (simp add: resource_at_def)
  qed
  have "seg m None (as @ n # bs) None"
    unfolding m_def by (rule seg_put_between [OF _ _ d(2)])
      (use sg d assms(5,6) in auto)
  then have seg: "seg (fmdrop_set (set cs) m) None (as @ n # bs) None"
    using d by (subst seg_cong [where m' = m]) auto
  have set: "set (as @ cs @ bs) = {k. resource_at (VMAs s) k = Some r}" using assms(1,2) by (metis links_def)
  show "links (s\<lparr>VMAs := fmdrop_set (set cs) m,
      MappedResources := fmupd r (R\<lparr>FirstVMA := hd_or as (Some n)\<rparr>) (MappedResources s)\<rparr>) (L(r := as @ n # bs))"
  proof (rule links_changed [OF assms(1) d(2)])
    show "fmlookup (VMAs (s\<lparr>VMAs := fmdrop_set (set cs) m, MappedResources := X\<rparr>)) x = fmlookup (VMAs s) x"
      if "r' \<noteq> r" "x \<in> set (L r')" for r' x X
    proof -
      have "x \<notin> set (as @ cs @ bs)" "x \<noteq> n"
        using links_other [OF assms(1) _ that(2), of r] that n assms(2) by auto
      then have "?p \<noteq> Some x" "?q \<noteq> Some x" "x \<notin> set cs" using pq by auto
      then show ?thesis using \<open>x \<noteq> n\<close> by (simp add: m_def put_between_frame)
    qed
    show "resource_at (VMAs (s\<lparr>VMAs := fmdrop_set (set cs) m, MappedResources := X\<rparr>)) x = Some r' \<longleftrightarrow>
        resource_at (VMAs s) x = Some r'" if "r' \<noteq> r" for r' x X
    proof -
      have "resource_at (VMAs s) n = None" using assms(3) by (simp add: resource_at_def)
      moreover have "x \<in> set cs \<Longrightarrow> resource_at (VMAs s) x = Some r" using set by auto
      ultimately show ?thesis using that by (auto simp: at)
    qed
  qed (use seg set d in \<open>auto simp: at\<close>)
qed

lemma emplace_fresh: "vma s n = None \<Longrightarrow> emplace n e s = s\<lparr>VMAs := fmupd n e (VMAs s)\<rparr>"
  by (simp add: emplace_def fmdom_notI)

lemma links_absent: "links s L \<Longrightarrow> vma s n = None \<Longrightarrow> n \<notin> set (L r)"
  by (auto simp: links_def resource_at_def)

text \<open>Where a new mapping has a predecessor the first mapping of the resource stays.\<close>

lemma first_kept:
  assumes "resource_of s r = Some R" "FirstVMA R = hd_or (as @ cs) None" "as \<noteq> []"
  shows "fmupd r (R\<lparr>FirstVMA := hd_or as x\<rparr>) (MappedResources s) = MappedResources s"
proof -
  have "hd_or as x = FirstVMA R" using assms(2,3) by (cases as) auto
  then have "R\<lparr>FirstVMA := hd_or as x\<rparr> = R" by simp
  then show ?thesis using assms(1) by (auto intro!: fmap_ext)
qed

lemma put_same_rest:
  assumes "resource_of s r = Some R"
  shows "same_rest s (s\<lparr>VMAs := m, MappedResources := fmupd r (R\<lparr>FirstVMA := x\<rparr>) (MappedResources s)\<rparr>)"
  using assms by (auto simp: same_rest_def resource_cores_def fun_eq_iff)

lemma ListInsertAfter_links:
  assumes "links s L" "vma s k = Some e" "Resource e = Some r" "vma s n = None"
    "Resource f = Some r" "ResourcePrevVMA f = Some k" "ResourceNextVMA f = ResourceNextVMA e"
  shows "\<exists>s' as bs. ListInsertAfter k n (emplace n f s) = Some s' \<and> L r = as @ k # bs \<and>
    links s' (L(r := as @ k # n # bs)) \<and> cores (VMAs s') = (cores (VMAs s))(n \<mapsto> core f) \<and> same_rest s s'"
proof -
  obtain as bs R where l: "L r = as @ k # bs" "distinct (as @ k # bs)"
    "ResourcePrevVMA e = last_or as None" "ResourceNextVMA e = hd_or bs None"
    "seg (VMAs s) None as (Some k)" "seg (VMAs s) (Some k) bs None"
    "resource_of s r = Some R" "FirstVMA R = hd_or (L r) None"
    by (rule links_split [OF assms(1-3)])
  let ?q = "hd_or bs None" and ?m0 = "fmupd n f (VMAs s)"
  have q: "?q = Some z \<Longrightarrow> z \<in> set bs" for z by (auto dest: in_hd_or)
  have ne: "k \<noteq> n" "?q \<noteq> Some k" using assms(2,4) q [of k] l(2) by auto
  have "put_between (Some k) n ?q ?m0 = link_next (Some k) (Some n) (link_prev ?q (Some n) ?m0)"
    using ne by (cases ?q) (auto simp: put_between_def link_next_def link_prev_def intro!: fmap_ext)
  moreover have "ListInsertAfter k n (emplace n f s) =
      Some (s\<lparr>VMAs := link_next (Some k) (Some n) (link_prev ?q (Some n) ?m0)\<rparr>)"
  proof -
    have "fmlookup ?m0 x \<noteq> None" if "?q = Some x" for x using q [OF that] seg_present [OF l(6)] by auto
    then have "(case ResourceNextVMA e of
        Some x \<Rightarrow> update_vma x (\<lambda>v. v\<lparr>ResourcePrevVMA := Some n\<rparr>) (s\<lparr>VMAs := ?m0\<rparr>) | None \<Rightarrow> Some (s\<lparr>VMAs := ?m0\<rparr>)) =
        Some (s\<lparr>VMAs := link_prev ?q (Some n) ?m0\<rparr>)"
      unfolding l(4) by (subst update_links(2)) simp_all
    moreover have "fmlookup (link_prev ?q (Some n) ?m0) k = Some e" using ne assms(2) by (simp add: link_lookup)
    ultimately show ?thesis
      using ne assms(2) unfolding ListInsertAfter_def emplace_fresh [OF assms(4)]
      by (simp add: update_vma_def) (simp add: link_next_def)
  qed
  moreover have ln: "L r = (as @ [k]) @ [] @ bs" using l(1) by simp
  moreover have "ResourcePrevVMA f = last_or (as @ [k]) None" "ResourceNextVMA f = hd_or bs None"
    using assms(6,7) l(4) by simp_all
  note put = put_links [OF assms(1) ln assms(4,5) this l(7)]
  moreover have "fmupd r (R\<lparr>FirstVMA := hd_or (as @ [k]) (Some n)\<rparr>) (MappedResources s) = MappedResources s"
    by (rule first_kept [OF l(7), where cs = bs]) (use l(1,8) in simp_all)
  ultimately show ?thesis using l(1) by auto
qed

lemma ListReplace_links:
  assumes "links s L" "vma s k = Some e" "Resource e = Some r" "vma s n = None"
    "Resource f = Some r" "ResourcePrevVMA f = ResourcePrevVMA e" "ResourceNextVMA f = ResourceNextVMA e"
  shows "\<exists>s' as bs. ListReplace k n (emplace n f s) = Some s' \<and> L r = as @ k # bs \<and>
    links (erase k s') (L(r := as @ n # bs)) \<and> cores (VMAs s') = (cores (VMAs s))(n \<mapsto> core f) \<and> same_rest s s'"
proof -
  obtain as bs R where l: "L r = as @ k # bs" "distinct (as @ k # bs)"
    "ResourcePrevVMA e = last_or as None" "ResourceNextVMA e = hd_or bs None"
    "seg (VMAs s) None as (Some k)" "seg (VMAs s) (Some k) bs None"
    "resource_of s r = Some R" "FirstVMA R = hd_or (L r) None"
    by (rule links_split [OF assms(1-3)])
  let ?p = "last_or as None" and ?q = "hd_or bs None" and ?m0 = "fmupd n f (VMAs s)"
  let ?R = "R\<lparr>FirstVMA := hd_or as (Some n)\<rparr>"
  let ?t = "s\<lparr>VMAs := put_between ?p n ?q ?m0, MappedResources := fmupd r ?R (MappedResources s)\<rparr>"
  let ?u = "s\<lparr>VMAs := link_next ?p (Some n) ?m0, MappedResources := fmupd r ?R (MappedResources s)\<rparr>"
  have pq: "?p = Some z \<Longrightarrow> z \<in> set as" "?q = Some z \<Longrightarrow> z \<in> set bs" for z by (auto dest: in_hd_or)
  have ne: "k \<noteq> n" "?p \<noteq> Some k" using assms(2,4) pq(1) [of k] l(2) by auto
  have there: "?p = Some x \<or> ?q = Some x \<Longrightarrow> fmlookup ?m0 x \<noteq> None" for x
    using pq seg_present [OF l(5)] seg_present [OF l(6)] by (metis fmupd_lookup option.distinct(1))
  have first: "as \<noteq> [] \<Longrightarrow> fmupd r ?R (MappedResources s) = MappedResources s"
    by (rule first_kept [OF l(7), where cs = "k # bs"]) (use l(1,8) in simp_all)
  have step1: "(case ResourcePrevVMA e of
      Some p \<Rightarrow> update_vma p (\<lambda>v. v\<lparr>ResourceNextVMA := Some n\<rparr>) (s\<lparr>VMAs := ?m0\<rparr>)
    | None \<Rightarrow> do { r \<leftarrow> Resource e; update_resource r (\<lambda>R. R\<lparr>FirstVMA := Some n\<rparr>) (s\<lparr>VMAs := ?m0\<rparr>) }) = Some ?u"
  proof (cases "as = []")
    case True
    then show ?thesis using l(3,7) assms(3) by (simp add: update_resource_def link_next_def)
  next
    case False
    then obtain x where x: "?p = Some x" by (simp add: last_or_def)
    then have "update_vma x (\<lambda>v. v\<lparr>ResourceNextVMA := Some n\<rparr>) (s\<lparr>VMAs := ?m0\<rparr>) = Some (s\<lparr>VMAs := link_next ?p (Some n) ?m0\<rparr>)"
      using there [of x] by (auto simp: update_vma_def link_next_def)
    then show ?thesis using x l(3) first [OF False] by simp
  qed
  have step2: "(case ResourceNextVMA e of
      Some x \<Rightarrow> update_vma x (\<lambda>v. v\<lparr>ResourcePrevVMA := Some n\<rparr>) ?u | None \<Rightarrow> Some ?u) = Some ?t"
  proof -
    have "vma ?u x \<noteq> None" if "?q = Some x" for x
      using link_present(1) there [of x] that by simp
    then show ?thesis unfolding l(4) put_between_def by (subst update_links(2)) simp_all
  qed
  have ek: "vma ?u k = Some e" using ne assms(2) by (simp add: link_lookup)
  have "ListReplace k n (emplace n f s) = Some ?t"
  proof -
    have k0: "vma (s\<lparr>VMAs := ?m0\<rparr>) k = Some e" using ne assms(2) by simp
    show ?thesis unfolding ListReplace_def emplace_fresh [OF assms(4)]
      by (simp only: k0 Option.bind.simps step1 ek step2)
  qed
  moreover have ln: "L r = as @ [k] @ bs" using l(1) by simp
  moreover have "ResourcePrevVMA f = last_or as None" "ResourceNextVMA f = hd_or bs None"
    using assms(6,7) l(3,4) by simp_all
  note put = put_links [OF assms(1) ln assms(4,5) this l(7)]
  have "fmdrop_set (set [k]) (put_between ?p n ?q ?m0) = fmdrop k (put_between ?p n ?q ?m0)"
    by (rule fmap_ext) simp
  then have "erase k ?t = s\<lparr>VMAs := fmdrop_set (set [k]) (put_between ?p n ?q ?m0),
      MappedResources := fmupd r ?R (MappedResources s)\<rparr>" by (simp add: erase_def)
  with put(1) have "links (erase k ?t) (L(r := as @ n # bs))" by (simp only:)
  moreover have "cores (VMAs ?t) = (cores (VMAs s))(n \<mapsto> core f)" using put(2) by simp
  ultimately show ?thesis using l(1) put_same_rest [OF l(7)] by blast
qed

lemma ListPrepend_links:
  assumes "links s L" "vma s n = None" "resource_of s r = Some R"
    "Resource f = Some r" "ResourcePrevVMA f = None" "ResourceNextVMA f = FirstVMA R"
  shows "\<exists>s'. ListPrepend r n (emplace n f s) = Some s' \<and>
    links s' (L(r := n # L r)) \<and> cores (VMAs s') = (cores (VMAs s))(n \<mapsto> core f) \<and> same_rest s s'"
proof -
  let ?q = "hd_or (L r) None" and ?m0 = "fmupd n f (VMAs s)"
  let ?t = "s\<lparr>VMAs := put_between None n ?q ?m0, MappedResources := fmupd r (R\<lparr>FirstVMA := Some n\<rparr>) (MappedResources s)\<rparr>"
  have F: "FirstVMA R = ?q" using assms(1,3) by (simp add: links_def)
  have sg: "seg (VMAs s) None (L r) None" using assms(1) by (simp add: links_def)
  have "vma (s\<lparr>VMAs := ?m0\<rparr>) x \<noteq> None" if "?q = Some x" for x
    using in_hd_or(1) [OF that] seg_present [OF sg] by simp
  then have "(case FirstVMA R of Some x \<Rightarrow> update_vma x (\<lambda>v. v\<lparr>ResourcePrevVMA := Some n\<rparr>) (s\<lparr>VMAs := ?m0\<rparr>)
      | None \<Rightarrow> Some (s\<lparr>VMAs := ?m0\<rparr>)) = Some (s\<lparr>VMAs := put_between None n ?q ?m0\<rparr>)"
    unfolding F put_between_def by (subst update_links(2)) (simp_all add: link_next_def)
  then have "ListPrepend r n (emplace n f s) = Some ?t"
    using assms(3) unfolding ListPrepend_def emplace_fresh [OF assms(2)] by (simp add: update_resource_def)
  moreover have "links ?t (L(r := n # L r))" "cores (VMAs ?t) = (cores (VMAs s))(n \<mapsto> core f)"
    using put_links [OF assms(1), of r "[]" "[]" "L r" n f R] assms F by simp_all
  ultimately show ?thesis using put_same_rest [OF assms(3)] by blast
qed

end
