(* ===== verification/VMARanges.thy ===== *)
theory VMARanges
  imports VMALists
begin

text \<open>
  What the mappings say of each address, the invariant of the tracking (the mappings are disjoint, none
  wraps around, the lists hold the mappings of each resource), and the deletion of a range.
\<close>

section \<open>Disjoint mappings\<close>

text \<open>The view of an address inside a mapping: its resource, its offset in the resource, flags and protection.\<close>

type_synonym view = "resource option \<times> u64 \<times> VMAFlags \<times> VMAProt"

definition content :: "VMAEntry \<Rightarrow> u64 \<Rightarrow> view" where
  "content e a = (Resource e, Offset e + (a - Base e), Flags e, Prot e)"

definition geom :: "(u64 \<Rightarrow> VMAEntry option) \<Rightarrow> bool" where
  "geom c \<longleftrightarrow> (\<forall>k e. c k = Some e \<longrightarrow> Base e = k \<and> k < k + Length e) \<and>
     (\<forall>k k' e e'. c k = Some e \<longrightarrow> c k' = Some e' \<longrightarrow> k < k' \<longrightarrow> k + Length e \<le> k')"

definition maps :: "(u64 \<Rightarrow> VMAEntry option) \<Rightarrow> u64 \<Rightarrow> view \<Rightarrow> bool" where
  "maps c a v \<longleftrightarrow> (\<exists>k e. c k = Some e \<and> k \<le> a \<and> a < k + Length e \<and> v = content e a)"

lemma content_core [simp]: "content (core e) a = content e a"
  by (simp add: content_def)

lemma geomD:
  assumes "geom c" "c k = Some e"
  shows "Base e = k" "k < k + Length e" "c k' = Some e' \<Longrightarrow> k < k' \<Longrightarrow> k + Length e \<le> k'"
  using assms by (auto simp: geom_def)

lemma geom_unique:
  assumes "geom c" "c k = Some e" "k \<le> a" "a < k + Length e" "c k' = Some e'" "k' \<le> a" "a < k' + Length e'"
  shows "k' = k"
proof (rule ccontr)
  assume "k' \<noteq> k"
  then consider "k < k'" | "k' < k" by fastforce
  then show False
    using geomD(3) [OF assms(1,2,5)] geomD(3) [OF assms(1,5,2)] assms(3,4,6,7) by cases auto
qed

lemma maps_unique: "geom c \<Longrightarrow> maps c a v \<Longrightarrow> maps c a v' \<Longrightarrow> v = v'"
  unfolding maps_def by (metis geom_unique option.inject)

lemma maps_empty [simp]: "\<not> maps Map.empty a v" "geom Map.empty"
  by (simp_all add: maps_def geom_def)

lemma maps_upd:
  "maps (c(k \<mapsto> e)) a v \<longleftrightarrow> k \<le> a \<and> a < k + Length e \<and> v = content e a \<or> maps (c(k := None)) a v"
  by (auto simp: maps_def)

text \<open>A mapping is replaced by pieces of it.\<close>

lemma geom_replace:
  assumes "geom c" "c k = Some e" "geom P" "\<And>p f. P p = Some f \<Longrightarrow> k \<le> p \<and> p + Length f \<le> k + Length e"
  shows "geom ((c(k := None)) ++ P)"
    and "maps ((c(k := None)) ++ P) a v \<longleftrightarrow> (if k \<le> a \<and> a < k + Length e then maps P a v else maps c a v)"
proof -
  let ?d = "(c(k := None)) ++ P"
  have P: "p < p + Length f" "k \<le> p" "p + Length f \<le> k + Length e" "p < k + Length e" if "P p = Some f" for p f
    using geomD(2) [OF assms(3) that] assms(4) [OF that] by auto
  have d: "?d x = Some f \<longleftrightarrow> P x = Some f \<or> P x = None \<and> x \<noteq> k \<and> c x = Some f" for x f
    by (auto simp: map_add_Some_iff)
  have out: "x + Length f \<le> k \<or> k + Length e \<le> x" if "c x = Some f" "x \<noteq> k" for x f
    using geomD(3) [OF assms(1,2) that(1)] geomD(3) [OF assms(1) that(1) assms(2)] that(2) by fastforce
  have inner: "P x = None" if "c x = Some f" "x \<noteq> k" for x f
  proof (rule ccontr)
    assume "P x \<noteq> None"
    then obtain g where "P x = Some g" by auto
    with P(2,4) [OF this] out [OF that] geomD(2) [OF assms(1) that(1)] show False by auto
  qed
  show "geom ?d"
    unfolding geom_def
  proof (intro conjI allI impI)
    fix x f assume "?d x = Some f"
    then show "Base f = x" "x < x + Length f" using geomD(1,2) [OF assms(1)] geomD(1,2) [OF assms(3)] by (auto simp: d)
  next
    fix x y f g assume xy: "?d x = Some f" "?d y = Some g" "x < y"
    then consider "P x = Some f" "P y = Some g" | "P x = Some f" "y \<noteq> k" "c y = Some g"
      | "x \<noteq> k" "c x = Some f" "P y = Some g" | "c x = Some f" "c y = Some g" by (auto simp: d)
    then show "x + Length f \<le> y"
    proof cases
      case 1
      then show ?thesis using geomD(3) [OF assms(3)] xy(3) by blast
    next
      case 2
      then show ?thesis using out [of y g] P [of x f] xy(3) geomD(2) [OF assms(1), of y g] by fastforce
    next
      case 3
      then show ?thesis using out [of x f] P [of y g] xy(3) by fastforce
    next
      case 4
      then show ?thesis using geomD(3) [OF assms(1)] xy(3) by blast
    qed
  qed
  show "maps ?d a v \<longleftrightarrow> (if k \<le> a \<and> a < k + Length e then maps P a v else maps c a v)"
  proof (cases "k \<le> a \<and> a < k + Length e")
    case True
    have "\<not> (c x = Some f \<and> x \<noteq> k \<and> x \<le> a \<and> a < x + Length f)" for x f
      using geom_unique [OF assms(1,2)] True by blast
    then show ?thesis using True unfolding maps_def d by auto
  next
    case False
    have "\<not> (P x = Some f \<and> x \<le> a \<and> a < x + Length f)" for x f
      using P [of x f] False by fastforce
    moreover have "\<not> (c k = Some f \<and> k \<le> a \<and> a < k + Length f)" for f
      using False assms(2) by auto
    moreover have "x \<noteq> k \<and> P x = None" if "c x = Some f" "x \<le> a" "a < x + Length f" for x f
      using that calculation(2) inner [OF that(1)] by blast
    ultimately show ?thesis unfolding maps_def d using False by (simp; blast)
  qed
qed

text \<open>A new mapping.\<close>

lemma geom_insert:
  assumes "geom c" "Base f = B" "B < B + Length f"
    "\<And>k e. c k = Some e \<Longrightarrow> k + Length e \<le> B \<or> B + Length f \<le> k"
  shows "geom (c(B \<mapsto> f))"
    and "maps (c(B \<mapsto> f)) a v \<longleftrightarrow> (if B \<le> a \<and> a < B + Length f then v = content f a else maps c a v)"
proof -
  have n: "c B = None"
  proof (rule ccontr)
    assume "c B \<noteq> None"
    then obtain e where "c B = Some e" by auto
    then show False using assms(3,4) geomD(2) [OF assms(1)] by fastforce
  qed
  have "k + Length e \<le> B" if "c k = Some e" "k < B" for k e
    using assms(3) assms(4) [OF that(1)] that(2) by auto
  moreover have "B + Length f \<le> k" if "c k = Some e" "B < k" for k e
    using assms(4) [OF that(1)] that(2) geomD(2) [OF assms(1) that(1)] by auto
  ultimately show "geom (c(B \<mapsto> f))"
    using assms(1-3) by (auto simp: geom_def)
  have "\<not> maps c a v" if "B \<le> a" "a < B + Length f"
    using assms(4) that unfolding maps_def by fastforce
  then show "maps (c(B \<mapsto> f)) a v \<longleftrightarrow> (if B \<le> a \<and> a < B + Length f then v = content f a else maps c a v)"
    using n by (auto simp: maps_upd fun_upd_idem)
qed

section \<open>The invariant\<close>

definition vma_wf :: "VMATracking \<Rightarrow> (resource \<Rightarrow> u64 list) \<Rightarrow> bool" where
  "vma_wf s L \<longleftrightarrow> links s L \<and> geom (cores (VMAs s))"

definition ordered :: "(resource \<Rightarrow> u64 list) \<Rightarrow> bool" where
  "ordered L \<longleftrightarrow> (\<forall>r. sorted (L r))"

definition mapping_at :: "VMATracking \<Rightarrow> u64 \<Rightarrow> view option" where
  "mapping_at s a = do { k \<leftarrow> FindVMAEntry s a; e \<leftarrow> vma s k; Some (content e a) }"

lemma cores_Some: "cores m k = Some c \<longleftrightarrow> (\<exists>e. fmlookup m k = Some e \<and> c = core e)"
  by (auto simp: cores_def)

lemma cores_lookup: "fmlookup m k = Some e \<Longrightarrow> cores m k = Some (core e)"
  by (simp add: cores_def)

lemma geom_vma:
  assumes "geom (cores (VMAs s))" "vma s k = Some e"
  shows "Base e = k" "k < k + Length e" "vma s k' = Some e' \<Longrightarrow> k < k' \<Longrightarrow> k + Length e \<le> k'"
  using geomD [OF assms(1) cores_lookup [OF assms(2)]] cores_lookup [of "VMAs s" k'] by auto

lemma maps_vma: "maps (cores (VMAs s)) a v \<longleftrightarrow> (\<exists>k e. vma s k = Some e \<and> k \<le> a \<and> a < k + Length e \<and> v = content e a)"
  by (force simp: maps_def cores_Some)

lemma vma_dom: "k \<in> fmdom' (VMAs s) \<longleftrightarrow> (\<exists>e. vma s k = Some e)"
  by (metis fmdom'_notD fmdom'_notI option.collapse option.distinct(1))

text \<open>The search finds the mapping of an address.\<close>

lemma FindVMAEntry_iff:
  assumes "geom (cores (VMAs s))"
  shows "FindVMAEntry s a = Some k \<longleftrightarrow> (\<exists>e. vma s k = Some e \<and> k \<le> a \<and> a < k + Length e)"
proof
  assume "FindVMAEntry s a = Some k"
  then show "\<exists>e. vma s k = Some e \<and> k \<le> a \<and> a < k + Length e"
    by (auto simp: FindVMAEntry_def split: Option.bind_splits if_splits)
next
  assume "\<exists>e. vma s k = Some e \<and> k \<le> a \<and> a < k + Length e"
  then obtain e where e: "vma s k = Some e" "k \<le> a" "a < k + Length e" by auto
  have "k' \<le> k" if "vma s k' = Some e'" "k' \<le> a" for k' e'
    using geom_vma(3) [OF assms e(1) that(1)] e(2,3) that(2) by fastforce
  then have "last_key (\<lambda>k. k \<le> a) (VMAs s) = Some k"
    unfolding last_key_Some(1) using e by (auto simp: vma_dom)
  then show "FindVMAEntry s a = Some k" using e by (simp add: FindVMAEntry_def)
qed

lemma mapping_at_maps:
  assumes "geom (cores (VMAs s))"
  shows "mapping_at s a = Some v \<longleftrightarrow> maps (cores (VMAs s)) a v"
proof
  assume "mapping_at s a = Some v"
  then obtain k e where "FindVMAEntry s a = Some k" "vma s k = Some e" "v = content e a"
    by (auto simp: mapping_at_def split: Option.bind_splits)
  then show "maps (cores (VMAs s)) a v" unfolding maps_vma FindVMAEntry_iff [OF assms] by auto
next
  assume "maps (cores (VMAs s)) a v"
  then obtain k e where "vma s k = Some e" "k \<le> a" "a < k + Length e" "v = content e a" by (auto simp: maps_vma)
  moreover from this have "FindVMAEntry s a = Some k" unfolding FindVMAEntry_iff [OF assms] by auto
  ultimately show "mapping_at s a = Some v" by (simp add: mapping_at_def)
qed

lemma mapping_at_eqI:
  assumes "geom (cores (VMAs s))" "\<And>v. maps (cores (VMAs s)) a v \<longleftrightarrow> x = Some v"
  shows "mapping_at s a = x"
  using mapping_at_maps [OF assms(1), of a] assms(2) by (cases x; cases "mapping_at s a") (metis option.distinct(1) option.inject)+

section \<open>Updates that leave the lists alone\<close>

lemma links_same:
  assumes "links s L" "MappedResources s' = MappedResources s"
    "\<And>k. resource_at (VMAs s') k = resource_at (VMAs s) k"
    "\<And>k r. resource_at (VMAs s) k = Some r \<Longrightarrow>
      map_option ResourcePrevVMA (vma s k) = map_option ResourcePrevVMA (vma s' k) \<and>
      map_option ResourceNextVMA (vma s k) = map_option ResourceNextVMA (vma s' k)"
  shows "links s' L"
proof -
  have "seg (VMAs s') None (L r) None" for r
  proof -
    have "seg (VMAs s) None (L r) None" "set (L r) = {k. resource_at (VMAs s) k = Some r}"
      using assms(1) by (simp_all add: links_def)
    moreover from this(2) have "seg (VMAs s) None (L r) None \<longleftrightarrow> seg (VMAs s') None (L r) None"
      by (intro seg_cong assms(4)) auto
    ultimately show ?thesis by simp
  qed
  then show ?thesis using assms(1-3) by (simp add: links_def)
qed

lemma links_upd:
  assumes "links s L" "vma s k = Some e" "Resource e' = Resource e"
    "ResourcePrevVMA e' = ResourcePrevVMA e" "ResourceNextVMA e' = ResourceNextVMA e"
  shows "links (s\<lparr>VMAs := fmupd k e' (VMAs s)\<rparr>) L"
  using assms by (intro links_same [OF assms(1)]) (auto simp: resource_at_def)

lemma links_emplace:
  assumes "links s L" "vma s n = None" "Resource f = None"
  shows "links (emplace n f s) L"
  using assms unfolding emplace_fresh [OF assms(2)]
  by (intro links_same [OF assms(1)]) (auto simp: resource_at_def)

lemma links_erase:
  assumes "links s L" "vma s k = Some e" "Resource e = None"
  shows "links (erase k s) L"
  using assms unfolding erase_def by (intro links_same [OF assms(1)]) (auto simp: resource_at_def)

lemma cores_emplace: "vma s n = None \<Longrightarrow> cores (VMAs (emplace n f s)) = (cores (VMAs s))(n \<mapsto> core f)"
  by (simp add: emplace_fresh cores_upd)

lemma cores_erase [simp]: "cores (VMAs (erase k s)) = (cores (VMAs s))(k := None)"
  by (simp add: erase_def cores_drop)

lemma same_rest_emplace [simp]: "same_rest s (emplace n f s') \<longleftrightarrow> same_rest s s'"
  by (simp add: emplace_def)

lemma same_rest_erase [simp]: "same_rest s (erase k s') \<longleftrightarrow> same_rest s s'"
  by (simp add: erase_def)

text \<open>A list without mappings is given up with its resource.\<close>

lemma links_EraseResource:
  assumes "links (erase k s) L" "L r = []" "resource_of s r \<noteq> None"
  shows "\<exists>s'. EraseResource r s = Some s' \<and> links (erase k s') L \<and> VMAs s' = VMAs s \<and>
    resource_cores s' = (resource_cores s)(r := None) \<and> resource_of s' r = None"
proof -
  obtain R where R: "resource_of s r = Some R" using assms(3) by auto
  have "links (erase k (s\<lparr>MappedResources := fmdrop r (MappedResources s), PendingResourceDeletions := X\<rparr>)) L" for X
    using assms(1,2) by (auto simp: links_def erase_def split: if_splits)
  then show ?thesis
    unfolding EraseResource_def R by (auto simp: resource_cores_def fun_eq_iff)
qed

section \<open>A part of a mapping becomes a mapping of its own\<close>

text \<open>The mappings next to the new one in its list.\<close>

lemma neighbours:
  assumes "links s L" "L r = as @ k # bs" "sorted (L r)" "k < n" "\<And>x. vma s x \<noteq> None \<Longrightarrow> k < x \<Longrightarrow> n < x"
  shows "sorted (as @ k # n # bs)" "sorted (as @ n # bs)"
proof -
  have "n < b" if "b \<in> set bs" for b
  proof -
    have "set (L r) = {k. resource_at (VMAs s) k = Some r}" "distinct (L r)" using assms(1) by (simp_all add: links_def)
    then have "resource_at (VMAs s) b = Some r" "b \<noteq> k" using that assms(2) by auto
    then have "vma s b \<noteq> None" by (cases "vma s b") (auto simp: resource_at_def)
    moreover have "k \<le> b" using assms(2,3) that by (simp add: sorted_append)
    ultimately show "n < b" using assms(5) [of b] \<open>b \<noteq> k\<close> by simp
  qed
  then show "sorted (as @ k # n # bs)" "sorted (as @ n # bs)"
    using assms(2-4) by (auto simp: sorted_append intro: less_imp_le order.trans)
qed

text \<open>The lists gain and lose no resource, and stay in the order of the addresses.\<close>

definition lists_kept :: "(resource \<Rightarrow> u64 list) \<Rightarrow> (resource \<Rightarrow> u64 list) \<Rightarrow> bool" where
  "lists_kept L L' \<longleftrightarrow> (\<forall>r. L' r = [] \<longleftrightarrow> L r = []) \<and> (ordered L \<longrightarrow> ordered L')"

lemma lists_kept_refl [simp]: "lists_kept L L" by (simp add: lists_kept_def)
lemma lists_kept_trans: "lists_kept L L' \<Longrightarrow> lists_kept L' L'' \<Longrightarrow> lists_kept L L''" by (simp add: lists_kept_def)

lemma lists_kept_upd:
  assumes "L r \<noteq> []" "xs \<noteq> []" "sorted (L r) \<Longrightarrow> sorted xs"
  shows "lists_kept L (L(r := xs))"
  using assms by (auto simp: lists_kept_def ordered_def)

text \<open>No mapping starts between the two.\<close>

definition adjacent :: "VMATracking \<Rightarrow> u64 \<Rightarrow> u64 \<Rightarrow> bool" where
  "adjacent s k n \<longleftrightarrow> k < n \<and> (\<forall>x. vma s x \<noteq> None \<longrightarrow> k < x \<longrightarrow> n < x)"

lemma adjacent_in:
  assumes "geom (cores (VMAs s))" "vma s k = Some e" "k < n" "n < k + Length e"
  shows "adjacent s k n" "vma s n = None"
proof -
  show "adjacent s k n" using geom_vma(3) [OF assms(1,2)] assms(3,4) by (fastforce simp: adjacent_def)
  then show "vma s n = None" using assms(3) by (metis adjacent_def less_irrefl option.exhaust option.distinct(1))
qed

lemma insert_part:
  assumes "links s L" "vma s k = Some e" "vma s n = None" "adjacent s k n"
    "Resource f = Resource e" "ResourcePrevVMA f = Some k" "ResourceNextVMA f = ResourceNextVMA e"
  shows "\<exists>s' L'. (if Resource e = None then Some (emplace n f s) else ListInsertAfter k n (emplace n f s)) = Some s' \<and>
    links s' L' \<and> cores (VMAs s') = (cores (VMAs s))(n \<mapsto> core f) \<and> same_rest s s' \<and> lists_kept L L'"
proof (cases "Resource e")
  case None
  then show ?thesis
    using links_emplace [OF assms(1,3), of f] cores_emplace [OF assms(3), of f] assms(5) by (auto intro!: exI [of _ L])
next
  case (Some r)
  with assms(5) have f: "Resource f = Some r" by simp
  obtain s' as bs where s': "ListInsertAfter k n (emplace n f s) = Some s'" "L r = as @ k # bs"
    "links s' (L(r := as @ k # n # bs))" "cores (VMAs s') = (cores (VMAs s))(n \<mapsto> core f)" "same_rest s s'"
    using ListInsertAfter_links [OF assms(1,2) Some assms(3) f assms(6,7)] by blast
  moreover have "sorted (L r) \<Longrightarrow> sorted (as @ k # n # bs)"
    using neighbours(1) [OF assms(1) s'(2)] assms(4) by (simp add: adjacent_def)
  then have "lists_kept L (L(r := as @ k # n # bs))"
    by (intro lists_kept_upd) (simp_all add: s'(2))
  ultimately show ?thesis using Some by auto
qed

lemma replace_part:
  assumes "links s L" "vma s k = Some e" "vma s n = None" "adjacent s k n"
    "Resource f = Resource e" "ResourcePrevVMA f = ResourcePrevVMA e" "ResourceNextVMA f = ResourceNextVMA e"
  shows "\<exists>s' L'. (if Resource e = None then Some (emplace n f s) else ListReplace k n (emplace n f s)) = Some s' \<and>
    links (erase k s') L' \<and> cores (VMAs s') = (cores (VMAs s))(n \<mapsto> core f) \<and> same_rest s s' \<and> lists_kept L L'"
proof (cases "Resource e")
  case None
  have "vma (emplace n f s) k = Some e" using assms(2,3) by (auto simp: emplace_fresh)
  then have "links (erase k (emplace n f s)) L"
    using None assms(5) by (intro links_erase links_emplace [OF assms(1,3)]) auto
  then show ?thesis
    using None cores_emplace [OF assms(3), of f] by (auto intro!: exI [of _ L])
next
  case (Some r)
  with assms(5) have f: "Resource f = Some r" by simp
  obtain s' as bs where s': "ListReplace k n (emplace n f s) = Some s'" "L r = as @ k # bs"
    "links (erase k s') (L(r := as @ n # bs))" "cores (VMAs s') = (cores (VMAs s))(n \<mapsto> core f)" "same_rest s s'"
    using ListReplace_links [OF assms(1,2) Some assms(3) f assms(6,7)] by blast
  moreover have "sorted (L r) \<Longrightarrow> sorted (as @ n # bs)"
    using neighbours(2) [OF assms(1) s'(2)] assms(4) by (simp add: adjacent_def)
  then have "lists_kept L (L(r := as @ n # bs))"
    by (intro lists_kept_upd) (simp_all add: s'(2))
  ultimately show ?thesis using Some by auto
qed

section \<open>Deleting a range\<close>

text \<open>The addresses of \<open>X\<close> are unmapped, and the resources that lose their last mapping go, save one.\<close>

definition deletes :: "u64 set \<Rightarrow> resource option \<Rightarrow> VMATracking \<Rightarrow> (resource \<Rightarrow> u64 list) \<Rightarrow>
    VMATracking \<Rightarrow> (resource \<Rightarrow> u64 list) \<Rightarrow> bool" where
  "deletes X P s L s' L' \<longleftrightarrow> vma_wf s' L' \<and>
     (\<forall>a v. maps (cores (VMAs s')) a v \<longleftrightarrow> a \<notin> X \<and> maps (cores (VMAs s)) a v) \<and>
     (\<forall>r. L r = [] \<longrightarrow> L' r = []) \<and>
     (\<forall>r. resource_cores s' r = (if L' r = [] \<and> L r \<noteq> [] \<and> P \<noteq> Some r then None else resource_cores s r)) \<and>
     (ordered L \<longrightarrow> ordered L')"

lemma deletes_refl: "vma_wf s L \<Longrightarrow> (\<And>a v. maps (cores (VMAs s)) a v \<Longrightarrow> a \<notin> X) \<Longrightarrow> deletes X P s L s L"
  by (auto simp: deletes_def)

lemma deletesD:
  assumes "deletes X P s L s' L'"
  shows "vma_wf s' L'" "maps (cores (VMAs s')) a v \<longleftrightarrow> a \<notin> X \<and> maps (cores (VMAs s)) a v"
  using assms unfolding deletes_def by blast+

lemma deletes_trans:
  assumes "deletes X P s L s1 L1" "deletes Y P s1 L1 s2 L2"
  shows "deletes (X \<union> Y) P s L s2 L2"
proof -
  have "(if L2 r = [] \<and> L1 r \<noteq> [] \<and> P \<noteq> Some r then None
      else if L1 r = [] \<and> L r \<noteq> [] \<and> P \<noteq> Some r then None else resource_cores s r) =
    (if L2 r = [] \<and> L r \<noteq> [] \<and> P \<noteq> Some r then None else resource_cores s r)" for r
    using assms by (auto simp: deletes_def)
  then show ?thesis using assms unfolding deletes_def by (simp add: conj_assoc) blast
qed

lemma deletes_cong:
  assumes "deletes X P s L s' L'" "\<And>a v. maps (cores (VMAs s)) a v \<Longrightarrow> a \<in> X \<longleftrightarrow> a \<in> Y"
  shows "deletes Y P s L s' L'"
  using assms unfolding deletes_def by blast

lemma deletes_pieces:
  assumes "vma_wf s L" "vma s k = Some e" "links s' L'" "cores (VMAs s') = (cores (VMAs s))(k := None) ++ Q"
    "geom Q" "\<And>p f. Q p = Some f \<Longrightarrow> k \<le> p \<and> p + Length f \<le> k + Length e"
    "\<And>a v. k \<le> a \<Longrightarrow> a < k + Length e \<Longrightarrow> maps Q a v \<longleftrightarrow> a \<notin> X \<and> v = content e a"
    "\<And>a. a \<in> X \<Longrightarrow> k \<le> a \<and> a < k + Length e"
    "\<And>r. L r = [] \<Longrightarrow> L' r = []"
    "\<And>r. resource_cores s' r = (if L' r = [] \<and> L r \<noteq> [] \<and> P \<noteq> Some r then None else resource_cores s r)"
    "ordered L \<Longrightarrow> ordered L'"
  shows "deletes X P s L s' L'"
proof -
  let ?c = "cores (VMAs s)"
  have g: "geom ?c" "?c k = Some (core e)" using assms(1,2) by (simp_all add: vma_wf_def cores_lookup)
  have Q: "k \<le> p \<and> p + Length f \<le> k + Length (core e)" if "Q p = Some f" for p f using assms(6) [OF that] by simp
  note r = geom_replace [OF g assms(5) Q]
  have "maps ?c a v \<longleftrightarrow> v = content e a" if "k \<le> a" "a < k + Length e" for a v
    using maps_unique [OF g(1), of a v "content e a"] that assms(2) by (auto simp: maps_vma)
  then have "maps (cores (VMAs s')) a v \<longleftrightarrow> a \<notin> X \<and> maps ?c a v" for a v
    unfolding assms(4) using r(2) [of a v] assms(7) [of a v] assms(8) [of a] by (auto split: if_splits)
  then show ?thesis using assms(3,9-11) r(1) by (simp add: deletes_def vma_wf_def assms(4))
qed

lemma delete_whole:
  assumes "vma_wf s L" "vma s k = Some e"
  shows "\<exists>s' L'. (case Resource e of
      None \<Rightarrow> Some s
    | Some r \<Rightarrow> do {
        (Empty, s) \<leftarrow> ListRemove k s;
        if Empty \<and> P \<noteq> Some r then EraseResource r s else Some s }) = Some s' \<and>
    deletes {a. k \<le> a \<and> a < k + Length e} P s L (erase k s') L' \<and> cores (VMAs s') = cores (VMAs s)"
proof (cases "Resource e")
  case None
  then have "links (erase k s) L" using assms by (intro links_erase) (auto simp: vma_wf_def)
  then have "deletes {a. k \<le> a \<and> a < k + Length e} P s L (erase k s) L"
    by (rule deletes_pieces [OF assms, where Q = Map.empty]) (auto simp: resource_cores_def erase_def cores_drop)
  then show ?thesis using None by auto
next
  case (Some r)
  have l: "links s L" using assms(1) by (simp add: vma_wf_def)
  obtain s1 where s1: "ListRemove k s = Some (remove1 k (L r) = [], s1)"
    "links (erase k s1) (L(r := remove1 k (L r)))" "cores (VMAs s1) = cores (VMAs s)" "same_rest s s1"
    "remove1 k (L r) = [] \<longrightarrow> resource_of s1 r \<noteq> None"
    using ListRemove_links [OF l assms(2) Some] by blast
  let ?L = "L(r := remove1 k (L r))"
  have ne: "L r \<noteq> []" using assms Some by (metis links_split vma_wf_def Nil_is_append_conv list.distinct(1))
  have o: "ordered L \<Longrightarrow> ordered ?L" by (simp add: ordered_def sorted_remove1)
  show ?thesis
  proof (cases "remove1 k (L r) = [] \<and> P \<noteq> Some r")
    case True
    have "?L r = []" "resource_of s1 r \<noteq> None" using True s1(5) by auto
    then obtain s2 where s2: "EraseResource r s1 = Some s2" "links (erase k s2) ?L" "VMAs s2 = VMAs s1"
      "resource_cores s2 = (resource_cores s1)(r := None)"
      using links_EraseResource [OF s1(2)] by blast
    have rc: "resource_cores (erase k s2) = (resource_cores s)(r := None)"
      using s2(4) s1(4) by (simp add: same_rest_def resource_cores_def erase_def fun_eq_iff)
    have "deletes {a. k \<le> a \<and> a < k + Length e} P s L (erase k s2) ?L"
      by (rule deletes_pieces [OF assms, where Q = Map.empty]) (use s2 s1(3) True rc ne o in auto)
    then show ?thesis using Some s1(1,3) s2(1,3) True by auto
  next
    case False
    have rc: "resource_cores (erase k s1) = resource_cores s"
      using s1(4) by (simp add: same_rest_def resource_cores_def erase_def fun_eq_iff)
    have "deletes {a. k \<le> a \<and> a < k + Length e} P s L (erase k s1) ?L"
      by (rule deletes_pieces [OF assms, where Q = Map.empty]) (use s1(2,3) False rc ne o in auto)
    then show ?thesis using Some s1(1,3) False by auto
  qed
qed

lemma pieces_kept:
  assumes "vma_wf s L" "vma s k = Some e" "links s' L'" "cores (VMAs s') = (cores (VMAs s))(k := None) ++ Q"
    "geom Q" "\<And>p f. Q p = Some f \<Longrightarrow> k \<le> p \<and> p + Length f \<le> k + Length e"
    "\<And>a v. k \<le> a \<Longrightarrow> a < k + Length e \<Longrightarrow> maps Q a v \<longleftrightarrow> a \<notin> X \<and> v = content e a"
    "\<And>a. a \<in> X \<Longrightarrow> k \<le> a \<and> a < k + Length e"
    "same_rest s s'" "lists_kept L L'"
  shows "deletes X P s L s' L'"
  using assms(9,10) by (intro deletes_pieces [OF assms(1-8)]) (auto simp: lists_kept_def same_rest_def)

text \<open>A mapping that is not inside the range loses its part in the range.\<close>

lemma delete_part:
  assumes "vma_wf s L" "vma s k = Some e" "B \<le> Top" "B < k + Length e" "k < Top" "k < B \<or> k + Length e > Top"
  shows "\<exists>s1 s2 L'. (if k < B then update_vma k (\<lambda>v. v\<lparr>Length := B - k\<rparr>) s else Some s) = Some s1 \<and>
    (if k + Length e > Top then do {
       Current \<leftarrow> vma s1 k;
       let s = emplace Top
         \<lparr>Resource = Resource Current,
          ResourcePrevVMA = (if \<not> k < B then ResourcePrevVMA Current else Some k),
          ResourceNextVMA = ResourceNextVMA Current, Base = Top, Offset = Offset e - k + Top,
          Length = k + Length e - Top, Flags = Flags Current, Prot = Prot Current\<rparr> s1;
       (if Resource Current = None then Some s
        else if \<not> k < B then ListReplace k Top s else ListInsertAfter k Top s) }
     else Some s1) = Some s2 \<and>
    deletes {a. k \<le> a \<and> a < k + Length e \<and> B \<le> a \<and> a < Top} P s L (if \<not> k < B then erase k s2 else s2) L'"
proof -
  let ?c = "cores (VMAs s)" and ?X = "{a. k \<le> a \<and> a < k + Length e \<and> B \<le> a \<and> a < Top}"
  have g: "geom ?c" "links s L" "Base e = k" "k < k + Length e" "?c k = Some (core e)"
    using assms(1,2) geom_vma [of s k e] by (auto simp: vma_wf_def cores_lookup)
  let ?e = "e\<lparr>Length := B - k\<rparr>"
  let ?s1 = "s\<lparr>VMAs := fmupd k ?e (VMAs s)\<rparr>"
  have l1: "links ?s1 L" by (rule links_upd [OF g(2) assms(2)]) simp_all
  have same1: "same_rest s ?s1" by simp
  let ?f = "\<lambda>P. \<lparr>Resource = Resource e, ResourcePrevVMA = P, ResourceNextVMA = ResourceNextVMA e, Base = Top,
    Offset = Offset e - k + Top, Length = k + Length e - Top, Flags = Flags e, Prot = Prot e\<rparr>"
  have fe: "content (?f P) a = content e a" for P a using g(3) by (simp add: content_def algebra_simps)
  have ee: "content ?e a = content e a" for a by (simp add: content_def)
  have adj: "adjacent s k Top" "vma s Top = None" if "k + Length e > Top"
    using adjacent_in [OF g(1) assms(2,5) that] by auto
  consider (first) "k < B" "\<not> k + Length e > Top" | (both) "k < B" "k + Length e > Top" | (trail) "\<not> k < B" "k + Length e > Top"
    using assms(6) by auto
  then show ?thesis
  proof cases
    case first
    have "deletes ?X P s L ?s1 L"
    proof (rule pieces_kept [OF assms(1,2) l1, where Q = "[k \<mapsto> core ?e]"])
      show "maps [k \<mapsto> core ?e] a v \<longleftrightarrow> a \<notin> ?X \<and> v = content e a" if "k \<le> a" "a < k + Length e" for a v
        using that first ee by (auto simp: maps_upd)
    qed (use first g assms(4) same1 in \<open>auto simp: cores_upd geom_def split: if_splits\<close>)
    then show ?thesis using first assms(2) by (auto simp: update_vma_def)
  next
    case both
    have v1: "vma ?s1 k = Some ?e" "vma ?s1 Top = None" "adjacent ?s1 k Top"
      using adj [OF both(2)] assms(5) by (auto simp: adjacent_def)
    obtain s2 L' where s2: "(if Resource ?e = None then Some (emplace Top (?f (Some k)) ?s1)
        else ListInsertAfter k Top (emplace Top (?f (Some k)) ?s1)) = Some s2"
      "links s2 L'" "cores (VMAs s2) = (cores (VMAs ?s1))(Top \<mapsto> core (?f (Some k)))" "same_rest ?s1 s2" "lists_kept L L'"
      using insert_part [OF l1 v1, of "?f (Some k)"] by auto
    have "deletes ?X P s L s2 L'"
    proof (rule pieces_kept [OF assms(1,2) s2(2), where Q = "[k \<mapsto> core ?e, Top \<mapsto> core (?f (Some k))]"])
      show "maps [k \<mapsto> core ?e, Top \<mapsto> core (?f (Some k))] a v \<longleftrightarrow> a \<notin> ?X \<and> v = content e a"
        if "k \<le> a" "a < k + Length e" for a v
        using that both assms(3,5) ee [of a] fe [of "Some k" a] by (auto simp: maps_upd)
    qed (use both g assms(3-5) same_rest_trans [OF same1 s2(4)] s2(3,5) in \<open>auto simp: cores_upd geom_def split: if_splits\<close>)
    then show ?thesis using both assms(2) s2(1) by (auto simp: update_vma_def Let_def)
  next
    case trail
    obtain s2 L' where s2: "(if Resource e = None then Some (emplace Top (?f (ResourcePrevVMA e)) s)
        else ListReplace k Top (emplace Top (?f (ResourcePrevVMA e)) s)) = Some s2"
      "links (erase k s2) L'" "cores (VMAs s2) = (cores (VMAs s))(Top \<mapsto> core (?f (ResourcePrevVMA e)))" "same_rest s s2" "lists_kept L L'"
      using replace_part [OF g(2) assms(2) adj(2,1) [OF trail(2)] , of "?f (ResourcePrevVMA e)"] trail(2) by auto
    have "deletes ?X P s L (erase k s2) L'"
    proof (rule pieces_kept [OF assms(1,2) s2(2), where Q = "[Top \<mapsto> core (?f (ResourcePrevVMA e))]"])
      show "maps [Top \<mapsto> core (?f (ResourcePrevVMA e))] a v \<longleftrightarrow> a \<notin> ?X \<and> v = content e a"
        if "k \<le> a" "a < k + Length e" for a v
        using that trail fe [of "ResourcePrevVMA e" a] by (auto simp: maps_upd)
    qed (use trail g assms(5) s2(3-5) in \<open>auto simp: cores_upd geom_def fun_upd_twist split: if_splits\<close>)
    then show ?thesis using trail assms(2) s2(1) by (auto simp: Let_def)
  qed
qed


text \<open>The loop: everything from \<open>x\<close> up to the end of the range is unmapped already.\<close>

lemma DeleteLoop_deletes:
  assumes "vma_wf s L" "B \<le> Top" "x \<le> Top"
    "\<And>a v. maps (cores (VMAs s)) a v \<Longrightarrow> B \<le> a \<Longrightarrow> a < Top \<Longrightarrow> a < x"
  shows "\<exists>s' L'. DeleteLoop B Top P x s = Some s' \<and> deletes {a. B \<le> a \<and> a < Top} P s L s' L'"
  using assms
proof (induction "unat x" arbitrary: x s L rule: less_induct)
  case less
  have g: "geom (cores (VMAs s))" using less.prems(1) by (simp add: vma_wf_def)
  let ?D = "{a. B \<le> a \<and> a < Top}"
  show ?case
  proof (cases "last_key (\<lambda>k. k < x) (VMAs s)")
    case None
    then have "x \<le> k" if "vma s k = Some e" for k e
      using that vma_dom [of k s] unfolding last_key_Some(2) by (metis not_less)
    then have "deletes ?D P s L s L"
      using less.prems(4) by (intro deletes_refl less.prems(1)) (fastforce simp: maps_vma)
    then show ?thesis using None by (auto simp: DeleteLoop.simps)
  next
    case (Some k)
    then have k: "k < x" "\<And>k' e'. vma s k' = Some e' \<Longrightarrow> k' < x \<Longrightarrow> k' \<le> k" by (auto simp: last_key_Some vma_dom)
    from Some obtain e where e: "vma s k = Some e" by (auto simp: last_key_Some vma_dom)
    have b: "Base e = k" "k < k + Length e" using geom_vma [OF g e] by auto
    have kT: "k < Top" using k(1) less.prems(3) by simp
    have cover: "\<exists>k' e'. vma s k' = Some e' \<and> k' \<le> k \<and> k' \<le> a \<and> a < k' + Length e'"
      if m: "maps (cores (VMAs s)) a v" "B \<le> a" "a < Top" for a v
    proof -
      obtain k' e' where k': "vma s k' = Some e'" "k' \<le> a" "a < k' + Length e'"
        using m(1) unfolding maps_vma by blast
      moreover have "k' < x" using less.prems(4) [OF m] k'(2) by simp
      ultimately show ?thesis using k(2) [OF k'(1)] by blast
    qed
    have step: "\<exists>s' L'. DeleteLoop B Top P k s1 = Some s' \<and> deletes ?D P s L s' L'"
      if d: "deletes {a. k \<le> a \<and> a < k + Length e \<and> B \<le> a \<and> a < Top} P s L s1 L1" for s1 L1
    proof -
      have u: "unat k < unat x" "k \<le> Top" "vma_wf s1 L1" 
        using k(1) less_imp_le [OF kT] d unfolding deletes_def by (simp_all add: word_less_nat_alt)
      have "a < k" if m: "maps (cores (VMAs s1)) a v" and a: "B \<le> a" "a < Top" for a v
      proof -
        have "\<not> (k \<le> a \<and> a < k + Length e)" "maps (cores (VMAs s)) a v" using deletesD(2) [OF d] m a by auto
        then show ?thesis using cover [OF _ a] geom_vma(3) [OF g _ e] e by fastforce
      qed
      with less.hyps [OF u(1,3) less.prems(2) u(2)] obtain s' L' where
        s': "DeleteLoop B Top P k s1 = Some s'" "deletes ?D P s1 L1 s' L'" by blast
      have "deletes ?D P s L s' L'"
        by (rule deletes_cong [OF deletes_trans [OF d s'(2)]]) auto
      then show ?thesis using s'(1) by blast
    qed
    have unf: "DeleteLoop B Top P x s = (let
              OffsetDiff = Offset e - k
          in if k + Length e \<le> B then Some s
             else if \<not> k < B \<and> \<not> k + Length e > Top then do {
               s \<leftarrow> (case Resource e of
                      None \<Rightarrow> Some s
                    | Some r \<Rightarrow> do {
                        (Empty, s) \<leftarrow> ListRemove k s;
                        if Empty \<and> P \<noteq> Some r then EraseResource r s else Some s });
               DeleteLoop B Top P k (erase k s) }
             else do {
               s \<leftarrow> (if k < B then update_vma k (\<lambda>v. v\<lparr>Length := B - k\<rparr>) s else Some s);
               s \<leftarrow> (if k + Length e > Top then do {
                      Current \<leftarrow> vma s k;
                      let s = emplace Top
                        \<lparr>Resource = Resource Current,
                         ResourcePrevVMA = (if \<not> k < B then ResourcePrevVMA Current else Some k),
                         ResourceNextVMA = ResourceNextVMA Current, Base = Top, Offset = OffsetDiff + Top,
                         Length = k + Length e - Top, Flags = Flags Current, Prot = Prot Current\<rparr> s;
                      (if Resource Current = None then Some s
                       else if \<not> k < B then ListReplace k Top s else ListInsertAfter k Top s) }
                    else Some s);
               DeleteLoop B Top P k (if \<not> k < B then erase k s else s) })"
      by (subst DeleteLoop.simps) (simp only: Some e b option.case Option.bind.simps Let_def)
    consider (before) "k + Length e \<le> B" | (whole) "B < k + Length e" "\<not> k < B" "\<not> k + Length e > Top"
      | (part) "B < k + Length e" "k < B \<or> k + Length e > Top" by fastforce
    then show ?thesis
    proof cases
      case before
      have "a \<notin> ?D" if m: "maps (cores (VMAs s)) a v" for a v
      proof
        assume "a \<in> ?D"
        then obtain k' e' where k': "vma s k' = Some e'" "k' \<le> k" "k' \<le> a" "a < k' + Length e'" "B \<le> a"
          using cover [OF m] by auto
        then show False using geom_vma(3) [OF g k'(1) e] e before b(2) by fastforce
      qed
      then have "deletes ?D P s L s L" by (intro deletes_refl less.prems(1))
      then show ?thesis using before unf by auto
    next
      case whole
      obtain s1 L1 where s1: "(case Resource e of
          None \<Rightarrow> Some s
        | Some r \<Rightarrow> do {
            (Empty, s) \<leftarrow> ListRemove k s;
            if Empty \<and> P \<noteq> Some r then EraseResource r s else Some s }) = Some s1"
        "deletes {a. k \<le> a \<and> a < k + Length e} P s L (erase k s1) L1"
        using delete_whole [OF less.prems(1) e, of P] by blast
      have same: "{a. k \<le> a \<and> a < k + Length e} = {a. k \<le> a \<and> a < k + Length e \<and> B \<le> a \<and> a < Top}"
        using whole by auto
      have "\<not> k + Length e \<le> B" using whole(1) by (simp add: not_le)
      with step [OF s1(2) [unfolded same]] whole(2,3) show ?thesis
        unfolding unf Let_def by (simp add: s1(1))
    next
      case part
      obtain s1 s2 L1 where s1: "(if k < B then update_vma k (\<lambda>v. v\<lparr>Length := B - k\<rparr>) s else Some s) = Some s1"
        "(if k + Length e > Top then do {
           Current \<leftarrow> vma s1 k;
           let s = emplace Top
             \<lparr>Resource = Resource Current,
              ResourcePrevVMA = (if \<not> k < B then ResourcePrevVMA Current else Some k),
              ResourceNextVMA = ResourceNextVMA Current, Base = Top, Offset = Offset e - k + Top,
              Length = k + Length e - Top, Flags = Flags Current, Prot = Prot Current\<rparr> s1;
           (if Resource Current = None then Some s
            else if \<not> k < B then ListReplace k Top s else ListInsertAfter k Top s) }
         else Some s1) = Some s2"
        "deletes {a. k \<le> a \<and> a < k + Length e \<and> B \<le> a \<and> a < Top} P s L (if \<not> k < B then erase k s2 else s2) L1"
        using delete_part [OF less.prems(1) e less.prems(2) part(1) kT part(2), of P] by blast
      have "\<not> k + Length e \<le> B" "\<not> (\<not> k < B \<and> \<not> k + Length e > Top)" using part by (auto simp: not_le)
      with step [OF s1(3)] show ?thesis unfolding unf Let_def
        by (simp only: s1(1,2) [unfolded Let_def] Option.bind.simps if_False)
    qed
  qed
qed

lemma DeleteVMARange_deletes:
  assumes "vma_wf s L" "B \<le> B + Len"
  shows "\<exists>s' L'. DeleteVMARange B Len P s = Some s' \<and> deletes {a. B \<le> a \<and> a < B + Len} P s L s' L'"
  unfolding DeleteVMARange_def by (rule DeleteLoop_deletes [OF assms]) auto

lemma deletes_mapping_at:
  assumes "deletes X P s L s' L'" "vma_wf s L"
  shows "mapping_at s' a = (if a \<in> X then None else mapping_at s a)"
proof (rule mapping_at_eqI)
  show "geom (cores (VMAs s'))" using deletesD(1) [OF assms(1)] by (simp add: vma_wf_def)
  show "maps (cores (VMAs s')) a v \<longleftrightarrow> (if a \<in> X then None else mapping_at s a) = Some v" for v
    using deletesD(2) [OF assms(1)] mapping_at_maps [of s a v] assms(2) by (simp add: vma_wf_def)
qed

section \<open>Adding a mapping\<close>

lemma takeWhile_last:
  assumes "sorted xs" "takeWhile (\<lambda>k. k < (B :: u64)) xs = as @ [p]" "b \<in> set xs" "b < B"
  shows "b \<le> p"
proof -
  have "b \<in> set (takeWhile (\<lambda>k. k < B) xs)"
    using assms(1,3,4) by (induction xs) auto
  moreover have "sorted (takeWhile (\<lambda>k. k < B) xs)" using assms(1) by (rule sorted_takeWhile)
  ultimately show ?thesis unfolding assms(2) by (auto simp: sorted_append)
qed

lemma FindPlace_seg:
  assumes "seg (VMAs s) q ks None" "\<And>k e. vma s k = Some e \<Longrightarrow> Base e = k"
  shows "FindPlace B p (hd_or ks None) s =
    Some (last_or (takeWhile (\<lambda>k. k < B) ks) p, hd_or (dropWhile (\<lambda>k. k < B) ks) None)"
  using assms(1)
proof (induction ks arbitrary: p q)
  case Nil
  then show ?case by (simp add: FindPlace.simps)
next
  case (Cons k ks)
  then obtain e where e: "vma s k = Some e" "ResourceNextVMA e = hd_or ks None" "seg (VMAs s) (Some k) ks None" by auto
  show ?case
    using e assms(2) [OF e(1)] Cons.IH [OF e(3)] by (subst FindPlace.simps) simp
qed

text \<open>The search through the list of the resource.\<close>

definition place :: "resource option \<Rightarrow> u64 \<Rightarrow> VMATracking \<Rightarrow> (u64 option \<times> u64 option) option" where
  "place Res B s = do {
     PrevResVMA \<leftarrow> (case Res of None \<Rightarrow> Some None | Some r \<Rightarrow> do { R \<leftarrow> resource_of s r; Some (FirstVMA R) });
     (PrevResVMA, NextResVMA) \<leftarrow>
       (case PrevResVMA of
          None \<Rightarrow> Some (None, None)
        | Some p \<Rightarrow> do {
            e \<leftarrow> vma s p;
            Some (if Base e > B then (None, Some p) else (Some p, ResourceNextVMA e)) });
     FindPlace B PrevResVMA NextResVMA s }"

lemma TrackVMARange_alt:
  "TrackVMARange Res B Off Len F P s = do {
     s \<leftarrow> DeleteVMARange B Len Res s;
     (PrevResVMA, NextResVMA) \<leftarrow> place Res B s;
     let s = emplace B \<lparr>Resource = Res, ResourcePrevVMA = PrevResVMA, ResourceNextVMA = NextResVMA,
       Base = B, Offset = Off, Length = Len, Flags = F, Prot = P\<rparr> s;
     (case (Res, PrevResVMA) of
        (None, _) \<Rightarrow> Some s
      | (Some r, None) \<Rightarrow> ListPrepend r B s
      | (Some r, Some p) \<Rightarrow> ListInsertAfter p B s) }"
  unfolding TrackVMARange_def place_def by (simp add: split_def)

lemma place_None: "place None B s = Some (None, None)"
  by (simp add: place_def FindPlace.simps)

lemma place_Some:
  assumes "vma_wf s L" "resource_of s r \<noteq> None" "vma s B = None"
  shows "place (Some r) B s = Some (last_or (takeWhile (\<lambda>k. k < B) (L r)) None, hd_or (dropWhile (\<lambda>k. k < B) (L r)) None)"
proof -
  have l: "links s L" and g: "geom (cores (VMAs s))" using assms(1) by (simp_all add: vma_wf_def)
  have b: "\<And>k e. vma s k = Some e \<Longrightarrow> Base e = k" using geom_vma(1) [OF g] .
  obtain R where R: "resource_of s r = Some R" "FirstVMA R = hd_or (L r) None"
    using l assms(2) by (auto simp: links_def)
  have sg: "seg (VMAs s) None (L r) None" using l by (simp add: links_def)
  show ?thesis
  proof (cases "L r")
    case Nil
    then show ?thesis using R by (simp add: place_def FindPlace.simps)
  next
    case (Cons k ks)
    then obtain e where e: "vma s k = Some e" "ResourceNextVMA e = hd_or ks None" "seg (VMAs s) (Some k) ks None"
      using sg by auto
    have "k \<noteq> B" using e assms(3) by auto
    then consider "B < k" | "k < B" by fastforce
    then show ?thesis
    proof cases
      case 1
      then have "\<not> k < B" by simp
      with 1 show ?thesis using R e b [OF e(1)] Cons by (simp add: place_def FindPlace.simps)
    next
      case 2
      then have "\<not> B < k" by simp
      with 2 show ?thesis using R e b [OF e(1)] Cons FindPlace_seg [OF e(3) b, of B "Some k"]
        by (simp add: place_def del: not_less)
    qed
  qed
qed

text \<open>The new mapping and the lists.\<close>

lemma insert_mapping:
  assumes "vma_wf s L" "\<forall>r. Res = Some r \<longrightarrow> resource_of s r \<noteq> None" "B < B + Len"
    "\<forall>a v. maps (cores (VMAs s)) a v \<longrightarrow> \<not> (B \<le> a \<and> a < B + Len)"
  shows "\<exists>s' L'. do {
     (PrevResVMA, NextResVMA) \<leftarrow> place Res B s;
     let s = emplace B \<lparr>Resource = Res, ResourcePrevVMA = PrevResVMA, ResourceNextVMA = NextResVMA,
       Base = B, Offset = Off, Length = Len, Flags = F, Prot = P\<rparr> s;
     (case (Res, PrevResVMA) of
        (None, _) \<Rightarrow> Some s
      | (Some r, None) \<Rightarrow> ListPrepend r B s
      | (Some r, Some p) \<Rightarrow> ListInsertAfter p B s) } = Some s' \<and>
    vma_wf s' L' \<and> same_rest s s' \<and>
    (\<forall>a v. maps (cores (VMAs s')) a v \<longleftrightarrow>
      (if B \<le> a \<and> a < B + Len then v = (Res, Off + (a - B), F, P) else maps (cores (VMAs s)) a v)) \<and>
    (\<forall>r. L' r = [] \<longleftrightarrow> L r = [] \<and> Res \<noteq> Some r) \<and> (ordered L \<longrightarrow> ordered L') \<and>
    cores (VMAs s') B = Some \<lparr>Resource = Res, ResourcePrevVMA = None, ResourceNextVMA = None,
      Base = B, Offset = Off, Length = Len, Flags = F, Prot = P\<rparr>"
proof -
  have l: "links s L" and g: "geom (cores (VMAs s))" using assms(1) by (simp_all add: vma_wf_def)
  have out: "k + Length e \<le> B \<or> B + Len \<le> k" if "cores (VMAs s) k = Some e" for k e
  proof (rule ccontr)
    assume "\<not> ?thesis"
    then have c: "B < k + Length e" "k < B + Len" by auto
    have "k < k + Length e" "Base e = k" using geomD [OF g that] by auto
    then have "maps (cores (VMAs s)) (max k B) (content e (max k B))"
      using that c by (auto simp: maps_def max_def not_le intro!: exI [of _ k])
    from assms(4) [rule_format, OF this] c assms(3) show False by (auto simp: max_def split: if_splits)
  qed
  have n: "vma s B = None"
  proof (rule ccontr)
    assume "vma s B \<noteq> None"
    then obtain e where "vma s B = Some e" by auto
    then show False using out [OF cores_lookup, of B e] assms(3) geom_vma(2) [OF g, of B e] by auto
  qed
  let ?f = "\<lambda>p q. \<lparr>Resource = Res, ResourcePrevVMA = p, ResourceNextVMA = q,
    Base = B, Offset = Off, Length = Len, Flags = F, Prot = P\<rparr>"
  have cf: "core (?f p q) = ?f None None" for p q by (simp add: core_def)
  have G: "geom ((cores (VMAs s))(B \<mapsto> core (?f p q)))"
    "maps ((cores (VMAs s))(B \<mapsto> core (?f p q))) a v \<longleftrightarrow>
      (if B \<le> a \<and> a < B + Len then v = (Res, Off + (a - B), F, P) else maps (cores (VMAs s)) a v)" for p q a v
    using geom_insert [OF g, of "core (?f p q)" B] assms(3) out by (simp_all add: content_def)
  show ?thesis
  proof (cases Res)
    case None
    have "vma_wf (emplace B (?f None None) s) L"
      using links_emplace [OF l n, of "?f None None"] G(1) [of None None] None cores_emplace [OF n]
      by (simp add: vma_wf_def)
    then show ?thesis
      using None G(2) [of None None] cores_emplace [OF n, of "?f None None"] cf [of None None]
      by (auto simp: place_None intro!: exI [of _ L])
  next
    case (Some r)
    let ?as = "takeWhile (\<lambda>k. k < B) (L r)" and ?bs = "dropWhile (\<lambda>k. k < B) (L r)"
    let ?p = "last_or ?as None" and ?q = "hd_or ?bs None"
    have pl: "place Res B s = Some (?p, ?q)" unfolding Some by (rule place_Some [OF assms(1) _ n]) (use assms(2) Some in blast)
    obtain R where R: "resource_of s r = Some R" "FirstVMA R = hd_or (L r) None"
      using l assms(2) [rule_format, OF Some] by (auto simp: links_def)
    have res: "Resource (?f ?p ?q) = Some r" using Some by simp
    have finish: ?thesis if s': "(case ?p of None \<Rightarrow> ListPrepend r B (emplace B (?f ?p ?q) s)
        | Some p \<Rightarrow> ListInsertAfter p B (emplace B (?f ?p ?q) s)) = Some s'"
      "links s' (L(r := xs))" "cores (VMAs s') = (cores (VMAs s))(B \<mapsto> core (?f ?p ?q))" "same_rest s s'"
      "xs \<noteq> []" "sorted (L r) \<Longrightarrow> sorted xs" for s' xs
    proof -
      have "vma_wf s' (L(r := xs))" using s'(2,3) G(1) by (simp add: vma_wf_def)
      moreover have "ordered L \<longrightarrow> ordered (L(r := xs))" using s'(6) by (simp add: ordered_def)
      moreover have "(L(r := xs)) r' = [] \<longleftrightarrow> L r' = [] \<and> Res \<noteq> Some r'" for r' using s'(5) Some by simp
      ultimately show ?thesis
        using s'(4) s'(1) [unfolded Some] G(2) [of ?p ?q, unfolded Some] unfolding pl by (intro exI [of _ s'] exI [of _ "L(r := xs)"]) (simp add: Some s'(3) Let_def cf [unfolded Some], blast?)
    qed
    show ?thesis
    proof (cases ?as rule: rev_cases)
      case Nil
      then have L: "?bs = L r" by (metis append_Nil takeWhile_dropWhile_id)
      have sb: "sorted (L r) \<Longrightarrow> sorted (B # L r)"
      proof -
        assume s: "sorted (L r)"
        show "sorted (B # L r)"
        proof (cases "L r")
          case (Cons k ks)
          then have "B \<le> k" using Nil by (auto split: if_splits)
          then show ?thesis using s Cons by auto
        qed simp
      qed
      obtain s' where "ListPrepend r B (emplace B (?f ?p ?q) s) = Some s'"
        "links s' (L(r := B # L r))" "cores (VMAs s') = (cores (VMAs s))(B \<mapsto> core (?f ?p ?q))" "same_rest s s'"
        using ListPrepend_links [OF l n R(1) res] Nil R(2) L by auto
      then show ?thesis using sb Nil by (intro finish [of s' "B # L r"]) simp_all
    next
      case (snoc as p)
      have Lr: "L r = as @ p # ?bs" using snoc by (metis append.assoc append_Cons append_Nil takeWhile_dropWhile_id)
      have "p \<in> set (L r)" "p < B" using snoc set_takeWhileD [of p "\<lambda>k. k < B" "L r"] by auto
      then obtain e where e: "vma s p = Some e" "Resource e = Some r"
        using l by (auto simp: links_def resource_at_def split: Option.bind_splits)
      have nx: "ResourceNextVMA e = ?q"
      proof -
        have "seg (VMAs s) None (as @ p # ?bs) None" using l Lr by (metis links_def)
        then show ?thesis using e(1) by (simp add: seg_append)
      qed
      have "ResourcePrevVMA (?f ?p ?q) = Some p" "ResourceNextVMA (?f ?p ?q) = ResourceNextVMA e"
        using snoc nx by simp_all
      note ins = ListInsertAfter_links [OF l e n res this]
      obtain s' as' bs' where s': "ListInsertAfter p B (emplace B (?f ?p ?q) s) = Some s'" "L r = as' @ p # bs'"
        "links s' (L(r := as' @ p # B # bs'))" "cores (VMAs s') = (cores (VMAs s))(B \<mapsto> core (?f ?p ?q))" "same_rest s s'"
        using ins by blast
      have "sorted (as' @ p # B # bs')" if so: "sorted (L r)"
      proof -
        have "B \<le> b" if b: "b \<in> set bs'" for b
        proof (rule ccontr)
          assume "\<not> B \<le> b"
          then have "b \<le> p" using takeWhile_last [OF so snoc, of b] b s'(2) by simp
          moreover have "p \<le> b" "b \<noteq> p" using so b l s'(2) by (auto simp: sorted_append links_def dest: spec [of _ r])
          ultimately show False by simp
        qed
        then show ?thesis using so \<open>p < B\<close> unfolding s'(2) by (auto simp: sorted_append intro: less_imp_le order.trans)
      qed
      then show ?thesis using s' snoc by (intro finish [of s' "as' @ p # B # bs'"]) simp_all
    qed
  qed
qed

end
