(* ===== verification/VMAProtect.thy ===== *)
theory VMAProtect
  imports VMARanges
begin

text \<open>
  The change of the protection of a range (\<open>ChangeProtectionFlags\<close>) and the removal of a shared memory
  segment (\<open>DeleteSHMRegion\<close>), as changes of what each address is mapped to.
\<close>

section \<open>Rewriting the view of the addresses\<close>

text \<open>The addresses stay mapped and what is mapped there changes by \<open>g\<close>; no resource comes or goes.\<close>

definition rewritten :: "(u64 \<Rightarrow> view \<Rightarrow> view) \<Rightarrow> VMATracking \<Rightarrow> (resource \<Rightarrow> u64 list) \<Rightarrow>
    VMATracking \<Rightarrow> (resource \<Rightarrow> u64 list) \<Rightarrow> bool" where
  "rewritten g s L s' L' \<longleftrightarrow> vma_wf s' L' \<and> same_rest s s' \<and> (\<forall>r. L' r = [] \<longleftrightarrow> L r = []) \<and>
     (\<forall>a v'. maps (cores (VMAs s')) a v' \<longleftrightarrow> (\<exists>v. maps (cores (VMAs s)) a v \<and> v' = g a v))"

definition reprot :: "VMAProt \<Rightarrow> view \<Rightarrow> view" where
  "reprot N v = (case v of (r, off, f, _) \<Rightarrow> (r, off, f, N))"

definition shift_offset :: "u64 \<Rightarrow> view \<Rightarrow> view" where
  "shift_offset d v = (case v of (r, off, f, p) \<Rightarrow> (r, off - d, f, p))"

lemma shift_offset_0 [simp]: "shift_offset 0 v = v"
  by (simp add: shift_offset_def split: prod.split)

lemma rewrittenD:
  assumes "rewritten g s L s' L'"
  shows "vma_wf s' L'" "maps (cores (VMAs s')) a v' \<longleftrightarrow> (\<exists>v. maps (cores (VMAs s)) a v \<and> v' = g a v)"
  using assms unfolding rewritten_def by blast+

lemma rewritten_refl: "vma_wf s L \<Longrightarrow> (\<And>a v. maps (cores (VMAs s)) a v \<Longrightarrow> g a v = v) \<Longrightarrow> rewritten g s L s L"
  unfolding rewritten_def by (metis same_rest_refl)

lemma rewritten_trans:
  assumes "rewritten g s L s1 L1" "rewritten h s1 L1 s2 L2"
    "\<And>a v. maps (cores (VMAs s)) a v \<Longrightarrow> h a (g a v) = f a v"
  shows "rewritten f s L s2 L2"
proof -
  have "maps (cores (VMAs s2)) a v' \<longleftrightarrow> (\<exists>v. maps (cores (VMAs s)) a v \<and> v' = f a v)" for a v'
    unfolding rewrittenD(2) [OF assms(2)] rewrittenD(2) [OF assms(1)] using assms(3) by metis
  then show ?thesis using assms(1,2) same_rest_trans unfolding rewritten_def by blast
qed

lemma rewritten_pieces:
  assumes "vma_wf s L" "vma s k = Some e" "links s' L'" "cores (VMAs s') = (cores (VMAs s))(k := None) ++ Q"
    "geom Q" "\<And>p f. Q p = Some f \<Longrightarrow> k \<le> p \<and> p + Length f \<le> k + Length e"
    "\<And>a v. k \<le> a \<Longrightarrow> a < k + Length e \<Longrightarrow> maps Q a v \<longleftrightarrow> v = g a (content e a)"
    "\<And>a v. maps (cores (VMAs s)) a v \<Longrightarrow> \<not> (k \<le> a \<and> a < k + Length e) \<Longrightarrow> g a v = v"
    "same_rest s s'" "\<And>r. L' r = [] \<longleftrightarrow> L r = []"
  shows "rewritten g s L s' L'"
proof -
  let ?c = "cores (VMAs s)"
  have g: "geom ?c" "?c k = Some (core e)" using assms(1,2) by (simp_all add: vma_wf_def cores_lookup)
  have Q: "k \<le> p \<and> p + Length f \<le> k + Length (core e)" if "Q p = Some f" for p f using assms(6) [OF that] by simp
  note r = geom_replace [OF g assms(5) Q]
  have e: "maps ?c a v \<longleftrightarrow> v = content e a" if "k \<le> a" "a < k + Length e" for a v
    using maps_unique [OF g(1), of a v "content e a"] that assms(2) by (auto simp: maps_vma)
  have "maps (cores (VMAs s')) a v' \<longleftrightarrow> (\<exists>v. maps ?c a v \<and> v' = g a v)" for a v'
  proof (cases "k \<le> a \<and> a < k + Length e")
    case True
    then show ?thesis unfolding assms(4) using r(2) [of a v'] assms(7) [of a v'] e [of a] by simp
  next
    case False
    then have "maps (cores (VMAs s')) a v' \<longleftrightarrow> maps ?c a v'" unfolding assms(4) using r(2) [of a v'] by auto
    then show ?thesis using assms(8) [OF _ False] by metis
  qed
  then show ?thesis using assms(3,9,10) r(1) by (simp add: rewritten_def vma_wf_def assms(4))
qed

section \<open>Changing the protection\<close>

lemma update_vma_Some: "vma s k = Some e \<Longrightarrow> update_vma k f s = Some (s\<lparr>VMAs := fmupd k (f e) (VMAs s)\<rparr>)"
  by (simp add: update_vma_def)

lemma core_upd:
  "core (e\<lparr>Prot := P, Length := l\<rparr>) = (core e)\<lparr>Prot := P, Length := l\<rparr>"
  "core (e\<lparr>Length := l\<rparr>) = (core e)\<lparr>Length := l\<rparr>" "core (e\<lparr>Prot := P\<rparr>) = (core e)\<lparr>Prot := P\<rparr>"
  by (simp_all add: core_def)

lemma InsertPart_links:
  assumes "links s L" "vma s k = Some e" "vma s n = None"
  shows "\<exists>s' L'. InsertPart k n Off Len P s = Some s' \<and> links s' L' \<and> same_rest s s' \<and> (\<forall>r. L' r = [] \<longleftrightarrow> L r = []) \<and>
    cores (VMAs s') = (cores (VMAs s))(n \<mapsto>
      \<lparr>Resource = Resource e, ResourcePrevVMA = None, ResourceNextVMA = None,
       Base = n, Offset = Off, Length = Len, Flags = Flags e, Prot = P\<rparr>)"
proof -
  let ?f = "\<lparr>Resource = Resource e, ResourcePrevVMA = Some k, ResourceNextVMA = ResourceNextVMA e,
    Base = n, Offset = Off, Length = Len, Flags = Flags e, Prot = P\<rparr>"
  have i: "InsertPart k n Off Len P s =
      (if Resource e = None then Some (emplace n ?f s) else ListInsertAfter k n (emplace n ?f s))"
    using assms(2,3) by (simp add: InsertPart_def emplace_new_def fmdom_notI)
  have c: "core ?f = \<lparr>Resource = Resource e, ResourcePrevVMA = None, ResourceNextVMA = None,
       Base = n, Offset = Off, Length = Len, Flags = Flags e, Prot = P\<rparr>" by (simp add: core_def)
  show ?thesis
  proof (cases "Resource e")
    case None
    then show ?thesis unfolding i c [symmetric]
      using links_emplace [OF assms(1,3), of ?f] cores_emplace [OF assms(3), of ?f] by (auto intro!: exI [of _ L])
  next
    case (Some r)
    have "Resource ?f = Some r" "ResourcePrevVMA ?f = Some k" "ResourceNextVMA ?f = ResourceNextVMA e"
      using Some by simp_all
    from ListInsertAfter_links [OF assms(1,2) Some assms(3) this] obtain s' as bs where
      s': "ListInsertAfter k n (emplace n ?f s) = Some s'" "L r = as @ k # bs" "links s' (L(r := as @ k # n # bs))"
      "cores (VMAs s') = (cores (VMAs s))(n \<mapsto> core ?f)" "same_rest s s'" by blast
    have "(L(r := as @ k # n # bs)) r' = [] \<longleftrightarrow> L r' = []" for r' using s'(2) by simp
    then show ?thesis unfolding i c [symmetric] using Some s' by (intro exI [of _ s'] exI [of _ "L(r := as @ k # n # bs)"]) simp
  qed
qed

text \<open>
  The offset the code gives to the tail of a mapping that starts inside the range: the offset of the
  start of that mapping, where the offset of the start of the tail is meant.
\<close>

definition tail_shift :: "VMATracking \<Rightarrow> u64 \<Rightarrow> u64 \<Rightarrow> u64 \<Rightarrow> u64" where
  "tail_shift s B Top a =
     (case FindVMAEntry s a of
        Some k \<Rightarrow> if B < k \<and> k < Top \<and> Top \<le> a then Top - k else 0
      | None \<Rightarrow> 0)"

text \<open>The addresses of that tail: they are mapped from inside the range on, but lie after it.\<close>

definition in_tail :: "VMATracking \<Rightarrow> u64 \<Rightarrow> u64 \<Rightarrow> u64 \<Rightarrow> bool" where
  "in_tail s B Top a \<longleftrightarrow>
     Top \<le> a \<and> (case FindVMAEntry s a of Some k \<Rightarrow> B < k \<and> k < Top | None \<Rightarrow> False)"

lemma tail_shift_outside: "\<not> in_tail s B Top a \<Longrightarrow> tail_shift s B Top a = 0"
  by (auto simp: in_tail_def tail_shift_def split: option.split)

lemma protect_step:
  assumes "vma_wf s L" "vma s k = Some e" "k < Top" "Top \<le> k + Length e"
  shows "\<exists>s1 s2 L'. (if k + Length e > Top
      then InsertPart k Top (Offset e - k + k) (k + Length e - Top) (Prot e) s else Some s) = Some s1 \<and>
    update_vma k (\<lambda>v. v\<lparr>Prot := N, Length := Top - k\<rparr>) s1 = Some s2 \<and>
    vma s2 k \<noteq> None \<and>
    rewritten (\<lambda>a v. if k \<le> a \<and> a < k + Length e then if a < Top then reprot N v else shift_offset (Top - k) v else v) s L s2 L'"
proof -
  have g: "geom (cores (VMAs s))" "links s L" using assms(1) by (simp_all add: vma_wf_def)
  have b: "Base e = k" "k < k + Length e" using geom_vma [OF g(1) assms(2)] by auto
  let ?g = "\<lambda>a v. if k \<le> a \<and> a < k + Length e then if a < Top then reprot N v else shift_offset (Top - k) v else v"
  let ?e = "\<lambda>e. e\<lparr>Prot := N, Length := Top - k\<rparr>"
  have ce: "content (?e e) a = reprot N (content e a)" for a by (simp add: content_def reprot_def)
  show ?thesis
  proof (cases "k + Length e > Top")
    case False
    then have T: "Top = k + Length e" using assms(4) by simp
    let ?s2 = "s\<lparr>VMAs := fmupd k (?e e) (VMAs s)\<rparr>"
    have "links ?s2 L" by (rule links_upd [OF g(2) assms(2)]) simp_all
    then have "rewritten ?g s L ?s2 L"
    proof (rule rewritten_pieces [OF assms(1,2), where Q = "[k \<mapsto> core (?e e)]"])
      show "maps [k \<mapsto> core (?e e)] a v \<longleftrightarrow> v = ?g a (content e a)" if "k \<le> a" "a < k + Length e" for a v
        using that T ce [of a] by (simp add: maps_upd)
    qed (use T b in \<open>auto simp: cores_upd geom_def split: if_splits\<close>)
    then show ?thesis using False update_vma_Some [OF assms(2)] by auto
  next
    case True
    have n: "vma s Top = None" using adjacent_in(2) [OF g(1) assms(2,3) True] .
    let ?t = "\<lparr>Resource = Resource e, ResourcePrevVMA = None, ResourceNextVMA = None,
       Base = Top, Offset = Offset e - k + k, Length = k + Length e - Top, Flags = Flags e, Prot = Prot e\<rparr>"
    obtain s1 L' where s1: "InsertPart k Top (Offset e - k + k) (k + Length e - Top) (Prot e) s = Some s1" "links s1 L'"
      "same_rest s s1" "\<And>r. L' r = [] \<longleftrightarrow> L r = []" "cores (VMAs s1) = (cores (VMAs s))(Top \<mapsto> ?t)"
      using InsertPart_links [OF g(2) assms(2) n] by blast
    have "cores (VMAs s1) k = Some (core e)" using s1(5) assms(2,3) by (simp add: cores_lookup)
    then obtain f where f: "vma s1 k = Some f" "core f = core e" by (auto simp: cores_Some)
    let ?s2 = "s1\<lparr>VMAs := fmupd k (?e f) (VMAs s1)\<rparr>"
    have l2: "links ?s2 L'" by (rule links_upd [OF s1(2) f(1)]) simp_all
    have cf: "core (?e f) = core (?e e)" unfolding core_upd f(2) ..
    have "content ?t a = shift_offset (Top - k) (content e a)" for a
      by (simp add: content_def shift_offset_def b algebra_simps)
    note c = ce this
    from l2 have "rewritten ?g s L ?s2 L'"
    proof (rule rewritten_pieces [OF assms(1,2), where Q = "[k \<mapsto> core (?e e), Top \<mapsto> ?t]"])
      show "cores (VMAs ?s2) = (cores (VMAs s))(k := None) ++ [k \<mapsto> core (?e e), Top \<mapsto> ?t]"
        using assms(3) by (simp add: cores_upd cf s1(5) fun_upd_twist)
      show "maps [k \<mapsto> core (?e e), Top \<mapsto> ?t] a v \<longleftrightarrow> v = ?g a (content e a)" if "k \<le> a" "a < k + Length e" for a v
        using that True assms(3) c by (auto simp: maps_upd)
    qed (use True b assms(3) s1(3,4) in \<open>auto simp: geom_def split: if_splits\<close>)
    then show ?thesis using True s1(1) update_vma_Some [OF f(1)] by auto
  qed
qed

text \<open>The loop: it ends at the mapping that holds the start of the range.\<close>

lemma ProtectLoop_rewritten:
  assumes "vma_wf s L" "B < Top" "\<And>a. B \<le> a \<Longrightarrow> a < Top \<Longrightarrow> \<exists>v. maps (cores (VMAs s)) a v"
  shows "\<exists>k Top' s' L' e. ProtectLoop B Top N Top s = Some (k, Top', s') \<and> B < Top' \<and> Top' \<le> Top \<and>
    vma s' k = Some e \<and> k \<le> B \<and> Top' \<le> k + Length e \<and>
    rewritten (\<lambda>a v. if Top' \<le> a \<and> a < Top then reprot N v else shift_offset (tail_shift s B Top a) v) s L s' L'"
  using assms
proof (induction "unat Top" arbitrary: Top s L rule: less_induct)
  case less
  have g: "geom (cores (VMAs s))" using less.prems(1) by (simp add: vma_wf_def)
  have T1: "B \<le> Top - 1" "Top - 1 < Top" "Top - 1 < x \<longleftrightarrow> Top \<le> x" for x
    using less.prems(2) by (simp_all add: word_le_nat_alt word_less_nat_alt unat_sub_if_size) (auto simp: word_less_nat_alt)
  obtain k e where e: "vma s k = Some e" "k \<le> Top - 1" "Top - 1 < k + Length e"
    using less.prems(3) [OF T1(1,2)] unfolding maps_vma by blast
  have b: "Base e = k" "k < k + Length e" using geom_vma [OF g e(1)] by auto
  have kT: "k < Top" using e(2) T1(2) by simp
  have top: "Top \<le> k + Length e" using e(3) T1(3) by simp
  have "k' \<le> k" if "vma s k' = Some e'" "k' < Top" for k' e'
    using geom_vma(3) [OF g e(1) that(1)] top that(2) by fastforce
  then have last: "last_key (\<lambda>k. k < Top) (VMAs s) = Some k"
    unfolding last_key_Some(1) using e(1) kT by (auto simp: vma_dom)
  have F: "FindVMAEntry s a = Some k' \<longleftrightarrow> (\<exists>e. vma s k' = Some e \<and> k' \<le> a \<and> a < k' + Length e)" for a k'
    by (rule FindVMAEntry_iff [OF g])
  have shift: "tail_shift s B Top a = (if B < k \<and> Top \<le> a \<and> a < k + Length e then Top - k else 0)" for a
  proof (cases "FindVMAEntry s a")
    case None
    then have "\<not> (k \<le> a \<and> a < k + Length e)" using F [of a k] e(1) by auto
    then show ?thesis using None kT by (auto simp: tail_shift_def)
  next
    case (Some k')
    then obtain e' where k': "vma s k' = Some e'" "k' \<le> a" "a < k' + Length e'" using F by blast
    show ?thesis
    proof (cases "k' < Top \<and> Top \<le> a")
      case True
      then have "k' = k" using geom_vma(3) [OF g e(1) k'(1)] geom_vma(3) [OF g k'(1) e(1)] top kT k'(2,3) by fastforce
      then show ?thesis using Some k' e(1) True by (auto simp: tail_shift_def)
    next
      case False
      have "\<not> (B < k \<and> Top \<le> a \<and> a < k + Length e)"
      proof
        assume *: "B < k \<and> Top \<le> a \<and> a < k + Length e"
        then have "k \<le> a" using kT by (meson less_imp_le order.trans)
        then have "FindVMAEntry s a = Some k" using F e(1) * by blast
        then show False using False Some * kT by simp
      qed
      then show ?thesis using Some False by (auto simp: tail_shift_def)
    qed
  qed
  show ?case
  proof (cases "k \<le> B")
    case True
    have "ProtectLoop B Top N Top s = Some (k, Top, s)"
      by (subst ProtectLoop.simps) (simp add: last e(1) b True)
    moreover have "rewritten (\<lambda>a v. if Top \<le> a \<and> a < Top then reprot N v else shift_offset (tail_shift s B Top a) v) s L s L"
      using True by (intro rewritten_refl less.prems(1)) (auto simp: shift)
    ultimately show ?thesis using e(1) True top less.prems(2) by blast
  next
    case False
    then have Bk: "B < k" by simp
    let ?g = "\<lambda>a v. if k \<le> a \<and> a < k + Length e then if a < Top then reprot N v else shift_offset (Top - k) v else v"
    obtain s1 s2 L2 where s: "(if k + Length e > Top
        then InsertPart k Top (Offset e - k + k) (k + Length e - Top) (Prot e) s else Some s) = Some s1"
      "update_vma k (\<lambda>v. v\<lparr>Prot := N, Length := Top - k\<rparr>) s1 = Some s2" "vma s2 k \<noteq> None"
      "rewritten ?g s L s2 L2"
      using protect_step [OF less.prems(1) e(1) kT top, of N] by blast
    have "\<not> (k \<le> B \<or> k + Length e < Top)" using False leD [OF top] by blast
    then have step: "ProtectLoop B Top N Top s = ProtectLoop B k N k s2"
      by (subst ProtectLoop.simps) (simp only: last option.case e(1) Option.bind.simps b s(1,2) Let_def if_False)
    have mapped: "\<exists>v. maps (cores (VMAs s2)) a v" if "B \<le> a" "a < k" for a
      using less.prems(3) [OF that(1)] that(2) kT rewrittenD(2) [OF s(4), of a] by (metis less_trans)
    have "unat k < unat Top" using kT by (simp add: word_less_nat_alt)
    from less.hyps [OF this rewrittenD(1) [OF s(4)] Bk mapped] obtain k' Top' s' L' e' where
      r: "ProtectLoop B k N k s2 = Some (k', Top', s')" "B < Top'" "Top' \<le> k" "vma s' k' = Some e'" "k' \<le> B"
      "Top' \<le> k' + Length e'"
      "rewritten (\<lambda>a v. if Top' \<le> a \<and> a < k then reprot N v else shift_offset (tail_shift s2 B k a) v) s2 L2 s' L'"
      by blast
    have g2: "geom (cores (VMAs s2))" using rewrittenD(1) [OF s(4)] by (simp add: vma_wf_def)
    have no: "tail_shift s2 B k a = 0" for a
    proof (cases "FindVMAEntry s2 a")
      case (Some x)
      obtain f where f: "vma s2 k = Some f" using s(3) by auto
      obtain e2 where "vma s2 x = Some e2" "x \<le> a" "a < x + Length e2" using Some FindVMAEntry_iff [OF g2] by blast
      then have "\<not> (x < k \<and> k \<le> a)" using geom_vma(3) [OF g2 _ f, of x e2] by fastforce
      then show ?thesis using Some by (auto simp: tail_shift_def)
    qed (simp add: tail_shift_def)
    have "rewritten (\<lambda>a v. if Top' \<le> a \<and> a < Top then reprot N v else shift_offset (tail_shift s B Top a) v) s L s' L'"
    proof (rule rewritten_trans [OF s(4) r(7)])
      show "(if Top' \<le> a \<and> a < k then reprot N (?g a v) else shift_offset (tail_shift s2 B k a) (?g a v)) =
          (if Top' \<le> a \<and> a < Top then reprot N v else shift_offset (tail_shift s B Top a) v)" for a v
        using r(3) kT top Bk unfolding no shift
        by (cases "a < k"; cases "a < Top"; cases "a < k + Length e") (auto simp: not_less)
    qed
    moreover have "Top' \<le> Top" using r(3) kT by simp
    ultimately show ?thesis using r(1,2,4-6) unfolding step by (intro exI [of _ k'] exI [of _ Top'] exI [of _ s'] exI [of _ L'] exI [of _ e'] conjI) simp_all
  qed
qed

lemma pieces_within:
  "maps [k \<mapsto> e1] a v \<longleftrightarrow> k \<le> a \<and> a < k + Length e1 \<and> v = content e1 a"
  "k \<noteq> n \<Longrightarrow> maps [k \<mapsto> e1, n \<mapsto> e2] a v \<longleftrightarrow>
     n \<le> a \<and> a < n + Length e2 \<and> v = content e2 a \<or> k \<le> a \<and> a < k + Length e1 \<and> v = content e1 a"
  "k \<noteq> n \<Longrightarrow> k \<noteq> m \<Longrightarrow> n \<noteq> m \<Longrightarrow> maps [k \<mapsto> e1, n \<mapsto> e2, m \<mapsto> e3] a v \<longleftrightarrow>
     m \<le> a \<and> a < m + Length e3 \<and> v = content e3 a \<or> n \<le> a \<and> a < n + Length e2 \<and> v = content e2 a \<or>
     k \<le> a \<and> a < k + Length e1 \<and> v = content e1 a"
  by (auto simp: maps_upd)

text \<open>A mapping is shortened, and its rest becomes a mapping of its own.\<close>

lemma shorten_and_insert:
  assumes "links s L" "vma s k = Some e" "vma s n = None"
    "Resource f = Resource e" "ResourcePrevVMA f = ResourcePrevVMA e" "ResourceNextVMA f = ResourceNextVMA e" "Flags f = Flags e"
  shows "\<exists>s' L' f'. InsertPart k n Off Len P (s\<lparr>VMAs := fmupd k f (VMAs s)\<rparr>) = Some s' \<and> links s' L' \<and> same_rest s s' \<and>
    (\<forall>r. L' r = [] \<longleftrightarrow> L r = []) \<and> vma s' k = Some f' \<and> core f' = core f \<and>
    cores (VMAs s') = (cores (VMAs s))(k \<mapsto> core f, n \<mapsto>
      \<lparr>Resource = Resource e, ResourcePrevVMA = None, ResourceNextVMA = None,
       Base = n, Offset = Off, Length = Len, Flags = Flags e, Prot = P\<rparr>)"
proof -
  let ?s = "s\<lparr>VMAs := fmupd k f (VMAs s)\<rparr>"
  have "k \<noteq> n" using assms(2,3) by auto
  have l: "links ?s L" by (rule links_upd [OF assms(1,2,4-6)])
  have v: "vma ?s k = Some f" "vma ?s n = None" using assms(3) \<open>k \<noteq> n\<close> by simp_all
  from InsertPart_links [OF l v] obtain s' L' where s': "InsertPart k n Off Len P ?s = Some s'" "links s' L'" "same_rest ?s s'"
    "\<forall>r. L' r = [] \<longleftrightarrow> L r = []" "cores (VMAs s') = (cores (VMAs ?s))(n \<mapsto>
      \<lparr>Resource = Resource f, ResourcePrevVMA = None, ResourceNextVMA = None,
       Base = n, Offset = Off, Length = Len, Flags = Flags f, Prot = P\<rparr>)" by blast
  have c: "cores (VMAs s') = (cores (VMAs s))(k \<mapsto> core f, n \<mapsto>
      \<lparr>Resource = Resource e, ResourcePrevVMA = None, ResourceNextVMA = None,
       Base = n, Offset = Off, Length = Len, Flags = Flags e, Prot = P\<rparr>)"
    using s'(5) assms(4,7) by (simp add: cores_upd)
  then have "cores (VMAs s') k = Some (core f)" using \<open>k \<noteq> n\<close> by simp
  then obtain f' where "vma s' k = Some f'" "core f' = core f" by (auto simp: cores_Some)
  moreover have "same_rest s s'" using same_rest_trans [OF _ s'(3), of s] by simp
  ultimately show ?thesis using s'(1,2,4) c by blast
qed

lemma ProtectLast_rewritten:
  assumes "vma_wf s L" "vma s k = Some e" "k \<le> B" "B < Top" "Top \<le> k + Length e"
  shows "\<exists>s' L'. ProtectLast B Top N k s = Some s' \<and>
    rewritten (\<lambda>a v. if B \<le> a \<and> a < Top then reprot N v else v) s L s' L'"
proof -
  have g: "geom (cores (VMAs s))" "links s L" using assms(1) by (simp_all add: vma_wf_def)
  have b: "Base e = k" "k < k + Length e" using geom_vma [OF g(1) assms(2)] by auto
  let ?g = "\<lambda>a v. if B \<le> a \<and> a < Top then reprot N v else v"
  have out: "?g a v = v" if "maps (cores (VMAs s)) a v" "\<not> (k \<le> a \<and> a < k + Length e)" for a v
    using that assms(3,5) by auto
  have unf: "ProtectLast B Top N k s = (
     if k = B \<and> k + Length e = Top then update_vma k (\<lambda>v. v\<lparr>Prot := N\<rparr>) s
     else if k = B \<and> k + Length e > Top then do {
       s \<leftarrow> update_vma k (\<lambda>v. v\<lparr>Prot := N, Length := Top - k\<rparr>) s;
       InsertPart k Top (Offset e - k + Top) (k + Length e - Top) (Prot e) s }
     else do {
       s \<leftarrow> update_vma k (\<lambda>v. v\<lparr>Length := B - k\<rparr>) s;
       s \<leftarrow> InsertPart k B (Offset e - k + B) (Top - B) N s;
       if k + Length e > Top then InsertPart k Top (Offset e - k + Top) (k + Length e - Top) (Prot e) s
       else Some s })"
  proof -
    have "\<not> k + Length e \<le> B" using assms(4,5) by auto
    moreover have "k \<noteq> B \<longleftrightarrow> k < B" "k + Length e = Top \<or> k + Length e > Top" using assms(3,5) by auto
    ultimately show ?thesis using assms(5)
      unfolding ProtectLast_def assms(2) Option.bind.simps Let_def b(1) by (simp only: if_False) presburger
  qed
  let ?t = "\<lambda>n p q l P. \<lparr>Resource = Resource e, ResourcePrevVMA = None, ResourceNextVMA = None,
       Base = n, Offset = Offset e - k + n, Length = l, Flags = Flags e, Prot = P\<rparr>"
  consider (exact) "k = B" "k + Length e = Top" | (head) "k = B" "k + Length e > Top" | (mid) "k < B"
    using assms(3,5) by fastforce
  then show ?thesis
  proof cases
    case exact
    let ?e = "e\<lparr>Prot := N\<rparr>"
    let ?s = "s\<lparr>VMAs := fmupd k ?e (VMAs s)\<rparr>"
    have "links ?s L" by (rule links_upd [OF g(2) assms(2)]) simp_all
    then have "rewritten ?g s L ?s L"
    proof (rule rewritten_pieces [OF assms(1,2), where Q = "[k \<mapsto> core ?e]"])
      show "maps [k \<mapsto> core ?e] a v \<longleftrightarrow> v = ?g a (content e a)" if "k \<le> a" "a < k + Length e" for a v
        using that exact by (simp add: pieces_within content_def reprot_def)
    qed (use exact b out in \<open>auto simp: cores_upd geom_def split: if_splits\<close>)
    then show ?thesis using exact update_vma_Some [OF assms(2)] unfolding unf by auto
  next
    case head
    let ?e = "e\<lparr>Prot := N, Length := Top - k\<rparr>"
    have kT: "k < Top" "vma s Top = None" using adjacent_in(2) [OF g(1) assms(2) _ head(2)] assms(4) head(1) by auto
    let ?f = "\<lparr>Resource = Resource e, ResourcePrevVMA = None, ResourceNextVMA = None,
       Base = Top, Offset = Offset e - k + Top, Length = k + Length e - Top, Flags = Flags e, Prot = Prot e\<rparr>"
    from shorten_and_insert [OF g(2) assms(2) kT(2), where f = ?e] obtain s' L' where
      s': "InsertPart k Top (Offset e - k + Top) (k + Length e - Top) (Prot e) (s\<lparr>VMAs := fmupd k ?e (VMAs s)\<rparr>) = Some s'"
      "links s' L'" "same_rest s s'" "\<And>r. L' r = [] \<longleftrightarrow> L r = []"
      "cores (VMAs s') = (cores (VMAs s))(k \<mapsto> core ?e, Top \<mapsto> ?f)" by auto blast
    from s'(2) have "rewritten ?g s L s' L'"
    proof (rule rewritten_pieces [OF assms(1,2), where Q = "[k \<mapsto> core ?e, Top \<mapsto> ?f]"])
      show "maps [k \<mapsto> core ?e, Top \<mapsto> ?f] a v \<longleftrightarrow> v = ?g a (content e a)" if "k \<le> a" "a < k + Length e" for a v
        using that head kT b(1) by (auto simp: pieces_within content_def reprot_def algebra_simps)
    qed (use head b kT out s' in \<open>auto simp: geom_def split: if_splits\<close>)
    then show ?thesis using head s'(1) update_vma_Some [OF assms(2)] unfolding unf by auto
  next
    case mid
    let ?e = "e\<lparr>Length := B - k\<rparr>"
    let ?f = "\<lparr>Resource = Resource e, ResourcePrevVMA = None, ResourceNextVMA = None,
       Base = B, Offset = Offset e - k + B, Length = Top - B, Flags = Flags e, Prot = N\<rparr>"
    let ?h = "\<lparr>Resource = Resource e, ResourcePrevVMA = None, ResourceNextVMA = None,
       Base = Top, Offset = Offset e - k + Top, Length = k + Length e - Top, Flags = Flags e, Prot = Prot e\<rparr>"
    have kB: "B < k + Length e" "k < Top" using assms(4,5) mid by auto
    have n: "vma s B = None" "k + Length e > Top \<Longrightarrow> vma s Top = None"
      using adjacent_in(2) [OF g(1) assms(2) mid kB(1)] adjacent_in(2) [OF g(1) assms(2) kB(2)] by auto
    from shorten_and_insert [OF g(2) assms(2) n(1), where f = ?e] obtain s1 L1 f1 where
      s1: "InsertPart k B (Offset e - k + B) (Top - B) N (s\<lparr>VMAs := fmupd k ?e (VMAs s)\<rparr>) = Some s1"
      "links s1 L1" "same_rest s s1" "\<And>r. L1 r = [] \<longleftrightarrow> L r = []" "vma s1 k = Some f1" "core f1 = core ?e"
      "cores (VMAs s1) = (cores (VMAs s))(k \<mapsto> core ?e, B \<mapsto> ?f)" by auto blast
    have unf1: "ProtectLast B Top N k s = (if k + Length e > Top
        then InsertPart k Top (Offset e - k + Top) (k + Length e - Top) (Prot e) s1 else Some s1)"
      using mid [THEN less_imp_neq] unfolding unf by (simp add: update_vma_Some [OF assms(2)] s1(1))
    show ?thesis
    proof (cases "k + Length e > Top")
      case False
      then have T: "Top = k + Length e" using assms(5) by auto
      from s1(2) have "rewritten ?g s L s1 L1"
      proof (rule rewritten_pieces [OF assms(1,2), where Q = "[k \<mapsto> core ?e, B \<mapsto> ?f]"])
        show "maps [k \<mapsto> core ?e, B \<mapsto> ?f] a v \<longleftrightarrow> v = ?g a (content e a)" if "k \<le> a" "a < k + Length e" for a v
          using that mid kB T b(1) by (auto simp: pieces_within content_def reprot_def algebra_simps)
      qed (use mid b kB T out s1(3,4,7) in \<open>auto simp: geom_def split: if_splits\<close>)
      then show ?thesis using False unf1 by auto
    next
      case True
      have f1: "Resource f1 = Resource e" "Flags f1 = Flags e" using s1(6) core_simps(3,7) [of f1] by simp_all
      have "cores (VMAs s1) Top = None" using n(2) [OF True] kB(2) assms(4) by (auto simp: s1(7) cores_def)
      then have nT: "vma s1 Top = None" by (simp add: cores_def)
      from InsertPart_links [OF s1(2,5) nT] obtain s2 L2 where
        s2: "InsertPart k Top (Offset e - k + Top) (k + Length e - Top) (Prot e) s1 = Some s2" "links s2 L2" "same_rest s1 s2"
        "\<And>r. L2 r = [] \<longleftrightarrow> L1 r = []" "cores (VMAs s2) = (cores (VMAs s1))(Top \<mapsto> ?h)" unfolding f1 by blast
      from s2(2) have "rewritten ?g s L s2 L2"
      proof (rule rewritten_pieces [OF assms(1,2), where Q = "[k \<mapsto> core ?e, B \<mapsto> ?f, Top \<mapsto> ?h]"])
        show "maps [k \<mapsto> core ?e, B \<mapsto> ?f, Top \<mapsto> ?h] a v \<longleftrightarrow> v = ?g a (content e a)" if "k \<le> a" "a < k + Length e" for a v
          using that mid kB True assms(4) b(1) by (auto simp: pieces_within content_def reprot_def algebra_simps)
        show "same_rest s s2" by (rule same_rest_trans [OF s1(3) s2(3)])
      qed (use mid b kB True assms(4) out s1(4,7) s2(4,5) in \<open>auto simp: geom_def split: if_splits\<close>)
      then show ?thesis using True unf1 s2(1) by auto
    qed
  qed
qed

text \<open>The whole change, where every address of the range is mapped.\<close>

lemma ChangeProtectionFlags_rewritten:
  assumes "vma_wf s L" "B < B + Len" "\<And>a. B \<le> a \<Longrightarrow> a < B + Len \<Longrightarrow> mapping_at s a \<noteq> None"
  shows "\<exists>s' L'. ChangeProtectionFlags B Len N s = Some s' \<and>
    rewritten (\<lambda>a v. if B \<le> a \<and> a < B + Len then reprot N v else shift_offset (tail_shift s B (B + Len) a) v) s L s' L'"
proof -
  let ?T = "B + Len"
  have g: "geom (cores (VMAs s))" using assms(1) by (simp add: vma_wf_def)
  have "\<exists>v. maps (cores (VMAs s)) a v" if "B \<le> a" "a < ?T" for a
    using assms(3) [OF that] mapping_at_maps [OF g] by blast
  from ProtectLoop_rewritten [OF assms(1,2) this, of N] obtain k Top' s1 L1 e where
    r: "ProtectLoop B ?T N ?T s = Some (k, Top', s1)" "B < Top'" "Top' \<le> ?T" "vma s1 k = Some e" "k \<le> B" "Top' \<le> k + Length e"
    "rewritten (\<lambda>a v. if Top' \<le> a \<and> a < ?T then reprot N v else shift_offset (tail_shift s B ?T a) v) s L s1 L1" by blast
  from ProtectLast_rewritten [OF rewrittenD(1) [OF r(7)] r(4,5,2,6), of N] obtain s' L' where
    l: "ProtectLast B Top' N k s1 = Some s'" "rewritten (\<lambda>a v. if B \<le> a \<and> a < Top' then reprot N v else v) s1 L1 s' L'" by blast
  have z: "tail_shift s B ?T a = 0" if "a < ?T" for a using that by (auto simp: tail_shift_def split: option.split)
  have "Len \<noteq> 0" using assms(2) by auto
  then have "ChangeProtectionFlags B Len N s = Some s'" by (simp add: ChangeProtectionFlags_def r(1) l(1))
  moreover have "rewritten (\<lambda>a v. if B \<le> a \<and> a < ?T then reprot N v else shift_offset (tail_shift s B ?T a) v) s L s' L'"
  proof (rule rewritten_trans [OF r(7) l(2)])
    show "(if B \<le> a \<and> a < Top' then reprot N (if Top' \<le> a \<and> a < ?T then reprot N v else shift_offset (tail_shift s B ?T a) v)
        else if Top' \<le> a \<and> a < ?T then reprot N v else shift_offset (tail_shift s B ?T a) v) =
      (if B \<le> a \<and> a < ?T then reprot N v else shift_offset (tail_shift s B ?T a) v)" for a v
      using r(2,3) z [of a] by (cases "a < Top'"; cases "a < ?T"; cases "B \<le> a") auto
  qed
  ultimately show ?thesis by blast
qed

lemma rewritten_mapping_at:
  assumes "rewritten g s L s' L'" "vma_wf s L"
  shows "mapping_at s' a = map_option (g a) (mapping_at s a)"
proof (rule mapping_at_eqI)
  show "geom (cores (VMAs s'))" using rewrittenD(1) [OF assms(1)] by (simp add: vma_wf_def)
  show "maps (cores (VMAs s')) a v \<longleftrightarrow> map_option (g a) (mapping_at s a) = Some v" for v
    unfolding rewrittenD(2) [OF assms(1)] using mapping_at_maps [of s a] assms(2) by (auto simp: vma_wf_def)
qed

section \<open>Removing a shared memory segment\<close>

definition ends_within :: "VMATracking \<Rightarrow> u64 \<Rightarrow> u64 \<Rightarrow> u64 \<Rightarrow> bool" where
  "ends_within s B ShmLength k \<longleftrightarrow> (case vma s k of None \<Rightarrow> False | Some e \<Rightarrow> k + Length e - B \<le> ShmLength)"

definition parts_of :: "VMATracking \<Rightarrow> resource \<Rightarrow> u64 set \<Rightarrow> u64 set" where
  "parts_of s r K = {a. \<exists>k e. k \<in> K \<and> vma s k = Some e \<and> Resource e = Some r \<and> k \<le> a \<and> a < k + Length e}"

lemma core_lookup:
  assumes "cores (VMAs s1) k = cores (VMAs s) k"
  shows "vma s1 k = None \<longleftrightarrow> vma s k = None"
    and "vma s1 k = Some e1 \<Longrightarrow> \<exists>e. vma s k = Some e \<and> core e = core e1"
  using assms by (cases "vma s k"; auto simp: cores_def)+

lemma core_eqD:
  assumes "core e1 = core e"
  shows "Resource e1 = Resource e" "Length e1 = Length e" "Base e1 = Base e" "Offset e1 = Offset e"
  using assms by (metis core_simps)+

lemma parts_of_other:
  assumes "\<And>x. x \<in> K \<Longrightarrow> cores (VMAs s1) x = cores (VMAs s) x"
  shows "parts_of s1 r K = parts_of s r K"
proof -
  have "(\<exists>e. vma s1 k = Some e \<and> Resource e = Some r \<and> k \<le> a \<and> a < k + Length e) \<longleftrightarrow>
      (\<exists>e. vma s k = Some e \<and> Resource e = Some r \<and> k \<le> a \<and> a < k + Length e)" if "k \<in> K" for k a
    using core_lookup [OF assms [OF that]] by (cases "vma s1 k"; cases "vma s k") (auto dest: core_eqD)
  then show ?thesis unfolding parts_of_def by blast
qed

lemma ends_within_other:
  assumes "cores (VMAs s1) k = cores (VMAs s) k"
  shows "ends_within s1 B n k \<longleftrightarrow> ends_within s B n k"
  using core_lookup [OF assms] unfolding ends_within_def by (cases "vma s1 k"; cases "vma s k") (auto dest: core_eqD)

lemma SHM_visit:
  assumes "vma_wf s L" "vma s k = Some e"
  shows "\<exists>s1 L1. (if Resource e = Some r then do {
            (Empty, s) \<leftarrow> ListRemove k s;
            s \<leftarrow> (if Empty then EraseResource r s else Some s);
            Some (erase k s) }
          else Some s) = Some s1 \<and>
    deletes (parts_of s r {k}) None s L s1 L1 \<and> (\<forall>x. x \<noteq> k \<longrightarrow> cores (VMAs s1) x = cores (VMAs s) x)"
proof (cases "Resource e = Some r")
  case True
  have X: "{a. k \<le> a \<and> a < k + Length e} = parts_of s r {k}" using assms(2) True by (auto simp: parts_of_def)
  from delete_whole [OF assms, of None] True obtain s1 L1 where
    s1: "do { (Empty, s) \<leftarrow> ListRemove k s; if Empty then EraseResource r s else Some s } = Some s1"
    "deletes (parts_of s r {k}) None s L (erase k s1) L1" "cores (VMAs s1) = cores (VMAs s)" unfolding X by auto
  have "do { (Empty, s) \<leftarrow> ListRemove k s; s \<leftarrow> (if Empty then EraseResource r s else Some s); Some (erase k s) } =
      do { s1 \<leftarrow> do { (Empty, s) \<leftarrow> ListRemove k s; if Empty then EraseResource r s else Some s }; Some (erase k s1) }"
    by (simp add: split_def)
  then show ?thesis using s1 True by auto
next
  case False
  then have "parts_of s r {k} = {}" using assms(2) by (auto simp: parts_of_def)
  then show ?thesis using False deletes_refl [OF assms(1)] by auto
qed

lemma SHMLoop_deletes:
  assumes "vma_wf s L" "distinct (k # ks)" "\<And>x. x \<in> set (k # ks) \<Longrightarrow> vma s x \<noteq> None"
  shows "\<exists>s' L'. SHMLoop B n r (k # ks) s = Some s' \<and>
    deletes (parts_of s r (insert k (set (takeWhile (ends_within s B n) ks)))) None s L s' L'"
  using assms
proof (induction ks arbitrary: k s L)
  case Nil
  then obtain e where "vma s k = Some e" by auto
  from SHM_visit [OF Nil.prems(1) this, of r] this show ?case by auto
next
  case (Cons k' ks)
  obtain e where e: "vma s k = Some e" using Cons.prems(3) [of k] by auto
  from SHM_visit [OF Cons.prems(1) this, of r] obtain s1 L1 where
    s1: "(if Resource e = Some r then do {
            (Empty, s) \<leftarrow> ListRemove k s;
            s \<leftarrow> (if Empty then EraseResource r s else Some s);
            Some (erase k s) }
          else Some s) = Some s1"
    "deletes (parts_of s r {k}) None s L s1 L1" "\<And>x. x \<noteq> k \<Longrightarrow> cores (VMAs s1) x = cores (VMAs s) x" by blast
  have other: "x \<noteq> k" if "x \<in> set (k' # ks)" for x using that Cons.prems(2) by auto
  have present: "vma s1 x \<noteq> None" if "x \<in> set (k' # ks)" for x
    using core_lookup(1) [OF s1(3) [OF other [OF that]]] Cons.prems(3) [of x] that by auto
  then obtain e' where e': "vma s1 k' = Some e'" by auto
  have wf1: "vma_wf s1 L1" using deletesD(1) [OF s1(2)] .
  then have "Base e' = k'" using geom_vma(1) [OF _ e'] by (simp add: vma_wf_def)
  then have ew: "Base e' + Length e' - B \<le> n \<longleftrightarrow> ends_within s B n k'"
    using ends_within_other [OF s1(3) [OF other [of k']], of B n] e' by (simp add: ends_within_def)
  have unf: "SHMLoop B n r (k # k' # ks) s = (if ends_within s B n k' then SHMLoop B n r (k' # ks) s1 else Some s1)"
    by (simp only: SHMLoop.simps e s1(1) e' ew list.case Option.bind.simps)
  show ?case
  proof (cases "ends_within s B n k'")
    case True
    let ?K = "insert k' (set (takeWhile (ends_within s1 B n) ks))"
    have tw: "takeWhile (ends_within s1 B n) ks = takeWhile (ends_within s B n) ks"
      using ends_within_other [OF s1(3) [OF other]] by (intro takeWhile_cong) auto
    have "distinct (k' # ks)" using Cons.prems(2) by simp
    from Cons.IH [OF wf1 this present] obtain s' L' where
      s': "SHMLoop B n r (k' # ks) s1 = Some s'" "deletes (parts_of s1 r ?K) None s1 L1 s' L'" by blast
    have "parts_of s1 r ?K = parts_of s r ?K"
      by (rule parts_of_other [OF s1(3) [OF other]]) (auto dest: set_takeWhileD)
    moreover have "parts_of s r {k} \<union> parts_of s r ?K = parts_of s r (insert k (set (takeWhile (ends_within s B n) (k' # ks))))"
      using True tw by (auto simp: parts_of_def)
    ultimately have "deletes (parts_of s r (insert k (set (takeWhile (ends_within s B n) (k' # ks))))) None s L s' L'"
      using deletes_trans [OF s1(2) s'(2)] by simp
    then show ?thesis using True unf s'(1) by auto
  next
    case False
    then show ?thesis using unf s1(2) by auto
  qed
qed

text \<open>The segment found at an address: its first mapping and the later ones that end within its length.\<close>

definition shm_first :: "u64 \<Rightarrow> VMATracking \<Rightarrow> u64 \<Rightarrow> bool" where
  "shm_first B s k \<longleftrightarrow> B \<le> k \<and> IsSHM B s k \<and> (\<forall>k' < k. B \<le> k' \<longrightarrow> \<not> IsSHM B s k')"

lemma sorted_keys:
  "sorted (sorted_list_of_fset X)" "distinct (sorted_list_of_fset X)" "set (sorted_list_of_fset X) = fset X"
  by (simp_all add: sorted_list_of_fset.rep_eq)

lemma takeWhile_ends_within:
  assumes "geom (cores (VMAs s))" "sorted ks" "distinct ks" "\<And>k. k \<in> set ks \<Longrightarrow> B \<le> k \<and> vma s k \<noteq> None"
  shows "set (takeWhile (ends_within s B n) ks) = {k \<in> set ks. ends_within s B n k}"
  using assms(2-4)
proof (induction ks)
  case (Cons k ks)
  show ?case
  proof (cases "ends_within s B n k")
    case True
    then show ?thesis using Cons by auto
  next
    case False
    have "\<not> ends_within s B n k'" if "k' \<in> set ks" for k'
    proof
      assume "ends_within s B n k'"
      then obtain e' where e': "vma s k' = Some e'" "k' + Length e' - B \<le> n" by (auto simp: ends_within_def split: option.splits)
      obtain e where e: "vma s k = Some e" using Cons.prems(3) [of k] by auto
      have "k < k'" using Cons.prems(1,2) that by (auto simp: le_less)
      then have le: "k + Length e \<le> k'" "k' < k' + Length e'" using geom_vma [OF assms(1)] e e' by auto
      have "B \<le> k" "k < k + Length e" using Cons.prems(3) [of k] geom_vma(2) [OF assms(1) e] by auto
      then have "k + Length e - B \<le> k' + Length e' - B"
        using le by (simp add: word_le_nat_alt word_less_nat_alt unat_sub_if_size)
      then show False using False e e'(2) by (simp add: ends_within_def)
    qed
    then show ?thesis using False by auto
  qed
qed simp

definition shm_region :: "u64 \<Rightarrow> VMATracking \<Rightarrow> u64 \<Rightarrow> resource \<Rightarrow> u64 \<Rightarrow> u64 set" where
  "shm_region B s k r n = parts_of s r {k'. k' = k \<or> k < k' \<and> ends_within s B n k'}"

lemma dropWhile_first:
  assumes "sorted xs" "distinct xs" "dropWhile (\<lambda>k. \<not> P k) xs = k # ks"
  shows "P k" "k \<in> set xs" "\<And>k'. k' \<in> set xs \<Longrightarrow> k' < k \<Longrightarrow> \<not> P k'" "set ks = {k' \<in> set xs. k < k'}" "sorted ks" "distinct ks"
proof -
  have xs: "takeWhile (\<lambda>k. \<not> P k) xs @ k # ks = xs" by (metis assms(3) takeWhile_dropWhile_id)
  show "P k" using hd_dropWhile [of "\<lambda>k. \<not> P k" xs] assms(3) by simp
  show "k \<in> set xs" by (subst xs [symmetric]) simp
  have s: "sorted (takeWhile (\<lambda>k. \<not> P k) xs @ k # ks)" "distinct (takeWhile (\<lambda>k. \<not> P k) xs @ k # ks)"
    using assms(1,2) by (simp_all only: xs)
  show "\<not> P k'" if "k' \<in> set xs" "k' < k" for k'
  proof -
    have "k' \<in> set (takeWhile (\<lambda>k. \<not> P k) xs @ k # ks)" using that(1) by (simp only: xs)
    then have "k' \<in> set (takeWhile (\<lambda>k. \<not> P k) xs)" using that(2) s(1) by (auto simp: sorted_append)
    then show ?thesis by (auto dest: set_takeWhileD)
  qed
  have "set xs = set (takeWhile (\<lambda>k. \<not> P k) xs @ k # ks)" by (simp only: xs)
  moreover have "a < k" if "a \<in> set (takeWhile (\<lambda>k. \<not> P k) xs)" for a
    using that s by (auto simp: sorted_append order.strict_iff_order)
  moreover have "k < a" if "a \<in> set ks" for a using that s by (auto simp: sorted_append order.strict_iff_order)
  ultimately show "set ks = {k' \<in> set xs. k < k'}" by (auto dest: less_asym)
  show "sorted ks" "distinct ks" using s by (simp_all add: sorted_append)
qed

lemma DeleteSHMRegion_deletes:
  assumes "vma_wf s L"
  shows "(\<nexists>k. shm_first B s k) \<Longrightarrow> DeleteSHMRegion B s = Some (0, s)"
    and "shm_first B s k \<Longrightarrow> vma s k = Some e \<Longrightarrow> Resource e = Some r \<Longrightarrow> resource_of s r = Some R \<Longrightarrow>
      \<exists>s' L'. DeleteSHMRegion B s = Some (ResourceLength R, s') \<and>
        deletes (shm_region B s k r (ResourceLength R)) None s L s' L'"
proof -
  let ?xs = "sorted_list_of_fset (ffilter (\<lambda>k. B \<le> k) (fmdom (VMAs s)))"
  have set: "x \<in> set ?xs \<longleftrightarrow> B \<le> x \<and> vma s x \<noteq> None" for x
    by (simp add: sorted_keys(3) fmlookup_dom_iff)
  have shm: "vma s x \<noteq> None" if "IsSHM B s x" for x using that by (auto simp: IsSHM_def split: option.splits)
  note so = sorted_keys(1,2) [of "ffilter (\<lambda>k. B \<le> k) (fmdom (VMAs s))"]
  show "DeleteSHMRegion B s = Some (0, s)" if no: "\<nexists>k. shm_first B s k"
  proof (cases "dropWhile (\<lambda>k. \<not> IsSHM B s k) ?xs")
    case Nil
    show ?thesis unfolding DeleteSHMRegion_def Let_def Nil by simp
  next
    case (Cons k ks)
    have "shm_first B s k"
      using dropWhile_first(1-3) [OF so Cons] set shm unfolding shm_first_def by blast
    then show ?thesis using no by blast
  qed
  show "\<exists>s' L'. DeleteSHMRegion B s = Some (ResourceLength R, s') \<and>
        deletes (shm_region B s k r (ResourceLength R)) None s L s' L'"
    if f: "shm_first B s k" and e: "vma s k = Some e" "Resource e = Some r" "resource_of s r = Some R"
  proof (cases "dropWhile (\<lambda>k. \<not> IsSHM B s k) ?xs")
    case Nil
    then have "\<not> IsSHM B s k" 
      using f set [of k] e(1) unfolding dropWhile_eq_Nil_conv shm_first_def by blast
    then show ?thesis using f by (simp add: shm_first_def)
  next
    case (Cons k0 ks)
    note d = dropWhile_first [OF so Cons]
    have "k0 = k"
    proof (rule ccontr)
      assume "k0 \<noteq> k"
      then consider "k0 < k" | "k < k0" by fastforce
      then show False
        using d(1-3) f set shm unfolding shm_first_def by cases blast+
    qed
    note Cons = Cons [unfolded this] and d = d [unfolded this]
    have g: "geom (cores (VMAs s))" using assms by (simp add: vma_wf_def)
    have ks: "B \<le> x \<and> vma s x \<noteq> None" if "x \<in> set ks" for x using that d(4) set by auto
    have "distinct (k # ks)" "\<And>x. x \<in> set (k # ks) \<Longrightarrow> vma s x \<noteq> None"
      using d(4,6) ks e(1) by (simp, metis ks option.distinct(1) set_ConsD)
    from SHMLoop_deletes [OF assms this, of B "ResourceLength R" r] obtain s' L' where
      s': "SHMLoop B (ResourceLength R) r (k # ks) s = Some s'"
      "deletes (parts_of s r (insert k (set (takeWhile (ends_within s B (ResourceLength R)) ks)))) None s L s' L'" by blast
    have tw: "set (takeWhile (ends_within s B (ResourceLength R)) ks) = {x \<in> set ks. ends_within s B (ResourceLength R) x}"
      by (rule takeWhile_ends_within [OF g d(5,6) ks])
    have Bk: "B \<le> k" using f by (simp add: shm_first_def)
    have "x \<in> set ks" if "k < x" "ends_within s B n x" for x n
    proof -
      have "vma s x \<noteq> None" using that(2) by (simp add: ends_within_def split: option.splits)
      moreover have "B \<le> x" using Bk that(1) by simp
      ultimately show ?thesis using that(1) d(4) set by blast
    qed
    then have "parts_of s r (insert k (set (takeWhile (ends_within s B (ResourceLength R)) ks))) =
        shm_region B s k r (ResourceLength R)"
      unfolding shm_region_def tw using d(4) by (intro arg_cong2 [where f = "parts_of s"] refl) blast
    moreover have "DeleteSHMRegion B s = Some (ResourceLength R, s')"
      unfolding DeleteSHMRegion_def Let_def Cons by (simp only: list.case e s'(1) Option.bind.simps)
    ultimately show ?thesis using s'(2) by auto
  qed
qed

end
