(* ===== verification/SMCTracking.thy ===== *)
theory SMCTracking
  imports VMATracking
begin

text \<open>
  The clients of the tracking of mappings in \<open>LinuxSyscalls/SyscallsSMCTracking.cpp\<close>: what each memory system
  call of the guest does to the tracking, the write protection of translated code, and the handler of the
  faults this protection causes.
\<close>

section \<open>System calls\<close>


abbreviation PageAlignUp :: "u64 \<Rightarrow> u64" where
  "PageAlignUp v \<equiv> AlignUp v FEX_PAGE_SIZE"

abbreviation PageAlignDown :: "u64 \<Rightarrow> u64" where
  "PageAlignDown v \<equiv> AlignDown v FEX_PAGE_SIZE"

abbreviation (input) MAP_PRIVATE :: u32 where "MAP_PRIVATE \<equiv> 2"
abbreviation (input) MAP_ANONYMOUS :: u32 where "MAP_ANONYMOUS \<equiv> 0x20"
abbreviation (input) MREMAP_DONTUNMAP :: u32 where "MREMAP_DONTUNMAP \<equiv> 4"

text \<open>Resources with the same key are kept in the order of their insertion: a new node is the largest.\<close>

definition fresh_resource :: "VMATracking \<Rightarrow> resource" where
  "fresh_resource s = (if fmdom (MappedResources s) = {||} then 0 else Suc (fMax (fmdom (MappedResources s))))"

definition InsertMappedResource :: "MRID \<Rightarrow> u64 \<Rightarrow> VMATracking \<Rightarrow> resource \<times> VMATracking" where
  "InsertMappedResource mrid len s =
     (let r = fresh_resource s
      in (r, s\<lparr>MappedResources := fmupd r
           \<lparr>Key = mrid, FirstVMA = None, ResourceLength = len, HasMappedCache = False\<rparr> (MappedResources s)\<rparr>))"

definition FindResources :: "MRID \<Rightarrow> VMATracking \<Rightarrow> resource option" where
  "FindResources mrid s =
     (let S = ffilter (\<lambda>r. map_option Key (resource_of s r) = Some mrid) (fmdom (MappedResources s))
      in if S = {||} then None else Some (fMin S))"

definition AddVirtualPage :: "u64 \<Rightarrow> u64 \<Rightarrow> u32 \<Rightarrow> VMATracking \<Rightarrow> VMATracking option" where
  "AddVirtualPage addr len prot s =
     TrackVMARange None addr 0 len (fromFlags (MAP_ANONYMOUS OR MAP_PRIVATE)) (fromProt prot) s"

definition TrackMunmap :: "u64 \<Rightarrow> u64 \<Rightarrow> VMATracking \<Rightarrow> VMATracking option" where
  "TrackMunmap addr len s = DeleteVMARange addr (PageAlignUp len) None s"

definition TrackMprotect :: "u64 \<Rightarrow> u64 \<Rightarrow> u32 \<Rightarrow> VMATracking \<Rightarrow> VMATracking option" where
  "TrackMprotect addr len prot s = ChangeProtectionFlags addr (PageAlignUp len) (fromProt prot) s"

definition TrackMremap :: "u64 \<Rightarrow> u64 \<Rightarrow> u64 \<Rightarrow> u32 \<Rightarrow> u64 \<Rightarrow> VMATracking \<Rightarrow> VMATracking option" where
  "TrackMremap OldAddress OldSize NewSize flags NewAddress s = do {
     let OldSize = PageAlignUp OldSize;
     let NewSize = PageAlignUp NewSize;
     k \<leftarrow> FindVMAEntry s OldAddress;
     OldVMA \<leftarrow> vma s k;
     let OldResource = Resource OldVMA;
     let OldOffset = Offset OldVMA + OldAddress - k;
     if OldSize = 0 then TrackVMARange OldResource NewAddress OldOffset NewSize (Flags OldVMA) (Prot OldVMA) s
     else do {
       s \<leftarrow> (if flags AND MREMAP_DONTUNMAP = 0 then DeleteVMARange OldAddress OldSize OldResource s else Some s);
       TrackVMARange OldResource NewAddress OldOffset NewSize (Flags OldVMA) (Prot OldVMA) s } }"

definition TrackShmat :: "u32 \<Rightarrow> u64 \<Rightarrow> u32 \<Rightarrow> u64 \<Rightarrow> VMATracking \<Rightarrow> VMATracking option" where
  "TrackShmat shmid shmaddr shmflg len s =
     (let mrid = \<lparr>dev = SpecialDev_SHM, id = sxt shmid\<rparr>;
          (r, s) = (case FindResources mrid s of
            None \<Rightarrow> InsertMappedResource mrid len s
          | Some r \<Rightarrow> (r, s))
      in TrackVMARange (Some r) shmaddr 0 len (fromFlags MAP_SHARED) (fromSHM shmflg) s)"

definition TrackShmdt :: "u64 \<Rightarrow> VMATracking \<Rightarrow> (u64 \<times> VMATracking) option" where
  "TrackShmdt shmaddr s = DeleteSHMRegion shmaddr s"

text \<open>
  The end of \<open>TrackMmap\<close> for a mapped file whose code may be cached: what \<open>LoadCodeCache\<close> returned, a code cache or
  none, becomes the one of the resource.
\<close>

definition SetMappedCache :: "resource \<Rightarrow> bool \<Rightarrow> VMATracking \<Rightarrow> VMATracking option" where
  "SetMappedCache r Loaded s = update_resource r (\<lambda>R. R\<lparr>HasMappedCache := Loaded\<rparr>) s"

section \<open>Self-modifying code\<close>

text \<open>A loop over the mappings of a resource, from its first one on; there is one.\<close>

partial_function (option) MirrorLoop :: "(VMAEntry \<Rightarrow> 'a list) \<Rightarrow> u64 option \<Rightarrow> VMATracking \<Rightarrow> 'a list option" where
  "MirrorLoop f VMA s = do {
     k \<leftarrow> VMA;
     e \<leftarrow> vma s k;
     (case ResourceNextVMA e of
        None \<Rightarrow> Some (f e)
      | Some n \<Rightarrow> do { xs \<leftarrow> MirrorLoop f (Some n) s; Some (f e @ xs) }) }"

text \<open>A write protection of host memory: its start and its length.\<close>

type_synonym protect_call = "u64 \<times> u64"

definition ProtectMirror :: "u64 \<Rightarrow> u64 \<Rightarrow> VMAEntry \<Rightarrow> protect_call list" where
  "ProtectMirror OffsetBase OffsetTop VMA =
     (let VMAOffsetBase = Offset VMA;
          VMAOffsetTop = Offset VMA + Length VMA;
          VMABase = Base VMA
      in if Writable (Prot VMA) \<and> VMAOffsetBase < OffsetTop \<and> VMAOffsetTop > OffsetBase
         then let MirroredBase = max VMAOffsetBase OffsetBase;
                  MirroredSize = min OffsetTop VMAOffsetTop - MirroredBase
              in [(MirroredBase - VMAOffsetBase + VMABase, MirroredSize)]
         else [])"

definition ProtectMapping :: "u64 \<Rightarrow> u64 \<Rightarrow> u64 \<Rightarrow> VMAEntry \<Rightarrow> VMATracking \<Rightarrow> protect_call list option" where
  "ProtectMapping B Top k Mapping s =
     (let MapTop = k + Length Mapping;
          ProtectBase = max k B;
          ProtectSize = min MapTop Top - ProtectBase
      in if Shared (Flags Mapping)
         then let OffsetBase = ProtectBase - k + Offset Mapping;
                  OffsetTop = OffsetBase + ProtectSize
              in do {
                r \<leftarrow> Resource Mapping;
                R \<leftarrow> resource_of s r;
                MirrorLoop (ProtectMirror OffsetBase OffsetTop) (FirstVMA R) s }
         else if Writable (Prot Mapping) then Some [(ProtectBase, ProtectSize)]
         else Some [])"

function MarkLoop :: "u64 \<Rightarrow> u64 \<Rightarrow> u64 \<Rightarrow> VMATracking \<Rightarrow> protect_call list option" where
  "MarkLoop B Top x s =
     (case last_key (\<lambda>k. k < x) (VMAs s) of
        None \<Rightarrow> Some []
      | Some k \<Rightarrow> do {
          Mapping \<leftarrow> vma s k;
          if k + Length Mapping \<le> B then Some []
          else do {
            calls \<leftarrow> ProtectMapping B Top k Mapping s;
            rest \<leftarrow> MarkLoop B Top k s;
            Some (calls @ rest) } })"
  by pat_completeness auto
termination
  by (relation "measure (\<lambda>(_, _, x, _). unat x)") (auto simp: last_key_Some word_less_nat_alt)

declare MarkLoop.simps [simp del]

text \<open>The protections the code asks of the host, in their order; only where \<open>mtrack\<close> is configured.\<close>

definition MarkGuestExecutableRange :: "bool \<Rightarrow> u64 \<Rightarrow> u64 \<Rightarrow> VMATracking \<Rightarrow> protect_call list option" where
  "MarkGuestExecutableRange MTrack Start len s =
     (let B = Start AND FEX_PAGE_MASK;
          Top = PageAlignUp (Start + len)
      in if \<not> MTrack then Some [] else MarkLoop B Top Top s)"

text \<open>
  The handler of a fault. The range of the shadow stack of calls comes first. A mirror of the page is
  invalidated, and made writable again if its mapping is writable.
\<close>

datatype segfault_action =
    ResetCallRetStack
  | NotGuestMapping
  | NotHandled
  | Invalidate "(u64 \<times> bool) list"

definition FlushMirror :: "u64 \<Rightarrow> VMAEntry \<Rightarrow> (u64 \<times> bool) list" where
  "FlushMirror Off VMA =
     (if Offset VMA \<le> Off \<and> Offset VMA + Length VMA > Off
      then [(Off - Offset VMA + Base VMA, Writable (Prot VMA))] else [])"

definition HandleSegfault :: "u64 \<Rightarrow> u64 \<Rightarrow> u64 \<Rightarrow> VMATracking \<Rightarrow> segfault_action option" where
  "HandleSegfault AllocationBase AllocationEnd FaultAddress s =
     (if FaultAddress \<ge> AllocationBase \<and> FaultAddress < AllocationEnd then Some ResetCallRetStack
      else case FindVMAEntry s FaultAddress of
        None \<Rightarrow> Some NotGuestMapping
      | Some k \<Rightarrow> do {
          Entry \<leftarrow> vma s k;
          if \<not> Writable (Prot Entry) then Some NotHandled
          else let FaultBase = PageAlignDown FaultAddress
               in if Shared (Flags Entry)
                  then let Off = FaultBase - k + Offset Entry
                       in do {
                         r \<leftarrow> Resource Entry;
                         R \<leftarrow> resource_of s r;
                         xs \<leftarrow> MirrorLoop (FlushMirror Off) (FirstVMA R) s;
                         Some (Invalidate xs) }
                  else Some (Invalidate [(FaultBase, True)]) })"

end
