(* ===== verification/VMASmc.thy ===== *)
theory VMASmc
  imports VMAProtect SMCTracking
begin

text \<open>
  The write protection of translated code and the handler of its faults reach every mapping of the same memory
  (\<open>MarkGuestExecutableRange\<close>, \<open>HandleSegfault\<close>).
\<close>

section \<open>Ranges of offsets\<close>

lemma unat_add_less: "(x :: u64) < x + y \<Longrightarrow> unat (x + y) = unat x + unat y"
  using unat_u64_less [of y] by (auto simp: unat_plus_if_size word_less_nat_alt word_size split: if_splits)

definition protects :: "protect_call list \<Rightarrow> u64 \<Rightarrow> bool" where
  "protects calls a \<longleftrightarrow> (\<exists>(b, n) \<in> set calls. b \<le> a \<and> a < b + n)"

lemma protects_simps [simp]:
  "\<not> protects [] a" "protects (xs @ ys) a \<longleftrightarrow> protects xs a \<or> protects ys a"
  by (auto simp: protects_def)

lemma protects_one: "protects [(b, n)] a \<longleftrightarrow> b \<le> a \<and> a < b + n"
  by (simp add: protects_def)

lemma protects_concat: "protects (concat xss) a \<longleftrightarrow> (\<exists>xs \<in> set xss. protects xs a)"
  by (auto simp: protects_def)

lemma mirror_arith:
  fixes o1 l k ob ot a :: u64
  assumes "k < k + l" "o1 < o1 + l" "ob < ot" "o1 < ot" "ob < o1 + l"
  defines "mb \<equiv> max o1 ob"
  shows "(mb - o1 + k \<le> a \<and> a < mb - o1 + k + (min ot (o1 + l) - mb)) \<longleftrightarrow>
    k \<le> a \<and> a < k + l \<and> ob \<le> o1 + (a - k) \<and> o1 + (a - k) < ot"
proof -
  have s: "unat (k + l) = unat k + unat l" "unat (o1 + l) = unat o1 + unat l"
    using assms(1,2) by (auto intro: unat_add_less)
  have lim: "unat k + unat l < 2 ^ 64" "unat o1 + unat l < 2 ^ 64"
    using unat_u64_less [of "k + l"] unat_u64_less [of "o1 + l"] s by simp_all
  define M T where "M = max (unat o1) (unat ob)" and "T = min (unat ot) (unat o1 + unat l)"
  have mb: "unat mb = M" by (simp add: mb_def max_def word_le_nat_alt M_def)
  have top: "unat (min ot (o1 + l)) = T" by (simp add: min_def word_le_nat_alt s(2) T_def)
  have MT: "M < T" "T \<le> unat o1 + unat l" "unat o1 \<le> M"
    using assms(2-5) s(2) by (auto simp: word_less_nat_alt M_def T_def)
  have d: "unat (mb - o1) = M - unat o1" using mb MT by (subst unat_sub) (auto simp: word_le_nat_alt)
  have "M - unat o1 + unat k < 2 ^ 64" "T - unat o1 + unat k < 2 ^ 64" using MT lim(1) by linarith+
  then have b: "unat (mb - o1 + k) = M - unat o1 + unat k"
    by (subst unat_plus_if_size) (simp add: word_size d)
  have n: "unat (min ot (o1 + l) - mb) = T - M"
    using MT(1) mb top by (subst unat_sub) (auto simp: word_le_nat_alt)
  have sum: "M - unat o1 + unat k + (T - M) = T - unat o1 + unat k" using MT by linarith
  have t: "unat (mb - o1 + k + (min ot (o1 + l) - mb)) = T - unat o1 + unat k"
    using \<open>T - unat o1 + unat k < 2 ^ 64\<close> by (subst unat_plus_if_size) (simp add: word_size b n sum)
  have "unat (o1 + (a - k)) = unat o1 + (unat a - unat k)" if "unat k \<le> unat a" "unat a < unat k + unat l"
  proof -
    have "unat (a - k) = unat a - unat k" using that(1) by (subst unat_sub) (simp_all add: word_le_nat_alt)
    then show ?thesis using that lim(2) by (subst unat_plus_if_size) (simp add: word_size)
  qed
  then show ?thesis
    unfolding word_le_nat_alt word_less_nat_alt b t s using MT
    by (cases "unat k \<le> unat a \<and> unat a < unat k + unat l") (auto simp: M_def T_def)
qed

lemma protect_mirror:
  assumes "Base e < Base e + Length e" "Offset e < Offset e + Length e" "ob < ot"
  shows "protects (ProtectMirror ob ot e) a \<longleftrightarrow> Writable (Prot e) \<and> Base e \<le> a \<and> a < Base e + Length e \<and>
    ob \<le> Offset e + (a - Base e) \<and> Offset e + (a - Base e) < ot"
proof (cases "Offset e < ot \<and> ob < Offset e + Length e")
  case True
  note m = mirror_arith [OF assms conjunct1 [OF True] conjunct2 [OF True], of a]
  show ?thesis
    unfolding ProtectMirror_def Let_def using True m by (cases "Writable (Prot e)") (simp_all only: protects_one if_True simp_thms protects_simps if_False)
next
  case False
  have s: "unat (Base e + Length e) = unat (Base e) + unat (Length e)"
    "unat (Offset e + Length e) = unat (Offset e) + unat (Length e)"
    using assms(1,2) by (auto intro: unat_add_less)
  have "\<not> (ob \<le> Offset e + (a - Base e) \<and> Offset e + (a - Base e) < ot)" if "Base e \<le> a" "a < Base e + Length e"
  proof -
    have "unat (a - Base e) = unat a - unat (Base e)" using that(1) by (rule unat_sub)
    then have "unat (Offset e + (a - Base e)) = unat (Offset e) + (unat a - unat (Base e))"
      using that s unat_u64_less [of "Offset e + Length e"]
      by (subst unat_plus_if_size) (auto simp: word_size word_less_nat_alt word_le_nat_alt)
    then show ?thesis using False that s by (auto simp: word_less_nat_alt word_le_nat_alt)
  qed
  then show ?thesis using False by (auto simp: ProtectMirror_def Let_def)
qed

lemma MirrorLoop_seg:
  assumes "seg (VMAs s) q ks None" "ks \<noteq> []"
  shows "MirrorLoop f (hd_or ks None) s = Some (concat (map (\<lambda>k. f (the (vma s k))) ks))"
  using assms
proof (induction ks arbitrary: q)
  case (Cons k ks)
  then obtain e where e: "vma s k = Some e" "ResourceNextVMA e = hd_or ks None" "seg (VMAs s) (Some k) ks None" by auto
  show ?case
  proof (cases ks)
    case Nil
    then show ?thesis using e by (simp add: MirrorLoop.simps)
  next
    case (Cons k' ks')
    then have "MirrorLoop f (Some k') s = Some (concat (map (\<lambda>k. f (the (vma s k))) ks))"
      using Cons.IH [OF e(3)] by simp
    then show ?thesis using e Cons by (subst MirrorLoop.simps) simp
  qed
qed simp

lemma MirrorLoop_list:
  assumes "links s L" "resource_of s r = Some R" "L r \<noteq> []"
  shows "MirrorLoop f (FirstVMA R) s = Some (concat (map (\<lambda>k. f (the (vma s k))) (L r)))"
proof -
  have "FirstVMA R = hd_or (L r) None" "seg (VMAs s) None (L r) None" using assms(1,2) by (auto simp: links_def)
  then show ?thesis using MirrorLoop_seg assms(3) by metis
qed

section \<open>The write protection of translated code\<close>

definition shared_backed :: "VMATracking \<Rightarrow> bool" where
  "shared_backed s \<longleftrightarrow> (\<forall>k e. vma s k = Some e \<longrightarrow> Shared (Flags e) \<longrightarrow> Resource e \<noteq> None)"

definition offsets_fit :: "VMATracking \<Rightarrow> bool" where
  "offsets_fit s \<longleftrightarrow> (\<forall>k e. vma s k = Some e \<longrightarrow> Resource e \<noteq> None \<longrightarrow> Offset e < Offset e + Length e)"

text \<open>
  Two addresses of the guest stand for the same memory. What tells the storage apart is the \<open>MRID\<close> of a resource, not
  the resource: a file that is mapped again at another base may get a second resource with the \<open>MRID\<close> of the first.
\<close>

definition same_storage :: "VMATracking \<Rightarrow> resource \<Rightarrow> resource \<Rightarrow> bool" where
  "same_storage s r r' \<longleftrightarrow> map_option Key (resource_of s r) = map_option Key (resource_of s r')"

definition same_memory :: "VMATracking \<Rightarrow> u64 \<Rightarrow> u64 \<Rightarrow> bool" where
  "same_memory s a a' \<longleftrightarrow> a' = a \<or>
     (\<exists>r r' off f p f' p'. mapping_at s a = Some (Some r, off, f, p) \<and> Shared f \<and>
        mapping_at s a' = Some (Some r', off, f', p') \<and> same_storage s r r')"

text \<open>Where no second resource with mappings has the storage of a shared address, the loops over one list find them all.\<close>

definition sole_storage :: "VMATracking \<Rightarrow> u64 \<Rightarrow> bool" where
  "sole_storage s a \<longleftrightarrow> (\<forall>r off f p r' a' v. mapping_at s a = Some (Some r, off, f, p) \<longrightarrow> Shared f \<longrightarrow>
     mapping_at s a' = Some (Some r', v) \<longrightarrow> same_storage s r r' \<longrightarrow> r' = r)"

definition same_resource :: "VMATracking \<Rightarrow> u64 \<Rightarrow> u64 \<Rightarrow> bool" where
  "same_resource s a a' \<longleftrightarrow> a' = a \<or>
     (\<exists>r off f p f' p'. mapping_at s a = Some (Some r, off, f, p) \<and> Shared f \<and> mapping_at s a' = Some (Some r, off, f', p'))"

lemma same_memory_resource: "sole_storage s a \<Longrightarrow> same_memory s a a' \<longleftrightarrow> same_resource s a a'"
  unfolding same_memory_def same_resource_def sole_storage_def same_storage_def by metis

text \<open>An address the guest may write to.\<close>

definition writable_at :: "VMATracking \<Rightarrow> u64 \<Rightarrow> bool" where
  "writable_at s a \<longleftrightarrow> (\<exists>r off f p. mapping_at s a = Some (r, off, f, p) \<and> Writable p)"

lemma mapping_at_entry:
  assumes "geom (cores (VMAs s))" "vma s k = Some e" "k \<le> a" "a < k + Length e"
  shows "mapping_at s a = Some (Resource e, Offset e + (a - k), Flags e, Prot e)"
proof -
  have "mapping_at s a = Some (content e a)"
    using mapping_at_maps [OF assms(1)] assms(2-4) by (auto simp: maps_vma)
  then show ?thesis using geom_vma(1) [OF assms(1,2)] by (simp add: content_def)
qed

lemma mapping_at_entryE:
  assumes "geom (cores (VMAs s))" "mapping_at s a = Some (r, off, f, p)"
  obtains k e where "vma s k = Some e" "k \<le> a" "a < k + Length e" "Resource e = r" "off = Offset e + (a - k)" "Flags e = f" "Prot e = p"
proof -
  obtain k e where "vma s k = Some e" "k \<le> a" "a < k + Length e" "(r, off, f, p) = content e a"
    using mapping_at_maps [OF assms(1)] assms(2) unfolding maps_vma by blast
  with that [of k e] geom_vma(1) [OF assms(1)] show thesis by (auto simp: content_def)
qed

lemma writable_at_entry:
  assumes "geom (cores (VMAs s))" "vma s k = Some e" "k \<le> a" "a < k + Length e"
  shows "writable_at s a \<longleftrightarrow> Writable (Prot e)"
  using mapping_at_entry [OF assms] by (simp add: writable_at_def)

text \<open>What one mapping contributes.\<close>

lemma offset_nat:
  assumes "(k :: u64) < k + l" "off < off + l" "k \<le> x" "x \<le> k + l"
  shows "unat (off + (x - k)) = unat off + (unat x - unat k)"
proof -
  have "unat (x - k) = unat x - unat k" using assms(3) by (rule unat_sub)
  moreover have "unat (k + l) = unat k + unat l" "unat (off + l) = unat off + unat l"
    using unat_add_less assms(1,2) by auto
  ultimately show ?thesis
    using assms(3,4) unat_u64_less [of "off + l"] by (subst unat_plus_if_size) (auto simp: word_size word_le_nat_alt)
qed

lemma offset_less:
  assumes "(k :: u64) < k + l" "off < off + l" "k \<le> x" "x \<le> k + l" "k \<le> y" "y \<le> k + l"
  shows "off + (x - k) < off + (y - k) \<longleftrightarrow> x < y" "off + (x - k) \<le> off + (y - k) \<longleftrightarrow> x \<le> y"
  using offset_nat [OF assms(1,2,3,4)] offset_nat [OF assms(1,2,5,6)] assms(3-6)
  unfolding word_less_nat_alt word_le_nat_alt by linarith+

lemma offset_between:
  assumes "(k :: u64) < k + l" "off < off + l" "k \<le> x" "x \<le> y" "y \<le> k + l"
  shows "off + (x - k) \<le> v \<and> v < off + (y - k) \<longleftrightarrow> (\<exists>a. x \<le> a \<and> a < y \<and> v = off + (a - k))"
proof
  assume v: "off + (x - k) \<le> v \<and> v < off + (y - k)"
  let ?a = "v - off + k"
  have xk: "x \<le> k + l" "k \<le> y" using assms by auto
  have n: "unat (off + (x - k)) = unat off + (unat x - unat k)" "unat (off + (y - k)) = unat off + (unat y - unat k)"
    using offset_nat [OF assms(1,2,3) xk(1)] offset_nat [OF assms(1,2) xk(2) assms(5)] by auto
  have "unat (v - off) = unat v - unat off" using v n(1) by (intro unat_sub) (simp add: word_le_nat_alt)
  moreover have "unat (k + l) = unat k + unat l" using assms(1) by (rule unat_add_less)
  ultimately have "unat ?a = unat v - unat off + unat k"
    using v n assms(5) unat_u64_less [of "k + l"] by (subst unat_plus_if_size) (auto simp: word_size word_le_nat_alt word_less_nat_alt)
  then have "x \<le> ?a \<and> ?a < y"
    using v n assms(3) xk by (auto simp: word_le_nat_alt word_less_nat_alt)
  then show "\<exists>a. x \<le> a \<and> a < y \<and> v = off + (a - k)" by (intro exI [of _ ?a]) simp
next
  assume "\<exists>a. x \<le> a \<and> a < y \<and> v = off + (a - k)"
  then obtain a where a: "x \<le> a" "a < y" "v = off + (a - k)" by auto
  have "x \<le> k + l" "k \<le> a" "a \<le> k + l" "k \<le> y" using assms a by auto
  then show "off + (x - k) \<le> v \<and> v < off + (y - k)"
    unfolding a(3) using offset_less(2) [OF assms(1,2,3), of a] offset_less(1) [OF assms(1,2), of a y] assms(5) a(1,2) by simp
qed

lemma protects_private:
  assumes "geom (cores (VMAs s))" "vma s k = Some e" "\<not> Shared (Flags e)" "x < y" "k \<le> x" "y \<le> k + Length e"
  shows "protects (if Writable (Prot e) then [(x, y - x)] else []) a' \<longleftrightarrow>
    writable_at s a' \<and> (\<exists>a. x \<le> a \<and> a < y \<and> same_resource s a a')"
proof -
  have in_k: "k \<le> a \<and> a < k + Length e" if "x \<le> a" "a < y" for a using that assms(4-6) by auto
  have same: "same_resource s a a' \<longleftrightarrow> a' = a" if "x \<le> a" "a < y" for a
    using mapping_at_entry [OF assms(1,2), of a] in_k [OF that] assms(3) by (simp add: same_resource_def)
  have "(\<exists>a. x \<le> a \<and> a < y \<and> same_resource s a a') \<longleftrightarrow> x \<le> a' \<and> a' < y" using same by blast
  moreover have "writable_at s a' \<longleftrightarrow> Writable (Prot e)" if "x \<le> a'" "a' < y"
    using writable_at_entry [OF assms(1,2), of a'] in_k [OF that] by simp
  ultimately show ?thesis by (cases "x \<le> a' \<and> a' < y") (simp_all add: protects_one, blast?)
qed

lemma list_of_resource:
  assumes "links s L" "vma s k = Some e" "Resource e = Some r"
  shows "L r \<noteq> []" "\<exists>R. resource_of s r = Some R" "k' \<in> set (L r) \<longleftrightarrow> (\<exists>e'. vma s k' = Some e' \<and> Resource e' = Some r)"
proof -
  have set: "set (L r) = {k. resource_at (VMAs s) k = Some r}" using assms(1) by (simp add: links_def)
  then show "k' \<in> set (L r) \<longleftrightarrow> (\<exists>e'. vma s k' = Some e' \<and> Resource e' = Some r)"
    by (auto simp: resource_at_def split: Option.bind_splits)
  have "k \<in> set (L r)" using set assms(2,3) by (simp add: resource_at_def)
  then show ne: "L r \<noteq> []" by auto
  then show "\<exists>R. resource_of s r = Some R" using assms(1) unfolding links_def by blast
qed

lemma protects_shared:
  assumes "vma_wf s L" "offsets_fit s" "vma s k = Some e" "Resource e = Some r" "Shared (Flags e)"
    "x < y" "k \<le> x" "y \<le> k + Length e"
  shows "protects (concat (map (\<lambda>k'. ProtectMirror (Offset e + (x - k)) (Offset e + (y - k)) (the (vma s k'))) (L r))) a' \<longleftrightarrow>
    writable_at s a' \<and> (\<exists>a. x \<le> a \<and> a < y \<and> same_resource s a a')"
proof -
  have g: "geom (cores (VMAs s))" and l: "links s L" using assms(1) by (simp_all add: vma_wf_def)
  let ?ob = "Offset e + (x - k)" and ?ot = "Offset e + (y - k)"
  have b: "k < k + Length e" "Offset e < Offset e + Length e"
    using geom_vma [OF g assms(3)] assms(2-4) by (auto simp: offsets_fit_def)
  have obt: "?ob < ?ot" using offset_less(1) [OF b assms(7), of y] assms(6-8) by simp
  have one: "protects (ProtectMirror ?ob ?ot e') a' \<longleftrightarrow>
      k' \<le> a' \<and> a' < k' + Length e' \<and> Writable (Prot e') \<and> ?ob \<le> Offset e' + (a' - k') \<and> Offset e' + (a' - k') < ?ot"
    if "vma s k' = Some e'" "Resource e' = Some r" for k' e'
    using protect_mirror [of e' ?ob ?ot a'] geom_vma [OF g that(1)] assms(2) that obt by (auto simp: offsets_fit_def)
  have in_k: "k \<le> a \<and> a < k + Length e" if "x \<le> a" "a < y" for a using that assms(6-8) by auto
  have same: "same_resource s a a' \<longleftrightarrow> (\<exists>f p. mapping_at s a' = Some (Some r, Offset e + (a - k), f, p))" if "x \<le> a" "a < y" for a
    using mapping_at_entry [OF g assms(3), of a] in_k [OF that] assms(4,5) by (auto simp: same_resource_def)
  have "protects (concat (map (\<lambda>k. ProtectMirror ?ob ?ot (the (vma s k))) (L r))) a' \<longleftrightarrow>
      (\<exists>k' e'. vma s k' = Some e' \<and> Resource e' = Some r \<and> protects (ProtectMirror ?ob ?ot e') a')"
    using list_of_resource(3) [OF l assms(3,4)] by (force simp: protects_concat)
  also have "\<dots> \<longleftrightarrow> (\<exists>off f p. mapping_at s a' = Some (Some r, off, f, p) \<and> Writable p \<and> ?ob \<le> off \<and> off < ?ot)"
    (is "?l = ?r")
  proof
    assume ?l
    then obtain k' e' where e': "vma s k' = Some e'" "Resource e' = Some r" "protects (ProtectMirror ?ob ?ot e') a'" by blast
    then show ?r using one [OF e'(1,2)] mapping_at_entry [OF g e'(1), of a'] by auto
  next
    assume ?r
    then obtain off f p where m: "mapping_at s a' = Some (Some r, off, f, p)" "Writable p" "?ob \<le> off" "off < ?ot" by blast
    from mapping_at_entryE [OF g m(1)] obtain k' e' where "vma s k' = Some e'" "k' \<le> a'" "a' < k' + Length e'"
      "Resource e' = Some r" "off = Offset e' + (a' - k')" "Prot e' = p" .
    then show ?l using one m(2-4) by blast
  qed
  also have "\<dots> \<longleftrightarrow> writable_at s a' \<and> (\<exists>a. x \<le> a \<and> a < y \<and> same_resource s a a')"
    unfolding offset_between [OF b assms(7) less_imp_le [OF assms(6)] assms(8)] using same by (auto simp: writable_at_def)
  finally show ?thesis .
qed

lemma ProtectMapping_protects:
  assumes "vma_wf s L" "shared_backed s" "offsets_fit s" "vma s k = Some e" "k < Top" "B < k + Length e" "B < Top"
  shows "\<exists>calls. ProtectMapping B Top k e s = Some calls \<and>
    (\<forall>a'. protects calls a' \<longleftrightarrow> writable_at s a' \<and>
      (\<exists>a. B \<le> a \<and> a < Top \<and> k \<le> a \<and> a < k + Length e \<and> same_resource s a a'))"
proof -
  have g: "geom (cores (VMAs s))" and l: "links s L" using assms(1) by (simp_all add: vma_wf_def)
  let ?x = "max k B" and ?y = "min (k + Length e) Top"
  have range: "B \<le> a \<and> a < Top \<and> k \<le> a \<and> a < k + Length e \<and> Q \<longleftrightarrow> ?x \<le> a \<and> a < ?y \<and> Q" for a Q by auto
  have xy: "?x < ?y" "k \<le> ?x" "?y \<le> k + Length e" using assms(5-7) geom_vma(2) [OF g assms(4)] by auto
  show ?thesis
  proof (cases "Shared (Flags e)")
    case False
    then have "ProtectMapping B Top k e s = Some (if Writable (Prot e) then [(?x, ?y - ?x)] else [])"
      by (simp add: ProtectMapping_def Let_def)
    then show ?thesis unfolding range using protects_private [OF g assms(4) False xy] by blast
  next
    case True
    then obtain r where r: "Resource e = Some r" using assms(2,4) by (auto simp: shared_backed_def)
    obtain R where R: "resource_of s r = Some R" using list_of_resource(2) [OF l assms(4) r] by blast
    have "?x - k + Offset e = Offset e + (?x - k)" "Offset e + (?x - k) + (?y - ?x) = Offset e + (?y - k)" by simp_all
    note eq = this
    have "ProtectMapping B Top k e s =
        MirrorLoop (ProtectMirror (Offset e + (?x - k)) (Offset e + (?y - k))) (FirstVMA R) s"
      unfolding ProtectMapping_def Let_def by (simp only: True if_True r R Option.bind.simps eq)
    also have "\<dots> = Some (concat (map (\<lambda>k'. ProtectMirror (Offset e + (?x - k)) (Offset e + (?y - k)) (the (vma s k'))) (L r)))"
      by (rule MirrorLoop_list [OF l R list_of_resource(1) [OF l assms(4) r]])
    finally show ?thesis unfolding range using protects_shared [OF assms(1,3,4) r True xy] by blast
  qed
qed

lemma MarkLoop_protects:
  assumes "vma_wf s L" "shared_backed s" "offsets_fit s" "B < Top" "x \<le> Top"
  shows "\<exists>calls. MarkLoop B Top x s = Some calls \<and>
    (\<forall>a'. protects calls a' \<longleftrightarrow> writable_at s a' \<and>
      (\<exists>a k e. B \<le> a \<and> a < Top \<and> vma s k = Some e \<and> k < x \<and> k \<le> a \<and> a < k + Length e \<and> same_resource s a a'))"
  using assms(5)
proof (induction "unat x" arbitrary: x rule: less_induct)
  case less
  have g: "geom (cores (VMAs s))" using assms(1) by (simp add: vma_wf_def)
  show ?case
  proof (cases "last_key (\<lambda>k. k < x) (VMAs s)")
    case None
    then have "\<not> (vma s k = Some e \<and> k < x)" for k e
      unfolding last_key_Some(2) using vma_dom [of k s] by blast
    moreover have "MarkLoop B Top x s = Some []" using None by (subst MarkLoop.simps) simp
    ultimately show ?thesis by auto
  next
    case (Some k)
    then obtain e where e: "vma s k = Some e" "k < x" by (auto simp: last_key_Some vma_dom)
    have max: "k' = k \<or> k' < k" if "vma s k' = Some e'" "k' < x" for k' e'
    proof -
      have "k' \<in> fmdom' (VMAs s)" using that(1) vma_dom [of k' s] by blast
      then have "k' \<le> k" using Some that(2) unfolding last_key_Some(1) by blast
      then show ?thesis by auto
    qed
    show ?thesis
    proof (cases "k + Length e \<le> B")
      case True
      have "\<not> (B \<le> a \<and> vma s k' = Some e' \<and> k' < x \<and> k' \<le> a \<and> a < k' + Length e')" for a k' e'
      proof
        assume *: "B \<le> a \<and> vma s k' = Some e' \<and> k' < x \<and> k' \<le> a \<and> a < k' + Length e'"
        then show False using max [of k' e'] True e(1) geom_vma(2) [OF g e(1)] geom_vma(3) [OF g _ e(1), of k' e'] by fastforce
      qed
      moreover have "MarkLoop B Top x s = Some []" using Some e True by (subst MarkLoop.simps) simp
      ultimately show ?thesis by (metis protects_simps(1))
    next
      case False
      then have "B < k + Length e" "k < Top" using e(2) less.prems by auto
      from ProtectMapping_protects [OF assms(1-3) e(1) this(2,1) assms(4)] obtain calls where
        c: "ProtectMapping B Top k e s = Some calls" "\<And>a'. protects calls a' \<longleftrightarrow> writable_at s a' \<and>
          (\<exists>a. B \<le> a \<and> a < Top \<and> k \<le> a \<and> a < k + Length e \<and> same_resource s a a')" by blast
      have "unat k < unat x" "k \<le> Top" using e(2) \<open>k < Top\<close> by (simp_all add: word_less_nat_alt less_imp_le)
      from less.hyps [OF this] obtain rest where
        r: "MarkLoop B Top k s = Some rest" "\<And>a'. protects rest a' \<longleftrightarrow> writable_at s a' \<and>
          (\<exists>a k' e. B \<le> a \<and> a < Top \<and> vma s k' = Some e \<and> k' < k \<and> k' \<le> a \<and> a < k' + Length e \<and> same_resource s a a')" by blast
      have m: "MarkLoop B Top x s = Some (calls @ rest)" using Some e(1) False c(1) r(1) by (subst MarkLoop.simps) simp
      have "protects (calls @ rest) a' \<longleftrightarrow> writable_at s a' \<and>
          (\<exists>a k e. B \<le> a \<and> a < Top \<and> vma s k = Some e \<and> k < x \<and> k \<le> a \<and> a < k + Length e \<and> same_resource s a a')" for a'
        unfolding protects_simps c(2) r(2) using max e less_trans [of _ k x] by (metis option.inject)
      then show ?thesis using m by blast
    qed
  qed
qed

text \<open>
  All the memory of the range that the guest can write to, under whatever address of the same resource, is write
  protected, and nothing else is.
\<close>

lemma MarkGuestExecutableRange_protects:
  assumes "vma_wf s L" "shared_backed s" "offsets_fit s" "Start AND FEX_PAGE_MASK < PageAlignUp (Start + Len)"
  shows "\<exists>calls. MarkGuestExecutableRange True Start Len s = Some calls \<and>
    (\<forall>a'. protects calls a' \<longleftrightarrow> writable_at s a' \<and>
      (\<exists>a. Start AND FEX_PAGE_MASK \<le> a \<and> a < PageAlignUp (Start + Len) \<and> same_resource s a a'))"
proof -
  let ?B = "Start AND FEX_PAGE_MASK" and ?Top = "PageAlignUp (Start + Len)"
  have g: "geom (cores (VMAs s))" using assms(1) by (simp add: vma_wf_def)
  from MarkLoop_protects [OF assms order.refl] obtain calls where
    c: "MarkLoop ?B ?Top ?Top s = Some calls" "\<And>a'. protects calls a' \<longleftrightarrow> writable_at s a' \<and>
      (\<exists>a k e. ?B \<le> a \<and> a < ?Top \<and> vma s k = Some e \<and> k < ?Top \<and> k \<le> a \<and> a < k + Length e \<and> same_resource s a a')" by blast
  have "(\<exists>k e. vma s k = Some e \<and> k < ?Top \<and> k \<le> a \<and> a < k + Length e)"
    if "writable_at s a'" "a < ?Top" "same_resource s a a'" for a a'
  proof -
    have "mapping_at s a \<noteq> None" using that(1,3) by (auto simp: writable_at_def same_resource_def)
    then obtain r off f p where "mapping_at s a = Some (r, off, f, p)" by auto
    from mapping_at_entryE [OF g this] obtain k e where "vma s k = Some e" "k \<le> a" "a < k + Length e" .
    then show ?thesis using that(2) le_less_trans by blast
  qed
  then have "protects calls a' \<longleftrightarrow> writable_at s a' \<and> (\<exists>a. ?B \<le> a \<and> a < ?Top \<and> same_resource s a a')" for a'
    unfolding c(2) by blast
  then show ?thesis using c(1) by (simp add: MarkGuestExecutableRange_def Let_def)
qed

section \<open>The handler of faults\<close>

lemma FlushMirror_set:
  assumes "Base e < Base e + Length e" "Offset e < Offset e + Length e"
  shows "(a', w) \<in> set (FlushMirror Off e) \<longleftrightarrow>
    Base e \<le> a' \<and> a' < Base e + Length e \<and> Offset e + (a' - Base e) = Off \<and> w = Writable (Prot e)"
proof -
  have "Offset e \<le> Off \<and> Off < Offset e + Length e \<longleftrightarrow>
      (\<exists>a. Base e \<le> a \<and> a < Base e + Length e \<and> Off = Offset e + (a - Base e))"
    using offset_between [OF assms, of "Base e" "Base e + Length e" Off] less_imp_le [OF assms(1)] by simp
  then show ?thesis
    unfolding FlushMirror_def by (auto simp: algebra_simps)
qed

text \<open>
  A write to a page that the guest may write to: every address of the guest that stands for the start of the page
  is invalidated, with the right protection.
\<close>

lemma HandleSegfault_flushes:
  assumes "vma_wf s L" "shared_backed s" "offsets_fit s" "\<not> (AB \<le> A \<and> A < AE)"
    "mapping_at s A = Some (res, off, f, p)" "Writable p" "FindVMAEntry s (PageAlignDown A) = FindVMAEntry s A"
  shows "\<exists>xs. HandleSegfault AB AE A s = Some (Invalidate xs) \<and>
    (\<forall>a' w. (a', w) \<in> set xs \<longleftrightarrow> same_resource s (PageAlignDown A) a' \<and> w = writable_at s a' \<and> mapping_at s a' \<noteq> None)"
proof -
  have g: "geom (cores (VMAs s))" and l: "links s L" using assms(1) by (simp_all add: vma_wf_def)
  from mapping_at_entryE [OF g assms(5)] obtain k e where e: "vma s k = Some e" "k \<le> A" "A < k + Length e"
    "Flags e = f" "Prot e = p" .
  let ?A = "PageAlignDown A"
  have F: "FindVMAEntry s A = Some k" using FindVMAEntry_iff [OF g] e by blast
  then have A: "k \<le> ?A" "?A < k + Length e"
    using assms(7) FindVMAEntry_iff [OF g, of ?A k] e(1) by auto
  note m = mapping_at_entry [OF g e(1) A]
  show ?thesis
  proof (cases "Shared f")
    case False
    then have "same_resource s ?A a' \<longleftrightarrow> a' = ?A" for a' using m e(4) by (auto simp: same_resource_def)
    moreover have "HandleSegfault AB AE A s = Some (Invalidate [(?A, True)])"
      using assms(4,6) F e False by (auto simp: HandleSegfault_def Let_def)
    moreover have "writable_at s ?A" using m e(5) assms(6) by (auto simp: writable_at_def)
    ultimately show ?thesis using m by auto
  next
    case True
    then obtain r where r: "Resource e = Some r" using assms(2) e(1,4) by (auto simp: shared_backed_def)
    obtain R where R: "resource_of s r = Some R" using list_of_resource(2) [OF l e(1) r] by blast
    let ?Off = "?A - k + Offset e" and ?xs = "concat (map (\<lambda>k'. FlushMirror (?A - k + Offset e) (the (vma s k'))) (L r))"
    have h: "HandleSegfault AB AE A s = Some (Invalidate ?xs)"
      using assms(4,6) F e True r R MirrorLoop_list [OF l R list_of_resource(1) [OF l e(1) r], of "FlushMirror ?Off"]
      by (auto simp: HandleSegfault_def Let_def)
    have same: "same_resource s ?A a' \<longleftrightarrow> (\<exists>f' p'. mapping_at s a' = Some (Some r, ?Off, f', p'))" for a'
      using m e(4) True r by (auto simp: same_resource_def add.commute)
    have "(a', w) \<in> set ?xs \<longleftrightarrow> (\<exists>f' p'. mapping_at s a' = Some (Some r, ?Off, f', p') \<and> w = Writable p')" for a' w
    proof
      assume "(a', w) \<in> set ?xs"
      then obtain k' e' where e': "vma s k' = Some e'" "Resource e' = Some r" "(a', w) \<in> set (FlushMirror ?Off e')"
        using list_of_resource(3) [OF l e(1) r] by force
      have "Base e' = k'" "k' < k' + Length e'" "Offset e' < Offset e' + Length e'"
        using geom_vma [OF g e'(1)] assms(3) e'(1,2) by (auto simp: offsets_fit_def)
      then have "k' \<le> a'" "a' < k' + Length e'" "Offset e' + (a' - k') = ?Off" "w = Writable (Prot e')"
        using e'(3) FlushMirror_set [of e' a' w ?Off] by auto
      then show "\<exists>f' p'. mapping_at s a' = Some (Some r, ?Off, f', p') \<and> w = Writable p'"
        using mapping_at_entry [OF g e'(1)] e'(2) by auto
    next
      assume "\<exists>f' p'. mapping_at s a' = Some (Some r, ?Off, f', p') \<and> w = Writable p'"
      then obtain f' p' where a': "mapping_at s a' = Some (Some r, ?Off, f', p')" "w = Writable p'" by blast
      from mapping_at_entryE [OF g a'(1)] obtain k' e' where e': "vma s k' = Some e'" "k' \<le> a'" "a' < k' + Length e'"
        "Resource e' = Some r" "?Off = Offset e' + (a' - k')" "Prot e' = p'" .
      have "Base e' = k'" "k' < k' + Length e'" "Offset e' < Offset e' + Length e'"
        using geom_vma [OF g e'(1)] assms(3) e'(1,4) by (auto simp: offsets_fit_def)
      then have "(a', w) \<in> set (FlushMirror ?Off e')" using FlushMirror_set [of e' a' w ?Off] e' a'(2) by auto
      then show "(a', w) \<in> set ?xs" using list_of_resource(3) [OF l e(1) r] e'(1,4) by force
    qed
    then have "(a', w) \<in> set ?xs \<longleftrightarrow> same_resource s ?A a' \<and> w = writable_at s a' \<and> mapping_at s a' \<noteq> None" for a' w
      unfolding same writable_at_def by auto
    then show ?thesis using h by blast
  qed
qed

end
