(* ===== verification/VMAProperties.thy ===== *)
theory VMAProperties
  imports VMASmc
begin

text \<open>
  The tracking of mappings as its clients see it: a well-formed state stands for a partial map from addresses to
  what is mapped there, and every operation changes this map in the way of the system call it tracks.
\<close>

section \<open>The interface of the tracking\<close>

text \<open>
  What a client can rely on: a state of the tracking stands for a partial map from addresses to what is
  mapped there, and every operation changes this map in the way of the system call it tracks.
\<close>

definition well_formed :: "VMATracking \<Rightarrow> bool" where
  "well_formed s \<longleftrightarrow> (\<exists>L. vma_wf s L)"

definition in_span :: "u64 \<Rightarrow> u64 \<Rightarrow> u64 \<Rightarrow> bool" where
  "in_span B Len a \<longleftrightarrow> B \<le> a \<and> a < B + Len"

definition has_mappings :: "VMATracking \<Rightarrow> resource \<Rightarrow> bool" where
  "has_mappings s r \<longleftrightarrow> (\<exists>a v. mapping_at s a = Some v \<and> fst v = Some r)"

lemma well_formed_geom: "well_formed s \<Longrightarrow> geom (cores (VMAs s))"
  by (auto simp: well_formed_def vma_wf_def)

text \<open>A resource has a mapping exactly if its list is not empty.\<close>

lemma has_mappings_list:
  assumes "vma_wf s L"
  shows "has_mappings s r \<longleftrightarrow> L r \<noteq> []"
proof
  have l: "links s L" and g: "geom (cores (VMAs s))" using assms by (simp_all add: vma_wf_def)
  have set: "set (L r) = {k. resource_at (VMAs s) k = Some r}" using l by (simp add: links_def)
  show "L r \<noteq> []" if "has_mappings s r"
  proof -
    obtain a v where "maps (cores (VMAs s)) a v" "fst v = Some r"
      using \<open>has_mappings s r\<close> mapping_at_maps [OF g] unfolding has_mappings_def by blast
    then obtain k e where "vma s k = Some e" "Resource e = Some r" by (auto simp: maps_vma content_def)
    then have "k \<in> set (L r)" unfolding set by (simp add: resource_at_def)
    then show ?thesis by auto
  qed
  show "has_mappings s r" if "L r \<noteq> []"
  proof -
    have "hd (L r) \<in> set (L r)" using that by simp
    then obtain e where e: "vma s (hd (L r)) = Some e" "Resource e = Some r"
      unfolding set by (auto simp: resource_at_def split: Option.bind_splits)
    have "maps (cores (VMAs s)) (hd (L r)) (content e (hd (L r)))"
      using e geom_vma(2) [OF g e(1)] unfolding maps_vma by blast
    then show ?thesis using e(2) mapping_at_maps [OF g] unfolding has_mappings_def by (metis content_def fst_conv)
  qed
qed

lemma deletes_well_formed: "deletes X P s L s' L' \<Longrightarrow> well_formed s'"
  using deletesD(1) well_formed_def by blast

lemma deletes_resources:
  assumes "deletes X P s L s' L'" "vma_wf s L"
  shows "resource_cores s' r = (if has_mappings s r \<and> \<not> has_mappings s' r \<and> P \<noteq> Some r then None else resource_cores s r)"
  using assms has_mappings_list [OF assms(2)] has_mappings_list [OF deletesD(1) [OF assms(1)]]
  unfolding deletes_def by simp

lemma resource_cores_None: "resource_cores s r = None \<longleftrightarrow> resource_of s r = None"
  by (simp add: resource_cores_def)

lemma TrackVMARange_tracks:
  assumes "vma_wf s L" "B < B + Len" "\<forall>r. Res = Some r \<longrightarrow> resource_of s r \<noteq> None"
  shows "\<exists>s' L'. TrackVMARange Res B Off Len F P s = Some s' \<and> vma_wf s' L' \<and>
    (\<forall>a. mapping_at s' a = (if in_span B Len a then Some (Res, Off + (a - B), F, P) else mapping_at s a)) \<and>
    (\<forall>r. resource_cores s' r = (if has_mappings s r \<and> \<not> has_mappings s' r then None else resource_cores s r)) \<and>
    (ordered L \<longrightarrow> ordered L') \<and>
    cores (VMAs s') B = Some \<lparr>Resource = Res, ResourcePrevVMA = None, ResourceNextVMA = None,
      Base = B, Offset = Off, Length = Len, Flags = F, Prot = P\<rparr>"
proof -
  obtain s1 L1 where d: "DeleteVMARange B Len Res s = Some s1" "deletes {a. B \<le> a \<and> a < B + Len} Res s L s1 L1"
    using DeleteVMARange_deletes [OF assms(1) less_imp_le [OF assms(2)]] by blast
  have wf1: "vma_wf s1 L1" using deletesD(1) [OF d(2)] .
  have res: "\<forall>r. Res = Some r \<longrightarrow> resource_of s1 r \<noteq> None"
    using assms(3) deletes_resources [OF d(2) assms(1)] by (simp flip: resource_cores_None)
  have free: "\<forall>a v. maps (cores (VMAs s1)) a v \<longrightarrow> \<not> (B \<le> a \<and> a < B + Len)"
    unfolding deletesD(2) [OF d(2)] by simp
  obtain s' L' where s': "do {
     (PrevResVMA, NextResVMA) \<leftarrow> place Res B s1;
     let s = emplace B \<lparr>Resource = Res, ResourcePrevVMA = PrevResVMA, ResourceNextVMA = NextResVMA,
       Base = B, Offset = Off, Length = Len, Flags = F, Prot = P\<rparr> s1;
     (case (Res, PrevResVMA) of
        (None, _) \<Rightarrow> Some s
      | (Some r, None) \<Rightarrow> ListPrepend r B s
      | (Some r, Some p) \<Rightarrow> ListInsertAfter p B s) } = Some s'"
    "vma_wf s' L'" "same_rest s1 s'"
    "\<forall>a v. maps (cores (VMAs s')) a v \<longleftrightarrow>
      (if B \<le> a \<and> a < B + Len then v = (Res, Off + (a - B), F, P) else maps (cores (VMAs s1)) a v)"
    "\<forall>r. L' r = [] \<longleftrightarrow> L1 r = [] \<and> Res \<noteq> Some r" "ordered L1 \<longrightarrow> ordered L'"
    "cores (VMAs s') B = Some \<lparr>Resource = Res, ResourcePrevVMA = None, ResourceNextVMA = None,
      Base = B, Offset = Off, Length = Len, Flags = F, Prot = P\<rparr>"
    using insert_mapping [OF wf1 res assms(2) free, where Off = Off and F = F and P = P] by (elim exE conjE) (rule that; assumption)
  have "TrackVMARange Res B Off Len F P s = Some s'" by (simp only: TrackVMARange_alt d(1) Option.bind.simps s'(1))
  moreover have "mapping_at s' a = (if in_span B Len a then Some (Res, Off + (a - B), F, P) else mapping_at s a)" for a
  proof (rule mapping_at_eqI)
    show "geom (cores (VMAs s'))" using s'(2) by (simp add: vma_wf_def)
    show "maps (cores (VMAs s')) a v \<longleftrightarrow> (if in_span B Len a then Some (Res, Off + (a - B), F, P) else mapping_at s a) = Some v" for v
      using s'(4) [rule_format, of a v] deletesD(2) [OF d(2), of a v] mapping_at_maps [of s a v] assms(1)
      by (auto simp: in_span_def vma_wf_def)
  qed
  moreover have "resource_cores s' r = (if has_mappings s r \<and> \<not> has_mappings s' r then None else resource_cores s r)" for r
    using deletes_resources [OF d(2) assms(1), of r] s'(3) s'(5) [rule_format, of r]
      has_mappings_list [OF wf1, of r] has_mappings_list [OF s'(2), of r]
    by (cases "Res = Some r") (simp_all add: same_rest_def)
  moreover have "ordered L \<longrightarrow> ordered L'" using s'(6) d(2) by (simp add: deletes_def)
  ultimately show ?thesis using s'(2,7) by blast
qed

section \<open>States to try the operations on\<close>

definition empty_tracking :: VMATracking where
  "empty_tracking = \<lparr>VMAs = fmempty, MappedResources = fmempty, PendingResourceDeletions = []\<rparr>"

definition rw :: VMAProt where "rw = \<lparr>Readable = True, Writable = True, Executable = False\<rparr>"
definition rx :: VMAProt where "rx = \<lparr>Readable = True, Writable = False, Executable = True\<rparr>"
definition private_map :: VMAFlags where "private_map = \<lparr>Shared = False\<rparr>"
definition shared_map :: VMAFlags where "shared_map = \<lparr>Shared = True\<rparr>"

definition one_mapping :: VMATracking where
  "one_mapping = \<lparr>VMAs = fmupd 0x1000
      \<lparr>Resource = None, ResourcePrevVMA = None, ResourceNextVMA = None, Base = 0x1000, Offset = 0,
       Length = 0x3000, Flags = private_map, Prot = rw\<rparr> fmempty,
     MappedResources = fmempty, PendingResourceDeletions = []\<rparr>"

lemma well_formed_empty: "well_formed empty_tracking"
  unfolding well_formed_def
  by (rule exI [of _ "\<lambda>_. []"]) (simp add: empty_tracking_def vma_wf_def links_def resource_at_def geom_def cores_def)

lemma well_formed_one: "well_formed one_mapping"
  unfolding well_formed_def
  by (rule exI [of _ "\<lambda>_. []"])
    (auto simp: one_mapping_def vma_wf_def links_def resource_at_def geom_def cores_def core_def split: if_splits)

lemma one_mapping_at:
  "mapping_at one_mapping a = (if 0x1000 \<le> a \<and> a < 0x4000 then Some (None, a - 0x1000, private_map, rw) else None)"
proof (rule mapping_at_eqI [OF well_formed_geom [OF well_formed_one]])
  show "maps (cores (VMAs one_mapping)) a v \<longleftrightarrow>
      (if 0x1000 \<le> a \<and> a < 0x4000 then Some (None, a - 0x1000, private_map, rw) else None) = Some v" for v
    unfolding maps_vma by (auto simp: one_mapping_def content_def)
qed

section \<open>The operations\<close>

text \<open>
  C16: Tracking a new mapping succeeds and keeps the state well formed. Afterwards exactly the addresses of the range
  are mapped as asked, everything else is as before, and exactly the resources that lost their last mapping are gone.
\<close>
theorem TrackVMARange_maps:
  assumes "well_formed s" "B < B + Len" "\<forall>r. Res = Some r \<longrightarrow> resource_of s r \<noteq> None"
  shows "\<exists>s'. TrackVMARange Res B Off Len F P s = Some s' \<and> well_formed s' \<and>
    (\<forall>a. mapping_at s' a = (if in_span B Len a then Some (Res, Off + (a - B), F, P) else mapping_at s a)) \<and>
    (\<forall>r. resource_of s' r = None \<longleftrightarrow> resource_of s r = None \<or> has_mappings s r \<and> \<not> has_mappings s' r)"
proof -
  obtain L where "vma_wf s L" using assms(1) by (auto simp: well_formed_def)
  from TrackVMARange_tracks [OF this assms(2,3), where Off = Off and F = F and P = P] obtain s' L' where
    s': "TrackVMARange Res B Off Len F P s = Some s'" "vma_wf s' L'"
    "\<forall>a. mapping_at s' a = (if in_span B Len a then Some (Res, Off + (a - B), F, P) else mapping_at s a)"
    "\<forall>r. resource_cores s' r = (if has_mappings s r \<and> \<not> has_mappings s' r then None else resource_cores s r)" by blast
  have "resource_of s' r = None \<longleftrightarrow> resource_of s r = None \<or> has_mappings s r \<and> \<not> has_mappings s' r" for r
    using s'(4) [rule_format, of r] resource_cores_None by metis
  then show ?thesis using s'(1-3) unfolding well_formed_def by blast
qed

lemma TrackVMARange_maps_witness:
  "\<exists>s'. TrackVMARange None 0x8000 0 0x2000 private_map rx one_mapping = Some s' \<and>
     mapping_at s' 0x8004 = Some (None, 4, private_map, rx) \<and> mapping_at s' 0x1004 = Some (None, 4, private_map, rw)"
  using TrackVMARange_maps [OF well_formed_one, of "0x8000" "0x2000" None 0 private_map rx]
  by (auto simp: in_span_def one_mapping_at)

text \<open>
  C17: Deleting a range succeeds and keeps the state well formed. Exactly the addresses of the range are unmapped, and the
  resources that lost their last mapping are gone, except the one to be preserved.
\<close>
theorem DeleteVMARange_unmaps:
  assumes "well_formed s" "B \<le> B + Len"
  shows "\<exists>s'. DeleteVMARange B Len Preserved s = Some s' \<and> well_formed s' \<and>
    (\<forall>a. mapping_at s' a = (if in_span B Len a then None else mapping_at s a)) \<and>
    (\<forall>r. resource_of s' r = None \<longleftrightarrow>
      resource_of s r = None \<or> has_mappings s r \<and> \<not> has_mappings s' r \<and> Preserved \<noteq> Some r)"
proof -
  obtain L where L: "vma_wf s L" using assms(1) by (auto simp: well_formed_def)
  from DeleteVMARange_deletes [OF this assms(2)] obtain s' L' where
    s': "DeleteVMARange B Len Preserved s = Some s'" "deletes {a. B \<le> a \<and> a < B + Len} Preserved s L s' L'" by blast
  have "resource_of s' r = None \<longleftrightarrow>
      resource_of s r = None \<or> has_mappings s r \<and> \<not> has_mappings s' r \<and> Preserved \<noteq> Some r" for r
    using deletes_resources [OF s'(2) L, of r] resource_cores_None by metis
  then show ?thesis
    using s'(1) deletes_well_formed [OF s'(2)] deletes_mapping_at [OF s'(2) L] by (auto simp: in_span_def)
qed

lemma DeleteVMARange_unmaps_witness:
  "\<exists>s'. DeleteVMARange 0x2000 0x1000 None one_mapping = Some s' \<and> mapping_at s' 0x2004 = None \<and>
     mapping_at s' 0x1004 = Some (None, 4, private_map, rw) \<and> mapping_at s' 0x3004 = Some (None, 0x2004, private_map, rw)"
  using DeleteVMARange_unmaps [OF well_formed_one, of "0x2000" "0x1000" None]
  by (auto simp: in_span_def one_mapping_at)

text \<open>
  C18: Changing the protection of a range that is mapped throughout succeeds and keeps the state well formed. The addresses
  of the range get the new protection, the others keep theirs, every address stays mapped with the same resource and the
  same flags and keeps its offset into it. Of the offsets nothing is claimed on one tail, the part after the range of a
  mapping that starts inside it (\<open>in_tail\<close>): there the code gets them wrong (\<open>tail_offset_wrong\<close>).
\<close>
theorem ChangeProtectionFlags_protects:
  assumes "well_formed s" "B < B + Len" "\<forall>a. in_span B Len a \<longrightarrow> mapping_at s a \<noteq> None"
  shows "\<exists>s'. ChangeProtectionFlags B Len N s = Some s' \<and> well_formed s' \<and>
    (\<forall>a. case mapping_at s a of
        None \<Rightarrow> mapping_at s' a = None
      | Some (r, off, f, p) \<Rightarrow> (\<exists>off'. mapping_at s' a = Some (r, off', f, if in_span B Len a then N else p) \<and>
          (in_tail s B (B + Len) a \<or> off' = off))) \<and>
    (\<forall>r. resource_of s' r = None \<longleftrightarrow> resource_of s r = None)"
proof -
  obtain L where L: "vma_wf s L" using assms(1) by (auto simp: well_formed_def)
  let ?g = "\<lambda>a v. if B \<le> a \<and> a < B + Len then reprot N v else shift_offset (tail_shift s B (B + Len) a) v"
  obtain s' L' where s': "ChangeProtectionFlags B Len N s = Some s'" "rewritten ?g s L s' L'"
    using ChangeProtectionFlags_rewritten [OF L assms(2), of N] assms(3) unfolding in_span_def by blast
  have z: "tail_shift s B (B + Len) a = 0" if "a < B + Len" for a
    using that by (auto simp: tail_shift_def split: option.split)
  have "?g a v = (case v of (r, off, f, p) \<Rightarrow> (r, off - tail_shift s B (B + Len) a, f, if in_span B Len a then N else p))" for a v
    using z [of a] by (auto simp: in_span_def reprot_def shift_offset_def split: prod.split)
  then have "mapping_at s' a = map_option (\<lambda>(r, off, f, p).
      (r, off - tail_shift s B (B + Len) a, f, if in_span B Len a then N else p)) (mapping_at s a)" for a
    unfolding rewritten_mapping_at [OF s'(2) L] by (intro map_option_cong refl) simp
  then have "case mapping_at s a of
        None \<Rightarrow> mapping_at s' a = None
      | Some (r, off, f, p) \<Rightarrow> (\<exists>off'. mapping_at s' a = Some (r, off', f, if in_span B Len a then N else p) \<and>
          (in_tail s B (B + Len) a \<or> off' = off))" for a
    using tail_shift_outside [of s B "B + Len" a] by (auto split: option.split)
  moreover have "resource_of s' r = None \<longleftrightarrow> resource_of s r = None" for r
    using s'(2) resource_cores_None [of s r] resource_cores_None [of s' r] by (simp add: rewritten_def same_rest_def)
  ultimately show ?thesis using s'(1) rewrittenD(1) [OF s'(2)] unfolding well_formed_def by blast
qed

lemma ChangeProtectionFlags_protects_witness:
  "\<exists>s'. ChangeProtectionFlags 0x2000 0x1000 rx one_mapping = Some s' \<and>
     mapping_at s' 0x1004 = Some (None, 4, private_map, rw) \<and> mapping_at s' 0x2004 = Some (None, 0x1004, private_map, rx) \<and>
     mapping_at s' 0x3004 = Some (None, 0x2004, private_map, rw)"
proof -
  have F: "FindVMAEntry one_mapping a = Some 0x1000" if "0x1000 \<le> a" "a < 0x4000" for a
    unfolding FindVMAEntry_iff [OF well_formed_geom [OF well_formed_one]] using that by (simp add: one_mapping_def)
  have tail: "\<not> in_tail one_mapping 0x2000 0x3000 a" if "0x1000 \<le> a" "a < 0x4000" for a
    using F [OF that] by (simp add: in_tail_def)
  have "well_formed one_mapping" "(0x2000 :: u64) < 0x2000 + 0x1000" using well_formed_one by simp_all
  moreover have "\<forall>a. in_span 0x2000 0x1000 a \<longrightarrow> mapping_at one_mapping a \<noteq> None"
    by (auto simp: in_span_def one_mapping_at word_le_nat_alt word_less_nat_alt)
  ultimately obtain s' where s': "ChangeProtectionFlags 0x2000 0x1000 rx one_mapping = Some s'"
    "case mapping_at one_mapping a of
        None \<Rightarrow> mapping_at s' a = None
      | Some (r, off, f, p) \<Rightarrow> (\<exists>off'. mapping_at s' a = Some (r, off', f, if in_span 0x2000 0x1000 a then rx else p) \<and>
          (in_tail one_mapping 0x2000 (0x2000 + 0x1000) a \<or> off' = off))" for a
    using ChangeProtectionFlags_protects [OF well_formed_one _ _, of "0x2000" "0x1000" rx] by auto
  show ?thesis
    using s'(1) s'(2) [of "0x1004"] s'(2) [of "0x2004"] s'(2) [of "0x3004"] tail [of "0x1004"] tail [of "0x2004"] tail [of "0x3004"]
    by (simp add: in_span_def one_mapping_at)
qed

section \<open>Resources\<close>

lemma fresh_resource: "resource_of s (fresh_resource s) = None"
proof (rule ccontr)
  assume "resource_of s (fresh_resource s) \<noteq> None"
  then have d: "fresh_resource s |\<in>| fmdom (MappedResources s)" by (auto simp: fmlookup_dom_iff)
  then have "fmdom (MappedResources s) \<noteq> {||}" by auto
  then have "fresh_resource s = Suc (fMax (fmdom (MappedResources s)))" by (simp add: fresh_resource_def)
  moreover have "fresh_resource s \<le> fMax (fmdom (MappedResources s))" using d by (rule fMax_ge)
  ultimately show False by simp
qed

lemma InsertMappedResource_wf:
  assumes "vma_wf s L" "InsertMappedResource mrid len s = (r, s')"
  shows "vma_wf s' L" "mapping_at s' = mapping_at s" "resource_of s r = None" "VMAs s' = VMAs s"
    "resource_of s' = (resource_of s)(r \<mapsto> \<lparr>Key = mrid, FirstVMA = None, ResourceLength = len, HasMappedCache = False\<rparr>)"
proof -
  have r: "r = fresh_resource s" "s' = s\<lparr>MappedResources := fmupd r
      \<lparr>Key = mrid, FirstVMA = None, ResourceLength = len, HasMappedCache = False\<rparr> (MappedResources s)\<rparr>"
    using assms(2) by (auto simp: InsertMappedResource_def Let_def)
  show n: "resource_of s r = None" using fresh_resource r(1) by simp
  then have "L r = []" using assms(1) by (auto simp: vma_wf_def links_def)
  then show "vma_wf s' L" using assms(1) unfolding r(2) by (auto simp: vma_wf_def links_def)
  show "mapping_at s' = mapping_at s" by (simp add: r(2) mapping_at_def FindVMAEntry_def fun_eq_iff)
  show "VMAs s' = VMAs s" "resource_of s' = (resource_of s)(r \<mapsto> \<lparr>Key = mrid, FirstVMA = None, ResourceLength = len, HasMappedCache = False\<rparr>)"
    by (simp_all add: r(2) fun_eq_iff)
qed

lemma FindResources_Some: "FindResources mrid s = Some r \<Longrightarrow> \<exists>R. resource_of s r = Some R \<and> Key R = mrid"
proof -
  let ?S = "ffilter (\<lambda>r. map_option Key (resource_of s r) = Some mrid) (fmdom (MappedResources s))"
  assume "FindResources mrid s = Some r"
  then have "?S \<noteq> {||}" "r = fMin ?S" by (auto simp: FindResources_def Let_def split: if_splits)
  then have "r |\<in>| ?S" using fMin_in [of ?S] by simp
  then show ?thesis by auto
qed

section \<open>The invariant of all states\<close>

lemma shared_backed_view:
  assumes "geom (cores (VMAs s))"
  shows "shared_backed s \<longleftrightarrow> (\<forall>a r off f p. mapping_at s a = Some (r, off, f, p) \<longrightarrow> Shared f \<longrightarrow> r \<noteq> None)"
proof
  assume "shared_backed s"
  then show "\<forall>a r off f p. mapping_at s a = Some (r, off, f, p) \<longrightarrow> Shared f \<longrightarrow> r \<noteq> None"
    unfolding shared_backed_def by (metis mapping_at_entryE [OF assms])
next
  assume *: "\<forall>a r off f p. mapping_at s a = Some (r, off, f, p) \<longrightarrow> Shared f \<longrightarrow> r \<noteq> None"
  show "shared_backed s"
    unfolding shared_backed_def
  proof (intro allI impI)
    fix k e assume "vma s k = Some e" "Shared (Flags e)"
    then show "Resource e \<noteq> None"
      using mapping_at_entry [OF assms, of k e k] geom_vma(2) [OF assms, of k e] * [rule_format, of k "Resource e" "Offset e" "Flags e" "Prot e"]
      by simp
  qed
qed

lemma has_mappings_resource: "well_formed s \<Longrightarrow> has_mappings s r \<Longrightarrow> resource_of s r \<noteq> None"
proof -
  assume "well_formed s" "has_mappings s r"
  then obtain L where L: "vma_wf s L" "L r \<noteq> []" using has_mappings_list unfolding well_formed_def by blast
  then show ?thesis by (simp add: vma_wf_def links_def)
qed

inductive tracking_step :: "VMATracking \<Rightarrow> VMATracking \<Rightarrow> bool" where
  step_insert: "InsertMappedResource mrid len s = (r, s') \<Longrightarrow> tracking_step s s'"
| step_track: "B < B + Len \<Longrightarrow> \<forall>r. Res = Some r \<longrightarrow> resource_of s r \<noteq> None \<Longrightarrow> Shared F \<longrightarrow> Res \<noteq> None \<Longrightarrow>
    TrackVMARange Res B Off Len F P s = Some s' \<Longrightarrow> tracking_step s s'"
| step_delete: "B \<le> B + Len \<Longrightarrow> DeleteVMARange B Len Preserved s = Some s' \<Longrightarrow> tracking_step s s'"
| step_protect: "B < B + Len \<Longrightarrow> \<forall>a. in_span B Len a \<longrightarrow> mapping_at s a \<noteq> None \<Longrightarrow>
    ChangeProtectionFlags B Len P s = Some s' \<Longrightarrow> tracking_step s s'"
| step_shmdt: "DeleteSHMRegion B s = Some (n, s') \<Longrightarrow> tracking_step s s'"
| step_cache: "SetMappedCache r Loaded s = Some s' \<Longrightarrow> tracking_step s s'"
| step_flush: "tracking_step s (FlushPendingResourceDeletions s)"

inductive_cases tracking_stepE: "tracking_step s s'"

lemma DeleteSHMRegion_cases:
  assumes "vma_wf s L" "DeleteSHMRegion B s = Some (n, s')"
  shows "s' = s \<or> (\<exists>X L'. deletes X None s L s' L')"
proof (cases "\<exists>k. shm_first B s k")
  case False
  then show ?thesis using DeleteSHMRegion_deletes(1) [OF assms(1)] assms(2) by simp
next
  case True
  then obtain k where k: "shm_first B s k" by blast
  then obtain e r R where "vma s k = Some e" "Resource e = Some r" "resource_of s r = Some R"
    by (auto simp: shm_first_def IsSHM_def split: option.splits Option.bind_splits)
  from DeleteSHMRegion_deletes(2) [OF assms(1) k this] show ?thesis using assms(2) by auto
qed

lemma tracking_step_keeps:
  assumes "tracking_step s s'" "well_formed s" "shared_backed s"
  shows "well_formed s' \<and> shared_backed s'"
proof -
  obtain L where L: "vma_wf s L" using assms(2) by (auto simp: well_formed_def)
  have g: "geom (cores (VMAs s))" using well_formed_geom [OF assms(2)] .
  have sb: "r \<noteq> None" if "mapping_at s a = Some (r, off, f, p)" "Shared f" for a r off f p
    using assms(3) that unfolding shared_backed_view [OF g] by blast
  have keep: "well_formed t \<and> shared_backed t"
    if "well_formed t" "\<And>a r off f p. mapping_at t a = Some (r, off, f, p) \<Longrightarrow> Shared f \<Longrightarrow> r \<noteq> None" for t
    using that shared_backed_view [OF well_formed_geom [OF that(1)]] by blast
  have dels: "well_formed t \<and> shared_backed t" if d: "deletes X P s L t L'" for X P t L'
    using deletes_well_formed [OF d] deletes_mapping_at [OF d L] sb by (intro keep) (auto split: if_splits)
  from assms(1) show ?thesis
  proof cases
    case (step_insert mrid len r)
    note i = InsertMappedResource_wf [OF L step_insert]
    then show ?thesis using assms(3) by (auto simp: well_formed_def shared_backed_def)
  next
    case (step_track B Len Res F Off P)
    from TrackVMARange_tracks [OF L step_track(1,2), where Off = Off and F = F and P = P] step_track(4)
    have w: "well_formed s'" "\<And>a. mapping_at s' a = (if in_span B Len a then Some (Res, Off + (a - B), F, P) else mapping_at s a)"
      unfolding well_formed_def by auto
    show ?thesis using w step_track(3) sb by (intro keep) (auto split: if_splits)
  next
    case (step_delete B Len Preserved)
    then show ?thesis using DeleteVMARange_deletes [OF L step_delete(1), of Preserved] dels by auto
  next
    case (step_protect B Len P)
    have "\<And>a. B \<le> a \<Longrightarrow> a < B + Len \<Longrightarrow> mapping_at s a \<noteq> None" using step_protect(2) by (simp add: in_span_def)
    with ChangeProtectionFlags_rewritten [OF L step_protect(1), of P] step_protect(3) obtain L' where
      r: "rewritten (\<lambda>a v. if B \<le> a \<and> a < B + Len then reprot P v else shift_offset (tail_shift s B (B + Len) a) v) s L s' L'"
      by auto
    have "well_formed s'" using rewrittenD(1) [OF r] by (auto simp: well_formed_def)
    then show ?thesis using rewritten_mapping_at [OF r L] sb
      by (intro keep) (auto simp: reprot_def shift_offset_def split: if_splits)
  next
    case (step_shmdt B n)
    then show ?thesis using DeleteSHMRegion_cases [OF L step_shmdt] dels assms(2,3) by blast
  next
    case (step_cache r Loaded)
    then obtain R where R: "resource_of s r = Some R" "s' = s\<lparr>MappedResources := fmupd r (R\<lparr>HasMappedCache := Loaded\<rparr>) (MappedResources s)\<rparr>"
      by (auto simp: SetMappedCache_def update_resource_def split: Option.bind_splits)
    then have "vma_wf s' L" "VMAs s' = VMAs s" using L by (auto simp: vma_wf_def links_def)
    then show ?thesis using assms(3) by (auto simp: well_formed_def shared_backed_def)
  next
    case step_flush
    then have "vma_wf s' L" "VMAs s' = VMAs s" using L by (simp_all add: FlushPendingResourceDeletions_def vma_wf_def links_def)
    then show ?thesis using assms(3) by (auto simp: well_formed_def shared_backed_def)
  qed
qed

lemma one_mapping_reached: "tracking_step empty_tracking one_mapping"
proof (rule step_track [where Res = None])
  have "last_key P (fmempty :: mappings) = None" for P by (simp add: last_key_Some(2))
  then have "DeleteVMARange 0x1000 0x3000 None empty_tracking = Some empty_tracking"
    by (simp add: DeleteVMARange_def empty_tracking_def DeleteLoop.simps)
  then show "TrackVMARange None 0x1000 0 0x3000 private_map rw empty_tracking = Some one_mapping"
    by (simp add: TrackVMARange_def FindPlace.simps emplace_def) (simp add: empty_tracking_def one_mapping_def)
qed (simp_all add: private_map_def)

text \<open>
  C19: Every state that the operations reach from the empty one is well formed, its shared mappings have a resource,
  and every resource that is mapped is there.
\<close>
theorem tracking_invariant:
  assumes "tracking_step\<^sup>*\<^sup>* empty_tracking s"
  shows "well_formed s \<and> shared_backed s \<and>
    (\<forall>a r off f p. mapping_at s a = Some (Some r, off, f, p) \<longrightarrow> resource_of s r \<noteq> None)"
proof -
  have "well_formed s \<and> shared_backed s"
    using assms
  proof induction
    case base
    then show ?case using well_formed_empty by (simp add: shared_backed_def empty_tracking_def)
  next
    case (step s s')
    then show ?case using tracking_step_keeps by blast
  qed
  then show ?thesis using has_mappings_resource unfolding has_mappings_def by (metis fst_conv)
qed

lemma tracking_invariant_witness:
  "well_formed one_mapping \<and> shared_backed one_mapping \<and> tracking_step\<^sup>*\<^sup>* empty_tracking one_mapping"
  using tracking_invariant [OF r_into_rtranclp [of tracking_step, OF one_mapping_reached]]
    r_into_rtranclp [of tracking_step, OF one_mapping_reached] by blast

text \<open>
  C20: A remapping succeeds: the new range is mapped like the old address, with the offsets of the old mapping from the old
  address on, and unless asked otherwise the old range is unmapped where the new one does not overlap it.
\<close>
theorem TrackMremap_moves:
  assumes "well_formed s" "mapping_at s OldAddress = Some (r, off, f, p)"
    "NewAddress < NewAddress + PageAlignUp NewSize" "OldAddress \<le> OldAddress + PageAlignUp OldSize"
  shows "\<exists>s'. TrackMremap OldAddress OldSize NewSize fl NewAddress s = Some s' \<and> well_formed s' \<and>
    (\<forall>a. mapping_at s' a =
      (if in_span NewAddress (PageAlignUp NewSize) a then Some (r, off + (a - NewAddress), f, p)
       else if fl AND MREMAP_DONTUNMAP = 0 \<and> in_span OldAddress (PageAlignUp OldSize) a then None
       else mapping_at s a))"
proof -
  obtain L where L: "vma_wf s L" using assms(1) by (auto simp: well_formed_def)
  have g: "geom (cores (VMAs s))" using L by (simp add: vma_wf_def)
  from mapping_at_entryE [OF g assms(2)] obtain k e where e: "vma s k = Some e" "k \<le> OldAddress" "OldAddress < k + Length e"
    "Resource e = r" "off = Offset e + (OldAddress - k)" "Flags e = f" "Prot e = p" .
  have F: "FindVMAEntry s OldAddress = Some k" using FindVMAEntry_iff [OF g] e(1-3) by blast
  have off: "Offset e + OldAddress - k = off" using e(5) by simp
  have res: "\<forall>x. r = Some x \<longrightarrow> resource_of s x \<noteq> None"
    using list_of_resource(2) [of s L k e] e(1,4) L by (auto simp: vma_wf_def)
  let ?N = "PageAlignUp NewSize" and ?O = "PageAlignUp OldSize"
  have unf: "TrackMremap OldAddress OldSize NewSize fl NewAddress s =
      do { s \<leftarrow> (if ?O \<noteq> 0 \<and> fl AND MREMAP_DONTUNMAP = 0 then DeleteVMARange OldAddress ?O r s else Some s);
           TrackVMARange r NewAddress off ?N f p s }"
    using e(1,4,6,7) F off by (simp add: TrackMremap_def Let_def)
  show ?thesis
  proof (cases "?O \<noteq> 0 \<and> fl AND MREMAP_DONTUNMAP = 0")
    case True
    obtain s1 L1 where d: "DeleteVMARange OldAddress ?O r s = Some s1" "deletes {a. OldAddress \<le> a \<and> a < OldAddress + ?O} r s L s1 L1"
      using DeleteVMARange_deletes [OF L assms(4)] by blast
    have res1: "\<forall>x. r = Some x \<longrightarrow> resource_of s1 x \<noteq> None"
      using res deletes_resources [OF d(2) L] by (simp flip: resource_cores_None)
    from TrackVMARange_tracks [OF deletesD(1) [OF d(2)] assms(3) res1, where Off = off and F = f and P = p] obtain s' L' where
      "TrackVMARange r NewAddress off ?N f p s1 = Some s'" "vma_wf s' L'"
      "\<forall>a. mapping_at s' a = (if in_span NewAddress ?N a then Some (r, off + (a - NewAddress), f, p) else mapping_at s1 a)"
      by blast
    then show ?thesis
      unfolding unf using True d(1) deletes_mapping_at [OF d(2) L] by (auto simp: in_span_def well_formed_def)
  next
    case False
    then have none: "\<not> (fl AND MREMAP_DONTUNMAP = 0 \<and> in_span OldAddress ?O a)" for a by (auto simp: in_span_def)
    from TrackVMARange_tracks [OF L assms(3) res, where Off = off and F = f and P = p] obtain s' L' where
      "TrackVMARange r NewAddress off ?N f p s = Some s'" "vma_wf s' L'"
      "\<forall>a. mapping_at s' a = (if in_span NewAddress ?N a then Some (r, off + (a - NewAddress), f, p) else mapping_at s a)"
      by blast
    then show ?thesis unfolding unf using False none by (auto simp: well_formed_def)
  qed
qed

lemma TrackMremap_moves_witness:
  "\<exists>s'. TrackMremap 0x2000 0x1000 0x1000 1 0x9000 one_mapping = Some s' \<and>
     mapping_at s' 0x9004 = Some (None, 0x1004, private_map, rw) \<and> mapping_at s' 0x2004 = None \<and>
     mapping_at s' 0x3004 = Some (None, 0x2004, private_map, rw)"
  using TrackMremap_moves [OF well_formed_one, of "0x2000" None "0x1000" private_map rw "0x9000" "0x1000" "0x1000" 1]
  by (auto simp: in_span_def one_mapping_at AlignUp_def)

text \<open>
  C21: Attaching a shared memory segment maps it from its start on, and detaching it at the same address then finds its length
  and unmaps exactly its range.
\<close>
theorem shm_attach_detach:
  assumes "well_formed s" "shmaddr < shmaddr + len"
    "\<forall>r R. FindResources \<lparr>dev = SpecialDev_SHM, id = sxt shmid\<rparr> s = Some r \<longrightarrow> resource_of s r = Some R \<longrightarrow> ResourceLength R = len"
  shows "\<exists>r s1 s2. TrackShmat shmid shmaddr shmflg len s = Some s1 \<and> TrackShmdt shmaddr s1 = Some (len, s2) \<and> well_formed s2 \<and>
    (\<forall>a. mapping_at s1 a =
      (if in_span shmaddr len a then Some (Some r, a - shmaddr, fromFlags MAP_SHARED, fromSHM shmflg) else mapping_at s a)) \<and>
    (\<forall>a. mapping_at s2 a = (if in_span shmaddr len a then None else mapping_at s a))"
proof -
  let ?mrid = "\<lparr>dev = SpecialDev_SHM, id = sxt shmid\<rparr>"
  obtain L where L: "vma_wf s L" using assms(1) by (auto simp: well_formed_def)
  obtain r s0 where r: "(case FindResources ?mrid s of None \<Rightarrow> InsertMappedResource ?mrid len s | Some r \<Rightarrow> (r, s)) = (r, s0)"
    by (cases "case FindResources ?mrid s of None \<Rightarrow> InsertMappedResource ?mrid len s | Some r \<Rightarrow> (r, s)") auto
  have "vma_wf s0 L \<and> mapping_at s0 = mapping_at s \<and> (\<exists>R. resource_of s0 r = Some R \<and> Key R = ?mrid \<and> ResourceLength R = len)"
  proof (cases "FindResources ?mrid s")
    case None
    then have i: "InsertMappedResource ?mrid len s = (r, s0)" using r by simp
    show ?thesis
      using InsertMappedResource_wf [OF L i] by auto
  next
    case (Some r')
    then have "r' = r" "s0 = s" using r by auto
    then show ?thesis
      using L FindResources_Some [OF Some] assms(3) Some by auto
  qed
  then have s0: "vma_wf s0 L" "mapping_at s0 = mapping_at s" "\<exists>R. resource_of s0 r = Some R \<and> Key R = ?mrid \<and> ResourceLength R = len"
    by blast+
  then obtain R where R: "resource_of s0 r = Some R" "Key R = ?mrid" "ResourceLength R = len" by blast
  have "\<forall>x. Some r = Some x \<longrightarrow> resource_of s0 x \<noteq> None" using R by simp
  from TrackVMARange_tracks [OF s0(1) assms(2) this, where Off = 0 and F = "fromFlags MAP_SHARED" and P = "fromSHM shmflg"]
  obtain s1 L1 where s1: "TrackVMARange (Some r) shmaddr 0 len (fromFlags MAP_SHARED) (fromSHM shmflg) s0 = Some s1" "vma_wf s1 L1"
    "\<forall>a. mapping_at s1 a = (if in_span shmaddr len a then Some (Some r, 0 + (a - shmaddr), fromFlags MAP_SHARED, fromSHM shmflg) else mapping_at s0 a)"
    "\<forall>x. resource_cores s1 x = (if has_mappings s0 x \<and> \<not> has_mappings s1 x then None else resource_cores s0 x)"
    "cores (VMAs s1) shmaddr = Some \<lparr>Resource = Some r, ResourcePrevVMA = None, ResourceNextVMA = None,
      Base = shmaddr, Offset = 0, Length = len, Flags = fromFlags MAP_SHARED, Prot = fromSHM shmflg\<rparr>" by blast
  have attach: "TrackShmat shmid shmaddr shmflg len s = Some s1"
    unfolding TrackShmat_def Let_def r by (simp add: s1(1))
  have g1: "geom (cores (VMAs s1))" using s1(2) by (simp add: vma_wf_def)
  obtain e where e: "vma s1 shmaddr = Some e" "Resource e = Some r" "Offset e = 0" "Length e = len" "Base e = shmaddr"
  proof -
    obtain e where e: "vma s1 shmaddr = Some e" "core e = \<lparr>Resource = Some r, ResourcePrevVMA = None, ResourceNextVMA = None,
      Base = shmaddr, Offset = 0, Length = len, Flags = fromFlags MAP_SHARED, Prot = fromSHM shmflg\<rparr>"
      using s1(5) unfolding cores_Some by metis
    then show thesis using that [of e] core_simps(3-6) [of e] by simp
  qed
  have "has_mappings s1 r"
    using s1(3) [rule_format, of shmaddr] assms(2) unfolding has_mappings_def in_span_def by (intro exI [of _ shmaddr]) simp
  then have "resource_cores s1 r = resource_cores s0 r" using s1(4) by simp
  then obtain R1 where R1: "resource_of s1 r = Some R1" "Key R1 = ?mrid" "ResourceLength R1 = len"
  proof -
    have "map_option (FirstVMA_update (\<lambda>_. None)) (resource_of s1 r) = Some (R\<lparr>FirstVMA := None\<rparr>)"
      using \<open>resource_cores s1 r = resource_cores s0 r\<close> R(1) by (simp add: resource_cores_def)
    then obtain R1 where R1: "resource_of s1 r = Some R1" "R1\<lparr>FirstVMA := None\<rparr> = R\<lparr>FirstVMA := None\<rparr>" by auto
    have "Key R1 = Key (R1\<lparr>FirstVMA := None\<rparr>)" "ResourceLength R1 = ResourceLength (R1\<lparr>FirstVMA := None\<rparr>)" by simp_all
    then show thesis using that [of R1] R1(1) R(2,3) unfolding R1(2) by simp
  qed
  have first: "shm_first shmaddr s1 shmaddr" using e R1 by (auto simp: shm_first_def IsSHM_def)
  have ends: "\<not> ends_within s1 shmaddr len k" if k: "shmaddr < k" for k
  proof (cases "vma s1 k")
    case (Some e')
    have "shmaddr + len \<le> k" "k < k + Length e'" using geom_vma [OF g1] Some e(1,4) k by auto
    then show ?thesis
      using Some unat_add_less [OF assms(2)] by (simp add: ends_within_def word_le_nat_alt word_less_nat_alt unat_sub_if_size)
  qed (simp add: ends_within_def)
  have region: "shm_region shmaddr s1 shmaddr r len = {a. in_span shmaddr len a}"
    unfolding shm_region_def parts_of_def using ends e by (auto simp: in_span_def)
  from DeleteSHMRegion_deletes(2) [OF s1(2) first e(1,2) R1(1)] obtain s2 L2 where
    s2: "DeleteSHMRegion shmaddr s1 = Some (len, s2)" "deletes {a. in_span shmaddr len a} None s1 L1 s2 L2"
    unfolding R1(3) region by blast
  have "mapping_at s2 a = (if in_span shmaddr len a then None else mapping_at s a)" for a
    using deletes_mapping_at [OF s2(2) s1(2), of a] s1(3) s0(2) by simp
  moreover have "TrackShmdt shmaddr s1 = Some (len, s2)" using s2(1) by (simp add: TrackShmdt_def)
  moreover have "well_formed s2" by (rule deletes_well_formed [OF s2(2)])
  ultimately show ?thesis using attach s1(3) s0(2) by (intro exI [of _ r] exI [of _ s1] exI [of _ s2]) auto
qed

lemma shm_attach_detach_witness:
  "\<exists>r s1 s2. TrackShmat 7 0x8000 SHM_RDONLY 0x2000 one_mapping = Some s1 \<and> TrackShmdt 0x8000 s1 = Some (0x2000, s2) \<and>
     mapping_at s1 0x8004 = Some (Some r, 4, shared_map, \<lparr>Readable = True, Writable = False, Executable = False\<rparr>) \<and>
     mapping_at s2 0x8004 = None \<and> mapping_at s2 0x1004 = Some (None, 4, private_map, rw)"
proof -
  have "FindResources m one_mapping = None" for m
    by (simp add: FindResources_def one_mapping_def Let_def fset_eq_iff)
  then show ?thesis
    using shm_attach_detach [OF well_formed_one, of "0x8000" "0x2000" 7 SHM_RDONLY]
    by (auto simp: in_span_def one_mapping_at fromFlags_def fromSHM_def shared_map_def)
qed

section \<open>Translated code\<close>


lemma cores_two: "cores (fmupd k e (fmupd n f fmempty)) = [n \<mapsto> core f, k \<mapsto> core e]"
  by (simp add: cores_upd fun_eq_iff) (simp add: cores_def)












section \<open>Where the code goes wrong\<close>

text \<open>
  The two mirrors again, but the second one mapped under a second resource with the same \<open>MRID\<close>, as \<open>TrackMmap\<close> makes
  one when the header of an ELF file is mapped again: code translated at \<open>0x8004\<close> is not protected at \<open>0x1004\<close>, which
  is the same memory, and a write there invalidates nothing at \<open>0x8000\<close>.
\<close>

definition two_resources :: VMATracking where
  "two_resources =
     \<lparr>VMAs = fmupd 0x1000 \<lparr>Resource = Some 0, ResourcePrevVMA = None, ResourceNextVMA = None, Base = 0x1000, Offset = 0,
         Length = 0x1000, Flags = shared_map, Prot = rw\<rparr>
       (fmupd 0x8000 \<lparr>Resource = Some 2, ResourcePrevVMA = None, ResourceNextVMA = None, Base = 0x8000, Offset = 0,
         Length = 0x1000, Flags = shared_map, Prot = rx\<rparr> fmempty),
      MappedResources = fmupd 0 \<lparr>Key = \<lparr>dev = 1, id = 2\<rparr>, FirstVMA = Some 0x1000, ResourceLength = 0, HasMappedCache = False\<rparr>
       (fmupd 2 \<lparr>Key = \<lparr>dev = 1, id = 2\<rparr>, FirstVMA = Some 0x8000, ResourceLength = 0, HasMappedCache = False\<rparr> fmempty),
      PendingResourceDeletions = []\<rparr>"

lemma two_resources_wf: "well_formed two_resources"
proof -
  have "vma_wf two_resources (\<lambda>r. if r = 0 then [0x1000] else if r = 2 then [0x8000] else [])"
    by (auto simp: two_resources_def vma_wf_def links_def resource_at_def geom_def cores_def core_def split: if_splits)
  then show ?thesis unfolding well_formed_def by blast
qed

lemma two_resources_at:
  "mapping_at two_resources a = (if 0x1000 \<le> a \<and> a < 0x2000 then Some (Some 0, a - 0x1000, shared_map, rw)
     else if 0x8000 \<le> a \<and> a < 0x9000 then Some (Some 2, a - 0x8000, shared_map, rx) else None)"
proof (rule mapping_at_eqI [OF well_formed_geom [OF two_resources_wf]])
  show "maps (cores (VMAs two_resources)) a v \<longleftrightarrow>
      (if 0x1000 \<le> a \<and> a < 0x2000 then Some (Some 0, a - 0x1000, shared_map, rw)
       else if 0x8000 \<le> a \<and> a < 0x9000 then Some (Some 2, a - 0x8000, shared_map, rx) else None) = Some v" for v
    by (cases "0x1000 \<le> a \<and> a < 0x2000"; cases "0x8000 \<le> a \<and> a < 0x9000")
      (auto simp: two_resources_def cores_two pieces_within(2) content_def word_le_nat_alt word_less_nat_alt)
qed

lemma two_resources_same: "same_memory two_resources 0x8004 0x1004" "same_memory two_resources 0x1000 0x8000"
proof -
  have "same_storage two_resources 0 2" "same_storage two_resources 2 0" by (simp_all add: same_storage_def two_resources_def)
  then show "same_memory two_resources 0x8004 0x1004" "same_memory two_resources 0x1000 0x8000"
    by (simp_all add: same_memory_def two_resources_at shared_map_def)
qed

lemma two_resources_keys: "last_key (\<lambda>k. k < 0x9000) (VMAs two_resources) = Some 0x8000"
    "last_key (\<lambda>k. k < 0x8000) (VMAs two_resources) = Some 0x1000"
  by (auto simp: last_key_Some two_resources_def)

lemma second_resource_unprotected:
  "same_memory two_resources 0x8004 0x1004 \<and> writable_at two_resources 0x1004 \<and>
   MarkGuestExecutableRange True 0x8004 8 two_resources = Some []"
proof (intro conjI two_resources_same)
  show "writable_at two_resources 0x1004" by (simp add: writable_at_def two_resources_at rw_def)
  have r: "vma two_resources 0x8000 = Some \<lparr>Resource = Some 2, ResourcePrevVMA = None, ResourceNextVMA = None, Base = 0x8000,
      Offset = 0, Length = 0x1000, Flags = shared_map, Prot = rx\<rparr>"
    "vma two_resources 0x1000 = Some \<lparr>Resource = Some 0, ResourcePrevVMA = None, ResourceNextVMA = None, Base = 0x1000,
      Offset = 0, Length = 0x1000, Flags = shared_map, Prot = rw\<rparr>"
    "resource_of two_resources 2 = Some \<lparr>Key = \<lparr>dev = 1, id = 2\<rparr>, FirstVMA = Some 0x8000, ResourceLength = 0, HasMappedCache = False\<rparr>"
    by (simp_all add: two_resources_def)
  have "MarkLoop 0x8000 0x9000 0x9000 two_resources = Some []"
    by (subst MarkLoop.simps, subst MarkLoop.simps)
      (simp add: two_resources_keys r ProtectMapping_def shared_map_def MirrorLoop.simps ProtectMirror_def rx_def)
  moreover have "(0x8004 :: u64) AND FEX_PAGE_MASK = 0x8000" by (simp add: FEX_PAGE_MASK_def)
  ultimately show "MarkGuestExecutableRange True 0x8004 8 two_resources = Some []"
    by (simp add: MarkGuestExecutableRange_def AlignUp_def)
qed

lemma second_resource_stale:
  "same_memory two_resources 0x1000 0x8000 \<and> HandleSegfault 0 0 0x1804 two_resources = Some (Invalidate [(0x1000, True)])"
proof (intro conjI two_resources_same)
  have "FindVMAEntry two_resources 0x1804 = Some 0x1000"
    unfolding FindVMAEntry_iff [OF well_formed_geom [OF two_resources_wf]] by (simp add: two_resources_def)
  then show "HandleSegfault 0 0 0x1804 two_resources = Some (Invalidate [(0x1000, True)])"
    by (simp add: HandleSegfault_def two_resources_def shared_map_def rw_def MirrorLoop.simps FlushMirror_def AlignDown_def)
qed

text \<open>
  The tail of a mapping that starts inside the range keeps the offset of the start of the mapping: with the
  mapping of a file at \<open>0x3000\<close>, making \<open>[0x2000, 0x4000)\<close> executable moves the offset of \<open>0x4000\<close> from \<open>0x1000\<close> to 0.
\<close>

definition file_after_heap :: VMATracking where
  "file_after_heap =
     \<lparr>VMAs = fmupd 0x2000 \<lparr>Resource = None, ResourcePrevVMA = None, ResourceNextVMA = None, Base = 0x2000, Offset = 0,
         Length = 0x1000, Flags = private_map, Prot = rw\<rparr>
       (fmupd 0x3000 \<lparr>Resource = Some 0, ResourcePrevVMA = None, ResourceNextVMA = None, Base = 0x3000, Offset = 0,
         Length = 0x2000, Flags = private_map, Prot = rw\<rparr> fmempty),
      MappedResources = fmupd 0 \<lparr>Key = \<lparr>dev = 1, id = 2\<rparr>, FirstVMA = Some 0x3000, ResourceLength = 0, HasMappedCache = False\<rparr> fmempty,
      PendingResourceDeletions = []\<rparr>"

lemma file_after_heap_wf: "vma_wf file_after_heap (\<lambda>r. if r = 0 then [0x3000] else [])"
  by (auto simp: file_after_heap_def vma_wf_def links_def resource_at_def geom_def cores_def core_def split: if_splits)

lemma file_after_heap_at:
  "mapping_at file_after_heap a = (if 0x2000 \<le> a \<and> a < 0x3000 then Some (None, a - 0x2000, private_map, rw)
     else if 0x3000 \<le> a \<and> a < 0x5000 then Some (Some 0, a - 0x3000, private_map, rw) else None)"
proof (rule mapping_at_eqI)
  show "geom (cores (VMAs file_after_heap))" using file_after_heap_wf by (simp add: vma_wf_def)
  show "maps (cores (VMAs file_after_heap)) a v \<longleftrightarrow>
      (if 0x2000 \<le> a \<and> a < 0x3000 then Some (None, a - 0x2000, private_map, rw)
       else if 0x3000 \<le> a \<and> a < 0x5000 then Some (Some 0, a - 0x3000, private_map, rw) else None) = Some v" for v
    by (cases "0x2000 \<le> a \<and> a < 0x3000"; cases "0x3000 \<le> a \<and> a < 0x5000")
      (auto simp: file_after_heap_def cores_two pieces_within(2) content_def word_le_nat_alt word_less_nat_alt)
qed

lemma tail_offset_wrong:
  "mapping_at file_after_heap 0x4000 = Some (Some 0, 0x1000, private_map, rw)"
  "\<exists>s'. ChangeProtectionFlags 0x2000 0x2000 rx file_after_heap = Some s' \<and>
     mapping_at s' 0x4000 = Some (Some 0, 0, private_map, rw)"
proof -
  note wf = file_after_heap_wf
  have g: "geom (cores (VMAs file_after_heap))" using wf by (simp add: vma_wf_def)
  show m: "mapping_at file_after_heap 0x4000 = Some (Some 0, 0x1000, private_map, rw)" by (simp add: file_after_heap_at)
  have mapped: "\<And>a. 0x2000 \<le> a \<Longrightarrow> a < 0x2000 + 0x2000 \<Longrightarrow> mapping_at file_after_heap a \<noteq> None"
    by (auto simp: file_after_heap_at word_le_nat_alt word_less_nat_alt)
  obtain s' L' where s': "ChangeProtectionFlags 0x2000 0x2000 rx file_after_heap = Some s'"
    "rewritten (\<lambda>a v. if 0x2000 \<le> a \<and> a < 0x2000 + 0x2000 then reprot rx v
       else shift_offset (tail_shift file_after_heap 0x2000 (0x2000 + 0x2000) a) v) file_after_heap (\<lambda>r. if r = 0 then [0x3000] else []) s' L'"
    using ChangeProtectionFlags_rewritten [OF wf, of "0x2000" "0x2000" rx] mapped by auto
  have "FindVMAEntry file_after_heap 0x4000 = Some 0x3000"
    unfolding FindVMAEntry_iff [OF g] by (simp add: file_after_heap_def)
  then have "mapping_at s' 0x4000 = Some (Some 0, 0, private_map, rw)"
    unfolding rewritten_mapping_at [OF s'(2) wf] by (simp add: m tail_shift_def shift_offset_def)
  then show "\<exists>s'. ChangeProtectionFlags 0x2000 0x2000 rx file_after_heap = Some s' \<and>
     mapping_at s' 0x4000 = Some (Some 0, 0, private_map, rw)" using s'(1) by blast
qed

text \<open>
  A mapping that is split in three: its list, which the code means to be in the order of the addresses, then
  leads from the first part to the last and from there to the middle one.
\<close>

definition one_file :: VMATracking where
  "one_file =
     \<lparr>VMAs = fmupd 0x1000 \<lparr>Resource = Some 0, ResourcePrevVMA = None, ResourceNextVMA = None, Base = 0x1000, Offset = 0,
         Length = 0x3000, Flags = private_map, Prot = rw\<rparr> fmempty,
      MappedResources = fmupd 0 \<lparr>Key = \<lparr>dev = 1, id = 2\<rparr>, FirstVMA = Some 0x1000, ResourceLength = 0, HasMappedCache = False\<rparr> fmempty,
      PendingResourceDeletions = []\<rparr>"

lemma list_order_lost:
  "\<exists>s'. ChangeProtectionFlags 0x2000 0x1000 rx one_file = Some s' \<and>
     map_option ResourceNextVMA (vma s' 0x1000) = Some (Some 0x3000) \<and>
     map_option ResourceNextVMA (vma s' 0x3000) = Some (Some 0x2000) \<and>
     map_option ResourceNextVMA (vma s' 0x2000) = Some None"
proof -
  have "last_key (\<lambda>k. k < 0x3000) (VMAs one_file) = Some 0x1000"
    unfolding last_key_Some(1) by (simp add: one_file_def)
  then have l: "ProtectLoop 0x2000 0x3000 rx 0x3000 one_file = Some (0x1000, 0x3000, one_file)"
    by (subst ProtectLoop.simps) (simp, simp add: one_file_def)
  show ?thesis
    by (simp add: ChangeProtectionFlags_def l)
      (simp add: one_file_def ProtectLast_def update_vma_def InsertPart_def emplace_new_def emplace_def ListInsertAfter_def)
qed

end
