(* ===== verification/GuestRanges.thy ===== *)
theory GuestRanges
  imports VMAProperties InstructionSafety
begin

text \<open>
  The system call handler as the provider of the executable ranges of the decoder
  (\<open>SyscallHandler::QueryGuestExecutableRange\<close> in \<open>LinuxSyscalls/SyscallsSMCTracking.cpp\<close>): the contract
  of the decoder holds of the tracking of mappings, so what is decoded comes from executable mappings.
\<close>

section \<open>The query\<close>

abbreviation (input) READ_IMPLIES_EXEC :: u32 where "READ_IMPLIES_EXEC \<equiv> 0x0400000"

definition QueryGuestExecutableRange_VMA :: "u32 \<Rightarrow> VMATracking \<Rightarrow> u64 \<Rightarrow> ExecutableRangeInfo" where
  "QueryGuestExecutableRange_VMA persona s Address =
     (case FindVMAEntry s Address of
        None \<Rightarrow> ExecutableRangeInfo.make 0 0 False
      | Some k \<Rightarrow>
          (case vma s k of
             None \<Rightarrow> ExecutableRangeInfo.make 0 0 False
           | Some Entry \<Rightarrow>
               if \<not> VMAProt.Executable (VMAEntry.Prot Entry) \<and>
                  (persona AND READ_IMPLIES_EXEC = 0 \<or> \<not> VMAProt.Readable (VMAEntry.Prot Entry))
               then ExecutableRangeInfo.make 0 0 False
               else ExecutableRangeInfo.make k (VMAEntry.Length Entry) (VMAProt.Writable (VMAEntry.Prot Entry))))"

text \<open>The guest may execute what is at an address.\<close>

definition may_execute :: "u32 \<Rightarrow> VMAProt \<Rightarrow> bool" where
  "may_execute persona p \<longleftrightarrow>
     VMAProt.Executable p \<or> persona AND READ_IMPLIES_EXEC \<noteq> 0 \<and> VMAProt.Readable p"

definition executable_mapping :: "u32 \<Rightarrow> VMATracking \<Rightarrow> u64 \<Rightarrow> bool" where
  "executable_mapping persona s a \<longleftrightarrow> (\<exists>r off f p. mapping_at s a = Some (r, off, f, p) \<and> may_execute persona p)"

lemma query_cases:
  assumes "well_formed s"
  obtains (none) "QueryGuestExecutableRange_VMA persona s a = ExecutableRangeInfo.make 0 0 False" "\<not> executable_mapping persona s a"
  | (some) k e where "vma s k = Some e" "k \<le> a" "a < k + VMAEntry.Length e" "may_execute persona (VMAEntry.Prot e)"
      "QueryGuestExecutableRange_VMA persona s a = ExecutableRangeInfo.make k (VMAEntry.Length e) (VMAProt.Writable (VMAEntry.Prot e))"
      "executable_mapping persona s a"
proof -
  have g: "geom (cores (VMAs s))" using well_formed_geom [OF assms] .
  show thesis
  proof (cases "FindVMAEntry s a")
    case None
    then have "mapping_at s a = None" by (simp add: mapping_at_def)
    then show thesis using None none by (simp add: QueryGuestExecutableRange_VMA_def executable_mapping_def)
  next
    case (Some k)
    then obtain e where e: "vma s k = Some e" "k \<le> a" "a < k + VMAEntry.Length e" using FindVMAEntry_iff [OF g] by blast
    have m: "executable_mapping persona s a \<longleftrightarrow> may_execute persona (VMAEntry.Prot e)"
      using mapping_at_entry [OF g e] by (simp add: executable_mapping_def)
    show thesis
    proof (cases "may_execute persona (VMAEntry.Prot e)")
      case True
      then show thesis using some [OF e True] Some e(1) m by (auto simp: QueryGuestExecutableRange_VMA_def may_execute_def)
    next
      case False
      then show thesis using none Some e(1) m by (auto simp: QueryGuestExecutableRange_VMA_def may_execute_def)
    qed
  qed
qed

lemma make_fields:
  "ExecutableRangeInfo.Base (ExecutableRangeInfo.make b n w) = b"
  "ExecutableRangeInfo.Size (ExecutableRangeInfo.make b n w) = n"
  by (simp_all add: ExecutableRangeInfo.make_def)

lemma query_executable:
  assumes "well_formed s"
  shows "ExecutableRangeInfo.Size (QueryGuestExecutableRange_VMA persona s a) \<noteq> 0 \<longleftrightarrow> executable_mapping persona s a"
  by (cases rule: query_cases [OF assms, of persona a]) (auto simp: make_fields)

lemma query_in_range:
  assumes "well_formed s" "in_range (QueryGuestExecutableRange_VMA persona s a) b"
  shows "executable_mapping persona s b"
  using assms(1)
proof (cases rule: query_cases [where persona = persona and a = a])
  case none
  then show ?thesis using assms(2) by (simp add: in_range_def make_fields)
next
  case (some k e)
  have g: "geom (cores (VMAs s))" using well_formed_geom [OF assms(1)] .
  have "unat (k + VMAEntry.Length e) = unat k + unat (VMAEntry.Length e)" using geom_vma(2) [OF g some(1)] by (rule unat_add_less)
  then have "k \<le> b" "b < k + VMAEntry.Length e"
    using assms(2) some(5) by (auto simp: in_range_def make_fields word_le_nat_alt word_less_nat_alt)
  then show ?thesis using mapping_at_entry [OF g some(1)] some(4) by (simp add: executable_mapping_def)
qed

section \<open>The contract of the decoder\<close>

typedef tracked = "{s. well_formed s}" morphisms tracking_of Tracked
  using well_formed_empty by blast

lemma tracking_of_wf: "well_formed (tracking_of t)"
  using tracking_of by simp

interpretation guest: executable_ranges "QueryGuestExecutableRange_VMA persona (tracking_of t)" for persona t
proof
  fix a b
  let ?q = "QueryGuestExecutableRange_VMA persona (tracking_of t)"
  note wf = tracking_of_wf [of t]
  have g: "geom (cores (VMAs (tracking_of t)))" using well_formed_geom [OF wf] .
  show "in_range (?q a) a" if "ExecutableRangeInfo.Size (?q a) \<noteq> 0"
  using wf proof (cases rule: query_cases [where persona = persona and a = a])
    case (some k e)
    have "unat (k + VMAEntry.Length e) = unat k + unat (VMAEntry.Length e)" using geom_vma(2) [OF g some(1)] by (rule unat_add_less)
    then show ?thesis using some by (auto simp: in_range_def make_fields word_le_nat_alt word_less_nat_alt)
  qed (use that in \<open>simp add: make_fields\<close>)
  show "ExecutableRangeInfo.Size (?q b) \<noteq> 0" if "in_range (?q a) b"
    using query_in_range [OF wf that] query_executable [OF wf] by blast
  show "unat (ExecutableRangeInfo.Base (?q a)) + unat (ExecutableRangeInfo.Size (?q a)) < 2 ^ 64"
  using wf proof (cases rule: query_cases [where persona = persona and a = a])
    case (some k e)
    have "unat (k + VMAEntry.Length e) = unat k + unat (VMAEntry.Length e)" using geom_vma(2) [OF g some(1)] by (rule unat_add_less)
    then show ?thesis using unat_u64_less [of "k + VMAEntry.Length e"] by (simp add: some(5) make_fields)
  qed (simp add: make_fields)
qed

lemma executable_at_VMA:
  "QueryGuestExecutableRange E = QueryGuestExecutableRange_VMA persona (tracking_of t) \<Longrightarrow>
   executable_at E a \<longleftrightarrow> executable_mapping persona (tracking_of t) a"
  using query_executable [OF tracking_of_wf] by (simp add: executable_at_def)

text \<open>A page of code, and a decoder on it.\<close>

definition code_page :: VMATracking where
  "code_page = \<lparr>VMAs = fmupd 0x1000
      \<lparr>Resource = None, ResourcePrevVMA = None, ResourceNextVMA = None, VMAEntry.Base = 0x1000, Offset = 0,
       Length = 0x1000, VMAEntry.Flags = private_map, Prot = rx\<rparr> fmempty,
     MappedResources = fmempty, PendingResourceDeletions = []\<rparr>"

definition code_env :: DecoderEnv where
  "code_env = nop_page\<lparr>QueryGuestExecutableRange := QueryGuestExecutableRange_VMA 0 code_page\<rparr>"

lemma code_env_query: "QueryGuestExecutableRange code_env = QueryGuestExecutableRange_VMA 0 code_page"
  by (simp add: code_env_def)

lemma code_page_wf: "well_formed code_page"
  unfolding well_formed_def
  by (rule exI [of _ "\<lambda>_. []"])
    (auto simp: code_page_def vma_wf_def links_def resource_at_def geom_def cores_def core_def split: if_splits)

lemma code_page_executable: "executable_mapping 0 code_page a \<longleftrightarrow> 0x1000 \<le> unat a \<and> unat a < 0x2000"
proof -
  have "maps (cores (VMAs code_page)) a v \<longleftrightarrow> 0x1000 \<le> a \<and> a < 0x2000 \<and> v = (None, a - 0x1000, private_map, rx)" for v
    unfolding maps_vma by (auto simp: code_page_def content_def)
  then show ?thesis
    unfolding executable_mapping_def mapping_at_maps [OF well_formed_geom [OF code_page_wf]]
    by (auto simp: may_execute_def rx_def word_le_nat_alt word_less_nat_alt)
qed

text \<open>
  C24: With the tracking of mappings behind it, the check of a range says exactly whether every byte of the range is
  mapped and may be executed by the guest.
\<close>
theorem CheckRangeExecutable_mappings:
  assumes "well_formed s" "QueryGuestExecutableRange E = QueryGuestExecutableRange_VMA persona s"
    "unat A + unat S < 2 ^ 64" "0 < unat S" "cache_ok E d"
  shows "\<exists>x d'. CheckRangeExecutable E A S d = Some (x, d') \<and> cache_ok E d' \<and>
    (x \<longleftrightarrow> (\<forall>b. unat A \<le> unat b \<and> unat b < unat A + unat S \<longrightarrow> executable_mapping persona s b))"
proof -
  have s: "tracking_of (Tracked s) = s" using assms(1) by (simp add: Tracked_inverse)
  have q: "QueryGuestExecutableRange E = QueryGuestExecutableRange_VMA persona (tracking_of (Tracked s))" by (simp add: s assms(2))
  from guest.check_correct [OF q assms(3-5)] show ?thesis
    unfolding executable_at_VMA [OF q] s by (auto simp: span_def)
qed

lemma CheckRangeExecutable_mappings_witness:
  "\<exists>d'. CheckRangeExecutable code_env 0x1ffe 2 fresh_decoder = Some (True, d')"
proof -
  have "cache_ok code_env fresh_decoder" by (simp add: cache_ok_empty fresh_decoder_def)
  from CheckRangeExecutable_mappings [OF code_page_wf code_env_query _ _ this, of "0x1ffe" 2]
  obtain x d' where "CheckRangeExecutable code_env 0x1ffe 2 fresh_decoder = Some (x, d')"
    "x \<longleftrightarrow> (\<forall>b. 0x1ffe \<le> unat b \<and> unat b < 0x2000 \<longrightarrow> executable_mapping 0 code_page b)" by auto
  then show ?thesis by (auto simp: code_page_executable)
qed

text \<open>
  C25: What is decoded with the tracking of mappings behind the decoder comes from mappings the guest may execute:
  decoding returns, and every byte of a decoded instruction is in such a mapping.
\<close>
theorem decoded_from_executable_mappings:
  assumes "well_formed s" "QueryGuestExecutableRange E = QueryGuestExecutableRange_VMA persona s"
    "unat (InstStream E) + 256 < 2 ^ 64" "\<exists>r a m. (X87TablePtr E, VEXTablePtr E, VEXTableGroupPtr E) = DecoderTablesFor r a m"
    "few_prefixes E" "cache_ok E d"
  shows "\<exists>st d'. DecodeInstruction E pc d = Some (st, d') \<and> cache_ok E d' \<and>
    (st = SUCCESS \<longrightarrow> 0 < InstSize (DecodeInst d') \<and>
      (\<forall>b. unat (InstStream E) \<le> unat b \<and> unat b < unat (InstStream E) + unat (InstSize (DecodeInst d')) \<longrightarrow>
        executable_mapping persona s b)) \<and>
    (st = NOEXEC_INST \<longleftrightarrow> \<not> executable_mapping persona s (InstStream E))"
proof -
  have s: "tracking_of (Tracked s) = s" using assms(1) by (simp add: Tracked_inverse)
  have q: "QueryGuestExecutableRange E = QueryGuestExecutableRange_VMA persona (tracking_of (Tracked s))" by (simp add: s assms(2))
  have "env_ok E" unfolding env_ok_def q using guest.executable_ranges_axioms assms(3,4) by blast
  from DecodeInstruction_ok [OF this assms(5,6), of pc] show ?thesis
    by (auto simp: ok_def outcome_def span_def executable_at_VMA [OF q] s)
qed

lemma decoded_from_executable_mappings_witness:
  "\<exists>st d'. DecodeInstruction code_env 0x1000 fresh_decoder = Some (st, d') \<and> st \<noteq> NOEXEC_INST \<and> cache_ok code_env d'"
proof -
  have "cache_ok code_env fresh_decoder" by (simp add: cache_ok_empty fresh_decoder_def)
  moreover have "few_prefixes code_env"
    by (simp add: few_prefixes_def prefix_length_def code_env_def nop_page_def is_prefix_def upt_conv_Cons)
  moreover have "\<exists>r a m. (X87TablePtr code_env, VEXTablePtr code_env, VEXTableGroupPtr code_env) = DecoderTablesFor r a m"
    by (auto simp: code_env_def nop_page_def DecoderTablesFor_def intro: exI [of _ False])
  moreover have "unat (InstStream code_env) + 256 < 2 ^ 64" "executable_mapping 0 code_page (InstStream code_env)"
    by (simp_all add: code_env_def nop_page_def code_page_executable)
  ultimately show ?thesis
    using decoded_from_executable_mappings [OF code_page_wf code_env_query, of fresh_decoder "0x1000"] by blast
qed

end
