(* ===== verification/WritePriorityMutex.thy ===== *)
theory WritePriorityMutex
  imports Prelude "HOL-Library.Monad_Syntax"
begin

text \<open>
  The lock \<open>FEXCore/Utils/WritePriorityMutex.h\<close>: one 32-bit futex word with a bit for the writer that owns the
  lock, a bit for waiting readers, the number of waiting writers and the number of readers. Every operation is a
  sequence of atomic accesses to the word, waits and wakes, and the threads interleave between them.
\<close>

section \<open>The futex word\<close>

definition WRITE_OWNED_BIT :: u32 where "WRITE_OWNED_BIT = push_bit 31 1"
definition READ_WAITER_BIT :: u32 where "READ_WAITER_BIT = push_bit 30 1"
abbreviation (input) WRITE_WAITER_OFFSET :: nat where "WRITE_WAITER_OFFSET \<equiv> 16"
definition WRITE_WAITER_INCREMENT :: u32 where "WRITE_WAITER_INCREMENT = push_bit WRITE_WAITER_OFFSET 1"
definition READ_OWNER_INCREMENT :: u32 where "READ_OWNER_INCREMENT = 1"
definition WRITE_WAITER_COUNT_MASK :: u32 where "WRITE_WAITER_COUNT_MASK = push_bit WRITE_WAITER_OFFSET 0x3FFF"
definition READ_OWNER_COUNT_MASK :: u32 where "READ_OWNER_COUNT_MASK = 0xFFFF"

text \<open>A compare and exchange: whether it succeeded, the word after it and the expected value after it.\<close>

definition compare_exchange :: "u32 \<Rightarrow> u32 \<Rightarrow> u32 \<Rightarrow> bool \<times> u32 \<times> u32" where
  "compare_exchange Futex Expected Desired = (if Futex = Expected then (True, Desired, Expected) else (False, Futex, Futex))"

section \<open>The operations\<close>

text \<open>
  Where a thread is in the code, with its local value of the word. \<open>Outside\<close> is outside of the lock, \<open>Writing\<close> and
  \<open>Reading\<close> are inside, the other constructors are the points of the operations before an access to the word.
\<close>

datatype phase =
    Outside | Writing | Reading
  | Try_Lock | Try_Shared_Load | Try_Shared u32
  | Lock_First | Lock_WFE_Load | Lock_WFE u32 | Lock_Add | Lock_Loop u32 | Lock_Wait u32 | Lock_Asleep | Lock_Load
  | Shared_First_Load | Shared_First u32 | Shared_WFE_Load | Shared_WFE u32 | Shared_Load | Shared_Loop u32
  | Shared_Wait u32 | Shared_Asleep
  | Unlock_Load | Unlock_Loop u32 | Unlock_Wake u32
  | Unlock_Shared | Unlock_Shared_Wake u32

datatype wake = NoWake | WakeWriter | WakeReaders

definition try_lock :: "u32 \<Rightarrow> bool \<times> u32" where
  "try_lock Futex = (let (ok, F, _) = compare_exchange Futex 0 WRITE_OWNED_BIT in (ok, F))"

text \<open>The second half of the attempt, after the word was loaded.\<close>

definition try_lock_shared :: "u32 \<Rightarrow> u32 \<Rightarrow> bool \<times> u32" where
  "try_lock_shared Futex Expected =
     (if Expected AND WRITE_OWNED_BIT \<noteq> 0 \<or> Expected AND WRITE_WAITER_COUNT_MASK \<noteq> 0 then (False, Futex)
      else let (ok, F, _) = compare_exchange Futex Expected (Expected + READ_OWNER_INCREMENT) in (ok, F))"

text \<open>One round of the short spins; the time for them is up when the flag says so.\<close>

definition Attempt_WFE_WriteLock :: "bool \<Rightarrow> u32 \<Rightarrow> u32 \<Rightarrow> u32 \<times> phase" where
  "Attempt_WFE_WriteLock Timeout Futex Expected =
     (if Timeout then (Futex, Lock_Add)
      else if Expected = 0
      then case compare_exchange Futex Expected WRITE_OWNED_BIT of
             (True, F, _) \<Rightarrow> (F, Writing)
           | (False, F, _) \<Rightarrow> (F, Lock_WFE_Load)
      else (Futex, Lock_WFE_Load))"

definition Attempt_WFE_ReadLock :: "bool \<Rightarrow> u32 \<Rightarrow> u32 \<Rightarrow> u32 \<times> phase" where
  "Attempt_WFE_ReadLock Timeout Futex Expected =
     (if Timeout then (Futex, Shared_Load)
      else if Expected AND WRITE_OWNED_BIT = 0 \<and> Expected AND WRITE_WAITER_COUNT_MASK = 0
      then case compare_exchange Futex Expected (Expected + READ_OWNER_INCREMENT) of
             (True, F, _) \<Rightarrow> (F, Reading)
           | (False, F, _) \<Rightarrow> (F, Shared_WFE_Load)
      else (Futex, Shared_WFE_Load))"

definition lock_loop :: "u32 \<Rightarrow> u32 \<Rightarrow> u32 \<times> phase" where
  "lock_loop Futex Expected =
     (if Expected AND WRITE_OWNED_BIT = 0 \<and> Expected AND READ_OWNER_COUNT_MASK = 0
      then case compare_exchange Futex Expected ((Expected OR WRITE_OWNED_BIT) - WRITE_WAITER_INCREMENT) of
             (True, F, _) \<Rightarrow> (F, Writing)
           | (False, F, E) \<Rightarrow> (F, Lock_Loop E)
      else (Futex, Lock_Wait Expected))"

definition lock_shared_loop :: "u32 \<Rightarrow> u32 \<Rightarrow> u32 \<times> phase" where
  "lock_shared_loop Futex Expected =
     (let (Sleep, Desired) =
        (if Expected AND WRITE_OWNED_BIT = 0 \<and> Expected AND WRITE_WAITER_COUNT_MASK = 0
         then (False, Expected + READ_OWNER_INCREMENT)
         else (True, Expected OR READ_WAITER_BIT))
      in case compare_exchange Futex Expected Desired of
           (True, F, _) \<Rightarrow> (F, if Sleep then Shared_Wait Desired else Reading)
         | (False, F, E) \<Rightarrow> (F, Shared_Loop E))"

definition unlock_loop :: "u32 \<Rightarrow> u32 \<Rightarrow> u32 \<times> phase" where
  "unlock_loop Futex Expected =
     (let Desired = Expected AND NOT WRITE_OWNED_BIT;
          Desired = (if Desired AND WRITE_WAITER_COUNT_MASK = 0 then Desired AND NOT READ_WAITER_BIT else Desired)
      in case compare_exchange Futex Expected Desired of
           (True, F, _) \<Rightarrow> (F, Unlock_Wake Expected)
         | (False, F, E) \<Rightarrow> (F, Unlock_Loop E))"

definition unlock_wake :: "u32 \<Rightarrow> wake" where
  "unlock_wake Expected =
     (if Expected AND WRITE_WAITER_COUNT_MASK \<noteq> 0 then WakeWriter
      else if Expected AND READ_WAITER_BIT \<noteq> 0 then WakeReaders
      else NoWake)"

definition unlock_shared_wake :: "u32 \<Rightarrow> wake" where
  "unlock_shared_wake Desired =
     (if Desired AND WRITE_WAITER_COUNT_MASK \<noteq> 0 \<and> Desired AND READ_OWNER_COUNT_MASK = 0 then WakeWriter else NoWake)"

text \<open>
  One step of a thread that is inside an operation: the word and the place of the thread after it, and the wake it
  sends. A wait sleeps only if the word has the value waited for.
\<close>

fun thread_step :: "bool \<Rightarrow> u32 \<Rightarrow> phase \<Rightarrow> (u32 \<times> phase \<times> wake) option" where
  "thread_step T F Try_Lock = (let (ok, F') = try_lock F in Some (F', if ok then Writing else Outside, NoWake))"
| "thread_step T F Try_Shared_Load = Some (F, Try_Shared F, NoWake)"
| "thread_step T F (Try_Shared E) =
     (let (ok, F') = try_lock_shared F E in Some (F', if ok then Reading else Outside, NoWake))"
| "thread_step T F Lock_First = (let (ok, F') = try_lock F in Some (F', if ok then Writing else Lock_WFE_Load, NoWake))"
| "thread_step T F Lock_WFE_Load = Some (F, Lock_WFE F, NoWake)"
| "thread_step T F (Lock_WFE E) = (let (F', p) = Attempt_WFE_WriteLock T F E in Some (F', p, NoWake))"
| "thread_step T F Lock_Add = Some (F + WRITE_WAITER_INCREMENT, Lock_Loop (F + WRITE_WAITER_INCREMENT), NoWake)"
| "thread_step T F (Lock_Loop E) = (let (F', p) = lock_loop F E in Some (F', p, NoWake))"
| "thread_step T F (Lock_Wait V) = Some (F, if F = V then Lock_Asleep else Lock_Load, NoWake)"
| "thread_step T F Lock_Load = Some (F, Lock_Loop F, NoWake)"
| "thread_step T F Shared_First_Load = Some (F, Shared_First F, NoWake)"
| "thread_step T F (Shared_First E) =
     (let (ok, F') = try_lock_shared F E in Some (F', if ok then Reading else Shared_WFE_Load, NoWake))"
| "thread_step T F Shared_WFE_Load = Some (F, Shared_WFE F, NoWake)"
| "thread_step T F (Shared_WFE E) = (let (F', p) = Attempt_WFE_ReadLock T F E in Some (F', p, NoWake))"
| "thread_step T F Shared_Load = Some (F, Shared_Loop F, NoWake)"
| "thread_step T F (Shared_Loop E) = (let (F', p) = lock_shared_loop F E in Some (F', p, NoWake))"
| "thread_step T F (Shared_Wait V) = Some (F, if F = V then Shared_Asleep else Shared_Load, NoWake)"
| "thread_step T F Unlock_Load = Some (F, Unlock_Loop F, NoWake)"
| "thread_step T F (Unlock_Loop E) = (let (F', p) = unlock_loop F E in Some (F', p, NoWake))"
| "thread_step T F (Unlock_Wake E) = Some (F, Outside, unlock_wake E)"
| "thread_step T F Unlock_Shared = Some (F - READ_OWNER_INCREMENT, Unlock_Shared_Wake (F - READ_OWNER_INCREMENT), NoWake)"
| "thread_step T F (Unlock_Shared_Wake D) = Some (F, Outside, unlock_shared_wake D)"
| "thread_step T F _ = None"

definition StealAndDropActiveLocks :: "u32 \<Rightarrow> u32" where
  "StealAndDropActiveLocks F = 0"

section \<open>The threads\<close>

record mutex =
  Futex :: u32
  at :: "nat \<Rightarrow> phase"

definition unlocked :: mutex where
  "unlocked = \<lparr>Futex = 0, at = (\<lambda>_. Outside)\<rparr>"

text \<open>Where an operation starts: the place in the caller and the place in the operation.\<close>

definition enters :: "phase \<Rightarrow> phase \<Rightarrow> bool" where
  "enters p q \<longleftrightarrow> p = Outside \<and> q \<in> {Try_Lock, Try_Shared_Load, Lock_First, Shared_First_Load}"

definition releases :: "phase \<Rightarrow> phase \<Rightarrow> bool" where
  "releases p q \<longleftrightarrow> p = Writing \<and> q = Unlock_Load \<or> p = Reading \<and> q = Unlock_Shared"

text \<open>
  The steps of the threads below \<open>N\<close> that are in an operation or hold the lock. A wake for writers reaches one of
  them if there is one, a wake for readers all of them.
\<close>

inductive run_step :: "nat \<Rightarrow> mutex \<Rightarrow> mutex \<Rightarrow> bool" for N where
  release: "t < N \<Longrightarrow> releases (at s t) q \<Longrightarrow> run_step N s (s\<lparr>at := (at s)(t := q)\<rparr>)"
| silent: "t < N \<Longrightarrow> thread_step T (Futex s) (at s t) = Some (F, q, NoWake) \<Longrightarrow>
    run_step N s \<lparr>Futex = F, at = (at s)(t := q)\<rparr>"
| wake_writer: "t < N \<Longrightarrow> thread_step T (Futex s) (at s t) = Some (F, q, WakeWriter) \<Longrightarrow> u < N \<Longrightarrow> at s u = Lock_Asleep \<Longrightarrow>
    run_step N s \<lparr>Futex = F, at = (at s)(t := q, u := Lock_Load)\<rparr>"
| wake_no_writer: "t < N \<Longrightarrow> thread_step T (Futex s) (at s t) = Some (F, q, WakeWriter) \<Longrightarrow> \<forall>u < N. at s u \<noteq> Lock_Asleep \<Longrightarrow>
    run_step N s \<lparr>Futex = F, at = (at s)(t := q)\<rparr>"
| wake_readers: "t < N \<Longrightarrow> thread_step T (Futex s) (at s t) = Some (F, q, WakeReaders) \<Longrightarrow>
    run_step N s \<lparr>Futex = F, at = (\<lambda>u. if u < N \<and> at s u = Shared_Asleep then Shared_Load else ((at s)(t := q)) u)\<rparr>"

text \<open>All steps: a thread may also start an operation, and a sleeping thread may wake for no reason.\<close>

inductive mutex_step :: "nat \<Rightarrow> mutex \<Rightarrow> mutex \<Rightarrow> bool" for N where
  run: "run_step N s s' \<Longrightarrow> mutex_step N s s'"
| enter: "t < N \<Longrightarrow> enters (at s t) q \<Longrightarrow> mutex_step N s (s\<lparr>at := (at s)(t := q)\<rparr>)"
| spurious_writer: "t < N \<Longrightarrow> at s t = Lock_Asleep \<Longrightarrow> mutex_step N s (s\<lparr>at := (at s)(t := Lock_Load)\<rparr>)"
| spurious_reader: "t < N \<Longrightarrow> at s t = Shared_Asleep \<Longrightarrow> mutex_step N s (s\<lparr>at := (at s)(t := Shared_Load)\<rparr>)"

inductive_cases run_stepE: "run_step N s s'"
inductive_cases mutex_stepE: "mutex_step N s s'"

end
