(* ===== verification/MutexProperties.thy ===== *)
theory MutexProperties
  imports WritePriorityMutex
begin

text \<open>
  The fields of the futex word, the invariant of the lock and its properties: mutual exclusion, no lost wake, priority of
  the writers.
\<close>

section \<open>The fields of the word\<close>

definition owner :: "u32 \<Rightarrow> nat" where "owner F = unat F div 2 ^ 31"
definition read_waiter :: "u32 \<Rightarrow> nat" where "read_waiter F = unat F div 2 ^ 30 mod 2"
definition writers :: "u32 \<Rightarrow> nat" where "writers F = unat F div 2 ^ 16 mod 2 ^ 14"
definition readers :: "u32 \<Rightarrow> nat" where "readers F = unat F mod 2 ^ 16"

lemmas field_defs = owner_def read_waiter_def writers_def readers_def
lemmas word_consts = WRITE_OWNED_BIT_def READ_WAITER_BIT_def WRITE_WAITER_INCREMENT_def READ_OWNER_INCREMENT_def
  WRITE_WAITER_COUNT_MASK_def READ_OWNER_COUNT_MASK_def

lemma unat_u32: "unat (F :: u32) < 4294967296"
  using unsigned_less [of F, where 'a = nat] by simp

lemma fields_sum: "unat F = owner F * 2 ^ 31 + read_waiter F * 2 ^ 30 + writers F * 2 ^ 16 + readers F"
proof -
  let ?n = "unat F"
  have "?n = 65536 * (?n div 65536) + ?n mod 65536" by (rule mult_div_mod_eq [symmetric])
  moreover have "?n div 65536 = 16384 * (?n div 1073741824) + ?n div 65536 mod 16384"
    using mult_div_mod_eq [of 16384 "?n div 65536"] div_mult2_eq [of ?n 65536 16384] by simp
  moreover have "?n div 1073741824 = 2 * (?n div 2147483648) + ?n div 1073741824 mod 2"
    using mult_div_mod_eq [of 2 "?n div 1073741824"] div_mult2_eq [of ?n 1073741824 2] by simp
  moreover have "owner F = ?n div 2147483648" "read_waiter F = ?n div 1073741824 mod 2"
    "writers F = ?n div 65536 mod 16384" "readers F = ?n mod 65536" by (simp_all add: field_defs)
  ultimately have "?n = owner F * 2147483648 + read_waiter F * 1073741824 + writers F * 65536 + readers F" by linarith
  then show ?thesis by simp
qed

lemma fields_bounds: "owner F < 2" "read_waiter F < 2" "writers F < 16384" "readers F < 65536"
  using unat_u32 [of F] by (simp_all add: field_defs less_mult_imp_div_less) 

lemma fields_unique:
  assumes "unat F = w * 2 ^ 31 + b * 2 ^ 30 + q * 2 ^ 16 + r" "w < 2" "b < 2" "q < 16384" "r < 65536"
  shows "owner F = w" "read_waiter F = b" "writers F = q" "readers F = r"
proof -
  have 1: "unat F = r + 65536 * (q + 16384 * (b + 2 * w))" using assms(1) by simp
  show r: "readers F = r" proof -
    have "readers F = unat F mod 65536" by (simp add: readers_def)
    then show ?thesis unfolding 1 mod_mult_self2 using assms(5) by simp
  qed
  have 2: "unat F div 65536 = q + 16384 * (b + 2 * w)" unfolding 1 using assms(5) by simp
  show "writers F = q" proof -
    have "writers F = unat F div 65536 mod 16384" by (simp add: writers_def)
    then show ?thesis unfolding 2 mod_mult_self2 using assms(4) by simp
  qed
  have 3: "unat F div 1073741824 = b + 2 * w"
    using div_mult2_eq [of "unat F" 65536 16384] 2 assms(4) by simp
  show "read_waiter F = b" unfolding read_waiter_def using 3 assms(3) by simp
  show "owner F = w" unfolding owner_def using div_mult2_eq [of "unat F" 1073741824 2] 3 assms(3) by simp
qed

lemma field_zero:
  assumes "m + n \<le> 32"
  shows "F AND push_bit m (mask n) = (0 :: u32) \<longleftrightarrow> unat F div 2 ^ m mod 2 ^ n = 0"
proof -
  have eq: "F AND push_bit m (mask n) = push_bit m (take_bit n (drop_bit m F))"
    by (rule bit_word_eqI) (auto simp: bit_simps)
  have "drop_bit m (push_bit m (take_bit n (drop_bit m F))) = take_bit n (drop_bit m F)"
    using assms by (intro bit_word_eqI) (auto simp: bit_simps)
  then have "F AND push_bit m (mask n) = 0 \<longleftrightarrow> take_bit n (drop_bit m F) = 0"
    unfolding eq by (metis drop_bit_of_0 push_bit_of_0)
  also have "\<dots> \<longleftrightarrow> unat (take_bit n (drop_bit m F)) = 0" by (simp add: unat_eq_zero)
  also have "unat (take_bit n (drop_bit m F)) = unat F div 2 ^ m mod 2 ^ n"
    by (simp add: unsigned_take_bit_eq unsigned_drop_bit_eq take_bit_eq_mod [where 'a = nat] drop_bit_eq_div [where 'a = nat] unat_u32)
  finally show ?thesis .
qed

lemma tests:
  "F AND WRITE_OWNED_BIT = 0 \<longleftrightarrow> owner F = 0"
  "F AND READ_WAITER_BIT = 0 \<longleftrightarrow> read_waiter F = 0"
  "F AND WRITE_WAITER_COUNT_MASK = 0 \<longleftrightarrow> writers F = 0"
  "F AND READ_OWNER_COUNT_MASK = 0 \<longleftrightarrow> readers F = 0"
proof -
  show "F AND WRITE_OWNED_BIT = 0 \<longleftrightarrow> owner F = 0"
    using field_zero [of 31 1 F] fields_bounds(1) [of F] by (simp add: word_consts owner_def mask_eq_exp_minus_1)
  show "F AND READ_WAITER_BIT = 0 \<longleftrightarrow> read_waiter F = 0"
    using field_zero [of 30 1 F] by (simp add: word_consts read_waiter_def mask_eq_exp_minus_1)
  show "F AND WRITE_WAITER_COUNT_MASK = 0 \<longleftrightarrow> writers F = 0"
    using field_zero [of 16 14 F] by (simp add: word_consts writers_def mask_eq_exp_minus_1)
  show "F AND READ_OWNER_COUNT_MASK = 0 \<longleftrightarrow> readers F = 0"
    using field_zero [of 0 16 F] by (simp add: word_consts readers_def mask_eq_exp_minus_1)
qed

lemma unat_consts:
  "unat WRITE_OWNED_BIT = 2147483648" "unat READ_WAITER_BIT = 1073741824" "unat WRITE_WAITER_INCREMENT = 65536"
  "unat READ_OWNER_INCREMENT = 1"
  by (simp_all add: word_consts)

lemma unat_add_u32: "unat (F :: u32) + unat G < 4294967296 \<Longrightarrow> unat (F + G) = unat F + unat G"
  by (simp add: unat_plus_if_size word_size)

lemma unat_sub_u32: "unat G \<le> unat (F :: u32) \<Longrightarrow> unat (F - G) = unat F - unat G"
  by (simp add: unat_sub_if_size)

lemma or_clear: "F AND (B :: u32) = 0 \<Longrightarrow> F OR B = F + B"
  by (simp add: disjunctive_add_eq_or)

lemma not_and_bit: "F AND push_bit k (1 :: u32) \<noteq> 0 \<Longrightarrow> NOT F AND push_bit k 1 = 0"
  unfolding bit_iff_and_push_bit_not_eq_0 [symmetric] by (intro bit_word_eqI) (auto simp: bit_simps)

lemma clear_set:
  "F AND WRITE_OWNED_BIT \<noteq> 0 \<Longrightarrow> F AND NOT WRITE_OWNED_BIT = F - WRITE_OWNED_BIT"
  "F AND READ_WAITER_BIT \<noteq> 0 \<Longrightarrow> F AND NOT READ_WAITER_BIT = F - READ_WAITER_BIT"
  using not_and_bit [of F 31] not_and_bit [of F 30]
  unfolding WRITE_OWNED_BIT_def READ_WAITER_BIT_def by (blast intro: disjunctive_diff_eq_and_not [symmetric])+

lemma clear_clear:
  assumes "F AND B = 0"
  shows "F AND NOT B = (F :: u32)"
proof (rule bit_word_eqI)
  fix n assume "n < LENGTH(32)"
  moreover have "\<not> bit (F AND B) n" using assms by simp
  ultimately show "bit (F AND NOT B) n = bit F n" by (auto simp: bit_simps)
qed

lemma or_set:
  assumes "F AND READ_WAITER_BIT \<noteq> 0"
  shows "F OR READ_WAITER_BIT = F"
proof (rule bit_word_eqI)
  fix n assume "n < LENGTH(32)"
  moreover have "NOT F AND READ_WAITER_BIT = 0" using assms not_and_bit [of F 30] unfolding READ_WAITER_BIT_def by blast
  then have "\<not> bit (NOT F AND READ_WAITER_BIT) n" by simp
  ultimately show "bit (F OR READ_WAITER_BIT) n = bit F n" by (auto simp: bit_simps)
qed

text \<open>What the operations do to the fields.\<close>

lemma fields_zero: "owner 0 = 0" "read_waiter 0 = 0" "writers 0 = 0" "readers 0 = 0"
  by (simp_all add: field_defs)

lemma fields_owned:
  "owner WRITE_OWNED_BIT = 1" "read_waiter WRITE_OWNED_BIT = 0" "writers WRITE_OWNED_BIT = 0" "readers WRITE_OWNED_BIT = 0"
  by (simp_all add: field_defs unat_consts)

lemma fields_wait:
  assumes "writers F < 16383"
  shows "owner (F + WRITE_WAITER_INCREMENT) = owner F" "read_waiter (F + WRITE_WAITER_INCREMENT) = read_waiter F"
    "writers (F + WRITE_WAITER_INCREMENT) = writers F + 1" "readers (F + WRITE_WAITER_INCREMENT) = readers F"
proof -
  have "unat (F + WRITE_WAITER_INCREMENT) = owner F * 2 ^ 31 + read_waiter F * 2 ^ 30 + (writers F + 1) * 2 ^ 16 + readers F"
    using fields_sum [of F] fields_bounds [of F] assms by (simp add: unat_add_u32 unat_consts)
  from fields_unique [OF this] show "owner (F + WRITE_WAITER_INCREMENT) = owner F"
    "read_waiter (F + WRITE_WAITER_INCREMENT) = read_waiter F" "writers (F + WRITE_WAITER_INCREMENT) = writers F + 1"
    "readers (F + WRITE_WAITER_INCREMENT) = readers F" using fields_bounds [of F] assms by auto
qed

lemma fields_read:
  assumes "readers F < 65535"
  shows "owner (F + READ_OWNER_INCREMENT) = owner F" "read_waiter (F + READ_OWNER_INCREMENT) = read_waiter F"
    "writers (F + READ_OWNER_INCREMENT) = writers F" "readers (F + READ_OWNER_INCREMENT) = readers F + 1"
proof -
  have "unat (F + READ_OWNER_INCREMENT) = owner F * 2 ^ 31 + read_waiter F * 2 ^ 30 + writers F * 2 ^ 16 + (readers F + 1)"
    using fields_sum [of F] fields_bounds [of F] assms by (simp add: unat_add_u32 unat_consts)
  from fields_unique [OF this] show "owner (F + READ_OWNER_INCREMENT) = owner F"
    "read_waiter (F + READ_OWNER_INCREMENT) = read_waiter F" "writers (F + READ_OWNER_INCREMENT) = writers F"
    "readers (F + READ_OWNER_INCREMENT) = readers F + 1" using fields_bounds [of F] assms by auto
qed

lemma fields_unread:
  assumes "0 < readers F"
  shows "owner (F - READ_OWNER_INCREMENT) = owner F" "read_waiter (F - READ_OWNER_INCREMENT) = read_waiter F"
    "writers (F - READ_OWNER_INCREMENT) = writers F" "readers (F - READ_OWNER_INCREMENT) = readers F - 1"
proof -
  have "unat (F - READ_OWNER_INCREMENT) = owner F * 2 ^ 31 + read_waiter F * 2 ^ 30 + writers F * 2 ^ 16 + (readers F - 1)"
    using fields_sum [of F] assms by (simp add: unat_sub_u32 unat_consts)
  from fields_unique [OF this] show "owner (F - READ_OWNER_INCREMENT) = owner F"
    "read_waiter (F - READ_OWNER_INCREMENT) = read_waiter F" "writers (F - READ_OWNER_INCREMENT) = writers F"
    "readers (F - READ_OWNER_INCREMENT) = readers F - 1" using fields_bounds [of F] by auto
qed

lemma fields_take:
  assumes "owner F = 0" "0 < writers F"
  defines "D \<equiv> (F OR WRITE_OWNED_BIT) - WRITE_WAITER_INCREMENT"
  shows "owner D = 1" "read_waiter D = read_waiter F" "writers D = writers F - 1" "readers D = readers F"
proof -
  have "unat (F + WRITE_OWNED_BIT) = unat F + 2147483648"
    using fields_sum [of F] fields_bounds [of F] assms by (simp add: unat_add_u32 unat_consts)
  then have "unat D = 1 * 2 ^ 31 + read_waiter F * 2 ^ 30 + (writers F - 1) * 2 ^ 16 + readers F"
    unfolding D_def using fields_sum [of F] assms
    by (simp add: or_clear tests unat_sub_u32 unat_consts diff_mult_distrib)
  from fields_unique [OF this] show "owner D = 1" "read_waiter D = read_waiter F" "writers D = writers F - 1" "readers D = readers F"
    using fields_bounds [of F] by auto
qed

lemma fields_want:
  "owner (F OR READ_WAITER_BIT) = owner F" "read_waiter (F OR READ_WAITER_BIT) = 1"
  "writers (F OR READ_WAITER_BIT) = writers F" "readers (F OR READ_WAITER_BIT) = readers F"
proof -
  have "unat (F OR READ_WAITER_BIT) = owner F * 2 ^ 31 + 1 * 2 ^ 30 + writers F * 2 ^ 16 + readers F"
  proof (cases "read_waiter F = 0")
    case True
    then show ?thesis using fields_sum [of F] fields_bounds [of F] by (simp add: or_clear tests unat_add_u32 unat_consts)
  next
    case False
    then have "read_waiter F = 1" using fields_bounds(2) [of F] by simp
    then show ?thesis using fields_sum [of F] by (simp add: or_set tests)
  qed
  from fields_unique [OF this] show "owner (F OR READ_WAITER_BIT) = owner F" "read_waiter (F OR READ_WAITER_BIT) = 1"
    "writers (F OR READ_WAITER_BIT) = writers F" "readers (F OR READ_WAITER_BIT) = readers F"
    using fields_bounds [of F] by auto
qed

lemma fields_disown:
  "owner (F AND NOT WRITE_OWNED_BIT) = 0" "read_waiter (F AND NOT WRITE_OWNED_BIT) = read_waiter F"
  "writers (F AND NOT WRITE_OWNED_BIT) = writers F" "readers (F AND NOT WRITE_OWNED_BIT) = readers F"
proof -
  have "unat (F AND NOT WRITE_OWNED_BIT) = 0 * 2 ^ 31 + read_waiter F * 2 ^ 30 + writers F * 2 ^ 16 + readers F"
  proof (cases "owner F = 0")
    case True
    then show ?thesis using fields_sum [of F] by (simp add: clear_clear tests)
  next
    case False
    then have "owner F = 1" using fields_bounds(1) [of F] by simp
    then show ?thesis using fields_sum [of F] by (simp add: clear_set tests unat_sub_u32 unat_consts)
  qed
  from fields_unique [OF this] show "owner (F AND NOT WRITE_OWNED_BIT) = 0"
    "read_waiter (F AND NOT WRITE_OWNED_BIT) = read_waiter F" "writers (F AND NOT WRITE_OWNED_BIT) = writers F"
    "readers (F AND NOT WRITE_OWNED_BIT) = readers F" using fields_bounds [of F] by auto
qed

lemma fields_unwant:
  "owner (F AND NOT READ_WAITER_BIT) = owner F" "read_waiter (F AND NOT READ_WAITER_BIT) = 0"
  "writers (F AND NOT READ_WAITER_BIT) = writers F" "readers (F AND NOT READ_WAITER_BIT) = readers F"
proof -
  have "unat (F AND NOT READ_WAITER_BIT) = owner F * 2 ^ 31 + 0 * 2 ^ 30 + writers F * 2 ^ 16 + readers F"
  proof (cases "read_waiter F = 0")
    case True
    then show ?thesis using fields_sum [of F] by (simp add: clear_clear tests)
  next
    case False
    then have "read_waiter F = 1" using fields_bounds(2) [of F] by simp
    then show ?thesis using fields_sum [of F] by (simp add: clear_set tests unat_sub_u32 unat_consts)
  qed
  from fields_unique [OF this] show "owner (F AND NOT READ_WAITER_BIT) = owner F"
    "read_waiter (F AND NOT READ_WAITER_BIT) = 0" "writers (F AND NOT READ_WAITER_BIT) = writers F"
    "readers (F AND NOT READ_WAITER_BIT) = readers F" using fields_bounds [of F] by auto
qed

lemmas fields_simps = fields_zero fields_owned fields_wait fields_read fields_unread fields_take fields_want
  fields_disown fields_unwant

section \<open>One thread\<close>

definition owns :: "phase \<Rightarrow> bool" where
  "owns p = (case p of Writing \<Rightarrow> True | Unlock_Load \<Rightarrow> True | Unlock_Loop _ \<Rightarrow> True | _ \<Rightarrow> False)"

definition queued :: "phase \<Rightarrow> bool" where
  "queued p = (case p of Lock_Loop _ \<Rightarrow> True | Lock_Wait _ \<Rightarrow> True | Lock_Asleep \<Rightarrow> True | Lock_Load \<Rightarrow> True | _ \<Rightarrow> False)"

definition reads :: "phase \<Rightarrow> bool" where
  "reads p = (case p of Reading \<Rightarrow> True | Unlock_Shared \<Rightarrow> True | _ \<Rightarrow> False)"

text \<open>What a thread that waits knows of the value it waits for.\<close>

definition waits_well :: "phase \<Rightarrow> bool" where
  "waits_well p = (case p of Lock_Wait V \<Rightarrow> owner V \<noteq> 0 \<or> readers V \<noteq> 0 | Shared_Wait V \<Rightarrow> read_waiter V = 1 | _ \<Rightarrow> True)"

text \<open>The wake a thread is about to send.\<close>

definition pending :: "phase \<Rightarrow> wake" where
  "pending p = (case p of Unlock_Wake E \<Rightarrow> unlock_wake E | Unlock_Shared_Wake D \<Rightarrow> unlock_shared_wake D | _ \<Rightarrow> NoWake)"

text \<open>What the word says of a thread that takes part in it.\<close>

definition word_ok :: "u32 \<Rightarrow> phase \<Rightarrow> bool" where
  "word_ok F p \<longleftrightarrow> (owner F = 1 \<longrightarrow> readers F = 0) \<and> (read_waiter F = 1 \<longrightarrow> owner F = 1 \<or> 0 < writers F) \<and>
     (owns p \<longrightarrow> owner F = 1) \<and> (queued p \<longrightarrow> 0 < writers F) \<and> (reads p \<longrightarrow> 0 < readers F) \<and>
     (\<not> queued p \<longrightarrow> writers F < 16383) \<and> (\<not> reads p \<longrightarrow> readers F < 65535)"

lemmas class_defs = owns_def queued_def reads_def
lemmas op_defs = try_lock_def try_lock_shared_def Attempt_WFE_WriteLock_def Attempt_WFE_ReadLock_def lock_loop_def
  lock_shared_loop_def unlock_loop_def compare_exchange_def

lemma owner_01: "owner F = 0 \<or> owner F = 1" using fields_bounds(1) [of F] by auto
lemma read_waiter_01: "read_waiter F = 0 \<or> read_waiter F = 1" using fields_bounds(2) [of F] by auto

lemma step_counts:
  assumes "thread_step T F p = Some (F', q, w)" "word_ok F p"
  shows "owner F' + of_bool (owns p) = owner F + of_bool (owns q)"
    "writers F' + of_bool (queued p) = writers F + of_bool (queued q)"
    "readers F' + of_bool (reads p) = readers F + of_bool (reads q)"
proof -
  show "owner F' + of_bool (owns p) = owner F + of_bool (owns q)"
    using assms by (cases p) (auto simp: word_ok_def class_defs op_defs tests fields_simps Let_def split: if_splits)
  show "writers F' + of_bool (queued p) = writers F + of_bool (queued q)"
    using assms by (cases p) (auto simp: word_ok_def class_defs op_defs tests fields_simps Let_def split: if_splits)
  show "readers F' + of_bool (reads p) = readers F + of_bool (reads q)"
    using assms by (cases p) (auto simp: word_ok_def class_defs op_defs tests fields_simps Let_def split: if_splits)
qed

lemma step_word:
  assumes "thread_step T F p = Some (F', q, w)" "word_ok F p"
  shows "owner F' = 1 \<Longrightarrow> readers F' = 0" "read_waiter F' = 1 \<Longrightarrow> owner F' = 1 \<or> 0 < writers F'"
proof -
  show "readers F' = 0" if "owner F' = 1"
    using assms that by (cases p) (auto simp: word_ok_def class_defs op_defs tests fields_simps Let_def split: if_splits)
  show "owner F' = 1 \<or> 0 < writers F'" if "read_waiter F' = 1"
    using assms that owner_01 [of F]
    by (cases p) (auto simp: word_ok_def class_defs op_defs tests fields_simps Let_def split: if_splits)
qed

lemma step_waits:
  assumes "thread_step T F p = Some (F', q, w)" "waits_well p"
  shows "waits_well q"
  using assms by (cases p) (auto simp: waits_well_def op_defs tests fields_simps Let_def split: if_splits)

definition free :: "u32 \<Rightarrow> bool" where
  "free F \<longleftrightarrow> owner F = 0 \<and> readers F = 0"

text \<open>A thread that will see that the lock is free, or wake a writer that will.\<close>

definition hands_on :: "phase \<Rightarrow> bool" where
  "hands_on p \<longleftrightarrow> queued p \<and> p \<noteq> Lock_Asleep \<or> pending p = WakeWriter"

lemma step_hands_on:
  assumes "thread_step T F p = Some (F', q, w)" "word_ok F p" "waits_well p" "free F'" "0 < writers F"
  shows "q \<noteq> Lock_Asleep" "\<not> free F \<Longrightarrow> hands_on q" "w \<noteq> WakeWriter \<Longrightarrow> hands_on p \<Longrightarrow> hands_on q"
proof -
  show "q \<noteq> Lock_Asleep"
    using assms by (cases p) (auto simp: free_def waits_well_def op_defs tests fields_simps Let_def split: if_splits)
  show "hands_on q" if "\<not> free F"
    using assms that by (cases p) (auto simp: word_ok_def class_defs free_def hands_on_def pending_def unlock_wake_def
      unlock_shared_wake_def op_defs tests fields_simps Let_def split: if_splits)
  show "hands_on q" if "w \<noteq> WakeWriter" "hands_on p"
    using assms that by (cases p) (auto simp: word_ok_def class_defs free_def waits_well_def hands_on_def pending_def unlock_wake_def
      unlock_shared_wake_def op_defs tests fields_simps Let_def split: if_splits)
qed

lemma step_read_waiter:
  assumes "thread_step T F p = Some (F', q, w)" "waits_well p"
  shows "q = Shared_Asleep \<Longrightarrow> read_waiter F' = 1"
    "word_ok F p \<Longrightarrow> read_waiter F = 1 \<Longrightarrow> read_waiter F' = 1 \<or> pending q = WakeReaders"
    "pending p = WakeReaders \<Longrightarrow> w = WakeReaders"
proof -
  show "read_waiter F' = 1" if "q = Shared_Asleep"
    using assms that by (cases p) (auto simp: waits_well_def op_defs tests fields_simps Let_def split: if_splits)
  show "read_waiter F' = 1 \<or> pending q = WakeReaders" if "word_ok F p" "read_waiter F = 1"
    using assms that by (cases p) (auto simp: word_ok_def class_defs pending_def unlock_wake_def
      op_defs tests fields_simps Let_def split: if_splits)
  show "w = WakeReaders" if "pending p = WakeReaders"
    using assms that by (cases p) (auto simp: pending_def)
qed

lemma step_wake:
  assumes "thread_step T F p = Some (F', q, w)" "w \<noteq> NoWake"
  shows "F' = F" "q = Outside" "pending p = w"
  using assms by (cases p; auto simp: pending_def op_defs Let_def split: if_splits)+

section \<open>The invariant\<close>

definition cnt :: "nat \<Rightarrow> (phase \<Rightarrow> bool) \<Rightarrow> (nat \<Rightarrow> phase) \<Rightarrow> nat" where
  "cnt N P f = card {t. t < N \<and> P (f t)}"

lemma cnt_le: "cnt N P f \<le> N"
  unfolding cnt_def using card_mono [of "{..<N}" "{t. t < N \<and> P (f t)}"] by auto

lemma cnt_pos: "0 < cnt N P f \<longleftrightarrow> (\<exists>t < N. P (f t))"
  unfolding cnt_def by (auto simp: card_gt_0_iff)

lemma cnt_less: "t < N \<Longrightarrow> \<not> P (f t) \<Longrightarrow> cnt N P f < N"
  unfolding cnt_def using psubset_card_mono [of "{..<N}" "{t. t < N \<and> P (f t)}"] by fastforce

lemma cnt_update:
  assumes "t < N"
  shows "cnt N P (f(t := q)) + of_bool (P (f t)) = cnt N P f + of_bool (P q)"
proof -
  let ?A = "{u. u < N \<and> u \<noteq> t \<and> P (f u)}"
  have "{u. u < N \<and> P (f u)} = (if P (f t) then insert t ?A else ?A)" using assms by auto
  moreover have "{u. u < N \<and> P ((f(t := q)) u)} = (if P q then insert t ?A else ?A)" using assms by auto
  moreover have "finite ?A" "t \<notin> ?A" by auto
  ultimately show ?thesis by (simp add: cnt_def)
qed

lemma cnt_cong: "(\<And>t. t < N \<Longrightarrow> P (f t) = P (g t)) \<Longrightarrow> cnt N P f = cnt N P g"
  unfolding cnt_def by (rule arg_cong [of _ _ card]) auto

definition lock_inv :: "nat \<Rightarrow> u32 \<Rightarrow> (nat \<Rightarrow> phase) \<Rightarrow> bool" where
  "lock_inv N F f \<longleftrightarrow> owner F = cnt N owns f \<and> writers F = cnt N queued f \<and> readers F = cnt N reads f \<and>
     (owner F = 1 \<longrightarrow> readers F = 0) \<and> (read_waiter F = 1 \<longrightarrow> owner F = 1 \<or> 0 < writers F) \<and> (\<forall>t < N. waits_well (f t)) \<and>
     (free F \<and> (\<exists>t < N. f t = Lock_Asleep) \<longrightarrow> (\<exists>t < N. hands_on (f t))) \<and>
     ((\<exists>t < N. f t = Shared_Asleep) \<longrightarrow> read_waiter F = 1 \<or> (\<exists>t < N. pending (f t) = WakeReaders))"

lemma lock_invD:
  assumes "lock_inv N F f"
  shows "owner F = cnt N owns f" "writers F = cnt N queued f" "readers F = cnt N reads f" "owner F = 1 \<Longrightarrow> readers F = 0"
    "read_waiter F = 1 \<Longrightarrow> owner F = 1 \<or> 0 < writers F" "t < N \<Longrightarrow> waits_well (f t)"
    "free F \<Longrightarrow> t < N \<Longrightarrow> f t = Lock_Asleep \<Longrightarrow> \<exists>t < N. hands_on (f t)"
    "t < N \<Longrightarrow> f t = Shared_Asleep \<Longrightarrow> read_waiter F = 1 \<or> (\<exists>t < N. pending (f t) = WakeReaders)"
  using assms unfolding lock_inv_def by auto

lemma inv_word_ok:
  assumes "lock_inv N F f" "N \<le> 16383" "t < N"
  shows "word_ok F (f t)"
proof -
  note i = lock_invD [OF assms(1)]
  have "owner F = 1" if "owns (f t)" using i(1) that assms(3) cnt_pos [of N owns f] owner_01 [of F] by auto
  moreover have "0 < writers F" if "queued (f t)" using i(2) that assms(3) cnt_pos [of N queued f] by auto
  moreover have "0 < readers F" if "reads (f t)" using i(3) that assms(3) cnt_pos [of N reads f] by auto
  moreover have "writers F < 16383" if "\<not> queued (f t)" using i(2) cnt_less [of t N queued f] that assms(2,3) by auto
  moreover have "readers F < 65535" using i(3) cnt_le [of N reads f] assms(2) by auto
  ultimately show ?thesis using i(4,5) by (auto simp: word_ok_def)
qed

lemma own_step:
  assumes inv: "lock_inv N F f" and N: "N \<le> 16383" "t < N" and st: "thread_step T F (f t) = Some (F', q, w)"
    and ww: "w = WakeWriter \<Longrightarrow> (\<exists>u < N. u \<noteq> t \<and> hands_on (f u)) \<or> (\<forall>u < N. f u \<noteq> Lock_Asleep)"
    and wr: "w = WakeReaders \<Longrightarrow> \<forall>u < N. f u \<noteq> Shared_Asleep"
  shows "lock_inv N F' (f(t := q))"
proof -
  let ?f = "f(t := q)"
  note i = lock_invD [OF inv]
  have ok: "word_ok F (f t)" using inv_word_ok [OF inv N] .
  have ws: "waits_well (f t)" using i(6) N(2) .
  have counts: "owner F' = cnt N owns ?f" "writers F' = cnt N queued ?f" "readers F' = cnt N reads ?f"
    using step_counts [OF st ok] cnt_update [OF N(2), of owns f q] cnt_update [OF N(2), of queued f q]
      cnt_update [OF N(2), of reads f q] i(1-3) by simp_all
  have waits: "\<forall>u < N. waits_well (?f u)" using step_waits [OF st ws] i(6) by simp
  have J: "\<exists>u < N. hands_on (?f u)" if J: "free F'" "v < N" "?f v = Lock_Asleep" for v
  proof -
    have "0 < writers F"
    proof (cases "v = t")
      case True
      then have "q = Lock_Asleep" using J(3) by simp
      then have "queued (f t)" using st by (cases "f t") (auto simp: queued_def op_defs Let_def split: if_splits)
      then show ?thesis using ok by (simp add: word_ok_def)
    next
      case False
      then have "queued (f v)" using J(3) by (simp add: queued_def)
      then show ?thesis using i(2) J(2) cnt_pos [of N queued f] by auto
    qed
    note h = step_hands_on [OF st ok ws J(1) this]
    have v: "v \<noteq> t" "f v = Lock_Asleep" using h(1) J(3) by (auto split: if_splits)
    show ?thesis
    proof (cases "free F")
      case False
      then show ?thesis using h(2) N(2) by auto
    next
      case True
      then obtain u where u: "u < N" "hands_on (f u)" using i(7) [OF True J(2) v(2)] by blast
      show ?thesis
      proof (cases "w = WakeWriter")
        case True
        then show ?thesis using ww J(2) v by auto
      next
        case False
        then show ?thesis using h(3) u N(2) by (cases "u = t") auto
      qed
    qed
  qed
  have K: "read_waiter F' = 1 \<or> (\<exists>u < N. pending (?f u) = WakeReaders)" if "v < N" "?f v = Shared_Asleep" for v
  proof (cases "v = t")
    case True
    then show ?thesis using step_read_waiter(1) [OF st ws] that(2) by simp
  next
    case False
    then have v: "f v = Shared_Asleep" using that(2) by simp
    then have w: "w \<noteq> WakeReaders" using wr that(1) by blast
    from i(8) [OF that(1) v] show ?thesis
    proof
      assume "read_waiter F = 1"
      then show ?thesis using step_read_waiter(2) [OF st ws ok] N(2) by auto
    next
      assume "\<exists>u < N. pending (f u) = WakeReaders"
      then obtain u where "u < N" "pending (f u) = WakeReaders" by blast
      then show ?thesis using step_read_waiter(3) [OF st ws] w by (cases "u = t") auto
    qed
  qed
  show ?thesis unfolding lock_inv_def using counts step_word [OF st ok] waits J K by blast
qed

definition woken :: "nat \<Rightarrow> (nat \<Rightarrow> phase) \<Rightarrow> (nat \<Rightarrow> phase) \<Rightarrow> bool" where
  "woken N f g \<longleftrightarrow> (\<forall>u < N. g u = f u \<or> f u = Lock_Asleep \<and> g u = Lock_Load \<or> f u = Shared_Asleep \<and> g u = Shared_Load)"

lemma woken_inv:
  assumes "lock_inv N F f" "woken N f g"
  shows "lock_inv N F g"
proof -
  note i = lock_invD [OF assms(1)]
  have g: "g u = f u \<or> f u = Lock_Asleep \<and> g u = Lock_Load \<or> f u = Shared_Asleep \<and> g u = Shared_Load" if "u < N" for u
    using assms(2) that by (simp add: woken_def)
  have "cnt N owns g = cnt N owns f" "cnt N queued g = cnt N queued f" "cnt N reads g = cnt N reads f"
    by (rule cnt_cong; use g in \<open>fastforce simp: class_defs\<close>)+
  moreover have "waits_well (g u)" if "u < N" for u using g [OF that] i(6) [OF that] by (auto simp: waits_well_def)
  moreover have "hands_on (g u)" if "u < N" "hands_on (f u)" for u
    using g [OF that(1)] that(2) by (auto simp: hands_on_def pending_def queued_def)
  moreover have "pending (g u) = WakeReaders" if "u < N" "pending (f u) = WakeReaders" for u
    using g [OF that(1)] that(2) by (auto simp: pending_def)
  moreover have "f u = g u" if "u < N" "g u = Lock_Asleep \<or> g u = Shared_Asleep" for u using g [OF that(1)] that(2) by auto
  ultimately show ?thesis using i unfolding lock_inv_def by metis
qed

lemma start_inv:
  assumes "lock_inv N F f" "t < N" "releases (f t) q \<or> enters (f t) q"
  shows "lock_inv N F (f(t := q))"
proof -
  note i = lock_invD [OF assms(1)]
  have s: "owns q = owns (f t)" "queued q = queued (f t)" "reads q = reads (f t)" "waits_well q" "q \<noteq> Lock_Asleep" "q \<noteq> Shared_Asleep"
    "\<not> hands_on (f t)" "pending (f t) = NoWake"
    using assms(3) by (auto simp: releases_def enters_def class_defs waits_well_def hands_on_def pending_def)
  have "cnt N owns (f(t := q)) = cnt N owns f" "cnt N queued (f(t := q)) = cnt N queued f" "cnt N reads (f(t := q)) = cnt N reads f"
    by (rule cnt_cong; use s(1-3) in auto)+
  moreover have "hands_on ((f(t := q)) u)" if "hands_on (f u)" for u using that s(7) by (cases "u = t") auto
  moreover have "pending ((f(t := q)) u) = WakeReaders" if "pending (f u) = WakeReaders" for u
    using that s(8) by (cases "u = t") auto
  moreover have "waits_well ((f(t := q)) u)" if "u < N" for u using i(6) [OF that] s(4) by auto
  moreover have "f u = (f(t := q)) u" if "(f(t := q)) u = Lock_Asleep \<or> (f(t := q)) u = Shared_Asleep" for u
    using that s(5,6) by (auto split: if_splits)
  ultimately show ?thesis using i unfolding lock_inv_def by metis
qed

lemma run_step_inv:
  assumes "run_step N s s'" "lock_inv N (Futex s) (at s)" "N \<le> 16383"
  shows "lock_inv N (Futex s') (at s')"
  using assms(1)
proof (cases rule: run_step.cases)
  case (release t q)
  then show ?thesis using start_inv [OF assms(2)] by simp
next
  case (silent t T F q)
  then show ?thesis using own_step [OF assms(2,3) silent(2,3)] by simp
next
  case (wake_writer t T F q u)
  have tu: "t \<noteq> u" using wake_writer(3,5) by auto
  have w: "woken N (at s) ((at s)(u := Lock_Load))" using wake_writer(5) by (simp add: woken_def)
  have "lock_inv N F (((at s)(u := Lock_Load))(t := q))"
    using tu wake_writer(2-5)
    by (intro own_step [OF woken_inv [OF assms(2) w] assms(3), where T = T and w = WakeWriter])
      (auto simp: hands_on_def queued_def)
  then show ?thesis using wake_writer(1) tu by (simp add: fun_upd_twist)
next
  case (wake_no_writer t T F q)
  then show ?thesis using own_step [OF assms(2,3) wake_no_writer(2,3)] by simp
next
  case (wake_readers t T F q)
  let ?g = "\<lambda>u. if u < N \<and> at s u = Shared_Asleep then Shared_Load else at s u"
  have w: "woken N (at s) ?g" by (simp add: woken_def)
  have t: "at s t \<noteq> Shared_Asleep" using wake_readers(3) by auto
  have "lock_inv N F (?g(t := q))"
    using t wake_readers(2,3)
    by (intro own_step [OF woken_inv [OF assms(2) w] assms(3), where T = T and w = WakeReaders]) auto
  moreover have "?g(t := q) = (\<lambda>u. if u < N \<and> at s u = Shared_Asleep then Shared_Load else ((at s)(t := q)) u)"
    using t by (intro ext) auto
  ultimately show ?thesis using wake_readers(1) by simp
qed

lemma step_inv:
  assumes "mutex_step N s s'" "lock_inv N (Futex s) (at s)" "N \<le> 16383"
  shows "lock_inv N (Futex s') (at s')"
  using assms(1)
proof (cases rule: mutex_step.cases)
  case run
  then show ?thesis using run_step_inv assms(2,3) by blast
next
  case (enter t q)
  then show ?thesis using start_inv [OF assms(2)] by simp
next
  case (spurious_writer t)
  then have "woken N (at s) ((at s)(t := Lock_Load))" by (simp add: woken_def)
  then show ?thesis using woken_inv [OF assms(2)] spurious_writer(1) by simp
next
  case (spurious_reader t)
  then have "woken N (at s) ((at s)(t := Shared_Load))" by (simp add: woken_def)
  then show ?thesis using woken_inv [OF assms(2)] spurious_reader(1) by simp
qed

lemma unlocked_inv: "lock_inv N (Futex unlocked) (at unlocked)"
  by (simp add: lock_inv_def unlocked_def cnt_def class_defs fields_zero waits_well_def)

lemma reachable_inv:
  assumes "(mutex_step N)\<^sup>*\<^sup>* unlocked s" "N \<le> 16383"
  shows "lock_inv N (Futex s) (at s)"
  using assms(1) by induction (use unlocked_inv step_inv assms(2) in blast)+

section \<open>Draining\<close>

definition asleep :: "phase \<Rightarrow> bool" where "asleep p \<longleftrightarrow> p = Lock_Asleep \<or> p = Shared_Asleep"
definition active :: "phase \<Rightarrow> bool" where "active p \<longleftrightarrow> p \<noteq> Outside \<and> \<not> asleep p"

text \<open>Some thread is active as long as one is inside.\<close>

lemma active_thread:
  assumes "lock_inv N F f" "t < N" "f t \<noteq> Outside"
  shows "\<exists>u < N. active (f u)"
proof -
  note i = lock_invD [OF assms(1)]
  have own: "\<exists>u < N. active (f u)" if "owner F \<noteq> 0"
    using i(1) that cnt_pos [of N owns f] by (auto simp: active_def asleep_def owns_def)
  have rd: "\<exists>u < N. active (f u)" if "readers F \<noteq> 0"
    using i(3) that cnt_pos [of N reads f] by (auto simp: active_def asleep_def reads_def)
  have hands: "active p" if "hands_on p" for p
    using that by (auto simp: hands_on_def active_def asleep_def pending_def queued_def)
  have wr: "\<exists>u < N. active (f u)" if "u < N" "f u = Lock_Asleep" for u
  proof (cases "owner F = 0 \<and> readers F = 0")
    case True
    then show ?thesis using i(7) [OF _ that] hands by (auto simp: free_def)
  qed (use own rd in blast)
  have q: "\<exists>u < N. active (f u)" if w: "writers F \<noteq> 0"
  proof -
    obtain u where "u < N" "queued (f u)" using i(2) w cnt_pos [of N queued f] by auto
    then show ?thesis using wr by (cases "f u = Lock_Asleep") (auto simp: active_def asleep_def queued_def)
  qed
  have pend: "active p" if "pending p = WakeReaders" for p
    using that by (auto simp: active_def asleep_def pending_def)
  consider "active (f t)" | "f t = Lock_Asleep" | "f t = Shared_Asleep" using assms(3) by (auto simp: active_def asleep_def)
  then show ?thesis
  proof cases
    case 3
    then show ?thesis using i(8) [OF assms(2) 3] i(5) own q pend by force
  qed (use assms(2) wr in blast)+
qed

text \<open>How far a thread is from the end of its operation, or from sleep, when it runs alone.\<close>

fun remaining :: "u32 \<Rightarrow> phase \<Rightarrow> nat" where
  "remaining F Outside = 0" | "remaining F Lock_Asleep = 0" | "remaining F Shared_Asleep = 0"
| "remaining F (Unlock_Wake E) = 1"
| "remaining F (Unlock_Loop E) = (if E = F then 2 else 3)"
| "remaining F Unlock_Load = 3" | "remaining F Writing = 4"
| "remaining F (Unlock_Shared_Wake D) = 1" | "remaining F Unlock_Shared = 2" | "remaining F Reading = 3"
| "remaining F Try_Lock = 5" | "remaining F (Try_Shared E) = 5" | "remaining F Try_Shared_Load = 6"
| "remaining F (Lock_Wait V) = (if V = F then 1 else 8)"
| "remaining F (Lock_Loop E) = (if E = F then 5 else 9)"
| "remaining F Lock_Load = 7" | "remaining F Lock_Add = 9" | "remaining F (Lock_WFE E) = 10"
| "remaining F Lock_WFE_Load = 11" | "remaining F Lock_First = 12"
| "remaining F (Shared_Wait V) = (if V = F then 1 else 8)"
| "remaining F (Shared_Loop E) = (if E = F then 5 else 6)"
| "remaining F Shared_Load = 7" | "remaining F (Shared_WFE E) = 10"
| "remaining F Shared_WFE_Load = 11" | "remaining F (Shared_First E) = 12" | "remaining F Shared_First_Load = 13"

text \<open>What an active thread does next, its spins being over.\<close>

lemma active_cases:
  assumes "active p"
  obtains (leaves) q where "releases p q" "remaining F q < remaining F p" "active q"
  | (moves) F' q w where "thread_step True F p = Some (F', q, w)" "remaining F' q < remaining F p"
proof -
  have "(\<exists>q. releases p q \<and> remaining F q < remaining F p \<and> active q) \<or>
    (\<exists>F' q w. thread_step True F p = Some (F', q, w) \<and> remaining F' q < remaining F p)"
    using assms by (cases p) (auto simp: active_def asleep_def releases_def op_defs Let_def)
  then show thesis using leaves moves by blast
qed

definition inside :: "nat \<Rightarrow> (nat \<Rightarrow> phase) \<Rightarrow> nat" where "inside N f = cnt N (\<lambda>p. p \<noteq> Outside) f"
definition awake :: "nat \<Rightarrow> (nat \<Rightarrow> phase) \<Rightarrow> nat" where "awake N f = cnt N active f"

text \<open>A thread that runs alone leaves or falls asleep.\<close>

lemma wake_step:
  assumes "t < N" "thread_step T (Futex s) (at s t) = Some (F', q, w)" "w \<noteq> NoWake"
  obtains f where "run_step N s \<lparr>Futex = F', at = f(t := Outside)\<rparr>" "f t = at s t" "\<And>u. f u = Outside \<longleftrightarrow> at s u = Outside"
proof (cases "w = WakeReaders")
  case True
  let ?f = "\<lambda>u. if u < N \<and> at s u = Shared_Asleep then Shared_Load else at s u"
  have q: "q = Outside" using step_wake [OF assms(2,3)] by simp
  have "run_step N s \<lparr>Futex = F', at = (\<lambda>u. if u < N \<and> at s u = Shared_Asleep then Shared_Load else ((at s)(t := q)) u)\<rparr>"
    using assms(1,2) True by (blast intro: wake_readers)
  moreover have t: "at s t \<noteq> Shared_Asleep" using assms(2) by auto
  moreover have "(\<lambda>u. if u < N \<and> at s u = Shared_Asleep then Shared_Load else ((at s)(t := q)) u) = ?f(t := Outside)"
    using t q by auto
  ultimately show thesis using that [of ?f] by auto
next
  case False
  then have w: "w = WakeWriter" using assms(3) by (cases w) auto
  have q: "q = Outside" using step_wake [OF assms(2,3)] by simp
  show thesis
  proof (cases "\<exists>u < N. at s u = Lock_Asleep")
    case True
    then obtain u where u: "u < N" "at s u = Lock_Asleep" by blast
    moreover have "u \<noteq> t" using u assms(2) by auto
    ultimately show thesis
      using that [of "(at s)(u := Lock_Load)"] wake_writer [OF assms(1) assms(2) [unfolded w] u] q by (auto simp: fun_upd_twist)
  next
    case False
    then show thesis using that [of "at s"] wake_no_writer [OF assms(1) assms(2) [unfolded w]] q by auto
  qed
qed

lemma run_alone:
  assumes "t < N" "active (at s t)"
  shows "\<exists>s'. (run_step N)\<^sup>*\<^sup>* s s' \<and>
    (inside N (at s') < inside N (at s) \<or> inside N (at s') = inside N (at s) \<and> awake N (at s') < awake N (at s))"
  using assms(2)
proof (induction "remaining (Futex s) (at s t)" arbitrary: s rule: less_induct)
  case less
  have same: "inside N ((at s)(t := q)) = inside N (at s)" "awake N ((at s)(t := q)) = awake N (at s)" if "active q" for q
    using cnt_update [OF assms(1), of "\<lambda>p. p \<noteq> Outside" "at s" q] cnt_update [OF assms(1), of active "at s" q] less.prems that
    by (auto simp: inside_def awake_def active_def)
  have on: ?case if "run_step N s \<lparr>Futex = F', at = (at s)(t := q)\<rparr>" "remaining F' q < remaining (Futex s) (at s t)" "active q" for F' q
  proof -
    let ?s = "\<lparr>Futex = F', at = (at s)(t := q)\<rparr>"
    have "active (at ?s t)" using that(3) by simp
    moreover have "remaining (Futex ?s) (at ?s t) < remaining (Futex s) (at s t)" using that(2) by simp
    ultimately obtain s' where "(run_step N)\<^sup>*\<^sup>* ?s s'"
      "inside N (at s') < inside N (at ?s) \<or> inside N (at s') = inside N (at ?s) \<and> awake N (at s') < awake N (at ?s)"
      using less.hyps by blast
    then show ?thesis using same [OF that(3)] that(1) by (auto intro: converse_rtranclp_into_rtranclp)
  qed
  show ?case
  proof (cases rule: active_cases [OF less.prems, of "Futex s", case_names leaves moves])
    case (leaves q)
    then show ?thesis using on [of "Futex s" q] release [OF assms(1) leaves(1)] by (cases s) simp
  next
    case (moves F' q w)
    show ?thesis
    proof (cases "w = NoWake")
      case False
      then obtain f where f: "run_step N s \<lparr>Futex = F', at = f(t := Outside)\<rparr>" "f t = at s t"
        "\<And>u. f u = Outside \<longleftrightarrow> at s u = Outside" using wake_step [OF assms(1) moves(1)] by metis
      have "inside N f = inside N (at s)" unfolding inside_def by (rule cnt_cong) (simp add: f(3))
      then have "inside N (f(t := Outside)) < inside N (at s)"
        using cnt_update [OF assms(1), of "\<lambda>p. p \<noteq> Outside" f Outside] f(2) less.prems by (simp add: inside_def active_def)
      then show ?thesis using f(1) by (intro exI [of _ "\<lparr>Futex = F', at = f(t := Outside)\<rparr>"]) auto
    next
      case True
      have st: "run_step N s \<lparr>Futex = F', at = (at s)(t := q)\<rparr>" using silent [OF assms(1)] moves(1) True by blast
      show ?thesis
      proof (cases "active q")
        case True
        then show ?thesis using on [OF st moves(2)] by blast
      next
        case False
        then have "inside N ((at s)(t := q)) < inside N (at s) \<or>
          inside N ((at s)(t := q)) = inside N (at s) \<and> awake N ((at s)(t := q)) < awake N (at s)"
          using cnt_update [OF assms(1), of "\<lambda>p. p \<noteq> Outside" "at s" q] cnt_update [OF assms(1), of active "at s" q] less.prems
          by (auto simp: inside_def awake_def active_def asleep_def)
        then show ?thesis using st by (intro exI [of _ "\<lparr>Futex = F', at = (at s)(t := q)\<rparr>"]) auto
      qed
    qed
  qed
qed

lemma drain:
  assumes "lock_inv N (Futex s) (at s)" "N \<le> 16383"
  shows "\<exists>s'. (run_step N)\<^sup>*\<^sup>* s s' \<and> (\<forall>t < N. at s' t = Outside)"
  using assms(1)
proof (induction "inside N (at s) * (N + 1) + awake N (at s)" arbitrary: s rule: less_induct)
  case less
  show ?case
  proof (cases "\<forall>t < N. at s t = Outside")
    case False
    then obtain t where t: "t < N" "active (at s t)" using active_thread [OF less.prems] by blast
    obtain s' where s': "(run_step N)\<^sup>*\<^sup>* s s'"
      "inside N (at s') < inside N (at s) \<or> inside N (at s') = inside N (at s) \<and> awake N (at s') < awake N (at s)"
      using run_alone [OF t] by blast
    have "awake N (at s') \<le> N" by (simp add: awake_def cnt_le)
    moreover have "inside N (at s') * (N + 1) + (N + 1) \<le> inside N (at s) * (N + 1)" if "inside N (at s') < inside N (at s)"
      using mult_le_mono1 [of "inside N (at s') + 1" "inside N (at s)" "N + 1"] that by (simp add: algebra_simps)
    ultimately have "inside N (at s') * (N + 1) + awake N (at s') < inside N (at s) * (N + 1) + awake N (at s)"
      using s'(2) by (elim disjE) (linarith, simp)
    moreover have "lock_inv N (Futex s') (at s')"
      using s'(1) less.prems by induction (use run_step_inv assms(2) in blast)+
    ultimately obtain s'' where "(run_step N)\<^sup>*\<^sup>* s' s''" "\<forall>t < N. at s'' t = Outside" using less.hyps by blast
    then show ?thesis using s'(1) by (meson rtranclp_trans)
  qed blast
qed

section \<open>The properties\<close>

lemma card_owners:
  assumes "lock_inv N F f" "t < N" "u < N" "t \<noteq> u" "owns (f t)"
  shows "\<not> owns (f u) \<and> \<not> reads (f u)"
proof -
  note i = lock_invD [OF assms(1)]
  have o: "owner F = 1" using i(1) assms(2,5) cnt_pos [of N owns f] owner_01 [of F] by auto
  have "\<not> owns (f u)"
  proof
    assume "owns (f u)"
    moreover have "cnt N owns (f(t := Outside)) + 1 = cnt N owns f"
      using cnt_update [OF assms(2), of owns f Outside] assms(5) by (simp add: owns_def)
    ultimately show False using cnt_pos [of N owns "f(t := Outside)"] assms(3,4) o i(1) by auto
  qed
  then show ?thesis using i(3,4) o cnt_pos [of N reads f] assms(3) by auto
qed

lemma new_reader:
  assumes "thread_step T F p = Some (F', q, w)" "reads q" "\<not> reads p"
  shows "owner F = 0" "writers F = 0"
  using assms by (cases p; auto simp: reads_def op_defs tests Let_def split: if_splits)+

text \<open>Writer 1 and reader 2 come while thread 0 writes, and both go to sleep.\<close>

definition word_3 :: u32 where "word_3 = 0xC0010000"

definition both_asleep :: mutex where
  "both_asleep = \<lparr>Futex = word_3, at = (\<lambda>_. Outside)(0 := Writing, 1 := Lock_Asleep, 2 := Shared_Asleep)\<rparr>"

text \<open>The steps of one thread that sends no wake.\<close>

fun alone :: "nat \<Rightarrow> u32 \<Rightarrow> phase \<Rightarrow> (u32 \<times> phase) option" where
  "alone 0 F p = Some (F, p)"
| "alone (Suc n) F p = (case thread_step True F p of Some (F', q, NoWake) \<Rightarrow> alone n F' q | _ \<Rightarrow> None)"

lemma alone_reachable:
  assumes "alone n F p = Some (F', q)" "t < N" "(mutex_step N)\<^sup>*\<^sup>* s \<lparr>Futex = F, at = f(t := p)\<rparr>"
  shows "(mutex_step N)\<^sup>*\<^sup>* s \<lparr>Futex = F', at = f(t := q)\<rparr>"
  using assms(1,3)
proof (induction n arbitrary: F p)
  case (Suc n)
  then obtain F1 q1 where st: "thread_step True F p = Some (F1, q1, NoWake)" "alone n F1 q1 = Some (F', q)"
    by (auto split: option.splits wake.splits)
  have "mutex_step N \<lparr>Futex = F, at = f(t := p)\<rparr> \<lparr>Futex = F1, at = f(t := q1)\<rparr>"
    using silent [of t N True "\<lparr>Futex = F, at = f(t := p)\<rparr>" F1 q1] st(1) assms(2) by (simp add: run)
  then show ?case using Suc.IH [OF st(2)] Suc.prems(2) by (meson rtranclp.rtrancl_into_rtrancl)
qed simp

lemma enter_reachable:
  assumes "alone n F p = Some (F', q)" "t < N" "(mutex_step N)\<^sup>*\<^sup>* s \<lparr>Futex = F, at = f\<rparr>" "enters (f t) p"
  shows "(mutex_step N)\<^sup>*\<^sup>* s \<lparr>Futex = F', at = f(t := q)\<rparr>"
proof (rule alone_reachable [OF assms(1,2)])
  have "mutex_step N \<lparr>Futex = F, at = f\<rparr> \<lparr>Futex = F, at = f(t := p)\<rparr>"
    using enter [OF assms(2), of "\<lparr>Futex = F, at = f\<rparr>" p] assms(4) by simp
  then show "(mutex_step N)\<^sup>*\<^sup>* s \<lparr>Futex = F, at = f(t := p)\<rparr>" using assms(3) by (meson rtranclp.rtrancl_into_rtrancl)
qed

lemma alone_numeral:
  "alone (numeral k) F p = (case thread_step True F p of Some (F', q, NoWake) \<Rightarrow> alone (pred_numeral k) F' q | _ \<Rightarrow> None)"
  by (simp add: numeral_eq_Suc)

lemma both_asleep_reachable: "(mutex_step 3)\<^sup>*\<^sup>* unlocked both_asleep"
proof -
  note op = op_defs word_consts alone_numeral
  have a: "alone 1 0 Lock_First = Some (0x80000000, Writing)" by (simp add: op)
  have b: "alone 6 0x80000000 Lock_First = Some (0x80010000, Lock_Asleep)" by (simp add: op)
  have c: "alone 7 0x80010000 Shared_First_Load = Some (word_3, Shared_Asleep)" by (simp add: op word_3_def)
  have "(mutex_step 3)\<^sup>*\<^sup>* unlocked \<lparr>Futex = 0x80000000, at = (\<lambda>_. Outside)(0 := Writing)\<rparr>"
    by (rule enter_reachable [OF a]) (simp_all add: unlocked_def enters_def)
  from enter_reachable [OF b _ this, of 1]
  have "(mutex_step 3)\<^sup>*\<^sup>* unlocked \<lparr>Futex = 0x80010000, at = (\<lambda>_. Outside)(0 := Writing, 1 := Lock_Asleep)\<rparr>"
    by (simp add: enters_def)
  from enter_reachable [OF c _ this, of 2] show ?thesis by (simp add: enters_def both_asleep_def)
qed

text \<open>
  C26: Mutual exclusion: in every reachable state of at most 16383 threads, while a thread writes no other thread writes
  or reads.
\<close>
theorem mutex_exclusion:
  assumes "(mutex_step N)\<^sup>*\<^sup>* unlocked s" "N \<le> 16383" "t < N" "u < N" "t \<noteq> u" "at s t = Writing"
  shows "at s u \<noteq> Writing \<and> at s u \<noteq> Reading"
  using card_owners [OF reachable_inv [OF assms(1,2)] assms(3-5)] assms(6) by (auto simp: owns_def reads_def)

lemma mutex_exclusion_witness: "at both_asleep 2 \<noteq> Writing \<and> at both_asleep 2 \<noteq> Reading"
  using mutex_exclusion [OF both_asleep_reachable, of 0 2] by (simp add: both_asleep_def)

text \<open>
  C27: The futex word tells the state of the threads in every reachable state: the bit of the owner is set exactly while
  a thread holds the lock to write, the two counts are the numbers of the waiting writers and of the readers, and the
  bit for waiting readers is only set while the lock is owned or a writer waits.
\<close>
theorem mutex_word_counts:
  assumes "(mutex_step N)\<^sup>*\<^sup>* unlocked s" "N \<le> 16383"
  shows "(Futex s AND WRITE_OWNED_BIT \<noteq> 0 \<longleftrightarrow> (\<exists>t < N. owns (at s t))) \<and>
    writers (Futex s) = card {t. t < N \<and> queued (at s t)} \<and> readers (Futex s) = card {t. t < N \<and> reads (at s t)} \<and>
    (Futex s AND READ_WAITER_BIT \<noteq> 0 \<longrightarrow> Futex s AND WRITE_OWNED_BIT \<noteq> 0 \<or> (\<exists>t < N. queued (at s t)))"
proof -
  note i = lock_invD [OF reachable_inv [OF assms]]
  show ?thesis using i(1-3,5) cnt_pos [of N owns "at s"] cnt_pos [of N queued "at s"] read_waiter_01 [of "Futex s"]
    by (auto simp: tests cnt_def)
qed

lemma mutex_word_counts_witness: "writers (Futex both_asleep) = 1 \<and> {t. t < 3 \<and> queued (at both_asleep t)} = {1}"
proof -
  have "{t. t < 3 \<and> queued (at both_asleep t)} = {1}" by (auto simp: both_asleep_def queued_def split: if_splits)
  then show ?thesis using mutex_word_counts [OF both_asleep_reachable] by simp
qed

text \<open>
  C28: No wake is lost: from every reachable state, whoever sleeps, the threads that are in an operation or hold the lock
  can all come to their end by their own steps, without a spurious wake and without a new operation.
\<close>
theorem mutex_drains:
  assumes "(mutex_step N)\<^sup>*\<^sup>* unlocked s" "N \<le> 16383"
  shows "\<exists>s'. (run_step N)\<^sup>*\<^sup>* s s' \<and> (\<forall>t < N. at s' t = Outside)"
  using drain [OF reachable_inv [OF assms] assms(2)] .

lemma mutex_drains_witness: "\<exists>s'. (run_step 3)\<^sup>*\<^sup>* both_asleep s' \<and> at s' 1 = Outside \<and> at s' 2 = Outside"
  using mutex_drains [OF both_asleep_reachable] by auto

text \<open>
  C29: Writers come first: while a writer waits or owns the lock, no step makes a thread a reader.
\<close>
theorem writers_first:
  assumes "(mutex_step N)\<^sup>*\<^sup>* unlocked s" "N \<le> 16383" "mutex_step N s s'" "u < N" "queued (at s u) \<or> owns (at s u)"
    "at s' t = Reading"
  shows "at s t = Reading"
proof (rule ccontr)
  assume nr: "at s t \<noteq> Reading"
  note i = lock_invD [OF reachable_inv [OF assms(1,2)]]
  have busy: "owner (Futex s) \<noteq> 0 \<or> writers (Futex s) \<noteq> 0"
    using i(1,2) assms(4,5) cnt_pos [of N owns "at s"] cnt_pos [of N queued "at s"] by auto
  have new: False if "thread_step T (Futex s) (at s v) = Some (F, Reading, w)" for T v F w
  proof -
    have "\<not> reads (at s v)" using that by (cases "at s v") (auto simp: reads_def Let_def split: prod.splits if_splits)
    then show False using new_reader [OF that] busy by (simp add: reads_def)
  qed
  show False using assms(3)
  proof (cases rule: mutex_step.cases)
    case run
    then show False using assms(6) nr new by (cases rule: run_step.cases) (auto simp: releases_def split: if_splits)
  qed (use assms(6) nr in \<open>auto simp: enters_def split: if_splits\<close>)
qed

lemma writers_first_witness: "\<exists>s'. mutex_step 3 both_asleep s' \<and> at s' 2 \<noteq> Reading"
proof -
  have "mutex_step 3 both_asleep (both_asleep\<lparr>at := (at both_asleep)(2 := Shared_Load)\<rparr>)" (is "mutex_step _ _ ?s")
    by (rule spurious_reader) (simp_all add: both_asleep_def)
  moreover have "at ?s 2 \<noteq> Reading"
    using writers_first [OF both_asleep_reachable _ \<open>mutex_step 3 both_asleep ?s\<close>, of 1 2] by (auto simp: both_asleep_def queued_def)
  ultimately show ?thesis by blast
qed

text \<open>The count of waiting writers has 14 bits: with 16383 of them, one more is counted as none.\<close>

lemma too_many_writers:
  "0xBFFF0000 AND WRITE_OWNED_BIT \<noteq> 0 \<and> writers 0xBFFF0000 = 16383 \<and>
   (\<exists>q. thread_step T 0xBFFF0000 Lock_Add = Some (0xC0000000, q, NoWake)) \<and> writers 0xC0000000 = 0"
  by (simp add: tests field_defs word_consts)

end
