(* ===== verification/MultiblockWalk.thy ===== *)
theory MultiblockWalk
  imports DecoderInstruction
begin

text \<open>
  What \<open>Decoder::DecodeInstructionsAtEntry\<close> (\<open>FEXCore/Source/Interface/Core/Frontend.cpp\<close>) decodes as one unit: blocks of
  instructions, found by following the branches from an entry point. The vector of blocks is a list in its order, a
  pointer into the buffer of decoded instructions is an index, and \<open>None\<close> is an access past the end of that buffer (or
  an undefined step of the decoder).
\<close>

section \<open>Data\<close>

record DecodedBlocks =
  Entry :: u64
  BlockSize :: u64
  NumInstructions :: nat
  DecodedInstructions :: nat
  BlockStatus :: DecodedBlockStatus
  IsEntryPoint :: bool
  ForceFullSMCDetection :: bool

abbreviation (input) DefaultDecodedBufferSize :: nat where "DefaultDecodedBufferSize \<equiv> 0x10000"

text \<open>
  What is fixed during a walk: the configuration, the host memory, and the services and tables of the decoder of one
  instruction (the fields \<open>InstStream\<close>, \<open>Code\<close>, \<open>EntryPoint\<close>, \<open>SectionMinAddress\<close> and \<open>Relocations\<close> of \<open>Env\<close> are set
  by the walk).
\<close>

record WalkEnv =
  Env :: DecoderEnv
  Memory :: "u64 \<Rightarrow> u8"
  OS_LINUX64 :: bool
  Multiblock :: bool
  MaxInstPerBlock :: nat
  CodeCacheSections :: bool
  LookupExecutableFileSection :: "u64 \<Rightarrow> (u64 \<times> u64 \<times> (u32 \<rightharpoonup> GuestRelocationType)) option"
  SectionMaxAddress :: u64

record Walk =
  Dec :: Decoder
  DecodedBuffer :: "nat \<Rightarrow> DecodedInst"
  DecodedSize :: nat
  DecodedMinAddress :: u64
  DecodedMaxAddress :: u64
  MaxCondBranchForward :: u64
  MaxCondBranchBackwards :: u64
  NextBlockStartAddress :: u64
  TotalInstructionCount :: nat
  Blocks :: "DecodedBlocks list"
  EntryPoints :: "u64 set"
  CodePages :: "u64 set"
  CurrentBlockTargets :: "u64 set"
  BlocksToDecode :: "u64 set"
  VisitedBlocks :: "u64 set"
  ExternalBranches :: "u64 set option"
  TotalInstructions :: nat
  CurrentCodePage :: u64
  FinalInstruction :: bool

definition set_block :: "nat \<Rightarrow> (DecodedBlocks \<Rightarrow> DecodedBlocks) \<Rightarrow> Walk \<Rightarrow> Walk" where
  "set_block i f w = w\<lparr>Blocks := (Blocks w)[i := f (Blocks w ! i)]\<rparr>"

text \<open>
  \<open>Literal()\<close> reads the first eight bytes of the operand's union, whatever its type; the record is cleared before
  an operand is set.
\<close>

fun Literal :: "DecodedOperand \<Rightarrow> u64" where
  "Literal OpNothing = 0"
| "Literal (OpGPR h r) = of_bool h OR push_bit 8 (zxt r)"
| "Literal (OpGPRDirect r) = push_bit 8 (zxt r)"
| "Literal (OpGPRIndirect x r) = x"
| "Literal (OpGPRIndirectRelocation x r) = x"
| "Literal (OpRIPRelative x) = x"
| "Literal (OpRIPRelativeRelocation x) = x"
| "Literal (OpLiteral x n) = x"
| "Literal (OpLiteralRelocation x) = x"
| "Literal (OpSIB x s i b) = x"
| "Literal (OpSIBRelocation x s i b) = x"

text \<open>The first block that does not start before an address (\<open>std::lower_bound\<close>).\<close>

definition lower_bound :: "DecodedBlocks list \<Rightarrow> u64 \<Rightarrow> nat" where
  "lower_bound Bs Address = length (takeWhile (\<lambda>a. Entry a < Address) Bs)"

section \<open>Branch targets\<close>

text \<open>Where to split a block: the first boundary between its instructions at or after the target.\<close>

fun SplitBoundary :: "Walk \<Rightarrow> DecodedBlocks \<Rightarrow> u64 \<Rightarrow> nat \<Rightarrow> nat \<Rightarrow> u64 \<Rightarrow> nat \<times> u64" where
  "SplitBoundary w B Target 0 SplitIdx SplitAddr = (SplitIdx, SplitAddr)"
| "SplitBoundary w B Target (Suc n) SplitIdx SplitAddr =
     (if SplitAddr < Target
      then SplitBoundary w B Target n (SplitIdx + 1)
             (SplitAddr + zxt (InstSize (DecodedBuffer w (DecodedInstructions B + SplitIdx))))
      else (SplitIdx, SplitAddr))"

definition SplitBlock :: "Walk \<Rightarrow> nat \<Rightarrow> u64 \<Rightarrow> Walk" where
  "SplitBlock w j Target =
     (let B = Blocks w ! j;
          (SplitIdx, SplitAddr) = SplitBoundary w B Target (NumInstructions B) 0 (Entry B);
          SplitOffset = SplitAddr - Entry B
      in if SplitAddr = Target
         then w\<lparr>Blocks := take j (Blocks w)
                  @ B\<lparr>BlockSize := SplitOffset, NumInstructions := SplitIdx\<rparr>
                  # \<lparr>Entry = SplitAddr, BlockSize = BlockSize B - SplitOffset, NumInstructions = NumInstructions B - SplitIdx,
                      DecodedInstructions = DecodedInstructions B + SplitIdx, BlockStatus = BlockStatus B,
                      IsEntryPoint = False, ForceFullSMCDetection = False\<rparr>
                  # drop (j + 1) (Blocks w)\<rparr>
         else w)"

definition InstEnd :: "Walk \<Rightarrow> u64" where
  "InstEnd w = PC (DecodeInst (Dec w)) + zxt (InstSize (DecodeInst (Dec w)))"

definition AddBranchTarget :: "u64 \<Rightarrow> Walk \<Rightarrow> Walk" where
  "AddBranchTarget Target w =
     (if Target \<in> VisitedBlocks w then w
      else
        let BlockSuccIt = lower_bound (Blocks w) Target
        in if BlockSuccIt \<noteq> 0 \<and>
              (let B = Blocks w ! (BlockSuccIt - 1) in Entry B + BlockSize B > Target)
           then VisitedBlocks_update (insert Target) (SplitBlock w (BlockSuccIt - 1) Target)
           else
             let w = CurrentBlockTargets_update (insert Target) w
             in if Target \<ge> InstEnd w \<and> Target < NextBlockStartAddress w
                then w\<lparr>NextBlockStartAddress := Target\<rparr> else w)"

definition MAX_FORWARD_BRANCH_DIST :: u64 where "MAX_FORWARD_BRANCH_DIST = 0x1000 * 4"

text \<open>The target of a branch with an immediate operand: whether the branch is conditional, and where it goes.\<close>

definition ImmediateBranch :: "DecoderEnv \<Rightarrow> Walk \<Rightarrow> (bool \<times> u64) option" where
  "ImmediateBranch E w =
     (let I = DecodeInst (Dec w);
          TargetRIP = InstEnd w + Literal (Src I ! 0);
          TargetRIP = (if \<not> Is64BitMode E then TargetRIP AND 0xFFFFFFFF else TargetRIP)
      in if 0x70 \<le> OP I \<and> OP I \<le> 0x7F \<or> 0x80 \<le> OP I \<and> OP I \<le> 0x8F then Some (True, TargetRIP)
         else if OP I = 0xE9 \<or> OP I = 0xEB then Some (False, TargetRIP)
         else None)"

text \<open>Follow it where it stays near, else note that it leaves.\<close>

definition FollowBranch :: "WalkEnv \<Rightarrow> bool \<Rightarrow> u64 \<Rightarrow> Walk \<Rightarrow> Walk" where
  "FollowBranch W Conditional TargetRIP w =
     (let End = InstEnd w;
          w = (if Conditional then AddBranchTarget End w else w);
          ValidMultiblockMember =
            TargetRIP \<ge> EntryPoint (Env W) \<and> TargetRIP < min (End + MAX_FORWARD_BRANCH_DIST) (SectionMaxAddress W)
      in if ValidMultiblockMember
         then
           let w = (if Conditional
                    then w\<lparr>MaxCondBranchForward := max (MaxCondBranchForward w) TargetRIP,
                           MaxCondBranchBackwards := min (MaxCondBranchBackwards w) TargetRIP\<rparr>
                    else w)
           in AddBranchTarget TargetRIP w
         else w\<lparr>ExternalBranches := map_option (insert TargetRIP) (ExternalBranches w)\<rparr>)"

definition BranchTargetInMultiblockRange :: "WalkEnv \<Rightarrow> Walk \<Rightarrow> Walk option" where
  "BranchTargetInMultiblockRange W w =
     (if \<not> Multiblock W then Some w
      else do {
        Info \<leftarrow> TableInfo (DecodeInst (Dec w));
        if Flags Info AND FLAGS_CALL \<noteq> 0 then
          (if ExecutableRangeWritable (Dec w) \<and> AreMonoHacksActive (Env W) then Some w
           else Some (EntryPoints_update (insert (InstEnd w)) (AddBranchTarget (InstEnd w) w)))
        else
          case ImmediateBranch (Env W) w of
            None \<Rightarrow> Some w
          | Some (Conditional, TargetRIP) \<Rightarrow> Some (FollowBranch W Conditional TargetRIP w) })"

section \<open>The end of a block\<close>

text \<open>The instruction \<open>n\<close> places before the last one decoded.\<close>

definition PrevInst :: "nat \<Rightarrow> Walk \<Rightarrow> DecodedInst" where
  "PrevInst n w = DecodedBuffer w (DecodedSize w - 1 - n)"

definition IsBranchMonoTailcall :: "DecoderEnv \<Rightarrow> nat \<Rightarrow> Walk \<Rightarrow> bool" where
  "IsBranchMonoTailcall E Num w =
     (let I = DecodeInst (Dec w)
      in if \<not> ExecutableRangeWritable (Dec w) then False
         else if \<not> Is64BitMode E then
           (if OP I \<noteq> 0xE9 \<or> Num < 2 then False
            else
              let Prev = PrevInst 1 w
              in if OP Prev = 0xC9 then True
                 else if Num < 3 \<or> OP (PrevInst 2 w) \<noteq> 0xC9 then False
                 else OP Prev = 0x90 \<or> OP Prev = 0x8B \<and> ModRM Prev = 0xC0 \<or>
                   OP Prev = 0x8D \<and> ModRM Prev = 0x6D \<and>
                     (case Src Prev ! 1 of OpLiteral v _ \<Rightarrow> v = 0 | _ \<Rightarrow> False))
         else
           case (OPRaw I = 0xFF \<and> ModRM_reg (ModRM I) = 4, Src I ! 0) of
             (True, OpGPR _ r) \<Rightarrow>
               let REX = FLAG_REX_PREFIX OR FLAG_REX_WIDENING OR FLAG_REX_XGPR_B OR FLAG_REX_XGPR_X OR FLAG_REX_XGPR_R
               in if r = 0 then InstFlags I AND REX = FLAG_REX_PREFIX OR FLAG_REX_WIDENING
                  else if Num > 1 \<and> r = 11
                  then OP (PrevInst 1 w) = 0xBB \<and> (case Dest (PrevInst 1 w) of OpGPR _ p \<Rightarrow> p = 11 | _ \<Rightarrow> False)
                  else False
           | _ \<Rightarrow> False)"

definition InstCanContinue :: "DecoderEnv \<Rightarrow> Walk \<Rightarrow> bool option" where
  "InstCanContinue E w =
     (if InstEnd w = NextBlockStartAddress w then Some False
      else do {
        Info \<leftarrow> TableInfo (DecodeInst (Dec w));
        if Flags Info AND (FLAGS_BLOCK_END OR FLAGS_SETS_RIP) = 0 then Some True
        else if OP (DecodeInst (Dec w)) = 0xE8 then
          (let TargetRIP = InstEnd w + Literal (Src (DecodeInst (Dec w)) ! 0);
               TargetRIP = (if \<not> Is64BitMode E then TargetRIP AND 0xFFFFFFFF else TargetRIP)
           in Some (TargetRIP = InstEnd w))
        else Some False })"

section \<open>The stream of code\<close>

definition VSyscallData :: "nat \<Rightarrow> u8" where
  "VSyscallData n =
     (case map_of [(0, 0xB8), (1, 0x60), (2, 0), (3, 0), (4, 0), (5, 0x0F), (6, 0x05), (7, 0xC3),
        (0x400, 0xB8), (0x401, 0xC9), (0x402, 0), (0x403, 0), (0x404, 0), (0x405, 0x0F), (0x406, 0x05), (0x407, 0xC3),
        (0x800, 0xB8), (0x801, 0x35), (0x802, 0x01), (0x803, 0), (0x804, 0), (0x805, 0x0F), (0x806, 0x05), (0x807, 0xC3)] n of
        None \<Rightarrow> 0xCC | Some b \<Rightarrow> b)"

definition VSyscall_Base :: u64 where "VSyscall_Base = 0xFFFFFFFFFF600000"
definition VSyscall_End :: u64 where "VSyscall_End = VSyscall_Base + 0x1000"

text \<open>Where the code of an address is: its address, and the bytes that are decoded in its place.\<close>

definition AdjustAddrForSpecialRegion :: "WalkEnv \<Rightarrow> u64 \<Rightarrow> u64 \<Rightarrow> u64 \<times> (nat \<Rightarrow> u8)" where
  "AdjustAddrForSpecialRegion W Stream RIP =
     (let At = Stream - EntryPoint (Env W) + RIP
      in if OS_LINUX64 W \<and> RIP \<ge> VSyscall_Base \<and> RIP < VSyscall_End
         then (At, \<lambda>n. VSyscallData (unat (RIP - VSyscall_Base) + n))
         else (At, \<lambda>n. Memory W (At + of_nat n)))"

definition StreamAt :: "WalkEnv \<Rightarrow> u64 \<Rightarrow> u64 \<Rightarrow> u64 \<Rightarrow> DecoderEnv" where
  "StreamAt W Stream RIP PCOffset =
     (let (At, Bytes) = AdjustAddrForSpecialRegion W Stream RIP
      in (Env W)\<lparr>InstStream := At + PCOffset, Code := (\<lambda>n. Bytes (unat PCOffset + n))\<rparr>)"

section \<open>Decoding a block\<close>

text \<open>Two null bytes, or bytes that cannot be read, look like garbage.\<close>

definition NullBytes :: "DecoderEnv \<Rightarrow> Decoder \<Rightarrow> (bool \<times> Decoder) option" where
  "NullBytes E d = do {
     (b0, d) \<leftarrow> PeekByte E 0 d;
     if b0 = None \<or> b0 = Some 0
     then do { (b1, d) \<leftarrow> PeekByte E 1 d; Some (b1 = None \<or> b1 = Some 0, d) }
     else Some (False, d) }"

definition TouchPage :: "u64 \<Rightarrow> Walk \<Rightarrow> Walk" where
  "TouchPage p w = (if p \<noteq> CurrentCodePage w then w\<lparr>CurrentCodePage := p, CodePages := insert p (CodePages w)\<rparr> else w)"

text \<open>Where the loop over the instructions of a block is: the block and what it was entered with.\<close>

record BlockContext =
  Stream :: u64
  MaxInst :: nat
  BlockIt :: nat
  RIPToDecode :: u64
  EntryBlock :: bool
  BlockStartOffset :: nat

datatype BlockStep = Continue | BreakBlock (EraseBlock: bool) | BadRelocation

definition AddInstruction :: "BlockContext \<Rightarrow> Walk \<Rightarrow> Walk" where
  "AddInstruction K w =
     set_block (BlockIt K)
       (\<lambda>B. B\<lparr>NumInstructions := NumInstructions B + 1, BlockSize := BlockSize B + zxt (InstSize (DecodeInst (Dec w)))\<rparr>)
       (w\<lparr>TotalInstructions := TotalInstructions w + 1, DecodedSize := DecodedSize w + 1\<rparr>)"

text \<open>The rest of the round after an instruction was added to the block.\<close>

definition FinishInstruction ::
  "WalkEnv \<Rightarrow> BlockContext \<Rightarrow> DecodedBlockStatus \<Rightarrow> Walk \<Rightarrow> (BlockStep \<times> Walk) option" where
  "FinishInstruction W K Status w =
     (if Status \<noteq> SUCCESS then
        (if \<not> EntryBlock K \<and> Status \<noteq> BAD_RELOCATION
         then Some (BreakBlock True,
                    w\<lparr>TotalInstructions := TotalInstructions w - NumInstructions (Blocks w ! BlockIt K),
                      DecodedSize := BlockStartOffset K\<rparr>)
         else Some (BreakBlock False, w))
      else
        let w = w\<lparr>FinalInstruction := DecodedSize w \<ge> MaxInst K \<or> DecodedSize w \<ge> DefaultDecodedBufferSize \<or>
                    TotalInstructions w \<ge> MaxInst K\<rparr>
        in if FinalInstruction w then Some (BreakBlock False, w)
           else do {
             C \<leftarrow> InstCanContinue (Env W) w;
             if C then Some (Continue, w)
             else do {
               Info \<leftarrow> TableInfo (DecodeInst (Dec w));
               if Flags Info AND FLAGS_SETS_RIP \<noteq> 0 then do {
                 let Tailcall = AreMonoHacksActive (Env W) \<and>
                       IsBranchMonoTailcall (Env W) (NumInstructions (Blocks w ! BlockIt K)) w;
                 let w = set_block (BlockIt K) (\<lambda>B. B\<lparr>ForceFullSMCDetection := Tailcall\<rparr>) w;
                 w \<leftarrow> BranchTargetInMultiblockRange W w;
                 Some (BreakBlock False, w) }
               else Some (BreakBlock False, w) } })"

text \<open>One round of the loop over the instructions of a block.\<close>

definition DecodeStep :: "WalkEnv \<Rightarrow> BlockContext \<Rightarrow> u64 \<Rightarrow> bool \<Rightarrow> Walk \<Rightarrow> (BlockStep \<times> Walk) option" where
  "DecodeStep W K PCOffset Erase w = do {
     let E = StreamAt W (Stream K) (RIPToDecode K) PCOffset;
     let OpAddress = RIPToDecode K + PCOffset;
     let OpMinPage = OpAddress AND FEX_PAGE_MASK;
     let OpMaxPage = (OpAddress + MAX_INST_SIZE) AND FEX_PAGE_MASK;
     let d = (Dec w)\<lparr>InstructionSize := 0\<rparr>;
     (Garbage, d) \<leftarrow> (if \<not> EntryBlock K \<and> OpMinPage = OpMaxPage then NullBytes E d else Some (False, d));
     if Garbage then Some (BreakBlock Erase, w\<lparr>Dec := d\<rparr>)
     else do {
       let w = TouchPage OpMaxPage (TouchPage OpMinPage w);
       (Status, d) \<leftarrow> (if DecodedSize w < DefaultDecodedBufferSize then DecodeInstruction E OpAddress d else None);
       let w = w\<lparr>Dec := d, DecodedBuffer := (DecodedBuffer w)(DecodedSize w := DecodeInst d)\<rparr>;
       let w = set_block (BlockIt K) (\<lambda>B. B\<lparr>BlockStatus := Status\<rparr>) w;
       if HitBadRelocation d
       then Some (BadRelocation,
                  w\<lparr>TotalInstructionCount := 0, Blocks := [Blocks w ! BlockIt K], EntryPoints := {}, CodePages := {}\<rparr>)
       else do {
         let OpEndAddress = OpAddress + zxt (InstSize (DecodeInst d));
         let w = w\<lparr>DecodedMinAddress := min (DecodedMinAddress w) OpAddress,
                   DecodedMaxAddress := max (DecodedMaxAddress w) OpEndAddress\<rparr>;
         if OpEndAddress > NextBlockStartAddress w then Some (BreakBlock Erase, w)
         else FinishInstruction W K Status (AddInstruction K w) } } }"

partial_function (option) BlockLoop ::
  "WalkEnv \<Rightarrow> BlockContext \<Rightarrow> u64 \<Rightarrow> bool \<Rightarrow> Walk \<Rightarrow> (BlockStep \<times> Walk) option" where
  "BlockLoop W K PCOffset Erase w = do {
     (s, w) \<leftarrow> DecodeStep W K PCOffset Erase w;
     if s = Continue then BlockLoop W K (PCOffset + zxt (InstSize (DecodeInst (Dec w)))) False w
     else Some (s, w) }"

section \<open>The walk\<close>

text \<open>The next address to decode, the lowest one, and the new block for it.\<close>

definition StartBlock :: "u64 \<Rightarrow> nat \<Rightarrow> bool \<Rightarrow> Walk \<Rightarrow> BlockContext \<times> Walk" where
  "StartBlock S Limit First w =
     (let RIP = Min (BlocksToDecode w);
          w = w\<lparr>BlocksToDecode := BlocksToDecode w - {RIP}, VisitedBlocks := insert RIP (VisitedBlocks w)\<rparr>;
          Succ = lower_bound (Blocks w) RIP;
          Next = (if BlocksToDecode w \<noteq> {} then Min (BlocksToDecode w) else - 1);
          Next = (if Succ < length (Blocks w) \<and> Entry (Blocks w ! Succ) < Next then Entry (Blocks w ! Succ) else Next);
          B = \<lparr>Entry = RIP, BlockSize = 0, NumInstructions = 0, DecodedInstructions = DecodedSize w, BlockStatus = SUCCESS,
               IsEntryPoint = First, ForceFullSMCDetection = False\<rparr>
      in (\<lparr>Stream = S, MaxInst = Limit, BlockIt = Succ, RIPToDecode = RIP, EntryBlock = First, BlockStartOffset = DecodedSize w\<rparr>,
          w\<lparr>NextBlockStartAddress := Next, Blocks := take Succ (Blocks w) @ B # drop Succ (Blocks w)\<rparr>))"

definition FinishBlock :: "BlockContext \<Rightarrow> bool \<Rightarrow> Walk \<Rightarrow> Walk" where
  "FinishBlock K Erase w =
     (if Erase
      then w\<lparr>Blocks := take (BlockIt K) (Blocks w) @ drop (BlockIt K + 1) (Blocks w), CurrentBlockTargets := {}\<rparr>
      else w\<lparr>BlocksToDecode := BlocksToDecode w \<union> CurrentBlockTargets w, CurrentBlockTargets := {}\<rparr>)"

text \<open>The loop over the blocks; the flag of the result says whether a relocation ended it.\<close>

partial_function (option) WalkLoop :: "WalkEnv \<Rightarrow> u64 \<Rightarrow> nat \<Rightarrow> bool \<Rightarrow> Walk \<Rightarrow> (bool \<times> Walk) option" where
  "WalkLoop W S Limit First w =
     (if FinalInstruction w \<or> BlocksToDecode w = {} then Some (False, w)
      else do {
        let (K, w) = StartBlock S Limit First w;
        (s, w) \<leftarrow> BlockLoop W K 0 True w;
        if s = BadRelocation then Some (True, w)
        else WalkLoop W S Limit False (FinishBlock K (EraseBlock s) w) })"

definition StartWalk :: "u64 \<Rightarrow> Walk \<Rightarrow> Walk" where
  "StartWalk pc w =
     (let Page = pc AND FEX_PAGE_MASK
      in w\<lparr>TotalInstructionCount := 0, Blocks := [], VisitedBlocks := {}, DecodedSize := 0, MaxCondBranchForward := 0,
           MaxCondBranchBackwards := - 1, EntryPoints := {pc}, DecodedMinAddress := pc, DecodedMaxAddress := pc,
           BlocksToDecode := {pc}, CurrentCodePage := Page, CodePages := {Page}, TotalInstructions := 0,
           FinalInstruction := False\<rparr>)"

text \<open>The section of the entry point, when code caches need it.\<close>

definition SectionEnv :: "WalkEnv \<Rightarrow> u64 \<Rightarrow> WalkEnv" where
  "SectionEnv W pc =
     (let (Low, High, R) =
        (case (CodeCacheSections W, LookupExecutableFileSection W pc) of
           (True, Some (FileStartVA, EndVA, R)) \<Rightarrow> (FileStartVA, EndVA, Some R)
         | _ \<Rightarrow> (0, - 1, None))
      in W\<lparr>SectionMaxAddress := High,
           Env := (Env W)\<lparr>EntryPoint := pc, SectionMinAddress := Low, Relocations := R\<rparr>\<rparr>)"

definition DecodeInstructionsAtEntry :: "WalkEnv \<Rightarrow> u64 \<Rightarrow> u64 \<Rightarrow> nat \<Rightarrow> Walk \<Rightarrow> Walk option" where
  "DecodeInstructionsAtEntry W S pc Limit w = do {
     (Bad, w) \<leftarrow> WalkLoop (SectionEnv W pc) S (if Limit = 0 then MaxInstPerBlock W else Limit) True (StartWalk pc w);
     if Bad then Some w
     else Some (w\<lparr>TotalInstructionCount := TotalInstructions w,
                  Blocks := map (\<lambda>B. B\<lparr>IsEntryPoint := Entry B \<in> EntryPoints w\<rparr>) (Blocks w)\<rparr>) }"

definition CheckIfCacheable :: "WalkEnv \<Rightarrow> u64 \<Rightarrow> u64 \<Rightarrow> nat \<Rightarrow> Walk \<Rightarrow> (bool \<times> Walk) option" where
  "CheckIfCacheable W S pc Limit w = do {
     w \<leftarrow> DecodeInstructionsAtEntry W S pc Limit w;
     Some (\<not> HitBadRelocation (Dec w), w) }"

end
