(* ===== verification/MultiblockSafety.thy ===== *)
theory MultiblockSafety
  imports MultiblockWalk InstructionSafety "HOL-Library.Multiset"
begin

section \<open>The decoder at an address\<close>

text \<open>
  The addresses a walk may look at: its entry point, and from an address where code may be executed the addresses from
  the entry point up to the end of the instruction there and the distance of a forward branch.
\<close>

inductive near :: "WalkEnv \<Rightarrow> u64 \<Rightarrow> bool" for W where
  near_start: "near W (EntryPoint (Env W))"
| near_step: "near W a \<Longrightarrow> executable_at (Env W) a \<Longrightarrow> EntryPoint (Env W) \<le> t \<Longrightarrow> unat t \<le> unat a + (40 + 0x4000) \<Longrightarrow>
    near W t"

text \<open>
  What the walk needs: the host address of code is its guest address, the services keep their contract, and of the
  addresses it may look at those where code may be executed are below \<open>2 ^ 48\<close> and begin no instruction with too many
  prefixes.
\<close>

definition stream_ok :: "WalkEnv \<Rightarrow> u64 \<Rightarrow> bool" where
  "stream_ok W S \<longleftrightarrow> S = EntryPoint (Env W) \<and> unat S < 2 ^ 48 \<and> executable_ranges (QueryGuestExecutableRange (Env W)) \<and>
     (\<exists>r a s. (X87TablePtr (Env W), VEXTablePtr (Env W), VEXTableGroupPtr (Env W)) = DecoderTablesFor r a s) \<and>
     (\<forall>a. near W a \<longrightarrow> executable_at (Env W) a \<longrightarrow> unat a < 2 ^ 48) \<and>
     (\<forall>RIP off. near W (RIP + off) \<longrightarrow> executable_at (Env W) (RIP + off) \<longrightarrow> few_prefixes (StreamAt W S RIP off))"

abbreviation (input) TOP :: nat where "TOP \<equiv> 2 ^ 48 + 0x5000"

lemma near_start': "near W pc" if "EntryPoint (Env W) = pc"
  using near_start [of W] that by simp

lemma near_ge: "near W t \<Longrightarrow> EntryPoint (Env W) \<le> t"
  by (induction rule: near.induct) simp_all

lemma near_top: "near W t \<Longrightarrow> stream_ok W S \<Longrightarrow> unat t < TOP"
proof (induction rule: near.induct)
  case near_start
  then show ?case by (auto simp: stream_ok_def)
next
  case (near_step a t)
  then have "unat a < 2 ^ 48" by (simp add: stream_ok_def)
  then show ?case using near_step.hyps(4) by simp
qed

lemma StreamAt_simps:
  "QueryGuestExecutableRange (StreamAt W S RIP off) = QueryGuestExecutableRange (Env W)"
  "X87TablePtr (StreamAt W S RIP off) = X87TablePtr (Env W)"
  "VEXTablePtr (StreamAt W S RIP off) = VEXTablePtr (Env W)"
  "VEXTableGroupPtr (StreamAt W S RIP off) = VEXTableGroupPtr (Env W)"
  "S = EntryPoint (Env W) \<Longrightarrow> InstStream (StreamAt W S RIP off) = RIP + off"
  by (simp_all add: StreamAt_def AdjustAddrForSpecialRegion_def Let_def)

lemma cache_ok_StreamAt: "cache_ok (StreamAt W S RIP off) d \<longleftrightarrow> cache_ok (Env W) d"
  by (simp add: cache_ok_def executable_at_def StreamAt_simps)

lemma NullBytes_ok:
  assumes "stream_ok W S" "cache_ok (Env W) d" "unat (RIP + off) < 2 ^ 50" "InstructionSize d = 0"
  shows "ok (NullBytes (StreamAt W S RIP off) d) (\<lambda>r. cache_ok (Env W) (snd r))"
proof -
  let ?E = "StreamAt W S RIP off"
  have q: "executable_ranges (QueryGuestExecutableRange ?E)" using assms(1) by (simp add: stream_ok_def StreamAt_simps)
  have i: "InstStream ?E = RIP + off" using assms(1) by (simp add: stream_ok_def StreamAt_simps)
  have peek: "ok (PeekByte ?E n d) (\<lambda>r. cache_ok ?E (snd r) \<and> InstructionSize (snd r) = 0)"
    if c: "cache_ok ?E d" "InstructionSize d = 0" "n < 2" for n d
  proof -
    have n: "unat n < 2" using c(3) by (simp add: word_less_nat_alt)
    have "unat (RIP + off + of_nat (unat n)) = unat (RIP + off) + unat n"
      using assms(3) n by (intro unat_plus_nat) simp
    then have "unat (RIP + off + of_nat (unat n)) + unat (1 :: u64) < 2 ^ 64" using assms(3) n by simp
    from executable_ranges.check_correct [OF q refl this _ c(1)] obtain x d' where
      d': "CheckRangeExecutable ?E (RIP + off + of_nat (unat n)) 1 d = Some (x, d')" "cache_ok ?E d'" by auto
    moreover have "InstructionSize d' = 0" using CheckRangeExecutable_frame [OF d'(1)] c(2) by auto
    ultimately show ?thesis using c(2) by (simp add: PeekByte_def i del: of_nat_unat)
  qed
  have "cache_ok ?E d" using assms(2) by (simp add: cache_ok_StreamAt)
  then show ?thesis unfolding NullBytes_def
    by (intro ok_bindI [OF peek] ok_ifI)
      (auto simp: assms(4) cache_ok_StreamAt intro!: ok_bindI [OF peek])
qed

lemma decode_at:
  assumes "stream_ok W S" "cache_ok (Env W) d" "near W (RIP + off)"
  shows "ok (DecodeInstruction (StreamAt W S RIP off) (RIP + off) d) (\<lambda>(st, d'). cache_ok (Env W) d' \<and>
    PC (DecodeInst d') = RIP + off \<and> st \<noteq> BAD_RELOCATION \<and> (st = SUCCESS \<longrightarrow> 0 < InstSize (DecodeInst d') \<and> unat (InstSize (DecodeInst d')) \<le> 40 \<and>
      unat (RIP + off) < 2 ^ 48 \<and> executable_at (Env W) (RIP + off) \<and> TableInfo (DecodeInst d') \<noteq> None))"
proof -
  let ?E = "StreamAt W S RIP off"
  have i: "InstStream ?E = RIP + off" using assms(1) by (simp add: stream_ok_def StreamAt_simps)
  have top: "unat (RIP + off) < TOP" by (rule near_top [OF assms(3,1)])
  have ex: "executable_at ?E a = executable_at (Env W) a" for a by (simp add: executable_at_def StreamAt_simps)
  have env: "env_ok ?E" using assms(1) top unfolding env_ok_def stream_ok_def i by (auto simp: StreamAt_simps)
  have cache: "cache_ok ?E d" using assms(2) by (simp add: cache_ok_StreamAt)
  have "ok (DecodeInstruction ?E (RIP + off) d) (outcome ?E (RIP + off))"
  proof (cases "executable_at ?E (InstStream ?E)")
    case True
    then have "few_prefixes ?E" using assms(1,3) unfolding stream_ok_def ex i by blast
    then show ?thesis by (rule DecodeInstruction_ok [OF env _ cache])
  qed (rule DecodeInstruction_unread [OF env cache])
  then obtain st d' where d: "DecodeInstruction ?E (RIP + off) d = Some (st, d')" "outcome ?E (RIP + off) (st, d')"
    by (auto simp: ok_def)
  have "0 < InstSize (DecodeInst d') \<and> unat (InstSize (DecodeInst d')) \<le> 40 \<and> unat (RIP + off) < 2 ^ 48 \<and>
      executable_at (Env W) (RIP + off) \<and> TableInfo (DecodeInst d') \<noteq> None"
    if "st = SUCCESS"
  proof -
    have s: "0 < InstSize (DecodeInst d')" "unat (InstSize (DecodeInst d')) \<le> 40"
      "\<forall>b \<in> span (InstStream ?E) (unat (InstSize (DecodeInst d'))). executable_at ?E b"
      "\<not> no_dispatcher (TableInfo (DecodeInst d'))" using d(2) that by (simp_all add: outcome_def)
    have "RIP + off \<in> span (InstStream ?E) (unat (InstSize (DecodeInst d')))"
      using s(1) by (simp add: i span_def word_less_nat_alt)
    then have e: "executable_at (Env W) (RIP + off)" using s(3) ex by blast
    then have "unat (RIP + off) < 2 ^ 48" using assms(1,3) unfolding stream_ok_def by blast
    then show ?thesis using s(1,2,4) e by (auto simp: no_dispatcher_def split: option.splits)
  qed
  then show ?thesis using d by (simp add: outcome_def cache_ok_StreamAt)
qed

lemma unat_zxt8: "unat (zxt (b :: u8) :: u64) = unat b"
proof -
  have "unat b < 2 ^ 64" using u8_less [of b] by (simp del: u8_less)
  then have "unat (of_nat (unat b) :: u64) = unat b" by (rule unat_of_nat_u64)
  then show ?thesis by simp
qed

section \<open>The invariant\<close>

definition insts :: "(nat \<Rightarrow> DecodedInst) \<Rightarrow> DecodedBlocks \<Rightarrow> DecodedInst list" where
  "insts buf B = map buf [DecodedInstructions B ..< DecodedInstructions B + NumInstructions B]"

definition bytes :: "DecodedInst list \<Rightarrow> nat" where
  "bytes Is = sum_list (map (\<lambda>I. unat (InstSize I)) Is)"

lemma bytes_simps [simp]: "bytes [] = 0" "bytes (I # Is) = unat (InstSize I) + bytes Is" "bytes (Is @ Js) = bytes Is + bytes Js"
  by (simp_all add: bytes_def)

text \<open>Instructions that follow each other from an address on.\<close>

fun consecutive :: "nat \<Rightarrow> DecodedInst list \<Rightarrow> bool" where
  "consecutive a [] = True"
| "consecutive a (I # Is) \<longleftrightarrow> unat (PC I) = a \<and> consecutive (a + unat (InstSize I)) Is"

lemma consecutive_append: "consecutive a (Is @ Js) \<longleftrightarrow> consecutive a Is \<and> consecutive (a + bytes Is) Js"
  by (induction Is arbitrary: a) (auto simp: add.assoc)

definition block_ok :: "(nat \<Rightarrow> DecodedInst) \<Rightarrow> DecodedBlocks \<Rightarrow> bool" where
  "block_ok buf B \<longleftrightarrow> consecutive (unat (Entry B)) (insts buf B) \<and> unat (BlockSize B) = bytes (insts buf B) \<and>
     unat (Entry B) + unat (BlockSize B) < 2 ^ 49"

definition apart :: "DecodedBlocks \<Rightarrow> DecodedBlocks \<Rightarrow> bool" where
  "apart A B \<longleftrightarrow> Entry A < Entry B \<and> unat (Entry A) + unat (BlockSize A) \<le> unat (Entry B)"

definition indices :: "DecodedBlocks \<Rightarrow> nat list" where
  "indices B = [DecodedInstructions B ..< DecodedInstructions B + NumInstructions B]"

definition all_indices :: "DecodedBlocks list \<Rightarrow> nat multiset" where
  "all_indices Bs = mset (concat (map indices Bs))"

lemma all_indices_simps [simp]:
  "all_indices [] = {#}" "all_indices (B # Bs) = mset (indices B) + all_indices Bs"
  "all_indices (As @ Bs) = all_indices As + all_indices Bs"
  by (simp_all add: all_indices_def)

definition inside_block :: "u64 \<Rightarrow> DecodedBlocks \<Rightarrow> bool" where
  "inside_block t B \<longleftrightarrow> Entry B < t \<and> unat t < unat (Entry B) + unat (BlockSize B)"

text \<open>Where the walk was: the pages and the range of addresses include the instruction.\<close>

definition covered :: "Walk \<Rightarrow> DecodedInst \<Rightarrow> bool" where
  "covered w I \<longleftrightarrow> PC I AND FEX_PAGE_MASK \<in> CodePages w \<and> (PC I + 15) AND FEX_PAGE_MASK \<in> CodePages w \<and>
     DecodedMinAddress w \<le> PC I \<and> PC I + zxt (InstSize I) \<le> DecodedMaxAddress w"

definition targets_ok :: "WalkEnv \<Rightarrow> Walk \<Rightarrow> u64 set \<Rightarrow> bool" where
  "targets_ok W w T \<longleftrightarrow> finite T \<and> T \<inter> VisitedBlocks w = {} \<and> (\<forall>t \<in> T. near W t \<and> (\<forall>B \<in> set (Blocks w). \<not> inside_block t B))"

definition walk_inv :: "WalkEnv \<Rightarrow> nat \<Rightarrow> Walk \<Rightarrow> bool" where
  "walk_inv W Limit w \<longleftrightarrow> cache_ok (Env W) (Dec w) \<and> sorted_wrt apart (Blocks w) \<and>
     (\<forall>B \<in> set (Blocks w). block_ok (DecodedBuffer w) B \<and> Entry B \<in> VisitedBlocks w \<and> 0 < NumInstructions B \<and>
        (\<forall>I \<in> set (insts (DecodedBuffer w) B). covered w I)) \<and>
     all_indices (Blocks w) = mset [0..<DecodedSize w] \<and> TotalInstructions w = DecodedSize w \<and>
     DecodedSize w \<le> Limit \<and> DecodedSize w \<le> DefaultDecodedBufferSize \<and>
     CurrentCodePage w \<in> CodePages w \<and> targets_ok W w (BlocksToDecode w \<union> CurrentBlockTargets w)"

lemma block_range:
  assumes "all_indices Bs = mset [0..<n]" "B \<in> set Bs" "0 < NumInstructions B"
  shows "DecodedInstructions B + NumInstructions B \<le> n"
proof -
  have "set (indices B) \<subseteq> set_mset (all_indices Bs)" using assms(2) by (auto simp: all_indices_def)
  then have "set (indices B) \<subseteq> {0..<n}" unfolding assms(1) by simp
  moreover have "DecodedInstructions B + NumInstructions B - 1 \<in> set (indices B)" using assms(3) by (simp add: indices_def)
  ultimately show ?thesis by auto
qed

lemma insts_cong:
  "(\<And>i. i < DecodedInstructions B + NumInstructions B \<Longrightarrow> buf i = buf' i) \<Longrightarrow> insts buf B = insts buf' B"
  unfolding insts_def by (rule map_cong) auto

text \<open>Where the block around an address is.\<close>

lemma lower_bound_split:
  assumes "sorted_wrt apart Bs"
  shows "\<forall>B \<in> set (take (lower_bound Bs a) Bs). Entry B < a" "\<forall>B \<in> set (drop (lower_bound Bs a) Bs). a \<le> Entry B"
    "lower_bound Bs a \<le> length Bs"
proof -
  let ?P = "\<lambda>B. Entry B < a"
  have t: "take (lower_bound Bs a) Bs = takeWhile ?P Bs" by (simp add: lower_bound_def takeWhile_eq_take [symmetric])
  show "\<forall>B \<in> set (take (lower_bound Bs a) Bs). Entry B < a" unfolding t by (auto dest: set_takeWhileD)
  have d: "drop (lower_bound Bs a) Bs = dropWhile ?P Bs" by (simp add: lower_bound_def dropWhile_eq_drop [symmetric])
  show "lower_bound Bs a \<le> length Bs" by (simp add: lower_bound_def length_takeWhile_le)
  have s: "sorted_wrt apart (dropWhile ?P Bs)" using sorted_wrt_drop [OF assms] unfolding d [symmetric] .
  show "\<forall>B \<in> set (drop (lower_bound Bs a) Bs). a \<le> Entry B"
  proof (cases "dropWhile ?P Bs")
    case Nil
    show ?thesis unfolding d Nil by simp
  next
    case (Cons C Cs)
    have "\<not> Entry C < a" using hd_dropWhile [of ?P Bs] Cons by auto
    then show ?thesis using s unfolding d Cons by (auto simp: apart_def)
  qed
qed

section \<open>Branch targets\<close>

lemma SplitBoundary_prefix:
  assumes "SplitBoundary w B T n idx a = (k, a')"
  defines "Is \<equiv> map (DecodedBuffer w) [DecodedInstructions B + idx ..< DecodedInstructions B + idx + n]"
  shows "\<exists>m \<le> n. k = idx + m \<and> a' = a + of_nat (bytes (take m Is)) \<and> (a < T \<and> 0 < n \<longrightarrow> 0 < m)"
  using assms(1) unfolding Is_def
proof (induction n arbitrary: idx a)
  case (Suc n)
  let ?I = "DecodedBuffer w (DecodedInstructions B + idx)"
  show ?case
  proof (cases "a < T")
    case True
    then have "SplitBoundary w B T n (idx + 1) (a + zxt (InstSize ?I)) = (k, a')" using Suc.prems by simp
    from Suc.IH [OF this] obtain m where m: "m \<le> n" "k = idx + 1 + m"
      "a' = a + zxt (InstSize ?I) + of_nat (bytes (take m (map (DecodedBuffer w)
        [DecodedInstructions B + (idx + 1) ..< DecodedInstructions B + (idx + 1) + n])))" by blast
    have "zxt (InstSize ?I) = (of_nat (unat (InstSize ?I)) :: u64)" by simp
    then show ?thesis using m by (intro exI [of _ "Suc m"]) (simp add: upt_conv_Cons del: upt_Suc)
  next
    case False
    then show ?thesis using Suc.prems by (intro exI [of _ 0]) simp
  qed
qed simp

definition targets :: "Walk \<Rightarrow> u64 set" where
  "targets w = BlocksToDecode w \<union> CurrentBlockTargets w"

text \<open>What adding a target leaves alone.\<close>

definition same_code :: "Walk \<Rightarrow> Walk \<Rightarrow> bool" where
  "same_code w w' \<longleftrightarrow> Dec w' = Dec w \<and> DecodedBuffer w' = DecodedBuffer w \<and> DecodedSize w' = DecodedSize w \<and>
     TotalInstructions w' = TotalInstructions w \<and> FinalInstruction w' = FinalInstruction w \<and>
     BlocksToDecode w' = BlocksToDecode w \<and> CodePages w' = CodePages w \<and> CurrentCodePage w' = CurrentCodePage w \<and>
     DecodedMinAddress w' = DecodedMinAddress w \<and> DecodedMaxAddress w' = DecodedMaxAddress w"

lemma same_code_refl: "same_code w w" by (simp add: same_code_def)

lemma same_code_trans: "same_code w w' \<Longrightarrow> same_code w' w'' \<Longrightarrow> same_code w w''"
  by (simp add: same_code_def)

lemma covered_same: "same_code w w' \<Longrightarrow> covered w' I = covered w I"
  by (simp add: same_code_def covered_def)

lemma SplitBlock_frame: "same_code w (SplitBlock w j T)" "VisitedBlocks (SplitBlock w j T) = VisitedBlocks w"
  "CurrentBlockTargets (SplitBlock w j T) = CurrentBlockTargets w"
  by (simp_all add: SplitBlock_def same_code_def Let_def split: prod.splits)

lemma AddBranchTarget_frame: "same_code w (AddBranchTarget T w)"
proof -
  have "same_code w (VisitedBlocks_update f (SplitBlock w j T))" for f j
    using SplitBlock_frame(1) [of w j T] by (simp add: same_code_def)
  then show ?thesis by (auto simp: AddBranchTarget_def Let_def same_code_def)
qed

lemma SplitBlock_cases:
  assumes "Blocks w = L @ B # R" "j = length L" "block_ok (DecodedBuffer w) B" "inside_block T B" "0 < NumInstructions B"
  obtains (same) "SplitBlock w j T = w"
  | (split) B1 B2 where "Blocks (SplitBlock w j T) = L @ B1 # B2 # R" "Entry B1 = Entry B" "Entry B2 = T"
      "unat (BlockSize B1) = unat T - unat (Entry B)" "unat (BlockSize B2) = unat (Entry B) + unat (BlockSize B) - unat T"
      "insts (DecodedBuffer w) B = insts (DecodedBuffer w) B1 @ insts (DecodedBuffer w) B2"
      "indices B = indices B1 @ indices B2" "0 < NumInstructions B1" "0 < NumInstructions B2"
      "block_ok (DecodedBuffer w) B1" "block_ok (DecodedBuffer w) B2"
proof -
  let ?Is = "insts (DecodedBuffer w) B"
  obtain k a where ka: "SplitBoundary w B T (NumInstructions B) 0 (Entry B) = (k, a)" by fastforce
  have T: "Entry B < T" "unat T < unat (Entry B) + unat (BlockSize B)" using assms(4) by (auto simp: inside_block_def)
  from SplitBoundary_prefix [OF ka] T(1) assms(5) have k: "k \<le> NumInstructions B" "a = Entry B + of_nat (bytes (take k ?Is))" "0 < k"
    by (auto simp: insts_def)
  have b: "consecutive (unat (Entry B)) ?Is" "unat (BlockSize B) = bytes ?Is" "unat (Entry B) + unat (BlockSize B) < 2 ^ 49"
    using assms(3) by (auto simp: block_ok_def)
  have td: "bytes ?Is = bytes (take k ?Is) + bytes (drop k ?Is)" by (metis append_take_drop_id bytes_simps(3))
  have ua: "unat a = unat (Entry B) + bytes (take k ?Is)" unfolding k(2) using b td by (intro unat_plus_nat) simp
  have nth: "Blocks w ! j = B" using assms(1,2) by simp
  show thesis
  proof (cases "a = T")
    case False
    then have "SplitBlock w j T = w" by (simp add: SplitBlock_def nth ka)
    then show thesis by (rule same)
  next
    case True
    let ?B1 = "B\<lparr>BlockSize := T - Entry B, NumInstructions := k\<rparr>"
    let ?B2 = "\<lparr>Entry = T, BlockSize = BlockSize B - (T - Entry B), NumInstructions = NumInstructions B - k,
                DecodedInstructions = DecodedInstructions B + k, BlockStatus = BlockStatus B,
                IsEntryPoint = False, ForceFullSMCDetection = False\<rparr>"
    have bl: "Blocks (SplitBlock w j T) = L @ ?B1 # ?B2 # R" using True by (simp add: SplitBlock_def nth ka assms(1,2) Let_def)
    have i1: "insts (DecodedBuffer w) ?B1 = take k ?Is" using k(1) by (simp add: insts_def take_map)
    have i2: "insts (DecodedBuffer w) ?B2 = drop k ?Is" using k(1) by (simp add: insts_def drop_map)
    have less: "k < NumInstructions B"
    proof (rule ccontr)
      assume "\<not> k < NumInstructions B"
      then have "take k ?Is = ?Is" using k(1) by (simp add: insts_def)
      then show False using ua T(2) True b(2) by simp
    qed
    have s1: "unat (T - Entry B) = unat T - unat (Entry B)" using T(1) by (simp add: unat_sub_if_size word_less_nat_alt)
    then have "unat (T - Entry B) \<le> unat (BlockSize B)" using T(2) by linarith
    then have "unat (BlockSize B - (T - Entry B)) = unat (BlockSize B) - unat (T - Entry B)" by (simp add: unat_sub_if_size)
    then have s2: "unat (BlockSize B - (T - Entry B)) = unat (Entry B) + unat (BlockSize B) - unat T"
      using s1 T by (simp add: word_less_nat_alt)
    have c: "consecutive (unat (Entry B)) (take k ?Is)" "consecutive (unat T) (drop k ?Is)"
      using b(1) consecutive_append [of "unat (Entry B)" "take k ?Is" "drop k ?Is"] ua True by simp_all
    have "block_ok (DecodedBuffer w) ?B1" unfolding block_ok_def i1 using c(1) s1 ua True T(2) b(3) by simp
    moreover have "block_ok (DecodedBuffer w) ?B2" unfolding block_ok_def i2 using c(2) s2 ua True T(2) b td by simp
    moreover have "indices B = indices ?B1 @ indices ?B2"
      using k(1) upt_add_eq_append [of "DecodedInstructions B" "DecodedInstructions B + k" "NumInstructions B - k"]
      by (simp add: indices_def)
    ultimately show thesis using split [OF bl] s1 s2 i1 i2 less k(3) by simp
  qed
qed

lemma inside_sub:
  "Entry B \<le> Entry B' \<Longrightarrow> unat (Entry B') + unat (BlockSize B') \<le> unat (Entry B) + unat (BlockSize B) \<Longrightarrow>
   inside_block t B' \<Longrightarrow> inside_block t B"
  by (auto simp: inside_block_def)

lemma unat_add_u64: "unat (a :: u64) + unat b < 2 ^ 64 \<Longrightarrow> unat (a + b) = unat a + unat b"
  by (simp add: unat_plus_if_size word_size)

text \<open>A split of a block into two keeps the invariant.\<close>

lemma walk_inv_split:
  assumes inv: "walk_inv W Limit w" and bl: "Blocks w = L @ B # R" and T: "inside_block T B"
  shows "walk_inv W Limit (VisitedBlocks_update (insert T) (SplitBlock w (length L) T))"
proof -
  let ?w = "SplitBlock w (length L) T"
  have i: "cache_ok (Env W) (Dec w)" "sorted_wrt apart (Blocks w)" "all_indices (Blocks w) = mset [0..<DecodedSize w]"
    "TotalInstructions w = DecodedSize w" "DecodedSize w \<le> Limit" "DecodedSize w \<le> DefaultDecodedBufferSize"
    "CurrentCodePage w \<in> CodePages w" "targets_ok W w (BlocksToDecode w \<union> CurrentBlockTargets w)"
    using inv unfolding walk_inv_def by blast+
  have blk: "block_ok (DecodedBuffer w) C \<and> Entry C \<in> VisitedBlocks w \<and> 0 < NumInstructions C \<and>
      (\<forall>I \<in> set (insts (DecodedBuffer w) C). covered w I)" if "C \<in> set (Blocks w)" for C
    using inv that unfolding walk_inv_def by blast
  have B: "block_ok (DecodedBuffer w) B" "Entry B \<in> VisitedBlocks w" "0 < NumInstructions B"
    "\<forall>I \<in> set (insts (DecodedBuffer w) B). covered w I" using blk [of B] by (simp_all add: bl)
  have TB: "Entry B < T" "unat T < unat (Entry B) + unat (BlockSize B)" using T by (auto simp: inside_block_def)
  have nT: "T \<notin> BlocksToDecode w \<union> CurrentBlockTargets w" using i(8) T by (auto simp: targets_ok_def bl)
  note fr = SplitBlock_frame [of w "length L" T]
  show ?thesis
  proof (cases rule: SplitBlock_cases [OF bl refl B(1) T B(3), case_names same split])
    case same
    have "targets_ok W (VisitedBlocks_update (insert T) w) (BlocksToDecode w \<union> CurrentBlockTargets w)"
      using i(8) nT by (auto simp: targets_ok_def)
    moreover have "covered (VisitedBlocks_update (insert T) w) I = covered w I" for I by (simp add: covered_def)
    ultimately show ?thesis using i blk unfolding walk_inv_def same by simp
  next
    case (split B1 B2)
    have e: "Entry B \<le> Entry B1" "Entry B \<le> Entry B2" using split(2,3) TB(1) by auto
    have z: "unat (Entry B1) + unat (BlockSize B1) \<le> unat T"
      "unat (Entry B2) + unat (BlockSize B2) = unat (Entry B) + unat (BlockSize B)"
      using split(2-5) TB by (auto simp: word_less_nat_alt)
    have "Entry B2 < Entry C" if "C \<in> set R" for C
      using i(2) that split(3) TB unfolding bl sorted_wrt_append by (auto simp: apart_def word_less_nat_alt)
    then have s: "sorted_wrt apart (L @ B1 # B2 # R)"
      using i(2) split(2,3) z TB unfolding bl sorted_wrt_append by (auto simp: apart_def)
    have tg: "targets_ok W (VisitedBlocks_update (insert T) ?w) (BlocksToDecode w \<union> CurrentBlockTargets w)"
    proof -
      have "\<not> inside_block t C" if "t \<in> BlocksToDecode w \<union> CurrentBlockTargets w" "C \<in> set (L @ B1 # B2 # R)" for t C
      proof -
        have o: "\<not> inside_block t D" if "D \<in> set (L @ B # R)" for D
          using i(8) \<open>t \<in> _\<close> that by (auto simp: targets_ok_def bl)
        have "\<not> inside_block t B1" "\<not> inside_block t B2"
          using o [of B] inside_sub [OF e(1)] inside_sub [OF e(2)] z TB(2) by auto
        then show ?thesis using o that(2) by auto
      qed
      then show ?thesis using i(8) nT fr(2) by (auto simp: targets_ok_def split(1))
    qed
    have cov: "covered (VisitedBlocks_update (insert T) ?w) I = covered w I" for I
      using covered_same [OF fr(1)] by (simp add: covered_def)
    have ok: "block_ok (DecodedBuffer w) C \<and> Entry C \<in> insert T (VisitedBlocks w) \<and> 0 < NumInstructions C \<and>
      (\<forall>I \<in> set (insts (DecodedBuffer w) C). covered w I)" if "C \<in> set (L @ B1 # B2 # R)" for C
      using that blk B split(2,3,6,8-11) by (auto simp: bl)
    have ix: "all_indices (L @ B1 # B2 # R) = mset [0..<DecodedSize w]" using i(3) by (simp add: bl split(7) add.assoc)
    show ?thesis unfolding walk_inv_def
      using i s tg ok ix fr by (simp add: cov split(1) same_code_def)
  qed
qed

lemma AddBranchTarget_inv:
  assumes inv: "walk_inv W Limit w" and T: "near W T"
  shows "walk_inv W Limit (AddBranchTarget T w)" "targets (AddBranchTarget T w) \<subseteq> insert T (targets w)"
    "Entry ` set (Blocks w) \<subseteq> Entry ` set (Blocks (AddBranchTarget T w))"
proof -
  have i: "sorted_wrt apart (Blocks w)" "targets_ok W w (BlocksToDecode w \<union> CurrentBlockTargets w)"
    using inv unfolding walk_inv_def by blast+
  have blk: "block_ok (DecodedBuffer w) C \<and> 0 < NumInstructions C" if "C \<in> set (Blocks w)" for C
    using inv that unfolding walk_inv_def by blast
  let ?j = "lower_bound (Blocks w) T"
  have goal: "walk_inv W Limit (AddBranchTarget T w) \<and> targets (AddBranchTarget T w) \<subseteq> insert T (targets w) \<and>
    Entry ` set (Blocks w) \<subseteq> Entry ` set (Blocks (AddBranchTarget T w))"
  proof (cases "T \<in> VisitedBlocks w")
    case True
    then show ?thesis using inv by (auto simp: AddBranchTarget_def)
  next
    case visited: False
    note lb = lower_bound_split [OF i(1), of T]
    show ?thesis
    proof (cases "?j \<noteq> 0 \<and> (let B = Blocks w ! (?j - 1) in Entry B + BlockSize B > T)")
      case True
      have j: "?j - 1 < length (Blocks w)" "Suc (?j - 1) = ?j" using True lb(3) by linarith+
      obtain B L R where B_def: "B = Blocks w ! (?j - 1)" and bl: "Blocks w = L @ B # R" and L: "length L = ?j - 1"
        using id_take_nth_drop [OF j(1)] j(1) by (metis length_take min.absorb4)
      have "B \<in> set (take ?j (Blocks w))" using True j by (auto simp: B_def in_set_conv_nth intro!: exI [of _ "?j - 1"])
      then have "Entry B < T" using lb(1) by blast
      moreover have "unat (Entry B + BlockSize B) = unat (Entry B) + unat (BlockSize B)"
        using blk [of B] j by (intro unat_add_u64) (auto simp: B_def block_ok_def)
      ultimately have ins: "inside_block T B" using True by (simp add: inside_block_def B_def Let_def word_less_nat_alt)
      have eq: "AddBranchTarget T w = VisitedBlocks_update (insert T) (SplitBlock w (length L) T)"
        using True visited by (simp add: AddBranchTarget_def Let_def L)
      have B: "block_ok (DecodedBuffer w) B" "0 < NumInstructions B" using blk [of B] j by (auto simp: B_def)
      have "Entry ` set (Blocks w) \<subseteq> Entry ` set (Blocks (SplitBlock w (length L) T))"
        by (cases rule: SplitBlock_cases [OF bl refl B(1) ins B(2)]) (auto simp: bl)
      moreover have "targets (AddBranchTarget T w) = targets w"
        using SplitBlock_frame [of w "length L" T] by (simp add: eq targets_def same_code_def)
      ultimately show ?thesis using walk_inv_split [OF inv bl ins] by (auto simp: eq)
    next
      case False
      have out: "\<not> inside_block T C" if C: "C \<in> set (Blocks w)" for C
      proof
        assume ins: "inside_block T C"
        have "C \<in> set (take ?j (Blocks w)) \<or> C \<in> set (drop ?j (Blocks w))"
          using C by (metis append_take_drop_id Un_iff set_append)
        moreover have "C \<notin> set (drop ?j (Blocks w))" using lb(2) ins by (auto simp: inside_block_def)
        ultimately obtain n where n: "n < ?j" "Blocks w ! n = C" using lb(3) by (auto simp: in_set_conv_nth)
        let ?B = "Blocks w ! (?j - 1)"
        have B: "?B \<in> set (Blocks w)" using n(1) lb(3) by auto
        have "unat (Entry ?B + BlockSize ?B) = unat (Entry ?B) + unat (BlockSize ?B)"
          using blk [OF B] by (intro unat_add_u64) (auto simp: block_ok_def)
        then have le: "unat (Entry ?B) + unat (BlockSize ?B) \<le> unat T"
          using False n(1) by (auto simp: Let_def word_less_nat_alt not_less)
        have "C = ?B \<or> apart C ?B"
          using sorted_wrt_nth_less [OF i(1), of n "?j - 1"] n lb(3) by (cases "n = ?j - 1") auto
        then show False using le ins by (auto simp: apart_def inside_block_def)
      qed
      have "walk_inv W Limit (CurrentBlockTargets_update (insert T) w)"
      proof -
        have "targets_ok W (CurrentBlockTargets_update (insert T) w) (BlocksToDecode w \<union> insert T (CurrentBlockTargets w))"
          using i(2) out T visited by (auto simp: targets_ok_def)
        moreover have "covered (CurrentBlockTargets_update (insert T) w) I = covered w I" for I by (simp add: covered_def)
        ultimately show ?thesis using inv unfolding walk_inv_def by simp
      qed
      moreover have "walk_inv W Limit (v\<lparr>NextBlockStartAddress := T\<rparr>)" if "walk_inv W Limit v" for v
        using that unfolding walk_inv_def by (simp add: covered_def targets_ok_def)
      moreover have eq: "AddBranchTarget T w = CurrentBlockTargets_update (insert T) w \<or>
          AddBranchTarget T w = (CurrentBlockTargets_update (insert T) w)\<lparr>NextBlockStartAddress := T\<rparr>"
        using False visited by (auto simp: AddBranchTarget_def Let_def)
      ultimately have "walk_inv W Limit (AddBranchTarget T w)" by auto
      then show ?thesis using eq by (auto simp: targets_def)
    qed
  qed
  then show "walk_inv W Limit (AddBranchTarget T w)" "targets (AddBranchTarget T w) \<subseteq> insert T (targets w)"
    "Entry ` set (Blocks w) \<subseteq> Entry ` set (Blocks (AddBranchTarget T w))" by blast+
qed

lemma walk_inv_updates:
  "walk_inv W Limit (EntryPoints_update f w) = walk_inv W Limit w"
  "walk_inv W Limit (MaxCondBranchForward_update g w) = walk_inv W Limit w"
  "walk_inv W Limit (MaxCondBranchBackwards_update g w) = walk_inv W Limit w"
  "walk_inv W Limit (ExternalBranches_update h w) = walk_inv W Limit w"
  by (simp_all add: walk_inv_def covered_def targets_ok_def)

text \<open>Targets added to the walk: the invariant stays, and no block is lost.\<close>

definition extends :: "WalkEnv \<Rightarrow> nat \<Rightarrow> nat \<Rightarrow> Walk \<Rightarrow> Walk \<Rightarrow> bool" where
  "extends W Limit n w w' \<longleftrightarrow> walk_inv W Limit w' \<and> same_code w w' \<and> card (targets w') \<le> card (targets w) + n \<and>
     Entry ` set (Blocks w) \<subseteq> Entry ` set (Blocks w')"

lemma extends_refl: "walk_inv W Limit w \<Longrightarrow> extends W Limit 0 w w"
  by (simp add: extends_def same_code_refl)

lemma extends_trans: "extends W Limit m w w' \<Longrightarrow> extends W Limit n w' w'' \<Longrightarrow> extends W Limit (m + n) w w''"
  by (auto simp: extends_def intro: same_code_trans)

lemma extends_mono: "extends W Limit m w w' \<Longrightarrow> m \<le> n \<Longrightarrow> extends W Limit n w w'"
  by (auto simp: extends_def)

lemma extends_updates:
  "extends W Limit n w (EntryPoints_update f w') = extends W Limit n w w'"
  "extends W Limit n w (MaxCondBranchForward_update g w') = extends W Limit n w w'"
  "extends W Limit n w (MaxCondBranchBackwards_update g w') = extends W Limit n w w'"
  "extends W Limit n w (ExternalBranches_update h w') = extends W Limit n w w'"
  by (simp_all add: extends_def walk_inv_updates targets_def same_code_def)

lemma extends_AddBranchTarget:
  assumes "walk_inv W Limit w" "near W T"
  shows "extends W Limit 1 w (AddBranchTarget T w)"
proof -
  note a = AddBranchTarget_inv [OF assms]
  have "finite (targets w)" using assms(1) by (auto simp: walk_inv_def targets_ok_def targets_def)
  then have "card (targets (AddBranchTarget T w)) \<le> card (insert T (targets w))" using a(2) by (intro card_mono) auto
  also have "\<dots> \<le> card (targets w) + 1" using card_insert_le_m1 [of "card (targets w) + 1" "targets w" T] by simp
  finally show ?thesis using a(1,3) AddBranchTarget_frame by (simp add: extends_def)
qed

lemma extends_inv: "extends W Limit n w w' \<Longrightarrow> walk_inv W Limit w'" by (simp add: extends_def)

text \<open>The addresses from the end of the instruction just decoded on that a branch may lead to.\<close>

definition branch_range :: "WalkEnv \<Rightarrow> Walk \<Rightarrow> bool" where
  "branch_range W w \<longleftrightarrow> unat (InstEnd w) < 2 ^ 48 + 256 \<and> EntryPoint (Env W) \<le> InstEnd w \<and>
     (\<forall>t. EntryPoint (Env W) \<le> t \<longrightarrow> unat t \<le> unat (InstEnd w) + 0x4000 \<longrightarrow> near W t)"

lemma branch_rangeD: "branch_range W w \<Longrightarrow> near W (InstEnd w)"
  by (simp add: branch_range_def)

lemma branch_rangeI:
  assumes "near W (PC (DecodeInst (Dec w)))" "executable_at (Env W) (PC (DecodeInst (Dec w)))"
    "unat (PC (DecodeInst (Dec w))) < 2 ^ 48" "unat (InstSize (DecodeInst (Dec w))) \<le> 40"
  shows "branch_range W w"
proof -
  have e: "unat (InstEnd w) = unat (PC (DecodeInst (Dec w))) + unat (InstSize (DecodeInst (Dec w)))"
    using assms(3,4) by (simp add: InstEnd_def unat_add_u64 unat_zxt8)
  then have "EntryPoint (Env W) \<le> InstEnd w" using near_ge [OF assms(1)] by (simp add: word_le_nat_alt)
  moreover have "near W t" if "EntryPoint (Env W) \<le> t" "unat t \<le> unat (InstEnd w) + 0x4000" for t
    by (rule near_step [OF assms(1,2) that(1)]) (use that(2) e assms(4) in simp)
  ultimately show ?thesis using e assms(3,4) by (simp add: branch_range_def)
qed

lemma FollowBranch_extends:
  assumes inv: "walk_inv W Limit w" and I: "branch_range W w"
  shows "extends W Limit 2 w (FollowBranch W c T w)"
proof -
  let ?m = "min (InstEnd w + MAX_FORWARD_BRANCH_DIST) (SectionMaxAddress W)"
  let ?v = "if c then AddBranchTarget (InstEnd w) w else w"
  have top: "near W T" if "T \<ge> EntryPoint (Env W)" "T < ?m"
  proof -
    have "unat (InstEnd w + MAX_FORWARD_BRANCH_DIST) = unat (InstEnd w) + 0x4000"
      using I by (simp add: branch_range_def unat_add_u64 MAX_FORWARD_BRANCH_DIST_def)
    moreover have "T < InstEnd w + MAX_FORWARD_BRANCH_DIST" using that by simp
    ultimately show ?thesis using I that(1) by (simp add: branch_range_def word_less_nat_alt)
  qed
  have v: "extends W Limit 1 w ?v"
    using extends_AddBranchTarget [OF inv branch_rangeD [OF I]] extends_mono [OF extends_refl [OF inv], of 1] by simp
  have add: "extends W Limit 2 w (AddBranchTarget T u)" if "extends W Limit 1 w u" "T \<ge> EntryPoint (Env W)" "T < ?m" for u
    using extends_trans [OF that(1) extends_AddBranchTarget [OF extends_inv [OF that(1)] top [OF that(2,3)]]] by (simp add: numeral_2_eq_2)
  have upd: "extends W Limit 1 w (u\<lparr>MaxCondBranchForward := a, MaxCondBranchBackwards := b\<rparr>)" if "extends W Limit 1 w u" for u a b
    using that by (simp add: extends_updates)
  have ext: "extends W Limit 2 w (u\<lparr>ExternalBranches := a\<rparr>)" if "extends W Limit 1 w u" for u a
    using extends_mono [OF that, of 2] by (simp add: extends_updates)
  show ?thesis
  proof (cases "T \<ge> EntryPoint (Env W) \<and> T < ?m")
    case True
    then show ?thesis using add upd v by (auto simp: FollowBranch_def Let_def)
  next
    case False
    then have "FollowBranch W c T w = ?v\<lparr>ExternalBranches := map_option (insert T) (ExternalBranches ?v)\<rparr>"
      unfolding FollowBranch_def Let_def by (rule if_not_P)
    then show ?thesis using ext [OF v] by metis
  qed
qed

lemma BranchTarget_ok:
  assumes inv: "walk_inv W Limit w" and I: "TableInfo (DecodeInst (Dec w)) \<noteq> None" "branch_range W w"
  shows "ok (BranchTargetInMultiblockRange W w) (extends W Limit 2 w)"
proof -
  note e0 = extends_mono [OF extends_refl [OF inv], of 2]
  have "extends W Limit 2 w (AddBranchTarget (InstEnd w) w)"
    using extends_mono [OF extends_AddBranchTarget [OF inv branch_rangeD [OF I(2)]], of 2] by simp
  then show ?thesis using I(1) e0 FollowBranch_extends [OF inv I(2)]
    by (auto simp: BranchTargetInMultiblockRange_def extends_updates split: option.splits)
qed

section \<open>Decoding one block\<close>

text \<open>
  The blocks while one is decoded: the new block \<open>B\<close> between the others, what it has so far, and the room it has.
\<close>

definition block_core ::
  "WalkEnv \<Rightarrow> BlockContext \<Rightarrow> nat \<Rightarrow> bool \<Rightarrow> Walk \<Rightarrow> DecodedBlocks list \<Rightarrow> DecodedBlocks \<Rightarrow> DecodedBlocks list \<Rightarrow> bool" where
  "block_core W K n Erase w L B R \<longleftrightarrow>
     Blocks w = L @ B # R \<and> length L = BlockIt K \<and> Entry B = RIPToDecode K \<and> unat (BlockSize B) = n \<and>
     block_ok (DecodedBuffer w) B \<and> DecodedInstructions B = BlockStartOffset K \<and>
     BlockStartOffset K + NumInstructions B = DecodedSize w \<and> Erase = (NumInstructions B = 0) \<and>
     (\<forall>I \<in> set (insts (DecodedBuffer w) B). covered w I) \<and>
     cache_ok (Env W) (Dec w) \<and> sorted_wrt apart (L @ B # R) \<and>
     (\<forall>C \<in> set L \<union> set R. block_ok (DecodedBuffer w) C \<and> Entry C \<in> VisitedBlocks w \<and> 0 < NumInstructions C \<and>
        (\<forall>I \<in> set (insts (DecodedBuffer w) C). covered w I)) \<and>
     all_indices (L @ R) = mset [0..<BlockStartOffset K] \<and> TotalInstructions w = DecodedSize w \<and>
     CurrentCodePage w \<in> CodePages w \<and> CurrentBlockTargets w = {} \<and> RIPToDecode K \<in> VisitedBlocks w \<and>
     finite (BlocksToDecode w) \<and> BlocksToDecode w \<inter> VisitedBlocks w = {} \<and>
     (\<forall>t \<in> BlocksToDecode w. near W t \<and> NextBlockStartAddress w \<le> t \<and> (\<forall>C \<in> set L \<union> set R. \<not> inside_block t C)) \<and>
     (\<forall>C \<in> set R. NextBlockStartAddress w \<le> Entry C) \<and>
     unat (RIPToDecode K) + n \<le> unat (NextBlockStartAddress w) \<and>
     (EntryBlock K \<longrightarrow> NextBlockStartAddress w = - 1 \<and> BlocksToDecode w = {})"

definition step_room :: "WalkEnv \<Rightarrow> BlockContext \<Rightarrow> nat \<Rightarrow> Walk \<Rightarrow> bool" where
  "step_room W K n w \<longleftrightarrow> near W (RIPToDecode K + of_nat n) \<and> unat (RIPToDecode K) + n < TOP \<and> DecodedSize w < MaxInst K \<and>
     DecodedSize w < DefaultDecodedBufferSize \<and> \<not> FinalInstruction w"

lemma core_blocks:
  assumes "block_core W K n Erase w L B R"
  shows "Blocks w = L @ B # R" "length L = BlockIt K" "Blocks w ! BlockIt K = B"
    "Blocks (set_block (BlockIt K) f w) = L @ f B # R"
proof -
  show 1: "Blocks w = L @ B # R" "length L = BlockIt K" using assms unfolding block_core_def by blast+
  show 2: "Blocks w ! BlockIt K = B" unfolding 1 by (simp flip: 1(2))
  show "Blocks (set_block (BlockIt K) f w) = L @ f B # R" unfolding set_block_def 2 by (simp add: 1(1) flip: 1(2))
qed

lemma block_core_below:
  assumes "block_core W K n Erase w L B R" "C \<in> set L \<union> set R"
  shows "DecodedInstructions C + NumInstructions C \<le> BlockStartOffset K"
proof (rule block_range)
  show "all_indices (L @ R) = mset [0..<BlockStartOffset K]" "C \<in> set (L @ R)" "0 < NumInstructions C"
    using assms unfolding block_core_def by auto
qed

text \<open>A complete block joins the others.\<close>

lemma walk_inv_keep:
  assumes c: "block_core W K n False w L B R" and l: "DecodedSize w \<le> MaxInst K" "DecodedSize w \<le> DefaultDecodedBufferSize"
  shows "walk_inv W (MaxInst K) w"
proof -
  have ix: "all_indices (L @ B # R) = mset [0..<DecodedSize w]"
  proof -
    have "all_indices (L @ B # R) = all_indices (L @ R) + mset (indices B)" by (simp add: ac_simps)
    also have "\<dots> = mset ([0..<BlockStartOffset K] @ [BlockStartOffset K..<DecodedSize w])"
      using c unfolding block_core_def indices_def by (simp only: mset_append)
    also have "\<dots> = mset [0..<DecodedSize w]"
      using c unfolding block_core_def by (metis le_add1 le_add_same_cancel1 upt_add_eq_append zero_le)
    finally show ?thesis .
  qed
  have "\<not> inside_block t B" if "t \<in> BlocksToDecode w" for t
  proof -
    have "NextBlockStartAddress w \<le> t" "unat (Entry B) + unat (BlockSize B) \<le> unat (NextBlockStartAddress w)"
      using c that unfolding block_core_def by auto
    then show ?thesis by (simp add: inside_block_def word_le_nat_alt)
  qed
  then have "targets_ok W w (BlocksToDecode w \<union> CurrentBlockTargets w)"
    using c unfolding block_core_def targets_ok_def by auto
  then show ?thesis using c l ix unfolding walk_inv_def block_core_def by auto
qed

text \<open>A block given up leaves the others.\<close>

lemma walk_inv_drop:
  assumes c: "block_core W K n Erase w L B R" and l: "BlockStartOffset K < MaxInst K" "BlockStartOffset K < DefaultDecodedBufferSize"
  shows "walk_inv W (MaxInst K) (FinishBlock K True (w\<lparr>TotalInstructions := BlockStartOffset K, DecodedSize := BlockStartOffset K\<rparr>))"
proof -
  let ?w = "w\<lparr>TotalInstructions := BlockStartOffset K, DecodedSize := BlockStartOffset K\<rparr>"
  have bl: "Blocks (FinishBlock K True ?w) = L @ R" using c unfolding block_core_def FinishBlock_def by auto
  have cov: "covered (FinishBlock K True ?w) I = covered w I" for I by (simp add: covered_def FinishBlock_def)
  have s: "sorted_wrt apart (L @ R)" using c unfolding block_core_def by (auto simp: sorted_wrt_append)
  have tg: "targets_ok W (FinishBlock K True ?w) (BlocksToDecode w)" using c bl unfolding block_core_def targets_ok_def
    by (auto simp: FinishBlock_def)
  show ?thesis unfolding walk_inv_def bl cov using c l s tg unfolding block_core_def by (auto simp: FinishBlock_def)
qed

lemma covered_mono:
  assumes "covered w I" "CodePages w \<subseteq> CodePages w'" "DecodedMinAddress w' \<le> DecodedMinAddress w" "DecodedMaxAddress w \<le> DecodedMaxAddress w'"
  shows "covered w' I"
  using assms unfolding covered_def by (meson order.trans subsetD)

text \<open>What the steps up to the decoding of an instruction may change.\<close>

lemma block_core_frame:
  assumes c: "block_core W K n Erase w L B R"
    and b: "Blocks w' = L @ B' # R" "Entry B' = Entry B" "BlockSize B' = BlockSize B" "NumInstructions B' = NumInstructions B"
      "DecodedInstructions B' = DecodedInstructions B"
    and d: "cache_ok (Env W) (Dec w')" "\<And>i. i < DecodedSize w \<Longrightarrow> DecodedBuffer w' i = DecodedBuffer w i"
      "CurrentCodePage w' \<in> CodePages w'" "CodePages w \<subseteq> CodePages w'" "DecodedMinAddress w' \<le> DecodedMinAddress w"
      "DecodedMaxAddress w \<le> DecodedMaxAddress w'"
    and s: "DecodedSize w' = DecodedSize w" "TotalInstructions w' = TotalInstructions w"
      "CurrentBlockTargets w' = CurrentBlockTargets w" "BlocksToDecode w' = BlocksToDecode w" "VisitedBlocks w' = VisitedBlocks w"
      "NextBlockStartAddress w' = NextBlockStartAddress w"
  shows "block_core W K n Erase w' L B' R"
proof -
  have size: "BlockStartOffset K + NumInstructions B = DecodedSize w" "DecodedInstructions B = BlockStartOffset K"
    using c unfolding block_core_def by blast+
  have ins: "insts (DecodedBuffer w') C = insts (DecodedBuffer w) C" if "C \<in> set L \<union> set R" for C
    using block_core_below [OF c that] size(1) by (intro insts_cong d(2)) linarith
  have "insts (DecodedBuffer w') B' = insts (DecodedBuffer w') B" by (simp add: insts_def b)
  also have "\<dots> = insts (DecodedBuffer w) B" using size by (intro insts_cong d(2)) linarith
  finally have insB: "insts (DecodedBuffer w') B' = insts (DecodedBuffer w) B" .
  have cov: "covered w' I" if "covered w I" for I using covered_mono [OF that d(4-6)] .
  have ap: "apart C B' = apart C B" "apart B' C = apart B C" for C by (simp_all add: apart_def b)
  have so: "sorted_wrt apart (L @ B' # R) = sorted_wrt apart (L @ B # R)" by (simp add: sorted_wrt_append ap)
  have ok: "block_ok (DecodedBuffer w') C \<longleftrightarrow> block_ok (DecodedBuffer w) C" if "C \<in> set L \<union> set R" for C
    by (simp add: block_ok_def ins [OF that])
  have okB: "block_ok (DecodedBuffer w') B' \<longleftrightarrow> block_ok (DecodedBuffer w) B" by (simp add: block_ok_def insB b)
  have others: "\<forall>C \<in> set L \<union> set R. block_ok (DecodedBuffer w') C \<and> Entry C \<in> VisitedBlocks w \<and> 0 < NumInstructions C \<and>
        (\<forall>I \<in> set (insts (DecodedBuffer w') C). covered w' I)"
    using c cov unfolding block_core_def by (simp add: ok ins)
  have own: "\<forall>I \<in> set (insts (DecodedBuffer w') B'). covered w' I"
    using c cov unfolding block_core_def insB by blast
  show ?thesis
    using c others own d(1,3) unfolding block_core_def b s so okB by blast
qed

lemma block_core_add:
  assumes c: "block_core W K n Erase w L B R" and f: "B' = B\<lparr>NumInstructions := NumInstructions B + 1,
      BlockSize := BlockSize B + zxt (InstSize I)\<rparr>"
    and I: "I = DecodeInst (Dec w)" "DecodedBuffer w (DecodedSize w) = I" "unat (PC I) = unat (RIPToDecode K) + n" "covered w I"
    and room: "unat (RIPToDecode K) + n < TOP" "unat (RIPToDecode K) + n + unat (InstSize I) \<le> unat (NextBlockStartAddress w)"
  shows "block_core W K (n + unat (InstSize I)) False (AddInstruction K w) L B' R"
proof -
  let ?w = "AddInstruction K w"
  have bl: "Blocks ?w = L @ B' # R"
    using core_blocks(4) [OF c] core_blocks(3) [OF c] unfolding AddInstruction_def set_block_def f I(1) by simp
  have size: "BlockStartOffset K + NumInstructions B = DecodedSize w" "DecodedInstructions B = BlockStartOffset K"
    "unat (BlockSize B) = n" "Entry B = RIPToDecode K" "unat (RIPToDecode K) + n \<le> unat (NextBlockStartAddress w)"
    "block_ok (DecodedBuffer w) B"
    using c unfolding block_core_def by blast+
  have i8: "unat (InstSize I) < 256" by (rule u8_less)
  have sz: "unat (BlockSize B') = n + unat (InstSize I)"
    using size(3) room(1) i8 unfolding f by (simp add: unat_add_u64 unat_zxt8 del: u8_less)
  have ins: "insts (DecodedBuffer w) B' = insts (DecodedBuffer w) B @ [I]"
    using size I(2) by (simp add: insts_def f)
  have okB: "block_ok (DecodedBuffer w) B'"
    using size(3,4,6) sz I(3) room(1) i8 unfolding block_ok_def ins consecutive_append by (simp add: f del: u8_less)
  have fr: "DecodedBuffer ?w = DecodedBuffer w" "DecodedSize ?w = DecodedSize w + 1" "TotalInstructions ?w = TotalInstructions w + 1"
    "Dec ?w = Dec w" "CodePages ?w = CodePages w" "CurrentCodePage ?w = CurrentCodePage w" "CurrentBlockTargets ?w = CurrentBlockTargets w"
    "BlocksToDecode ?w = BlocksToDecode w" "VisitedBlocks ?w = VisitedBlocks w" "NextBlockStartAddress ?w = NextBlockStartAddress w"
    "covered ?w J = covered w J" for J
    by (simp_all add: AddInstruction_def set_block_def covered_def)
  have next_R: "\<forall>C \<in> set R. unat (NextBlockStartAddress w) \<le> unat (Entry C)"
    using c unfolding block_core_def by (simp add: word_le_nat_alt)
  have so: "sorted_wrt apart (L @ B' # R)"
  proof -
    have "sorted_wrt apart (L @ B # R)" using c unfolding block_core_def by blast
    moreover have "apart B' C" if "apart B C" "C \<in> set R" for C
      using that next_R room(2) sz size(4) by (fastforce simp: apart_def f)
    moreover have "apart C B' = apart C B" for C by (simp add: apart_def f)
    ultimately show ?thesis by (auto simp: sorted_wrt_append)
  qed
  have own: "\<forall>J \<in> set (insts (DecodedBuffer w) B'). covered w J"
    using c I(4) unfolding block_core_def ins by auto
  have B': "Entry B' = RIPToDecode K" "DecodedInstructions B' = BlockStartOffset K" "NumInstructions B' = NumInstructions B + 1"
    using size by (simp_all add: f)
  show ?thesis
    unfolding block_core_def bl fr using c okB so own sz B' size(1) room(2)
    unfolding block_core_def by (simp add: add.assoc)
qed

text \<open>The end of a block: \<open>D\<close> was still to be decoded when it began, and \<open>Es\<close> are the entries of the blocks then.\<close>

definition room :: "nat \<Rightarrow> Walk \<Rightarrow> bool" where
  "room Limit w \<longleftrightarrow> FinalInstruction w \<or> BlocksToDecode w = {} \<or> DecodedSize w < Limit \<and> DecodedSize w < DefaultDecodedBufferSize"

definition block_done :: "WalkEnv \<Rightarrow> BlockContext \<Rightarrow> u64 set \<Rightarrow> u64 set \<Rightarrow> bool \<Rightarrow> Walk \<Rightarrow> bool" where
  "block_done W K D Es e w \<longleftrightarrow> walk_inv W (MaxInst K) (FinishBlock K e w) \<and> room (MaxInst K) (FinishBlock K e w) \<and> (EntryBlock K \<longrightarrow> \<not> e) \<and>
     (e \<longrightarrow> DecodedSize (FinishBlock K e w) = BlockStartOffset K \<and> BlocksToDecode (FinishBlock K e w) = D \<and>
        Es - {RIPToDecode K} \<subseteq> Entry ` set (Blocks (FinishBlock K e w))) \<and>
     (\<not> e \<longrightarrow> BlockStartOffset K < DecodedSize (FinishBlock K e w) \<and> card (BlocksToDecode (FinishBlock K e w)) \<le> card D + 2 \<and>
        Es \<subseteq> Entry ` set (Blocks (FinishBlock K e w)))"

lemma FinishBlock_keep:
  assumes "walk_inv W Limit w"
  shows "walk_inv W Limit (FinishBlock K False w)"
  using assms unfolding walk_inv_def by (simp add: FinishBlock_def covered_def targets_ok_def)

lemma done_keep:
  assumes "extends W (MaxInst K) 2 w w'" "BlockStartOffset K < DecodedSize w" "targets w = D" "Entry ` set (Blocks w) = Es"
    "FinalInstruction w \<or> DecodedSize w < MaxInst K \<and> DecodedSize w < DefaultDecodedBufferSize \<or> targets w' = {}"
  shows "block_done W K D Es False w'"
proof -
  have "targets w' = BlocksToDecode (FinishBlock K False w')" by (simp add: FinishBlock_def targets_def)
  then show ?thesis using assms FinishBlock_keep [of W "MaxInst K" w' K]
    by (auto simp: block_done_def extends_def same_code_def room_def) (auto simp: FinishBlock_def)
qed

lemma done_drop:
  assumes c: "block_core W K n Erase w L B R" and l: "BlockStartOffset K < MaxInst K" "BlockStartOffset K < DefaultDecodedBufferSize"
    and e: "\<not> EntryBlock K" and s: "BlocksToDecode w = D" "Entry ` set (Blocks w) = Es"
    and w': "w' = w\<lparr>TotalInstructions := BlockStartOffset K, DecodedSize := BlockStartOffset K\<rparr>"
  shows "block_done W K D Es True w'"
proof -
  have "Blocks (FinishBlock K True w') = L @ R" using core_blocks [OF c] by (simp add: FinishBlock_def w')
  moreover have "Es - {RIPToDecode K} \<subseteq> Entry ` set (L @ R)"
  proof -
    have "Entry B = RIPToDecode K" using c unfolding block_core_def by blast
    then show ?thesis using core_blocks(1) [OF c] s(2) by auto
  qed
  ultimately show ?thesis using walk_inv_drop [OF c l] e s(1) l by (auto simp: block_done_def room_def w') (auto simp: FinishBlock_def)
qed

text \<open>A block that ends without another instruction.\<close>

lemma done_break:
  assumes c: "block_core W K n Erase w L B R" and r: "step_room W K n w" and e: "EntryBlock K \<longrightarrow> \<not> Erase"
    and s: "BlocksToDecode w = D" "Entry ` set (Blocks w) = Es"
  shows "block_done W K D Es Erase w"
proof -
  have z: "BlockStartOffset K + NumInstructions B = DecodedSize w" "TotalInstructions w = DecodedSize w" "Erase = (NumInstructions B = 0)"
    "CurrentBlockTargets w = {}" using c unfolding block_core_def by blast+
  show ?thesis
  proof (cases Erase)
    case True
    have "w = w\<lparr>TotalInstructions := BlockStartOffset K, DecodedSize := BlockStartOffset K\<rparr>" using z True by (cases w) simp
    then show ?thesis using done_drop [OF c _ _ _ s] r z True e by (simp add: step_room_def)
  next
    case False
    have "walk_inv W (MaxInst K) w" using walk_inv_keep [of W K n w L B R] c r False by (simp add: step_room_def)
    from extends_mono [OF extends_refl [OF this]] show ?thesis
      using done_keep [of W K w w D Es] z False s r by (simp add: targets_def step_room_def)
  qed
qed

definition step_post :: "WalkEnv \<Rightarrow> BlockContext \<Rightarrow> nat \<Rightarrow> nat \<Rightarrow> u64 set \<Rightarrow> u64 set \<Rightarrow> BlockStep \<times> Walk \<Rightarrow> bool" where
  "step_post W K n m D Es r \<longleftrightarrow> (case r of
     (Continue, w) \<Rightarrow> \<exists>L B R. block_core W K (n + unat (InstSize (DecodeInst (Dec w)))) False w L B R \<and>
        step_room W K (n + unat (InstSize (DecodeInst (Dec w)))) w \<and> DecodedSize w = m + 1 \<and> BlocksToDecode w = D \<and>
        Entry ` set (Blocks w) = Es
   | (BreakBlock e, w) \<Rightarrow> block_done W K D Es e w
   | (BadRelocation, w) \<Rightarrow> HitBadRelocation (Dec w))"

lemma InstCanContinue_ok:
  "TableInfo (DecodeInst (Dec w)) \<noteq> None \<Longrightarrow> \<exists>c. InstCanContinue E w = Some c"
  by (auto simp: InstCanContinue_def Let_def)

lemma FinishInstruction_ok:
  assumes c: "block_core W K n False w L B R" and r: "n = n0 + unat (InstSize (DecodeInst (Dec w)))" "unat (RIPToDecode K) + n0 < TOP"
      "DecodedSize w = m + 1" "m < MaxInst K" "m < DefaultDecodedBufferSize" "\<not> FinalInstruction w"
    and s: "BlocksToDecode w = D" "Entry ` set (Blocks w) = Es"
    and I: "unat (PC (DecodeInst (Dec w))) = unat (RIPToDecode K) + n0"
      "Status \<noteq> BAD_RELOCATION" "Status = SUCCESS \<Longrightarrow> unat (PC (DecodeInst (Dec w))) < 2 ^ 48 \<and> unat (InstSize (DecodeInst (Dec w))) \<le> 40 \<and>
        near W (PC (DecodeInst (Dec w))) \<and> executable_at (Env W) (PC (DecodeInst (Dec w))) \<and> TableInfo (DecodeInst (Dec w)) \<noteq> None"
  shows "ok (FinishInstruction W K Status w) (step_post W K n0 m D Es)"
proof -
  have z: "BlockStartOffset K + NumInstructions B = DecodedSize w" "TotalInstructions w = DecodedSize w" "0 < NumInstructions B"
    "CurrentBlockTargets w = {}" using c unfolding block_core_def by blast+
  note nth = core_blocks(3) [OF c]
  have inv: "walk_inv W (MaxInst K) w" using walk_inv_keep [OF c] r(3-5) by simp
  have bso: "BlockStartOffset K < MaxInst K" "BlockStartOffset K < DefaultDecodedBufferSize" "BlockStartOffset K < DecodedSize w"
    using z r(3-5) by linarith+
  show ?thesis
  proof (cases "Status = SUCCESS")
    case fail: False
    show ?thesis
    proof (cases "EntryBlock K")
      case False
      have "w\<lparr>TotalInstructions := TotalInstructions w - NumInstructions (Blocks w ! BlockIt K), DecodedSize := BlockStartOffset K\<rparr> =
        w\<lparr>TotalInstructions := BlockStartOffset K, DecodedSize := BlockStartOffset K\<rparr>" using z nth by simp
      from done_drop [OF c bso(1,2) False s this] show ?thesis
        using fail False I(2) by (simp add: FinishInstruction_def step_post_def)
    next
      case True
      have "targets w = {}" using c True unfolding block_core_def targets_def by blast
      then have "block_done W K D Es False w"
        using done_keep [OF extends_mono [OF extends_refl [OF inv], of 2] bso(3)] s z by (simp add: targets_def)
      then show ?thesis using fail True by (simp add: FinishInstruction_def step_post_def)
    qed
  next
    case ok: True
    let ?F = "DecodedSize w \<ge> MaxInst K \<or> DecodedSize w \<ge> DefaultDecodedBufferSize \<or> TotalInstructions w \<ge> MaxInst K"
    let ?w = "w\<lparr>FinalInstruction := ?F\<rparr>"
    have inv': "walk_inv W (MaxInst K) ?w" using inv by (simp add: walk_inv_def covered_def targets_ok_def)
    have tg: "targets ?w = D" using s z by (simp add: targets_def)
    have keep: "block_done W K D Es False w'" if "extends W (MaxInst K) 2 ?w w'" for w'
    proof (rule done_keep [OF that _ tg])
      show "FinalInstruction ?w \<or> DecodedSize ?w < MaxInst K \<and> DecodedSize ?w < DefaultDecodedBufferSize \<or> targets w' = {}"
        by (simp, linarith)
    qed (use bso(3) s(2) in simp_all)
    note stop = keep [OF extends_mono [OF extends_refl [OF inv']]]
    obtain Info where Info: "TableInfo (DecodeInst (Dec w)) = Some Info" using I(3) ok by blast
    show ?thesis
    proof (cases ?F)
      case True
      then show ?thesis using ok stop by (simp add: FinishInstruction_def step_post_def)
    next
      case go: False
      obtain b where b: "InstCanContinue (Env W) ?w = Some b" using InstCanContinue_ok [of ?w] Info by auto
      have range: "branch_range W w" using I(3) ok by (intro branch_rangeI) simp_all
      have size: "unat (InstEnd w) = unat (PC (DecodeInst (Dec w))) + unat (InstSize (DecodeInst (Dec w)))"
        using I(3) ok by (simp add: InstEnd_def unat_add_u64 unat_zxt8)
      show ?thesis
      proof (cases b)
        case True
        have eq: "?w = w" using r(6) go by (cases w) simp
        have "FinishInstruction W K Status w = Some (Continue, ?w)"
          using ok go b True unfolding FinishInstruction_def by (simp add: Let_def)
        moreover have "near W (RIPToDecode K + of_nat n)"
        proof -
          have "unat (RIPToDecode K + of_nat n) = unat (InstEnd w)"
            using size I(1,3) ok r(1) by (subst unat_plus_nat) simp_all
          then have "RIPToDecode K + of_nat n = InstEnd w" by (simp add: word_unat_eq_iff)
          then show ?thesis using branch_rangeD [OF range] by simp
        qed
        then have "step_room W K n w" using r I(1,3) ok go z(2) by (simp add: step_room_def)
        ultimately show ?thesis unfolding eq using c r(1,3) s by (auto simp: step_post_def)
      next
        case False
        define v where "v = (\<lambda>T. set_block (BlockIt K) (\<lambda>B. B\<lparr>ForceFullSMCDetection := T\<rparr>) ?w)"
        have ev: "extends W (MaxInst K) 0 ?w (v T)" for T
        proof -
          define f where "f = (\<lambda>B. B\<lparr>ForceFullSMCDetection := T\<rparr> :: DecodedBlocks)"
          have ff: "Entry (f B) = Entry B" "BlockSize (f B) = BlockSize B" "NumInstructions (f B) = NumInstructions B"
            "DecodedInstructions (f B) = DecodedInstructions B" by (simp_all add: f_def)
          have bl: "Blocks (set_block (BlockIt K) f w) = L @ f B # R" by (rule core_blocks(4) [OF c])
          have "block_core W K n False (set_block (BlockIt K) f w) L (f B) R"
          proof (rule block_core_frame [OF c bl ff])
            show "cache_ok (Env W) (Dec (set_block (BlockIt K) f w))" "CurrentCodePage (set_block (BlockIt K) f w) \<in> CodePages (set_block (BlockIt K) f w)"
              using c unfolding block_core_def set_block_def by simp_all
          qed (simp_all add: set_block_def)
          from walk_inv_keep [OF this] have "walk_inv W (MaxInst K) (set_block (BlockIt K) f w)"
            using r(3-5) by (simp add: set_block_def)
          then have i: "walk_inv W (MaxInst K) (set_block (BlockIt K) f ?w)" by (simp add: walk_inv_def covered_def targets_ok_def set_block_def)
          have "Entry ` set (Blocks (set_block (BlockIt K) f ?w)) = Entry ` set (Blocks ?w)"
            using bl core_blocks(1) [OF c] ff(1) by (simp add: set_block_def)
          then show ?thesis using i unfolding v_def f_def [symmetric] by (simp add: extends_def same_code_def targets_def) (simp add: set_block_def)
        qed
        have br: "ok (BranchTargetInMultiblockRange W (v T)) (\<lambda>w'. block_done W K D Es False w')" for T
        proof (rule ok_mono [OF BranchTarget_ok [OF extends_inv [OF ev [of T]]]])
          show "TableInfo (DecodeInst (Dec (v T))) \<noteq> None" using Info by (simp add: v_def set_block_def)
          have "InstEnd (v T) = InstEnd w" by (simp add: v_def InstEnd_def set_block_def)
          then show "branch_range W (v T)" using range by (simp add: branch_range_def)
          fix w' assume "extends W (MaxInst K) 2 (v T) w'"
          from extends_trans [OF ev this] show "block_done W K D Es False w'" by (intro keep) (simp add: numeral_2_eq_2)
        qed
        show ?thesis using ok go b False Info stop br
          by (auto simp: FinishInstruction_def step_post_def ok_bind Let_def v_def)
      qed
    qed
  qed
qed

lemma TouchPage_simps:
  assumes "CurrentCodePage w \<in> CodePages w"
  shows "p \<in> CodePages (TouchPage p w)" "CurrentCodePage (TouchPage p w) \<in> CodePages (TouchPage p w)"
    "CodePages w \<subseteq> CodePages (TouchPage p w)"
  using assms by (auto simp: TouchPage_def)

lemma TouchPage_frame [simp]:
  "Dec (TouchPage p w) = Dec w" "DecodedBuffer (TouchPage p w) = DecodedBuffer w" "DecodedSize (TouchPage p w) = DecodedSize w"
  "DecodedMinAddress (TouchPage p w) = DecodedMinAddress w" "DecodedMaxAddress (TouchPage p w) = DecodedMaxAddress w"
  "NextBlockStartAddress (TouchPage p w) = NextBlockStartAddress w" "Blocks (TouchPage p w) = Blocks w"
  "CurrentBlockTargets (TouchPage p w) = CurrentBlockTargets w" "BlocksToDecode (TouchPage p w) = BlocksToDecode w"
  "VisitedBlocks (TouchPage p w) = VisitedBlocks w" "TotalInstructions (TouchPage p w) = TotalInstructions w"
  "FinalInstruction (TouchPage p w) = FinalInstruction w"
  by (simp_all add: TouchPage_def)

lemma set_block_frame [simp]:
  "Dec (set_block i f w) = Dec w" "DecodedBuffer (set_block i f w) = DecodedBuffer w" "DecodedSize (set_block i f w) = DecodedSize w"
  "DecodedMinAddress (set_block i f w) = DecodedMinAddress w" "DecodedMaxAddress (set_block i f w) = DecodedMaxAddress w"
  "NextBlockStartAddress (set_block i f w) = NextBlockStartAddress w" "CodePages (set_block i f w) = CodePages w"
  "CurrentCodePage (set_block i f w) = CurrentCodePage w"
  "CurrentBlockTargets (set_block i f w) = CurrentBlockTargets w" "BlocksToDecode (set_block i f w) = BlocksToDecode w"
  "VisitedBlocks (set_block i f w) = VisitedBlocks w" "TotalInstructions (set_block i f w) = TotalInstructions w"
  "FinalInstruction (set_block i f w) = FinalInstruction w"
  by (simp_all add: set_block_def)

text \<open>The walk after an instruction was decoded, before it is known whether it fits.\<close>

definition decoded :: "BlockContext \<Rightarrow> u64 \<Rightarrow> DecodedBlockStatus \<Rightarrow> Decoder \<Rightarrow> Walk \<Rightarrow> Walk" where
  "decoded K a Status d w =
     (let w = TouchPage ((a + 15) AND FEX_PAGE_MASK) (TouchPage (a AND FEX_PAGE_MASK) w);
          w = w\<lparr>Dec := d, DecodedBuffer := (DecodedBuffer w)(DecodedSize w := DecodeInst d)\<rparr>;
          w = set_block (BlockIt K) (\<lambda>B. B\<lparr>BlockStatus := Status\<rparr>) w
      in w\<lparr>DecodedMinAddress := min (DecodedMinAddress w) a,
           DecodedMaxAddress := max (DecodedMaxAddress w) (a + zxt (InstSize (DecodeInst d)))\<rparr>)"

lemma decoded_core:
  assumes c: "block_core W K n Erase w L B R" and d: "cache_ok (Env W) d" "PC (DecodeInst d) = a"
  shows "block_core W K n Erase (decoded K a Status d w) L (B\<lparr>BlockStatus := Status\<rparr>) R"
    "covered (decoded K a Status d w) (DecodeInst d)"
    "DecodedBuffer (decoded K a Status d w) (DecodedSize w) = DecodeInst d"
proof -
  let ?w = "decoded K a Status d w"
  have p: "CurrentCodePage w \<in> CodePages w" using c unfolding block_core_def by blast
  note t1 = TouchPage_simps [OF p, of "a AND FEX_PAGE_MASK"]
  note t2 = TouchPage_simps [OF t1(2), of "(a + 15) AND FEX_PAGE_MASK"]
  have pages: "CodePages ?w = CodePages (TouchPage ((a + 15) AND FEX_PAGE_MASK) (TouchPage (a AND FEX_PAGE_MASK) w))"
    "CurrentCodePage ?w = CurrentCodePage (TouchPage ((a + 15) AND FEX_PAGE_MASK) (TouchPage (a AND FEX_PAGE_MASK) w))"
    by (simp_all add: decoded_def Let_def)
  have bl: "Blocks ?w = L @ B\<lparr>BlockStatus := Status\<rparr> # R"
    using core_blocks [OF c] by (simp add: decoded_def Let_def set_block_def flip: core_blocks(2) [OF c])
  show "block_core W K n Erase ?w L (B\<lparr>BlockStatus := Status\<rparr>) R"
  proof (rule block_core_frame [OF c bl])
    show "CurrentCodePage ?w \<in> CodePages ?w" unfolding pages by (rule t2(2))
    show "CodePages w \<subseteq> CodePages ?w" unfolding pages using t1(3) t2(3) by (rule order.trans)
  qed (simp_all add: decoded_def Let_def d)
  have "a AND FEX_PAGE_MASK \<in> CodePages ?w" "(a + 15) AND FEX_PAGE_MASK \<in> CodePages ?w"
    unfolding pages using t1(1) t2(1,3) by blast+
  then show "covered ?w (DecodeInst d)" by (simp add: covered_def d) (simp add: decoded_def Let_def)
  show "DecodedBuffer ?w (DecodedSize w) = DecodeInst d" by (simp add: decoded_def Let_def)
qed

lemma DecodeStep_ok:
  assumes W: "stream_ok W (Stream K)" and c: "block_core W K n Erase w L B R" and r: "step_room W K n w" and o: "unat PCOffset = n"
    and e: "EntryBlock K \<longrightarrow> NextBlockStartAddress w = - 1"
    and s: "BlocksToDecode w = D" "Entry ` set (Blocks w) = Es"
  shows "ok (DecodeStep W K PCOffset Erase w) (step_post W K n (DecodedSize w) D Es)"
proof -
  let ?a = "RIPToDecode K + PCOffset"
  let ?E = "StreamAt W (Stream K) (RIPToDecode K) PCOffset"
  let ?d = "(Dec w)\<lparr>InstructionSize := 0\<rparr>"
  have rm: "unat (RIPToDecode K) + n < TOP" "DecodedSize w < MaxInst K" "DecodedSize w < DefaultDecodedBufferSize" "\<not> FinalInstruction w"
    using r by (auto simp: step_room_def)
  have na: "near W ?a" using r o [symmetric] by (simp add: step_room_def)
  have a: "unat ?a = unat (RIPToDecode K) + n" using rm(1) o by (simp add: unat_add_u64)
  have a50: "unat ?a < 2 ^ 50" using rm(1) a by simp
  have ch: "cache_ok (Env W) ?d" using c unfolding block_core_def by (simp add: cache_ok_def)
  have g: "ok (if \<not> EntryBlock K \<and> ?a AND FEX_PAGE_MASK = (?a + 15) AND FEX_PAGE_MASK then NullBytes ?E ?d else Some (False, ?d))
    (\<lambda>r. cache_ok (Env W) (snd r) \<and> (EntryBlock K \<longrightarrow> \<not> fst r))"
    using NullBytes_ok [OF W ch a50] ch by (auto elim: ok_mono)
  show ?thesis unfolding DecodeStep_def Let_def
  proof (rule ok_bindI [OF g], unfold split_beta, rule ok_ifI, goal_cases)
    case (1 p)
    let ?w = "w\<lparr>Dec := snd p\<rparr>"
    have bl: "Blocks ?w = L @ B # R" using core_blocks(1) [OF c] by simp
    have "block_core W K n Erase ?w L B R"
      by (rule block_core_frame [OF c bl refl refl refl refl]) (use 1 c in \<open>simp_all add: block_core_def\<close>)
    then have "block_done W K D Es Erase ?w" using 1 s r by (intro done_break) (auto simp: step_room_def)
    then show ?case by (simp add: step_post_def)
  next
    case (2 p)
    obtain st d where dec: "DecodeInstruction ?E ?a (snd p) = Some (st, d)" and dd: "cache_ok (Env W) d" "PC (DecodeInst d) = ?a"
      "st \<noteq> BAD_RELOCATION" "st = SUCCESS \<longrightarrow> 0 < InstSize (DecodeInst d) \<and> unat (InstSize (DecodeInst d)) \<le> 40 \<and>
        unat ?a < 2 ^ 48 \<and> executable_at (Env W) ?a \<and> TableInfo (DecodeInst d) \<noteq> None"
      using decode_at [OF W _ na, of "snd p"] 2 by (auto simp: ok_def)
    let ?w = "decoded K ?a st d w"
    note core = decoded_core [OF c dd(1,2), of st]
    have fr: "Dec ?w = d" "DecodedSize ?w = DecodedSize w" "FinalInstruction ?w = FinalInstruction w" "BlocksToDecode ?w = BlocksToDecode w"
      "NextBlockStartAddress ?w = NextBlockStartAddress w"
      by (simp_all add: decoded_def Let_def)
    have es: "Entry ` set (Blocks ?w) = Es" using core_blocks(1) [OF core(1)] core_blocks(1) [OF c] s(2) by simp
    let ?fin = "?a + zxt (InstSize (DecodeInst d))"
    have ue: "unat ?fin = unat ?a + unat (InstSize (DecodeInst d))"
      using a50 u8_less [of "InstSize (DecodeInst d)"] by (simp add: unat_add_u64 unat_zxt8 del: u8_less)
    have fits: "ok (if ?fin > NextBlockStartAddress ?w then Some (BreakBlock Erase, ?w) else FinishInstruction W K st (AddInstruction K ?w))
        (step_post W K n (DecodedSize w) D Es)"
    proof (rule ok_ifI, goal_cases)
      case 1
      have "\<not> EntryBlock K" using 1 e fr(5) word_order.extremum_strict by auto
      then have "block_done W K D Es Erase ?w" using done_break [OF core(1), of D Es] r s(1) es fr by (simp add: step_room_def)
      then show ?case by (simp add: step_post_def)
    next
      case 2
      have nx: "unat (RIPToDecode K) + n + unat (InstSize (DecodeInst d)) \<le> unat (NextBlockStartAddress ?w)"
        using 2 ue a by (simp add: word_less_nat_alt not_less)
      have add: "block_core W K (n + unat (InstSize (DecodeInst d))) False (AddInstruction K ?w) L
          ((B\<lparr>BlockStatus := st\<rparr>)\<lparr>NumInstructions := NumInstructions (B\<lparr>BlockStatus := st\<rparr>) + 1,
            BlockSize := BlockSize (B\<lparr>BlockStatus := st\<rparr>) + zxt (InstSize (DecodeInst d))\<rparr>) R"
        using core fr a dd(2) rm(1) nx by (intro block_core_add [OF core(1) refl]) auto
      have fr': "Dec (AddInstruction K ?w) = d" "DecodedSize (AddInstruction K ?w) = DecodedSize w + 1"
        "FinalInstruction (AddInstruction K ?w) = FinalInstruction w" "BlocksToDecode (AddInstruction K ?w) = BlocksToDecode w"
        using fr by (simp_all add: AddInstruction_def)
      have es': "Entry ` set (Blocks (AddInstruction K ?w)) = Es"
        using core_blocks(1) [OF add] core_blocks(1) [OF c] s(2) by simp
      show ?case
        by (rule FinishInstruction_ok [OF add])
          (use fr' rm dd a s(1) es' na in \<open>auto\<close>)
    qed
    show ?case
    proof (cases "HitBadRelocation d")
      case True
      then show ?thesis using 2(2) dec rm(3) by (simp add: step_post_def)
    next
      case ok: False
      have f: "?fin > NextBlockStartAddress w \<Longrightarrow> step_post W K n (DecodedSize w) D Es (BreakBlock Erase, ?w)"
        "\<not> ?fin > NextBlockStartAddress w \<Longrightarrow> ok (FinishInstruction W K st (AddInstruction K ?w)) (step_post W K n (DecodedSize w) D Es)"
        using fits fr(5) by auto
      show ?thesis
      proof (cases "?fin > NextBlockStartAddress w")
        case True
        then show ?thesis using f(1) ok 2(2) dec rm(3) by (simp add: decoded_def Let_def)
      next
        case False
        then show ?thesis using f(2) ok 2(2) dec rm(3) by (simp add: decoded_def Let_def)
      qed
    qed
  qed
qed

definition loop_post :: "WalkEnv \<Rightarrow> BlockContext \<Rightarrow> u64 set \<Rightarrow> u64 set \<Rightarrow> BlockStep \<times> Walk \<Rightarrow> bool" where
  "loop_post W K D Es r \<longleftrightarrow> (case r of
     (Continue, w) \<Rightarrow> False | (BreakBlock e, w) \<Rightarrow> block_done W K D Es e w | (BadRelocation, w) \<Rightarrow> HitBadRelocation (Dec w))"

lemma core_entry: "block_core W K n Erase w L B R \<Longrightarrow> EntryBlock K \<longrightarrow> NextBlockStartAddress w = - 1"
  unfolding block_core_def by blast

lemma BlockLoop_ok:
  assumes W: "stream_ok W (Stream K)" and c: "block_core W K (unat PCOffset) Erase w L B R" and r: "step_room W K (unat PCOffset) w"
    and s: "BlocksToDecode w = D" "Entry ` set (Blocks w) = Es"
  shows "ok (BlockLoop W K PCOffset Erase w) (loop_post W K D Es)"
  using c r s
proof (induction "MaxInst K - DecodedSize w" arbitrary: PCOffset Erase w L B R rule: less_induct)
  case less
  have step: "ok (DecodeStep W K PCOffset Erase w) (step_post W K (unat PCOffset) (DecodedSize w) D Es)"
    using DecodeStep_ok [OF W less.prems(1,2) refl core_entry [OF less.prems(1)] less.prems(3,4)] .
  have rec: "ok (BlockLoop W K (PCOffset + zxt (InstSize (DecodeInst (Dec v)))) False v) (loop_post W K D Es)"
    if v: "step_post W K (unat PCOffset) (DecodedSize w) D Es (Continue, v)" for v
  proof -
    let ?n = "unat PCOffset + unat (InstSize (DecodeInst (Dec v)))"
    obtain L' B' R' where p: "block_core W K ?n False v L' B' R'" "step_room W K ?n v" "DecodedSize v = DecodedSize w + 1"
      "BlocksToDecode v = D" "Entry ` set (Blocks v) = Es" using v by (auto simp: step_post_def)
    have "?n < TOP" using p(2) by (simp add: step_room_def)
    then have n: "unat (PCOffset + zxt (InstSize (DecodeInst (Dec v)))) = ?n" by (simp add: unat_add_u64 unat_zxt8)
    have "MaxInst K - DecodedSize v < MaxInst K - DecodedSize w" using p(3) less.prems(2) unfolding step_room_def by linarith
    from less.hyps [OF this, of "PCOffset + zxt (InstSize (DecodeInst (Dec v)))" False L' B' R', unfolded n, OF p(1,2,4,5)] show ?thesis .
  qed
  show ?case
    unfolding BlockLoop.simps [of W K PCOffset Erase w]
  proof (rule ok_bindI [OF step], goal_cases)
    case (1 r)
    obtain s v where r: "r = (s, v)" by (cases r)
    show ?case unfolding r prod.case
    proof (rule ok_ifI, goal_cases)
      case 1
      then show ?case using rec \<open>step_post W K _ _ D Es r\<close> r by simp
    next
      case 2
      then show ?case using \<open>step_post W K _ _ D Es r\<close> r by (auto simp: step_post_def loop_post_def split: BlockStep.splits)
    qed
  qed
qed

section \<open>The whole walk\<close>

definition loop_inv :: "WalkEnv \<Rightarrow> nat \<Rightarrow> u64 \<Rightarrow> bool \<Rightarrow> Walk \<Rightarrow> bool" where
  "loop_inv W Limit pc First w \<longleftrightarrow> walk_inv W Limit w \<and> CurrentBlockTargets w = {} \<and> room Limit w \<and>
     (if First then Blocks w = [] \<and> BlocksToDecode w = {pc} else pc \<in> Entry ` set (Blocks w))"

lemma StartBlock_ok:
  assumes W: "stream_ok W S'" and inv: "loop_inv W Limit pc First w" and go: "\<not> FinalInstruction w" "BlocksToDecode w \<noteq> {}"
    and K: "StartBlock S Limit First w = (K, w')"
  shows "\<exists>L B R. block_core W K 0 True w' L B R" "step_room W K 0 w'" "Stream K = S" "MaxInst K = Limit" "EntryBlock K = First"
    "BlockStartOffset K = DecodedSize w" "RIPToDecode K \<in> BlocksToDecode w" "BlocksToDecode w' = BlocksToDecode w - {RIPToDecode K}"
    "Entry ` set (Blocks w') = insert (RIPToDecode K) (Entry ` set (Blocks w))"
proof -
  have i: "cache_ok (Env W) (Dec w)" "sorted_wrt apart (Blocks w)" "all_indices (Blocks w) = mset [0..<DecodedSize w]"
    "TotalInstructions w = DecodedSize w" "CurrentCodePage w \<in> CodePages w" "targets_ok W w (BlocksToDecode w)"
    "CurrentBlockTargets w = {}" "room Limit w"
    using inv unfolding loop_inv_def walk_inv_def by auto
  have blk: "\<forall>C \<in> set (Blocks w). block_ok (DecodedBuffer w) C \<and> Entry C \<in> VisitedBlocks w \<and> 0 < NumInstructions C \<and>
      (\<forall>I \<in> set (insts (DecodedBuffer w) C). covered w I)"
    using inv unfolding loop_inv_def walk_inv_def by blast
  have fin: "finite (BlocksToDecode w)" using i(6) by (simp add: targets_ok_def)
  define RIP where "RIP = Min (BlocksToDecode w)"
  define j where "j = lower_bound (Blocks w) RIP"
  define L where "L = take j (Blocks w)"
  define R where "R = drop j (Blocks w)"
  have RIP: "RIP \<in> BlocksToDecode w" "\<forall>t \<in> BlocksToDecode w. RIP \<le> t" using fin go(2) by (simp_all add: RIP_def)
  have lb: "\<forall>C \<in> set L. Entry C < RIP" "\<forall>C \<in> set R. RIP \<le> Entry C" "j \<le> length (Blocks w)"
    using lower_bound_split [OF i(2), of RIP] by (simp_all add: L_def R_def j_def)
  have LR: "Blocks w = L @ R" "length L = j" using lb(3) by (simp_all add: L_def R_def)
  have notin: "RIP \<notin> VisitedBlocks w" "\<forall>C \<in> set (Blocks w). \<not> inside_block RIP C" using i(6) RIP(1) by (auto simp: targets_ok_def)
  have gtR: "\<forall>C \<in> set R. RIP < Entry C" using lb(2) notin(1) blk LR(1) by (metis Un_iff order_le_less set_append)
  define D where "D = BlocksToDecode w - {RIP}"
  define Next0 where "Next0 = (if D \<noteq> {} then Min D else - 1)"
  define Next where "Next = (if j < length (Blocks w) \<and> Entry (Blocks w ! j) < Next0 then Entry (Blocks w ! j) else Next0)"
  define B where "B = \<lparr>Entry = RIP, BlockSize = 0, NumInstructions = 0, DecodedInstructions = DecodedSize w, BlockStatus = SUCCESS,
               IsEntryPoint = First, ForceFullSMCDetection = False\<rparr>"
  have Kd: "K = \<lparr>Stream = S, MaxInst = Limit, BlockIt = j, RIPToDecode = RIP, EntryBlock = First, BlockStartOffset = DecodedSize w\<rparr>"
    and w': "w' = w\<lparr>BlocksToDecode := D, VisitedBlocks := insert RIP (VisitedBlocks w), NextBlockStartAddress := Next, Blocks := L @ B # R\<rparr>"
    using K by (simp_all add: StartBlock_def Let_def RIP_def j_def L_def R_def D_def Next_def Next0_def B_def split del: if_split cong: if_cong)
  show "Stream K = S" "MaxInst K = Limit" "EntryBlock K = First" "BlockStartOffset K = DecodedSize w"
    "RIPToDecode K \<in> BlocksToDecode w" "BlocksToDecode w' = BlocksToDecode w - {RIPToDecode K}"
    using RIP(1) by (simp_all add: Kd w' D_def)
  show "Entry ` set (Blocks w') = insert (RIPToDecode K) (Entry ` set (Blocks w))" by (auto simp: Kd w' B_def LR(1))
  have near: "near W RIP" using i(6) RIP(1) by (auto simp: targets_ok_def)
  then have "unat RIP < TOP" by (rule near_top [OF _ W])
  then show "step_room W K 0 w'" using i(8) go near by (simp add: step_room_def room_def Kd w')
  have finD: "finite D" using fin by (simp add: D_def)
  have gtD: "\<forall>t \<in> D. RIP < t" using RIP(2) by (auto simp: D_def order_le_less)
  have nD: "\<forall>t \<in> D. Next \<le> t" using finD by (auto simp: Next_def Next0_def)
  have nR: "\<forall>C \<in> set R. Next \<le> Entry C"
  proof (cases R)
    case (Cons C Cs)
    then have j: "j < length (Blocks w)" "Blocks w ! j = C" using LR by auto
    have "\<forall>C' \<in> set Cs. Entry C < Entry C'" using i(2) unfolding LR(1) Cons by (auto simp: sorted_wrt_append apart_def)
    moreover have "Next \<le> Entry C" using j by (auto simp: Next_def linorder_not_less)
    ultimately show ?thesis unfolding Cons by auto
  qed simp
  have "RIP \<le> Next0" using gtD finD by (auto simp: Next0_def)
  moreover have "RIP \<le> Entry (Blocks w ! j)" if "j < length (Blocks w)"
  proof -
    have "Blocks w ! j \<in> set R" using that unfolding R_def by (metis Cons_nth_drop_Suc list.set_intros(1))
    then show ?thesis using lb(2) by blast
  qed
  ultimately have "RIP \<le> Next" by (simp add: Next_def)
  have first: "First \<longrightarrow> Next = - 1 \<and> D = {}"
    using inv by (auto simp: loop_inv_def Next_def Next0_def D_def RIP_def)
  have cov: "covered w' I = covered w I" for I by (simp add: covered_def w')
  have so: "sorted_wrt apart (L @ B # R)"
  proof -
    have "apart C B" if "C \<in> set L" for C
    proof -
      have "Entry C < RIP" using lb(1) that by blast
      moreover have "\<not> inside_block RIP C" using notin(2) LR(1) that by auto
      ultimately show ?thesis by (simp add: apart_def inside_block_def B_def not_less)
    qed
    moreover have "apart B C" if "C \<in> set R" for C using gtR that by (simp add: apart_def B_def word_le_nat_alt word_less_nat_alt order.strict_implies_order)
    ultimately show ?thesis using i(2) unfolding LR(1) by (auto simp: sorted_wrt_append)
  qed
  have tg: "\<forall>t \<in> D. near W t \<and> Next \<le> t \<and> (\<forall>C \<in> set L \<union> set R. \<not> inside_block t C)" "D \<inter> insert RIP (VisitedBlocks w) = {}"
    using i(6) nD LR(1) by (auto simp: targets_ok_def D_def)
  have Bok: "block_ok (DecodedBuffer w) B" using \<open>unat RIP < TOP\<close> by (simp add: B_def block_ok_def insts_def)
  have others: "\<forall>C \<in> set L \<union> set R. block_ok (DecodedBuffer w) C \<and> Entry C \<in> insert RIP (VisitedBlocks w) \<and> 0 < NumInstructions C \<and>
      (\<forall>I \<in> set (insts (DecodedBuffer w) C). covered w I)"
    using blk unfolding LR(1) by auto
  have nx: "unat RIP \<le> unat Next" using \<open>RIP \<le> Next\<close> by (simp add: word_le_nat_alt)
  have ix: "all_indices (L @ R) = mset [0..<DecodedSize w]" using i(3) unfolding LR(1) .
  have f: "Blocks w' = L @ B # R" "DecodedBuffer w' = DecodedBuffer w" "DecodedSize w' = DecodedSize w" "Dec w' = Dec w"
    "VisitedBlocks w' = insert RIP (VisitedBlocks w)" "TotalInstructions w' = TotalInstructions w" "CurrentCodePage w' = CurrentCodePage w"
    "CodePages w' = CodePages w" "CurrentBlockTargets w' = CurrentBlockTargets w" "BlocksToDecode w' = D" "NextBlockStartAddress w' = Next"
    "BlockIt K = j" "RIPToDecode K = RIP" "BlockStartOffset K = DecodedSize w" "EntryBlock K = First"
    "Entry B = RIP" "unat (BlockSize B) = 0" "DecodedInstructions B = DecodedSize w" "NumInstructions B = 0"
    by (simp_all add: Kd w' B_def)
  have "block_core W K 0 True w' L B R"
    unfolding block_core_def cov f
    by (intro conjI; (fact others so tg Bok nR first finD ix LR i | simp add: i(1,4,5,7) insts_def f nx first))
  then show "\<exists>L B R. block_core W K 0 True w' L B R" by blast
qed

definition walk_post :: "WalkEnv \<Rightarrow> nat \<Rightarrow> u64 \<Rightarrow> bool \<times> Walk \<Rightarrow> bool" where
  "walk_post W Limit pc r \<longleftrightarrow> (case r of (bad, w) \<Rightarrow>
     if bad then HitBadRelocation (Dec w)
     else walk_inv W Limit w \<and> pc \<in> Entry ` set (Blocks w) \<and> (FinalInstruction w \<or> BlocksToDecode w = {}))"

lemma loop_measure:
  assumes "a < b" "b \<le> l" "c' \<le> c - 1 + 2" "0 < (c :: nat)"
  shows "2 * (l - b) + c' < 2 * (l - a) + (c :: nat)"
  using assms by linarith

lemma WalkLoop_ok:
  assumes W: "stream_ok W S" and inv: "loop_inv W Limit pc First w"
    and f: "First \<longrightarrow> \<not> FinalInstruction w"
  shows "ok (WalkLoop W S Limit First w) (walk_post W Limit pc)"
  using inv f
proof (induction "2 * (Limit - DecodedSize w) + card (BlocksToDecode w)" arbitrary: First w rule: less_induct)
  case less
  have i: "walk_inv W Limit w" "if First then Blocks w = [] \<and> BlocksToDecode w = {pc} else pc \<in> Entry ` set (Blocks w)"
    "CurrentBlockTargets w = {}"
    using less.prems(1) unfolding loop_inv_def by blast+
  have fin: "finite (BlocksToDecode w)" using i(1) by (simp add: walk_inv_def targets_ok_def)
  show ?case
  proof (cases "FinalInstruction w \<or> BlocksToDecode w = {}")
    case True
    then have "\<not> First" using less.prems(2) i(2) by auto
    then show ?thesis using i unfolding WalkLoop.simps [of W S Limit First w] if_P [OF True] by (simp add: walk_post_def True)
  next
    case False
    obtain K w1 where K: "StartBlock S Limit First w = (K, w1)" by fastforce
    have go: "\<not> FinalInstruction w" "BlocksToDecode w \<noteq> {}" using False by auto
    note st = StartBlock_ok [OF W less.prems(1) go K]
    let ?D = "BlocksToDecode w1" and ?Es = "Entry ` set (Blocks w1)"
    have D: "card ?D = card (BlocksToDecode w) - 1" "0 < card (BlocksToDecode w)" using st(7,8) fin by (auto simp: card_gt_0_iff)
    obtain L B R where "block_core W K (unat (0 :: u64)) True w1 L B R" using st(1) by auto
    from BlockLoop_ok [OF _ this _ refl refl] W st(2,3) have loop: "ok (BlockLoop W K 0 True w1) (loop_post W K ?D ?Es)" by simp
    have next_ok: "ok (WalkLoop W S Limit False (FinishBlock K e v)) (walk_post W Limit pc)" if d: "block_done W K ?D ?Es e v" for e v
    proof (rule less.hyps)
      let ?v = "FinishBlock K e v"
      have inv': "walk_inv W Limit ?v" "room Limit ?v" "First \<longrightarrow> \<not> e" using d st(4,5) by (auto simp: block_done_def)
      have sz: "DecodedSize ?v \<le> Limit" using inv'(1) by (simp add: walk_inv_def)
      show "2 * (Limit - DecodedSize ?v) + card (BlocksToDecode ?v) < 2 * (Limit - DecodedSize w) + card (BlocksToDecode w)"
      proof (cases e)
        case True
        then have "DecodedSize ?v = DecodedSize w" "BlocksToDecode ?v = ?D" using d st(6) by (auto simp: block_done_def)
        then show ?thesis using D by simp
      next
        case False
        then have "DecodedSize w < DecodedSize ?v" "card (BlocksToDecode ?v) \<le> card (BlocksToDecode w) - 1 + 2"
          using d st(6) D(1) by (auto simp: block_done_def)
        then show ?thesis using sz D(2) by (intro loop_measure)
      qed
      have "pc \<in> Entry ` set (Blocks ?v)"
      proof (cases First)
        case True
        then have "RIPToDecode K = pc" "\<not> e" using i(2) st(7) inv'(3) by auto
        then have "pc \<in> ?Es" "?Es \<subseteq> Entry ` set (Blocks ?v)" using st(9) d by (auto simp: block_done_def)
        then show ?thesis by blast
      next
        case False
        then have p: "pc \<in> Entry ` set (Blocks w)" using i(2) by simp
        then have "pc \<in> VisitedBlocks w" using i(1) by (auto simp: walk_inv_def)
        then have "pc \<noteq> RIPToDecode K" using st(7) i(1) by (auto simp: walk_inv_def targets_ok_def)
        then have "pc \<in> ?Es - {RIPToDecode K}" using p st(9) by simp
        moreover have "?Es - {RIPToDecode K} \<subseteq> Entry ` set (Blocks ?v)" using d by (cases e) (auto simp: block_done_def)
        ultimately show ?thesis by blast
      qed
      moreover have "CurrentBlockTargets ?v = {}" by (simp add: FinishBlock_def)
      ultimately show "loop_inv W Limit pc False ?v" using inv' by (simp add: loop_inv_def)
    qed simp
    show ?thesis
      unfolding WalkLoop.simps [of W S Limit First w] K Let_def prod.case if_not_P [OF False]
    proof (rule ok_bindI [OF loop], goal_cases)
      case (1 r)
      obtain s v where r: "r = (s, v)" by (cases r)
      show ?case unfolding r prod.case
      proof (rule ok_ifI, goal_cases)
        case 1
        then show ?case using \<open>loop_post W K ?D ?Es r\<close> r by (simp add: loop_post_def walk_post_def)
      next
        case 2
        then obtain e where "s = BreakBlock e" "block_done W K ?D ?Es e v"
          using \<open>loop_post W K ?D ?Es r\<close> r by (auto simp: loop_post_def split: BlockStep.splits)
        then show ?case using next_ok by simp
      qed
    qed
  qed
qed

text \<open>What the walk relies on, of its configuration and its entry point.\<close>

definition walkable :: "WalkEnv \<Rightarrow> u64 \<Rightarrow> nat \<Rightarrow> bool" where
  "walkable W pc Limit \<longleftrightarrow> 0 < (if Limit = 0 then MaxInstPerBlock W else Limit) \<and> stream_ok (SectionEnv W pc) pc"

lemma StartWalk_inv:
  assumes "walkable W pc Limit" "cache_ok (Env W) (Dec w)" "CurrentBlockTargets w = {}"
  shows "loop_inv (SectionEnv W pc) (if Limit = 0 then MaxInstPerBlock W else Limit) pc True (StartWalk pc w)"
proof -
  have "cache_ok (Env (SectionEnv W pc)) (Dec (StartWalk pc w))"
    using assms(2) by (simp add: SectionEnv_def StartWalk_def Let_def cache_ok_def executable_at_def split: prod.splits)
  moreover have "near (SectionEnv W pc) pc" using assms(1) by (intro near_start') (simp add: walkable_def stream_ok_def)
  ultimately show ?thesis using assms(1,3)
    by (simp add: loop_inv_def walk_inv_def StartWalk_def Let_def targets_ok_def room_def walkable_def)
qed

lemma walk_ok:
  assumes "walkable W pc Limit" "cache_ok (Env W) (Dec w)" "CurrentBlockTargets w = {}"
  shows "\<exists>bad v. WalkLoop (SectionEnv W pc) pc (if Limit = 0 then MaxInstPerBlock W else Limit) True (StartWalk pc w) = Some (bad, v) \<and>
    walk_post (SectionEnv W pc) (if Limit = 0 then MaxInstPerBlock W else Limit) pc (bad, v)"
proof -
  have "stream_ok (SectionEnv W pc) pc" using assms(1) by (simp add: walkable_def)
  from WalkLoop_ok [OF this StartWalk_inv [OF assms]] show ?thesis by (auto simp: ok_def StartWalk_def Let_def)
qed

end
