(* ===== verification/MultiblockProperties.thy ===== *)
theory MultiblockProperties
  imports MultiblockSafety DecoderExamples
begin

text \<open>
  The properties of the walk over the blocks of an entry point: it ends, its blocks are apart and made of instructions
  that follow each other, they share out the buffer of instructions, and the pages noted for them cover their bytes.
\<close>

section \<open>From the loop to the result\<close>

lemma map_blocks:
  assumes "\<And>B. Entry (f B) = Entry B" "\<And>B. BlockSize (f B) = BlockSize B" "\<And>B. NumInstructions (f B) = NumInstructions B"
    "\<And>B. DecodedInstructions (f B) = DecodedInstructions B"
  shows "sorted_wrt apart (map f Bs) = sorted_wrt apart Bs" "all_indices (map f Bs) = all_indices Bs"
    "block_ok buf (f B) = block_ok buf B" "insts buf (f B) = insts buf B"
proof -
  show "sorted_wrt apart (map f Bs) = sorted_wrt apart Bs" by (simp add: sorted_wrt_map apart_def [abs_def] assms)
  have "indices (f B) = indices B" for B by (simp add: indices_def assms)
  then show "all_indices (map f Bs) = all_indices Bs" by (induction Bs) simp_all
  show ins: "insts buf (f B) = insts buf B" by (simp add: insts_def assms)
  show "block_ok buf (f B) = block_ok buf B" by (simp add: block_ok_def ins assms)
qed

text \<open>What the result keeps of the invariant.\<close>

lemma walk_result:
  assumes w: "walkable W pc Limit" "cache_ok (Env W) (Dec w)" "CurrentBlockTargets w = {}"
    and r: "DecodeInstructionsAtEntry W pc pc Limit w = Some w'" "\<not> HitBadRelocation (Dec w')"
  shows "sorted_wrt apart (Blocks w')" "\<And>B. B \<in> set (Blocks w') \<Longrightarrow> block_ok (DecodedBuffer w') B \<and> 0 < NumInstructions B"
    "\<And>B I. B \<in> set (Blocks w') \<Longrightarrow> I \<in> set (insts (DecodedBuffer w') B) \<Longrightarrow> covered w' I"
    "pc \<in> Entry ` set (Blocks w')" "all_indices (Blocks w') = mset [0..<TotalInstructionCount w']"
    "TotalInstructionCount w' \<le> (if Limit = 0 then MaxInstPerBlock W else Limit)" "TotalInstructionCount w' \<le> DefaultDecodedBufferSize"
proof -
  let ?L = "if Limit = 0 then MaxInstPerBlock W else Limit"
  obtain bad v where v: "WalkLoop (SectionEnv W pc) pc ?L True (StartWalk pc w) = Some (bad, v)"
    "walk_post (SectionEnv W pc) ?L pc (bad, v)" using walk_ok [OF w] by blast
  have bad: "\<not> bad" using v r by (auto simp: DecodeInstructionsAtEntry_def walk_post_def)
  define f where "f = (\<lambda>B. B\<lparr>IsEntryPoint := Entry B \<in> EntryPoints v\<rparr> :: DecodedBlocks)"
  have w': "w' = v\<lparr>TotalInstructionCount := TotalInstructions v, Blocks := map f (Blocks v)\<rparr>"
    using v(1) r(1) bad by (simp add: DecodeInstructionsAtEntry_def f_def)
  have inv: "walk_inv (SectionEnv W pc) ?L v" "pc \<in> Entry ` set (Blocks v)" using v(2) bad by (auto simp: walk_post_def)
  have f: "Entry (f B) = Entry B" "BlockSize (f B) = BlockSize B" "NumInstructions (f B) = NumInstructions B"
    "DecodedInstructions (f B) = DecodedInstructions B" for B by (simp_all add: f_def)
  note m = map_blocks [of f, OF f]
  have cov: "covered w' I = covered v I" for I by (simp add: covered_def w')
  have i: "sorted_wrt apart (Blocks v)" "\<forall>B \<in> set (Blocks v). block_ok (DecodedBuffer v) B \<and> 0 < NumInstructions B \<and>
      (\<forall>I \<in> set (insts (DecodedBuffer v) B). covered v I)"
    "all_indices (Blocks v) = mset [0..<DecodedSize v]" "TotalInstructions v = DecodedSize v" "DecodedSize v \<le> ?L"
    "DecodedSize v \<le> DefaultDecodedBufferSize"
    using inv(1) unfolding walk_inv_def by blast+
  show "sorted_wrt apart (Blocks w')" using i(1) m(1) by (simp add: w')
  show "\<And>B. B \<in> set (Blocks w') \<Longrightarrow> block_ok (DecodedBuffer w') B \<and> 0 < NumInstructions B" using i(2) m(3) f(3) by (auto simp: w')
  show "\<And>B I. B \<in> set (Blocks w') \<Longrightarrow> I \<in> set (insts (DecodedBuffer w') B) \<Longrightarrow> covered w' I"
    using i(2) m(4) unfolding cov by (auto simp: w')
  show "pc \<in> Entry ` set (Blocks w')" using inv(2) f(1) by (auto simp: w' image_image)
  show "all_indices (Blocks w') = mset [0..<TotalInstructionCount w']" using i(3,4) m(2) by (simp add: w')
  show "TotalInstructionCount w' \<le> ?L" "TotalInstructionCount w' \<le> DefaultDecodedBufferSize" using i(4-6) by (simp_all add: w')
qed

lemma consecutive_bound:
  "consecutive a Is \<Longrightarrow> I \<in> set Is \<Longrightarrow> unat (PC I) + unat (InstSize I) \<le> a + bytes Is"
proof (induction Is arbitrary: a)
  case (Cons J Is)
  have c: "consecutive (a + unat (InstSize J)) Is" "unat (PC J) = a" using Cons.prems(1) by simp_all
  consider "I = J" | "I \<in> set Is" using Cons.prems(2) by auto
  then show ?case
  proof cases
    case 2
    then show ?thesis using Cons.IH [OF c(1)] by simp
  qed (simp add: c(2))
qed simp

text \<open>The page of a byte of an instruction of at most 16 bytes.\<close>

lemma page_unat: "unat (a AND FEX_PAGE_MASK) = unat a div 4096 * 4096"
proof -
  have m: "(FEX_PAGE_SIZE - 1 :: u64) = mask 12" by (simp add: mask_eq_exp_minus_1)
  have "a AND FEX_PAGE_MASK = push_bit 12 (drop_bit 12 a)"
    unfolding FEX_PAGE_MASK_def m by (intro bit_word_eqI) (auto simp: bit_simps)
  moreover have "take_bit 64 (unat a) = unat a" by (rule take_bit_nat_eq_self [OF unat_u64_less])
  then have "unat (drop_bit 12 a) = unat a div 4096" by (simp add: unsigned_drop_bit_eq drop_bit_eq_div [where 'a = nat])
  moreover have "unat a div 4096 * 4096 < 2 ^ 64" using unat_u64_less [of a] by (simp add: order.strict_trans1 [OF div_times_less_eq_dividend])
  ultimately show ?thesis
    by (simp add: unsigned_push_bit_eq push_bit_eq_mult [where 'a = nat] take_bit_nat_eq_self)
qed

lemma page_of_byte:
  assumes "unat a \<le> unat b" "unat b < unat a + n" "n \<le> 16" "unat a + 15 < 2 ^ 64"
  shows "b AND FEX_PAGE_MASK = a AND FEX_PAGE_MASK \<or> b AND FEX_PAGE_MASK = (a + 15) AND FEX_PAGE_MASK"
proof -
  have "unat (a + 15) = unat a + 15" using assms(4) by (simp add: unat_add_u64)
  moreover have "unat b div 4096 = unat a div 4096 \<or> unat b div 4096 = (unat a + 15) div 4096"
  proof -
    have "unat a div 4096 \<le> unat b div 4096" "unat b div 4096 \<le> (unat a + 15) div 4096"
      using assms(1-3) by (simp_all add: div_le_mono)
    moreover have "(unat a + 15) div 4096 \<le> (unat a + 4096) div 4096" by (intro div_le_mono) simp
    then have "(unat a + 15) div 4096 \<le> unat a div 4096 + 1" by simp
    ultimately show ?thesis by linarith
  qed
  ultimately show ?thesis by (simp add: word_unat_eq_iff page_unat)
qed

section \<open>A page of \<open>NOP\<close> instructions\<close>

definition nop_walk :: WalkEnv where
  "nop_walk = \<lparr>Env = nop_page, Memory = (\<lambda>_. 0x90), OS_LINUX64 = True, Multiblock = True, MaxInstPerBlock = 5000,
     CodeCacheSections = False, LookupExecutableFileSection = (\<lambda>_. None), SectionMaxAddress = - 1\<rparr>"

definition fresh_walk :: Walk where
  "fresh_walk = \<lparr>Dec = fresh_decoder, DecodedBuffer = (\<lambda>_. zero_inst 0), DecodedSize = 0, DecodedMinAddress = 0, DecodedMaxAddress = - 1,
     MaxCondBranchForward = 0, MaxCondBranchBackwards = - 1, NextBlockStartAddress = - 1, TotalInstructionCount = 0, Blocks = [],
     EntryPoints = {}, CodePages = {}, CurrentBlockTargets = {}, BlocksToDecode = {}, VisitedBlocks = {}, ExternalBranches = None,
     TotalInstructions = 0, CurrentCodePage = 0, FinalInstruction = False\<rparr>"

lemma nop_walk_result:
  "\<exists>w. DecodeInstructionsAtEntry nop_walk 0x1000 0x1000 1 fresh_walk = Some w \<and> \<not> HitBadRelocation (Dec w) \<and>
    TotalInstructionCount w = 1 \<and> (\<exists>B. Blocks w = [B] \<and> InstSize (DecodedBuffer w (DecodedInstructions B)) = 1)"
  unfolding nop_walk_def fresh_walk_def nop_page_def
  apply (simp add: DecodeInstructionsAtEntry_def SectionEnv_def StartWalk_def WalkLoop.simps StartBlock_def lower_bound_def
    BlockLoop.simps DecodeStep_def TouchPage_def set_block_def StreamAt_def AdjustAddrForSpecialRegion_def FEX_PAGE_MASK_def
    AddInstruction_def FinishInstruction_def FinishBlock_def VSyscall_Base_def
    instruction_defs read_defs normal_defs operand_defs flag_values base_entries Let_def)
  done

lemma nop_walkable: "walkable nop_walk 0x1000 1"
proof -
  have q: "executable_ranges (QueryGuestExecutableRange nop_page)" using nop_page_ok(1) by (simp add: env_ok_def)
  have t: "\<exists>r a s. (X87TablePtr nop_page, VEXTablePtr nop_page, VEXTableGroupPtr nop_page) = DecoderTablesFor r a s"
    using nop_page_ok(1) by (simp add: env_ok_def)
  have low: "unat a < 2 ^ 48" if "executable_at nop_page a" for a
    using that by (auto simp: executable_at_def nop_page_def word_less_nat_alt split: if_splits)
  let ?W = "SectionEnv nop_walk 0x1000"
  have env: "QueryGuestExecutableRange (Env ?W) = QueryGuestExecutableRange nop_page" "X87TablePtr (Env ?W) = X87TablePtr nop_page"
    "VEXTablePtr (Env ?W) = VEXTablePtr nop_page" "VEXTableGroupPtr (Env ?W) = VEXTableGroupPtr nop_page" "EntryPoint (Env ?W) = 0x1000"
    "Is64BitMode (Env ?W)"
    by (simp_all add: SectionEnv_def nop_walk_def nop_page_def)
  have few: "few_prefixes (StreamAt ?W 0x1000 RIP off)" for RIP off
  proof -
    have b: "Code (StreamAt ?W 0x1000 RIP off) n \<in> {0x90, 0xB8, 0x60, 0, 0x0F, 0x05, 0xC3, 0xC9, 0x35, 0x01, 0xCC}" for n
      by (simp add: StreamAt_def AdjustAddrForSpecialRegion_def Let_def SectionEnv_def nop_walk_def VSyscallData_def)
    have np: "\<not> is_prefix (StreamAt ?W 0x1000 RIP off) (Code (StreamAt ?W 0x1000 RIP off) n)" for n
      using b [of n] by (auto simp: is_prefix_def StreamAt_def Let_def env word_le_nat_alt split: prod.splits)
    have "takeWhile (is_prefix (StreamAt ?W 0x1000 RIP off)) (map (Code (StreamAt ?W 0x1000 RIP off)) xs) = []" for xs :: "nat list"
      using np by (cases xs) auto
    then have "prefix_length (StreamAt ?W 0x1000 RIP off) = 0" unfolding prefix_length_def by (simp only: list.size)
    then show ?thesis by (simp add: few_prefixes_def)
  qed
  have "executable_at (Env ?W) a = executable_at nop_page a" for a by (simp add: executable_at_def env)
  then have "stream_ok ?W 0x1000" unfolding stream_ok_def env
    using q t low few by simp
  then show ?thesis by (simp add: walkable_def nop_walk_def)
qed

lemma fresh_walk_ok: "cache_ok (Env nop_walk) (Dec fresh_walk)" "CurrentBlockTargets fresh_walk = {}"
  by (simp_all add: fresh_walk_def fresh_decoder_def cache_ok_empty)

section \<open>The properties\<close>

text \<open>
  C30: The walk ends: from every entry point and with every limit above zero on the number of instructions, the decoding of
  blocks returns, wherever the branches in the code lead and wherever its instructions cannot be decoded, as long as the
  executable code the walk may come to (\<open>near\<close>) lies below \<open>2 ^ 48\<close> and has at most eight prefixes before an opcode
  (three before a 3DNow opcode).
\<close>
theorem walk_terminates:
  assumes "walkable W pc Limit" "cache_ok (Env W) (Dec w)" "CurrentBlockTargets w = {}"
  shows "\<exists>w'. DecodeInstructionsAtEntry W pc pc Limit w = Some w'"
proof -
  obtain bad v where "WalkLoop (SectionEnv W pc) pc (if Limit = 0 then MaxInstPerBlock W else Limit) True (StartWalk pc w) = Some (bad, v)"
    using walk_ok [OF assms] by blast
  then show ?thesis by (simp add: DecodeInstructionsAtEntry_def)
qed

lemma walk_terminates_witness: "\<exists>w'. DecodeInstructionsAtEntry nop_walk 0x1000 0x1000 1 fresh_walk = Some w'"
  by (rule walk_terminates [OF nop_walkable fresh_walk_ok])

text \<open>
  C31: The blocks of a walk are in the order of their addresses and do not overlap, one of them starts at the entry
  point, and each consists of at least one instruction, each following the one before without a gap, its size being the
  sum of theirs.
\<close>
theorem walk_blocks:
  assumes "walkable W pc Limit" "cache_ok (Env W) (Dec w)" "CurrentBlockTargets w = {}"
    "DecodeInstructionsAtEntry W pc pc Limit w = Some w'" "\<not> HitBadRelocation (Dec w')"
  shows "sorted_wrt (\<lambda>A B. unat (Entry A) + unat (BlockSize A) \<le> unat (Entry B) \<and> Entry A < Entry B) (Blocks w') \<and>
    (\<exists>B \<in> set (Blocks w'). Entry B = pc) \<and>
    (\<forall>B \<in> set (Blocks w'). 0 < NumInstructions B \<and> consecutive (unat (Entry B)) (insts (DecodedBuffer w') B) \<and>
       unat (BlockSize B) = bytes (insts (DecodedBuffer w') B))"
proof -
  note r = walk_result [OF assms]
  have "sorted_wrt (\<lambda>A B. unat (Entry A) + unat (BlockSize A) \<le> unat (Entry B) \<and> Entry A < Entry B) (Blocks w')"
    using r(1) by (rule sorted_wrt_mono_rel [rotated]) (auto simp: apart_def)
  then show ?thesis using r(2,4) by (auto simp: block_ok_def)
qed

lemma walk_blocks_witness:
  "\<exists>w' B. DecodeInstructionsAtEntry nop_walk 0x1000 0x1000 1 fresh_walk = Some w' \<and> Blocks w' = [B] \<and> Entry B = 0x1000"
proof -
  obtain w' B where r: "DecodeInstructionsAtEntry nop_walk 0x1000 0x1000 1 fresh_walk = Some w'" "\<not> HitBadRelocation (Dec w')"
    "Blocks w' = [B]" using nop_walk_result by blast
  from walk_blocks [OF nop_walkable fresh_walk_ok r(1,2)] show ?thesis using r(1,3) by auto
qed

text \<open>
  C32: The blocks share out the buffer of decoded instructions: every instruction that was kept belongs to exactly one
  block, and their number is within the limit and the buffer.
\<close>
theorem walk_instructions:
  assumes "walkable W pc Limit" "cache_ok (Env W) (Dec w)" "CurrentBlockTargets w = {}"
    "DecodeInstructionsAtEntry W pc pc Limit w = Some w'" "\<not> HitBadRelocation (Dec w')"
  shows "mset (concat (map indices (Blocks w'))) = mset [0..<TotalInstructionCount w'] \<and>
    TotalInstructionCount w' \<le> (if Limit = 0 then MaxInstPerBlock W else Limit) \<and> TotalInstructionCount w' \<le> 0x10000"
  using walk_result(5-7) [OF assms] by (simp add: all_indices_def)

lemma walk_instructions_witness:
  "\<exists>w' B. DecodeInstructionsAtEntry nop_walk 0x1000 0x1000 1 fresh_walk = Some w' \<and> Blocks w' = [B] \<and> set (indices B) = {0}"
proof -
  obtain w' B where r: "DecodeInstructionsAtEntry nop_walk 0x1000 0x1000 1 fresh_walk = Some w'" "\<not> HitBadRelocation (Dec w')"
    "Blocks w' = [B]" "TotalInstructionCount w' = 1" using nop_walk_result by blast
  from walk_instructions [OF nop_walkable fresh_walk_ok r(1,2)] have "mset (indices B) = mset [0..<1]" using r(3,4) by simp
  from mset_eq_setD [OF this] show ?thesis using r(1,3) by auto
qed

text \<open>
  C33: The pages noted for a walk cover its code: every byte of an instruction of at most 16 bytes in one of its blocks is
  in a noted page, and in the range of addresses noted as decoded.
\<close>
theorem walk_code_pages:
  assumes "walkable W pc Limit" "cache_ok (Env W) (Dec w)" "CurrentBlockTargets w = {}"
    "DecodeInstructionsAtEntry W pc pc Limit w = Some w'" "\<not> HitBadRelocation (Dec w')"
    "B \<in> set (Blocks w')" "I \<in> set (insts (DecodedBuffer w') B)" "unat (InstSize I) \<le> 16"
    "unat (PC I) \<le> unat b" "unat b < unat (PC I) + unat (InstSize I)"
  shows "b AND FEX_PAGE_MASK \<in> CodePages w' \<and> DecodedMinAddress w' \<le> b \<and> b < DecodedMaxAddress w'"
proof -
  have c: "covered w' I" "block_ok (DecodedBuffer w') B" using walk_result(2,3) [OF assms(1-5)] assms(6,7) by blast+
  have "unat (PC I) \<le> unat (Entry B) + bytes (insts (DecodedBuffer w') B)"
    using c(2) assms(7) by (auto simp: block_ok_def dest: consecutive_bound)
  then have PC: "unat (PC I) < 2 ^ 49" using c(2) by (simp add: block_ok_def)
  then have e: "unat (PC I + zxt (InstSize I)) = unat (PC I) + unat (InstSize I)"
    using assms(8) by (simp add: unat_add_u64 unat_zxt8)
  from page_of_byte [OF assms(9,10,8)] PC c(1) have "b AND FEX_PAGE_MASK \<in> CodePages w'" by (auto simp: covered_def)
  moreover have "DecodedMinAddress w' \<le> b" using c(1) assms(9) by (simp add: covered_def word_le_nat_alt)
  moreover have "b < DecodedMaxAddress w'" using c(1) assms(10) e by (simp add: covered_def word_le_nat_alt word_less_nat_alt)
  ultimately show ?thesis by blast
qed

lemma walk_code_pages_witness:
  "\<exists>w' I. DecodeInstructionsAtEntry nop_walk 0x1000 0x1000 1 fresh_walk = Some w' \<and> I = DecodedBuffer w' 0 \<and>
    PC I AND FEX_PAGE_MASK \<in> CodePages w'"
proof -
  obtain w' B where r: "DecodeInstructionsAtEntry nop_walk 0x1000 0x1000 1 fresh_walk = Some w'" "\<not> HitBadRelocation (Dec w')"
    "Blocks w' = [B]" "TotalInstructionCount w' = 1" "InstSize (DecodedBuffer w' (DecodedInstructions B)) = 1" using nop_walk_result by blast
  have "mset (indices B) = mset [0..<1]"
    using walk_result(5) [OF nop_walkable fresh_walk_ok r(1,2)] r(3,4) by simp
  then have i: "indices B = [0]" by (simp add: mset_single_iff_right)
  then have "DecodedInstructions B = 0" "NumInstructions B = 1" by (auto simp: indices_def upt_eq_Cons_conv)
  then have "DecodedBuffer w' 0 \<in> set (insts (DecodedBuffer w') B)" "InstSize (DecodedBuffer w' 0) = 1" using r(5) by (simp_all add: insts_def)
  from walk_code_pages [OF nop_walkable fresh_walk_ok r(1,2) _ this(1), of "PC (DecodedBuffer w' 0)"] this(2) r(1,3) show ?thesis by auto
qed

section \<open>A split forgets the full detection of changes\<close>

text \<open>
  A block that ends in a tail call of generated code is marked for the full detection of changes; when a branch into its
  middle splits it, the part with the tail call is no longer marked.
\<close>

definition tailcall_walk :: Walk where
  "tailcall_walk = fresh_walk\<lparr>DecodedBuffer := (\<lambda>_. (zero_inst 0)\<lparr>InstSize := 1\<rparr>),
     Blocks := [\<lparr>Entry = 0x1000, BlockSize = 2, NumInstructions = Suc 1, DecodedInstructions = 0, BlockStatus = SUCCESS,
       IsEntryPoint = True, ForceFullSMCDetection = True\<rparr>]\<rparr>"

lemma split_forgets_detection:
  "\<exists>A B. Blocks (AddBranchTarget 0x1001 tailcall_walk) = [A, B] \<and> ForceFullSMCDetection A \<and> NumInstructions A = 1 \<and>
     DecodedInstructions B = 1 \<and> NumInstructions B = 1 \<and> \<not> ForceFullSMCDetection B"
  by (simp add: tailcall_walk_def fresh_walk_def AddBranchTarget_def lower_bound_def SplitBlock_def Let_def)

end
