(* ===== verification/FlagIR.thy ===== *)
theory FlagIR
  imports Prelude
begin

text \<open>
  The part of the IR that computes the host flags N, Z, C, V and the registers that stand for the x86 flags PF and AF:
  operations, nodes and blocks (\<open>IR.json\<close>, \<open>IR.h\<close>), the flags each operation reads and writes, and how the pass of
  \<open>RedundantFlagCalculationElimination.cpp\<close> may change it (\<open>ClassifyConst\<close>, \<open>Classify\<close>).

  An operation the pass does not know is \<open>OP_OTHER k\<close>. A node refers to the nodes of its operands by their ids; the IR
  allows that inside of a block only. The targets of jumps are ids of blocks. The operands of an operation that are not
  nodes are fields of the node.
\<close>

section \<open>Flag masks\<close>

definition FLAG_V :: u8 where "FLAG_V = 1"
definition FLAG_C :: u8 where "FLAG_C = 2"
definition FLAG_Z :: u8 where "FLAG_Z = 4"
definition FLAG_N :: u8 where "FLAG_N = 8"
definition FLAG_P :: u8 where "FLAG_P = 16"
definition FLAG_A :: u8 where "FLAG_A = 32"
definition FLAG_ZCV :: u8 where "FLAG_ZCV = FLAG_Z OR FLAG_C OR FLAG_V"
definition FLAG_NZCV :: u8 where "FLAG_NZCV = FLAG_N OR FLAG_ZCV"
definition FLAG_ALL :: u8 where "FLAG_ALL = FLAG_NZCV OR FLAG_A OR FLAG_P"

named_theorems flag_masks "the masks as numbers"

lemmas flag_masks_defs [flag_masks] =
  FLAG_V_def FLAG_C_def FLAG_Z_def FLAG_N_def FLAG_P_def FLAG_A_def FLAG_ZCV_def FLAG_NZCV_def FLAG_ALL_def

section \<open>Operations and nodes\<close>

datatype CondClass = EQ | NEQ | UGE | ULT | MI | PL | VS | VC | UGT | ULE | SGE | SLT | SGT | SLE
  | TSTZ | TSTNZ | FLU | FGE | FLEU | FGT | FU | FNU | AL

datatype IROpSize = iUnsized | i8Bit | i16Bit | i32Bit | i64Bit | f80Bit | i128Bit | i256Bit | iInvalid

fun OpSizeToSize :: "IROpSize \<Rightarrow> nat" where
  "OpSizeToSize iUnsized = 0"
| "OpSizeToSize i8Bit = 1"
| "OpSizeToSize i16Bit = 2"
| "OpSizeToSize i32Bit = 4"
| "OpSizeToSize i64Bit = 8"
| "OpSizeToSize f80Bit = 10"
| "OpSizeToSize i128Bit = 16"
| "OpSizeToSize i256Bit = 32"
| "OpSizeToSize iInvalid = 255"

definition OpSizeAsBits :: "IROpSize \<Rightarrow> nat" where
  "OpSizeAsBits s = OpSizeToSize s * 8"

datatype ShiftType = LSL | LSR | ASR | ROR

datatype IROps =
    OP_ANDWITHFLAGS | OP_ADDWITHFLAGS | OP_SUBWITHFLAGS | OP_ADCWITHFLAGS | OP_ADCZEROWITHFLAGS | OP_SBBWITHFLAGS
  | OP_SHIFTFLAGS | OP_ROTATEFLAGS | OP_RDRAND | OP_ADDNZCV | OP_SUBNZCV | OP_TESTNZ | OP_TESTZ | OP_FCMP | OP_STORENZCV
  | OP_AXFLAG | OP_CMPPAIRZ | OP_CARRYINVERT | OP_SETSMALLNZV | OP_LOADNZCV | OP_ADC | OP_ADCZERO | OP_SBB | OP_ADCNZCV
  | OP_SBBNZCV | OP_LOADPF | OP_LOADAF | OP_STOREPF | OP_STOREAF | OP_NZCVSELECT | OP_NZCVSELECTV
  | OP_NZCVSELECTINCREMENT | OP_NEG | OP_CONDJUMP | OP_CONDSUBNZCV | OP_CONDADDNZCV | OP_RMIFNZCV | OP_INVALIDATEFLAGS
  | OP_AND | OP_ADD | OP_SUB | OP_XOR | OP_PARITY | OP_INLINECONSTANT | OP_STOREREGISTER | OP_JUMP | OP_OTHER nat

record IRNode =
  NodeID :: nat
  Op :: IROps
  OpSize :: IROpSize
  Args :: "nat list"
  Cond :: CondClass
  FromNZCV :: bool
  CompareSize :: IROpSize
  TrueBlock :: nat
  FalseBlock :: nat
  FalseNZCV :: u8
  RmifRotate :: u8
  RmifMask :: u8
  InvFlags :: u64
  Constant :: u64
  Shift :: ShiftType
  InvertCF :: bool
  Left :: bool
  GetReseeded :: bool
  Mask :: bool
  Invert :: bool

text \<open>
  A block with the nodes from its begin to its exit (its end marker is left out, as the pass skips it). \<open>EntryPoint\<close>
  says that the block can be entered from outside of the unit of code, by a return for instance.
\<close>

record IRBlock =
  EntryPoint :: bool
  Code :: "IRNode list"

text \<open>
  \<open>IR::HasSideEffects\<close>, generated from \<open>IR.json\<close>; the argument answers for the operations the pass does not know.
\<close>

fun HasSideEffects :: "(nat \<Rightarrow> bool) \<Rightarrow> IROps \<Rightarrow> bool" where
  "HasSideEffects SE OP_LOADNZCV = False"
| "HasSideEffects SE OP_ADC = False"
| "HasSideEffects SE OP_ADCZERO = False"
| "HasSideEffects SE OP_SBB = False"
| "HasSideEffects SE OP_LOADPF = False"
| "HasSideEffects SE OP_LOADAF = False"
| "HasSideEffects SE OP_NZCVSELECT = False"
| "HasSideEffects SE OP_NZCVSELECTV = False"
| "HasSideEffects SE OP_NZCVSELECTINCREMENT = False"
| "HasSideEffects SE OP_NEG = False"
| "HasSideEffects SE OP_AND = False"
| "HasSideEffects SE OP_ADD = False"
| "HasSideEffects SE OP_SUB = False"
| "HasSideEffects SE OP_XOR = False"
| "HasSideEffects SE OP_PARITY = False"
| "HasSideEffects SE (OP_OTHER k) = SE k"
| "HasSideEffects SE _ = True"

section \<open>What the pass knows of an operation\<close>

text \<open>
  \<open>FlagInfoUnpacked\<close>; the code packs the fields into 64 bits. A replacement that is not set is the operation zero there.
\<close>

record FlagInfo =
  Read :: u8
  Write :: u8
  CanEliminate :: bool
  Replacement :: "IROps option"
  ReplacementNoWrite :: "IROps option"

definition no_flags :: FlagInfo where
  "no_flags = \<lparr>Read = 0, Write = 0, CanEliminate = False, Replacement = None, ReplacementNoWrite = None\<rparr>"

definition Trivial :: "FlagInfo \<Rightarrow> bool" where
  "Trivial Info \<longleftrightarrow> Info = no_flags"

fun FlagsForCondClassType :: "CondClass \<Rightarrow> u8" where
  "FlagsForCondClassType AL = 0"
| "FlagsForCondClassType MI = FLAG_N"
| "FlagsForCondClassType PL = FLAG_N"
| "FlagsForCondClassType EQ = FLAG_Z"
| "FlagsForCondClassType NEQ = FLAG_Z"
| "FlagsForCondClassType UGE = FLAG_C"
| "FlagsForCondClassType ULT = FLAG_C"
| "FlagsForCondClassType VS = FLAG_V"
| "FlagsForCondClassType VC = FLAG_V"
| "FlagsForCondClassType FU = FLAG_V"
| "FlagsForCondClassType FNU = FLAG_V"
| "FlagsForCondClassType UGT = FLAG_Z OR FLAG_C"
| "FlagsForCondClassType ULE = FLAG_Z OR FLAG_C"
| "FlagsForCondClassType SGE = FLAG_N OR FLAG_V"
| "FlagsForCondClassType SLT = FLAG_N OR FLAG_V"
| "FlagsForCondClassType FLU = FLAG_N OR FLAG_V"
| "FlagsForCondClassType FGE = FLAG_N OR FLAG_V"
| "FlagsForCondClassType SGT = FLAG_N OR FLAG_Z OR FLAG_V"
| "FlagsForCondClassType SLE = FLAG_N OR FLAG_Z OR FLAG_V"
| "FlagsForCondClassType FLEU = FLAG_N OR FLAG_Z OR FLAG_V"
| "FlagsForCondClassType FGT = FLAG_N OR FLAG_Z OR FLAG_V"
| "FlagsForCondClassType _ = FLAG_NZCV"

text \<open>\<open>None\<close> is the mark \<open>Special\<close>: the node has to be looked at.\<close>

fun ClassifyConst :: "IROps \<Rightarrow> FlagInfo option" where
  "ClassifyConst OP_ANDWITHFLAGS =
     Some (no_flags\<lparr>Write := FLAG_NZCV, Replacement := Some OP_AND, ReplacementNoWrite := Some OP_TESTNZ\<rparr>)"
| "ClassifyConst OP_ADDWITHFLAGS =
     Some (no_flags\<lparr>Write := FLAG_NZCV, Replacement := Some OP_ADD, ReplacementNoWrite := Some OP_ADDNZCV\<rparr>)"
| "ClassifyConst OP_SUBWITHFLAGS =
     Some (no_flags\<lparr>Write := FLAG_NZCV, Replacement := Some OP_SUB, ReplacementNoWrite := Some OP_SUBNZCV\<rparr>)"
| "ClassifyConst OP_ADCWITHFLAGS =
     Some (no_flags\<lparr>Read := FLAG_C, Write := FLAG_NZCV, Replacement := Some OP_ADC, ReplacementNoWrite := Some OP_ADCNZCV\<rparr>)"
| "ClassifyConst OP_ADCZEROWITHFLAGS =
     Some (no_flags\<lparr>Read := FLAG_C, Write := FLAG_NZCV, Replacement := Some OP_ADCZERO\<rparr>)"
| "ClassifyConst OP_SBBWITHFLAGS =
     Some (no_flags\<lparr>Read := FLAG_C, Write := FLAG_NZCV, Replacement := Some OP_SBB, ReplacementNoWrite := Some OP_SBBNZCV\<rparr>)"
| "ClassifyConst OP_SHIFTFLAGS =
     Some (no_flags\<lparr>Read := FLAG_NZCV OR FLAG_P, Write := FLAG_NZCV OR FLAG_P, CanEliminate := True\<rparr>)"
| "ClassifyConst OP_ROTATEFLAGS =
     Some (no_flags\<lparr>Read := FLAG_C OR FLAG_V, Write := FLAG_C OR FLAG_V, CanEliminate := True\<rparr>)"
| "ClassifyConst OP_RDRAND = Some (no_flags\<lparr>Write := FLAG_NZCV\<rparr>)"
| "ClassifyConst OP_ADDNZCV = Some (no_flags\<lparr>Write := FLAG_NZCV, CanEliminate := True\<rparr>)"
| "ClassifyConst OP_SUBNZCV = Some (no_flags\<lparr>Write := FLAG_NZCV, CanEliminate := True\<rparr>)"
| "ClassifyConst OP_TESTNZ = Some (no_flags\<lparr>Write := FLAG_NZCV, CanEliminate := True\<rparr>)"
| "ClassifyConst OP_FCMP = Some (no_flags\<lparr>Write := FLAG_NZCV, CanEliminate := True\<rparr>)"
| "ClassifyConst OP_STORENZCV = Some (no_flags\<lparr>Write := FLAG_NZCV, CanEliminate := True\<rparr>)"
| "ClassifyConst OP_AXFLAG = Some (no_flags\<lparr>Read := FLAG_ZCV, Write := FLAG_NZCV, CanEliminate := True\<rparr>)"
| "ClassifyConst OP_CMPPAIRZ = Some (no_flags\<lparr>Write := FLAG_Z, CanEliminate := True\<rparr>)"
| "ClassifyConst OP_CARRYINVERT = Some (no_flags\<lparr>Read := FLAG_C, Write := FLAG_C, CanEliminate := True\<rparr>)"
| "ClassifyConst OP_SETSMALLNZV = Some (no_flags\<lparr>Write := FLAG_N OR FLAG_Z OR FLAG_V, CanEliminate := True\<rparr>)"
| "ClassifyConst OP_LOADNZCV = Some (no_flags\<lparr>Read := FLAG_NZCV\<rparr>)"
| "ClassifyConst OP_ADC = Some (no_flags\<lparr>Read := FLAG_C\<rparr>)"
| "ClassifyConst OP_ADCZERO = Some (no_flags\<lparr>Read := FLAG_C\<rparr>)"
| "ClassifyConst OP_SBB = Some (no_flags\<lparr>Read := FLAG_C\<rparr>)"
| "ClassifyConst OP_ADCNZCV = Some (no_flags\<lparr>Read := FLAG_C, Write := FLAG_NZCV, CanEliminate := True\<rparr>)"
| "ClassifyConst OP_SBBNZCV = Some (no_flags\<lparr>Read := FLAG_C, Write := FLAG_NZCV, CanEliminate := True\<rparr>)"
| "ClassifyConst OP_LOADPF = Some (no_flags\<lparr>Read := FLAG_P\<rparr>)"
| "ClassifyConst OP_LOADAF = Some (no_flags\<lparr>Read := FLAG_A\<rparr>)"
| "ClassifyConst OP_STOREPF = Some (no_flags\<lparr>Write := FLAG_P, CanEliminate := True\<rparr>)"
| "ClassifyConst OP_STOREAF = Some (no_flags\<lparr>Write := FLAG_A, CanEliminate := True\<rparr>)"
| "ClassifyConst OP_NZCVSELECT = None"
| "ClassifyConst OP_NZCVSELECTV = None"
| "ClassifyConst OP_NZCVSELECTINCREMENT = None"
| "ClassifyConst OP_NEG = None"
| "ClassifyConst OP_CONDJUMP = None"
| "ClassifyConst OP_CONDSUBNZCV = None"
| "ClassifyConst OP_CONDADDNZCV = None"
| "ClassifyConst OP_RMIFNZCV = None"
| "ClassifyConst OP_INVALIDATEFLAGS = None"
| "ClassifyConst _ = Some no_flags"

definition RFLAG_CF_RAW_LOC :: nat where "RFLAG_CF_RAW_LOC = 0"
definition RFLAG_PF_RAW_LOC :: nat where "RFLAG_PF_RAW_LOC = 2"
definition RFLAG_AF_RAW_LOC :: nat where "RFLAG_AF_RAW_LOC = 4"
definition RFLAG_ZF_RAW_LOC :: nat where "RFLAG_ZF_RAW_LOC = 6"
definition RFLAG_SF_RAW_LOC :: nat where "RFLAG_SF_RAW_LOC = 7"
definition RFLAG_OF_RAW_LOC :: nat where "RFLAG_OF_RAW_LOC = 11"

definition InvalidatedFlags :: "u64 \<Rightarrow> u8" where
  "InvalidatedFlags F =
    (if bit F RFLAG_SF_RAW_LOC then FLAG_N else 0) OR
    (if bit F RFLAG_ZF_RAW_LOC then FLAG_Z else 0) OR
    (if bit F RFLAG_CF_RAW_LOC then FLAG_C else 0) OR
    (if bit F RFLAG_OF_RAW_LOC then FLAG_V else 0) OR
    (if bit F RFLAG_PF_RAW_LOC then FLAG_P else 0) OR
    (if bit F RFLAG_AF_RAW_LOC then FLAG_A else 0)"

fun ClassifySpecial :: "IRNode \<Rightarrow> IROps \<Rightarrow> FlagInfo" where
  "ClassifySpecial n OP_CONDJUMP =
     (if FromNZCV n then no_flags\<lparr>Read := FlagsForCondClassType (Cond n)\<rparr> else no_flags)"
| "ClassifySpecial n OP_CONDSUBNZCV =
     no_flags\<lparr>Read := FlagsForCondClassType (Cond n), Write := FLAG_NZCV, CanEliminate := True\<rparr>"
| "ClassifySpecial n OP_CONDADDNZCV =
     no_flags\<lparr>Read := FlagsForCondClassType (Cond n), Write := FLAG_NZCV, CanEliminate := True\<rparr>"
| "ClassifySpecial n OP_RMIFNZCV = no_flags\<lparr>Write := RmifMask n, CanEliminate := True\<rparr>"
| "ClassifySpecial n OP_INVALIDATEFLAGS = no_flags\<lparr>Write := InvalidatedFlags (InvFlags n), CanEliminate := True\<rparr>"
| "ClassifySpecial n _ = no_flags\<lparr>Read := FlagsForCondClassType (Cond n)\<rparr>"

definition Classify :: "IRNode \<Rightarrow> FlagInfo" where
  "Classify n = (case ClassifyConst (Op n) of Some Info \<Rightarrow> Info | None \<Rightarrow> ClassifySpecial n (Op n))"

end
