(* ===== verification/FlagElimination.thy ===== *)
theory FlagElimination
  imports FlagIR
begin

text \<open>
  The pass of \<open>RedundantFlagCalculationElimination.cpp\<close>: the backward scan of a block that removes or weakens
  writes of flags nobody reads (\<open>ProcessBlock\<close>), the work list that propagates what blocks read to their
  predecessors (\<open>Run\<close>), the folding of compares into branches (\<open>FoldBranch\<close>) and the removal of parity calculations
  (\<open>OptimizeParity\<close>).
\<close>

section \<open>The scan of a block\<close>

text \<open>
  The uses of a node are the operands that refer to it. Removing a node takes its operands' uses away, so the number is
  that of the nodes that are left; operands only refer to earlier nodes of the block.
\<close>

definition GetUses :: "nat \<Rightarrow> IRNode list \<Rightarrow> nat" where
  "GetUses i code = sum_list (map (\<lambda>n. count_list (Args n) i) code)"

text \<open>The node as the scan leaves it when it does not remove it.\<close>

definition ReplaceOp :: "u8 \<Rightarrow> FlagInfo \<Rightarrow> nat \<Rightarrow> IRNode \<Rightarrow> IRNode" where
  "ReplaceOp FlagsRead Info Uses n =
    (if FlagsRead AND Write Info = 0 then
       (case Replacement Info of Some r \<Rightarrow> n\<lparr>Op := r\<rparr> | None \<Rightarrow> n)
     else
       (case ReplacementNoWrite Info of Some r \<Rightarrow> if Uses = 0 then n\<lparr>Op := r\<rparr> else n | None \<Rightarrow> n))"

definition OptimizeTest :: "u8 \<Rightarrow> IRNode \<Rightarrow> IRNode" where
  "OptimizeTest FlagsRead n =
    (if Op n = OP_TESTNZ \<and> OpSizeToSize (OpSize n) < OpSizeToSize i32Bit \<and> FlagsRead AND (FLAG_N OR FLAG_C) = 0
     then n\<lparr>Op := OP_TESTZ\<rparr> else n)"

definition Eliminated :: "u8 \<Rightarrow> FlagInfo \<Rightarrow> nat \<Rightarrow> bool" where
  "Eliminated FlagsRead Info Uses \<longleftrightarrow>
    FlagsRead AND Write Info = 0 \<and> (CanEliminate Info \<or> Replacement Info \<noteq> None) \<and> Uses = 0"

definition EliminateDeadCode :: "(nat \<Rightarrow> bool) \<Rightarrow> IRNode \<Rightarrow> nat \<Rightarrow> bool" where
  "EliminateDeadCode SE n Uses \<longleftrightarrow> \<not> (Uses > 0 \<or> HasSideEffects SE (Op n))"

text \<open>
  The loop of \<open>ProcessBlock\<close>: the nodes still to visit from the last to the first, the nodes behind them that were kept,
  the flags that are read behind.
\<close>

fun ScanBlock :: "(nat \<Rightarrow> bool) \<Rightarrow> IRNode list \<Rightarrow> IRNode list \<Rightarrow> u8 \<Rightarrow> IRNode list \<times> u8" where
  "ScanBlock SE [] Kept FlagsRead = (Kept, FlagsRead)"
| "ScanBlock SE (n # ns) Kept FlagsRead =
    (let Uses = GetUses (NodeID n) Kept in
     if EliminateDeadCode SE n Uses then ScanBlock SE ns Kept FlagsRead
     else
       let Info = Classify n in
       if Trivial Info then ScanBlock SE ns (n # Kept) FlagsRead
       else if Eliminated FlagsRead Info Uses then ScanBlock SE ns Kept (FlagsRead AND NOT (Write Info))
       else ScanBlock SE ns (OptimizeTest FlagsRead (ReplaceOp FlagsRead Info Uses n) # Kept)
              ((FlagsRead AND NOT (Write Info)) OR Read Info))"

section \<open>The blocks and the work list\<close>

text \<open>
  The list of blocks: the blocks by their id, and the ids in the order of the list. The target of a jump without
  condition is its \<open>TrueBlock\<close>.
\<close>

record IRList =
  Blocks :: "IRBlock list"
  Order :: "nat list"
  ReadsParity :: bool

definition ExitTargets :: "IRNode list \<Rightarrow> nat list" where
  "ExitTargets code =
    (if code = [] then []
     else if Op (last code) = OP_CONDJUMP then [TrueBlock (last code), FalseBlock (last code)]
     else if Op (last code) = OP_JUMP then [TrueBlock (last code)]
     else [])"

definition FlagsAtExit :: "u8 list \<Rightarrow> IRNode list \<Rightarrow> u8" where
  "FlagsAtExit Flags code =
    (case ExitTargets code of
       [] \<Rightarrow> FLAG_ALL
     | [T] \<Rightarrow> Flags ! T
     | T # F # _ \<Rightarrow> Flags ! T OR Flags ! F)"

definition ProcessBlock :: "(nat \<Rightarrow> bool) \<Rightarrow> u8 list \<Rightarrow> IRNode list \<Rightarrow> IRNode list \<times> u8" where
  "ProcessBlock SE Flags code = ScanBlock SE (rev code) [] (FlagsAtExit Flags code)"

text \<open>
  \<open>RecordEdge\<close> is the first access to the entry of a target; a target that is not the id of a block has no entry.
\<close>

definition RecordEdge :: "nat \<Rightarrow> nat \<Rightarrow> nat list list \<Rightarrow> nat list list option" where
  "RecordEdge From To Preds = (if To < length Preds then Some (Preds[To := Preds ! To @ [From]]) else None)"

fun RecordEdges :: "nat \<Rightarrow> nat list \<Rightarrow> nat list list \<Rightarrow> nat list list option" where
  "RecordEdges From [] Preds = Some Preds"
| "RecordEdges From (To # Ts) Preds = Option.bind (RecordEdge From To Preds) (RecordEdges From Ts)"

fun GatherCFG :: "IRBlock list \<Rightarrow> nat list \<Rightarrow> nat list list \<Rightarrow> nat list list option" where
  "GatherCFG Bs [] Preds = Some Preds"
| "GatherCFG Bs (b # bs) Preds =
    Option.bind (RecordEdges b (ExitTargets (Code (Bs ! b))) Preds) (GatherCFG Bs bs)"

text \<open>The front of the queue is the head of the list \<open>Worklist\<close>.\<close>

record PassState =
  PBlocks :: "IRBlock list"
  BlockFlags :: "u8 list"
  InWorklist :: "bool list"
  Worklist :: "nat list"

definition InitState :: "IRBlock list \<Rightarrow> PassState" where
  "InitState Bs = \<lparr>PBlocks = Bs, BlockFlags = replicate (length Bs) FLAG_ALL,
     InWorklist = replicate (length Bs) True, Worklist = [0..<length Bs]\<rparr>"

definition AddWorklist :: "nat \<Rightarrow> PassState \<Rightarrow> PassState" where
  "AddWorklist b st =
    (if \<not> InWorklist st ! b then st\<lparr>InWorklist := (InWorklist st)[b := True], Worklist := b # Worklist st\<rparr> else st)"

definition ProcessNext :: "(nat \<Rightarrow> bool) \<Rightarrow> nat list list \<Rightarrow> PassState \<Rightarrow> PassState" where
  "ProcessNext SE Preds st =
    (let b = last (Worklist st);
         (code, FlagsRead) = ProcessBlock SE (BlockFlags st) (Code (PBlocks st ! b));
         st1 = st\<lparr>InWorklist := (InWorklist st)[b := False],
                 PBlocks := (PBlocks st)[b := (PBlocks st ! b)\<lparr>Code := code\<rparr>],
                 BlockFlags := (BlockFlags st)[b := FlagsRead]\<rparr>;
         st2 = (if BlockFlags st ! b \<noteq> FlagsRead then fold AddWorklist (Preds ! b) st1 else st1)
     in st2\<lparr>Worklist := butlast (Worklist st2)\<rparr>)"

fun WorklistLoop :: "(nat \<Rightarrow> bool) \<Rightarrow> nat list list \<Rightarrow> nat \<Rightarrow> PassState \<Rightarrow> PassState option" where
  "WorklistLoop SE Preds fuel st =
    (if Worklist st = [] then Some st
     else case fuel of 0 \<Rightarrow> None | Suc f \<Rightarrow> WorklistLoop SE Preds f (ProcessNext SE Preds st))"

declare WorklistLoop.simps [simp del]

section \<open>Folding compares into branches\<close>

definition X86ToArmFloatCond :: "CondClass \<Rightarrow> CondClass" where
  "X86ToArmFloatCond X86 =
    (case X86 of UGE \<Rightarrow> FGE | UGT \<Rightarrow> FGT | ULT \<Rightarrow> SLT | ULE \<Rightarrow> SLE | SLE \<Rightarrow> SLE | _ \<Rightarrow> AL)"

definition IsStore :: "IRNode \<Rightarrow> bool" where
  "IsStore n \<longleftrightarrow> Op n = OP_STOREREGISTER \<or> Op n = OP_STOREPF \<or> Op n = OP_STOREAF"

definition GetNode :: "IRNode list \<Rightarrow> nat \<Rightarrow> IRNode option" where
  "GetNode code i = List.find (\<lambda>n. NodeID n = i) code"

definition IsInlineZero :: "IRNode list \<Rightarrow> nat \<Rightarrow> bool" where
  "IsInlineZero code i =
    (case GetNode code i of Some n \<Rightarrow> Op n = OP_INLINECONSTANT \<and> Constant n = 0 | None \<Rightarrow> False)"

text \<open>The branch after the compare is folded into it, \<open>None\<close> when the code returns before the compare is removed.\<close>

definition FoldedJump :: "IRNode list \<Rightarrow> IRNode \<Rightarrow> IRNode \<Rightarrow> IRNode option" where
  "FoldedJump code Prev Jump =
    (if Op Prev = OP_AXFLAG then
       (if X86ToArmFloatCond (Cond Jump) = AL then None else Some (Jump\<lparr>Cond := X86ToArmFloatCond (Cond Jump)\<rparr>))
     else if Op Prev = OP_SUBNZCV then
       (if \<not> (Cond Jump = NEQ \<or> Cond Jump = EQ) \<or> OpSizeToSize (OpSize Prev) < OpSizeToSize i32Bit then None
        else case Args Prev of
          Src1 # Src2 # _ \<Rightarrow>
            (if IsInlineZero code Src2
             then Some (Jump\<lparr>Args := (Args Jump)[0 := Src1, 1 := Src2], FromNZCV := False, CompareSize := OpSize Prev\<rparr>)
             else None)
        | _ \<Rightarrow> None)
     else None)"

definition FoldBranch :: "IRNode list \<Rightarrow> IRNode list" where
  "FoldBranch code =
    (let Jump = last code; Before = rev (butlast code);
         Stores = takeWhile IsStore Before
     in case dropWhile IsStore Before of
          [] \<Rightarrow> code
        | Prev # Rest \<Rightarrow>
            (case FoldedJump code Prev Jump of
               None \<Rightarrow> code
             | Some Jump' \<Rightarrow> rev Rest @ rev Stores @ [Jump']))"

definition FoldBlock :: "u8 list \<Rightarrow> IRNode list \<Rightarrow> IRNode list" where
  "FoldBlock Flags code =
    (if code \<noteq> [] \<and> Op (last code) = OP_CONDJUMP
        \<and> (Flags ! TrueBlock (last code) OR Flags ! FalseBlock (last code)) AND FLAG_NZCV = 0
        \<and> FromNZCV (last code)
     then FoldBranch code else code)"

definition FoldBlocks :: "u8 list \<Rightarrow> IRBlock list \<Rightarrow> IRBlock list" where
  "FoldBlocks Flags = map (\<lambda>B. B\<lparr>Code := FoldBlock Flags (Code B)\<rparr>)"

section \<open>Parity\<close>

text \<open>Whether a value stored to PF may have more than the lowest bit set.\<close>

definition StoresFullParity :: "IRNode list \<Rightarrow> IRNode \<Rightarrow> bool" where
  "StoresFullParity code Generator =
    (if Op Generator = OP_NZCVSELECT then
       (case map (GetNode code) (take 2 (Args Generator)) of
          [Some C0, Some C1] \<Rightarrow>
            (if Op C0 = Op C1 \<and> Op C0 = OP_INLINECONSTANT
             then (Constant C0 OR Constant C1) AND NOT 1 \<noteq> 0 else True)
        | _ \<Rightarrow> True)
     else True)"

definition ReplaceUses :: "nat \<Rightarrow> nat \<Rightarrow> IRNode list \<Rightarrow> IRNode list" where
  "ReplaceUses i j = map (\<lambda>n. n\<lparr>Args := map (\<lambda>a. if a = i then j else a) (Args n)\<rparr>)"

definition NewNode :: "nat \<Rightarrow> IROps \<Rightarrow> IRNode" where
  "NewNode i op = \<lparr>NodeID = i, Op = op, OpSize = i32Bit, Args = [], Cond = NEQ, FromNZCV = False, CompareSize = iInvalid,
     TrueBlock = 0, FalseBlock = 0, FalseNZCV = 0, RmifRotate = 0, RmifMask = 0, InvFlags = 0, Constant = 0,
     Shift = LSL, InvertCF = False, Left = False, GetReseeded = False, Mask = False, Invert = False\<rparr>"

text \<open>
  The loop over the nodes of a block: the nodes already visited, the nodes to visit, whether PF may be full, the id for
  the next new node.
\<close>

function ParityScan :: "IRNode list \<Rightarrow> IRNode list \<Rightarrow> bool \<Rightarrow> nat \<Rightarrow> IRNode list \<times> bool \<times> nat" where
  "ParityScan Seen [] Full Next = (Seen, Full, Next)"
| "ParityScan Seen (n # ns) Full Next =
    (if Op n = OP_STOREPF then
       ParityScan (Seen @ [n]) ns
         (case Args n of
            v # _ \<Rightarrow> (case GetNode (Seen @ n # ns) v of Some g \<Rightarrow> StoresFullParity (Seen @ n # ns) g | None \<Rightarrow> True)
          | [] \<Rightarrow> True) Next
     else if Op n = OP_PARITY \<and> \<not> Full then
       (case Args n of
          Raw # _ \<Rightarrow>
            (if Invert n then
               ParityScan
                 (Seen @ [(NewNode Next OP_INLINECONSTANT)\<lparr>Constant := 1\<rparr>,
                          (NewNode (Next + 1) OP_XOR)\<lparr>Args := [Raw, Next]\<rparr>])
                 (ReplaceUses (NodeID n) (Next + 1) ns) Full (Next + 2)
             else ParityScan Seen (ReplaceUses (NodeID n) Raw ns) Full Next)
        | [] \<Rightarrow> ParityScan (Seen @ [n]) ns Full Next)
     else ParityScan (Seen @ [n]) ns Full Next)"
  by pat_completeness auto
termination
  by (relation "measure (\<lambda>(_, ns, _, _). length ns)") (auto simp: ReplaceUses_def)

text \<open>\<open>Flags\<close> of a block is whether its end may leave a full PF.\<close>

definition FullAtBegin :: "nat list list \<Rightarrow> bool list \<Rightarrow> nat \<Rightarrow> bool" where
  "FullAtBegin Preds Full b = (if Preds ! b = [] then True else \<exists>p \<in> set (Preds ! b). Full ! p)"

fun ParityBlocks :: "nat list list \<Rightarrow> nat list \<Rightarrow> IRBlock list \<Rightarrow> bool list \<Rightarrow> nat \<Rightarrow> IRBlock list" where
  "ParityBlocks Preds [] Bs Full Next = Bs"
| "ParityBlocks Preds (b # bs) Bs Full Next =
    (let (code, F, Next') = ParityScan [] (Code (Bs ! b)) (FullAtBegin Preds Full b) Next
     in ParityBlocks Preds bs (Bs[b := (Bs ! b)\<lparr>Code := code\<rparr>]) (Full[b := F]) Next')"

definition OptimizeParity :: "nat list list \<Rightarrow> nat list \<Rightarrow> nat \<Rightarrow> IRBlock list \<Rightarrow> IRBlock list" where
  "OptimizeParity Preds Ord Next Bs = ParityBlocks Preds Ord Bs (replicate (length Bs) True) Next"

section \<open>The pass\<close>

text \<open>
  The elimination proper, the pass up to the fold of branches: \<open>None\<close> when the fuel is used up or a target is no block.
\<close>

definition EliminateFlags :: "(nat \<Rightarrow> bool) \<Rightarrow> nat \<Rightarrow> IRList \<Rightarrow> (nat list list \<times> PassState) option" where
  "EliminateFlags SE fuel ir =
    (case GatherCFG (Blocks ir) (Order ir) (replicate (length (Blocks ir)) []) of
       None \<Rightarrow> None
     | Some Preds \<Rightarrow> map_option (Pair Preds) (WorklistLoop SE Preds fuel (InitState (Blocks ir))))"

definition Run :: "(nat \<Rightarrow> bool) \<Rightarrow> nat \<Rightarrow> nat \<Rightarrow> IRList \<Rightarrow> IRBlock list option" where
  "Run SE fuel Next ir =
    (case EliminateFlags SE fuel ir of
       None \<Rightarrow> None
     | Some (Preds, st) \<Rightarrow>
        let Folded = FoldBlocks (BlockFlags st) (PBlocks st)
        in Some (if ReadsParity ir then OptimizeParity Preds (Order ir) Next Folded else Folded))"

end
