(* ===== verification/FlagSemantics.thy ===== *)
theory FlagSemantics
  imports FlagIR
begin

text \<open>
  The meaning of the operations that read or write the host flags, after \<open>IR.json\<close> and the code the JIT emits for them
  (\<open>ALUOps.cpp\<close>, \<open>BranchOps.cpp\<close>, \<open>MemoryOps.cpp\<close>). All other operations are parameters (\<open>Machine\<close>): they compute a value
  and change the rest of the state, of any type. They do not read flags, and they leave them alone unless they are marked
  \<open>ImplicitFlagClobber\<close> in \<open>IR.json\<close> (\<open>CAS\<close> or \<open>Select\<close>, for instance): then N, Z, C and V are undefined behind them.
  What the IR leaves undefined (these flags, flags that were invalidated, N after \<open>TestZ\<close>, the upper bits of an unmasked
  parity) is taken from an oracle.
\<close>

section \<open>States\<close>

type_synonym Value = "256 word"

record Flags =
  fN :: bool
  fZ :: bool
  fC :: bool
  fV :: bool
  fP :: u64
  fA :: u64

record 'e State =
  Vals :: "nat \<Rightarrow> Value"
  FlagsOf :: Flags
  Env :: 'e
  Next :: "nat option"

datatype FcmpResult = FLess | FEqual | FGreater | FUnordered

record 'e Machine =
  SideEffects :: "nat \<Rightarrow> bool"
  FlagClobber :: "nat \<Rightarrow> bool"
  Effect :: "IRNode \<Rightarrow> Value list \<Rightarrow> 'e \<Rightarrow> Value \<times> 'e"
  Random :: "bool \<Rightarrow> 'e \<Rightarrow> u64 \<times> bool \<times> 'e"
  Compare :: "IROpSize \<Rightarrow> Value \<Rightarrow> Value \<Rightarrow> FcmpResult"

text \<open>What is undefined, by the node that leaves it undefined.\<close>

record Oracle =
  UndefFlags :: "nat \<Rightarrow> Flags"
  UndefN :: "nat \<Rightarrow> bool"
  UndefParity :: "nat \<Rightarrow> u64"

text \<open>\<open>agree F f g\<close>: the flags of the mask \<open>F\<close> are the same.\<close>

definition agree :: "u8 \<Rightarrow> Flags \<Rightarrow> Flags \<Rightarrow> bool" where
  "agree F f g \<longleftrightarrow> (bit F 0 \<longrightarrow> fV f = fV g) \<and> (bit F 1 \<longrightarrow> fC f = fC g) \<and> (bit F 2 \<longrightarrow> fZ f = fZ g)
     \<and> (bit F 3 \<longrightarrow> fN f = fN g) \<and> (bit F 4 \<longrightarrow> fP f = fP g) \<and> (bit F 5 \<longrightarrow> fA f = fA g)"

section \<open>Arithmetic with flags\<close>

definition operand :: "Value list \<Rightarrow> nat \<Rightarrow> Value" where
  "operand vs i = (if i < length vs then vs ! i else 0)"

definition gpr :: "Value list \<Rightarrow> nat \<Rightarrow> u64" where
  "gpr vs i = ucast (operand vs i)"

text \<open>
  The width an instruction is emitted with (\<open>ConvertSize\<close>) and the width of the operation: the operands of smaller
  operations are shifted up.
\<close>

definition EmitBits :: "IRNode \<Rightarrow> nat" where
  "EmitBits n = (if OpSize n = i64Bit then 64 else 32)"

definition Bits :: "IRNode \<Rightarrow> nat" where
  "Bits n = (if OpSizeToSize (OpSize n) < OpSizeToSize i32Bit then OpSizeAsBits (OpSize n) else EmitBits n)"

definition emitted :: "IRNode \<Rightarrow> u64 \<Rightarrow> Value" where
  "emitted n x = ucast (take_bit (EmitBits n) x)"

definition nzcv :: "bool \<Rightarrow> bool \<Rightarrow> bool \<Rightarrow> bool \<Rightarrow> Flags \<Rightarrow> Flags" where
  "nzcv N Z C V f = f\<lparr>fN := N, fZ := Z, fC := C, fV := V\<rparr>"

definition add_flags :: "nat \<Rightarrow> u64 \<Rightarrow> u64 \<Rightarrow> bool \<Rightarrow> Flags \<Rightarrow> Flags" where
  "add_flags w a b c f =
    (let x = unat (take_bit w a); y = unat (take_bit w b); r = x + y + of_bool c
     in nzcv (bit r (w - 1)) (r mod 2 ^ w = 0) (2 ^ w \<le> r)
          (bit a (w - 1) = bit b (w - 1) \<and> bit r (w - 1) \<noteq> bit a (w - 1)) f)"

definition sub_flags :: "nat \<Rightarrow> u64 \<Rightarrow> u64 \<Rightarrow> bool \<Rightarrow> Flags \<Rightarrow> Flags" where
  "sub_flags w a b c = add_flags w a (NOT b) c"

definition test_flags :: "nat \<Rightarrow> u64 \<Rightarrow> Flags \<Rightarrow> Flags" where
  "test_flags w x = nzcv (bit x (w - 1)) (take_bit w x = 0) False False"

text \<open>\<open>MapCC\<close> with the meaning of the conditions of the host; an unsupported class is the condition \<open>CC_NV\<close>, always.\<close>

fun Holds :: "CondClass \<Rightarrow> Flags \<Rightarrow> bool" where
  "Holds EQ f = fZ f"
| "Holds NEQ f = (\<not> fZ f)"
| "Holds SGE f = (fN f = fV f)"
| "Holds SLT f = (fN f \<noteq> fV f)"
| "Holds SGT f = (\<not> fZ f \<and> fN f = fV f)"
| "Holds SLE f = (fZ f \<or> fN f \<noteq> fV f)"
| "Holds UGE f = fC f"
| "Holds ULT f = (\<not> fC f)"
| "Holds UGT f = (fC f \<and> \<not> fZ f)"
| "Holds ULE f = (\<not> fC f \<or> fZ f)"
| "Holds FLU f = (fN f \<noteq> fV f)"
| "Holds FGE f = (fN f = fV f)"
| "Holds FLEU f = (fZ f \<or> fN f \<noteq> fV f)"
| "Holds FGT f = (\<not> fZ f \<and> fN f = fV f)"
| "Holds FU f = fV f"
| "Holds VS f = fV f"
| "Holds FNU f = (\<not> fV f)"
| "Holds VC f = (\<not> fV f)"
| "Holds MI f = fN f"
| "Holds PL f = (\<not> fN f)"
| "Holds _ f = True"

fun fcmp_flags :: "FcmpResult \<Rightarrow> Flags \<Rightarrow> Flags" where
  "fcmp_flags FEqual = nzcv False True True False"
| "fcmp_flags FLess = nzcv True False False False"
| "fcmp_flags FGreater = nzcv False False True False"
| "fcmp_flags FUnordered = nzcv False False True True"

definition axflag :: "Flags \<Rightarrow> Flags" where
  "axflag f = nzcv False (fZ f \<or> fV f) (fC f \<and> \<not> fV f) False f"

definition rmif :: "u64 \<Rightarrow> nat \<Rightarrow> u8 \<Rightarrow> Flags \<Rightarrow> Flags" where
  "rmif x r m f =
    (let b = (\<lambda>i. bit x ((r + i) mod 64))
     in nzcv (if bit m 3 then b 3 else fN f) (if bit m 2 then b 2 else fZ f)
             (if bit m 1 then b 1 else fC f) (if bit m 0 then b 0 else fV f) f)"

definition const_flags :: "u8 \<Rightarrow> Flags \<Rightarrow> Flags" where
  "const_flags m = nzcv (bit m 3) (bit m 2) (bit m 1) (bit m 0)"

text \<open>
  \<open>ShiftFlags\<close>, operands result, source, shift and old PF: nothing changes when the masked shift is zero. The second
  function is the new raw PF.
\<close>

definition ShiftCarry :: "IRNode \<Rightarrow> Value list \<Rightarrow> bool" where
  "ShiftCarry n vs =
    ((if Shift n = LSL then
        (if 4 \<le> OpSizeToSize (OpSize n)
         then bit (gpr vs 1) (unat (- gpr vs 2) mod EmitBits n)
         else bit (gpr vs 0) (Bits n))
      else bit (gpr vs 1) (unat (gpr vs 2 - 1) mod EmitBits n)) \<noteq> InvertCF n)"

definition ShiftIsZero :: "IRNode \<Rightarrow> Value list \<Rightarrow> bool" where
  "ShiftIsZero n vs \<longleftrightarrow> gpr vs 2 AND (if OpSize n = i64Bit then 0x3F else 0x1F) = 0"

definition shift_flags :: "IRNode \<Rightarrow> Value list \<Rightarrow> Flags \<Rightarrow> Flags" where
  "shift_flags n vs f =
    (if ShiftIsZero n vs then f
     else
       let r = gpr vs 0
       in nzcv (bit r (Bits n - 1)) (take_bit (Bits n) r = 0) (ShiftCarry n vs)
            (Shift n \<noteq> ASR \<and> bit (gpr vs 1 XOR r) (Bits n - 1)) f)"

definition shift_pf :: "IRNode \<Rightarrow> Value list \<Rightarrow> Value" where
  "shift_pf n vs =
    (if ShiftIsZero n vs then operand vs 3
     else if 4 \<le> OpSizeToSize (OpSize n) then emitted n (gpr vs 0) else operand vs 0)"

text \<open>\<open>RotateFlags\<close>, operands result and shift.\<close>

definition rotate_flags :: "IRNode \<Rightarrow> Value list \<Rightarrow> Flags \<Rightarrow> Flags" where
  "rotate_flags n vs f =
    (if take_bit (EmitBits n) (gpr vs 1) = 0 then f
     else
       let r = gpr vs 0;
           x = r XOR drop_bit (if Left n then Bits n - 1 else 1) r
       in f\<lparr>fC := \<not> bit r (if Left n then 0 else Bits n - 1), fV := bit x (if Left n then 0 else Bits n - 2)\<rparr>)"

definition parity_bit :: "u64 \<Rightarrow> bool" where
  "parity_bit x = odd (length (List.filter (bit x) [0..<8]))"

section \<open>Nodes\<close>

text \<open>The flags after a node.\<close>

fun NewFlags :: "'e Machine \<Rightarrow> Oracle \<Rightarrow> IRNode \<Rightarrow> IROps \<Rightarrow> Value list \<Rightarrow> 'e \<Rightarrow> Flags \<Rightarrow> Flags" where
  "NewFlags m u n OP_ANDWITHFLAGS vs e f = test_flags (Bits n) (gpr vs 0 AND gpr vs 1) f"
| "NewFlags m u n OP_TESTNZ vs e f = test_flags (Bits n) (gpr vs 0 AND gpr vs 1) f"
| "NewFlags m u n OP_TESTZ vs e f = (test_flags (Bits n) (gpr vs 0 AND gpr vs 1) f)\<lparr>fN := UndefN u (NodeID n)\<rparr>"
| "NewFlags m u n OP_ADDWITHFLAGS vs e f = add_flags (Bits n) (gpr vs 0) (gpr vs 1) False f"
| "NewFlags m u n OP_ADDNZCV vs e f = add_flags (Bits n) (gpr vs 0) (gpr vs 1) False f"
| "NewFlags m u n OP_SUBWITHFLAGS vs e f = sub_flags (Bits n) (gpr vs 0) (gpr vs 1) True f"
| "NewFlags m u n OP_SUBNZCV vs e f = sub_flags (Bits n) (gpr vs 0) (gpr vs 1) True f"
| "NewFlags m u n OP_ADCWITHFLAGS vs e f = add_flags (Bits n) (gpr vs 0) (gpr vs 1) (fC f) f"
| "NewFlags m u n OP_ADCNZCV vs e f = add_flags (Bits n) (gpr vs 0) (gpr vs 1) (fC f) f"
| "NewFlags m u n OP_ADCZEROWITHFLAGS vs e f = add_flags (Bits n) (gpr vs 0) (of_bool (\<not> fC f)) False f"
| "NewFlags m u n OP_SBBWITHFLAGS vs e f = sub_flags (Bits n) (gpr vs 0) (gpr vs 1) (fC f) f"
| "NewFlags m u n OP_SBBNZCV vs e f = sub_flags (Bits n) (gpr vs 0) (gpr vs 1) (fC f) f"
| "NewFlags m u n OP_SHIFTFLAGS vs e f = shift_flags n vs f"
| "NewFlags m u n OP_ROTATEFLAGS vs e f = rotate_flags n vs f"
| "NewFlags m u n OP_RDRAND vs e f = nzcv False (\<not> fst (snd (Random m (GetReseeded n) e))) False False f"
| "NewFlags m u n OP_FCMP vs e f = fcmp_flags (Compare m (OpSize n) (operand vs 0) (operand vs 1)) f"
| "NewFlags m u n OP_STORENZCV vs e f =
     nzcv (bit (gpr vs 0) 31) (bit (gpr vs 0) 30) (bit (gpr vs 0) 29) (bit (gpr vs 0) 28) f"
| "NewFlags m u n OP_AXFLAG vs e f = axflag f"
| "NewFlags m u n OP_CMPPAIRZ vs e f =
     f\<lparr>fZ := take_bit (EmitBits n) (gpr vs 0) = take_bit (EmitBits n) (gpr vs 2)
        \<and> take_bit (EmitBits n) (gpr vs 1) = take_bit (EmitBits n) (gpr vs 3)\<rparr>"
| "NewFlags m u n OP_CARRYINVERT vs e f = f\<lparr>fC := \<not> fC f\<rparr>"
| "NewFlags m u n OP_SETSMALLNZV vs e f =
     f\<lparr>fN := bit (gpr vs 0) (Bits n - 1), fZ := take_bit (Bits n) (gpr vs 0) = 0,
       fV := bit (gpr vs 0) (Bits n) \<noteq> bit (gpr vs 0) (Bits n - 1)\<rparr>"
| "NewFlags m u n OP_STOREPF vs e f = f\<lparr>fP := gpr vs 0\<rparr>"
| "NewFlags m u n OP_STOREAF vs e f = f\<lparr>fA := gpr vs 0\<rparr>"
| "NewFlags m u n OP_CONDADDNZCV vs e f =
     (if Holds (Cond n) f then add_flags (Bits n) (gpr vs 0) (gpr vs 1) False f else const_flags (FalseNZCV n) f)"
| "NewFlags m u n OP_CONDSUBNZCV vs e f =
     (if Holds (Cond n) f then sub_flags (Bits n) (gpr vs 0) (gpr vs 1) True f else const_flags (FalseNZCV n) f)"
| "NewFlags m u n OP_RMIFNZCV vs e f = rmif (gpr vs 0) (unat (RmifRotate n)) (RmifMask n) f"
| "NewFlags m u n OP_INVALIDATEFLAGS vs e f =
     (let F = InvalidatedFlags (InvFlags n); g = UndefFlags u (NodeID n)
      in \<lparr>fN = (if bit F 3 then fN g else fN f), fZ = (if bit F 2 then fZ g else fZ f),
          fC = (if bit F 1 then fC g else fC f), fV = (if bit F 0 then fV g else fV f),
          fP = (if bit F 4 then fP g else fP f), fA = (if bit F 5 then fA g else fA f)\<rparr>)"
| "NewFlags m u n (OP_OTHER k) vs e f =
     (let g = UndefFlags u (NodeID n) in if FlagClobber m k then nzcv (fN g) (fZ g) (fC g) (fV g) f else f)"
| "NewFlags m u n _ vs e f = f"

text \<open>The value of a node that has a destination.\<close>

fun NewValue :: "'e Machine \<Rightarrow> Oracle \<Rightarrow> IRNode \<Rightarrow> IROps \<Rightarrow> Value list \<Rightarrow> 'e \<Rightarrow> Flags \<Rightarrow> Value option" where
  "NewValue m u n OP_ANDWITHFLAGS vs e f = Some (emitted n (gpr vs 0 AND gpr vs 1))"
| "NewValue m u n OP_AND vs e f = Some (emitted n (gpr vs 0 AND gpr vs 1))"
| "NewValue m u n OP_ADDWITHFLAGS vs e f = Some (emitted n (gpr vs 0 + gpr vs 1))"
| "NewValue m u n OP_ADD vs e f = Some (emitted n (gpr vs 0 + gpr vs 1))"
| "NewValue m u n OP_SUBWITHFLAGS vs e f = Some (emitted n (gpr vs 0 - gpr vs 1))"
| "NewValue m u n OP_SUB vs e f = Some (emitted n (gpr vs 0 - gpr vs 1))"
| "NewValue m u n OP_ADCWITHFLAGS vs e f = Some (emitted n (gpr vs 0 + gpr vs 1 + of_bool (fC f)))"
| "NewValue m u n OP_ADC vs e f = Some (emitted n (gpr vs 0 + gpr vs 1 + of_bool (fC f)))"
| "NewValue m u n OP_ADCZEROWITHFLAGS vs e f = Some (emitted n (gpr vs 0 + of_bool (\<not> fC f)))"
| "NewValue m u n OP_ADCZERO vs e f = Some (emitted n (gpr vs 0 + of_bool (\<not> fC f)))"
| "NewValue m u n OP_SBBWITHFLAGS vs e f = Some (emitted n (gpr vs 0 + NOT (gpr vs 1) + of_bool (fC f)))"
| "NewValue m u n OP_SBB vs e f = Some (emitted n (gpr vs 0 + NOT (gpr vs 1) + of_bool (fC f)))"
| "NewValue m u n OP_SHIFTFLAGS vs e f = Some (shift_pf n vs)"
| "NewValue m u n OP_RDRAND vs e f = Some (ucast (fst (Random m (GetReseeded n) e)))"
| "NewValue m u n OP_LOADNZCV vs e f =
     Some ((of_bool (fN f) * 2 ^ 31 + of_bool (fZ f) * 2 ^ 30 + of_bool (fC f) * 2 ^ 29 + of_bool (fV f) * 2 ^ 28))"
| "NewValue m u n OP_LOADPF vs e f = Some (ucast (fP f))"
| "NewValue m u n OP_LOADAF vs e f = Some (ucast (fA f))"
| "NewValue m u n OP_NZCVSELECT vs e f = Some (emitted n (if Holds (Cond n) f then gpr vs 0 else gpr vs 1))"
| "NewValue m u n OP_NZCVSELECTV vs e f =
     Some (take_bit (Bits n) (if Holds (Cond n) f then operand vs 0 else operand vs 1))"
| "NewValue m u n OP_NZCVSELECTINCREMENT vs e f = Some (emitted n (if Holds (Cond n) f then gpr vs 0 else gpr vs 1 + 1))"
| "NewValue m u n OP_NEG vs e f = Some (emitted n (if Holds (Cond n) f then - gpr vs 0 else gpr vs 0))"
| "NewValue m u n OP_XOR vs e f = Some (emitted n (gpr vs 0 XOR gpr vs 1))"
| "NewValue m u n OP_PARITY vs e f =
     Some (ucast (of_bool (parity_bit (gpr vs 0) \<noteq> Invert n) + (if Mask n then 0 else UndefParity u (NodeID n) * 2)))"
| "NewValue m u n OP_INLINECONSTANT vs e f = Some (ucast (Constant n))"
| "NewValue m u n OP_STOREREGISTER vs e f = Some (fst (Effect m n vs e))"
| "NewValue m u n (OP_OTHER k) vs e f = Some (fst (Effect m n vs e))"
| "NewValue m u n _ vs e f = None"

fun NewEnv :: "'e Machine \<Rightarrow> IRNode \<Rightarrow> IROps \<Rightarrow> Value list \<Rightarrow> 'e \<Rightarrow> 'e" where
  "NewEnv m n OP_RDRAND vs e = snd (snd (Random m (GetReseeded n) e))"
| "NewEnv m n OP_STOREREGISTER vs e = snd (Effect m n vs e)"
| "NewEnv m n (OP_OTHER k) vs e = snd (Effect m n vs e)"
| "NewEnv m n _ vs e = e"

text \<open>Where a jump goes.\<close>

definition Taken :: "IRNode \<Rightarrow> Value list \<Rightarrow> Flags \<Rightarrow> bool" where
  "Taken n vs f =
    (if FromNZCV n then Holds (Cond n) f
     else
       let x = take_bit (if CompareSize n = i32Bit then 32 else 64) (gpr vs 0)
       in case Cond n of
            EQ \<Rightarrow> x = 0
          | NEQ \<Rightarrow> x \<noteq> 0
          | TSTZ \<Rightarrow> \<not> bit (gpr vs 0) (unat (gpr vs 1))
          | TSTNZ \<Rightarrow> bit (gpr vs 0) (unat (gpr vs 1))
          | _ \<Rightarrow> False)"

fun NewNext :: "IRNode \<Rightarrow> IROps \<Rightarrow> Value list \<Rightarrow> Flags \<Rightarrow> nat option \<Rightarrow> nat option" where
  "NewNext n OP_CONDJUMP vs f x = Some (if Taken n vs f then TrueBlock n else FalseBlock n)"
| "NewNext n OP_JUMP vs f x = Some (TrueBlock n)"
| "NewNext n _ vs f x = x"

definition ExecNode :: "'e Machine \<Rightarrow> Oracle \<Rightarrow> IRNode \<Rightarrow> 'e State \<Rightarrow> 'e State" where
  "ExecNode m u n s =
    (let vs = map (Vals s) (Args n); f = FlagsOf s; e = Env s
     in \<lparr>Vals = (case NewValue m u n (Op n) vs e f of Some v \<Rightarrow> (Vals s)(NodeID n := v) | None \<Rightarrow> Vals s), FlagsOf = NewFlags m u n (Op n) vs e f,
         Env = NewEnv m n (Op n) vs e, Next = NewNext n (Op n) vs f (Next s)\<rparr>)"

section \<open>Blocks and programs\<close>

definition ExecCode :: "'e Machine \<Rightarrow> Oracle \<Rightarrow> IRNode list \<Rightarrow> 'e State \<Rightarrow> 'e State" where
  "ExecCode m u code s = fold (ExecNode m u) code s"

text \<open>The values of nodes are local to a block; a run through a block starts without any.\<close>

definition Enter :: "Flags \<Rightarrow> 'e \<Rightarrow> 'e State" where
  "Enter f e = \<lparr>Vals = (\<lambda>_. 0), FlagsOf = f, Env = e, Next = None\<rparr>"

text \<open>
  A run through at most \<open>k\<close> blocks from a block, with an oracle for every visit of a block: the state after the last one,
  with the block to go on with, or \<open>None\<close> for the end of the unit of code.
\<close>

fun ExecBlocks :: "'e Machine \<Rightarrow> (nat \<Rightarrow> Oracle) \<Rightarrow> IRBlock list \<Rightarrow> nat \<Rightarrow> nat \<Rightarrow> Flags \<Rightarrow> 'e \<Rightarrow> Flags \<times> 'e \<times> nat option" where
  "ExecBlocks m u Bs 0 b f e = (f, e, Some b)"
| "ExecBlocks m u Bs (Suc k) b f e =
    (let s = ExecCode m (u k) (Code (Bs ! b)) (Enter f e)
     in case Next s of
          None \<Rightarrow> (FlagsOf s, Env s, None)
        | Some b' \<Rightarrow> ExecBlocks m u Bs k b' (FlagsOf s) (Env s))"

end
