(* ===== verification/FlagSoundness.thy ===== *)
theory FlagSoundness
  imports FlagElimination FlagSemantics
begin

text \<open>
  Why the elimination of flags is right: an operation depends on the flags it is said to read and changes those it is said
  to write, a replacement does the same but for flags or a value that nobody looks at, and so the code the scan keeps
  does what the code it was given does for everybody who looks at the flags that are live only. Operations that clobber
  the flags must not do so where flags are live: the dispatcher keeps the flags in a register across them
  (\<open>OpDispatchBuilder::SaveNZCV\<close>).
\<close>

section \<open>Agreement of flags\<close>

lemma agree_refl [simp]: "agree F f f"
  by (simp add: agree_def)

lemma agree_sym: "agree F f g \<Longrightarrow> agree F g f"
  by (simp add: agree_def)

lemma agree_trans: "agree F f g \<Longrightarrow> agree F g h \<Longrightarrow> agree F f h"
  by (simp add: agree_def)

lemma agree_mono: "(\<And>i. bit F i \<Longrightarrow> bit G i) \<Longrightarrow> agree G f g \<Longrightarrow> agree F f g"
  by (simp add: agree_def)

lemma agree_or [simp]: "agree (F OR G) f g \<longleftrightarrow> agree F f g \<and> agree G f g"
proof -
  have "((a \<or> b) \<longrightarrow> c) = ((a \<longrightarrow> c) \<and> (b \<longrightarrow> c))" for a b c by blast
  then show ?thesis unfolding agree_def bit_or_iff by (simp only: conj_ac)
qed

lemma FLAG_ALL_number: "FLAG_ALL = 63"
  by (simp add: flag_masks)

lemma Flags_eqI:
  "fV f = fV g \<Longrightarrow> fC f = fC g \<Longrightarrow> fZ f = fZ g \<Longrightarrow> fN f = fN g \<Longrightarrow> fP f = fP g \<Longrightarrow> fA f = fA g \<Longrightarrow>
    (f :: Flags) = g"
  by (rule Flags.equality) simp_all

lemma agree_all: "agree FLAG_ALL f g \<longleftrightarrow> f = g"
proof -
  have "agree FLAG_ALL f g \<longleftrightarrow>
    fV f = fV g \<and> fC f = fC g \<and> fZ f = fZ g \<and> fN f = fN g \<and> fP f = fP g \<and> fA f = fA g"
    by (simp add: agree_def FLAG_ALL_number)
  then show ?thesis by (metis Flags_eqI)
qed

lemma bit_disjoint: "(F :: u8) AND W = 0 \<Longrightarrow> bit F i \<Longrightarrow> \<not> bit W i"
  by (metis bit_0_eq bit_and_iff bot_apply bot_bool_def)

definition sub :: "u8 \<Rightarrow> u8 \<Rightarrow> bool" where
  "sub F G \<longleftrightarrow> (\<forall>i. bit F i \<longrightarrow> bit G i)"

lemma sub_refl [simp]: "sub F F" and sub_trans: "sub F G \<Longrightarrow> sub G H \<Longrightarrow> sub F H"
  by (auto simp: sub_def)

lemma sub_disjoint: "sub F G \<Longrightarrow> G AND W = 0 \<Longrightarrow> F AND W = 0"
  using bit_disjoint [of G W] by (auto intro!: bit_eqI simp: sub_def bit_and_iff)

section \<open>Live flags\<close>

text \<open>
  The flags a node overwrites whatever they were, and those an operation that the pass does not know clobbers. The pass
  does not list \<open>TestZ\<close>, which leaves N undefined.
\<close>

definition Clears :: "IRNode \<Rightarrow> u8" where
  "Clears n = (if Op n = OP_TESTZ then FLAG_NZCV else Write (Classify n))"

definition Clobbers :: "(nat \<Rightarrow> bool) \<Rightarrow> IRNode \<Rightarrow> u8" where
  "Clobbers C n = (case Op n of OP_OTHER k \<Rightarrow> if C k then FLAG_NZCV else 0 | _ \<Rightarrow> 0)"

text \<open>The flags that are read in the code before they are written, or behind it (\<open>G\<close>).\<close>

fun LiveFlags :: "u8 \<Rightarrow> IRNode list \<Rightarrow> u8" where
  "LiveFlags G [] = G"
| "LiveFlags G (n # ns) = (LiveFlags G ns AND NOT (Clears n)) OR Read (Classify n)"

text \<open>No flag that is clobbered is live.\<close>

fun flags_saved :: "(nat \<Rightarrow> bool) \<Rightarrow> u8 \<Rightarrow> IRNode list \<Rightarrow> bool" where
  "flags_saved C G [] = True"
| "flags_saved C G (n # ns) \<longleftrightarrow> LiveFlags G ns AND Clobbers C n = 0 \<and> flags_saved C G ns"

lemma LiveFlags_mono: "sub G H \<Longrightarrow> sub (LiveFlags G ns) (LiveFlags H ns)"
  by (induction ns) (auto simp: sub_def bit_simps)

lemma flags_saved_mono: "sub G H \<Longrightarrow> flags_saved C H ns \<Longrightarrow> flags_saved C G ns"
  by (induction ns) (auto intro: sub_disjoint LiveFlags_mono)

lemma flags_saved_append: "flags_saved C G (xs @ ys) \<Longrightarrow> flags_saved C G ys"
  by (induction xs) simp_all

lemma Clobbers_known: "(\<And>k. Op n \<noteq> OP_OTHER k) \<Longrightarrow> Clobbers C n = 0"
  by (cases "Op n") (auto simp: Clobbers_def)

lemma Holds_cong: "agree (FlagsForCondClassType c) f g \<Longrightarrow> Holds c f = Holds c g"
  by (cases c) (auto simp: agree_def flag_masks)

lemmas write_simps =
  Classify_def no_flags_def nzcv_def test_flags_def sub_flags_def add_flags_def axflag_def rmif_def const_flags_def
  shift_flags_def rotate_flags_def Let_def

lemma fcmp_flags_nzcv: "fcmp_flags r f = nzcv (r = FLess) (r = FEqual) (r \<noteq> FLess) (r = FUnordered) f"
  by (cases r) simp_all

lemma NewFlags_cong:
  assumes "agree (Read (Classify n)) f g" "agree (F AND NOT (Clears n)) f g"
    "Op n = OP_RMIFNZCV \<Longrightarrow> \<not> bit (RmifMask n) 4 \<and> \<not> bit (RmifMask n) 5"
  shows "agree F (NewFlags m u n (Op n) vs e f) (NewFlags m u n (Op n) vs e g)"
proof (cases "Op n = OP_CONDADDNZCV \<or> Op n = OP_CONDSUBNZCV")
  case True
  have h: "Read (Classify n) = FlagsForCondClassType (Cond n)" "Clears n = FLAG_NZCV"
    using True by (auto simp: Clears_def Classify_def no_flags_def)
  have "Holds (Cond n) f = Holds (Cond n) g"
    using assms(1) unfolding h by (rule Holds_cong)
  then show ?thesis
    using True assms(2) unfolding h
    by (elim disjE) (simp_all add: write_simps agree_def flag_masks bit_simps)
next
  case False
  show ?thesis
    using assms False
    by (cases "Op n") (simp_all add: Clears_def write_simps agree_def flag_masks bit_simps fcmp_flags_nzcv)
qed

lemma NewFlags_frame:
  assumes "F AND Clears n = 0" "F AND Clobbers (FlagClobber m) n = 0"
  shows "agree F (NewFlags m u n (Op n) vs e f) f"
proof -
  have W: "bit F i \<longrightarrow> \<not> bit (Clears n) i" "bit F i \<longrightarrow> \<not> bit (Clobbers (FlagClobber m) n) i" for i
    using bit_disjoint [OF assms(1)] bit_disjoint [OF assms(2)] by blast+
  show ?thesis
    using W [of 0] W [of 1] W [of 2] W [of 3] W [of 4] W [of 5]
    by (cases "Op n") (simp_all add: Clears_def Clobbers_def write_simps agree_def flag_masks bit_simps fcmp_flags_nzcv
        split: if_splits)
qed

lemma NewValue_cong:
  assumes "agree (Read (Classify n)) f g"
  shows "NewValue m u n (Op n) vs e f = NewValue m u n (Op n) vs e g"
proof (cases "Op n = OP_NZCVSELECT \<or> Op n = OP_NZCVSELECTV \<or> Op n = OP_NZCVSELECTINCREMENT \<or> Op n = OP_NEG")
  case True
  then have "Read (Classify n) = FlagsForCondClassType (Cond n)"
    by (auto simp: Classify_def no_flags_def)
  with assms have "Holds (Cond n) f = Holds (Cond n) g" by (simp add: Holds_cong)
  with True show ?thesis by (elim disjE) simp_all
next
  case False
  then show ?thesis
    using assms by (cases "Op n") (simp_all add: Classify_def no_flags_def agree_def flag_masks bit_simps)
qed

lemma NewNext_cong:
  assumes "agree (Read (Classify n)) f g"
  shows "NewNext n (Op n) vs f x = NewNext n (Op n) vs g x"
proof (cases "Op n = OP_CONDJUMP \<and> FromNZCV n")
  case True
  then have "Read (Classify n) = FlagsForCondClassType (Cond n)" by (simp add: Classify_def no_flags_def)
  with assms have "Holds (Cond n) f = Holds (Cond n) g" by (simp add: Holds_cong)
  with True show ?thesis by (simp add: Taken_def)
next
  case False
  then show ?thesis by (cases "Op n") (auto simp: Taken_def Let_def split: CondClass.splits)
qed

section \<open>Replacements\<close>

text \<open>
  What a replacement keeps: \<open>Replacement\<close> everything but the flags, \<open>ReplacementNoWrite\<close> everything but the value.
\<close>

lemma Replacement_cases:
  assumes "Replacement (Classify n) = Some r"
  shows "(Op n = OP_ANDWITHFLAGS \<and> r = OP_AND) \<or> (Op n = OP_ADDWITHFLAGS \<and> r = OP_ADD) \<or>
    (Op n = OP_SUBWITHFLAGS \<and> r = OP_SUB) \<or> (Op n = OP_ADCWITHFLAGS \<and> r = OP_ADC) \<or>
    (Op n = OP_ADCZEROWITHFLAGS \<and> r = OP_ADCZERO) \<or> (Op n = OP_SBBWITHFLAGS \<and> r = OP_SBB)"
  using assms by (cases "Op n") (simp_all add: Classify_def no_flags_def split: if_splits)

lemma ReplacementNoWrite_cases:
  assumes "ReplacementNoWrite (Classify n) = Some r"
  shows "(Op n = OP_ANDWITHFLAGS \<and> r = OP_TESTNZ) \<or> (Op n = OP_ADDWITHFLAGS \<and> r = OP_ADDNZCV) \<or>
    (Op n = OP_SUBWITHFLAGS \<and> r = OP_SUBNZCV) \<or> (Op n = OP_ADCWITHFLAGS \<and> r = OP_ADCNZCV) \<or>
    (Op n = OP_SBBWITHFLAGS \<and> r = OP_SBBNZCV)"
  using assms by (cases "Op n") (simp_all add: Classify_def no_flags_def split: if_splits)

lemma Replacement_keeps:
  assumes "Replacement (Classify n) = Some r"
  shows "NewValue m u n r vs e f = NewValue m u n (Op n) vs e f" "NewEnv m n r vs e = e" "NewEnv m n (Op n) vs e = e"
    "NewNext n r vs f x = x" "NewNext n (Op n) vs f x = x" "NewFlags m u n r vs e f = f"
  using Replacement_cases [OF assms] by (elim disjE conjE; simp)+

lemma ReplacementNoWrite_keeps:
  assumes "ReplacementNoWrite (Classify n) = Some r"
  shows "NewFlags m u n r vs e f = NewFlags m u n (Op n) vs e f" "NewEnv m n r vs e = e" "NewEnv m n (Op n) vs e = e"
    "NewNext n r vs f x = x" "NewNext n (Op n) vs f x = x"
  using ReplacementNoWrite_cases [OF assms] by (elim disjE conjE; simp)+

lemma CanEliminate_keeps:
  assumes "CanEliminate (Classify n)"
  shows "NewEnv m n (Op n) vs e = e \<and> NewNext n (Op n) vs f x = x"
  using assms by (cases "Op n") (simp_all add: Classify_def no_flags_def split: if_splits)

lemma replaceable_flags:
  assumes "CanEliminate (Classify n) \<or> Replacement (Classify n) \<noteq> None \<or> ReplacementNoWrite (Classify n) \<noteq> None"
  shows "Clears n = Write (Classify n)" "Clobbers C n = 0"
  using assms by (cases "Op n"; simp add: Clears_def Clobbers_def Classify_def no_flags_def)+

lemma no_side_effects_keeps:
  assumes "\<not> HasSideEffects SE (Op n)"
    "\<And>k. Op n = OP_OTHER k \<Longrightarrow> \<not> SE k \<Longrightarrow> snd (Effect m n vs e) = e"
  shows "NewEnv m n (Op n) vs e = e \<and> NewNext n (Op n) vs f x = x"
  using assms by (cases "Op n") simp_all

lemma no_side_effects_Clears: "\<not> HasSideEffects SE (Op n) \<Longrightarrow> Clears n = 0"
  by (cases "Op n") (simp_all add: Clears_def Classify_def no_flags_def)

text \<open>The functions only look at the fields of a node that a change of its operation keeps.\<close>

lemma Op_update_keeps [simp]:
  "Bits (n\<lparr>Op := r\<rparr>) = Bits n" "EmitBits (n\<lparr>Op := r\<rparr>) = EmitBits n" "emitted (n\<lparr>Op := r\<rparr>) = emitted n"
  "Taken (n\<lparr>Op := r\<rparr>) = Taken n" "shift_flags (n\<lparr>Op := r\<rparr>) = shift_flags n" "shift_pf (n\<lparr>Op := r\<rparr>) = shift_pf n"
  "rotate_flags (n\<lparr>Op := r\<rparr>) = rotate_flags n"
  by (simp_all add: Bits_def EmitBits_def emitted_def Taken_def shift_flags_def shift_pf_def rotate_flags_def
      ShiftCarry_def ShiftIsZero_def fun_eq_iff Let_def)

lemma NewFlags_Op_update [simp]: "NewFlags m u (n\<lparr>Op := r\<rparr>) op vs e f = NewFlags m u n op vs e f"
  by (cases op) (simp_all add: Let_def)

lemma NewValue_Op_update:
  "(\<forall>k. op \<noteq> OP_OTHER k) \<Longrightarrow> op \<noteq> OP_STOREREGISTER \<Longrightarrow>
    NewValue m u (n\<lparr>Op := r\<rparr>) op vs e f = NewValue m u n op vs e f"
  by (cases op) simp_all

lemma NewNext_Op_update [simp]: "NewNext (n\<lparr>Op := r\<rparr>) op vs f x = NewNext n op vs f x"
  by (cases op) simp_all

lemma NewEnv_Op_update:
  "(\<forall>k. op \<noteq> OP_OTHER k) \<Longrightarrow> op \<noteq> OP_STOREREGISTER \<Longrightarrow> NewEnv m (n\<lparr>Op := r\<rparr>) op vs e = NewEnv m n op vs e"
  by (cases op) simp_all

section \<open>The scan\<close>

text \<open>
  \<open>sim F K s t\<close>: before code \<open>K\<close>, for somebody who looks at the flags \<open>F\<close>, the states are the same.
\<close>

definition sim :: "u8 \<Rightarrow> IRNode list \<Rightarrow> 'e State \<Rightarrow> 'e State \<Rightarrow> bool" where
  "sim F K s t \<longleftrightarrow> agree F (FlagsOf s) (FlagsOf t) \<and> Env s = Env t \<and> Next s = Next t
     \<and> (\<forall>i. GetUses i K > 0 \<longrightarrow> Vals s i = Vals t i)"

lemma GetUses_Nil [simp]: "GetUses i [] = 0"
  by (simp add: GetUses_def)

lemma GetUses_Cons [simp]: "GetUses i (n # K) = count_list (Args n) i + GetUses i K"
  by (simp add: GetUses_def)

lemma operands_eq:
  assumes "sim F (n # K) s t"
  shows "map (Vals s) (Args n) = map (Vals t) (Args n)"
  using assms by (auto simp: sim_def count_list_0_iff)

lemma sim_ConsD: "sim F (n # K) s t \<Longrightarrow> sim F K s t"
  by (auto simp: sim_def)

lemma sim_mono: "sim G K s t \<Longrightarrow> (\<And>i. bit F i \<Longrightarrow> bit G i) \<Longrightarrow> sim F K s t"
  unfolding sim_def by (blast intro: agree_mono)

lemma sim_ExecNode:
  assumes "sim G K s t" "map (Vals s) (Args n) = map (Vals t) (Args n')" "NodeID n' = NodeID n"
    "agree F (NewFlags m u n (Op n) (map (Vals t) (Args n')) (Env t) (FlagsOf s))
             (NewFlags m u n' (Op n') (map (Vals t) (Args n')) (Env t) (FlagsOf t))"
    "NewEnv m n (Op n) (map (Vals t) (Args n')) (Env t) = NewEnv m n' (Op n') (map (Vals t) (Args n')) (Env t)"
    "NewNext n (Op n) (map (Vals t) (Args n')) (FlagsOf s) (Next t)
       = NewNext n' (Op n') (map (Vals t) (Args n')) (FlagsOf t) (Next t)"
    "GetUses (NodeID n) K > 0 \<Longrightarrow>
       NewValue m u n (Op n) (map (Vals t) (Args n')) (Env t) (FlagsOf s)
         = NewValue m u n' (Op n') (map (Vals t) (Args n')) (Env t) (FlagsOf t)"
  shows "sim F K (ExecNode m u n s) (ExecNode m u n' t)"
  using assms by (auto simp: sim_def ExecNode_def Let_def split: option.splits)

lemma sim_removed:
  assumes "sim F K s t" "GetUses (NodeID n) K = 0"
    "agree F (NewFlags m u n (Op n) (map (Vals s) (Args n)) (Env s) (FlagsOf s)) (FlagsOf s)"
    "NewEnv m n (Op n) (map (Vals s) (Args n)) (Env s) = Env s"
    "NewNext n (Op n) (map (Vals s) (Args n)) (FlagsOf s) (Next s) = Next s"
  shows "sim F K (ExecNode m u n s) t"
  using assms by (auto simp: sim_def ExecNode_def Let_def intro: agree_trans split: option.splits)

text \<open>What the meaning of the operations the pass does not know has to satisfy, and of a mask of \<open>RmifNZCV\<close>.\<close>

definition node_ok :: "'e Machine \<Rightarrow> IRNode \<Rightarrow> bool" where
  "node_ok m n \<longleftrightarrow>
    (\<forall>k vs e. Op n = OP_OTHER k \<longrightarrow> \<not> SideEffects m k \<longrightarrow> snd (Effect m n vs e) = e) \<and>
    (Op n = OP_RMIFNZCV \<longrightarrow> \<not> bit (RmifMask n) 4 \<and> \<not> bit (RmifMask n) 5)"

text \<open>
  The flags that are live behind a node, among those the scan thinks are read there (\<open>F\<close>); a removed node changes none
  of them.
\<close>

lemma dead_removed:
  assumes "node_ok m n" "sim l K s t" "EliminateDeadCode (SideEffects m) n (GetUses (NodeID n) K)"
    "l AND Clobbers (FlagClobber m) n = 0"
  shows "sim l K (ExecNode m u n s) t"
proof -
  have h: "\<not> HasSideEffects (SideEffects m) (Op n)" and u: "GetUses (NodeID n) K = 0"
    using assms(3) by (simp_all add: EliminateDeadCode_def)
  have "Op n = OP_OTHER k \<Longrightarrow> \<not> SideEffects m k \<Longrightarrow> snd (Effect m n vs e) = e" for k vs e
    using assms(1) unfolding node_ok_def by blast
  note keeps = no_side_effects_keeps [OF h this]
  have "l AND Clears n = 0" by (simp add: no_side_effects_Clears [OF h])
  note frame = NewFlags_frame [OF this assms(4)]
  show ?thesis by (rule sim_removed [OF assms(2) u frame]) (simp_all add: keeps)
qed

lemma eliminated_flags:
  assumes "Eliminated F (Classify n) U" "sub l F"
  shows "l AND Clears n = 0" "Clobbers C n = 0"
proof -
  have e: "F AND Write (Classify n) = 0" "CanEliminate (Classify n) \<or> Replacement (Classify n) \<noteq> None"
    using assms(1) by (simp_all add: Eliminated_def)
  show "Clobbers C n = 0" using e(2) by (intro replaceable_flags) blast
  have "Clears n = Write (Classify n)" using e(2) by (intro replaceable_flags) blast
  then show "l AND Clears n = 0" using sub_disjoint [OF assms(2) e(1)] by simp
qed

lemma eliminated_removed:
  assumes "sim l K s t" "Eliminated F (Classify n) (GetUses (NodeID n) K)" "sub l F"
  shows "sim l K (ExecNode m u n s) t"
proof -
  have E: "GetUses (NodeID n) K = 0" "CanEliminate (Classify n) \<or> (\<exists>r. Replacement (Classify n) = Some r)"
    using assms(2) by (auto simp: Eliminated_def)
  have K: "NewEnv m n (Op n) vs e = e \<and> NewNext n (Op n) vs f x = x" for vs e f x
    using E(2) CanEliminate_keeps Replacement_keeps by metis
  note frame = NewFlags_frame [of l n m, OF eliminated_flags(1) [OF assms(2,3)]]
  show ?thesis
    using E(1) K assms(1) by (intro sim_removed frame) (simp_all add: eliminated_flags(2) [OF assms(2,3)])
qed

lemma OptimizeTest_agree:
  assumes "n' = OptimizeTest F n" "sub l F"
  shows "agree l (NewFlags m u n (Op n) vs e f) (NewFlags m u n' (Op n') vs e f)"
    "NewValue m u n' (Op n') vs e g = NewValue m u n (Op n) vs e g" "NewEnv m n' (Op n') vs e = NewEnv m n (Op n) vs e"
    "NewNext n' (Op n') vs g x = NewNext n (Op n) vs g x" "Args n' = Args n" "NodeID n' = NodeID n"
proof -
  have "\<not> bit l 3" if "F AND (FLAG_N OR FLAG_C) = 0"
    using bit_disjoint [OF sub_disjoint [OF assms(2) that], of 3] by (auto simp: flag_masks)
  then show "agree l (NewFlags m u n (Op n) vs e f) (NewFlags m u n' (Op n') vs e f)"
    unfolding assms(1) OptimizeTest_def by (simp add: agree_def)
qed (simp_all add: assms(1) OptimizeTest_def)

lemma ReplaceOp_cases:
  obtains (same) "ReplaceOp F (Classify n) U n = n"
  | (dead) r where "F AND Write (Classify n) = 0" "Replacement (Classify n) = Some r"
      "ReplaceOp F (Classify n) U n = n\<lparr>Op := r\<rparr>"
  | (unused) r where "U = 0" "ReplacementNoWrite (Classify n) = Some r"
      "ReplaceOp F (Classify n) U n = n\<lparr>Op := r\<rparr>"
  by (cases "F AND Write (Classify n) = 0"; cases "Replacement (Classify n)"; cases "ReplacementNoWrite (Classify n)";
      cases "U = 0") (simp_all add: ReplaceOp_def)

lemma kept_scanned:
  assumes ok: "node_ok m n"
    and n': "n' = OptimizeTest F (ReplaceOp F (Classify n) (GetUses (NodeID n) K) n)"
    and l: "sub l F"
    and s: "sim ((l AND NOT (Clears n)) OR Read (Classify n)) (n' # K) s t"
  shows "sim l K (ExecNode m u n s) (ExecNode m u n' t)"
proof -
  define n1 where "n1 = ReplaceOp F (Classify n) (GetUses (NodeID n) K) n"
  note test = OptimizeTest_agree [OF n' [folded n1_def] l]
  have n1: "Args n1 = Args n" "NodeID n1 = NodeID n"
    by (simp_all add: n1_def ReplaceOp_def split: option.splits)
  have vs: "map (Vals s) (Args n) = map (Vals t) (Args n')"
    using operands_eq [OF s] by (simp add: test n1)
  have f: "agree (Read (Classify n)) (FlagsOf s) (FlagsOf t)" "agree (l AND NOT (Clears n)) (FlagsOf s) (FlagsOf t)"
    using s by (simp_all add: sim_def)
  have cong: "agree l (NewFlags m u n (Op n) vs e (FlagsOf s)) (NewFlags m u n (Op n) vs e (FlagsOf t))" for vs e
    by (rule NewFlags_cong [OF f]) (use ok in \<open>simp add: node_ok_def\<close>)
  note val = NewValue_cong [OF f(1)] and nxt = NewNext_cong [OF f(1)]
  have step: "agree l (NewFlags m u n (Op n) vs e (FlagsOf s)) (NewFlags m u n1 (Op n1) vs e (FlagsOf t))
     \<and> NewEnv m n1 (Op n1) vs e = NewEnv m n (Op n) vs e
     \<and> NewNext n1 (Op n1) vs (FlagsOf t) x = NewNext n (Op n) vs (FlagsOf t) x
     \<and> (GetUses (NodeID n) K > 0 \<longrightarrow>
         NewValue m u n1 (Op n1) vs e (FlagsOf t) = NewValue m u n (Op n) vs e (FlagsOf t))" for vs e x
  proof (cases rule: ReplaceOp_cases [of F n "GetUses (NodeID n) K"])
    case same
    then show ?thesis using cong by (simp add: n1_def)
  next
    case (dead r)
    note keeps = Replacement_keeps [OF dead(2)]
    have r: "\<forall>k. r \<noteq> OP_OTHER k" "r \<noteq> OP_STOREREGISTER"
      using Replacement_cases [OF dead(2)] by auto
    have W: "Clears n = Write (Classify n)" "Clobbers C n = 0" for C
      by (rule replaceable_flags, simp add: dead(2))+
    have d: "l AND Clears n = 0" using sub_disjoint [OF l dead(1)] by (simp add: W)
    have "agree l (FlagsOf s) (FlagsOf t)"
      using f(2) bit_disjoint [OF d] by (rule_tac agree_mono) (auto simp: bit_simps dest: bit_imp_le_length)
    then have "agree l (NewFlags m u n (Op n) vs e (FlagsOf s)) (FlagsOf t)"
      by (rule agree_trans [OF NewFlags_frame [OF d], rotated]) (simp add: W)
    then show ?thesis
      by (simp add: n1_def dead(3) keeps NewValue_Op_update [OF r] NewEnv_Op_update [OF r])
  next
    case (unused r)
    note keeps = ReplacementNoWrite_keeps [OF unused(2)]
    have r: "\<forall>k. r \<noteq> OP_OTHER k" "r \<noteq> OP_STOREREGISTER"
      using ReplacementNoWrite_cases [OF unused(2)] by auto
    have n1: "n1 = n\<lparr>Op := r\<rparr>" unfolding n1_def by (rule unused(3))
    show ?thesis
      using cong unused(1) by (simp add: n1 keeps NewEnv_Op_update [OF r])
  qed
  note st = step [of "map (Vals t) (Args n')" "Env t" "Next t"]
  show ?thesis
  proof (rule sim_ExecNode [OF sim_ConsD [OF s] vs])
    show "NodeID n' = NodeID n" by (simp add: test n1)
    show "agree l (NewFlags m u n (Op n) (map (Vals t) (Args n')) (Env t) (FlagsOf s))
        (NewFlags m u n' (Op n') (map (Vals t) (Args n')) (Env t) (FlagsOf t))"
      by (rule agree_trans [OF st [THEN conjunct1] test(1)])
    show "NewEnv m n (Op n) (map (Vals t) (Args n')) (Env t) = NewEnv m n' (Op n') (map (Vals t) (Args n')) (Env t)"
      unfolding test(3) using st by argo
    show "NewNext n (Op n) (map (Vals t) (Args n')) (FlagsOf s) (Next t)
        = NewNext n' (Op n') (map (Vals t) (Args n')) (FlagsOf t) (Next t)"
      unfolding test(4) nxt using st by argo
    show "NewValue m u n (Op n) (map (Vals t) (Args n')) (Env t) (FlagsOf s)
        = NewValue m u n' (Op n') (map (Vals t) (Args n')) (Env t) (FlagsOf t)" if "GetUses (NodeID n) K > 0"
      unfolding test(2) val using st that by argo
  qed
qed

lemma ExecCode_Nil [simp]: "ExecCode m u [] s = s"
  by (simp add: ExecCode_def)

lemma ExecCode_Cons [simp]: "ExecCode m u (n # ns) s = ExecCode m u ns (ExecNode m u n s)"
  by (simp add: ExecCode_def)

lemma ExecCode_append [simp]: "ExecCode m u (xs @ ys) s = ExecCode m u ys (ExecCode m u xs s)"
  by (simp add: ExecCode_def)

lemma sim_refl [simp]: "sim F K s s"
  by (simp add: sim_def)

lemma sim_trans: "sim F K s t \<Longrightarrow> sim F K t r \<Longrightarrow> sim F K s r"
  by (auto simp: sim_def intro: agree_trans)

lemma trivial_kept:
  assumes "Trivial (Classify n)"
  shows "OptimizeTest F (ReplaceOp F (Classify n) U n) = n" "(F AND NOT (Write (Classify n))) OR Read (Classify n) = F"
proof -
  have "Op n \<noteq> OP_TESTNZ" using assms by (auto simp: Trivial_def Classify_def no_flags_def flag_masks)
  then show "OptimizeTest F (ReplaceOp F (Classify n) U n) = n"
    using assms by (simp add: Trivial_def ReplaceOp_def no_flags_def OptimizeTest_def)
qed (use assms in \<open>simp add: Trivial_def no_flags_def\<close>)

text \<open>
  One step of the scan: either the node is removed or it is kept, perhaps with another operation.
\<close>

definition removes :: "(nat \<Rightarrow> bool) \<Rightarrow> IRNode \<Rightarrow> IRNode list \<Rightarrow> u8 \<Rightarrow> u8 \<Rightarrow> bool" where
  "removes SE n K F F' \<longleftrightarrow>
    (EliminateDeadCode SE n (GetUses (NodeID n) K) \<and> F' = F) \<or>
    (Eliminated F (Classify n) (GetUses (NodeID n) K) \<and> F' = F AND NOT (Write (Classify n)))"

definition keeps_as :: "IRNode \<Rightarrow> IRNode list \<Rightarrow> u8 \<Rightarrow> IRNode \<Rightarrow> u8 \<Rightarrow> bool" where
  "keeps_as n K F n' F' \<longleftrightarrow>
    n' = OptimizeTest F (ReplaceOp F (Classify n) (GetUses (NodeID n) K) n)
    \<and> F' = (F AND NOT (Write (Classify n))) OR Read (Classify n)"

lemma ScanBlock_step:
  obtains (removed) F' where "removes SE n K F F'" "ScanBlock SE (n # ns) K F = ScanBlock SE ns K F'"
  | (kept) n' F' where "keeps_as n K F n' F'" "ScanBlock SE (n # ns) K F = ScanBlock SE ns (n' # K) F'"
      "\<not> EliminateDeadCode SE n (GetUses (NodeID n) K)"
proof -
  let ?U = "GetUses (NodeID n) K"
  consider "EliminateDeadCode SE n ?U" | "\<not> EliminateDeadCode SE n ?U" "Trivial (Classify n)"
    | "\<not> EliminateDeadCode SE n ?U" "\<not> Trivial (Classify n)" "Eliminated F (Classify n) ?U"
    | "\<not> EliminateDeadCode SE n ?U" "\<not> Trivial (Classify n)" "\<not> Eliminated F (Classify n) ?U"
    by blast
  then show thesis
  proof cases
    case 1
    then show thesis by (intro removed [of F]) (simp_all add: removes_def)
  next
    case 2
    then show thesis by (intro kept [of n F]) (simp_all add: keeps_as_def trivial_kept)
  next
    case 3
    then show thesis by (intro removed [of "F AND NOT (Write (Classify n))"]) (simp_all add: removes_def Let_def)
  next
    case 4
    then show thesis
      by (intro kept [of "OptimizeTest F (ReplaceOp F (Classify n) ?U n)"
            "(F AND NOT (Write (Classify n))) OR Read (Classify n)"]) (simp_all add: keeps_as_def Let_def)
  qed
qed

lemma removes_keeps_flags: "removes SE n K F F' \<Longrightarrow> F' = F"
  by (auto simp: removes_def Eliminated_def intro!: bit_eqI simp: bit_simps dest: bit_disjoint)

lemma removes_sound:
  assumes "node_ok m n" "removes (SideEffects m) n K F F'" "sim l K s t" "sub l F"
    "l AND Clobbers (FlagClobber m) n = 0"
  shows "sim l K (ExecNode m u n s) t"
  using assms dead_removed eliminated_removed unfolding removes_def by blast

lemma removes_flags:
  assumes "removes SE n K F F'" "sub l F"
  shows "l AND Clears n = 0"
  using assms(1) no_side_effects_Clears eliminated_flags(1) [OF _ assms(2)]
  by (auto simp: removes_def EliminateDeadCode_def)

lemma removes_live:
  assumes "removes SE n K F F'" "sub l F" "sub l l'"
  shows "sub l ((l' AND NOT (Clears n)) OR Read (Classify n))"
  using assms(3) bit_disjoint [OF removes_flags [OF assms(1,2)]]
  by (auto simp: sub_def bit_simps dest: bit_imp_le_length)

lemma keeps_as_sound:
  assumes "node_ok m n" "keeps_as n K F n' F'" "sub l F" "sim ((l AND NOT (Clears n)) OR Read (Classify n)) (n' # K) s t"
  shows "sim l K (ExecNode m u n s) (ExecNode m u n' t)"
  using assms kept_scanned unfolding keeps_as_def by blast

text \<open>What a kept node reads and clobbers, and what it clears of the live flags, it did before.\<close>

lemma OptimizeTest_flags:
  "Clears (OptimizeTest F n) = Clears n" "Read (Classify (OptimizeTest F n)) = Read (Classify n)"
  "Clobbers C (OptimizeTest F n) = Clobbers C n"
  by (simp_all add: OptimizeTest_def Clears_def Clobbers_def Classify_def no_flags_def)

lemma keeps_as_flags:
  assumes k: "keeps_as n K F n' F'" and l: "sub l F"
  shows "(l AND NOT (Clears n')) OR Read (Classify n') = (l AND NOT (Clears n)) OR Read (Classify n)"
    "Clobbers C n' = Clobbers C n"
    "sub ((l AND NOT (Clears n)) OR Read (Classify n)) F'"
proof -
  define n1 where "n1 = ReplaceOp F (Classify n) (GetUses (NodeID n) K) n"
  have n': "n' = OptimizeTest F n1" using k by (simp add: keeps_as_def n1_def)
  have "(l AND NOT (Clears n1)) OR Read (Classify n1) = (l AND NOT (Clears n)) OR Read (Classify n)
      \<and> Clobbers C n1 = Clobbers C n"
  proof (cases rule: ReplaceOp_cases [of F n "GetUses (NodeID n) K"])
    case same
    then show ?thesis by (simp add: n1_def)
  next
    case (dead r)
    have W: "Clears n = Write (Classify n)" by (rule replaceable_flags) (simp add: dead(2))
    have "l AND Clears n = 0" using sub_disjoint [OF l dead(1)] by (simp add: W)
    then have "l AND NOT (Clears n) = l"
      by (auto intro!: bit_eqI simp: bit_simps dest: bit_disjoint bit_imp_le_length)
    moreover have "n1 = n\<lparr>Op := r\<rparr>" unfolding n1_def by (rule dead(3))
    ultimately show ?thesis
      using Replacement_cases [OF dead(2)]
      by (elim disjE conjE) (simp_all add: Clears_def Clobbers_def Classify_def no_flags_def)
  next
    case (unused r)
    have "n1 = n\<lparr>Op := r\<rparr>" unfolding n1_def by (rule unused(3))
    then show ?thesis
      using ReplacementNoWrite_cases [OF unused(2)]
      by (elim disjE conjE) (simp_all add: Clears_def Clobbers_def Classify_def no_flags_def)
  qed
  then show "(l AND NOT (Clears n')) OR Read (Classify n') = (l AND NOT (Clears n)) OR Read (Classify n)"
    "Clobbers C n' = Clobbers C n"
    unfolding n' OptimizeTest_flags by blast+
  have "Clears n = Write (Classify n) \<or> Write (Classify n) = 0"
    by (auto simp: Clears_def Classify_def no_flags_def)
  then show "sub ((l AND NOT (Clears n)) OR Read (Classify n)) F'"
    using l k by (auto simp: keeps_as_def sub_def bit_simps)
qed

text \<open>
  The invariant of the scan, for somebody who looks at the flags \<open>G\<close> behind the block: the nodes \<open>K\<close> it kept of the
  nodes \<open>S\<close> need no flag that it does not count as read and none that \<open>S\<close> does not need, and clobber none that is live.
\<close>

definition scan_inv :: "(nat \<Rightarrow> bool) \<Rightarrow> u8 \<Rightarrow> IRNode list \<Rightarrow> IRNode list \<Rightarrow> u8 \<Rightarrow> bool" where
  "scan_inv C G S K F \<longleftrightarrow>
    sub (LiveFlags G K) F \<and> sub (LiveFlags G K) (LiveFlags G S) \<and> flags_saved C G K"

lemma scan_inv_removed:
  assumes "scan_inv C G S K F" "removes SE n K F F'"
  shows "scan_inv C G (n # S) K F'"
  using assms removes_live [OF assms(2)] removes_keeps_flags [OF assms(2)] by (simp add: scan_inv_def)

lemma scan_inv_kept:
  assumes "scan_inv C G S K F" "keeps_as n K F n' F'" "flags_saved C G (n # S)"
  shows "scan_inv C G (n # S) (n' # K) F'"
proof -
  have l: "sub (LiveFlags G K) F" "sub (LiveFlags G K) (LiveFlags G S)" "flags_saved C G K"
    using assms(1) by (simp_all add: scan_inv_def)
  note keeps = keeps_as_flags [OF assms(2) l(1)]
  have "LiveFlags G K AND Clobbers C n' = 0"
    unfolding keeps(2) by (rule sub_disjoint [OF l(2)]) (use assms(3) in simp)
  moreover have "sub (LiveFlags G (n # K)) (LiveFlags G (n # S))"
    using l(2) by (auto simp: sub_def bit_simps)
  ultimately show ?thesis using l(3) keeps(1,3) by (simp add: scan_inv_def)
qed

lemma ScanBlock_inv:
  assumes "scan_inv C G S K F" "ScanBlock SE ns K F = (K', F')" "flags_saved C G (rev ns @ S)"
  shows "scan_inv C G (rev ns @ S) K' F'"
  using assms
proof (induction ns arbitrary: K F S)
  case (Cons n ns)
  have saved: "flags_saved C G (rev ns @ n # S)" using Cons.prems(3) by simp
  show ?case
  proof (cases rule: ScanBlock_step [of SE n K F ns])
    case (removed F1)
    then show ?thesis
      using Cons.IH [OF scan_inv_removed [OF Cons.prems(1) removed(1)] _ saved] Cons.prems(2) by simp
  next
    case (kept n' F1)
    then show ?thesis
      using Cons.IH [OF scan_inv_kept [OF Cons.prems(1) kept(1) flags_saved_append [OF saved]] _ saved] Cons.prems(2) by simp
  qed
qed simp

lemma ScanBlock_sound:
  assumes "\<forall>n \<in> set ns. node_ok m n" "scan_inv (FlagClobber m) G S K F"
    "flags_saved (FlagClobber m) G (rev ns @ S)"
    "\<And>s t. sim (LiveFlags G K) K s t \<Longrightarrow> sim G [] (ExecCode m u S s) (ExecCode m u K t)"
    "ScanBlock (SideEffects m) ns K F = (K', F')" "sim (LiveFlags G K') K' s t"
  shows "sim G [] (ExecCode m u (rev ns @ S) s) (ExecCode m u K' t)"
  using assms
proof (induction ns arbitrary: K F S s t)
  case Nil
  then show ?case by simp
next
  case (Cons n ns)
  have ok: "node_ok m n" "\<forall>n \<in> set ns. node_ok m n" using Cons.prems(1) by auto
  have saved: "flags_saved (FlagClobber m) G (rev ns @ n # S)" using Cons.prems(3) by simp
  have l: "sub (LiveFlags G K) F" "sub (LiveFlags G K) (LiveFlags G S)" using Cons.prems(2) by (simp_all add: scan_inv_def)
  have "LiveFlags G S AND Clobbers (FlagClobber m) n = 0" using flags_saved_append [OF saved] by simp
  then have clob: "LiveFlags G K AND Clobbers (FlagClobber m) n = 0" by (rule sub_disjoint [OF l(2)])
  show ?case
  proof (cases rule: ScanBlock_step [of "SideEffects m" n K F ns])
    case (removed F1)
    have "sim G [] (ExecCode m u (rev ns @ n # S) s) (ExecCode m u K' t)"
    proof (rule Cons.IH [OF ok(2) scan_inv_removed [OF Cons.prems(2) removed(1)] saved _ _ Cons.prems(6)])
      show "ScanBlock (SideEffects m) ns K F1 = (K', F')" using removed(2) Cons.prems(5) by simp
      show "sim G [] (ExecCode m u (n # S) s) (ExecCode m u K t)" if "sim (LiveFlags G K) K s t" for s t
        using removes_sound [OF ok(1) removed(1) that l(1) clob] Cons.prems(4) by simp
    qed
    then show ?thesis by simp
  next
    case (kept n' F1)
    have "sim G [] (ExecCode m u (rev ns @ n # S) s) (ExecCode m u K' t)"
    proof (rule Cons.IH [OF ok(2) scan_inv_kept [OF Cons.prems(2) kept(1) flags_saved_append [OF saved]] saved _ _
          Cons.prems(6)])
      show "ScanBlock (SideEffects m) ns (n' # K) F1 = (K', F')" using kept(2) Cons.prems(5) by simp
      show "sim G [] (ExecCode m u (n # S) s) (ExecCode m u (n' # K) t)"
        if "sim (LiveFlags G (n' # K)) (n' # K) s t" for s t
        using keeps_as_sound [OF ok(1) kept(1) l(1)] that Cons.prems(4) by (simp add: keeps_as_flags(1) [OF kept(1) l(1)])
    qed
    then show ?thesis by simp
  qed
qed

lemma ProcessBlock_saved:
  assumes "ProcessBlock SE Flags code = (code', F)" "sub G (FlagsAtExit Flags code)" "flags_saved C G code"
  shows "sub (LiveFlags G code') F" "sub (LiveFlags G code') (LiveFlags G code)" "flags_saved C G code'"
proof -
  have "scan_inv C G (rev (rev code) @ []) code' F"
    by (rule ScanBlock_inv [where K = "[]" and F = "FlagsAtExit Flags code"])
      (use assms in \<open>simp_all add: scan_inv_def ProcessBlock_def\<close>)
  then show "sub (LiveFlags G code') F" "sub (LiveFlags G code') (LiveFlags G code)" "flags_saved C G code'"
    by (simp_all add: scan_inv_def)
qed

lemma ProcessBlock_sound:
  assumes "\<forall>n \<in> set code. node_ok m n" "ProcessBlock (SideEffects m) Flags code = (code', F)"
    "sub G (FlagsAtExit Flags code)" "flags_saved (FlagClobber m) G code" "agree F f g"
  shows "sim G [] (ExecCode m u code (Enter f e)) (ExecCode m u code' (Enter g e))"
proof -
  have "sub (LiveFlags G code') F" by (rule ProcessBlock_saved [OF assms(2-4)])
  then have "agree (LiveFlags G code') f g" using assms(5) by (auto simp: sub_def intro: agree_mono)
  then have "sim G [] (ExecCode m u (rev (rev code) @ []) (Enter f e)) (ExecCode m u code' (Enter g e))"
    by (intro ScanBlock_sound [where K = "[]" and F = "FlagsAtExit Flags code" and F' = F])
      (use assms in \<open>auto simp: ProcessBlock_def sim_def Enter_def scan_inv_def\<close>)
  then show ?thesis by simp
qed

end
