(* ===== verification/FlagGraph.thy ===== *)
theory FlagGraph
  imports FlagSoundness
begin

text \<open>
  The elimination over the blocks: its invariant, that every block of the code as it stands does what the block of the
  original code does for everybody who looks at live flags only, for sets of live flags below the recorded ones.
\<close>

section \<open>What the scan keeps of a block\<close>

definition IsJump :: "IRNode \<Rightarrow> bool" where
  "IsJump n \<longleftrightarrow> Op n = OP_CONDJUMP \<or> Op n = OP_JUMP"

definition code_ok :: "'e Machine \<Rightarrow> IRNode list \<Rightarrow> bool" where
  "code_ok m code \<longleftrightarrow> (\<forall>n \<in> set code. node_ok m n) \<and> (\<forall>n \<in> set (butlast code). \<not> IsJump n)"

lemma keeps_as_Op:
  assumes "keeps_as n K F n' F'"
  shows "n' = n \<or> (\<exists>r. n' = n\<lparr>Op := r\<rparr> \<and> \<not> IsJump n \<and> r \<noteq> OP_CONDJUMP \<and> r \<noteq> OP_JUMP \<and> r \<noteq> OP_RMIFNZCV \<and> (\<forall>k. r \<noteq> OP_OTHER k))"
proof -
  define n1 where "n1 = ReplaceOp F (Classify n) (GetUses (NodeID n) K) n"
  have n': "n' = OptimizeTest F n1" using assms by (simp add: keeps_as_def n1_def)
  have "n1 = n \<or> (\<exists>r. n1 = n\<lparr>Op := r\<rparr> \<and> \<not> IsJump n \<and> r \<noteq> OP_CONDJUMP \<and> r \<noteq> OP_JUMP \<and> r \<noteq> OP_RMIFNZCV \<and> (\<forall>k. r \<noteq> OP_OTHER k))"
    unfolding n1_def
  proof (cases rule: ReplaceOp_cases [of F n "GetUses (NodeID n) K"])
    case (dead r)
    show "ReplaceOp F (Classify n) (GetUses (NodeID n) K) n = n \<or> (\<exists>r. ReplaceOp F (Classify n) (GetUses (NodeID n) K) n = n\<lparr>Op := r\<rparr>
        \<and> \<not> IsJump n \<and> r \<noteq> OP_CONDJUMP \<and> r \<noteq> OP_JUMP \<and> r \<noteq> OP_RMIFNZCV \<and> (\<forall>k. r \<noteq> OP_OTHER k))"
      unfolding dead(3) using Replacement_cases [OF dead(2)] by (intro disjI2 exI [of _ r]) (auto simp: IsJump_def)
  next
    case (unused r)
    show "ReplaceOp F (Classify n) (GetUses (NodeID n) K) n = n \<or> (\<exists>r. ReplaceOp F (Classify n) (GetUses (NodeID n) K) n = n\<lparr>Op := r\<rparr>
        \<and> \<not> IsJump n \<and> r \<noteq> OP_CONDJUMP \<and> r \<noteq> OP_JUMP \<and> r \<noteq> OP_RMIFNZCV \<and> (\<forall>k. r \<noteq> OP_OTHER k))"
      unfolding unused(3) using ReplacementNoWrite_cases [OF unused(2)] by (intro disjI2 exI [of _ r]) (auto simp: IsJump_def)
  qed simp
  then show ?thesis
    unfolding n' OptimizeTest_def by (auto simp: IsJump_def)
qed

lemma keeps_as_IsJump: "keeps_as n K F n' F' \<Longrightarrow> IsJump n' = IsJump n"
  using keeps_as_Op [of n K F n' F'] by (auto simp: IsJump_def)

lemma keeps_as_node_ok: "keeps_as n K F n' F' \<Longrightarrow> node_ok m n \<Longrightarrow> node_ok m n'"
  using keeps_as_Op [of n K F n' F'] by (auto simp: node_ok_def)

lemma jump_not_removed: "IsJump n \<Longrightarrow> \<not> removes SE n K F F'"
  by (auto simp: removes_def IsJump_def EliminateDeadCode_def Eliminated_def Classify_def no_flags_def split: if_splits)

lemma ScanBlock_nodes:
  assumes "ScanBlock SE ns K F = (K', F')"
  shows "\<exists>P. K' = P @ K \<and> (\<forall>p \<in> set P. \<exists>n \<in> set ns. \<exists>K F F'. keeps_as n K F p F')"
  using assms
proof (induction ns arbitrary: K F)
  case Nil
  then show ?case by simp
next
  case (Cons n ns)
  show ?case
  proof (cases rule: ScanBlock_step [of SE n K F ns])
    case (removed G)
    then have "ScanBlock SE ns K G = (K', F')" using Cons.prems by simp
    from Cons.IH [OF this] show ?thesis by fastforce
  next
    case (kept n' G)
    then have "ScanBlock SE ns (n' # K) G = (K', F')" using Cons.prems by simp
    from Cons.IH [OF this] obtain P where P: "K' = P @ n' # K"
      "\<forall>p \<in> set P. \<exists>n \<in> set ns. \<exists>K F F'. keeps_as n K F p F'" by blast
    show ?thesis
      using P kept(1) by (intro exI [of _ "P @ [n']"]) auto
  qed
qed

lemma ExitTargets_snoc: "ExitTargets (xs @ [n]) =
    (if Op n = OP_CONDJUMP then [TrueBlock n, FalseBlock n] else if Op n = OP_JUMP then [TrueBlock n] else [])"
  by (simp add: ExitTargets_def)

lemma ExitTargets_no_jump: "\<forall>n \<in> set code. \<not> IsJump n \<Longrightarrow> ExitTargets code = []"
  by (cases code rule: rev_cases) (auto simp: ExitTargets_def IsJump_def)

lemma ProcessBlock_keeps:
  assumes "code_ok m code" "ProcessBlock SE Flags code = (code', F)"
  shows "code_ok m code'" "ExitTargets code' = ExitTargets code"
proof -
  have "code_ok m code' \<and> ExitTargets code' = ExitTargets code"
  proof (cases code rule: rev_cases)
    case Nil
    then show ?thesis using assms by (simp add: ProcessBlock_def)
  next
    case (snoc before n)
    have ok: "node_ok m n" "\<forall>b \<in> set before. node_ok m b \<and> \<not> IsJump b"
      using assms(1) by (auto simp: code_ok_def snoc)
    have scan: "ScanBlock SE (n # rev before) [] (FlagsAtExit Flags code) = (code', F)"
      using assms(2) by (simp add: ProcessBlock_def snoc)
    have P_ok: "node_ok m p \<and> \<not> IsJump p"
      if "\<exists>b \<in> set (rev before). \<exists>K F F'. keeps_as b K F p F'" for p
    proof -
      from that obtain b K F F' where b: "b \<in> set before" "keeps_as b K F p F'" by auto
      have "node_ok m b" "\<not> IsJump b" using ok(2) b(1) by auto
      then show ?thesis using keeps_as_node_ok [OF b(2)] keeps_as_IsJump [OF b(2)] by simp
    qed
    show ?thesis
    proof (cases rule: ScanBlock_step [of SE n "[]" "FlagsAtExit Flags code" "rev before"])
      case (removed G)
      then have nj: "\<not> IsJump n" using jump_not_removed [of n] by auto
      have "ScanBlock SE (rev before) [] G = (code', F)" using removed(2) scan by simp
      from ScanBlock_nodes [OF this] have "\<forall>p \<in> set code'. node_ok m p \<and> \<not> IsJump p" using P_ok by simp
      then have "code_ok m code'" "ExitTargets code' = []"
        unfolding code_ok_def by (blast dest: in_set_butlastD intro: ExitTargets_no_jump)+
      then show ?thesis using nj by (simp add: snoc ExitTargets_snoc IsJump_def)
    next
      case (kept n' G)
      have "ScanBlock SE (rev before) [n'] G = (code', F)" using kept(2) scan by simp
      from ScanBlock_nodes [OF this] obtain P where code': "code' = P @ [n']"
        and P: "\<forall>p \<in> set P. \<exists>b \<in> set (rev before). \<exists>K F F'. keeps_as b K F p F'" by blast
      have "\<forall>p \<in> set P. node_ok m p \<and> \<not> IsJump p" using P P_ok by blast
      moreover have "node_ok m n'" using keeps_as_node_ok [OF kept(1) ok(1)] .
      moreover have "ExitTargets (P @ [n']) = ExitTargets (before @ [n])"
        using keeps_as_Op [OF kept(1)] by (elim disjE exE) (simp_all add: ExitTargets_snoc IsJump_def)
      ultimately show ?thesis unfolding code' snoc by (simp add: code_ok_def)
    qed
  qed
  then show "code_ok m code'" "ExitTargets code' = ExitTargets code" by auto
qed

text \<open>Only the exit of a block decides where to go on.\<close>

lemma NewNext_no_jump: "\<not> IsJump n \<Longrightarrow> NewNext n (Op n) vs f x = x"
  by (cases "Op n") (auto simp: IsJump_def)

lemma ExecCode_Next_no_jump: "\<forall>n \<in> set code. \<not> IsJump n \<Longrightarrow> Next (ExecCode m u code s) = Next s"
  by (induction code arbitrary: s) (simp_all add: ExecNode_def Let_def NewNext_no_jump)

lemma ExecCode_Next:
  assumes "code_ok m code" "s = ExecCode m u code (Enter f e)"
  shows "(ExitTargets code = [] \<longleftrightarrow> Next s = None) \<and> (\<forall>b. Next s = Some b \<longrightarrow> b \<in> set (ExitTargets code))"
proof (cases code rule: rev_cases)
  case Nil
  then show ?thesis using assms(2) by (simp add: ExitTargets_def Enter_def)
next
  case (snoc before n)
  have "\<forall>b \<in> set before. \<not> IsJump b" using assms(1) by (simp add: code_ok_def snoc)
  then have "Next (ExecCode m u before (Enter f e)) = None"
    by (simp add: ExecCode_Next_no_jump Enter_def)
  then show ?thesis
    using assms(2) by (cases "Op n") (simp_all add: snoc ExitTargets_snoc ExecNode_def Let_def)
qed

section \<open>The invariant of the elimination\<close>

text \<open>
  The recorded flags of a block need not be the flags that are live: they only are an upper bound. \<open>L\<close> are live flags for
  which every block so far does what the original block does.
\<close>

definition block_inv :: "'e Machine \<Rightarrow> IRBlock list \<Rightarrow> u8 list \<Rightarrow> PassState \<Rightarrow> nat \<Rightarrow> bool" where
  "block_inv m Bs L st b \<longleftrightarrow>
    code_ok m (Code (PBlocks st ! b)) \<and>
    ExitTargets (Code (PBlocks st ! b)) = ExitTargets (Code (Bs ! b)) \<and>
    (\<forall>T \<in> set (ExitTargets (Code (Bs ! b))). T < length Bs) \<and>
    (\<forall>i. bit (L ! b) i \<longrightarrow> bit (BlockFlags st ! b) i) \<and>
    flags_saved (FlagClobber m) (FlagsAtExit L (Code (Bs ! b))) (Code (PBlocks st ! b)) \<and>
    (\<forall>u f g e. agree (L ! b) f g \<longrightarrow>
      sim (FlagsAtExit L (Code (Bs ! b))) [] (ExecCode m u (Code (Bs ! b)) (Enter f e))
        (ExecCode m u (Code (PBlocks st ! b)) (Enter g e)))"

definition elim_inv :: "'e Machine \<Rightarrow> IRBlock list \<Rightarrow> nat list list \<Rightarrow> u8 list \<Rightarrow> PassState \<Rightarrow> bool" where
  "elim_inv m Bs Preds L st \<longleftrightarrow>
    length (PBlocks st) = length Bs \<and> length (BlockFlags st) = length Bs \<and> length L = length Bs \<and>
    set (Worklist st) \<subseteq> {..<length Bs} \<and> (\<forall>b < length Bs. set (Preds ! b) \<subseteq> {..<length Bs}) \<and>
    (\<forall>b < length Bs. block_inv m Bs L st b)"

definition mix :: "u8 \<Rightarrow> Flags \<Rightarrow> Flags \<Rightarrow> Flags" where
  "mix F f g = \<lparr>fN = (if bit F 3 then fN f else fN g), fZ = (if bit F 2 then fZ f else fZ g),
     fC = (if bit F 1 then fC f else fC g), fV = (if bit F 0 then fV f else fV g),
     fP = (if bit F 4 then fP f else fP g), fA = (if bit F 5 then fA f else fA g)\<rparr>"

lemma agree_mix: "agree F f (mix F f g)" "agree (F AND G) f g \<Longrightarrow> agree G (mix F f g) g"
  by (simp_all add: agree_def mix_def bit_and_iff)

lemma FlagsAtExit_cong: "ExitTargets c = ExitTargets d \<Longrightarrow> FlagsAtExit L c = FlagsAtExit L d"
  by (simp add: FlagsAtExit_def)

lemma ExitTargets_shape: "ExitTargets c = [] \<or> (\<exists>T. ExitTargets c = [T]) \<or> (\<exists>T F. ExitTargets c = [T, F])"
  by (simp add: ExitTargets_def)

lemma FlagsAtExit_mono:
  assumes "\<And>T i. T \<in> set (ExitTargets c) \<Longrightarrow> bit (L ! T) i \<Longrightarrow> bit (M ! T) i" "bit (FlagsAtExit L c) i"
  shows "bit (FlagsAtExit M c) i"
  using ExitTargets_shape [of c] assms by (auto simp: FlagsAtExit_def bit_or_iff)

lemma AddWorklist_keeps [simp]:
  "PBlocks (fold AddWorklist bs st) = PBlocks st" "BlockFlags (fold AddWorklist bs st) = BlockFlags st"
  by (induction bs arbitrary: st) (simp_all add: AddWorklist_def)

lemma AddWorklist_set: "set (Worklist (fold AddWorklist bs st)) \<subseteq> set (Worklist st) \<union> set bs"
proof (induction bs arbitrary: st)
  case (Cons b bs)
  have "set (Worklist (AddWorklist b st)) \<subseteq> insert b (set (Worklist st))" by (auto simp: AddWorklist_def)
  with Cons.IH [of "AddWorklist b st"] show ?case by auto
qed simp

lemma ProcessNext_fields:
  assumes "b = last (Worklist st)" "ProcessBlock SE (BlockFlags st) (Code (PBlocks st ! b)) = (code, F)"
  shows "PBlocks (ProcessNext SE Preds st) = (PBlocks st)[b := (PBlocks st ! b)\<lparr>Code := code\<rparr>]"
    "BlockFlags (ProcessNext SE Preds st) = (BlockFlags st)[b := F]"
    "set (Worklist (ProcessNext SE Preds st)) \<subseteq> set (Worklist st) \<union> set (Preds ! b)"
proof -
  show "PBlocks (ProcessNext SE Preds st) = (PBlocks st)[b := (PBlocks st ! b)\<lparr>Code := code\<rparr>]"
    "BlockFlags (ProcessNext SE Preds st) = (BlockFlags st)[b := F]"
    using assms by (simp_all add: ProcessNext_def Let_def)
  have fold: "set (Worklist (fold AddWorklist bs st1)) \<subseteq> set (Worklist st) \<union> set bs"
    if "Worklist st1 = Worklist st" for bs st1
    using AddWorklist_set [of bs st1] that by simp
  have but: "set (butlast xs) \<subseteq> A" if "set xs \<subseteq> A" for xs and A :: "nat set"
    using that by (auto dest: in_set_butlastD)
  show "set (Worklist (ProcessNext SE Preds st)) \<subseteq> set (Worklist st) \<union> set (Preds ! b)"
    using assms by (auto simp: ProcessNext_def Let_def intro!: but fold simp del: Un_iff)
qed

lemma ProcessNext_inv:
  assumes inv: "elim_inv m Bs Preds L st" and ne: "Worklist st \<noteq> []"
  shows "\<exists>L'. elim_inv m Bs Preds L' (ProcessNext (SideEffects m) Preds st)"
proof -
  define b where "b = last (Worklist st)"
  obtain code F where p: "ProcessBlock (SideEffects m) (BlockFlags st) (Code (PBlocks st ! b)) = (code, F)"
    by (cases "ProcessBlock (SideEffects m) (BlockFlags st) (Code (PBlocks st ! b))")
  note fields = ProcessNext_fields [OF b_def p]
  define st' where "st' = ProcessNext (SideEffects m) Preds st"
  define L' where "L' = L[b := L ! b AND F]"
  have len: "length (PBlocks st) = length Bs" "length (BlockFlags st) = length Bs" "length L = length Bs"
    using inv by (simp_all add: elim_inv_def)
  have "b \<in> set (Worklist st)" using last_in_set [OF ne] by (simp add: b_def)
  then have b: "b < length Bs" using inv unfolding elim_inv_def by blast
  have old: "block_inv m Bs L st c" if "c < length Bs" for c using inv that by (simp add: elim_inv_def)
  have small: "bit (L' ! T) i \<Longrightarrow> bit (L ! T) i" for T i
    using b len by (cases "T = b") (simp_all add: L'_def bit_and_iff)
  have out: "sim (FlagsAtExit L' c) [] s t" if "sim (FlagsAtExit L c) [] s t" for c and s t :: "'a State"
    using that by (rule sim_mono) (erule FlagsAtExit_mono [rotated], erule small)
  have less: "sub (FlagsAtExit L' c) (FlagsAtExit L c)" for c
    unfolding sub_def by (intro allI impI) (erule FlagsAtExit_mono [rotated], erule small)
  have "block_inv m Bs L' st' c" if c: "c < length Bs" for c
  proof (cases "c = b")
    case False
    then have "PBlocks st' ! c = PBlocks st ! c" "BlockFlags st' ! c = BlockFlags st ! c" "L' ! c = L ! c"
      by (simp_all add: st'_def fields L'_def)
    then show ?thesis
      using old [OF c] out flags_saved_mono [OF less] unfolding block_inv_def by simp
  next
    case True
    have ok: "code_ok m (Code (PBlocks st ! b))" and ex: "ExitTargets (Code (PBlocks st ! b)) = ExitTargets (Code (Bs ! b))"
      and tg: "\<forall>T \<in> set (ExitTargets (Code (Bs ! b))). T < length Bs"
      and up: "\<And>c i. c < length Bs \<Longrightarrow> bit (L ! c) i \<Longrightarrow> bit (BlockFlags st ! c) i"
      and saved: "flags_saved (FlagClobber m) (FlagsAtExit L (Code (Bs ! b))) (Code (PBlocks st ! b))"
      and eq: "\<And>u f g e. agree (L ! b) f g \<Longrightarrow>
        sim (FlagsAtExit L (Code (Bs ! b))) [] (ExecCode m u (Code (Bs ! b)) (Enter f e))
          (ExecCode m u (Code (PBlocks st ! b)) (Enter g e))"
      using old b unfolding block_inv_def by blast+
    note keeps = ProcessBlock_keeps [OF ok p]
    have exit: "sub (FlagsAtExit L (Code (Bs ! b))) (FlagsAtExit (BlockFlags st) (Code (PBlocks st ! b)))"
      unfolding FlagsAtExit_cong [OF ex] sub_def
      by (intro allI impI) (erule FlagsAtExit_mono [rotated], use tg up in blast)
    note saved' = flags_saved_mono [OF less ProcessBlock_saved(3) [OF p exit saved]]
    have st': "Code (PBlocks st' ! b) = code" "BlockFlags st' ! b = F" "L' ! b = L ! b AND F"
      using b len by (simp_all add: st'_def fields L'_def)
    have "sim (FlagsAtExit L' (Code (Bs ! b))) [] (ExecCode m u (Code (Bs ! b)) (Enter f e)) (ExecCode m u code (Enter g e))"
      if fg: "agree (L ! b AND F) f g" for u f g e
    proof (rule out)
      let ?r = "mix (L ! b) f g"
      have "sim (FlagsAtExit L (Code (Bs ! b))) []
          (ExecCode m u (Code (PBlocks st ! b)) (Enter ?r e)) (ExecCode m u code (Enter g e))"
        using ok by (intro ProcessBlock_sound [OF _ p exit saved] agree_mix(2) [OF fg]) (simp add: code_ok_def)
      with eq [OF agree_mix(1)]
      show "sim (FlagsAtExit L (Code (Bs ! b))) []
          (ExecCode m u (Code (Bs ! b)) (Enter f e)) (ExecCode m u code (Enter g e))"
        by (rule sim_trans)
    qed
    then show ?thesis
      using keeps tg ex saved' unfolding True block_inv_def st' by (simp add: bit_and_iff)
  qed
  moreover have "set (Worklist st') \<subseteq> {..<length Bs}"
    using fields(3) [of Preds] inv b unfolding st'_def elim_inv_def by blast
  ultimately have "elim_inv m Bs Preds L' st'"
    using inv len unfolding elim_inv_def by (simp add: st'_def fields L'_def)
  then show ?thesis unfolding st'_def by blast
qed

lemma WorklistLoop_inv:
  assumes "elim_inv m Bs Preds L st" "WorklistLoop (SideEffects m) Preds fuel st = Some st'"
  shows "\<exists>L'. elim_inv m Bs Preds L' st'"
  using assms
proof (induction fuel arbitrary: st L)
  case 0
  then show ?case by (subst (asm) WorklistLoop.simps) (auto split: if_splits)
next
  case (Suc fuel)
  show ?case
  proof (cases "Worklist st = []")
    case True
    then show ?thesis using Suc.prems by (subst (asm) WorklistLoop.simps) auto
  next
    case False
    then have "WorklistLoop (SideEffects m) Preds fuel (ProcessNext (SideEffects m) Preds st) = Some st'"
      using Suc.prems(2) by (subst (asm) WorklistLoop.simps) simp
    moreover obtain L1 where "elim_inv m Bs Preds L1 (ProcessNext (SideEffects m) Preds st)"
      using ProcessNext_inv [OF Suc.prems(1) False] by blast
    ultimately show ?thesis by (rule Suc.IH [rotated])
  qed
qed

section \<open>From blocks to programs\<close>

text \<open>Blocks \<open>Bs\<close> do what the blocks \<open>As\<close> do for everybody who looks at the flags \<open>L\<close> that are live at their begin.\<close>

definition blocks_sim :: "'e Machine \<Rightarrow> u8 list \<Rightarrow> IRBlock list \<Rightarrow> IRBlock list \<Rightarrow> bool" where
  "blocks_sim m L As Bs \<longleftrightarrow>
    (\<forall>b < length As. \<forall>u f g e. agree (L ! b) f g \<longrightarrow>
      sim (FlagsAtExit L (Code (As ! b))) [] (ExecCode m u (Code (As ! b)) (Enter f e))
        (ExecCode m u (Code (Bs ! b)) (Enter g e)))"

definition ir_ok :: "'e Machine \<Rightarrow> IRList \<Rightarrow> bool" where
  "ir_ok m ir \<longleftrightarrow>
    (\<forall>B \<in> set (Blocks ir). code_ok m (Code B)) \<and> set (Order ir) = {..<length (Blocks ir)}"

text \<open>
  A flag that an operation clobbers is written again before it is read and before the exit of the block: the dispatcher
  keeps the flags in a register meanwhile (\<open>SaveNZCV\<close>).
\<close>

definition saved_ok :: "'e Machine \<Rightarrow> IRList \<Rightarrow> bool" where
  "saved_ok m ir \<longleftrightarrow> (\<forall>B \<in> set (Blocks ir). flags_saved (FlagClobber m) FLAG_ALL (Code B))"

definition targets_ok :: "IRBlock list \<Rightarrow> bool" where
  "targets_ok Bs \<longleftrightarrow> (\<forall>b < length Bs. \<forall>T \<in> set (ExitTargets (Code (Bs ! b))). T < length Bs)"

lemma ExecBlocks_sim:
  assumes "blocks_sim m L As Bs" "\<forall>b < length As. code_ok m (Code (As ! b))" "targets_ok As"
    "b < length As" "agree (L ! b) f g"
    "ExecBlocks m u As k b f e = (f1, e1, x1)" "ExecBlocks m u Bs k b g e = (f2, e2, x2)"
  shows "e1 = e2 \<and> x1 = x2 \<and> (x1 = None \<longrightarrow> f1 = f2)"
  using assms(4-)
proof (induction k arbitrary: b f g e)
  case 0
  then show ?case by auto
next
  case (Suc k)
  define s where "s = ExecCode m (u k) (Code (As ! b)) (Enter f e)"
  define t where "t = ExecCode m (u k) (Code (Bs ! b)) (Enter g e)"
  have sim: "sim (FlagsAtExit L (Code (As ! b))) [] s t"
    using assms(1) Suc.prems(1,2) unfolding blocks_sim_def s_def t_def by blast
  have nxt: "(ExitTargets (Code (As ! b)) = [] \<longleftrightarrow> Next s = None)
      \<and> (\<forall>c. Next s = Some c \<longrightarrow> c \<in> set (ExitTargets (Code (As ! b))))"
    by (rule ExecCode_Next [OF _ s_def]) (use assms(2) Suc.prems(1) in blast)
  have eqs: "Env s = Env t" "Next s = Next t" using sim by (simp_all add: sim_def)
  show ?case
  proof (cases "Next s")
    case None
    then have "FlagsAtExit L (Code (As ! b)) = FLAG_ALL" using nxt by (simp add: FlagsAtExit_def)
    then have "FlagsOf s = FlagsOf t" using sim by (simp add: sim_def agree_all)
    then show ?thesis
      using None eqs Suc.prems(3,4) by (simp add: Let_def flip: s_def t_def)
  next
    case (Some c)
    then have c: "c \<in> set (ExitTargets (Code (As ! b)))" using nxt by blast
    have "agree (L ! c) (FlagsOf s) (FlagsOf t)"
    proof (rule agree_mono)
      show "agree (FlagsAtExit L (Code (As ! b))) (FlagsOf s) (FlagsOf t)" using sim by (simp add: sim_def)
      show "bit (FlagsAtExit L (Code (As ! b))) i" if "bit (L ! c) i" for i
        using that c ExitTargets_shape [of "Code (As ! b)"] by (auto simp: FlagsAtExit_def bit_or_iff)
    qed
    moreover have "c < length As" using c assms(3) Suc.prems(1) by (auto simp: targets_ok_def)
    moreover have "ExecBlocks m u As k c (FlagsOf s) (Env s) = (f1, e1, x1)"
      "ExecBlocks m u Bs k c (FlagsOf t) (Env s) = (f2, e2, x2)"
      using Suc.prems(3,4) Some eqs by (simp_all add: Let_def flip: s_def t_def)
    ultimately show ?thesis using Suc.IH by blast
  qed
qed

section \<open>The flow graph\<close>

lemma RecordEdges_ok:
  assumes "RecordEdges a Ts P = Some Q"
  shows "length Q = length P \<and> (\<forall>T \<in> set Ts. T < length P) \<and> (\<forall>b. b < length P \<longrightarrow> set (Q ! b) \<subseteq> insert a (set (P ! b)))"
  using assms
proof (induction Ts arbitrary: P)
  case (Cons T Ts)
  then obtain R where R: "RecordEdge a T P = Some R" "RecordEdges a Ts R = Some Q" by (auto split: bind_splits)
  then have T: "T < length P" "R = P[T := P ! T @ [a]]" by (auto simp: RecordEdge_def split: if_splits)
  from Cons.IH [OF R(2)] T show ?case by (auto simp: nth_list_update split: if_splits)
qed auto

lemma GatherCFG_ok:
  assumes "GatherCFG Bs bs P = Some Q"
  shows "length Q = length P \<and> (\<forall>b \<in> set bs. \<forall>T \<in> set (ExitTargets (Code (Bs ! b))). T < length P)
    \<and> (\<forall>b. b < length P \<longrightarrow> set (Q ! b) \<subseteq> set bs \<union> set (P ! b))"
  using assms
proof (induction bs arbitrary: P)
  case (Cons b bs)
  then obtain R where R: "RecordEdges b (ExitTargets (Code (Bs ! b))) P = Some R" "GatherCFG Bs bs R = Some Q"
    by (auto split: bind_splits)
  from Cons.IH [OF R(2)] RecordEdges_ok [OF R(1)] show ?case by fastforce
qed auto

lemma EliminateFlags_inv:
  assumes ok: "ir_ok m ir" and e: "EliminateFlags (SideEffects m) fuel ir = Some (Preds, st)"
  shows "saved_ok m ir \<Longrightarrow> \<exists>L. elim_inv m (Blocks ir) Preds L st" "targets_ok (Blocks ir)"
proof -
  let ?n = "length (Blocks ir)"
  have g: "GatherCFG (Blocks ir) (Order ir) (replicate ?n []) = Some Preds"
    and w: "WorklistLoop (SideEffects m) Preds fuel (InitState (Blocks ir)) = Some st"
    using e by (auto simp: EliminateFlags_def split: option.splits)
  have ord: "set (Order ir) = {..<?n}" using ok by (simp add: ir_ok_def)
  have t: "\<forall>b < ?n. \<forall>T \<in> set (ExitTargets (Code (Blocks ir ! b))). T < ?n"
    "\<forall>b < ?n. set (Preds ! b) \<subseteq> {..<?n}"
    using GatherCFG_ok [OF g] ord by auto
  then show "targets_ok (Blocks ir)" by (simp add: targets_ok_def)
  assume saved: "saved_ok m ir"
  have exit: "FlagsAtExit (replicate ?n FLAG_ALL) (Code (Blocks ir ! b)) = FLAG_ALL" if "b < ?n" for b
    using t(1) that ExitTargets_shape [of "Code (Blocks ir ! b)"] by (auto simp: FlagsAtExit_def)
  have "elim_inv m (Blocks ir) Preds (replicate ?n FLAG_ALL) (InitState (Blocks ir))"
    using t ok saved
    by (auto simp: elim_inv_def block_inv_def InitState_def ir_ok_def saved_ok_def agree_all exit)
  from WorklistLoop_inv [OF this w] show "\<exists>L. elim_inv m (Blocks ir) Preds L st" .
qed

lemma elim_inv_sim: "elim_inv m Bs Preds L st \<Longrightarrow> blocks_sim m L Bs (PBlocks st)"
  by (simp add: elim_inv_def block_inv_def blocks_sim_def)

end
