(* ===== verification/FlagFold.thy ===== *)
theory FlagFold
  imports FlagGraph "HOL-Library.Sublist"
begin

text \<open>
  Why a compare may be folded into the branch behind it: the shape of a block that the fold relies on, that the
  elimination keeps it, and that the folded block goes to the same place in the same state, but for flags nobody reads.
\<close>

section \<open>The shape of a block\<close>

text \<open>
  \<open>axflags_ok\<close>: before every \<open>AXFlag\<close> the flags are those of a compare of floats (\<open>c\<close>: they are at the begin).
\<close>

definition Changes :: "(nat \<Rightarrow> bool) \<Rightarrow> IRNode \<Rightarrow> u8" where
  "Changes C n = Clears n OR Clobbers C n"

fun axflags_ok :: "(nat \<Rightarrow> bool) \<Rightarrow> bool \<Rightarrow> IRNode list \<Rightarrow> bool" where
  "axflags_ok C c [] = True"
| "axflags_ok C c (n # ns) =
    (if Op n = OP_AXFLAG then c \<and> axflags_ok C False ns
     else if Op n = OP_FCMP then axflags_ok C True ns
     else axflags_ok C (c \<and> Changes C n AND FLAG_NZCV = 0) ns)"

text \<open>
  \<open>le_ok\<close>: no branch tests the flags an \<open>AXFlag\<close> left (\<open>a\<close>: they are at the begin) with the condition LE.
\<close>

definition FLAG_NZV :: u8 where "FLAG_NZV = FLAG_N OR FLAG_Z OR FLAG_V"

definition after_axflag :: "(nat \<Rightarrow> bool) \<Rightarrow> bool \<Rightarrow> IRNode \<Rightarrow> bool" where
  "after_axflag C a n \<longleftrightarrow> Op n = OP_AXFLAG \<or> a \<and> Changes C n AND FLAG_NZV = 0"

definition tests_le :: "IRNode \<Rightarrow> bool" where
  "tests_le n \<longleftrightarrow> Op n = OP_CONDJUMP \<and> FromNZCV n \<and> Cond n = SLE"

fun le_ok :: "(nat \<Rightarrow> bool) \<Rightarrow> bool \<Rightarrow> IRNode list \<Rightarrow> bool" where
  "le_ok C a [] = True"
| "le_ok C a (n # ns) \<longleftrightarrow> \<not> (a \<and> tests_le n) \<and> le_ok C (after_axflag C a n) ns"

text \<open>Operands refer to earlier nodes.\<close>

fun no_forward :: "(nat \<times> nat list) list \<Rightarrow> bool" where
  "no_forward [] = True"
| "no_forward ((i, as) # ns) = (set as \<inter> insert i (fst ` set ns) = {} \<and> no_forward ns)"

definition shape :: "IRNode list \<Rightarrow> (nat \<times> nat list) list" where
  "shape = map (\<lambda>n. (NodeID n, Args n))"

definition fold_node_ok :: "IRNode \<Rightarrow> bool" where
  "fold_node_ok n \<longleftrightarrow>
    (Op n = OP_CONDJUMP \<longrightarrow> length (Args n) = 2) \<and>
    (Op n = OP_SUBNZCV \<or> Op n = OP_SUBWITHFLAGS \<longrightarrow> OpSize n \<in> {i8Bit, i16Bit, i32Bit, i64Bit})"

definition fold_ok :: "(nat \<Rightarrow> bool) \<Rightarrow> IRNode list \<Rightarrow> bool" where
  "fold_ok C code \<longleftrightarrow>
    axflags_ok C False code \<and> le_ok C False code \<and> distinct (map NodeID code) \<and> no_forward (shape code) \<and>
    (\<forall>n \<in> set code. fold_node_ok n)"

section \<open>The elimination keeps the shape\<close>

lemma axflags_ok_mono: "axflags_ok C False ns \<Longrightarrow> axflags_ok C c ns"
proof (induction ns arbitrary: c)
  case (Cons n ns)
  then show ?case by (cases c) (auto split: if_splits)
qed simp

lemma le_ok_mono: "le_ok C a ns \<Longrightarrow> (b \<Longrightarrow> a) \<Longrightarrow> le_ok C b ns"
proof (induction ns arbitrary: a b)
  case (Cons n ns)
  have "after_axflag C b n \<Longrightarrow> after_axflag C a n" using Cons.prems(2) by (auto simp: after_axflag_def)
  then show ?case using Cons.prems Cons.IH [of "after_axflag C a n" "after_axflag C b n"] by auto
qed simp

lemma no_forward_subseq: "subseq xs ys \<Longrightarrow> no_forward ys \<Longrightarrow> no_forward xs"
proof (induction rule: list_emb.induct)
  case (list_emb_Cons2 x y xs ys)
  have "set xs \<subseteq> set ys" using list_emb_Cons2.hyps(2) by (auto dest: list_emb_set)
  with list_emb_Cons2 show ?case by (cases y) auto
qed (auto simp: split_paired_all)

lemma distinct_subseq: "subseq xs ys \<Longrightarrow> distinct ys \<Longrightarrow> distinct xs"
  by (auto simp: subseq_conv_nths)

lemma ScanBlock_shape:
  assumes "ScanBlock SE ns K F = (K', F')"
  shows "subseq (shape K') (shape (rev ns @ K))"
  using assms
proof (induction ns arbitrary: K F)
  case Nil
  then show ?case by simp
next
  case (Cons n ns)
  show ?case
  proof (cases rule: ScanBlock_step [of SE n K F ns])
    case (removed G)
    then have "subseq (shape K') (shape (rev ns @ K))" using Cons by simp
    then show ?thesis
      by (rule subseq_order.order_trans) (auto simp: shape_def intro!: list_emb_append_mono)
  next
    case (kept n' G)
    then have "subseq (shape K') (shape (rev ns @ n' # K))" using Cons by simp
    moreover have "NodeID n' = NodeID n" "Args n' = Args n"
      using keeps_as_Op [OF kept(1)] by auto
    ultimately show ?thesis by (simp add: shape_def)
  qed
qed

text \<open>If the code needs the flags of a compare at its begin, then they are live.\<close>

lemma axflags_live:
  "axflags_ok C True K \<Longrightarrow> \<not> axflags_ok C False K \<Longrightarrow> bit (LiveFlags G K) 0"
proof (induction K)
  case (Cons n K)
  show ?case
  proof (cases "Op n = OP_AXFLAG \<or> Op n = OP_FCMP")
    case True
    then show ?thesis using Cons.prems by (auto simp: Classify_def no_flags_def bit_simps flag_masks)
  next
    case False
    then have *: "axflags_ok C (Changes C n AND FLAG_NZCV = 0) K" "\<not> axflags_ok C False K" using Cons.prems by auto
    then have w: "FLAG_NZCV AND Changes C n = 0" and K: "axflags_ok C True K"
      by (cases "Changes C n AND FLAG_NZCV = 0"; simp add: and.commute)+
    have "\<not> bit (Clears n) 0" using bit_disjoint [OF w, of 0] by (simp add: Changes_def bit_simps flag_masks)
    then show ?thesis using Cons.IH [OF K *(2)] by (simp add: bit_simps)
  qed
qed simp

text \<open>If a branch tests the flags at the begin with LE, then they are live.\<close>

lemma le_live:
  "le_ok C False K \<Longrightarrow> \<not> le_ok C True K \<Longrightarrow> sub FLAG_NZV (LiveFlags G K)"
proof (induction K)
  case (Cons n K)
  show ?case
  proof (cases "tests_le n")
    case True
    then show ?thesis by (auto simp: tests_le_def sub_def Classify_def no_flags_def FLAG_NZV_def bit_simps)
  next
    case False
    have "after_axflag C True n" "\<not> after_axflag C False n"
      using Cons.prems False by (cases "after_axflag C True n"; cases "after_axflag C False n"; simp add: after_axflag_def)+
    then have w: "FLAG_NZV AND Changes C n = 0" by (simp add: after_axflag_def and.commute)
    have "sub FLAG_NZV (LiveFlags G K)"
      using Cons.prems False \<open>after_axflag C True n\<close> \<open>\<not> after_axflag C False n\<close> by (intro Cons.IH) simp_all
    then show ?thesis using bit_disjoint [OF w] by (auto simp: sub_def bit_simps Changes_def dest: bit_imp_le_length)
  qed
qed simp

text \<open>The kept code \<open>K\<close> is as fit to be folded as the code \<open>S\<close> it comes from.\<close>

definition ax_inv :: "(nat \<Rightarrow> bool) \<Rightarrow> IRNode list \<Rightarrow> IRNode list \<Rightarrow> bool" where
  "ax_inv C S K \<longleftrightarrow>
    (\<forall>c. axflags_ok C c S \<longrightarrow> axflags_ok C c K) \<and> (\<forall>a. le_ok C a S \<longrightarrow> le_ok C a K)"

text \<open>No flag that is live behind the node is changed by it, or not by what it becomes.\<close>

lemma unchanged_axflags:
  assumes "l AND Changes C n = 0" "l = LiveFlags G K" "axflags_ok C c (n # S)" "\<And>c. axflags_ok C c S \<Longrightarrow> axflags_ok C c K"
  shows "axflags_ok C c K"
proof (rule ccontr)
  assume no: "\<not> axflags_ok C c K"
  then have F: "\<not> axflags_ok C False K" using axflags_ok_mono by blast
  then have S: "\<not> axflags_ok C False S" using assms(4) by blast
  have T: "axflags_ok C True K"
    using assms(3,4) S axflags_ok_mono
    by (cases c; cases "Changes C n AND FLAG_NZCV = 0") (auto split: if_splits)
  have "bit l 0" unfolding assms(2) by (rule axflags_live [OF T F])
  then have "\<not> bit (Changes C n) 0" using bit_disjoint [OF assms(1)] by blast
  then have "Op n \<noteq> OP_AXFLAG" "Op n \<noteq> OP_FCMP"
    by (auto simp: Changes_def Clears_def Classify_def no_flags_def bit_simps flag_masks)
  then have "axflags_ok C (c \<and> Changes C n AND FLAG_NZCV = 0) K" using assms(3,4) by simp
  then show False using no F by (cases c; cases "Changes C n AND FLAG_NZCV = 0") simp_all
qed

lemma unchanged_le:
  assumes "l AND Changes C n = 0" "l = LiveFlags G K" "le_ok C a (n # S)" "\<And>a. le_ok C a S \<Longrightarrow> le_ok C a K"
  shows "le_ok C a K"
proof (rule ccontr)
  assume no: "\<not> le_ok C a K"
  have K: "le_ok C (after_axflag C a n) K" using assms(3,4) by simp
  then have F: "le_ok C False K" by (rule le_ok_mono) simp
  then have a: a "\<not> le_ok C True K" using no by (cases a; simp)+
  have "sub FLAG_NZV l" unfolding assms(2) by (rule le_live [OF F a(2)])
  then have "FLAG_NZV AND Changes C n = 0" by (rule sub_disjoint [OF _ assms(1)])
  then have "after_axflag C a n" using a(1) by (simp add: after_axflag_def and.commute)
  then show False using K a by simp
qed

lemma ax_inv_removed:
  assumes inv: "ax_inv C S K" and r: "removes SE n K F F'" and l: "scan_inv C G S K F" and saved: "flags_saved C G (n # S)"
  shows "ax_inv C (n # S) K"
proof -
  have l: "sub (LiveFlags G K) F" "sub (LiveFlags G K) (LiveFlags G S)" using l by (simp_all add: scan_inv_def)
  have "LiveFlags G K AND Clears n = 0" by (rule removes_flags [OF r l(1)])
  moreover have "LiveFlags G K AND Clobbers C n = 0" by (rule sub_disjoint [OF l(2)]) (use saved in simp)
  ultimately have ch: "LiveFlags G K AND Changes C n = 0" by (simp add: Changes_def bit.conj_disj_distrib)
  show ?thesis
    unfolding ax_inv_def
    using unchanged_axflags [OF ch refl] unchanged_le [OF ch refl] inv unfolding ax_inv_def by blast
qed

text \<open>A node that is kept is the same, or becomes one that changes as much or nothing.\<close>

lemma keeps_as_Changes:
  assumes "keeps_as n K F n' F'" "sub l F"
  shows "n' = n \<or> (\<not> tests_le n \<and> \<not> tests_le n' \<and> Op n \<noteq> OP_AXFLAG \<and> Op n \<noteq> OP_FCMP \<and> Op n' \<noteq> OP_AXFLAG \<and> Op n' \<noteq> OP_FCMP
    \<and> (Changes C n' = Changes C n \<or> Changes C n' = 0 \<and> l AND Changes C n = 0))"
proof -
  define n1 where "n1 = ReplaceOp F (Classify n) (GetUses (NodeID n) K) n"
  have n': "n' = OptimizeTest F n1" using assms(1) by (simp add: keeps_as_def n1_def)
  let ?P = "\<lambda>p q. p = q \<or> (\<not> tests_le q \<and> \<not> tests_le p \<and> Op q \<noteq> OP_AXFLAG \<and> Op q \<noteq> OP_FCMP \<and> Op p \<noteq> OP_AXFLAG \<and> Op p \<noteq> OP_FCMP
    \<and> (Changes C p = Changes C q \<or> Changes C p = 0 \<and> l AND Changes C q = 0))"
  have 1: "?P n1 n"
  proof (cases rule: ReplaceOp_cases [of F n "GetUses (NodeID n) K"])
    case same
    then show ?thesis by (simp add: n1_def)
  next
    case (dead r)
    have W: "Clears n = Write (Classify n)" "Clobbers C n = 0" by (rule replaceable_flags, simp add: dead(2))+
    have "l AND Changes C n = 0" using sub_disjoint [OF assms(2) dead(1)] by (simp add: W Changes_def)
    moreover have "n1 = n\<lparr>Op := r\<rparr>" unfolding n1_def by (rule dead(3))
    ultimately show ?thesis
      using Replacement_cases [OF dead(2)]
      by (elim disjE conjE) (simp_all add: tests_le_def Changes_def Clears_def Clobbers_def Classify_def no_flags_def)
  next
    case (unused r)
    have "n1 = n\<lparr>Op := r\<rparr>" unfolding n1_def by (rule unused(3))
    then show ?thesis
      using ReplacementNoWrite_cases [OF unused(2)]
      by (elim disjE conjE) (simp_all add: tests_le_def Changes_def Clears_def Clobbers_def Classify_def no_flags_def)
  qed
  have 2: "n' = n1 \<or> Op n1 = OP_TESTNZ \<and> n' = n1\<lparr>Op := OP_TESTZ\<rparr>" unfolding n' OptimizeTest_def by auto
  have 3: "Changes C n' = Changes C n1" unfolding n' Changes_def OptimizeTest_flags ..
  from 2 show ?thesis
  proof
    assume "n' = n1"
    then show ?thesis using 1 by simp
  next
    assume t: "Op n1 = OP_TESTNZ \<and> n' = n1\<lparr>Op := OP_TESTZ\<rparr>"
    then show ?thesis using 1 3 by (auto simp: tests_le_def)
  qed
qed

lemma ax_inv_kept:
  assumes inv: "ax_inv C S K" and k: "keeps_as n K F n' F'" and l: "scan_inv C G S K F"
  shows "ax_inv C (n # S) (n' # K)"
proof -
  have ax: "\<And>c. axflags_ok C c S \<Longrightarrow> axflags_ok C c K" and le: "\<And>a. le_ok C a S \<Longrightarrow> le_ok C a K"
    using inv by (simp_all add: ax_inv_def)
  have F: "sub (LiveFlags G K) F" using l by (simp add: scan_inv_def)
  consider (same) "n' = n" | (op) "\<not> tests_le n" "\<not> tests_le n'" "Op n \<noteq> OP_AXFLAG" "Op n \<noteq> OP_FCMP" "Op n' \<noteq> OP_AXFLAG"
      "Op n' \<noteq> OP_FCMP" "Changes C n' = Changes C n \<or> Changes C n' = 0 \<and> LiveFlags G K AND Changes C n = 0"
    using keeps_as_Changes [OF k F, of C] by blast
  then show ?thesis
  proof cases
    case same
    then show ?thesis using ax le by (simp add: ax_inv_def)
  next
    case op
    from op(7) show ?thesis
    proof
      assume "Changes C n' = Changes C n"
      then show ?thesis using op(1-6) ax le by (simp add: ax_inv_def after_axflag_def)
    next
      assume c: "Changes C n' = 0 \<and> LiveFlags G K AND Changes C n = 0"
      have "axflags_ok C c (n' # K) = axflags_ok C c K" for c using op(5,6) c by simp
      moreover have "le_ok C a (n' # K) = le_ok C a K" for a using op(2,5) c by (simp add: after_axflag_def)
      ultimately show ?thesis
        using unchanged_axflags [OF _ refl _ ax] unchanged_le [OF _ refl _ le] c unfolding ax_inv_def by blast
    qed
  qed
qed

lemma ScanBlock_ax_inv:
  "ScanBlock SE ns K F = (K', F') \<Longrightarrow> ax_inv C S K \<Longrightarrow> scan_inv C G S K F \<Longrightarrow> flags_saved C G (rev ns @ S) \<Longrightarrow>
    ax_inv C (rev ns @ S) K'"
proof (induction ns arbitrary: K F S)
  case (Cons n ns)
  have saved: "flags_saved C G (rev ns @ n # S)" using Cons.prems(4) by simp
  note saved' = flags_saved_append [OF saved]
  show ?case
  proof (cases rule: ScanBlock_step [of SE n K F ns])
    case (removed F1)
    then have "ScanBlock SE ns K F1 = (K', F')" using Cons.prems(1) by simp
    from Cons.IH [OF this ax_inv_removed [OF Cons.prems(2) removed(1) Cons.prems(3) saved']
        scan_inv_removed [OF Cons.prems(3) removed(1)] saved] show ?thesis by simp
  next
    case (kept n' F1)
    then have "ScanBlock SE ns (n' # K) F1 = (K', F')" using Cons.prems(1) by simp
    from Cons.IH [OF this ax_inv_kept [OF Cons.prems(2) kept(1) Cons.prems(3)]
        scan_inv_kept [OF Cons.prems(3) kept(1) saved'] saved] show ?thesis by simp
  qed
qed simp

lemma keeps_as_fold_node_ok:
  assumes "keeps_as n K F n' F'" "fold_node_ok n"
  shows "fold_node_ok n'"
proof -
  define n1 where "n1 = ReplaceOp F (Classify n) (GetUses (NodeID n) K) n"
  have n': "n' = OptimizeTest F n1" using assms(1) by (simp add: keeps_as_def n1_def)
  have "fold_node_ok n1"
  proof (cases rule: ReplaceOp_cases [of F n "GetUses (NodeID n) K"])
    case (dead r)
    have "n1 = n\<lparr>Op := r\<rparr>" unfolding n1_def by (rule dead(3))
    then show ?thesis using Replacement_cases [OF dead(2)] by (auto simp: fold_node_ok_def)
  next
    case (unused r)
    have "n1 = n\<lparr>Op := r\<rparr>" unfolding n1_def by (rule unused(3))
    then show ?thesis using ReplacementNoWrite_cases [OF unused(2)] assms(2) by (auto simp: fold_node_ok_def)
  qed (use assms(2) n1_def in simp)
  then show ?thesis unfolding n' OptimizeTest_def by (auto simp: fold_node_ok_def)
qed

text \<open>Of what is behind the block the shape does not depend.\<close>

lemma ProcessBlock_fold_ok:
  assumes "fold_ok C code" "flags_saved C 0 code" "ProcessBlock SE Flags code = (code', F)"
  shows "fold_ok C code' \<and> flags_saved C 0 code'"
proof -
  have scan: "ScanBlock SE (rev code) [] (FlagsAtExit Flags code) = (code', F)"
    using assms(3) by (simp add: ProcessBlock_def)
  have sub: "subseq (shape code') (shape code)" using ScanBlock_shape [OF scan] by simp
  have zero: "sub 0 (FlagsAtExit Flags code)" by (simp add: sub_def)
  have "ax_inv C (rev (rev code) @ []) code'"
    by (rule ScanBlock_ax_inv [OF scan, of C "[]" 0]) (use assms(2) zero in \<open>simp_all add: ax_inv_def scan_inv_def\<close>)
  then have "axflags_ok C False code'" "le_ok C False code'"
    using assms(1) by (simp_all add: ax_inv_def fold_ok_def)
  moreover have "distinct (map fst (shape code'))"
    using assms(1) distinct_subseq [OF subseq_map [OF sub, of fst]]
    by (simp add: fold_ok_def shape_def comp_def)
  moreover have "no_forward (shape code')"
    using assms(1) no_forward_subseq [OF sub] by (simp add: fold_ok_def)
  moreover have "\<forall>p \<in> set code'. fold_node_ok p"
    using ScanBlock_nodes [OF scan] assms(1) keeps_as_fold_node_ok by (fastforce simp: fold_ok_def)
  ultimately show ?thesis
    using ProcessBlock_saved(3) [OF assms(3) zero assms(2)] by (simp add: fold_ok_def shape_def comp_def)
qed

section \<open>The folded block\<close>

text \<open>The flags are those of a compare of floats.\<close>

definition of_fcmp :: "Flags \<Rightarrow> bool" where
  "of_fcmp f \<longleftrightarrow> (\<exists>r. fcmp_flags r f = f)"

lemma of_fcmp_iff:
  "of_fcmp f \<longleftrightarrow>
    (\<exists>r. fN f = (r = FLess) \<and> fZ f = (r = FEqual) \<and> fC f = (r \<noteq> FLess) \<and> fV f = (r = FUnordered))"
  by (cases f) (auto simp: of_fcmp_def fcmp_flags_nzcv nzcv_def)

lemma of_fcmp_agree: "of_fcmp f \<Longrightarrow> agree FLAG_NZCV g f \<Longrightarrow> of_fcmp g"
  by (simp add: of_fcmp_iff agree_def flag_masks)

lemma of_fcmp_before_AXFLAG:
  "axflags_ok (FlagClobber m) c (xs @ a # ys) \<Longrightarrow> Op a = OP_AXFLAG \<Longrightarrow> (c \<Longrightarrow> of_fcmp (FlagsOf s)) \<Longrightarrow>
    of_fcmp (FlagsOf (ExecCode m u xs s))"
proof (induction xs arbitrary: c s)
  case Nil
  then show ?case by simp
next
  case (Cons n xs)
  let ?f = "FlagsOf (ExecNode m u n s)"
  have f: "?f = NewFlags m u n (Op n) (map (Vals s) (Args n)) (Env s) (FlagsOf s)"
    by (simp add: ExecNode_def Let_def)
  consider (ax) "Op n = OP_AXFLAG" | (cmp) "Op n = OP_FCMP" | (plain) "Op n \<noteq> OP_AXFLAG" "Op n \<noteq> OP_FCMP" by blast
  then show ?case
  proof cases
    case ax
    then show ?thesis using Cons.IH [of False] Cons.prems by simp
  next
    case cmp
    have "of_fcmp ?f"
      unfolding f cmp NewFlags.simps of_fcmp_def
      by (rule exI [of _ "Compare m (OpSize n) (operand (map (Vals s) (Args n)) 0) (operand (map (Vals s) (Args n)) 1)"])
        (simp add: fcmp_flags_nzcv nzcv_def)
    then show ?thesis using Cons.IH [of True "ExecNode m u n s"] Cons.prems cmp by simp
  next
    case plain
    let ?w = "Changes (FlagClobber m) n AND FLAG_NZCV = 0"
    have "of_fcmp ?f" if "c \<and> ?w"
    proof -
      have "FLAG_NZCV AND Clears n = 0 \<and> FLAG_NZCV AND Clobbers (FlagClobber m) n = 0"
        using that by (simp add: Changes_def and.commute [of FLAG_NZCV] bit.conj_disj_distrib2 or_eq_0_iff)
      then have "agree FLAG_NZCV ?f (FlagsOf s)" unfolding f by (intro NewFlags_frame) simp_all
      then show ?thesis using Cons.prems(3) that of_fcmp_agree by blast
    qed
    then show ?thesis using Cons.IH [of "c \<and> ?w" "ExecNode m u n s"] Cons.prems(1,2) plain by simp
  qed
qed

text \<open>A branch behind an \<open>AXFlag\<close>, with only stores between them, does not test LE.\<close>

lemma le_ok_stores:
  assumes "\<forall>n \<in> set St. IsStore n" "le_ok C a (xs @ p # St @ [J])" "Op p = OP_AXFLAG"
  shows "\<not> tests_le J"
proof -
  have "le_ok C True (St @ [J])"
    using assms(2,3) by (induction xs arbitrary: a) (auto simp: after_axflag_def)
  moreover have "le_ok C True (St @ [J]) \<Longrightarrow> le_ok C True [J]"
    using assms(1)
  proof (induction St)
    case (Cons n St)
    have "Changes C n AND FLAG_NZV = 0"
      using Cons.prems(2)
      by (auto simp: IsStore_def Changes_def Clears_def Clobbers_def Classify_def no_flags_def FLAG_NZV_def flag_masks)
    then show ?case using Cons by (simp add: after_axflag_def)
  qed simp
  ultimately show ?thesis by simp
qed

text \<open>The conditions of x86 after \<open>axflag\<close> and those of the host before it, one operand pair at a time.\<close>

lemma X86ToArmFloatCond_same:
  assumes "of_fcmp f" "X86ToArmFloatCond c \<noteq> AL" "c \<noteq> SLE"
  shows "Holds (X86ToArmFloatCond c) f = Holds c (axflag f)"
proof -
  obtain r where f: "fN f = (r = FLess)" "fZ f = (r = FEqual)" "fC f = (r \<noteq> FLess)" "fV f = (r = FUnordered)"
    using assms(1) by (auto simp: of_fcmp_iff)
  show ?thesis
    using assms(2,3) by (cases c; cases r) (simp_all add: X86ToArmFloatCond_def axflag_def nzcv_def f)
qed

definition same_but_NZCV :: "'e State \<Rightarrow> 'e State \<Rightarrow> bool" where
  "same_but_NZCV s t \<longleftrightarrow> Vals s = Vals t \<and> Env s = Env t \<and> Next s = Next t
     \<and> fP (FlagsOf s) = fP (FlagsOf t) \<and> fA (FlagsOf s) = fA (FlagsOf t)"

lemma store_step:
  assumes "IsStore n"
  shows "same_but_NZCV s t \<Longrightarrow> same_but_NZCV (ExecNode m u n s) (ExecNode m u n t)"
    "agree FLAG_NZCV (FlagsOf (ExecNode m u n s)) (FlagsOf s)"
    "i \<noteq> NodeID n \<Longrightarrow> Vals (ExecNode m u n s) i = Vals s i"
  using assms
  by (auto simp: IsStore_def same_but_NZCV_def ExecNode_def Let_def agree_def flag_masks split: option.splits)

lemma store_steps:
  assumes "\<forall>n \<in> set ns. IsStore n"
  shows "same_but_NZCV s t \<Longrightarrow> same_but_NZCV (ExecCode m u ns s) (ExecCode m u ns t)"
    "agree FLAG_NZCV (FlagsOf (ExecCode m u ns s)) (FlagsOf s)"
    "i \<notin> NodeID ` set ns \<Longrightarrow> Vals (ExecCode m u ns s) i = Vals s i"
proof -
  show "same_but_NZCV s t \<Longrightarrow> same_but_NZCV (ExecCode m u ns s) (ExecCode m u ns t)"
    using assms by (induction ns arbitrary: s t) (simp_all add: store_step)
  show "agree FLAG_NZCV (FlagsOf (ExecCode m u ns s)) (FlagsOf s)"
    using assms by (induction ns arbitrary: s) (simp, metis ExecCode_Cons agree_trans list.set_intros store_step(2))
  show "i \<notin> NodeID ` set ns \<Longrightarrow> Vals (ExecCode m u ns s) i = Vals s i"
    using assms by (induction ns arbitrary: s) (simp_all add: store_step(3))
qed

lemma Holds_NZCV: "agree FLAG_NZCV f g \<Longrightarrow> Holds c f = Holds c g"
  by (cases c) (simp_all add: agree_def flag_masks)

lemma inline_constant_value:
  assumes "distinct (map NodeID ns)" "n \<in> set ns" "Op n = OP_INLINECONSTANT"
  shows "Vals (ExecCode m u ns s) (NodeID n) = ucast (Constant n)"
  using assms
proof (induction ns rule: rev_induct)
  case (snoc n' ns)
  show ?case
  proof (cases "n = n'")
    case True
    then show ?thesis using snoc.prems by (simp add: ExecNode_def Let_def)
  next
    case False
    then have "n \<in> set ns" using snoc.prems by auto
    moreover from this have "NodeID n \<noteq> NodeID n'" using snoc.prems(1) by (simp add: image_iff) metis
    ultimately show ?thesis using snoc by (simp add: ExecNode_def Let_def split: option.splits)
  qed
qed simp

lemma no_forward_middle:
  assumes "no_forward (shape (xs @ n # ys))" "a \<in> set (Args n)"
  shows "a \<noteq> NodeID n" "a \<notin> NodeID ` set ys"
  using assms
  by (induction xs) (force simp: shape_def)+

lemma IsInlineZero_value:
  assumes z: "IsInlineZero (xs @ n # ys) a" and a: "a \<in> set (Args n)"
    and d: "distinct (map NodeID (xs @ n # ys))" and nf: "no_forward (shape (xs @ n # ys))"
  shows "Vals (ExecCode m u xs s) a = 0"
proof -
  obtain c where c: "GetNode (xs @ n # ys) a = Some c" "Op c = OP_INLINECONSTANT" "Constant c = 0"
    using z by (auto simp: IsInlineZero_def split: option.splits)
  have "c \<in> set (xs @ n # ys)" and "NodeID c = a"
    using c(1) unfolding GetNode_def find_Some_iff by (metis nth_mem)+
  then have "c \<in> set xs" using no_forward_middle [OF nf a] by auto
  then show ?thesis
    using inline_constant_value [of xs c m u s] c(2,3) d \<open>NodeID c = a\<close> by simp
qed

lemma sub_zero_Z: "w \<in> {8, 16, 32, 64} \<Longrightarrow> fZ (sub_flags w x 0 True f) = (take_bit w x = 0)"
proof -
  assume w: "w \<in> {8, 16, 32, 64}"
  have "unat (take_bit w (NOT 0 :: u64)) = 2 ^ w - 1"
    using w by (auto simp: mask_numeral)
  then have "(unat (take_bit w x) + unat (take_bit w (NOT 0 :: u64)) + 1) mod 2 ^ w = unat (take_bit w x) mod 2 ^ w"
    by (simp add: Suc_diff_Suc)
  moreover have "unat (take_bit w x) mod 2 ^ w = unat (take_bit w x)"
    by (simp add: unsigned_take_bit_eq flip: take_bit_eq_mod)
  ultimately show ?thesis
    by (simp add: sub_flags_def add_flags_def nzcv_def Let_def unat_eq_0)
qed

text \<open>What the folded branch tests is what the branch tested.\<close>

lemma folded_AXFLAG:
  assumes "FromNZCV J" "Cond J \<noteq> SLE" "X86ToArmFloatCond (Cond J) \<noteq> AL" "of_fcmp f"
    "agree FLAG_NZCV g (axflag f)" "agree FLAG_NZCV h f"
  shows "Taken (J\<lparr>Cond := X86ToArmFloatCond (Cond J)\<rparr>) ws h = Taken J vs g"
proof -
  have "Holds (X86ToArmFloatCond (Cond J)) h = Holds (X86ToArmFloatCond (Cond J)) f"
    by (rule Holds_NZCV [OF assms(6)])
  also have "\<dots> = Holds (Cond J) (axflag f)" by (rule X86ToArmFloatCond_same [OF assms(4,3,2)])
  also have "\<dots> = Holds (Cond J) g" by (rule Holds_NZCV [OF assms(5), symmetric])
  finally show ?thesis using assms(1) by (simp add: Taken_def)
qed

lemma FoldBranch_sim:
  assumes ok: "fold_ok (FlagClobber m) code" and ne: "code \<noteq> []" and jump: "Op (last code) = OP_CONDJUMP" "FromNZCV (last code)"
    and dead: "Out AND FLAG_NZCV = 0"
  shows "sim Out [] (ExecCode m u code s) (ExecCode m u (FoldBranch code) s)"
proof (cases "dropWhile IsStore (rev (butlast code))")
  case Nil
  have "FoldBranch code = code" by (simp only: FoldBranch_def Let_def Nil list.case)
  then show ?thesis by simp
next
  case (Cons Prev Rest)
  define J where "J = last code"
  define St where "St = rev (takeWhile IsStore (rev (butlast code)))"
  show ?thesis
  proof (cases "FoldedJump code Prev J")
    case None
    then show ?thesis using Cons by (simp add: FoldBranch_def Let_def J_def)
  next
    case (Some J')
    have "rev (butlast code) = rev St @ Prev # Rest"
      using Cons takeWhile_dropWhile_id [of IsStore "rev (butlast code)"] by (simp add: St_def)
    then have "butlast code = rev Rest @ Prev # St" by (metis rev.simps(2) rev_append rev_rev_ident append.assoc append_Cons append_Nil)
    then have code: "code = rev Rest @ Prev # St @ [J]"
      using ne append_butlast_last_id [of code] by (simp add: J_def)
    have folded: "FoldBranch code = rev Rest @ St @ [J']"
      using Cons Some by (simp add: FoldBranch_def Let_def J_def St_def)
    have St: "\<forall>n \<in> set St. IsStore n" by (auto simp: St_def dest: set_takeWhileD)
    define s0 where "s0 = ExecCode m u (rev Rest) s"
    define s1 where "s1 = ExecNode m u Prev s0"
    define s2 where "s2 = ExecCode m u St s1"
    define t2 where "t2 = ExecCode m u St s0"
    have prev: "Op Prev = OP_AXFLAG \<or> Op Prev = OP_SUBNZCV"
      using Some by (simp add: FoldedJump_def split: if_splits)
    then have "same_but_NZCV s1 s0"
      by (elim disjE) (simp_all add: s1_def same_but_NZCV_def ExecNode_def Let_def axflag_def sub_flags_def add_flags_def nzcv_def)
    then have same: "same_but_NZCV s2 t2" unfolding s2_def t2_def by (rule store_steps(1) [OF St])
    have fl: "agree FLAG_NZCV (FlagsOf s2) (FlagsOf s1)" "agree FLAG_NZCV (FlagsOf t2) (FlagsOf s0)"
      unfolding s2_def t2_def by (rule store_steps(2) [OF St])+
    have "J \<in> set code" "Prev \<in> set code" by (simp_all add: code)
    then have J: "Op J = OP_CONDJUMP" "FromNZCV J" "fold_node_ok J" "fold_node_ok Prev"
      using jump ok by (simp_all add: J_def fold_ok_def)
    have taken: "Taken J' (map (Vals t2) (Args J')) (FlagsOf t2) = Taken J (map (Vals s2) (Args J)) (FlagsOf s2)
        \<and> Op J' = OP_CONDJUMP \<and> TrueBlock J' = TrueBlock J \<and> FalseBlock J' = FalseBlock J"
    proof (cases "Op Prev = OP_AXFLAG")
      case True
      then have J': "J' = J\<lparr>Cond := X86ToArmFloatCond (Cond J)\<rparr>" "X86ToArmFloatCond (Cond J) \<noteq> AL"
        using Some by (auto simp: FoldedJump_def split: if_splits)
      have "of_fcmp (FlagsOf s0)"
        unfolding s0_def
        by (rule of_fcmp_before_AXFLAG [of m False _ Prev "St @ [J]", OF _ True]) (use ok code in \<open>auto simp: fold_ok_def\<close>)
      moreover have "FlagsOf s1 = axflag (FlagsOf s0)" using True by (simp add: s1_def ExecNode_def Let_def)
      moreover have "\<not> tests_le J"
        by (rule le_ok_stores [OF St, of "FlagClobber m" False "rev Rest" Prev]) (use ok True code in \<open>simp_all add: fold_ok_def\<close>)
      then have "Cond J \<noteq> SLE" using J(1,2) by (simp add: tests_le_def)
      ultimately have "Taken J' ws (FlagsOf t2) = Taken J vs (FlagsOf s2)" for ws vs
        unfolding J'(1) using J(2) J'(2) fl by (intro folded_AXFLAG) simp_all
      then show ?thesis using J(1) by (simp add: J'(1))
    next
      case False
      then have sub: "Op Prev = OP_SUBNZCV" using prev by simp
      obtain a b as where args: "Args Prev = a # b # as" and zero: "IsInlineZero code b"
        and c: "Cond J = NEQ \<or> Cond J = EQ" and size: "4 \<le> OpSizeToSize (OpSize Prev)"
        and J': "J' = J\<lparr>Args := (Args J)[0 := a, 1 := b], FromNZCV := False, CompareSize := OpSize Prev\<rparr>"
        using Some sub by (auto simp: FoldedJump_def split: if_splits list.splits)
      have sz: "OpSize Prev = i32Bit \<or> OpSize Prev = i64Bit"
        using J(4) sub size by (auto simp: fold_node_ok_def)
      obtain x y where argsJ: "Args J = [x, y]"
        using J(1,3) by (auto simp: fold_node_ok_def length_Suc_conv numeral_2_eq_2)
      then have argsJ': "Args J' = [a, b]" by (simp add: J' argsJ)
      have wf: "distinct (map NodeID code)" "no_forward (shape code)" using ok by (simp_all add: fold_ok_def)
      have vb: "Vals s0 b = 0"
        unfolding s0_def by (rule IsInlineZero_value) (use zero wf args in \<open>auto simp: code\<close>)
      have "a \<notin> NodeID ` set (St @ [J])"
        by (rule no_forward_middle [of "rev Rest" Prev]) (use wf(2) args in \<open>auto simp: code\<close>)
      then have va: "Vals t2 a = Vals s0 a" unfolding t2_def by (intro store_steps(3) [OF St]) auto
      have "fZ (FlagsOf s2) = fZ (FlagsOf s1)" using fl(1) by (simp add: agree_def flag_masks)
      also have "\<dots> = fZ (sub_flags (Bits Prev) (ucast (Vals s0 a)) 0 True (FlagsOf s0))"
        using sub by (simp add: s1_def ExecNode_def Let_def args gpr_def operand_def vb)
      also have "\<dots> = (take_bit (Bits Prev) (ucast (Vals s0 a) :: u64) = 0)"
        by (rule sub_zero_Z) (use sz in \<open>auto simp: Bits_def EmitBits_def\<close>)
      finally have Z: "fZ (FlagsOf s2) = (take_bit (Bits Prev) (ucast (Vals s0 a) :: u64) = 0)" .
      have bits: "(if OpSize Prev = i32Bit then 32 else 64) = Bits Prev"
        using sz by (auto simp: Bits_def EmitBits_def)
      show ?thesis
        using c J(1,2) by (elim disjE) (simp_all add: Taken_def argsJ argsJ' gpr_def operand_def va Z J' bits Let_def)
    qed
    have "ExecCode m u code s = ExecNode m u J s2" "ExecCode m u (FoldBranch code) s = ExecNode m u J' t2"
      unfolding folded by (simp_all add: code s2_def s1_def s0_def t2_def)
    moreover have "agree Out (FlagsOf s2) (FlagsOf t2)"
      using same bit_disjoint [OF dead, of 0] bit_disjoint [OF dead, of 1] bit_disjoint [OF dead, of 2]
        bit_disjoint [OF dead, of 3] by (auto simp: same_but_NZCV_def agree_def flag_masks)
    ultimately show ?thesis
      using taken same J(1) by (simp add: sim_def ExecNode_def Let_def same_but_NZCV_def)
  qed
qed

lemma WorklistLoop_fold_ok:
  assumes "\<forall>B \<in> set (PBlocks st). fold_ok C (Code B) \<and> flags_saved C 0 (Code B)" "WorklistLoop SE Preds fuel st = Some st'"
    "set (Worklist st) \<subseteq> {..<length (PBlocks st)}" "\<forall>b < length (PBlocks st). set (Preds ! b) \<subseteq> {..<length (PBlocks st)}"
  shows "\<forall>B \<in> set (PBlocks st'). fold_ok C (Code B)"
  using assms
proof (induction fuel arbitrary: st)
  case 0
  then show ?case by (subst (asm) WorklistLoop.simps) (auto split: if_splits)
next
  case (Suc fuel)
  show ?case
  proof (cases "Worklist st = []")
    case True
    then show ?thesis using Suc.prems by (subst (asm) WorklistLoop.simps) auto
  next
    case False
    define b where "b = last (Worklist st)"
    obtain code F where p: "ProcessBlock SE (BlockFlags st) (Code (PBlocks st ! b)) = (code, F)"
      by (cases "ProcessBlock SE (BlockFlags st) (Code (PBlocks st ! b))")
    note fields = ProcessNext_fields [OF b_def p]
    have "b \<in> set (Worklist st)" using last_in_set [OF False] by (simp add: b_def)
    then have b: "b < length (PBlocks st)" using Suc.prems(3) by auto
    have "fold_ok C code \<and> flags_saved C 0 code" using ProcessBlock_fold_ok [OF _ _ p] Suc.prems(1) b by simp
    then have "\<forall>B \<in> set (PBlocks (ProcessNext SE Preds st)). fold_ok C (Code B) \<and> flags_saved C 0 (Code B)"
      using Suc.prems(1) by (auto simp: fields dest!: subsetD [OF set_update_subset_insert])
    moreover have "WorklistLoop SE Preds fuel (ProcessNext SE Preds st) = Some st'"
      using Suc.prems(2) False by (subst (asm) WorklistLoop.simps) simp
    moreover have "length (PBlocks (ProcessNext SE Preds st)) = length (PBlocks st)" by (simp add: fields)
    moreover have "set (Worklist (ProcessNext SE Preds st)) \<subseteq> {..<length (PBlocks st)}"
      using fields(3) [of Preds] Suc.prems(3,4) b by blast
    ultimately show ?thesis using Suc.IH Suc.prems(4) by simp
  qed
qed

text \<open>The flags at the exit that the fold looks at are at least those that are live.\<close>

lemma FoldBlocks_sim:
  assumes inv: "elim_inv m Bs Preds L st" and ok: "\<forall>B \<in> set (PBlocks st). fold_ok (FlagClobber m) (Code B)"
  shows "blocks_sim m L Bs (FoldBlocks (BlockFlags st) (PBlocks st))"
  unfolding blocks_sim_def
proof (intro allI impI)
  fix b u f g and e :: 'a
  assume b: "b < length Bs" and fg: "agree (L ! b) f g"
  let ?code = "Code (PBlocks st ! b)" and ?Out = "FlagsAtExit L (Code (Bs ! b))"
  have len: "length (PBlocks st) = length Bs" using inv by (simp add: elim_inv_def)
  have bi: "block_inv m Bs L st c" if "c < length Bs" for c using inv that by (simp add: elim_inv_def)
  have ex: "ExitTargets ?code = ExitTargets (Code (Bs ! b))"
    and tg: "\<forall>T \<in> set (ExitTargets (Code (Bs ! b))). T < length Bs"
    and up: "\<And>c i. c < length Bs \<Longrightarrow> bit (L ! c) i \<Longrightarrow> bit (BlockFlags st ! c) i"
    and eq: "sim ?Out [] (ExecCode m u (Code (Bs ! b)) (Enter f e)) (ExecCode m u ?code (Enter g e))"
    using bi b fg unfolding block_inv_def by blast+
  have folded: "Code (FoldBlocks (BlockFlags st) (PBlocks st) ! b) = FoldBlock (BlockFlags st) ?code"
    using b len by (simp add: FoldBlocks_def)
  have "sim ?Out [] (ExecCode m u ?code (Enter g e)) (ExecCode m u (FoldBlock (BlockFlags st) ?code) (Enter g e))"
  proof (cases "?code \<noteq> [] \<and> Op (last ?code) = OP_CONDJUMP
      \<and> (BlockFlags st ! TrueBlock (last ?code) OR BlockFlags st ! FalseBlock (last ?code)) AND FLAG_NZCV = 0
      \<and> FromNZCV (last ?code)")
    case True
    then have out: "FlagsAtExit (BlockFlags st) ?code AND FLAG_NZCV = 0"
      by (simp add: FlagsAtExit_def ExitTargets_def)
    have "bit ?Out i \<Longrightarrow> bit (FlagsAtExit (BlockFlags st) ?code) i" for i
      unfolding FlagsAtExit_cong [OF ex] by (erule FlagsAtExit_mono [rotated]) (use tg up in blast)
    then have "?Out AND FLAG_NZCV = 0"
      using bit_disjoint [OF out] by (auto intro!: bit_eqI simp: bit_and_iff)
    moreover have "fold_ok (FlagClobber m) ?code" using ok b len by simp
    ultimately show ?thesis
      using True FoldBranch_sim [of m ?code ?Out u "Enter g e"] unfolding FoldBlock_def by simp
  next
    case False
    then have "FoldBlock (BlockFlags st) ?code = ?code" unfolding FoldBlock_def by (rule if_not_P)
    then show ?thesis by simp
  qed
  with eq show "sim ?Out [] (ExecCode m u (Code (Bs ! b)) (Enter f e))
      (ExecCode m u (Code (FoldBlocks (BlockFlags st) (PBlocks st) ! b)) (Enter g e))"
    unfolding folded by (rule sim_trans)
qed

end
