(* ===== verification/FlagTermination.thy ===== *)
theory FlagTermination
  imports FlagGraph
begin

text \<open>
  When the work list becomes empty: if no test that is narrower than 32 bits is in the code, a second scan of a block with
  fewer live flags never finds more flags read than the first one, so the recorded flags only shrink. With such a test
  the flags of a block can grow again, because the \<open>TestZ\<close> it becomes is not classified.
\<close>

section \<open>A second scan\<close>

definition fewer_uses :: "IRNode list \<Rightarrow> IRNode list \<Rightarrow> bool" where
  "fewer_uses K' K \<longleftrightarrow> (\<forall>i. GetUses i K = 0 \<longrightarrow> GetUses i K' = 0)"

definition no_small_test :: "IRNode \<Rightarrow> bool" where
  "no_small_test n \<longleftrightarrow>
    (Op n = OP_TESTNZ \<or> Op n = OP_ANDWITHFLAGS \<longrightarrow> OpSizeToSize i32Bit \<le> OpSizeToSize (OpSize n))"

lemma no_side_effects_Write: "\<not> HasSideEffects SE (Op n) \<Longrightarrow> Write (Classify n) = 0"
  by (cases "Op n") (simp_all add: Classify_def no_flags_def)

text \<open>How a kept node counts in a second scan.\<close>

lemma keeps_as_again:
  assumes "keeps_as n K F n' G" "no_small_test n"
  obtains (same) "n' = n"
  | (dead) r where "F AND Write (Classify n) = 0" "n' = n\<lparr>Op := r\<rparr>" "Write (Classify n') = 0"
      "Read (Classify n') = Read (Classify n)"
  | (unused) r where "n' = n\<lparr>Op := r\<rparr>" "Write (Classify n') = Write (Classify n)"
      "Read (Classify n') = Read (Classify n)" "HasSideEffects SE (Op n')"
proof -
  define n1 where "n1 = ReplaceOp F (Classify n) (GetUses (NodeID n) K) n"
  have n': "n' = OptimizeTest F n1" using assms(1) by (simp add: keeps_as_def n1_def)
  show thesis
  proof (cases rule: ReplaceOp_cases [of F n "GetUses (NodeID n) K"])
    case same
    then have "n' = n" using assms(2) unfolding n' n1_def by (auto simp: OptimizeTest_def no_small_test_def)
    then show thesis by (rule that(1))
  next
    case (dead r)
    have n1: "n1 = n\<lparr>Op := r\<rparr>" unfolding n1_def by (rule dead(3))
    have "n' = n1" using Replacement_cases [OF dead(2)] unfolding n' n1 OptimizeTest_def by auto
    then show thesis
      using Replacement_cases [OF dead(2)] dead(1)
      by (intro that(2) [of r]) (auto simp: n1 Classify_def no_flags_def)
  next
    case (unused r)
    have n1: "n1 = n\<lparr>Op := r\<rparr>" unfolding n1_def by (rule unused(3))
    have "n' = n1"
      using ReplacementNoWrite_cases [OF unused(2)] assms(2) unfolding n' n1 OptimizeTest_def no_small_test_def by auto
    then show thesis
      using ReplacementNoWrite_cases [OF unused(2)]
      by (intro that(3) [of r]) (auto simp: n1 Classify_def no_flags_def)
  qed
qed

lemma scan_again_step:
  assumes k: "keeps_as n K F n' G" and t: "no_small_test n" and F: "sub F2 F"
  shows "removes SE n' K2 F2 F3 \<Longrightarrow> sub F3 G"
    "keeps_as n' K2 F2 n'' F3 \<Longrightarrow> sub F3 G"
proof -
  have G: "G = (F AND NOT (Write (Classify n))) OR Read (Classify n)" using k by (simp add: keeps_as_def)
  have *: "sub F2 G" if "F2 AND Write (Classify n) = 0"
    using F bit_disjoint [OF that] by (auto simp: G sub_def bit_simps dest: bit_imp_le_length)
  have dead: "sub F2 G" if "F AND Write (Classify n) = 0"
    using F bit_disjoint [OF that] by (auto simp: G sub_def bit_simps dest: bit_imp_le_length)
  show "sub F3 G" if r: "removes SE n' K2 F2 F3"
  proof -
    have F3: "F3 = F2"
      using r by (auto simp: removes_def Eliminated_def intro!: bit_eqI simp: bit_simps dest: bit_disjoint)
    have w: "F2 AND Write (Classify n') = 0"
      using r no_side_effects_Write by (auto simp: removes_def Eliminated_def EliminateDeadCode_def)
    show ?thesis
      using k t by (cases rule: keeps_as_again [where SE = SE]) (use w * dead F3 in auto)
  qed
  show "sub F3 G" if r: "keeps_as n' K2 F2 n'' F3"
  proof -
    have F3: "F3 = (F2 AND NOT (Write (Classify n'))) OR Read (Classify n')" using r by (simp add: keeps_as_def)
    show ?thesis
      using k t
    proof (cases rule: keeps_as_again [where SE = SE])
      case (dead r)
      then show ?thesis
        using F bit_disjoint [OF dead(1)] by (auto simp: F3 G sub_def bit_simps dest: bit_imp_le_length)
    qed (use F in \<open>auto simp: F3 G sub_def bit_simps\<close>)
  qed
qed

lemma fewer_usesD: "fewer_uses K2 K \<Longrightarrow> Args n' = Args n \<Longrightarrow> fewer_uses (n' # K2) (n # K)"
  by (simp add: fewer_uses_def)

lemma fewer_uses_drop: "fewer_uses K2 K \<Longrightarrow> fewer_uses K2 (n # K)"
  by (simp add: fewer_uses_def)

lemma keeps_as_Args: "keeps_as n K F n' F' \<Longrightarrow> Args n' = Args n"
  using keeps_as_Op [of n K F n' F'] by auto

lemma ScanBlock_again:
  assumes "ScanBlock SE ns K F = (K', F')" "\<forall>n \<in> set ns. no_small_test n"
  shows "\<exists>P. K' = P @ K \<and>
    (\<forall>K2 F2. fewer_uses K2 K \<longrightarrow> sub F2 F \<longrightarrow> sub (snd (ScanBlock SE (rev P) K2 F2)) F')"
  using assms
proof (induction ns arbitrary: K F)
  case Nil
  then show ?case by simp
next
  case (Cons n ns)
  have t: "no_small_test n" "\<forall>n \<in> set ns. no_small_test n" using Cons.prems(2) by auto
  show ?case
  proof (cases rule: ScanBlock_step [of SE n K F ns])
    case (removed G)
    have "G = F" using removed(1)
      by (auto simp: removes_def Eliminated_def intro!: bit_eqI simp: bit_simps dest: bit_disjoint)
    then have "ScanBlock SE ns K F = (K', F')" using removed(2) Cons.prems(1) by simp
    from Cons.IH [OF this t(2)] show ?thesis .
  next
    case (kept n' G)
    have "ScanBlock SE ns (n' # K) G = (K', F')" using kept(2) Cons.prems(1) by simp
    from Cons.IH [OF this t(2)] obtain P where P: "K' = P @ n' # K"
      and again: "\<And>K2 F2. fewer_uses K2 (n' # K) \<Longrightarrow> sub F2 G \<Longrightarrow> sub (snd (ScanBlock SE (rev P) K2 F2)) F'"
      by blast
    have "sub (snd (ScanBlock SE (rev (P @ [n'])) K2 F2)) F'" if K2: "fewer_uses K2 K" and F2: "sub F2 F" for K2 F2
    proof (cases rule: ScanBlock_step [of SE n' K2 F2 "rev P"])
      case (removed F3)
      show ?thesis
        using again [OF fewer_uses_drop [OF K2] scan_again_step(1) [OF kept(1) t(1) F2 removed(1)]] removed(2) by simp
    next
      case (kept n'' F3)
      show ?thesis
        using again [OF fewer_usesD [OF K2 keeps_as_Args [OF kept(1)]]
            scan_again_step(2) [OF \<open>keeps_as n K F n' G\<close> t(1) F2 kept(1)]] kept(2) by simp
    qed
    then show ?thesis using P by (intro exI [of _ "P @ [n']"]) simp
  qed
qed

lemma keeps_as_no_small_test: "keeps_as n K F n' F' \<Longrightarrow> no_small_test n \<Longrightarrow> no_small_test n'"
proof -
  assume k: "keeps_as n K F n' F'" and t: "no_small_test n"
  define n1 where "n1 = ReplaceOp F (Classify n) (GetUses (NodeID n) K) n"
  have n': "n' = OptimizeTest F n1" using k by (simp add: keeps_as_def n1_def)
  have "no_small_test n1"
  proof (cases rule: ReplaceOp_cases [of F n "GetUses (NodeID n) K"])
    case (dead r)
    have "n1 = n\<lparr>Op := r\<rparr>" unfolding n1_def by (rule dead(3))
    then show ?thesis using Replacement_cases [OF dead(2)] by (auto simp: no_small_test_def)
  next
    case (unused r)
    have "n1 = n\<lparr>Op := r\<rparr>" unfolding n1_def by (rule unused(3))
    then show ?thesis using ReplacementNoWrite_cases [OF unused(2)] t by (auto simp: no_small_test_def)
  qed (use t n1_def in simp)
  then show ?thesis unfolding n' OptimizeTest_def by (auto simp: no_small_test_def)
qed

section \<open>The recorded flags shrink\<close>

text \<open>A block is settled: scanned again it reads no more than what is recorded for it.\<close>

definition settled :: "(nat \<Rightarrow> bool) \<Rightarrow> u8 list \<Rightarrow> IRNode list \<Rightarrow> u8 \<Rightarrow> bool" where
  "settled SE Flags code F \<longleftrightarrow>
    (\<forall>Out. sub Out (FlagsAtExit Flags code) \<longrightarrow> sub (snd (ScanBlock SE (rev code) [] Out)) F)"

definition shrink_inv :: "'e Machine \<Rightarrow> nat list list \<Rightarrow> PassState \<Rightarrow> bool" where
  "shrink_inv m Preds st \<longleftrightarrow>
    length (BlockFlags st) = length (PBlocks st) \<and> set (Worklist st) \<subseteq> {..<length (PBlocks st)} \<and>
    (\<forall>b < length (PBlocks st). set (Preds ! b) \<subseteq> {..<length (PBlocks st)}) \<and>
    (\<forall>b < length (PBlocks st).
      (\<forall>n \<in> set (Code (PBlocks st ! b)). no_small_test n) \<and>
      code_ok m (Code (PBlocks st ! b)) \<and>
      (\<forall>T \<in> set (ExitTargets (Code (PBlocks st ! b))). T < length (PBlocks st)) \<and>
      settled (SideEffects m) (BlockFlags st) (Code (PBlocks st ! b)) (BlockFlags st ! b))"

lemma settled_mono:
  assumes "settled SE Flags code F" "\<And>T. T \<in> set (ExitTargets code) \<Longrightarrow> sub (Flags' ! T) (Flags ! T)"
  shows "settled SE Flags' code F"
  unfolding settled_def
proof (intro allI impI)
  fix Out assume "sub Out (FlagsAtExit Flags' code)"
  moreover have "sub (FlagsAtExit Flags' code) (FlagsAtExit Flags code)"
    unfolding sub_def by (intro allI impI) (erule FlagsAtExit_mono [rotated], use assms(2) in \<open>auto simp: sub_def\<close>)
  ultimately show "sub (snd (ScanBlock SE (rev code) [] Out)) F"
    using assms(1) sub_trans unfolding settled_def by blast
qed

definition flag_count :: "u8 list \<Rightarrow> nat" where
  "flag_count Fs = sum_list (map (\<lambda>F. card {i. bit F i}) Fs)"

lemma finite_bits [simp]: "finite {i. bit (F :: u8) i}"
  by (rule finite_subset [of _ "{..<8}"]) (auto dest: bit_imp_le_length)

lemma flag_count_less:
  assumes "b < length Fs" "sub F (Fs ! b)" "F \<noteq> Fs ! b"
  shows "flag_count (Fs[b := F]) < flag_count Fs"
proof -
  have "{i. bit F i} \<subset> {i. bit (Fs ! b) i}"
    using assms(2,3) by (auto simp: sub_def psubset_eq intro: bit_eqI)
  then have c: "card {i. bit F i} < card {i. bit (Fs ! b) i}" by (simp add: psubset_card_mono)
  have b: "b < length (map (\<lambda>F. card {i. bit F i}) Fs)" using assms(1) by simp
  have le: "card {i. bit (Fs ! b) i} \<le> sum_list (map (\<lambda>F. card {i. bit F i}) Fs)"
    using elem_le_sum_list [OF b] assms(1) by simp
  show ?thesis
    using c le assms(1) sum_list_update [OF b, of "card {i. bit F i}"] by (simp add: flag_count_def map_update)
qed

lemma ProcessNext_shrinks:
  assumes inv: "shrink_inv m Preds st" and ne: "Worklist st \<noteq> []" and st': "st' = ProcessNext (SideEffects m) Preds st"
  shows "shrink_inv m Preds st' \<and> (flag_count (BlockFlags st') < flag_count (BlockFlags st)
    \<or> BlockFlags st' = BlockFlags st \<and> length (Worklist st') < length (Worklist st))"
proof -
  define b where "b = last (Worklist st)"
  obtain code F where p: "ProcessBlock (SideEffects m) (BlockFlags st) (Code (PBlocks st ! b)) = (code, F)"
    by (cases "ProcessBlock (SideEffects m) (BlockFlags st) (Code (PBlocks st ! b))")
  let ?n = "length (PBlocks st)" and ?code = "Code (PBlocks st ! b)"
  note fields = ProcessNext_fields [OF b_def p, of Preds]
  have scan: "ScanBlock (SideEffects m) (rev ?code) [] (FlagsAtExit (BlockFlags st) ?code) = (code, F)"
    using p by (simp add: ProcessBlock_def)
  have len: "length (BlockFlags st) = ?n" and w: "set (Worklist st) \<subseteq> {..<?n}"
    and pr: "\<forall>b < ?n. set (Preds ! b) \<subseteq> {..<?n}" using inv by (auto simp: shrink_inv_def)
  have "b \<in> set (Worklist st)" using last_in_set [OF ne] by (simp add: b_def)
  then have b: "b < ?n" using w by auto
  have small: "\<And>c. c < ?n \<Longrightarrow> \<forall>n \<in> set (Code (PBlocks st ! c)). no_small_test n"
    and ok: "\<And>c. c < ?n \<Longrightarrow> code_ok m (Code (PBlocks st ! c))"
    and tg: "\<And>c. c < ?n \<Longrightarrow> \<forall>T \<in> set (ExitTargets (Code (PBlocks st ! c))). T < ?n"
    and set: "\<And>c. c < ?n \<Longrightarrow> settled (SideEffects m) (BlockFlags st) (Code (PBlocks st ! c)) (BlockFlags st ! c)"
    using inv by (auto simp: shrink_inv_def)
  have "sub (snd (ScanBlock (SideEffects m) (rev ?code) [] (FlagsAtExit (BlockFlags st) ?code))) (BlockFlags st ! b)"
    using set [OF b] unfolding settled_def by simp
  then have F: "sub F (BlockFlags st ! b)" by (simp add: scan)
  have less: "sub (BlockFlags st' ! T) (BlockFlags st ! T)" if "T < ?n" for T
    using F that len by (cases "T = b") (simp_all add: st' fields)
  have new: "code_ok m code" "ExitTargets code = ExitTargets ?code"
    using ProcessBlock_keeps [OF ok [OF b] p] by auto
  have sm: "\<forall>n \<in> set code. no_small_test n"
    using ScanBlock_nodes [OF scan] small [OF b] keeps_as_no_small_test by fastforce
  have again: "settled (SideEffects m) (BlockFlags st') code F"
  proof (rule settled_mono)
    have "\<exists>P. code = P @ [] \<and> (\<forall>K2 F2. fewer_uses K2 [] \<longrightarrow> sub F2 (FlagsAtExit (BlockFlags st) ?code)
        \<longrightarrow> sub (snd (ScanBlock (SideEffects m) (rev P) K2 F2)) F)"
      by (rule ScanBlock_again [OF scan]) (use small [OF b] in simp)
    then have "\<And>F2. sub F2 (FlagsAtExit (BlockFlags st) ?code) \<Longrightarrow> sub (snd (ScanBlock (SideEffects m) (rev code) [] F2)) F"
      by (auto simp: fewer_uses_def)
    then show "settled (SideEffects m) (BlockFlags st) code F"
      unfolding settled_def FlagsAtExit_cong [OF new(2)] by blast
    show "sub (BlockFlags st' ! T) (BlockFlags st ! T)" if "T \<in> set (ExitTargets code)" for T
      using less tg [OF b] that new(2) by simp
  qed
  have "shrink_inv m Preds st'"
    unfolding shrink_inv_def
  proof (intro conjI allI impI)
    show "length (BlockFlags st') = length (PBlocks st')" by (simp add: st' fields len)
    show "set (Worklist st') \<subseteq> {..<length (PBlocks st')}"
      using fields(3) w pr b unfolding st' by (simp add: fields(1)) blast
    fix c assume "c < length (PBlocks st')"
    then have c: "c < ?n" by (simp add: st' fields)
    have n': "length (PBlocks st') = ?n" by (simp add: st' fields)
    show "set (Preds ! c) \<subseteq> {..<length (PBlocks st')}" using pr c n' by simp
    have old: "settled (SideEffects m) (BlockFlags st') (Code (PBlocks st ! c)) (BlockFlags st ! c)"
      by (rule settled_mono [OF set [OF c]]) (use less tg [OF c] in blast)
    have "(\<forall>n \<in> set (Code (PBlocks st' ! c)). no_small_test n) \<and> code_ok m (Code (PBlocks st' ! c)) \<and>
      (\<forall>T \<in> set (ExitTargets (Code (PBlocks st' ! c))). T < ?n) \<and>
      settled (SideEffects m) (BlockFlags st') (Code (PBlocks st' ! c)) (BlockFlags st' ! c)"
    proof (cases "c = b")
      case True
      have "Code (PBlocks st' ! c) = code" "BlockFlags st' ! c = F"
        using b len by (simp_all add: True st' fields)
      then show ?thesis using sm new tg [OF b] again by simp
    next
      case False
      then have "Code (PBlocks st' ! c) = Code (PBlocks st ! c)" "BlockFlags st' ! c = BlockFlags st ! c"
        by (simp_all add: st' fields)
      then show ?thesis using small [OF c] ok [OF c] tg [OF c] old by simp
    qed
    then show "\<forall>n \<in> set (Code (PBlocks st' ! c)). no_small_test n" "code_ok m (Code (PBlocks st' ! c))"
      "settled (SideEffects m) (BlockFlags st') (Code (PBlocks st' ! c)) (BlockFlags st' ! c)"
      "\<forall>T \<in> set (ExitTargets (Code (PBlocks st' ! c))). T < length (PBlocks st')"
      by (simp_all add: n')
  qed
  moreover have "flag_count (BlockFlags st') < flag_count (BlockFlags st)
    \<or> BlockFlags st' = BlockFlags st \<and> length (Worklist st') < length (Worklist st)"
  proof (cases "BlockFlags st ! b = F")
    case True
    then have "Worklist st' = butlast (Worklist st)" using p unfolding st' by (simp add: ProcessNext_def Let_def flip: b_def)
    moreover have "BlockFlags st' = BlockFlags st" using True by (auto simp: st' fields)
    ultimately show ?thesis using ne by simp
  next
    case False
    then show ?thesis using flag_count_less [OF _ F] b len by (simp add: st' fields)
  qed
  ultimately show ?thesis by blast
qed

lemma WorklistLoop_ends:
  "shrink_inv m Preds st \<Longrightarrow> \<exists>fuel st'. WorklistLoop (SideEffects m) Preds fuel st = Some st'"
proof (induction "(flag_count (BlockFlags st), length (Worklist st))" arbitrary: st
    rule: wf_induct_rule [OF wf_lex_prod [OF wf_less_than wf_less_than]])
  case 1
  show ?case
  proof (cases "Worklist st = []")
    case True
    then show ?thesis by (intro exI [of _ 0] exI [of _ st]) (subst WorklistLoop.simps, simp)
  next
    case False
    define st' where "st' = ProcessNext (SideEffects m) Preds st"
    note s = ProcessNext_shrinks [OF 1(2) False st'_def]
    then have "((flag_count (BlockFlags st'), length (Worklist st')), (flag_count (BlockFlags st), length (Worklist st)))
        \<in> less_than <*lex*> less_than" by auto
    from 1(1) [OF this] s obtain fuel r where "WorklistLoop (SideEffects m) Preds fuel st' = Some r" by blast
    then have "WorklistLoop (SideEffects m) Preds (Suc fuel) st = Some r"
      using False by (subst WorklistLoop.simps) (simp add: st'_def)
    then show ?thesis by blast
  qed
qed

section \<open>The begin\<close>

lemma subI: "F AND NOT G = 0 \<Longrightarrow> sub F G"
  unfolding sub_def
proof (intro allI impI)
  fix i assume F: "F AND NOT G = 0" and i: "bit F i"
  show "bit G i" using bit_disjoint [OF F i] bit_imp_le_length [OF i] by (simp add: bit_simps)
qed

lemma Read_all: "sub (Read (Classify n)) FLAG_ALL"
proof -
  have c: "sub (FlagsForCondClassType c) FLAG_ALL" for c
    by (cases c; rule subI; simp add: flag_masks)
  have r: "Read (Classify n) AND NOT FLAG_ALL = 0 \<or> Read (Classify n) = FlagsForCondClassType (Cond n)"
    by (cases "Op n") (simp_all add: Classify_def no_flags_def flag_masks)
  then show ?thesis using c subI by auto
qed

lemma ScanBlock_all: "sub F FLAG_ALL \<Longrightarrow> sub (snd (ScanBlock SE ns K F)) FLAG_ALL"
proof (induction ns arbitrary: K F)
  case (Cons n ns)
  show ?case
  proof (cases rule: ScanBlock_step [of SE n K F ns])
    case (removed G)
    have "sub G FLAG_ALL" using removed(1) Cons.prems by (auto simp: removes_def sub_def bit_simps)
    then show ?thesis using Cons.IH removed(2) by simp
  next
    case (kept n' G)
    have "sub G FLAG_ALL" using kept(1) Cons.prems Read_all [of n] by (auto simp: keeps_as_def sub_def bit_simps)
    then show ?thesis using Cons.IH kept(2) by simp
  qed
qed simp

lemma RecordEdges_Some:
  "\<forall>T \<in> set Ts. T < length P \<Longrightarrow> \<exists>Q. RecordEdges a Ts P = Some Q"
  by (induction Ts arbitrary: P) (simp_all add: RecordEdge_def)

lemma GatherCFG_Some:
  "\<forall>b \<in> set bs. \<forall>T \<in> set (ExitTargets (Code (Bs ! b))). T < length P \<Longrightarrow> \<exists>Q. GatherCFG Bs bs P = Some Q"
proof (induction bs arbitrary: P)
  case (Cons b bs)
  then obtain R where R: "RecordEdges b (ExitTargets (Code (Bs ! b))) P = Some R" using RecordEdges_Some by fastforce
  then have "length R = length P" using RecordEdges_ok by blast
  then show ?case using Cons R by simp
qed simp

lemma EliminateFlags_ends:
  assumes ok: "ir_ok m ir" and small: "\<forall>B \<in> set (Blocks ir). \<forall>n \<in> set (Code B). no_small_test n"
    and tg: "targets_ok (Blocks ir)"
  shows "\<exists>fuel Preds st. EliminateFlags (SideEffects m) fuel ir = Some (Preds, st)"
proof -
  let ?n = "length (Blocks ir)" and ?s = "InitState (Blocks ir)"
  have ord: "set (Order ir) = {..<?n}" using ok by (simp add: ir_ok_def)
  then obtain Preds where P: "GatherCFG (Blocks ir) (Order ir) (replicate ?n []) = Some Preds"
    using GatherCFG_Some [of "Order ir" "Blocks ir" "replicate ?n []"] tg by (auto simp: targets_ok_def)
  have pr: "\<forall>b < ?n. set (Preds ! b) \<subseteq> {..<?n}" using GatherCFG_ok [OF P] ord by auto
  have "settled (SideEffects m) (BlockFlags ?s) (Code (Blocks ir ! b)) FLAG_ALL" if b: "b < ?n" for b
    unfolding settled_def
  proof (intro allI impI ScanBlock_all)
    fix Out assume "sub Out (FlagsAtExit (BlockFlags ?s) (Code (Blocks ir ! b)))"
    moreover have "\<forall>T \<in> set (ExitTargets (Code (Blocks ir ! b))). T < ?n" using tg b by (simp add: targets_ok_def)
    then have "FlagsAtExit (BlockFlags ?s) (Code (Blocks ir ! b)) = FLAG_ALL"
      using ExitTargets_shape [of "Code (Blocks ir ! b)"] by (auto simp: FlagsAtExit_def InitState_def)
    ultimately show "sub Out FLAG_ALL" by simp
  qed
  then have "shrink_inv m Preds ?s"
    using pr ok small tg by (auto simp: shrink_inv_def InitState_def ir_ok_def targets_ok_def)
  from WorklistLoop_ends [OF this] P show ?thesis by (auto simp: EliminateFlags_def)
qed

end
