(* ===== verification/FlagProperties.thy ===== *)
theory FlagProperties
  imports FlagFold FlagTermination
begin

text \<open>
  The properties of the elimination of flag calculations with their witnesses, and the inputs on which the pass is wrong:
  a loop of three blocks on which the work list never becomes empty, and a branch whose fold changes where it goes.
\<close>

section \<open>The elimination preserves the meaning\<close>

text \<open>
  C34: the elimination of dead flag calculations is an equivalence. Whatever the operations the pass does not know do
  outside of the flags, and whatever those marked \<open>ImplicitFlagClobber\<close> leave in N, Z, C and V, as long as a clobbered flag
  is written before it is read and before the block is left (\<open>saved_ok\<close>, what \<open>SaveNZCV\<close> is for): a run of the code the
  elimination returns visits the same blocks as a run of the original code, with the same state outside of the flags after
  every block, and leaves the code in the same state, flags included.
\<close>

theorem elimination_preserves:
  assumes "ir_ok m ir" "saved_ok m ir" "EliminateFlags (SideEffects m) fuel ir = Some (Preds, st)"
    "b < length (Blocks ir)" "ExecBlocks m u (Blocks ir) k b f e = (f1, e1, x1)" "ExecBlocks m u (PBlocks st) k b f e = (f2, e2, x2)"
  shows "e1 = e2 \<and> x1 = x2 \<and> (x1 = None \<longrightarrow> f1 = f2)"
proof -
  obtain L where inv: "elim_inv m (Blocks ir) Preds L st" using EliminateFlags_inv(1) [OF assms(1,3,2)] by blast
  have "\<forall>b < length (Blocks ir). code_ok m (Code (Blocks ir ! b))" using assms(1) by (simp add: ir_ok_def)
  from ExecBlocks_sim [OF elim_inv_sim [OF inv] this EliminateFlags_inv(2) [OF assms(1,3)] assms(4) agree_refl assms(5,6)]
  show ?thesis .
qed

text \<open>
  The machine of the witnesses: an unknown operation counts in the state outside of the flags, the first clobbers the flags,
  every compare is less.
\<close>

definition counting :: "nat Machine" where
  "counting = \<lparr>SideEffects = (\<lambda>_. True), FlagClobber = (\<lambda>k. k = 0), Effect = (\<lambda>n vs e. (of_nat e, e + 1)), Random = (\<lambda>_ e. (0, True, e)),
     Compare = (\<lambda>_ _ _. FLess)\<rparr>"

definition node :: "nat \<Rightarrow> IROps \<Rightarrow> nat list \<Rightarrow> IRNode" where
  "node i op as = (NewNode i op)\<lparr>Args := as\<rparr>"

definition dead_sub :: "IROps \<Rightarrow> IRBlock" where
  "dead_sub op = \<lparr>EntryPoint = True,
     Code = [node 1 (OP_OTHER 0) [], node 2 op [1, 1], node 3 OP_ADDWITHFLAGS [2, 1], node 4 (OP_OTHER 1) [3]]\<rparr>"

definition dead_sub_ir :: IRList where
  "dead_sub_ir = \<lparr>Blocks = [dead_sub OP_SUBWITHFLAGS], Order = [0], ReadsParity = False\<rparr>"

definition dead_sub_end :: PassState where
  "dead_sub_end = \<lparr>PBlocks = [dead_sub OP_SUB], BlockFlags = [48], InWorklist = [False], Worklist = []\<rparr>"

lemmas scan_simps = ProcessBlock_def FlagsAtExit_def ExitTargets_def EliminateDeadCode_def Classify_def no_flags_def
  Trivial_def Eliminated_def OptimizeTest_def ReplaceOp_def Let_def flag_masks

lemmas saved_simps = Clears_def Clobbers_def Classify_def no_flags_def flag_masks

lemma dead_sub_eliminated: "EliminateFlags (SideEffects counting) 1 dead_sub_ir = Some ([[]], dead_sub_end)"
  by (simp add: EliminateFlags_def dead_sub_ir_def dead_sub_def node_def NewNode_def InitState_def WorklistLoop.simps
      ProcessNext_def dead_sub_end_def counting_def scan_simps)

theorem elimination_preserves_witness:
  "\<forall>u f. \<exists>f1 f2. ExecBlocks counting u (Blocks dead_sub_ir) 1 0 f 7 = (f1, 9, None) \<and>
    ExecBlocks counting u (PBlocks dead_sub_end) 1 0 f 7 = (f2, 9, None) \<and> f1 = f2"
proof (intro allI)
  fix u and f :: Flags
  obtain f1 where 1: "ExecBlocks counting u (Blocks dead_sub_ir) 1 0 f 7 = (f1, 9, None)"
    by (simp add: dead_sub_ir_def dead_sub_def node_def NewNode_def counting_def Enter_def ExecCode_def ExecNode_def Let_def)
  obtain f2 where 2: "ExecBlocks counting u (PBlocks dead_sub_end) 1 0 f 7 = (f2, 9, None)"
    by (simp add: dead_sub_end_def dead_sub_def node_def NewNode_def counting_def Enter_def ExecCode_def ExecNode_def Let_def)
  have "ir_ok counting dead_sub_ir"
    by (simp add: ir_ok_def dead_sub_ir_def dead_sub_def node_def NewNode_def code_ok_def node_ok_def counting_def IsJump_def lessThan_Suc)
  moreover have "saved_ok counting dead_sub_ir"
    by (simp add: saved_ok_def dead_sub_ir_def dead_sub_def node_def NewNode_def counting_def saved_simps)
  ultimately have "(9 :: nat) = 9 \<and> (None :: nat option) = None \<and> ((None :: nat option) = None \<longrightarrow> f1 = f2)"
    by (rule elimination_preserves [OF _ _ dead_sub_eliminated _ 1 2]) (simp add: dead_sub_ir_def)
  with 1 2
  show "\<exists>f1 f2. ExecBlocks counting u (Blocks dead_sub_ir) 1 0 f 7 = (f1, 9, None) \<and>
    ExecBlocks counting u (PBlocks dead_sub_end) 1 0 f 7 = (f2, 9, None) \<and> f1 = f2" by simp
qed

text \<open>
  C35: the whole pass is an equivalence, the folding of compares into branches included, for code that does not read PF
  and in which clobbered flags are written before they are read. Such code is of the form the fold relies on (\<open>fold_ok\<close>):
  every \<open>AXFlag\<close> converts the flags of a compare of floats, no branch tests the flags it leaves with the condition LE
  (branches on LE after other operations are covered), ids are distinct, operands refer to earlier nodes, and a branch has
  its two operands.
\<close>

theorem pass_preserves:
  assumes "ir_ok m ir" "saved_ok m ir" "\<forall>B \<in> set (Blocks ir). fold_ok (FlagClobber m) (Code B)" "\<not> ReadsParity ir"
    "Run (SideEffects m) fuel i ir = Some Bs" "b < length (Blocks ir)"
    "ExecBlocks m u (Blocks ir) k b f e = (f1, e1, x1)" "ExecBlocks m u Bs k b f e = (f2, e2, x2)"
  shows "e1 = e2 \<and> x1 = x2 \<and> (x1 = None \<longrightarrow> f1 = f2)"
proof -
  obtain Preds st where e: "EliminateFlags (SideEffects m) fuel ir = Some (Preds, st)"
    and Bs: "Bs = FoldBlocks (BlockFlags st) (PBlocks st)"
    using assms(4,5) by (auto simp: Run_def Let_def split: option.splits)
  obtain L where inv: "elim_inv m (Blocks ir) Preds L st" using EliminateFlags_inv(1) [OF assms(1) e assms(2)] by blast
  have "WorklistLoop (SideEffects m) Preds fuel (InitState (Blocks ir)) = Some st"
    using e by (auto simp: EliminateFlags_def split: option.splits)
  then have "\<forall>B \<in> set (PBlocks st). fold_ok (FlagClobber m) (Code B)"
    by (rule WorklistLoop_fold_ok [rotated])
      (use assms(2,3) inv in \<open>auto simp: InitState_def elim_inv_def saved_ok_def sub_def intro: flags_saved_mono\<close>)
  then have sim: "blocks_sim m L (Blocks ir) Bs" unfolding Bs by (rule FoldBlocks_sim [OF inv])
  have "\<forall>b < length (Blocks ir). code_ok m (Code (Blocks ir ! b))" using assms(1) by (simp add: ir_ok_def)
  from ExecBlocks_sim [OF sim this EliminateFlags_inv(2) [OF assms(1) e] assms(6) agree_refl assms(7,8)]
  show ?thesis .
qed

definition compare_block :: IRBlock where
  "compare_block = \<lparr>EntryPoint = True,
     Code = [node 1 OP_INLINECONSTANT [], node 2 (OP_OTHER 0) [], node 3 OP_SUBNZCV [2, 1],
       (node 4 OP_CONDJUMP [1, 1])\<lparr>Cond := EQ, FromNZCV := True, TrueBlock := 1, FalseBlock := 2\<rparr>]\<rparr>"

definition folded_block :: IRBlock where
  "folded_block = \<lparr>EntryPoint = True,
     Code = [node 1 OP_INLINECONSTANT [], node 2 (OP_OTHER 0) [],
       (node 4 OP_CONDJUMP [2, 1])\<lparr>Cond := EQ, CompareSize := i32Bit, TrueBlock := 1, FalseBlock := 2\<rparr>]\<rparr>"

definition writing_block :: IRBlock where
  "writing_block = \<lparr>EntryPoint = False, Code = [node 5 OP_SUBNZCV [], node 6 (OP_OTHER 1) []]\<rparr>"

definition compare_ir :: IRList where
  "compare_ir = \<lparr>Blocks = [compare_block, writing_block, writing_block], Order = [0, 1, 2], ReadsParity = False\<rparr>"

lemmas compare_nodes = compare_block_def folded_block_def writing_block_def node_def NewNode_def

lemma compare_scans:
  "ProcessBlock (SideEffects counting) Fs (Code writing_block) = (Code writing_block, 48)"
  "ProcessBlock (SideEffects counting) [g, 48, 48] (Code compare_block) =
     ([node 1 OP_INLINECONSTANT [], node 2 (OP_OTHER 0) [], node 3 OP_SUBNZCV [2, 1],
       (node 4 OP_CONDJUMP [1, 1])\<lparr>Cond := EQ, FromNZCV := True, TrueBlock := 1, FalseBlock := 2\<rparr>], 48)"
  by (simp_all add: scan_simps compare_nodes counting_def)

definition compare_at :: "u8 list \<Rightarrow> bool list \<Rightarrow> nat list \<Rightarrow> PassState" where
  "compare_at F I W = \<lparr>PBlocks = [compare_block, writing_block, writing_block], BlockFlags = F, InWorklist = I, Worklist = W\<rparr>"

lemma loop_step:
  "Worklist st \<noteq> [] \<Longrightarrow> WorklistLoop SE Preds (Suc f) st = WorklistLoop SE Preds f (ProcessNext SE Preds st)"
  "Worklist st \<noteq> [] \<Longrightarrow> WorklistLoop SE Preds 0 st = None"
  by (subst WorklistLoop.simps; simp)+

lemma compare_steps:
  "ProcessNext (SideEffects counting) [[], [0], [0]] (compare_at [63, 63, 63] [True, True, True] [0, 1, 2])
     = compare_at [63, 63, 48] [True, True, False] [0, 1]"
  "ProcessNext (SideEffects counting) [[], [0], [0]] (compare_at [63, 63, 48] [True, True, False] [0, 1])
     = compare_at [63, 48, 48] [True, False, False] [0]"
  "ProcessNext (SideEffects counting) [[], [0], [0]] (compare_at [63, 48, 48] [True, False, False] [0])
     = compare_at [48, 48, 48] [False, False, False] []"
  by (simp_all add: compare_at_def ProcessNext_def Let_def AddWorklist_def compare_scans)
     (simp add: compare_block_def)

lemma compare_at_more [simp]: "Worklist (compare_at F I W) = W" by (simp add: compare_at_def)

lemma compare_run: "Run (SideEffects counting) 3 7 compare_ir = Some [folded_block, writing_block, writing_block]"
proof -
  have "GatherCFG (Blocks compare_ir) (Order compare_ir) (replicate (length (Blocks compare_ir)) []) = Some [[], [0], [0]]"
    by (simp add: compare_ir_def compare_nodes RecordEdge_def ExitTargets_def numeral_3_eq_3)
  moreover have "InitState (Blocks compare_ir) = compare_at [63, 63, 63] [True, True, True] [0, 1, 2]"
    by (simp add: compare_at_def InitState_def compare_ir_def flag_masks upt_rec numeral_3_eq_3)
  ultimately have "EliminateFlags (SideEffects counting) 3 compare_ir =
      Some ([[], [0], [0]], compare_at [48, 48, 48] [False, False, False] [])"
    by (simp add: EliminateFlags_def numeral_3_eq_3 loop_step compare_steps del: One_nat_def)
       (simp add: WorklistLoop.simps compare_at_def)
  moreover have "FoldBlocks [48, 48, 48] [compare_block, writing_block, writing_block] = [folded_block, writing_block, writing_block]"
    by (simp add: FoldBlocks_def FoldBlock_def FoldBranch_def FoldedJump_def IsInlineZero_def GetNode_def IsStore_def compare_nodes flag_masks)
  ultimately show ?thesis by (simp add: Run_def compare_at_def compare_ir_def)
qed

theorem pass_preserves_witness:
  "\<forall>u f. \<exists>f1 f2. ExecBlocks counting u (Blocks compare_ir) 1 0 f 7 = (f1, 8, Some 2) \<and>
    ExecBlocks counting u [folded_block, writing_block, writing_block] 1 0 f 7 = (f2, 8, Some 2)"
proof (intro allI)
  fix u and f :: Flags
  obtain f1 where 1: "ExecBlocks counting u (Blocks compare_ir) 1 0 f 7 = (f1, 8, Some 2)"
    by (simp add: compare_ir_def compare_nodes counting_def Enter_def ExecCode_def ExecNode_def Let_def Taken_def
        sub_flags_def add_flags_def nzcv_def Bits_def EmitBits_def gpr_def operand_def mask_eq_exp_minus_1)
  obtain f2 e2 x2 where 2: "ExecBlocks counting u [folded_block, writing_block, writing_block] 1 0 f 7 = (f2, e2, x2)"
    by (metis prod_cases3)
  have "ir_ok counting compare_ir"
    by (simp add: ir_ok_def compare_ir_def compare_nodes code_ok_def node_ok_def counting_def IsJump_def)
       auto
  moreover have "saved_ok counting compare_ir"
    by (simp add: saved_ok_def compare_ir_def compare_nodes counting_def saved_simps)
  moreover have "\<forall>B \<in> set (Blocks compare_ir). fold_ok (FlagClobber counting) (Code B)"
    by (simp add: compare_ir_def compare_nodes fold_ok_def fold_node_ok_def shape_def tests_le_def after_axflag_def)
  moreover have "\<not> ReadsParity compare_ir" "0 < length (Blocks compare_ir)" by (simp_all add: compare_ir_def)
  ultimately have "8 = e2 \<and> Some 2 = x2 \<and> (Some (2 :: nat) = None \<longrightarrow> f1 = f2)"
    by (rule pass_preserves [OF _ _ _ _ compare_run _ 1 2])
  with 1 2 show "\<exists>f1 f2. ExecBlocks counting u (Blocks compare_ir) 1 0 f 7 = (f1, 8, Some 2) \<and>
    ExecBlocks counting u [folded_block, writing_block, writing_block] 1 0 f 7 = (f2, 8, Some 2)" by simp
qed

section \<open>The elimination ends\<close>

text \<open>
  C36: the work list of the elimination becomes empty, whatever its order, on code without tests and ANDs with flags of
  less than 32 bits whose jumps go to blocks of the unit of code: the flags a block reads at its begin only shrink.
\<close>

theorem elimination_terminates:
  assumes "ir_ok m ir" "\<forall>B \<in> set (Blocks ir). \<forall>n \<in> set (Code B). no_small_test n" "targets_ok (Blocks ir)"
  shows "\<exists>fuel Preds st. EliminateFlags (SideEffects m) fuel ir = Some (Preds, st)"
  using assms by (rule EliminateFlags_ends)

definition spin :: IRList where
  "spin = \<lparr>Blocks = [\<lparr>EntryPoint = True,
     Code = [node 1 (OP_OTHER 0) [], node 2 OP_TESTNZ [1, 1], (node 3 OP_JUMP [])\<lparr>TrueBlock := 0\<rparr>]\<rparr>],
     Order = [0], ReadsParity = False\<rparr>"

theorem elimination_terminates_witness: "\<exists>fuel Preds st. EliminateFlags (SideEffects counting) fuel spin = Some (Preds, st)"
  by (rule elimination_terminates)
     (simp_all add: spin_def node_def NewNode_def ir_ok_def code_ok_def node_ok_def counting_def IsJump_def no_small_test_def
       targets_ok_def ExitTargets_def lessThan_Suc)

section \<open>A graph on which the pass does not end\<close>

definition jump_to :: "nat \<Rightarrow> nat \<Rightarrow> IRNode" where
  "jump_to i b = (node i OP_JUMP [])\<lparr>TrueBlock := b\<rparr>"

definition test_block :: "IROps \<Rightarrow> IRBlock" where
  "test_block op = \<lparr>EntryPoint = True, Code = [node 1 (OP_OTHER 0) [], (node 2 op [1, 1])\<lparr>OpSize := i8Bit\<rparr>, jump_to 3 2]\<rparr>"

definition parity_block :: "IRNode list \<Rightarrow> IRBlock" where
  "parity_block ns = \<lparr>EntryPoint = False, Code = node 4 (OP_OTHER 0) [] # ns @ [jump_to 6 0]\<rparr>"

definition carry_block :: "IRNode list \<Rightarrow> IRBlock" where
  "carry_block ns = \<lparr>EntryPoint = False, Code = node 7 (OP_OTHER 0) [] # ns @ [jump_to 9 1]\<rparr>"

definition store_pf :: IRNode where "store_pf = node 5 OP_STOREPF [4]"
definition rmif_nc :: IRNode where "rmif_nc = (node 8 OP_RMIFNZCV [7])\<lparr>RmifMask := FLAG_N OR FLAG_C\<rparr>"

definition endless :: IRList where
  "endless = \<lparr>Blocks = [test_block OP_TESTNZ, parity_block [store_pf], carry_block [rmif_nc]],
     Order = [0, 1, 2], ReadsParity = False\<rparr>"

lemmas endless_nodes = test_block_def parity_block_def carry_block_def store_pf_def rmif_nc_def node_def jump_to_def NewNode_def

abbreviation "SEa \<equiv> (\<lambda>_ :: nat. True)"

lemma scan_test:
  "ProcessBlock SEa [f, g, 53] (Code (test_block OP_TESTNZ)) = (Code (test_block OP_TESTZ), 48)"
  "ProcessBlock SEa [f, g, h] (Code (test_block OP_TESTZ)) = (Code (test_block OP_TESTZ), h)"
  by (simp_all add: scan_simps endless_nodes)

lemma scan_parity:
  "ProcessBlock SEa [63, g, h] (Code (parity_block [store_pf])) = (Code (parity_block [store_pf]), 47)"
  "ProcessBlock SEa [48, g, h] (Code (parity_block [store_pf])) = (Code (parity_block [store_pf]), 32)"
  "ProcessBlock SEa [37, g, h] (Code (parity_block [store_pf])) = (Code (parity_block []), 37)"
  "ProcessBlock SEa [f, g, h] (Code (parity_block [])) = (Code (parity_block []), f)"
  by (simp_all add: scan_simps endless_nodes)

lemma scan_carry:
  "ProcessBlock SEa [f, 63, h] (Code (carry_block [rmif_nc])) = (Code (carry_block [rmif_nc]), 53)"
  "ProcessBlock SEa [f, 47, h] (Code (carry_block [rmif_nc])) = (Code (carry_block [rmif_nc]), 37)"
  "ProcessBlock SEa [f, 32, h] (Code (carry_block [rmif_nc])) = (Code (carry_block []), 32)"
  "ProcessBlock SEa [f, g, h] (Code (carry_block [])) = (Code (carry_block []), g)"
  by (simp_all add: scan_simps endless_nodes)

lemma same_code [simp]:
  "(test_block op)\<lparr>Code := Code (test_block op')\<rparr> = test_block op'"
  "(parity_block ns)\<lparr>Code := Code (parity_block ns')\<rparr> = parity_block ns'"
  "(carry_block ns)\<lparr>Code := Code (carry_block ns')\<rparr> = carry_block ns'"
  by (simp_all add: test_block_def parity_block_def carry_block_def)

definition pass_at :: "IROps \<Rightarrow> IRNode list \<Rightarrow> IRNode list \<Rightarrow> u8 list \<Rightarrow> bool list \<Rightarrow> nat list \<Rightarrow> PassState" where
  "pass_at op ps cs F I W = \<lparr>PBlocks = [test_block op, parity_block ps, carry_block cs], BlockFlags = F, InWorklist = I, Worklist = W\<rparr>"

abbreviation "nxt \<equiv> ProcessNext SEa [[1], [2], [0]]"

lemma steps:
  "nxt (pass_at OP_TESTNZ [store_pf] [rmif_nc] [63, 63, 63] [True, True, True] [0, 1, 2])
     = pass_at OP_TESTNZ [store_pf] [rmif_nc] [63, 63, 53] [True, True, False] [0, 1]"
  "nxt (pass_at OP_TESTNZ [store_pf] [rmif_nc] [63, 63, 53] [True, True, False] [0, 1])
     = pass_at OP_TESTNZ [store_pf] [rmif_nc] [63, 47, 53] [True, False, True] [2, 0]"
  "nxt (pass_at OP_TESTNZ [store_pf] [rmif_nc] [63, 47, 53] [True, False, True] [2, 0])
     = pass_at OP_TESTZ [store_pf] [rmif_nc] [48, 47, 53] [False, True, True] [1, 2]"
  "nxt (pass_at OP_TESTZ [store_pf] [rmif_nc] [48, 47, 53] [False, True, True] [1, 2])
     = pass_at OP_TESTZ [store_pf] [rmif_nc] [48, 47, 37] [True, True, False] [0, 1]"
  "nxt (pass_at OP_TESTZ [store_pf] [rmif_nc] [48, 47, 37] [True, True, False] [0, 1])
     = pass_at OP_TESTZ [store_pf] [rmif_nc] [48, 32, 37] [True, False, True] [2, 0]"
  "nxt (pass_at OP_TESTZ [store_pf] [rmif_nc] [48, 32, 37] [True, False, True] [2, 0])
     = pass_at OP_TESTZ [store_pf] [rmif_nc] [37, 32, 37] [False, True, True] [1, 2]"
  "nxt (pass_at OP_TESTZ [store_pf] [rmif_nc] [37, 32, 37] [False, True, True] [1, 2])
     = pass_at OP_TESTZ [store_pf] [] [37, 32, 32] [True, True, False] [0, 1]"
  "nxt (pass_at OP_TESTZ [store_pf] [] [37, 32, 32] [True, True, False] [0, 1])
     = pass_at OP_TESTZ [] [] [37, 37, 32] [True, False, True] [2, 0]"
  "nxt (pass_at OP_TESTZ [] [] [37, 37, 32] [True, False, True] [2, 0])
     = pass_at OP_TESTZ [] [] [32, 37, 32] [False, True, True] [1, 2]"
  "nxt (pass_at OP_TESTZ [] [] [32, 37, 32] [False, True, True] [1, 2])
     = pass_at OP_TESTZ [] [] [32, 37, 37] [True, True, False] [0, 1]"
  "nxt (pass_at OP_TESTZ [] [] [32, 37, 37] [True, True, False] [0, 1])
     = pass_at OP_TESTZ [] [] [32, 32, 37] [True, False, True] [2, 0]"
  "nxt (pass_at OP_TESTZ [] [] [32, 32, 37] [True, False, True] [2, 0])
     = pass_at OP_TESTZ [] [] [37, 32, 37] [False, True, True] [1, 2]"
  "nxt (pass_at OP_TESTZ [] [] [37, 32, 37] [False, True, True] [1, 2])
     = pass_at OP_TESTZ [] [] [37, 32, 32] [True, True, False] [0, 1]"
  "nxt (pass_at OP_TESTZ [] [] [37, 32, 32] [True, True, False] [0, 1])
     = pass_at OP_TESTZ [] [] [37, 37, 32] [True, False, True] [2, 0]"
  by (simp_all add: pass_at_def ProcessNext_def Let_def AddWorklist_def scan_test scan_parity scan_carry)

text \<open>The states the pass goes through.\<close>

definition endless_states :: "PassState set" where
  "endless_states = {
     pass_at OP_TESTNZ [store_pf] [rmif_nc] [63, 63, 63] [True, True, True] [0, 1, 2],
     pass_at OP_TESTNZ [store_pf] [rmif_nc] [63, 63, 53] [True, True, False] [0, 1],
     pass_at OP_TESTNZ [store_pf] [rmif_nc] [63, 47, 53] [True, False, True] [2, 0],
     pass_at OP_TESTZ [store_pf] [rmif_nc] [48, 47, 53] [False, True, True] [1, 2],
     pass_at OP_TESTZ [store_pf] [rmif_nc] [48, 47, 37] [True, True, False] [0, 1],
     pass_at OP_TESTZ [store_pf] [rmif_nc] [48, 32, 37] [True, False, True] [2, 0],
     pass_at OP_TESTZ [store_pf] [rmif_nc] [37, 32, 37] [False, True, True] [1, 2],
     pass_at OP_TESTZ [store_pf] [] [37, 32, 32] [True, True, False] [0, 1],
     pass_at OP_TESTZ [] [] [37, 37, 32] [True, False, True] [2, 0],
     pass_at OP_TESTZ [] [] [32, 37, 32] [False, True, True] [1, 2],
     pass_at OP_TESTZ [] [] [32, 37, 37] [True, True, False] [0, 1],
     pass_at OP_TESTZ [] [] [32, 32, 37] [True, False, True] [2, 0],
     pass_at OP_TESTZ [] [] [37, 32, 37] [False, True, True] [1, 2],
     pass_at OP_TESTZ [] [] [37, 32, 32] [True, True, False] [0, 1]}"

lemma endless_step: "st \<in> endless_states \<Longrightarrow> nxt st \<in> endless_states \<and> Worklist st \<noteq> []"
  unfolding endless_states_def by (elim insertE emptyE) (simp_all only: steps insert_iff simp_thms, simp_all add: pass_at_def)

lemma endless_loop: "st \<in> endless_states \<Longrightarrow> WorklistLoop SEa [[1], [2], [0]] fuel st = None"
  by (induction fuel arbitrary: st) (use endless_step loop_step in auto)

theorem elimination_does_not_end: "EliminateFlags SEa fuel endless = None"
proof -
  have "GatherCFG (Blocks endless) (Order endless) (replicate (length (Blocks endless)) []) = Some [[1], [2], [0]]"
    by (simp add: endless_def endless_nodes RecordEdge_def ExitTargets_def numeral_3_eq_3)
  moreover have "InitState (Blocks endless) \<in> endless_states"
    by (simp add: endless_states_def InitState_def endless_def pass_at_def flag_masks upt_rec numeral_3_eq_3)
  ultimately show ?thesis by (simp add: EliminateFlags_def endless_loop del: One_nat_def)
qed

section \<open>A fold that changes where a branch goes\<close>

text \<open>
  LE, which holds after \<open>ucomiss\<close> for equal and unordered operands only, becomes the condition of the host that holds for
  less, equal and unordered operands.
\<close>

definition le_block :: "IRNode list \<Rightarrow> CondClass \<Rightarrow> IRNode list" where
  "le_block ax c = node 1 (OP_OTHER 0) [] # node 2 OP_FCMP [1, 1] # ax @
     [(node 4 OP_CONDJUMP [])\<lparr>Cond := c, FromNZCV := True, TrueBlock := 1, FalseBlock := 2\<rparr>]"

lemma fold_changes_branch:
  "FoldBlock [0, 0, 0] (le_block [node 3 OP_AXFLAG []] SLE) = le_block [] SLE \<and>
   Next (ExecCode counting u (le_block [node 3 OP_AXFLAG []] SLE) (Enter f e)) = Some 2 \<and>
   Next (ExecCode counting u (le_block [] SLE) (Enter f e)) = Some 1"
proof (intro conjI)
  show "FoldBlock [0, 0, 0] (le_block [node 3 OP_AXFLAG []] SLE) = le_block [] SLE"
    by (simp add: FoldBlock_def FoldBranch_def FoldedJump_def X86ToArmFloatCond_def IsStore_def le_block_def node_def NewNode_def)
qed (simp_all add: le_block_def node_def NewNode_def counting_def Enter_def ExecCode_def ExecNode_def Let_def Taken_def axflag_def nzcv_def)

section \<open>Parity that is still needed\<close>

text \<open>
  Two ways in which a calculation of the parity is removed although its operand may be any byte. The machine records the
  operands of unknown operations, which have the value three.

  The block \<open>entered_at\<close> follows a block that leaves PF zero or one, but it can be entered from outside with any PF.
\<close>

definition recording :: "Value list list Machine" where
  "recording = \<lparr>SideEffects = (\<lambda>_. True), FlagClobber = (\<lambda>_. False), Effect = (\<lambda>n vs e. (3, e @ [vs])), Random = (\<lambda>_ e. (0, True, e)),
     Compare = (\<lambda>_ _ _. FLess)\<rparr>"

definition small_pf :: IRBlock where
  "small_pf = \<lparr>EntryPoint = True, Code =
     [(node 1 OP_INLINECONSTANT [])\<lparr>Constant := 1\<rparr>, node 2 OP_INLINECONSTANT [], node 3 OP_NZCVSELECT [1, 2],
      node 4 OP_STOREPF [3], (node 5 OP_JUMP [])\<lparr>TrueBlock := 1\<rparr>]\<rparr>"

definition entered_at :: "IRNode list \<Rightarrow> nat \<Rightarrow> IRBlock" where
  "entered_at ns a = \<lparr>EntryPoint = True, Code = node 6 OP_LOADPF [] # ns @ [node 8 (OP_OTHER 0) [a]]\<rparr>"

definition masked_parity :: "nat \<Rightarrow> nat \<Rightarrow> IRNode" where
  "masked_parity i a = (node i OP_PARITY [a])\<lparr>Mask := True\<rparr>"

lemmas parity_nodes = small_pf_def masked_parity_def node_def NewNode_def

lemmas parity_exec = recording_def Enter_def ExecCode_def ExecNode_def Let_def parity_bit_def gpr_def operand_def

lemma parity_of_entry_removed:
  assumes "fP f = 3"
  shows "OptimizeParity [[], [0]] [0, 1] 9 [small_pf, entered_at [masked_parity 7 6] 7] = [small_pf, entered_at [] 6] \<and>
    ExecBlocks recording u [small_pf, entered_at [masked_parity 7 6] 7] 1 1 f [] = (f, [[0]], None) \<and>
    ExecBlocks recording u [small_pf, entered_at [] 6] 1 1 f [] = (f, [[3]], None)"
proof (intro conjI)
  show "OptimizeParity [[], [0]] [0, 1] 9 [small_pf, entered_at [masked_parity 7 6] 7] = [small_pf, entered_at [] 6]"
    by (simp add: OptimizeParity_def FullAtBegin_def StoresFullParity_def GetNode_def ReplaceUses_def entered_at_def parity_nodes
        numeral_2_eq_2)
qed (use assms in \<open>simp_all add: entered_at_def parity_nodes parity_exec upt_rec\<close>)

text \<open>The parity of a value that is stored to PF later in the block, behind a block that leaves PF zero or one.\<close>

definition stored_later :: "IRNode list \<Rightarrow> nat \<Rightarrow> IRBlock" where
  "stored_later ns a = \<lparr>EntryPoint = False, Code =
     node 6 (OP_OTHER 0) [] # ns @ [node 8 (OP_OTHER 1) [a], node 9 OP_STOREPF [6]]\<rparr>"

lemma parity_of_result_removed:
  "OptimizeParity [[], [0]] [0, 1] 10 [small_pf, stored_later [masked_parity 7 6] 7] = [small_pf, stored_later [] 6] \<and>
   fst (snd (ExecBlocks recording u [small_pf, stored_later [masked_parity 7 6] 7] (Suc (Suc 0)) 0 f [])) = [[], [0]] \<and>
   fst (snd (ExecBlocks recording u [small_pf, stored_later [] 6] (Suc (Suc 0)) 0 f [])) = [[], [3]]"
proof (intro conjI)
  show "OptimizeParity [[], [0]] [0, 1] 10 [small_pf, stored_later [masked_parity 7 6] 7] = [small_pf, stored_later [] 6]"
    by (simp add: OptimizeParity_def FullAtBegin_def StoresFullParity_def GetNode_def ReplaceUses_def stored_later_def parity_nodes
        numeral_2_eq_2)
qed (simp_all add: stored_later_def parity_nodes parity_exec upt_rec)

end
