(* ===== verification/BPFEmitter.thy ===== *)
theory BPFEmitter
  imports Prelude "HOL-Library.AList"
begin

text \<open>
  The translation of seccomp filters to ARM64 code (\<open>LinuxSyscalls/Seccomp/BPFEmitter.cpp\<close>), with the part of the code
  emitter that it uses: the buffer of instructions and the labels whose uses are patched when they are bound
  (\<open>CodeEmitter/Emitter.h\<close>). An instruction of the host is a value of \<open>ArmInst\<close>, its operands in the place of its bits;
  positions count instructions, four bytes each. Both passes of the emitter, the calculation of the size and the
  emission, are one definition with the parameter \<open>CalculateSize\<close>, as in the code. An early return with an error is
  \<open>None\<close>. The order in which the hash map of constants is traversed is a parameter.
\<close>

unbundle bit_operations_syntax

section \<open>Instructions of a filter\<close>

record sock_filter =
  InstCode :: u16
  InstJt :: u8
  InstJf :: u8
  InstK :: u32

text \<open>The fields of the code of an instruction and their values (\<open>linux/bpf_common.h\<close>, \<open>linux/filter.h\<close>).\<close>

definition BPF_CLASS :: "u16 \<Rightarrow> u16" where "BPF_CLASS c = c AND 0x07"
definition BPF_SIZE :: "u16 \<Rightarrow> u16" where "BPF_SIZE c = c AND 0x18"
definition BPF_MODE :: "u16 \<Rightarrow> u16" where "BPF_MODE c = c AND 0xe0"
definition BPF_OP :: "u16 \<Rightarrow> u16" where "BPF_OP c = c AND 0xf0"
definition BPF_SRC :: "u16 \<Rightarrow> u16" where "BPF_SRC c = c AND 0x08"
definition BPF_RVAL :: "u16 \<Rightarrow> u16" where "BPF_RVAL c = c AND 0x18"
definition BPF_MISCOP :: "u16 \<Rightarrow> u16" where "BPF_MISCOP c = c AND 0xf8"

definition BPF_LD :: u16 where "BPF_LD = 0x00"
definition BPF_LDX :: u16 where "BPF_LDX = 0x01"
definition BPF_ST :: u16 where "BPF_ST = 0x02"
definition BPF_STX :: u16 where "BPF_STX = 0x03"
definition BPF_ALU :: u16 where "BPF_ALU = 0x04"
definition BPF_JMP :: u16 where "BPF_JMP = 0x05"
definition BPF_RET :: u16 where "BPF_RET = 0x06"
definition BPF_MISC :: u16 where "BPF_MISC = 0x07"
definition BPF_W :: u16 where "BPF_W = 0x00"
definition BPF_IMM :: u16 where "BPF_IMM = 0x00"
definition BPF_ABS :: u16 where "BPF_ABS = 0x20"
definition BPF_MEM :: u16 where "BPF_MEM = 0x60"
definition BPF_LEN :: u16 where "BPF_LEN = 0x80"
definition BPF_ADD :: u16 where "BPF_ADD = 0x00"
definition BPF_SUB :: u16 where "BPF_SUB = 0x10"
definition BPF_MUL :: u16 where "BPF_MUL = 0x20"
definition BPF_DIV :: u16 where "BPF_DIV = 0x30"
definition BPF_OR :: u16 where "BPF_OR = 0x40"
definition BPF_AND :: u16 where "BPF_AND = 0x50"
definition BPF_LSH :: u16 where "BPF_LSH = 0x60"
definition BPF_RSH :: u16 where "BPF_RSH = 0x70"
definition BPF_NEG :: u16 where "BPF_NEG = 0x80"
definition BPF_MOD :: u16 where "BPF_MOD = 0x90"
definition BPF_XOR :: u16 where "BPF_XOR = 0xa0"
definition BPF_JA :: u16 where "BPF_JA = 0x00"
definition BPF_JEQ :: u16 where "BPF_JEQ = 0x10"
definition BPF_JGT :: u16 where "BPF_JGT = 0x20"
definition BPF_JGE :: u16 where "BPF_JGE = 0x30"
definition BPF_JSET :: u16 where "BPF_JSET = 0x40"
definition BPF_K :: u16 where "BPF_K = 0x00"
definition BPF_X :: u16 where "BPF_X = 0x08"
definition BPF_A :: u16 where "BPF_A = 0x10"
definition BPF_TAX :: u16 where "BPF_TAX = 0x00"
definition BPF_TXA :: u16 where "BPF_TXA = 0x80"

named_theorems bpf_values "the values of the fields of instruction codes as numbers"

lemmas bpf_fields = BPF_CLASS_def BPF_SIZE_def BPF_MODE_def BPF_OP_def BPF_SRC_def BPF_RVAL_def BPF_MISCOP_def

lemmas bpf_values_defs [bpf_values] =
  BPF_LD_def BPF_LDX_def
  BPF_ST_def BPF_STX_def BPF_ALU_def BPF_JMP_def BPF_RET_def BPF_MISC_def BPF_W_def BPF_IMM_def BPF_ABS_def BPF_MEM_def
  BPF_LEN_def BPF_ADD_def BPF_SUB_def BPF_MUL_def BPF_DIV_def BPF_OR_def BPF_AND_def BPF_LSH_def BPF_RSH_def BPF_NEG_def
  BPF_MOD_def BPF_XOR_def BPF_JA_def BPF_JEQ_def BPF_JGT_def BPF_JGE_def BPF_JSET_def BPF_K_def BPF_X_def BPF_A_def
  BPF_TAX_def BPF_TXA_def

section \<open>The emitter\<close>

datatype ArmReg = W0 | W1 | W2 | W3

abbreviation "REG_A \<equiv> W0"
abbreviation "REG_X \<equiv> W1"
abbreviation "REG_TMP \<equiv> W2"
abbreviation "REG_TMP2 \<equiv> W3"

datatype ArmCond = CC_EQ | CC_NE | CC_HS | CC_HI

text \<open>
  The instructions, destination first. Loads and stores have the base \<open>REG_SECCOMP_DATA\<close>. The offset of branches and
  literal loads is in instructions, relative to their own position. \<open>I_DATA\<close> is a word of the constant pool.
\<close>

datatype ArmInst =
    I_LDRLIT ArmReg int | I_LDR ArmReg nat | I_STR ArmReg nat | I_MOVZ ArmReg u16 | I_MOV ArmReg ArmReg
  | I_ADD ArmReg ArmReg ArmReg | I_SUB ArmReg ArmReg ArmReg | I_MUL ArmReg ArmReg ArmReg | I_UDIV ArmReg ArmReg ArmReg
  | I_ORR ArmReg ArmReg ArmReg | I_AND ArmReg ArmReg ArmReg | I_EOR ArmReg ArmReg ArmReg
  | I_LSLV ArmReg ArmReg ArmReg | I_LSRV ArmReg ArmReg ArmReg | I_MSUB ArmReg ArmReg ArmReg ArmReg | I_NEG ArmReg ArmReg
  | I_CMP ArmReg ArmReg | I_TST ArmReg ArmReg | I_B int | I_BC ArmCond int | I_RET | I_DATA u32

datatype ForwardInstType = T_B | T_BC | T_RELATIVE_LOAD

type_synonym ForwardLabel = "(nat \<times> ForwardInstType) list"

text \<open>\<open>OpSize\<close> is the size calculated so far.\<close>

record BPFEmitter =
  OpSize :: u64
  JumpLabels :: "(u32 \<times> ForwardLabel) list"
  ConstPool :: "(u32 \<times> ForwardLabel) list"
  CodeBuffer :: "ArmInst list"

definition try_emplace :: "u32 \<Rightarrow> (u32 \<times> ForwardLabel) list \<Rightarrow> (u32 \<times> ForwardLabel) list" where
  "try_emplace k xs = (if map_of xs k = None then xs @ [(k, [])] else xs)"

definition AddLocationToLabel :: "u32 \<Rightarrow> nat \<times> ForwardInstType \<Rightarrow> (u32 \<times> ForwardLabel) list \<Rightarrow> (u32 \<times> ForwardLabel) list" where
  "AddLocationToLabel k r xs = AList.map_entry k (\<lambda>rs. rs @ [r]) xs"

text \<open>The emission of one instruction; those with a label note their position and leave their offset zero.\<close>

definition emit :: "ArmInst \<Rightarrow> BPFEmitter \<Rightarrow> BPFEmitter" where
  "emit i e = e\<lparr>CodeBuffer := CodeBuffer e @ [i]\<rparr>"

definition ldr_label :: "ArmReg \<Rightarrow> u32 \<Rightarrow> BPFEmitter \<Rightarrow> BPFEmitter" where
  "ldr_label r k e =
    emit (I_LDRLIT r 0) (e\<lparr>ConstPool := AddLocationToLabel k (length (CodeBuffer e), T_RELATIVE_LOAD) (ConstPool e)\<rparr>)"

definition b_label :: "u32 \<Rightarrow> BPFEmitter \<Rightarrow> BPFEmitter" where
  "b_label T e = emit (I_B 0) (e\<lparr>JumpLabels := AddLocationToLabel T (length (CodeBuffer e), T_B) (JumpLabels e)\<rparr>)"

definition bc_label :: "ArmCond \<Rightarrow> u32 \<Rightarrow> BPFEmitter \<Rightarrow> BPFEmitter" where
  "bc_label c T e = emit (I_BC c 0) (e\<lparr>JumpLabels := AddLocationToLabel T (length (CodeBuffer e), T_BC) (JumpLabels e)\<rparr>)"

text \<open>\<open>Bind\<close> patches the uses of a label that are in reach of the current position; the others stay as they are.\<close>

fun InReach :: "ForwardInstType \<Rightarrow> int \<Rightarrow> bool" where
  "InReach T_B Imm \<longleftrightarrow> - 134217728 \<le> Imm \<and> Imm \<le> 134217724"
| "InReach _ Imm \<longleftrightarrow> - 1048576 \<le> Imm \<and> Imm \<le> 1048575"

fun SetOffset :: "ArmInst \<Rightarrow> int \<Rightarrow> ArmInst" where
  "SetOffset (I_B _) d = I_B d"
| "SetOffset (I_BC c _) d = I_BC c d"
| "SetOffset (I_LDRLIT r _) d = I_LDRLIT r d"
| "SetOffset i _ = i"

definition BindReference :: "nat \<Rightarrow> nat \<times> ForwardInstType \<Rightarrow> ArmInst list \<Rightarrow> ArmInst list" where
  "BindReference c r buf =
    (let d = int c - int (fst r)
     in if InReach (snd r) (4 * d) then buf[fst r := SetOffset (buf ! fst r) d] else buf)"

definition Bind :: "ForwardLabel \<Rightarrow> BPFEmitter \<Rightarrow> BPFEmitter" where
  "Bind rs e = e\<lparr>CodeBuffer := fold (BindReference (length (CodeBuffer e))) rs (CodeBuffer e)\<rparr>"

section \<open>The handlers\<close>

definition EMIT_INST :: "bool \<Rightarrow> (BPFEmitter \<Rightarrow> BPFEmitter) \<Rightarrow> BPFEmitter \<Rightarrow> BPFEmitter" where
  "EMIT_INST CalculateSize x e = (if CalculateSize then e\<lparr>OpSize := OpSize e + 4\<rparr> else x e)"

definition UseConst :: "u32 \<Rightarrow> BPFEmitter \<Rightarrow> BPFEmitter" where
  "UseConst k e = e\<lparr>ConstPool := try_emplace k (ConstPool e)\<rparr>"

definition UseJumpLabel :: "bool \<Rightarrow> u32 \<Rightarrow> BPFEmitter \<Rightarrow> BPFEmitter" where
  "UseJumpLabel CalculateSize T e = (if CalculateSize then e else e\<lparr>JumpLabels := try_emplace T (JumpLabels e)\<rparr>)"

text \<open>The sizes of \<open>seccomp_data\<close> and of the scratch memory, which follows it in the working buffer.\<close>

definition sizeof_seccomp_data :: u32 where "sizeof_seccomp_data = 64"

definition ScratchOffset :: "u32 \<Rightarrow> nat" where
  "ScratchOffset k = unat sizeof_seccomp_data + 4 * unat k"

definition HandleLoad :: "bool \<Rightarrow> sock_filter \<Rightarrow> BPFEmitter \<Rightarrow> BPFEmitter option" where
  "HandleLoad CalculateSize Inst e =
    (if BPF_SIZE (InstCode Inst) \<noteq> BPF_W then None
     else
       let DestReg = (if BPF_CLASS (InstCode Inst) = BPF_LD then REG_A else REG_X);
           Mode = BPF_MODE (InstCode Inst)
       in if Mode = BPF_IMM then
            Some (EMIT_INST CalculateSize (ldr_label DestReg (InstK Inst)) (UseConst (InstK Inst) e))
          else if Mode = BPF_ABS then
            (if InstK Inst AND 0b11 \<noteq> 0 then None
             else if \<not> InstK Inst < sizeof_seccomp_data then None
             else Some (EMIT_INST CalculateSize (emit (I_LDR DestReg (unat (InstK Inst)))) e))
          else if Mode = BPF_MEM then
            (if \<not> InstK Inst < 16 then None
             else Some (EMIT_INST CalculateSize (emit (I_LDR DestReg (ScratchOffset (InstK Inst)))) e))
          else if Mode = BPF_LEN then
            Some (EMIT_INST CalculateSize (emit (I_MOVZ DestReg (ucast sizeof_seccomp_data))) e)
          else None)"

definition HandleStore :: "bool \<Rightarrow> sock_filter \<Rightarrow> BPFEmitter \<Rightarrow> BPFEmitter option" where
  "HandleStore CalculateSize Inst e =
    (if BPF_SIZE (InstCode Inst) \<noteq> BPF_W then None
     else
       let SrcReg = (if BPF_CLASS (InstCode Inst) = BPF_ST then REG_A else REG_X)
       in if \<not> InstK Inst < 16 then None
          else Some (EMIT_INST CalculateSize (emit (I_STR SrcReg (ScratchOffset (InstK Inst)))) e))"

definition HandleALU :: "bool \<Rightarrow> sock_filter \<Rightarrow> BPFEmitter \<Rightarrow> BPFEmitter option" where
  "HandleALU CalculateSize Inst e =
    (let SrcType = BPF_SRC (InstCode Inst); Op = BPF_OP (InstCode Inst)
     in if Op \<in> {BPF_ADD, BPF_SUB, BPF_MUL, BPF_DIV, BPF_OR, BPF_AND, BPF_LSH, BPF_RSH, BPF_MOD, BPF_XOR} then
          let (SrcReg, e1) =
                (if SrcType = BPF_K
                 then (REG_TMP, EMIT_INST CalculateSize (ldr_label REG_TMP (InstK Inst)) (UseConst (InstK Inst) e))
                 else (REG_X, e))
          in if Op = BPF_ADD then Some (EMIT_INST CalculateSize (emit (I_ADD REG_A REG_A SrcReg)) e1)
             else if Op = BPF_SUB then Some (EMIT_INST CalculateSize (emit (I_SUB REG_A REG_A SrcReg)) e1)
             else if Op = BPF_MUL then Some (EMIT_INST CalculateSize (emit (I_MUL REG_A REG_A SrcReg)) e1)
             else if Op = BPF_DIV then Some (EMIT_INST CalculateSize (emit (I_UDIV REG_A REG_A SrcReg)) e1)
             else if Op = BPF_OR then Some (EMIT_INST CalculateSize (emit (I_ORR REG_A REG_A SrcReg)) e1)
             else if Op = BPF_AND then Some (EMIT_INST CalculateSize (emit (I_AND REG_A REG_A SrcReg)) e1)
             else if Op = BPF_LSH then Some (EMIT_INST CalculateSize (emit (I_LSLV REG_A REG_A SrcReg)) e1)
             else if Op = BPF_RSH then Some (EMIT_INST CalculateSize (emit (I_LSRV REG_A REG_A SrcReg)) e1)
             else if Op = BPF_MOD then
               Some (EMIT_INST CalculateSize (emit (I_MSUB REG_A REG_TMP2 SrcReg REG_A))
                      (EMIT_INST CalculateSize (emit (I_UDIV REG_TMP2 REG_A SrcReg)) e1))
             else if Op = BPF_XOR then Some (EMIT_INST CalculateSize (emit (I_EOR REG_A REG_A SrcReg)) e1)
             else None
        else if Op = BPF_NEG then
          (if SrcType \<noteq> BPF_K then None else Some (EMIT_INST CalculateSize (emit (I_NEG REG_A REG_A)) e))
        else None)"

text \<open>
  The targets of conditional jumps are computed with 32 bits. So is that of \<open>BPF_JA\<close>: the sum of the position and \<open>k\<close>
  is a 32-bit number before it is assigned to one of 64 bits.
\<close>

definition HandleJmp :: "bool \<Rightarrow> u32 \<Rightarrow> u32 \<Rightarrow> sock_filter \<Rightarrow> BPFEmitter \<Rightarrow> BPFEmitter option" where
  "HandleJmp CalculateSize BPFIP NumInst Inst e =
    (let SrcType = BPF_SRC (InstCode Inst); Op = BPF_OP (InstCode Inst)
     in if Op = BPF_JA then
          (if SrcType \<noteq> BPF_K then None
           else
             let Target = BPFIP + InstK Inst + 1
             in if \<not> Target < NumInst then None
                else Some (EMIT_INST CalculateSize (b_label Target) (UseJumpLabel CalculateSize Target e)))
        else if Op \<in> {BPF_JEQ, BPF_JGT, BPF_JGE, BPF_JSET} then
          let (CompareSrcReg, e1) =
                (if SrcType = BPF_K
                 then (REG_TMP, EMIT_INST CalculateSize (ldr_label REG_TMP (InstK Inst)) (UseConst (InstK Inst) e))
                 else (REG_X, e));
              TargetTrue = BPFIP + ucast (InstJt Inst) + 1;
              TargetFalse = BPFIP + ucast (InstJf Inst) + 1
          in if \<not> (TargetTrue < NumInst \<and> TargetFalse < NumInst) then None
             else
               let (CompareResultOp, e2) =
                     (if Op = BPF_JEQ then (CC_EQ, EMIT_INST CalculateSize (emit (I_CMP REG_A CompareSrcReg)) e1)
                      else if Op = BPF_JGT then (CC_HI, EMIT_INST CalculateSize (emit (I_CMP REG_A CompareSrcReg)) e1)
                      else if Op = BPF_JGE then (CC_HS, EMIT_INST CalculateSize (emit (I_CMP REG_A CompareSrcReg)) e1)
                      else (CC_NE, EMIT_INST CalculateSize (emit (I_TST REG_A CompareSrcReg)) e1))
               in Some (EMIT_INST CalculateSize (b_label TargetFalse)
                         (EMIT_INST CalculateSize (bc_label CompareResultOp TargetTrue)
                           (UseJumpLabel CalculateSize TargetFalse (UseJumpLabel CalculateSize TargetTrue e2))))
        else None)"

definition HandleRet :: "bool \<Rightarrow> sock_filter \<Rightarrow> BPFEmitter \<Rightarrow> BPFEmitter option" where
  "HandleRet CalculateSize Inst e =
    (let RValSrc = BPF_RVAL (InstCode Inst)
     in if RValSrc = BPF_K then
          Some (EMIT_INST CalculateSize (emit I_RET)
                 (EMIT_INST CalculateSize (ldr_label W0 (InstK Inst)) (UseConst (InstK Inst) e)))
        else if RValSrc = BPF_X then
          Some (EMIT_INST CalculateSize (emit I_RET) (EMIT_INST CalculateSize (emit (I_MOV W0 REG_X)) e))
        else if RValSrc = BPF_A then Some (EMIT_INST CalculateSize (emit I_RET) e)
        else None)"

definition HandleMisc :: "bool \<Rightarrow> sock_filter \<Rightarrow> BPFEmitter \<Rightarrow> BPFEmitter option" where
  "HandleMisc CalculateSize Inst e =
    (let MiscOp = BPF_MISCOP (InstCode Inst)
     in if MiscOp = BPF_TAX then Some (EMIT_INST CalculateSize (emit (I_MOV REG_X REG_A)) e)
        else if MiscOp = BPF_TXA then Some (EMIT_INST CalculateSize (emit (I_MOV REG_A REG_X)) e)
        else None)"

section \<open>The passes\<close>

text \<open>The switch over the classes: three bits, so the last case is \<open>BPF_MISC\<close>.\<close>

definition HandleInst :: "bool \<Rightarrow> u32 \<Rightarrow> u32 \<Rightarrow> sock_filter \<Rightarrow> BPFEmitter \<Rightarrow> BPFEmitter option" where
  "HandleInst CalculateSize i Len Inst e =
    (let Class = BPF_CLASS (InstCode Inst)
     in if Class = BPF_LD \<or> Class = BPF_LDX then HandleLoad CalculateSize Inst e
        else if Class = BPF_ST \<or> Class = BPF_STX then HandleStore CalculateSize Inst e
        else if Class = BPF_ALU then HandleALU CalculateSize Inst e
        else if Class = BPF_JMP then HandleJmp CalculateSize i Len Inst e
        else if Class = BPF_RET then HandleRet CalculateSize Inst e
        else HandleMisc CalculateSize Inst e)"

definition BindJumpLabel :: "bool \<Rightarrow> u32 \<Rightarrow> BPFEmitter \<Rightarrow> BPFEmitter" where
  "BindJumpLabel CalculateSize i e =
    (if CalculateSize then e else case map_of (JumpLabels e) i of Some rs \<Rightarrow> Bind rs e | None \<Rightarrow> e)"

text \<open>The loop over the instructions, from the one with the number \<open>i\<close>.\<close>

fun EmissionLoop :: "bool \<Rightarrow> u32 \<Rightarrow> nat \<Rightarrow> sock_filter list \<Rightarrow> BPFEmitter \<Rightarrow> BPFEmitter option" where
  "EmissionLoop CalculateSize Len i [] e = Some e"
| "EmissionLoop CalculateSize Len i (Inst # Insts) e =
    Option.bind (HandleInst CalculateSize (of_nat i) Len Inst (BindJumpLabel CalculateSize (of_nat i) e))
      (EmissionLoop CalculateSize Len (Suc i) Insts)"

definition no_code :: BPFEmitter where
  "no_code = \<lparr>OpSize = 0, JumpLabels = [], ConstPool = [], CodeBuffer = []\<rparr>"

text \<open>The first pass adds the size of the constant pool; its constants and labels are erased.\<close>

definition CalculateSize :: "sock_filter list \<Rightarrow> u64 option" where
  "CalculateSize prog =
    map_option (\<lambda>e. OpSize e + of_nat (length (ConstPool e)) * 4) (EmissionLoop True (of_nat (length prog)) 0 prog no_code)"

fun EmitConstPool :: "u32 list \<Rightarrow> BPFEmitter \<Rightarrow> BPFEmitter" where
  "EmitConstPool [] e = e"
| "EmitConstPool (k # ks) e =
    EmitConstPool ks (emit (I_DATA k) (case map_of (ConstPool e) k of Some rs \<Rightarrow> Bind rs e | None \<Rightarrow> e))"

datatype BPFError = EINVAL

text \<open>
  \<open>JITFilter\<close> returns the size of the buffer and the code written to it. The buffer starts at a page, so \<open>Align\<close> adds
  nothing. \<open>Order\<close> gives the order in which the constants are traversed.
\<close>

definition JITFilter :: "(u32 list \<Rightarrow> u32 list) \<Rightarrow> sock_filter list \<Rightarrow> BPFError + u64 \<times> ArmInst list" where
  "JITFilter Order prog =
    (case CalculateSize prog of
       None \<Rightarrow> Inl EINVAL
     | Some FuncSize \<Rightarrow>
        (case EmissionLoop False (of_nat (length prog)) 0 prog no_code of
           None \<Rightarrow> Inl EINVAL
         | Some e \<Rightarrow> Inr (FuncSize, CodeBuffer (EmitConstPool (Order (map fst (ConstPool e))) e))))"

end
