(* ===== verification/BPFSemantics.thy ===== *)
theory BPFSemantics
  imports BPFEmitter
begin

text \<open>
  What a filter means and what the emitted code does. The reference is the definition of classic BPF as Linux has it for
  seccomp (\<open>Documentation/networking/filter.rst\<close>): a filter has the registers A and X, sixteen words of memory and the
  words of \<open>seccomp_data\<close> to read. The machine is the part of ARM64 that the emitter uses.
\<close>

section \<open>Filters\<close>

datatype BPFReg = RegA | RegX

datatype BPFOp = OpAdd | OpSub | OpMul | OpDiv | OpOr | OpAnd | OpLsh | OpRsh | OpMod | OpXor

datatype BPFCompare = CmpEq | CmpGt | CmpGe | CmpSet

text \<open>The second operand of an operation or a compare is a constant or X.\<close>

datatype BPFInst =
    LoadImm BPFReg u32 | LoadAbs BPFReg u32 | LoadMem BPFReg u32 | LoadLen BPFReg | StoreMem BPFReg u32
  | Alu BPFOp "u32 option" | Negate | JumpAlways u32 | JumpIf BPFCompare "u32 option" u8 u8
  | ReturnConst u32 | ReturnX | ReturnA | MoveAX | MoveXA

definition ConstOrX :: "sock_filter \<Rightarrow> u32 option" where
  "ConstOrX Inst = (if BPF_SRC (InstCode Inst) = BPF_K then Some (InstK Inst) else None)"

definition DecodeLoad :: "BPFReg \<Rightarrow> sock_filter \<Rightarrow> BPFInst option" where
  "DecodeLoad r Inst =
    (let Mode = BPF_MODE (InstCode Inst)
     in if BPF_SIZE (InstCode Inst) \<noteq> BPF_W then None
        else if Mode = BPF_IMM then Some (LoadImm r (InstK Inst))
        else if Mode = BPF_ABS then Some (LoadAbs r (InstK Inst))
        else if Mode = BPF_MEM then Some (LoadMem r (InstK Inst))
        else if Mode = BPF_LEN then Some (LoadLen r)
        else None)"

definition DecodeALU :: "sock_filter \<Rightarrow> BPFInst option" where
  "DecodeALU Inst =
    (let Op = BPF_OP (InstCode Inst); op = (\<lambda>x. Some (Alu x (ConstOrX Inst)))
     in if Op = BPF_ADD then op OpAdd else if Op = BPF_SUB then op OpSub else if Op = BPF_MUL then op OpMul
        else if Op = BPF_DIV then op OpDiv else if Op = BPF_OR then op OpOr else if Op = BPF_AND then op OpAnd
        else if Op = BPF_LSH then op OpLsh else if Op = BPF_RSH then op OpRsh else if Op = BPF_MOD then op OpMod
        else if Op = BPF_XOR then op OpXor
        else if Op = BPF_NEG \<and> BPF_SRC (InstCode Inst) = BPF_K then Some Negate
        else None)"

definition DecodeJmp :: "sock_filter \<Rightarrow> BPFInst option" where
  "DecodeJmp Inst =
    (let Op = BPF_OP (InstCode Inst); jump = (\<lambda>c. Some (JumpIf c (ConstOrX Inst) (InstJt Inst) (InstJf Inst)))
     in if Op = BPF_JA then (if BPF_SRC (InstCode Inst) = BPF_K then Some (JumpAlways (InstK Inst)) else None)
        else if Op = BPF_JEQ then jump CmpEq else if Op = BPF_JGT then jump CmpGt
        else if Op = BPF_JGE then jump CmpGe else if Op = BPF_JSET then jump CmpSet
        else None)"

definition Decode :: "sock_filter \<Rightarrow> BPFInst option" where
  "Decode Inst =
    (let Class = BPF_CLASS (InstCode Inst)
     in if Class = BPF_LD then DecodeLoad RegA Inst
        else if Class = BPF_LDX then DecodeLoad RegX Inst
        else if Class = BPF_ST then (if BPF_SIZE (InstCode Inst) = BPF_W then Some (StoreMem RegA (InstK Inst)) else None)
        else if Class = BPF_STX then (if BPF_SIZE (InstCode Inst) = BPF_W then Some (StoreMem RegX (InstK Inst)) else None)
        else if Class = BPF_ALU then DecodeALU Inst
        else if Class = BPF_JMP then DecodeJmp Inst
        else if Class = BPF_RET then
          (let V = BPF_RVAL (InstCode Inst)
           in if V = BPF_K then Some (ReturnConst (InstK Inst)) else if V = BPF_X then Some ReturnX
              else if V = BPF_A then Some ReturnA else None)
        else
          (let M = BPF_MISCOP (InstCode Inst)
           in if M = BPF_TAX then Some MoveAX else if M = BPF_TXA then Some MoveXA else None))"

text \<open>
  What has to hold of an instruction with the number \<open>i\<close> in a filter of \<open>n\<close> instructions: loads are aligned and in
  \<open>seccomp_data\<close>, the memory has sixteen words, jumps stay in the filter and go forward.
\<close>

fun ValidOperands :: "nat \<Rightarrow> nat \<Rightarrow> BPFInst \<Rightarrow> bool" where
  "ValidOperands n i (LoadAbs r k) \<longleftrightarrow> 4 dvd unat k \<and> unat k < 64"
| "ValidOperands n i (LoadMem r k) \<longleftrightarrow> unat k < 16"
| "ValidOperands n i (StoreMem r k) \<longleftrightarrow> unat k < 16"
| "ValidOperands n i (JumpAlways k) \<longleftrightarrow> i + unat k + 1 < n"
| "ValidOperands n i (JumpIf c x t f) \<longleftrightarrow> i + unat t + 1 < n \<and> i + unat f + 1 < n"
| "ValidOperands n i _ \<longleftrightarrow> True"

definition ValidInst :: "nat \<Rightarrow> nat \<Rightarrow> sock_filter \<Rightarrow> bool" where
  "ValidInst n i Inst \<longleftrightarrow> (case Decode Inst of Some b \<Rightarrow> ValidOperands n i b | None \<Rightarrow> False)"

record BPFState =
  RegisterA :: u32
  RegisterX :: u32
  Scratch :: "u32 list"
  Position :: nat

text \<open>
  How a step or a run of a filter ends. Linux ends a filter that divides by zero with the result zero; here it is an
  outcome of its own. \<open>B_Invalid\<close> is an instruction that Linux does not accept or the end of the filter.
\<close>

datatype BPFOutcome = B_Running BPFState | B_Returned u32 | B_DivideByZero | B_Invalid

fun AluResult :: "BPFOp \<Rightarrow> u32 \<Rightarrow> u32 \<Rightarrow> u32" where
  "AluResult OpAdd a b = a + b"
| "AluResult OpSub a b = a - b"
| "AluResult OpMul a b = a * b"
| "AluResult OpDiv a b = a div b"
| "AluResult OpOr a b = a OR b"
| "AluResult OpAnd a b = a AND b"
| "AluResult OpLsh a b = push_bit (unat b mod 32) a"
| "AluResult OpRsh a b = drop_bit (unat b mod 32) a"
| "AluResult OpMod a b = a mod b"
| "AluResult OpXor a b = a XOR b"

fun Compares :: "BPFCompare \<Rightarrow> u32 \<Rightarrow> u32 \<Rightarrow> bool" where
  "Compares CmpEq a b \<longleftrightarrow> a = b"
| "Compares CmpGt a b \<longleftrightarrow> b < a"
| "Compares CmpGe a b \<longleftrightarrow> b \<le> a"
| "Compares CmpSet a b \<longleftrightarrow> a AND b \<noteq> 0"

definition Operand2 :: "BPFState \<Rightarrow> u32 option \<Rightarrow> u32" where
  "Operand2 s x = (case x of Some k \<Rightarrow> k | None \<Rightarrow> RegisterX s)"

fun GetReg :: "BPFReg \<Rightarrow> BPFState \<Rightarrow> u32" where
  "GetReg RegA s = RegisterA s"
| "GetReg RegX s = RegisterX s"

fun SetReg :: "BPFReg \<Rightarrow> u32 \<Rightarrow> BPFState \<Rightarrow> BPFState" where
  "SetReg RegA v s = s\<lparr>RegisterA := v\<rparr>"
| "SetReg RegX v s = s\<lparr>RegisterX := v\<rparr>"

definition Forward :: "nat \<Rightarrow> BPFState \<Rightarrow> BPFOutcome" where
  "Forward k s = B_Running (s\<lparr>Position := Position s + k + 1\<rparr>)"

fun ExecInst :: "u32 list \<Rightarrow> BPFInst \<Rightarrow> BPFState \<Rightarrow> BPFOutcome" where
  "ExecInst D (LoadImm r k) s = Forward 0 (SetReg r k s)"
| "ExecInst D (LoadAbs r k) s = Forward 0 (SetReg r (D ! (unat k div 4)) s)"
| "ExecInst D (LoadMem r k) s = Forward 0 (SetReg r (Scratch s ! unat k) s)"
| "ExecInst D (LoadLen r) s = Forward 0 (SetReg r 64 s)"
| "ExecInst D (StoreMem r k) s = Forward 0 (s\<lparr>Scratch := (Scratch s)[unat k := GetReg r s]\<rparr>)"
| "ExecInst D (Alu op x) s =
     (if (op = OpDiv \<or> op = OpMod) \<and> Operand2 s x = 0 then B_DivideByZero
      else Forward 0 (s\<lparr>RegisterA := AluResult op (RegisterA s) (Operand2 s x)\<rparr>))"
| "ExecInst D Negate s = Forward 0 (s\<lparr>RegisterA := - RegisterA s\<rparr>)"
| "ExecInst D (JumpAlways k) s = Forward (unat k) s"
| "ExecInst D (JumpIf c x t f) s =
     Forward (if Compares c (RegisterA s) (Operand2 s x) then unat t else unat f) s"
| "ExecInst D (ReturnConst k) s = B_Returned k"
| "ExecInst D ReturnX s = B_Returned (RegisterX s)"
| "ExecInst D ReturnA s = B_Returned (RegisterA s)"
| "ExecInst D MoveAX s = Forward 0 (s\<lparr>RegisterX := RegisterA s\<rparr>)"
| "ExecInst D MoveXA s = Forward 0 (s\<lparr>RegisterA := RegisterX s\<rparr>)"

definition BPFStep :: "sock_filter list \<Rightarrow> u32 list \<Rightarrow> BPFState \<Rightarrow> BPFOutcome" where
  "BPFStep prog D s =
    (if Position s < length prog \<and> ValidInst (length prog) (Position s) (prog ! Position s)
     then case Decode (prog ! Position s) of Some b \<Rightarrow> ExecInst D b s | None \<Rightarrow> B_Invalid
     else B_Invalid)"

fun BPFRun :: "sock_filter list \<Rightarrow> u32 list \<Rightarrow> nat \<Rightarrow> BPFState \<Rightarrow> BPFOutcome" where
  "BPFRun prog D 0 s = B_Running s"
| "BPFRun prog D (Suc n) s = (case BPFStep prog D s of B_Running s' \<Rightarrow> BPFRun prog D n s' | y \<Rightarrow> y)"

definition BPFStart :: BPFState where
  "BPFStart = \<lparr>RegisterA = 0, RegisterX = 0, Scratch = replicate 16 0, Position = 0\<rparr>"

section \<open>The host\<close>

text \<open>
  The registers, the flags Z and C, the working buffer by words and the position of the next instruction. An access
  outside of the working buffer, a load of a literal that is none, a position outside of the code and the execution of a
  literal are faults.
\<close>

record ArmState =
  Regs :: "ArmReg \<Rightarrow> u32"
  FlagZ :: bool
  FlagC :: bool
  Memory :: "u32 list"
  Pc :: int

datatype ArmOutcome = A_Running ArmState | A_Returned u32 | A_Fault

definition next_pc :: "ArmState \<Rightarrow> ArmOutcome" where
  "next_pc a = A_Running (a\<lparr>Pc := Pc a + 1\<rparr>)"

definition set_reg :: "ArmReg \<Rightarrow> u32 \<Rightarrow> ArmState \<Rightarrow> ArmOutcome" where
  "set_reg r v a = next_pc (a\<lparr>Regs := (Regs a)(r := v)\<rparr>)"

fun CondHolds :: "ArmCond \<Rightarrow> ArmState \<Rightarrow> bool" where
  "CondHolds CC_EQ a = FlagZ a"
| "CondHolds CC_NE a = (\<not> FlagZ a)"
| "CondHolds CC_HS a = FlagC a"
| "CondHolds CC_HI a = (FlagC a \<and> \<not> FlagZ a)"

definition CodeAt :: "ArmInst list \<Rightarrow> int \<Rightarrow> ArmInst option" where
  "CodeAt code p = (if 0 \<le> p \<and> nat p < length code then Some (code ! nat p) else None)"

fun ArmExec :: "ArmInst list \<Rightarrow> ArmInst \<Rightarrow> ArmState \<Rightarrow> ArmOutcome" where
  "ArmExec code (I_LDRLIT r d) a = (case CodeAt code (Pc a + d) of Some (I_DATA k) \<Rightarrow> set_reg r k a | _ \<Rightarrow> A_Fault)"
| "ArmExec code (I_LDR r n) a = (if n div 4 < length (Memory a) then set_reg r (Memory a ! (n div 4)) a else A_Fault)"
| "ArmExec code (I_STR r n) a =
     (if n div 4 < length (Memory a) then next_pc (a\<lparr>Memory := (Memory a)[n div 4 := Regs a r]\<rparr>) else A_Fault)"
| "ArmExec code (I_MOVZ r k) a = set_reg r (ucast k) a"
| "ArmExec code (I_MOV r x) a = set_reg r (Regs a x) a"
| "ArmExec code (I_ADD r x y) a = set_reg r (Regs a x + Regs a y) a"
| "ArmExec code (I_SUB r x y) a = set_reg r (Regs a x - Regs a y) a"
| "ArmExec code (I_MUL r x y) a = set_reg r (Regs a x * Regs a y) a"
| "ArmExec code (I_UDIV r x y) a = set_reg r (if Regs a y = 0 then 0 else Regs a x div Regs a y) a"
| "ArmExec code (I_ORR r x y) a = set_reg r (Regs a x OR Regs a y) a"
| "ArmExec code (I_AND r x y) a = set_reg r (Regs a x AND Regs a y) a"
| "ArmExec code (I_EOR r x y) a = set_reg r (Regs a x XOR Regs a y) a"
| "ArmExec code (I_LSLV r x y) a = set_reg r (push_bit (unat (Regs a y) mod 32) (Regs a x)) a"
| "ArmExec code (I_LSRV r x y) a = set_reg r (drop_bit (unat (Regs a y) mod 32) (Regs a x)) a"
| "ArmExec code (I_MSUB r x y z) a = set_reg r (Regs a z - Regs a x * Regs a y) a"
| "ArmExec code (I_NEG r x) a = set_reg r (- Regs a x) a"
| "ArmExec code (I_CMP x y) a = next_pc (a\<lparr>FlagZ := Regs a x = Regs a y, FlagC := Regs a y \<le> Regs a x\<rparr>)"
| "ArmExec code (I_TST x y) a = next_pc (a\<lparr>FlagZ := Regs a x AND Regs a y = 0, FlagC := False\<rparr>)"
| "ArmExec code (I_B d) a = A_Running (a\<lparr>Pc := Pc a + d\<rparr>)"
| "ArmExec code (I_BC c d) a = (if CondHolds c a then A_Running (a\<lparr>Pc := Pc a + d\<rparr>) else next_pc a)"
| "ArmExec code I_RET a = A_Returned (Regs a W0)"
| "ArmExec code (I_DATA k) a = A_Fault"

definition ArmStep :: "ArmInst list \<Rightarrow> ArmState \<Rightarrow> ArmOutcome" where
  "ArmStep code a = (case CodeAt code (Pc a) of Some i \<Rightarrow> ArmExec code i a | None \<Rightarrow> A_Fault)"

fun ArmRun :: "ArmInst list \<Rightarrow> nat \<Rightarrow> ArmState \<Rightarrow> ArmOutcome" where
  "ArmRun code 0 a = A_Running a"
| "ArmRun code (Suc n) a = (case ArmStep code a of A_Running a' \<Rightarrow> ArmRun code n a' | y \<Rightarrow> y)"

text \<open>The call of the filter: all argument registers are zero, \<open>seccomp_data\<close> is followed by the cleared scratch memory.\<close>

definition ArmStart :: "u32 list \<Rightarrow> ArmState" where
  "ArmStart D = \<lparr>Regs = (\<lambda>_. 0), FlagZ = False, FlagC = False, Memory = D @ replicate 16 0, Pc = 0\<rparr>"

end
