(* ===== verification/Seccomp.thy ===== *)
theory Seccomp
  imports BPFSemantics
begin

text \<open>
  The emulation of seccomp (\<open>LinuxSyscalls/Seccomp/SeccompEmulator.cpp\<close>): the list of filters with their reference counts,
  the filters and the mode of every thread, the installation of filters, their inheritance, synchronisation and release,
  and the execution of the filters of a thread on a system call. A pointer to an element of the list of filters is a number
  that is not used again. Results are those of the functions of the source, errors as negative numbers of 64 bits.
  Reference counts and numbers of instructions are natural numbers.
\<close>

section \<open>State\<close>

record SeccompFilterInfo =
  Func :: "ArmInst list"
  RefCount :: nat
  MappedSize :: u64
  FilterInstructions :: nat
  ShouldLog :: bool

record SeccompThread =
  TID :: u64
  ThreadFilters :: "nat list"
  SeccompMode :: u32

record SeccompEmulator =
  FilterList :: "(nat \<times> SeccompFilterInfo) list"
  NextFilter :: nat
  TotalFilterInstructions :: nat
  CurrentKillSignal :: nat
  Threads :: "SeccompThread list"

definition SECCOMP_MODE_DISABLED :: u32 where "SECCOMP_MODE_DISABLED = 0"
definition SECCOMP_MODE_STRICT :: u32 where "SECCOMP_MODE_STRICT = 1"
definition SECCOMP_MODE_FILTER :: u32 where "SECCOMP_MODE_FILTER = 2"

definition SECCOMP_FILTER_FLAG_TSYNC :: u32 where "SECCOMP_FILTER_FLAG_TSYNC = 1"
definition SECCOMP_FILTER_FLAG_LOG :: u32 where "SECCOMP_FILTER_FLAG_LOG = 2"
definition SECCOMP_FILTER_FLAG_SPEC_ALLOW :: u32 where "SECCOMP_FILTER_FLAG_SPEC_ALLOW = 4"
definition SECCOMP_FILTER_FLAG_NEW_LISTENER :: u32 where "SECCOMP_FILTER_FLAG_NEW_LISTENER = 8"
definition SECCOMP_FILTER_FLAG_TSYNC_ESRCH :: u32 where "SECCOMP_FILTER_FLAG_TSYNC_ESRCH = 16"

definition SUPPORTED_FLAGS :: u32 where
  "SUPPORTED_FLAGS = SECCOMP_FILTER_FLAG_TSYNC OR SECCOMP_FILTER_FLAG_LOG OR SECCOMP_FILTER_FLAG_SPEC_ALLOW OR
     SECCOMP_FILTER_FLAG_TSYNC_ESRCH"

lemmas seccomp_flags = SECCOMP_FILTER_FLAG_TSYNC_def SECCOMP_FILTER_FLAG_LOG_def SECCOMP_FILTER_FLAG_SPEC_ALLOW_def
  SECCOMP_FILTER_FLAG_NEW_LISTENER_def SECCOMP_FILTER_FLAG_TSYNC_ESRCH_def SUPPORTED_FLAGS_def

definition ERR_EINVAL :: u64 where "ERR_EINVAL = - 22"
definition ERR_EACCES :: u64 where "ERR_EACCES = - 13"
definition ERR_EFAULT :: u64 where "ERR_EFAULT = - 14"
definition ERR_ENOMEM :: u64 where "ERR_ENOMEM = - 12"
definition ERR_ESRCH :: u64 where "ERR_ESRCH = - 3"
definition ERR_ENOSYS :: u64 where "ERR_ENOSYS = - 38"
definition ERR_EOPNOTSUPP :: u64 where "ERR_EOPNOTSUPP = - 95"

definition BPF_MAXINSNS :: nat where "BPF_MAXINSNS = 4096"
definition BPF_MULTIFILTERPENALTY :: nat where "BPF_MULTIFILTERPENALTY = 4"
definition BPF_MAX_INSNS_PER_PATH :: nat where "BPF_MAX_INSNS_PER_PATH = 32768"

text \<open>The signals \<open>SIGSYS\<close> and \<open>SIGKILL\<close>.\<close>

definition SIGSYS :: nat where "SIGSYS = 31"
definition SIGKILL :: nat where "SIGKILL = 9"

definition new_thread :: "u64 \<Rightarrow> SeccompThread" where
  "new_thread t = \<lparr>TID = t, ThreadFilters = [], SeccompMode = SECCOMP_MODE_DISABLED\<rparr>"

definition started :: "u64 \<Rightarrow> SeccompEmulator" where
  "started t = \<lparr>FilterList = [], NextFilter = 0, TotalFilterInstructions = 0, CurrentKillSignal = SIGSYS, Threads = [new_thread t]\<rparr>"

definition GetThread :: "u64 \<Rightarrow> SeccompEmulator \<Rightarrow> SeccompThread" where
  "GetThread t st = (case List.find (\<lambda>T. TID T = t) (Threads st) of Some T \<Rightarrow> T | None \<Rightarrow> new_thread t)"

definition UpdateThread :: "u64 \<Rightarrow> (SeccompThread \<Rightarrow> SeccompThread) \<Rightarrow> SeccompEmulator \<Rightarrow> SeccompEmulator" where
  "UpdateThread t g st = st\<lparr>Threads := map (\<lambda>T. if TID T = t then g T else T) (Threads st)\<rparr>"

text \<open>Change the reference count of a filter.\<close>

definition UpdateCount :: "(nat \<Rightarrow> nat) \<Rightarrow> nat \<Rightarrow> SeccompEmulator \<Rightarrow> SeccompEmulator" where
  "UpdateCount g f st = st\<lparr>FilterList := map (\<lambda>(i, F). (i, if i = f then F\<lparr>RefCount := g (RefCount F)\<rparr> else F)) (FilterList st)\<rparr>"

section \<open>Threads\<close>

definition GetSeccomp :: "bool \<Rightarrow> u64 \<Rightarrow> SeccompEmulator \<Rightarrow> u64" where
  "GetSeccomp NeedsSeccomp t st = (if \<not> NeedsSeccomp then ERR_EINVAL else ucast (SeccompMode (GetThread t st)))"

text \<open>Give a thread the filters and the mode of another, with a reference to each.\<close>

definition CopyFilters :: "SeccompThread \<Rightarrow> u64 \<Rightarrow> SeccompEmulator \<Rightarrow> SeccompEmulator" where
  "CopyFilters P t st =
    UpdateThread t (\<lambda>T. T\<lparr>ThreadFilters := ThreadFilters P, SeccompMode := SeccompMode P\<rparr>)
      (fold (UpdateCount Suc) (ThreadFilters P) st)"

definition InheritSeccompFilters :: "u64 \<Rightarrow> u64 \<Rightarrow> SeccompEmulator \<Rightarrow> SeccompEmulator" where
  "InheritSeccompFilters Parent Child st = CopyFilters (GetThread Parent st) Child st"

text \<open>The loop that gives up the references of a thread; whether one of them was the last.\<close>

definition DropReference :: "nat \<Rightarrow> SeccompEmulator \<times> bool \<Rightarrow> SeccompEmulator \<times> bool" where
  "DropReference f s =
    (let (st, HasFiltersToDelete) = s
     in (UpdateCount (\<lambda>n. n - 1) f st,
         HasFiltersToDelete \<or> (case map_of (FilterList st) f of Some F \<Rightarrow> RefCount F = 1 | None \<Rightarrow> False)))"

definition FreeSeccompFilters :: "u64 \<Rightarrow> SeccompEmulator \<Rightarrow> SeccompEmulator" where
  "FreeSeccompFilters t st =
    (let (st1, HasFiltersToDelete) = fold DropReference (ThreadFilters (GetThread t st)) (st, False);
         st2 = UpdateThread t (\<lambda>T. T\<lparr>ThreadFilters := []\<rparr>) st1
     in if HasFiltersToDelete then st2\<lparr>FilterList := List.filter (\<lambda>(i, F). RefCount F \<noteq> 0) (FilterList st2)\<rparr> else st2)"

text \<open>The first thread that cannot be synchronised, zero when there is none. A filter has its own function.\<close>

definition CanTSync :: "SeccompThread \<Rightarrow> SeccompThread \<Rightarrow> bool" where
  "CanTSync P T \<longleftrightarrow> TID T = TID P \<or> SeccompMode T = SECCOMP_MODE_DISABLED \<or>
    SeccompMode T = SeccompMode P \<and> ThreadFilters T = ThreadFilters P"

definition CanDoTSync :: "u64 \<Rightarrow> SeccompEmulator \<Rightarrow> u64" where
  "CanDoTSync t st =
    (case List.find (\<lambda>T. \<not> CanTSync (GetThread t st) T) (Threads st) of Some T \<Rightarrow> TID T | None \<Rightarrow> 0)"

text \<open>The filters that the other threads had before are dropped; their references are not given up.\<close>

definition TSyncFilters :: "u64 \<Rightarrow> SeccompEmulator \<Rightarrow> SeccompEmulator" where
  "TSyncFilters t st =
    (let P = GetThread t st
     in fold (\<lambda>T st. if TID T = t then st else CopyFilters P (TID T) st) (Threads st) st)"

section \<open>Installing filters\<close>

definition AddFilter :: "u64 \<Rightarrow> SeccompFilterInfo \<Rightarrow> SeccompEmulator \<Rightarrow> SeccompEmulator" where
  "AddFilter t F st =
    UpdateThread t (\<lambda>T. T\<lparr>ThreadFilters := ThreadFilters T @ [NextFilter st]\<rparr>)
      (st\<lparr>FilterList := FilterList st @ [(NextFilter st, F)], NextFilter := NextFilter st + 1,
          TotalFilterInstructions := TotalFilterInstructions st + FilterInstructions F\<rparr>)"

text \<open>\<open>NoNewPrivs\<close> is what \<open>prctl(PR_GET_NO_NEW_PRIVS)\<close> says; a null pointer is \<open>None\<close>.\<close>

definition SetModeFilter ::
  "(u32 list \<Rightarrow> u32 list) \<Rightarrow> bool \<Rightarrow> u64 \<Rightarrow> u32 \<Rightarrow> sock_filter list option \<Rightarrow> SeccompEmulator \<Rightarrow> u64 \<times> SeccompEmulator" where
  "SetModeFilter Order NoNewPrivs t flags prog st =
    (let DoingTsync = (flags AND SECCOMP_FILTER_FLAG_TSYNC \<noteq> 0)
     in if flags AND NOT SUPPORTED_FLAGS \<noteq> 0 then (ERR_EINVAL, st)
        else if DoingTsync \<and> flags AND SECCOMP_FILTER_FLAG_NEW_LISTENER \<noteq> 0 \<and> flags AND SECCOMP_FILTER_FLAG_TSYNC_ESRCH = 0
        then (ERR_EINVAL, st)
        else case prog of
          None \<Rightarrow> (ERR_EFAULT, st)
        | Some insts \<Rightarrow>
            if \<not> NoNewPrivs then (ERR_EACCES, st)
            else if BPF_MAXINSNS < length insts \<or> length insts = 0 then (ERR_EINVAL, st)
            else if BPF_MAX_INSNS_PER_PATH <
              TotalFilterInstructions st + length insts + length (ThreadFilters (GetThread t st)) * BPF_MULTIFILTERPENALTY
            then (ERR_ENOMEM, st)
            else if DoingTsync \<and> CanDoTSync t st \<noteq> 0
            then (if flags AND SECCOMP_FILTER_FLAG_TSYNC_ESRCH \<noteq> 0 then ERR_ESRCH else CanDoTSync t st, st)
            else case JITFilter Order insts of
              Inl EINVAL \<Rightarrow> (ERR_EINVAL, st)
            | Inr (FuncSize, code) \<Rightarrow>
                let F = \<lparr>Func = code, RefCount = 1, MappedSize = FuncSize, FilterInstructions = length insts,
                          ShouldLog = (flags AND SECCOMP_FILTER_FLAG_LOG \<noteq> 0)\<rparr>;
                    st1 = UpdateThread t (\<lambda>T. T\<lparr>SeccompMode := SECCOMP_MODE_FILTER\<rparr>) (AddFilter t F st)
                in (0, if DoingTsync then TSyncFilters t st1 else st1))"

text \<open>The filter of the strict mode; the numbers of the system calls that it allows depend on the mode of the guest.\<close>

definition SYSCALLS_x64 :: "u32 list" where
  "SYSCALLS_x64 = [0, 1, 60, 231, 15]"

definition SYSCALLS_x32 :: "u32 list" where
  "SYSCALLS_x32 = [3, 4, 1, 252, 173, 119]"

definition ALLOW_SYSCALL :: "u32 \<Rightarrow> sock_filter list" where
  "ALLOW_SYSCALL n =
    [\<lparr>InstCode = BPF_JMP + BPF_JEQ + BPF_K, InstJt = 0, InstJf = 1, InstK = n\<rparr>,
     \<lparr>InstCode = BPF_RET + BPF_K, InstJt = 0, InstJf = 0, InstK = 0x7fff0000\<rparr>]"

definition strict_filter :: "bool \<Rightarrow> sock_filter list" where
  "strict_filter Is64BitMode =
    [\<lparr>InstCode = BPF_LD + BPF_W + BPF_ABS, InstJt = 0, InstJf = 0, InstK = 0\<rparr>] @
    concat (map ALLOW_SYSCALL (if Is64BitMode then SYSCALLS_x64 else SYSCALLS_x32)) @
    [\<lparr>InstCode = BPF_RET + BPF_K, InstJt = 0, InstJf = 0, InstK = 0x80000000\<rparr>]"

text \<open>The result of the installation of the filter is not looked at.\<close>

definition SetModeStrict ::
  "(u32 list \<Rightarrow> u32 list) \<Rightarrow> bool \<Rightarrow> bool \<Rightarrow> u64 \<Rightarrow> u32 \<Rightarrow> bool \<Rightarrow> SeccompEmulator \<Rightarrow> u64 \<times> SeccompEmulator" where
  "SetModeStrict Order Is64BitMode NoNewPrivs t flags arg_is_null st =
    (if \<not> NoNewPrivs then (ERR_EACCES, st)
     else if flags \<noteq> 0 then (ERR_EINVAL, st)
     else if \<not> arg_is_null then (ERR_EINVAL, st)
     else if SeccompMode (GetThread t st) = SECCOMP_MODE_FILTER then (ERR_EINVAL, st)
     else
       let (_, st1) = SetModeFilter Order NoNewPrivs t 0 (Some (strict_filter Is64BitMode)) (st\<lparr>CurrentKillSignal := SIGKILL\<rparr>)
       in (0, UpdateThread t (\<lambda>T. T\<lparr>SeccompMode := SECCOMP_MODE_STRICT\<rparr>) st1))"

section \<open>Executing filters\<close>

definition SECCOMP_RET_KILL_PROCESS :: u32 where "SECCOMP_RET_KILL_PROCESS = 0x80000000"
definition SECCOMP_RET_KILL_THREAD :: u32 where "SECCOMP_RET_KILL_THREAD = 0"
definition SECCOMP_RET_TRAP :: u32 where "SECCOMP_RET_TRAP = 0x00030000"
definition SECCOMP_RET_ERRNO :: u32 where "SECCOMP_RET_ERRNO = 0x00050000"
definition SECCOMP_RET_USER_NOTIF :: u32 where "SECCOMP_RET_USER_NOTIF = 0x7fc00000"
definition SECCOMP_RET_TRACE :: u32 where "SECCOMP_RET_TRACE = 0x7ff00000"
definition SECCOMP_RET_LOG :: u32 where "SECCOMP_RET_LOG = 0x7ffc0000"
definition SECCOMP_RET_ALLOW :: u32 where "SECCOMP_RET_ALLOW = 0x7fff0000"
definition SECCOMP_RET_ACTION_FULL :: u32 where "SECCOMP_RET_ACTION_FULL = 0xffff0000"
definition SECCOMP_RET_DATA :: u32 where "SECCOMP_RET_DATA = 0x0000ffff"

lemmas seccomp_rets = SECCOMP_RET_KILL_PROCESS_def SECCOMP_RET_KILL_THREAD_def SECCOMP_RET_TRAP_def SECCOMP_RET_ERRNO_def
  SECCOMP_RET_USER_NOTIF_def SECCOMP_RET_TRACE_def SECCOMP_RET_LOG_def SECCOMP_RET_ALLOW_def SECCOMP_RET_ACTION_FULL_def
  SECCOMP_RET_DATA_def

definition GetActionAvail :: "u32 \<Rightarrow> u32 option \<Rightarrow> u64" where
  "GetActionAvail flags action =
    (if flags \<noteq> 0 then ERR_EINVAL
     else case action of
       None \<Rightarrow> ERR_EFAULT
     | Some a \<Rightarrow>
         if a \<in> {SECCOMP_RET_KILL_PROCESS, SECCOMP_RET_KILL_THREAD, SECCOMP_RET_TRAP, SECCOMP_RET_ERRNO, SECCOMP_RET_LOG,
               SECCOMP_RET_ALLOW} then 0 else ERR_EOPNOTSUPP)"

definition AuditArch :: "bool \<Rightarrow> u32" where
  "AuditArch Is64BitMode = (if Is64BitMode then 0xC000003E else 0x40000003)"

text \<open>The words of \<open>seccomp_data\<close>, from the number of the system call and its six arguments.\<close>

definition SeccompData :: "bool \<Rightarrow> u64 \<Rightarrow> u64 list \<Rightarrow> u32 list" where
  "SeccompData Is64BitMode RIP Args =
    [ucast (Args ! 0), AuditArch Is64BitMode, ucast RIP, ucast (drop_bit 32 RIP)] @
    concat (map (\<lambda>i. [ucast (Args ! i), ucast (drop_bit 32 (Args ! i))]) [1..<7])"

text \<open>The call of a filter; \<open>None\<close> when it does not return.\<close>

definition CallFilter :: "SeccompFilterInfo \<Rightarrow> u32 list \<Rightarrow> u32 option" where
  "CallFilter F D = (case ArmRun (Func F) (4 * FilterInstructions F) (ArmStart D) of A_Returned v \<Rightarrow> Some v | _ \<Rightarrow> None)"

text \<open>The action of a result, as a signed number of 16 bits.\<close>

definition ActionOf :: "u32 \<Rightarrow> int" where
  "ActionOf r = sint (ucast (drop_bit 16 (r AND SECCOMP_RET_ACTION_FULL)) :: u16)"

fun RunFilters :: "u32 list \<Rightarrow> SeccompFilterInfo list \<Rightarrow> (u32 \<times> bool) option \<Rightarrow> (u32 \<times> bool) option option" where
  "RunFilters D [] r = Some r"
| "RunFilters D (F # Fs) r =
    Option.bind (CallFilter F D) (\<lambda>CurrentResult.
      RunFilters D Fs
        (case r of
           None \<Rightarrow> Some (CurrentResult, ShouldLog F)
         | Some (SeccompResult, Log) \<Rightarrow>
             if ActionOf CurrentResult < ActionOf SeccompResult then Some (CurrentResult, ShouldLog F)
             else Some (SeccompResult, Log)))"

text \<open>A trap has the fields \<open>si_errno\<close>, \<open>si_call_addr\<close>, \<open>si_syscall\<close> and \<open>si_arch\<close>.\<close>

datatype SeccompEffect = NoEffect | KillProcess nat | KillThread | Trap u32 u64 u64 u32

record ExecuteFilterResult =
  EarlyReturn :: bool
  Result :: u64
  Logged :: bool
  Effect :: SeccompEffect

definition Decide :: "nat \<Rightarrow> bool \<Rightarrow> u64 \<Rightarrow> u64 \<Rightarrow> u32 \<times> bool \<Rightarrow> ExecuteFilterResult" where
  "Decide KillSignal Is64BitMode RIP Nr r =
    (let (SeccompResult, Log) = r;
         ActionMasked = SeccompResult AND SECCOMP_RET_ACTION_FULL;
         DataMasked = SeccompResult AND SECCOMP_RET_DATA;
         logged = (Log \<and> ActionMasked \<noteq> SECCOMP_RET_ALLOW \<or> ActionMasked = SECCOMP_RET_LOG);
         goes_on = (\<lambda>eff. \<lparr>EarlyReturn = False, Result = 0, Logged = logged, Effect = eff\<rparr>)
     in if ActionMasked = SECCOMP_RET_KILL_THREAD then goes_on KillThread
        else if ActionMasked = SECCOMP_RET_TRAP then goes_on (Trap DataMasked RIP Nr (AuditArch Is64BitMode))
        else if ActionMasked = SECCOMP_RET_ERRNO then
          \<lparr>EarlyReturn = True, Result = - min (ucast DataMasked) 4095, Logged = logged, Effect = NoEffect\<rparr>
        else if ActionMasked = SECCOMP_RET_TRACE then
          \<lparr>EarlyReturn = True, Result = ERR_ENOSYS, Logged = logged, Effect = NoEffect\<rparr>
        else if ActionMasked \<in> {SECCOMP_RET_USER_NOTIF, SECCOMP_RET_LOG, SECCOMP_RET_ALLOW} then goes_on NoEffect
        else goes_on (KillProcess KillSignal))"

definition ExecuteFilter :: "bool \<Rightarrow> u64 \<Rightarrow> u64 \<Rightarrow> u64 list \<Rightarrow> SeccompEmulator \<Rightarrow> ExecuteFilterResult option" where
  "ExecuteFilter Is64BitMode t RIP Args st =
    (let fs = ThreadFilters (GetThread t st)
     in if fs = [] then Some \<lparr>EarlyReturn = False, Result = 0, Logged = False, Effect = NoEffect\<rparr>
        else
          Option.bind (those (map (map_of (FilterList st)) (rev fs))) (\<lambda>Fs.
            Option.bind (RunFilters (SeccompData Is64BitMode RIP Args) Fs None) (\<lambda>r.
              case r of None \<Rightarrow> None | Some x \<Rightarrow> Some (Decide (CurrentKillSignal st) Is64BitMode RIP (Args ! 0) x))))"

section \<open>Across the start of a program\<close>

record SerializedFilter =
  CodeSize :: u64
  SerializedInstructions :: nat
  SerializedLog :: bool
  SerializedCode :: "ArmInst list"

text \<open>
  The mode and the filters that are written; \<open>None\<close> when seccomp is not enabled. Writing and reading do not fail here. A
  filter of the thread that is not in the list is a dangling pointer: it has no code.
\<close>

definition SerializeFilters :: "u64 \<Rightarrow> SeccompEmulator \<Rightarrow> (u32 \<times> SerializedFilter list) option" where
  "SerializeFilters t st =
    (let T = GetThread t st
     in if SeccompMode T = SECCOMP_MODE_DISABLED then None
        else map_option (\<lambda>Fs. (SeccompMode T, map (\<lambda>F. \<lparr>CodeSize = MappedSize F, SerializedInstructions = FilterInstructions F,
               SerializedLog = ShouldLog F, SerializedCode = Func F\<rparr>) Fs))
             (those (map (map_of (FilterList st)) (ThreadFilters T))))"

definition DeserializeFilters :: "u64 \<Rightarrow> u32 \<times> SerializedFilter list \<Rightarrow> SeccompEmulator \<Rightarrow> SeccompEmulator" where
  "DeserializeFilters t S st =
    UpdateThread t (\<lambda>T. T\<lparr>SeccompMode := fst S\<rparr>)
      (fold (\<lambda>F. AddFilter t \<lparr>Func = SerializedCode F, RefCount = 1, MappedSize = CodeSize F,
                FilterInstructions = SerializedInstructions F, ShouldLog = SerializedLog F\<rparr>) (snd S) st)"

end
