(* ===== verification/BPFLayout.thy ===== *)
theory BPFLayout
  imports BPFSemantics
begin

text \<open>
  The code that the emitter builds, by the instructions of the filter: a template of host instructions whose labels are
  still symbolic, and the relation between such symbolic code and the buffer, in which the uses of labels that are bound
  are resolved and those of the others are noted in the label. Then the sizes: both passes of the emitter agree.
\<close>

section \<open>Labels\<close>

definition label_refs :: "(u32 \<times> ForwardLabel) list \<Rightarrow> u32 \<Rightarrow> ForwardLabel" where
  "label_refs xs k = (case map_of xs k of Some rs \<Rightarrow> rs | None \<Rightarrow> [])"

lemma keys_try_emplace: "fst ` set (try_emplace k xs) = insert k (fst ` set xs)"
  by (auto simp: try_emplace_def map_of_eq_None_iff)

lemma keys_add [simp]: "map fst (AddLocationToLabel k r xs) = map fst xs"
  unfolding AddLocationToLabel_def by (induction xs) auto

lemma keys_add_set [simp]: "fst ` set (AddLocationToLabel k r xs) = fst ` set xs"
  by (metis keys_add list.set_map)

lemma distinct_try_emplace: "distinct (map fst xs) \<Longrightarrow> distinct (map fst (try_emplace k xs))"
  by (auto simp: try_emplace_def map_of_eq_None_iff)

lemma refs_try_emplace [simp]: "label_refs (try_emplace k xs) = label_refs xs"
  by (auto simp: label_refs_def try_emplace_def fun_eq_iff map_add_def split: option.splits)

lemma refs_add:
  "k \<in> fst ` set xs \<Longrightarrow> label_refs (AddLocationToLabel k r xs) j = label_refs xs j @ (if j = k then [r] else [])"
proof -
  assume "k \<in> fst ` set xs"
  then obtain rs where "map_of xs k = Some rs" by (metis map_of_eq_None_iff not_None_eq)
  then show ?thesis by (auto simp: label_refs_def AddLocationToLabel_def map_of_map_entry split: option.splits)
qed

section \<open>Symbolic code\<close>

datatype SymInst = Plain ArmInst | SymB u32 | SymBC ArmCond u32 | SymLdr ArmReg u32

definition arm_reg :: "BPFReg \<Rightarrow> ArmReg" where
  "arm_reg r = (case r of RegA \<Rightarrow> W0 | RegX \<Rightarrow> W1)"

fun operand_load :: "u32 option \<Rightarrow> SymInst list" where
  "operand_load None = []"
| "operand_load (Some k) = [SymLdr W2 k]"

fun operand_reg :: "u32 option \<Rightarrow> ArmReg" where
  "operand_reg None = W1"
| "operand_reg (Some k) = W2"

fun alu_insts :: "BPFOp \<Rightarrow> ArmReg \<Rightarrow> ArmInst list" where
  "alu_insts OpAdd r = [I_ADD W0 W0 r]"
| "alu_insts OpSub r = [I_SUB W0 W0 r]"
| "alu_insts OpMul r = [I_MUL W0 W0 r]"
| "alu_insts OpDiv r = [I_UDIV W0 W0 r]"
| "alu_insts OpOr r = [I_ORR W0 W0 r]"
| "alu_insts OpAnd r = [I_AND W0 W0 r]"
| "alu_insts OpLsh r = [I_LSLV W0 W0 r]"
| "alu_insts OpRsh r = [I_LSRV W0 W0 r]"
| "alu_insts OpMod r = [I_UDIV W3 W0 r, I_MSUB W0 W3 r W0]"
| "alu_insts OpXor r = [I_EOR W0 W0 r]"

fun compare_inst :: "BPFCompare \<Rightarrow> ArmReg \<Rightarrow> ArmInst" where
  "compare_inst CmpSet r = I_TST W0 r"
| "compare_inst _ r = I_CMP W0 r"

fun compare_cond :: "BPFCompare \<Rightarrow> ArmCond" where
  "compare_cond CmpEq = CC_EQ"
| "compare_cond CmpGt = CC_HI"
| "compare_cond CmpGe = CC_HS"
| "compare_cond CmpSet = CC_NE"

fun template :: "u32 \<Rightarrow> BPFInst \<Rightarrow> SymInst list" where
  "template i (LoadImm r k) = [SymLdr (arm_reg r) k]"
| "template i (LoadAbs r k) = [Plain (I_LDR (arm_reg r) (unat k))]"
| "template i (LoadMem r k) = [Plain (I_LDR (arm_reg r) (ScratchOffset k))]"
| "template i (LoadLen r) = [Plain (I_MOVZ (arm_reg r) 64)]"
| "template i (StoreMem r k) = [Plain (I_STR (arm_reg r) (ScratchOffset k))]"
| "template i (Alu op x) = operand_load x @ map Plain (alu_insts op (operand_reg x))"
| "template i Negate = [Plain (I_NEG W0 W0)]"
| "template i (JumpAlways k) = [SymB (i + k + 1)]"
| "template i (JumpIf c x t f) =
     operand_load x @ [Plain (compare_inst c (operand_reg x)), SymBC (compare_cond c) (i + ucast t + 1), SymB (i + ucast f + 1)]"
| "template i (ReturnConst k) = [SymLdr W0 k, Plain I_RET]"
| "template i ReturnX = [Plain (I_MOV W0 W1), Plain I_RET]"
| "template i ReturnA = [Plain I_RET]"
| "template i MoveAX = [Plain (I_MOV W1 W0)]"
| "template i MoveXA = [Plain (I_MOV W0 W1)]"

definition sym_code :: "sock_filter list \<Rightarrow> nat \<Rightarrow> SymInst list" where
  "sym_code prog n = concat (map (\<lambda>i. template (of_nat i) (the (Decode (prog ! i)))) [0..<n])"

definition inst_pos :: "sock_filter list \<Rightarrow> nat \<Rightarrow> nat" where
  "inst_pos prog n = length (sym_code prog n)"

lemma sym_code_Suc: "sym_code prog (Suc n) = sym_code prog n @ template (of_nat n) (the (Decode (prog ! n)))"
  by (simp add: sym_code_def)

lemma template_length: "1 \<le> length (template i b)" "length (template i b) \<le> 4"
proof -
  have x: "length (operand_load x) \<le> 1" for x by (cases x) simp_all
  have "1 \<le> length (alu_insts op r)" for op r by (cases op) simp_all
  then show "1 \<le> length (template i b)" by (cases b) (simp_all add: trans_le_add2)
  show "length (template i b) \<le> 4"
  proof (cases b)
    case (Alu op y) then show ?thesis using x [of y] by (cases op) simp_all
  next
    case (JumpIf c y t f) then show ?thesis using x [of y] by simp
  qed simp_all
qed

lemma inst_pos_le: "inst_pos prog n \<le> 4 * n"
proof (induction n)
  case (Suc n)
  then show ?case using template_length(2) [of "of_nat n" "the (Decode (prog ! n))"] by (simp add: inst_pos_def sym_code_Suc)
qed (simp add: inst_pos_def sym_code_def)

lemma sym_code_prefix: "i \<le> n \<Longrightarrow> \<exists>ys. sym_code prog n = sym_code prog i @ ys"
proof (induction n)
  case (Suc n) then show ?case by (cases "i = Suc n") (auto simp: sym_code_Suc)
qed (simp add: sym_code_def)

lemma sym_code_at:
  assumes "i < n" "Decode (prog ! i) = Some b" "j < length (template (of_nat i) b)"
  shows "inst_pos prog i + j < length (sym_code prog n)" "sym_code prog n ! (inst_pos prog i + j) = template (of_nat i) b ! j"
proof -
  obtain ys where "sym_code prog n = sym_code prog (Suc i) @ ys" using sym_code_prefix [of "Suc i" n] assms(1) by auto
  then have e: "sym_code prog n = sym_code prog i @ template (of_nat i) b @ ys" using assms(2) by (simp add: sym_code_Suc)
  show "inst_pos prog i + j < length (sym_code prog n)" using assms(3) by (simp add: e inst_pos_def)
  show "sym_code prog n ! (inst_pos prog i + j) = template (of_nat i) b ! j" using assms(3) by (simp add: e inst_pos_def nth_append)
qed

section \<open>The buffer and the symbolic code\<close>

text \<open>
  \<open>pos\<close> gives the positions of labels, those below \<open>nb\<close> are bound, \<open>cb\<close> gives the positions of constants that are bound.
\<close>

fun slot_ok :: "(u32 \<Rightarrow> nat) \<Rightarrow> nat \<Rightarrow> (u32 \<Rightarrow> nat option) \<Rightarrow> BPFEmitter \<Rightarrow> nat \<Rightarrow> SymInst \<Rightarrow> bool" where
  "slot_ok pos nb cb e p (Plain a) \<longleftrightarrow> CodeBuffer e ! p = a"
| "slot_ok pos nb cb e p (SymB T) \<longleftrightarrow>
     (if unat T < nb then CodeBuffer e ! p = I_B (int (pos T) - int p)
      else CodeBuffer e ! p = I_B 0 \<and> (p, T_B) \<in> set (label_refs (JumpLabels e) T))"
| "slot_ok pos nb cb e p (SymBC c T) \<longleftrightarrow>
     (if unat T < nb then CodeBuffer e ! p = I_BC c (int (pos T) - int p)
      else CodeBuffer e ! p = I_BC c 0 \<and> (p, T_BC) \<in> set (label_refs (JumpLabels e) T))"
| "slot_ok pos nb cb e p (SymLdr r k) \<longleftrightarrow> k \<in> fst ` set (ConstPool e) \<and>
     (case cb k of
        Some q \<Rightarrow> CodeBuffer e ! p = I_LDRLIT r (int q - int p)
      | None \<Rightarrow> CodeBuffer e ! p = I_LDRLIT r 0 \<and> (p, T_RELATIVE_LOAD) \<in> set (label_refs (ConstPool e) k))"

definition jump_ref :: "SymInst list \<Rightarrow> u32 \<Rightarrow> nat \<times> ForwardInstType \<Rightarrow> bool" where
  "jump_ref S T r \<longleftrightarrow> fst r < length S \<and>
    (snd r = T_B \<and> S ! fst r = SymB T \<or> snd r = T_BC \<and> (\<exists>c. S ! fst r = SymBC c T))"

definition const_ref :: "SymInst list \<Rightarrow> u32 \<Rightarrow> nat \<times> ForwardInstType \<Rightarrow> bool" where
  "const_ref S k r \<longleftrightarrow> fst r < length S \<and> snd r = T_RELATIVE_LOAD \<and> (\<exists>x. S ! fst r = SymLdr x k)"

definition built :: "(u32 \<Rightarrow> nat) \<Rightarrow> nat \<Rightarrow> (u32 \<Rightarrow> nat option) \<Rightarrow> SymInst list \<Rightarrow> BPFEmitter \<Rightarrow> bool" where
  "built pos nb cb S e \<longleftrightarrow> length (CodeBuffer e) = length S \<and>
    (\<forall>p < length S. slot_ok pos nb cb e p (S ! p)) \<and>
    (\<forall>T. nb \<le> unat T \<longrightarrow> (\<forall>r \<in> set (label_refs (JumpLabels e) T). jump_ref S T r)) \<and>
    (\<forall>k. cb k = None \<longrightarrow> (\<forall>r \<in> set (label_refs (ConstPool e) k). const_ref S k r)) \<and>
    distinct (map fst (ConstPool e))"

lemma jump_ref_append: "jump_ref S T r \<Longrightarrow> jump_ref (S @ ys) T r"
  by (auto simp: jump_ref_def nth_append)

lemma const_ref_append: "const_ref S k r \<Longrightarrow> const_ref (S @ ys) k r"
  by (auto simp: const_ref_def nth_append)

text \<open>One more instruction: the labels may get a use at the new position.\<close>

lemma built_snoc:
  assumes b: "built pos nb cb S e" and buf: "CodeBuffer e' = CodeBuffer e @ [a]" and slot: "slot_ok pos nb cb e' (length S) x"
    and j: "\<And>T r. r \<in> set (label_refs (JumpLabels e) T) \<Longrightarrow> r \<in> set (label_refs (JumpLabels e') T)"
      "\<And>T r. r \<in> set (label_refs (JumpLabels e') T) \<Longrightarrow> r \<in> set (label_refs (JumpLabels e) T) \<or> jump_ref (S @ [x]) T r"
    and c: "\<And>k r. r \<in> set (label_refs (ConstPool e) k) \<Longrightarrow> r \<in> set (label_refs (ConstPool e') k)"
      "\<And>k r. r \<in> set (label_refs (ConstPool e') k) \<Longrightarrow> r \<in> set (label_refs (ConstPool e) k) \<or> const_ref (S @ [x]) k r"
    and keys: "fst ` set (ConstPool e) \<subseteq> fst ` set (ConstPool e')" "distinct (map fst (ConstPool e'))"
  shows "built pos nb cb (S @ [x]) e'"
proof -
  have len: "length (CodeBuffer e) = length S" using b by (simp add: built_def)
  have "slot_ok pos nb cb e' p (S ! p)" if p: "p < length S" for p
  proof -
    have "slot_ok pos nb cb e p (S ! p)" using b p by (simp add: built_def)
    moreover have "CodeBuffer e' ! p = CodeBuffer e ! p" using p len by (simp add: buf nth_append)
    ultimately show ?thesis using keys(1) by (cases "S ! p") (auto simp: j(1) c(1) split: option.splits)
  qed
  then have "\<forall>p < length (S @ [x]). slot_ok pos nb cb e' p ((S @ [x]) ! p)"
    using slot by (auto simp: nth_append less_Suc_eq)
  moreover have "jump_ref (S @ [x]) T r" if "nb \<le> unat T" "r \<in> set (label_refs (JumpLabels e') T)" for T r
    using j(2) [OF that(2)]
  proof
    assume "r \<in> set (label_refs (JumpLabels e) T)"
    then have "jump_ref S T r" using b that(1) unfolding built_def by blast
    then show ?thesis by (rule jump_ref_append)
  qed
  moreover have "const_ref (S @ [x]) k r" if "cb k = None" "r \<in> set (label_refs (ConstPool e') k)" for k r
    using c(2) [OF that(2)]
  proof
    assume "r \<in> set (label_refs (ConstPool e) k)"
    then have "const_ref S k r" using b that(1) unfolding built_def by blast
    then show ?thesis by (rule const_ref_append)
  qed
  ultimately show ?thesis using len buf keys(2) by (simp add: built_def)
qed

named_theorems building "how the emission of an instruction extends the built code"

lemma built_use_const [building]: "built pos nb cb S e \<Longrightarrow> built pos nb cb S (UseConst k e)"
proof -
  assume b: "built pos nb cb S e"
  have "slot_ok pos nb cb (UseConst k e) p x" if "slot_ok pos nb cb e p x" for p x
    using that by (cases x) (auto simp: UseConst_def keys_try_emplace split: option.splits)
  then show ?thesis using b by (auto simp: built_def UseConst_def distinct_try_emplace)
qed

lemma built_use_label [building]: "built pos nb cb S e \<Longrightarrow> built pos nb cb S (UseJumpLabel C T e)"
proof -
  assume b: "built pos nb cb S e"
  have "slot_ok pos nb cb (UseJumpLabel C T e) p x" if "slot_ok pos nb cb e p x" for p x
    using that by (cases x) (auto simp: UseJumpLabel_def split: option.splits)
  then show ?thesis using b by (auto simp: built_def UseJumpLabel_def)
qed

lemma built_emit [building]: "built pos nb cb S e \<Longrightarrow> built pos nb cb (S @ [Plain a]) (emit a e)"
  by (rule built_snoc, assumption) (auto simp: emit_def built_def nth_append)

lemma built_ldr [building]:
  assumes b: "built pos nb cb S e" and k: "k \<in> fst ` set (ConstPool e)" and n: "cb k = None"
  shows "built pos nb cb (S @ [SymLdr r k]) (ldr_label r k e)"
proof -
  have len: "length (CodeBuffer e) = length S" using b by (simp add: built_def)
  show ?thesis
    by (rule built_snoc [OF b])
       (use b k n len in \<open>auto simp: ldr_label_def emit_def refs_add const_ref_def built_def nth_append split: if_splits\<close>)
qed

lemma built_b [building]:
  assumes b: "built pos nb cb S e" and k: "T \<in> fst ` set (JumpLabels e)" and n: "nb \<le> unat T"
  shows "built pos nb cb (S @ [SymB T]) (b_label T e)"
proof -
  have len: "length (CodeBuffer e) = length S" using b by (simp add: built_def)
  show ?thesis
    by (rule built_snoc [OF b])
       (use b k n len in \<open>auto simp: b_label_def emit_def refs_add jump_ref_def built_def nth_append split: if_splits\<close>)
qed

lemma built_bc [building]:
  assumes b: "built pos nb cb S e" and k: "T \<in> fst ` set (JumpLabels e)" and n: "nb \<le> unat T"
  shows "built pos nb cb (S @ [SymBC c T]) (bc_label c T e)"
proof -
  have len: "length (CodeBuffer e) = length S" using b by (simp add: built_def)
  show ?thesis
    by (rule built_snoc [OF b])
       (use b k n len in \<open>auto simp: bc_label_def emit_def refs_add jump_ref_def built_def nth_append split: if_splits\<close>)
qed

end
