(* ===== verification/BPFBuild.thy ===== *)
theory BPFBuild
  imports BPFLayout
begin

text \<open>
  The handlers build the templates: one lemma a handler, then the loop of the second pass and the constant pool.
\<close>

section \<open>The handlers\<close>

lemma emit_keys [simp]:
  "JumpLabels (emit a e) = JumpLabels e" "ConstPool (emit a e) = ConstPool e" "JumpLabels (ldr_label r k e) = JumpLabels e"
  "JumpLabels (UseConst k e) = JumpLabels e" "ConstPool (UseJumpLabel C T e) = ConstPool e"
  "ConstPool (b_label T e) = ConstPool e" "ConstPool (bc_label c T e) = ConstPool e"
  by (simp_all add: emit_def ldr_label_def b_label_def bc_label_def UseConst_def UseJumpLabel_def)

lemma used_keys [simp]:
  "k \<in> fst ` set (ConstPool (UseConst k e))" "fst ` set (JumpLabels (UseJumpLabel False T e)) = insert T (fst ` set (JumpLabels e))"
  "fst ` set (JumpLabels (b_label T e)) = fst ` set (JumpLabels e)" "fst ` set (JumpLabels (bc_label c T e)) = fst ` set (JumpLabels e)"
  by (simp_all add: emit_def b_label_def bc_label_def UseConst_def UseJumpLabel_def keys_try_emplace)

lemma EMIT_INST_False [simp]: "EMIT_INST False x e = x e"
  by (simp add: EMIT_INST_def)

lemma unat_byte [simp]: "unat (ucast (x :: u8) :: u32) = unat x"
proof -
  have "unat x < 2 ^ 32" by (rule order_less_le_trans [OF unsigned_less]) simp
  then show ?thesis by (simp add: unsigned_ucast_eq take_bit_nat_eq_self)
qed

lemma unat_and_3: "unat (k AND 3 :: u32) = unat k mod 4"
proof -
  have "k AND 3 = take_bit 2 k" by (simp add: take_bit_eq_mask mask_eq_exp_minus_1)
  then have "unat (k AND 3) = take_bit 2 (unat k)" by (simp only: unsigned_take_bit_eq)
  then show ?thesis by (simp add: take_bit_eq_mod)
qed

lemma target_unat:
  fixes k :: u32
  assumes "i + unat k + 1 < n" "n < 2 ^ 32"
  shows "unat (of_nat i + k + 1) = i + unat k + 1"
proof -
  have "of_nat i + k + 1 = (of_nat (i + unat k + 1) :: u32)" by simp
  then show ?thesis using assms by (simp add: unat_of_nat del: of_nat_add of_nat_Suc)
qed

lemma target_less:
  fixes k :: u32
  assumes "i + unat k + 1 < n" "n < 2 ^ 32"
  shows "of_nat i + k + 1 < (of_nat n :: u32)" "nb \<le> Suc i \<Longrightarrow> nb \<le> unat (of_nat i + k + 1)"
  using assms by (simp_all add: word_less_nat_alt target_unat unat_of_nat)

text \<open>The second operand: the code chooses the register and loads a constant in one step.\<close>

definition LoadOperand :: "sock_filter \<Rightarrow> BPFEmitter \<Rightarrow> ArmReg \<times> BPFEmitter" where
  "LoadOperand Inst e =
    (if BPF_SRC (InstCode Inst) = BPF_K then (REG_TMP, ldr_label REG_TMP (InstK Inst) (UseConst (InstK Inst) e)) else (REG_X, e))"

lemma LoadOperand_built:
  assumes "built pos nb Map.empty S e"
  shows "fst (LoadOperand Inst e) = operand_reg (ConstOrX Inst)"
    "built pos nb Map.empty (S @ operand_load (ConstOrX Inst)) (snd (LoadOperand Inst e))"
  using assms by (auto simp: LoadOperand_def ConstOrX_def intro: building)

lemma HandleLoad_built:
  assumes "built pos nb Map.empty S e" "DecodeLoad r Inst = Some b" "ValidOperands n i b"
    "r = (if BPF_CLASS (InstCode Inst) = BPF_LD then RegA else RegX)"
  shows "\<exists>e'. HandleLoad False Inst e = Some e' \<and> built pos nb Map.empty (S @ template (of_nat i) b) e'"
proof -
  have abs: "k AND 3 = 0 \<and> k < sizeof_seccomp_data" if "4 dvd unat k" "unat k < 64" for k :: u32
  proof
    have "unat (k AND 3) = 0" using that by (simp add: unat_and_3)
    then show "k AND 3 = 0" by (simp add: unsigned_0 unat_eq_zero)
    show "k < sizeof_seccomp_data" using that by (simp add: sizeof_seccomp_data_def word_less_nat_alt)
  qed
  have mem: "k < 16" if "unat k < 16" for k :: u32 using that by (simp add: word_less_nat_alt)
  have reg: "(if BPF_CLASS (InstCode Inst) = BPF_LD then REG_A else REG_X) = arm_reg r" using assms(4) by (simp add: arm_reg_def)
  show ?thesis
    using assms(1-3) abs mem unfolding HandleLoad_def DecodeLoad_def Let_def reg
    by (auto simp: sizeof_seccomp_data_def intro!: building split: if_splits)
qed

lemma HandleStore_built:
  assumes "built pos nb Map.empty S e" "BPF_SIZE (InstCode Inst) = BPF_W" "unat (InstK Inst) < 16"
    "r = (if BPF_CLASS (InstCode Inst) = BPF_ST then RegA else RegX)"
  shows "\<exists>e'. HandleStore False Inst e = Some e' \<and>
    built pos nb Map.empty (S @ template (of_nat i) (StoreMem r (InstK Inst))) e'"
  using assms by (auto simp: HandleStore_def word_less_nat_alt arm_reg_def intro!: building)

lemma HandleALU_built:
  assumes "built pos nb Map.empty S e" "DecodeALU Inst = Some b"
  shows "\<exists>e'. HandleALU False Inst e = Some e' \<and> built pos nb Map.empty (S @ template (of_nat i) b) e'"
proof -
  obtain r e1 where L: "LoadOperand Inst e = (r, e1)" by fastforce
  have r: "r = operand_reg (ConstOrX Inst)" and b1: "built pos nb Map.empty (S @ operand_load (ConstOrX Inst)) e1"
    using LoadOperand_built [OF assms(1), of Inst] L by simp_all
  have b2: "built pos nb Map.empty (S @ operand_load (ConstOrX Inst) @ [Plain x]) (emit x e1)" for x
    using built_emit [OF b1, of x] by simp
  have b3: "built pos nb Map.empty (S @ operand_load (ConstOrX Inst) @ [Plain x, Plain y]) (emit y (emit x e1))" for x y
    using built_emit [OF b2, of x y] by simp
  have "BPF_OP (InstCode Inst) \<in> {BPF_ADD, BPF_SUB, BPF_MUL, BPF_DIV, BPF_OR, BPF_AND, BPF_LSH, BPF_RSH, BPF_MOD, BPF_XOR, BPF_NEG}"
    using assms(2) by (auto simp: DecodeALU_def Let_def split: if_splits)
  then show ?thesis
    using assms(2) b2 b3 r built_emit [OF assms(1)] unfolding HandleALU_def Let_def EMIT_INST_False
      LoadOperand_def [symmetric] L prod.case
    by (elim insertE emptyE) (auto simp: DecodeALU_def bpf_values split: if_splits)
qed

lemma HandleJmp_built:
  assumes b: "built pos nb Map.empty S e" and d: "DecodeJmp Inst = Some b" and v: "ValidOperands n i b"
    and n: "n < 2 ^ 32" "nb \<le> Suc i"
  shows "\<exists>e'. HandleJmp False (of_nat i) (of_nat n) Inst e = Some e' \<and> built pos nb Map.empty (S @ template (of_nat i) b) e'"
proof -
  obtain r e1 where L: "LoadOperand Inst e = (r, e1)" by fastforce
  have r: "r = operand_reg (ConstOrX Inst)" and b1: "built pos nb Map.empty (S @ operand_load (ConstOrX Inst)) e1"
    using LoadOperand_built [OF b, of Inst] L by simp_all
  let ?t = "of_nat i + ucast (InstJt Inst) + 1 :: u32" and ?f = "of_nat i + ucast (InstJf Inst) + 1 :: u32"
  have jump: "built pos nb Map.empty (S @ operand_load (ConstOrX Inst) @ [Plain x, SymBC c ?t, SymB ?f])
      (b_label ?f (bc_label c ?t (UseJumpLabel False ?f (UseJumpLabel False ?t (emit x e1)))))"
    if "i + unat (InstJt Inst) + 1 < n" "i + unat (InstJf Inst) + 1 < n" for x c
  proof -
    have "nb \<le> unat ?t" "nb \<le> unat ?f"
      using target_less(2) [of i "ucast (InstJt Inst)" n nb] target_less(2) [of i "ucast (InstJf Inst)" n nb] that n
      by simp_all
    then have "built pos nb Map.empty ((((S @ operand_load (ConstOrX Inst)) @ [Plain x]) @ [SymBC c ?t]) @ [SymB ?f])
      (b_label ?f (bc_label c ?t (UseJumpLabel False ?f (UseJumpLabel False ?t (emit x e1)))))"
      by (intro building b1) simp_all
    then show ?thesis by simp
  qed
  have less: "of_nat i + ucast x + 1 < (of_nat n :: u32)" if "i + unat x + 1 < n" for x :: u8
    using target_less(1) [of i "ucast x" n] that n by simp
  have ja: "built pos nb Map.empty (S @ [SymB (of_nat i + InstK Inst + 1)])
      (b_label (of_nat i + InstK Inst + 1) (UseJumpLabel False (of_nat i + InstK Inst + 1) e))" if "i + unat (InstK Inst) + 1 < n"
    using target_less(2) [OF that n] by (intro building b) simp_all
  have "BPF_OP (InstCode Inst) \<in> {BPF_JA, BPF_JEQ, BPF_JGT, BPF_JGE, BPF_JSET}"
    using d by (auto simp: DecodeJmp_def Let_def split: if_splits)
  then show ?thesis
    using d v jump ja less target_less(1) [of i "InstK Inst" n] n(1) r
    unfolding HandleJmp_def Let_def EMIT_INST_False LoadOperand_def [symmetric] L prod.case
    by (elim insertE emptyE) (auto simp: DecodeJmp_def bpf_values split: if_splits)
qed

lemma HandleRet_built:
  assumes "built pos nb Map.empty S e"
  shows "BPF_RVAL (InstCode Inst) = BPF_K \<Longrightarrow>
      \<exists>e'. HandleRet False Inst e = Some e' \<and> built pos nb Map.empty (S @ template j (ReturnConst (InstK Inst))) e'"
    "BPF_RVAL (InstCode Inst) \<noteq> BPF_K \<Longrightarrow> BPF_RVAL (InstCode Inst) = BPF_X \<Longrightarrow>
      \<exists>e'. HandleRet False Inst e = Some e' \<and> built pos nb Map.empty (S @ template j ReturnX) e'"
    "BPF_RVAL (InstCode Inst) \<noteq> BPF_K \<Longrightarrow> BPF_RVAL (InstCode Inst) \<noteq> BPF_X \<Longrightarrow> BPF_RVAL (InstCode Inst) = BPF_A \<Longrightarrow>
      \<exists>e'. HandleRet False Inst e = Some e' \<and> built pos nb Map.empty (S @ template j ReturnA) e'"
proof -
  have 2: "built pos nb Map.empty (S @ [x, Plain y]) (emit y e')" if "built pos nb Map.empty (S @ [x]) e'" for x y e'
    using built_emit [OF that, of y] by simp
  show "BPF_RVAL (InstCode Inst) = BPF_K \<Longrightarrow>
      \<exists>e'. HandleRet False Inst e = Some e' \<and> built pos nb Map.empty (S @ template j (ReturnConst (InstK Inst))) e'"
    using assms by (auto simp: HandleRet_def intro!: building 2)
  show "BPF_RVAL (InstCode Inst) \<noteq> BPF_K \<Longrightarrow> BPF_RVAL (InstCode Inst) = BPF_X \<Longrightarrow>
      \<exists>e'. HandleRet False Inst e = Some e' \<and> built pos nb Map.empty (S @ template j ReturnX) e'"
    using assms by (auto simp: HandleRet_def intro!: building 2)
  show "BPF_RVAL (InstCode Inst) \<noteq> BPF_K \<Longrightarrow> BPF_RVAL (InstCode Inst) \<noteq> BPF_X \<Longrightarrow> BPF_RVAL (InstCode Inst) = BPF_A \<Longrightarrow>
      \<exists>e'. HandleRet False Inst e = Some e' \<and> built pos nb Map.empty (S @ template j ReturnA) e'"
    using assms by (auto simp: HandleRet_def intro!: building)
qed

lemma HandleMisc_built:
  assumes "built pos nb Map.empty S e"
  shows "BPF_MISCOP (InstCode Inst) = BPF_TAX \<Longrightarrow>
      \<exists>e'. HandleMisc False Inst e = Some e' \<and> built pos nb Map.empty (S @ template j MoveAX) e'"
    "BPF_MISCOP (InstCode Inst) \<noteq> BPF_TAX \<Longrightarrow> BPF_MISCOP (InstCode Inst) = BPF_TXA \<Longrightarrow>
      \<exists>e'. HandleMisc False Inst e = Some e' \<and> built pos nb Map.empty (S @ template j MoveXA) e'"
  using assms by (auto simp: HandleMisc_def intro!: building)

lemma HandleInst_built:
  assumes b: "built pos nb Map.empty S e" and d: "Decode Inst = Some b" and v: "ValidOperands n i b"
    and n: "n < 2 ^ 32" "nb \<le> Suc i"
  shows "\<exists>e'. HandleInst False (of_nat i) (of_nat n) Inst e = Some e' \<and> built pos nb Map.empty (S @ template (of_nat i) b) e'"
proof -
  have c: "BPF_LDX \<noteq> BPF_LD" "BPF_STX \<noteq> BPF_ST" by (simp_all add: bpf_values)
  show ?thesis
    using d v c unfolding HandleInst_def Decode_def Let_def
    by (simp del: template.simps split: if_splits)
       (auto simp del: template.simps intro: HandleLoad_built [OF b] HandleStore_built [OF b] HandleALU_built [OF b] HandleJmp_built [OF b _ _ n]
          HandleRet_built [OF b] HandleMisc_built [OF b])
qed

section \<open>Binding labels\<close>

lemma SetOffset_twice [simp]: "SetOffset (SetOffset a d) d = SetOffset a d"
  by (cases a) simp_all

lemma BindReference_forward:
  assumes "fst r \<le> c" "c \<le> 262143"
  shows "BindReference c r buf = buf[fst r := SetOffset (buf ! fst r) (int c - int (fst r))]"
proof -
  have "InReach (snd r) (4 * (int c - int (fst r)))" using assms by (cases "snd r") auto
  then show ?thesis by (simp add: BindReference_def Let_def)
qed

lemma fold_Bind:
  assumes "\<forall>r \<in> set rs. fst r < length buf" "length buf \<le> c" "c \<le> 262143"
  shows "length (fold (BindReference c) rs buf) = length buf \<and>
    (\<forall>p < length buf. fold (BindReference c) rs buf ! p =
      (if p \<in> fst ` set rs then SetOffset (buf ! p) (int c - int p) else buf ! p))"
  using assms
proof (induction rs arbitrary: buf)
  case (Cons r rs)
  let ?buf = "buf[fst r := SetOffset (buf ! fst r) (int c - int (fst r))]"
  have B: "BindReference c r buf = ?buf" using Cons.prems by (intro BindReference_forward) auto
  then show ?case using Cons.IH [of ?buf] Cons.prems by (auto simp: nth_list_update)
qed simp

lemma Bind_keys [simp]: "JumpLabels (Bind rs e) = JumpLabels e" "ConstPool (Bind rs e) = ConstPool e"
  by (simp_all add: Bind_def)

lemma Bind_buffer:
  assumes "\<forall>r \<in> set rs. fst r < length (CodeBuffer e)" "length (CodeBuffer e) \<le> 262143"
  shows "length (CodeBuffer (Bind rs e)) = length (CodeBuffer e)"
    "p < length (CodeBuffer e) \<Longrightarrow> CodeBuffer (Bind rs e) ! p =
      (if p \<in> fst ` set rs then SetOffset (CodeBuffer e ! p) (int (length (CodeBuffer e)) - int p) else CodeBuffer e ! p)"
  using fold_Bind [OF assms(1) order_refl assms(2)] by (simp_all add: Bind_def)

lemma Bind_refs:
  "BindJumpLabel False T e = Bind (label_refs (JumpLabels e) T) e"
  "(case map_of (ConstPool e) k of Some rs \<Rightarrow> Bind rs e | None \<Rightarrow> e) = Bind (label_refs (ConstPool e) k) e"
  by (simp_all add: BindJumpLabel_def label_refs_def Bind_def split: option.split)

lemma built_bind_jump:
  assumes b: "built pos nb cb S e" and T: "unat T = nb" "pos T = length S" and len: "length S \<le> 262143"
  shows "built pos (Suc nb) cb S (BindJumpLabel False T e)"
proof -
  let ?rs = "label_refs (JumpLabels e) T"
  have cl: "length (CodeBuffer e) = length S" using b by (simp add: built_def)
  have rs: "\<forall>r \<in> set ?rs. jump_ref S T r" using b T(1) by (simp add: built_def)
  then have rl: "\<forall>r \<in> set ?rs. fst r < length (CodeBuffer e)" using cl by (simp add: jump_ref_def)
  note B = Bind_buffer [OF rl, unfolded cl, OF len]
  have "slot_ok pos (Suc nb) cb (Bind ?rs e) p (S ! p)" if p: "p < length S" for p
  proof -
    have s: "slot_ok pos nb cb e p (S ! p)" using b p by (simp add: built_def)
    have less: "unat T' < Suc nb \<longleftrightarrow> unat T' < nb \<or> T' = T" for T' using T(1) by (auto simp: less_Suc_eq word_unat_eq_iff)
    have here: "p \<in> fst ` set ?rs \<Longrightarrow> S ! p = SymB T \<or> (\<exists>c. S ! p = SymBC c T)" using rs by (auto simp: jump_ref_def)
    have notless: "\<not> unat T < nb" using T(1) by simp
    show ?thesis
    proof (cases "S ! p")
      case (SymB T')
      show ?thesis
      proof (cases "T' = T")
        case True
        then have "p \<in> fst ` set ?rs" "CodeBuffer e ! p = I_B 0" using s SymB notless by force+
        then show ?thesis using B(2) [OF p] SymB True T by simp
      next
        case False then show ?thesis using s B(2) [OF p] SymB here less by auto
      qed
    next
      case (SymBC c T')
      show ?thesis
      proof (cases "T' = T")
        case True
        then have "p \<in> fst ` set ?rs" "CodeBuffer e ! p = I_BC c 0" using s SymBC notless by force+
        then show ?thesis using B(2) [OF p] SymBC True T by simp
      next
        case False then show ?thesis using s B(2) [OF p] SymBC here less by auto
      qed
    qed (use s B(2) [OF p] here in \<open>auto split: option.splits\<close>)
  qed
  then show ?thesis using b B(1) by (simp add: built_def Bind_refs)
qed

lemma built_bind_const:
  assumes b: "built pos nb cb S e" and k: "cb k = None" and len: "length S \<le> 262143"
  shows "built pos nb (cb(k \<mapsto> length S)) S (Bind (label_refs (ConstPool e) k) e)"
proof -
  let ?rs = "label_refs (ConstPool e) k"
  have cl: "length (CodeBuffer e) = length S" using b by (simp add: built_def)
  have rs: "\<forall>r \<in> set ?rs. const_ref S k r" using b k by (simp add: built_def)
  then have rl: "\<forall>r \<in> set ?rs. fst r < length (CodeBuffer e)" using cl by (simp add: const_ref_def)
  note B = Bind_buffer [OF rl, unfolded cl, OF len]
  have "slot_ok pos nb (cb(k \<mapsto> length S)) (Bind ?rs e) p (S ! p)" if p: "p < length S" for p
  proof -
    have s: "slot_ok pos nb cb e p (S ! p)" using b p by (simp add: built_def)
    have here: "p \<in> fst ` set ?rs \<Longrightarrow> \<exists>x. S ! p = SymLdr x k" using rs by (auto simp: const_ref_def)
    show ?thesis
    proof (cases "S ! p")
      case (SymLdr x k')
      show ?thesis
      proof (cases "k' = k")
        case True
        then have "p \<in> fst ` set ?rs" "CodeBuffer e ! p = I_LDRLIT x 0" using s SymLdr k by force+
        then show ?thesis using s B(2) [OF p] SymLdr True by simp
      next
        case False then show ?thesis using s B(2) [OF p] SymLdr here by (auto split: option.splits)
      qed
    qed (use s B(2) [OF p] here in auto)
  qed
  then show ?thesis using b B(1) by (simp add: built_def)
qed

section \<open>The second pass\<close>

lemma pool_grows_by_one: "HandleInst C i n Inst e = Some e' \<Longrightarrow> length (ConstPool e') \<le> Suc (length (ConstPool e))"
proof -
  have emplace: "length (try_emplace k xs) \<le> Suc (length xs)" for k xs by (simp add: try_emplace_def)
  have add: "length (AddLocationToLabel k r xs) = length xs" for k r xs by (metis keys_add length_map)
  show "HandleInst C i n Inst e = Some e' \<Longrightarrow> ?thesis"
    unfolding HandleInst_def HandleLoad_def HandleStore_def HandleALU_def HandleJmp_def HandleRet_def HandleMisc_def Let_def
    by (auto simp: EMIT_INST_def emit_def ldr_label_def UseConst_def add emplace split: if_splits)
qed

lemma EmissionLoop_built:
  assumes n: "length prog \<le> 4096" and v: "\<forall>i < length prog. ValidInst (length prog) i (prog ! i)"
    and i: "i \<le> length prog"
  shows "built (\<lambda>T. inst_pos prog (unat T)) i Map.empty (sym_code prog i) e \<Longrightarrow>
    \<exists>e'. EmissionLoop False (of_nat (length prog)) i (drop i prog) e = Some e' \<and>
      built (\<lambda>T. inst_pos prog (unat T)) (length prog) Map.empty (sym_code prog (length prog)) e' \<and>
      length (ConstPool e') \<le> length (ConstPool e) + (length prog - i)"
  using i
proof (induction i arbitrary: e rule: inc_induct)
  case base then show ?case by simp
next
  case (step i)
  let ?pos = "\<lambda>T. inst_pos prog (unat T)"
  let ?e = "BindJumpLabel False (of_nat i) e"
  obtain b where d: "Decode (prog ! i) = Some b" and ok: "ValidOperands (length prog) i b"
    using v step.hyps by (auto simp: ValidInst_def split: option.splits)
  have u: "unat (of_nat i :: u32) = i" using step.hyps n by (simp add: unat_of_nat)
  have "built ?pos (Suc i) Map.empty (sym_code prog i) ?e"
    by (rule built_bind_jump [OF step.prems u]) (use inst_pos_le [of prog i] n step.hyps u in \<open>simp_all add: inst_pos_def\<close>)
  from HandleInst_built [OF this d ok _ order_refl] n
  obtain e1 where h: "HandleInst False (of_nat i) (of_nat (length prog)) (prog ! i) ?e = Some e1"
    and b1: "built ?pos (Suc i) Map.empty (sym_code prog (Suc i)) e1" by (auto simp: sym_code_Suc d)
  have "length (ConstPool e1) \<le> Suc (length (ConstPool e))" using pool_grows_by_one [OF h] by (simp add: Bind_refs)
  then show ?case using step.IH [OF b1] h step.hyps by (auto simp: Cons_nth_drop_Suc [symmetric])
qed

section \<open>The constant pool\<close>

fun pool_pos :: "(u32 \<Rightarrow> nat option) \<Rightarrow> nat \<Rightarrow> u32 list \<Rightarrow> u32 \<Rightarrow> nat option" where
  "pool_pos cb c [] = cb"
| "pool_pos cb c (k # ks) = pool_pos (cb(k \<mapsto> c)) (Suc c) ks"

lemma pool_pos_other: "k \<notin> set ks \<Longrightarrow> pool_pos cb c ks k = cb k"
  by (induction ks arbitrary: cb c) auto

lemma pool_pos_at: "distinct ks \<Longrightarrow> j < length ks \<Longrightarrow> pool_pos cb c ks (ks ! j) = Some (c + j)"
proof (induction ks arbitrary: cb c j)
  case (Cons k ks) then show ?case by (cases j) (simp_all add: pool_pos_other)
qed simp

lemma EmitConstPool_built:
  assumes "built pos nb cb S e" "distinct ks" "\<forall>k \<in> set ks. cb k = None" "length S + length ks \<le> 262143"
  shows "built pos nb (pool_pos cb (length S) ks) (S @ map (\<lambda>k. Plain (I_DATA k)) ks) (EmitConstPool ks e) \<and>
    fst ` set (ConstPool (EmitConstPool ks e)) = fst ` set (ConstPool e)"
  using assms
proof (induction ks arbitrary: cb S e)
  case (Cons k ks)
  let ?e = "emit (I_DATA k) (Bind (label_refs (ConstPool e) k) e)"
  have "built pos nb (cb(k \<mapsto> length S)) (S @ [Plain (I_DATA k)]) ?e"
    using Cons.prems by (intro built_emit built_bind_const) auto
  moreover have "\<forall>k' \<in> set ks. (cb(k \<mapsto> length S)) k' = None" using Cons.prems by auto
  ultimately show ?case using Cons.IH [of "cb(k \<mapsto> length S)" "S @ [Plain (I_DATA k)]" ?e] Cons.prems(2,4)
    by (simp add: Bind_refs del: fun_upd_apply)
qed simp

end
