(* ===== verification/BPFPasses.thy ===== *)
theory BPFPasses
  imports BPFBuild
begin

text \<open>
  Both passes of the emitter accept the same filters and count the same instructions and constants; which filters that is.
\<close>

section \<open>The size\<close>

definition passes :: "BPFEmitter \<Rightarrow> BPFEmitter \<Rightarrow> bool" where
  "passes e1 e2 \<longleftrightarrow> map fst (ConstPool e1) = map fst (ConstPool e2) \<and> OpSize e1 = of_nat (4 * length (CodeBuffer e2))"

definition emits_one :: "(BPFEmitter \<Rightarrow> BPFEmitter) \<Rightarrow> bool" where
  "emits_one x \<longleftrightarrow> (\<forall>e. map fst (ConstPool (x e)) = map fst (ConstPool e) \<and> length (CodeBuffer (x e)) = Suc (length (CodeBuffer e)))"

lemma emits_one [simp, intro!]: "emits_one (emit a)" "emits_one (ldr_label r k)" "emits_one (b_label T)" "emits_one (bc_label c T)"
  by (simp_all add: emits_one_def emit_def ldr_label_def b_label_def bc_label_def)

lemma passes_EMIT [intro!]: "passes e1 e2 \<Longrightarrow> emits_one x \<Longrightarrow> passes (EMIT_INST True x e1) (x e2)"
  by (simp add: passes_def emits_one_def EMIT_INST_def)

lemma passes_const [intro!]:
  assumes "passes e1 e2"
  shows "passes (UseConst k e1) (UseConst k e2)"
proof -
  have k: "map fst (try_emplace k xs) = (if k \<in> set (map fst xs) then map fst xs else map fst xs @ [k])" for xs
    by (auto simp: try_emplace_def map_of_eq_None_iff)
  have "map fst (try_emplace k (ConstPool e1)) = map fst (try_emplace k (ConstPool e2))"
    using assms unfolding passes_def k by (simp only:)
  then show ?thesis using assms by (simp add: passes_def UseConst_def)
qed

lemma passes_label [intro!]: "passes e1 e2 \<Longrightarrow> passes (UseJumpLabel True T e1) (UseJumpLabel False T' e2)"
  by (simp add: passes_def UseJumpLabel_def)

lemma passes_bind [intro!]: "passes e1 e2 \<Longrightarrow> passes (BindJumpLabel True i e1) (BindJumpLabel False j e2)"
proof -
  have "length (fold (BindReference c) rs buf) = length buf" for c rs buf
    by (induction rs arbitrary: buf) (simp_all add: BindReference_def Let_def)
  then show "passes e1 e2 \<Longrightarrow> ?thesis" by (simp add: passes_def BindJumpLabel_def Bind_def split: option.split)
qed

lemma HandleLoad_passes: "passes e1 e2 \<Longrightarrow> rel_option passes (HandleLoad True Inst e1) (HandleLoad False Inst e2)"
  by (auto simp: HandleLoad_def Let_def)

lemma HandleStore_passes: "passes e1 e2 \<Longrightarrow> rel_option passes (HandleStore True Inst e1) (HandleStore False Inst e2)"
  by (auto simp: HandleStore_def Let_def)

lemma rel_if:
  "(c \<Longrightarrow> rel_option R a b) \<Longrightarrow> (\<not> c \<Longrightarrow> rel_option R a' b') \<Longrightarrow> rel_option R (if c then a else a') (if c then b else b')"
  by simp

lemma HandleALU_passes: "passes e1 e2 \<Longrightarrow> rel_option passes (HandleALU True Inst e1) (HandleALU False Inst e2)"
  by (cases "BPF_SRC (InstCode Inst) = BPF_K";
      simp only: HandleALU_def Let_def if_True if_False prod.case EMIT_INST_False;
      intro rel_if) auto

lemma HandleJmp_passes: "passes e1 e2 \<Longrightarrow> rel_option passes (HandleJmp True i n Inst e1) (HandleJmp False i n Inst e2)"
  by (cases "BPF_SRC (InstCode Inst) = BPF_K"; cases "BPF_OP (InstCode Inst) = BPF_JEQ"; cases "BPF_OP (InstCode Inst) = BPF_JGT";
      cases "BPF_OP (InstCode Inst) = BPF_JGE";
      simp only: HandleJmp_def Let_def if_True if_False prod.case EMIT_INST_False;
      intro rel_if) auto

lemma HandleRet_passes: "passes e1 e2 \<Longrightarrow> rel_option passes (HandleRet True Inst e1) (HandleRet False Inst e2)"
  by (auto simp: HandleRet_def Let_def)

lemma HandleMisc_passes: "passes e1 e2 \<Longrightarrow> rel_option passes (HandleMisc True Inst e1) (HandleMisc False Inst e2)"
  by (auto simp: HandleMisc_def Let_def)

lemma HandleInst_passes: "passes e1 e2 \<Longrightarrow> rel_option passes (HandleInst True i n Inst e1) (HandleInst False i n Inst e2)"
  by (simp add: HandleInst_def Let_def HandleLoad_passes HandleStore_passes HandleALU_passes HandleJmp_passes
      HandleRet_passes HandleMisc_passes)

lemma EmissionLoop_passes:
  "passes e1 e2 \<Longrightarrow> rel_option passes (EmissionLoop True n i Insts e1) (EmissionLoop False n i Insts e2)"
proof (induction Insts arbitrary: i e1 e2)
  case (Cons Inst Insts)
  have "rel_option passes (HandleInst True (of_nat i) n Inst (BindJumpLabel True (of_nat i) e1))
      (HandleInst False (of_nat i) n Inst (BindJumpLabel False (of_nat i) e2))"
    by (intro HandleInst_passes passes_bind Cons.prems)
  then show ?case by cases (simp_all add: Cons.IH)
qed simp

lemma EmitConstPool_length: "length (CodeBuffer (EmitConstPool ks e)) = length (CodeBuffer e) + length ks"
proof (induction ks arbitrary: e)
  case (Cons k ks)
  have "length (fold (BindReference c) rs buf) = length buf" for c rs buf
    by (induction rs arbitrary: buf) (simp_all add: BindReference_def Let_def)
  then show ?case by (simp add: Cons.IH emit_def Bind_def split: option.split)
qed simp

text \<open>What \<open>JITFilter\<close> does, by the second pass alone.\<close>

lemma JITFilter_second_pass:
  assumes "\<And>xs. length (Order xs) = length xs"
  shows "JITFilter Order prog =
    (case EmissionLoop False (of_nat (length prog)) 0 prog no_code of
       None \<Rightarrow> Inl EINVAL
     | Some e \<Rightarrow>
        let code = CodeBuffer (EmitConstPool (Order (map fst (ConstPool e))) e) in Inr (of_nat (4 * length code), code))"
proof -
  let ?n = "of_nat (length prog) :: u32"
  have "passes no_code no_code" by (simp add: passes_def no_code_def)
  from EmissionLoop_passes [OF this, of ?n 0 prog] show ?thesis
  proof cases
    case None then show ?thesis by (simp add: JITFilter_def CalculateSize_def)
  next
    case (Some e1 e2)
    have "length (ConstPool e1) = length (ConstPool e2)" using Some(3) by (metis passes_def length_map)
    then show ?thesis using Some by (simp add: JITFilter_def CalculateSize_def EmitConstPool_length assms passes_def Let_def)
  qed
qed

section \<open>The filters that are accepted\<close>

text \<open>A jump whose target wraps around 32 bits is one backward, or to itself.\<close>

definition BackwardJump :: "nat \<Rightarrow> sock_filter \<Rightarrow> bool" where
  "BackwardJump i Inst = (case Decode Inst of Some (JumpAlways k) \<Rightarrow> 2 ^ 32 \<le> i + unat k + 1 | _ \<Rightarrow> False)"

abbreviation refuses :: "nat \<Rightarrow> nat \<Rightarrow> BPFInst option \<Rightarrow> bool" where
  "refuses n i d \<equiv> (case d of None \<Rightarrow> True | Some b \<Rightarrow> \<not> ValidOperands n i b)"

lemma word_less_16: "k < 16 \<longleftrightarrow> unat k < 16" for k :: u32
  by (simp add: word_less_nat_alt)

lemma word_in_data: "k AND 3 = 0 \<and> k < sizeof_seccomp_data \<longleftrightarrow> 4 dvd unat k \<and> unat k < 64" for k :: u32
proof -
  have "k AND 3 = 0 \<longleftrightarrow> unat (k AND 3) = 0" by (simp only: unat_eq_zero)
  then show ?thesis by (auto simp: unat_and_3 sizeof_seccomp_data_def word_less_nat_alt)
qed

lemma jump_target_less:
  fixes k :: u32
  assumes "i < n" "n \<le> 2 ^ 16"
  shows "of_nat i + k + 1 < (of_nat n :: u32) \<longleftrightarrow> i + unat k + 1 < n \<or> 2 ^ 32 \<le> i + unat k + 1"
proof -
  have k: "unat k < 2 ^ 32" using unsigned_less [of k, where 'a = nat] by simp
  have "unat (of_nat i + k + 1 :: u32) = (i + unat k + 1) mod 2 ^ 32"
  proof -
    have "of_nat i + k + 1 = (of_nat (i + unat k + 1) :: u32)" by simp
    then show ?thesis by (simp add: unat_of_nat del: of_nat_add of_nat_Suc)
  qed
  moreover have "unat (of_nat n :: u32) = n" using assms by (simp add: unat_of_nat)
  moreover have "(i + unat k + 1) mod 2 ^ 32 = (if i + unat k + 1 < 2 ^ 32 then i + unat k + 1 else i + unat k + 1 - 2 ^ 32)"
    using assms k by (simp add: mod_if le_mod_geq)
  ultimately show ?thesis using assms k by (auto simp: word_less_nat_alt)
qed

lemma short_target_less:
  fixes t :: u8
  assumes "i < n" "n \<le> 2 ^ 16"
  shows "of_nat i + ucast t + 1 < (of_nat n :: u32) \<longleftrightarrow> i + unat t + 1 < n"
proof -
  have "unat t < 2 ^ 8" using unsigned_less [of t, where 'a = nat] by simp
  then show ?thesis using jump_target_less [OF assms, of "ucast t"] assms by simp
qed

lemma HandleLoad_refuses: "HandleLoad C Inst e = None \<longleftrightarrow> refuses n i (DecodeLoad r Inst)"
  using word_in_data [of "InstK Inst"] by (auto simp: HandleLoad_def DecodeLoad_def Let_def word_less_16)

lemma HandleStore_refuses: "HandleStore C Inst e = None \<longleftrightarrow> \<not> (BPF_SIZE (InstCode Inst) = BPF_W \<and> unat (InstK Inst) < 16)"
  by (auto simp: HandleStore_def word_less_16)

lemma HandleALU_refuses: "HandleALU C Inst e = None \<longleftrightarrow> refuses n i (DecodeALU Inst)"
proof (cases "BPF_OP (InstCode Inst) \<in> {BPF_ADD, BPF_SUB, BPF_MUL, BPF_DIV, BPF_OR, BPF_AND, BPF_LSH, BPF_RSH, BPF_MOD, BPF_XOR}")
  case True
  then show ?thesis unfolding HandleALU_def DecodeALU_def Let_def
    by (elim insertE emptyE) (simp_all add: bpf_values split: prod.split)
next
  case False then show ?thesis by (simp add: HandleALU_def DecodeALU_def)
qed

lemma HandleJmp_refuses:
  assumes "i < n" "n \<le> 2 ^ 16"
  shows "HandleJmp C (of_nat i) (of_nat n) Inst e = None \<longleftrightarrow>
    refuses n i (DecodeJmp Inst) \<and> \<not> (case DecodeJmp Inst of Some (JumpAlways k) \<Rightarrow> 2 ^ 32 \<le> i + unat k + 1 | _ \<Rightarrow> False)"
proof (cases "BPF_OP (InstCode Inst) \<in> {BPF_JEQ, BPF_JGT, BPF_JGE, BPF_JSET}")
  case True
  then show ?thesis unfolding HandleJmp_def DecodeJmp_def Let_def
    by (elim insertE emptyE) (simp_all add: bpf_values short_target_less [OF assms] split: prod.split)
next
  case False
  then show ?thesis using jump_target_less [OF assms, of "InstK Inst"] by (auto simp: HandleJmp_def DecodeJmp_def Let_def)
qed

lemma HandleInst_refuses:
  assumes "i < n" "n \<le> 2 ^ 16"
  shows "HandleInst C (of_nat i) (of_nat n) Inst e = None \<longleftrightarrow> \<not> (ValidInst n i Inst \<or> BackwardJump i Inst)"
proof -
  have load: "DecodeLoad r Inst \<noteq> Some (JumpAlways k)" for r k by (auto simp: DecodeLoad_def Let_def split: if_splits)
  have alu: "DecodeALU Inst \<noteq> Some (JumpAlways k)" for k by (auto simp: DecodeALU_def Let_def split: if_splits)
  have V: "ValidInst n i Inst \<longleftrightarrow> \<not> refuses n i (Decode Inst)" by (simp add: ValidInst_def split: option.split)
  consider "BPF_CLASS (InstCode Inst) = BPF_LD" | "BPF_CLASS (InstCode Inst) = BPF_LDX" | "BPF_CLASS (InstCode Inst) = BPF_ST"
    | "BPF_CLASS (InstCode Inst) = BPF_STX" | "BPF_CLASS (InstCode Inst) = BPF_ALU" | "BPF_CLASS (InstCode Inst) = BPF_JMP"
    | "BPF_CLASS (InstCode Inst) = BPF_RET"
    | "BPF_CLASS (InstCode Inst) \<notin> {BPF_LD, BPF_LDX, BPF_ST, BPF_STX, BPF_ALU, BPF_JMP, BPF_RET}" by blast
  then show ?thesis
  proof cases
    case 1
    then have "Decode Inst = DecodeLoad RegA Inst" by (simp add: Decode_def)
    then show ?thesis using 1 HandleLoad_refuses [of C Inst e n i RegA] load [of RegA]
      by (auto simp: V BackwardJump_def HandleInst_def split: option.splits BPFInst.splits)
  next
    case 2
    then have "Decode Inst = DecodeLoad RegX Inst" by (simp add: Decode_def bpf_values)
    then show ?thesis using 2 HandleLoad_refuses [of C Inst e n i RegX] load [of RegX]
      by (auto simp: V BackwardJump_def HandleInst_def split: option.splits BPFInst.splits)
  next
    case 3 then show ?thesis
      by (simp add: V BackwardJump_def HandleInst_def Decode_def HandleStore_refuses) (simp add: bpf_values)
  next
    case 4 then show ?thesis
      by (simp add: V BackwardJump_def HandleInst_def Decode_def HandleStore_refuses) (simp add: bpf_values)
  next
    case 5
    then have "Decode Inst = DecodeALU Inst" by (simp add: Decode_def bpf_values)
    moreover have "HandleInst C (of_nat i) (of_nat n) Inst e = HandleALU C Inst e" using 5 by (simp add: HandleInst_def bpf_values)
    ultimately show ?thesis using HandleALU_refuses [of C Inst e n i] alu
      by (auto simp: V BackwardJump_def split: option.splits BPFInst.splits)
  next
    case 6
    then have "Decode Inst = DecodeJmp Inst" by (simp add: Decode_def bpf_values)
    moreover have "HandleInst C (of_nat i) (of_nat n) Inst e = HandleJmp C (of_nat i) (of_nat n) Inst e"
      using 6 by (simp add: HandleInst_def bpf_values)
    ultimately show ?thesis using HandleJmp_refuses [OF assms, of C Inst e] by (simp add: V BackwardJump_def)
  next
    case 7
    then show ?thesis by (simp add: V BackwardJump_def HandleInst_def Decode_def HandleRet_def Let_def) (simp add: bpf_values)
  next
    case 8
    then show ?thesis by (simp add: V BackwardJump_def HandleInst_def Decode_def HandleMisc_def Let_def)
  qed
qed

lemma EmissionLoop_refuses:
  assumes n: "length prog \<le> 2 ^ 16" and i: "i \<le> length prog"
  shows "EmissionLoop C (of_nat (length prog)) i (drop i prog) e = None \<longleftrightarrow>
    (\<exists>j < length prog. i \<le> j \<and> \<not> (ValidInst (length prog) j (prog ! j) \<or> BackwardJump j (prog ! j)))"
  using i
proof (induction i arbitrary: e rule: inc_induct)
  case base then show ?case by simp
next
  case (step i)
  let ?h = "HandleInst C (of_nat i) (of_nat (length prog)) (prog ! i) (BindJumpLabel C (of_nat i) e)"
  have h: "?h = None \<longleftrightarrow> \<not> (ValidInst (length prog) i (prog ! i) \<or> BackwardJump i (prog ! i))"
    using HandleInst_refuses [OF step.hyps(2) n] .
  have d: "drop i prog = prog ! i # drop (Suc i) prog" using step.hyps by (simp add: Cons_nth_drop_Suc)
  have split: "(\<exists>j < length prog. i \<le> j \<and> P j) \<longleftrightarrow> P i \<or> (\<exists>j < length prog. Suc i \<le> j \<and> P j)" for P
    using step.hyps by (metis Suc_le_eq le_less order_refl)
  show ?case
  proof (cases ?h)
    case None then show ?thesis using h step.hyps by (auto simp: d)
  next
    case (Some e1) then show ?thesis using h step.IH [of e1] by (subst split) (simp add: d)
  qed
qed

section \<open>How much is emitted\<close>

lemma HandleInst_grows:
  "HandleInst False i n Inst e = Some e' \<Longrightarrow> length (CodeBuffer e') \<le> length (CodeBuffer e) + 4"
  unfolding HandleInst_def HandleLoad_def HandleStore_def HandleALU_def HandleJmp_def HandleRet_def HandleMisc_def Let_def
  by (auto simp: emit_def ldr_label_def b_label_def bc_label_def UseConst_def UseJumpLabel_def split: if_splits)

lemma EmissionLoop_grows:
  "EmissionLoop False n i Insts e = Some e' \<Longrightarrow>
    length (CodeBuffer e') + length (ConstPool e') \<le> length (CodeBuffer e) + length (ConstPool e) + 5 * length Insts"
proof (induction Insts arbitrary: i e)
  case (Cons Inst Insts)
  let ?e = "BindJumpLabel False (of_nat i) e"
  obtain e1 where h: "HandleInst False (of_nat i) n Inst ?e = Some e1" and l: "EmissionLoop False n (Suc i) Insts e1 = Some e'"
    using Cons.prems by (auto simp: bind_eq_Some_conv)
  have "length (fold (BindReference c) rs buf) = length buf" for c rs buf
    by (induction rs arbitrary: buf) (simp_all add: BindReference_def Let_def)
  then have "length (CodeBuffer ?e) = length (CodeBuffer e)" "ConstPool ?e = ConstPool e" by (simp_all add: Bind_refs Bind_def)
  then show ?case using Cons.IH [OF l] HandleInst_grows [OF h] pool_grows_by_one [OF h] by simp
qed simp

end
