(* ===== verification/BPFProperties.thy ===== *)
theory BPFProperties
  imports BPFPasses "HOL-Library.Multiset"
begin

text \<open>
  The code of a filter does on the host what the filter means, and its size is the one that was calculated; the properties
  of the emitter, their witnesses, and the filters on which it is not what Linux does.
\<close>

section \<open>Finished code\<close>

text \<open>The instructions at a position of finished code; \<open>pos\<close> gives the positions of the instructions of the filter.\<close>

fun resolves :: "(nat \<Rightarrow> nat) \<Rightarrow> ArmInst list \<Rightarrow> int \<Rightarrow> SymInst \<Rightarrow> bool" where
  "resolves pos code p (Plain a) \<longleftrightarrow> CodeAt code p = Some a"
| "resolves pos code p (SymB T) \<longleftrightarrow> CodeAt code p = Some (I_B (int (pos (unat T)) - p))"
| "resolves pos code p (SymBC c T) \<longleftrightarrow> CodeAt code p = Some (I_BC c (int (pos (unat T)) - p))"
| "resolves pos code p (SymLdr r k) \<longleftrightarrow> (\<exists>d. CodeAt code p = Some (I_LDRLIT r d) \<and> CodeAt code (p + d) = Some (I_DATA k))"

fun code_has :: "(nat \<Rightarrow> nat) \<Rightarrow> ArmInst list \<Rightarrow> int \<Rightarrow> SymInst list \<Rightarrow> bool" where
  "code_has pos code p [] \<longleftrightarrow> True"
| "code_has pos code p (x # xs) \<longleftrightarrow> resolves pos code p x \<and> code_has pos code (p + 1) xs"

lemma code_has_append [simp]:
  "code_has pos code p (xs @ ys) \<longleftrightarrow> code_has pos code p xs \<and> code_has pos code (p + int (length xs)) ys"
  by (induction xs arbitrary: p) (auto simp: algebra_simps)

lemma code_hasI: "(\<And>j. j < length xs \<Longrightarrow> resolves pos code (p + int j) (xs ! j)) \<Longrightarrow> code_has pos code p xs"
proof (induction xs arbitrary: p)
  case (Cons x xs)
  have "code_has pos code (p + 1) xs"
    by (rule Cons.IH) (use Cons.prems [of "Suc _"] in \<open>simp add: algebra_simps\<close>)
  then show ?case using Cons.prems [of 0] by simp
qed simp

lemma CodeAt_nat: "CodeAt code (int p) = (if p < length code then Some (code ! p) else None)"
  by (simp add: CodeAt_def)

lemma template_targets:
  assumes "ValidOperands n i b" "n < 2 ^ 32" "SymB T \<in> set (template (of_nat i) b) \<or> SymBC c T \<in> set (template (of_nat i) b)"
  shows "unat T < n"
proof -
  have "SymB T \<notin> set (operand_load x) \<and> SymBC c T \<notin> set (operand_load x)" for x by (cases x) simp_all
  then show ?thesis using assms target_unat [of i _ n] by (cases b) auto
qed

lemma JITFilter_code:
  assumes n: "length prog \<le> 4096" and v: "\<forall>i < length prog. ValidInst (length prog) i (prog ! i)"
    and Order: "\<And>xs. mset (Order xs) = mset xs"
  shows "\<exists>code. JITFilter Order prog = Inr (of_nat (4 * length code), code) \<and>
    code_has (inst_pos prog) code 0 (sym_code prog (length prog))"
proof -
  let ?pos = "\<lambda>T. inst_pos prog (unat T)" and ?n = "length prog"
  let ?S = "sym_code prog ?n"
  have "built ?pos 0 Map.empty (sym_code prog 0) no_code" by (simp add: built_def no_code_def label_refs_def sym_code_def)
  from EmissionLoop_built [OF n v _ this] obtain e
    where e: "EmissionLoop False (of_nat ?n) 0 prog no_code = Some e" and b: "built ?pos ?n Map.empty ?S e"
      and len: "length (ConstPool e) \<le> ?n" by (auto simp: no_code_def)
  let ?ks = "Order (map fst (ConstPool e))"
  let ?e = "EmitConstPool ?ks e" and ?cb = "pool_pos Map.empty (length ?S) ?ks"
  have ks: "distinct ?ks" "set ?ks = fst ` set (ConstPool e)"
    using b Order [of "map fst (ConstPool e)"] by (metis built_def mset_eq_imp_distinct_iff, metis list.set_map mset_eq_setD)
  have lk: "length ?ks = length (ConstPool e)" using mset_eq_length [OF Order] by simp
  have "length ?S \<le> 4 * ?n" using inst_pos_le [of prog ?n] by (simp add: inst_pos_def)
  then have B: "built ?pos ?n ?cb (?S @ map (\<lambda>k. Plain (I_DATA k)) ?ks) ?e" and keys: "fst ` set (ConstPool ?e) = set ?ks"
    using EmitConstPool_built [OF b ks(1)] len lk n ks(2) by auto
  let ?code = "CodeBuffer ?e"
  have cl: "length ?code = length ?S + length ?ks" using B by (simp add: built_def)
  have slot: "slot_ok ?pos ?n ?cb ?e p ((?S @ map (\<lambda>k. Plain (I_DATA k)) ?ks) ! p)" if "p < length ?S + length ?ks" for p
    using B that by (simp add: built_def)
  have data: "?code ! (length ?S + j) = I_DATA (?ks ! j)" if "j < length ?ks" for j
    using slot [of "length ?S + j"] that by (simp add: nth_append)
  have "resolves (inst_pos prog) ?code (int p) (?S ! p)" if p: "p < length ?S" for p
  proof -
    have s: "slot_ok ?pos ?n ?cb ?e p (?S ! p)" using slot [of p] p by (simp add: nth_append)
    have at: "CodeAt ?code (int p) = Some (?code ! p)" using p cl by (simp add: CodeAt_def)
    have "?S ! p \<in> set ?S" using p by simp
    then obtain i where i: "i < ?n" "?S ! p \<in> set (template (of_nat i) (the (Decode (prog ! i))))"
      by (auto simp: sym_code_def)
    moreover obtain d where "Decode (prog ! i) = Some d" "ValidOperands ?n i d"
      using v i(1) by (auto simp: ValidInst_def split: option.splits)
    ultimately have t: "?S ! p = SymB T \<or> ?S ! p = SymBC c T \<Longrightarrow> unat T < ?n" for T c
      using template_targets [of ?n i d T c] n by auto
    show ?thesis
    proof (cases "?S ! p")
      case (SymLdr r k)
      then have "k \<in> set ?ks" using s keys by simp
      then obtain j where j: "j < length ?ks" "?ks ! j = k" by (metis in_set_conv_nth)
      then have "?cb k = Some (length ?S + j)" using pool_pos_at [OF ks(1) j(1)] by simp
      then have "?code ! p = I_LDRLIT r (int (length ?S + j) - int p)" using s SymLdr by simp
      moreover have "CodeAt ?code (int (length ?S + j)) = Some (I_DATA k)" using data [OF j(1)] j cl by (simp add: CodeAt_nat del: of_nat_add)
      ultimately show ?thesis using at SymLdr by simp
    qed (use s at t in auto)
  qed
  then have "code_has (inst_pos prog) ?code 0 ?S" by (intro code_hasI) simp
  moreover have "JITFilter Order prog = Inr (of_nat (4 * length ?code), ?code)"
    using JITFilter_second_pass [of Order prog] mset_eq_length [OF Order] e by (simp add: Let_def)
  ultimately show ?thesis by blast
qed

section \<open>One instruction\<close>

definition matches :: "(nat \<Rightarrow> nat) \<Rightarrow> u32 list \<Rightarrow> BPFState \<Rightarrow> ArmState \<Rightarrow> bool" where
  "matches pos D s a \<longleftrightarrow> Regs a W0 = RegisterA s \<and> Regs a W1 = RegisterX s \<and> Memory a = D @ Scratch s \<and>
    Pc a = int (pos (Position s)) \<and> length (Scratch s) = 16 \<and> length D = 16"

lemma ArmStep_resolved:
  "resolves pos code (Pc a) (Plain i) \<Longrightarrow> ArmStep code a = ArmExec code i a"
  "resolves pos code (Pc a) (SymLdr r k) \<Longrightarrow> ArmStep code a = set_reg r k a"
  "resolves pos code (Pc a) (SymB T) \<Longrightarrow> ArmStep code a = A_Running (a\<lparr>Pc := int (pos (unat T))\<rparr>)"
  "resolves pos code (Pc a) (SymBC c T) \<Longrightarrow>
     ArmStep code a = (if CondHolds c a then A_Running (a\<lparr>Pc := int (pos (unat T))\<rparr>) else next_pc a)"
  by (auto simp: ArmStep_def split: option.splits)

lemmas arm_simps = ArmStep_resolved set_reg_def next_pc_def matches_def

text \<open>What the host does for an instruction: at most four steps to the state that matches.\<close>

definition follows :: "(nat \<Rightarrow> nat) \<Rightarrow> u32 list \<Rightarrow> ArmInst list \<Rightarrow> ArmState \<Rightarrow> BPFOutcome \<Rightarrow> nat \<Rightarrow> bool" where
  "follows pos D code a y m \<longleftrightarrow>
    (case y of
       B_Running s' \<Rightarrow> (case ArmRun code m a of A_Running a' \<Rightarrow> matches pos D s' a' | _ \<Rightarrow> False)
     | B_Returned v \<Rightarrow> ArmRun code m a = A_Returned v
     | _ \<Rightarrow> True)"

lemma operand_loaded:
  assumes "matches pos D s a" "code_has pos code (Pc a) (operand_load x)"
  shows "\<exists>a'. ArmRun code (length (operand_load x)) a = A_Running a' \<and> Regs a' (operand_reg x) = Operand2 s x \<and>
    matches pos D s (a'\<lparr>Pc := Pc a\<rparr>) \<and> Pc a' = Pc a + int (length (operand_load x))"
  using assms by (cases x) (auto simp: arm_simps Operand2_def)

lemma alu_runs:
  assumes "matches pos D s (a\<lparr>Pc := p\<rparr>)" "r = W1 \<or> r = W2" "code_has pos code (Pc a) (map Plain (alu_insts op r))"
    "\<not> ((op = OpDiv \<or> op = OpMod) \<and> Regs a r = 0)"
  shows "\<exists>a'. ArmRun code (length (alu_insts op r)) a = A_Running a' \<and> Regs a' W0 = AluResult op (RegisterA s) (Regs a r) \<and>
    Regs a' W1 = RegisterX s \<and> Memory a' = D @ Scratch s \<and> Pc a' = Pc a + int (length (alu_insts op r))"
  using assms by (cases op) (auto simp: arm_simps minus_div_mult_eq_mod)

lemma ArmRun_add:
  "ArmRun code (m + k) a = (case ArmRun code m a of A_Running a' \<Rightarrow> ArmRun code k a' | y \<Rightarrow> y)"
  by (induction m arbitrary: a) (simp_all split: ArmOutcome.split)

lemma ExecInst_followed:
  assumes m: "matches pos D s a" and c: "code_has pos code (Pc a) (template (of_nat i) b)"
    and i: "i = Position s" and v: "ValidOperands n i b" and n: "n \<le> 4096"
    and nx: "pos (Suc i) = pos i + length (template (of_nat i) b)"
  shows "\<exists>k \<le> 4. follows pos D code a (ExecInst D b s) k"
proof (cases b)
  case (LoadImm r k)
  then show ?thesis using m c nx i
    by (intro exI [of _ "Suc 0"]; cases r) (simp_all add: follows_def arm_simps Forward_def arm_reg_def)
next
  case (LoadAbs r k)
  then show ?thesis using m c nx i v
    by (intro exI [of _ "Suc 0"]; cases r) (auto simp: follows_def arm_simps Forward_def arm_reg_def nth_append)
next
  case (LoadMem r k)
  then show ?thesis using m c nx i v
    by (intro exI [of _ "Suc 0"]; cases r)
       (auto simp: follows_def arm_simps Forward_def arm_reg_def nth_append ScratchOffset_def sizeof_seccomp_data_def)
next
  case (LoadLen r)
  then show ?thesis using m c nx i
    by (intro exI [of _ "Suc 0"]; cases r) (simp_all add: follows_def arm_simps Forward_def arm_reg_def)
next
  case (StoreMem r k)
  then show ?thesis using m c nx i v
    by (intro exI [of _ "Suc 0"]; cases r)
       (auto simp: follows_def arm_simps Forward_def arm_reg_def list_update_append ScratchOffset_def sizeof_seccomp_data_def)
next
  case (Alu op x)
  let ?l = "length (operand_load x)" and ?m = "length (alu_insts op (operand_reg x))"
  have len: "?l + ?m \<le> 4" using template_length(2) [of "of_nat i" b] Alu by simp
  obtain a1 where a1: "ArmRun code ?l a = A_Running a1" "Regs a1 (operand_reg x) = Operand2 s x"
    "matches pos D s (a1\<lparr>Pc := Pc a\<rparr>)" "Pc a1 = Pc a + int ?l"
    using operand_loaded [OF m, of code x] c Alu by auto
  show ?thesis
  proof (cases "(op = OpDiv \<or> op = OpMod) \<and> Operand2 s x = 0")
    case True then show ?thesis using Alu by (auto simp: follows_def)
  next
    case False
    have r: "operand_reg x = W1 \<or> operand_reg x = W2" by (cases x) simp_all
    obtain a2 where a2: "ArmRun code ?m a1 = A_Running a2" "Regs a2 W0 = AluResult op (RegisterA s) (Operand2 s x)"
      "Regs a2 W1 = RegisterX s" "Memory a2 = D @ Scratch s" "Pc a2 = Pc a1 + int ?m"
      using alu_runs [OF a1(3) r, of code op] a1(2,4) False c Alu by auto
    have "ArmRun code (?l + ?m) a = A_Running a2" using a1(1) a2(1) by (simp add: ArmRun_add)
    then have "follows pos D code a (ExecInst D b s) (?l + ?m)"
      using False Alu a1(4) a2 m nx i by (auto simp: follows_def Forward_def matches_def)
    then show ?thesis using len by blast
  qed
next
  case (JumpIf cmp x t f)
  let ?l = "length (operand_load x)"
  obtain a1 where a1: "ArmRun code ?l a = A_Running a1" "Regs a1 (operand_reg x) = Operand2 s x"
    "matches pos D s (a1\<lparr>Pc := Pc a\<rparr>)" "Pc a1 = Pc a + int ?l"
    using operand_loaded [OF m, of code x] c JumpIf by auto
  have l: "?l \<le> 1" by (cases x) simp_all
  have T: "unat (of_nat i + ucast t + 1 :: u32) = i + unat t + 1" "unat (of_nat i + ucast f + 1 :: u32) = i + unat f + 1"
    using target_unat [of i "ucast t" n] target_unat [of i "ucast f" n] v n JumpIf by simp_all
  have h: "CondHolds (compare_cond cmp) (a1\<lparr>FlagZ := z, FlagC := w, Pc := q\<rparr>) = Compares cmp (RegisterA s) (Operand2 s x)"
    if "(z, w) = (case cmp of CmpSet \<Rightarrow> (RegisterA s AND Operand2 s x = 0, False)
      | _ \<Rightarrow> (RegisterA s = Operand2 s x, Operand2 s x \<le> RegisterA s))" for z w q
    using that by (cases cmp) (auto simp: less_le)
  have step: "\<exists>a2. ArmStep code a1 = A_Running a2 \<and> Regs a2 = Regs a1 \<and> Memory a2 = Memory a1 \<and> Pc a2 = Pc a1 + 1 \<and>
      CondHolds (compare_cond cmp) a2 = Compares cmp (RegisterA s) (Operand2 s x)"
    using a1 c JumpIf by (cases cmp) (auto simp: arm_simps less_le)
  then obtain a2 where a2: "ArmStep code a1 = A_Running a2" "Regs a2 = Regs a1" "Memory a2 = Memory a1" "Pc a2 = Pc a1 + 1"
      "CondHolds (compare_cond cmp) a2 = Compares cmp (RegisterA s) (Operand2 s x)" by blast
  let ?k = "if Compares cmp (RegisterA s) (Operand2 s x) then 2 else 3 :: nat"
  have "resolves pos code (Pc a2) (SymBC (compare_cond cmp) (of_nat i + ucast t + 1))"
    "resolves pos code (Pc a2 + 1) (SymB (of_nat i + ucast f + 1))"
    using c JumpIf a1(4) a2(4) by (simp_all add: algebra_simps)
  then have "ArmRun code (?l + ?k) a = A_Running (a2\<lparr>Pc := int (pos (i + (if Compares cmp (RegisterA s) (Operand2 s x) then unat t else unat f) + 1))\<rparr>)"
    using a1(1) a2(1,5) T by (simp add: ArmRun_add numeral_2_eq_2 numeral_3_eq_3 ArmStep_resolved next_pc_def)
  then have "follows pos D code a (ExecInst D b s) (?l + ?k)"
    using a1 a2 m i JumpIf by (auto simp: follows_def Forward_def matches_def)
  moreover have "?l + ?k \<le> 4" using l by simp
  ultimately show ?thesis by blast
next
  case (JumpAlways k)
  have "unat (of_nat i + k + 1 :: u32) = i + unat k + 1" using target_unat [of i k n] v n JumpAlways by simp
  then show ?thesis using m c nx i JumpAlways
    by (intro exI [of _ "Suc 0"]) (simp add: follows_def arm_simps Forward_def)
next
  case (ReturnConst k)
  then have "ArmStep code a = set_reg W0 k a" using ArmStep_resolved(2) [of pos code a W0 k] c by simp
  then show ?thesis using m c ReturnConst by (intro exI [of _ 2]) (simp add: follows_def arm_simps numeral_2_eq_2)
next
  case ReturnX
  then show ?thesis using m c by (intro exI [of _ 2]) (simp add: follows_def arm_simps numeral_2_eq_2)
next
  case ReturnA
  then show ?thesis using m c by (intro exI [of _ "Suc 0"]) (simp add: follows_def arm_simps)
qed (use m c nx i in \<open>(intro exI [of _ "Suc 0"]; simp add: follows_def arm_simps Forward_def)+\<close>)

section \<open>Runs\<close>

lemma ArmRun_more: "ArmRun code m a = A_Returned v \<Longrightarrow> m \<le> n \<Longrightarrow> ArmRun code n a = A_Returned v"
  using ArmRun_add [of code m "n - m" a] by simp

lemma code_has_template:
  assumes "code_has (inst_pos prog) code 0 (sym_code prog n)" "i < n" "Decode (prog ! i) = Some b"
  shows "code_has (inst_pos prog) code (int (inst_pos prog i)) (template (of_nat i) b)"
    "inst_pos prog (Suc i) = inst_pos prog i + length (template (of_nat i) b)"
proof -
  obtain ys where "sym_code prog n = sym_code prog (Suc i) @ ys" using sym_code_prefix [of "Suc i" n] assms(2) by auto
  then have "sym_code prog n = sym_code prog i @ template (of_nat i) b @ ys" using assms(3) by (simp add: sym_code_Suc)
  then show "code_has (inst_pos prog) code (int (inst_pos prog i)) (template (of_nat i) b)"
    using assms(1) by (simp add: inst_pos_def)
  show "inst_pos prog (Suc i) = inst_pos prog i + length (template (of_nat i) b)"
    using assms(3) by (simp add: inst_pos_def sym_code_Suc)
qed

lemma BPFRun_followed:
  assumes code: "code_has (inst_pos prog) code 0 (sym_code prog (length prog))" and n: "length prog \<le> 4096"
    and "matches (inst_pos prog) D s a" "BPFRun prog D k s = B_Returned v"
  shows "ArmRun code (4 * k) a = A_Returned v"
  using assms(3,4)
proof (induction k arbitrary: s a)
  case (Suc k)
  obtain b where p: "Position s < length prog" and d: "Decode (prog ! Position s) = Some b"
    and ok: "ValidOperands (length prog) (Position s) b"
    using Suc.prems(2) by (auto simp: BPFStep_def ValidInst_def split: if_splits option.splits)
  have step: "BPFStep prog D s = ExecInst D b s" using p d ok by (simp add: BPFStep_def ValidInst_def)
  have "Pc a = int (inst_pos prog (Position s))" using Suc.prems(1) by (simp add: matches_def)
  with code_has_template [OF code p d]
  obtain m where m: "m \<le> 4" "follows (inst_pos prog) D code a (ExecInst D b s) m"
    using ExecInst_followed [OF Suc.prems(1) _ refl ok n] by auto
  show ?case
  proof (cases "ExecInst D b s")
    case (B_Running s')
    then obtain a' where a': "ArmRun code m a = A_Running a'" "matches (inst_pos prog) D s' a'"
      using m(2) by (auto simp: follows_def split: ArmOutcome.splits)
    have "BPFRun prog D k s' = B_Returned v" using Suc.prems(2) step B_Running by simp
    then have "ArmRun code (m + 4 * k) a = A_Returned v" using Suc.IH [OF a'(2)] a'(1) by (simp add: ArmRun_add)
    then show ?thesis by (rule ArmRun_more) (use m(1) in simp)
  next
    case (B_Returned w)
    then have "ArmRun code m a = A_Returned v" using m(2) Suc.prems(2) step by (simp add: follows_def)
    then show ?thesis by (rule ArmRun_more) (use m(1) in simp)
  qed (use Suc.prems(2) step in simp_all)
qed simp

definition EndsInReturn :: "sock_filter list \<Rightarrow> bool" where
  "EndsInReturn prog \<longleftrightarrow> prog \<noteq> [] \<and>
    (case Decode (last prog) of Some (ReturnConst k) \<Rightarrow> True | Some ReturnX \<Rightarrow> True | Some ReturnA \<Rightarrow> True | _ \<Rightarrow> False)"

lemma BPFStep_forward:
  assumes v: "\<forall>i < length prog. ValidInst (length prog) i (prog ! i)" and r: "EndsInReturn prog" and p: "Position s < length prog"
  shows "(\<exists>s'. BPFStep prog D s = B_Running s' \<and> Position s < Position s' \<and> Position s' < length prog) \<or>
    (\<exists>v. BPFStep prog D s = B_Returned v) \<or> BPFStep prog D s = B_DivideByZero"
proof -
  obtain b where d: "Decode (prog ! Position s) = Some b" and ok: "ValidOperands (length prog) (Position s) b"
    using v p by (auto simp: ValidInst_def split: option.splits)
  have step: "BPFStep prog D s = ExecInst D b s" using p d ok by (simp add: BPFStep_def ValidInst_def)
  have set: "Position (SetReg x w s) = Position s" for x w by (cases x) simp_all
  have last: "Suc (Position s) < length prog" if "b \<notin> range ReturnConst \<union> {ReturnX, ReturnA}"
  proof (rule ccontr)
    assume "\<not> Suc (Position s) < length prog"
    then have "prog ! Position s = last prog" using p by (metis Suc_lessI diff_Suc_1 last_conv_nth list.size(3) not_less0)
    then show False using d r that by (auto simp: EndsInReturn_def split: BPFInst.splits)
  qed
  show ?thesis unfolding step using last ok by (cases b) (auto simp: Forward_def set)
qed

lemma BPFRun_ends:
  assumes v: "\<forall>i < length prog. ValidInst (length prog) i (prog ! i)" and r: "EndsInReturn prog"
    and "Position s < length prog" "length prog - Position s \<le> k"
  shows "(\<exists>v. BPFRun prog D k s = B_Returned v) \<or> BPFRun prog D k s = B_DivideByZero"
  using assms(3,4)
proof (induction k arbitrary: s)
  case (Suc k)
  from BPFStep_forward [OF v r Suc.prems(1), of D] show ?case
  proof (elim disjE exE conjE)
    fix s' assume s': "BPFStep prog D s = B_Running s'" "Position s < Position s'" "Position s' < length prog"
    then show ?thesis using Suc.IH [OF s'(3)] Suc.prems by simp
  qed auto
qed simp

section \<open>An example\<close>

definition filter_inst :: "u16 \<Rightarrow> u8 \<Rightarrow> u8 \<Rightarrow> u32 \<Rightarrow> sock_filter" where
  "filter_inst c t f k = \<lparr>InstCode = c, InstJt = t, InstJf = f, InstK = k\<rparr>"

text \<open>Allow the system call 60 and refuse the others: load of the number, jump if equal, two returns.\<close>

definition allow_exit :: "sock_filter list" where
  "allow_exit = [filter_inst 0x20 0 0 0, filter_inst 0x15 0 1 60, filter_inst 0x06 0 0 0x7fff0000, filter_inst 0x06 0 0 0x80000000]"

lemmas filter_simps = filter_inst_def bpf_fields bpf_values

lemma allow_exit_decodes:
  "map Decode allow_exit = [Some (LoadAbs RegA 0), Some (JumpIf CmpEq (Some 60) 0 1), Some (ReturnConst 0x7fff0000), Some (ReturnConst 0x80000000)]"
  by (simp add: allow_exit_def filter_simps Decode_def DecodeLoad_def DecodeJmp_def ConstOrX_def)

lemma allow_exit_ok:
  "length allow_exit = 4" "EndsInReturn allow_exit" "\<forall>i < length allow_exit. ValidInst (length allow_exit) i (allow_exit ! i)"
proof -
  note d = allow_exit_decodes
  show l: "length allow_exit = 4" by (simp add: allow_exit_def)
  have "last (map Decode allow_exit) = Decode (last allow_exit)" by (simp add: allow_exit_def)
  then show "EndsInReturn allow_exit" using d by (simp add: EndsInReturn_def allow_exit_def)
  have "ValidInst (length allow_exit) i (allow_exit ! i)" if i: "i < 4" for i
  proof -
    have e: "Decode (allow_exit ! i) = map Decode allow_exit ! i" using i l by simp
    have "i = 0 \<or> i = 1 \<or> i = 2 \<or> i = 3" using i by linarith
    then show ?thesis unfolding ValidInst_def e d l by (elim disjE) simp_all
  qed
  then show "\<forall>i < length allow_exit. ValidInst (length allow_exit) i (allow_exit ! i)" by (simp add: l)
qed

lemma allow_exit_step:
  assumes "Position s < 4" "map Decode allow_exit ! Position s = Some b"
  shows "BPFStep allow_exit D s = ExecInst D b s"
  using assms allow_exit_ok(1,3) by (simp add: BPFStep_def)

lemma allow_exit_runs: "BPFRun allow_exit (60 # E) 4 BPFStart = B_Returned 0x7fff0000"
proof -
  have "BPFRun allow_exit (60 # E) (Suc (Suc (Suc n))) BPFStart = B_Returned 0x7fff0000" for n
    by (simp add: allow_exit_step allow_exit_decodes BPFStart_def Forward_def Operand2_def)
  moreover have "4 = Suc (Suc (Suc 1))" by simp
  ultimately show ?thesis by (simp only:)
qed

lemma filter_code_runs:
  assumes "\<forall>xs. mset (Order xs) = mset xs" "length prog \<le> 4096" "EndsInReturn prog"
    "\<forall>i < length prog. ValidInst (length prog) i (prog ! i)" "length D = 16"
  shows "\<exists>FuncSize code. JITFilter Order prog = Inr (FuncSize, code) \<and>
    (BPFRun prog D (length prog) BPFStart = B_DivideByZero \<or>
     (\<exists>v. BPFRun prog D (length prog) BPFStart = B_Returned v \<and> ArmRun code (4 * length prog) (ArmStart D) = A_Returned v))"
proof -
  obtain code where code: "JITFilter Order prog = Inr (of_nat (4 * length code), code)"
    "code_has (inst_pos prog) code 0 (sym_code prog (length prog))" using JITFilter_code [OF assms(2,4)] assms(1) by blast
  have m: "matches (inst_pos prog) D BPFStart (ArmStart D)"
    using assms(5) by (simp add: matches_def BPFStart_def ArmStart_def inst_pos_def sym_code_def)
  have "Position BPFStart < length prog" using assms(3) by (simp add: EndsInReturn_def BPFStart_def)
  from BPFRun_ends [OF assms(4,3) this, of "length prog" D] BPFRun_followed [OF code(2) assms(2) m, of "length prog"] code(1)
  show ?thesis by auto
qed

section \<open>The properties\<close>

text \<open>
  C37: a filter of BPF instructions with operands in bounds that only jumps forward and ends in a return is translated, and
  the code computes what the filter means on every system call: it returns the result of the filter after at most four
  steps an instruction, unless the filter divides by zero.
\<close>

theorem filter_code_correct:
  assumes "\<forall>xs. mset (Order xs) = mset xs" "length prog \<le> 4096" "EndsInReturn prog"
    "\<forall>i < length prog. ValidInst (length prog) i (prog ! i)" "length D = 16"
  shows "\<exists>FuncSize code. JITFilter Order prog = Inr (FuncSize, code) \<and>
    (BPFRun prog D (length prog) BPFStart = B_DivideByZero \<or>
     (\<exists>v. BPFRun prog D (length prog) BPFStart = B_Returned v \<and> ArmRun code (4 * length prog) (ArmStart D) = A_Returned v))"
  using assms by (rule filter_code_runs)

theorem filter_code_correct_witness:
  "\<exists>FuncSize code. JITFilter rev allow_exit = Inr (FuncSize, code) \<and>
    ArmRun code 16 (ArmStart (60 # replicate 15 0)) = A_Returned 0x7fff0000"
  using filter_code_correct [of rev allow_exit "60 # replicate 15 0"] allow_exit_ok allow_exit_runs [of "replicate 15 0"] by auto

text \<open>
  C38: a filter is refused only for an instruction that is none of BPF, has an operand out of bounds or jumps past the end
  or backward, and a filter that is accepted has no such instruction, jumps backward aside: of those nothing is claimed
  here (\<open>backward_jump_accepted\<close> shows one that gets through). The size of the code of an accepted filter, with its
  constants, is the one that the first pass calculated.
\<close>

theorem filter_accepted_and_sized:
  assumes "\<forall>xs. length (Order xs) = length xs" "length prog \<le> 2 ^ 16"
  shows "case JITFilter Order prog of
      Inl _ \<Rightarrow> \<not> (\<forall>i < length prog. ValidInst (length prog) i (prog ! i))
    | Inr (FuncSize, code) \<Rightarrow>
        (\<forall>i < length prog. ValidInst (length prog) i (prog ! i) \<or> BackwardJump i (prog ! i)) \<and> unat FuncSize = 4 * length code"
proof (cases "EmissionLoop False (of_nat (length prog)) 0 prog no_code")
  case None
  then show ?thesis using JITFilter_second_pass [of Order prog] EmissionLoop_refuses [of prog 0 False no_code] assms by auto
next
  case (Some e)
  let ?code = "CodeBuffer (EmitConstPool (Order (map fst (ConstPool e))) e)"
  have "length ?code \<le> 5 * length prog"
    using EmissionLoop_grows [OF Some] assms(1) by (simp add: EmitConstPool_length no_code_def)
  then have "unat (of_nat (4 * length ?code) :: u64) = 4 * length ?code" using assms(2) by (simp add: unat_of_nat del: of_nat_mult)
  then show ?thesis
    using JITFilter_second_pass [of Order prog] EmissionLoop_refuses [of prog 0 False no_code] assms Some by (auto simp: Let_def)
qed

theorem filter_accepted_and_sized_witness:
  "\<exists>FuncSize code. JITFilter rev allow_exit = Inr (FuncSize, code) \<and> unat FuncSize = 4 * length code"
  using filter_accepted_and_sized [of rev allow_exit] allow_exit_ok by (auto split: sum.splits)

section \<open>Filters on which the code is not what Linux does\<close>

text \<open>A jump back to the first instruction is accepted, and the code jumps to itself for ever.\<close>

definition jump_back :: "sock_filter list" where
  "jump_back = [filter_inst 0x07 0 0 0, filter_inst 0x05 0 0 0xfffffffe]"

lemma backward_jump_accepted:
  "JITFilter rev jump_back = Inr (8, [I_MOV W1 W0, I_B 0]) \<and>
   (\<exists>a. ArmRun [I_MOV W1 W0, I_B 0] (Suc n) (ArmStart D) = A_Running a)"
proof
  show "JITFilter rev jump_back = Inr (8, [I_MOV W1 W0, I_B 0])"
    by (simp add: jump_back_def JITFilter_def CalculateSize_def no_code_def HandleInst_def HandleMisc_def HandleJmp_def
        BindJumpLabel_def EMIT_INST_def emit_def b_label_def UseJumpLabel_def try_emplace_def AddLocationToLabel_def filter_simps Let_def)
  have "ArmRun [I_MOV W1 W0, I_B 0] n a = A_Running a" if "Pc a = 1" for n a
  proof -
    have "a\<lparr>Pc := 1\<rparr> = a" using that by (cases a) simp
    then have "ArmStep [I_MOV W1 W0, I_B 0] a = A_Running a" using that by (simp add: ArmStep_def CodeAt_def)
    then show ?thesis by (induction n) simp_all
  qed
  then show "\<exists>a. ArmRun [I_MOV W1 W0, I_B 0] (Suc n) (ArmStart D) = A_Running a"
    by (simp add: ArmStep_def CodeAt_def ArmStart_def set_reg_def next_pc_def)
qed

text \<open>A filter that does not end in a return is accepted, and its code runs into the constants.\<close>

definition no_return :: "sock_filter list" where
  "no_return = [filter_inst 0x00 0 0 5]"

lemma falls_off_the_end:
  "JITFilter rev no_return = Inr (8, [I_LDRLIT W0 1, I_DATA 5]) \<and> ArmRun [I_LDRLIT W0 1, I_DATA 5] 2 (ArmStart D) = A_Fault"
proof
  show "JITFilter rev no_return = Inr (8, [I_LDRLIT W0 1, I_DATA 5])"
    by (simp add: no_return_def JITFilter_def CalculateSize_def no_code_def HandleInst_def HandleLoad_def BindJumpLabel_def
        EMIT_INST_def emit_def ldr_label_def UseConst_def try_emplace_def AddLocationToLabel_def Bind_def BindReference_def
        filter_simps Let_def)
  show "ArmRun [I_LDRLIT W0 1, I_DATA 5] 2 (ArmStart D) = A_Fault"
    by (simp add: numeral_2_eq_2 ArmStep_def CodeAt_def ArmStart_def set_reg_def next_pc_def)
qed

text \<open>A division by zero, which ends a filter with the result zero (kill the thread) in Linux, goes on here.\<close>

definition divide_by_x :: "sock_filter list" where
  "divide_by_x = [filter_inst 0x3c 0 0 0, filter_inst 0x06 0 0 0x7fff0000]"

lemma division_by_zero_goes_on:
  "BPFRun divide_by_x D 2 BPFStart = B_DivideByZero \<and>
   JITFilter rev divide_by_x = Inr (16, [I_UDIV W0 W0 W1, I_LDRLIT W0 2, I_RET, I_DATA 0x7fff0000]) \<and>
   ArmRun [I_UDIV W0 W0 W1, I_LDRLIT W0 2, I_RET, I_DATA 0x7fff0000] 3 (ArmStart D) = A_Returned 0x7fff0000"
proof (intro conjI)
  have "Decode (filter_inst 0x3c 0 0 0) = Some (Alu OpDiv None)"
    by (simp add: filter_simps Decode_def DecodeALU_def ConstOrX_def)
  then show "BPFRun divide_by_x D 2 BPFStart = B_DivideByZero"
    by (simp add: divide_by_x_def numeral_2_eq_2 BPFStep_def BPFStart_def ValidInst_def Operand2_def)
  show "JITFilter rev divide_by_x = Inr (16, [I_UDIV W0 W0 W1, I_LDRLIT W0 2, I_RET, I_DATA 0x7fff0000])"
    by (simp add: divide_by_x_def JITFilter_def CalculateSize_def no_code_def HandleInst_def HandleALU_def HandleRet_def
        BindJumpLabel_def EMIT_INST_def emit_def ldr_label_def UseConst_def try_emplace_def AddLocationToLabel_def Bind_def
        BindReference_def filter_simps Let_def)
  show "ArmRun [I_UDIV W0 W0 W1, I_LDRLIT W0 2, I_RET, I_DATA 0x7fff0000] 3 (ArmStart D) = A_Returned 0x7fff0000"
    by (simp add: numeral_3_eq_3 ArmStep_def CodeAt_def ArmStart_def set_reg_def next_pc_def)
qed

end
