(* ===== verification/SeccompProperties.thy ===== *)
theory SeccompProperties
  imports Seccomp BPFProperties
begin

text \<open>
  No thread is left with a filter that was freed, whatever threads do; and what the filters of a thread decide on a system
  call, from the meaning of the filters to the answer of the emulator. Then the states in which the emulator differs from
  Linux.
\<close>

section \<open>References\<close>

definition refs :: "SeccompEmulator \<Rightarrow> nat \<Rightarrow> nat" where
  "refs st f = sum_list (map (\<lambda>T. count_list (ThreadFilters T) f) (Threads st))"

definition counted :: "SeccompEmulator \<Rightarrow> nat \<Rightarrow> nat" where
  "counted st f = (case map_of (FilterList st) f of Some F \<Rightarrow> RefCount F | None \<Rightarrow> 0)"

text \<open>A filter is the translation of some accepted program.\<close>

definition translated :: "(u32 list \<Rightarrow> u32 list) \<Rightarrow> SeccompFilterInfo \<Rightarrow> bool" where
  "translated Order F \<longleftrightarrow> (\<exists>p. JITFilter Order p = Inr (MappedSize F, Func F) \<and> length p = FilterInstructions F)"

definition seccomp_inv :: "(u32 list \<Rightarrow> u32 list) \<Rightarrow> SeccompEmulator \<Rightarrow> bool" where
  "seccomp_inv Order st \<longleftrightarrow> distinct (map TID (Threads st)) \<and> distinct (map fst (FilterList st)) \<and>
    (\<forall>f \<in> fst ` set (FilterList st). f < NextFilter st) \<and> (\<forall>f. refs st f \<le> counted st f) \<and>
    (\<forall>F \<in> snd ` set (FilterList st). translated Order F)"

lemma UpdateCount_simps [simp]:
  "Threads (UpdateCount g f st) = Threads st" "NextFilter (UpdateCount g f st) = NextFilter st"
  "map fst (FilterList (UpdateCount g f st)) = map fst (FilterList st)"
  "TotalFilterInstructions (UpdateCount g f st) = TotalFilterInstructions st"
  by (simp_all add: UpdateCount_def case_prod_beta comp_def)

lemma UpdateThread_simps [simp]:
  "FilterList (UpdateThread t g st) = FilterList st" "NextFilter (UpdateThread t g st) = NextFilter st"
  "TotalFilterInstructions (UpdateThread t g st) = TotalFilterInstructions st"
  by (simp_all add: UpdateThread_def)

lemma map_of_UpdateCount:
  "map_of (FilterList (UpdateCount g f st)) i =
    map_option (\<lambda>F. if i = f then F\<lparr>RefCount := g (RefCount F)\<rparr> else F) (map_of (FilterList st) i)"
proof -
  have "map_of (map (\<lambda>(i, F). (i, if i = f then F\<lparr>RefCount := g (RefCount F)\<rparr> else F)) xs) i =
    map_option (\<lambda>F. if i = f then F\<lparr>RefCount := g (RefCount F)\<rparr> else F) (map_of xs i)" for xs
    by (induction xs) auto
  then show ?thesis by (simp add: UpdateCount_def)
qed

lemma translated_count [simp]: "translated Order (F\<lparr>RefCount := n\<rparr>) = translated Order F"
  by (simp add: translated_def)

lemma UpdateCount_translated:
  "\<forall>F \<in> snd ` set (FilterList st). translated Order F \<Longrightarrow> \<forall>F \<in> snd ` set (FilterList (UpdateCount g f st)). translated Order F"
  by (auto simp: UpdateCount_def)

lemma counted_UpdateCount:
  "counted (UpdateCount g f st) i = (if i = f \<and> map_of (FilterList st) f \<noteq> None then g (counted st i) else counted st i)"
  by (auto simp: counted_def map_of_UpdateCount split: option.split)

lemma present_UpdateCount [simp]: "map_of (FilterList (UpdateCount g f st)) i = None \<longleftrightarrow> map_of (FilterList st) i = None"
  by (simp add: map_of_UpdateCount)

lemma counted_UpdateThread [simp]: "counted (UpdateThread t g st) = counted st"
  by (simp add: counted_def fun_eq_iff)

lemma refs_UpdateCount [simp]: "refs (UpdateCount g f st) = refs st"
  by (simp add: refs_def fun_eq_iff)

text \<open>All uses of a filter are counted by a fold over the references.\<close>

abbreviation "takes \<equiv> fold (UpdateCount Suc)"

lemma takes_simps [simp]:
  "Threads (takes fs st) = Threads st" "NextFilter (takes fs st) = NextFilter st"
  "map fst (FilterList (takes fs st)) = map fst (FilterList st)"
  by (induction fs arbitrary: st) simp_all

lemma takes_keys [simp]: "fst ` set (FilterList (takes fs st)) = fst ` set (FilterList st)"
  by (metis list.set_map takes_simps(3))

lemma takes_present: "map_of (FilterList (takes fs st)) i = None \<longleftrightarrow> map_of (FilterList st) i = None"
  by (simp add: map_of_eq_None_iff)

lemma takes_translated:
  "\<forall>F \<in> snd ` set (FilterList st). translated Order F \<Longrightarrow> \<forall>F \<in> snd ` set (FilterList (takes fs st)). translated Order F"
proof (induction fs arbitrary: st)
  case (Cons f fs)
  from Cons.IH [OF UpdateCount_translated [OF Cons.prems]] show ?case by simp
qed simp

lemma counted_takes:
  "map_of (FilterList st) i \<noteq> None \<Longrightarrow> counted (takes fs st) i = counted st i + count_list fs i"
proof (induction fs arbitrary: st)
  case (Cons f fs)
  have "map_of (FilterList (UpdateCount Suc f st)) i \<noteq> None" using Cons.prems by simp
  from Cons.IH [OF this] show ?case using Cons.prems by (simp add: counted_UpdateCount)
qed simp

lemma refs_takes [simp]: "refs (takes fs st) = refs st"
  by (simp add: refs_def fun_eq_iff)

lemma map_TID_update: "(\<And>T. TID (g T) = TID T) \<Longrightarrow> map TID (Threads (UpdateThread t g st)) = map TID (Threads st)"
  by (simp add: UpdateThread_def)

lemma GetThread_in: "t \<in> TID ` set (Threads st) \<Longrightarrow> GetThread t st \<in> set (Threads st) \<and> TID (GetThread t st) = t"
proof -
  assume "t \<in> TID ` set (Threads st)"
  then obtain T where T: "List.find (\<lambda>T. TID T = t) (Threads st) = Some T"
    by (cases "List.find (\<lambda>T. TID T = t) (Threads st)") (auto simp: find_None_iff)
  then have "T \<in> set (Threads st) \<and> TID T = t" by (auto simp: find_Some_iff)
  then show ?thesis by (simp add: GetThread_def T)
qed

lemma GetThread_none: "t \<notin> TID ` set (Threads st) \<Longrightarrow> GetThread t st = new_thread t"
  by (auto simp: GetThread_def find_None_iff split: option.split dest: find_Some_iff [THEN iffD1] nth_mem)

lemma refs_update:
  assumes "distinct (map TID (Threads st))" "t \<in> TID ` set (Threads st)"
  shows "refs (UpdateThread t g st) f + count_list (ThreadFilters (GetThread t st)) f =
    refs st f + count_list (ThreadFilters (g (GetThread t st))) f"
proof -
  let ?c = "\<lambda>T. count_list (ThreadFilters T) f"
  obtain xs T ys where s: "Threads st = xs @ T # ys" and T: "TID T = t" using assms(2) by (metis imageE split_list)
  have "TID T \<notin> TID ` (set xs \<union> set ys)" using assms(1) by (auto simp: s image_Un)
  then have no: "TID X \<noteq> t" if "X \<in> set xs \<union> set ys" for X using that T by (metis imageI)
  have "GetThread t st \<in> set (Threads st) \<and> TID (GetThread t st) = t" by (rule GetThread_in [OF assms(2)])
  then have G: "GetThread t st = T" using no by (auto simp: s)
  have "map (\<lambda>X. if TID X = t then g X else X) xs = xs" "map (\<lambda>X. if TID X = t then g X else X) ys = ys"
    using no by (auto intro: map_idI)
  then show ?thesis by (simp add: refs_def UpdateThread_def s T G)
qed

lemma update_absent: "t \<notin> TID ` set (Threads st) \<Longrightarrow> UpdateThread t g st = st"
proof -
  assume "t \<notin> TID ` set (Threads st)"
  then have "map (\<lambda>X. if TID X = t then g X else X) (Threads st) = Threads st" by (intro map_idI) (metis imageI)
  then show ?thesis by (simp add: UpdateThread_def)
qed

lemma present: "seccomp_inv Order st \<Longrightarrow> T \<in> set (Threads st) \<Longrightarrow> f \<in> set (ThreadFilters T) \<Longrightarrow> map_of (FilterList st) f \<noteq> None"
proof -
  assume a: "seccomp_inv Order st" "T \<in> set (Threads st)" "f \<in> set (ThreadFilters T)"
  have "0 < count_list (ThreadFilters T) f" using a(3) by (metis count_list_0_iff gr0I)
  moreover have "count_list (ThreadFilters T) f \<le> refs st f" unfolding refs_def using a(2) by (intro member_le_sum_list) auto
  moreover have "refs st f \<le> counted st f" using a(1) by (simp add: seccomp_inv_def)
  ultimately have "0 < counted st f" by linarith
  then show ?thesis by (auto simp: counted_def split: option.splits)
qed

section \<open>The operations keep the references right\<close>

lemma CopyFilters_inv:
  assumes a: "seccomp_inv Order st" and P: "\<forall>f \<in> set (ThreadFilters P). map_of (FilterList st) f \<noteq> None"
  shows "seccomp_inv Order (CopyFilters P t st)"
proof -
  let ?st = "takes (ThreadFilters P) st" and ?g = "\<lambda>T. T\<lparr>ThreadFilters := ThreadFilters P, SeccompMode := SeccompMode P\<rparr>"
  have c: "counted ?st f = counted st f + count_list (ThreadFilters P) f" for f
  proof (cases "map_of (FilterList st) f")
    case None
    moreover from None have "map_of (FilterList ?st) f = None" by (simp only: takes_present)
    moreover have "count_list (ThreadFilters P) f = 0" using P None by (auto simp: count_list_0_iff)
    ultimately show ?thesis by (simp add: counted_def)
  qed (simp add: counted_takes)
  have le: "refs st f \<le> counted st f" for f using a by (simp add: seccomp_inv_def)
  have d: "distinct (map TID (Threads ?st))" using a by (simp add: seccomp_inv_def)
  have "refs (UpdateThread t ?g ?st) f \<le> counted ?st f" for f
  proof (cases "t \<in> TID ` set (Threads ?st)")
    case True
    have "refs (UpdateThread t ?g ?st) f \<le> refs st f + count_list (ThreadFilters P) f"
      using refs_update [OF d True, of ?g f] by simp
    then show ?thesis using c [of f] le [of f] by linarith
  next
    case False
    have "refs (UpdateThread t ?g ?st) f = refs st f" by (simp only: update_absent [OF False] refs_takes)
    then show ?thesis using c [of f] le [of f] by linarith
  qed
  moreover have "\<forall>F \<in> snd ` set (FilterList ?st). translated Order F" using a by (intro takes_translated) (simp add: seccomp_inv_def)
  ultimately show ?thesis using a by (simp add: CopyFilters_def seccomp_inv_def map_TID_update)
qed

lemma CopyFilters_keeps [simp]:
  "map_of (FilterList (CopyFilters P t st)) f = None \<longleftrightarrow> map_of (FilterList st) f = None"
  by (simp add: CopyFilters_def takes_present)

lemma InheritSeccompFilters_inv: "seccomp_inv Order st \<Longrightarrow> seccomp_inv Order (InheritSeccompFilters p c st)"
proof -
  assume a: "seccomp_inv Order st"
  have "\<forall>f \<in> set (ThreadFilters (GetThread p st)). map_of (FilterList st) f \<noteq> None"
    using present [OF a] GetThread_in [of p st] GetThread_none [of p st] by (cases "p \<in> TID ` set (Threads st)") (auto simp: new_thread_def)
  then show ?thesis unfolding InheritSeccompFilters_def by (rule CopyFilters_inv [OF a])
qed

lemma TSyncFilters_inv: "seccomp_inv Order st \<Longrightarrow> seccomp_inv Order (TSyncFilters t st)"
proof -
  assume a: "seccomp_inv Order st"
  let ?P = "GetThread t st"
  have p: "\<forall>f \<in> set (ThreadFilters ?P). map_of (FilterList st) f \<noteq> None"
    using present [OF a] GetThread_in [of t st] GetThread_none [of t st] by (cases "t \<in> TID ` set (Threads st)") (auto simp: new_thread_def)
  have "seccomp_inv Order (fold (\<lambda>T st. if TID T = t then st else CopyFilters ?P (TID T) st) Ts s)"
    if "seccomp_inv Order s" "\<forall>f \<in> set (ThreadFilters ?P). map_of (FilterList s) f \<noteq> None" for Ts s
    using that
  proof (induction Ts arbitrary: s)
    case (Cons T Ts)
    let ?s = "if TID T = t then s else CopyFilters ?P (TID T) s"
    have "seccomp_inv Order ?s" using CopyFilters_inv [OF Cons.prems] Cons.prems(1) by simp
    moreover have "\<forall>f \<in> set (ThreadFilters ?P). map_of (FilterList ?s) f \<noteq> None" using Cons.prems(2) by (simp del: not_None_eq)
    ultimately show ?case using Cons.IH [of ?s] by (simp del: not_None_eq)
  qed simp
  then show ?thesis unfolding TSyncFilters_def Let_def using a p by blast
qed

lemma AddFilter_inv:
  assumes a: "seccomp_inv Order st" and F: "translated Order F" "RefCount F = 1"
  shows "seccomp_inv Order (AddFilter t F st)"
proof -
  let ?n = "NextFilter st"
  let ?st = "st\<lparr>FilterList := FilterList st @ [(?n, F)], NextFilter := ?n + 1,
          TotalFilterInstructions := TotalFilterInstructions st + FilterInstructions F\<rparr>"
  let ?g = "\<lambda>T. T\<lparr>ThreadFilters := ThreadFilters T @ [?n]\<rparr>"
  have n: "?n \<notin> fst ` set (FilterList st)" using a by (auto simp: seccomp_inv_def)
  then have nn: "map_of (FilterList st) ?n = None" by (simp add: map_of_eq_None_iff)
  then have "counted st ?n = 0" by (simp add: counted_def)
  moreover have le: "refs st f \<le> counted st f" for f using a by (simp add: seccomp_inv_def)
  ultimately have z: "refs st ?n = 0" by (metis le_zero_eq)
  have d: "distinct (map TID (Threads ?st))" using a by (simp add: seccomp_inv_def)
  have c: "counted ?st f = (if f = ?n then 1 else counted st f)" for f
    by (auto simp: counted_def map_add_def nn F(2) split: option.split)
  have r: "refs ?st f = refs st f" for f by (simp add: refs_def)
  have "refs (UpdateThread t ?g ?st) f \<le> counted ?st f" for f
  proof (cases "t \<in> TID ` set (Threads ?st)")
    case True
    have "refs (UpdateThread t ?g ?st) f = refs st f + (if f = ?n then 1 else 0)"
      using refs_update [OF d True, of ?g f] r [of f] by (simp add: count_list_append split: if_splits)
    then show ?thesis using c [of f] z le [of f] by (simp split: if_splits)
  next
    case False
    have "refs (UpdateThread t ?g ?st) f = refs st f" using r [of f] by (simp only: update_absent [OF False])
    then show ?thesis using c [of f] z le [of f] by (simp split: if_splits)
  qed
  then show ?thesis using a n F(1) by (auto simp: AddFilter_def seccomp_inv_def map_TID_update less_Suc_eq)
qed

lemma mode_inv: "seccomp_inv Order st \<Longrightarrow> seccomp_inv Order (UpdateThread t (\<lambda>T. T\<lparr>SeccompMode := x\<rparr>) st)"
proof -
  have "refs (UpdateThread t (\<lambda>T. T\<lparr>SeccompMode := x\<rparr>) st) f = refs st f" for f
    by (auto simp: refs_def UpdateThread_def comp_def if_distrib intro!: arg_cong [where f = sum_list])
  then show "seccomp_inv Order st \<Longrightarrow> ?thesis" by (simp add: seccomp_inv_def map_TID_update)
qed

text \<open>The loop that gives references up.\<close>

abbreviation "drops fs s \<equiv> fst (fold DropReference fs s)"

lemma DropReference_fst: "fst (DropReference f s) = UpdateCount (\<lambda>n. n - 1) f (fst s)"
  by (simp add: DropReference_def case_prod_beta Let_def)

lemma drops_simps [simp]:
  "Threads (drops fs s) = Threads (fst s)" "NextFilter (drops fs s) = NextFilter (fst s)"
  "map fst (FilterList (drops fs s)) = map fst (FilterList (fst s))"
  "TotalFilterInstructions (drops fs s) = TotalFilterInstructions (fst s)"
  by (induction fs arbitrary: s) (simp_all add: DropReference_fst)

lemma drops_keys [simp]: "fst ` set (FilterList (drops fs s)) = fst ` set (FilterList (fst s))"
  by (metis list.set_map drops_simps(3))

lemma drops_translated:
  "\<forall>F \<in> snd ` set (FilterList (fst s)). translated Order F \<Longrightarrow> \<forall>F \<in> snd ` set (FilterList (drops fs s)). translated Order F"
proof (induction fs arbitrary: s)
  case (Cons f fs)
  have "\<forall>F \<in> snd ` set (FilterList (fst (DropReference f s))). translated Order F"
    unfolding DropReference_fst by (rule UpdateCount_translated [OF Cons.prems])
  from Cons.IH [OF this] show ?case by simp
qed simp

lemma counted_drops: "counted (drops fs s) i = counted (fst s) i - count_list fs i"
proof (induction fs arbitrary: s)
  case (Cons f fs)
  have "counted (fst (DropReference f s)) i = counted (fst s) i - (if i = f then 1 else 0)"
    unfolding DropReference_fst counted_UpdateCount by (simp add: counted_def)
  then show ?case using Cons.IH [of "DropReference f s"] by simp
qed simp

lemma refs_drops [simp]: "refs (drops fs s) = refs (fst s)"
  by (simp add: refs_def fun_eq_iff)

lemma counted_erase:
  "distinct (map fst (FilterList st)) \<Longrightarrow>
    counted (st\<lparr>FilterList := List.filter (\<lambda>(i, F). RefCount F \<noteq> 0) (FilterList st)\<rparr>) f = counted st f"
proof -
  have "distinct (map fst xs) \<Longrightarrow> (case map_of (List.filter (\<lambda>(i, F). RefCount F \<noteq> 0) xs) f of Some F \<Rightarrow> RefCount F | None \<Rightarrow> 0) =
    (case map_of xs f of Some F \<Rightarrow> RefCount F | None \<Rightarrow> 0)" for xs :: "(nat \<times> SeccompFilterInfo) list"
  proof (induction xs)
    case (Cons x xs)
    have "f \<notin> fst ` set xs \<Longrightarrow> map_of (List.filter (\<lambda>(i, F). RefCount F \<noteq> 0) xs) f = None" by (auto simp: map_of_eq_None_iff)
    with Cons show ?case by (cases x) auto
  qed simp
  then show "distinct (map fst (FilterList st)) \<Longrightarrow> ?thesis" by (simp add: counted_def)
qed

definition erased :: "SeccompEmulator \<Rightarrow> SeccompEmulator" where
  "erased st = st\<lparr>FilterList := List.filter (\<lambda>(i, F). RefCount F \<noteq> 0) (FilterList st)\<rparr>"

lemma erased_threads [simp]: "Threads (erased st) = Threads st"
  by (simp add: erased_def)

lemma erased_inv: "seccomp_inv Order st \<Longrightarrow> seccomp_inv Order (erased st)"
proof -
  assume i: "seccomp_inv Order st"
  have "distinct (map fst (FilterList st))" using i by (simp add: seccomp_inv_def)
  then have "counted (erased st) f = counted st f" for f unfolding erased_def by (rule counted_erase)
  moreover have "refs (erased st) f = refs st f" for f by (simp add: refs_def erased_def)
  ultimately have r: "\<forall>f. refs (erased st) f \<le> counted (erased st) f" using i by (simp add: seccomp_inv_def)
  have l: "FilterList (erased st) = List.filter (\<lambda>(i, F). RefCount F \<noteq> 0) (FilterList st)" by (simp add: erased_def)
  have s: "set (FilterList (erased st)) \<subseteq> set (FilterList st)" unfolding l by (rule filter_is_subset)
  show ?thesis
    unfolding seccomp_inv_def
  proof (intro conjI r)
    show "distinct (map TID (Threads (erased st)))" using i by (simp add: seccomp_inv_def erased_def)
    show "distinct (map fst (FilterList (erased st)))" unfolding l using i by (intro distinct_map_filter) (simp add: seccomp_inv_def)
    show "\<forall>f \<in> fst ` set (FilterList (erased st)). f < NextFilter (erased st)"
      using i s by (auto simp: seccomp_inv_def) (auto simp: erased_def)
    show "\<forall>F \<in> snd ` set (FilterList (erased st)). translated Order F" using i s by (auto simp: seccomp_inv_def)
  qed
qed

lemma FreeSeccompFilters_inv:
  assumes a: "seccomp_inv Order st"
  shows "seccomp_inv Order (FreeSeccompFilters t st)"
    and "map TID (Threads (FreeSeccompFilters t st)) = map TID (Threads st)"
proof -
  let ?fs = "ThreadFilters (GetThread t st)" and ?g = "\<lambda>T. T\<lparr>ThreadFilters := []\<rparr>"
  let ?st1 = "drops ?fs (st, False)"
  let ?st2 = "UpdateThread t ?g ?st1"
  have le: "refs st f \<le> counted st f" for f using a by (simp add: seccomp_inv_def)
  have d: "distinct (map TID (Threads ?st1))" using a by (simp add: seccomp_inv_def)
  have G: "GetThread t ?st1 = GetThread t st" by (simp add: GetThread_def)
  have r: "refs ?st2 f \<le> counted ?st2 f" for f
  proof (cases "t \<in> TID ` set (Threads ?st1)")
    case True
    have "refs ?st2 f + count_list ?fs f = refs st f" using refs_update [OF d True, of ?g f] by (simp add: G)
    then show ?thesis using le [of f] counted_drops [of ?fs "(st, False)" f] by simp
  next
    case False
    then have "?fs = []" using GetThread_none [of t st] by (simp add: new_thread_def)
    moreover have "refs ?st2 f = refs st f" using update_absent [OF False, of ?g] by simp
    ultimately show ?thesis using le [of f] by simp
  qed
  have "\<forall>F \<in> snd ` set (FilterList ?st1). translated Order F" using a by (intro drops_translated) (simp add: seccomp_inv_def)
  then have i2: "seccomp_inv Order ?st2" using a r by (simp add: seccomp_inv_def map_TID_update)
  have "FreeSeccompFilters t st \<in> {?st2, erased ?st2}"
    by (simp add: FreeSeccompFilters_def Let_def erased_def case_prod_beta)
  moreover have "map TID (Threads ?st2) = map TID (Threads st)" by (simp add: map_TID_update)
  ultimately show "seccomp_inv Order (FreeSeccompFilters t st)" "map TID (Threads (FreeSeccompFilters t st)) = map TID (Threads st)"
    using i2 erased_inv [OF i2] by auto
qed

lemma SetModeFilter_inv:
  assumes a: "seccomp_inv Order st"
  shows "seccomp_inv Order (snd (SetModeFilter Order NoNewPrivs t flags prog st))"
proof (cases prog)
  case (Some p)
  show ?thesis
  proof (cases "JITFilter Order p")
    case (Inl x) then show ?thesis using a Some by (cases x) (simp add: SetModeFilter_def Let_def)
  next
    case (Inr sc)
    then obtain s code where j: "JITFilter Order p = Inr (s, code)" by (cases sc) simp
    let ?F = "\<lparr>Func = code, RefCount = 1, MappedSize = s, FilterInstructions = length p,
      ShouldLog = (flags AND SECCOMP_FILTER_FLAG_LOG \<noteq> 0)\<rparr>"
    let ?st = "UpdateThread t (\<lambda>T. T\<lparr>SeccompMode := SECCOMP_MODE_FILTER\<rparr>) (AddFilter t ?F st)"
    have "translated Order ?F" using j by (auto simp: translated_def)
    then have "seccomp_inv Order ?st" by (intro mode_inv AddFilter_inv a) simp_all
    moreover from this have "seccomp_inv Order (TSyncFilters t ?st)" by (rule TSyncFilters_inv)
    ultimately show ?thesis using a Some j by (simp add: SetModeFilter_def Let_def)
  qed
qed (use a in \<open>simp add: SetModeFilter_def Let_def\<close>)

lemma SetModeStrict_inv:
  assumes a: "seccomp_inv Order st"
  shows "seccomp_inv Order (snd (SetModeStrict Order Is64 NoNewPrivs t flags arg st))"
proof -
  have "seccomp_inv Order (st\<lparr>CurrentKillSignal := SIGKILL\<rparr>)" using a by (simp add: seccomp_inv_def refs_def counted_def)
  from mode_inv [OF SetModeFilter_inv [OF this]] a show ?thesis
    by (simp add: SetModeStrict_def Let_def case_prod_beta)
qed

definition SerializedFilter_ok :: "(u32 list \<Rightarrow> u32 list) \<Rightarrow> SerializedFilter \<Rightarrow> bool" where
  "SerializedFilter_ok Order F \<longleftrightarrow>
    (\<exists>p. JITFilter Order p = Inr (CodeSize F, SerializedCode F) \<and> length p = SerializedInstructions F)"

lemma those_Some: "those (map h xs) = Some ys \<Longrightarrow> list_all2 (\<lambda>x y. h x = Some y) xs ys"
  by (induction xs arbitrary: ys) (auto split: option.splits)

lemma those_mem: "those (map h xs) = Some ys \<Longrightarrow> y \<in> set ys \<Longrightarrow> \<exists>x \<in> set xs. h x = Some y"
  by (induction xs arbitrary: ys) (auto split: option.splits)

lemma SerializeFilters_ok:
  assumes a: "seccomp_inv Order st" and s: "SerializeFilters t st = Some S"
  shows "\<forall>F \<in> set (snd S). SerializedFilter_ok Order F"
proof -
  obtain Fs where Fs: "those (map (map_of (FilterList st)) (ThreadFilters (GetThread t st))) = Some Fs"
    and S: "snd S = map (\<lambda>F. \<lparr>CodeSize = MappedSize F, SerializedInstructions = FilterInstructions F,
               SerializedLog = ShouldLog F, SerializedCode = Func F\<rparr>) Fs"
    using s by (auto simp: SerializeFilters_def Let_def split: if_splits)
  have "translated Order F" if F: "F \<in> set Fs" for F
  proof -
    obtain f where "map_of (FilterList st) f = Some F" using those_mem [OF Fs F] by blast
    then have "(f, F) \<in> set (FilterList st)" by (rule map_of_SomeD)
    then have "F \<in> snd ` set (FilterList st)" by force
    then show ?thesis using a unfolding seccomp_inv_def by blast
  qed
  then show ?thesis by (auto simp: S SerializedFilter_ok_def translated_def)
qed

lemma DeserializeFilters_inv:
  assumes "seccomp_inv Order st" "\<forall>F \<in> set (snd S). SerializedFilter_ok Order F"
  shows "seccomp_inv Order (DeserializeFilters t S st)"
proof -
  let ?add = "\<lambda>F. AddFilter t \<lparr>Func = SerializedCode F, RefCount = 1, MappedSize = CodeSize F,
                FilterInstructions = SerializedInstructions F, ShouldLog = SerializedLog F\<rparr>"
  have "seccomp_inv Order (fold ?add Fs s)" if "seccomp_inv Order s" "\<forall>F \<in> set Fs. SerializedFilter_ok Order F" for Fs s
    using that
  proof (induction Fs arbitrary: s)
    case (Cons F Fs)
    have "seccomp_inv Order (?add F s)"
      by (rule AddFilter_inv [OF Cons.prems(1)]) (use Cons.prems(2) in \<open>auto simp: SerializedFilter_ok_def translated_def\<close>)
    then show ?case using Cons by simp
  qed simp
  from mode_inv [OF this [OF assms]] show ?thesis by (simp add: DeserializeFilters_def)
qed

section \<open>All that can happen\<close>

definition CreateThread :: "u64 \<Rightarrow> SeccompEmulator \<Rightarrow> SeccompEmulator" where
  "CreateThread t st = st\<lparr>Threads := Threads st @ [new_thread t]\<rparr>"

definition RemoveThread :: "u64 \<Rightarrow> SeccompEmulator \<Rightarrow> SeccompEmulator" where
  "RemoveThread t st = st\<lparr>Threads := List.filter (\<lambda>T. TID T \<noteq> t) (Threads st)\<rparr>"

text \<open>
  The states of a process: threads are created and inherit filters, end, and install filters; a new program starts with the
  filters that the old one wrote.
\<close>

inductive seccomp_reachable :: "(u32 list \<Rightarrow> u32 list) \<Rightarrow> SeccompEmulator \<Rightarrow> bool" for Order where
  start: "seccomp_reachable Order (started t)"
| clone: "seccomp_reachable Order st \<Longrightarrow> c \<notin> TID ` set (Threads st) \<Longrightarrow>
    seccomp_reachable Order (InheritSeccompFilters p c (CreateThread c st))"
| finish: "seccomp_reachable Order st \<Longrightarrow> seccomp_reachable Order (RemoveThread t (FreeSeccompFilters t st))"
| install: "seccomp_reachable Order st \<Longrightarrow> seccomp_reachable Order (snd (SetModeFilter Order nnp t flags prog st))"
| strict: "seccomp_reachable Order st \<Longrightarrow> seccomp_reachable Order (snd (SetModeStrict Order m nnp t flags arg st))"
| exec: "seccomp_reachable Order st \<Longrightarrow> SerializeFilters t st = Some S \<Longrightarrow>
    seccomp_reachable Order (DeserializeFilters t' S (started t'))"

lemma CreateThread_inv: "seccomp_inv Order st \<Longrightarrow> t \<notin> TID ` set (Threads st) \<Longrightarrow> seccomp_inv Order (CreateThread t st)"
  by (simp add: seccomp_inv_def CreateThread_def refs_def counted_def new_thread_def)

lemma RemoveThread_inv: "seccomp_inv Order st \<Longrightarrow> seccomp_inv Order (RemoveThread t st)"
proof -
  assume a: "seccomp_inv Order st"
  have "sum_list (map h (List.filter P xs)) \<le> sum_list (map h xs)" for h :: "SeccompThread \<Rightarrow> nat" and P xs
    by (induction xs) auto
  then have "refs (RemoveThread t st) f \<le> refs st f" for f by (simp add: refs_def RemoveThread_def)
  moreover have "counted (RemoveThread t st) f = counted st f" for f by (simp add: counted_def RemoveThread_def)
  ultimately have "\<forall>f. refs (RemoveThread t st) f \<le> counted (RemoveThread t st) f"
    using a unfolding seccomp_inv_def by (metis le_trans)
  then show ?thesis using a by (simp add: seccomp_inv_def RemoveThread_def distinct_map_filter)
qed

lemma started_inv: "seccomp_inv Order (started t)"
  by (simp add: seccomp_inv_def started_def refs_def counted_def new_thread_def)

lemma emulator_reachable_inv: "seccomp_reachable Order st \<Longrightarrow> seccomp_inv Order st"
proof (induction rule: seccomp_reachable.induct)
  case (exec st t S t')
  from DeserializeFilters_inv [OF started_inv SerializeFilters_ok [OF exec.IH exec.hyps(2)]] show ?case .
qed (simp_all add: started_inv InheritSeccompFilters_inv CreateThread_inv FreeSeccompFilters_inv RemoveThread_inv
      SetModeFilter_inv SetModeStrict_inv)

section \<open>The filters of a system call\<close>

lemma RunFilters_append: "RunFilters D (Fs @ Gs) r = Option.bind (RunFilters D Fs r) (RunFilters D Gs)"
proof (induction Fs arbitrary: r)
  case (Cons F Fs) then show ?case by (cases "CallFilter F D") simp_all
qed simp

lemma RunFilters_result:
  assumes "list_all2 (\<lambda>F c. CallFilter F D = Some c) Fs cs" "Fs \<noteq> []"
  shows "\<exists>i < length Fs. RunFilters D Fs None = Some (Some (cs ! i, ShouldLog (Fs ! i))) \<and>
    (\<forall>j < length Fs. ActionOf (cs ! i) \<le> ActionOf (cs ! j)) \<and> (\<forall>j < i. ActionOf (cs ! i) < ActionOf (cs ! j))"
  using assms
proof (induction Fs arbitrary: cs rule: rev_induct)
  case (snoc F Fs)
  obtain ds c where cs: "cs = ds @ [c]" and ds: "list_all2 (\<lambda>F c. CallFilter F D = Some c) Fs ds" and c: "CallFilter F D = Some c"
    using snoc.prems(1) by (auto simp: list_all2_append1 list_all2_Cons1)
  have len: "length ds = length Fs" using ds by (simp add: list_all2_lengthD)
  show ?case
  proof (cases "Fs = []")
    case True then show ?thesis using c cs len by simp
  next
    case False
    then obtain i where i: "i < length Fs" "RunFilters D Fs None = Some (Some (ds ! i, ShouldLog (Fs ! i)))"
      "\<forall>j < length Fs. ActionOf (ds ! i) \<le> ActionOf (ds ! j)" "\<forall>j < i. ActionOf (ds ! i) < ActionOf (ds ! j)"
      using snoc.IH [OF ds] by blast
    let ?i = "if ActionOf c < ActionOf (ds ! i) then length Fs else i"
    have "RunFilters D (Fs @ [F]) None = Some (Some (cs ! ?i, ShouldLog ((Fs @ [F]) ! ?i)))"
      using i(1,2) c len by (simp add: RunFilters_append cs nth_append)
    moreover have "\<forall>j < length (Fs @ [F]). ActionOf (cs ! ?i) \<le> ActionOf (cs ! j)"
      using i(1,3) len by (auto simp: cs nth_append less_Suc_eq)
    moreover have "\<forall>j < ?i. ActionOf (cs ! ?i) < ActionOf (cs ! j)"
      using i(1,3,4) len by (auto simp: cs nth_append)
    ultimately show ?thesis using i(1) by (intro exI [of _ ?i]) auto
  qed
qed simp

definition installed :: "(u32 list \<Rightarrow> u32 list) \<Rightarrow> SeccompEmulator \<Rightarrow> nat \<Rightarrow> sock_filter list \<Rightarrow> bool" where
  "installed Order st f p \<longleftrightarrow>
    (case map_of (FilterList st) f of None \<Rightarrow> False
     | Some F \<Rightarrow> JITFilter Order p = Inr (MappedSize F, Func F) \<and> FilterInstructions F = length p) \<and>
    length p \<le> 4096 \<and> EndsInReturn p \<and> (\<forall>i < length p. ValidInst (length p) i (p ! i))"

definition FilterLog :: "SeccompEmulator \<Rightarrow> nat \<Rightarrow> bool" where
  "FilterLog st f = (case map_of (FilterList st) f of Some F \<Rightarrow> ShouldLog F | None \<Rightarrow> False)"

lemma SeccompData_length: "length (SeccompData m RIP Args) = 16"
  by (simp add: SeccompData_def upt_rec)

lemma installed_call:
  assumes "\<forall>xs. mset (Order xs) = mset xs" "installed Order st f p" "BPFRun p D (length p) BPFStart = B_Returned v" "length D = 16"
  shows "\<exists>F. map_of (FilterList st) f = Some F \<and> CallFilter F D = Some v"
proof -
  obtain F where F: "map_of (FilterList st) f = Some F" "JITFilter Order p = Inr (MappedSize F, Func F)" "FilterInstructions F = length p"
    and ok: "length p \<le> 4096" "EndsInReturn p" "\<forall>i < length p. ValidInst (length p) i (p ! i)"
    using assms(2) by (auto simp: installed_def split: option.splits)
  from filter_code_runs [OF assms(1) ok assms(4)] have "ArmRun (Func F) (4 * length p) (ArmStart D) = A_Returned v"
    using F(2) assms(3) by auto
  then show ?thesis using F by (simp add: CallFilter_def)
qed

lemma installed_calls:
  assumes "\<forall>xs. mset (Order xs) = mset xs" "length D = 16"
  shows "list_all2 (installed Order st) fs ps \<Longrightarrow> list_all2 (\<lambda>p v. BPFRun p D (length p) BPFStart = B_Returned v) ps vs \<Longrightarrow>
    \<exists>Fs. those (map (map_of (FilterList st)) fs) = Some Fs \<and> list_all2 (\<lambda>F c. CallFilter F D = Some c) Fs vs \<and>
      length Fs = length fs \<and> (\<forall>i < length fs. ShouldLog (Fs ! i) = FilterLog st (fs ! i))"
proof (induction fs arbitrary: ps vs)
  case (Cons f fs)
  obtain p ps' where ps: "ps = p # ps'" "installed Order st f p" "list_all2 (installed Order st) fs ps'"
    using Cons.prems(1) by (auto simp: list_all2_Cons1)
  obtain v vs' where vs: "vs = v # vs'" "BPFRun p D (length p) BPFStart = B_Returned v"
    "list_all2 (\<lambda>p v. BPFRun p D (length p) BPFStart = B_Returned v) ps' vs'"
    using Cons.prems(2) ps(1) by (auto simp: list_all2_Cons1)
  obtain Fs where Fs: "those (map (map_of (FilterList st)) fs) = Some Fs" "list_all2 (\<lambda>F c. CallFilter F D = Some c) Fs vs'"
    "length Fs = length fs" "\<forall>i < length fs. ShouldLog (Fs ! i) = FilterLog st (fs ! i)"
    using Cons.IH [OF ps(3) vs(3)] by blast
  obtain F where F: "map_of (FilterList st) f = Some F" "CallFilter F D = Some v"
    using installed_call [OF assms(1) ps(2) vs(2) assms(2)] by blast
  have "\<forall>i < length (f # fs). ShouldLog ((F # Fs) ! i) = FilterLog st ((f # fs) ! i)"
    using Fs(4) F(1) by (auto simp: nth_Cons FilterLog_def split: nat.split)
  then show ?case using F Fs(1-3) vs(1) by auto
qed simp

text \<open>A thread with one filter.\<close>

definition allowing :: "ArmInst list \<Rightarrow> u64 \<Rightarrow> SeccompEmulator" where
  "allowing code sz =
    \<lparr>FilterList = [(0, \<lparr>Func = code, RefCount = 1, MappedSize = sz, FilterInstructions = 4, ShouldLog = False\<rparr>)], NextFilter = 1,
      TotalFilterInstructions = 4, CurrentKillSignal = SIGSYS,
      Threads = [\<lparr>TID = 1, ThreadFilters = [0], SeccompMode = SECCOMP_MODE_FILTER\<rparr>]\<rparr>"

lemma allow_exit_translated: "\<exists>sz code. JITFilter rev allow_exit = Inr (sz, code)"
  using filter_code_runs [of rev allow_exit "replicate 16 0"] allow_exit_ok by auto

lemma allowing_installed:
  assumes "JITFilter rev allow_exit = Inr (sz, code)"
  shows "SetModeFilter rev True 1 0 (Some allow_exit) (started 1) = (0, allowing code sz)"
    "installed rev (allowing code sz) 0 allow_exit" "seccomp_reachable rev (allowing code sz)"
proof -
  show s: "SetModeFilter rev True 1 0 (Some allow_exit) (started 1) = (0, allowing code sz)"
    using assms allow_exit_ok(1) by (simp add: SetModeFilter_def Let_def seccomp_flags BPF_MAXINSNS_def BPF_MAX_INSNS_PER_PATH_def
        started_def GetThread_def new_thread_def AddFilter_def UpdateThread_def allowing_def)
  show "installed rev (allowing code sz) 0 allow_exit" using assms allow_exit_ok by (simp add: installed_def allowing_def)
  from seccomp_reachable.install [OF seccomp_reachable.start, of rev True 1 0 "Some allow_exit" 1] s
  show "seccomp_reachable rev (allowing code sz)" by simp
qed

section \<open>The properties\<close>

text \<open>
  C39: a system call is decided as Linux decides it. When every filter of the thread, the latest first, is the translation of
  a program that returns a result, the answer is the one for the result whose action has precedence over the others, as a
  signed number of 16 bits; of results with the same action it is that of the filter added last.
\<close>

theorem seccomp_decision:
  assumes "\<forall>xs. mset (Order xs) = mset xs" "fs = rev (ThreadFilters (GetThread t st))" "fs \<noteq> []"
    "list_all2 (installed Order st) fs ps"
    "list_all2 (\<lambda>p v. BPFRun p (SeccompData m RIP Args) (length p) BPFStart = B_Returned v) ps vs"
  shows "\<exists>i < length fs.
    ExecuteFilter m t RIP Args st = Some (Decide (CurrentKillSignal st) m RIP (Args ! 0) (vs ! i, FilterLog st (fs ! i))) \<and>
    (\<forall>j < length fs. ActionOf (vs ! i) \<le> ActionOf (vs ! j)) \<and> (\<forall>j < i. ActionOf (vs ! i) < ActionOf (vs ! j))"
proof -
  obtain Fs where Fs: "those (map (map_of (FilterList st)) fs) = Some Fs"
    "list_all2 (\<lambda>F c. CallFilter F (SeccompData m RIP Args) = Some c) Fs vs" "length Fs = length fs"
    "\<forall>i < length fs. ShouldLog (Fs ! i) = FilterLog st (fs ! i)"
    using installed_calls [OF assms(1) SeccompData_length assms(4,5)] by blast
  then have "Fs \<noteq> []" using assms(3) by auto
  from RunFilters_result [OF Fs(2) this] obtain i where i: "i < length fs"
    "RunFilters (SeccompData m RIP Args) Fs None = Some (Some (vs ! i, ShouldLog (Fs ! i)))"
    "\<forall>j < length fs. ActionOf (vs ! i) \<le> ActionOf (vs ! j)" "\<forall>j < i. ActionOf (vs ! i) < ActionOf (vs ! j)"
    unfolding Fs(3) by blast
  have "ThreadFilters (GetThread t st) \<noteq> []" using assms(2,3) by simp
  then have "ExecuteFilter m t RIP Args st = Some (Decide (CurrentKillSignal st) m RIP (Args ! 0) (vs ! i, ShouldLog (Fs ! i)))"
    using Fs(1) i(2) unfolding ExecuteFilter_def Let_def assms(2) by simp
  then show ?thesis using i Fs(4) by (intro exI [of _ i]) simp
qed

theorem seccomp_decision_witness:
  "\<exists>st. seccomp_reachable rev st \<and> ThreadFilters (GetThread 1 st) = [0] \<and>
    ExecuteFilter True 1 0 (60 # replicate 6 0) st = Some (Decide SIGSYS True 0 60 (0x7fff0000, False))"
proof -
  obtain sz code where j: "JITFilter rev allow_exit = Inr (sz, code)" using allow_exit_translated by blast
  let ?st = "allowing code sz" and ?D = "SeccompData True 0 (60 # replicate 6 0)"
  have D: "?D = 60 # tl ?D" by (simp add: SeccompData_def)
  have run: "BPFRun allow_exit ?D (length allow_exit) BPFStart = B_Returned 0x7fff0000"
    unfolding allow_exit_ok(1) by (subst D) (rule allow_exit_runs)
  have T: "GetThread 1 ?st = \<lparr>TID = 1, ThreadFilters = [0], SeccompMode = SECCOMP_MODE_FILTER\<rparr>" by (simp add: GetThread_def allowing_def)
  have "\<exists>i < length [0 :: nat]. ExecuteFilter True 1 0 (60 # replicate 6 0) ?st =
      Some (Decide (CurrentKillSignal ?st) True 0 ((60 # replicate 6 0) ! 0) ([0x7fff0000] ! i, FilterLog ?st ([0] ! i))) \<and>
      (\<forall>j < length [0 :: nat]. ActionOf ([0x7fff0000] ! i) \<le> ActionOf ([0x7fff0000] ! j)) \<and>
      (\<forall>j < i. ActionOf ([0x7fff0000] ! i) < ActionOf ([0x7fff0000] ! j))"
    by (rule seccomp_decision [of rev "[0]" 1 ?st "[allow_exit]" True 0 "60 # replicate 6 0"])
       (use T run allowing_installed(2) [OF j] in simp_all)
  then have "ExecuteFilter True 1 0 (60 # replicate 6 0) ?st = Some (Decide SIGSYS True 0 60 (0x7fff0000, False))"
    by (simp add: FilterLog_def allowing_def)
  then show ?thesis using allowing_installed(3) [OF j] T by (intro exI [of _ ?st]) simp
qed

text \<open>
  C40: in every state that a process can reach, each filter a thread refers to is in the list of filters with a count that is
  not zero, and is the code of an accepted program with its size and its number of instructions.
\<close>

theorem filters_alive:
  assumes "seccomp_reachable Order st" "T \<in> set (Threads st)" "f \<in> set (ThreadFilters T)"
  shows "\<exists>F p. map_of (FilterList st) f = Some F \<and> 0 < RefCount F \<and>
    JITFilter Order p = Inr (MappedSize F, Func F) \<and> length p = FilterInstructions F"
proof -
  have i: "seccomp_inv Order st" using assms(1) by (rule emulator_reachable_inv)
  obtain F where F: "map_of (FilterList st) f = Some F" using present [OF i assms(2,3)] by blast
  have "0 < count_list (ThreadFilters T) f" using assms(3) by (metis count_list_0_iff gr0I)
  moreover have "count_list (ThreadFilters T) f \<le> refs st f" unfolding refs_def using assms(2) by (intro member_le_sum_list) auto
  moreover have "refs st f \<le> RefCount F" using i F unfolding seccomp_inv_def by (auto simp: counted_def dest: spec [of _ f])
  ultimately have "0 < RefCount F" by linarith
  moreover have "F \<in> snd ` set (FilterList st)" using map_of_SomeD [OF F] by force
  then have "translated Order F" using i unfolding seccomp_inv_def by blast
  ultimately show ?thesis using F by (auto simp: translated_def)
qed

theorem filters_alive_witness:
  "\<exists>st F p. seccomp_reachable rev st \<and> map_of (FilterList st) 0 = Some F \<and> 0 < RefCount F \<and>
    JITFilter rev p = Inr (MappedSize F, Func F) \<and> length p = FilterInstructions F"
proof -
  obtain sz code where j: "JITFilter rev allow_exit = Inr (sz, code)" using allow_exit_translated by blast
  let ?st = "allowing code sz"
  have "\<lparr>TID = 1, ThreadFilters = [0], SeccompMode = SECCOMP_MODE_FILTER\<rparr> \<in> set (Threads ?st)" by (simp add: allowing_def)
  from filters_alive [OF allowing_installed(3) [OF j] this, of 0] allowing_installed(3) [OF j] show ?thesis by auto
qed

section \<open>States in which the emulator is not what it should be\<close>

text \<open>
  The strict mode reports success although its filter was not installed, when the instructions of the filters of all threads
  are close to the limit; the thread may then make every system call.
\<close>

lemma mode_keeps_filters:
  "ThreadFilters (GetThread t (UpdateThread u (\<lambda>T. T\<lparr>SeccompMode := x\<rparr>) st)) = ThreadFilters (GetThread t st)"
proof -
  have "ThreadFilters (case List.find (\<lambda>T. TID T = t) (map (\<lambda>T. if TID T = u then T\<lparr>SeccompMode := x\<rparr> else T) Ts) of
      Some T \<Rightarrow> T | None \<Rightarrow> new_thread t) =
    ThreadFilters (case List.find (\<lambda>T. TID T = t) Ts of Some T \<Rightarrow> T | None \<Rightarrow> new_thread t)" for Ts
    by (induction Ts) auto
  then show ?thesis by (simp add: GetThread_def UpdateThread_def)
qed

lemma strict_without_filter:
  assumes "32756 < TotalFilterInstructions st" "ThreadFilters (GetThread t st) = []" "SeccompMode (GetThread t st) = 0"
    "SetModeStrict Order True True t 0 True st = (r, st')"
  shows "r = 0 \<and> ExecuteFilter True t RIP Args st' = Some \<lparr>EarlyReturn = False, Result = 0, Logged = False, Effect = NoEffect\<rparr>"
proof -
  let ?g = "\<lambda>T. T\<lparr>SeccompMode := SECCOMP_MODE_STRICT\<rparr>" and ?st = "st\<lparr>CurrentKillSignal := SIGKILL\<rparr>"
  have "length (strict_filter True) = 12" by (simp add: strict_filter_def ALLOW_SYSCALL_def SYSCALLS_x64_def)
  then have "SetModeFilter Order True t 0 (Some (strict_filter True)) ?st = (ERR_ENOMEM, ?st)"
    using assms(1) by (simp add: SetModeFilter_def Let_def seccomp_flags BPF_MAXINSNS_def BPF_MAX_INSNS_PER_PATH_def)
  then have r: "r = 0" and s: "st' = UpdateThread t ?g ?st"
    using assms(3,4) by (simp_all add: SetModeStrict_def Let_def SECCOMP_MODE_FILTER_def)
  have "ThreadFilters (GetThread t st') = []" using assms(2) by (simp only: s mode_keeps_filters) (simp add: GetThread_def)
  then show ?thesis using r by (simp add: ExecuteFilter_def)
qed

text \<open>
  The synchronisation of two threads that already have the same filter counts it once more without an end: it is not freed
  when both threads have ended.
\<close>

definition sharing :: "SeccompFilterInfo \<Rightarrow> SeccompEmulator" where
  "sharing F = \<lparr>FilterList = [(0, F\<lparr>RefCount := 2\<rparr>)], NextFilter = 1, TotalFilterInstructions = 0, CurrentKillSignal = SIGSYS,
     Threads = [\<lparr>TID = 1, ThreadFilters = [0], SeccompMode = SECCOMP_MODE_FILTER\<rparr>, \<lparr>TID = 2, ThreadFilters = [0], SeccompMode = SECCOMP_MODE_FILTER\<rparr>]\<rparr>"

lemmas seccomp_runs = sharing_def TSyncFilters_def CopyFilters_def FreeSeccompFilters_def DropReference_def GetThread_def
  UpdateThread_def UpdateCount_def Let_def

lemma synchronised_filter_leaks:
  "FilterList (FreeSeccompFilters 2 (FreeSeccompFilters 1 (sharing F))) = [] \<and>
   FilterList (FreeSeccompFilters 2 (FreeSeccompFilters 1 (TSyncFilters 1 (sharing F)))) = [(0, F\<lparr>RefCount := 1\<rparr>)]"
  by (simp add: seccomp_runs)

text \<open>Filters that were freed still count towards the limit on instructions.\<close>

lemma freed_filters_count: "TotalFilterInstructions (FreeSeccompFilters t st) = TotalFilterInstructions st"
  by (simp add: FreeSeccompFilters_def Let_def case_prod_beta)

end
