(* ===== verification/Spec2Isabelle.thy ===== *)
theory Spec2Isabelle
  imports VarInt RIPReconstruction IntervalList FlexBitSet DecoderTables DecoderExamples GuestRanges MutexProperties MultiblockProperties FlagProperties SeccompProperties
begin

text \<open>
  This library models the parts of FEX (the x86 emulator under \<open>src/fex-emu\<close>) that decide whether guest code is
  decoded, found and invalidated correctly, and proves what they promise. All words are kept at their width
  (\<open>HOL-Library.Word\<close>), a lookup outside of an array or a failed assertion is \<open>None\<close>, and every definition computes.

  \<^bold>\<open>The parts and how they interact.\<close> The decoder (\<open>Interface/Core/Frontend.cpp\<close>) turns the bytes of guest code into
  records of instructions; it is driven by tables (\<open>Interface/Core/X86Tables/\<close>) that also hold the handlers of the IR
  generator. Before it reads a byte it asks the system call handler whether the guest may execute it; the handler answers
  from its tracking of the memory mappings (\<open>LinuxSyscalls/SyscallsVMATracking.cpp\<close>,
  \<open>SyscallsSMCTracking.cpp\<close>), which also write protects the pages that were translated and invalidates the translations
  when the guest writes to them. The decoder bounds what it decodes as one unit of code by a walk over branch targets.
  The translated code carries tables from host to guest addresses, packed with variable-length integers
  (\<open>Utils/variable_length_integer.h\<close>, \<open>JIT.cpp\<close>, \<open>Core.cpp\<close>). The system call layer runs the seccomp filters of the guest
  (\<open>LinuxSyscalls/Seccomp/\<close>) as code it emits itself. Containers and locks below this are the interval list
  (\<open>Utils/IntervalList.h\<close>), the bit set of the allocators (\<open>Utils/Allocator/FlexBitSet.h\<close>) and the mutex
  (\<open>Utils/WritePriorityMutex.h\<close>).

  \<^bold>\<open>The theories.\<close>
  \<^item> \<open>Prelude\<close>: types of machine words, lemmas on words, lists and options, \<open>AlignUp\<close> and \<open>AlignDown\<close>.
  \<^item> \<open>VarInt\<close>: both encodings of \<open>variable_length_integer.h\<close> (\<open>vl64\<close>, \<open>vl64pair\<close>), bytes as lists; decoding gives back
    what was encoded, whatever bytes follow.
  \<^item> \<open>RIPReconstruction\<close>: \<open>StoreRIPEntries\<close> (the loop of \<open>CompileCode\<close>) and \<open>RestoreRIPFromHostPC\<close>; the search finds the
    last guest instruction at or before a host address.
  \<^item> \<open>RangeStore\<close>, \<open>IntervalList\<close>: the contract of a store of ranges as a locale, \<open>IntervalList::Insert\<close>, \<open>Remove\<close>,
    \<open>Query\<close>, \<open>Intersect\<close>, \<open>Contains\<close> on a sorted list of intervals; they implement the set of covered addresses.
  \<^item> \<open>FlexBitSet\<close>: \<open>Get\<close>, \<open>Set\<close>, \<open>Clear\<close>, \<open>TestAndSet\<close>, \<open>TestAndClear\<close>, the two scans for a free range; they implement a
    set of elements. The scans are \<open>partial_function\<close>s; that they return is proved.
  \<^item> \<open>X86Tables\<close>, \<open>TableBuild\<close>: the flags and records of \<open>X86Tables.h\<close>, \<open>GenerateTable\<close> and \<open>InstallToTable\<close>.
    \<open>PrimaryTables\<close>, \<open>SecondaryTables\<close>, \<open>GroupTables\<close>, \<open>ExtendedTables\<close>, \<open>VEXTables\<close>, \<open>X87Tables\<close>: the lists of the
    tables' sources. \<open>DecoderTables\<close>: the tables they give, that no build fails, that their instructions have
    handlers but for an exact list, and that the group indices are injective (those of the VEX groups for two prefix codes).
  \<^item> \<open>DecoderState\<close>, \<open>DecoderOperands\<close>, \<open>DecoderNormalOp\<close>, \<open>DecoderInstruction\<close>: the state of \<open>Frontend.h\<close> and the
    functions \<open>ReadByte\<close>, \<open>ReadData\<close>, \<open>DecodeModRM_*\<close>, \<open>NormalOp\<close>, \<open>NormalOpHeader\<close>, \<open>DecodeInstructionImpl\<close>,
    \<open>DecodeInstruction\<close> of \<open>Frontend.cpp\<close>. \<open>TableFacts\<close>: facts on all table entries that the proofs need.
  \<^item> \<open>ExecutableRanges\<close>: what the decoder expects of the query for executable ranges, as the locale
    \<open>executable_ranges\<close>, and that the cached check (\<open>CheckRangeExecutable\<close>) is right under it.
  \<^item> \<open>DecoderSafety\<close>, \<open>InstructionSafety\<close>: decoding returns, stays in its arrays, reads executable bytes only; what is
    decoded is well formed. \<open>DecoderExamples\<close>: witnesses and the inputs on which the decoder is wrong.
  \<^item> \<open>VMATracking\<close> (model), \<open>VMALists\<close>, \<open>VMARanges\<close>, \<open>VMAProtect\<close> (lemmas): the map of mappings, the doubly linked
    lists of the mappings of a resource and \<open>TrackVMARange\<close>, \<open>DeleteVMARange\<close>, \<open>ChangeProtectionFlags\<close>,
    \<open>DeleteSHMRegion\<close> of \<open>SyscallsVMATracking.cpp\<close>. The pointers of the lists are the base addresses of the entries. The
    abstraction is \<open>mapping_at\<close>, a function from addresses to the resource, offset, flags and protection.
  \<^item> \<open>SMCTracking\<close> (model), \<open>VMASmc\<close> (lemmas): the \<open>Track*\<close> functions, \<open>MarkGuestExecutableRange\<close> and
    \<open>HandleSegfault\<close> of \<open>SyscallsSMCTracking.cpp\<close>, with the system calls they make as values. \<open>VMAProperties\<close>: their
    properties: refinement of the abstraction, the invariant of all reachable states, coverage of the mirrors of a page.
  \<^item> \<open>GuestRanges\<close>: \<open>QueryGuestExecutableRange\<close> over the tracking interprets the locale of the decoder, so what is decoded
    comes from mappings the guest may execute.
  \<^item> \<open>WritePriorityMutex\<close> (model), \<open>MutexProperties\<close>: the operations of the mutex as steps of threads between atomic
    accesses, waits and wakes; mutual exclusion, the meaning of the word, no lost wake, priority of writers.
  \<^item> \<open>MultiblockWalk\<close> (model), \<open>MultiblockSafety\<close> (lemmas), \<open>MultiblockProperties\<close>: \<open>DecodeInstructionsAtEntry\<close> of
    \<open>Frontend.cpp\<close> and the functions it uses (\<open>AddBranchTarget\<close>, \<open>BranchTargetInMultiblockRange\<close>, \<open>InstCanContinue\<close>,
    \<open>IsBranchMonoTailcall\<close>): the walk over the blocks of an entry point. It ends, its blocks are apart and gapless, they
    share out the buffer of instructions, and the noted pages cover the code. What the walk may come to is the inductive set
    \<open>near\<close>; only there is executable code assumed to have few prefixes and to lie below \<open>2 ^ 48\<close>.
  \<^item> \<open>FlagIR\<close>, \<open>FlagElimination\<close>: the nodes of the IR that read or write flags, and the pass of
    \<open>IR/Passes/RedundantFlagCalculationElimination.cpp\<close> over them (\<open>Classify\<close>, \<open>ProcessBlock\<close>, the work list of \<open>Run\<close>,
    \<open>FoldBranch\<close>, \<open>OptimizeParity\<close>). \<open>FlagSemantics\<close>: what the code that the JIT emits for these nodes does
    (\<open>ALUOps.cpp\<close>, \<open>BranchOps.cpp\<close>, \<open>MemoryOps.cpp\<close>); all other operations are a parameter: they read no flags, and
    change them only where \<open>IR.json\<close> marks them as clobbering (\<open>ImplicitFlagClobber\<close>), to undefined ones. The theorems
    assume that such flags are written before they are read (\<open>saved_ok\<close>), which \<open>SaveNZCV\<close> of \<open>OpcodeDispatcher.h\<close> is for.
    \<open>FlagSoundness\<close> (a block), \<open>FlagGraph\<close> (the graph of blocks), \<open>FlagFold\<close> (branches), \<open>FlagTermination\<close> and
    \<open>FlagProperties\<close>: the result of the pass runs like the original code; the work list becomes empty. On three kinds of
    code it does not: the lemmas on a loop without end, on a branch on LE on the flags of an \<open>AXFlag\<close> and on parity say which.
  \<^item> \<open>BPFEmitter\<close>: the translation of seccomp filters to ARM64 code (\<open>Seccomp/BPFEmitter.cpp\<close>), both passes, with the labels
    of \<open>CodeEmitter/Emitter.h\<close>. \<open>BPFSemantics\<close>: what a filter means (classic BPF) and what the host does. \<open>BPFLayout\<close>,
    \<open>BPFBuild\<close>, \<open>BPFPasses\<close>, \<open>BPFProperties\<close>: the buffer as symbolic code with bound and open labels, the agreement of
    the passes, the simulation of a filter by its code.
  \<^item> \<open>Seccomp\<close>, \<open>SeccompProperties\<close>: the emulation of seccomp (\<open>Seccomp/SeccompEmulator.cpp\<close>): threads, filters and their
    reference counts; what a system call is answered, and that no thread is left with a filter that was freed.

  \<^bold>\<open>Bounds.\<close> The theorems on decoding assume at most 8 prefix bytes before the opcode and at most 3 before a 3DNow
  instruction (\<open>few_prefixes\<close>): the instruction buffer has 15 bytes and its limit is only tested between prefixes;
  \<open>DecoderExamples\<close> shows what happens with more. They also assume that the code does not end within 256 bytes of the end
  of the address space. Loops over prefixes and over ranges use the fuel of the bytes that are left, which the theorems
  show to be enough. The theorems on mappings assume page aligned addresses and ranges that do not wrap around.
  Two addresses are the same memory when they have the same offset into resources with the same \<open>MRID\<close>; the theorems on the
  mirrors of a page assume that a single resource stands for its storage (\<open>sole_storage\<close>), and lemmas show what is missed else.
  The work list of the flag pass takes fuel, one unit a block visited; the theorem on its end gives an amount that is
  enough for code without tests and ANDs with flags of less than 32 bits, and the others hold for every amount.
  The theorem on the code of filters assumes at most 4096 instructions, the limit of the kernel and of \<open>SetModeFilter\<close>; four
  steps of the host an instruction are enough fuel.
  The theorems on the mutex assume at most 16383 threads, what its 14-bit count of waiting writers can hold.

  \<^bold>\<open>Not modelled.\<close> The generation of IR (\<open>OpcodeDispatcher\<close>), the other passes over it (register allocation, x87 stack,
  validation) and the encoding of the ARM64 code: their meaning needs a model of all of the IR and of the target machine. The allocators of 32-bit and 64-bit address space and CPUID.
  Of the seccomp emulation: failures of mmap and of the file that carries filters across exec, the logging text. The reading of ELF headers and the code caches of \<open>TrackMmap\<close>. The
  system calls, signals, configuration, server, and the Windows and Android front ends: they are glue over services that
  are not part of the sources. Memory orders of the atomic accesses: the mutex is modelled with sequentially consistent
  accesses. Third-party code under \<open>External\<close>.
\<close>

end
